(* ===== verification/Prelude.thy ===== *)
theory Prelude
  imports Main "HOL-Library.List_Lexorder" "HOL-Library.Char_ord" "HOL-Library.AList"
    "HOL-Library.Multiset"
begin

text \<open>
  Shared vocabulary of the development: results that may fail, the order-preserving
  de-duplication of \<^verbatim>\<open>dict.fromkeys\<close>, insertion-ordered dictionaries as association lists
  (\<^const>\<open>AList.update\<close> keeps the position of a known key and appends a new one, as a
  Python \<^verbatim>\<open>dict\<close> does), and the few string operations the sources use.

  A raising function returns \<open>'e + 'a\<close>: \<open>Inl e\<close> is the exception, \<open>Inr x\<close> the value. A block of
  guards, each raising its own exception, is a list of pairs for \<open>require_all\<close>; the first
  guard that fails decides the exception, as it does in the source.

  A \<^typ>\<open>char\<close> stands for a code point below 256, and a \<^typ>\<open>string\<close> for a Python \<^verbatim>\<open>str\<close> of
  such code points.
\<close>

named_theorems guard_simps \<open>what a successful guard block establishes\<close>
named_theorems frame_simps \<open>fields that an update leaves alone\<close>

subsection \<open>Results that may fail\<close>

definition ebind :: "'e + 'a \<Rightarrow> ('a \<Rightarrow> 'e + 'b) \<Rightarrow> 'e + 'b" where
  "ebind m f = (case m of Inl e \<Rightarrow> Inl e | Inr x \<Rightarrow> f x)"

fun require_all :: "(bool \<times> 'e) list \<Rightarrow> 'e + unit" where
  "require_all [] = Inr ()"
| "require_all ((c, e) # cs) = (if c then require_all cs else Inl e)"

fun efold :: "('a \<Rightarrow> 's \<Rightarrow> 'e + 's) \<Rightarrow> 'a list \<Rightarrow> 's \<Rightarrow> 'e + 's" where
  "efold f [] s = Inr s"
| "efold f (x # xs) s = (case f x s of Inl e \<Rightarrow> Inl e | Inr s' \<Rightarrow> efold f xs s')"

definition succeeds :: "'e + 'a \<Rightarrow> bool" where
  "succeeds m \<longleftrightarrow> (case m of Inl _ \<Rightarrow> False | Inr _ \<Rightarrow> True)"

subsection \<open>Lists and dictionaries\<close>

fun fromkeys :: "'a list \<Rightarrow> 'a list" where
  "fromkeys [] = []"
| "fromkeys (x # xs) = x # filter (\<lambda>y. y \<noteq> x) (fromkeys xs)"

definition dict_get :: "('k \<times> 'v) list \<Rightarrow> 'k \<Rightarrow> 'v option" where
  "dict_get d k = map_of d k"

definition dict_of :: "('v \<Rightarrow> 'k) \<Rightarrow> 'v list \<Rightarrow> ('k \<times> 'v) list" where
  "dict_of key xs = fold (\<lambda>x d. AList.update (key x) x d) xs []"

definition dict_sorted_values :: "('k::linorder \<times> 'v) list \<Rightarrow> 'v list" where
  "dict_sorted_values d = map snd (sort_key fst d)"

subsection \<open>Strings\<close>

definition py_space :: "char \<Rightarrow> bool" where
  "py_space c \<longleftrightarrow> of_char c \<in> set [9, 10, 11, 12, 13, 28, 29, 30, 31, 32, 133, 160 :: nat]"

definition strip :: "string \<Rightarrow> string" where
  "strip s = rev (dropWhile py_space (rev (dropWhile py_space s)))"

definition ascii_upper :: "char \<Rightarrow> bool" where
  "ascii_upper c \<longleftrightarrow> 65 \<le> (of_char c :: nat) \<and> (of_char c :: nat) \<le> 90"

definition ascii_lower :: "char \<Rightarrow> bool" where
  "ascii_lower c \<longleftrightarrow> 97 \<le> (of_char c :: nat) \<and> (of_char c :: nat) \<le> 122"

definition ascii_digit :: "char \<Rightarrow> bool" where
  "ascii_digit c \<longleftrightarrow> 48 \<le> (of_char c :: nat) \<and> (of_char c :: nat) \<le> 57"

definition lower_hex :: "char \<Rightarrow> bool" where
  "lower_hex c \<longleftrightarrow> ascii_digit c \<or> (97 \<le> (of_char c :: nat) \<and> (of_char c :: nat) \<le> 102)"

definition digit_char :: "nat \<Rightarrow> char" where
  "digit_char n = (if n < 10 then char_of (48 + n) else char_of (87 + n))"

fun show_nat :: "nat \<Rightarrow> string" where
  "show_nat n = (if n < 10 then [digit_char n] else show_nat (n div 10) @ [digit_char (n mod 10)])"

definition show_int :: "int \<Rightarrow> string" where
  "show_int i = (if i < 0 then CHR ''-'' # show_nat (nat (- i)) else show_nat (nat i))"

subsection \<open>Facts about results\<close>

declare show_nat.simps [simp del]

lemma ebind_Inr [simp]: "ebind (Inr x) f = f x"
  by (simp add: ebind_def)

lemma ebind_Inl [simp]: "ebind (Inl e) f = Inl e"
  by (simp add: ebind_def)

lemma ebind_eq_Inr: "ebind m f = Inr y \<longleftrightarrow> (\<exists>x. m = Inr x \<and> f x = Inr y)"
  by (cases m) auto

lemma ebind_eq_InrE [elim!]:
  assumes "ebind m f = Inr y"
  obtains x where "m = Inr x" and "f x = Inr y"
  using assms by (auto simp: ebind_eq_Inr)

lemma require_all_append:
  "require_all (cs @ ds) = ebind (require_all cs) (\<lambda>_. require_all ds)"
  by (induction cs rule: require_all.induct) auto

lemma require_all_Inr [simp]: "require_all cs = Inr u \<longleftrightarrow> list_all fst cs"
  by (induction cs rule: require_all.induct) auto

lemma require_all_Inl:
  "require_all cs = Inl e \<longleftrightarrow> (\<exists>ps qs. cs = ps @ (False, e) # qs \<and> list_all fst ps)"
proof (induction cs rule: require_all.induct)
  case 1
  then show ?case by simp
next
  case (2 c e' cs)
  show ?case
  proof (cases c)
    case True
    have "(\<exists>ps qs. (c, e') # cs = ps @ (False, e) # qs \<and> list_all fst ps) \<longleftrightarrow>
      (\<exists>ps qs. cs = ps @ (False, e) # qs \<and> list_all fst ps)" (is "?L = ?R")
    proof
      assume ?L
      then obtain ps qs where p: "(c, e') # cs = ps @ (False, e) # qs" "list_all fst ps" by blast
      with True show ?R by (cases ps) auto
    next
      assume ?R
      then obtain ps qs where "cs = ps @ (False, e) # qs" "list_all fst ps" by blast
      with True have "(c, e') # cs = ((c, e') # ps) @ (False, e) # qs \<and> list_all fst ((c, e') # ps)"
        by simp
      then show ?L by blast
    qed
    with True "2.IH" show ?thesis by simp
  next
    case False
    have "(\<exists>ps qs. (c, e') # cs = ps @ (False, e) # qs \<and> list_all fst ps) \<longleftrightarrow> e' = e" (is "?L = _")
    proof
      assume ?L
      then obtain ps qs where p: "(c, e') # cs = ps @ (False, e) # qs" "list_all fst ps" by blast
      with False show "e' = e" by (cases ps) auto
    next
      assume "e' = e"
      with False have "(c, e') # cs = [] @ (False, e) # cs \<and> list_all fst ([] :: (bool \<times> 'a) list)"
        by simp
      then show ?L by blast
    qed
    with False show ?thesis by simp
  qed
qed

declare require_all.simps [simp del]

lemma guards_map [simp]: "list_all fst (map (\<lambda>x. (p x, e x)) xs) \<longleftrightarrow> (\<forall>x \<in> set xs. p x)"
  by (induction xs) auto

lemma guards_concat [simp]:
  "list_all fst (concat (map f xs)) \<longleftrightarrow> (\<forall>x \<in> set xs. list_all fst (f x))"
  by (induction xs) auto

lemma require_all_cases:
  obtains (ok) "require_all cs = Inr ()" | (bad) e where "require_all cs = Inl e"
  by (cases "require_all cs") auto

lemma succeeds_Inr [simp]: "succeeds (Inr x)"
  by (simp add: succeeds_def)

lemma succeeds_Inl [simp]: "\<not> succeeds (Inl e)"
  by (simp add: succeeds_def)

lemma succeeds_iff: "succeeds m \<longleftrightarrow> (\<exists>x. m = Inr x)"
  by (cases m) auto

lemma efold_append: "efold f (xs @ ys) s = ebind (efold f xs s) (efold f ys)"
  by (induction xs arbitrary: s) (auto split: sum.splits)

lemma efold_invariant:
  assumes "efold f xs s = Inr t" and "P s"
    and "\<And>x u v. x \<in> set xs \<Longrightarrow> P u \<Longrightarrow> f x u = Inr v \<Longrightarrow> P v"
  shows "P t"
  using assms
proof (induction xs arbitrary: s)
  case Nil
  then show ?case by simp
next
  case (Cons x xs)
  from Cons.prems(1) obtain u where u: "f x s = Inr u" "efold f xs u = Inr t"
    by (auto split: sum.splits)
  have "P u" using Cons.prems(2,3) u(1) by auto
  with u(2) Cons.prems(3) show ?case by (intro Cons.IH) auto
qed

subsection \<open>Facts about lists and dictionaries\<close>

lemma set_fromkeys [simp]: "set (fromkeys xs) = set xs"
  by (induction xs) auto

lemma distinct_fromkeys [simp]: "distinct (fromkeys xs)"
  by (induction xs) auto

lemma fromkeys_distinct: "distinct xs \<Longrightarrow> fromkeys xs = xs"
proof (induction xs)
  case Nil
  then show ?case by simp
next
  case (Cons x xs)
  then have "filter (\<lambda>y. y \<noteq> x) xs = xs" by (auto simp: filter_id_conv)
  with Cons show ?case by simp
qed

lemma fromkeys_eq_Nil [simp]: "fromkeys xs = [] \<longleftrightarrow> xs = []"
  by (cases xs) auto

lemma dict_get_update [simp]:
  "dict_get (AList.update k v d) j = (if j = k then Some v else dict_get d j)"
  by (simp add: dict_get_def update_conv)

lemma dict_get_Some_in: "dict_get d k = Some v \<Longrightarrow> (k, v) \<in> set d"
  by (simp add: dict_get_def map_of_SomeD)

lemma dict_get_None: "dict_get d k = None \<longleftrightarrow> k \<notin> fst ` set d"
  by (simp add: dict_get_def map_of_eq_None_iff)

lemma dict_get_in: "distinct (map fst d) \<Longrightarrow> (k, v) \<in> set d \<Longrightarrow> dict_get d k = Some v"
  by (simp add: dict_get_def)

lemma dict_get_iff: "distinct (map fst d) \<Longrightarrow> dict_get d k = Some v \<longleftrightarrow> (k, v) \<in> set d"
  by (auto simp: dict_get_in dest: dict_get_Some_in)

lemma fold_update_keys:
  "fst ` set (fold (\<lambda>x d. AList.update (key x) x d) xs d) = fst ` set d \<union> key ` set xs"
  by (induction xs arbitrary: d) (auto simp: dom_update)

lemma fold_update_distinct:
  "distinct (map fst d) \<Longrightarrow> distinct (map fst (fold (\<lambda>x d. AList.update (key x) x d) xs d))"
  by (induction xs arbitrary: d) (auto simp: distinct_update)

lemma keys_dict_of [simp]: "fst ` set (dict_of key xs) = key ` set xs"
  by (simp add: dict_of_def fold_update_keys)

lemma distinct_dict_of [simp]: "distinct (map fst (dict_of key xs))"
  by (simp add: dict_of_def fold_update_distinct)

lemma fold_update_fresh:
  "distinct (map key xs) \<Longrightarrow> key ` set xs \<inter> fst ` set d = {} \<Longrightarrow>
    fold (\<lambda>x d. AList.update (key x) x d) xs d = d @ map (\<lambda>x. (key x, x)) xs"
proof (induction xs arbitrary: d)
  case Nil
  then show ?case by simp
next
  case (Cons x xs)
  have "AList.update (key x) x d = d @ [(key x, x)]"
    using Cons.prems(2) by (induction d) auto
  moreover have "fold (\<lambda>x d. AList.update (key x) x d) xs (d @ [(key x, x)]) =
      (d @ [(key x, x)]) @ map (\<lambda>x. (key x, x)) xs"
    by (rule Cons.IH) (use Cons.prems in auto)
  ultimately show ?case by simp
qed

lemma dict_of_distinct: "distinct (map key xs) \<Longrightarrow> dict_of key xs = map (\<lambda>x. (key x, x)) xs"
  by (simp add: dict_of_def fold_update_fresh)

lemma dict_of_entry: "(k, v) \<in> set (dict_of key xs) \<Longrightarrow> key v = k \<and> v \<in> set xs"
proof -
  have "(k, v) \<in> set (fold (\<lambda>x d. AList.update (key x) x d) xs d) \<Longrightarrow>
      (k, v) \<in> set d \<or> (key v = k \<and> v \<in> set xs)" for d
  proof (induction xs arbitrary: d)
    case (Cons x xs)
    have "(k, v) \<in> set (AList.update (key x) x d) \<Longrightarrow> (k, v) \<in> set d \<or> (k = key x \<and> v = x)"
      by (induction d) (auto split: if_splits)
    with Cons show ?case by fastforce
  qed simp
  then show "(k, v) \<in> set (dict_of key xs) \<Longrightarrow> key v = k \<and> v \<in> set xs"
    by (force simp: dict_of_def)
qed

lemma dict_of_get: "distinct (map key xs) \<Longrightarrow> x \<in> set xs \<Longrightarrow> dict_get (dict_of key xs) (key x) = Some x"
  by (rule dict_get_in, simp, simp add: dict_of_distinct)

lemma dict_of_get_Some: "dict_get (dict_of key xs) k = Some x \<Longrightarrow> key x = k \<and> x \<in> set xs"
  by (blast dest: dict_get_Some_in dict_of_entry)

lemma dict_of_get_None: "dict_get (dict_of key xs) k = None \<longleftrightarrow> k \<notin> key ` set xs"
  by (simp add: dict_get_None)

lemma length_dict_of: "length (dict_of key xs) = length xs \<longleftrightarrow> distinct (map key xs)"
proof
  assume "length (dict_of key xs) = length xs"
  moreover have "length (dict_of key xs) = card (key ` set xs)"
    using distinct_card [OF distinct_dict_of [of key xs]] by simp
  ultimately show "distinct (map key xs)" by (simp add: card_distinct)
qed (simp add: dict_of_distinct)

lemma set_dict_sorted_values [simp]: "set (dict_sorted_values d) = snd ` set d"
  by (simp add: dict_sorted_values_def)

lemma length_dict_sorted_values [simp]: "length (dict_sorted_values d) = length d"
  by (simp add: dict_sorted_values_def)

lemma dict_sorted_values_keys:
  assumes "\<And>k v. (k, v) \<in> set d \<Longrightarrow> key v = k" and "distinct (map fst d)"
  shows "distinct (map key (dict_sorted_values d))" and "sorted (map key (dict_sorted_values d))"
proof -
  have eq: "map key (dict_sorted_values d) = map fst (sort_key fst d)"
    unfolding dict_sorted_values_def map_map
    by (rule map_cong) (auto intro: assms(1))
  show "sorted (map key (dict_sorted_values d))"
    unfolding eq by (rule sorted_sort_key)
  have "mset (map fst (sort_key fst d)) = mset (map fst d)"
    by simp
  with assms(2) show "distinct (map key (dict_sorted_values d))"
    unfolding eq by (metis mset_eq_imp_distinct_iff)
qed

subsection \<open>Facts about strings\<close>

lemma strip_nonempty: "strip s \<noteq> [] \<longleftrightarrow> (\<exists>c \<in> set s. \<not> py_space c)"
proof -
  have "strip s = [] \<longleftrightarrow> (\<forall>c \<in> set (dropWhile py_space s). py_space c)"
    by (simp add: strip_def)
  also have "\<dots> \<longleftrightarrow> (\<forall>c \<in> set s. py_space c)"
    by (metis (no_types, lifting) dropWhile_eq_Nil_conv hd_dropWhile list.set_sel(1) set_dropWhileD)
  finally show ?thesis by blast
qed

lemma digit_char_inj: "a < 10 \<Longrightarrow> b < 10 \<Longrightarrow> digit_char a = digit_char b \<Longrightarrow> a = b"
proof -
  assume ab: "a < 10" "b < 10" "digit_char a = digit_char b"
  then have "(of_char (char_of (48 + a)) :: nat) = of_char (char_of (48 + b))"
    by (simp add: digit_char_def)
  with ab(1,2) show "a = b" by (simp add: of_char_of)
qed

lemma ascii_digit_digit_char [simp]: "n < 10 \<Longrightarrow> ascii_digit (digit_char n)"
  by (simp add: ascii_digit_def digit_char_def of_char_of)

lemma lower_hex_digit_char [simp]: "n < 16 \<Longrightarrow> lower_hex (digit_char n)"
  by (auto simp: lower_hex_def ascii_digit_def digit_char_def of_char_of)

lemma show_nat_digits: "list_all ascii_digit (show_nat n)"
proof (induction n rule: show_nat.induct)
  case (1 n)
  then show ?case by (subst show_nat.simps) auto
qed

lemma show_nat_nonempty [simp]: "show_nat n \<noteq> []"
  by (subst show_nat.simps) simp

subsection \<open>Transition systems\<close>

text \<open>
  A component with state is a set of initial states and a step relation; \<open>safety\<close> is the interface
  through which a component's invariant becomes a fact about every state it reaches, and \<open>bounded\<close>
  the one through which a rank that every step decreases bounds the length of a run.
\<close>

inductive reachable :: "('s \<Rightarrow> bool) \<Rightarrow> ('s \<Rightarrow> 's \<Rightarrow> bool) \<Rightarrow> 's \<Rightarrow> bool"
  for init :: "'s \<Rightarrow> bool" and step :: "'s \<Rightarrow> 's \<Rightarrow> bool" where
  reachable_init: "init s \<Longrightarrow> reachable init step s"
| reachable_step: "reachable init step s \<Longrightarrow> step s t \<Longrightarrow> reachable init step t"

inductive run_of :: "('s \<Rightarrow> 's \<Rightarrow> bool) \<Rightarrow> nat \<Rightarrow> 's \<Rightarrow> 's \<Rightarrow> bool"
  for step :: "'s \<Rightarrow> 's \<Rightarrow> bool" where
  run_refl: "run_of step 0 s s"
| run_step: "run_of step n s t \<Longrightarrow> step t u \<Longrightarrow> run_of step (Suc n) s u"

lemma run_reachable: "run_of step n s t \<Longrightarrow> reachable init step s \<Longrightarrow> reachable init step t"
  by (induction rule: run_of.induct) (auto intro: reachable_step)

locale safety =
  fixes init :: "'s \<Rightarrow> bool" and step :: "'s \<Rightarrow> 's \<Rightarrow> bool" and inv :: "'s \<Rightarrow> bool"
  assumes init_inv: "init s \<Longrightarrow> inv s"
    and step_inv: "inv s \<Longrightarrow> step s t \<Longrightarrow> inv t"
begin

lemma always: "reachable init step s \<Longrightarrow> inv s"
  by (induction rule: reachable.induct) (auto intro: init_inv step_inv)

lemma along: "run_of step n s t \<Longrightarrow> inv s \<Longrightarrow> inv t"
  by (induction rule: run_of.induct) (auto intro: step_inv)

end

locale bounded = safety +
  fixes rank :: "'s \<Rightarrow> nat"
  assumes step_rank: "inv s \<Longrightarrow> step s t \<Longrightarrow> rank t < rank s"
begin

lemma run_rank: "run_of step n s t \<Longrightarrow> inv s \<Longrightarrow> n + rank t \<le> rank s"
proof (induction rule: run_of.induct)
  case (run_step n s t u)
  then have "rank u < rank t" by (blast intro: step_rank along)
  with run_step show ?case by simp
qed simp

lemma run_bounded: "run_of step n s t \<Longrightarrow> reachable init step s \<Longrightarrow> n \<le> rank s"
  using run_rank always by (metis add_leD1)

end

end
