(* ===== verification/Sha256.thy ===== *)
theory Sha256
  imports Prelude "HOL-Library.Word"
begin

text \<open>
  \<^verbatim>\<open>str.encode("utf-8")\<close> on code points below 256 and \<^verbatim>\<open>hashlib.sha256(...).hexdigest()\<close>, the two
  library calls behind every content digest of the sources, following FIPS 180-4, with its constants
  in decimal. Byte strings are \<^typ>\<open>string\<close>s whose characters are the bytes.
\<close>

unbundle bit_operations_syntax

type_synonym u32 = "32 word"
type_synonym hash_state = "u32 \<times> u32 \<times> u32 \<times> u32 \<times> u32 \<times> u32 \<times> u32 \<times> u32"

definition utf8_char :: "char \<Rightarrow> string" where
  "utf8_char c =
    (let n = of_char c :: nat in
     if n < 128 then [c] else [char_of (192 + n div 64), char_of (128 + n mod 64)])"

definition utf8 :: "string \<Rightarrow> string" where
  "utf8 s = concat (map utf8_char s)"

definition round_constants :: "u32 list" where
  "round_constants =
    [1116352408, 1899447441, 3049323471, 3921009573, 961987163, 1508970993, 2453635748, 2870763221,
     3624381080, 310598401, 607225278, 1426881987, 1925078388, 2162078206, 2614888103, 3248222580,
     3835390401, 4022224774, 264347078, 604807628, 770255983, 1249150122, 1555081692, 1996064986,
     2554220882, 2821834349, 2952996808, 3210313671, 3336571891, 3584528711, 113926993, 338241895,
     666307205, 773529912, 1294757372, 1396182291, 1695183700, 1986661051, 2177026350, 2456956037,
     2730485921, 2820302411, 3259730800, 3345764771, 3516065817, 3600352804, 4094571909, 275423344,
     430227734, 506948616, 659060556, 883997877, 958139571, 1322822218, 1537002063, 1747873779,
     1955562222, 2024104815, 2227730452, 2361852424, 2428436474, 2756734187, 3204031479, 3329325298]"

definition initial_hash :: hash_state where
  "initial_hash = (1779033703, 3144134277, 1013904242, 2773480762,
                   1359893119, 2600822924, 528734635, 1541459225)"

definition rotr :: "nat \<Rightarrow> u32 \<Rightarrow> u32" where
  "rotr n w = drop_bit n w OR push_bit (32 - n) w"

definition big_sigma0 :: "u32 \<Rightarrow> u32" where
  "big_sigma0 x = rotr 2 x XOR rotr 13 x XOR rotr 22 x"

definition big_sigma1 :: "u32 \<Rightarrow> u32" where
  "big_sigma1 x = rotr 6 x XOR rotr 11 x XOR rotr 25 x"

definition small_sigma0 :: "u32 \<Rightarrow> u32" where
  "small_sigma0 x = rotr 7 x XOR rotr 18 x XOR drop_bit 3 x"

definition small_sigma1 :: "u32 \<Rightarrow> u32" where
  "small_sigma1 x = rotr 17 x XOR rotr 19 x XOR drop_bit 10 x"

definition choose_bits :: "u32 \<Rightarrow> u32 \<Rightarrow> u32 \<Rightarrow> u32" where
  "choose_bits x y z = (x AND y) XOR (NOT x AND z)"

definition majority_bits :: "u32 \<Rightarrow> u32 \<Rightarrow> u32 \<Rightarrow> u32" where
  "majority_bits x y z = (x AND y) XOR (x AND z) XOR (y AND z)"

fun message_schedule :: "nat \<Rightarrow> u32 list \<Rightarrow> u32 list" where
  "message_schedule 0 ws = ws"
| "message_schedule (Suc n) ws =
    (let t = length ws in
     message_schedule n (ws @ [small_sigma1 (ws ! (t - 2)) + ws ! (t - 7)
                               + small_sigma0 (ws ! (t - 15)) + ws ! (t - 16)]))"

fun hash_rounds :: "(u32 \<times> u32) list \<Rightarrow> hash_state \<Rightarrow> hash_state" where
  "hash_rounds [] s = s"
| "hash_rounds ((k, w) # kws) (a, b, c, d, e, f, g, h) =
    (let t1 = h + big_sigma1 e + choose_bits e f g + k + w;
         t2 = big_sigma0 a + majority_bits a b c
     in hash_rounds kws (t1 + t2, a, b, c, d + t1, e, f, g))"

fun add_hash :: "hash_state \<Rightarrow> hash_state \<Rightarrow> hash_state" where
  "add_hash (a, b, c, d, e, f, g, h) (a', b', c', d', e', f', g', h') =
    (a + a', b + b', c + c', d + d', e + e', f + f', g + g', h + h')"

definition compress :: "u32 list \<Rightarrow> hash_state \<Rightarrow> hash_state" where
  "compress block s = add_hash s (hash_rounds (zip round_constants (message_schedule 48 block)) s)"

fun be_bytes :: "nat \<Rightarrow> nat \<Rightarrow> nat list" where
  "be_bytes 0 n = []"
| "be_bytes (Suc w) n = be_bytes w (n div 256) @ [n mod 256]"

definition pad_message :: "nat list \<Rightarrow> nat list" where
  "pad_message bs =
    bs @ [128] @ replicate ((119 - length bs mod 64) mod 64) 0 @ be_bytes 8 (8 * length bs)"

fun be_words :: "nat list \<Rightarrow> u32 list" where
  "be_words (a # b # c # d # bs) = of_nat (((a * 256 + b) * 256 + c) * 256 + d) # be_words bs"
| "be_words _ = []"

fun hash_blocks :: "nat \<Rightarrow> u32 list \<Rightarrow> hash_state \<Rightarrow> hash_state" where
  "hash_blocks 0 ws s = s"
| "hash_blocks (Suc n) ws s = hash_blocks n (drop 16 ws) (compress (take 16 ws) s)"

fun hash_words :: "hash_state \<Rightarrow> u32 list" where
  "hash_words (a, b, c, d, e, f, g, h) = [a, b, c, d, e, f, g, h]"

fun hex_pad :: "nat \<Rightarrow> nat \<Rightarrow> string" where
  "hex_pad 0 n = []"
| "hex_pad (Suc w) n = hex_pad w (n div 16) @ [digit_char (n mod 16)]"

definition sha256_hex :: "string \<Rightarrow> string" where
  "sha256_hex msg =
    (let ws = be_words (pad_message (map of_char msg))
     in concat (map (\<lambda>w. hex_pad 8 (unat w))
          (hash_words (hash_blocks (length ws div 16) ws initial_hash))))"

subsection \<open>Facts\<close>

lemma hex_pad_shape: "length (hex_pad w n) = w \<and> list_all lower_hex (hex_pad w n)"
  by (induction w arbitrary: n) auto

lemma length_hash_words: "length (hash_words s) = 8"
  by (cases s rule: hash_words.cases) simp

text \<open>A SHA-256 digest is sixty-four lower-case hexadecimal digits.\<close>

lemma sha256_hex_shape: "length (sha256_hex m) = 64 \<and> list_all lower_hex (sha256_hex m)"
proof -
  have shape: "length (concat (map (\<lambda>w. hex_pad 8 (unat w)) ws)) = 8 * length ws
      \<and> list_all lower_hex (concat (map (\<lambda>w. hex_pad 8 (unat w)) ws))" for ws :: "u32 list"
    by (induction ws) (auto simp: hex_pad_shape)
  then show ?thesis by (simp add: sha256_hex_def Let_def length_hash_words del: hex_pad.simps)
qed

lemma char_of_small_eq: "m < 256 \<Longrightarrow> n < 256 \<Longrightarrow> char_of m = char_of n \<Longrightarrow> m = (n :: nat)"
  by simp

lemma utf8_char_inj:
  assumes "utf8_char c @ r = utf8_char d @ s"
  shows "c = d \<and> r = s"
proof -
  define m n where "m = (of_char c :: nat)" and "n = (of_char d :: nat)"
  have lt: "m < 256" "n < 256" by (simp_all add: m_def n_def)
  have div: "m div 64 \<le> 3" "n div 64 \<le> 3" and md: "m mod 64 < 64" "n mod 64 < 64"
    using lt by auto
  have c: "c = char_of m" and d: "d = char_of n" by (simp_all add: m_def n_def)
  consider "m < 128" "n < 128" | "m < 128" "\<not> n < 128" | "\<not> m < 128" "n < 128"
    | "\<not> m < 128" "\<not> n < 128" by blast
  then show ?thesis
  proof cases
    case 1
    with assms show ?thesis by (simp add: utf8_char_def Let_def flip: m_def n_def)
  next
    case 2
    with assms c have "char_of m = char_of (192 + n div 64)"
      by (simp add: utf8_char_def Let_def flip: m_def n_def)
    then have "m = 192 + n div 64" using lt div by (intro char_of_small_eq) auto
    with 2 show ?thesis by simp
  next
    case 3
    with assms d have "char_of n = char_of (192 + m div 64)"
      by (simp add: utf8_char_def Let_def flip: m_def n_def)
    then have "n = 192 + m div 64" using lt div by (intro char_of_small_eq) auto
    with 3 show ?thesis by simp
  next
    case 4
    with assms have h: "char_of (192 + m div 64) = char_of (192 + n div 64)"
      and l: "char_of (128 + m mod 64) = char_of (128 + n mod 64)" and r: "r = s"
      by (simp_all add: utf8_char_def Let_def flip: m_def n_def)
    from h have "192 + m div 64 = 192 + n div 64" using div by (intro char_of_small_eq) auto
    moreover from l have "128 + m mod 64 = 128 + n mod 64" using md by (intro char_of_small_eq) auto
    ultimately have "m = n" by (metis add_left_cancel div_mod_decomp)
    with c d r show ?thesis by simp
  qed
qed

lemma utf8_char_nonempty: "utf8_char c \<noteq> []"
  by (simp add: utf8_char_def Let_def)

text \<open>UTF-8 encoding loses nothing: equal byte strings come from equal strings.\<close>

lemma utf8_inj: "utf8 s = utf8 t \<Longrightarrow> s = t"
proof (induction s arbitrary: t)
  case Nil
  then show ?case by (cases t) (auto simp: utf8_def utf8_char_nonempty)
next
  case (Cons c s)
  then obtain d t' where t: "t = d # t'" by (cases t) (auto simp: utf8_def utf8_char_nonempty)
  with Cons.prems have "utf8_char c @ utf8 s = utf8_char d @ utf8 t'" by (simp add: utf8_def)
  then have "c = d" "utf8 s = utf8 t'" using utf8_char_inj by blast+
  with Cons.IH t show ?case by simp
qed

section \<open>SHA-1\<close>

text \<open>
  \<^verbatim>\<open>hashlib.sha1(...).hexdigest()\<close>, by which Git names its blobs, following FIPS 180-4, with its constants in decimal. The
  padding, the words of a block and the hexadecimal digits are those of SHA-256.
\<close>

unbundle bit_operations_syntax

type_synonym sha1_state = "u32 \<times> u32 \<times> u32 \<times> u32 \<times> u32"

definition rotl :: "nat \<Rightarrow> u32 \<Rightarrow> u32" where
  "rotl n w = push_bit n w OR drop_bit (32 - n) w"

definition sha1_initial :: sha1_state where
  "sha1_initial = (1732584193, 4023233417, 2562383102, 271733878, 3285377520)"

definition parity_bits :: "u32 \<Rightarrow> u32 \<Rightarrow> u32 \<Rightarrow> u32" where
  "parity_bits x y z = x XOR y XOR z"

definition sha1_round :: "nat \<Rightarrow> (u32 \<Rightarrow> u32 \<Rightarrow> u32 \<Rightarrow> u32) \<times> u32" where
  "sha1_round t =
    (if t < 20 then (choose_bits, 1518500249)
     else if t < 40 then (parity_bits, 1859775393)
     else if t < 60 then (majority_bits, 2400959708)
     else (parity_bits, 3395469782))"

fun sha1_schedule :: "nat \<Rightarrow> u32 list \<Rightarrow> u32 list" where
  "sha1_schedule 0 ws = ws"
| "sha1_schedule (Suc n) ws =
    (let t = length ws in
     sha1_schedule n (ws @ [rotl 1 (ws ! (t - 3) XOR ws ! (t - 8) XOR ws ! (t - 14) XOR ws ! (t - 16))]))"

fun sha1_rounds :: "(nat \<times> u32) list \<Rightarrow> sha1_state \<Rightarrow> sha1_state" where
  "sha1_rounds [] s = s"
| "sha1_rounds ((t, w) # tws) (a, b, c, d, e) =
    (let (f, k) = sha1_round t in sha1_rounds tws (rotl 5 a + f b c d + e + w + k, a, rotl 30 b, c, d))"

fun add_sha1 :: "sha1_state \<Rightarrow> sha1_state \<Rightarrow> sha1_state" where
  "add_sha1 (a, b, c, d, e) (a', b', c', d', e') = (a + a', b + b', c + c', d + d', e + e')"

definition sha1_compress :: "u32 list \<Rightarrow> sha1_state \<Rightarrow> sha1_state" where
  "sha1_compress block s = add_sha1 s (sha1_rounds (enumerate 0 (sha1_schedule 64 block)) s)"

fun sha1_blocks :: "nat \<Rightarrow> u32 list \<Rightarrow> sha1_state \<Rightarrow> sha1_state" where
  "sha1_blocks 0 ws s = s"
| "sha1_blocks (Suc n) ws s = sha1_blocks n (drop 16 ws) (sha1_compress (take 16 ws) s)"

fun sha1_words :: "sha1_state \<Rightarrow> u32 list" where
  "sha1_words (a, b, c, d, e) = [a, b, c, d, e]"

definition sha1_hex :: "string \<Rightarrow> string" where
  "sha1_hex msg =
    (let ws = be_words (pad_message (map of_char msg))
     in concat (map (\<lambda>w. hex_pad 8 (unat w)) (sha1_words (sha1_blocks (length ws div 16) ws sha1_initial))))"

subsection \<open>Facts\<close>

text \<open>A SHA-1 digest is forty lower-case hexadecimal digits.\<close>

lemma sha1_hex_shape: "length (sha1_hex m) = 40 \<and> list_all lower_hex (sha1_hex m)"
proof -
  have five: "length (sha1_words s) = 5" for s by (cases s rule: sha1_words.cases) simp
  have "length (concat (map (\<lambda>w. hex_pad 8 (unat w)) ws)) = 8 * length ws
      \<and> list_all lower_hex (concat (map (\<lambda>w. hex_pad 8 (unat w)) ws))" for ws :: "u32 list"
    by (induction ws) (auto simp: hex_pad_shape)
  then show ?thesis by (simp add: sha1_hex_def Let_def five)
qed

end
