(* ===== verification/Json.thy ===== *)
theory Json
  imports Sha256
begin

text \<open>
  JSON values and \<^verbatim>\<open>json.dumps(value, sort_keys=True, separators=(",", ":"))\<close>, with the escapes of
  the standard encoder. \<open>canon\<close> orders the keys of every object, \<open>jprint\<close> prints in the given order
  and \<open>dumps\<close> composes the two; the flag selects \<^verbatim>\<open>ensure_ascii\<close>. Numbers are integers: no float
  reaches a digest in the modelled code.
\<close>

datatype json =
    JNull
  | JBool bool
  | JInt int
  | JStr string
  | JArr "json list"
  | JObj "(string \<times> json) list"

text \<open>What a JSON reader makes of a text: a value, a refusal, or an exception nobody expects, such as too deep a nesting.\<close>

datatype json_reading = Reads json | Bad_Json | Json_Crash

subsection \<open>Reading documents\<close>

fun unique_keys :: "json \<Rightarrow> bool" where
  "unique_keys (JArr vs) = list_all unique_keys vs"
| "unique_keys (JObj kvs) = (distinct (map fst kvs) \<and> list_all (\<lambda>(k, v). unique_keys v) kvs)"
| "unique_keys v = True"

fun json_get :: "json \<Rightarrow> string \<Rightarrow> json option" where
  "json_get (JObj kvs) k = map_of kvs k"
| "json_get v k = None"

fun json_int :: "json option \<Rightarrow> int option" where
  "json_int (Some (JInt i)) = Some i"
| "json_int v = None"

fun json_str :: "json option \<Rightarrow> string option" where
  "json_str (Some (JStr s)) = Some s"
| "json_str v = None"

fun json_str_list :: "json option \<Rightarrow> string list option" where
  "json_str_list (Some (JArr vs)) = those (map (json_str \<circ> Some) vs)"
| "json_str_list v = None"

fun is_object :: "json \<Rightarrow> bool" where
  "is_object (JObj kvs) = True"
| "is_object v = False"

subsection \<open>Printing documents\<close>

definition short_escapes :: "(nat \<times> char) list" where
  "short_escapes = [(34, CHR 0x22), (92, CHR 0x5C), (10, CHR ''n''), (13, CHR ''r''), (9, CHR ''t''),
                    (12, CHR ''f''), (8, CHR ''b'')]"

definition json_escape :: "bool \<Rightarrow> char \<Rightarrow> string" where
  "json_escape ascii c =
    (let n = of_char c :: nat in
     case map_of short_escapes n of
       Some l \<Rightarrow> [CHR 0x5C, l]
     | None \<Rightarrow>
         if n < 32 \<or> (ascii \<and> 127 < n) then [CHR 0x5C, CHR ''u''] @ hex_pad 4 n else [c])"

definition json_quote :: "bool \<Rightarrow> string \<Rightarrow> string" where
  "json_quote ascii s = CHR 0x22 # concat (map (json_escape ascii) s) @ [CHR 0x22]"

fun json_items :: "char \<Rightarrow> string list \<Rightarrow> string" where
  "json_items close [] = [close]"
| "json_items close [p] = p @ [close]"
| "json_items close (p # q # ps) = p @ CHR '','' # json_items close (q # ps)"

fun jprint :: "bool \<Rightarrow> json \<Rightarrow> string" where
  "jprint a JNull = ''null''"
| "jprint a (JBool b) = (if b then ''true'' else ''false'')"
| "jprint a (JInt i) = show_int i"
| "jprint a (JStr s) = json_quote a s"
| "jprint a (JArr xs) = CHR ''['' # json_items (CHR '']'') (map (jprint a) xs)"
| "jprint a (JObj kvs) =
    CHR ''{'' # json_items (CHR ''}'') (map (\<lambda>(k, v). json_quote a k @ CHR '':'' # jprint a v) kvs)"

fun canon :: "json \<Rightarrow> json" where
  "canon (JArr xs) = JArr (map canon xs)"
| "canon (JObj kvs) = JObj (sort_key fst (map (\<lambda>(k, v). (k, canon v)) kvs))"
| "canon v = v"

definition dumps :: "bool \<Rightarrow> json \<Rightarrow> string" where
  "dumps ascii v = jprint ascii (canon v)"

definition json_option :: "('a \<Rightarrow> json) \<Rightarrow> 'a option \<Rightarrow> json" where
  "json_option f x = (case x of None \<Rightarrow> JNull | Some y \<Rightarrow> f y)"

subsection \<open>Printing loses nothing\<close>

lemma show_nat_inj: "show_nat m = show_nat n \<Longrightarrow> m = n"
proof (induction m arbitrary: n rule: show_nat.induct)
  case (1 m)
  show ?case
  proof (cases "m < 10")
    case True
    then have "length (show_nat n) = 1" using "1.prems" by (simp add: show_nat.simps [of m] flip: "1.prems")
    then have "n < 10" by (auto simp: show_nat.simps [of n] split: if_splits)
    with True "1.prems" show ?thesis by (auto simp: show_nat.simps [of m] show_nat.simps [of n] intro: digit_char_inj)
  next
    case False
    then have len: "1 < length (show_nat m)" by (simp add: show_nat.simps [of m])
    have n: "\<not> n < 10"
    proof
      assume "n < 10"
      then have "length (show_nat n) = 1" by (simp add: show_nat.simps [of n])
      with len "1.prems" show False by simp
    qed
    from False n "1.prems" have "show_nat (m div 10) = show_nat (n div 10)"
      and d: "digit_char (m mod 10) = digit_char (n mod 10)"
      by (simp_all add: show_nat.simps [of m] show_nat.simps [of n])
    then have "m div 10 = n div 10" using False by (intro "1.IH") auto
    moreover have "m mod 10 = n mod 10" by (rule digit_char_inj) (use d in auto)
    ultimately show ?thesis by (metis div_mod_decomp)
  qed
qed

definition ends_value :: "string \<Rightarrow> bool" where
  "ends_value r \<longleftrightarrow> r = [] \<or> hd r \<in> {CHR '','', CHR '']'', CHR ''}''}"

lemma ends_value_simps [simp]:
  "ends_value []" "ends_value (CHR '','' # r)" "ends_value (CHR '']'' # r)" "ends_value (CHR ''}'' # r)"
  by (simp_all add: ends_value_def)

lemma ends_value_no_digit: "ends_value r \<Longrightarrow> r = [] \<or> \<not> ascii_digit (hd r)"
  by (auto simp: ends_value_def ascii_digit_def)

lemma digits_unique:
  assumes "ps @ r = qs @ s" and "list_all ascii_digit ps" and "list_all ascii_digit qs"
    and "r = [] \<or> \<not> ascii_digit (hd r)" and "s = [] \<or> \<not> ascii_digit (hd s)"
  shows "ps = qs \<and> r = s"
proof -
  have take: "takeWhile ascii_digit (xs @ ys) = xs"
    if "list_all ascii_digit xs" "ys = [] \<or> \<not> ascii_digit (hd ys)" for xs ys
    using that by (cases ys) (auto simp: list_all_iff takeWhile_append)
  have "ps = takeWhile ascii_digit (ps @ r)" by (rule take [symmetric]) (use assms in auto)
  also have "\<dots> = takeWhile ascii_digit (qs @ s)" by (simp only: assms(1))
  also have "\<dots> = qs" by (rule take) (use assms in auto)
  finally show ?thesis using assms(1) by simp
qed

lemma minus_not_digit [simp]: "\<not> ascii_digit (CHR ''-'')"
  by (simp add: ascii_digit_def)

lemma hd_show_nat: "ascii_digit (hd (show_nat n))"
  using show_nat_digits [of n] by (cases "show_nat n") auto

lemma show_int_unique:
  assumes "show_int i @ r = show_int j @ s" and "ends_value r" and "ends_value s"
  shows "i = j \<and> r = s"
proof -
  have pos: "m = n \<and> r' = s'" if "show_nat m @ r' = show_nat n @ s'" "ends_value r'" "ends_value s'"
    for m n r' s'
    using digits_unique [OF that(1) show_nat_digits show_nat_digits]
      ends_value_no_digit that(2,3) show_nat_inj by blast
  have sign: "hd (show_nat n @ t) \<noteq> CHR ''-''" for n t
    using hd_show_nat [of n] by (auto simp: hd_append)
  consider "i < 0" "j < 0" | "i < 0" "\<not> j < 0" | "\<not> i < 0" "j < 0" | "\<not> i < 0" "\<not> j < 0"
    by blast
  then show ?thesis
  proof cases
    case 1
    with assms have "show_nat (nat (- i)) @ r = show_nat (nat (- j)) @ s" by (simp add: show_int_def)
    from pos [OF this assms(2,3)] 1 show ?thesis by auto
  next
    case 2
    with assms(1) have eq: "show_nat (nat j) @ s = CHR ''-'' # show_nat (nat (- i)) @ r"
      by (simp add: show_int_def)
    have "hd (show_nat (nat j) @ s) = CHR ''-''" unfolding eq by simp
    with sign show ?thesis by blast
  next
    case 3
    with assms(1) have eq: "show_nat (nat i) @ r = CHR ''-'' # show_nat (nat (- j)) @ s"
      by (simp add: show_int_def)
    have "hd (show_nat (nat i) @ r) = CHR ''-''" unfolding eq by simp
    with sign show ?thesis by blast
  next
    case 4
    with assms have "show_nat (nat i) @ r = show_nat (nat j) @ s" by (simp add: show_int_def)
    from pos [OF this assms(2,3)] 4 show ?thesis by auto
  qed
qed

lemma digit_char_hex_inj: "a < 16 \<Longrightarrow> b < 16 \<Longrightarrow> digit_char a = digit_char b \<Longrightarrow> a = b"
proof -
  assume ab: "a < 16" "b < 16" "digit_char a = digit_char b"
  have code: "(of_char (digit_char n) :: nat) = (if n < 10 then 48 + n else 87 + n)" if "n < 16" for n
    using that by (simp add: digit_char_def of_char_of)
  from ab(3) have "(of_char (digit_char a) :: nat) = of_char (digit_char b)" by simp
  with ab(1,2) show "a = b" by (simp add: code split: if_splits)
qed

lemma hex_pad_inj: "m < 16 ^ w \<Longrightarrow> n < 16 ^ w \<Longrightarrow> hex_pad w m = hex_pad w n \<Longrightarrow> m = n"
proof (induction w arbitrary: m n)
  case 0
  then show ?case by simp
next
  case (Suc w)
  from Suc.prems(3) have "hex_pad w (m div 16) = hex_pad w (n div 16)"
    and d: "digit_char (m mod 16) = digit_char (n mod 16)" by auto
  moreover have "m div 16 < 16 ^ w" "n div 16 < 16 ^ w" using Suc.prems by auto
  ultimately have "m div 16 = n div 16" by (intro Suc.IH)
  moreover have "m mod 16 = n mod 16" by (rule digit_char_hex_inj) (use d in auto)
  ultimately show ?case by (metis div_mod_decomp)
qed

lemma short_escapes_inj:
  "map_of short_escapes m = Some l \<Longrightarrow> map_of short_escapes n = Some l \<Longrightarrow> m = n"
  by (auto simp: short_escapes_def split: if_splits)

lemma short_escapes_not_u: "map_of short_escapes m \<noteq> Some (CHR ''u'')"
  by (auto simp: short_escapes_def split: if_splits)

lemma json_escape_cases:
  obtains (short) l where "map_of short_escapes (of_char c) = Some l"
      "json_escape a c = [CHR 0x5C, l]"
  | (uni) "map_of short_escapes (of_char c) = None"
      "json_escape a c = [CHR 0x5C, CHR ''u''] @ hex_pad 4 (of_char c)"
  | (plain) "json_escape a c = [c]" "c \<noteq> CHR 0x5C" "c \<noteq> CHR 0x22"
proof (cases "map_of short_escapes (of_char c)")
  case (Some l)
  then show ?thesis by (intro short) (simp_all add: json_escape_def Let_def)
next
  case None
  then have "c \<noteq> CHR 0x5C" "c \<noteq> CHR 0x22" by (auto simp: short_escapes_def)
  with None show ?thesis using uni plain by (cases "json_escape a c = [c]") (auto simp: json_escape_def Let_def split: if_splits)
qed

lemma json_escape_unique:
  assumes "json_escape a c @ r = json_escape a d @ s"
  shows "c = d \<and> r = s"
proof (cases a c rule: json_escape_cases)
  case (short l)
  show ?thesis
  proof (cases a d rule: json_escape_cases)
    case (short l')
    with \<open>json_escape a c = [CHR 0x5C, l]\<close> assms have "l = l'" "r = s" by simp_all
    moreover have "(of_char c :: nat) = of_char d"
      by (rule short_escapes_inj) (use \<open>map_of short_escapes (of_char c) = Some l\<close> short(1) \<open>l = l'\<close> in auto)
    ultimately show ?thesis by simp
  next
    case uni
    with short assms show ?thesis using short_escapes_not_u by auto
  next
    case plain
    with short assms show ?thesis by auto
  qed
next
  case uni
  show ?thesis
  proof (cases a d rule: json_escape_cases)
    case (short l')
    with uni assms show ?thesis using short_escapes_not_u by auto
  next
    case d: uni
    with uni assms have "hex_pad 4 (of_char c) @ r = hex_pad 4 (of_char d) @ s" by simp
    then have "hex_pad 4 (of_char c) = hex_pad 4 (of_char d) \<and> r = s"
      by (subst (asm) append_eq_append_conv) (simp_all add: hex_pad_shape)
    moreover have "(of_char c :: nat) < 16 ^ 4" "(of_char d :: nat) < 16 ^ 4"
      by (rule less_trans [OF nat_of_char_less_256], simp)+
    ultimately show ?thesis using hex_pad_inj by (metis of_char_eq_iff)
  next
    case plain
    with uni assms show ?thesis by auto
  qed
next
  case plain
  show ?thesis
    by (cases a d rule: json_escape_cases) (use plain assms in auto)
qed

lemma json_escape_not_quote: "json_escape a c @ r \<noteq> CHR 0x22 # s"
  by (cases a c rule: json_escape_cases) auto

lemma json_body_unique:
  "concat (map (json_escape a) k) @ CHR 0x22 # r = concat (map (json_escape a) l) @ CHR 0x22 # s
    \<Longrightarrow> k = l \<and> r = s"
proof (induction k arbitrary: l)
  case Nil
  then show ?case
    using json_escape_not_quote by (cases l) (auto dest: sym)
next
  case (Cons c k)
  show ?case
  proof (cases l)
    case Nil
    with Cons.prems json_escape_not_quote show ?thesis by auto
  next
    case l: (Cons d l')
    with Cons.prems have "json_escape a c @ (concat (map (json_escape a) k) @ CHR 0x22 # r) =
      json_escape a d @ (concat (map (json_escape a) l') @ CHR 0x22 # s)"
      by simp
    from json_escape_unique [OF this] Cons.IH l show ?thesis by simp
  qed
qed

lemma json_quote_unique: "json_quote a k @ r = json_quote a l @ s \<Longrightarrow> k = l \<and> r = s"
  by (rule json_body_unique [of a]) (simp add: json_quote_def)

definition starts_value :: "string \<Rightarrow> bool" where
  "starts_value p \<longleftrightarrow> p \<noteq> [] \<and> hd p \<notin> {CHR '','', CHR '']'', CHR ''}''}"

lemma starts_value_append: "starts_value p \<Longrightarrow> starts_value (p @ r)"
  by (cases p) (simp_all add: starts_value_def)

lemma not_starts_value [simp]:
  "\<not> starts_value (CHR '','' # r)" "\<not> starts_value (CHR '']'' # r)" "\<not> starts_value (CHR ''}'' # r)"
  by (simp_all add: starts_value_def)

lemma json_items_unique:
  assumes "json_items e (map f xs) @ r = json_items e (map f ys) @ s"
    and "e = CHR '']'' \<or> e = CHR ''}''"
    and "\<And>x. starts_value (f x)"
    and "\<And>x y r s. x \<in> set xs \<Longrightarrow> f x @ r = f y @ s \<Longrightarrow> ends_value r \<Longrightarrow> ends_value s \<Longrightarrow> x = y \<and> r = s"
  shows "xs = ys \<and> r = s"
  using assms(1,4)
proof (induction xs arbitrary: ys)
  case Nil
  show ?case
  proof (cases ys)
    case (Cons y ys')
    have "json_items e (map f ys) @ s = f y @ (if ys' = [] then e # s else CHR '','' # json_items e (map f ys') @ s)"
      by (cases ys') (simp_all add: Cons)
    with Nil.prems(1) starts_value_append [OF assms(3)] assms(2) not_starts_value show ?thesis
      by (metis append.simps(1) append.simps(2) json_items.simps(1) list.simps(8))
  qed (use Nil in simp)
next
  case (Cons x xs)
  have form: "json_items e (map f (z # zs)) @ t = f z @ (if zs = [] then e # t else CHR '','' # json_items e (map f zs) @ t)"
    for z zs t by (cases zs) simp_all
  show ?case
  proof (cases ys)
    case Nil
    with Cons.prems(1) form [of x xs r] starts_value_append [OF assms(3)] assms(2) not_starts_value show ?thesis
      by (metis append.simps(1) append.simps(2) json_items.simps(1) list.simps(8))
  next
    case ys: (Cons y ys')
    from Cons.prems(1) have "f x @ (if xs = [] then e # r else CHR '','' # json_items e (map f xs) @ r)
        = f y @ (if ys' = [] then e # s else CHR '','' # json_items e (map f ys') @ s)"
      unfolding ys by (simp only: form)
    then have "x = y \<and> (if xs = [] then e # r else CHR '','' # json_items e (map f xs) @ r)
        = (if ys' = [] then e # s else CHR '','' # json_items e (map f ys') @ s)"
      by (intro Cons.prems(2)) (use assms(2) in auto)
    moreover from this have "xs = ys' \<and> r = s"
    proof (cases "xs = []"; cases "ys' = []")
      assume "xs \<noteq> []" "ys' \<noteq> []"
      with calculation have "json_items e (map f xs) @ r = json_items e (map f ys') @ s" by simp
      then show ?thesis by (rule Cons.IH) (use Cons.prems(2) in \<open>simp, blast\<close>)
    qed (use calculation assms(2) in auto)
    ultimately show ?thesis using ys by simp
  qed
qed

lemma show_int_starts: "starts_value (show_int i)"
proof -
  have "starts_value (show_nat n)" for n
    using hd_show_nat [of n] by (auto simp: starts_value_def ascii_digit_def)
  then show ?thesis by (simp add: show_int_def) (simp add: starts_value_def)
qed

lemma jprint_starts: "starts_value (jprint a v)"
  by (cases v) (auto simp: json_quote_def show_int_starts, auto simp: starts_value_def)

lemma jprint_field_starts: "starts_value (json_quote a k @ CHR '':'' # jprint a v)"
  by (simp add: json_quote_def starts_value_def)

lemma jprint_field_unique:
  assumes "json_quote a k @ CHR '':'' # jprint a v @ r = json_quote a l @ CHR '':'' # p @ s"
  shows "k = l \<and> jprint a v @ r = p @ s"
  using json_quote_unique [OF assms] by simp

definition head_kind :: "char \<Rightarrow> nat" where
  "head_kind c =
    (if c = CHR ''n'' then 0 else if c = CHR ''t'' then 1 else if c = CHR ''f'' then 2
     else if c = CHR 0x22 then 3 else if c = CHR ''['' then 4 else if c = CHR ''{'' then 5 else 6)"

fun json_kind :: "json \<Rightarrow> nat" where
  "json_kind JNull = 0"
| "json_kind (JBool b) = (if b then 1 else 2)"
| "json_kind (JStr _) = 3"
| "json_kind (JArr _) = 4"
| "json_kind (JObj _) = 5"
| "json_kind (JInt _) = 6"

lemma head_kind_digit: "ascii_digit c \<Longrightarrow> head_kind c = 6"
  by (auto simp: head_kind_def ascii_digit_def)

lemma head_kind_show_int: "head_kind (hd (show_int i)) = 6"
  by (simp add: show_int_def head_kind_digit hd_show_nat) (simp add: head_kind_def)

lemma head_kind_jprint: "head_kind (hd (jprint a v @ r)) = json_kind v"
  by (cases v) (auto simp: head_kind_show_int hd_append json_quote_def show_int_def head_kind_digit hd_show_nat,
      simp_all add: head_kind_def)

lemma jprint_unique:
  "jprint a v @ r = jprint a w @ s \<Longrightarrow> ends_value r \<Longrightarrow> ends_value s \<Longrightarrow> v = w \<and> r = s"
proof (induction v arbitrary: w r s)
  case JNull
  from arg_cong [OF JNull.prems(1), of "head_kind \<circ> hd"] have "json_kind w = 0"
    by (metis comp_apply head_kind_jprint json_kind.simps(1))
  with JNull show ?case by (cases w) (auto split: if_splits)
next
  case (JBool b)
  from arg_cong [OF JBool.prems(1), of "head_kind \<circ> hd"] have "json_kind w = json_kind (JBool b)"
    by (metis comp_apply head_kind_jprint)
  with JBool show ?case by (cases w) (auto split: if_splits)
next
  case (JInt i)
  from arg_cong [OF JInt.prems(1), of "head_kind \<circ> hd"] have "json_kind w = 6"
    by (metis comp_apply head_kind_jprint json_kind.simps(6))
  then obtain j where w: "w = JInt j" by (cases w) (auto split: if_splits)
  with JInt show ?case using show_int_unique [of i r j s] by simp
next
  case (JStr k)
  from arg_cong [OF JStr.prems(1), of "head_kind \<circ> hd"] have "json_kind w = 3"
    by (metis comp_apply head_kind_jprint json_kind.simps(3))
  then obtain l where w: "w = JStr l" by (cases w) (auto split: if_splits)
  with JStr show ?case using json_quote_unique [of a k r l s] by simp
next
  case (JArr xs)
  from arg_cong [OF JArr.prems(1), of "head_kind \<circ> hd"] have "json_kind w = 4"
    by (metis comp_apply head_kind_jprint json_kind.simps(4))
  then obtain ys where w: "w = JArr ys" by (cases w) (auto split: if_splits)
  with JArr.prems have "json_items (CHR '']'') (map (jprint a) xs) @ r =
      json_items (CHR '']'') (map (jprint a) ys) @ s" by simp
  then have "xs = ys \<and> r = s"
    by (rule json_items_unique) (use JArr.IH jprint_starts in auto)
  with w show ?case by simp
next
  case (JObj kvs)
  let ?f = "\<lambda>(k, v). json_quote a k @ CHR '':'' # jprint a v"
  from arg_cong [OF JObj.prems(1), of "head_kind \<circ> hd"] have "json_kind w = 5"
    by (metis comp_apply head_kind_jprint json_kind.simps(5))
  then obtain lws where w: "w = JObj lws" by (cases w) (auto split: if_splits)
  with JObj.prems have "json_items (CHR ''}'') (map ?f kvs) @ r = json_items (CHR ''}'') (map ?f lws) @ s"
    by simp
  then have "kvs = lws \<and> r = s"
  proof (rule json_items_unique)
    show "starts_value (?f x)" for x by (cases x) (simp add: jprint_field_starts)
  next
    fix x y r' s'
    assume x: "x \<in> set kvs" and eq: "?f x @ r' = ?f y @ s'" and e: "ends_value r'" "ends_value s'"
    obtain k v l u where xy: "x = (k, v)" "y = (l, u)" by (cases x, cases y)
    with eq have "k = l \<and> jprint a v @ r' = jprint a u @ s'"
      by (intro jprint_field_unique) simp
    moreover from this have "v = u \<and> r' = s'"
      by (intro JObj.IH [of x]) (use x xy e in auto)
    ultimately show "x = y \<and> r' = s'" using xy by simp
  qed simp
  with w show ?case by simp
qed

lemma jprint_inj: "jprint a v = jprint a w \<Longrightarrow> v = w"
  using jprint_unique [of a v "[]" w "[]"] by simp

lemma dumps_eq_iff: "dumps a v = dumps a w \<longleftrightarrow> canon v = canon w"
  by (auto simp: dumps_def dest: jprint_inj)

lemma alist_same_keys_eq:
  assumes "map fst xs = map fst ys" and "distinct (map fst xs)" and "set xs = set ys"
  shows "xs = ys"
proof (rule nth_equalityI)
  show len: "length xs = length ys" using assms(1) by (metis length_map)
  fix i assume i: "i < length xs"
  then have key: "fst (xs ! i) = fst (ys ! i)" using assms(1) len by (metis nth_map)
  have mem: "xs ! i \<in> set ys" "ys ! i \<in> set ys" using i len assms(3) by (metis nth_mem)+
  have "snd (xs ! i) = snd (ys ! i)"
    by (rule eq_key_imp_eq_value [of ys "fst (xs ! i)"]) (use mem key assms(1,2) in \<open>simp_all, metis prod.collapse\<close>)
  with key show "xs ! i = ys ! i" by (simp add: prod_eq_iff)
qed

text \<open>
  Two objects with the same, distinct keys have the same canonical form exactly when the values
  agree key by key: this is how an equal digest of two models becomes equality of their fields.
\<close>

lemma canon_obj_fields:
  assumes "canon (JObj kvs) = canon (JObj lws)" and "map fst kvs = map fst lws" and "distinct (map fst kvs)"
  shows "map (canon \<circ> snd) kvs = map (canon \<circ> snd) lws"
proof -
  let ?c = "map (\<lambda>(k, v). (k, canon v))"
  have fst: "map fst (?c zs) = map fst zs" and snd: "map snd (?c zs) = map (canon \<circ> snd) zs" for zs
    by (induction zs) auto
  from assms(1) have "sort_key fst (?c kvs) = sort_key fst (?c lws)" by simp
  then have "set (?c kvs) = set (?c lws)" by (metis set_sort)
  then have "?c kvs = ?c lws"
    by (intro alist_same_keys_eq) (simp_all only: fst assms(2) assms(3) [unfolded assms(2)])
  then show ?thesis by (metis snd)
qed

lemma canon_obj_keys: "canon (JObj f) = canon (JObj g) \<Longrightarrow> fst ` set f = fst ` set g"
proof -
  let ?c = "map (\<lambda>(k, v). (k, canon v))"
  assume "canon (JObj f) = canon (JObj g)"
  then have "set (sort_key fst (?c f)) = set (sort_key fst (?c g))" by (simp only: canon.simps json.inject)
  moreover have "fst ` set (sort_key fst (?c kvs)) = fst ` set kvs" for kvs by force
  ultimately show ?thesis by metis
qed

end
