(* ===== verification/Py_Time.thy ===== *)
theory Py_Time
  imports Prelude
begin

text \<open>
  The part of Python's \<^verbatim>\<open>datetime\<close> the sources rely on. A \<open>datetime\<close> has its calendar fields and
  a UTC offset in microseconds, which is \<open>None\<close> for a naive value. An instant (\<open>moment\<close>) is the
  number of microseconds since 0001-01-01T00:00 UTC, so instants of representable datetimes lie
  in \<open>{0..<dt_limit}\<close>; \<open>astimezone_utc\<close> is \<open>None\<close> exactly where \<^verbatim>\<open>astimezone(UTC)\<close> raises
  \<^verbatim>\<open>OverflowError\<close>. \<open>isoformat\<close> prints what \<^verbatim>\<open>datetime.isoformat()\<close> prints.
\<close>

type_synonym moment = int

record datetime =
  dt_year :: nat
  dt_month :: nat
  dt_day :: nat
  dt_hour :: nat
  dt_minute :: nat
  dt_second :: nat
  dt_micro :: nat
  dt_offset :: "int option"

definition is_leap :: "nat \<Rightarrow> bool" where
  "is_leap y \<longleftrightarrow> y mod 4 = 0 \<and> (y mod 100 \<noteq> 0 \<or> y mod 400 = 0)"

definition days_in_month :: "nat \<Rightarrow> nat \<Rightarrow> nat" where
  "days_in_month y m =
    (if m = 2 then (if is_leap y then 29 else 28)
     else if m \<in> {4, 6, 9, 11} then 30 else 31)"

definition days_before_year :: "nat \<Rightarrow> nat" where
  "days_before_year y = (let p = y - 1 in p * 365 + p div 4 - p div 100 + p div 400)"

definition days_before_month :: "nat \<Rightarrow> nat \<Rightarrow> nat" where
  "days_before_month y m = sum_list (map (days_in_month y) [1..<m])"

definition toordinal :: "datetime \<Rightarrow> nat" where
  "toordinal d = days_before_year (dt_year d) + days_before_month (dt_year d) (dt_month d) + dt_day d"

definition local_micros :: "datetime \<Rightarrow> int" where
  "local_micros d =
    (((int (toordinal d) - 1) * 24 + int (dt_hour d)) * 60 + int (dt_minute d)) * 60 * 1000000
    + int (dt_second d) * 1000000 + int (dt_micro d)"

definition dt_limit :: int where
  "dt_limit = 3652059 * 86400 * 1000000"

definition astimezone_utc :: "datetime \<Rightarrow> moment option" where
  "astimezone_utc d =
    (case dt_offset d of
       None \<Rightarrow> None
     | Some off \<Rightarrow>
         let u = local_micros d - off in if 0 \<le> u \<and> u < dt_limit then Some u else None)"

fun zero_pad :: "nat \<Rightarrow> nat \<Rightarrow> string" where
  "zero_pad 0 n = []"
| "zero_pad (Suc w) n = zero_pad w (n div 10) @ [digit_char (n mod 10)]"

definition iso_offset :: "int \<Rightarrow> string" where
  "iso_offset off =
    (let a = nat \<bar>off\<bar>; s = a div 1000000; us = a mod 1000000 in
     (if off < 0 then ''-'' else ''+'') @ zero_pad 2 (s div 3600) @ '':'' @ zero_pad 2 (s div 60 mod 60)
     @ (if s mod 60 = 0 \<and> us = 0 then [] else '':'' @ zero_pad 2 (s mod 60)
        @ (if us = 0 then [] else ''.'' @ zero_pad 6 us)))"

definition isoformat :: "datetime \<Rightarrow> string" where
  "isoformat d =
    zero_pad 4 (dt_year d) @ ''-'' @ zero_pad 2 (dt_month d) @ ''-'' @ zero_pad 2 (dt_day d) @ ''T''
    @ zero_pad 2 (dt_hour d) @ '':'' @ zero_pad 2 (dt_minute d) @ '':'' @ zero_pad 2 (dt_second d)
    @ (if dt_micro d = 0 then [] else ''.'' @ zero_pad 6 (dt_micro d))
    @ (case dt_offset d of None \<Rightarrow> [] | Some off \<Rightarrow> iso_offset off)"

definition valid_datetime :: "datetime \<Rightarrow> bool" where
  "valid_datetime d \<longleftrightarrow>
    1 \<le> dt_year d \<and> dt_year d \<le> 9999 \<and> 1 \<le> dt_month d \<and> dt_month d \<le> 12
    \<and> 1 \<le> dt_day d \<and> dt_day d \<le> days_in_month (dt_year d) (dt_month d)
    \<and> dt_hour d < 24 \<and> dt_minute d < 60 \<and> dt_second d < 60 \<and> dt_micro d < 1000000
    \<and> (case dt_offset d of None \<Rightarrow> True | Some off \<Rightarrow> \<bar>off\<bar> < 86400 * 1000000)"

subsection \<open>Facts\<close>

lemma astimezone_utc_range:
  "astimezone_utc d = Some u \<Longrightarrow> 0 \<le> u \<and> u < dt_limit"
  by (auto simp: astimezone_utc_def Let_def split: option.splits if_splits)

lemma astimezone_utc_aware: "astimezone_utc d = Some u \<Longrightarrow> dt_offset d \<noteq> None"
  by (auto simp: astimezone_utc_def split: option.splits)

lemma length_zero_pad [simp]: "length (zero_pad w n) = w"
  by (induction w arbitrary: n) auto

lemma zero_pad_inj: "m < 10 ^ w \<Longrightarrow> n < 10 ^ w \<Longrightarrow> zero_pad w m = zero_pad w n \<Longrightarrow> m = n"
proof (induction w arbitrary: m n)
  case 0
  then show ?case by simp
next
  case (Suc w)
  from Suc.prems(3) have "zero_pad w (m div 10) = zero_pad w (n div 10)"
    and d: "digit_char (m mod 10) = digit_char (n mod 10)" by auto
  moreover have "m div 10 < 10 ^ w" "n div 10 < 10 ^ w" using Suc.prems by auto
  ultimately have "m div 10 = n div 10" by (intro Suc.IH)
  moreover have "m mod 10 = n mod 10" by (rule digit_char_inj) (use d in auto)
  ultimately show ?case by (metis div_mod_decomp)
qed

end
