(* ===== verification/Review_Base.thy ===== *)
theory Review_Base
  imports Json Py_Time
begin

text \<open>
  \<^verbatim>\<open>domain/review_base.py\<close>: the constrained strings and times of the review models, content digests
  and the common base class. \<^verbatim>\<open>ReviewModel\<close> is the record \<open>review_model\<close>; every subclass is a record
  that extends it, with a function giving the fields it dumps to JSON (all but its own digest).
  \<open>seal\<close> is what construction leaves in \<open>content_digest\<close>, \<open>sealed\<close> what validation of an existing
  instance demands of it, and \<open>content_address\<close> is the validator itself on a supplied digest.

  The interface every model relies on, that the dumped fields do not read the digest, is the locale
  \<open>content_addressed\<close>; its lemmas are interpreted for each model where the model is declared.
\<close>

definition nonblank :: "string \<Rightarrow> bool" where
  "nonblank s \<longleftrightarrow> strip s \<noteq> []"

definition utc :: "datetime \<Rightarrow> moment option" where
  "utc d = (if dt_offset d = None then None else astimezone_utc d)"

definition identifier_char :: "char \<Rightarrow> bool" where
  "identifier_char c \<longleftrightarrow> ascii_upper c \<or> ascii_lower c \<or> ascii_digit c \<or> c \<in> set ''._:/@+-''"

definition identifier_ok :: "string \<Rightarrow> bool" where
  "identifier_ok s \<longleftrightarrow>
    s \<noteq> [] \<and> (ascii_upper (hd s) \<or> ascii_lower (hd s) \<or> ascii_digit (hd s))
    \<and> length s \<le> 200 \<and> list_all identifier_char (tl s)"

definition text_ok :: "string \<Rightarrow> bool" where
  "text_ok s \<longleftrightarrow> s \<noteq> [] \<and> nonblank s"

definition digest_ok :: "string \<Rightarrow> bool" where
  "digest_ok s \<longleftrightarrow>
    take 7 s = ''sha256:'' \<and> length (drop 7 s) = 64 \<and> list_all lower_hex (drop 7 s)"

definition digest_of :: "json \<Rightarrow> string" where
  "digest_of v = ''sha256:'' @ sha256_hex (utf8 (dumps False v))"

record review_model =
  content_digest :: string

definition content_address :: "string \<Rightarrow> (string \<times> json) list \<Rightarrow> string option" where
  "content_address supplied flds =
    (let expected = digest_of (JObj flds)
     in if supplied \<noteq> [] \<and> supplied \<noteq> expected then None else Some expected)"

definition seal ::
  "('a review_model_scheme \<Rightarrow> (string \<times> json) list) \<Rightarrow> 'a review_model_scheme \<Rightarrow> 'a review_model_scheme"
where
  "seal flds x = x\<lparr>content_digest := digest_of (JObj (flds x))\<rparr>"

definition sealed ::
  "('a review_model_scheme \<Rightarrow> (string \<times> json) list) \<Rightarrow> 'a review_model_scheme \<Rightarrow> bool"
where
  "sealed flds x \<longleftrightarrow> content_digest x = digest_of (JObj (flds x))"

definition model_dump ::
  "('a review_model_scheme \<Rightarrow> (string \<times> json) list) \<Rightarrow> 'a review_model_scheme \<Rightarrow> json"
where
  "model_dump flds x = JObj ((''content_digest'', JStr (content_digest x)) # flds x)"

definition json_nat :: "nat \<Rightarrow> json" where
  "json_nat n = JInt (int n)"

definition json_strings :: "string list \<Rightarrow> json" where
  "json_strings xs = JArr (map JStr xs)"

definition json_list :: "('a \<Rightarrow> json) \<Rightarrow> 'a list \<Rightarrow> json" where
  "json_list f xs = JArr (map f xs)"

locale content_addressed =
  fixes flds :: "'a review_model_scheme \<Rightarrow> (string \<times> json) list"
  assumes fields_digest: "flds (x\<lparr>content_digest := d\<rparr>) = flds x"
begin

lemma seal_fields [simp]: "flds (seal flds x) = flds x"
  by (simp add: seal_def fields_digest)

lemma sealed_seal [simp]: "sealed flds (seal flds x)"
  by (simp add: sealed_def seal_def fields_digest)

lemma seal_sealed: "sealed flds x \<Longrightarrow> seal flds x = x"
  by (simp add: sealed_def seal_def)

lemma seal_idem [simp]: "seal flds (seal flds x) = seal flds x"
  by (rule seal_sealed) (rule sealed_seal)

lemma seal_digest: "content_digest (seal flds x) = digest_of (JObj (flds x))"
  by (simp add: seal_def)

lemma seal_ext: "sealed flds x \<Longrightarrow> sealed flds y \<Longrightarrow> flds x = flds y \<Longrightarrow>
    review_model.more x = review_model.more y \<Longrightarrow> x = y"
  by (cases x, cases y) (simp add: sealed_def)

lemma address_of_sealed: "sealed flds x \<longleftrightarrow>
    content_digest x \<noteq> [] \<and> content_address (content_digest x) (flds x) = Some (content_digest x)"
  by (auto simp: sealed_def content_address_def Let_def digest_of_def)

end

subsection \<open>Facts\<close>

lemma digest_of_ok [simp]: "digest_ok (digest_of v)"
  by (simp add: digest_ok_def digest_of_def sha256_hex_shape)

lemma digest_of_nonempty [simp]: "digest_of v \<noteq> []"
  by (simp add: digest_of_def)

lemma lower_hex_identifier_char: "lower_hex c \<Longrightarrow> identifier_char c"
  by (auto simp: lower_hex_def identifier_char_def ascii_lower_def)

text \<open>A digest is an identifier too, so an execution key fits the ledger's identifier field.\<close>

lemma digest_identifier: "digest_ok d \<Longrightarrow> identifier_ok d"
proof -
  assume d: "digest_ok d"
  define r where "r = drop 7 d"
  have split: "d = ''sha256:'' @ r"
    using d append_take_drop_id [of 7 d] by (simp only: digest_ok_def r_def)
  have "length r = 64" and "list_all identifier_char r"
    using d lower_hex_identifier_char by (auto simp: digest_ok_def r_def list_all_iff)
  then show "identifier_ok d"
    unfolding split by (simp add: identifier_ok_def identifier_char_def ascii_lower_def ascii_digit_def)
qed

lemma utc_aware: "utc d = Some t \<Longrightarrow> dt_offset d \<noteq> None \<and> astimezone_utc d = Some t"
  by (simp add: utc_def split: if_splits)

lemma digest_of_eq:
  assumes "digest_of v = digest_of w"
    and "sha256_hex (utf8 (dumps False v)) = sha256_hex (utf8 (dumps False w)) \<Longrightarrow>
         utf8 (dumps False v) = utf8 (dumps False w)"
  shows "canon v = canon w"
proof -
  from assms(1) have "sha256_hex (utf8 (dumps False v)) = sha256_hex (utf8 (dumps False w))"
    by (simp add: digest_of_def)
  then have "dumps False v = dumps False w" using assms(2) utf8_inj by blast
  then show ?thesis by (simp add: dumps_eq_iff)
qed

end
