(* ===== verification/Review_Model.thy ===== *)
theory Review_Model
  imports Review_Base
begin

text \<open>
  \<^verbatim>\<open>domain/review.py\<close>: the pinned inputs of a review session. Each class is a record extending
  \<^typ>\<open>review_model\<close>, its dumped fields are \<open><class>_fields\<close>, and \<open>valid_<class>\<close> is what
  \<^verbatim>\<open>model_validate\<close> checks of an instance: the field constraints, the \<^verbatim>\<open>model_validator\<close> of the class,
  the same for every child, and the digest. \<open>artifact_binding_of\<close> is \<^verbatim>\<open>ArtifactRef.binding\<close>.
  Counts and limits are natural numbers, as the source declares them non-negative.
\<close>

datatype risk_tier = T0 | T1 | T2
datatype model_role = PRODUCER | REVIEWER

fun tier_name :: "risk_tier \<Rightarrow> string" where
  "tier_name T0 = ''T0''" | "tier_name T1 = ''T1''" | "tier_name T2 = ''T2''"

fun role_name :: "model_role \<Rightarrow> string" where
  "role_name PRODUCER = ''PRODUCER''" | "role_name REVIEWER = ''REVIEWER''"

record review_scope = review_model +
  scope_tenant_id :: string
  scope_work_item_id :: string
  scope_session_id :: string

record pinned_reference = review_model +
  pin_name :: string
  pin_digest :: string

record quality_criterion = review_model +
  crit_id :: string
  crit_predicate :: string
  crit_mandatory :: bool
  crit_required_evidence :: "string list"

record quality_contract = review_model +
  qc_tenant_id :: string
  qc_work_item_id :: string
  qc_version :: string
  qc_criteria :: "quality_criterion list"
  qc_artifact_scope :: "string list"
  qc_scope_in :: "string list"
  qc_scope_out :: "string list"
  qc_design_refs :: "pinned_reference list"
  qc_design_na_reason :: "string option"
  qc_risk_tier :: risk_tier

record review_policy = review_model +
  pol_version :: string
  pol_min_reviews :: nat
  pol_max_reviews :: nat
  pol_max_repairs :: nat
  pol_failure_limit :: nat
  pol_max_invocations :: nat
  pol_max_tokens :: nat
  pol_max_cost :: nat
  pol_max_seconds :: nat
  pol_different_family :: bool

record model_identity = review_model +
  mid_provider :: string
  mid_model :: string
  mid_canonical :: string
  mid_family :: "string option"
  mid_qualification :: "string option"
  mid_capabilities :: "string list"
  mid_role :: model_role

record review_binding = review_model +
  bnd_scope :: review_scope
  bnd_artifact :: string
  bnd_contract :: string
  bnd_context :: string

record artifact_ref = review_model +
  art_scope :: review_scope
  art_key :: string
  art_payload :: string
  art_producers :: "model_identity list"
  art_contract :: string
  art_context :: string
  art_inputs :: "pinned_reference list"
  art_builds :: "pinned_reference list"

record usage = review_model +
  use_tokens :: nat
  use_cost :: nat

record reservation = usage +
  res_seconds :: nat

subsection \<open>Dumped fields\<close>

definition scope_fields :: "review_scope \<Rightarrow> (string \<times> json) list" where
  "scope_fields x =
    [(''tenant_id'', JStr (scope_tenant_id x)), (''work_item_id'', JStr (scope_work_item_id x)),
     (''session_id'', JStr (scope_session_id x))]"

definition pin_fields :: "pinned_reference \<Rightarrow> (string \<times> json) list" where
  "pin_fields x = [(''name'', JStr (pin_name x)), (''digest'', JStr (pin_digest x))]"

definition criterion_fields :: "quality_criterion \<Rightarrow> (string \<times> json) list" where
  "criterion_fields x =
    [(''criterion_id'', JStr (crit_id x)), (''predicate'', JStr (crit_predicate x)),
     (''mandatory'', JBool (crit_mandatory x)),
     (''required_evidence'', json_strings (crit_required_evidence x))]"

definition contract_fields :: "quality_contract \<Rightarrow> (string \<times> json) list" where
  "contract_fields x =
    [(''tenant_id'', JStr (qc_tenant_id x)), (''work_item_id'', JStr (qc_work_item_id x)),
     (''contract_version'', JStr (qc_version x)),
     (''criteria'', json_list (model_dump criterion_fields) (qc_criteria x)),
     (''artifact_scope'', json_strings (qc_artifact_scope x)),
     (''scope_in'', json_strings (qc_scope_in x)), (''scope_out'', json_strings (qc_scope_out x)),
     (''design_refs'', json_list (model_dump pin_fields) (qc_design_refs x)),
     (''design_not_applicable_reason'', json_option JStr (qc_design_na_reason x)),
     (''risk_tier'', JStr (tier_name (qc_risk_tier x)))]"

definition policy_fields :: "review_policy \<Rightarrow> (string \<times> json) list" where
  "policy_fields x =
    [(''policy_version'', JStr (pol_version x)), (''min_review_passes'', json_nat (pol_min_reviews x)),
     (''max_review_passes'', json_nat (pol_max_reviews x)),
     (''max_implementation_repairs'', json_nat (pol_max_repairs x)),
     (''same_unresolved_failure_limit'', json_nat (pol_failure_limit x)),
     (''max_invocations'', json_nat (pol_max_invocations x)),
     (''max_tokens'', json_nat (pol_max_tokens x)), (''max_cost_microusd'', json_nat (pol_max_cost x)),
     (''max_elapsed_seconds'', json_nat (pol_max_seconds x)),
     (''require_different_family'', JBool (pol_different_family x))]"

definition identity_fields :: "model_identity \<Rightarrow> (string \<times> json) list" where
  "identity_fields x =
    [(''provider'', JStr (mid_provider x)), (''model'', JStr (mid_model x)),
     (''canonical_model_id'', JStr (mid_canonical x)), (''family'', json_option JStr (mid_family x)),
     (''qualification_ref'', json_option JStr (mid_qualification x)),
     (''capability_refs'', json_strings (mid_capabilities x)), (''role'', JStr (role_name (mid_role x)))]"

definition binding_fields :: "review_binding \<Rightarrow> (string \<times> json) list" where
  "binding_fields x =
    [(''scope'', model_dump scope_fields (bnd_scope x)), (''artifact_digest'', JStr (bnd_artifact x)),
     (''contract_digest'', JStr (bnd_contract x)), (''context_digest'', JStr (bnd_context x))]"

definition artifact_fields :: "artifact_ref \<Rightarrow> (string \<times> json) list" where
  "artifact_fields x =
    [(''scope'', model_dump scope_fields (art_scope x)), (''artifact_key'', JStr (art_key x)),
     (''payload_digest'', JStr (art_payload x)),
     (''producers'', json_list (model_dump identity_fields) (art_producers x)),
     (''contract_digest'', JStr (art_contract x)), (''context_digest'', JStr (art_context x)),
     (''inputs'', json_list (model_dump pin_fields) (art_inputs x)),
     (''build_refs'', json_list (model_dump pin_fields) (art_builds x))]"

definition usage_fields :: "'a usage_scheme \<Rightarrow> (string \<times> json) list" where
  "usage_fields x = [(''tokens'', json_nat (use_tokens x)), (''cost_microusd'', json_nat (use_cost x))]"

definition reservation_fields :: "reservation \<Rightarrow> (string \<times> json) list" where
  "reservation_fields x = usage_fields x @ [(''seconds'', json_nat (res_seconds x))]"

subsection \<open>Validation\<close>

definition valid_scope :: "review_scope \<Rightarrow> bool" where
  "valid_scope x \<longleftrightarrow> sealed scope_fields x \<and> identifier_ok (scope_tenant_id x)
    \<and> identifier_ok (scope_work_item_id x) \<and> identifier_ok (scope_session_id x)"

definition valid_pin :: "pinned_reference \<Rightarrow> bool" where
  "valid_pin x \<longleftrightarrow> sealed pin_fields x \<and> identifier_ok (pin_name x) \<and> digest_ok (pin_digest x)"

definition valid_criterion :: "quality_criterion \<Rightarrow> bool" where
  "valid_criterion x \<longleftrightarrow> sealed criterion_fields x \<and> identifier_ok (crit_id x)
    \<and> text_ok (crit_predicate x) \<and> crit_required_evidence x \<noteq> []
    \<and> list_all identifier_ok (crit_required_evidence x) \<and> distinct (crit_required_evidence x)"

definition valid_contract :: "quality_contract \<Rightarrow> bool" where
  "valid_contract x \<longleftrightarrow> sealed contract_fields x \<and> identifier_ok (qc_tenant_id x)
    \<and> identifier_ok (qc_work_item_id x) \<and> identifier_ok (qc_version x)
    \<and> qc_criteria x \<noteq> [] \<and> list_all valid_criterion (qc_criteria x)
    \<and> qc_artifact_scope x \<noteq> [] \<and> list_all identifier_ok (qc_artifact_scope x)
    \<and> qc_scope_in x \<noteq> [] \<and> list_all text_ok (qc_scope_in x)
    \<and> qc_scope_out x \<noteq> [] \<and> list_all text_ok (qc_scope_out x)
    \<and> list_all valid_pin (qc_design_refs x) \<and> pred_option text_ok (qc_design_na_reason x)
    \<and> distinct (map crit_id (qc_criteria x)) \<and> distinct (qc_artifact_scope x)
    \<and> distinct (map pin_name (qc_design_refs x)) \<and> list_ex crit_mandatory (qc_criteria x)
    \<and> (qc_design_refs x \<noteq> []) \<noteq> (qc_design_na_reason x \<noteq> None)"

definition valid_policy :: "review_policy \<Rightarrow> bool" where
  "valid_policy x \<longleftrightarrow> sealed policy_fields x \<and> identifier_ok (pol_version x)
    \<and> 2 \<le> pol_min_reviews x \<and> 2 \<le> pol_max_reviews x \<and> pol_max_repairs x \<le> 3
    \<and> 1 \<le> pol_failure_limit x \<and> pol_failure_limit x \<le> 2
    \<and> 0 < pol_max_invocations x \<and> 0 < pol_max_tokens x \<and> 0 < pol_max_cost x
    \<and> 0 < pol_max_seconds x \<and> pol_min_reviews x \<le> pol_max_reviews x"

definition valid_identity :: "model_identity \<Rightarrow> bool" where
  "valid_identity x \<longleftrightarrow> sealed identity_fields x \<and> identifier_ok (mid_provider x)
    \<and> identifier_ok (mid_model x) \<and> identifier_ok (mid_canonical x)
    \<and> pred_option identifier_ok (mid_family x) \<and> pred_option digest_ok (mid_qualification x)
    \<and> list_all digest_ok (mid_capabilities x) \<and> distinct (mid_capabilities x)"

definition valid_binding :: "review_binding \<Rightarrow> bool" where
  "valid_binding x \<longleftrightarrow> sealed binding_fields x \<and> valid_scope (bnd_scope x)
    \<and> digest_ok (bnd_artifact x) \<and> digest_ok (bnd_contract x) \<and> digest_ok (bnd_context x)"

definition valid_artifact :: "artifact_ref \<Rightarrow> bool" where
  "valid_artifact x \<longleftrightarrow> sealed artifact_fields x \<and> valid_scope (art_scope x)
    \<and> identifier_ok (art_key x) \<and> digest_ok (art_payload x)
    \<and> art_producers x \<noteq> [] \<and> list_all valid_identity (art_producers x)
    \<and> digest_ok (art_contract x) \<and> digest_ok (art_context x)
    \<and> list_all valid_pin (art_inputs x) \<and> list_all valid_pin (art_builds x)
    \<and> distinct (map mid_canonical (art_producers x)) \<and> distinct (map pin_name (art_inputs x))
    \<and> distinct (map pin_name (art_builds x))
    \<and> list_all (\<lambda>p. mid_role p = PRODUCER) (art_producers x)"

definition valid_usage :: "usage \<Rightarrow> bool" where
  "valid_usage x \<longleftrightarrow> sealed usage_fields x"

definition valid_reservation :: "reservation \<Rightarrow> bool" where
  "valid_reservation x \<longleftrightarrow> sealed reservation_fields x \<and> 0 < use_tokens x \<and> 0 < res_seconds x"

definition artifact_binding_of :: "artifact_ref \<Rightarrow> review_binding" where
  "artifact_binding_of x = seal binding_fields
    \<lparr>content_digest = [], bnd_scope = art_scope x, bnd_artifact = content_digest x,
     bnd_contract = art_contract x, bnd_context = art_context x\<rparr>"

subsection \<open>The models as content-addressed values\<close>

lemma nested_scope_frame [simp, frame_simps]:
  "bnd_scope (b\<lparr>content_digest := d\<rparr>) = bnd_scope b"
  "art_scope (a\<lparr>content_digest := d\<rparr>) = art_scope a"
  by (cases b, simp) (cases a, simp)

interpretation scope: content_addressed scope_fields
  by unfold_locales (simp add: scope_fields_def)

interpretation pin: content_addressed pin_fields
  by unfold_locales (simp add: pin_fields_def)

interpretation criterion: content_addressed criterion_fields
  by unfold_locales (simp add: criterion_fields_def)

interpretation contract: content_addressed contract_fields
  by unfold_locales (simp add: contract_fields_def)

interpretation policy: content_addressed policy_fields
  by unfold_locales (simp add: policy_fields_def)

interpretation identity: content_addressed identity_fields
  by unfold_locales (simp add: identity_fields_def)

interpretation bnd: content_addressed binding_fields
  by unfold_locales (simp add: binding_fields_def)

interpretation artifact: content_addressed artifact_fields
  by unfold_locales (simp add: artifact_fields_def)

interpretation usg: content_addressed usage_fields
  by unfold_locales (simp add: usage_fields_def)

interpretation rsv: content_addressed reservation_fields
  by unfold_locales (simp add: reservation_fields_def usage_fields_def)

lemma artifact_binding_simps [simp]:
  "bnd_scope (artifact_binding_of x) = art_scope x"
  "bnd_artifact (artifact_binding_of x) = content_digest x"
  "bnd_contract (artifact_binding_of x) = art_contract x"
  "bnd_context (artifact_binding_of x) = art_context x"
  by (simp_all add: artifact_binding_of_def seal_def)

lemma artifact_binding_valid: "valid_artifact x \<Longrightarrow> valid_binding (artifact_binding_of x)"
proof -
  assume v: "valid_artifact x"
  have "sealed binding_fields (artifact_binding_of x)"
    unfolding artifact_binding_of_def by (rule bnd.sealed_seal)
  moreover have "digest_ok (content_digest x)"
    using v by (simp add: valid_artifact_def sealed_def)
  ultimately show ?thesis using v by (simp add: valid_binding_def valid_artifact_def)
qed

subsection \<open>What a digest identifies\<close>

text \<open>
  The digest of an artifact manifest binds everything in it. The only hypothesis is that SHA-256
  does not collide on the two canonical documents compared.
\<close>

definition canonical_bytes :: "(string \<times> json) list \<Rightarrow> string" where
  "canonical_bytes flds = utf8 (dumps False (JObj flds))"

definition collision_free :: "string \<Rightarrow> string \<Rightarrow> bool" where
  "collision_free s t \<longleftrightarrow> (sha256_hex s = sha256_hex t \<longrightarrow> s = t)"

lemma canon_json_strings [simp]: "canon (json_strings xs) = json_strings xs"
  by (simp add: json_strings_def)

lemma json_strings_inj [simp]: "json_strings xs = json_strings ys \<longleftrightarrow> xs = ys"
  by (simp add: json_strings_def inj_map_eq_map inj_def)

lemma canon_json_option_JStr [simp]: "canon (json_option JStr x) = json_option JStr x"
  by (cases x) (simp_all add: json_option_def)

lemma json_option_JStr_inj [simp]: "json_option JStr x = json_option JStr y \<longleftrightarrow> x = y"
  by (cases x; cases y) (simp_all add: json_option_def)

lemma role_name_inj [simp]: "role_name a = role_name b \<longleftrightarrow> a = b"
  by (cases a; cases b) simp_all

lemma canon_list_inj:
  assumes "canon (json_list f xs) = canon (json_list f ys)"
    and "\<And>x y. x \<in> set xs \<Longrightarrow> y \<in> set ys \<Longrightarrow> canon (f x) = canon (f y) \<Longrightarrow> x = y"
  shows "xs = ys"
proof -
  from assms(1) have "map (\<lambda>x. canon (f x)) xs = map (\<lambda>x. canon (f x)) ys"
    by (simp add: json_list_def comp_def)
  then have "list_all2 (\<lambda>x y. canon (f x) = canon (f y)) xs ys"
    by (simp add: list_all2_conv_all_nth list_eq_iff_nth_eq)
  then have "list_all2 (=) xs ys"
    by (rule list.rel_mono_strong) (auto intro: assms(2))
  then show ?thesis by (simp add: list.rel_eq)
qed

lemma canon_dump_scope: "canon (model_dump scope_fields x) = canon (model_dump scope_fields y) \<Longrightarrow> x = y"
  unfolding model_dump_def
  by (drule canon_obj_fields, simp_all add: scope_fields_def)

lemma canon_dump_pin: "canon (model_dump pin_fields x) = canon (model_dump pin_fields y) \<Longrightarrow> x = y"
  unfolding model_dump_def
  by (drule canon_obj_fields, simp_all add: pin_fields_def)

lemma canon_dump_identity:
  "canon (model_dump identity_fields x) = canon (model_dump identity_fields y) \<Longrightarrow> x = y"
  unfolding model_dump_def
  by (drule canon_obj_fields, simp_all add: identity_fields_def)

lemma artifact_fields_inj:
  assumes "canon (JObj (artifact_fields x)) = canon (JObj (artifact_fields y))"
  shows "review_model.more x = review_model.more y"
proof -
  from canon_obj_fields [OF assms]
  have eqs: "canon (model_dump scope_fields (art_scope x)) = canon (model_dump scope_fields (art_scope y))"
    "art_key x = art_key y" "art_payload x = art_payload y"
    "canon (json_list (model_dump identity_fields) (art_producers x)) =
     canon (json_list (model_dump identity_fields) (art_producers y))"
    "art_contract x = art_contract y" "art_context x = art_context y"
    "canon (json_list (model_dump pin_fields) (art_inputs x)) = canon (json_list (model_dump pin_fields) (art_inputs y))"
    "canon (json_list (model_dump pin_fields) (art_builds x)) = canon (json_list (model_dump pin_fields) (art_builds y))"
    by (simp_all add: artifact_fields_def)
  have "art_scope x = art_scope y" "art_producers x = art_producers y"
    "art_inputs x = art_inputs y" "art_builds x = art_builds y"
    using canon_dump_scope [OF eqs(1)] canon_list_inj [OF eqs(4) canon_dump_identity]
      canon_list_inj [OF eqs(7) canon_dump_pin] canon_list_inj [OF eqs(8) canon_dump_pin] by auto
  with eqs(2,3,5,6) show ?thesis by (cases x, cases y) simp
qed

text \<open>
  C1. Two validated artifact manifests with the same content digest are the same manifest, field
  by field, unless SHA-256 collides on their canonical JSON documents: the canonical encoding
  (sorted keys, escapes, UTF-8) loses nothing.
\<close>

theorem artifact_digest_binds:
  assumes "valid_artifact x" and "valid_artifact y" and "content_digest x = content_digest y"
    and "collision_free (canonical_bytes (artifact_fields x)) (canonical_bytes (artifact_fields y))"
  shows "x = y"
proof -
  have sx: "sealed artifact_fields x" and sy: "sealed artifact_fields y"
    using assms(1,2) by (simp_all add: valid_artifact_def)
  with assms(3) have "digest_of (JObj (artifact_fields x)) = digest_of (JObj (artifact_fields y))"
    by (simp add: sealed_def)
  then have "canon (JObj (artifact_fields x)) = canon (JObj (artifact_fields y))"
    by (rule digest_of_eq) (use assms(4) in \<open>simp add: collision_free_def canonical_bytes_def\<close>)
  then have "review_model.more x = review_model.more y" by (rule artifact_fields_inj)
  with assms(3) show ?thesis by (cases x, cases y) simp
qed

end
