(* ===== verification/Review_Report.thy ===== *)
theory Review_Report
  imports Review_Model
begin

text \<open>
  \<^verbatim>\<open>domain/review_report.py\<close>: structured reports. The fingerprint of a finding is derived from its
  criterion, behaviour and cause keys (\<open>finding_fingerprint\<close>); validation rejects any other value.
\<close>

datatype disposition = PASS | FAIL | UNKNOWN | NOT_APPLICABLE
datatype verdict = ACCEPT | CHANGES_REQUIRED | ESCALATE | CONTEXT_GAP | CONTRACT_GAP
datatype severity = LOW | MEDIUM | HIGH | CRITICAL
datatype finding_kind = DEFECT | EVIDENCE_GAP | ADVISORY | CONTRACT_GAP_FINDING
datatype resolution_kind = FIXED | REJECTED_WITH_EVIDENCE | DEFERRED_ADVISORY
datatype recheck_status = RECHECK_PASS | RECHECK_FAIL | RECHECK_UNKNOWN

fun disposition_name :: "disposition \<Rightarrow> string" where
  "disposition_name PASS = ''PASS''" | "disposition_name FAIL = ''FAIL''"
| "disposition_name UNKNOWN = ''UNKNOWN''" | "disposition_name NOT_APPLICABLE = ''NOT_APPLICABLE''"

fun verdict_name :: "verdict \<Rightarrow> string" where
  "verdict_name ACCEPT = ''ACCEPT''" | "verdict_name CHANGES_REQUIRED = ''CHANGES_REQUIRED''"
| "verdict_name ESCALATE = ''ESCALATE''" | "verdict_name CONTEXT_GAP = ''CONTEXT_GAP''"
| "verdict_name CONTRACT_GAP = ''CONTRACT_GAP''"

fun severity_name :: "severity \<Rightarrow> string" where
  "severity_name LOW = ''LOW''" | "severity_name MEDIUM = ''MEDIUM''"
| "severity_name HIGH = ''HIGH''" | "severity_name CRITICAL = ''CRITICAL''"

fun finding_kind_name :: "finding_kind \<Rightarrow> string" where
  "finding_kind_name DEFECT = ''DEFECT''" | "finding_kind_name EVIDENCE_GAP = ''EVIDENCE_GAP''"
| "finding_kind_name ADVISORY = ''ADVISORY''"
| "finding_kind_name CONTRACT_GAP_FINDING = ''CONTRACT_GAP''"

fun resolution_kind_name :: "resolution_kind \<Rightarrow> string" where
  "resolution_kind_name FIXED = ''FIXED''"
| "resolution_kind_name REJECTED_WITH_EVIDENCE = ''REJECTED_WITH_EVIDENCE''"
| "resolution_kind_name DEFERRED_ADVISORY = ''DEFERRED_ADVISORY''"

fun recheck_name :: "recheck_status \<Rightarrow> string" where
  "recheck_name RECHECK_PASS = ''PASS''" | "recheck_name RECHECK_FAIL = ''FAIL''"
| "recheck_name RECHECK_UNKNOWN = ''UNKNOWN''"

record evidence = review_model +
  ev_id :: string
  ev_digest :: string
  ev_artifact :: string
  ev_observation :: string

record criterion_disposition = review_model +
  disp_criterion :: string
  disp_status :: disposition
  disp_evidence :: "evidence list"

record finding = review_model +
  fnd_criterion :: string
  fnd_behavior :: string
  fnd_cause :: string
  fnd_severity :: severity
  fnd_kind :: finding_kind
  fnd_artifact :: string
  fnd_location :: string
  fnd_scenario :: string
  fnd_evidence :: "evidence list"
  fnd_consequence :: string
  fnd_correction :: string
  fnd_required_recheck :: string
  fnd_fingerprint :: string

record finding_resolution = review_model +
  rsl_fingerprint :: string
  rsl_report :: string
  rsl_disposition :: resolution_kind
  rsl_evidence :: "evidence list"
  rsl_explanation :: string

record finding_recheck = review_model +
  rck_fingerprint :: string
  rck_resolution :: string
  rck_status :: recheck_status
  rck_evidence :: "evidence list"
  rck_check :: string

record review_report = review_model +
  rep_invocation :: string
  rep_binding :: review_binding
  rep_reviewer :: model_identity
  rep_complete :: bool
  rep_criteria :: "criterion_disposition list"
  rep_findings :: "finding list"
  rep_rechecks :: "finding_recheck list"
  rep_verdict :: verdict
  rep_raw_text :: string

record repair_report = review_model +
  rpr_invocation :: string
  rpr_binding :: review_binding
  rpr_producer :: model_identity
  rpr_artifact :: artifact_ref
  rpr_resolutions :: "finding_resolution list"

definition finding_fingerprint :: "string \<Rightarrow> string \<Rightarrow> string \<Rightarrow> string" where
  "finding_fingerprint criterion behavior cause = digest_of (json_strings [criterion, behavior, cause])"

subsection \<open>Dumped fields\<close>

definition evidence_fields :: "evidence \<Rightarrow> (string \<times> json) list" where
  "evidence_fields x =
    [(''evidence_id'', JStr (ev_id x)), (''digest'', JStr (ev_digest x)),
     (''artifact_digest'', JStr (ev_artifact x)), (''observation'', JStr (ev_observation x))]"

definition disposition_fields :: "criterion_disposition \<Rightarrow> (string \<times> json) list" where
  "disposition_fields x =
    [(''criterion_id'', JStr (disp_criterion x)), (''status'', JStr (disposition_name (disp_status x))),
     (''evidence'', json_list (model_dump evidence_fields) (disp_evidence x))]"

definition finding_fields :: "finding \<Rightarrow> (string \<times> json) list" where
  "finding_fields x =
    [(''criterion_id'', JStr (fnd_criterion x)), (''behavior_id'', JStr (fnd_behavior x)),
     (''cause_id'', JStr (fnd_cause x)), (''severity'', JStr (severity_name (fnd_severity x))),
     (''kind'', JStr (finding_kind_name (fnd_kind x))), (''artifact_digest'', JStr (fnd_artifact x)),
     (''location'', JStr (fnd_location x)), (''scenario'', JStr (fnd_scenario x)),
     (''evidence'', json_list (model_dump evidence_fields) (fnd_evidence x)),
     (''consequence'', JStr (fnd_consequence x)), (''correction'', JStr (fnd_correction x)),
     (''required_recheck'', JStr (fnd_required_recheck x)), (''fingerprint'', JStr (fnd_fingerprint x))]"

definition resolution_fields :: "finding_resolution \<Rightarrow> (string \<times> json) list" where
  "resolution_fields x =
    [(''fingerprint'', JStr (rsl_fingerprint x)), (''report_digest'', JStr (rsl_report x)),
     (''disposition'', JStr (resolution_kind_name (rsl_disposition x))),
     (''evidence'', json_list (model_dump evidence_fields) (rsl_evidence x)),
     (''explanation'', JStr (rsl_explanation x))]"

definition recheck_fields :: "finding_recheck \<Rightarrow> (string \<times> json) list" where
  "recheck_fields x =
    [(''fingerprint'', JStr (rck_fingerprint x)), (''resolution_digest'', JStr (rck_resolution x)),
     (''status'', JStr (recheck_name (rck_status x))),
     (''evidence'', json_list (model_dump evidence_fields) (rck_evidence x)),
     (''check'', JStr (rck_check x))]"

definition report_fields :: "review_report \<Rightarrow> (string \<times> json) list" where
  "report_fields x =
    [(''invocation_id'', JStr (rep_invocation x)), (''binding'', model_dump binding_fields (rep_binding x)),
     (''reviewer'', model_dump identity_fields (rep_reviewer x)), (''complete'', JBool (rep_complete x)),
     (''criteria'', json_list (model_dump disposition_fields) (rep_criteria x)),
     (''findings'', json_list (model_dump finding_fields) (rep_findings x)),
     (''rechecks'', json_list (model_dump recheck_fields) (rep_rechecks x)),
     (''verdict'', JStr (verdict_name (rep_verdict x))), (''raw_text'', JStr (rep_raw_text x))]"

definition repair_fields :: "repair_report \<Rightarrow> (string \<times> json) list" where
  "repair_fields x =
    [(''invocation_id'', JStr (rpr_invocation x)), (''binding'', model_dump binding_fields (rpr_binding x)),
     (''producer'', model_dump identity_fields (rpr_producer x)),
     (''artifact'', model_dump artifact_fields (rpr_artifact x)),
     (''resolutions'', json_list (model_dump resolution_fields) (rpr_resolutions x))]"

subsection \<open>Validation\<close>

definition valid_evidence :: "evidence \<Rightarrow> bool" where
  "valid_evidence x \<longleftrightarrow> sealed evidence_fields x \<and> identifier_ok (ev_id x) \<and> digest_ok (ev_digest x)
    \<and> digest_ok (ev_artifact x) \<and> text_ok (ev_observation x)"

definition valid_disposition :: "criterion_disposition \<Rightarrow> bool" where
  "valid_disposition x \<longleftrightarrow> sealed disposition_fields x \<and> identifier_ok (disp_criterion x)
    \<and> list_all valid_evidence (disp_evidence x) \<and> distinct (map ev_id (disp_evidence x))"

definition valid_finding :: "finding \<Rightarrow> bool" where
  "valid_finding x \<longleftrightarrow> sealed finding_fields x \<and> identifier_ok (fnd_criterion x)
    \<and> identifier_ok (fnd_behavior x) \<and> identifier_ok (fnd_cause x) \<and> digest_ok (fnd_artifact x)
    \<and> text_ok (fnd_location x) \<and> text_ok (fnd_scenario x) \<and> fnd_evidence x \<noteq> []
    \<and> list_all valid_evidence (fnd_evidence x) \<and> text_ok (fnd_consequence x)
    \<and> text_ok (fnd_correction x) \<and> text_ok (fnd_required_recheck x)
    \<and> fnd_fingerprint x = finding_fingerprint (fnd_criterion x) (fnd_behavior x) (fnd_cause x)"

definition valid_resolution :: "finding_resolution \<Rightarrow> bool" where
  "valid_resolution x \<longleftrightarrow> sealed resolution_fields x \<and> digest_ok (rsl_fingerprint x)
    \<and> digest_ok (rsl_report x) \<and> rsl_evidence x \<noteq> [] \<and> list_all valid_evidence (rsl_evidence x)
    \<and> text_ok (rsl_explanation x)"

definition valid_recheck :: "finding_recheck \<Rightarrow> bool" where
  "valid_recheck x \<longleftrightarrow> sealed recheck_fields x \<and> digest_ok (rck_fingerprint x)
    \<and> digest_ok (rck_resolution x) \<and> rck_evidence x \<noteq> [] \<and> list_all valid_evidence (rck_evidence x)
    \<and> text_ok (rck_check x)"

definition valid_report :: "review_report \<Rightarrow> bool" where
  "valid_report x \<longleftrightarrow> sealed report_fields x \<and> identifier_ok (rep_invocation x)
    \<and> valid_binding (rep_binding x) \<and> valid_identity (rep_reviewer x)
    \<and> list_all valid_disposition (rep_criteria x) \<and> list_all valid_finding (rep_findings x)
    \<and> list_all valid_recheck (rep_rechecks x)"

definition valid_repair :: "repair_report \<Rightarrow> bool" where
  "valid_repair x \<longleftrightarrow> sealed repair_fields x \<and> identifier_ok (rpr_invocation x)
    \<and> valid_binding (rpr_binding x) \<and> valid_identity (rpr_producer x)
    \<and> valid_artifact (rpr_artifact x) \<and> rpr_resolutions x \<noteq> []
    \<and> list_all valid_resolution (rpr_resolutions x)"

subsection \<open>The reports as content-addressed values\<close>

lemma nested_report_frame [simp, frame_simps]:
  "rep_binding (r\<lparr>content_digest := d\<rparr>) = rep_binding r"
  "rep_reviewer (r\<lparr>content_digest := d\<rparr>) = rep_reviewer r"
  by (cases r, simp)+

lemma nested_repair_frame [simp, frame_simps]:
  "rpr_binding (r\<lparr>content_digest := d\<rparr>) = rpr_binding r"
  "rpr_producer (r\<lparr>content_digest := d\<rparr>) = rpr_producer r"
  "rpr_artifact (r\<lparr>content_digest := d\<rparr>) = rpr_artifact r"
  by (cases r, simp)+

interpretation evd: content_addressed evidence_fields
  by unfold_locales (simp add: evidence_fields_def)

interpretation dsp: content_addressed disposition_fields
  by unfold_locales (simp add: disposition_fields_def)

interpretation fnd: content_addressed finding_fields
  by unfold_locales (simp add: finding_fields_def)

interpretation rsl: content_addressed resolution_fields
  by unfold_locales (simp add: resolution_fields_def)

interpretation rck: content_addressed recheck_fields
  by unfold_locales (simp add: recheck_fields_def)

interpretation rep: content_addressed report_fields
  by unfold_locales (simp add: report_fields_def)

interpretation rpr: content_addressed repair_fields
  by unfold_locales (simp add: repair_fields_def)

text \<open>
  The fingerprint is a function of the three keys alone: severity, wording, location, model and
  artifact do not enter it. Different keys give different fingerprints unless SHA-256 collides.
\<close>

lemma fingerprint_keys:
  assumes "finding_fingerprint c b k = finding_fingerprint c' b' k'"
    and "collision_free (utf8 (dumps False (json_strings [c, b, k]))) (utf8 (dumps False (json_strings [c', b', k'])))"
  shows "c = c' \<and> b = b' \<and> k = k'"
proof -
  have "canon (json_strings [c, b, k]) = canon (json_strings [c', b', k'])"
    by (rule digest_of_eq) (use assms in \<open>simp_all add: finding_fingerprint_def collision_free_def\<close>)
  then show ?thesis by simp
qed

lemma valid_finding_digest: "valid_finding f \<Longrightarrow> digest_ok (fnd_fingerprint f)"
  by (simp add: valid_finding_def finding_fingerprint_def)

lemma valid_report_digest: "valid_report r \<Longrightarrow> digest_ok (content_digest r)"
  by (simp add: valid_report_def sealed_def)

end
