(* ===== verification/Review_Session.thy ===== *)
theory Review_Session
  imports Review_Report
begin

text \<open>
  \<^verbatim>\<open>domain/review_session.py\<close>: the attempt ledger of one review unit and the state it materializes.
  \<open>session\<close> state, attempts and records are values; the operations are in the policy theories.

  Pydantic is not part of the repository, so what it does with text is a parameter \<open>px\<close>: how it
  writes an instant (\<open>iso_moment\<close>), how it writes a report (\<open>encode_\<dots>\<close>), and what instance, if any,
  it reads from text (\<open>decode_\<dots>\<close>; \<open>None\<close> where it raises \<^verbatim>\<open>ValidationError\<close> before the constraints
  declared in the sources are checked). The declared constraints are checked by \<open>valid_\<dots>\<close>.
\<close>

record pydantic =
  iso_moment :: "moment \<Rightarrow> string"
  decode_review :: "string \<Rightarrow> review_report option"
  decode_repair :: "string \<Rightarrow> repair_report option"
  encode_review :: "review_report \<Rightarrow> string"
  encode_repair :: "repair_report \<Rightarrow> string"

datatype review_reason =
    R_TIME_WINDOW
  | R_ARTIFACT_DRIFT
  | R_IDENTITY_UNAVAILABLE
  | R_BINDING_MISMATCH
  | R_REPLAY
  | R_RECEIPT_UNAVAILABLE
  | R_RECEIPT_MISMATCH
  | R_AUTHORIZATION_REVOKED
  | R_EXECUTION_INVALID
  | R_OUTPUT_LIMIT
  | R_BUDGET_OVERRUN
  | R_INVOCATION_LIMIT
  | R_TOKEN_LIMIT
  | R_COST_LIMIT
  | R_REPAIR_LIMIT
  | R_REVIEW_LIMIT
  | R_REPEATED_FAILURE
  | R_NO_PROGRESS
  | R_CRITICAL
  | R_CONTRACT_GAP
  | R_CONTEXT_GAP
  | R_REVIEW_ESCALATED
  | R_MALFORMED_REPORT
  | R_INCOMPLETE_CRITERIA
  | R_MISSING_EVIDENCE
  | R_INVALID_CLOSURE
  | R_INVALID_REPAIR
  | R_UNSUPPORTED_VERDICT
  | R_MANDATORY_CRITERIA
  | R_MIN_REVIEWS
  | R_UNREVIEWED_ARTIFACT
  | R_OPEN_BLOCKERS
  | R_PENDING

fun reason_name :: "review_reason \<Rightarrow> string" where
  "reason_name R_TIME_WINDOW = ''TIME_WINDOW''"
| "reason_name R_ARTIFACT_DRIFT = ''ARTIFACT_DRIFT''"
| "reason_name R_IDENTITY_UNAVAILABLE = ''IDENTITY_UNAVAILABLE''"
| "reason_name R_BINDING_MISMATCH = ''BINDING_MISMATCH''"
| "reason_name R_REPLAY = ''REPLAY''"
| "reason_name R_RECEIPT_UNAVAILABLE = ''RECEIPT_UNAVAILABLE''"
| "reason_name R_RECEIPT_MISMATCH = ''RECEIPT_MISMATCH''"
| "reason_name R_AUTHORIZATION_REVOKED = ''AUTHORIZATION_REVOKED''"
| "reason_name R_EXECUTION_INVALID = ''EXECUTION_INVALID''"
| "reason_name R_OUTPUT_LIMIT = ''OUTPUT_LIMIT''"
| "reason_name R_BUDGET_OVERRUN = ''BUDGET_OVERRUN''"
| "reason_name R_INVOCATION_LIMIT = ''INVOCATION_LIMIT''"
| "reason_name R_TOKEN_LIMIT = ''TOKEN_LIMIT''"
| "reason_name R_COST_LIMIT = ''COST_LIMIT''"
| "reason_name R_REPAIR_LIMIT = ''REPAIR_LIMIT''"
| "reason_name R_REVIEW_LIMIT = ''REVIEW_LIMIT''"
| "reason_name R_REPEATED_FAILURE = ''REPEATED_FAILURE''"
| "reason_name R_NO_PROGRESS = ''NO_PROGRESS''"
| "reason_name R_CRITICAL = ''CRITICAL''"
| "reason_name R_CONTRACT_GAP = ''CONTRACT_GAP''"
| "reason_name R_CONTEXT_GAP = ''CONTEXT_GAP''"
| "reason_name R_REVIEW_ESCALATED = ''REVIEW_ESCALATED''"
| "reason_name R_MALFORMED_REPORT = ''MALFORMED_REPORT''"
| "reason_name R_INCOMPLETE_CRITERIA = ''INCOMPLETE_CRITERIA''"
| "reason_name R_MISSING_EVIDENCE = ''MISSING_EVIDENCE''"
| "reason_name R_INVALID_CLOSURE = ''INVALID_CLOSURE''"
| "reason_name R_INVALID_REPAIR = ''INVALID_REPAIR''"
| "reason_name R_UNSUPPORTED_VERDICT = ''UNSUPPORTED_VERDICT''"
| "reason_name R_MANDATORY_CRITERIA = ''MANDATORY_CRITERIA''"
| "reason_name R_MIN_REVIEWS = ''MIN_REVIEWS''"
| "reason_name R_UNREVIEWED_ARTIFACT = ''UNREVIEWED_ARTIFACT''"
| "reason_name R_OPEN_BLOCKERS = ''OPEN_BLOCKERS''"
| "reason_name R_PENDING = ''PENDING''"

datatype invocation_kind = REVIEW | REPAIR

datatype execution_stop =
    STOP_ARTIFACT_DRIFT | STOP_TIME_WINDOW | STOP_AUTHORIZATION_REVOKED
  | STOP_EXECUTION_INVALID | STOP_OUTPUT_LIMIT

fun kind_name :: "invocation_kind \<Rightarrow> string" where
  "kind_name REVIEW = ''REVIEW''" | "kind_name REPAIR = ''REPAIR''"

fun stop_reason :: "execution_stop \<Rightarrow> review_reason" where
  "stop_reason STOP_ARTIFACT_DRIFT = R_ARTIFACT_DRIFT"
| "stop_reason STOP_TIME_WINDOW = R_TIME_WINDOW"
| "stop_reason STOP_AUTHORIZATION_REVOKED = R_AUTHORIZATION_REVOKED"
| "stop_reason STOP_EXECUTION_INVALID = R_EXECUTION_INVALID"
| "stop_reason STOP_OUTPUT_LIMIT = R_OUTPUT_LIMIT"

record review_seed = review_model +
  seed_scope :: review_scope
  seed_contract :: quality_contract
  seed_policy :: review_policy
  seed_doer :: model_identity
  seed_reviewers :: "model_identity list"
  seed_artifact :: artifact_ref
  seed_started_at :: moment

record invocation = review_model +
  inv_id :: string
  inv_kind :: invocation_kind
  inv_binding :: review_binding
  inv_actor :: model_identity
  inv_reservation :: reservation
  inv_started_at :: moment

record invocation_receipt = review_model +
  rcp_binding :: review_binding
  rcp_invocation :: string
  rcp_execution :: string
  rcp_model :: model_identity
  rcp_usage :: usage
  rcp_cached :: bool

record completion = review_model +
  cmp_invocation :: string
  cmp_finished_at :: moment
  cmp_receipt :: "invocation_receipt option"
  cmp_output :: "string option"
  cmp_failure :: "execution_stop option"

record review_attempt = review_model +
  att_invocation :: invocation
  att_completion :: "completion option"

record finding_record = review_model +
  rec_finding :: finding
  rec_report :: string
  rec_blocking :: bool
  rec_occurrences :: nat
  rec_closed_by :: "string option"
  rec_closed_artifact :: "string option"

record resolution_record = review_model +
  rr_resolution :: finding_resolution
  rr_invocation :: string
  rr_artifact :: string
  rr_producer :: model_identity

record failure_count = review_model +
  fc_reason :: review_reason
  fc_occurrences :: nat

record budget_state = review_model +
  bud_invocations :: nat
  bud_repairs :: nat
  bud_tokens_spent :: nat
  bud_cost_spent :: nat
  bud_tokens_reserved :: nat
  bud_cost_reserved :: nat

record review_state = review_model +
  st_artifact :: artifact_ref
  st_last_at :: moment
  st_budget :: budget_state
  st_pending :: "invocation option"
  st_invocation_ids :: "string list"
  st_execution_ids :: "string list"
  st_reports :: "review_report list"
  st_findings :: "finding_record list"
  st_resolutions :: "resolution_record list"
  st_failures :: "failure_count list"
  st_terminal :: "review_reason list"

record review_session = review_model +
  ses_seed :: review_seed
  ses_attempts :: "review_attempt list"
  ses_state :: review_state

datatype decision_status = ELIGIBLE | NEEDS_REVIEW | NEEDS_REPAIR | BLOCKED | ESCALATED

record review_decision = review_model +
  dec_status :: decision_status
  dec_reasons :: "review_reason list"
  dec_session :: string
  dec_artifact :: string
  dec_completed :: nat

definition open_findings :: "review_state \<Rightarrow> finding_record list" where
  "open_findings st = filter (\<lambda>r. rec_closed_by r = None) (st_findings st)"

definition decision_eligible :: "review_decision \<Rightarrow> bool" where
  "decision_eligible d \<longleftrightarrow> dec_status d = ELIGIBLE"

fun status_name :: "decision_status \<Rightarrow> string" where
  "status_name ELIGIBLE = ''ELIGIBLE''" | "status_name NEEDS_REVIEW = ''NEEDS_REVIEW''"
| "status_name NEEDS_REPAIR = ''NEEDS_REPAIR''" | "status_name BLOCKED = ''BLOCKED''"
| "status_name ESCALATED = ''ESCALATE''"

subsection \<open>Dumped fields\<close>

definition json_moment :: "'a pydantic_scheme \<Rightarrow> moment \<Rightarrow> json" where
  "json_moment px t = JStr (iso_moment px t)"

definition json_reason :: "review_reason \<Rightarrow> json" where
  "json_reason r = JStr (reason_name r)"

definition seed_fields :: "'a pydantic_scheme \<Rightarrow> review_seed \<Rightarrow> (string \<times> json) list" where
  "seed_fields px x =
    [(''scope'', model_dump scope_fields (seed_scope x)),
     (''contract'', model_dump contract_fields (seed_contract x)),
     (''policy'', model_dump policy_fields (seed_policy x)),
     (''original_doer'', model_dump identity_fields (seed_doer x)),
     (''reviewers'', json_list (model_dump identity_fields) (seed_reviewers x)),
     (''initial_artifact'', model_dump artifact_fields (seed_artifact x)),
     (''started_at'', json_moment px (seed_started_at x))]"

definition invocation_fields :: "'a pydantic_scheme \<Rightarrow> invocation \<Rightarrow> (string \<times> json) list" where
  "invocation_fields px x =
    [(''invocation_id'', JStr (inv_id x)), (''kind'', JStr (kind_name (inv_kind x))),
     (''binding'', model_dump binding_fields (inv_binding x)),
     (''actor'', model_dump identity_fields (inv_actor x)),
     (''reservation'', model_dump reservation_fields (inv_reservation x)),
     (''started_at'', json_moment px (inv_started_at x))]"

definition receipt_fields :: "invocation_receipt \<Rightarrow> (string \<times> json) list" where
  "receipt_fields x =
    [(''binding'', model_dump binding_fields (rcp_binding x)), (''invocation_id'', JStr (rcp_invocation x)),
     (''execution_id'', JStr (rcp_execution x)),
     (''actual_model'', model_dump identity_fields (rcp_model x)),
     (''usage'', model_dump usage_fields (rcp_usage x)), (''cached'', JBool (rcp_cached x))]"

definition completion_fields :: "'a pydantic_scheme \<Rightarrow> completion \<Rightarrow> (string \<times> json) list" where
  "completion_fields px x =
    [(''invocation_id'', JStr (cmp_invocation x)), (''finished_at'', json_moment px (cmp_finished_at x)),
     (''receipt'', json_option (model_dump receipt_fields) (cmp_receipt x)),
     (''output_json'', json_option JStr (cmp_output x)),
     (''failure_reason'', json_option (\<lambda>s. json_reason (stop_reason s)) (cmp_failure x))]"

definition attempt_fields :: "'a pydantic_scheme \<Rightarrow> review_attempt \<Rightarrow> (string \<times> json) list" where
  "attempt_fields px x =
    [(''invocation'', model_dump (invocation_fields px) (att_invocation x)),
     (''completion'', json_option (model_dump (completion_fields px)) (att_completion x))]"

definition record_fields :: "finding_record \<Rightarrow> (string \<times> json) list" where
  "record_fields x =
    [(''finding'', model_dump finding_fields (rec_finding x)), (''report_digest'', JStr (rec_report x)),
     (''blocking'', JBool (rec_blocking x)), (''occurrences'', json_nat (rec_occurrences x)),
     (''closed_by'', json_option JStr (rec_closed_by x)),
     (''closed_artifact_digest'', json_option JStr (rec_closed_artifact x))]"

definition resolution_record_fields :: "resolution_record \<Rightarrow> (string \<times> json) list" where
  "resolution_record_fields x =
    [(''resolution'', model_dump resolution_fields (rr_resolution x)),
     (''repair_invocation_id'', JStr (rr_invocation x)), (''artifact_digest'', JStr (rr_artifact x)),
     (''producer'', model_dump identity_fields (rr_producer x))]"

definition failure_fields :: "failure_count \<Rightarrow> (string \<times> json) list" where
  "failure_fields x =
    [(''reason'', json_reason (fc_reason x)), (''occurrences'', json_nat (fc_occurrences x))]"

definition budget_fields :: "budget_state \<Rightarrow> (string \<times> json) list" where
  "budget_fields x =
    [(''invocations'', json_nat (bud_invocations x)), (''repairs'', json_nat (bud_repairs x)),
     (''tokens_spent'', json_nat (bud_tokens_spent x)),
     (''cost_microusd_spent'', json_nat (bud_cost_spent x)),
     (''tokens_reserved'', json_nat (bud_tokens_reserved x)),
     (''cost_microusd_reserved'', json_nat (bud_cost_reserved x))]"

definition state_fields :: "'a pydantic_scheme \<Rightarrow> review_state \<Rightarrow> (string \<times> json) list" where
  "state_fields px x =
    [(''artifact'', model_dump artifact_fields (st_artifact x)),
     (''last_at'', json_moment px (st_last_at x)),
     (''budget'', model_dump budget_fields (st_budget x)),
     (''pending'', json_option (model_dump (invocation_fields px)) (st_pending x)),
     (''invocation_ids'', json_strings (st_invocation_ids x)),
     (''execution_ids'', json_strings (st_execution_ids x)),
     (''valid_completed_reports'', json_list (model_dump report_fields) (st_reports x)),
     (''findings'', json_list (model_dump record_fields) (st_findings x)),
     (''resolutions'', json_list (model_dump resolution_record_fields) (st_resolutions x)),
     (''failures'', json_list (model_dump failure_fields) (st_failures x)),
     (''terminal_reasons'', json_list json_reason (st_terminal x))]"

definition session_fields :: "'a pydantic_scheme \<Rightarrow> review_session \<Rightarrow> (string \<times> json) list" where
  "session_fields px x =
    [(''seed'', model_dump (seed_fields px) (ses_seed x)),
     (''attempts'', json_list (model_dump (attempt_fields px)) (ses_attempts x)),
     (''state'', model_dump (state_fields px) (ses_state x))]"

definition decision_fields :: "review_decision \<Rightarrow> (string \<times> json) list" where
  "decision_fields x =
    [(''status'', JStr (status_name (dec_status x))), (''reasons'', json_list json_reason (dec_reasons x)),
     (''session_digest'', JStr (dec_session x)), (''artifact_digest'', JStr (dec_artifact x)),
     (''completed_reviews'', json_nat (dec_completed x))]"

subsection \<open>Validation\<close>

definition valid_moment :: "moment \<Rightarrow> bool" where
  "valid_moment t \<longleftrightarrow> 0 \<le> t \<and> t < dt_limit"

definition valid_seed :: "'a pydantic_scheme \<Rightarrow> review_seed \<Rightarrow> bool" where
  "valid_seed px x \<longleftrightarrow> sealed (seed_fields px) x \<and> valid_scope (seed_scope x)
    \<and> valid_contract (seed_contract x) \<and> valid_policy (seed_policy x) \<and> valid_identity (seed_doer x)
    \<and> list_all valid_identity (seed_reviewers x) \<and> valid_artifact (seed_artifact x)
    \<and> valid_moment (seed_started_at x)"

definition valid_invocation :: "'a pydantic_scheme \<Rightarrow> invocation \<Rightarrow> bool" where
  "valid_invocation px x \<longleftrightarrow> sealed (invocation_fields px) x \<and> identifier_ok (inv_id x)
    \<and> valid_binding (inv_binding x) \<and> valid_identity (inv_actor x)
    \<and> valid_reservation (inv_reservation x) \<and> valid_moment (inv_started_at x)"

definition valid_receipt :: "invocation_receipt \<Rightarrow> bool" where
  "valid_receipt x \<longleftrightarrow> sealed receipt_fields x \<and> valid_binding (rcp_binding x)
    \<and> identifier_ok (rcp_invocation x) \<and> identifier_ok (rcp_execution x)
    \<and> valid_identity (rcp_model x) \<and> valid_usage (rcp_usage x)"

definition valid_completion :: "'a pydantic_scheme \<Rightarrow> completion \<Rightarrow> bool" where
  "valid_completion px x \<longleftrightarrow> sealed (completion_fields px) x \<and> identifier_ok (cmp_invocation x)
    \<and> valid_moment (cmp_finished_at x) \<and> pred_option valid_receipt (cmp_receipt x)"

definition valid_attempt :: "'a pydantic_scheme \<Rightarrow> review_attempt \<Rightarrow> bool" where
  "valid_attempt px x \<longleftrightarrow> sealed (attempt_fields px) x \<and> valid_invocation px (att_invocation x)
    \<and> pred_option (valid_completion px) (att_completion x)"

definition valid_record :: "finding_record \<Rightarrow> bool" where
  "valid_record x \<longleftrightarrow> sealed record_fields x \<and> valid_finding (rec_finding x) \<and> digest_ok (rec_report x)
    \<and> pred_option digest_ok (rec_closed_by x) \<and> pred_option digest_ok (rec_closed_artifact x)"

definition valid_resolution_record :: "resolution_record \<Rightarrow> bool" where
  "valid_resolution_record x \<longleftrightarrow> sealed resolution_record_fields x \<and> valid_resolution (rr_resolution x)
    \<and> identifier_ok (rr_invocation x) \<and> digest_ok (rr_artifact x) \<and> valid_identity (rr_producer x)"

definition valid_failure :: "failure_count \<Rightarrow> bool" where
  "valid_failure x \<longleftrightarrow> sealed failure_fields x"

definition valid_budget :: "budget_state \<Rightarrow> bool" where
  "valid_budget x \<longleftrightarrow> sealed budget_fields x"

definition valid_state :: "'a pydantic_scheme \<Rightarrow> review_state \<Rightarrow> bool" where
  "valid_state px x \<longleftrightarrow> sealed (state_fields px) x \<and> valid_artifact (st_artifact x)
    \<and> valid_moment (st_last_at x) \<and> valid_budget (st_budget x)
    \<and> pred_option (valid_invocation px) (st_pending x)
    \<and> list_all identifier_ok (st_invocation_ids x) \<and> list_all identifier_ok (st_execution_ids x)
    \<and> list_all valid_report (st_reports x) \<and> list_all valid_record (st_findings x)
    \<and> list_all valid_resolution_record (st_resolutions x) \<and> list_all valid_failure (st_failures x)"

definition valid_session :: "'a pydantic_scheme \<Rightarrow> review_session \<Rightarrow> bool" where
  "valid_session px x \<longleftrightarrow> sealed (session_fields px) x \<and> valid_seed px (ses_seed x)
    \<and> list_all (valid_attempt px) (ses_attempts x) \<and> valid_state px (ses_state x)"

subsection \<open>Reasons are ordered by their names\<close>

lemma reason_name_inj: "reason_name a = reason_name b \<Longrightarrow> a = b"
  by (cases a; cases b; simp)

instantiation review_reason :: linorder
begin

definition less_eq_review_reason :: "review_reason \<Rightarrow> review_reason \<Rightarrow> bool" where
  "less_eq_review_reason a b \<longleftrightarrow> reason_name a \<le> reason_name b"

definition less_review_reason :: "review_reason \<Rightarrow> review_reason \<Rightarrow> bool" where
  "less_review_reason a b \<longleftrightarrow> reason_name a < reason_name b"

instance
  by standard (auto simp: less_eq_review_reason_def less_review_reason_def intro: reason_name_inj)

end

subsection \<open>The session values as content-addressed values\<close>

lemma nested_session_frame [simp, frame_simps]:
  "seed_scope (a\<lparr>content_digest := d\<rparr>) = seed_scope a"
  "seed_contract (a\<lparr>content_digest := d\<rparr>) = seed_contract a"
  "seed_policy (a\<lparr>content_digest := d\<rparr>) = seed_policy a"
  "seed_doer (a\<lparr>content_digest := d\<rparr>) = seed_doer a"
  "seed_artifact (a\<lparr>content_digest := d\<rparr>) = seed_artifact a"
  "inv_binding (i\<lparr>content_digest := d\<rparr>) = inv_binding i"
  "inv_actor (i\<lparr>content_digest := d\<rparr>) = inv_actor i"
  "inv_reservation (i\<lparr>content_digest := d\<rparr>) = inv_reservation i"
  "rcp_binding (c\<lparr>content_digest := d\<rparr>) = rcp_binding c"
  "rcp_model (c\<lparr>content_digest := d\<rparr>) = rcp_model c"
  "rcp_usage (c\<lparr>content_digest := d\<rparr>) = rcp_usage c"
  "att_invocation (t\<lparr>content_digest := d\<rparr>) = att_invocation t"
  "rec_finding (f\<lparr>content_digest := d\<rparr>) = rec_finding f"
  "rr_resolution (r\<lparr>content_digest := d\<rparr>) = rr_resolution r"
  "rr_producer (r\<lparr>content_digest := d\<rparr>) = rr_producer r"
  "st_artifact (s\<lparr>content_digest := d\<rparr>) = st_artifact s"
  "st_budget (s\<lparr>content_digest := d\<rparr>) = st_budget s"
  "ses_seed (e\<lparr>content_digest := d\<rparr>) = ses_seed e"
  "ses_state (e\<lparr>content_digest := d\<rparr>) = ses_state e"
  by ((cases a; simp) | (cases i; simp) | (cases c; simp) | (cases t; simp) | (cases f; simp)
      | (cases r; simp) | (cases s; simp) | (cases e; simp))+

interpretation sd: content_addressed "seed_fields px" for px
  by unfold_locales (simp add: seed_fields_def)

interpretation ivc: content_addressed "invocation_fields px" for px
  by unfold_locales (simp add: invocation_fields_def)

interpretation rcp: content_addressed receipt_fields
  by unfold_locales (simp add: receipt_fields_def)

interpretation cpl: content_addressed "completion_fields px" for px
  by unfold_locales (simp add: completion_fields_def)

interpretation att: content_addressed "attempt_fields px" for px
  by unfold_locales (simp add: attempt_fields_def)

interpretation frec: content_addressed record_fields
  by unfold_locales (simp add: record_fields_def)

interpretation rrec: content_addressed resolution_record_fields
  by unfold_locales (simp add: resolution_record_fields_def)

interpretation flr: content_addressed failure_fields
  by unfold_locales (simp add: failure_fields_def)

interpretation bud: content_addressed budget_fields
  by unfold_locales (simp add: budget_fields_def)

interpretation stt: content_addressed "state_fields px" for px
  by unfold_locales (simp add: state_fields_def)

interpretation ssn: content_addressed "session_fields px" for px
  by unfold_locales (simp add: session_fields_def)

interpretation dcn: content_addressed decision_fields
  by unfold_locales (simp add: decision_fields_def)

lemma state_seal [simp, frame_simps]:
  "st_artifact (seal g s) = st_artifact s"
  "st_last_at (seal g s) = st_last_at s"
  "st_budget (seal g s) = st_budget s"
  "st_pending (seal g s) = st_pending s"
  "st_invocation_ids (seal g s) = st_invocation_ids s"
  "st_execution_ids (seal g s) = st_execution_ids s"
  "st_reports (seal g s) = st_reports s"
  "st_findings (seal g s) = st_findings s"
  "st_resolutions (seal g s) = st_resolutions s"
  "st_failures (seal g s) = st_failures s"
  "st_terminal (seal g s) = st_terminal s"
  by (simp_all add: seal_def)

lemma open_findings_seal [simp, frame_simps]: "open_findings (seal g s) = open_findings s"
  by (simp add: open_findings_def)

lemma budget_seal [simp, frame_simps]:
  "bud_invocations (seal h b) = bud_invocations b"
  "bud_repairs (seal h b) = bud_repairs b"
  "bud_tokens_spent (seal h b) = bud_tokens_spent b"
  "bud_cost_spent (seal h b) = bud_cost_spent b"
  "bud_tokens_reserved (seal h b) = bud_tokens_reserved b"
  "bud_cost_reserved (seal h b) = bud_cost_reserved b"
  by (simp_all add: seal_def)

lemma record_seal [simp, frame_simps]:
  "rec_finding (seal h r) = rec_finding r"
  "rec_report (seal h r) = rec_report r"
  "rec_blocking (seal h r) = rec_blocking r"
  "rec_occurrences (seal h r) = rec_occurrences r"
  "rec_closed_by (seal h r) = rec_closed_by r"
  "rec_closed_artifact (seal h r) = rec_closed_artifact r"
  by (simp_all add: seal_def)

lemma session_seal [simp, frame_simps]:
  "ses_seed (seal h e) = ses_seed e"
  "ses_attempts (seal h e) = ses_attempts e"
  "ses_state (seal h e) = ses_state e"
  by (simp_all add: seal_def)

lemma misc_seal [simp, frame_simps]:
  "inv_id (seal h1 i) = inv_id i" "inv_kind (seal h1 i) = inv_kind i"
  "inv_binding (seal h1 i) = inv_binding i" "inv_actor (seal h1 i) = inv_actor i"
  "inv_reservation (seal h1 i) = inv_reservation i" "inv_started_at (seal h1 i) = inv_started_at i"
  "cmp_invocation (seal h2 c) = cmp_invocation c" "cmp_finished_at (seal h2 c) = cmp_finished_at c"
  "cmp_receipt (seal h2 c) = cmp_receipt c" "cmp_output (seal h2 c) = cmp_output c"
  "cmp_failure (seal h2 c) = cmp_failure c"
  "att_invocation (seal h3 t) = att_invocation t" "att_completion (seal h3 t) = att_completion t"
  "rr_resolution (seal h4 r) = rr_resolution r" "rr_invocation (seal h4 r) = rr_invocation r"
  "rr_artifact (seal h4 r) = rr_artifact r" "rr_producer (seal h4 r) = rr_producer r"
  "fc_reason (seal h5 f) = fc_reason f" "fc_occurrences (seal h5 f) = fc_occurrences f"
  "dec_status (seal h6 d) = dec_status d" "dec_reasons (seal h6 d) = dec_reasons d"
  "dec_session (seal h6 d) = dec_session d" "dec_artifact (seal h6 d) = dec_artifact d"
  "dec_completed (seal h6 d) = dec_completed d"
  "seed_scope (seal h7 e) = seed_scope e" "seed_contract (seal h7 e) = seed_contract e"
  "seed_policy (seal h7 e) = seed_policy e" "seed_doer (seal h7 e) = seed_doer e"
  "seed_reviewers (seal h7 e) = seed_reviewers e" "seed_artifact (seal h7 e) = seed_artifact e"
  "seed_started_at (seal h7 e) = seed_started_at e"
  by (simp_all add: seal_def)

lemma utc_valid_moment: "utc d = Some t \<Longrightarrow> valid_moment t"
  by (auto simp: valid_moment_def dest!: utc_aware astimezone_utc_range)

end
