(* ===== verification/Review_Rules.thy ===== *)
theory Review_Rules
  imports Review_Session
begin

text \<open>
  \<^verbatim>\<open>policy/review_rules.py\<close>: the checks on models, artifacts, evidence and reports, and the reasons
  that keep a state from being eligible. \<open>Violation r\<close> is \<^verbatim>\<open>ReviewViolation(r)\<close>, \<open>Invalid\<close> is any other
  \<^verbatim>\<open>ValueError\<close> (a failed \<^verbatim>\<open>distinct\<close>, a Pydantic \<^verbatim>\<open>ValidationError\<close>). Times are compared exactly in
  microseconds; the source compares \<^verbatim>\<open>total_seconds()\<close> floats, which agree with the exact order for
  spans below \<open>2\<^sup>3\<^sup>2\<close> seconds.
\<close>

datatype review_error = Violation review_reason | Invalid

definition qualified_model :: "model_identity \<Rightarrow> bool" where
  "qualified_model m \<longleftrightarrow> mid_family m \<noteq> None \<and> mid_qualification m \<noteq> None \<and> mid_capabilities m \<noteq> []"

definition family_required :: "review_seed \<Rightarrow> bool" where
  "family_required seed \<longleftrightarrow> qc_risk_tier (seed_contract seed) = T2 \<or> pol_different_family (seed_policy seed)"

definition producer_checks :: "review_seed \<Rightarrow> model_identity \<Rightarrow> model_identity \<Rightarrow> (bool \<times> review_error) list"
where
  "producer_checks seed reviewer producer =
    [(qualified_model producer \<and> mid_role producer = PRODUCER, Violation R_IDENTITY_UNAVAILABLE),
     (mid_canonical reviewer \<noteq> mid_canonical producer \<and> mid_model reviewer \<noteq> mid_model producer,
        Violation R_IDENTITY_UNAVAILABLE),
     (\<not> family_required seed \<or> mid_family reviewer \<noteq> mid_family producer,
        Violation R_IDENTITY_UNAVAILABLE)]"

definition independent :: "review_seed \<Rightarrow> artifact_ref \<Rightarrow> model_identity \<Rightarrow> review_error + unit" where
  "independent seed art reviewer =
    require_all
      ((qualified_model reviewer \<and> mid_role reviewer = REVIEWER, Violation R_IDENTITY_UNAVAILABLE)
       # concat (map (producer_checks seed reviewer) (art_producers art)))"

definition artifact_bound :: "review_seed \<Rightarrow> artifact_ref \<Rightarrow> bool" where
  "artifact_bound seed art \<longleftrightarrow>
    art_scope art = seed_scope seed
    \<and> art_contract art = content_digest (seed_contract seed)
    \<and> art_context art = art_context (seed_artifact seed)
    \<and> art_key art \<in> set (qc_artifact_scope (seed_contract seed))"

definition artifact_binding :: "review_seed \<Rightarrow> artifact_ref \<Rightarrow> review_error + unit" where
  "artifact_binding seed art = require_all [(artifact_bound seed art, Violation R_BINDING_MISMATCH)]"

definition validate_seed :: "review_seed \<Rightarrow> review_error + unit" where
  "validate_seed seed =
    ebind (require_all
      [((scope_tenant_id (seed_scope seed), scope_work_item_id (seed_scope seed))
        = (qc_tenant_id (seed_contract seed), qc_work_item_id (seed_contract seed)),
        Violation R_BINDING_MISMATCH)]) (\<lambda>_.
    ebind (artifact_binding seed (seed_artifact seed)) (\<lambda>_.
    ebind (require_all
      [(seed_doer seed \<in> set (art_producers (seed_artifact seed))
        \<and> mid_role (seed_doer seed) = PRODUCER \<and> qualified_model (seed_doer seed),
        Violation R_IDENTITY_UNAVAILABLE),
       (seed_reviewers seed \<noteq> [], Violation R_IDENTITY_UNAVAILABLE),
       (distinct (map content_digest (seed_reviewers seed)), Invalid)]) (\<lambda>_.
    efold (\<lambda>reviewer _. independent seed (seed_artifact seed) reviewer) (seed_reviewers seed) ())))"

definition within_window :: "review_seed \<Rightarrow> review_state \<Rightarrow> moment \<Rightarrow> bool" where
  "within_window seed st now \<longleftrightarrow>
    st_last_at st \<le> now \<and> seed_started_at seed \<le> now
    \<and> now - seed_started_at seed < int (pol_max_seconds (seed_policy seed)) * 1000000"

definition blocking :: "review_seed \<Rightarrow> finding \<Rightarrow> bool" where
  "blocking seed f =
    (case find (\<lambda>c. crit_id c = fnd_criterion f) (qc_criteria (seed_contract seed)) of
       None \<Rightarrow> True
     | Some c \<Rightarrow> crit_mandatory c \<or> fnd_kind f \<noteq> ADVISORY \<or> fnd_severity f \<noteq> LOW)"

definition evidence_bound :: "evidence list \<Rightarrow> string \<Rightarrow> bool" where
  "evidence_bound evs artifact_digest \<longleftrightarrow> list_all (\<lambda>e. ev_artifact e = artifact_digest) evs"

definition needs_repair :: "review_state \<Rightarrow> bool" where
  "needs_repair st \<longleftrightarrow>
    list_ex (\<lambda>item. rec_blocking item \<and>
      \<not> list_ex (\<lambda>r. rsl_fingerprint (rr_resolution r) = fnd_fingerprint (rec_finding item)
                   \<and> rsl_report (rr_resolution r) = rec_report item
                   \<and> rr_artifact r = content_digest (st_artifact st)) (st_resolutions st))
      (open_findings st)"

definition validate_report_binding ::
  "review_seed \<Rightarrow> review_state \<Rightarrow> invocation \<Rightarrow> review_report \<Rightarrow> review_error + unit" where
  "validate_report_binding seed st ivn rep =
    ebind (require_all
      [(rep_invocation rep = inv_id ivn \<and> rep_binding rep = inv_binding ivn \<and> rep_reviewer rep = inv_actor ivn,
        Violation R_BINDING_MISMATCH)]) (\<lambda>_.
    ebind (independent seed (st_artifact st) (rep_reviewer rep)) (\<lambda>_.
    require_all
      ([(distinct (map fnd_fingerprint (rep_findings rep)), Invalid),
        (distinct (map rck_fingerprint (rep_rechecks rep)), Invalid)]
       @ map (\<lambda>d. (evidence_bound (disp_evidence d) (bnd_artifact (rep_binding rep)),
               Violation R_MISSING_EVIDENCE)) (rep_criteria rep)
       @ concat (map (\<lambda>f.
           [(fnd_artifact f = bnd_artifact (rep_binding rep), Violation R_BINDING_MISMATCH),
            (evidence_bound (fnd_evidence f) (bnd_artifact (rep_binding rep)),
               Violation R_MISSING_EVIDENCE)]) (rep_findings rep))
       @ map (\<lambda>r. (evidence_bound (rck_evidence r) (bnd_artifact (rep_binding rep)),
               Violation R_MISSING_EVIDENCE)) (rep_rechecks rep))))"

definition criterion_checks ::
  "review_report \<Rightarrow> quality_criterion \<Rightarrow> criterion_disposition \<Rightarrow> (bool \<times> review_error) list" where
  "criterion_checks rep criterion item =
    [(disp_status item = PASS \<longrightarrow>
        set (crit_required_evidence criterion) \<subseteq> set (map ev_id (disp_evidence item)),
      Violation R_MISSING_EVIDENCE),
     (crit_mandatory criterion \<longrightarrow> disp_status item \<noteq> NOT_APPLICABLE, Violation R_INCOMPLETE_CRITERIA),
     (crit_mandatory criterion \<and> disp_status item = FAIL \<longrightarrow>
        list_ex (\<lambda>f. fnd_criterion f = disp_criterion item) (rep_findings rep),
      Violation R_INCOMPLETE_CRITERIA)]"

definition validate_report :: "review_seed \<Rightarrow> review_state \<Rightarrow> review_report \<Rightarrow> review_error + unit" where
  "validate_report seed st rep =
    (let expected = dict_of crit_id (qc_criteria (seed_contract seed));
         actual = dict_of disp_criterion (rep_criteria rep)
     in require_all
       ([(rep_complete rep \<and> length actual = length (rep_criteria rep)
          \<and> set (map fst actual) = set (map fst expected),
          Violation R_INCOMPLETE_CRITERIA)]
        @ concat (map (\<lambda>(cid, item).
            case dict_get expected cid of
              None \<Rightarrow> []
            | Some criterion \<Rightarrow> criterion_checks rep criterion item) actual)
        @ map (\<lambda>f. (fnd_criterion f \<in> set (map fst expected) \<or> fnd_kind f = CONTRACT_GAP_FINDING,
                Violation R_CONTRACT_GAP)) (rep_findings rep)
        @ [(rep_verdict rep = CHANGES_REQUIRED \<longrightarrow>
              list_ex (blocking seed) (rep_findings rep) \<or> list_ex rec_blocking (open_findings st),
            Violation R_UNSUPPORTED_VERDICT)]))"

definition mandatory_ids :: "review_seed \<Rightarrow> string list" where
  "mandatory_ids seed = map crit_id (filter crit_mandatory (qc_criteria (seed_contract seed)))"

definition eligibility_reasons :: "review_seed \<Rightarrow> review_state \<Rightarrow> review_reason list" where
  "eligibility_reasons seed st = fromkeys
    (st_terminal st
     @ (if st_pending st \<noteq> None then [R_PENDING] else [])
     @ (if length (st_reports st) < pol_min_reviews (seed_policy seed) then [R_MIN_REVIEWS] else [])
     @ (if list_ex rec_blocking (open_findings st) then [R_OPEN_BLOCKERS] else [])
     @ (if st_reports st = [] then [R_UNREVIEWED_ARTIFACT]
        else let latest = last (st_reports st) in
          (if rep_binding latest \<noteq> artifact_binding_of (st_artifact st) then [R_UNREVIEWED_ARTIFACT] else [])
          @ (if rep_verdict latest \<noteq> ACCEPT
               \<or> list_ex (\<lambda>d. disp_criterion d \<in> set (mandatory_ids seed) \<and> disp_status d \<noteq> PASS)
                   (rep_criteria latest)
             then [R_MANDATORY_CRITERIA] else [])))"

subsection \<open>What the checks establish\<close>

definition separated :: "review_seed \<Rightarrow> model_identity list \<Rightarrow> model_identity \<Rightarrow> bool" where
  "separated seed producers reviewer \<longleftrightarrow>
    qualified_model reviewer \<and> mid_role reviewer = REVIEWER \<and>
    (\<forall>p \<in> set producers. qualified_model p \<and> mid_role p = PRODUCER
      \<and> mid_canonical reviewer \<noteq> mid_canonical p \<and> mid_model reviewer \<noteq> mid_model p
      \<and> (family_required seed \<longrightarrow> mid_family reviewer \<noteq> mid_family p))"

definition covers :: "review_seed \<Rightarrow> review_report \<Rightarrow> bool" where
  "covers seed rep \<longleftrightarrow>
    rep_complete rep \<and> distinct (map disp_criterion (rep_criteria rep)) \<and>
    disp_criterion ` set (rep_criteria rep) = crit_id ` set (qc_criteria (seed_contract seed)) \<and>
    (\<forall>d \<in> set (rep_criteria rep). \<forall>c \<in> set (qc_criteria (seed_contract seed)).
      crit_id c = disp_criterion d \<longrightarrow> disp_status d = PASS \<longrightarrow>
        set (crit_required_evidence c) \<subseteq> ev_id ` set (disp_evidence d))"

definition evidence_current :: "review_report \<Rightarrow> bool" where
  "evidence_current rep \<longleftrightarrow>
    (\<forall>d \<in> set (rep_criteria rep). \<forall>e \<in> set (disp_evidence d). ev_artifact e = bnd_artifact (rep_binding rep))"

lemma independent_iff [guard_simps]:
  "independent seed art reviewer = Inr u \<longleftrightarrow> separated seed (art_producers art) reviewer"
  by (auto simp: independent_def separated_def producer_checks_def)

lemma artifact_binding_iff [guard_simps]:
  "artifact_binding seed art = Inr u \<longleftrightarrow> artifact_bound seed art"
  by (simp add: artifact_binding_def)

lemma efold_unit_iff: "efold (\<lambda>x _. f x) xs () = Inr () \<longleftrightarrow> (\<forall>x \<in> set xs. f x = Inr ())"
  by (induction xs) (auto split: sum.splits)

lemma validate_seed_iff [guard_simps]:
  "validate_seed seed = Inr u \<longleftrightarrow>
    scope_tenant_id (seed_scope seed) = qc_tenant_id (seed_contract seed)
    \<and> scope_work_item_id (seed_scope seed) = qc_work_item_id (seed_contract seed)
    \<and> artifact_bound seed (seed_artifact seed)
    \<and> seed_doer seed \<in> set (art_producers (seed_artifact seed))
    \<and> mid_role (seed_doer seed) = PRODUCER \<and> qualified_model (seed_doer seed)
    \<and> seed_reviewers seed \<noteq> [] \<and> distinct (map content_digest (seed_reviewers seed))
    \<and> (\<forall>r \<in> set (seed_reviewers seed). separated seed (art_producers (seed_artifact seed)) r)"
  by (auto simp: validate_seed_def ebind_eq_Inr efold_unit_iff guard_simps)

lemma validate_report_binding_D:
  assumes "validate_report_binding seed st ivn rep = Inr u"
  shows "rep_invocation rep = inv_id ivn" and "rep_binding rep = inv_binding ivn"
    and "rep_reviewer rep = inv_actor ivn"
    and "separated seed (art_producers (st_artifact st)) (rep_reviewer rep)"
    and "evidence_current rep"
    and "distinct (map fnd_fingerprint (rep_findings rep))"
    and "distinct (map rck_fingerprint (rep_rechecks rep))"
    and "\<forall>f \<in> set (rep_findings rep). fnd_artifact f = bnd_artifact (rep_binding rep)"
  using assms
  by (auto simp: validate_report_binding_def ebind_eq_Inr guard_simps evidence_bound_def
      evidence_current_def list_all_iff [where P = "\<lambda>e. ev_artifact e = _"])

lemma validate_report_covers:
  assumes "validate_report seed st rep = Inr u"
    and "distinct (map crit_id (qc_criteria (seed_contract seed)))"
  shows "covers seed rep"
proof -
  let ?exp = "dict_of crit_id (qc_criteria (seed_contract seed))"
  let ?act = "dict_of disp_criterion (rep_criteria rep)"
  from assms(1) have complete: "rep_complete rep" and dist: "distinct (map disp_criterion (rep_criteria rep))"
    and keys: "disp_criterion ` set (rep_criteria rep) = crit_id ` set (qc_criteria (seed_contract seed))"
    and each: "\<And>cid item criterion. (cid, item) \<in> set ?act \<Longrightarrow> dict_get ?exp cid = Some criterion \<Longrightarrow>
      list_all fst (criterion_checks rep criterion item)"
    by (auto simp: validate_report_def Let_def length_dict_of dest!: bspec)
  have "set (crit_required_evidence c) \<subseteq> ev_id ` set (disp_evidence d)"
    if "d \<in> set (rep_criteria rep)" "c \<in> set (qc_criteria (seed_contract seed))"
      "crit_id c = disp_criterion d" "disp_status d = PASS" for d c
  proof -
    have "(disp_criterion d, d) \<in> set ?act" using that(1) dist by (simp add: dict_of_distinct)
    moreover have "dict_get ?exp (disp_criterion d) = Some c"
      using dict_of_get [OF assms(2) that(2)] that(3) by simp
    ultimately have "list_all fst (criterion_checks rep c d)" by (rule each)
    with that(4) show ?thesis by (auto simp: criterion_checks_def)
  qed
  with complete dist keys show ?thesis by (simp add: covers_def)
qed

lemma eligibility_Nil:
  "eligibility_reasons seed st = [] \<longleftrightarrow>
    st_terminal st = [] \<and> st_pending st = None \<and> pol_min_reviews (seed_policy seed) \<le> length (st_reports st)
    \<and> \<not> list_ex rec_blocking (open_findings st) \<and> st_reports st \<noteq> []
    \<and> rep_binding (last (st_reports st)) = artifact_binding_of (st_artifact st)
    \<and> rep_verdict (last (st_reports st)) = ACCEPT
    \<and> (\<forall>d \<in> set (rep_criteria (last (st_reports st))).
         disp_criterion d \<in> set (mandatory_ids seed) \<longrightarrow> disp_status d = PASS)"
  by (auto simp: eligibility_reasons_def Let_def list_ex_iff not_less)

lemma set_mandatory_ids:
  "set (mandatory_ids seed) = {crit_id c | c. c \<in> set (qc_criteria (seed_contract seed)) \<and> crit_mandatory c}"
  by (auto simp: mandatory_ids_def)

end
