(* ===== verification/Review_Findings.thy ===== *)
theory Review_Findings
  imports Review_Rules
begin

text \<open>
  \<^verbatim>\<open>policy/review_findings.py\<close>: finding continuity and reconciliation. The dictionary of finding
  records, keyed by fingerprint, is an association list in insertion order; each of the three
  loops of \<^verbatim>\<open>reconcile_findings\<close> is one pass over it (\<open>apply_recheck\<close>, \<open>apply_finding\<close>,
  \<open>count_occurrence\<close>).
\<close>

type_synonym records = "(string \<times> finding_record) list"

definition record_key :: "finding_record \<Rightarrow> string" where
  "record_key r = fnd_fingerprint (rec_finding r)"

definition criterion_ids :: "review_seed \<Rightarrow> string list" where
  "criterion_ids seed = map crit_id (qc_criteria (seed_contract seed))"

definition stop_reasons :: "review_seed \<Rightarrow> review_report \<Rightarrow> review_reason list" where
  "stop_reasons seed rep =
    (if list_ex (\<lambda>f. fnd_severity f = CRITICAL) (rep_findings rep) then [R_CRITICAL] else [])
    @ (if rep_verdict rep = CONTRACT_GAP
         \<or> list_ex (\<lambda>f. fnd_kind f = CONTRACT_GAP_FINDING \<or> fnd_criterion f \<notin> set (criterion_ids seed))
             (rep_findings rep)
       then [R_CONTRACT_GAP] else [])
    @ (if rep_verdict rep = CONTEXT_GAP
         \<or> list_ex (\<lambda>d. disp_status d = UNKNOWN \<and> disp_criterion d \<in> set (mandatory_ids seed))
             (rep_criteria rep)
       then [R_CONTEXT_GAP] else [])
    @ (if rep_verdict rep = ESCALATE then [R_REVIEW_ESCALATED] else [])"

definition make_record :: "finding \<Rightarrow> string \<Rightarrow> bool \<Rightarrow> nat \<Rightarrow> finding_record" where
  "make_record f report_digest blocks occurrences = seal record_fields
    \<lparr>content_digest = [], rec_finding = f, rec_report = report_digest, rec_blocking = blocks,
     rec_occurrences = occurrences, rec_closed_by = None, rec_closed_artifact = None\<rparr>"

definition previous_occurrences :: "finding_record option \<Rightarrow> nat" where
  "previous_occurrences p = (case p of None \<Rightarrow> 0 | Some r \<Rightarrow> rec_occurrences r)"

definition retain_finding :: "review_seed \<Rightarrow> review_report \<Rightarrow> finding \<Rightarrow> records \<Rightarrow> records" where
  "retain_finding seed rep f records =
    (if fnd_severity f \<noteq> CRITICAL \<and> fnd_kind f \<noteq> CONTRACT_GAP_FINDING \<and> fnd_criterion f \<in> set (criterion_ids seed)
     then records
     else AList.update (fnd_fingerprint f)
       (make_record f (content_digest rep) True
         (previous_occurrences (dict_get records (fnd_fingerprint f)))) records)"

definition retain_stops ::
  "'a pydantic_scheme \<Rightarrow> review_seed \<Rightarrow> review_state \<Rightarrow> review_report \<Rightarrow> review_state" where
  "retain_stops px seed st rep =
    (let reasons = stop_reasons seed rep in
     if reasons = [] then st
     else let records = fold (retain_finding seed rep) (rep_findings rep) (dict_of record_key (st_findings st))
       in seal (state_fields px) (st\<lparr>st_findings := dict_sorted_values records,
                                  st_terminal := fromkeys (st_terminal st @ reasons)\<rparr>))"

definition known_evidence :: "review_state \<Rightarrow> finding \<Rightarrow> string list" where
  "known_evidence st f =
    concat (map (\<lambda>r. map ev_digest (fnd_evidence (rec_finding r)))
      (filter (\<lambda>r. record_key r = fnd_fingerprint f) (st_findings st)))
    @ concat (map (\<lambda>rep.
        concat (map (\<lambda>g. map ev_digest (fnd_evidence g))
          (filter (\<lambda>g. fnd_fingerprint g = fnd_fingerprint f) (rep_findings rep)))
        @ concat (map (\<lambda>k. map ev_digest (rck_evidence k))
          (filter (\<lambda>k. rck_fingerprint k = fnd_fingerprint f) (rep_rechecks rep)))) (st_reports st))
    @ concat (map (\<lambda>r. map ev_digest (rsl_evidence (rr_resolution r)))
      (filter (\<lambda>r. rsl_fingerprint (rr_resolution r) = fnd_fingerprint f) (st_resolutions st)))"

definition close_record :: "review_report \<Rightarrow> finding_record \<Rightarrow> finding_record" where
  "close_record rep r = seal record_fields
    (r\<lparr>rec_closed_by := Some (content_digest rep),
       rec_closed_artifact := Some (bnd_artifact (rep_binding rep))\<rparr>)"

definition closure_allowed ::
  "review_report \<Rightarrow> finding_recheck \<Rightarrow> finding_record \<Rightarrow> resolution_record \<Rightarrow> bool" where
  "closure_allowed rep rck existing resolution \<longleftrightarrow>
    content_digest (rr_resolution resolution) = rck_resolution rck
    \<and> rsl_report (rr_resolution resolution) = rec_report existing
    \<and> rr_artifact resolution = bnd_artifact (rep_binding rep)
    \<and> rck_check rck = fnd_required_recheck (rec_finding existing)"

definition recheck_passes :: "review_report \<Rightarrow> finding_recheck \<Rightarrow> finding_record \<Rightarrow> bool" where
  "recheck_passes rep rck existing \<longleftrightarrow>
    rck_fingerprint rck \<notin> set (map fnd_fingerprint (rep_findings rep))
    \<and> (\<not> rec_blocking existing
       \<or> map_option disp_status (dict_get (dict_of disp_criterion (rep_criteria rep))
            (fnd_criterion (rec_finding existing))) = Some PASS)"

definition apply_recheck ::
  "review_state \<Rightarrow> review_report \<Rightarrow> finding_recheck \<Rightarrow> records \<Rightarrow> review_error + records" where
  "apply_recheck st rep rck records =
    (let resolutions = filter (\<lambda>r. rsl_fingerprint (rr_resolution r) = rck_fingerprint rck) (st_resolutions st)
     in case dict_get records (rck_fingerprint rck) of
          None \<Rightarrow> Inl (Violation R_INVALID_CLOSURE)
        | Some existing \<Rightarrow>
            if rec_closed_by existing \<noteq> None \<or> resolutions = [] then Inl (Violation R_INVALID_CLOSURE)
            else if \<not> closure_allowed rep rck existing (last resolutions) then Inl (Violation R_INVALID_CLOSURE)
            else if rck_status rck = RECHECK_PASS then
              (if recheck_passes rep rck existing
               then Inr (AList.update (rck_fingerprint rck) (close_record rep existing) records)
               else Inl (Violation R_INVALID_CLOSURE))
            else Inr records)"

definition reopens :: "review_state \<Rightarrow> review_report \<Rightarrow> finding \<Rightarrow> finding_record \<Rightarrow> bool" where
  "reopens st rep f previous \<longleftrightarrow>
    rec_closed_artifact previous \<noteq> Some (bnd_artifact (rep_binding rep))
    \<or> \<not> set (map ev_digest (fnd_evidence f)) \<subseteq> set (known_evidence st f)"

definition apply_finding ::
  "review_seed \<Rightarrow> review_state \<Rightarrow> review_report \<Rightarrow> finding \<Rightarrow> records \<Rightarrow> records" where
  "apply_finding seed st rep f records =
    (case dict_get records (fnd_fingerprint f) of
       None \<Rightarrow> AList.update (fnd_fingerprint f)
                (make_record f (content_digest rep) (blocking seed f) 0) records
     | Some previous \<Rightarrow>
         if rec_closed_by previous \<noteq> None then
           (if reopens st rep f previous
            then AList.update (fnd_fingerprint f)
              (make_record f (content_digest rep) (blocking seed f \<or> rec_blocking previous) 0) records
            else records)
         else AList.update (fnd_fingerprint f)
           (make_record f (content_digest rep) (blocking seed f \<or> rec_blocking previous)
             (rec_occurrences previous)) records)"

definition count_occurrence :: "finding_record \<Rightarrow> finding_record" where
  "count_occurrence r =
    (if rec_closed_by r = None \<and> rec_blocking r
     then seal record_fields (r\<lparr>rec_occurrences := rec_occurrences r + 1\<rparr>) else r)"

definition repeated_failure :: "review_seed \<Rightarrow> finding_record \<Rightarrow> bool" where
  "repeated_failure seed r \<longleftrightarrow>
    rec_closed_by r = None \<and> rec_blocking r \<and> pol_failure_limit (seed_policy seed) \<le> rec_occurrences r"

definition reconcile_findings ::
  "review_seed \<Rightarrow> review_state \<Rightarrow> review_report \<Rightarrow> review_error + (finding_record list \<times> review_reason list)"
where
  "reconcile_findings seed st rep =
    ebind (efold (apply_recheck st rep) (rep_rechecks rep) (dict_of record_key (st_findings st))) (\<lambda>rechecked.
    let reported = fold (apply_finding seed st rep) (rep_findings rep) rechecked;
        counted = map (\<lambda>(k, r). (k, count_occurrence r)) reported;
        reasons = concat (map (\<lambda>(k, r). if repeated_failure seed r then [R_REPEATED_FAILURE] else []) counted)
                  @ stop_reasons seed rep
    in Inr (dict_sorted_values counted, fromkeys reasons))"

definition resolution_checks ::
  "repair_report \<Rightarrow> bool \<Rightarrow> finding_record \<Rightarrow> finding_resolution \<Rightarrow> (bool \<times> review_error) list" where
  "resolution_checks rpr changed finding rsl =
    [(rsl_report rsl = rec_report finding, Violation R_INVALID_REPAIR),
     (evidence_bound (rsl_evidence rsl) (content_digest (rpr_artifact rpr)), Violation R_MISSING_EVIDENCE),
     (\<not> rec_blocking finding \<or> rsl_disposition rsl \<noteq> DEFERRED_ADVISORY, Violation R_INVALID_REPAIR),
     (rsl_disposition rsl = FIXED \<longrightarrow> changed, Violation R_NO_PROGRESS),
     (rsl_disposition rsl = REJECTED_WITH_EVIDENCE \<longrightarrow>
        \<not> set (map ev_digest (rsl_evidence rsl)) \<subseteq> set (map ev_digest (fnd_evidence (rec_finding finding))),
      Violation R_NO_PROGRESS)]"

definition artifact_changed :: "artifact_ref \<Rightarrow> artifact_ref \<Rightarrow> bool" where
  "artifact_changed new old \<longleftrightarrow>
    art_payload new \<noteq> art_payload old \<or> art_inputs new \<noteq> art_inputs old \<or> art_builds new \<noteq> art_builds old"

definition make_resolution_record :: "invocation \<Rightarrow> repair_report \<Rightarrow> finding_resolution \<Rightarrow> resolution_record"
where
  "make_resolution_record ivn rpr rsl = seal resolution_record_fields
    \<lparr>content_digest = [], rr_resolution = rsl, rr_invocation = inv_id ivn,
     rr_artifact = content_digest (rpr_artifact rpr), rr_producer = rpr_producer rpr\<rparr>"

definition reconcile_repair ::
  "review_seed \<Rightarrow> review_state \<Rightarrow> invocation \<Rightarrow> repair_report \<Rightarrow> review_error + resolution_record list" where
  "reconcile_repair seed st ivn rpr =
    ebind (require_all
      [(rpr_invocation rpr = inv_id ivn \<and> rpr_binding rpr = inv_binding ivn
        \<and> rpr_producer rpr = seed_doer seed \<and> seed_doer seed = inv_actor ivn, Violation R_INVALID_REPAIR)]) (\<lambda>_.
    ebind (artifact_binding seed (rpr_artifact rpr)) (\<lambda>_.
    let open_items = dict_of record_key (open_findings st);
        proposed = map rsl_fingerprint (rpr_resolutions rpr);
        changed = artifact_changed (rpr_artifact rpr) (st_artifact st)
    in ebind (require_all
        ([(art_key (rpr_artifact rpr) = art_key (st_artifact st)
           \<and> art_producers (rpr_artifact rpr) = art_producers (st_artifact st), Violation R_INVALID_REPAIR),
          (distinct proposed, Invalid),
          (set (map fst (filter (\<lambda>(k, r). rec_blocking r) open_items)) \<subseteq> set proposed
           \<and> set proposed \<subseteq> set (map fst open_items), Violation R_INVALID_REPAIR)]
         @ concat (map (\<lambda>rsl.
             case dict_get open_items (rsl_fingerprint rsl) of
               None \<Rightarrow> []
             | Some finding \<Rightarrow> resolution_checks rpr changed finding rsl) (rpr_resolutions rpr)))) (\<lambda>_.
       Inr (map (make_resolution_record ivn rpr) (rpr_resolutions rpr)))))"

subsection \<open>Records keep their keys\<close>

definition keyed :: "records \<Rightarrow> bool" where
  "keyed d \<longleftrightarrow> distinct (map fst d) \<and> (\<forall>(k, r) \<in> set d. record_key r = k)"

lemma keyed_dict_of [simp]: "keyed (dict_of record_key xs)"
  by (auto simp: keyed_def dest: dict_of_entry)

lemma set_update_subset: "set (AList.update k v d) \<subseteq> insert (k, v) (set d)"
  by (induction d) auto

lemma keyed_update: "keyed d \<Longrightarrow> record_key r = k \<Longrightarrow> keyed (AList.update k r d)"
  using set_update_subset [of k r d] by (auto simp: keyed_def distinct_update)

lemma make_record_simps [simp]:
  "rec_finding (make_record f d b n) = f" "rec_report (make_record f d b n) = d"
  "rec_blocking (make_record f d b n) = b" "rec_occurrences (make_record f d b n) = n"
  "rec_closed_by (make_record f d b n) = None" "record_key (make_record f d b n) = fnd_fingerprint f"
  by (simp_all add: make_record_def record_key_def)

lemma close_record_simps [simp]:
  "rec_finding (close_record rep r) = rec_finding r" "rec_blocking (close_record rep r) = rec_blocking r"
  "rec_report (close_record rep r) = rec_report r"
  "rec_closed_by (close_record rep r) = Some (content_digest rep)"
  "rec_closed_artifact (close_record rep r) = Some (bnd_artifact (rep_binding rep))"
  "record_key (close_record rep r) = record_key r"
  by (simp_all add: close_record_def record_key_def)

lemma count_occurrence_simps [simp]:
  "rec_finding (count_occurrence r) = rec_finding r" "rec_blocking (count_occurrence r) = rec_blocking r"
  "rec_report (count_occurrence r) = rec_report r"
  "rec_closed_by (count_occurrence r) = rec_closed_by r"
  "rec_closed_artifact (count_occurrence r) = rec_closed_artifact r"
  "record_key (count_occurrence r) = record_key r"
  by (simp_all add: count_occurrence_def record_key_def)

lemma keyed_get: "keyed d \<Longrightarrow> dict_get d k = Some r \<Longrightarrow> record_key r = k"
  by (auto simp: keyed_def dest: dict_get_Some_in)

lemma keyed_retain_finding: "keyed d \<Longrightarrow> keyed (retain_finding seed rep f d)"
  by (simp add: retain_finding_def keyed_update)

lemma keyed_fold: "(\<And>x d. keyed d \<Longrightarrow> keyed (g x d)) \<Longrightarrow> keyed d \<Longrightarrow> keyed (fold g xs d)"
  by (induction xs arbitrary: d) auto

lemma keyed_apply_finding: "keyed d \<Longrightarrow> keyed (apply_finding seed st rep f d)"
  by (simp add: apply_finding_def keyed_update split: option.split)

lemma apply_recheck_cases:
  assumes "apply_recheck st rep rck d = Inr d'"
  obtains (same) "d' = d"
  | (closed) r rs where "dict_get d (rck_fingerprint rck) = Some r" "rec_closed_by r = None"
      "rs \<in> set (st_resolutions st)" "rsl_fingerprint (rr_resolution rs) = rck_fingerprint rck"
      "closure_allowed rep rck r rs" "rck_status rck = RECHECK_PASS" "recheck_passes rep rck r"
      "d' = AList.update (rck_fingerprint rck) (close_record rep r) d"
proof -
  let ?rs = "filter (\<lambda>r. rsl_fingerprint (rr_resolution r) = rck_fingerprint rck) (st_resolutions st)"
  from assms obtain r where r: "dict_get d (rck_fingerprint rck) = Some r" "rec_closed_by r = None"
    "?rs \<noteq> []" "closure_allowed rep rck r (last ?rs)"
    "d' = d \<or> rck_status rck = RECHECK_PASS \<and> recheck_passes rep rck r
       \<and> d' = AList.update (rck_fingerprint rck) (close_record rep r) d"
    by (auto simp: apply_recheck_def Let_def split: option.splits if_splits)
  have "last ?rs \<in> set ?rs" using r(3) by (rule last_in_set)
  with r show thesis using same closed by auto
qed

lemma keyed_apply_recheck: "apply_recheck st rep rck d = Inr d' \<Longrightarrow> keyed d \<Longrightarrow> keyed d'"
  by (cases rule: apply_recheck_cases) (auto intro!: keyed_update simp: keyed_get)

lemma keyed_rechecks: "efold (apply_recheck st rep) rs d = Inr d' \<Longrightarrow> keyed d \<Longrightarrow> keyed d'"
  by (erule efold_invariant) (auto intro: keyed_apply_recheck)

lemma keyed_count: "keyed d \<Longrightarrow> keyed (map (\<lambda>(k, r). (k, count_occurrence r)) d)"
  by (auto simp: keyed_def comp_def case_prod_unfold)

lemma keyed_sorted_values:
  assumes "keyed d"
  shows "distinct (map record_key (dict_sorted_values d))" and "sorted (map record_key (dict_sorted_values d))"
  using dict_sorted_values_keys [of d record_key] assms by (auto simp: keyed_def)

subsection \<open>What happens to one finding\<close>

definition closed_by_recheck :: "review_state \<Rightarrow> review_report \<Rightarrow> finding_record \<Rightarrow> bool" where
  "closed_by_recheck st rep r \<longleftrightarrow>
    (\<exists>rck \<in> set (rep_rechecks rep). \<exists>rs \<in> set (st_resolutions st).
      rck_fingerprint rck = record_key r \<and> rsl_fingerprint (rr_resolution rs) = record_key r
      \<and> closure_allowed rep rck r rs \<and> rck_status rck = RECHECK_PASS \<and> recheck_passes rep rck r)"

lemma recheck_keeps_others:
  assumes "apply_recheck st rep rck d = Inr d'"
  shows "dict_get d k = None \<Longrightarrow> dict_get d' k = None"
    and "dict_get d k = Some r \<Longrightarrow> rec_closed_by r \<noteq> None \<Longrightarrow> dict_get d' k = Some r"
  using assms by (cases rule: apply_recheck_cases, auto)+

lemma rechecks_keep_others:
  assumes "efold (apply_recheck st rep) rcks d = Inr d'"
  shows "dict_get d k = None \<Longrightarrow> dict_get d' k = None"
    and "dict_get d k = Some r \<Longrightarrow> rec_closed_by r \<noteq> None \<Longrightarrow> dict_get d' k = Some r"
  using assms
  by (erule_tac [!] efold_invariant [of _ _ _ _ "\<lambda>d. dict_get d k = _"])
     (auto intro: recheck_keeps_others)

lemma rechecks_open:
  assumes "efold (apply_recheck st rep) rcks d = Inr d'" and "set rcks \<subseteq> set (rep_rechecks rep)"
    and "keyed d" and "dict_get d k = Some r" and "rec_closed_by r = None"
  shows "dict_get d' k = Some r \<or> dict_get d' k = Some (close_record rep r) \<and> closed_by_recheck st rep r"
  using assms
proof (induction rcks arbitrary: d)
  case Nil
  then show ?case by simp
next
  case (Cons rck rcks)
  from Cons.prems(1) obtain d1 where d1: "apply_recheck st rep rck d = Inr d1"
    "efold (apply_recheck st rep) rcks d1 = Inr d'" by (auto split: sum.splits)
  have k1: "keyed d1" using d1(1) Cons.prems(3) by (rule keyed_apply_recheck)
  have key: "record_key r = k" using Cons.prems(3,4) by (rule keyed_get)
  from d1(1) have "dict_get d1 k = Some r
      \<or> dict_get d1 k = Some (close_record rep r) \<and> closed_by_recheck st rep r"
  proof (cases rule: apply_recheck_cases)
    case same
    with Cons.prems show ?thesis by simp
  next
    case (closed r0 rs)
    show ?thesis
    proof (cases "rck_fingerprint rck = k")
      case True
      with closed Cons.prems(4) have "r0 = r" by simp
      moreover have "rck \<in> set (rep_rechecks rep)" using Cons.prems(2) by simp
      ultimately have "closed_by_recheck st rep r"
        unfolding closed_by_recheck_def
        using closed True key by (intro bexI [of _ rck] bexI [of _ rs]) simp_all
      with True closed \<open>r0 = r\<close> show ?thesis by simp
    next
      case False
      with closed Cons.prems(4) show ?thesis by simp
    qed
  qed
  then show ?case
  proof
    assume "dict_get d1 k = Some r"
    with d1(2) k1 Cons.prems(2,5) show ?thesis by (intro Cons.IH) auto
  next
    assume c: "dict_get d1 k = Some (close_record rep r) \<and> closed_by_recheck st rep r"
    then have "dict_get d' k = Some (close_record rep r)"
      by (intro rechecks_keep_others(2) [OF d1(2)]) auto
    with c show ?thesis by simp
  qed
qed

lemma finding_step:
  "dict_get (apply_finding seed st rep f d) k =
    (if k \<noteq> fnd_fingerprint f then dict_get d k
     else case dict_get d k of
       None \<Rightarrow> Some (make_record f (content_digest rep) (blocking seed f) 0)
     | Some p \<Rightarrow>
         if rec_closed_by p = None then
           Some (make_record f (content_digest rep) (blocking seed f \<or> rec_blocking p) (rec_occurrences p))
         else if reopens st rep f p then
           Some (make_record f (content_digest rep) (blocking seed f \<or> rec_blocking p) 0)
         else Some p)"
  by (simp add: apply_finding_def split: option.split)

lemma findings_unreported:
  "k \<notin> fnd_fingerprint ` set fs \<Longrightarrow> dict_get (fold (apply_finding seed st rep) fs d) k = dict_get d k"
  by (induction fs arbitrary: d) (auto simp: finding_step)

definition unresolved :: "finding_record \<Rightarrow> records \<Rightarrow> bool" where
  "unresolved r d \<longleftrightarrow> (\<exists>r'. dict_get d (record_key r) = Some r' \<and> rec_closed_by r' = None
    \<and> (rec_blocking r \<longrightarrow> rec_blocking r') \<and> rec_occurrences r' = rec_occurrences r)"

lemma findings_open:
  "unresolved r d \<Longrightarrow> unresolved r (fold (apply_finding seed st rep) fs d)"
proof (induction fs arbitrary: d)
  case Nil
  then show ?case by simp
next
  case (Cons f fs)
  then have "unresolved r (apply_finding seed st rep f d)"
    by (auto simp: unresolved_def finding_step)
  then show ?case by (simp add: Cons.IH)
qed

lemma findings_closed_before:
  "dict_get (fold (apply_finding seed st rep) fs d) k = Some r \<Longrightarrow> rec_closed_by r \<noteq> None \<Longrightarrow>
    dict_get d k = Some r"
proof (induction fs arbitrary: d)
  case Nil
  then show ?case by simp
next
  case (Cons f fs)
  then have "dict_get (apply_finding seed st rep f d) k = Some r" by simp
  with Cons.prems(2) show ?case by (auto simp: finding_step split: if_splits option.splits)
qed

lemma findings_reported:
  assumes "f \<in> set fs" and "distinct (map fnd_fingerprint fs)"
  shows "\<exists>r. dict_get (fold (apply_finding seed st rep) fs d) (fnd_fingerprint f) = Some r
    \<and> (rec_closed_by r = None \<and> rec_finding r = f \<and> rec_report r = content_digest rep
         \<and> (blocking seed f \<longrightarrow> rec_blocking r)
       \<or> dict_get d (fnd_fingerprint f) = Some r \<and> rec_closed_by r \<noteq> None \<and> \<not> reopens st rep f r)"
proof -
  from assms(1) obtain as bs where fs: "fs = as @ f # bs" by (auto simp: in_set_conv_decomp)
  with assms(2) have "fnd_fingerprint f \<notin> fnd_fingerprint ` set as"
    "fnd_fingerprint f \<notin> fnd_fingerprint ` set bs" by auto
  then have "dict_get (fold (apply_finding seed st rep) fs d) (fnd_fingerprint f)
      = dict_get (apply_finding seed st rep f (fold (apply_finding seed st rep) as d)) (fnd_fingerprint f)"
    and "dict_get (fold (apply_finding seed st rep) as d) (fnd_fingerprint f) = dict_get d (fnd_fingerprint f)"
    by (simp_all add: fs findings_unreported)
  then show ?thesis
    by (simp add: finding_step split: option.split)
qed

subsection \<open>The whole reconciliation\<close>

lemma get_counted:
  "dict_get (map (\<lambda>(k, r). (k, count_occurrence r)) d) k = map_option count_occurrence (dict_get d k)"
  by (induction d) (auto simp: dict_get_def)

lemma reconcile_cases:
  assumes "reconcile_findings seed st rep = Inr (fs, rs)"
  obtains d1 d3 where
    "efold (apply_recheck st rep) (rep_rechecks rep) (dict_of record_key (st_findings st)) = Inr d1"
    "keyed d1" "keyed d3" "set fs = snd ` set d3" "fs = dict_sorted_values d3"
    "\<And>k. dict_get d3 k = map_option count_occurrence
       (dict_get (fold (apply_finding seed st rep) (rep_findings rep) d1) k)"
    "set rs = (if \<exists>r \<in> set fs. repeated_failure seed r then {R_REPEATED_FAILURE} else {})
       \<union> set (stop_reasons seed rep)"
proof -
  from assms obtain d1 where d1:
    "efold (apply_recheck st rep) (rep_rechecks rep) (dict_of record_key (st_findings st)) = Inr d1"
    by (auto simp: reconcile_findings_def)
  let ?d2 = "fold (apply_finding seed st rep) (rep_findings rep) d1"
  let ?d3 = "map (\<lambda>(k, r). (k, count_occurrence r)) ?d2"
  have k1: "keyed d1" using d1 by (rule keyed_rechecks) simp
  have k3: "keyed ?d3"
    by (intro keyed_count keyed_fold [OF keyed_apply_finding] k1)
  have fs: "fs = dict_sorted_values ?d3"
    and rs: "rs = fromkeys (concat (map (\<lambda>(k, r). if repeated_failure seed r then [R_REPEATED_FAILURE] else []) ?d3)
        @ stop_reasons seed rep)"
    using assms d1 by (simp_all add: reconcile_findings_def Let_def)
  have "set rs = (if \<exists>r \<in> set fs. repeated_failure seed r then {R_REPEATED_FAILURE} else {})
       \<union> set (stop_reasons seed rep)"
    unfolding rs fs by (auto simp: case_prod_unfold split: if_splits)
  then show thesis using that [OF d1 k1 k3 _ fs] by (simp add: fs get_counted)
qed

lemma keyed_member: "keyed d \<Longrightarrow> set fs = snd ` set d \<Longrightarrow>
    r \<in> set fs \<longleftrightarrow> dict_get d (record_key r) = Some r"
proof
  assume d: "keyed d" "set fs = snd ` set d"
  assume "r \<in> set fs"
  with d(2) obtain k where "(k, r) \<in> set d" by auto
  with d(1) show "dict_get d (record_key r) = Some r" by (auto simp: keyed_def intro: dict_get_in)
next
  assume d: "keyed d" "set fs = snd ` set d"
  assume "dict_get d (record_key r) = Some r"
  then have "(record_key r, r) \<in> set d" by (rule dict_get_Some_in)
  with d(2) show "r \<in> set fs" by force
qed

lemma reconcile_keys:
  assumes "reconcile_findings seed st rep = Inr (fs, rs)"
  shows "distinct (map record_key fs)" and "sorted (map record_key fs)"
  using assms by (cases rule: reconcile_cases, simp add: keyed_sorted_values)+

definition carried :: "review_state \<Rightarrow> review_report \<Rightarrow> finding_record \<Rightarrow> finding_record \<Rightarrow> bool" where
  "carried st rep r r' \<longleftrightarrow>
    record_key r' = record_key r \<and> (rec_blocking r \<longrightarrow> rec_blocking r') \<and>
    (if rec_closed_by r' = None
     then rec_blocking r \<longrightarrow> rec_occurrences r' = rec_occurrences r + 1
     else rec_closed_by r' = Some (content_digest rep)
       \<and> rec_closed_artifact r' = Some (bnd_artifact (rep_binding rep)) \<and> closed_by_recheck st rep r)"

lemma reconcile_continuity:
  assumes "reconcile_findings seed st rep = Inr (fs, rs)"
    and "distinct (map record_key (st_findings st))" and "r \<in> set (open_findings st)"
  shows "\<exists>r' \<in> set fs. carried st rep r r'"
  using assms(1)
proof (cases rule: reconcile_cases)
  case (1 d1 d3)
  let ?k = "record_key r"
  let ?d2 = "fold (apply_finding seed st rep) (rep_findings rep) d1"
  have open0: "rec_closed_by r = None" "dict_get (dict_of record_key (st_findings st)) ?k = Some r"
    using assms(2,3) by (auto simp: open_findings_def intro: dict_of_get)
  from rechecks_open [OF 1(1) subset_refl keyed_dict_of open0(2,1)]
  obtain r' where r': "dict_get d3 ?k = Some r'" "carried st rep r r'"
  proof
    assume "dict_get d1 ?k = Some r"
    with open0 have "unresolved r d1" by (simp add: unresolved_def)
    then have "unresolved r ?d2" by (rule findings_open)
    then obtain r2 where r2: "dict_get ?d2 ?k = Some r2" "rec_closed_by r2 = None"
      "rec_blocking r \<longrightarrow> rec_blocking r2" "rec_occurrences r2 = rec_occurrences r"
      by (auto simp: unresolved_def)
    have "record_key r2 = ?k"
      by (rule keyed_get [OF keyed_fold [OF keyed_apply_finding 1(2)] r2(1)])
    with r2 have "carried st rep r (count_occurrence r2)"
      by (simp add: carried_def count_occurrence_def record_key_def)
    moreover have "dict_get d3 ?k = Some (count_occurrence r2)" using 1(6) r2(1) by simp
    ultimately show thesis by (intro that)
  next
    assume c: "dict_get d1 ?k = Some (close_record rep r) \<and> closed_by_recheck st rep r"
    then have "?k \<notin> fnd_fingerprint ` set (rep_findings rep)"
      by (auto simp: closed_by_recheck_def recheck_passes_def)
    with c have "dict_get d3 ?k = Some (count_occurrence (close_record rep r))"
      by (simp add: 1(6) findings_unreported)
    then show thesis by (rule that) (use c in \<open>simp add: carried_def\<close>)
  qed
  have "record_key r' = ?k" using 1(3) r'(1) by (rule keyed_get)
  then have "r' \<in> set fs" using keyed_member [OF 1(3,4)] r'(1) by simp
  with r'(2) show ?thesis by blast
qed

lemma reconcile_reported:
  assumes "reconcile_findings seed st rep = Inr (fs, rs)" and "f \<in> set (rep_findings rep)"
    and "distinct (map fnd_fingerprint (rep_findings rep))" and "blocking seed f"
  shows "\<exists>r \<in> set fs. record_key r = fnd_fingerprint f
    \<and> (rec_closed_by r = None \<and> rec_blocking r \<and> rec_finding r = f
       \<or> rec_closed_by r \<noteq> None \<and> \<not> reopens st rep f r)"
  using assms(1)
proof (cases rule: reconcile_cases)
  case (1 d1 d3)
  from findings_reported [OF assms(2,3), of seed st rep d1] obtain r where
    r: "dict_get (fold (apply_finding seed st rep) (rep_findings rep) d1) (fnd_fingerprint f) = Some r"
    "rec_closed_by r = None \<and> rec_finding r = f \<and> rec_blocking r \<or> rec_closed_by r \<noteq> None \<and> \<not> reopens st rep f r"
    using assms(4) by blast
  have d3: "dict_get d3 (fnd_fingerprint f) = Some (count_occurrence r)" using 1(6) r(1) by simp
  then have "count_occurrence r \<in> set fs"
    using keyed_member [OF 1(3,4)] keyed_get [OF 1(3) d3] by simp
  moreover have "record_key (count_occurrence r) = fnd_fingerprint f" using 1(3) d3 by (rule keyed_get)
  ultimately show ?thesis using r(2)
    by (intro bexI [of _ "count_occurrence r"]) (auto simp: reopens_def)
qed

lemma reconcile_breaker:
  assumes "reconcile_findings seed st rep = Inr (fs, rs)"
  shows "R_REPEATED_FAILURE \<in> set rs \<longleftrightarrow>
    (\<exists>r \<in> set fs. rec_closed_by r = None \<and> rec_blocking r \<and> pol_failure_limit (seed_policy seed) \<le> rec_occurrences r)"
  using assms
  by (cases rule: reconcile_cases)
     (auto simp: repeated_failure_def stop_reasons_def split: if_splits)

lemma reconcile_stops:
  assumes "reconcile_findings seed st rep = Inr (fs, rs)"
  shows "set (stop_reasons seed rep) \<subseteq> set rs"
  using assms by (cases rule: reconcile_cases) auto

subsection \<open>Stops of a rejected report\<close>

lemma retain_finding_get:
  "dict_get (retain_finding seed rep f d) k =
    (if k = fnd_fingerprint f \<and> (fnd_severity f = CRITICAL \<or> fnd_kind f = CONTRACT_GAP_FINDING
          \<or> fnd_criterion f \<notin> set (criterion_ids seed))
     then Some (make_record f (content_digest rep) True (previous_occurrences (dict_get d k)))
     else dict_get d k)"
  by (auto simp: retain_finding_def)

lemma retained_critical:
  assumes "f \<in> set fs" and "fnd_severity f = CRITICAL"
  shows "\<exists>r. dict_get (fold (retain_finding seed rep) fs d) (fnd_fingerprint f) = Some r
    \<and> rec_closed_by r = None \<and> rec_blocking r"
  using assms
proof (induction fs rule: rev_induct)
  case Nil
  then show ?case by simp
next
  case (snoc g fs)
  show ?case
  proof (cases "f = g")
    case True
    with snoc.prems show ?thesis by (simp add: retain_finding_get)
  next
    case False
    with snoc show ?thesis by (auto simp: retain_finding_get)
  qed
qed

lemma retain_stops_critical:
  assumes "f \<in> set (rep_findings rep)" and "fnd_severity f = CRITICAL"
  shows "R_CRITICAL \<in> set (st_terminal (retain_stops px seed st rep))"
    and "\<exists>r \<in> set (open_findings (retain_stops px seed st rep)). record_key r = fnd_fingerprint f \<and> rec_blocking r"
proof -
  let ?d = "fold (retain_finding seed rep) (rep_findings rep) (dict_of record_key (st_findings st))"
  have crit: "R_CRITICAL \<in> set (stop_reasons seed rep)"
    using assms by (auto simp: stop_reasons_def list_ex_iff)
  then have ne: "stop_reasons seed rep \<noteq> []" by auto
  with crit show "R_CRITICAL \<in> set (st_terminal (retain_stops px seed st rep))"
    by (simp add: retain_stops_def Let_def)
  obtain r where r: "dict_get ?d (fnd_fingerprint f) = Some r" "rec_closed_by r = None" "rec_blocking r"
    using retained_critical [OF assms] by blast
  have "keyed ?d" by (intro keyed_fold [OF keyed_retain_finding] keyed_dict_of)
  then have "record_key r = fnd_fingerprint f" using r(1) by (rule keyed_get)
  with r ne show "\<exists>r \<in> set (open_findings (retain_stops px seed st rep)). record_key r = fnd_fingerprint f \<and> rec_blocking r"
    by (force simp: retain_stops_def Let_def open_findings_def dest: dict_get_Some_in)
qed

lemma retained_open:
  assumes "dict_get d k = Some r" and "rec_closed_by r = None"
  shows "\<exists>r'. dict_get (fold (retain_finding seed rep) fs d) k = Some r' \<and> rec_closed_by r' = None
    \<and> (rec_blocking r \<longrightarrow> rec_blocking r') \<and> rec_occurrences r' = rec_occurrences r"
  using assms
proof (induction fs rule: rev_induct)
  case Nil
  then show ?case by simp
next
  case (snoc f fs)
  then obtain r' where "dict_get (fold (retain_finding seed rep) fs d) k = Some r'" "rec_closed_by r' = None"
    "rec_blocking r \<longrightarrow> rec_blocking r'" "rec_occurrences r' = rec_occurrences r" by blast
  then show ?case by (auto simp: retain_finding_get previous_occurrences_def)
qed

lemma retain_stops_open:
  assumes "r \<in> set (open_findings st)" and "distinct (map record_key (st_findings st))"
  shows "\<exists>r' \<in> set (open_findings (retain_stops px seed st rep)).
    record_key r' = record_key r \<and> (rec_blocking r \<longrightarrow> rec_blocking r')"
proof (cases "stop_reasons seed rep = []")
  case True
  then have "retain_stops px seed st rep = st" by (simp add: retain_stops_def)
  with assms(1) show ?thesis by auto
next
  case False
  let ?d = "fold (retain_finding seed rep) (rep_findings rep) (dict_of record_key (st_findings st))"
  have "rec_closed_by r = None" "dict_get (dict_of record_key (st_findings st)) (record_key r) = Some r"
    using assms by (auto simp: open_findings_def intro: dict_of_get)
  then obtain r' where r': "dict_get ?d (record_key r) = Some r'" "rec_closed_by r' = None"
    "rec_blocking r \<longrightarrow> rec_blocking r'"
    using retained_open by blast
  have k: "keyed ?d" by (intro keyed_fold [OF keyed_retain_finding] keyed_dict_of)
  have "r' \<in> set (dict_sorted_values ?d)" using dict_get_Some_in [OF r'(1)] by force
  with r' keyed_get [OF k r'(1)] False show ?thesis
    by (intro bexI [of _ r']) (simp_all add: retain_stops_def Let_def open_findings_def)
qed

lemma retain_stops_frame [simp, frame_simps]:
  "st_artifact (retain_stops px seed st rep) = st_artifact st"
  "st_budget (retain_stops px seed st rep) = st_budget st"
  "st_pending (retain_stops px seed st rep) = st_pending st"
  "st_last_at (retain_stops px seed st rep) = st_last_at st"
  "st_invocation_ids (retain_stops px seed st rep) = st_invocation_ids st"
  "st_execution_ids (retain_stops px seed st rep) = st_execution_ids st"
  "st_reports (retain_stops px seed st rep) = st_reports st"
  "st_resolutions (retain_stops px seed st rep) = st_resolutions st"
  "st_failures (retain_stops px seed st rep) = st_failures st"
  by (simp_all add: retain_stops_def Let_def)

lemma retain_stops_keys:
  assumes "distinct (map record_key (st_findings st))"
  shows "distinct (map record_key (st_findings (retain_stops px seed st rep)))"
proof -
  have "keyed (fold (retain_finding seed rep) (rep_findings rep) (dict_of record_key (st_findings st)))"
    by (intro keyed_fold [OF keyed_retain_finding] keyed_dict_of)
  then show ?thesis using assms by (simp add: retain_stops_def Let_def keyed_sorted_values)
qed

lemma retain_stops_terminal: "set (st_terminal (retain_stops px seed st rep)) =
    set (st_terminal st) \<union> set (stop_reasons seed rep)"
  by (simp add: retain_stops_def Let_def)

subsection \<open>Repairs\<close>

lemma reconcile_repair_D:
  assumes "reconcile_repair seed st ivn rpr = Inr rs"
  shows "rpr_invocation rpr = inv_id ivn" and "rpr_binding rpr = inv_binding ivn"
    and "rpr_producer rpr = seed_doer seed" and "inv_actor ivn = seed_doer seed"
    and "artifact_bound seed (rpr_artifact rpr)"
    and "art_key (rpr_artifact rpr) = art_key (st_artifact st)"
    and "art_producers (rpr_artifact rpr) = art_producers (st_artifact st)"
    and "rs = map (make_resolution_record ivn rpr) (rpr_resolutions rpr)"
    and "distinct (map rsl_fingerprint (rpr_resolutions rpr))"
  using assms by (auto simp: reconcile_repair_def ebind_eq_Inr guard_simps Let_def)

lemma reconcile_repair_blockers:
  assumes "reconcile_repair seed st ivn rpr = Inr rs" and "distinct (map record_key (st_findings st))"
    and "r \<in> set (open_findings st)" and "rec_blocking r"
  shows "\<exists>rsl \<in> set (rpr_resolutions rpr). rsl_fingerprint rsl = record_key r \<and> rsl_report rsl = rec_report r
    \<and> rsl_disposition rsl \<noteq> DEFERRED_ADVISORY
    \<and> (rsl_disposition rsl = FIXED \<longrightarrow> artifact_changed (rpr_artifact rpr) (st_artifact st))
    \<and> (\<forall>e \<in> set (rsl_evidence rsl). ev_artifact e = content_digest (rpr_artifact rpr))"
proof -
  let ?open = "dict_of record_key (open_findings st)"
  have dist: "distinct (map record_key (open_findings st))"
    using assms(2) by (simp add: open_findings_def distinct_map_filter)
  have get: "dict_get ?open (record_key r) = Some r" using dist assms(3) by (rule dict_of_get)
  from assms(1) have cover: "set (map fst (filter (\<lambda>(k, r). rec_blocking r) ?open)) \<subseteq>
      set (map rsl_fingerprint (rpr_resolutions rpr))"
    and each: "\<And>rsl x. rsl \<in> set (rpr_resolutions rpr) \<Longrightarrow> dict_get ?open (rsl_fingerprint rsl) = Some x \<Longrightarrow>
      list_all fst (resolution_checks rpr (artifact_changed (rpr_artifact rpr) (st_artifact st)) x rsl)"
    by (auto simp: reconcile_repair_def ebind_eq_Inr guard_simps Let_def dest!: bspec)
  have "(record_key r, r) \<in> set ?open" using get by (rule dict_get_Some_in)
  with cover assms(4) have "record_key r \<in> set (map rsl_fingerprint (rpr_resolutions rpr))" by force
  then obtain rsl where rsl: "rsl \<in> set (rpr_resolutions rpr)" "rsl_fingerprint rsl = record_key r" by auto
  have "list_all fst (resolution_checks rpr (artifact_changed (rpr_artifact rpr) (st_artifact st)) r rsl)"
    using each [OF rsl(1)] get rsl(2) by simp
  with assms(4) show ?thesis
    by (intro bexI [OF _ rsl(1)]) (simp add: rsl(2) resolution_checks_def evidence_bound_def list_all_iff)
qed

end
