(* ===== verification/Review_Reducer.thy ===== *)
theory Review_Reducer
  imports Review_Findings
begin

text \<open>
  \<^verbatim>\<open>policy/review_reducer.py\<close>: the reducers of the attempt ledger. \<open>reserve\<close> admits one invocation,
  \<open>complete\<close> settles it; both return the new state or the exception the source raises. Inside
  \<open>complete\<close> the \<^verbatim>\<open>try\<close> block is \<open>complete_review\<close> / \<open>complete_repair\<close>, whose exception handlers are
  \<open>failed\<close>.

  \<open>review_inv\<close> collects what holds of every state the reducers reach; it is established by
  \<open>initial_state\<close> and kept by \<open>reserve\<close> and \<open>complete\<close>.
\<close>

definition fresh_budget :: budget_state where
  "fresh_budget = seal budget_fields
    \<lparr>content_digest = [], bud_invocations = 0, bud_repairs = 0, bud_tokens_spent = 0,
     bud_cost_spent = 0, bud_tokens_reserved = 0, bud_cost_reserved = 0\<rparr>"

definition initial_state :: "'a pydantic_scheme \<Rightarrow> review_seed \<Rightarrow> review_error + review_state" where
  "initial_state px seed =
    ebind (validate_seed seed) (\<lambda>_. Inr (seal (state_fields px)
      \<lparr>content_digest = [], st_artifact = seed_artifact seed, st_last_at = seed_started_at seed,
       st_budget = fresh_budget, st_pending = None, st_invocation_ids = [], st_execution_ids = [],
       st_reports = [], st_findings = [], st_resolutions = [], st_failures = [], st_terminal = []\<rparr>))"

definition reserve_checks :: "review_seed \<Rightarrow> review_state \<Rightarrow> invocation \<Rightarrow> (bool \<times> review_error) list" where
  "reserve_checks seed st ivn =
    (let limits = seed_policy seed; budget = st_budget st; held = inv_reservation ivn;
         elapsed = inv_started_at ivn - seed_started_at seed in
     [(st_terminal st = [] \<and> eligibility_reasons seed st \<noteq> [], Violation R_REVIEW_LIMIT),
      (st_pending st = None, Violation R_PENDING),
      (inv_id ivn \<notin> set (st_invocation_ids st), Violation R_REPLAY),
      (inv_binding ivn = artifact_binding_of (st_artifact st), Violation R_BINDING_MISMATCH),
      (within_window seed st (inv_started_at ivn), Violation R_TIME_WINDOW),
      (int (res_seconds held) * 1000000 \<le> int (pol_max_seconds limits) * 1000000 - elapsed,
         Violation R_TIME_WINDOW),
      (bud_invocations budget < pol_max_invocations limits, Violation R_INVOCATION_LIMIT),
      (bud_tokens_spent budget + use_tokens held \<le> pol_max_tokens limits, Violation R_TOKEN_LIMIT),
      (bud_cost_spent budget + use_cost held \<le> pol_max_cost limits, Violation R_COST_LIMIT)]
     @ (if inv_kind ivn = REPAIR then
          [(inv_actor ivn = seed_doer seed, Violation R_IDENTITY_UNAVAILABLE),
           (needs_repair st, Violation R_INVALID_REPAIR),
           (bud_repairs budget < pol_max_repairs limits, Violation R_REPAIR_LIMIT)]
        else
          [(length (st_reports st) < pol_max_reviews limits, Violation R_REVIEW_LIMIT),
           (inv_actor ivn \<in> set (seed_reviewers seed), Violation R_IDENTITY_UNAVAILABLE)]))"

definition reserve ::
  "'a pydantic_scheme \<Rightarrow> review_seed \<Rightarrow> review_state \<Rightarrow> invocation \<Rightarrow> review_error + review_state" where
  "reserve px seed st ivn =
    ebind (require_all (reserve_checks seed st ivn)) (\<lambda>_.
    ebind (if inv_kind ivn = REPAIR then Inr () else independent seed (st_artifact st) (inv_actor ivn)) (\<lambda>_.
    let held = inv_reservation ivn; budget = st_budget st;
        budget' = seal budget_fields (budget\<lparr>
          bud_invocations := bud_invocations budget + 1,
          bud_repairs := bud_repairs budget + (if inv_kind ivn = REPAIR then 1 else 0),
          bud_tokens_reserved := use_tokens held, bud_cost_reserved := use_cost held\<rparr>)
    in Inr (seal (state_fields px) (st\<lparr>st_budget := budget', st_pending := Some ivn,
         st_last_at := inv_started_at ivn,
         st_invocation_ids := st_invocation_ids st @ [inv_id ivn]\<rparr>))))"

definition execution_key :: "invocation_receipt \<Rightarrow> string" where
  "execution_key proof = digest_of (json_strings [mid_provider (rcp_model proof), rcp_execution proof])"

definition receipt_reason :: "review_state \<Rightarrow> invocation \<Rightarrow> invocation_receipt option \<Rightarrow> review_reason option"
where
  "receipt_reason st ivn receipt =
    (case receipt of
       None \<Rightarrow> Some R_RECEIPT_UNAVAILABLE
     | Some proof \<Rightarrow>
         if rcp_invocation proof \<noteq> inv_id ivn \<or> rcp_binding proof \<noteq> inv_binding ivn
            \<or> rcp_model proof \<noteq> inv_actor ivn then Some R_RECEIPT_MISMATCH
         else if rcp_cached proof \<or> execution_key proof \<in> set (st_execution_ids st) then Some R_REPLAY
         else None)"

definition charged :: "review_state \<Rightarrow> invocation \<Rightarrow> invocation_receipt option \<Rightarrow> nat \<times> nat" where
  "charged st ivn receipt =
    (let held = inv_reservation ivn;
         (tokens, cost) = (case receipt of None \<Rightarrow> (use_tokens held, use_cost held)
                           | Some proof \<Rightarrow> (use_tokens (rcp_usage proof), use_cost (rcp_usage proof)))
     in if receipt_reason st ivn receipt \<noteq> None
        then (max tokens (use_tokens held), max cost (use_cost held)) else (tokens, cost))"

definition account ::
  "'a pydantic_scheme \<Rightarrow> review_state \<Rightarrow> invocation \<Rightarrow> completion \<Rightarrow> review_state \<times> review_reason option" where
  "account px st ivn completion =
    (let receipt = cmp_receipt completion; held = inv_reservation ivn;
         (tokens, cost) = charged st ivn receipt;
         reason = (if use_tokens held < tokens \<or> use_cost held < cost then Some R_BUDGET_OVERRUN
                   else receipt_reason st ivn receipt);
         budget = seal budget_fields ((st_budget st)\<lparr>
           bud_tokens_spent := bud_tokens_spent (st_budget st) + tokens,
           bud_cost_spent := bud_cost_spent (st_budget st) + cost,
           bud_tokens_reserved := 0, bud_cost_reserved := 0\<rparr>);
         ids = st_execution_ids st;
         ids' = (case receipt of None \<Rightarrow> ids
                 | Some proof \<Rightarrow> if execution_key proof \<notin> set ids then ids @ [execution_key proof] else ids)
     in (seal (state_fields px) (st\<lparr>st_budget := budget, st_pending := None, st_execution_ids := ids',
           st_last_at := max (st_last_at st) (cmp_finished_at completion)\<rparr>), reason))"

definition terminal_failures :: "review_reason list" where
  "terminal_failures =
    [R_TIME_WINDOW, R_RECEIPT_MISMATCH, R_REPLAY, R_BUDGET_OVERRUN, R_NO_PROGRESS, R_CONTRACT_GAP,
     R_ARTIFACT_DRIFT, R_AUTHORIZATION_REVOKED, R_EXECUTION_INVALID, R_OUTPUT_LIMIT]"

definition failure_counts :: "review_state \<Rightarrow> (review_reason \<times> nat) list" where
  "failure_counts st = fold (\<lambda>i d. AList.update (fc_reason i) (fc_occurrences i) d) (st_failures st) []"

definition make_failure :: "review_reason \<times> nat \<Rightarrow> failure_count" where
  "make_failure p = seal failure_fields \<lparr>content_digest = [], fc_reason = fst p, fc_occurrences = snd p\<rparr>"

definition failure ::
  "'a pydantic_scheme \<Rightarrow> review_seed \<Rightarrow> review_state \<Rightarrow> review_reason \<Rightarrow> review_state" where
  "failure px seed st reason =
    (let counts = failure_counts st;
         n = (case dict_get counts reason of None \<Rightarrow> 0 | Some k \<Rightarrow> k) + 1;
         terminal = st_terminal st
           @ (if reason \<in> set terminal_failures then [reason] else [])
           @ (if pol_failure_limit (seed_policy seed) \<le> n then [R_REPEATED_FAILURE] else [])
     in seal (state_fields px) (st\<lparr>
          st_failures := map make_failure (sort_key fst (AList.update reason n counts)),
          st_terminal := fromkeys terminal\<rparr>))"

definition capacity :: "'a pydantic_scheme \<Rightarrow> review_seed \<Rightarrow> review_state \<Rightarrow> review_state" where
  "capacity px seed st =
    (if eligibility_reasons seed st = [] then st
     else let limits = seed_policy seed; budget = st_budget st;
       reasons = st_terminal st @ map snd (filter fst
         [(needs_repair st \<and> pol_max_repairs limits \<le> bud_repairs budget, R_REPAIR_LIMIT),
          (pol_max_reviews limits \<le> length (st_reports st), R_REVIEW_LIMIT),
          (pol_max_invocations limits \<le> bud_invocations budget, R_INVOCATION_LIMIT),
          (pol_max_tokens limits \<le> bud_tokens_spent budget, R_TOKEN_LIMIT),
          (pol_max_cost limits \<le> bud_cost_spent budget, R_COST_LIMIT)])
     in seal (state_fields px) (st\<lparr>st_terminal := fromkeys reasons\<rparr>))"

definition parse_review :: "'a pydantic_scheme \<Rightarrow> string \<Rightarrow> review_error + review_report" where
  "parse_review px text =
    (case decode_review px text of None \<Rightarrow> Inl Invalid
     | Some rep \<Rightarrow> if valid_report rep then Inr rep else Inl Invalid)"

definition parse_repair :: "'a pydantic_scheme \<Rightarrow> string \<Rightarrow> review_error + repair_report" where
  "parse_repair px text =
    (case decode_repair px text of None \<Rightarrow> Inl Invalid
     | Some rpr \<Rightarrow> if valid_repair rpr then Inr rpr else Inl Invalid)"

definition failed :: "'a pydantic_scheme \<Rightarrow> review_seed \<Rightarrow> review_state \<Rightarrow> review_error \<Rightarrow> review_state" where
  "failed px seed st e = failure px seed st (case e of Violation r \<Rightarrow> r | Invalid \<Rightarrow> R_MALFORMED_REPORT)"

definition complete_review ::
  "'a pydantic_scheme \<Rightarrow> review_seed \<Rightarrow> review_state \<Rightarrow> invocation \<Rightarrow> string \<Rightarrow> review_state" where
  "complete_review px seed accounted ivn text =
    (case ebind (parse_review px text) (\<lambda>rep.
            ebind (validate_report_binding seed accounted ivn rep) (\<lambda>_. Inr rep)) of
       Inl e \<Rightarrow> failed px seed accounted e
     | Inr rep \<Rightarrow>
         (case ebind (validate_report seed accounted rep) (\<lambda>_. reconcile_findings seed accounted rep) of
            Inl e \<Rightarrow> failed px seed (retain_stops px seed accounted rep) e
          | Inr (findings, terminal) \<Rightarrow>
              seal (state_fields px) (accounted\<lparr>st_findings := findings, st_terminal := terminal,
                st_failures := [], st_reports := st_reports accounted @ [rep]\<rparr>)))"

definition complete_repair ::
  "'a pydantic_scheme \<Rightarrow> review_seed \<Rightarrow> review_state \<Rightarrow> invocation \<Rightarrow> string \<Rightarrow> review_state" where
  "complete_repair px seed accounted ivn text =
    (case ebind (parse_repair px text) (\<lambda>rpr.
            ebind (reconcile_repair seed accounted ivn rpr) (\<lambda>rs. Inr (rpr, rs))) of
       Inl e \<Rightarrow> failed px seed accounted e
     | Inr (rpr, resolutions) \<Rightarrow>
         seal (state_fields px) (accounted\<lparr>st_artifact := rpr_artifact rpr, st_failures := [],
           st_resolutions := st_resolutions accounted @ resolutions\<rparr>))"

definition settlement_reason ::
  "review_seed \<Rightarrow> review_state \<Rightarrow> invocation \<Rightarrow> completion \<Rightarrow> review_reason option \<Rightarrow> review_reason option" where
  "settlement_reason seed st ivn completion reason =
    (case cmp_failure completion of
       Some s \<Rightarrow> Some (stop_reason s)
     | None \<Rightarrow>
         let elapsed = cmp_finished_at completion - inv_started_at ivn in
         if \<not> within_window seed st (cmp_finished_at completion)
            \<or> \<not> (0 \<le> elapsed \<and> elapsed < int (res_seconds (inv_reservation ivn)) * 1000000)
         then Some R_TIME_WINDOW else reason)"

definition complete ::
  "'a pydantic_scheme \<Rightarrow> review_seed \<Rightarrow> review_state \<Rightarrow> completion \<Rightarrow> review_error + review_state" where
  "complete px seed st completion =
    (case st_pending st of
       None \<Rightarrow> Inl (Violation R_PENDING)
     | Some ivn \<Rightarrow>
         if cmp_invocation completion \<noteq> inv_id ivn then Inl (Violation R_BINDING_MISMATCH)
         else let (accounted, reason) = account px st ivn completion in
           Inr (capacity px seed
             (case settlement_reason seed st ivn completion reason of
                Some r \<Rightarrow> failure px seed accounted r
              | None \<Rightarrow>
                  (case cmp_output completion of
                     None \<Rightarrow> failed px seed accounted (Violation R_MALFORMED_REPORT)
                   | Some text \<Rightarrow>
                       if inv_kind ivn = REVIEW then complete_review px seed accounted ivn text
                       else complete_repair px seed accounted ivn text))))"

subsection \<open>Frames\<close>

lemma fresh_budget_simps [simp]:
  "bud_invocations fresh_budget = 0" "bud_repairs fresh_budget = 0" "bud_tokens_spent fresh_budget = 0"
  "bud_cost_spent fresh_budget = 0" "bud_tokens_reserved fresh_budget = 0" "bud_cost_reserved fresh_budget = 0"
  by (simp_all add: fresh_budget_def)

lemma failure_frame [simp, frame_simps]:
  "st_artifact (failure px seed st r) = st_artifact st"
  "st_last_at (failure px seed st r) = st_last_at st"
  "st_budget (failure px seed st r) = st_budget st"
  "st_pending (failure px seed st r) = st_pending st"
  "st_invocation_ids (failure px seed st r) = st_invocation_ids st"
  "st_execution_ids (failure px seed st r) = st_execution_ids st"
  "st_reports (failure px seed st r) = st_reports st"
  "st_findings (failure px seed st r) = st_findings st"
  "st_resolutions (failure px seed st r) = st_resolutions st"
  by (simp_all add: failure_def Let_def)

lemma capacity_frame [simp, frame_simps]:
  "st_artifact (capacity px seed st) = st_artifact st"
  "st_last_at (capacity px seed st) = st_last_at st"
  "st_budget (capacity px seed st) = st_budget st"
  "st_pending (capacity px seed st) = st_pending st"
  "st_invocation_ids (capacity px seed st) = st_invocation_ids st"
  "st_execution_ids (capacity px seed st) = st_execution_ids st"
  "st_reports (capacity px seed st) = st_reports st"
  "st_findings (capacity px seed st) = st_findings st"
  "st_resolutions (capacity px seed st) = st_resolutions st"
  "st_failures (capacity px seed st) = st_failures st"
  by (simp_all add: capacity_def Let_def)

lemma open_findings_frame [simp, frame_simps]:
  "open_findings (failure px seed st r) = open_findings st"
  "open_findings (capacity px seed st) = open_findings st"
  by (simp_all add: open_findings_def)

lemma failure_terminal:
  "set (st_terminal st) \<subseteq> set (st_terminal (failure px seed st r))"
  "r \<in> set terminal_failures \<Longrightarrow> r \<in> set (st_terminal (failure px seed st r))"
  by (auto simp: failure_def Let_def)

lemma capacity_terminal: "set (st_terminal st) \<subseteq> set (st_terminal (capacity px seed st))"
  by (auto simp: capacity_def Let_def)

lemma capacity_terminal_Nil: "st_terminal (capacity px seed st) = [] \<Longrightarrow> st_terminal st = []"
  using capacity_terminal [of st px seed] by auto

lemma failure_terminal_Nil: "st_terminal (failure px seed st r) = [] \<Longrightarrow>
    st_terminal st = [] \<and> r \<notin> set terminal_failures"
  using failure_terminal(1) [of st px seed r] failure_terminal(2) [of r px seed st] by auto

lemma retain_stops_terminal_Nil: "st_terminal (retain_stops px seed st rep) = [] \<Longrightarrow>
    retain_stops px seed st rep = st"
  by (auto simp: retain_stops_def Let_def)

lemma account_frame:
  assumes "account px st ivn c = (st', reason)"
  shows "st_artifact st' = st_artifact st" and "st_pending st' = None"
    and "st_invocation_ids st' = st_invocation_ids st" and "st_reports st' = st_reports st"
    and "st_findings st' = st_findings st" and "st_resolutions st' = st_resolutions st"
    and "st_failures st' = st_failures st" and "st_terminal st' = st_terminal st"
    and "st_last_at st' = max (st_last_at st) (cmp_finished_at c)"
    and "bud_invocations (st_budget st') = bud_invocations (st_budget st)"
    and "bud_repairs (st_budget st') = bud_repairs (st_budget st)"
    and "bud_tokens_reserved (st_budget st') = 0" and "bud_cost_reserved (st_budget st') = 0"
  using assms by (auto simp: account_def Let_def split: prod.splits)

text \<open>What a settlement charges: never less than the reservation unless the receipt is trustworthy.\<close>

lemma account_spent:
  assumes "account px st ivn c = (st', reason)"
  shows "bud_tokens_spent (st_budget st') = bud_tokens_spent (st_budget st) + fst (charged st ivn (cmp_receipt c))"
    and "bud_cost_spent (st_budget st') = bud_cost_spent (st_budget st) + snd (charged st ivn (cmp_receipt c))"
    and "reason \<noteq> Some R_BUDGET_OVERRUN \<Longrightarrow>
      fst (charged st ivn (cmp_receipt c)) \<le> use_tokens (inv_reservation ivn)
      \<and> snd (charged st ivn (cmp_receipt c)) \<le> use_cost (inv_reservation ivn)"
  using assms by (auto simp: account_def Let_def split: prod.splits if_splits)

lemma charged_untrusted:
  assumes "receipt_reason st ivn receipt \<noteq> None"
  shows "use_tokens (inv_reservation ivn) \<le> fst (charged st ivn receipt)"
    and "use_cost (inv_reservation ivn) \<le> snd (charged st ivn receipt)"
  using assms by (auto simp: charged_def Let_def split: prod.splits)

lemma account_executions:
  assumes "account px st ivn c = (st', reason)"
  shows "st_execution_ids st' =
    (case cmp_receipt c of None \<Rightarrow> st_execution_ids st
     | Some proof \<Rightarrow> if execution_key proof \<in> set (st_execution_ids st) then st_execution_ids st
                      else st_execution_ids st @ [execution_key proof])"
  using assms by (auto simp: account_def Let_def split: prod.splits option.splits)

lemma account_trusted:
  assumes "account px st ivn c = (st', None)"
  obtains receipt where "cmp_receipt c = Some receipt" "rcp_invocation receipt = inv_id ivn"
    "rcp_binding receipt = inv_binding ivn" "rcp_model receipt = inv_actor ivn" "\<not> rcp_cached receipt"
    "execution_key receipt \<notin> set (st_execution_ids st)"
    "st_execution_ids st' = st_execution_ids st @ [execution_key receipt]"
proof -
  from assms have "receipt_reason st ivn (cmp_receipt c) = None"
    by (auto simp: account_def Let_def split: prod.splits if_splits)
  then obtain receipt where p: "cmp_receipt c = Some receipt" "rcp_invocation receipt = inv_id ivn"
    "rcp_binding receipt = inv_binding ivn" "rcp_model receipt = inv_actor ivn" "\<not> rcp_cached receipt"
    "execution_key receipt \<notin> set (st_execution_ids st)"
    by (auto simp: receipt_reason_def split: option.splits if_splits)
  with account_executions [OF assms] show thesis by (auto intro: that)
qed

subsection \<open>Case analysis of the reducers\<close>

lemma initial_cases:
  assumes "initial_state px seed = Inr st"
  shows "validate_seed seed = Inr ()" and "st_artifact st = seed_artifact seed"
    and "st_last_at st = seed_started_at seed" and "st_budget st = fresh_budget"
    and "st_pending st = None" and "st_invocation_ids st = []" and "st_execution_ids st = []"
    and "st_reports st = []" and "st_findings st = []" and "st_resolutions st = []"
    and "st_failures st = []" and "st_terminal st = []"
  using assms by (auto simp: initial_state_def ebind_eq_Inr)

lemma reserve_cases:
  assumes "reserve px seed st ivn = Inr st'"
  shows "st_terminal st = []" and "eligibility_reasons seed st \<noteq> []" and "st_pending st = None"
    and "inv_id ivn \<notin> set (st_invocation_ids st)"
    and "inv_binding ivn = artifact_binding_of (st_artifact st)"
    and "within_window seed st (inv_started_at ivn)"
    and "bud_invocations (st_budget st) < pol_max_invocations (seed_policy seed)"
    and "bud_tokens_spent (st_budget st) + use_tokens (inv_reservation ivn) \<le> pol_max_tokens (seed_policy seed)"
    and "bud_cost_spent (st_budget st) + use_cost (inv_reservation ivn) \<le> pol_max_cost (seed_policy seed)"
    and "inv_kind ivn = REPAIR \<Longrightarrow> inv_actor ivn = seed_doer seed \<and> needs_repair st
      \<and> bud_repairs (st_budget st) < pol_max_repairs (seed_policy seed)"
    and "inv_kind ivn = REVIEW \<Longrightarrow> length (st_reports st) < pol_max_reviews (seed_policy seed)
      \<and> inv_actor ivn \<in> set (seed_reviewers seed)
      \<and> separated seed (art_producers (st_artifact st)) (inv_actor ivn)"
  using assms
  by (auto simp: reserve_def reserve_checks_def Let_def guard_simps split: if_splits)

lemma reserve_frame:
  assumes "reserve px seed st ivn = Inr st'"
  shows "st_artifact st' = st_artifact st" and "st_pending st' = Some ivn"
    and "st_last_at st' = inv_started_at ivn"
    and "st_invocation_ids st' = st_invocation_ids st @ [inv_id ivn]"
    and "st_execution_ids st' = st_execution_ids st" and "st_reports st' = st_reports st"
    and "st_findings st' = st_findings st" and "st_resolutions st' = st_resolutions st"
    and "st_failures st' = st_failures st" and "st_terminal st' = st_terminal st"
    and "bud_invocations (st_budget st') = bud_invocations (st_budget st) + 1"
    and "bud_repairs (st_budget st') = bud_repairs (st_budget st) + (if inv_kind ivn = REPAIR then 1 else 0)"
    and "bud_tokens_spent (st_budget st') = bud_tokens_spent (st_budget st)"
    and "bud_cost_spent (st_budget st') = bud_cost_spent (st_budget st)"
    and "bud_tokens_reserved (st_budget st') = use_tokens (inv_reservation ivn)"
    and "bud_cost_reserved (st_budget st') = use_cost (inv_reservation ivn)"
  using assms by (auto simp: reserve_def Let_def)

text \<open>The four ways an attempt settles, each before the capacity check.\<close>

inductive settles ::
  "'a pydantic_scheme \<Rightarrow> review_seed \<Rightarrow> review_state \<Rightarrow> invocation \<Rightarrow> review_state \<Rightarrow> bool"
  for px :: "'a pydantic_scheme" and seed :: review_seed and acc :: review_state and ivn :: invocation where
  settle_failure: "settles px seed acc ivn (failure px seed acc r)"
| settle_rejected: "valid_report rep \<Longrightarrow> validate_report_binding seed acc ivn rep = Inr () \<Longrightarrow>
    settles px seed acc ivn (failure px seed (retain_stops px seed acc rep) r)"
| settle_review: "inv_kind ivn = REVIEW \<Longrightarrow> valid_report rep \<Longrightarrow>
    validate_report_binding seed acc ivn rep = Inr () \<Longrightarrow> validate_report seed acc rep = Inr () \<Longrightarrow>
    reconcile_findings seed acc rep = Inr (findings, terminal) \<Longrightarrow>
    settles px seed acc ivn (seal (state_fields px) (acc\<lparr>st_findings := findings, st_terminal := terminal,
      st_failures := [], st_reports := st_reports acc @ [rep]\<rparr>))"
| settle_repair: "inv_kind ivn = REPAIR \<Longrightarrow> valid_repair rpr \<Longrightarrow>
    reconcile_repair seed acc ivn rpr = Inr resolutions \<Longrightarrow>
    settles px seed acc ivn (seal (state_fields px) (acc\<lparr>st_artifact := rpr_artifact rpr, st_failures := [],
      st_resolutions := st_resolutions acc @ resolutions\<rparr>))"

lemma complete_review_settles: "inv_kind ivn = REVIEW \<Longrightarrow> settles px seed acc ivn (complete_review px seed acc ivn text)"
  by (auto simp: complete_review_def failed_def parse_review_def ebind_def intro: settles.intros
      split: sum.splits option.splits)

lemma complete_repair_settles: "inv_kind ivn = REPAIR \<Longrightarrow> settles px seed acc ivn (complete_repair px seed acc ivn text)"
  by (auto simp: complete_repair_def failed_def parse_repair_def ebind_def intro: settles.intros
      split: sum.splits option.splits)

lemma complete_cases:
  assumes "complete px seed st c = Inr st'"
  obtains ivn acc reason u where "st_pending st = Some ivn" "cmp_invocation c = inv_id ivn"
    "account px st ivn c = (acc, reason)" "st' = capacity px seed u"
    "(\<exists>r. u = failure px seed acc r \<and> (reason = Some R_BUDGET_OVERRUN \<longrightarrow> r \<in> set terminal_failures))
     \<or> reason = None \<and> settles px seed acc ivn u"
proof -
  from assms obtain ivn where ivn: "st_pending st = Some ivn" "cmp_invocation c = inv_id ivn"
    by (auto simp: complete_def split: option.splits if_splits)
  obtain acc reason where acc: "account px st ivn c = (acc, reason)" by fastforce
  let ?s = "settlement_reason seed st ivn c reason"
  let ?u = "case ?s of Some r \<Rightarrow> failure px seed acc r
    | None \<Rightarrow> (case cmp_output c of None \<Rightarrow> failed px seed acc (Violation R_MALFORMED_REPORT)
       | Some text \<Rightarrow> if inv_kind ivn = REVIEW then complete_review px seed acc ivn text
           else complete_repair px seed acc ivn text)"
  have st': "st' = capacity px seed ?u" using assms ivn acc by (simp add: complete_def)
  have "(\<exists>r. ?u = failure px seed acc r \<and> (reason = Some R_BUDGET_OVERRUN \<longrightarrow> r \<in> set terminal_failures))
     \<or> reason = None \<and> settles px seed acc ivn ?u"
  proof (cases ?s)
    case (Some r)
    moreover have "reason = Some R_BUDGET_OVERRUN \<longrightarrow> r \<in> set terminal_failures"
    proof (cases "cmp_failure c")
      case (Some s)
      with \<open>?s = Some r\<close> show ?thesis
        by (cases s) (auto simp: settlement_reason_def terminal_failures_def)
    next
      case None
      with Some show ?thesis
        by (auto simp: settlement_reason_def terminal_failures_def Let_def split: if_splits)
    qed
    ultimately show ?thesis by auto
  next
    case None
    then have "reason = None" by (auto simp: settlement_reason_def Let_def split: option.splits if_splits)
    moreover have "inv_kind ivn \<noteq> REVIEW \<Longrightarrow> inv_kind ivn = REPAIR" by (cases "inv_kind ivn") auto
    ultimately show ?thesis using None
      by (auto simp: failed_def intro: settles.intros complete_review_settles complete_repair_settles
          split: option.split)
  qed
  with ivn acc st' show thesis by (rule that)
qed

subsection \<open>The invariant of the ledger\<close>

definition counters_ok :: "review_seed \<Rightarrow> review_state \<Rightarrow> bool" where
  "counters_ok seed st \<longleftrightarrow>
    bud_invocations (st_budget st) = length (st_invocation_ids st)
    \<and> length (st_invocation_ids st) \<le> pol_max_invocations (seed_policy seed)
    \<and> bud_repairs (st_budget st) \<le> pol_max_repairs (seed_policy seed)
    \<and> length (st_reports st) \<le> pol_max_reviews (seed_policy seed)"

definition funds_ok :: "review_seed \<Rightarrow> review_state \<Rightarrow> bool" where
  "funds_ok seed st \<longleftrightarrow>
    (case st_pending st of
       None \<Rightarrow> bud_tokens_reserved (st_budget st) = 0 \<and> bud_cost_reserved (st_budget st) = 0
     | Some ivn \<Rightarrow> bud_tokens_reserved (st_budget st) = use_tokens (inv_reservation ivn)
         \<and> bud_cost_reserved (st_budget st) = use_cost (inv_reservation ivn))
    \<and> (st_terminal st = [] \<longrightarrow>
         bud_tokens_spent (st_budget st) + bud_tokens_reserved (st_budget st) \<le> pol_max_tokens (seed_policy seed)
         \<and> bud_cost_spent (st_budget st) + bud_cost_reserved (st_budget st) \<le> pol_max_cost (seed_policy seed))"

definition replay_ok :: "review_state \<Rightarrow> bool" where
  "replay_ok st \<longleftrightarrow>
    distinct (st_invocation_ids st) \<and> distinct (st_execution_ids st)
    \<and> length (st_reports st) \<le> length (st_execution_ids st)
    \<and> length (st_execution_ids st) + (if st_pending st = None then 0 else 1) \<le> length (st_invocation_ids st)
    \<and> distinct (map rep_invocation (st_reports st))
    \<and> rep_invocation ` set (st_reports st) \<subseteq> set (st_invocation_ids st)"

definition pending_ok :: "review_seed \<Rightarrow> review_state \<Rightarrow> bool" where
  "pending_ok seed st \<longleftrightarrow>
    (case st_pending st of
       None \<Rightarrow> True
     | Some ivn \<Rightarrow> st_terminal st = []
         \<and> inv_id ivn \<in> set (st_invocation_ids st) \<and> inv_id ivn \<notin> rep_invocation ` set (st_reports st)
         \<and> inv_binding ivn = artifact_binding_of (st_artifact st)
         \<and> (inv_kind ivn = REVIEW \<longrightarrow> length (st_reports st) < pol_max_reviews (seed_policy seed)
              \<and> inv_actor ivn \<in> set (seed_reviewers seed))
         \<and> (inv_kind ivn = REPAIR \<longrightarrow> inv_actor ivn = seed_doer seed))"

definition lineage_ok :: "review_seed \<Rightarrow> review_state \<Rightarrow> bool" where
  "lineage_ok seed st \<longleftrightarrow>
    artifact_bound seed (st_artifact st) \<and> art_key (st_artifact st) = art_key (seed_artifact seed)
    \<and> art_producers (st_artifact st) = art_producers (seed_artifact seed)"

definition report_ok :: "review_seed \<Rightarrow> review_report \<Rightarrow> bool" where
  "report_ok seed rep \<longleftrightarrow>
    valid_report rep \<and> (distinct (map crit_id (qc_criteria (seed_contract seed))) \<longrightarrow> covers seed rep)
    \<and> evidence_current rep \<and> rep_reviewer rep \<in> set (seed_reviewers seed)
    \<and> separated seed (art_producers (seed_artifact seed)) (rep_reviewer rep)"

definition findings_ok :: "review_seed \<Rightarrow> review_state \<Rightarrow> bool" where
  "findings_ok seed st \<longleftrightarrow>
    distinct (map record_key (st_findings st))
    \<and> (st_terminal st = [] \<longrightarrow> (\<forall>r \<in> set (open_findings st). rec_blocking r \<longrightarrow>
         rec_occurrences r < pol_failure_limit (seed_policy seed)))"

definition review_inv :: "review_seed \<Rightarrow> review_state \<Rightarrow> bool" where
  "review_inv seed st \<longleftrightarrow>
    counters_ok seed st \<and> funds_ok seed st \<and> replay_ok st \<and> pending_ok seed st \<and> lineage_ok seed st
    \<and> (\<forall>rep \<in> set (st_reports st). report_ok seed rep) \<and> findings_ok seed st
    \<and> seed_started_at seed \<le> st_last_at st"

lemmas review_inv_defs = review_inv_def counters_ok_def funds_ok_def replay_ok_def pending_ok_def
  lineage_ok_def findings_ok_def

lemma initial_inv: "initial_state px seed = Inr st \<Longrightarrow> review_inv seed st"
  using initial_cases [of px seed st]
  by (simp add: review_inv_defs open_findings_def guard_simps)

lemma reserve_inv:
  assumes "review_inv seed st" and "reserve px seed st ivn = Inr st'"
  shows "review_inv seed st'"
proof -
  note c = reserve_cases [OF assms(2)] and f = reserve_frame [OF assms(2)]
  have "counters_ok seed st'" using assms(1) c f
    by (cases "inv_kind ivn") (auto simp: review_inv_def counters_ok_def)
  moreover have "funds_ok seed st'" using c f by (simp add: funds_ok_def)
  moreover have "replay_ok st'" using assms(1) c f by (auto simp: review_inv_def replay_ok_def)
  moreover have "pending_ok seed st'" using assms(1) c f
    by (auto simp: review_inv_def pending_ok_def replay_ok_def)
  moreover have "lineage_ok seed st'" using assms(1) f by (simp add: review_inv_def lineage_ok_def)
  moreover have "findings_ok seed st'" using assms(1) f
    by (simp add: review_inv_def findings_ok_def open_findings_def)
  moreover have "seed_started_at seed \<le> st_last_at st'" using c f by (simp add: within_window_def)
  ultimately show ?thesis using assms(1) f by (simp add: review_inv_def)
qed

text \<open>The part of the invariant that does not mention the terminal reasons survives any growth of them.\<close>

lemma capacity_inv: "review_inv seed st \<Longrightarrow> st_pending st = None \<Longrightarrow> review_inv seed (capacity px seed st)"
  using capacity_terminal_Nil [of px seed st]
  by (auto simp: review_inv_defs)

lemma account_inv:
  assumes "review_inv seed st" and "st_pending st = Some ivn" and "account px st ivn c = (acc, reason)"
  shows "counters_ok seed acc" and "replay_ok acc" and "lineage_ok seed acc" and "findings_ok seed acc"
    and "reason \<noteq> Some R_BUDGET_OVERRUN \<Longrightarrow> funds_ok seed acc"
    and "\<forall>rep \<in> set (st_reports acc). report_ok seed rep"
    and "seed_started_at seed \<le> st_last_at acc"
    and "bud_tokens_reserved (st_budget acc) = 0 \<and> bud_cost_reserved (st_budget acc) = 0"
proof -
  note f = account_frame [OF assms(3)]
  show "counters_ok seed acc" using assms(1) f by (simp add: review_inv_def counters_ok_def)
  show "replay_ok acc" using assms(1,2) f account_executions [OF assms(3)]
    by (auto simp: review_inv_def replay_ok_def split: option.split)
  show "lineage_ok seed acc" using assms(1) f by (simp add: review_inv_def lineage_ok_def)
  show "findings_ok seed acc" using assms(1) f by (simp add: review_inv_def findings_ok_def open_findings_def)
  show "\<forall>rep \<in> set (st_reports acc). report_ok seed rep" using assms(1) f by (simp add: review_inv_def)
  show "seed_started_at seed \<le> st_last_at acc" using assms(1) f(9) by (auto simp: review_inv_def)
  show "bud_tokens_reserved (st_budget acc) = 0 \<and> bud_cost_reserved (st_budget acc) = 0" using f by simp
  show "funds_ok seed acc" if "reason \<noteq> Some R_BUDGET_OVERRUN"
    using assms(1,2) f account_spent [OF assms(3)] that
    by (auto simp: review_inv_def funds_ok_def)
qed

lemma failure_inv:
  assumes "review_inv seed st" and "st_pending st = Some ivn" and "account px st ivn c = (acc, reason)"
    and "reason = Some R_BUDGET_OVERRUN \<longrightarrow> r \<in> set terminal_failures"
  shows "review_inv seed (failure px seed acc r)"
proof -
  note a = account_inv [OF assms(1-3)] and p = account_frame(2) [OF assms(3)]
  have "funds_ok seed (failure px seed acc r)"
  proof (cases "reason = Some R_BUDGET_OVERRUN")
    case True
    then have "st_terminal (failure px seed acc r) \<noteq> []"
      using failure_terminal_Nil assms(4) by blast
    with a(8) p show ?thesis by (simp add: funds_ok_def)
  next
    case False
    with a(5) p failure_terminal_Nil [of px seed acc r] show ?thesis by (auto simp: funds_ok_def)
  qed
  with a p failure_terminal_Nil [of px seed acc r] show ?thesis
    by (auto simp: review_inv_def counters_ok_def replay_ok_def pending_ok_def lineage_ok_def findings_ok_def)
qed

lemma settles_inv:
  assumes "review_inv seed st" and "st_pending st = Some ivn" and "account px st ivn c = (acc, None)"
    and "settles px seed acc ivn u"
  shows "review_inv seed u \<and> st_pending u = None"
  using assms(4)
proof (cases rule: settles.cases)
  case (settle_failure r)
  with failure_inv [OF assms(1-3)] account_frame(2) [OF assms(3)] show ?thesis by simp
next
  case (settle_rejected rep r)
  note a = account_inv [OF assms(1-3)] and p = account_frame(2) [OF assms(3)]
  let ?v = "failure px seed (retain_stops px seed acc rep) r"
  have ne: "st_terminal ?v = [] \<Longrightarrow> retain_stops px seed acc rep = acc"
    using failure_terminal_Nil retain_stops_terminal_Nil by blast
  have "st_terminal ?v = [] \<Longrightarrow> st_terminal acc = []"
    using failure_terminal_Nil [of px seed "retain_stops px seed acc rep" r] retain_stops_terminal [of px seed acc rep]
    by auto
  then have "funds_ok seed ?v" using a(5) p by (auto simp: funds_ok_def)
  moreover have "findings_ok seed ?v"
    using a(4) ne retain_stops_keys [of acc px seed rep] \<open>st_terminal ?v = [] \<Longrightarrow> st_terminal acc = []\<close>
    by (auto simp: findings_ok_def)
  ultimately show ?thesis using settle_rejected a p
    by (simp add: review_inv_def counters_ok_def replay_ok_def pending_ok_def lineage_ok_def)
next
  case (settle_review rep findings terminal)
  note a = account_inv [OF assms(1-3)] and f = account_frame [OF assms(3)]
  note b = validate_report_binding_D [OF settle_review(4)]
  from assms(1,2) have pend: "st_terminal st = []" "inv_id ivn \<in> set (st_invocation_ids st)"
    "inv_id ivn \<notin> rep_invocation ` set (st_reports st)"
    "length (st_reports st) < pol_max_reviews (seed_policy seed)" "inv_actor ivn \<in> set (seed_reviewers seed)"
    using settle_review(2) by (auto simp: review_inv_def pending_ok_def)
  have "counters_ok seed u" using a(1) f pend(4) settle_review(1) by (simp add: counters_ok_def)
  moreover have "funds_ok seed u" using a(5) f pend(1) settle_review(1) by (simp add: funds_ok_def)
  moreover have "replay_ok u"
    using assms(1,2) f pend b(1) settle_review(1)
    by (rule_tac account_trusted [OF assms(3)]) (auto simp: review_inv_def replay_ok_def)
  moreover have "report_ok seed rep"
    using validate_report_covers [OF settle_review(5)] settle_review(3) a(3) b pend(5)
    by (auto simp: report_ok_def lineage_ok_def)
  moreover have "findings_ok seed u"
    using reconcile_keys(1) [OF settle_review(6)] reconcile_breaker [OF settle_review(6)] settle_review(1)
    by (auto simp: findings_ok_def open_findings_def not_le [symmetric])
  ultimately show ?thesis using settle_review(1) a f
    by (auto simp: review_inv_def pending_ok_def lineage_ok_def)
next
  case (settle_repair rpr resolutions)
  note a = account_inv [OF assms(1-3)] and f = account_frame [OF assms(3)]
  note b = reconcile_repair_D [OF settle_repair(4)]
  have "funds_ok seed u" using a(5) f settle_repair(1) by (simp add: funds_ok_def)
  moreover have "lineage_ok seed u" using a(3) b settle_repair(1) by (simp add: lineage_ok_def)
  moreover have "findings_ok seed u" using a(4) settle_repair(1) by (simp add: findings_ok_def open_findings_def)
  ultimately show ?thesis using settle_repair(1) a f
    by (simp add: review_inv_def pending_ok_def counters_ok_def replay_ok_def)
qed

lemma complete_inv:
  assumes "review_inv seed st" and "complete px seed st c = Inr st'"
  shows "review_inv seed st'"
  using assms(2)
proof (cases rule: complete_cases)
  case (1 ivn acc reason u)
  from 1(5) have "review_inv seed u \<and> st_pending u = None"
  proof (elim disjE exE conjE)
    fix r assume "u = failure px seed acc r" "reason = Some R_BUDGET_OVERRUN \<longrightarrow> r \<in> set terminal_failures"
    with failure_inv [OF assms(1) 1(1,3)] account_frame(2) [OF 1(3)] show ?thesis by simp
  next
    assume "reason = None" "settles px seed acc ivn u"
    with settles_inv [OF assms(1) 1(1)] 1(3) show ?thesis by blast
  qed
  with 1(4) show ?thesis by (simp add: capacity_inv)
qed

subsection \<open>The ledger as a transition system\<close>

inductive review_step :: "'a pydantic_scheme \<Rightarrow> review_seed \<Rightarrow> review_state \<Rightarrow> review_state \<Rightarrow> bool"
  for px :: "'a pydantic_scheme" and seed :: review_seed where
  step_reserve: "reserve px seed st ivn = Inr st' \<Longrightarrow> review_step px seed st st'"
| step_complete: "complete px seed st c = Inr st' \<Longrightarrow> review_step px seed st st'"

inductive_cases review_stepE: "review_step px seed st st'"

definition review_start :: "'a pydantic_scheme \<Rightarrow> review_seed \<Rightarrow> review_state \<Rightarrow> bool" where
  "review_start px seed st \<longleftrightarrow> initial_state px seed = Inr st"

abbreviation review_reachable :: "'a pydantic_scheme \<Rightarrow> review_seed \<Rightarrow> review_state \<Rightarrow> bool" where
  "review_reachable px seed \<equiv> reachable (review_start px seed) (review_step px seed)"

definition review_rank :: "review_seed \<Rightarrow> review_state \<Rightarrow> nat" where
  "review_rank seed st = 2 * (pol_max_invocations (seed_policy seed) - length (st_invocation_ids st))
    + (if st_pending st = None then 0 else 1)"

lemma complete_frame:
  assumes "complete px seed st c = Inr st'"
  shows "st_pending st \<noteq> None" and "st_pending st' = None" and "st_invocation_ids st' = st_invocation_ids st"
proof -
  from assms show "st_pending st \<noteq> None" by (auto simp: complete_def split: option.splits)
  from assms show "st_pending st' = None" and "st_invocation_ids st' = st_invocation_ids st"
    by (cases rule: complete_cases; auto elim!: settles.cases dest: account_frame(2,3))+
qed

interpretation arp: bounded "review_start px seed" "review_step px seed" "review_inv seed" "review_rank seed"
  for px :: "'a pydantic_scheme" and seed
proof
  show "review_start px seed s \<Longrightarrow> review_inv seed s" for s
    by (simp add: review_start_def initial_inv)
  show "review_inv seed s \<Longrightarrow> review_step px seed s t \<Longrightarrow> review_inv seed t" for s t
    by (auto elim!: review_stepE intro: reserve_inv complete_inv)
  show "review_rank seed t < review_rank seed s" if "review_inv seed s" "review_step px seed s t" for s t
    using that(2)
  proof cases
    case (step_reserve ivn)
    with reserve_cases(3,7) [OF step_reserve] reserve_frame(2,4) [OF step_reserve] that(1) show ?thesis
      by (simp add: review_rank_def review_inv_def counters_ok_def)
  next
    case (step_complete c)
    with complete_frame [OF step_complete] show ?thesis by (auto simp: review_rank_def)
  qed
qed

end
