(* ===== verification/Review_Valid.thy ===== *)
theory Review_Valid
  imports Review_Reducer
begin

text \<open>
  Well-formedness of the materialized state. \<open>valid_state\<close> is what \<^verbatim>\<open>ReviewState.model_validate\<close> checks:
  the constraints of every field and child and a digest that matches. It is established by
  \<open>initial_state\<close> and kept by both reducers on validated inputs, so \<^verbatim>\<open>renewed\<close>, which re-runs
  that validation, never raises inside them.
\<close>

definition records_valid :: "records \<Rightarrow> bool" where
  "records_valid d \<longleftrightarrow> (\<forall>(k, r) \<in> set d. valid_record r)"

lemma records_valid_update: "records_valid d \<Longrightarrow> valid_record r \<Longrightarrow> records_valid (AList.update k r d)"
  using set_update_subset [of k r d] by (auto simp: records_valid_def)

lemma records_valid_get: "records_valid d \<Longrightarrow> dict_get d k = Some r \<Longrightarrow> valid_record r"
  by (auto simp: records_valid_def dest: dict_get_Some_in)

lemma records_valid_dict_of: "list_all valid_record xs \<Longrightarrow> records_valid (dict_of record_key xs)"
  by (auto simp: records_valid_def list_all_iff dest: dict_of_entry)

lemma records_valid_sorted: "records_valid d \<Longrightarrow> list_all valid_record (dict_sorted_values d)"
  by (auto simp: records_valid_def list_all_iff)

lemma records_valid_fold:
  "(\<And>x d. x \<in> set xs \<Longrightarrow> records_valid d \<Longrightarrow> records_valid (g x d)) \<Longrightarrow> records_valid d \<Longrightarrow>
    records_valid (fold g xs d)"
  by (induction xs arbitrary: d) auto

lemma valid_binding_artifact: "valid_binding b \<Longrightarrow> digest_ok (bnd_artifact b)"
  by (simp add: valid_binding_def)

lemma valid_make_record: "valid_finding f \<Longrightarrow> digest_ok d \<Longrightarrow> valid_record (make_record f d b n)"
  by (simp add: valid_record_def make_record_def)

lemma valid_close_record: "valid_record r \<Longrightarrow> valid_report rep \<Longrightarrow> valid_record (close_record rep r)"
  by (simp add: valid_record_def close_record_def valid_report_digest)
     (simp add: valid_report_def valid_binding_artifact)

lemma valid_count_occurrence: "valid_record r \<Longrightarrow> valid_record (count_occurrence r)"
  by (simp add: valid_record_def count_occurrence_def)

lemma valid_report_findings: "valid_report rep \<Longrightarrow> f \<in> set (rep_findings rep) \<Longrightarrow> valid_finding f"
  by (simp add: valid_report_def list_all_iff)

lemma records_valid_rechecks:
  assumes "efold (apply_recheck st rep) rcks d = Inr d'" and "records_valid d" and "valid_report rep"
  shows "records_valid d'"
  using assms(1,2)
proof (rule efold_invariant)
  show "records_valid v" if "records_valid u" "apply_recheck st rep x u = Inr v" for x u v
    using that(2)
    by (cases rule: apply_recheck_cases)
       (auto intro: that(1) records_valid_update valid_close_record records_valid_get assms(3))
qed

lemma records_valid_finding:
  "records_valid d \<Longrightarrow> valid_report rep \<Longrightarrow> f \<in> set (rep_findings rep) \<Longrightarrow>
    records_valid (apply_finding seed st rep f d)"
  by (auto simp: apply_finding_def valid_report_digest valid_report_findings
      intro!: records_valid_update valid_make_record split: option.split)

lemma records_valid_retain:
  "records_valid d \<Longrightarrow> valid_report rep \<Longrightarrow> f \<in> set (rep_findings rep) \<Longrightarrow>
    records_valid (retain_finding seed rep f d)"
  by (simp add: retain_finding_def valid_report_digest valid_report_findings records_valid_update valid_make_record)

lemma reconcile_valid:
  assumes "reconcile_findings seed st rep = Inr (fs, rs)" and "valid_report rep"
    and "list_all valid_record (st_findings st)"
  shows "list_all valid_record fs"
proof -
  from assms(1) obtain d1 where d1:
    "efold (apply_recheck st rep) (rep_rechecks rep) (dict_of record_key (st_findings st)) = Inr d1"
    by (auto simp: reconcile_findings_def)
  have "records_valid d1"
    using d1 records_valid_dict_of [OF assms(3)] assms(2) by (rule records_valid_rechecks)
  then have "records_valid (fold (apply_finding seed st rep) (rep_findings rep) d1)"
    by (intro records_valid_fold records_valid_finding assms(2))
  then have "records_valid (map (\<lambda>(k, r). (k, count_occurrence r))
      (fold (apply_finding seed st rep) (rep_findings rep) d1))"
    by (auto simp: records_valid_def valid_count_occurrence)
  moreover have "fs = dict_sorted_values (map (\<lambda>(k, r). (k, count_occurrence r))
      (fold (apply_finding seed st rep) (rep_findings rep) d1))"
    using assms(1) d1 by (simp add: reconcile_findings_def Let_def)
  ultimately show ?thesis by (simp add: records_valid_sorted)
qed

lemma valid_resolution_records:
  assumes "reconcile_repair seed st ivn rpr = Inr rs" and "valid_repair rpr" and "identifier_ok (inv_id ivn)"
  shows "list_all valid_resolution_record rs"
proof -
  have "valid_resolution_record (make_resolution_record ivn rpr x)" if "x \<in> set (rpr_resolutions rpr)" for x
    using that assms(2,3)
    by (simp add: valid_resolution_record_def make_resolution_record_def valid_repair_def list_all_iff
        valid_artifact_def sealed_def [of artifact_fields])
  with reconcile_repair_D(8) [OF assms(1)] show ?thesis by (simp add: list_all_iff)
qed

subsection \<open>The reducers keep the state valid\<close>

lemma valid_state_sealD: "valid_state px st \<Longrightarrow> sealed (state_fields px) st"
  by (simp add: valid_state_def)

lemma initial_valid: "valid_seed px seed \<Longrightarrow> initial_state px seed = Inr st \<Longrightarrow> valid_state px st"
  by (auto simp: initial_state_def valid_state_def valid_seed_def valid_budget_def fresh_budget_def)

lemma reserve_valid:
  assumes "valid_state px st" and "valid_invocation px ivn" and "reserve px seed st ivn = Inr st'"
  shows "valid_state px st'"
  using assms by (auto simp: reserve_def Let_def valid_state_def valid_budget_def valid_invocation_def)

lemma account_valid:
  assumes "valid_state px st" and "valid_completion px c" and "account px st ivn c = (st', reason)"
  shows "valid_state px st'"
proof -
  have "list_all identifier_ok (st_execution_ids st')"
    using assms(1) account_executions [OF assms(3)]
    by (auto simp: valid_state_def execution_key_def digest_identifier split: option.split)
  moreover have "valid_moment (max (st_last_at st) (cmp_finished_at c))"
    using assms(1,2) by (simp add: valid_state_def valid_completion_def max_def)
  moreover have "sealed (state_fields px) st'" "valid_budget (st_budget st')"
    using assms(3) by (auto simp: account_def Let_def valid_budget_def split: prod.splits)
  ultimately show ?thesis using assms(1) account_frame [OF assms(3)] by (simp add: valid_state_def)
qed

lemma failure_valid: "valid_state px st \<Longrightarrow> valid_state px (failure px seed st r)"
  by (simp add: valid_state_def failure_def Let_def list_all_iff valid_failure_def make_failure_def)

lemma capacity_valid: "valid_state px st \<Longrightarrow> valid_state px (capacity px seed st)"
  by (simp add: valid_state_def capacity_def Let_def)

lemma retain_stops_valid:
  assumes "valid_state px st" and "valid_report rep"
  shows "valid_state px (retain_stops px seed st rep)"
proof -
  have "records_valid (fold (retain_finding seed rep) (rep_findings rep) (dict_of record_key (st_findings st)))"
    using assms by (intro records_valid_fold records_valid_retain records_valid_dict_of) (auto simp: valid_state_def)
  then show ?thesis using assms(1)
    by (simp add: retain_stops_def Let_def valid_state_def records_valid_sorted)
qed

lemma settles_valid:
  assumes "settles px seed acc ivn u" and "valid_state px acc" and "identifier_ok (inv_id ivn)"
  shows "valid_state px u"
  using assms(1)
proof (cases rule: settles.cases)
  case (settle_failure r)
  then show ?thesis using assms(2) by (simp add: failure_valid)
next
  case (settle_rejected rep r)
  then show ?thesis using assms(2) by (simp add: failure_valid retain_stops_valid)
next
  case (settle_review rep findings terminal)
  then show ?thesis using assms(2) reconcile_valid [OF settle_review(6,3)]
    by (simp add: valid_state_def)
next
  case (settle_repair rpr resolutions)
  then show ?thesis using assms(2) valid_resolution_records [OF settle_repair(4,3) assms(3)]
    by (simp add: valid_state_def valid_repair_def)
qed

lemma complete_valid:
  assumes "valid_state px st" and "valid_completion px c" and "complete px seed st c = Inr st'"
  shows "valid_state px st'"
  using assms(3)
proof (cases rule: complete_cases)
  case (1 ivn acc reason u)
  have acc: "valid_state px acc" using assms(1,2) 1(3) by (rule account_valid)
  have "identifier_ok (inv_id ivn)" using assms(1) 1(1) by (simp add: valid_state_def valid_invocation_def)
  with 1(5) acc have "valid_state px u" by (auto intro: failure_valid settles_valid)
  with 1(4) show ?thesis by (simp add: capacity_valid)
qed

end
