(* ===== verification/Review_Policy.thy ===== *)
theory Review_Policy
  imports Review_Valid
begin

text \<open>
  \<^verbatim>\<open>policy/review.py\<close>: the public operations. A session is only used after \<open>validate_session\<close> has
  replayed its ledger from the seed. A \<open>now\<close> argument is the result of \<^verbatim>\<open>utc(now)\<close> on the caller's
  datetime (\<open>None\<close> where \<^verbatim>\<open>utc\<close> raises); \<open>build_session\<close> is the \<^verbatim>\<open>ReviewSession\<close> constructor.
\<close>

datatype delivery = Review_Output review_report | Repair_Output repair_report | Text_Output string | No_Output

definition now_value :: "moment option \<Rightarrow> review_error + moment" where
  "now_value now = (case now of None \<Rightarrow> Inl Invalid | Some t \<Rightarrow> Inr t)"

definition replay_attempt ::
  "'a pydantic_scheme \<Rightarrow> review_seed \<Rightarrow> review_attempt \<Rightarrow> review_state \<Rightarrow> review_error + review_state" where
  "replay_attempt px seed attempt st =
    ebind (reserve px seed st (att_invocation attempt)) (\<lambda>reserved.
      case att_completion attempt of None \<Rightarrow> Inr reserved | Some c \<Rightarrow> complete px seed reserved c)"

definition replay :: "'a pydantic_scheme \<Rightarrow> review_seed \<Rightarrow> review_attempt list \<Rightarrow> review_error + review_state" where
  "replay px seed attempts = ebind (initial_state px seed) (efold (replay_attempt px seed) attempts)"

definition validate_session :: "'a pydantic_scheme \<Rightarrow> review_session \<Rightarrow> review_error + review_session" where
  "validate_session px ses =
    (if \<not> valid_session px ses then Inl Invalid
     else ebind (replay px (ses_seed ses) (ses_attempts ses)) (\<lambda>expected.
       if expected \<noteq> ses_state ses then Inl Invalid else Inr ses))"

definition build_session ::
  "'a pydantic_scheme \<Rightarrow> review_seed \<Rightarrow> review_attempt list \<Rightarrow> review_state \<Rightarrow> review_error + review_session" where
  "build_session px seed attempts st =
    (let ses = seal (session_fields px)
       \<lparr>content_digest = [], ses_seed = seed, ses_attempts = attempts, ses_state = st\<rparr>
     in if valid_session px ses then Inr ses else Inl Invalid)"

definition make_seed ::
  "'a pydantic_scheme \<Rightarrow> review_scope \<Rightarrow> quality_contract \<Rightarrow> review_policy \<Rightarrow> model_identity \<Rightarrow>
    model_identity list \<Rightarrow> artifact_ref \<Rightarrow> moment \<Rightarrow> review_seed" where
  "make_seed px scope contract policy doer reviewers artifact t = seal (seed_fields px)
    \<lparr>content_digest = [], seed_scope = scope, seed_contract = contract, seed_policy = policy,
     seed_doer = doer, seed_reviewers = reviewers, seed_artifact = artifact, seed_started_at = t\<rparr>"

definition start_session ::
  "'a pydantic_scheme \<Rightarrow> review_scope \<Rightarrow> quality_contract \<Rightarrow> review_policy \<Rightarrow> model_identity \<Rightarrow>
    model_identity list \<Rightarrow> artifact_ref \<Rightarrow> moment option \<Rightarrow> review_error + review_session" where
  "start_session px scope contract policy doer reviewers artifact now =
    ebind (now_value now) (\<lambda>t.
    let seed = make_seed px scope contract policy doer reviewers artifact t in
    if \<not> valid_seed px seed then Inl Invalid
    else ebind (initial_state px seed) (build_session px seed []))"

definition make_invocation ::
  "'a pydantic_scheme \<Rightarrow> string \<Rightarrow> invocation_kind \<Rightarrow> model_identity \<Rightarrow> review_binding \<Rightarrow> reservation \<Rightarrow>
    moment \<Rightarrow> invocation" where
  "make_invocation px invocation_id kind actor bnd held t = seal (invocation_fields px)
    \<lparr>content_digest = [], inv_id = invocation_id, inv_kind = kind, inv_binding = bnd, inv_actor = actor,
     inv_reservation = held, inv_started_at = t\<rparr>"

definition make_attempt :: "'a pydantic_scheme \<Rightarrow> invocation \<Rightarrow> completion option \<Rightarrow> review_attempt" where
  "make_attempt px ivn c = seal (attempt_fields px)
    \<lparr>content_digest = [], att_invocation = ivn, att_completion = c\<rparr>"

definition reserve_invocation ::
  "'a pydantic_scheme \<Rightarrow> review_session \<Rightarrow> string \<Rightarrow> invocation_kind \<Rightarrow> model_identity \<Rightarrow> reservation \<Rightarrow>
    moment option \<Rightarrow> review_error + review_session" where
  "reserve_invocation px ses invocation_id kind actor held now =
    ebind (validate_session px ses) (\<lambda>session.
    ebind (now_value now) (\<lambda>t.
    let ivn = make_invocation px invocation_id kind actor
          (artifact_binding_of (st_artifact (ses_state session))) held t in
    if \<not> valid_invocation px ivn then Inl Invalid
    else ebind (reserve px (ses_seed session) (ses_state session) ivn) (\<lambda>st.
      build_session px (ses_seed session) (ses_attempts session @ [make_attempt px ivn None]) st)))"

fun output_json :: "'a pydantic_scheme \<Rightarrow> delivery \<Rightarrow> string option" where
  "output_json px (Review_Output r) = Some (encode_review px r)"
| "output_json px (Repair_Output r) = Some (encode_repair px r)"
| "output_json px (Text_Output s) = Some s"
| "output_json px No_Output = None"

definition make_completion ::
  "'a pydantic_scheme \<Rightarrow> string \<Rightarrow> moment \<Rightarrow> invocation_receipt option \<Rightarrow> string option \<Rightarrow>
    execution_stop option \<Rightarrow> completion" where
  "make_completion px invocation_id t receipt text stop = seal (completion_fields px)
    \<lparr>content_digest = [], cmp_invocation = invocation_id, cmp_finished_at = t, cmp_receipt = receipt,
     cmp_output = text, cmp_failure = stop\<rparr>"

definition complete_invocation ::
  "'a pydantic_scheme \<Rightarrow> review_session \<Rightarrow> string \<Rightarrow> invocation_receipt option \<Rightarrow> delivery \<Rightarrow>
    moment option \<Rightarrow> execution_stop option \<Rightarrow> review_error + review_session" where
  "complete_invocation px ses invocation_id receipt out now stop =
    ebind (validate_session px ses) (\<lambda>session.
    ebind (now_value now) (\<lambda>t.
    if \<not> pred_option valid_receipt receipt then Inl Invalid
    else case find (\<lambda>a. inv_id (att_invocation a) = invocation_id) (ses_attempts session) of
      None \<Rightarrow> Inl Invalid
    | Some previous \<Rightarrow>
        (case att_completion previous of
           Some c \<Rightarrow>
             if cmp_receipt c = receipt \<and> cmp_output c = output_json px out \<and> cmp_failure c = stop
             then Inr session else Inl Invalid
         | None \<Rightarrow>
             let c = make_completion px invocation_id t receipt (output_json px out) stop in
             if \<not> valid_completion px c then Inl Invalid
             else ebind (complete px (ses_seed session) (ses_state session) c) (\<lambda>st.
               build_session px (ses_seed session)
                 (butlast (ses_attempts session) @ [make_attempt px (att_invocation previous) (Some c)]) st))))"

definition decide_status ::
  "review_session \<Rightarrow> review_reason list \<Rightarrow> decision_status" where
  "decide_status session reasons =
    (if reasons = [] then ELIGIBLE
     else if list_ex (\<lambda>r. r \<in> set reasons) [R_CRITICAL, R_CONTRACT_GAP, R_REVIEW_ESCALATED, R_REPEATED_FAILURE]
       then ESCALATED
     else if st_terminal (ses_state session) \<noteq> []
          \<or> list_ex (\<lambda>r. r \<in> set reasons) [R_ARTIFACT_DRIFT, R_TIME_WINDOW] then BLOCKED
     else if needs_repair (ses_state session)
          \<and> bud_repairs (st_budget (ses_state session)) < pol_max_repairs (seed_policy (ses_seed session))
       then NEEDS_REPAIR
     else NEEDS_REVIEW)"

definition evaluate ::
  "'a pydantic_scheme \<Rightarrow> review_session \<Rightarrow> artifact_ref \<Rightarrow> moment option \<Rightarrow> review_error + review_decision" where
  "evaluate px ses current_artifact now =
    ebind (validate_session px ses) (\<lambda>session.
    if \<not> valid_artifact current_artifact then Inl Invalid
    else ebind (now_value now) (\<lambda>t.
    let reasons = eligibility_reasons (ses_seed session) (ses_state session)
          @ (if current_artifact \<noteq> st_artifact (ses_state session) then [R_ARTIFACT_DRIFT] else [])
          @ (if \<not> within_window (ses_seed session) (ses_state session) t then [R_TIME_WINDOW] else [])
    in Inr (seal decision_fields
      \<lparr>content_digest = [], dec_status = decide_status session reasons, dec_reasons = fromkeys reasons,
       dec_session = content_digest session,
       dec_artifact = content_digest (st_artifact (ses_state session)),
       dec_completed = length (st_reports (ses_state session))\<rparr>)))"

subsection \<open>What a replayed ledger is\<close>

lemma replay_Nil [simp]: "replay px seed [] = initial_state px seed"
  by (cases "initial_state px seed") (simp_all add: replay_def)

lemma replay_snoc: "replay px seed (as @ [a]) = ebind (replay px seed as) (replay_attempt px seed a)"
  by (cases "initial_state px seed") (auto simp: replay_def efold_append ebind_def split: sum.split)

lemma replay_attempt_reachable:
  assumes "review_reachable px seed st" and "replay_attempt px seed a st = Inr st'"
  shows "review_reachable px seed st'"
proof -
  from assms(2) obtain u where u: "reserve px seed st (att_invocation a) = Inr u"
    "case att_completion a of None \<Rightarrow> st' = u | Some c \<Rightarrow> complete px seed u c = Inr st'"
    by (auto simp: replay_attempt_def split: option.splits)
  from assms(1) step_reserve [OF u(1)] have r: "review_reachable px seed u" by (rule reachable_step)
  show ?thesis
  proof (cases "att_completion a")
    case None
    with r u(2) show ?thesis by simp
  next
    case (Some c)
    with u(2) have "review_step px seed u st'" by (simp add: step_complete)
    with r show ?thesis by (rule reachable_step)
  qed
qed

lemma replay_reachable: "replay px seed as = Inr st \<Longrightarrow> review_reachable px seed st"
proof (induction as arbitrary: st rule: rev_induct)
  case Nil
  then show ?case by (simp add: reachable_init review_start_def)
next
  case (snoc a as)
  then show ?case by (auto simp: replay_snoc intro: replay_attempt_reachable)
qed

lemma replay_inv: "replay px seed as = Inr st \<Longrightarrow> review_inv seed st"
  by (rule arp.always) (rule replay_reachable)

lemma replay_attempt_pending:
  assumes "replay_attempt px seed a st = Inr st'"
  shows "st_pending st = None"
    and "st_pending st' = (if att_completion a = None then Some (att_invocation a) else None)"
    and "st_invocation_ids st' = st_invocation_ids st @ [inv_id (att_invocation a)]"
proof -
  from assms obtain u where u: "reserve px seed st (att_invocation a) = Inr u"
    "case att_completion a of None \<Rightarrow> st' = u | Some c \<Rightarrow> complete px seed u c = Inr st'"
    by (auto simp: replay_attempt_def split: option.splits)
  show "st_pending st = None" by (rule reserve_cases(3) [OF u(1)])
  show "st_pending st' = (if att_completion a = None then Some (att_invocation a) else None)"
    and "st_invocation_ids st' = st_invocation_ids st @ [inv_id (att_invocation a)]"
    using reserve_frame(2,4) [OF u(1)] u(2) by (auto dest: complete_frame(2,3) split: option.splits)
qed

text \<open>Only the last attempt can be unsettled, and it is the one the state holds pending.\<close>

lemma replay_pending:
  assumes "replay px seed as = Inr st"
  shows "st_pending st = (if as \<noteq> [] \<and> att_completion (last as) = None
      then Some (att_invocation (last as)) else None)"
    and "st_invocation_ids st = map (\<lambda>a. inv_id (att_invocation a)) as"
    and "\<forall>a \<in> set (butlast as). att_completion a \<noteq> None"
  using assms
proof (induction as arbitrary: st rule: rev_induct)
  case Nil
  {
    case 1
    then show ?case using initial_cases(5) by auto
  next
    case 2
    then show ?case using initial_cases(6) by auto
  next
    case 3
    then show ?case by simp
  }
next
  case (snoc a as)
  {
    case 1
    then show ?case using replay_attempt_pending(2) by (fastforce simp: replay_snoc)
  next
    case 2
    then obtain u where u: "replay px seed as = Inr u" "replay_attempt px seed a u = Inr st"
      by (auto simp: replay_snoc)
    with snoc.IH(2) [OF u(1)] replay_attempt_pending(3) [OF u(2)] show ?case by simp
  next
    case 3
    then obtain u where u: "replay px seed as = Inr u" "replay_attempt px seed a u = Inr st"
      by (auto simp: replay_snoc)
    have "as \<noteq> [] \<Longrightarrow> att_completion (last as) \<noteq> None"
      using snoc.IH(1) [OF u(1)] replay_attempt_pending(1) [OF u(2)] by (auto split: if_splits)
    with snoc.IH(3) [OF u(1)] show ?case
      by (cases as rule: rev_cases) (auto simp: butlast_append)
  }
qed

lemma replay_distinct_ids:
  assumes "replay px seed as = Inr st"
  shows "distinct (map (\<lambda>a. inv_id (att_invocation a)) as)"
  using replay_inv [OF assms] replay_pending(2) [OF assms] by (simp add: review_inv_def replay_ok_def)

lemma validate_session_iff:
  "validate_session px ses = Inr s \<longleftrightarrow>
    s = ses \<and> valid_session px ses \<and> replay px (ses_seed ses) (ses_attempts ses) = Inr (ses_state ses)"
  by (auto simp: validate_session_def ebind_eq_Inr split: if_splits)

lemma build_session_iff:
  "build_session px seed as st = Inr ses \<longleftrightarrow>
    ses = seal (session_fields px) \<lparr>content_digest = [], ses_seed = seed, ses_attempts = as, ses_state = st\<rparr>
    \<and> valid_session px ses"
  by (auto simp: build_session_def Let_def)

lemma now_value_iff [simp]: "now_value now = Inr t \<longleftrightarrow> now = Some t"
  by (auto simp: now_value_def split: option.split)

lemma build_session_ok:
  assumes "valid_seed px seed" and "list_all (valid_attempt px) as" and "valid_state px st"
  shows "\<exists>ses. build_session px seed as st = Inr ses"
  using assms by (simp add: build_session_def Let_def valid_session_def)

lemma build_validates:
  assumes "build_session px seed as st = Inr ses" and "replay px seed as = Inr st"
  shows "validate_session px ses = Inr ses"
  using assms by (auto simp: validate_session_iff build_session_iff)

subsection \<open>The operations produce sessions that replay\<close>

lemma start_session_replays:
  assumes "start_session px scope contract policy doer reviewers artifact now = Inr ses"
  shows "validate_session px ses = Inr ses" and "ses_attempts ses = []"
proof -
  from assms obtain t st where "initial_state px (make_seed px scope contract policy doer reviewers artifact t) = Inr st"
    and b: "build_session px (make_seed px scope contract policy doer reviewers artifact t) [] st = Inr ses"
    by (auto simp: start_session_def Let_def split: if_splits)
  then show "validate_session px ses = Inr ses" by (simp add: build_validates)
  show "ses_attempts ses = []" using b by (simp add: build_session_iff)
qed

lemma reserve_invocation_cases:
  assumes "reserve_invocation px ses iid kind actor held now = Inr ses'"
  obtains t st where "validate_session px ses = Inr ses" "now = Some t"
    "valid_invocation px (make_invocation px iid kind actor (artifact_binding_of (st_artifact (ses_state ses))) held t)"
    "reserve px (ses_seed ses) (ses_state ses)
      (make_invocation px iid kind actor (artifact_binding_of (st_artifact (ses_state ses))) held t) = Inr st"
    "build_session px (ses_seed ses) (ses_attempts ses @ [make_attempt px
      (make_invocation px iid kind actor (artifact_binding_of (st_artifact (ses_state ses))) held t) None]) st = Inr ses'"
  using assms
  by (auto simp: reserve_invocation_def validate_session_iff Let_def split: if_splits)

lemma make_attempt_simps [simp]:
  "att_invocation (make_attempt px ivn c) = ivn" "att_completion (make_attempt px ivn c) = c"
  by (simp_all add: make_attempt_def)

lemma make_completion_simps [simp]:
  "cmp_invocation (make_completion px i t r out f) = i" "cmp_finished_at (make_completion px i t r out f) = t"
  "cmp_receipt (make_completion px i t r out f) = r" "cmp_output (make_completion px i t r out f) = out"
  "cmp_failure (make_completion px i t r out f) = f"
  by (simp_all add: make_completion_def)

lemma make_invocation_simps [simp]:
  "inv_id (make_invocation px i k a b h t) = i" "inv_kind (make_invocation px i k a b h t) = k"
  "inv_actor (make_invocation px i k a b h t) = a" "inv_binding (make_invocation px i k a b h t) = b"
  "inv_reservation (make_invocation px i k a b h t) = h" "inv_started_at (make_invocation px i k a b h t) = t"
  by (simp_all add: make_invocation_def)

lemma reserve_invocation_replays:
  assumes "reserve_invocation px ses iid kind actor held now = Inr ses'"
  shows "validate_session px ses' = Inr ses'"
  using assms
proof (cases rule: reserve_invocation_cases)
  case (1 t st)
  show ?thesis
    by (rule build_validates [OF 1(5)])
       (use 1(1,4) in \<open>simp add: validate_session_iff replay_snoc replay_attempt_def\<close>)
qed

text \<open>
  The attempt that a completion settles is the last one: the invocation ids are distinct and every
  earlier attempt has been settled.
\<close>

lemma unsettled_is_last:
  assumes "replay px seed as = Inr st" and "find (\<lambda>a. inv_id (att_invocation a) = iid) as = Some a"
    and "att_completion a = None"
  shows "as \<noteq> []" and "a = last as" and "as = butlast as @ [a]" and "inv_id (att_invocation a) = iid"
proof -
  from assms(2) have a: "a \<in> set as" "inv_id (att_invocation a) = iid"
    by (auto simp: find_Some_iff)
  then show ne: "as \<noteq> []" by auto
  with a(1) have "a \<in> set (butlast as) \<or> a = last as"
    by (metis append_butlast_last_id in_set_conv_decomp set_ConsD in_set_butlastD
        rotate1.simps(2) set_rotate1)
  with replay_pending(3) [OF assms(1)] assms(3) show l: "a = last as" by auto
  with ne show "as = butlast as @ [a]" by simp
  from a(2) show "inv_id (att_invocation a) = iid" .
qed

lemma complete_invocation_cases:
  assumes "complete_invocation px ses iid receipt out now stop = Inr ses'"
  obtains (duplicate) a c t where "ses' = ses" "validate_session px ses = Inr ses" "now = Some t"
      "pred_option valid_receipt receipt"
      "find (\<lambda>a. inv_id (att_invocation a) = iid) (ses_attempts ses) = Some a"
      "att_completion a = Some c" "cmp_receipt c = receipt" "cmp_output c = output_json px out"
      "cmp_failure c = stop"
  | (settled) a t st where "validate_session px ses = Inr ses" "now = Some t"
      "pred_option valid_receipt receipt"
      "find (\<lambda>a. inv_id (att_invocation a) = iid) (ses_attempts ses) = Some a"
      "att_completion a = None" "ses_attempts ses = butlast (ses_attempts ses) @ [a]"
      "valid_completion px (make_completion px iid t receipt (output_json px out) stop)"
      "complete px (ses_seed ses) (ses_state ses)
        (make_completion px iid t receipt (output_json px out) stop) = Inr st"
      "build_session px (ses_seed ses) (butlast (ses_attempts ses) @ [make_attempt px (att_invocation a)
        (Some (make_completion px iid t receipt (output_json px out) stop))]) st = Inr ses'"
proof -
  from assms obtain t a where b: "validate_session px ses = Inr ses" "now = Some t"
    "pred_option valid_receipt receipt" "find (\<lambda>a. inv_id (att_invocation a) = iid) (ses_attempts ses) = Some a"
    by (auto simp: complete_invocation_def validate_session_iff split: if_splits option.splits)
  show thesis
  proof (cases "att_completion a")
    case None
    have "ses_attempts ses = butlast (ses_attempts ses) @ [a]"
      using unsettled_is_last(3) b None by (auto simp: validate_session_iff)
    with assms b None show thesis
      by (auto simp: complete_invocation_def Let_def split: if_splits intro: settled)
  next
    case (Some c)
    with assms b have "ses' = ses" "cmp_receipt c = receipt" "cmp_output c = output_json px out" "cmp_failure c = stop"
      by (auto simp: complete_invocation_def split: if_splits)
    with b Some show thesis by (intro duplicate) auto
  qed
qed

lemma replay_settles:
  assumes "replay px seed (as @ [a]) = Inr st" and "att_completion a = None"
    and "complete px seed st c = Inr st'"
  shows "replay px seed (as @ [make_attempt px (att_invocation a) (Some c)]) = Inr st'"
  using assms by (auto simp: replay_snoc replay_attempt_def)

lemma complete_invocation_replays:
  assumes "complete_invocation px ses iid receipt out now stop = Inr ses'"
  shows "validate_session px ses' = Inr ses'"
  using assms
proof (cases rule: complete_invocation_cases)
  case (duplicate a c t)
  then show ?thesis by simp
next
  case (settled a t st)
  have "replay px (ses_seed ses) (butlast (ses_attempts ses) @ [a]) = Inr (ses_state ses)"
    using settled(1,6) by (simp add: validate_session_iff)
  then show ?thesis
    by (intro build_validates [OF settled(9)] replay_settles [OF _ settled(5,8)])
qed

lemma find_append_fresh:
  "find P xs = None \<Longrightarrow> P y \<Longrightarrow> find P (xs @ [y]) = Some y"
  by (induction xs) auto

lemma complete_invocation_again:
  assumes "complete_invocation px ses iid receipt out now stop = Inr ses'"
  shows "complete_invocation px ses' iid receipt out (Some t') stop = Inr ses'"
    and "(receipt', output_json px out', stop') \<noteq> (receipt, output_json px out, stop) \<Longrightarrow>
      complete_invocation px ses' iid receipt' out' now' stop' = Inl Invalid"
proof -
  obtain a c where *: "validate_session px ses' = Inr ses'" "pred_option valid_receipt receipt"
    "find (\<lambda>a. inv_id (att_invocation a) = iid) (ses_attempts ses') = Some a" "att_completion a = Some c"
    "cmp_receipt c = receipt" "cmp_output c = output_json px out" "cmp_failure c = stop"
    using assms
  proof (cases rule: complete_invocation_cases)
    case (duplicate a c t)
    then show thesis by (intro that) auto
  next
    case (settled a t st)
    let ?c = "make_completion px iid t receipt (output_json px out) stop"
    have "distinct (map (\<lambda>a. inv_id (att_invocation a)) (butlast (ses_attempts ses) @ [a]))"
      using replay_distinct_ids settled(1,6) by (auto simp: validate_session_iff)
    moreover have id: "inv_id (att_invocation a) = iid" using settled(4) by (auto simp: find_Some_iff)
    ultimately have "find (\<lambda>a. inv_id (att_invocation a) = iid) (butlast (ses_attempts ses)) = None"
      by (auto simp: find_None_iff image_iff)
    then have "find (\<lambda>a. inv_id (att_invocation a) = iid) (ses_attempts ses') =
        Some (make_attempt px (att_invocation a) (Some ?c))"
      using settled(9) id by (auto simp: build_session_iff intro!: find_append_fresh)
    with settled(3) complete_invocation_replays [OF assms] show thesis by (intro that) auto
  qed
  then show "complete_invocation px ses' iid receipt out (Some t') stop = Inr ses'"
    by (simp add: complete_invocation_def now_value_def)
  from * show "complete_invocation px ses' iid receipt' out' now' stop' = Inl Invalid"
    if "(receipt', output_json px out', stop') \<noteq> (receipt, output_json px out, stop)"
    using that by (auto simp: complete_invocation_def now_value_def split: option.split)
qed

text \<open>On a session that replays, the constructors inside the operations never raise.\<close>

lemma valid_attempt_make:
  "valid_invocation px ivn \<Longrightarrow> pred_option (valid_completion px) c \<Longrightarrow> valid_attempt px (make_attempt px ivn c)"
  by (simp add: valid_attempt_def make_attempt_def)

lemma reserve_invocation_succeeds:
  assumes "validate_session px ses = Inr ses"
    and "valid_invocation px (make_invocation px iid kind actor (artifact_binding_of (st_artifact (ses_state ses))) held t)"
    and "reserve px (ses_seed ses) (ses_state ses)
      (make_invocation px iid kind actor (artifact_binding_of (st_artifact (ses_state ses))) held t) = Inr st"
  shows "\<exists>ses'. reserve_invocation px ses iid kind actor held (Some t) = Inr ses' \<and> ses_state ses' = st"
proof -
  have v: "valid_session px ses" using assms(1) by (simp add: validate_session_iff)
  obtain ses' where b: "build_session px (ses_seed ses) (ses_attempts ses @ [make_attempt px
      (make_invocation px iid kind actor (artifact_binding_of (st_artifact (ses_state ses))) held t) None]) st = Inr ses'"
    using build_session_ok [of px "ses_seed ses"] v assms(2) reserve_valid [OF _ assms(2,3)] valid_attempt_make
    by (fastforce simp: valid_session_def)
  with assms show ?thesis
    by (auto simp: reserve_invocation_def now_value_def build_session_iff)
qed

lemma complete_total:
  assumes "st_pending st = Some ivn" and "cmp_invocation c = inv_id ivn"
  shows "\<exists>st'. complete px seed st c = Inr st'"
  using assms by (simp add: complete_def Let_def case_prod_unfold)

lemma complete_invocation_succeeds:
  assumes "validate_session px ses = Inr ses" and "st_pending (ses_state ses) = Some ivn"
    and "pred_option valid_receipt receipt" and "valid_moment t"
  shows "\<exists>ses'. complete_invocation px ses (inv_id ivn) receipt out (Some t) stop = Inr ses'
    \<and> st_pending (ses_state ses') = None"
proof -
  let ?c = "make_completion px (inv_id ivn) t receipt (output_json px out) stop"
  have v: "valid_session px ses" and r: "replay px (ses_seed ses) (ses_attempts ses) = Inr (ses_state ses)"
    using assms(1) by (simp_all add: validate_session_iff)
  have ivn: "valid_invocation px ivn" using v assms(2) by (auto simp: valid_session_def valid_state_def)
  then have vc: "valid_completion px ?c"
    using assms(3,4) by (simp add: valid_completion_def valid_invocation_def) (simp add: make_completion_def)
  obtain st where st: "complete px (ses_seed ses) (ses_state ses) ?c = Inr st"
    using complete_total [OF assms(2), of ?c px "ses_seed ses"] by auto
  have last: "ses_attempts ses \<noteq> []" "att_completion (last (ses_attempts ses)) = None"
    "att_invocation (last (ses_attempts ses)) = ivn"
    using replay_pending(1) [OF r] assms(2) by (auto split: if_splits)
  obtain a where f: "find (\<lambda>a. inv_id (att_invocation a) = inv_id ivn) (ses_attempts ses) = Some a"
    using last by (cases "find (\<lambda>a. inv_id (att_invocation a) = inv_id ivn) (ses_attempts ses)")
      (auto simp: find_None_iff dest: last_in_set)
  have "a = last (ses_attempts ses)"
  proof -
    have "inj_on (\<lambda>a. inv_id (att_invocation a)) (set (ses_attempts ses))"
      using replay_distinct_ids [OF r] by (simp add: distinct_map)
    moreover have "a \<in> set (ses_attempts ses)" "inv_id (att_invocation a) = inv_id ivn"
      using f by (auto simp: find_Some_iff)
    ultimately show ?thesis using last by (auto dest: inj_onD)
  qed
  with last have a: "att_completion a = None" "att_invocation a = ivn" by simp_all
  have "list_all (valid_attempt px) (butlast (ses_attempts ses))"
    using v by (auto simp: valid_session_def list_all_iff dest: in_set_butlastD)
  then obtain ses' where "build_session px (ses_seed ses)
      (butlast (ses_attempts ses) @ [make_attempt px ivn (Some ?c)]) st = Inr ses'"
    using build_session_ok [of px "ses_seed ses"] v ivn vc complete_valid [OF _ vc st] valid_attempt_make
    by (fastforce simp: valid_session_def)
  with assms(1,3) f a vc st complete_frame(2) [OF st] show ?thesis
    by (auto simp: complete_invocation_def now_value_def Let_def build_session_iff)
qed

subsection \<open>Eligibility\<close>

lemma evaluate_cases:
  assumes "evaluate px ses art now = Inr dec"
  obtains t where "validate_session px ses = Inr ses" "valid_artifact art" "now = Some t"
    "dec_reasons dec = fromkeys (eligibility_reasons (ses_seed ses) (ses_state ses)
      @ (if art \<noteq> st_artifact (ses_state ses) then [R_ARTIFACT_DRIFT] else [])
      @ (if \<not> within_window (ses_seed ses) (ses_state ses) t then [R_TIME_WINDOW] else []))"
    "dec_status dec = decide_status ses (eligibility_reasons (ses_seed ses) (ses_state ses)
      @ (if art \<noteq> st_artifact (ses_state ses) then [R_ARTIFACT_DRIFT] else [])
      @ (if \<not> within_window (ses_seed ses) (ses_state ses) t then [R_TIME_WINDOW] else []))"
    "dec_session dec = content_digest ses"
    "dec_artifact dec = content_digest (st_artifact (ses_state ses))"
    "dec_completed dec = length (st_reports (ses_state ses))"
proof -
  from assms obtain t where "validate_session px ses = Inr ses" "valid_artifact art" "now = Some t"
    by (auto simp: evaluate_def validate_session_iff split: if_splits)
  with assms show thesis by (intro that [of t]) (auto simp: evaluate_def Let_def)
qed

lemma decide_eligible: "decide_status ses reasons = ELIGIBLE \<longleftrightarrow> reasons = []"
  by (auto simp: decide_status_def)

end
