(* ===== verification/Review_Persistence.thy ===== *)
theory Review_Persistence
  imports Review_Policy
begin

text \<open>
  \<^verbatim>\<open>policy/review_persistence.py\<close>: which sessions may follow a committed one. The result is the kind of
  the transition or the exception. Its lemmas show that the check accepts exactly the sessions that
  the public operations produce.
\<close>

datatype transition_kind = CREATE | RESERVE | COMPLETE | UNCHANGED

definition text_delivery :: "string option \<Rightarrow> delivery" where
  "text_delivery s = (case s of None \<Rightarrow> No_Output | Some t \<Rightarrow> Text_Output t)"

definition is_reservation :: "review_session \<Rightarrow> review_session \<Rightarrow> bool" where
  "is_reservation current proposed \<longleftrightarrow>
    st_pending (ses_state current) = None
    \<and> length (ses_attempts proposed) = length (ses_attempts current) + 1
    \<and> butlast (ses_attempts proposed) = ses_attempts current"

definition is_settlement :: "review_session \<Rightarrow> review_session \<Rightarrow> bool" where
  "is_settlement current proposed \<longleftrightarrow>
    st_pending (ses_state current) \<noteq> None
    \<and> length (ses_attempts proposed) = length (ses_attempts current)
    \<and> butlast (ses_attempts proposed) = butlast (ses_attempts current)
    \<and> att_invocation (last (ses_attempts proposed)) = att_invocation (last (ses_attempts current))"

definition expect ::
  "transition_kind \<Rightarrow> review_session \<Rightarrow> review_error + review_session \<Rightarrow> review_error + transition_kind" where
  "expect kind proposed expected =
    ebind expected (\<lambda>e. if e \<noteq> proposed then Inl Invalid else Inr kind)"

definition validate_extension ::
  "'a pydantic_scheme \<Rightarrow> review_session option \<Rightarrow> review_session \<Rightarrow> review_error + transition_kind" where
  "validate_extension px current proposed =
    ebind (validate_session px proposed) (\<lambda>proposed.
    case current of
      None \<Rightarrow> if ses_attempts proposed \<noteq> [] then Inl Invalid else Inr CREATE
    | Some cur \<Rightarrow>
        ebind (validate_session px cur) (\<lambda>current.
        if ses_seed current \<noteq> ses_seed proposed then Inl Invalid
        else if current = proposed then Inr UNCHANGED
        else if is_reservation current proposed then
          let attempt = last (ses_attempts proposed); ivn = att_invocation attempt in
          if att_completion attempt \<noteq> None then Inl Invalid
          else expect RESERVE proposed (reserve_invocation px current (inv_id ivn) (inv_kind ivn)
                 (inv_actor ivn) (inv_reservation ivn) (Some (inv_started_at ivn)))
        else if is_settlement current proposed then
          (case att_completion (last (ses_attempts proposed)) of
             None \<Rightarrow> Inl Invalid
           | Some c \<Rightarrow> expect COMPLETE proposed (complete_invocation px current (cmp_invocation c)
                 (cmp_receipt c) (text_delivery (cmp_output c)) (Some (cmp_finished_at c)) (cmp_failure c)))
        else Inl Invalid))"

lemma expect_iff [simp]: "expect k p e = Inr k' \<longleftrightarrow> k' = k \<and> e = Inr p"
  by (auto simp: expect_def ebind_eq_Inr split: if_splits)

lemma output_text_delivery [simp]: "output_json px (text_delivery s) = s"
  by (cases s) (simp_all add: text_delivery_def)

inductive session_step ::
  "'a pydantic_scheme \<Rightarrow> review_session \<Rightarrow> transition_kind \<Rightarrow> review_session \<Rightarrow> bool"
  for px :: "'a pydantic_scheme" where
  ext_reserve: "reserve_invocation px ses iid kind actor held now = Inr ses' \<Longrightarrow>
    session_step px ses RESERVE ses'"
| ext_complete: "complete_invocation px ses iid receipt out now stop = Inr ses' \<Longrightarrow> ses' \<noteq> ses \<Longrightarrow>
    session_step px ses COMPLETE ses'"

lemma extension_sound:
  assumes "validate_extension px (Some cur) p = Inr k"
  shows "k = UNCHANGED \<and> p = cur \<or> session_step px cur k p"
  using assms
  by (auto simp: validate_extension_def validate_session_iff Let_def intro: session_step.intros
      split: if_splits option.splits)

lemma session_step_replays: "session_step px ses k ses' \<Longrightarrow> validate_session px ses' = Inr ses'"
  by (auto elim!: session_step.cases intro: reserve_invocation_replays complete_invocation_replays)

lemma session_step_from: "session_step px ses k ses' \<Longrightarrow> validate_session px ses = Inr ses"
  by (auto elim!: session_step.cases reserve_invocation_cases complete_invocation_cases)

lemma session_step_seed: "session_step px ses k ses' \<Longrightarrow> ses_seed ses' = ses_seed ses"
  by (auto elim!: session_step.cases reserve_invocation_cases complete_invocation_cases
      simp: build_session_iff)

lemma reservation_accepted:
  assumes "reserve_invocation px cur iid kind actor held now = Inr p"
  shows "validate_extension px (Some cur) p = Inr RESERVE"
  using assms
proof (cases rule: reserve_invocation_cases)
  case (1 t st)
  let ?ivn = "make_invocation px iid kind actor (artifact_binding_of (st_artifact (ses_state cur))) held t"
  have p: "ses_seed p = ses_seed cur" "ses_attempts p = ses_attempts cur @ [make_attempt px ?ivn None]"
    using 1(5) by (auto simp: build_session_iff)
  then have "cur \<noteq> p" by auto
  moreover have "is_reservation cur p"
    using p(2) reserve_cases(3) [OF 1(4)] by (simp add: is_reservation_def)
  ultimately show ?thesis
    using 1(1,2) p assms reserve_invocation_replays [OF assms]
    by (simp add: validate_extension_def)
qed

lemma settlement_accepted:
  assumes "complete_invocation px cur iid receipt out now stop = Inr p" and "p \<noteq> cur"
  shows "validate_extension px (Some cur) p = Inr COMPLETE"
  using assms(1)
proof (cases rule: complete_invocation_cases)
  case (duplicate a c t)
  with assms(2) show ?thesis by simp
next
  case (settled a t st)
  let ?c = "make_completion px iid t receipt (output_json px out) stop"
  have p: "ses_seed p = ses_seed cur"
    "ses_attempts p = butlast (ses_attempts cur) @ [make_attempt px (att_invocation a) (Some ?c)]"
    using settled(9) by (auto simp: build_session_iff)
  have pend: "st_pending (ses_state cur) \<noteq> None" by (rule complete_frame(1) [OF settled(8)])
  have last: "last (ses_attempts cur) = a" "length (ses_attempts cur) = Suc (length (butlast (ses_attempts cur)))"
    using settled(6) by (metis last_snoc, metis length_append_singleton)
  have "complete_invocation px cur iid receipt (text_delivery (output_json px out)) (Some t) stop = Inr p"
    using assms(1) unfolding settled(2) complete_invocation_def output_text_delivery .
  then show ?thesis
    using settled(1) p pend assms(2) last complete_invocation_replays [OF assms(1)]
    by (simp add: validate_extension_def is_reservation_def is_settlement_def)
qed

lemma extension_complete: "session_step px cur k p \<Longrightarrow> validate_extension px (Some cur) p = Inr k"
  by (auto elim!: session_step.cases intro: reservation_accepted settlement_accepted)

section \<open>Codecs that agree\<close>

text \<open>
  The review policy reads only five things of Pydantic. Two codecs that agree on them give the same
  operations, whatever else they carry; the store's codec extends the policy's in this way.
\<close>

definition same_codec :: "'a pydantic_scheme \<Rightarrow> 'b pydantic_scheme \<Rightarrow> bool" where
  "same_codec px qx \<longleftrightarrow> iso_moment px = iso_moment qx \<and> decode_review px = decode_review qx
    \<and> decode_repair px = decode_repair qx \<and> encode_review px = encode_review qx \<and> encode_repair px = encode_repair qx"

lemma same_moment: "same_codec px qx \<Longrightarrow> json_moment px = json_moment qx"
  by (intro ext) (simp add: same_codec_def json_moment_def)

lemma same_fields:
  assumes "same_codec px qx"
  shows "seed_fields px = seed_fields qx" and "invocation_fields px = invocation_fields qx"
    and "completion_fields px = completion_fields qx"
  by (simp_all add: fun_eq_iff seed_fields_def invocation_fields_def completion_fields_def same_moment [OF assms])

lemma same_attempt_fields: "same_codec px qx \<Longrightarrow> attempt_fields px = attempt_fields qx"
  by (intro ext) (simp add: attempt_fields_def same_fields [of px qx])

lemma same_state_fields: "same_codec px qx \<Longrightarrow> state_fields px = state_fields qx"
  by (intro ext) (simp add: state_fields_def same_fields [of px qx] same_moment [of px qx])

lemma same_session_fields: "same_codec px qx \<Longrightarrow> session_fields px = session_fields qx"
  by (intro ext)
    (simp add: session_fields_def same_fields [of px qx] same_attempt_fields [of px qx] same_state_fields [of px qx])

lemmas same_codec_fields = same_fields same_attempt_fields same_state_fields same_session_fields

lemma same_valid:
  assumes "same_codec px qx"
  shows "valid_seed px = valid_seed qx" and "valid_invocation px = valid_invocation qx"
    and "valid_completion px = valid_completion qx" and "valid_session px = valid_session qx"
proof -
  note f = same_codec_fields [OF assms]
  show s: "valid_seed px = valid_seed qx" by (intro ext, unfold valid_seed_def f, rule refl)
  show i: "valid_invocation px = valid_invocation qx" by (intro ext, unfold valid_invocation_def f, rule refl)
  show c: "valid_completion px = valid_completion qx" by (intro ext, unfold valid_completion_def f, rule refl)
  have a: "valid_attempt px = valid_attempt qx" by (intro ext, unfold valid_attempt_def f i c, rule refl)
  have t: "valid_state px = valid_state qx" by (intro ext, unfold valid_state_def f i, rule refl)
  show "valid_session px = valid_session qx" by (intro ext, unfold valid_session_def f s a t, rule refl)
qed

lemma same_reducers:
  assumes "same_codec px qx"
  shows "initial_state px = initial_state qx" and "reserve px = reserve qx" and "complete px = complete qx"
proof -
  note f = same_codec_fields [OF assms]
  show "initial_state px = initial_state qx" by (intro ext, unfold initial_state_def f, rule refl)
  show "reserve px = reserve qx" by (intro ext, unfold reserve_def f, rule refl)
  have a: "account px = account qx" by (intro ext, unfold account_def f, rule refl)
  have b: "failure px = failure qx" by (intro ext, unfold failure_def f, rule refl)
  have c: "capacity px = capacity qx" by (intro ext, unfold capacity_def f, rule refl)
  have d: "retain_stops px = retain_stops qx" by (intro ext, unfold retain_stops_def f, rule refl)
  have p: "parse_review px = parse_review qx" "parse_repair px = parse_repair qx"
    using assms by (simp_all add: parse_review_def parse_repair_def same_codec_def fun_eq_iff)
  have e: "failed px = failed qx" by (intro ext, unfold failed_def b, rule refl)
  have r: "complete_review px = complete_review qx" by (intro ext, unfold complete_review_def d p e f, rule refl)
  have q: "complete_repair px = complete_repair qx" by (intro ext, unfold complete_repair_def p e f, rule refl)
  show "complete px = complete qx" by (intro ext, unfold complete_def a b c e r q, rule refl)
qed

lemma same_policy:
  assumes "same_codec px qx"
  shows "validate_session px = validate_session qx" and "reserve_invocation px = reserve_invocation qx"
    and "complete_invocation px = complete_invocation qx" and "evaluate px = evaluate qx"
    and "validate_extension px = validate_extension qx"
proof -
  note f = same_codec_fields [OF assms] and v = same_valid [OF assms] and r = same_reducers [OF assms]
  have a: "replay_attempt px = replay_attempt qx" by (intro ext, unfold replay_attempt_def r, rule refl)
  have p: "replay px = replay qx" by (intro ext, unfold replay_def r a, rule refl)
  show s: "validate_session px = validate_session qx" by (intro ext, unfold validate_session_def v p, rule refl)
  have m: "build_session px = build_session qx" by (intro ext, unfold build_session_def v f, rule refl)
  have n: "make_invocation px = make_invocation qx" "make_attempt px = make_attempt qx"
    "make_completion px = make_completion qx"
    by (simp_all add: fun_eq_iff make_invocation_def make_attempt_def make_completion_def f)
  have "output_json px d = output_json qx d" for d
    using assms by (cases d) (simp_all add: same_codec_def)
  then have o: "output_json px = output_json qx" by (intro ext)
  show i: "reserve_invocation px = reserve_invocation qx"
    by (intro ext, unfold reserve_invocation_def s m n v r, rule refl)
  show c: "complete_invocation px = complete_invocation qx"
    by (intro ext, unfold complete_invocation_def s m n v r o, rule refl)
  show "evaluate px = evaluate qx" by (intro ext, unfold evaluate_def s, rule refl)
  show "validate_extension px = validate_extension qx" by (intro ext, unfold validate_extension_def s i c, rule refl)
qed

end
