(* ===== verification/Review_Example.thy ===== *)
theory Review_Example
  imports Review_Persistence Review_Base
begin

text \<open>
  One concrete review unit: a contract with a single mandatory criterion, one producer, one reviewer
  from another family, two clean reviews. It shows that the hypotheses of the review theorems hold
  together. The Pydantic parameter reads the texts \<^verbatim>\<open>r1\<close> and \<^verbatim>\<open>r2\<close> as the
  two reports; \<^verbatim>\<open>f1\<close> is a complete report of one defect, \<^verbatim>\<open>k1\<close> an incomplete one of a critical defect.
\<close>

section \<open>Known answers of the digests\<close>

text \<open>
  Known-answer tests of the SHA-256 model, evaluated in the kernel: the message of FIPS 180-4's first
  example, and the two execution keys that the example ledger of \<open>Review_Example\<close> records. The
  compression function is evaluated on words, padding and hexadecimal printing on numerals.
\<close>

lemma compress_abc:
  "compress
    [1633837952, 0, 0, 0, 0, 0, 0, 0,
     0, 0, 0, 0, 0, 0, 0, 24] initial_hash =
    (3128432319, 2399260650, 1094795486, 1571693091, 2953011619, 2518121116, 3021012833, 4060091821)"
  by code_simp

lemma compress_first:
  "compress
    [1528983586, 740450594, 1568669696, 0, 0, 0, 0, 0,
     0, 0, 0, 0, 0, 0, 0, 72] initial_hash =
    (2541929129, 1774145142, 865900520, 598490705, 358214589, 1247061593, 769348810, 826816434)"
  by code_simp

lemma compress_second:
  "compress
    [1528983586, 740450850, 1568669696, 0, 0, 0, 0, 0,
     0, 0, 0, 0, 0, 0, 0, 72] initial_hash =
    (2171329304, 2037328820, 2488042916, 1210000654, 1252719401, 849973489, 1097306387, 1840893561)"
  by code_simp

lemma be_bytes_8: "be_bytes 8 n =
    [n div 72057594037927936 mod 256, n div 281474976710656 mod 256, n div 1099511627776 mod 256,
     n div 4294967296 mod 256, n div 16777216 mod 256, n div 65536 mod 256, n div 256 mod 256, n mod 256]"
proof -
  have eight: "(8::nat) = Suc (Suc (Suc (Suc (Suc (Suc (Suc (Suc 0)))))))" by simp
  show ?thesis
    by (subst eight) (simp only: be_bytes.simps append.simps, simp add: div_mult2_eq [symmetric])
qed

lemma hex_pad_8: "hex_pad 8 n = map (\<lambda>k. digit_char (n div k mod 16))
    [268435456, 16777216, 1048576, 65536, 4096, 256, 16, 1]"
proof -
  have eight: "(8::nat) = Suc (Suc (Suc (Suc (Suc (Suc (Suc (Suc 0)))))))" by simp
  show ?thesis
    by (subst eight) (simp only: hex_pad.simps append.simps list.map, simp add: div_mult2_eq [symmetric])
qed

lemma hex_digits:
  "digit_char 0 = CHR ''0''"
  "digit_char 1 = CHR ''1''"
  "digit_char (Suc 0) = CHR ''1''"
  "digit_char 2 = CHR ''2''"
  "digit_char 3 = CHR ''3''"
  "digit_char 4 = CHR ''4''"
  "digit_char 5 = CHR ''5''"
  "digit_char 6 = CHR ''6''"
  "digit_char 7 = CHR ''7''"
  "digit_char 8 = CHR ''8''"
  "digit_char 9 = CHR ''9''"
  "digit_char 10 = CHR ''a''"
  "digit_char 11 = CHR ''b''"
  "digit_char 12 = CHR ''c''"
  "digit_char 13 = CHR ''d''"
  "digit_char 14 = CHR ''e''"
  "digit_char 15 = CHR ''f''"
  by code_simp+

lemma replicate_padding:
  "replicate 52 x = [x, x, x, x, x, x, x, x, x, x, x, x, x, x, x, x, x, x, x, x, x, x, x, x, x, x, x, x, x, x, x, x, x, x, x, x, x, x, x, x, x, x, x, x, x, x, x, x, x, x, x, x]"
  "replicate 46 x = [x, x, x, x, x, x, x, x, x, x, x, x, x, x, x, x, x, x, x, x, x, x, x, x, x, x, x, x, x, x, x, x, x, x, x, x, x, x, x, x, x, x, x, x, x, x]"
  by (simp_all add: numeral_eq_Suc)

lemma padded_words:
  "be_words (pad_message (map of_char ''abc'')) =
    [1633837952, 0, 0, 0, 0, 0, 0, 0,
     0, 0, 0, 0, 0, 0, 0, 24]"
  "be_words (pad_message (map of_char [CHR 0x5B, CHR 0x22, CHR 0x70, CHR 0x22, CHR 0x2C, CHR 0x22, CHR 0x61, CHR 0x22, CHR 0x5D])) =
    [1528983586, 740450594, 1568669696, 0, 0, 0, 0, 0,
     0, 0, 0, 0, 0, 0, 0, 72]"
  "be_words (pad_message (map of_char [CHR 0x5B, CHR 0x22, CHR 0x70, CHR 0x22, CHR 0x2C, CHR 0x22, CHR 0x62, CHR 0x22, CHR 0x5D])) =
    [1528983586, 740450850, 1568669696, 0, 0, 0, 0, 0,
     0, 0, 0, 0, 0, 0, 0, 72]"
  by (simp_all add: pad_message_def be_bytes_8 replicate_padding)

lemma hash_one_block:
  assumes "be_words (pad_message (map of_char msg)) = ws" and "length ws = 16"
  shows "sha256_hex msg = concat (map (\<lambda>w. hex_pad 8 (unat w)) (hash_words (compress ws initial_hash)))"
proof -
  have "hash_blocks 1 ws initial_hash = compress ws initial_hash" using assms(2) by simp
  with assms show ?thesis by (simp add: sha256_hex_def)
qed

lemma sha256_abc: "sha256_hex ''abc'' = ''ba7816bf8f01cfea414140de5dae2223b00361a396177a9cb410ff61f20015ad''"
  by (subst hash_one_block [OF padded_words(1)])
     (simp_all only: compress_abc hash_words.simps, simp_all add: hex_pad_8 hex_digits)

lemma sha256_first: "take 8 (sha256_hex [CHR 0x5B, CHR 0x22, CHR 0x70, CHR 0x22, CHR 0x2C, CHR 0x22, CHR 0x61, CHR 0x22, CHR 0x5D]) = ''9782c2a9''"
  by (subst hash_one_block [OF padded_words(2)])
     (simp_all only: compress_first hash_words.simps, simp_all add: hex_pad_8 hex_digits)

lemma sha256_second: "take 8 (sha256_hex [CHR 0x5B, CHR 0x22, CHR 0x70, CHR 0x22, CHR 0x2C, CHR 0x22, CHR 0x62, CHR 0x22, CHR 0x5D]) = ''816bdb18''"
  by (subst hash_one_block [OF padded_words(3)])
     (simp_all only: compress_second hash_words.simps, simp_all add: hex_pad_8 hex_digits)

lemma execution_bytes:
  "utf8 (dumps False (json_strings [''p'', ''a''])) = [CHR 0x5B, CHR 0x22, CHR 0x70, CHR 0x22, CHR 0x2C, CHR 0x22, CHR 0x61, CHR 0x22, CHR 0x5D]"
  "utf8 (dumps False (json_strings [''p'', ''b''])) = [CHR 0x5B, CHR 0x22, CHR 0x70, CHR 0x22, CHR 0x2C, CHR 0x22, CHR 0x62, CHR 0x22, CHR 0x5D]"
  by code_simp+

lemma execution_keys_differ:
  "digest_of (json_strings [''p'', ''a'']) \<noteq> digest_of (json_strings [''p'', ''b''])"
proof
  assume "digest_of (json_strings [''p'', ''a'']) = digest_of (json_strings [''p'', ''b''])"
  then have "take 8 (sha256_hex [CHR 0x5B, CHR 0x22, CHR 0x70, CHR 0x22, CHR 0x2C, CHR 0x22, CHR 0x61, CHR 0x22, CHR 0x5D]) = take 8 (sha256_hex [CHR 0x5B, CHR 0x22, CHR 0x70, CHR 0x22, CHR 0x2C, CHR 0x22, CHR 0x62, CHR 0x22, CHR 0x5D])"
    by (simp add: digest_of_def execution_bytes)
  then show False by (simp add: sha256_first sha256_second)
qed

section \<open>The example ledger\<close>

definition ex_digest :: string where
  "ex_digest = digest_of JNull"

definition ex_scope :: review_scope where
  "ex_scope = seal scope_fields \<lparr>content_digest = [], scope_tenant_id = ''t'', scope_work_item_id = ''w'',
     scope_session_id = ''s''\<rparr>"

definition ex_criterion :: quality_criterion where
  "ex_criterion = seal criterion_fields \<lparr>content_digest = [], crit_id = ''c'', crit_predicate = ''ok'',
     crit_mandatory = True, crit_required_evidence = [''e'']\<rparr>"

definition ex_contract :: quality_contract where
  "ex_contract = seal contract_fields \<lparr>content_digest = [], qc_tenant_id = ''t'', qc_work_item_id = ''w'',
     qc_version = ''1'', qc_criteria = [ex_criterion], qc_artifact_scope = [''a''], qc_scope_in = [''in''],
     qc_scope_out = [''out''], qc_design_refs = [], qc_design_na_reason = Some ''none'', qc_risk_tier = T1\<rparr>"

definition ex_policy :: review_policy where
  "ex_policy = seal policy_fields \<lparr>content_digest = [], pol_version = ''1'', pol_min_reviews = 2,
     pol_max_reviews = 3, pol_max_repairs = 1, pol_failure_limit = 2, pol_max_invocations = 5,
     pol_max_tokens = 100, pol_max_cost = 100, pol_max_seconds = 1000, pol_different_family = True\<rparr>"

definition ex_doer :: model_identity where
  "ex_doer = seal identity_fields \<lparr>content_digest = [], mid_provider = ''p'', mid_model = ''m1'',
     mid_canonical = ''k1'', mid_family = Some ''f1'', mid_qualification = Some ex_digest,
     mid_capabilities = [ex_digest], mid_role = PRODUCER\<rparr>"

definition ex_reviewer :: model_identity where
  "ex_reviewer = seal identity_fields \<lparr>content_digest = [], mid_provider = ''p'', mid_model = ''m2'',
     mid_canonical = ''k2'', mid_family = Some ''f2'', mid_qualification = Some ex_digest,
     mid_capabilities = [ex_digest], mid_role = REVIEWER\<rparr>"

definition ex_artifact :: artifact_ref where
  "ex_artifact = seal artifact_fields \<lparr>content_digest = [], art_scope = ex_scope, art_key = ''a'',
     art_payload = ex_digest, art_producers = [ex_doer], art_contract = content_digest ex_contract,
     art_context = ex_digest, art_inputs = [], art_builds = []\<rparr>"

definition ex_held :: reservation where
  "ex_held = seal reservation_fields \<lparr>content_digest = [], use_tokens = 10, use_cost = 10, res_seconds = 100\<rparr>"

definition ex_usage :: usage where
  "ex_usage = seal usage_fields \<lparr>content_digest = [], use_tokens = 4, use_cost = 3\<rparr>"

definition ex_evidence :: evidence where
  "ex_evidence = seal evidence_fields \<lparr>content_digest = [], ev_id = ''e'', ev_digest = ex_digest,
     ev_artifact = content_digest ex_artifact, ev_observation = ''seen''\<rparr>"

definition ex_disposition :: criterion_disposition where
  "ex_disposition = seal disposition_fields \<lparr>content_digest = [], disp_criterion = ''c'', disp_status = PASS,
     disp_evidence = [ex_evidence]\<rparr>"

definition ex_report :: "string \<Rightarrow> review_report" where
  "ex_report i = seal report_fields \<lparr>content_digest = [], rep_invocation = i,
     rep_binding = artifact_binding_of ex_artifact, rep_reviewer = ex_reviewer, rep_complete = True,
     rep_criteria = [ex_disposition], rep_findings = [], rep_rechecks = [], rep_verdict = ACCEPT,
     rep_raw_text = []\<rparr>"

definition ex_finding :: "severity \<Rightarrow> finding" where
  "ex_finding sev = seal finding_fields \<lparr>content_digest = [], fnd_criterion = ''c'', fnd_behavior = ''b'',
     fnd_cause = ''a'', fnd_severity = sev, fnd_kind = DEFECT, fnd_artifact = content_digest ex_artifact,
     fnd_location = ''in'', fnd_scenario = ''out'', fnd_evidence = [ex_evidence], fnd_consequence = ''ok'',
     fnd_correction = ''ok'', fnd_required_recheck = ''ok'', fnd_fingerprint = finding_fingerprint ''c'' ''b'' ''a''\<rparr>"

definition ex_failing :: criterion_disposition where
  "ex_failing = seal disposition_fields \<lparr>content_digest = [], disp_criterion = ''c'', disp_status = FAIL,
     disp_evidence = [ex_evidence]\<rparr>"

definition ex_defect_report :: "severity \<Rightarrow> bool \<Rightarrow> review_report" where
  "ex_defect_report sev done = seal report_fields \<lparr>content_digest = [], rep_invocation = ''i1'',
     rep_binding = artifact_binding_of ex_artifact, rep_reviewer = ex_reviewer, rep_complete = done,
     rep_criteria = [ex_failing], rep_findings = [ex_finding sev], rep_rechecks = [],
     rep_verdict = CHANGES_REQUIRED, rep_raw_text = []\<rparr>"

definition ex_px :: pydantic where
  "ex_px = \<lparr>iso_moment = show_int,
     decode_review = (\<lambda>s. if s = ''r1'' then Some (ex_report ''i1'') else if s = ''r2'' then Some (ex_report ''i2'')
        else if s = ''f1'' then Some (ex_defect_report HIGH True)
        else if s = ''k1'' then Some (ex_defect_report CRITICAL False) else None),
     decode_repair = (\<lambda>s. None), encode_review = (\<lambda>r. []), encode_repair = (\<lambda>r. [])\<rparr>"

definition ex_seed :: review_seed where
  "ex_seed = make_seed ex_px ex_scope ex_contract ex_policy ex_doer [ex_reviewer] ex_artifact 0"

definition ex_receipt :: "string \<Rightarrow> string \<Rightarrow> invocation_receipt" where
  "ex_receipt i x = seal receipt_fields \<lparr>content_digest = [], rcp_binding = artifact_binding_of ex_artifact,
     rcp_invocation = i, rcp_execution = x, rcp_model = ex_reviewer, rcp_usage = ex_usage, rcp_cached = False\<rparr>"

definition ex_invocation :: "string \<Rightarrow> moment \<Rightarrow> invocation" where
  "ex_invocation i t = make_invocation ex_px i REVIEW ex_reviewer (artifact_binding_of ex_artifact) ex_held t"

definition ex_completion :: "string \<Rightarrow> string \<Rightarrow> string \<Rightarrow> moment \<Rightarrow> completion" where
  "ex_completion i x text t = make_completion ex_px i t (Some (ex_receipt i x)) (Some text) None"

definition ex_session0 :: review_session where
  "ex_session0 = projr (start_session ex_px ex_scope ex_contract ex_policy ex_doer [ex_reviewer] ex_artifact (Some 0))"

definition ex_session1 :: review_session where
  "ex_session1 = projr (reserve_invocation ex_px ex_session0 ''i1'' REVIEW ex_reviewer ex_held (Some 1))"

definition ex_session2 :: review_session where
  "ex_session2 = projr (complete_invocation ex_px ex_session1 ''i1'' (Some (ex_receipt ''i1'' ''a''))
     (Text_Output ''r1'') (Some 2) None)"

definition ex_session3 :: review_session where
  "ex_session3 = projr (reserve_invocation ex_px ex_session2 ''i2'' REVIEW ex_reviewer ex_held (Some 3))"

definition ex_session4 :: review_session where
  "ex_session4 = projr (complete_invocation ex_px ex_session3 ''i2'' (Some (ex_receipt ''i2'' ''b''))
     (Text_Output ''r2'') (Some 4) None)"

subsection \<open>The inputs are valid\<close>

lemma ex_identifiers [simp]:
  "identifier_ok ''t''" "identifier_ok ''w''" "identifier_ok ''s''" "identifier_ok ''c''" "identifier_ok ''e''"
  "identifier_ok ''1''" "identifier_ok ''a''" "identifier_ok ''b''" "identifier_ok ''p''" "identifier_ok ''m1''"
  "identifier_ok ''m2''" "identifier_ok ''k1''" "identifier_ok ''k2''" "identifier_ok ''f1''"
  "identifier_ok ''f2''" "identifier_ok ''i1''" "identifier_ok ''i2''"
  by code_simp+

lemma ex_texts [simp]: "text_ok ''ok''" "text_ok ''in''" "text_ok ''out''" "text_ok ''none''" "text_ok ''seen''"
  by code_simp+

lemma ex_digest_ok [simp]: "digest_ok ex_digest"
  by (simp add: ex_digest_def)

lemma ex_selectors [simp]:
  "scope_tenant_id ex_scope = ''t''" "scope_work_item_id ex_scope = ''w''" "scope_session_id ex_scope = ''s''"
  "crit_id ex_criterion = ''c''" "crit_predicate ex_criterion = ''ok''" "crit_mandatory ex_criterion"
  "crit_required_evidence ex_criterion = [''e'']"
  "qc_tenant_id ex_contract = ''t''" "qc_work_item_id ex_contract = ''w''" "qc_version ex_contract = ''1''"
  "qc_criteria ex_contract = [ex_criterion]" "qc_artifact_scope ex_contract = [''a'']"
  "qc_scope_in ex_contract = [''in'']" "qc_scope_out ex_contract = [''out'']" "qc_design_refs ex_contract = []"
  "qc_design_na_reason ex_contract = Some ''none''" "qc_risk_tier ex_contract = T1"
  "pol_version ex_policy = ''1''" "pol_min_reviews ex_policy = 2" "pol_max_reviews ex_policy = 3"
  "pol_max_repairs ex_policy = 1" "pol_failure_limit ex_policy = 2" "pol_max_invocations ex_policy = 5"
  "pol_max_tokens ex_policy = 100" "pol_max_cost ex_policy = 100" "pol_max_seconds ex_policy = 1000"
  "pol_different_family ex_policy"
  "mid_provider ex_doer = ''p''" "mid_model ex_doer = ''m1''" "mid_canonical ex_doer = ''k1''"
  "mid_family ex_doer = Some ''f1''" "mid_qualification ex_doer = Some ex_digest"
  "mid_capabilities ex_doer = [ex_digest]" "mid_role ex_doer = PRODUCER"
  "mid_provider ex_reviewer = ''p''" "mid_model ex_reviewer = ''m2''" "mid_canonical ex_reviewer = ''k2''"
  "mid_family ex_reviewer = Some ''f2''" "mid_qualification ex_reviewer = Some ex_digest"
  "mid_capabilities ex_reviewer = [ex_digest]" "mid_role ex_reviewer = REVIEWER"
  "art_scope ex_artifact = ex_scope" "art_key ex_artifact = ''a''" "art_payload ex_artifact = ex_digest"
  "art_producers ex_artifact = [ex_doer]" "art_contract ex_artifact = content_digest ex_contract"
  "art_context ex_artifact = ex_digest" "art_inputs ex_artifact = []" "art_builds ex_artifact = []"
  "use_tokens ex_held = 10" "use_cost ex_held = 10" "res_seconds ex_held = 100"
  "use_tokens ex_usage = 4" "use_cost ex_usage = 3"
  "ev_id ex_evidence = ''e''" "ev_digest ex_evidence = ex_digest"
  "ev_artifact ex_evidence = content_digest ex_artifact" "ev_observation ex_evidence = ''seen''"
  "disp_criterion ex_disposition = ''c''" "disp_status ex_disposition = PASS"
  "disp_evidence ex_disposition = [ex_evidence]"
  "rep_invocation (ex_report i) = i" "rep_binding (ex_report i) = artifact_binding_of ex_artifact"
  "rep_reviewer (ex_report i) = ex_reviewer" "rep_complete (ex_report i)"
  "rep_criteria (ex_report i) = [ex_disposition]" "rep_findings (ex_report i) = []"
  "rep_rechecks (ex_report i) = []" "rep_verdict (ex_report i) = ACCEPT"
  "rcp_binding (ex_receipt i x) = artifact_binding_of ex_artifact" "rcp_invocation (ex_receipt i x) = i"
  "rcp_execution (ex_receipt i x) = x" "rcp_model (ex_receipt i x) = ex_reviewer"
  "rcp_usage (ex_receipt i x) = ex_usage" "\<not> rcp_cached (ex_receipt i x)"
  by (simp_all add: seal_def ex_scope_def ex_criterion_def ex_contract_def ex_policy_def ex_doer_def
      ex_reviewer_def ex_artifact_def ex_held_def ex_usage_def ex_evidence_def ex_disposition_def
      ex_report_def ex_receipt_def)

lemma ex_sealed [simp]:
  "sealed scope_fields ex_scope" "sealed criterion_fields ex_criterion" "sealed contract_fields ex_contract"
  "sealed policy_fields ex_policy" "sealed identity_fields ex_doer" "sealed identity_fields ex_reviewer"
  "sealed artifact_fields ex_artifact" "sealed reservation_fields ex_held" "sealed usage_fields ex_usage"
  "sealed evidence_fields ex_evidence" "sealed disposition_fields ex_disposition"
  "sealed report_fields (ex_report i)" "sealed receipt_fields (ex_receipt i x)"
  by (simp_all add: ex_scope_def ex_criterion_def ex_contract_def ex_policy_def ex_doer_def
      ex_reviewer_def ex_artifact_def ex_held_def ex_usage_def ex_evidence_def ex_disposition_def
      ex_report_def ex_receipt_def)

lemma sealed_digest: "sealed flds x \<Longrightarrow> digest_ok (content_digest x)"
  by (simp add: sealed_def)

lemma ex_digests [simp]: "digest_ok (content_digest ex_contract)" "digest_ok (content_digest ex_artifact)"
  by (rule sealed_digest [OF ex_sealed(3)]) (rule sealed_digest [OF ex_sealed(7)])

lemma ex_binding [simp]:
  "sealed binding_fields (artifact_binding_of x)"
  by (simp add: artifact_binding_of_def)

lemma ex_valid [simp]:
  "valid_scope ex_scope" "valid_criterion ex_criterion" "valid_policy ex_policy"
  "valid_identity ex_doer" "valid_identity ex_reviewer" "valid_reservation ex_held" "valid_usage ex_usage"
  "valid_evidence ex_evidence"
  by (simp_all add: valid_scope_def valid_criterion_def valid_policy_def valid_identity_def
      valid_reservation_def valid_usage_def valid_evidence_def)

lemma ex_valid_nested [simp]:
  "valid_contract ex_contract" "valid_artifact ex_artifact" "valid_binding (artifact_binding_of ex_artifact)"
  "valid_disposition ex_disposition"
  by (simp_all add: valid_contract_def valid_artifact_def valid_binding_def valid_disposition_def)

lemma ex_valid_reports [simp]:
  "identifier_ok i \<Longrightarrow> valid_report (ex_report i)"
  "identifier_ok i \<Longrightarrow> identifier_ok x \<Longrightarrow> valid_receipt (ex_receipt i x)"
  by (simp_all add: valid_report_def valid_receipt_def)

lemma ex_seed_selectors [simp]:
  "seed_scope ex_seed = ex_scope" "seed_contract ex_seed = ex_contract" "seed_policy ex_seed = ex_policy"
  "seed_doer ex_seed = ex_doer" "seed_reviewers ex_seed = [ex_reviewer]" "seed_artifact ex_seed = ex_artifact"
  "seed_started_at ex_seed = 0"
  by (simp_all add: ex_seed_def make_seed_def)

lemma ex_valid_seed [simp]: "valid_seed ex_px ex_seed"
  by (simp add: valid_seed_def valid_moment_def dt_limit_def) (simp add: ex_seed_def make_seed_def)

lemma ex_separated [simp]: "separated ex_seed [ex_doer] ex_reviewer"
  by (simp add: separated_def qualified_model_def)

lemma ex_validate_seed [simp]: "validate_seed ex_seed = Inr ()"
  by (simp add: validate_seed_iff artifact_bound_def qualified_model_def)

lemma ex_invocation_simps [simp]:
  "inv_id (ex_invocation i t) = i" "inv_kind (ex_invocation i t) = REVIEW"
  "inv_actor (ex_invocation i t) = ex_reviewer" "inv_binding (ex_invocation i t) = artifact_binding_of ex_artifact"
  "inv_reservation (ex_invocation i t) = ex_held" "inv_started_at (ex_invocation i t) = t"
  by (simp_all add: ex_invocation_def)

lemma ex_valid_invocation: "identifier_ok i \<Longrightarrow> valid_moment t \<Longrightarrow> valid_invocation ex_px (ex_invocation i t)"
  by (simp add: valid_invocation_def) (simp add: ex_invocation_def make_invocation_def)

subsection \<open>The ledger runs\<close>

lemma ex_initial: "\<exists>st. initial_state ex_px ex_seed = Inr st"
  by (simp add: initial_state_def)

definition ex_state0 :: review_state where
  "ex_state0 = projr (initial_state ex_px ex_seed)"

lemma ex_state0: "initial_state ex_px ex_seed = Inr ex_state0"
  using ex_initial by (auto simp: ex_state0_def)

lemmas ex_state0_simps [simp] = initial_cases [OF ex_state0, simplified]

lemma ex_independent [simp]: "independent ex_seed ex_artifact ex_reviewer = Inr ()"
  by (simp add: independent_iff)

lemmas ex_run_simps = reserve_def reserve_checks_def require_all.simps eligibility_reasons_def
  within_window_def Let_def

lemma ex_reserve1: "\<exists>st. reserve ex_px ex_seed ex_state0 (ex_invocation ''i1'' 1) = Inr st"
  by (simp add: ex_run_simps)

definition ex_state1 :: review_state where
  "ex_state1 = projr (reserve ex_px ex_seed ex_state0 (ex_invocation ''i1'' 1))"

lemma ex_state1: "reserve ex_px ex_seed ex_state0 (ex_invocation ''i1'' 1) = Inr ex_state1"
  using ex_reserve1 by (auto simp: ex_state1_def)

lemmas ex_state1_simps [simp] = reserve_frame [OF ex_state1, simplified]

lemma ex_completion_simps [simp]:
  "cmp_invocation (ex_completion i x text t) = i" "cmp_finished_at (ex_completion i x text t) = t"
  "cmp_receipt (ex_completion i x text t) = Some (ex_receipt i x)" "cmp_output (ex_completion i x text t) = Some text"
  "cmp_failure (ex_completion i x text t) = None"
  by (simp_all add: ex_completion_def)

lemma ex_parse [simp]: "parse_review ex_px ''r1'' = Inr (ex_report ''i1'')" "parse_review ex_px ''r2'' = Inr (ex_report ''i2'')"
  by (simp_all add: parse_review_def ex_px_def)

lemma ex_binding_ok:
  "st_artifact st = ex_artifact \<Longrightarrow>
    validate_report_binding ex_seed st (ex_invocation i t) (ex_report i) = Inr ()"
  by (simp add: validate_report_binding_def require_all.simps evidence_bound_def)

lemma ex_report_ok: "validate_report ex_seed st (ex_report i) = Inr ()"
  by (simp add: validate_report_def Let_def dict_of_def criterion_checks_def dict_get_def)

lemma ex_reconcile_ok: "st_findings st = [] \<Longrightarrow> reconcile_findings ex_seed st (ex_report i) = Inr ([], [])"
  by (simp add: reconcile_findings_def dict_of_def stop_reasons_def Let_def dict_sorted_values_def)

lemma ex_account:
  assumes "execution_key (ex_receipt i x) \<notin> set (st_execution_ids st)"
  shows "\<exists>acc. account ex_px st (ex_invocation i t) (ex_completion i x text t') = (acc, None)
    \<and> bud_tokens_spent (st_budget acc) = bud_tokens_spent (st_budget st) + 4
    \<and> bud_cost_spent (st_budget acc) = bud_cost_spent (st_budget st) + 3"
  using assms by (simp add: account_def charged_def receipt_reason_def Let_def)

lemma ex_complete:
  assumes "st_pending st = Some (ex_invocation i t)" and "st_artifact st = ex_artifact"
    and "execution_key (ex_receipt i x) \<notin> set (st_execution_ids st)"
    and "st_findings st = []" and "st_terminal st = []" and "st_last_at st \<le> t'" and "0 \<le> t" and "t' < 1000"
    and "t \<le> t'" and "parse_review ex_px text = Inr (ex_report i)"
    and "bud_tokens_spent (st_budget st) < 90" and "bud_cost_spent (st_budget st) < 90"
    and "length (st_reports st) < 2" and "bud_invocations (st_budget st) < 5"
  shows "\<exists>st'. complete ex_px ex_seed st (ex_completion i x text t') = Inr st'
    \<and> st_terminal st' = [] \<and> st_reports st' = st_reports st @ [ex_report i] \<and> st_findings st' = []
    \<and> st_artifact st' = ex_artifact \<and> st_last_at st' = t'
    \<and> st_invocation_ids st' = st_invocation_ids st
    \<and> st_execution_ids st' = st_execution_ids st @ [execution_key (ex_receipt i x)]
    \<and> bud_tokens_spent (st_budget st') = bud_tokens_spent (st_budget st) + 4
    \<and> bud_cost_spent (st_budget st') = bud_cost_spent (st_budget st) + 3
    \<and> bud_invocations (st_budget st') = bud_invocations (st_budget st)
    \<and> bud_repairs (st_budget st') = bud_repairs (st_budget st)
    \<and> st_pending st' = None \<and> st_resolutions st' = st_resolutions st"
proof -
  obtain acc where acc: "account ex_px st (ex_invocation i t) (ex_completion i x text t') = (acc, None)"
    "bud_tokens_spent (st_budget acc) = bud_tokens_spent (st_budget st) + 4"
    "bud_cost_spent (st_budget acc) = bud_cost_spent (st_budget st) + 3"
    using ex_account [OF assms(3)] by blast
  note f = account_frame [OF acc(1)] account_executions [OF acc(1)]
  let ?u = "seal (state_fields ex_px) (acc\<lparr>st_findings := [], st_terminal := [],
      st_failures := [], st_reports := st_reports acc @ [ex_report i]\<rparr>)"
  have "complete_review ex_px ex_seed acc (ex_invocation i t) text = ?u"
    using assms(2,4,10) f
    by (simp add: complete_review_def ex_binding_ok ex_report_ok ex_reconcile_ok)
  moreover have "settlement_reason ex_seed st (ex_invocation i t) (ex_completion i x text t') None = None"
    using assms(6-9) by (simp add: settlement_reason_def within_window_def)
  ultimately have "complete ex_px ex_seed st (ex_completion i x text t') = Inr (capacity ex_px ex_seed ?u)"
    using assms(1) acc(1) by (simp add: complete_def)
  moreover have "st_terminal (capacity ex_px ex_seed ?u) = []"
    using assms(11-14) f acc(2,3) by (simp add: capacity_def Let_def needs_repair_def open_findings_def)
  ultimately show ?thesis using assms(2,3,6) acc(2,3) f by (intro exI [of _ "capacity ex_px ex_seed ?u"]) simp
qed

definition ex_state2 :: review_state where
  "ex_state2 = projr (complete ex_px ex_seed ex_state1 (ex_completion ''i1'' ''a'' ''r1'' 2))"

lemma ex_state2_facts:
  "complete ex_px ex_seed ex_state1 (ex_completion ''i1'' ''a'' ''r1'' 2) = Inr ex_state2
    \<and> st_terminal ex_state2 = [] \<and> st_reports ex_state2 = [ex_report ''i1''] \<and> st_findings ex_state2 = []
    \<and> st_artifact ex_state2 = ex_artifact \<and> st_last_at ex_state2 = 2
    \<and> st_invocation_ids ex_state2 = [''i1'']
    \<and> st_execution_ids ex_state2 = [execution_key (ex_receipt ''i1'' ''a'')]
    \<and> bud_tokens_spent (st_budget ex_state2) = 4 \<and> bud_cost_spent (st_budget ex_state2) = 3
    \<and> bud_invocations (st_budget ex_state2) = 1 \<and> bud_repairs (st_budget ex_state2) = 0
    \<and> st_pending ex_state2 = None \<and> st_resolutions ex_state2 = []"
  using ex_complete [of ex_state1 "''i1''" 1 "''a''" 2 "''r1''"] by (auto simp: ex_state2_def)

lemmas ex_state2 = ex_state2_facts [THEN conjunct1]
lemmas ex_state2_simps [simp] = ex_state2_facts [THEN conjunct2]

lemma ex_reserve2: "\<exists>st. reserve ex_px ex_seed ex_state2 (ex_invocation ''i2'' 3) = Inr st"
  by (simp add: ex_run_simps)

definition ex_state3 :: review_state where
  "ex_state3 = projr (reserve ex_px ex_seed ex_state2 (ex_invocation ''i2'' 3))"

lemma ex_state3: "reserve ex_px ex_seed ex_state2 (ex_invocation ''i2'' 3) = Inr ex_state3"
  using ex_reserve2 by (auto simp: ex_state3_def)

lemmas ex_state3_simps [simp] = reserve_frame [OF ex_state3, simplified]

lemma ex_keys_differ: "execution_key (ex_receipt ''i2'' ''b'') \<noteq> execution_key (ex_receipt ''i1'' ''a'')"
  using execution_keys_differ by (auto simp: execution_key_def)

definition ex_state4 :: review_state where
  "ex_state4 = projr (complete ex_px ex_seed ex_state3 (ex_completion ''i2'' ''b'' ''r2'' 4))"

lemma ex_state4_facts:
  "complete ex_px ex_seed ex_state3 (ex_completion ''i2'' ''b'' ''r2'' 4) = Inr ex_state4
    \<and> st_terminal ex_state4 = [] \<and> st_reports ex_state4 = [ex_report ''i1'', ex_report ''i2'']
    \<and> st_findings ex_state4 = [] \<and> st_artifact ex_state4 = ex_artifact \<and> st_last_at ex_state4 = 4
    \<and> st_invocation_ids ex_state4 = [''i1'', ''i2'']
    \<and> bud_tokens_spent (st_budget ex_state4) = 8 \<and> bud_cost_spent (st_budget ex_state4) = 6
    \<and> bud_invocations (st_budget ex_state4) = 2 \<and> bud_repairs (st_budget ex_state4) = 0
    \<and> st_pending ex_state4 = None \<and> st_resolutions ex_state4 = []"
  using ex_complete [of ex_state3 "''i2''" 3 "''b''" 4 "''r2''"] ex_keys_differ by (auto simp: ex_state4_def)

lemmas ex_state4 = ex_state4_facts [THEN conjunct1]
lemmas ex_state4_simps [simp] = ex_state4_facts [THEN conjunct2]

lemma ex_reachable0: "review_reachable ex_px ex_seed ex_state0"
  by (rule reachable_init) (simp add: review_start_def ex_state0)

lemma ex_reachable1: "review_reachable ex_px ex_seed ex_state1"
  by (rule reachable_step [OF ex_reachable0 step_reserve [OF ex_state1]])

lemma ex_reachable2: "review_reachable ex_px ex_seed ex_state2"
  by (rule reachable_step [OF ex_reachable1 step_complete [OF ex_state2]])

lemma ex_reachable3: "review_reachable ex_px ex_seed ex_state3"
  by (rule reachable_step [OF ex_reachable2 step_reserve [OF ex_state3]])

lemma ex_reachable4: "review_reachable ex_px ex_seed ex_state4"
  by (rule reachable_step [OF ex_reachable3 step_complete [OF ex_state4]])

subsection \<open>The sessions\<close>

lemma ex_moments [simp]: "valid_moment 0" "valid_moment 1" "valid_moment 2" "valid_moment 3" "valid_moment 4"
  by (simp_all add: valid_moment_def dt_limit_def)

lemma ex_session0: "start_session ex_px ex_scope ex_contract ex_policy ex_doer [ex_reviewer] ex_artifact (Some 0) = Inr ex_session0"
  "ses_seed ex_session0 = ex_seed" "ses_state ex_session0 = ex_state0"
proof -
  have "valid_state ex_px ex_state0" by (rule initial_valid [OF ex_valid_seed ex_state0])
  then obtain ses where ses: "build_session ex_px ex_seed [] ex_state0 = Inr ses"
    using build_session_ok [OF ex_valid_seed, of "[]"] by auto
  then have st: "start_session ex_px ex_scope ex_contract ex_policy ex_doer [ex_reviewer] ex_artifact (Some 0) = Inr ses"
    using ex_state0 ex_valid_seed by (simp add: start_session_def now_value_def ex_seed_def [symmetric])
  then have "ses = ex_session0" by (simp add: ex_session0_def)
  moreover have "ses_seed ses = ex_seed" "ses_state ses = ex_state0" using ses by (auto simp: build_session_iff)
  ultimately show "start_session ex_px ex_scope ex_contract ex_policy ex_doer [ex_reviewer] ex_artifact (Some 0) = Inr ex_session0"
    "ses_seed ex_session0 = ex_seed" "ses_state ex_session0 = ex_state0"
    using st by simp_all
qed

lemma ex_validated0: "validate_session ex_px ex_session0 = Inr ex_session0"
  by (rule start_session_replays(1) [OF ex_session0(1)])

lemma reserve_result:
  assumes "reserve_invocation px ses iid kind actor held (Some t) = Inr ses'"
  shows "ses_seed ses' = ses_seed ses"
  using assms by (auto elim!: reserve_invocation_cases simp: build_session_iff)

lemma ex_session1: "reserve_invocation ex_px ex_session0 ''i1'' REVIEW ex_reviewer ex_held (Some 1) = Inr ex_session1"
  "ses_seed ex_session1 = ex_seed" "ses_state ex_session1 = ex_state1"
proof -
  obtain ses where ses: "reserve_invocation ex_px ex_session0 ''i1'' REVIEW ex_reviewer ex_held (Some 1) = Inr ses"
    "ses_state ses = ex_state1"
    using reserve_invocation_succeeds [OF ex_validated0, of "''i1''" REVIEW ex_reviewer ex_held 1 ex_state1]
      ex_valid_invocation [of "''i1''" 1] ex_state1 by (auto simp: ex_session0 ex_invocation_def)
  then show "reserve_invocation ex_px ex_session0 ''i1'' REVIEW ex_reviewer ex_held (Some 1) = Inr ex_session1"
    "ses_seed ex_session1 = ex_seed" "ses_state ex_session1 = ex_state1"
    using reserve_result [OF ses(1)] by (simp_all add: ex_session1_def ex_session0)
qed

lemma ex_validated1: "validate_session ex_px ex_session1 = Inr ex_session1"
  by (rule reserve_invocation_replays [OF ex_session1(1)])

lemma complete_result:
  assumes "validate_session px ses = Inr ses" and "st_pending (ses_state ses) = Some ivn"
    and "pred_option valid_receipt receipt" and "valid_moment t"
    and "complete px (ses_seed ses) (ses_state ses)
      (make_completion px (inv_id ivn) t receipt (output_json px out) stop) = Inr st"
  shows "\<exists>ses'. complete_invocation px ses (inv_id ivn) receipt out (Some t) stop = Inr ses'
    \<and> ses_seed ses' = ses_seed ses \<and> ses_state ses' = st"
proof -
  obtain ses' where ses': "complete_invocation px ses (inv_id ivn) receipt out (Some t) stop = Inr ses'"
    "st_pending (ses_state ses') = None"
    using complete_invocation_succeeds [OF assms(1-4)] by blast
  from ses'(1) show ?thesis
  proof (cases rule: complete_invocation_cases)
    case (duplicate a c t)
    with ses'(2) assms(2) show ?thesis by simp
  next
    case (settled a t' st')
    with assms(5) have "st' = st" by simp
    with settled(9) ses'(1) show ?thesis by (auto simp: build_session_iff)
  qed
qed

lemma ex_session2: "complete_invocation ex_px ex_session1 ''i1'' (Some (ex_receipt ''i1'' ''a''))
     (Text_Output ''r1'') (Some 2) None = Inr ex_session2"
  "ses_seed ex_session2 = ex_seed" "ses_state ex_session2 = ex_state2"
proof -
  have "\<exists>ses. complete_invocation ex_px ex_session1 ''i1'' (Some (ex_receipt ''i1'' ''a''))
     (Text_Output ''r1'') (Some 2) None = Inr ses \<and> ses_seed ses = ses_seed ex_session1 \<and> ses_state ses = ex_state2"
    using complete_result [OF ex_validated1, of "ex_invocation ''i1'' 1"
        "Some (ex_receipt ''i1'' ''a'')" 2 "Text_Output ''r1''" None ex_state2] ex_state2
    by (simp add: ex_session1 ex_completion_def)
  then show "complete_invocation ex_px ex_session1 ''i1'' (Some (ex_receipt ''i1'' ''a''))
     (Text_Output ''r1'') (Some 2) None = Inr ex_session2"
    "ses_seed ex_session2 = ex_seed" "ses_state ex_session2 = ex_state2"
    by (auto simp: ex_session2_def ex_session1)
qed

lemma ex_validated2: "validate_session ex_px ex_session2 = Inr ex_session2"
  by (rule complete_invocation_replays [OF ex_session2(1)])

lemma ex_session3: "reserve_invocation ex_px ex_session2 ''i2'' REVIEW ex_reviewer ex_held (Some 3) = Inr ex_session3"
  "ses_seed ex_session3 = ex_seed" "ses_state ex_session3 = ex_state3"
proof -
  obtain ses where ses: "reserve_invocation ex_px ex_session2 ''i2'' REVIEW ex_reviewer ex_held (Some 3) = Inr ses"
    "ses_state ses = ex_state3"
    using reserve_invocation_succeeds [OF ex_validated2, of "''i2''" REVIEW ex_reviewer ex_held 3 ex_state3]
      ex_valid_invocation [of "''i2''" 3] ex_state3 by (auto simp: ex_session2 ex_invocation_def)
  then show "reserve_invocation ex_px ex_session2 ''i2'' REVIEW ex_reviewer ex_held (Some 3) = Inr ex_session3"
    "ses_seed ex_session3 = ex_seed" "ses_state ex_session3 = ex_state3"
    using reserve_result [OF ses(1)] by (simp_all add: ex_session3_def ex_session2)
qed

lemma ex_validated3: "validate_session ex_px ex_session3 = Inr ex_session3"
  by (rule reserve_invocation_replays [OF ex_session3(1)])

lemma ex_session4: "complete_invocation ex_px ex_session3 ''i2'' (Some (ex_receipt ''i2'' ''b''))
     (Text_Output ''r2'') (Some 4) None = Inr ex_session4"
  "ses_seed ex_session4 = ex_seed" "ses_state ex_session4 = ex_state4"
proof -
  have "\<exists>ses. complete_invocation ex_px ex_session3 ''i2'' (Some (ex_receipt ''i2'' ''b''))
     (Text_Output ''r2'') (Some 4) None = Inr ses \<and> ses_seed ses = ses_seed ex_session3 \<and> ses_state ses = ex_state4"
    using complete_result [OF ex_validated3, of "ex_invocation ''i2'' 3"
        "Some (ex_receipt ''i2'' ''b'')" 4 "Text_Output ''r2''" None ex_state4] ex_state4
    by (simp add: ex_session3 ex_completion_def)
  then show "complete_invocation ex_px ex_session3 ''i2'' (Some (ex_receipt ''i2'' ''b''))
     (Text_Output ''r2'') (Some 4) None = Inr ex_session4"
    "ses_seed ex_session4 = ex_seed" "ses_state ex_session4 = ex_state4"
    by (auto simp: ex_session4_def ex_session3)
qed

lemma ex_validated4: "validate_session ex_px ex_session4 = Inr ex_session4"
  by (rule complete_invocation_replays [OF ex_session4(1)])

definition ex_decision :: review_decision where
  "ex_decision = projr (evaluate ex_px ex_session4 ex_artifact (Some 5))"

lemma ex_decision:
  "evaluate ex_px ex_session4 ex_artifact (Some 5) = Inr ex_decision" "dec_status ex_decision = ELIGIBLE"
proof -
  have "eligibility_reasons ex_seed ex_state4 = []"
    by (simp add: eligibility_Nil open_findings_def)
  moreover have "within_window ex_seed ex_state4 5" by (simp add: within_window_def)
  ultimately have "\<exists>d. evaluate ex_px ex_session4 ex_artifact (Some 5) = Inr d \<and> dec_status d = ELIGIBLE"
    by (simp add: evaluate_def ex_validated4 ex_session4 now_value_def decide_eligible)
  then show "evaluate ex_px ex_session4 ex_artifact (Some 5) = Inr ex_decision" "dec_status ex_decision = ELIGIBLE"
    by (auto simp: ex_decision_def)
qed

subsection \<open>A defect and an outage\<close>

lemma ex_defect_simps [simp]:
  "fnd_criterion (ex_finding sev) = ''c''" "fnd_severity (ex_finding sev) = sev" "fnd_kind (ex_finding sev) = DEFECT"
  "fnd_artifact (ex_finding sev) = content_digest ex_artifact" "fnd_evidence (ex_finding sev) = [ex_evidence]"
  "fnd_behavior (ex_finding sev) = ''b''" "fnd_cause (ex_finding sev) = ''a''"
  "fnd_fingerprint (ex_finding sev) = finding_fingerprint ''c'' ''b'' ''a''"
  "sealed finding_fields (ex_finding sev)"
  "disp_criterion ex_failing = ''c''" "disp_status ex_failing = FAIL" "disp_evidence ex_failing = [ex_evidence]"
  "sealed disposition_fields ex_failing"
  "rep_invocation (ex_defect_report sev d) = ''i1''"
  "rep_binding (ex_defect_report sev d) = artifact_binding_of ex_artifact"
  "rep_reviewer (ex_defect_report sev d) = ex_reviewer" "rep_complete (ex_defect_report sev d) = d"
  "rep_criteria (ex_defect_report sev d) = [ex_failing]" "rep_findings (ex_defect_report sev d) = [ex_finding sev]"
  "rep_rechecks (ex_defect_report sev d) = []" "rep_verdict (ex_defect_report sev d) = CHANGES_REQUIRED"
  "sealed report_fields (ex_defect_report sev d)"
  by (simp_all add: ex_finding_def ex_failing_def ex_defect_report_def) (simp_all add: seal_def)

lemma ex_defect_valid [simp]: "valid_report (ex_defect_report sev d)"
proof -
  have "valid_finding (ex_finding sev)"
    by (simp add: valid_finding_def) (simp add: ex_finding_def seal_def)
  moreover have "valid_disposition ex_failing" by (simp add: valid_disposition_def)
  ultimately show ?thesis by (simp add: valid_report_def)
qed

lemma ex_defect_parse [simp]:
  "parse_review ex_px ''f1'' = Inr (ex_defect_report HIGH True)"
  "parse_review ex_px ''k1'' = Inr (ex_defect_report CRITICAL False)"
  by (simp_all add: parse_review_def ex_px_def)

lemma ex_defect_binding:
  "st_artifact st = ex_artifact \<Longrightarrow>
    validate_report_binding ex_seed st (ex_invocation ''i1'' t) (ex_defect_report sev d) = Inr ()"
  by (simp add: validate_report_binding_def require_all.simps evidence_bound_def)

lemma ex_blocking [simp]: "blocking ex_seed (ex_finding sev)"
  by (simp add: blocking_def)

lemma ex_defect_checks: "validate_report ex_seed st (ex_defect_report HIGH True) = Inr ()"
  by (simp add: validate_report_def Let_def dict_of_def criterion_checks_def dict_get_def)

lemma ex_defect_reconcile: "st_findings st = [] \<Longrightarrow>
    reconcile_findings ex_seed st (ex_defect_report HIGH True) = Inr
      ([count_occurrence (make_record (ex_finding HIGH) (content_digest (ex_defect_report HIGH True)) True 0)], [])"
  by (simp add: reconcile_findings_def dict_of_def stop_reasons_def Let_def dict_sorted_values_def
      apply_finding_def dict_get_def repeated_failure_def count_occurrence_def criterion_ids_def)

lemma ex_settlement:
  "settlement_reason ex_seed ex_state1 (ex_invocation ''i1'' 1) (ex_completion ''i1'' ''a'' text 2)
    (snd (account ex_px ex_state1 (ex_invocation ''i1'' 1) (ex_completion ''i1'' ''a'' text 2))) = None"
  using ex_account [of "''i1''" "''a''" ex_state1 1 "text" 2]
  by (auto simp: settlement_reason_def within_window_def)

definition ex_defect2 :: review_state where
  "ex_defect2 = projr (complete ex_px ex_seed ex_state1 (ex_completion ''i1'' ''a'' ''f1'' 2))"

lemma ex_defect2_facts:
  "complete ex_px ex_seed ex_state1 (ex_completion ''i1'' ''a'' ''f1'' 2) = Inr ex_defect2
    \<and> st_terminal ex_defect2 = [] \<and> st_reports ex_defect2 = [ex_defect_report HIGH True]
    \<and> st_findings ex_defect2 =
        [count_occurrence (make_record (ex_finding HIGH) (content_digest (ex_defect_report HIGH True)) True 0)]
    \<and> st_artifact ex_defect2 = ex_artifact \<and> st_last_at ex_defect2 = 2
    \<and> st_invocation_ids ex_defect2 = [''i1'']
    \<and> bud_tokens_spent (st_budget ex_defect2) = 4 \<and> bud_cost_spent (st_budget ex_defect2) = 3
    \<and> bud_invocations (st_budget ex_defect2) = 1 \<and> bud_repairs (st_budget ex_defect2) = 0
    \<and> st_pending ex_defect2 = None"
proof -
  obtain acc where acc: "account ex_px ex_state1 (ex_invocation ''i1'' 1) (ex_completion ''i1'' ''a'' ''f1'' 2) = (acc, None)"
    "bud_tokens_spent (st_budget acc) = 4" "bud_cost_spent (st_budget acc) = 3"
    using ex_account [of "''i1''" "''a''" ex_state1 1 "''f1''" 2] by auto
  note f = account_frame [OF acc(1)]
  let ?u = "seal (state_fields ex_px) (acc\<lparr>st_findings := [count_occurrence (make_record (ex_finding HIGH)
      (content_digest (ex_defect_report HIGH True)) True 0)], st_terminal := [],
      st_failures := [], st_reports := st_reports acc @ [ex_defect_report HIGH True]\<rparr>)"
  have "complete_review ex_px ex_seed acc (ex_invocation ''i1'' 1) ''f1'' = ?u"
    using f by (simp add: complete_review_def ex_defect_binding ex_defect_checks ex_defect_reconcile)
  then have "complete ex_px ex_seed ex_state1 (ex_completion ''i1'' ''a'' ''f1'' 2) = Inr (capacity ex_px ex_seed ?u)"
    using acc(1) ex_settlement [of "''f1''"] by (simp add: complete_def)
  moreover have "st_terminal (capacity ex_px ex_seed ?u) = []"
    using f acc(2,3) by (simp add: capacity_def Let_def)
  ultimately show ?thesis using f acc(2,3) by (simp add: ex_defect2_def)
qed

lemmas ex_defect2 = ex_defect2_facts [THEN conjunct1]
lemmas ex_defect2_simps [simp] = ex_defect2_facts [THEN conjunct2]

definition ex_defect3 :: review_state where
  "ex_defect3 = projr (reserve ex_px ex_seed ex_defect2 (ex_invocation ''i2'' 3))"

lemma ex_defect3: "reserve ex_px ex_seed ex_defect2 (ex_invocation ''i2'' 3) = Inr ex_defect3"
proof -
  have "\<exists>st. reserve ex_px ex_seed ex_defect2 (ex_invocation ''i2'' 3) = Inr st"
    by (simp add: ex_run_simps)
  then show ?thesis by (auto simp: ex_defect3_def)
qed

lemmas ex_defect3_simps [simp] = reserve_frame [OF ex_defect3, simplified]

definition ex_outage :: completion where
  "ex_outage = make_completion ex_px ''i2'' 4 None None None"

definition ex_defect4 :: review_state where
  "ex_defect4 = projr (complete ex_px ex_seed ex_defect3 ex_outage)"

lemma ex_defect4: "complete ex_px ex_seed ex_defect3 ex_outage = Inr ex_defect4"
proof -
  have "\<exists>st. complete ex_px ex_seed ex_defect3 ex_outage = Inr st"
    by (rule complete_total [of _ "ex_invocation ''i2'' 3"]) (simp_all add: ex_outage_def)
  then show ?thesis by (auto simp: ex_defect4_def)
qed

lemma ex_defect_reachable: "review_reachable ex_px ex_seed ex_defect3"
  by (rule reachable_step [OF reachable_step [OF ex_reachable1 step_complete [OF ex_defect2]] step_reserve [OF ex_defect3]])

definition ex_record :: finding_record where
  "ex_record = count_occurrence (make_record (ex_finding HIGH) (content_digest (ex_defect_report HIGH True)) True 0)"

lemma ex_record_open: "ex_record \<in> set (open_findings ex_defect3)" "rec_blocking ex_record"
  by (simp_all add: ex_record_def open_findings_def)

definition ex_critical2 :: review_state where
  "ex_critical2 = projr (complete ex_px ex_seed ex_state1 (ex_completion ''i1'' ''a'' ''k1'' 2))"

lemma ex_critical2: "complete ex_px ex_seed ex_state1 (ex_completion ''i1'' ''a'' ''k1'' 2) = Inr ex_critical2"
proof -
  have "\<exists>st. complete ex_px ex_seed ex_state1 (ex_completion ''i1'' ''a'' ''k1'' 2) = Inr st"
    by (rule complete_total [of _ "ex_invocation ''i1'' 1"]) simp_all
  then show ?thesis by (auto simp: ex_critical2_def)
qed

lemma ex_critical_reachable: "review_reachable ex_px ex_seed ex_critical2"
  by (rule reachable_step [OF ex_reachable1 step_complete [OF ex_critical2]])

end
