(* ===== verification/Review_Properties.thy ===== *)
theory Review_Properties
  imports Review_Example
begin

text \<open>
  The theorems about the review protocol, each with the example that shows its hypotheses hold
  together. They rest on the invariant of the ledger (\<open>arp.always\<close>, \<open>arp.run_bounded\<close>), on the
  reconciliation lemmas of \<open>Review_Findings\<close> and on the replay lemmas of \<open>Review_Policy\<close>.
\<close>

subsection \<open>Support\<close>

lemma reachable_inv: "review_reachable px seed st \<Longrightarrow> review_inv seed st"
  by (rule arp.always)

lemma validated_inv: "validate_session px ses = Inr ses \<Longrightarrow> review_inv (ses_seed ses) (ses_state ses)"
  by (auto simp: validate_session_iff intro: replay_inv)

definition accepted_review :: "review_seed \<Rightarrow> artifact_ref \<Rightarrow> review_report \<Rightarrow> bool" where
  "accepted_review seed art rep \<longleftrightarrow>
    rep_binding rep = artifact_binding_of art \<and> rep_verdict rep = ACCEPT \<and> rep_complete rep
    \<and> rep_reviewer rep \<in> set (seed_reviewers seed) \<and> separated seed (art_producers art) (rep_reviewer rep)
    \<and> (\<forall>c \<in> set (qc_criteria (seed_contract seed)). crit_mandatory c \<longrightarrow>
         (\<exists>d \<in> set (rep_criteria rep). disp_criterion d = crit_id c \<and> disp_status d = PASS
            \<and> set (crit_required_evidence c) \<subseteq> ev_id ` set (disp_evidence d)
            \<and> (\<forall>e \<in> set (disp_evidence d). ev_artifact e = content_digest art)))"

lemma eligible_review_accepted:
  assumes "review_inv seed st" and "eligibility_reasons seed st = []"
    and "distinct (map crit_id (qc_criteria (seed_contract seed)))"
  shows "accepted_review seed (st_artifact st) (last (st_reports st))"
proof -
  let ?rep = "last (st_reports st)"
  have ne: "st_reports st \<noteq> []" and b: "rep_binding ?rep = artifact_binding_of (st_artifact st)"
    and v: "rep_verdict ?rep = ACCEPT"
    and pass: "\<forall>d \<in> set (rep_criteria ?rep). disp_criterion d \<in> set (mandatory_ids seed) \<longrightarrow> disp_status d = PASS"
    using assms(2) by (simp_all add: eligibility_Nil)
  then have ok: "report_ok seed ?rep" using assms(1) by (simp add: review_inv_def)
  then have cov: "covers seed ?rep" and ev: "evidence_current ?rep" using assms(3) by (simp_all add: report_ok_def)
  have prod: "art_producers (st_artifact st) = art_producers (seed_artifact seed)"
    using assms(1) by (simp add: review_inv_def lineage_ok_def)
  have "\<exists>d \<in> set (rep_criteria ?rep). disp_criterion d = crit_id c \<and> disp_status d = PASS
      \<and> set (crit_required_evidence c) \<subseteq> ev_id ` set (disp_evidence d)
      \<and> (\<forall>e \<in> set (disp_evidence d). ev_artifact e = content_digest (st_artifact st))"
    if c: "c \<in> set (qc_criteria (seed_contract seed))" "crit_mandatory c" for c
  proof -
    obtain d where d: "d \<in> set (rep_criteria ?rep)" "disp_criterion d = crit_id c"
      using cov c(1) unfolding covers_def by (metis (no_types, lifting) image_iff)
    moreover have "disp_status d = PASS" using pass d c by (auto simp: set_mandatory_ids)
    moreover from this have "set (crit_required_evidence c) \<subseteq> ev_id ` set (disp_evidence d)"
      using cov d c(1) by (simp add: covers_def)
    ultimately show ?thesis using ev b by (auto simp: evidence_current_def)
  qed
  with b v ok cov prod show ?thesis by (simp add: accepted_review_def report_ok_def covers_def)
qed

lemma binding_frame: "st_artifact st = st_artifact st' \<Longrightarrow>
    validate_report_binding seed st ivn rep = validate_report_binding seed st' ivn rep"
  by (simp add: validate_report_binding_def)

lemma review_completion:
  assumes "complete px seed st c = Inr st'" and "st_pending st = Some ivn" and "inv_kind ivn = REVIEW"
    and "settlement_reason seed st ivn c (snd (account px st ivn c)) = None"
    and "cmp_output c = Some text"
  shows "st' = capacity px seed (complete_review px seed (fst (account px st ivn c)) ivn text)"
  using assms by (auto simp: complete_def Let_def case_prod_unfold split: if_splits)

lemma complete_review_stops:
  assumes "parse_review px text = Inr rep" and "validate_report_binding seed acc ivn rep = Inr ()"
  shows "set (stop_reasons seed rep) \<subseteq> set (st_terminal (complete_review px seed acc ivn text))"
proof (cases "ebind (validate_report seed acc rep) (\<lambda>_. reconcile_findings seed acc rep)")
  case (Inl e)
  then show ?thesis
    using assms failure_terminal(1) retain_stops_terminal [of px seed acc rep]
    by (fastforce simp: complete_review_def failed_def)
next
  case (Inr p)
  then obtain fs rs where p: "p = (fs, rs)" "reconcile_findings seed acc rep = Inr (fs, rs)"
    by (cases p) auto
  with Inr assms reconcile_stops [OF p(2)] show ?thesis by (simp add: complete_review_def)
qed

lemma settled_finding:
  assumes "review_inv seed st" and "st_pending st = Some ivn" and "account px st ivn c = (acc, reason)"
    and "settles px seed acc ivn u" and "r \<in> set (open_findings st)"
  shows "\<exists>r' \<in> set (st_findings u). record_key r' = record_key r \<and> (rec_blocking r \<longrightarrow> rec_blocking r')
    \<and> (rec_closed_by r' \<noteq> None \<longrightarrow> (\<exists>rep. st_reports u = st_reports st @ [rep]
        \<and> rec_closed_by r' = Some (content_digest rep)
        \<and> rec_closed_artifact r' = Some (content_digest (st_artifact st)) \<and> closed_by_recheck st rep r))"
proof -
  note f = account_frame [OF assms(3)]
  have dist: "distinct (map record_key (st_findings acc))"
    using assms(1) f by (simp add: review_inv_def findings_ok_def)
  have r: "r \<in> set (open_findings acc)" using assms(5) f by (simp add: open_findings_def)
  have rin: "r \<in> set (st_findings acc)" "rec_closed_by r = None" using r by (simp_all add: open_findings_def)
  from assms(4) show ?thesis
  proof (cases rule: settles.cases)
    case (settle_failure q)
    with rin show ?thesis by (intro bexI [of _ r]) simp_all
  next
    case (settle_rejected rep q)
    from retain_stops_open [OF r dist, of px seed rep] settle_rejected(1) show ?thesis
      by (auto simp: open_findings_def)
  next
    case (settle_review rep findings terminal)
    obtain r' where r': "r' \<in> set findings" "carried acc rep r r'"
      using reconcile_continuity [OF settle_review(6) dist r] by blast
    have "bnd_artifact (rep_binding rep) = content_digest (st_artifact st)"
      using validate_report_binding_D(2) [OF settle_review(4)] assms(1,2)
      by (simp add: review_inv_def pending_ok_def)
    moreover have "closed_by_recheck acc rep r = closed_by_recheck st rep r"
      using f by (simp add: closed_by_recheck_def)
    ultimately show ?thesis using r' settle_review(1) f
      by (intro bexI [of _ r']) (auto simp: carried_def split: if_splits)
  next
    case (settle_repair rpr resolutions)
    with rin show ?thesis by (intro bexI [of _ r]) simp_all
  qed
qed

lemma bound_stops:
  assumes "complete px seed st c = Inr st'" and "st_pending st = Some ivn" and "inv_kind ivn = REVIEW"
    and "settlement_reason seed st ivn c (snd (account px st ivn c)) = None" and "cmp_output c = Some text"
    and "parse_review px text = Inr rep" and "validate_report_binding seed st ivn rep = Inr ()"
  shows "set (stop_reasons seed rep) \<subseteq> set (st_terminal st')"
proof -
  let ?acc = "fst (account px st ivn c)"
  have art: "st_artifact ?acc = st_artifact st" by (rule account_frame(1)) (rule prod.collapse [symmetric])
  have "validate_report_binding seed ?acc ivn rep = Inr ()" using assms(7) binding_frame [OF art] by simp
  then have "set (stop_reasons seed rep) \<subseteq> set (st_terminal (complete_review px seed ?acc ivn text))"
    by (rule complete_review_stops [OF assms(6)])
  also have "\<dots> \<subseteq> set (st_terminal st')"
    using review_completion [OF assms(1-5)] capacity_terminal by metis
  finally show ?thesis .
qed

lemma ex_critical_stop: "R_CRITICAL \<in> set (st_terminal ex_critical2)"
  using bound_stops [OF ex_critical2 _ _ _ _ ex_defect_parse(2), of "ex_invocation ''i1'' 1"]
    ex_settlement [of "''k1''"] ex_defect_binding
  by (simp add: stop_reasons_def)

subsection \<open>Eligibility\<close>

text \<open>
  C2. An ELIGIBLE decision is earned: the session's ledger replays from its seed, the artifact the
  caller observes now is the one the ledger ends with, at least two valid reports were completed,
  each on an execution of its own, the latest one accepts exactly this artifact with every mandatory
  criterion passed on its required evidence, all of it bound to the artifact's digest, its author is
  a pinned reviewer separated from every producer, no blocking finding is open, and the decision
  falls inside the unit's time window.
\<close>

theorem eligible_is_earned:
  assumes "evaluate px ses art (Some now) = Inr dec" and "dec_status dec = ELIGIBLE"
  shows "validate_session px ses = Inr ses \<and> art = st_artifact (ses_state ses)
    \<and> dec_artifact dec = content_digest art \<and> dec_session dec = content_digest ses
    \<and> 2 \<le> length (st_reports (ses_state ses))
    \<and> length (st_reports (ses_state ses)) \<le> card (set (st_execution_ids (ses_state ses)))
    \<and> accepted_review (ses_seed ses) art (last (st_reports (ses_state ses)))
    \<and> (\<forall>r \<in> set (open_findings (ses_state ses)). \<not> rec_blocking r)
    \<and> within_window (ses_seed ses) (ses_state ses) now"
  using assms(1)
proof (cases rule: evaluate_cases)
  case (1 t)
  have reasons: "eligibility_reasons (ses_seed ses) (ses_state ses) = []" "art = st_artifact (ses_state ses)"
    "within_window (ses_seed ses) (ses_state ses) now"
    using trans [OF 1(5) [symmetric] assms(2)] 1(3) unfolding decide_eligible by (auto split: if_splits)
  have inv: "review_inv (ses_seed ses) (ses_state ses)" by (rule validated_inv [OF 1(1)])
  have vs: "valid_policy (seed_policy (ses_seed ses))" "distinct (map crit_id (qc_criteria (seed_contract (ses_seed ses))))"
    using 1(1) by (auto simp: validate_session_iff valid_session_def valid_seed_def valid_contract_def)
  have "2 \<le> length (st_reports (ses_state ses))"
    using reasons(1) vs(1) by (simp add: eligibility_Nil valid_policy_def)
  moreover have "length (st_reports (ses_state ses)) \<le> card (set (st_execution_ids (ses_state ses)))"
    using inv by (simp add: review_inv_def replay_ok_def distinct_card)
  moreover have "accepted_review (ses_seed ses) art (last (st_reports (ses_state ses)))"
    using eligible_review_accepted [OF inv reasons(1) vs(2)] reasons(2) by simp
  moreover have "\<forall>r \<in> set (open_findings (ses_state ses)). \<not> rec_blocking r"
    using reasons(1) by (simp add: eligibility_Nil list_ex_iff)
  ultimately show ?thesis using 1(1,6,7) reasons by simp
qed

theorem eligible_is_earned_witness:
  "dec_status ex_decision = ELIGIBLE \<and> accepted_review ex_seed ex_artifact (ex_report ''i2'')"
  using eligible_is_earned [OF ex_decision] ex_decision(2) by (simp add: ex_session4)

subsection \<open>Time and failures\<close>

text \<open>
  An attempt is settled on time when it finishes inside the unit's window, after it started and before the seconds
  reserved for it are over.
\<close>

definition on_time :: "review_seed \<Rightarrow> review_state \<Rightarrow> invocation \<Rightarrow> moment \<Rightarrow> bool" where
  "on_time seed st ivn t \<longleftrightarrow> within_window seed st t \<and> inv_started_at ivn \<le> t
    \<and> t < inv_started_at ivn + int (res_seconds (inv_reservation ivn)) * 1000000"

definition unit_end :: "review_seed \<Rightarrow> moment" where
  "unit_end seed = seed_started_at seed + int (pol_max_seconds (seed_policy seed)) * 1000000"

definition timely :: "review_seed \<Rightarrow> review_state \<Rightarrow> bool" where
  "timely seed st \<longleftrightarrow>
    (st_terminal st = [] \<longrightarrow> st_last_at st \<le> unit_end seed
      \<and> (\<forall>f \<in> set (st_failures st). fc_occurrences f < pol_failure_limit (seed_policy seed)))
    \<and> (\<forall>f \<in> set (st_failures st). fc_occurrences f \<le> max 1 (pol_failure_limit (seed_policy seed)))
    \<and> (\<forall>ivn. st_pending st = Some ivn \<longrightarrow> st_terminal st = [] \<and> st_last_at st = inv_started_at ivn
        \<and> inv_started_at ivn + int (res_seconds (inv_reservation ivn)) * 1000000 \<le> unit_end seed)"

lemma update_entries: "(k, v) \<in> set (AList.update r n d) \<Longrightarrow> k = r \<and> v = n \<or> (k, v) \<in> set d"
  by (induction d) (auto split: if_splits)

lemma counted_entries:
  "(k, v) \<in> set (fold (\<lambda>i d. AList.update (fc_reason i) (fc_occurrences i) d) fs d) \<Longrightarrow>
    v \<in> fc_occurrences ` set fs \<or> (k, v) \<in> set d"
proof (induction fs arbitrary: d)
  case (Cons f fs)
  then have "v \<in> fc_occurrences ` set fs \<or> (k, v) \<in> set (AList.update (fc_reason f) (fc_occurrences f) d)" by simp
  then show ?case using update_entries by fastforce
qed simp

lemma failure_occurrences:
  assumes "\<forall>f \<in> set (st_failures st). fc_occurrences f < k" and "pol_failure_limit (seed_policy seed) = k"
  shows "(\<forall>f \<in> set (st_failures (failure px seed st r)). fc_occurrences f \<le> max 1 k)
    \<and> (st_terminal (failure px seed st r) = [] \<longrightarrow> (\<forall>f \<in> set (st_failures (failure px seed st r)). fc_occurrences f < k))"
proof -
  let ?n = "(case dict_get (failure_counts st) r of None \<Rightarrow> 0 | Some j \<Rightarrow> j) + 1"
  have counts: "j < k" if "(q, j) \<in> set (failure_counts st)" for q j
    using counted_entries [OF that [unfolded failure_counts_def]] assms(1) by auto
  then have n: "?n \<le> max 1 k" by (auto split: option.split dest!: dict_get_Some_in) (fastforce simp: Suc_le_eq)
  have entry: "fc_occurrences f = ?n \<or> fc_occurrences f < k" if "f \<in> set (st_failures (failure px seed st r))" for f
    using that by (auto simp: failure_def Let_def make_failure_def dest!: update_entries intro: counts)
  have "st_terminal (failure px seed st r) = [] \<Longrightarrow> ?n < k"
    using assms(2) by (auto simp: failure_def Let_def split: if_splits)
  then show ?thesis using entry n by (metis max.coboundedI2 order.strict_implies_order)
qed

lemma settlement_on_time:
  assumes "settlement_reason seed st ivn c reason = r"
  shows "on_time seed st ivn (cmp_finished_at c) \<or> (\<exists>q. r = Some q \<and> q \<in> set terminal_failures)"
proof (cases "cmp_failure c")
  case (Some s)
  with assms show ?thesis by (cases s) (auto simp: settlement_reason_def terminal_failures_def)
next
  case None
  with assms show ?thesis by (auto simp: settlement_reason_def terminal_failures_def Let_def on_time_def split: if_splits)
qed

text \<open>An attempt that is late is recorded as a failure that stops the unit, and nothing of its output is kept.\<close>

lemma late_completion:
  assumes "complete px seed st c = Inr st'" and "st_pending st = Some ivn" and "\<not> on_time seed st ivn (cmp_finished_at c)"
  shows "st_terminal st' \<noteq> [] \<and> st_reports st' = st_reports st \<and> st_artifact st' = st_artifact st
    \<and> st_findings st' = st_findings st \<and> st_resolutions st' = st_resolutions st"
proof -
  obtain acc reason where acc: "account px st ivn c = (acc, reason)" by fastforce
  obtain q where q: "settlement_reason seed st ivn c reason = Some q" "q \<in> set terminal_failures"
    using settlement_on_time [OF refl, of seed st ivn c reason] assms(3) by blast
  have st': "st' = capacity px seed (failure px seed acc q)"
    using assms(1,2) acc q(1) by (auto simp: complete_def split: if_splits)
  have "q \<in> set (st_terminal st')"
    unfolding st' using failure_terminal(2) [OF q(2)] capacity_terminal by blast
  then show ?thesis using account_frame [OF acc] unfolding st' by auto
qed

lemma settles_last_at: "settles px seed acc ivn u \<Longrightarrow> st_last_at u = st_last_at acc"
  by (auto elim!: settles.cases simp: retain_stops_def Let_def)

lemma settles_failures:
  assumes "settles px seed acc ivn u" and "\<forall>f \<in> set (st_failures acc). fc_occurrences f < k"
    and "pol_failure_limit (seed_policy seed) = k"
  shows "(\<forall>f \<in> set (st_failures u). fc_occurrences f \<le> max 1 k)
    \<and> (st_terminal u = [] \<longrightarrow> (\<forall>f \<in> set (st_failures u). fc_occurrences f < k))"
  using assms(1)
proof (cases rule: settles.cases)
  case (settle_rejected rep r)
  have "st_failures (retain_stops px seed acc rep) = st_failures acc" by (simp add: retain_stops_def Let_def)
  then show ?thesis
    using failure_occurrences [of "retain_stops px seed acc rep" k seed px r] assms(2,3) settle_rejected(1) by simp
qed (use failure_occurrences [OF assms(2,3)] in simp_all)

lemma complete_timely:
  assumes "timely seed st" and "complete px seed st c = Inr st'"
  shows "timely seed st'"
  using assms(2)
proof (cases rule: complete_cases)
  case (1 ivn acc reason u)
  note f = account_frame [OF 1(3)]
  let ?k = "pol_failure_limit (seed_policy seed)"
  have before: "st_last_at st = inv_started_at ivn" "\<forall>f \<in> set (st_failures acc). fc_occurrences f < ?k"
    using assms(1) 1(1) f by (auto simp: timely_def)
  have u: "st_last_at u = max (st_last_at st) (cmp_finished_at c)"
    using 1(5) f(9) by (auto dest: settles_last_at)
  have "(\<forall>f \<in> set (st_failures u). fc_occurrences f \<le> max 1 ?k)
    \<and> (st_terminal u = [] \<longrightarrow> (\<forall>f \<in> set (st_failures u). fc_occurrences f < ?k))"
    using 1(5) settles_failures [OF _ before(2) refl] settle_failure by metis
  moreover have "st_last_at st' \<le> unit_end seed" if "st_terminal st' = []"
  proof -
    have "on_time seed st ivn (cmp_finished_at c)" using late_completion [OF assms(2) 1(1)] that by blast
    then show ?thesis using u 1(4) by (simp add: on_time_def within_window_def unit_end_def before(1))
  qed
  ultimately show ?thesis
    using complete_frame(2) [OF assms(2)] capacity_terminal_Nil 1(4) by (fastforce simp: timely_def)
qed

lemma reserve_timely:
  assumes "timely seed st" and "reserve px seed st ivn = Inr st'"
  shows "timely seed st'"
proof -
  have "int (res_seconds (inv_reservation ivn)) * 1000000
      \<le> int (pol_max_seconds (seed_policy seed)) * 1000000 - (inv_started_at ivn - seed_started_at seed)"
    using assms(2) by (auto simp: reserve_def reserve_checks_def Let_def guard_simps split: if_splits)
  then show ?thesis
    using assms(1) reserve_cases(1,6) [OF assms(2)] reserve_frame [OF assms(2)]
    by (auto simp: timely_def unit_end_def within_window_def)
qed

interpretation pace: safety "review_start px seed" "review_step px seed" "timely seed"
  for px :: "'a pydantic_scheme" and seed
proof
  fix st assume "review_start px seed st"
  then have i: "initial_state px seed = Inr st" by (simp add: review_start_def)
  then show "timely seed st" using initial_cases [OF i] by (auto simp: timely_def unit_end_def)
next
  show "timely seed st \<Longrightarrow> review_step px seed st st' \<Longrightarrow> timely seed st'" for st st'
    by (auto elim!: review_stepE intro: reserve_timely complete_timely)
qed

subsection \<open>Limits\<close>

text \<open>
  C3. The policy's limits, each with the states it holds in. In every reachable state, stopped or not, invocations,
  reviews and repairs are within their ceilings, no reason failed more often than the failure limit, a pending
  attempt's reserved seconds end inside the unit's time, and nothing is reserved unless an attempt is pending. As long as
  the unit has not stopped, moreover, what is spent and held together is within the token and cost ceilings, the last
  recorded moment is inside the unit's time, and every reason failed less often than the limit; an attempt that overruns
  one of these is recorded and stops the unit. A completion that finishes outside the window or outside its reserved
  seconds stops the unit, and no report, repair or finding of it is kept.
\<close>

theorem limits_hold:
  assumes "review_reachable px seed st"
  shows "bud_invocations (st_budget st) = length (st_invocation_ids st)
    \<and> bud_invocations (st_budget st) \<le> pol_max_invocations (seed_policy seed)
    \<and> bud_repairs (st_budget st) \<le> pol_max_repairs (seed_policy seed)
    \<and> length (st_reports st) \<le> pol_max_reviews (seed_policy seed)
    \<and> (st_pending st = None \<longrightarrow> bud_tokens_reserved (st_budget st) = 0 \<and> bud_cost_reserved (st_budget st) = 0)
    \<and> (st_terminal st = [] \<longrightarrow>
        bud_tokens_spent (st_budget st) + bud_tokens_reserved (st_budget st) \<le> pol_max_tokens (seed_policy seed)
        \<and> bud_cost_spent (st_budget st) + bud_cost_reserved (st_budget st) \<le> pol_max_cost (seed_policy seed)
        \<and> st_last_at st \<le> seed_started_at seed + int (pol_max_seconds (seed_policy seed)) * 1000000
        \<and> (\<forall>f \<in> set (st_failures st). fc_occurrences f < pol_failure_limit (seed_policy seed)))
    \<and> seed_started_at seed \<le> st_last_at st
    \<and> (\<forall>f \<in> set (st_failures st). fc_occurrences f \<le> max 1 (pol_failure_limit (seed_policy seed)))
    \<and> (\<forall>ivn. st_pending st = Some ivn \<longrightarrow> inv_started_at ivn + int (res_seconds (inv_reservation ivn)) * 1000000
          \<le> seed_started_at seed + int (pol_max_seconds (seed_policy seed)) * 1000000)
    \<and> (\<forall>ivn c st'. st_pending st = Some ivn \<and> complete px seed st c = Inr st'
          \<and> \<not> on_time seed st ivn (cmp_finished_at c) \<longrightarrow>
        st_terminal st' \<noteq> [] \<and> st_reports st' = st_reports st \<and> st_artifact st' = st_artifact st
        \<and> st_findings st' = st_findings st \<and> st_resolutions st' = st_resolutions st)"
proof -
  have "review_inv seed st" "timely seed st" using reachable_inv [OF assms] pace.always [OF assms] .
  then show ?thesis
    using late_completion [of px seed st] by (auto simp: review_inv_def counters_ok_def funds_ok_def timely_def unit_end_def)
qed

theorem limits_hold_witness:
  "st_terminal ex_state3 = [] \<and> bud_tokens_reserved (st_budget ex_state3) = 10 \<and>
   bud_tokens_spent (st_budget ex_state3) + bud_tokens_reserved (st_budget ex_state3) \<le> 100"
  using limits_hold [OF ex_reachable3] by simp

text \<open>
  C4. A unit ends: from any reachable state, at most two steps per invocation the policy still allows
  can be taken, so at most twice the invocation ceiling over the unit's whole life.
\<close>

theorem unit_terminates:
  assumes "review_reachable px seed st" and "run_of (review_step px seed) n st st'"
  shows "n \<le> 2 * (pol_max_invocations (seed_policy seed) - length (st_invocation_ids st)) + 1
    \<and> n \<le> 2 * pol_max_invocations (seed_policy seed)"
proof
  have n: "n \<le> review_rank seed st" using assms(2,1) by (rule arp.run_bounded)
  then show "n \<le> 2 * (pol_max_invocations (seed_policy seed) - length (st_invocation_ids st)) + 1"
    by (auto simp: review_rank_def split: if_splits)
  have "st_pending st \<noteq> None \<Longrightarrow> st_invocation_ids st \<noteq> []"
    using reachable_inv [OF assms(1)] by (auto simp: review_inv_def pending_ok_def)
  moreover have "length (st_invocation_ids st) \<le> pol_max_invocations (seed_policy seed)"
    using reachable_inv [OF assms(1)] by (simp add: review_inv_def counters_ok_def)
  ultimately show "n \<le> 2 * pol_max_invocations (seed_policy seed)"
    using n by (cases "st_invocation_ids st") (auto simp: review_rank_def split: if_splits)
qed

theorem unit_terminates_witness:
  "run_of (review_step ex_px ex_seed) 1 ex_state0 ex_state1 \<and> (1::nat) \<le> 2 * pol_max_invocations ex_policy"
proof -
  have run: "run_of (review_step ex_px ex_seed) (Suc 0) ex_state0 ex_state1"
    by (rule run_step, rule run_refl, rule step_reserve, rule ex_state1)
  with unit_terminates [OF ex_reachable0 run] show ?thesis by simp
qed

text \<open>
  C5. A stop is final: once a terminal reason is recorded nothing is pending, every further
  reservation is denied with REVIEW_LIMIT, no completion is taken, and the unit is never eligible.
\<close>

theorem stop_is_final:
  assumes "review_reachable px seed st" and "st_terminal st \<noteq> []"
  shows "reserve px seed st ivn = Inl (Violation R_REVIEW_LIMIT)
    \<and> complete px seed st c = Inl (Violation R_PENDING)
    \<and> \<not> review_step px seed st st' \<and> eligibility_reasons seed st \<noteq> []"
proof -
  have "st_pending st = None"
    using reachable_inv [OF assms(1)] assms(2) by (auto simp: review_inv_def pending_ok_def split: option.splits)
  then have "complete px seed st c = Inl (Violation R_PENDING)" for c by (simp add: complete_def)
  moreover have "reserve px seed st ivn = Inl (Violation R_REVIEW_LIMIT)" for ivn
    using assms(2) by (simp add: reserve_def reserve_checks_def Let_def require_all.simps)
  ultimately show ?thesis using assms(2) by (auto simp: eligibility_Nil elim: review_stepE)
qed

theorem stop_is_final_witness:
  "R_CRITICAL \<in> set (st_terminal ex_critical2) \<and>
   reserve ex_px ex_seed ex_critical2 (ex_invocation ''i2'' 3) = Inl (Violation R_REVIEW_LIMIT)"
proof -
  have "st_terminal ex_critical2 \<noteq> []" using ex_critical_stop by auto
  with ex_critical_stop stop_is_final [OF ex_critical_reachable, of "ex_invocation ''i2'' 3"] show ?thesis by blast
qed

text \<open>
  C6. Nothing is counted twice: in every reachable state the invocation ids are distinct, the
  execution keys are distinct, every completed report belongs to a reserved invocation of its own
  and to an execution of its own.
\<close>

theorem no_replay:
  assumes "review_reachable px seed st"
  shows "distinct (st_invocation_ids st) \<and> distinct (st_execution_ids st)
    \<and> distinct (map rep_invocation (st_reports st))
    \<and> rep_invocation ` set (st_reports st) \<subseteq> set (st_invocation_ids st)
    \<and> length (st_reports st) \<le> length (st_execution_ids st)
    \<and> length (st_execution_ids st) \<le> length (st_invocation_ids st)"
  using reachable_inv [OF assms] by (auto simp: review_inv_def replay_ok_def split: if_splits)

theorem no_replay_witness:
  "st_invocation_ids ex_state4 = [''i1'', ''i2''] \<and> distinct (st_execution_ids ex_state4) \<and>
   2 \<le> length (st_execution_ids ex_state4)"
  using no_replay [OF ex_reachable4] by simp

subsection \<open>Findings\<close>

text \<open>
  C7. Findings do not disappear. Across any step an open finding stays on record under its
  fingerprint; a blocking one stays blocking; and if it is closed afterwards, then by the report that
  this step completed, which passed a recheck of a recorded resolution bound to the present artifact.
\<close>

theorem finding_continuity:
  assumes "review_reachable px seed st" and "review_step px seed st st'" and "r \<in> set (open_findings st)"
  shows "\<exists>r' \<in> set (st_findings st'). record_key r' = record_key r \<and> (rec_blocking r \<longrightarrow> rec_blocking r')
    \<and> (rec_closed_by r' \<noteq> None \<longrightarrow> (\<exists>rep. st_reports st' = st_reports st @ [rep]
        \<and> rec_closed_by r' = Some (content_digest rep)
        \<and> rec_closed_artifact r' = Some (content_digest (st_artifact st)) \<and> closed_by_recheck st rep r))"
  using assms(2)
proof cases
  case (step_reserve ivn)
  with reserve_frame(7) [OF step_reserve] assms(3) show ?thesis
    by (intro bexI [of _ r]) (simp_all add: open_findings_def)
next
  case (step_complete c)
  then show ?thesis
  proof (cases rule: complete_cases)
    case (1 ivn acc reason u)
    have "settles px seed acc ivn u" using 1(5) by (auto intro: settle_failure)
    from settled_finding [OF reachable_inv [OF assms(1)] 1(1,3) this assms(3)] 1(4) show ?thesis by simp
  qed
qed

theorem finding_continuity_witness:
  "\<exists>r' \<in> set (st_findings ex_defect4). record_key r' = record_key ex_record \<and> rec_blocking r'"
  using finding_continuity [OF ex_defect_reachable step_complete [OF ex_defect4] ex_record_open(1)] ex_record_open(2)
  by auto

text \<open>
  The repeated-failure breaker: as long as the unit has not stopped, no blocking finding that is
  still open has been seen as often as the policy's limit, so not more than once under any valid policy.
\<close>

theorem breaker_trips:
  assumes "review_reachable px seed st" and "st_terminal st = []" and "valid_policy (seed_policy seed)"
    and "r \<in> set (open_findings st)" and "rec_blocking r"
  shows "rec_occurrences r < pol_failure_limit (seed_policy seed) \<and> rec_occurrences r \<le> 1"
proof -
  have "rec_occurrences r < pol_failure_limit (seed_policy seed)"
    using reachable_inv [OF assms(1)] assms(2,4,5) by (simp add: review_inv_def findings_ok_def)
  moreover have "pol_failure_limit (seed_policy seed) \<le> 2" using assms(3) by (simp add: valid_policy_def)
  ultimately show ?thesis by simp
qed

theorem breaker_trips_witness: "rec_blocking ex_record \<and> rec_occurrences ex_record \<le> 1"
  using breaker_trips [OF ex_defect_reachable _ _ ex_record_open] ex_record_open(2) by simp

text \<open>
  A bound stop survives rejection: when a review settles with a trustworthy receipt inside its
  window and its report is bound to the attempt, every stop it raises (a critical finding, a contract
  or context gap, an escalation) ends the unit, also when the report itself is rejected as incomplete
  or for an invalid closure.
\<close>

theorem bound_stops_survive:
  assumes "complete px seed st c = Inr st'" and "st_pending st = Some ivn" and "inv_kind ivn = REVIEW"
    and "settlement_reason seed st ivn c (snd (account px st ivn c)) = None" and "cmp_output c = Some text"
    and "parse_review px text = Inr rep" and "validate_report_binding seed st ivn rep = Inr ()"
  shows "set (stop_reasons seed rep) \<subseteq> set (st_terminal st')"
  using assms by (rule bound_stops)

theorem bound_stops_survive_witness:
  "\<not> rep_complete (ex_defect_report CRITICAL False) \<and> R_CRITICAL \<in> set (st_terminal ex_critical2)"
  using bound_stops_survive [OF ex_critical2 _ _ _ _ ex_defect_parse(2), of "ex_invocation ''i1'' 1"]
    ex_settlement [of "''k1''"] ex_defect_binding
  by (simp add: stop_reasons_def)

text \<open>
  Independence: every report the ledger credits is valid, complete over the contract's criteria
  and written by a pinned reviewer that is qualified, is no producer of the artifact under any of
  its names and, where the tier or the policy asks for it, comes from another model family.
\<close>

theorem reports_are_independent:
  assumes "review_reachable px seed st" and "valid_contract (seed_contract seed)" and "rep \<in> set (st_reports st)"
  shows "valid_report rep \<and> covers seed rep \<and> evidence_current rep
    \<and> rep_reviewer rep \<in> set (seed_reviewers seed)
    \<and> separated seed (art_producers (st_artifact st)) (rep_reviewer rep)"
  using reachable_inv [OF assms(1)] assms(2,3)
  by (auto simp: review_inv_def report_ok_def lineage_ok_def valid_contract_def)

theorem reports_are_independent_witness:
  "covers ex_seed (ex_report ''i2'') \<and> separated ex_seed [ex_doer] (rep_reviewer (ex_report ''i2''))"
  using reports_are_independent [OF ex_reachable4, of "ex_report ''i2''"] by simp

subsection \<open>Settlement\<close>

text \<open>
  C11. An attempt without a trustworthy receipt is charged at least its full reservation and earns
  nothing: a missing, mismatched, cached or replayed receipt adds no report, no resolution and no
  change of artifact.
\<close>

theorem untrusted_receipts_charged:
  assumes "complete px seed st c = Inr st'" and "st_pending st = Some ivn"
    and "receipt_reason st ivn (cmp_receipt c) \<noteq> None"
  shows "bud_tokens_spent (st_budget st) + use_tokens (inv_reservation ivn) \<le> bud_tokens_spent (st_budget st')
    \<and> bud_cost_spent (st_budget st) + use_cost (inv_reservation ivn) \<le> bud_cost_spent (st_budget st')
    \<and> st_reports st' = st_reports st \<and> st_resolutions st' = st_resolutions st
    \<and> st_artifact st' = st_artifact st \<and> st_findings st' = st_findings st"
  using assms(1)
proof (cases rule: complete_cases)
  case (1 i acc reason u)
  have [simp]: "i = ivn" using 1(1) assms(2) by simp
  have "reason \<noteq> None" using 1(3) assms(3) by (auto simp: account_def Let_def split: prod.splits if_splits)
  then obtain r where "u = failure px seed acc r" using 1(5) by auto
  with 1(4) charged_untrusted [OF assms(3)] account_spent [OF 1(3)] account_frame [OF 1(3)] show ?thesis by simp
qed

theorem untrusted_receipts_charged_witness:
  "cmp_receipt ex_outage = None \<and> 14 \<le> bud_tokens_spent (st_budget ex_defect4) \<and>
   st_reports ex_defect4 = [ex_defect_report HIGH True]"
  using untrusted_receipts_charged [OF ex_defect4, of "ex_invocation ''i2'' 3"]
  by (simp add: ex_outage_def receipt_reason_def)

text \<open>
  A reserved attempt can always be settled: on a session that replays, delivering anything for
  the pending invocation, malformed text and outages included, succeeds and leaves nothing pending.
\<close>

theorem pending_attempt_settles:
  assumes "validate_session px ses = Inr ses" and "st_pending (ses_state ses) = Some ivn"
    and "pred_option valid_receipt receipt" and "valid_moment t"
  shows "\<exists>ses'. complete_invocation px ses (inv_id ivn) receipt out (Some t) stop = Inr ses'
    \<and> st_pending (ses_state ses') = None"
  using assms by (rule complete_invocation_succeeds)

theorem pending_attempt_settles_witness:
  "\<exists>ses'. complete_invocation ex_px ex_session3 ''i2'' None (Text_Output ''garbage'') (Some 4) None = Inr ses'
    \<and> st_pending (ses_state ses') = None"
  using pending_attempt_settles [OF ex_validated3, of "ex_invocation ''i2'' 3" None 4 "Text_Output ''garbage''" None]
  by (simp add: ex_session3)

text \<open>
  Delivery is idempotent: delivering a completion again, at any later time, returns the very
  same session, and a delivery that differs in receipt, output or stop reason is refused.
\<close>

theorem redelivery:
  assumes "complete_invocation px ses iid receipt out now stop = Inr ses'"
  shows "complete_invocation px ses' iid receipt out (Some later) stop = Inr ses'
    \<and> ((receipt', output_json px out', stop') \<noteq> (receipt, output_json px out, stop) \<longrightarrow>
      complete_invocation px ses' iid receipt' out' now' stop' = Inl Invalid)"
  using complete_invocation_again [OF assms] by blast

theorem redelivery_witness:
  "complete_invocation ex_px ex_session2 ''i1'' (Some (ex_receipt ''i1'' ''a'')) (Text_Output ''r1'') (Some 9) None
     = Inr ex_session2
   \<and> complete_invocation ex_px ex_session2 ''i1'' None (Text_Output ''r1'') (Some 9) None = Inl Invalid"
  using redelivery [OF ex_session2(1), of 9 None "Text_Output ''r1''" None "Some 9"] by simp

subsection \<open>Replay and extension\<close>

text \<open>
  C14. Sessions replay: whatever the operations return is accepted by the validation that every
  later operation starts with, keeps its seed, and its state is reachable, so every theorem about
  reachable states is a theorem about sessions.
\<close>

theorem sessions_replay:
  assumes "session_step px ses k ses'"
  shows "validate_session px ses' = Inr ses' \<and> ses_seed ses' = ses_seed ses
    \<and> review_reachable px (ses_seed ses') (ses_state ses')"
  using session_step_replays [OF assms] session_step_seed [OF assms]
  by (auto simp: validate_session_iff intro: replay_reachable)

theorem sessions_replay_witness:
  "validate_session ex_px ex_session4 = Inr ex_session4 \<and> ex_session4 \<noteq> ex_session3"
proof -
  have ne: "ex_session4 \<noteq> ex_session3"
    using ex_session3(3) ex_session4(3) by (metis ex_state3_simps(2) ex_state4_facts option.distinct(1))
  then have "session_step ex_px ex_session3 COMPLETE ex_session4"
    by (rule ext_complete [OF ex_session4(1)])
  from sessions_replay [OF this] ne show ?thesis by simp
qed

text \<open>
  C15. The durable store's check is exact: it accepts a proposed successor of a committed session if
  and only if the two are equal or one of the public operations leads from the first to the second,
  and it names which one.
\<close>

theorem extension_exact:
  "validate_extension px (Some cur) p = Inr k \<longleftrightarrow>
    (k = UNCHANGED \<and> p = cur \<and> validate_session px cur = Inr cur) \<or> session_step px cur k p"
proof
  assume v: "validate_extension px (Some cur) p = Inr k"
  then have "validate_session px cur = Inr cur"
    by (auto simp: validate_extension_def validate_session_iff split: if_splits)
  with extension_sound [OF v] show "(k = UNCHANGED \<and> p = cur \<and> validate_session px cur = Inr cur) \<or> session_step px cur k p"
    by blast
next
  assume "(k = UNCHANGED \<and> p = cur \<and> validate_session px cur = Inr cur) \<or> session_step px cur k p"
  then show "validate_extension px (Some cur) p = Inr k"
  proof
    assume "k = UNCHANGED \<and> p = cur \<and> validate_session px cur = Inr cur"
    then show ?thesis by (simp add: validate_extension_def)
  qed (rule extension_complete)
qed

text \<open>
  C16. Well-formedness is kept: on a validated invocation and a validated completion, both reducers
  take a valid state to a valid state, so the revalidation inside them never raises and every stored
  digest matches its content.
\<close>

theorem reducers_keep_validity:
  assumes "valid_state px st" and "valid_invocation px ivn" and "valid_completion px c"
  shows "(reserve px seed st ivn = Inr st1 \<longrightarrow> valid_state px st1)
    \<and> (complete px seed st c = Inr st2 \<longrightarrow> valid_state px st2)"
  using reserve_valid [OF assms(1,2)] complete_valid [OF assms(1,3)] by blast

theorem reducers_keep_validity_witness: "valid_state ex_px ex_state1"
proof -
  have "valid_completion ex_px ex_outage"
    by (simp add: valid_completion_def ex_outage_def) (simp add: make_completion_def)
  from reducers_keep_validity [OF initial_valid [OF ex_valid_seed ex_state0] ex_valid_invocation this,
      of "''i1''" 1 ex_seed ex_state1] ex_state1
  show ?thesis by simp
qed

text \<open>The witness of C1, on the example's artifact.\<close>

theorem artifact_digest_binds_witness:
  "valid_artifact ex_artifact \<and> ex_artifact = ex_artifact\<lparr>content_digest := content_digest ex_artifact\<rparr>"
  using artifact_digest_binds [of ex_artifact "ex_artifact\<lparr>content_digest := content_digest ex_artifact\<rparr>"]
  by (simp add: collision_free_def)

end
