(* ===== verification/Effects.thy ===== *)
theory Effects
  imports Prelude
begin

text \<open>
  Operations with effects and exceptions: a function from a world to a result or an error, and the world it
  leaves. An error keeps the effects that happened before it, as a Python exception does.
\<close>

type_synonym ('s, 'e, 'a) eff = "'s \<Rightarrow> ('e + 'a) \<times> 's"

definition sreturn :: "'a \<Rightarrow> ('s, 'e, 'a) eff" where
  "sreturn x s = (Inr x, s)"

definition sraise :: "'e \<Rightarrow> ('s, 'e, 'a) eff" where
  "sraise e s = (Inl e, s)"

definition sbind :: "('s, 'e, 'a) eff \<Rightarrow> ('a \<Rightarrow> ('s, 'e, 'b) eff) \<Rightarrow> ('s, 'e, 'b) eff" where
  "sbind m f s = (case m s of (Inl e, s') \<Rightarrow> (Inl e, s') | (Inr x, s') \<Rightarrow> f x s')"

definition spure :: "'e + 'a \<Rightarrow> ('s, 'e, 'a) eff" where
  "spure r s = (r, s)"

definition scall :: "('s \<Rightarrow> 'a \<times> 's) \<Rightarrow> ('s, 'e, 'a) eff" where
  "scall f s = (case f s of (x, s') \<Rightarrow> (Inr x, s'))"

text \<open>\<open>scatch\<close> turns every error of a block into one exception.\<close>

definition scatch :: "('s, 'f, 'a) eff \<Rightarrow> ('f \<Rightarrow> 'e) \<Rightarrow> ('s, 'e, 'a) eff" where
  "scatch m h s = (case m s of (Inl e, s') \<Rightarrow> (Inl (h e), s') | (Inr x, s') \<Rightarrow> (Inr x, s'))"

lemma sreturn_apply [simp]: "sreturn x s = (Inr x, s)"
  by (simp add: sreturn_def)

lemma sraise_apply [simp]: "sraise e s = (Inl e, s)"
  by (simp add: sraise_def)

lemma spure_apply [simp]: "spure r s = (r, s)"
  by (simp add: spure_def)

lemma sbind_sreturn [simp]: "sbind (sreturn x) f = f x"
  by (simp add: sbind_def fun_eq_iff)

lemma sbind_assoc: "sbind (sbind m f) g = sbind m (\<lambda>x. sbind (f x) g)"
  by (auto simp: sbind_def fun_eq_iff split: prod.splits sum.splits)

text \<open>
  \<open>keeps P m\<close>: whatever \<open>m\<close> does, the world before and after are related by \<open>P\<close>, a preorder.
\<close>

definition keeps :: "('s \<Rightarrow> 's \<Rightarrow> bool) \<Rightarrow> ('s, 'e, 'a) eff \<Rightarrow> bool" where
  "keeps P m \<longleftrightarrow> (\<forall>s. P s (snd (m s)))"

lemma keeps_sreturn [intro]: "reflp P \<Longrightarrow> keeps P (sreturn x)"
  by (simp add: keeps_def reflp_def)

lemma keeps_sraise [intro]: "reflp P \<Longrightarrow> keeps P (sraise e)"
  by (simp add: keeps_def reflp_def)

lemma keeps_spure [intro]: "reflp P \<Longrightarrow> keeps P (spure r)"
  by (simp add: keeps_def reflp_def)

lemma keeps_sbind [intro]: "transp P \<Longrightarrow> keeps P m \<Longrightarrow> (\<And>x. keeps P (f x)) \<Longrightarrow> keeps P (sbind m f)"
  unfolding keeps_def sbind_def by (auto split: prod.splits sum.splits) (metis snd_conv transpE)+

lemma keeps_scatch [intro]: "keeps P m \<Longrightarrow> keeps P (scatch m h)"
  unfolding keeps_def scatch_def by (auto split: prod.splits sum.splits) (metis snd_conv)+

text \<open>
  \<open>wp m Q E s\<close>: run from the world \<open>s\<close>, a result of \<open>m\<close> comes with \<open>Q\<close> and an error leaves a world with \<open>E\<close>.
\<close>

definition wp :: "('s, 'e, 'a) eff \<Rightarrow> ('a \<Rightarrow> 's \<Rightarrow> bool) \<Rightarrow> ('s \<Rightarrow> bool) \<Rightarrow> 's \<Rightarrow> bool" where
  "wp m Q E s \<longleftrightarrow> (case m s of (Inl e, s') \<Rightarrow> E s' | (Inr x, s') \<Rightarrow> Q x s')"

lemma wp_sreturn [simp]: "wp (sreturn x) Q E s = Q x s"
  by (simp add: wp_def)

lemma wp_sraise [simp]: "wp (sraise e) Q E s = E s"
  by (simp add: wp_def)

lemma wp_spure: "wp (spure r) Q E s = (case r of Inl e \<Rightarrow> E s | Inr x \<Rightarrow> Q x s)"
  by (simp add: wp_def split: sum.splits)

lemma wp_sbind [simp]: "wp (sbind m f) Q E s = wp m (\<lambda>x. wp (f x) Q E) E s"
  by (simp add: wp_def sbind_def split: prod.splits sum.splits)

lemma wp_scall [simp]: "wp (scall f) Q E s = Q (fst (f s)) (snd (f s))"
  by (simp add: wp_def scall_def split: prod.splits)

lemma wp_scatch [simp]: "wp (scatch m h) Q E s = wp m Q E s"
  by (simp add: wp_def scatch_def split: prod.splits sum.splits)

lemma wp_mono: "wp m Q E s \<Longrightarrow> (\<And>x s. Q x s \<Longrightarrow> Q' x s) \<Longrightarrow> (\<And>s. E s \<Longrightarrow> E' s) \<Longrightarrow> wp m Q' E' s"
  by (simp add: wp_def split: prod.splits sum.splits)

lemma wpD: "wp m Q E s \<Longrightarrow> m s = (res, s') \<Longrightarrow> case res of Inl e \<Rightarrow> E s' | Inr x \<Rightarrow> Q x s'"
  by (simp add: wp_def)

section \<open>Tables\<close>

text \<open>
  Facts about tables, shared by the stores: a table with a primary key is a dictionary (an
  association list with distinct keys), an append-only table is a list. \<open>tenant_scope\<close> is the row level
  security policy of both schemas, with the tenant the transaction has set; \<open>fetch\<close> is a query by primary key
  under it. \<open>table_sum\<close> aggregates a
  column over a table; replacing or adding one row changes it by the difference of that row.
\<close>

definition tenant_scope :: "string \<Rightarrow> string \<Rightarrow> bool" where
  "tenant_scope setting tenant \<longleftrightarrow> setting \<noteq> [] \<and> tenant = setting"

definition fetch :: "string \<Rightarrow> ((string \<times> 'k) \<times> 'r) list \<Rightarrow> string \<times> 'k \<Rightarrow> 'r option" where
  "fetch tenant table key = (if tenant_scope tenant (fst key) then dict_get table key else None)"

definition table_sum :: "('k \<Rightarrow> 'r \<Rightarrow> int) \<Rightarrow> ('k \<times> 'r) list \<Rightarrow> int" where
  "table_sum f d = sum_list (map (\<lambda>(k, r). f k r) d)"

lemma table_sum_Nil [simp]: "table_sum f [] = 0"
  by (simp add: table_sum_def)

lemma table_sum_Cons [simp]: "table_sum f ((k, r) # d) = f k r + table_sum f d"
  by (simp add: table_sum_def)

lemma update_fresh: "dict_get d k = None \<Longrightarrow> AList.update k v d = d @ [(k, v)]"
  by (induction d) (auto simp: dict_get_def split: if_splits)

lemma table_sum_update:
  assumes "distinct (map fst d)"
  shows "table_sum f (AList.update k v d) =
    table_sum f d + f k v - (case dict_get d k of None \<Rightarrow> 0 | Some u \<Rightarrow> f k u)"
  using assms
proof (induction d)
  case Nil
  then show ?case by (simp add: dict_get_def)
next
  case (Cons p d)
  obtain j u where p: "p = (j, u)" by force
  have "dict_get d k = None" if "j = k"
    using Cons.prems that p by (auto simp: dict_get_None)
  with Cons show ?case by (auto simp: p dict_get_def)
qed

lemma table_sum_zero: "(\<And>k r. (k, r) \<in> set d \<Longrightarrow> f k r = 0) \<Longrightarrow> table_sum f d = 0"
  by (induction d) (auto simp: table_sum_def)

lemma table_sum_ge:
  assumes "dict_get d k = Some r" and "\<And>j q. (j, q) \<in> set d \<Longrightarrow> 0 \<le> f j q"
  shows "f k r \<le> table_sum f d"
  using assms
proof (induction d)
  case (Cons p d)
  obtain j u where p: "p = (j, u)" by force
  have nonneg: "0 \<le> table_sum f d"
    using Cons.prems(2) unfolding table_sum_def by (intro sum_list_nonneg) auto
  show ?case
  proof (cases "j = k")
    case True
    with Cons.prems(1) nonneg show ?thesis by (simp add: p dict_get_def)
  next
    case False
    with Cons.prems have "f k r \<le> table_sum f d" by (intro Cons.IH) (auto simp: p dict_get_def)
    moreover have "0 \<le> f j u" using Cons.prems(2) by (simp add: p)
    ultimately show ?thesis by (simp add: p)
  qed
qed (simp add: dict_get_def)

lemma table_sum_nonneg: "(\<And>j q. (j, q) \<in> set d \<Longrightarrow> 0 \<le> f j q) \<Longrightarrow> 0 \<le> table_sum f d"
  unfolding table_sum_def by (intro sum_list_nonneg) auto

lemma update_distinct [simp]: "distinct (map fst d) \<Longrightarrow> distinct (map fst (AList.update k v d))"
  by (rule distinct_update)

lemma update_rows: "distinct (map fst d) \<Longrightarrow> (j, r) \<in> set (AList.update k v d) \<longleftrightarrow>
    (if j = k then r = v else (j, r) \<in> set d)"
  using dict_get_iff [of "AList.update k v d" j r] dict_get_iff [of d j r] by (auto split: if_splits)

lemma sort_key_sorted: "sorted (map f xs) \<Longrightarrow> sort_key f xs = xs"
  by (rule sort_key_id_if_sorted)

lemma sorted_map_upt: "map f xs = [a..<b] \<Longrightarrow> sorted (map f xs)"
  by simp

end
