(* ===== verification/Review_Store.thy ===== *)
theory Review_Store
  imports Review_Persistence Effects
begin

text \<open>
  \<^verbatim>\<open>domain/review_budget.py\<close>, \<^verbatim>\<open>adapters/postgres_review_store.py\<close>, \<^verbatim>\<open>adapters/postgres_review_admin.py\<close> and
  the tables of \<^verbatim>\<open>adapters/postgres_review_schema.py\<close>: the durable store of review sessions.

  A table with a primary key is a dictionary from the key to the remaining columns; the event table,
  which is only appended to, is a list. Row level security is \<open>tenant_scope\<close>, which every query
  applies with the tenant the transaction has set. A transaction is one step on the database: an
  exception leaves it unchanged, because the \<^verbatim>\<open>with engine.begin()\<close> block rolls back, and two
  transactions on one work item do not interleave, because each locks the parent budget's row
  first. Constraint violations are \<open>Integrity_Error\<close>, which the operations turn into \<open>Denied\<close>
  (\<^verbatim>\<open>ReviewStoreDenied\<close>).

  The database's clock, the privileges of the worker's database role and Pydantic's reading and writing
  of a whole session and a parent budget are parameters; the latter extend \<^typ>\<open>'a pydantic_scheme\<close>.
\<close>

record session_codec = pydantic +
  encode_session :: "review_session \<Rightarrow> string"
  decode_session :: "string \<Rightarrow> review_session option"

record parent_budget = review_model +
  par_tenant :: string
  par_work_item :: string
  par_id :: string
  par_max_invocations :: nat
  par_max_repairs :: nat
  par_max_tokens :: nat
  par_max_cost :: nat
  par_expires_at :: moment

record store_codec = session_codec +
  encode_parent :: "parent_budget \<Rightarrow> string"
  decode_parent :: "string \<Rightarrow> parent_budget option"

record parent_usage = review_model +
  pu_invocations :: nat
  pu_repairs :: nat
  pu_tokens_spent :: nat
  pu_cost_spent :: nat
  pu_tokens_reserved :: nat
  pu_cost_reserved :: nat

record review_store_grant = review_model +
  grant_tenant :: string
  grant_subject :: string

definition parent_fields :: "'a pydantic_scheme \<Rightarrow> parent_budget \<Rightarrow> (string \<times> json) list" where
  "parent_fields px x =
    [(''tenant_id'', JStr (par_tenant x)), (''work_item_id'', JStr (par_work_item x)),
     (''budget_id'', JStr (par_id x)), (''max_invocations'', json_nat (par_max_invocations x)),
     (''max_repairs'', json_nat (par_max_repairs x)), (''max_tokens'', json_nat (par_max_tokens x)),
     (''max_cost_microusd'', json_nat (par_max_cost x)), (''expires_at'', json_moment px (par_expires_at x))]"

definition parent_usage_fields :: "parent_usage \<Rightarrow> (string \<times> json) list" where
  "parent_usage_fields x =
    [(''invocations'', json_nat (pu_invocations x)), (''repairs'', json_nat (pu_repairs x)),
     (''tokens_spent'', json_nat (pu_tokens_spent x)), (''cost_microusd_spent'', json_nat (pu_cost_spent x)),
     (''tokens_reserved'', json_nat (pu_tokens_reserved x)),
     (''cost_microusd_reserved'', json_nat (pu_cost_reserved x))]"

definition grant_fields :: "review_store_grant \<Rightarrow> (string \<times> json) list" where
  "grant_fields x = [(''tenant_id'', JStr (grant_tenant x)), (''subject_id'', JStr (grant_subject x))]"

definition valid_parent :: "'a pydantic_scheme \<Rightarrow> parent_budget \<Rightarrow> bool" where
  "valid_parent px x \<longleftrightarrow> sealed (parent_fields px) x \<and> identifier_ok (par_tenant x)
    \<and> identifier_ok (par_work_item x) \<and> identifier_ok (par_id x) \<and> 0 < par_max_invocations x
    \<and> 0 < par_max_tokens x \<and> 0 < par_max_cost x \<and> valid_moment (par_expires_at x)"

definition valid_grant :: "review_store_grant \<Rightarrow> bool" where
  "valid_grant x \<longleftrightarrow> sealed grant_fields x \<and> identifier_ok (grant_tenant x) \<and> identifier_ok (grant_subject x)"

subsection \<open>Tables\<close>

datatype counter = Invocations | Repairs | Tokens_Spent | Cost_Spent | Tokens_Reserved | Cost_Reserved

definition counter_columns :: "counter list" where
  "counter_columns = [Invocations, Repairs, Tokens_Spent, Cost_Spent, Tokens_Reserved, Cost_Reserved]"

fun budget_counter :: "budget_state \<Rightarrow> counter \<Rightarrow> nat" where
  "budget_counter b Invocations = bud_invocations b"
| "budget_counter b Repairs = bud_repairs b"
| "budget_counter b Tokens_Spent = bud_tokens_spent b"
| "budget_counter b Cost_Spent = bud_cost_spent b"
| "budget_counter b Tokens_Reserved = bud_tokens_reserved b"
| "budget_counter b Cost_Reserved = bud_cost_reserved b"

type_synonym unit_key = "string \<times> string \<times> string"

record budget_row =
  bg_work_item :: string
  bg_limits :: string
  bg_counters :: "counter \<Rightarrow> int"

record registration_row =
  rg_budget :: string
  rg_seed :: string

record session_row =
  sn_document :: string
  sn_digest :: string
  sn_sequence :: nat
  sn_version :: nat

record event_row =
  et_key :: unit_key
  et_sequence :: nat
  et_kind :: transition_kind
  et_subject :: string
  et_before :: "string option"
  et_after :: string
  et_document :: string
  et_invocation :: "string option"
  et_provider :: "string option"
  et_execution :: "string option"

record review_db =
  db_budgets :: "((string \<times> string) \<times> budget_row) list"
  db_registrations :: "(unit_key \<times> registration_row) list"
  db_sessions :: "(unit_key \<times> session_row) list"
  db_events :: "event_row list"

record worker_role =
  role_super :: bool
  role_bypass_rls :: bool
  role_create_role :: bool
  role_create_db :: bool
  role_owns_tables :: bool
  role_update_limits :: bool
  role_insert_registration :: bool
  role_update_event :: bool
  role_delete_event :: bool
  role_truncate_event :: bool

datatype store_error =
    Denied
  | Rejected review_error
  | Integrity_Error
  | Database_Error
  | Overflow_Error
  | Assertion_Error

definition lift_review :: "review_error + 'a \<Rightarrow> store_error + 'a" where
  "lift_review m = (case m of Inl e \<Rightarrow> Inl (Rejected e) | Inr x \<Rightarrow> Inr x)"

definition on_integrity :: "store_error + 'a \<Rightarrow> store_error + 'a" where
  "on_integrity m = (case m of Inl Integrity_Error \<Rightarrow> Inl Denied | _ \<Rightarrow> m)"

definition scope_key :: "review_scope \<Rightarrow> unit_key" where
  "scope_key scope = (scope_tenant_id scope, scope_work_item_id scope, scope_session_id scope)"

definition unit_events :: "string \<Rightarrow> review_db \<Rightarrow> unit_key \<Rightarrow> event_row list" where
  "unit_events tenant db key =
    sort_key et_sequence (filter (\<lambda>e. tenant_scope tenant (fst (et_key e)) \<and> et_key e = key) (db_events db))"

definition big_integer :: "int \<Rightarrow> bool" where
  "big_integer i \<longleftrightarrow> - (2 ^ 63) \<le> i \<and> i < 2 ^ 63"

definition insert_budget :: "string \<times> string \<Rightarrow> budget_row \<Rightarrow> review_db \<Rightarrow> store_error + review_db" where
  "insert_budget key row db =
    (if dict_get (db_budgets db) key \<noteq> None
        \<or> list_ex (\<lambda>(k, r). fst k = fst key \<and> bg_work_item r = bg_work_item row) (db_budgets db)
     then Inl Integrity_Error else Inr (db\<lparr>db_budgets := AList.update key row (db_budgets db)\<rparr>))"

definition insert_registration :: "unit_key \<Rightarrow> registration_row \<Rightarrow> review_db \<Rightarrow> store_error + review_db" where
  "insert_registration key row db =
    (if dict_get (db_registrations db) key \<noteq> None
        \<or> map_option bg_work_item (dict_get (db_budgets db) (fst key, rg_budget row)) \<noteq> Some (fst (snd key))
     then Inl Integrity_Error else Inr (db\<lparr>db_registrations := AList.update key row (db_registrations db)\<rparr>))"

definition insert_session :: "unit_key \<Rightarrow> session_row \<Rightarrow> review_db \<Rightarrow> store_error + review_db" where
  "insert_session key row db =
    (if dict_get (db_sessions db) key \<noteq> None \<or> dict_get (db_registrations db) key = None
     then Inl Integrity_Error else Inr (db\<lparr>db_sessions := AList.update key row (db_sessions db)\<rparr>))"

definition insert_event :: "event_row \<Rightarrow> review_db \<Rightarrow> store_error + review_db" where
  "insert_event row db =
    (if list_ex (\<lambda>e. et_key e = et_key row \<and> et_sequence e = et_sequence row) (db_events db)
        \<or> dict_get (db_sessions db) (et_key row) = None
        \<or> list_ex (\<lambda>e. et_invocation row \<noteq> None \<and> et_invocation e = et_invocation row) (db_events db)
        \<or> list_ex (\<lambda>e. et_provider row \<noteq> None \<and> et_execution row \<noteq> None
             \<and> et_provider e = et_provider row \<and> et_execution e = et_execution row) (db_events db)
     then Inl Integrity_Error
     else if 2 ^ 31 \<le> et_sequence row then Inl Database_Error
     else Inr (db\<lparr>db_events := db_events db @ [row]\<rparr>))"

definition update_budget ::
  "string \<times> string \<Rightarrow> (counter \<Rightarrow> int) \<Rightarrow> review_db \<Rightarrow> store_error + review_db" where
  "update_budget key values db =
    (if \<not> list_all (\<lambda>c. big_integer (values c)) counter_columns then Inl Database_Error
     else case dict_get (db_budgets db) key of
       None \<Rightarrow> Inr db
     | Some row \<Rightarrow> Inr (db\<lparr>db_budgets := AList.update key (row\<lparr>bg_counters := values\<rparr>) (db_budgets db)\<rparr>))"

definition update_session :: "unit_key \<Rightarrow> session_row \<Rightarrow> review_db \<Rightarrow> store_error + review_db" where
  "update_session key row db =
    (if dict_get (db_sessions db) key = None then Inr db
     else if 2 ^ 31 \<le> sn_sequence row then Inl Database_Error
     else Inr (db\<lparr>db_sessions := AList.update key row (db_sessions db)\<rparr>))"

subsection \<open>Provisioning\<close>

definition work_item_budget :: "string \<Rightarrow> review_db \<Rightarrow> string \<Rightarrow> string \<Rightarrow> budget_row option" where
  "work_item_budget setting db tenant work_item =
    map_option snd (find (\<lambda>(k, r). tenant_scope setting (fst k) \<and> fst k = tenant \<and> bg_work_item r = work_item)
      (db_budgets db))"

definition provision :: "'a store_codec_scheme \<Rightarrow> parent_budget \<Rightarrow> review_db \<Rightarrow> store_error + review_db" where
  "provision px parent db =
    (if \<not> valid_parent px parent then Inl (Rejected Invalid)
     else on_integrity (case work_item_budget (par_tenant parent) db (par_tenant parent) (par_work_item parent) of
       Some old \<Rightarrow>
         (case decode_parent px (bg_limits old) of
            None \<Rightarrow> Inl (Rejected Invalid)
          | Some p \<Rightarrow> if \<not> valid_parent px p then Inl (Rejected Invalid)
                      else if p \<noteq> parent then Inl Denied else Inr db)
     | None \<Rightarrow>
         insert_budget (par_tenant parent, par_id parent)
           \<lparr>bg_work_item = par_work_item parent, bg_limits = encode_parent px parent, bg_counters = (\<lambda>_. 0)\<rparr> db))"

definition parent_row :: "string \<Rightarrow> review_db \<Rightarrow> review_scope \<Rightarrow> string \<Rightarrow> budget_row option" where
  "parent_row setting db scope budget_id =
    (case fetch setting (db_budgets db) (scope_tenant_id scope, budget_id) of
       None \<Rightarrow> None
     | Some row \<Rightarrow> if bg_work_item row = scope_work_item_id scope then Some row else None)"

definition register :: "'a store_codec_scheme \<Rightarrow> review_seed \<Rightarrow> string \<Rightarrow> review_db \<Rightarrow> store_error + review_db" where
  "register px seed parent_budget_id db =
    (if \<not> valid_seed px seed then Inl (Rejected Invalid)
     else ebind (lift_review (validate_seed seed)) (\<lambda>_.
     let scope = seed_scope seed; tenant = scope_tenant_id scope in
     on_integrity (case parent_row tenant db scope parent_budget_id of
       None \<Rightarrow> Inl Denied
     | Some _ \<Rightarrow>
         (case fetch tenant (db_registrations db) (scope_key scope) of
            Some old \<Rightarrow>
              if rg_seed old \<noteq> content_digest seed \<or> rg_budget old \<noteq> parent_budget_id then Inl Denied else Inr db
          | None \<Rightarrow> insert_registration (scope_key scope)
              \<lparr>rg_budget = parent_budget_id, rg_seed = content_digest seed\<rparr> db))))"

subsection \<open>The worker's operations\<close>

definition max_session_bytes :: nat where
  "max_session_bytes = 4 * 1024 * 1024"

definition open_store :: "string \<Rightarrow> review_store_grant \<Rightarrow> store_error + review_store_grant" where
  "open_store dialect gr =
    (if dialect \<noteq> ''postgresql'' then Inl (Rejected Invalid)
     else if \<not> valid_grant gr then Inl (Rejected Invalid) else Inr gr)"

definition unsafe_role :: "worker_role \<Rightarrow> bool" where
  "unsafe_role r \<longleftrightarrow> role_super r \<or> role_bypass_rls r \<or> role_create_role r \<or> role_create_db r"

definition unsafe_tables :: "worker_role \<Rightarrow> bool" where
  "unsafe_tables r \<longleftrightarrow> role_owns_tables r \<or> role_update_limits r \<or> role_insert_registration r
    \<or> role_update_event r \<or> role_delete_event r \<or> role_truncate_event r"

text \<open>The tenant the transaction sets, or the exception that keeps it from starting.\<close>

definition transaction ::
  "worker_role \<Rightarrow> review_store_grant \<Rightarrow> review_scope option \<Rightarrow> store_error + string" where
  "transaction role gr scope =
    ebind (require_all
      [(\<forall>s \<in> set_option scope. scope_tenant_id s = grant_tenant gr, Denied),
       (\<not> unsafe_role role, Denied), (\<not> unsafe_tables role, Denied)]) (\<lambda>_. Inr (grant_tenant gr))"

definition registration :: "string \<Rightarrow> review_db \<Rightarrow> review_scope \<Rightarrow> store_error + registration_row" where
  "registration tenant db scope =
    (case fetch tenant (db_registrations db) (scope_key scope) of None \<Rightarrow> Inl Denied | Some row \<Rightarrow> Inr row)"

definition decode_document :: "'a store_codec_scheme \<Rightarrow> string \<Rightarrow> store_error + review_session" where
  "decode_document px doc =
    (case decode_session px doc of
       None \<Rightarrow> Inl (Rejected Invalid)
     | Some ses \<Rightarrow> lift_review (validate_session px ses))"

definition decode_row :: "'a store_codec_scheme \<Rightarrow> session_row \<Rightarrow> store_error + review_session" where
  "decode_row px row =
    (if sn_version row \<noteq> 1 \<or> max_session_bytes < length (utf8 (sn_document row)) then Inl Denied
     else ebind (decode_document px (sn_document row)) (\<lambda>result.
       if content_digest result \<noteq> sn_digest row then Inl Denied else Inr result))"

definition check_tip :: "string \<Rightarrow> review_db \<Rightarrow> review_scope \<Rightarrow> session_row option \<Rightarrow> store_error + unit" where
  "check_tip tenant db scope row =
    (let evs = unit_events tenant db (scope_key scope); tip = (if evs = [] then None else Some (last evs)) in
     case (row, tip) of
       (None, None) \<Rightarrow> Inr ()
     | (Some r, Some e) \<Rightarrow>
         if sn_sequence r \<noteq> et_sequence e \<or> sn_digest r \<noteq> et_after e \<or> sn_document r \<noteq> et_document e
         then Inl Denied else Inr ()
     | _ \<Rightarrow> Inl Denied)"

definition load_current ::
  "'a store_codec_scheme \<Rightarrow> worker_role \<Rightarrow> review_store_grant \<Rightarrow> review_scope \<Rightarrow> review_db \<Rightarrow>
    store_error + review_session option" where
  "load_current px role gr scope db =
    (if \<not> valid_scope scope then Inl (Rejected Invalid)
     else ebind (transaction role gr (Some scope)) (\<lambda>tenant.
     ebind (registration tenant db scope) (\<lambda>reg.
     if fetch tenant (db_budgets db) (scope_tenant_id scope, rg_budget reg) = None then Inl Database_Error
     else let row = fetch tenant (db_sessions db) (scope_key scope) in
     ebind (check_tip tenant db scope row) (\<lambda>_.
     case row of
       None \<Rightarrow> Inr None
     | Some r \<Rightarrow>
         ebind (decode_row px r) (\<lambda>result.
           if seed_scope (ses_seed result) \<noteq> scope \<or> content_digest (ses_seed result) \<noteq> rg_seed reg
           then Inl Denied else Inr (Some result))))))"

definition usage_of :: "(counter \<Rightarrow> int) \<Rightarrow> parent_usage" where
  "usage_of v = seal parent_usage_fields
    \<lparr>content_digest = [], pu_invocations = nat (v Invocations), pu_repairs = nat (v Repairs),
     pu_tokens_spent = nat (v Tokens_Spent), pu_cost_spent = nat (v Cost_Spent),
     pu_tokens_reserved = nat (v Tokens_Reserved), pu_cost_reserved = nat (v Cost_Reserved)\<rparr>"

definition store_usage ::
  "worker_role \<Rightarrow> review_store_grant \<Rightarrow> string \<Rightarrow> review_db \<Rightarrow> store_error + parent_usage" where
  "store_usage role gr parent_budget_id db =
    ebind (transaction role gr None) (\<lambda>tenant.
    case fetch tenant (db_budgets db) (grant_tenant gr, parent_budget_id) of
      None \<Rightarrow> Inl Denied
    | Some row \<Rightarrow>
        if list_ex (\<lambda>c. bg_counters row c < 0) counter_columns then Inl (Rejected Invalid)
        else Inr (usage_of (bg_counters row)))"

fun history_chain ::
  "'a store_codec_scheme \<Rightarrow> review_session option \<Rightarrow> nat \<Rightarrow> event_row list \<Rightarrow> store_error + review_session list" where
  "history_chain px previous n [] = Inr []"
| "history_chain px previous n (row # rows) =
    ebind (decode_document px (et_document row)) (\<lambda>item.
    if et_sequence row \<noteq> n + 1 \<or> et_after row \<noteq> content_digest item
       \<or> et_before row \<noteq> map_option content_digest previous then Inl Denied
    else ebind (lift_review (validate_extension px previous item)) (\<lambda>kind.
    if et_kind row \<noteq> kind then Inl Denied
    else ebind (history_chain px (Some item) (n + 1) rows) (\<lambda>items. Inr (item # items))))"

definition history ::
  "'a store_codec_scheme \<Rightarrow> worker_role \<Rightarrow> review_store_grant \<Rightarrow> review_scope \<Rightarrow> review_db \<Rightarrow>
    store_error + review_session list" where
  "history px role gr scope db =
    ebind (transaction role gr (Some scope)) (\<lambda>tenant.
    ebind (registration tenant db scope) (\<lambda>_.
    history_chain px None 0 (unit_events tenant db (scope_key scope))))"

definition counter_values ::
  "budget_row \<Rightarrow> review_session option \<Rightarrow> review_session \<Rightarrow> counter \<Rightarrow> int" where
  "counter_values parent current updated c =
    (let old = (case current of None \<Rightarrow> fresh_budget | Some s \<Rightarrow> st_budget (ses_state s)) in
     bg_counters parent c + int (budget_counter (st_budget (ses_state updated)) c)
       - int (budget_counter old c))"

definition reservation_deadline :: "invocation \<Rightarrow> moment" where
  "reservation_deadline ivn = inv_started_at ivn + int (res_seconds (inv_reservation ivn)) * 1000000"

definition reserve_limits ::
  "parent_budget \<Rightarrow> moment \<Rightarrow> invocation \<Rightarrow> (counter \<Rightarrow> int) \<Rightarrow> store_error + unit" where
  "reserve_limits limits now ivn values =
    (let deadline = reservation_deadline ivn in
     require_all
       [(deadline < dt_limit, Overflow_Error),
        (inv_started_at ivn \<le> now \<and> now < deadline \<and> deadline \<le> par_expires_at limits, Denied),
        (now < par_expires_at limits \<and> values Invocations \<le> int (par_max_invocations limits)
         \<and> values Repairs \<le> int (par_max_repairs limits)
         \<and> values Tokens_Spent + values Tokens_Reserved \<le> int (par_max_tokens limits)
         \<and> values Cost_Spent + values Cost_Reserved \<le> int (par_max_cost limits), Denied)])"

definition next_counters ::
  "'a store_codec_scheme \<Rightarrow> moment \<Rightarrow> budget_row \<Rightarrow> review_session option \<Rightarrow> review_session \<Rightarrow>
    transition_kind \<Rightarrow> store_error + (counter \<Rightarrow> int)" where
  "next_counters px now parent current updated kind =
    (let values = counter_values parent current updated in
     if list_ex (\<lambda>c. values c < 0) counter_columns then Inl Denied
     else if kind = RESERVE then
       (case decode_parent px (bg_limits parent) of
          None \<Rightarrow> Inl (Rejected Invalid)
        | Some limits \<Rightarrow>
            if \<not> valid_parent px limits then Inl (Rejected Invalid)
            else case st_pending (ses_state updated) of
              None \<Rightarrow> Inl Assertion_Error
            | Some ivn \<Rightarrow> ebind (reserve_limits limits now ivn values) (\<lambda>_. Inr values))
     else Inr values)"

definition event_identity ::
  "review_session \<Rightarrow> transition_kind \<Rightarrow> store_error + (string option \<times> string option \<times> string option)" where
  "event_identity updated kind =
    (let attempt = last (ses_attempts updated) in
     case kind of
       RESERVE \<Rightarrow> Inr (Some (inv_id (att_invocation attempt)), None, None)
     | COMPLETE \<Rightarrow>
         (case att_completion attempt of
            None \<Rightarrow> Inl Assertion_Error
          | Some c \<Rightarrow>
              (case cmp_receipt c of
                 None \<Rightarrow> Inr (None, None, None)
               | Some r \<Rightarrow> Inr (None, Some (mid_provider (rcp_model r)), Some (rcp_execution r))))
     | _ \<Rightarrow> Inr (None, None, None))"

definition append_event ::
  "'a store_codec_scheme \<Rightarrow> review_store_grant \<Rightarrow> review_session \<Rightarrow> review_session option \<Rightarrow>
    transition_kind \<Rightarrow> nat \<Rightarrow> review_db \<Rightarrow> store_error + review_db" where
  "append_event px gr updated current kind sequence db =
    ebind (event_identity updated kind) (\<lambda>(invocation_id, provider, execution_id).
    insert_event
      \<lparr>et_key = scope_key (seed_scope (ses_seed updated)), et_sequence = sequence, et_kind = kind,
       et_subject = grant_subject gr, et_before = map_option content_digest current,
       et_after = content_digest updated, et_document = encode_session px updated,
       et_invocation = invocation_id, et_provider = provider, et_execution = execution_id\<rparr> db)"

definition write_transition ::
  "'a store_codec_scheme \<Rightarrow> review_store_grant \<Rightarrow> moment \<Rightarrow> review_scope \<Rightarrow> string \<Rightarrow> budget_row \<Rightarrow>
    session_row option \<Rightarrow> review_session option \<Rightarrow> review_session \<Rightarrow> transition_kind \<Rightarrow> review_db \<Rightarrow>
    store_error + review_db" where
  "write_transition px gr now scope parent_budget_id parent row current updated kind db =
    ebind (next_counters px now parent current updated kind) (\<lambda>values.
    ebind (update_budget (scope_tenant_id scope, parent_budget_id) values db) (\<lambda>db1.
    let sequence = (case row of None \<Rightarrow> 1 | Some r \<Rightarrow> sn_sequence r + 1);
        written = \<lparr>sn_document = encode_session px updated, sn_digest = content_digest updated,
                   sn_sequence = sequence, sn_version = 1\<rparr> in
    ebind (if row = None then insert_session (scope_key scope) written db1
           else update_session (scope_key scope) written db1) (\<lambda>db2.
    append_event px gr updated current kind sequence db2)))"

definition compare_and_reserve ::
  "'a store_codec_scheme \<Rightarrow> worker_role \<Rightarrow> review_store_grant \<Rightarrow> moment \<Rightarrow> review_scope \<Rightarrow> string option \<Rightarrow>
    review_session \<Rightarrow> string \<Rightarrow> review_db \<Rightarrow> store_error + (bool \<times> review_db)" where
  "compare_and_reserve px role gr now scope expected_digest proposed parent_budget_id db =
    (if \<not> valid_scope scope then Inl (Rejected Invalid)
     else ebind (lift_review (validate_session px proposed)) (\<lambda>updated.
     if seed_scope (ses_seed updated) \<noteq> scope then Inl Denied
     else let size = length (utf8 (encode_session px updated)) in
     if max_session_bytes < size then Inl Denied
     else on_integrity (
     ebind (transaction role gr (Some scope)) (\<lambda>tenant.
     ebind (registration tenant db scope) (\<lambda>reg.
     if rg_budget reg \<noteq> parent_budget_id \<or> rg_seed reg \<noteq> content_digest (ses_seed updated) then Inl Denied
     else case parent_row tenant db scope parent_budget_id of
       None \<Rightarrow> Inl Database_Error
     | Some parent \<Rightarrow>
         let row = fetch tenant (db_sessions db) (scope_key scope) in
         ebind (check_tip tenant db scope row) (\<lambda>_.
         ebind (case row of None \<Rightarrow> Inr None | Some r \<Rightarrow> ebind (decode_row px r) (\<lambda>s. Inr (Some s))) (\<lambda>current.
         if current = Some updated then Inr (False, db)
         else if expected_digest \<noteq> map_option content_digest current then Inr (False, db)
         else ebind (lift_review (validate_extension px current updated)) (\<lambda>kind.
         if kind \<in> {CREATE, RESERVE} \<and> max_session_bytes div 2 < size then Inl Denied
         else ebind (write_transition px gr now scope parent_budget_id parent row current updated kind db)
           (\<lambda>db'. Inr (True, db'))))))))))"

end
