(* ===== verification/Review_Store_Inv.thy ===== *)
theory Review_Store_Inv
  imports Review_Store
begin

text \<open>
  What holds of every database that the store's operations reach from the empty one: keys are unique,
  every registration has its parent budget and every session its registration, every stored document is a
  session that replays, the events of a unit are the chain of its sessions ending in the stored
  snapshot, the counters of a parent budget are the sums over the sessions of its work item, and the
  counted resources stay within the parent's ceilings.

  \<open>store_step\<close> is one committed transaction of the administrator or of any worker. What is assumed of
  Pydantic is that a document or budget that is written reads back as the value written.
\<close>

definition empty_db :: review_db where
  "empty_db = \<lparr>db_budgets = [], db_registrations = [], db_sessions = [], db_events = []\<rparr>"

definition round_trips :: "'a store_codec_scheme \<Rightarrow> review_session \<Rightarrow> bool" where
  "round_trips px ses \<longleftrightarrow> decode_session px (encode_session px ses) = Some ses"

definition parent_round_trips :: "'a store_codec_scheme \<Rightarrow> parent_budget \<Rightarrow> bool" where
  "parent_round_trips px p \<longleftrightarrow> decode_parent px (encode_parent px p) = Some p"

inductive store_step :: "'a store_codec_scheme \<Rightarrow> review_db \<Rightarrow> review_db \<Rightarrow> bool"
  for px :: "'a store_codec_scheme" where
  step_provision: "provision px parent db = Inr db' \<Longrightarrow> parent_round_trips px parent \<Longrightarrow> store_step px db db'"
| step_register: "register px seed parent_budget_id db = Inr db' \<Longrightarrow> store_step px db db'"
| step_commit: "compare_and_reserve px role gr now scope expected proposed parent_budget_id db = Inr (won, db')
    \<Longrightarrow> round_trips px proposed \<Longrightarrow> store_step px db db'"

definition session_counter :: "'a store_codec_scheme \<Rightarrow> session_row \<Rightarrow> counter \<Rightarrow> int" where
  "session_counter px r c =
    (case decode_row px r of Inl _ \<Rightarrow> 0 | Inr s \<Rightarrow> int (budget_counter (st_budget (ses_state s)) c))"

definition work_item_usage :: "'a store_codec_scheme \<Rightarrow> review_db \<Rightarrow> string \<Rightarrow> string \<Rightarrow> counter \<Rightarrow> int" where
  "work_item_usage px db tenant work_item c =
    table_sum (\<lambda>k r. if fst k = tenant \<and> fst (snd k) = work_item then session_counter px r c else 0)
      (db_sessions db)"

definition events_of :: "review_db \<Rightarrow> unit_key \<Rightarrow> event_row list" where
  "events_of db key = filter (\<lambda>e. et_key e = key) (db_events db)"

definition keys_ok :: "review_db \<Rightarrow> bool" where
  "keys_ok db \<longleftrightarrow> distinct (map fst (db_budgets db)) \<and> distinct (map fst (db_registrations db))
    \<and> distinct (map fst (db_sessions db))
    \<and> (\<forall>j b k b'. dict_get (db_budgets db) j = Some b \<longrightarrow> dict_get (db_budgets db) k = Some b' \<longrightarrow>
         fst j = fst k \<longrightarrow> bg_work_item b = bg_work_item b' \<longrightarrow> j = k)"

definition budgets_ok :: "'a store_codec_scheme \<Rightarrow> review_db \<Rightarrow> bool" where
  "budgets_ok px db \<longleftrightarrow> (\<forall>k b. dict_get (db_budgets db) k = Some b \<longrightarrow>
    (\<exists>p. decode_parent px (bg_limits b) = Some p \<and> valid_parent px p \<and> (par_tenant p, par_id p) = k
       \<and> par_work_item p = bg_work_item b
       \<and> bg_counters b Invocations \<le> int (par_max_invocations p)
       \<and> bg_counters b Repairs \<le> int (par_max_repairs p)))"

definition registrations_ok :: "review_db \<Rightarrow> bool" where
  "registrations_ok db \<longleftrightarrow> (\<forall>k g. dict_get (db_registrations db) k = Some g \<longrightarrow>
    (\<exists>b. dict_get (db_budgets db) (fst k, rg_budget g) = Some b \<and> bg_work_item b = fst (snd k)))"

definition sessions_ok :: "'a store_codec_scheme \<Rightarrow> review_db \<Rightarrow> bool" where
  "sessions_ok px db \<longleftrightarrow> (\<forall>k r. dict_get (db_sessions db) k = Some r \<longrightarrow>
    (\<exists>g s. dict_get (db_registrations db) k = Some g \<and> decode_row px r = Inr s
       \<and> scope_key (seed_scope (ses_seed s)) = k \<and> content_digest (ses_seed s) = rg_seed g))"

definition ledger_ok :: "'a store_codec_scheme \<Rightarrow> review_db \<Rightarrow> bool" where
  "ledger_ok px db \<longleftrightarrow> (\<forall>k. case dict_get (db_sessions db) k of
      None \<Rightarrow> events_of db k = []
    | Some r \<Rightarrow> (\<exists>items s. history_chain px None 0 (events_of db k) = Inr items \<and> items \<noteq> []
        \<and> decode_row px r = Inr s \<and> last items = s
        \<and> sn_sequence r = et_sequence (last (events_of db k)) \<and> sn_digest r = et_after (last (events_of db k))
        \<and> sn_document r = et_document (last (events_of db k))))"

definition accounts_ok :: "'a store_codec_scheme \<Rightarrow> review_db \<Rightarrow> bool" where
  "accounts_ok px db \<longleftrightarrow> (\<forall>k b c. dict_get (db_budgets db) k = Some b \<longrightarrow>
    bg_counters b c = work_item_usage px db (fst k) (bg_work_item b) c)"

definition executions :: "review_db \<Rightarrow> (string option \<times> string option) list" where
  "executions db = map (\<lambda>e. (et_provider e, et_execution e))
    (filter (\<lambda>e. et_provider e \<noteq> None \<and> et_execution e \<noteq> None) (db_events db))"

definition dispatches :: "review_db \<Rightarrow> string option list" where
  "dispatches db = filter (\<lambda>i. i \<noteq> None) (map et_invocation (db_events db))"

definition store_inv :: "'a store_codec_scheme \<Rightarrow> review_db \<Rightarrow> bool" where
  "store_inv px db \<longleftrightarrow> keys_ok db \<and> budgets_ok px db \<and> registrations_ok db \<and> sessions_ok px db
    \<and> ledger_ok px db \<and> accounts_ok px db \<and> distinct (executions db) \<and> distinct (dispatches db)"

lemmas store_inv_parts = keys_ok_def budgets_ok_def registrations_ok_def sessions_ok_def ledger_ok_def
  accounts_ok_def

declare split_paired_All [simp del] split_paired_Ex [simp del] split_paired_all [simp del]

lemma empty_inv: "store_inv px empty_db"
  by (simp add: store_inv_def store_inv_parts empty_db_def dict_get_def events_of_def executions_def
      dispatches_def)

subsection \<open>Reading the operations\<close>

lemma lift_review_Inr [simp]: "lift_review m = Inr x \<longleftrightarrow> m = Inr x"
  by (auto simp: lift_review_def split: sum.splits)

lemma on_integrity_Inr [simp]: "on_integrity m = Inr x \<longleftrightarrow> m = Inr x"
  by (auto simp: on_integrity_def split: sum.splits store_error.splits)

lemma decode_row_iff:
  "decode_row px r = Inr s \<longleftrightarrow> sn_version r = 1 \<and> length (utf8 (sn_document r)) \<le> max_session_bytes
    \<and> decode_session px (sn_document r) = Some s \<and> validate_session px s = Inr s \<and> content_digest s = sn_digest r"
  by (auto simp: decode_row_def decode_document_def validate_session_iff ebind_eq_Inr
      split: option.splits if_splits)

lemma valid_scope_nonempty: "valid_scope s \<Longrightarrow> scope_tenant_id s \<noteq> []"
  by (auto simp: valid_scope_def identifier_ok_def)

lemma transaction_iff:
  "transaction role gr scope = Inr t \<longleftrightarrow> t = grant_tenant gr \<and> \<not> unsafe_role role \<and> \<not> unsafe_tables role
    \<and> (\<forall>s. scope = Some s \<longrightarrow> scope_tenant_id s = grant_tenant gr)"
  by (auto simp: transaction_def ebind_eq_Inr)

lemma fetch_own [simp]: "t \<noteq> [] \<Longrightarrow> fetch t d (t, k) = dict_get d (t, k)"
  by (simp add: fetch_def tenant_scope_def)

lemma history_chain_sequences:
  "history_chain px p n evs = Inr items \<Longrightarrow> map et_sequence evs = [n + 1..<n + 1 + length evs] \<and>
    length items = length evs"
  by (induction px p n evs arbitrary: items rule: history_chain.induct)
    (auto simp: upt_conv_Cons simp del: upt_Suc split: if_splits)

lemma unit_events_own:
  assumes "history_chain px None 0 (events_of db (t, k)) = Inr items" and "t \<noteq> []"
  shows "unit_events t db (t, k) = events_of db (t, k)"
proof -
  have "filter (\<lambda>e. tenant_scope t (fst (et_key e)) \<and> et_key e = (t, k)) (db_events db) = events_of db (t, k)"
    unfolding events_of_def using assms(2) by (intro filter_cong) (auto simp: tenant_scope_def)
  moreover have "sorted (map et_sequence (events_of db (t, k)))"
    using history_chain_sequences [OF assms(1)] by (metis sorted_upt)
  ultimately show ?thesis by (simp add: unit_events_def sort_key_sorted)
qed

lemma event_identity_cases:
  assumes "event_identity upd kind = Inr (i, p, x)"
  shows "(p = None) = (x = None)" and "kind = CREATE \<Longrightarrow> i = None \<and> p = None"
    and "kind = RESERVE \<Longrightarrow> i = Some (inv_id (att_invocation (last (ses_attempts upd))))"
  using assms by (auto simp: event_identity_def Let_def split: transition_kind.splits option.splits)

definition written_row :: "'a store_codec_scheme \<Rightarrow> review_session \<Rightarrow> nat \<Rightarrow> session_row" where
  "written_row px upd n = \<lparr>sn_document = encode_session px upd, sn_digest = content_digest upd,
    sn_sequence = n, sn_version = 1\<rparr>"

definition written_event ::
  "'a store_codec_scheme \<Rightarrow> review_store_grant \<Rightarrow> review_session option \<Rightarrow> review_session \<Rightarrow> transition_kind \<Rightarrow> nat \<Rightarrow>
    string option \<times> string option \<times> string option \<Rightarrow> event_row" where
  "written_event px gr current upd kind n ids =
    \<lparr>et_key = scope_key (seed_scope (ses_seed upd)), et_sequence = n, et_kind = kind,
     et_subject = grant_subject gr, et_before = map_option content_digest current,
     et_after = content_digest upd, et_document = encode_session px upd,
     et_invocation = fst ids, et_provider = fst (snd ids), et_execution = snd (snd ids)\<rparr>"

definition next_sequence :: "session_row option \<Rightarrow> nat" where
  "next_sequence row = (case row of None \<Rightarrow> 1 | Some r \<Rightarrow> sn_sequence r + 1)"

lemma write_transition_cases:
  assumes "write_transition px gr now scope pid parent (dict_get (db_sessions db) (scope_key scope)) current upd kind db = Inr db'"
    and "seed_scope (ses_seed upd) = scope" and "dict_get (db_budgets db) (scope_tenant_id scope, pid) = Some parent"
  obtains vals ids where "next_counters px now parent current upd kind = Inr vals"
    "event_identity upd kind = Inr ids"
    "db' = db\<lparr>db_budgets := AList.update (scope_tenant_id scope, pid) (parent\<lparr>bg_counters := vals\<rparr>) (db_budgets db),
       db_sessions := AList.update (scope_key scope)
         (written_row px upd (next_sequence (dict_get (db_sessions db) (scope_key scope)))) (db_sessions db),
       db_events := db_events db @ [written_event px gr current upd kind
         (next_sequence (dict_get (db_sessions db) (scope_key scope))) ids]\<rparr>"
    "\<And>e. e \<in> set (db_events db) \<Longrightarrow> fst ids \<noteq> None \<Longrightarrow> et_invocation e \<noteq> fst ids"
    "\<And>e. e \<in> set (db_events db) \<Longrightarrow> fst (snd ids) \<noteq> None \<Longrightarrow> snd (snd ids) \<noteq> None \<Longrightarrow>
      (et_provider e, et_execution e) \<noteq> snd ids"
proof -
  let ?row = "dict_get (db_sessions db) (scope_key scope)"
  let ?w = "written_row px upd (next_sequence ?row)"
  from assms(1) obtain vals db1 db2 ids where
    v: "next_counters px now parent current upd kind = Inr vals"
    and b: "update_budget (scope_tenant_id scope, pid) vals db = Inr db1"
    and s: "(if ?row = None then insert_session (scope_key scope) ?w db1
             else update_session (scope_key scope) ?w db1) = Inr db2"
    and i: "event_identity upd kind = Inr ids"
    and e: "insert_event (written_event px gr current upd kind (next_sequence ?row) ids) db2 = Inr db'"
    by (auto simp: write_transition_def append_event_def Let_def written_row_def written_event_def
        next_sequence_def ebind_eq_Inr assms(2) split: option.splits)
  have db1: "db1 = db\<lparr>db_budgets := AList.update (scope_tenant_id scope, pid) (parent\<lparr>bg_counters := vals\<rparr>) (db_budgets db)\<rparr>"
    using b assms(3) by (auto simp: update_budget_def split: if_splits)
  have db2: "db2 = db1\<lparr>db_sessions := AList.update (scope_key scope) ?w (db_sessions db)\<rparr>"
    using s db1 by (auto simp: insert_session_def update_session_def split: if_splits)
  have "db' = db2\<lparr>db_events := db_events db @ [written_event px gr current upd kind (next_sequence ?row) ids]\<rparr>"
    and n: "\<And>e. e \<in> set (db_events db) \<Longrightarrow> fst ids \<noteq> None \<Longrightarrow> et_invocation e \<noteq> fst ids"
    "\<And>e. e \<in> set (db_events db) \<Longrightarrow> fst (snd ids) \<noteq> None \<Longrightarrow> snd (snd ids) \<noteq> None \<Longrightarrow>
      (et_provider e, et_execution e) \<noteq> snd ids"
    using e db1 db2 by (auto simp: insert_event_def written_event_def list_ex_iff prod_eq_iff split: if_splits)
  with v i db1 db2 show thesis by (intro that) auto
qed

definition commit_context ::
  "'a store_codec_scheme \<Rightarrow> review_store_grant \<Rightarrow> review_scope \<Rightarrow> review_session \<Rightarrow> string \<Rightarrow> review_db \<Rightarrow>
    registration_row \<Rightarrow> budget_row \<Rightarrow> review_session option \<Rightarrow> bool" where
  "commit_context px gr scope upd pid db reg parent current \<longleftrightarrow>
    valid_scope scope \<and> scope_tenant_id scope = grant_tenant gr \<and> validate_session px upd = Inr upd
    \<and> seed_scope (ses_seed upd) = scope \<and> length (utf8 (encode_session px upd)) \<le> max_session_bytes
    \<and> dict_get (db_registrations db) (scope_key scope) = Some reg \<and> rg_budget reg = pid
    \<and> rg_seed reg = content_digest (ses_seed upd)
    \<and> dict_get (db_budgets db) (scope_tenant_id scope, pid) = Some parent
    \<and> bg_work_item parent = scope_work_item_id scope
    \<and> check_tip (scope_tenant_id scope) db scope (dict_get (db_sessions db) (scope_key scope)) = Inr ()
    \<and> (case dict_get (db_sessions db) (scope_key scope) of None \<Rightarrow> current = None
       | Some r \<Rightarrow> (\<exists>s. current = Some s \<and> decode_row px r = Inr s))"

lemma fetch_scope [simp]:
  "valid_scope scope \<Longrightarrow> scope_tenant_id scope = t \<Longrightarrow> fetch t d (scope_key scope) = dict_get d (scope_key scope)"
  using valid_scope_nonempty by (fastforce simp: scope_key_def)

lemma commit_cases:
  assumes "compare_and_reserve px role gr now scope expected upd pid db = Inr (won, db')"
  obtains (kept) reg parent current where "\<not> won" "db' = db" "commit_context px gr scope upd pid db reg parent current"
      "current = Some upd \<or> expected \<noteq> map_option content_digest current"
  | (written) reg parent current kind where "won" "commit_context px gr scope upd pid db reg parent current"
      "current \<noteq> Some upd" "expected = map_option content_digest current"
      "validate_extension px current upd = Inr kind"
      "write_transition px gr now scope pid parent (dict_get (db_sessions db) (scope_key scope)) current upd kind db = Inr db'"
proof -
  from assms have v: "valid_scope scope" "validate_session px upd = Inr upd" "seed_scope (ses_seed upd) = scope"
    "length (utf8 (encode_session px upd)) \<le> max_session_bytes"
    by (auto simp: compare_and_reserve_def validate_session_iff Let_def split: if_splits)
  obtain reg parent current where c: "commit_context px gr scope upd pid db reg parent current"
    and rest: "(if current = Some upd then Inr (False, db)
         else if expected \<noteq> map_option content_digest current then Inr (False, db)
         else ebind (lift_review (validate_extension px current upd)) (\<lambda>kind.
         if kind \<in> {CREATE, RESERVE} \<and> max_session_bytes div 2 < length (utf8 (encode_session px upd)) then Inl Denied
         else ebind (write_transition px gr now scope pid parent
             (dict_get (db_sessions db) (scope_key scope)) current upd kind db)
           (\<lambda>db'. Inr (True, db')))) = Inr (won, db')"
  proof -
    from assms v obtain reg where t: "scope_tenant_id scope = grant_tenant gr"
      and reg: "dict_get (db_registrations db) (scope_key scope) = Some reg" "rg_budget reg = pid"
        "rg_seed reg = content_digest (ses_seed upd)"
      by (auto simp: compare_and_reserve_def Let_def transaction_iff registration_def split: if_splits option.splits)
    have ne: "grant_tenant gr \<noteq> []" using valid_scope_nonempty [OF v(1)] t by simp
    from assms v t reg ne obtain parent current where
      "dict_get (db_budgets db) (scope_tenant_id scope, pid) = Some parent"
      "bg_work_item parent = scope_work_item_id scope"
      "check_tip (scope_tenant_id scope) db scope (dict_get (db_sessions db) (scope_key scope)) = Inr ()"
      "(case dict_get (db_sessions db) (scope_key scope) of None \<Rightarrow> Inr None
        | Some r \<Rightarrow> ebind (decode_row px r) (\<lambda>s. Inr (Some s))) = Inr current"
      "(if current = Some upd then Inr (False, db)
         else if expected \<noteq> map_option content_digest current then Inr (False, db)
         else ebind (lift_review (validate_extension px current upd)) (\<lambda>kind.
         if kind \<in> {CREATE, RESERVE} \<and> max_session_bytes div 2 < length (utf8 (encode_session px upd)) then Inl Denied
         else ebind (write_transition px gr now scope pid parent
             (dict_get (db_sessions db) (scope_key scope)) current upd kind db)
           (\<lambda>db'. Inr (True, db')))) = Inr (won, db')"
      by (fastforce simp: compare_and_reserve_def Let_def transaction_iff registration_def parent_row_def ebind_eq_Inr
          simp del: insert_iff split: if_splits option.splits)
    with v t reg show thesis
      by (intro that) (auto simp: commit_context_def ebind_eq_Inr split: option.splits)
  qed
  show thesis
  proof (cases "current = Some upd \<or> expected \<noteq> map_option content_digest current")
    case True
    with rest c show thesis by (intro kept) (auto split: if_splits)
  next
    case False
    with rest c show thesis by (auto intro!: written split: if_splits)
  qed
qed

subsection \<open>What a committed transition changes\<close>

lemma extension_kinds:
  assumes "validate_extension px current upd = Inr kind" and "current \<noteq> Some upd"
  obtains (create) "kind = CREATE" "current = None" "ses_attempts upd = []" "st_budget (ses_state upd) = fresh_budget"
  | (extend) cur where "current = Some cur" "session_step px cur kind upd"
proof (cases current)
  case None
  with assms have *: "kind = CREATE" "ses_attempts upd = []" "validate_session px upd = Inr upd"
    by (auto simp: validate_extension_def validate_session_iff split: if_splits)
  then have "initial_state px (ses_seed upd) = Inr (ses_state upd)"
    by (simp add: validate_session_iff)
  from initial_cases(4) [OF this] * None show thesis by (intro create)
next
  case (Some cur)
  with assms extension_sound [of px cur upd kind] show thesis by (intro extend) auto
qed

lemma complete_counts:
  assumes "complete px seed st c = Inr st'"
  shows "bud_invocations (st_budget st') = bud_invocations (st_budget st)"
    and "bud_repairs (st_budget st') = bud_repairs (st_budget st)"
  using assms by (cases rule: complete_cases; auto elim!: settles.cases simp: account_def Let_def split: prod.splits)+

lemma settlement_counts:
  assumes "session_step px cur COMPLETE upd"
  shows "budget_counter (st_budget (ses_state upd)) Invocations = budget_counter (st_budget (ses_state cur)) Invocations"
    and "budget_counter (st_budget (ses_state upd)) Repairs = budget_counter (st_budget (ses_state cur)) Repairs"
  using assms
  by (auto elim!: session_step.cases complete_invocation_cases simp: build_session_iff complete_counts)

lemma history_chain_snoc:
  assumes "history_chain px p n evs = Inr items" and "decode_document px (et_document e) = Inr s"
    and "et_sequence e = n + length evs + 1" and "et_after e = content_digest s"
    and "et_before e = map_option content_digest (if items = [] then p else Some (last items))"
    and "validate_extension px (if items = [] then p else Some (last items)) s = Inr (et_kind e)"
  shows "history_chain px p n (evs @ [e]) = Inr (items @ [s])"
  using assms
proof (induction evs arbitrary: p n items)
  case Nil
  then show ?case by (auto simp: ebind_eq_Inr)
next
  case (Cons x evs)
  from Cons.prems(1) obtain i k js where i: "decode_document px (et_document x) = Inr i" "et_sequence x = n + 1"
    "et_after x = content_digest i" "et_before x = map_option content_digest p"
    "validate_extension px p i = Inr k" "et_kind x = k" "history_chain px (Some i) (n + 1) evs = Inr js"
    "items = i # js"
    by (auto simp: ebind_eq_Inr split: if_splits)
  have "history_chain px (Some i) (n + 1) (evs @ [e]) = Inr (js @ [s])"
    by (rule Cons.IH) (use Cons.prems i in auto)
  with i show ?case by (simp add: lift_review_def)
qed

lemma events_of_append:
  "events_of (db\<lparr>db_budgets := bs, db_sessions := ss, db_events := db_events db @ [e]\<rparr>) k =
    (if k = et_key e then events_of db k @ [e] else events_of db k)"
  by (simp add: events_of_def)

lemma written_row_decodes:
  assumes "round_trips px upd" and "validate_session px upd = Inr upd"
    and "length (utf8 (encode_session px upd)) \<le> max_session_bytes"
  shows "decode_row px (written_row px upd n) = Inr upd"
  using assms by (simp add: decode_row_iff written_row_def round_trips_def)

lemma written_document_decodes:
  assumes "round_trips px upd" and "validate_session px upd = Inr upd"
  shows "decode_document px (encode_session px upd) = Inr upd"
  using assms by (simp add: decode_document_def round_trips_def lift_review_def)

lemma ledger_NoneD: "ledger_ok px db \<Longrightarrow> dict_get (db_sessions db) k = None \<Longrightarrow> events_of db k = []"
  unfolding ledger_ok_def by (drule spec [of _ k]) simp

lemma ledger_SomeE:
  assumes "ledger_ok px db" and "dict_get (db_sessions db) k = Some r"
  obtains items s where "history_chain px None 0 (events_of db k) = Inr items" "items \<noteq> []"
    "decode_row px r = Inr s" "last items = s" "sn_sequence r = et_sequence (last (events_of db k))"
    "sn_digest r = et_after (last (events_of db k))" "sn_document r = et_document (last (events_of db k))"
  using spec [OF assms(1) [unfolded ledger_ok_def], of k] assms(2) that by auto

lemma ledger_commit:
  assumes "ledger_ok px db" and "commit_context px gr scope upd pid db reg parent current"
    and "round_trips px upd" and "validate_extension px current upd = Inr kind"
  shows "ledger_ok px (db\<lparr>db_budgets := bs,
    db_sessions := AList.update (scope_key scope)
      (written_row px upd (next_sequence (dict_get (db_sessions db) (scope_key scope)))) (db_sessions db),
    db_events := db_events db @ [written_event px gr current upd kind
      (next_sequence (dict_get (db_sessions db) (scope_key scope))) ids]\<rparr>)"
proof -
  let ?key = "scope_key scope" and ?row = "dict_get (db_sessions db) (scope_key scope)"
  let ?e = "written_event px gr current upd kind (next_sequence ?row) ids"
  let ?evs = "events_of db ?key"
  have ekey: "et_key ?e = ?key" using assms(2) by (simp add: written_event_def commit_context_def)
  have dec: "decode_document px (et_document ?e) = Inr upd"
    using assms(2,3) by (simp add: written_event_def commit_context_def written_document_decodes)
  obtain items where items: "history_chain px None 0 ?evs = Inr items"
    "current = (if items = [] then None else Some (last items))" "next_sequence ?row = length ?evs + 1"
  proof (cases ?row)
    case None
    have ev: "?evs = []" by (rule ledger_NoneD [OF assms(1) None])
    moreover have "current = None" using assms(2) None by (simp add: commit_context_def)
    ultimately show thesis using None by (intro that [of "[]"]) (simp_all add: next_sequence_def)
  next
    case (Some r)
    from ledger_SomeE [OF assms(1) Some] obtain items s where
      i: "history_chain px None 0 ?evs = Inr items" "items \<noteq> []"
      "decode_row px r = Inr s" "last items = s" "sn_sequence r = et_sequence (last ?evs)" .
    have q: "map et_sequence ?evs = [1..<1 + length ?evs]" "length items = length ?evs"
      using history_chain_sequences [OF i(1)] by simp_all
    then have ne: "?evs \<noteq> []" using i(2) by auto
    then have "et_sequence (last ?evs) = last (map et_sequence ?evs)" by (simp add: last_map)
    also have "\<dots> = length ?evs" unfolding q(1) using ne by (cases ?evs) simp_all
    finally have "next_sequence ?row = length ?evs + 1" using Some i(5) by (simp add: next_sequence_def)
    moreover have "current = Some s" using assms(2) Some i(3) by (auto simp: commit_context_def)
    ultimately show thesis using i by (intro that [of items]) simp_all
  qed
  have chain: "history_chain px None 0 (?evs @ [?e]) = Inr (items @ [upd])"
    by (rule history_chain_snoc [OF items(1) dec])
      (use items assms(4) in \<open>simp_all add: written_event_def\<close>)
  have row: "decode_row px (written_row px upd n) = Inr upd" for n
    using assms(2,3) by (intro written_row_decodes) (auto simp: commit_context_def)
  show ?thesis
    unfolding ledger_ok_def events_of_append ekey
    using assms(1) chain row
    by (auto simp: ledger_ok_def written_event_def written_row_def split: option.splits)
qed

lemma accounts_commit:
  assumes "accounts_ok px db" and "keys_ok db" and "commit_context px gr scope upd pid db reg parent current"
    and "round_trips px upd" and vals: "\<And>c. vals c = counter_values parent current upd c"
  shows "accounts_ok px (db\<lparr>db_budgets := AList.update (scope_tenant_id scope, pid) (parent\<lparr>bg_counters := vals\<rparr>) (db_budgets db),
    db_sessions := AList.update (scope_key scope) (written_row px upd n) (db_sessions db), db_events := es\<rparr>)"
proof -
  let ?key = "scope_key scope" and ?t = "scope_tenant_id scope" and ?w = "scope_work_item_id scope"
  let ?old = "\<lambda>c. case dict_get (db_sessions db) ?key of None \<Rightarrow> 0 | Some r \<Rightarrow> session_counter px r c"
  have key: "fst ?key = ?t" "fst (snd ?key) = ?w" by (simp_all add: scope_key_def)
  have ctx: "dict_get (db_budgets db) (?t, pid) = Some parent" "bg_work_item parent = ?w"
    using assms(3) unfolding commit_context_def by blast+
  have row: "decode_row px (written_row px upd n) = Inr upd"
    using assms(3,4) by (intro written_row_decodes) (auto simp: commit_context_def)
  have usage: "work_item_usage px (db\<lparr>db_budgets := bs,
      db_sessions := AList.update ?key (written_row px upd n) (db_sessions db), db_events := es\<rparr>) t w c =
    work_item_usage px db t w c
      + (if t = ?t \<and> w = ?w then int (budget_counter (st_budget (ses_state upd)) c) - ?old c else 0)" for bs t w c
    using assms(2) row
    by (auto simp: work_item_usage_def table_sum_update keys_ok_def key session_counter_def split: option.split)
  have old: "?old c = int (budget_counter
      (case current of None \<Rightarrow> fresh_budget | Some s \<Rightarrow> st_budget (ses_state s)) c)" for c
    using assms(3)
    by (cases c) (auto simp: commit_context_def session_counter_def fresh_budget_def split: option.splits)
  have base: "bg_counters parent c = work_item_usage px db ?t ?w c" for c
    using assms(1) ctx by (auto simp: accounts_ok_def)
  show ?thesis
    unfolding accounts_ok_def usage
  proof (intro allI impI)
    fix k b c
    assume b: "dict_get (db_budgets (db\<lparr>db_budgets := AList.update (?t, pid) (parent\<lparr>bg_counters := vals\<rparr>) (db_budgets db),
      db_sessions := AList.update ?key (written_row px upd n) (db_sessions db), db_events := es\<rparr>)) k = Some b"
    show "bg_counters b c = work_item_usage px db (fst k) (bg_work_item b) c
      + (if fst k = ?t \<and> bg_work_item b = ?w then int (budget_counter (st_budget (ses_state upd)) c) - ?old c else 0)"
    proof (cases "k = (?t, pid)")
      case True
      with b ctx(2) have "b = parent\<lparr>bg_counters := vals\<rparr>" by simp
      with True ctx(2) base show ?thesis by (simp add: vals counter_values_def old)
    next
      case False
      with b have g: "dict_get (db_budgets db) k = Some b" by simp
      moreover have "\<not> (fst k = ?t \<and> bg_work_item b = ?w)"
        using assms(2) g ctx False unfolding keys_ok_def by (metis fst_conv)
      moreover have "bg_counters b c = work_item_usage px db (fst k) (bg_work_item b) c"
        using assms(1) g unfolding accounts_ok_def by blast
      ultimately show ?thesis by (simp only: if_False add_0_right)
    qed
  qed
qed

lemma budgets_commit:
  assumes "budgets_ok px db" and "commit_context px gr scope upd pid db reg parent current"
    and "validate_extension px current upd = Inr kind" and "current \<noteq> Some upd"
    and "next_counters px now parent current upd kind = Inr vals"
  shows "budgets_ok px (db\<lparr>db_budgets := AList.update (scope_tenant_id scope, pid) (parent\<lparr>bg_counters := vals\<rparr>) (db_budgets db),
    db_sessions := ss, db_events := es\<rparr>)"
proof -
  have ctx: "dict_get (db_budgets db) (scope_tenant_id scope, pid) = Some parent"
    using assms(2) unfolding commit_context_def by blast
  then obtain p where p: "decode_parent px (bg_limits parent) = Some p" "valid_parent px p"
    "(par_tenant p, par_id p) = (scope_tenant_id scope, pid)" "par_work_item p = bg_work_item parent"
    "bg_counters parent Invocations \<le> int (par_max_invocations p)" "bg_counters parent Repairs \<le> int (par_max_repairs p)"
    using assms(1) unfolding budgets_ok_def by blast
  have vals: "vals = counter_values parent current upd"
    using assms(5) by (auto simp: next_counters_def Let_def split: if_splits option.splits)
  have "vals Invocations \<le> int (par_max_invocations p) \<and> vals Repairs \<le> int (par_max_repairs p)"
  proof (cases "kind = RESERVE")
    case True
    with assms(5) p(1) show ?thesis
      by (auto simp: next_counters_def reserve_limits_def Let_def ebind_eq_Inr split: if_splits option.splits)
  next
    case False
    from assms(3,4) have "vals Invocations = bg_counters parent Invocations \<and> vals Repairs = bg_counters parent Repairs"
    proof (cases rule: extension_kinds)
      case create
      then show ?thesis by (simp add: vals counter_values_def)
    next
      case (extend cur)
      moreover from extend(2) False have "kind = COMPLETE" by (auto elim: session_step.cases)
      ultimately show ?thesis using settlement_counts [of px cur upd]
        by (simp add: vals counter_values_def)
    qed
    with p(5,6) show ?thesis by simp
  qed
  with p(1-4) assms(1) show ?thesis by (auto simp: budgets_ok_def)
qed

lemma sessions_commit:
  assumes "sessions_ok px db" and "commit_context px gr scope upd pid db reg parent current" and "round_trips px upd"
  shows "sessions_ok px (db\<lparr>db_budgets := bs,
    db_sessions := AList.update (scope_key scope) (written_row px upd n) (db_sessions db), db_events := es\<rparr>)"
proof -
  have "decode_row px (written_row px upd n) = Inr upd"
    using assms(2,3) by (intro written_row_decodes) (auto simp: commit_context_def)
  with assms(1,2) show ?thesis by (auto simp: sessions_ok_def commit_context_def)
qed

lemma keys_commit:
  assumes "keys_ok db" and "dict_get (db_budgets db) k = Some b" and "bg_work_item b' = bg_work_item b"
  shows "keys_ok (db\<lparr>db_budgets := AList.update k b' (db_budgets db), db_sessions := AList.update j r (db_sessions db),
    db_events := es\<rparr>)"
proof -
  have old: "\<exists>c. dict_get (db_budgets db) i = Some c \<and> bg_work_item c = bg_work_item a"
    if "dict_get (AList.update k b' (db_budgets db)) i = Some a" for i a
    using that assms(2,3) by (auto split: if_splits)
  have "i = l" if "dict_get (AList.update k b' (db_budgets db)) i = Some a"
    "dict_get (AList.update k b' (db_budgets db)) l = Some c" "fst i = fst l" "bg_work_item a = bg_work_item c" for i a l c
    using old [OF that(1)] old [OF that(2)] that(3,4) assms(1) unfolding keys_ok_def by (elim exE conjE) metis
  with assms(1) show ?thesis
    unfolding keys_ok_def by (simp del: dict_get_update split_paired_All)
qed

lemma registrations_commit:
  assumes "registrations_ok db" and "dict_get (db_budgets db) k = Some b" and "bg_work_item b' = bg_work_item b"
  shows "registrations_ok (db\<lparr>db_budgets := AList.update k b' (db_budgets db), db_sessions := ss, db_events := es\<rparr>)"
proof -
  have "\<exists>c. dict_get (AList.update k b' (db_budgets db)) i = Some c \<and> bg_work_item c = bg_work_item a"
    if "dict_get (db_budgets db) i = Some a" for i a
    using that assms(2,3) by (auto split: if_splits)
  note new = this
  show ?thesis
    unfolding registrations_ok_def
  proof (intro allI impI)
    fix j g
    assume "dict_get (db_registrations (db\<lparr>db_budgets := AList.update k b' (db_budgets db), db_sessions := ss, db_events := es\<rparr>)) j = Some g"
    then have "dict_get (db_registrations db) j = Some g" by simp
    with assms(1) obtain a where "dict_get (db_budgets db) (fst j, rg_budget g) = Some a" "bg_work_item a = fst (snd j)"
      unfolding registrations_ok_def by blast
    with new [of "(fst j, rg_budget g)" a] show "\<exists>c. dict_get (db_budgets (db\<lparr>db_budgets := AList.update k b' (db_budgets db),
      db_sessions := ss, db_events := es\<rparr>)) (fst j, rg_budget g) = Some c \<and> bg_work_item c = fst (snd j)"
      by simp
  qed
qed

lemma commit_inv:
  assumes inv: "store_inv px db" and rt: "round_trips px upd"
    and step: "compare_and_reserve px role gr now scope expected upd pid db = Inr (won, db')"
  shows "store_inv px db'"
  using step
proof (cases rule: commit_cases)
  case (kept reg parent current)
  with inv show ?thesis by simp
next
  case (written reg parent current kind)
  let ?n = "next_sequence (dict_get (db_sessions db) (scope_key scope))"
  have ctx: "dict_get (db_budgets db) (scope_tenant_id scope, pid) = Some parent" "seed_scope (ses_seed upd) = scope"
    using written(2) unfolding commit_context_def by blast+
  from write_transition_cases [OF written(6) ctx(2,1)] obtain vals ids where
    v: "next_counters px now parent current upd kind = Inr vals" "event_identity upd kind = Inr ids"
    and db': "db' = db\<lparr>db_budgets := AList.update (scope_tenant_id scope, pid) (parent\<lparr>bg_counters := vals\<rparr>) (db_budgets db),
       db_sessions := AList.update (scope_key scope) (written_row px upd ?n) (db_sessions db),
       db_events := db_events db @ [written_event px gr current upd kind ?n ids]\<rparr>"
    and fresh: "\<And>e. e \<in> set (db_events db) \<Longrightarrow> fst ids \<noteq> None \<Longrightarrow> et_invocation e \<noteq> fst ids"
    "\<And>e. e \<in> set (db_events db) \<Longrightarrow> fst (snd ids) \<noteq> None \<Longrightarrow> snd (snd ids) \<noteq> None \<Longrightarrow>
      (et_provider e, et_execution e) \<noteq> snd ids"
    by metis
  have vals: "vals = counter_values parent current upd"
    using v(1) by (auto simp: next_counters_def Let_def split: if_splits option.splits)
  have "distinct (executions db')" "distinct (dispatches db')"
    using inv fresh by (auto simp: store_inv_def db' executions_def dispatches_def written_event_def)
  moreover have "ledger_ok px db'" unfolding db'
    by (rule ledger_commit) (use inv written rt in \<open>auto simp: store_inv_def\<close>)
  moreover have "accounts_ok px db'" unfolding db'
    by (rule accounts_commit) (use inv written rt vals in \<open>auto simp: store_inv_def\<close>)
  moreover have "budgets_ok px db'" unfolding db'
    by (rule budgets_commit) (use inv written v in \<open>auto simp: store_inv_def\<close>)
  moreover have "sessions_ok px db'" unfolding db'
    by (rule sessions_commit) (use inv written rt in \<open>auto simp: store_inv_def\<close>)
  moreover have "keys_ok db'" unfolding db'
    by (rule keys_commit [OF _ ctx(1)]) (use inv in \<open>auto simp: store_inv_def\<close>)
  moreover have "registrations_ok db'" unfolding db'
    by (rule registrations_commit [OF _ ctx(1)]) (use inv in \<open>auto simp: store_inv_def\<close>)
  ultimately show ?thesis by (simp add: store_inv_def)
qed

subsection \<open>Provisioning keeps the invariant\<close>

lemma ledger_cong:
  assumes "db_sessions db' = db_sessions db" and "db_events db' = db_events db"
  shows "ledger_ok px db' = ledger_ok px db" and "executions db' = executions db"
    and "dispatches db' = dispatches db" and "work_item_usage px db' = work_item_usage px db"
proof -
  have ev: "events_of db' = events_of db" using assms by (simp add: events_of_def fun_eq_iff)
  show "ledger_ok px db' = ledger_ok px db" unfolding ledger_ok_def ev assms(1) by (rule refl)
qed (use assms in \<open>simp_all add: executions_def dispatches_def work_item_usage_def fun_eq_iff\<close>)

lemma provision_cases:
  assumes "provision px parent db = Inr db'"
  obtains (same) "db' = db"
  | (new) "valid_parent px parent" "dict_get (db_budgets db) (par_tenant parent, par_id parent) = None"
      "\<And>k b. dict_get (db_budgets db) k = Some b \<Longrightarrow> fst k = par_tenant parent \<Longrightarrow> bg_work_item b \<noteq> par_work_item parent"
      "db' = db\<lparr>db_budgets := AList.update (par_tenant parent, par_id parent) \<lparr>bg_work_item = par_work_item parent,
         bg_limits = encode_parent px parent, bg_counters = (\<lambda>_. 0)\<rparr> (db_budgets db)\<rparr>"
proof (cases "db' = db")
  case False
  with assms show thesis
    by (intro new) (auto simp: provision_def insert_budget_def list_ex_iff dict_get_def
        dest!: map_of_SomeD split: if_splits option.splits)
qed (rule same)

lemma session_has_budget:
  assumes "registrations_ok db" and "sessions_ok px db" and "dict_get (db_sessions db) k = Some r"
  shows "\<exists>g b. dict_get (db_registrations db) k = Some g
    \<and> dict_get (db_budgets db) (fst k, rg_budget g) = Some b \<and> bg_work_item b = fst (snd k)"
  using assms unfolding registrations_ok_def sessions_ok_def by metis

lemma provision_inv:
  assumes inv: "store_inv px db" and rt: "parent_round_trips px parent" and "provision px parent db = Inr db'"
  shows "store_inv px db'"
  using assms(3)
proof (cases rule: provision_cases)
  case same
  with inv show ?thesis by simp
next
  case new
  let ?k = "(par_tenant parent, par_id parent)"
  have tables: "db_sessions db' = db_sessions db" "db_events db' = db_events db" by (simp_all add: new(4))
  note usage = ledger_cong(4) [OF tables, of px]
  have zero: "work_item_usage px db (par_tenant parent) (par_work_item parent) c = 0" for c
    unfolding work_item_usage_def
  proof (rule table_sum_zero)
    fix k r
    assume "(k, r) \<in> set (db_sessions db)"
    then have "dict_get (db_sessions db) k = Some r"
      using inv by (simp add: store_inv_def keys_ok_def dict_get_iff)
    with session_has_budget [of db px k r] inv obtain i b where
      "dict_get (db_budgets db) (fst k, i) = Some b" "bg_work_item b = fst (snd k)"
      unfolding store_inv_def by blast
    with new(3) [of "(fst k, i)" b]
    show "(if fst k = par_tenant parent \<and> fst (snd k) = par_work_item parent then session_counter px r c else 0) = 0"
      by auto
  qed
  have "keys_ok db'"
    unfolding keys_ok_def
  proof (intro conjI allI impI)
    fix j b k b'
    assume *: "dict_get (db_budgets db') j = Some b" "dict_get (db_budgets db') k = Some b'" "fst j = fst k"
      "bg_work_item b = bg_work_item b'"
    have old: "dict_get (db_budgets db) j = Some b \<Longrightarrow> dict_get (db_budgets db) k = Some b' \<Longrightarrow> j = k"
      using inv *(3,4) unfolding store_inv_def keys_ok_def by blast
    have row: "(if i = ?k then bg_work_item a = par_work_item parent else dict_get (db_budgets db) i = Some a)"
      if "dict_get (db_budgets db') i = Some a" for i a
      using that by (auto simp: new(4) split: if_splits)
    from row [OF *(1)] row [OF *(2)] old *(3,4) new(3) show "j = k"
      by (metis fst_conv)
  qed (use inv in \<open>simp_all add: store_inv_def keys_ok_def new(4)\<close>)
  moreover have "budgets_ok px db'"
    using inv rt new(1) by (auto simp: store_inv_def budgets_ok_def new(4) parent_round_trips_def)
  moreover have "registrations_ok db'"
    unfolding registrations_ok_def
  proof (intro allI impI)
    fix k g
    assume "dict_get (db_registrations db') k = Some g"
    then have "dict_get (db_registrations db) k = Some g" by (simp add: new(4))
    with inv obtain b where b: "dict_get (db_budgets db) (fst k, rg_budget g) = Some b" "bg_work_item b = fst (snd k)"
      unfolding store_inv_def registrations_ok_def by blast
    with new(2) have "(fst k, rg_budget g) \<noteq> ?k" by (metis option.distinct(1))
    with b show "\<exists>b. dict_get (db_budgets db') (fst k, rg_budget g) = Some b \<and> bg_work_item b = fst (snd k)"
      by (simp add: new(4) del: prod.inject)
  qed
  moreover have "accounts_ok px db'"
    unfolding accounts_ok_def usage using inv zero by (auto simp: store_inv_def accounts_ok_def new(4))
  moreover have "sessions_ok px db'" using inv by (simp add: store_inv_def sessions_ok_def new(4))
  ultimately show ?thesis using inv by (simp add: store_inv_def ledger_cong [OF tables])
qed

lemma register_inv:
  assumes inv: "store_inv px db" and "register px seed pid db = Inr db'"
  shows "store_inv px db'"
proof (cases "db' = db")
  case False
  let ?k = "scope_key (seed_scope seed)"
  define row where "row = \<lparr>rg_budget = pid, rg_seed = content_digest seed\<rparr>"
  from assms(2) False have
    new: "dict_get (db_registrations db) ?k = None"
    "map_option bg_work_item (dict_get (db_budgets db) (fst ?k, rg_budget row)) = Some (fst (snd ?k))"
    and db': "db' = db\<lparr>db_registrations := AList.update ?k row (db_registrations db)\<rparr>"
    by (auto simp: register_def insert_registration_def Let_def row_def split: if_splits option.splits)
  have "keys_ok db'" using inv by (simp add: store_inv_def keys_ok_def db')
  moreover have "registrations_ok db'"
    unfolding registrations_ok_def
  proof (intro allI impI)
    fix k g
    assume g: "dict_get (db_registrations db') k = Some g"
    show "\<exists>b. dict_get (db_budgets db') (fst k, rg_budget g) = Some b \<and> bg_work_item b = fst (snd k)"
    proof (cases "k = ?k")
      case True
      with g new(2) show ?thesis by (auto simp: db')
    next
      case False
      with g have "dict_get (db_registrations db) k = Some g" by (simp add: db')
      with inv have "\<exists>b. dict_get (db_budgets db) (fst k, rg_budget g) = Some b \<and> bg_work_item b = fst (snd k)"
        unfolding store_inv_def registrations_ok_def by blast
      then show ?thesis by (simp add: db')
    qed
  qed
  moreover have "sessions_ok px db'"
    unfolding sessions_ok_def
  proof (intro allI impI)
    fix k r
    assume "dict_get (db_sessions db') k = Some r"
    then have "dict_get (db_sessions db) k = Some r" by (simp add: db')
    with inv obtain g s where "dict_get (db_registrations db) k = Some g" "decode_row px r = Inr s"
      "scope_key (seed_scope (ses_seed s)) = k" "content_digest (ses_seed s) = rg_seed g"
      unfolding store_inv_def sessions_ok_def by blast
    moreover from this(1) new(1) have "k \<noteq> ?k" by auto
    ultimately show "\<exists>g s. dict_get (db_registrations db') k = Some g \<and> decode_row px r = Inr s
        \<and> scope_key (seed_scope (ses_seed s)) = k \<and> content_digest (ses_seed s) = rg_seed g"
      by (auto simp: db')
  qed
  moreover have "budgets_ok px db'" using inv by (simp add: store_inv_def budgets_ok_def db')
  moreover have tables: "db_sessions db' = db_sessions db" "db_events db' = db_events db" by (simp_all add: db')
  moreover have "accounts_ok px db'"
    using inv unfolding store_inv_def accounts_ok_def ledger_cong(4) [OF tables] by (simp add: db')
  ultimately show ?thesis using inv by (simp add: store_inv_def ledger_cong [of db' db])
qed (use inv in simp)

abbreviation store_reachable :: "'a store_codec_scheme \<Rightarrow> review_db \<Rightarrow> bool" where
  "store_reachable px \<equiv> reachable (\<lambda>db. db = empty_db) (store_step px)"

interpretation rst: safety "\<lambda>db. db = empty_db" "store_step px" "store_inv px"
  for px :: "'a store_codec_scheme"
  by unfold_locales
    (auto simp: empty_inv elim!: store_step.cases intro: commit_inv provision_inv register_inv)

subsection \<open>The store as a map from units to sessions\<close>

text \<open>
  What the store promises its clients, whatever its tables are: the current session of each unit.
  \<open>stored\<close> is that abstract state, and the two operations of the port \<^verbatim>\<open>ReviewSessionStore\<close> are a lookup
  and a conditional update of it.
\<close>

definition stored :: "'a store_codec_scheme \<Rightarrow> review_db \<Rightarrow> unit_key \<Rightarrow> review_session option" where
  "stored px db key =
    (case dict_get (db_sessions db) key of
       None \<Rightarrow> None
     | Some r \<Rightarrow> (case decode_row px r of Inl _ \<Rightarrow> None | Inr s \<Rightarrow> Some s))"

definition may_follow ::
  "'a pydantic_scheme \<Rightarrow> review_session option \<Rightarrow> review_session \<Rightarrow> bool" where
  "may_follow px current upd \<longleftrightarrow>
    (case current of
       None \<Rightarrow> ses_attempts upd = [] \<and> st_budget (ses_state upd) = fresh_budget
     | Some cur \<Rightarrow> session_step px cur RESERVE upd \<or> session_step px cur COMPLETE upd)"

lemma context_stored: "commit_context px gr scope upd pid db reg parent current \<Longrightarrow>
    stored px db (scope_key scope) = current"
  by (auto simp: commit_context_def stored_def split: option.splits)

lemma extension_follows:
  assumes "validate_extension px current upd = Inr kind" and "current \<noteq> Some upd"
  shows "may_follow px current upd"
  using assms
proof (cases rule: extension_kinds)
  case create
  then show ?thesis by (simp add: may_follow_def)
next
  case (extend cur)
  then show ?thesis by (cases kind) (auto simp: may_follow_def elim: session_step.cases)
qed

lemma stored_write:
  assumes "commit_context px gr scope upd pid db reg parent current" and "round_trips px upd"
  shows "stored px (db\<lparr>db_budgets := bs,
    db_sessions := AList.update (scope_key scope) (written_row px upd n) (db_sessions db), db_events := es\<rparr>)
    = (stored px db)(scope_key scope \<mapsto> upd)"
proof -
  have "decode_row px (written_row px upd n) = Inr upd"
    using assms by (intro written_row_decodes) (auto simp: commit_context_def)
  then show ?thesis by (auto simp: stored_def fun_eq_iff)
qed

lemma commit_refines_map:
  assumes "compare_and_reserve px role gr now scope expected upd pid db = Inr (won, db')" and "round_trips px upd"
  shows "if won then expected = map_option content_digest (stored px db (scope_key scope))
           \<and> may_follow px (stored px db (scope_key scope)) upd
           \<and> stored px db' = (stored px db)(scope_key scope \<mapsto> upd)
         else db' = db \<and> (stored px db (scope_key scope) = Some upd
           \<or> expected \<noteq> map_option content_digest (stored px db (scope_key scope)))"
  using assms(1)
proof (cases rule: commit_cases)
  case (kept reg parent current)
  then show ?thesis using context_stored [OF kept(3)] by simp
next
  case (written reg parent current kind)
  have ctx: "dict_get (db_budgets db) (scope_tenant_id scope, pid) = Some parent" "seed_scope (ses_seed upd) = scope"
    using written(2) unfolding commit_context_def by blast+
  from write_transition_cases [OF written(6) ctx(2,1)] obtain vals ids where
    "db' = db\<lparr>db_budgets := AList.update (scope_tenant_id scope, pid) (parent\<lparr>bg_counters := vals\<rparr>) (db_budgets db),
       db_sessions := AList.update (scope_key scope)
         (written_row px upd (next_sequence (dict_get (db_sessions db) (scope_key scope)))) (db_sessions db),
       db_events := db_events db @ [written_event px gr current upd kind
         (next_sequence (dict_get (db_sessions db) (scope_key scope))) ids]\<rparr>"
    by metis
  then have "stored px db' = (stored px db)(scope_key scope \<mapsto> upd)"
    using stored_write [OF written(2) assms(2)] by simp
  with written extension_follows [OF written(5,3)] show ?thesis using context_stored [OF written(2)] by simp
qed

text \<open>Reading never finds the tables inconsistent.\<close>

lemma seed_scope_unique:
  assumes "valid_scope a" and "valid_scope b" and "scope_key a = scope_key b"
  shows "a = b"
proof -
  have "sealed scope_fields a" "sealed scope_fields b" using assms by (simp_all add: valid_scope_def)
  moreover have "scope_fields a = scope_fields b" using assms(3) by (simp add: scope_key_def scope_fields_def)
  ultimately show ?thesis using assms(3) by (cases a; cases b) (simp add: sealed_def scope_key_def)
qed

lemma check_tip_ok:
  assumes "ledger_ok px db" and "valid_scope scope"
  shows "check_tip (scope_tenant_id scope) db scope (dict_get (db_sessions db) (scope_key scope)) = Inr ()"
proof (cases "dict_get (db_sessions db) (scope_key scope)")
  case None
  have "events_of db (scope_key scope) = []" by (rule ledger_NoneD [OF assms(1) None])
  then have "unit_events (scope_tenant_id scope) db (scope_key scope) = []"
    by (auto simp: unit_events_def events_of_def filter_empty_conv)
  with None show ?thesis by (simp add: check_tip_def Let_def)
next
  case (Some r)
  from ledger_SomeE [OF assms(1) Some] obtain items s where
    i: "history_chain px None 0 (events_of db (scope_key scope)) = Inr items" "items \<noteq> []"
    "decode_row px r = Inr s" "last items = s" "sn_sequence r = et_sequence (last (events_of db (scope_key scope)))"
    "sn_digest r = et_after (last (events_of db (scope_key scope)))"
    "sn_document r = et_document (last (events_of db (scope_key scope)))" .
  have "unit_events (scope_tenant_id scope) db (scope_key scope) = events_of db (scope_key scope)"
    using i(1) valid_scope_nonempty [OF assms(2)] unit_events_own [of px db "scope_tenant_id scope"]
    by (simp add: scope_key_def)
  moreover have "events_of db (scope_key scope) \<noteq> []" using i(1,2) by auto
  ultimately show ?thesis using Some i by (simp add: check_tip_def Let_def)
qed

lemma load_reads_stored:
  assumes "store_inv px db" and "valid_scope scope" and "scope_tenant_id scope = grant_tenant gr"
    and "\<not> unsafe_role role" and "\<not> unsafe_tables role"
    and "dict_get (db_registrations db) (scope_key scope) \<noteq> None"
  shows "load_current px role gr scope db = Inr (stored px db (scope_key scope))"
proof -
  obtain reg where reg: "dict_get (db_registrations db) (scope_key scope) = Some reg" using assms(6) by auto
  have t: "transaction role gr (Some scope) = Inr (grant_tenant gr)" using assms by (simp add: transaction_iff)
  have r: "registration (grant_tenant gr) db scope = Inr reg" using assms(2,3) reg by (simp add: registration_def)
  obtain b where "dict_get (db_budgets db) (scope_tenant_id scope, rg_budget reg) = Some b"
    using assms(1) reg unfolding store_inv_def registrations_ok_def by (fastforce simp: scope_key_def)
  then have b: "fetch (grant_tenant gr) (db_budgets db) (scope_tenant_id scope, rg_budget reg) \<noteq> None"
    using assms(3) valid_scope_nonempty [OF assms(2)] by simp
  have tip: "check_tip (grant_tenant gr) db scope (dict_get (db_sessions db) (scope_key scope)) = Inr ()"
    using check_tip_ok assms(1,2,3) unfolding store_inv_def by metis
  show ?thesis
  proof (cases "dict_get (db_sessions db) (scope_key scope)")
    case None
    then show ?thesis
      using assms(2,3) t r b tip by (simp add: load_current_def Let_def stored_def)
  next
    case (Some row)
    from assms(1) Some obtain g s where s: "dict_get (db_registrations db) (scope_key scope) = Some g"
      "decode_row px row = Inr s" "scope_key (seed_scope (ses_seed s)) = scope_key scope"
      "content_digest (ses_seed s) = rg_seed g"
      unfolding store_inv_def sessions_ok_def by blast
    have "valid_scope (seed_scope (ses_seed s))"
      using s(2) by (auto simp: decode_row_iff validate_session_iff valid_session_def valid_seed_def)
    then have "seed_scope (ses_seed s) = scope" using seed_scope_unique assms(2) s(3) by blast
    with s reg show ?thesis
      using assms(2,3) t r b tip Some by (simp add: load_current_def Let_def stored_def)
  qed
qed

lemma history_reads_ledger:
  assumes "store_inv px db" and "valid_scope scope" and "scope_tenant_id scope = grant_tenant gr"
    and "\<not> unsafe_role role" and "\<not> unsafe_tables role"
    and "dict_get (db_registrations db) (scope_key scope) \<noteq> None"
  shows "\<exists>items. history px role gr scope db = Inr items
    \<and> stored px db (scope_key scope) = (if items = [] then None else Some (last items))"
proof -
  obtain reg where reg: "dict_get (db_registrations db) (scope_key scope) = Some reg" using assms(6) by auto
  have h: "history px role gr scope db =
      history_chain px None 0 (unit_events (grant_tenant gr) db (scope_key scope))"
    using assms(2-5) reg by (simp add: history_def transaction_iff [THEN iffD2] registration_def)
  show ?thesis
  proof (cases "dict_get (db_sessions db) (scope_key scope)")
    case None
    have "events_of db (scope_key scope) = []"
      using assms(1) ledger_NoneD [of px, OF _ None] by (simp add: store_inv_def)
    then have "unit_events (grant_tenant gr) db (scope_key scope) = []"
      by (auto simp: unit_events_def events_of_def filter_empty_conv)
    with h None show ?thesis by (simp add: stored_def)
  next
    case (Some r)
    have "ledger_ok px db" using assms(1) by (simp add: store_inv_def)
    from ledger_SomeE [OF this Some] obtain items s where
      i: "history_chain px None 0 (events_of db (scope_key scope)) = Inr items" "items \<noteq> []"
      "decode_row px r = Inr s" "last items = s" by metis
    have "unit_events (scope_tenant_id scope) db (scope_key scope) = events_of db (scope_key scope)"
      using i(1) valid_scope_nonempty [OF assms(2)] unit_events_own [of px db "scope_tenant_id scope"]
      by (simp add: scope_key_def)
    with h i Some assms(3) show ?thesis by (simp add: stored_def)
  qed
qed

end
