(* ===== verification/Review_Orchestrator.thy ===== *)
theory Review_Orchestrator
  imports Review_Persistence
begin

text \<open>
  \<^verbatim>\<open>application/review.py\<close>, \<^verbatim>\<open>application/review_result.py\<close>, \<^verbatim>\<open>ports/review.py\<close> and
  \<^verbatim>\<open>ports/review_execution.py\<close>: the coordinator that reserves, dispatches and settles one invocation.

  What the coordinator is given (the store, the executor, the clock, the artifact observer, the
  authorizer and the identifier source) is the record \<open>review_env\<close> of operations on a world of any
  type \<open>'w\<close>; each may change the world. A computation \<open>('a, 'e, 'w) orch\<close> takes the world to a
  result or an exception, and the world that is left. \<open>None\<close> as a clock reading stands for a value that
  \<^verbatim>\<open>utc\<close> rejects; \<open>External e\<close> is an exception of the environment that the coordinator lets through.

  An execution request can only be told from an execution when both are observed, so the properties are
  about an environment in \<open>logged\<close> form, which also records each committed session and each dispatched
  request in the order in which they happen. The constructor of \<^verbatim>\<open>ExecutionRequest\<close> validates its parts;
  they are parts of a session that has just been validated, so \<open>make_request\<close> only seals.
\<close>

datatype run_status = FINISHED | ADVANCED | AWAITING_SETTLEMENT | CONTENDED | PAUSED

fun run_status_name :: "run_status \<Rightarrow> string" where
  "run_status_name FINISHED = ''FINISHED''" | "run_status_name ADVANCED = ''ADVANCED''"
| "run_status_name AWAITING_SETTLEMENT = ''AWAITING_SETTLEMENT''"
| "run_status_name CONTENDED = ''CONTENDED''" | "run_status_name PAUSED = ''PAUSED''"

record orchestration_result = review_model +
  orc_status :: run_status
  orc_decision :: review_decision

record execution_request = review_model +
  req_invocation :: invocation
  req_contract :: quality_contract
  req_artifact :: artifact_ref
  req_findings :: "finding_record list"
  req_resolutions :: "resolution_record list"

datatype result_output = Delivered delivery | Foreign_Output

record execution_result =
  exr_receipt :: "invocation_receipt option"
  exr_output :: result_output

datatype 'e execution_outcome = Returned execution_result | Foreign_Result | Unavailable | Raised 'e

datatype 'e authorization_outcome = Authorized | Permission_Denied | Authorizer_Raised 'e

datatype 'e orch_error = Value_Error review_error | Permission_Error | Overflow | Assertion | Index | External 'e

type_synonym ('a, 'e, 'w) orch = "'w \<Rightarrow> ('e orch_error + 'a) \<times> 'w"

record ('e, 'w) review_env =
  env_load :: "review_scope \<Rightarrow> 'w \<Rightarrow> ('e + review_session option) \<times> 'w"
  env_cas :: "review_scope \<Rightarrow> string option \<Rightarrow> review_session \<Rightarrow> string \<Rightarrow> 'w \<Rightarrow> ('e + bool) \<times> 'w"
  env_execute :: "execution_request \<Rightarrow> 'w \<Rightarrow> 'e execution_outcome \<times> 'w"
  env_clock :: "'w \<Rightarrow> moment option \<times> 'w"
  env_observe :: "review_scope \<Rightarrow> string \<Rightarrow> 'w \<Rightarrow> ('e + artifact_ref) \<times> 'w"
  env_authorize :: "invocation \<Rightarrow> 'w \<Rightarrow> 'e authorization_outcome \<times> 'w"
  env_invocation_id :: "'w \<Rightarrow> string \<times> 'w"

record orchestrator =
  oc_scope :: review_scope
  oc_parent :: string
  oc_reservation :: reservation

subsection \<open>Computations\<close>

definition oret :: "'a \<Rightarrow> ('a, 'e, 'w) orch" where
  "oret x w = (Inr x, w)"

definition oraise :: "'e orch_error \<Rightarrow> ('a, 'e, 'w) orch" where
  "oraise e w = (Inl e, w)"

definition obind :: "('a, 'e, 'w) orch \<Rightarrow> ('a \<Rightarrow> ('b, 'e, 'w) orch) \<Rightarrow> ('b, 'e, 'w) orch" where
  "obind m f w = (case m w of (Inl e, w') \<Rightarrow> (Inl e, w') | (Inr x, w') \<Rightarrow> f x w')"

definition oreview :: "review_error + 'a \<Rightarrow> ('a, 'e, 'w) orch" where
  "oreview m = (case m of Inl e \<Rightarrow> oraise (Value_Error e) | Inr x \<Rightarrow> oret x)"

definition oexternal :: "('w \<Rightarrow> ('e + 'a) \<times> 'w) \<Rightarrow> ('a, 'e, 'w) orch" where
  "oexternal m w = (case m w of (Inl e, w') \<Rightarrow> (Inl (External e), w') | (Inr x, w') \<Rightarrow> (Inr x, w'))"

definition utc_clock :: "('e, 'w) review_env \<Rightarrow> (moment, 'e, 'w) orch" where
  "utc_clock env w = (case env_clock env w of (None, w') \<Rightarrow> (Inl (Value_Error Invalid), w') | (Some t, w') \<Rightarrow> (Inr t, w'))"

definition new_invocation_id :: "('e, 'w) review_env \<Rightarrow> (string, 'e, 'w) orch" where
  "new_invocation_id env w = (case env_invocation_id env w of (i, w') \<Rightarrow> (Inr i, w'))"

definition authorize :: "('e, 'w) review_env \<Rightarrow> invocation \<Rightarrow> (unit, 'e, 'w) orch" where
  "authorize env ivn w =
    (case env_authorize env ivn w of
       (Authorized, w') \<Rightarrow> (Inr (), w')
     | (Permission_Denied, w') \<Rightarrow> (Inl Permission_Error, w')
     | (Authorizer_Raised e, w') \<Rightarrow> (Inl (External e), w'))"

subsection \<open>Results of an execution\<close>

definition max_output_bytes :: nat where
  "max_output_bytes = 128000"

definition normalize_result ::
  "'a pydantic_scheme \<Rightarrow> execution_result option \<Rightarrow>
    invocation_receipt option \<times> string option \<times> execution_stop option" where
  "normalize_result px val =
    (case val of
       None \<Rightarrow> (None, None, Some STOP_EXECUTION_INVALID)
     | Some v \<Rightarrow>
         if \<not> pred_option valid_receipt (exr_receipt v) then (None, None, Some STOP_EXECUTION_INVALID)
         else case exr_output v of
           Foreign_Output \<Rightarrow> (exr_receipt v, None, Some STOP_EXECUTION_INVALID)
         | Delivered d \<Rightarrow>
             (case output_json px d of
                None \<Rightarrow> (exr_receipt v, None, None)
              | Some out \<Rightarrow>
                  if max_output_bytes < length (utf8 out) then (exr_receipt v, None, Some STOP_OUTPUT_LIMIT)
                  else (exr_receipt v, Some out, None)))"

subsection \<open>The coordinator\<close>

definition orchestration_fields :: "orchestration_result \<Rightarrow> (string \<times> json) list" where
  "orchestration_fields x =
    [(''status'', JStr (run_status_name (orc_status x))),
     (''decision'', model_dump decision_fields (orc_decision x))]"

definition make_result :: "run_status \<Rightarrow> review_decision \<Rightarrow> orchestration_result" where
  "make_result status dec = seal orchestration_fields
    \<lparr>content_digest = [], orc_status = status, orc_decision = dec\<rparr>"

definition request_fields :: "'a pydantic_scheme \<Rightarrow> execution_request \<Rightarrow> (string \<times> json) list" where
  "request_fields px x =
    [(''invocation'', model_dump (invocation_fields px) (req_invocation x)),
     (''contract'', model_dump contract_fields (req_contract x)),
     (''artifact'', model_dump artifact_fields (req_artifact x)),
     (''findings'', json_list (model_dump record_fields) (req_findings x)),
     (''resolutions'', json_list (model_dump resolution_record_fields) (req_resolutions x))]"

definition make_request :: "'a pydantic_scheme \<Rightarrow> invocation \<Rightarrow> review_session \<Rightarrow> execution_request" where
  "make_request px ivn pending = seal (request_fields px)
    \<lparr>content_digest = [], req_invocation = ivn, req_contract = seed_contract (ses_seed pending),
     req_artifact = st_artifact (ses_state pending), req_findings = open_findings (ses_state pending),
     req_resolutions = st_resolutions (ses_state pending)\<rparr>"

definition make_orchestrator ::
  "review_scope \<Rightarrow> string \<Rightarrow> reservation \<Rightarrow> review_error + orchestrator" where
  "make_orchestrator scope parent_budget_id held =
    ebind (require_all
      [(valid_scope scope, Invalid), (strip parent_budget_id \<noteq> [], Invalid), (valid_reservation held, Invalid)])
    (\<lambda>_. Inr \<lparr>oc_scope = scope, oc_parent = parent_budget_id, oc_reservation = held\<rparr>)"

definition current_session ::
  "'a pydantic_scheme \<Rightarrow> ('e, 'w) review_env \<Rightarrow> orchestrator \<Rightarrow> (review_session, 'e, 'w) orch" where
  "current_session px env oc =
    obind (oexternal (env_load env (oc_scope oc))) (\<lambda>current.
    case current of
      None \<Rightarrow> oraise (Value_Error Invalid)
    | Some ses \<Rightarrow>
        obind (oreview (validate_session px ses)) (\<lambda>session.
        if seed_scope (ses_seed session) \<noteq> oc_scope oc then oraise (Value_Error Invalid) else oret session))"

definition observe_artifact ::
  "('e, 'w) review_env \<Rightarrow> orchestrator \<Rightarrow> review_session \<Rightarrow> (artifact_ref, 'e, 'w) orch" where
  "observe_artifact env oc session =
    oexternal (env_observe env (oc_scope oc) (art_key (st_artifact (ses_state session))))"

definition orch_decision ::
  "'a pydantic_scheme \<Rightarrow> ('e, 'w) review_env \<Rightarrow> orchestrator \<Rightarrow> review_session \<Rightarrow> (review_decision, 'e, 'w) orch" where
  "orch_decision px env oc current =
    obind (observe_artifact env oc current) (\<lambda>observed.
    obind (utc_clock env) (\<lambda>now. oreview (evaluate px current observed (Some now))))"

definition pending_invocation :: "review_session \<Rightarrow> (invocation, 'e, 'w) orch" where
  "pending_invocation session =
    (case st_pending (ses_state session) of None \<Rightarrow> oraise Assertion | Some ivn \<Rightarrow> oret ivn)"

definition time_stop :: "review_seed \<Rightarrow> invocation \<Rightarrow> moment \<Rightarrow> (execution_stop option, 'e, 'w) orch" where
  "time_stop seed ivn now =
    (let deadline = inv_started_at ivn + int (res_seconds (inv_reservation ivn)) * 1000000;
         session_end = seed_started_at seed + int (pol_max_seconds (seed_policy seed)) * 1000000 in
     if now < inv_started_at ivn then oret (Some STOP_TIME_WINDOW)
     else if dt_limit \<le> deadline then oraise Overflow
     else if deadline \<le> now then oret (Some STOP_TIME_WINDOW)
     else if dt_limit \<le> session_end then oraise Overflow
     else if session_end \<le> now then oret (Some STOP_TIME_WINDOW) else oret None)"

definition dispatch_stop ::
  "('e, 'w) review_env \<Rightarrow> orchestrator \<Rightarrow> review_session \<Rightarrow> (execution_stop option, 'e, 'w) orch" where
  "dispatch_stop env oc pending =
    obind (pending_invocation pending) (\<lambda>ivn w.
    case authorize env ivn w of
      (Inl Permission_Error, w') \<Rightarrow> (Inr (Some STOP_AUTHORIZATION_REVOKED), w')
    | (Inl e, w') \<Rightarrow> (Inl e, w')
    | (Inr _, w') \<Rightarrow>
        obind (observe_artifact env oc pending) (\<lambda>observed.
        obind (utc_clock env) (\<lambda>now.
        if observed \<noteq> st_artifact (ses_state pending) then oret (Some STOP_ARTIFACT_DRIFT)
        else time_stop (ses_seed pending) ivn now)) w')"

definition finished_status :: "decision_status \<Rightarrow> bool" where
  "finished_status s \<longleftrightarrow> s \<in> {ELIGIBLE, BLOCKED, ESCALATED}"

definition settle ::
  "'a pydantic_scheme \<Rightarrow> ('e, 'w) review_env \<Rightarrow> orchestrator \<Rightarrow> review_session \<Rightarrow>
    invocation_receipt option \<times> string option \<times> execution_stop option \<Rightarrow> (orchestration_result, 'e, 'w) orch" where
  "settle px env oc pending outcome =
    (case outcome of (receipt, output, stop) \<Rightarrow>
     obind (pending_invocation pending) (\<lambda>ivn.
     obind (utc_clock env) (\<lambda>now.
     obind (oreview (complete_invocation px pending (inv_id ivn) receipt (text_delivery output) (Some now) stop))
       (\<lambda>finished.
     obind (oexternal (env_cas env (oc_scope oc) (Some (content_digest pending)) finished (oc_parent oc)))
       (\<lambda>accepted.
     obind (current_session px env oc) (\<lambda>actual.
     if \<not> accepted \<and> actual \<noteq> finished then
       obind (orch_decision px env oc actual) (\<lambda>dec. oret (make_result CONTENDED dec))
     else
       obind (orch_decision px env oc actual) (\<lambda>dec.
       oret (make_result (if finished_status (dec_status dec) then FINISHED else ADVANCED) dec))))))))"

definition execute ::
  "'a pydantic_scheme \<Rightarrow> ('e, 'w) review_env \<Rightarrow> execution_request \<Rightarrow>
    (invocation_receipt option \<times> string option \<times> execution_stop option, 'e, 'w) orch" where
  "execute px env request w =
    (case env_execute env request w of
       (Returned v, w') \<Rightarrow> (Inr (normalize_result px (Some v)), w')
     | (Foreign_Result, w') \<Rightarrow> (Inr (normalize_result px None), w')
     | (Unavailable, w') \<Rightarrow>
         (Inr (normalize_result px (Some \<lparr>exr_receipt = None, exr_output = Delivered No_Output\<rparr>)), w')
     | (Raised e, w') \<Rightarrow> (Inl (External e), w'))"

definition orch_reserve ::
  "'a pydantic_scheme \<Rightarrow> ('e, 'w) review_env \<Rightarrow> orchestrator \<Rightarrow> review_session \<Rightarrow> bool \<Rightarrow> (review_session, 'e, 'w) orch" where
  "orch_reserve px env oc current repair =
    obind (if repair then oret (seed_doer (ses_seed current))
           else case seed_reviewers (ses_seed current) of [] \<Rightarrow> oraise Index | r # _ \<Rightarrow> oret r) (\<lambda>actor.
    obind (new_invocation_id env) (\<lambda>iid.
    obind (utc_clock env) (\<lambda>now.
    oreview (reserve_invocation px current iid (if repair then REPAIR else REVIEW) actor
      (oc_reservation oc) (Some now)))))"

definition orch_step ::
  "'a pydantic_scheme \<Rightarrow> ('e, 'w) review_env \<Rightarrow> orchestrator \<Rightarrow> (orchestration_result, 'e, 'w) orch" where
  "orch_step px env oc =
    obind (current_session px env oc) (\<lambda>current.
    obind (orch_decision px env oc current) (\<lambda>dec.
    if st_pending (ses_state current) \<noteq> None then oret (make_result AWAITING_SETTLEMENT dec)
    else if finished_status (dec_status dec) then oret (make_result FINISHED dec)
    else
      obind (orch_reserve px env oc current (dec_status dec = NEEDS_REPAIR)) (\<lambda>pending.
      obind (pending_invocation pending) (\<lambda>ivn.
      obind (authorize env ivn) (\<lambda>_.
      obind (oexternal (env_cas env (oc_scope oc) (Some (content_digest current)) pending (oc_parent oc))) (\<lambda>won.
      if \<not> won then
        obind (current_session px env oc) (\<lambda>actual.
        obind (orch_decision px env oc actual) (\<lambda>d. oret (make_result CONTENDED d)))
      else
        obind (dispatch_stop env oc pending) (\<lambda>stop.
        if stop \<noteq> None then settle px env oc pending (None, None, stop)
        else obind (execute px env (make_request px ivn pending)) (settle px env oc pending))))))))"

fun run_loop ::
  "'a pydantic_scheme \<Rightarrow> ('e, 'w) review_env \<Rightarrow> orchestrator \<Rightarrow> nat \<Rightarrow> (orchestration_result, 'e, 'w) orch" where
  "run_loop px env oc 0 = obind (orch_step px env oc) (\<lambda>r.
    oret (if orc_status r \<noteq> ADVANCED then r else make_result PAUSED (orc_decision r)))"
| "run_loop px env oc (Suc n) = obind (orch_step px env oc) (\<lambda>r.
    if orc_status r \<noteq> ADVANCED then oret r else run_loop px env oc n)"

definition orch_run ::
  "'a pydantic_scheme \<Rightarrow> ('e, 'w) review_env \<Rightarrow> orchestrator \<Rightarrow> int \<Rightarrow> (orchestration_result, 'e, 'w) orch" where
  "orch_run px env oc max_steps =
    (if \<not> (1 \<le> max_steps \<and> max_steps \<le> 64) then oraise (Value_Error Invalid)
     else run_loop px env oc (nat max_steps - 1))"

subsection \<open>Effects\<close>

datatype effect = Committed review_session | Dispatched execution_request

definition logged :: "('e, 'w) review_env \<Rightarrow> ('e, 'w \<times> effect list) review_env" where
  "logged env =
    \<lparr>env_load = (\<lambda>scope (w, l). case env_load env scope w of (r, w') \<Rightarrow> (r, (w', l))),
     env_cas = (\<lambda>scope expected upd parent (w, l). case env_cas env scope expected upd parent w of
       (r, w') \<Rightarrow> (r, (w', if r = Inr True then l @ [Committed upd] else l))),
     env_execute = (\<lambda>req (w, l). case env_execute env req w of (r, w') \<Rightarrow> (r, (w', l @ [Dispatched req]))),
     env_clock = (\<lambda>(w, l). case env_clock env w of (r, w') \<Rightarrow> (r, (w', l))),
     env_observe = (\<lambda>scope key (w, l). case env_observe env scope key w of (r, w') \<Rightarrow> (r, (w', l))),
     env_authorize = (\<lambda>ivn (w, l). case env_authorize env ivn w of (r, w') \<Rightarrow> (r, (w', l))),
     env_invocation_id = (\<lambda>(w, l). case env_invocation_id env w of (r, w') \<Rightarrow> (r, (w', l)))\<rparr>"

text \<open>
  \<open>emits m R\<close>: whatever world and log \<open>m\<close> is run in, it appends some effects to the log, and \<open>R\<close> relates
  the world before, the result, the appended effects and the world after.
\<close>

definition emits ::
  "('a, 'e, 'w \<times> effect list) orch \<Rightarrow> ('w \<Rightarrow> 'e orch_error + 'a \<Rightarrow> effect list \<Rightarrow> 'w \<Rightarrow> bool) \<Rightarrow> bool" where
  "emits m R \<longleftrightarrow> (\<forall>w l r w' l'. m (w, l) = (r, (w', l')) \<longrightarrow> (\<exists>es. l' = l @ es \<and> R w r es w'))"

lemma emitsI:
  assumes "\<And>w l r w' l'. m (w, l) = (r, (w', l')) \<Longrightarrow> \<exists>es. l' = l @ es \<and> R w r es w'"
  shows "emits m R"
  using assms by (simp add: emits_def)

lemma emitsE:
  assumes "emits m R" and "m (w, l) = (r, (w', l'))"
  obtains es where "l' = l @ es" "R w r es w'"
  using assms unfolding emits_def by blast

lemma emits_weaken: "emits m R \<Longrightarrow> (\<And>w r es w'. R w r es w' \<Longrightarrow> S w r es w') \<Longrightarrow> emits m S"
  unfolding emits_def by blast

lemma emits_oret: "(\<And>w. R w (Inr x) [] w) \<Longrightarrow> emits (oret x) R"
  by (simp add: emits_def oret_def)

lemma emits_oraise: "(\<And>w. R w (Inl e) [] w) \<Longrightarrow> emits (oraise e) R"
  by (simp add: emits_def oraise_def)

lemma emits_bind:
  assumes "emits m P" and "\<And>x. emits (f x) (Q x)"
    and "\<And>w e es w'. P w (Inl e) es w' \<Longrightarrow> R w (Inl e) es w'"
    and "\<And>w x es v r fs w'. P w (Inr x) es v \<Longrightarrow> Q x v r fs w' \<Longrightarrow> R w r (es @ fs) w'"
  shows "emits (obind m f) R"
proof (rule emitsI)
  fix w l r w' l'
  assume run: "obind m f (w, l) = (r, (w', l'))"
  obtain r0 v l0 where m: "m (w, l) = (r0, (v, l0))" by (metis prod_cases3)
  from assms(1) m obtain es where es: "l0 = l @ es" "P w r0 es v" by (rule emitsE)
  show "\<exists>es. l' = l @ es \<and> R w r es w'"
  proof (cases r0)
    case (Inl e)
    with run m es have "r = Inl e" "w' = v" "l' = l @ es" by (auto simp: obind_def)
    with Inl es(2) assms(3) show ?thesis by blast
  next
    case (Inr x)
    with run m have "f x (v, l0) = (r, (w', l'))" by (simp add: obind_def)
    with assms(2) obtain fs where "l' = l0 @ fs" "Q x v r fs w'" by (rule emitsE)
    with es Inr assms(4) show ?thesis by auto
  qed
qed

text \<open>Most computations have no effect that the log records: they are quiet.\<close>

abbreviation quiet ::
  "('w \<Rightarrow> 'w \<Rightarrow> bool) \<Rightarrow> ('a, 'e, 'w \<times> effect list) orch \<Rightarrow> bool" where
  "quiet K m \<equiv> emits m (\<lambda>w r es w'. es = [] \<and> K w w')"

definition settled :: "review_session \<Rightarrow> review_session \<Rightarrow> bool" where
  "settled pending f \<longleftrightarrow> st_pending (ses_state f) = None \<and> st_invocation_ids (ses_state f) = st_invocation_ids (ses_state pending)"

definition settle_shape :: "review_session \<Rightarrow> effect list \<Rightarrow> bool" where
  "settle_shape p es \<longleftrightarrow> es = [] \<or> (\<exists>f. settled p f \<and> es = [Committed f])"

definition tail_shape :: "'a pydantic_scheme \<Rightarrow> invocation \<Rightarrow> review_session \<Rightarrow> effect list \<Rightarrow> bool" where
  "tail_shape px ivn p es \<longleftrightarrow> settle_shape p es
    \<or> (\<exists>s. settle_shape p s \<and> es = Dispatched (make_request px ivn p) # s)"

definition step_shape ::
  "'a pydantic_scheme \<Rightarrow> ('w \<Rightarrow> 'w \<Rightarrow> bool) \<Rightarrow> (review_session \<Rightarrow> 'w \<Rightarrow> 'w \<Rightarrow> bool) \<Rightarrow> 'w \<Rightarrow> effect list \<Rightarrow> 'w \<Rightarrow> bool" where
  "step_shape px K C w es w' \<longleftrightarrow> K w w' \<and> (es = [] \<or> (\<exists>p ivn u v tail.
    es = Committed p # tail \<and> st_pending (ses_state p) = Some ivn \<and> tail_shape px ivn p tail
    \<and> K w u \<and> C p u v \<and> K v w'))"

lemma complete_invocation_settles:
  assumes "complete_invocation px pending (inv_id ivn) receipt out now stop = Inr f"
    and "st_pending (ses_state pending) = Some ivn"
  shows "settled pending f"
  using assms(1)
proof (cases rule: complete_invocation_cases)
  case (duplicate a c t)
  have r: "replay px (ses_seed pending) (ses_attempts pending) = Inr (ses_state pending)"
    using duplicate(2) by (simp add: validate_session_iff)
  from replay_pending(1) [OF r] assms(2) have l: "ses_attempts pending \<noteq> []"
    "att_completion (last (ses_attempts pending)) = None" "att_invocation (last (ses_attempts pending)) = ivn"
    by (auto split: if_splits)
  have "a = last (ses_attempts pending)"
  proof (rule ccontr)
    assume "a \<noteq> last (ses_attempts pending)"
    moreover have "a \<in> set (ses_attempts pending)" "inv_id (att_invocation a) = inv_id ivn"
      using duplicate(5) by (auto simp: find_Some_iff)
    ultimately show False
      using replay_distinct_ids [OF r] l unfolding distinct_map inj_on_def by (metis last_in_set)
  qed
  with l duplicate(6) show ?thesis by simp
next
  case (settled a t st)
  then show ?thesis
    using complete_frame(2,3) [OF settled(8)] by (auto simp: settled_def build_session_iff)
qed

text \<open>
  The laws the coordinator needs of its environment: \<open>K\<close> is kept by every operation other than a
  committing store operation (it is a preorder), and \<open>C upd\<close> relates the worlds around the commit of \<open>upd\<close>.
\<close>

locale dispatch_env =
  fixes env :: "('e, 'w) review_env" and K :: "'w \<Rightarrow> 'w \<Rightarrow> bool"
    and C :: "review_session \<Rightarrow> 'w \<Rightarrow> 'w \<Rightarrow> bool"
  assumes K_refl: "K w w" and K_trans: "K u v \<Longrightarrow> K v w \<Longrightarrow> K u w"
    and load_K: "K w (snd (env_load env scope w))"
    and clock_K: "K w (snd (env_clock env w))"
    and observe_K: "K w (snd (env_observe env scope key w))"
    and authorize_K: "K w (snd (env_authorize env ivn w))"
    and id_K: "K w (snd (env_invocation_id env w))"
    and execute_K: "K w (snd (env_execute env req w))"
    and cas_K: "K w (snd (env_cas env scope expected upd parent w))"
    and cas_C: "fst (env_cas env scope expected upd parent w) = Inr True \<Longrightarrow>
      C upd w (snd (env_cas env scope expected upd parent w))"
begin

lemma quiet_bind:
  assumes "quiet K m" and "\<And>x. quiet K (f x)"
  shows "quiet K (obind m f)"
  by (rule emits_bind [OF assms]) (auto intro: K_trans)

lemma quiet_oret: "quiet K (oret x)"
  by (rule emits_oret) (simp add: K_refl)

lemma quiet_oraise: "quiet K (oraise e)"
  by (rule emits_oraise) (simp add: K_refl)

lemma quiet_oreview: "quiet K (oreview m)"
  by (cases m) (simp_all add: oreview_def quiet_oret quiet_oraise)

lemma quiet_load: "quiet K (oexternal (env_load (logged env) scope))"
  unfolding emits_def oexternal_def logged_def using load_K
  by (auto split: prod.splits sum.splits) (metis snd_conv)+

lemma quiet_observe: "quiet K (oexternal (env_observe (logged env) scope key))"
  unfolding emits_def oexternal_def logged_def using observe_K
  by (auto split: prod.splits sum.splits) (metis snd_conv)+

lemma quiet_clock: "quiet K (utc_clock (logged env))"
  unfolding emits_def utc_clock_def logged_def using clock_K
  by (auto split: prod.splits option.splits) (metis snd_conv)+

lemma quiet_id: "quiet K (new_invocation_id (logged env))"
  unfolding emits_def new_invocation_id_def logged_def using id_K
  by (auto split: prod.splits) (metis snd_conv)+

lemma quiet_authorize: "quiet K (authorize (logged env) ivn)"
  unfolding emits_def authorize_def logged_def using authorize_K
  by (auto split: prod.splits authorization_outcome.splits) (metis snd_conv)+

lemmas quiet_basic = quiet_oret quiet_oraise quiet_oreview quiet_load quiet_observe quiet_clock quiet_id
  quiet_authorize

lemma quiet_current: "quiet K (current_session px (logged env) oc)"
  unfolding current_session_def
  by (intro quiet_bind quiet_basic) (auto intro!: quiet_bind quiet_basic split: option.split)

lemma quiet_decision: "quiet K (orch_decision px (logged env) oc ses)"
  unfolding orch_decision_def observe_artifact_def by (intro quiet_bind quiet_basic)

lemma quiet_pending: "quiet K (pending_invocation ses)"
  by (auto simp: pending_invocation_def intro: quiet_basic split: option.split)

lemma quiet_reserve: "quiet K (orch_reserve px (logged env) oc ses repair)"
  unfolding orch_reserve_def
  by (intro quiet_bind quiet_basic) (auto intro: quiet_basic split: list.split)

lemma quiet_time_stop: "quiet K (time_stop seed ivn now)"
  by (auto simp: time_stop_def Let_def intro: quiet_basic)

lemma quiet_stop: "quiet K (dispatch_stop (logged env) oc ses)"
  unfolding dispatch_stop_def
proof (intro quiet_bind quiet_pending emitsI)
  fix ivn w l r w' l'
  let ?rest = "obind (observe_artifact (logged env) oc ses) (\<lambda>observed. obind (utc_clock (logged env)) (\<lambda>now.
      if observed \<noteq> st_artifact (ses_state ses) then oret (Some STOP_ARTIFACT_DRIFT)
      else time_stop (ses_seed ses) ivn now))"
  assume run: "(case authorize (logged env) ivn (w, l) of
      (Inl Permission_Error, w') \<Rightarrow> (Inr (Some STOP_AUTHORIZATION_REVOKED), w')
    | (Inl e, w') \<Rightarrow> (Inl e, w') | (Inr _, w') \<Rightarrow> ?rest w') = (r, (w', l'))"
  obtain r0 v l0 where a: "authorize (logged env) ivn (w, l) = (r0, (v, l0))" by (metis prod_cases3)
  then have v: "l0 = l" "K w v" using quiet_authorize by (auto elim!: emitsE)
  have q: "quiet K ?rest"
    unfolding observe_artifact_def by (intro quiet_bind quiet_basic) (auto intro: quiet_basic quiet_time_stop)
  show "\<exists>es. l' = l @ es \<and> es = [] \<and> K w w'"
  proof (cases r0)
    case (Inl e)
    with run a v show ?thesis by (cases e) auto
  next
    case (Inr u)
    with run a have "?rest (v, l0) = (r, (w', l'))" by simp
    with q v show ?thesis by (auto elim!: emitsE [OF q] intro: K_trans)
  qed
qed

text \<open>A commit of \<open>upd\<close> is either refused, and quiet, or recorded and related by \<open>C upd\<close>.\<close>

lemma emits_cas:
  "emits (oexternal (env_cas (logged env) scope expected upd parent))
    (\<lambda>w r es w'. K w w' \<and> (if r = Inr True then es = [Committed upd] \<and> C upd w w' else es = []))"
proof (rule emitsI)
  fix w l r w' l'
  assume run: "oexternal (env_cas (logged env) scope expected upd parent) (w, l) = (r, (w', l'))"
  obtain a v where a: "env_cas env scope expected upd parent w = (a, v)" by fastforce
  then have "K w v" "a = Inr True \<Longrightarrow> C upd w v"
    using cas_K [of w scope expected upd parent] cas_C [of scope expected upd parent w] by auto
  with run a show "\<exists>es. l' = l @ es \<and> K w w' \<and> (if r = Inr True then es = [Committed upd] \<and> C upd w w' else es = [])"
    by (auto simp: oexternal_def logged_def split: sum.splits if_splits)
qed

lemma emits_execute:
  "emits (execute px (logged env) req) (\<lambda>w r es w'. K w w' \<and> es = [Dispatched req])"
proof (rule emitsI)
  fix w l r w' l'
  assume run: "execute px (logged env) req (w, l) = (r, (w', l'))"
  obtain a v where a: "env_execute env req w = (a, v)" by fastforce
  then have "K w v" using execute_K [of w req] by simp
  with run a show "\<exists>es. l' = l @ es \<and> K w w' \<and> es = [Dispatched req]"
    by (auto simp: execute_def logged_def split: execution_outcome.splits)
qed

lemma emits_settle:
  "emits (settle px (logged env) oc pending outcome)
    (\<lambda>w r es w'. K w w' \<and> settle_shape pending es)" (is "emits _ ?R")
proof -
  obtain receipt out stop where o: "outcome = (receipt, out, stop)" by (metis prod_cases3)
  let ?report = "\<lambda>finished accepted. obind (current_session px (logged env) oc) (\<lambda>actual.
      if \<not> accepted \<and> actual \<noteq> finished then
        obind (orch_decision px (logged env) oc actual) (\<lambda>dec. oret (make_result CONTENDED dec))
      else obind (orch_decision px (logged env) oc actual) (\<lambda>dec.
        oret (make_result (if finished_status (dec_status dec) then FINISHED else ADVANCED) dec)))"
  have report: "quiet K (?report f a)" for f a
    by (intro quiet_bind quiet_current) (auto intro!: quiet_bind quiet_decision quiet_basic)
  have commit: "emits (obind (oexternal (env_cas (logged env) (oc_scope oc) (Some (content_digest pending)) f (oc_parent oc)))
      (?report f)) ?R" if "settled pending f" for f
    by (rule emits_bind [OF emits_cas report]) (use that in \<open>auto simp: settle_shape_def intro: K_trans split: if_splits\<close>)
  have finish: "emits (obind (oreview (complete_invocation px pending (inv_id ivn) receipt (text_delivery out) (Some now) stop))
      (\<lambda>f. obind (oexternal (env_cas (logged env) (oc_scope oc) (Some (content_digest pending)) f (oc_parent oc))) (?report f))) ?R"
    if "st_pending (ses_state pending) = Some ivn" for ivn now
  proof (cases "complete_invocation px pending (inv_id ivn) receipt (text_delivery out) (Some now) stop")
    case (Inl e)
    then show ?thesis by (simp add: oreview_def obind_def oraise_def emits_def K_refl settle_shape_def)
  next
    case (Inr f)
    with commit [OF complete_invocation_settles [OF Inr that]] show ?thesis
      by (simp add: oreview_def obind_def oret_def emits_def)
  qed
  show ?thesis
  proof (cases "st_pending (ses_state pending)")
    case None
    then show ?thesis
      by (simp add: settle_def o pending_invocation_def obind_def oraise_def emits_def K_refl settle_shape_def)
  next
    case (Some ivn)
    have "emits (obind (utc_clock (logged env)) (\<lambda>now.
        obind (oreview (complete_invocation px pending (inv_id ivn) receipt (text_delivery out) (Some now) stop))
          (\<lambda>f. obind (oexternal (env_cas (logged env) (oc_scope oc) (Some (content_digest pending)) f (oc_parent oc))) (?report f)))) ?R"
      by (rule emits_bind [OF quiet_clock finish [OF Some]]) (auto simp: settle_shape_def intro: K_trans)
    then show ?thesis
      by (simp add: settle_def o pending_invocation_def Some obind_def oret_def emits_def)
  qed
qed

text \<open>
  What one step does: nothing; or it commits a session whose pending invocation is new, executes at
  most that invocation, and commits at most one settlement of it.
\<close>

lemma step_shape_trans: "K w v \<Longrightarrow> step_shape px K C v es w' \<Longrightarrow> step_shape px K C w es w'"
  unfolding step_shape_def by (metis K_trans)

lemma emits_step_prefix:
  assumes "quiet K m" and "\<And>x. emits (f x) (\<lambda>w r. step_shape px K C w)"
  shows "emits (obind m f) (\<lambda>w r. step_shape px K C w)"
  by (rule emits_bind [OF assms]) (auto intro: step_shape_trans, simp add: step_shape_def)

lemma emits_dispatch:
  "emits (obind (dispatch_stop (logged env) oc p) (\<lambda>stop.
      if stop \<noteq> None then settle px (logged env) oc p (None, None, stop)
      else obind (execute px (logged env) (make_request px ivn p)) (settle px (logged env) oc p)))
    (\<lambda>w r es w'. K w w' \<and> tail_shape px ivn p es)" (is "emits _ ?T")
proof (rule emits_bind [OF quiet_stop])
  have "emits (settle px (logged env) oc p x) ?T" for x
    by (rule emits_weaken [OF emits_settle]) (simp add: tail_shape_def)
  moreover have "emits (obind (execute px (logged env) (make_request px ivn p)) (settle px (logged env) oc p)) ?T"
    by (rule emits_bind [OF emits_execute emits_settle]) (auto simp: tail_shape_def settle_shape_def intro: K_trans)
  ultimately show "emits (if stop \<noteq> None then settle px (logged env) oc p (None, None, stop)
      else obind (execute px (logged env) (make_request px ivn p)) (settle px (logged env) oc p)) ?T" for stop
    by simp
qed (auto simp: tail_shape_def settle_shape_def intro: K_trans)

lemma emits_commit:
  assumes "st_pending (ses_state p) = Some ivn" and "quiet K lost"
    and "emits run (\<lambda>w r es w'. K w w' \<and> tail_shape px ivn p es)"
  shows "emits (obind (oexternal (env_cas (logged env) scope x p parent)) (\<lambda>won. if \<not> won then lost else run))
    (\<lambda>w r. step_shape px K C w)"
proof (rule emits_bind [OF emits_cas, where Q = "\<lambda>won. if won then (\<lambda>w r es w'. K w w' \<and> tail_shape px ivn p es)
      else (\<lambda>w r es w'. es = [] \<and> K w w')"])
  show "step_shape px K C w (es @ fs) w'"
    if "K w v \<and> (if Inr won = Inr True then es = [Committed p] \<and> C p w v else es = [])"
      "(if won then (\<lambda>w r es w'. K w w' \<and> tail_shape px ivn p es) else (\<lambda>w r es w'. es = [] \<and> K w w')) v r fs w'"
    for w won es v fs w' r
    using that assms(1) K_refl K_trans by (cases won) (simp_all add: step_shape_def; blast)+
qed (use assms(2,3) in \<open>auto simp: step_shape_def\<close>)

lemma emits_step: "emits (orch_step px (logged env) oc) (\<lambda>w r. step_shape px K C w)"
proof -
  let ?lost = "obind (current_session px (logged env) oc) (\<lambda>actual.
      obind (orch_decision px (logged env) oc actual) (\<lambda>d. oret (make_result CONTENDED d)))"
  let ?run = "\<lambda>p ivn. obind (dispatch_stop (logged env) oc p) (\<lambda>stop.
      if stop \<noteq> None then settle px (logged env) oc p (None, None, stop)
      else obind (execute px (logged env) (make_request px ivn p)) (settle px (logged env) oc p))"
  have fin: "emits (oret x) (\<lambda>w r. step_shape px K C w)" for x
    by (rule emits_oret) (simp add: step_shape_def K_refl)
  have lost: "quiet K ?lost" by (intro quiet_bind quiet_current quiet_decision quiet_basic)
  have reserved: "emits (obind (pending_invocation p) (\<lambda>ivn. obind (authorize (logged env) ivn) (\<lambda>_.
      obind (oexternal (env_cas (logged env) (oc_scope oc) x p (oc_parent oc)))
      (\<lambda>won. if \<not> won then ?lost else ?run p ivn)))) (\<lambda>w r. step_shape px K C w)" for p x
  proof (cases "st_pending (ses_state p)")
    case None
    then show ?thesis
      by (simp add: pending_invocation_def obind_def oraise_def emits_def step_shape_def K_refl)
  next
    case (Some ivn)
    from emits_step_prefix [OF quiet_authorize emits_commit [OF Some lost emits_dispatch]]
    show ?thesis by (simp add: pending_invocation_def Some obind_def oret_def emits_def)
  qed
  show ?thesis
    unfolding orch_step_def
    by (intro emits_step_prefix quiet_current quiet_decision)
      (auto intro!: emits_step_prefix fin quiet_reserve reserved)
qed

end

subsection \<open>Any environment\<close>

interpretation any: dispatch_env env "\<lambda>_ _. True" "\<lambda>_ _ _. True" for env :: "('e, 'w) review_env"
  by unfold_locales auto

fun dispatched_ids :: "effect list \<Rightarrow> string list" where
  "dispatched_ids [] = []"
| "dispatched_ids (Committed s # es) = dispatched_ids es"
| "dispatched_ids (Dispatched q # es) = inv_id (req_invocation q) # dispatched_ids es"

lemma dispatched_append [simp]: "dispatched_ids (es @ fs) = dispatched_ids es @ dispatched_ids fs"
  by (induction es rule: dispatched_ids.induct) auto

lemma make_request_invocation [simp]: "req_invocation (make_request px ivn p) = ivn"
  by (cases ivn) (simp add: make_request_def seal_def)

lemma tail_ids: "tail_shape px ivn p es \<Longrightarrow> dispatched_ids es \<in> {[], [inv_id ivn]}"
  by (auto simp: tail_shape_def settle_shape_def)

lemma step_dispatches_once: "emits (orch_step px (logged env) oc) (\<lambda>w r es w'. length (dispatched_ids es) \<le> 1)"
proof (rule emits_weaken [OF any.emits_step])
  fix w r es w'
  assume "step_shape px (\<lambda>_ _. True) (\<lambda>_ _ _. True) w es w'"
  then show "length (dispatched_ids es) \<le> 1" by (auto simp: step_shape_def dest!: tail_ids)
qed

lemma run_loop_dispatches:
  "emits (run_loop px (logged env) oc n) (\<lambda>w r es w'. length (dispatched_ids es) \<le> Suc n)"
proof (induction n)
  case 0
  show ?case unfolding run_loop.simps by (rule emits_bind [OF step_dispatches_once any.quiet_oret]) auto
next
  case (Suc n)
  have "emits (if orc_status x \<noteq> ADVANCED then oret x else run_loop px (logged env) oc n)
      (\<lambda>w r es w'. length (dispatched_ids es) \<le> Suc n)" for x
    using Suc.IH by (auto intro: emits_oret)
  then show ?case
    unfolding run_loop.simps by (rule emits_bind [OF step_dispatches_once]) auto
qed

lemma make_result_status [simp]: "orc_status (make_result s d) = s"
  by (simp add: make_result_def seal_def)

lemma run_loop_not_advanced:
  "run_loop px env oc n w = (Inr res, w') \<Longrightarrow> orc_status res \<noteq> ADVANCED"
  by (induction n arbitrary: w)
    (auto simp: obind_def oret_def split: prod.splits sum.splits if_splits)

text \<open>A session that is already pending is reported, not dispatched.\<close>

lemma awaiting_step:
  assumes "orch_step px (logged env) oc (w, l) = (r, (w', l'))"
    and "fst (env_load env (oc_scope oc) w) = Inr (Some ses)" and "st_pending (ses_state ses) \<noteq> None"
  shows "l' = l \<and> (\<forall>res. r = Inr res \<longrightarrow> orc_status res = AWAITING_SETTLEMENT)"
proof -
  let ?rest = "\<lambda>current. obind (orch_decision px (logged env) oc current) (\<lambda>dec. oret (make_result AWAITING_SETTLEMENT dec))"
  obtain w1 where load: "env_load env (oc_scope oc) w = (Inr (Some ses), w1)"
    using assms(2) by (cases "env_load env (oc_scope oc) w") simp
  obtain r0 v where c: "current_session px (logged env) oc (w, l) = (r0, (v, l))" "r0 = Inr ses \<or> (\<exists>e. r0 = Inl e)"
    using load
    by (cases "validate_session px ses"; cases "seed_scope (ses_seed ses) = oc_scope oc")
      (auto simp: current_session_def obind_def oexternal_def logged_def oreview_def oret_def oraise_def
        validate_session_iff split: sum.splits if_splits)
  show ?thesis
  proof (cases r0)
    case (Inl e)
    with assms(1) c show ?thesis by (auto simp: orch_step_def obind_def)
  next
    case (Inr s)
    with c(2) have "s = ses" by auto
    obtain r1 u l1 where d: "orch_decision px (logged env) oc ses (v, l) = (r1, (u, l1))" by (metis prod_cases3)
    then have "l1 = l" by (auto elim!: emitsE [OF any.quiet_decision])
    with assms(1,3) c(1) Inr \<open>s = ses\<close> d show ?thesis
      by (cases r1) (auto simp: orch_step_def obind_def oret_def)
  qed
qed

lemma normalized_bounds:
  assumes "normalize_result px v = (receipt, out, stop)"
  shows "pred_option valid_receipt receipt"
    and "out = Some o' \<Longrightarrow> length (utf8 o') \<le> max_output_bytes \<and> stop = None"
  using assms by (auto simp: normalize_result_def split: option.splits if_splits result_output.splits)

end
