(* ===== verification/Review_Service.thy ===== *)
theory Review_Service
  imports Review_Store_Inv Review_Orchestrator
begin

text \<open>
  The coordinator on the durable store. \<open>postgres_env\<close> gives the coordinator the store's operations on the
  database, and everything else from an environment of its own that does not touch the database;
  \<open>worker_dispatches\<close> is what one step does when nobody interferes with it. Coordinators that interleave are
  the subject of \<open>Review_Fleet\<close>. The last part shows exactly when the store takes a settlement.
\<close>

definition postgres_env ::
  "'a store_codec_scheme \<Rightarrow> worker_role \<Rightarrow> review_store_grant \<Rightarrow> ('x \<Rightarrow> moment) \<Rightarrow>
    (store_error, 'x) review_env \<Rightarrow> (store_error, review_db \<times> 'x) review_env" where
  "postgres_env px role gr db_clock base =
    \<lparr>env_load = (\<lambda>scope (db, x). (load_current px role gr scope db, (db, x))),
     env_cas = (\<lambda>scope expected upd parent (db, x).
       case compare_and_reserve px role gr (db_clock x) scope expected upd parent db of
         Inl e \<Rightarrow> (Inl e, (db, x)) | Inr (won, db') \<Rightarrow> (Inr won, (db', x))),
     env_execute = (\<lambda>req (db, x). case env_execute base req x of (r, x') \<Rightarrow> (r, (db, x'))),
     env_clock = (\<lambda>(db, x). case env_clock base x of (r, x') \<Rightarrow> (r, (db, x'))),
     env_observe = (\<lambda>scope key (db, x). case env_observe base scope key x of (r, x') \<Rightarrow> (r, (db, x'))),
     env_authorize = (\<lambda>ivn (db, x). case env_authorize base ivn x of (r, x') \<Rightarrow> (r, (db, x'))),
     env_invocation_id = (\<lambda>(db, x). case env_invocation_id base x of (r, x') \<Rightarrow> (r, (db, x')))\<rparr>"

definition keeps_dispatches :: "review_db \<times> 'x \<Rightarrow> review_db \<times> 'x \<Rightarrow> bool" where
  "keeps_dispatches u v \<longleftrightarrow> set (dispatches (fst u)) \<subseteq> set (dispatches (fst v))"

definition claims_invocation :: "review_session \<Rightarrow> review_db \<times> 'x \<Rightarrow> review_db \<times> 'x \<Rightarrow> bool" where
  "claims_invocation p u v \<longleftrightarrow> (\<forall>ivn. st_pending (ses_state p) = Some ivn \<longrightarrow>
    Some (inv_id ivn) \<notin> set (dispatches (fst u)) \<and> Some (inv_id ivn) \<in> set (dispatches (fst v)))"

lemma session_step_pending:
  assumes "session_step px cur kind upd" and "st_pending (ses_state upd) = Some ivn"
  shows "kind = RESERVE" and "att_invocation (last (ses_attempts upd)) = ivn"
proof -
  have v: "replay px (ses_seed upd) (ses_attempts upd) = Inr (ses_state upd)"
    using session_step_replays [OF assms(1)] by (simp add: validate_session_iff)
  from replay_pending(1) [OF v] assms(2) show "att_invocation (last (ses_attempts upd)) = ivn"
    by (auto split: if_splits)
  from assms show "kind = RESERVE"
  proof cases
    case (ext_complete iid receipt out now stop)
    from ext_complete(2) show ?thesis
    proof (cases rule: complete_invocation_cases)
      case (settled a t st)
      with assms(2) complete_frame(2) [OF settled(8)] show ?thesis by (auto simp: build_session_iff)
    qed (use ext_complete(3) in auto)
  qed simp
qed

lemma commit_claims:
  assumes "compare_and_reserve px role gr now scope expected upd pid db = Inr (won, db')"
  shows "set (dispatches db) \<subseteq> set (dispatches db')"
    and "won \<Longrightarrow> st_pending (ses_state upd) = Some ivn \<Longrightarrow>
      Some (inv_id ivn) \<notin> set (dispatches db) \<and> Some (inv_id ivn) \<in> set (dispatches db')"
proof -
  have "set (dispatches db) \<subseteq> set (dispatches db') \<and> (won \<longrightarrow> st_pending (ses_state upd) = Some ivn \<longrightarrow>
      Some (inv_id ivn) \<notin> set (dispatches db) \<and> Some (inv_id ivn) \<in> set (dispatches db'))"
    using assms
  proof (cases rule: commit_cases)
    case (kept reg parent current)
    then show ?thesis by simp
  next
    case (written reg parent current kind)
    have ctx: "dict_get (db_budgets db) (scope_tenant_id scope, pid) = Some parent" "seed_scope (ses_seed upd) = scope"
      "validate_session px upd = Inr upd"
      using written(2) unfolding commit_context_def by blast+
    let ?n = "next_sequence (dict_get (db_sessions db) (scope_key scope))"
    from write_transition_cases [OF written(6) ctx(2,1)] obtain vals ids where
      i: "event_identity upd kind = Inr ids"
      and d: "db' = db\<lparr>db_budgets := AList.update (scope_tenant_id scope, pid) (parent\<lparr>bg_counters := vals\<rparr>) (db_budgets db),
         db_sessions := AList.update (scope_key scope) (written_row px upd ?n) (db_sessions db),
         db_events := db_events db @ [written_event px gr current upd kind ?n ids]\<rparr>"
      and fresh: "\<And>e. e \<in> set (db_events db) \<Longrightarrow> fst ids \<noteq> None \<Longrightarrow> et_invocation e \<noteq> fst ids"
      by metis
    have db': "db_events db' = db_events db @ [written_event px gr current upd kind ?n ids]" by (simp add: d)
    have new: "fst ids = Some (inv_id ivn)" if p: "st_pending (ses_state upd) = Some ivn"
      using written(5,3)
    proof (cases rule: extension_kinds)
      case create
      then have "initial_state px (ses_seed upd) = Inr (ses_state upd)"
        using ctx(3) by (simp add: validate_session_iff)
      from initial_cases(5) [OF this] p show ?thesis by simp
    next
      case (extend cur)
      from session_step_pending [OF extend(2) p] i show ?thesis
        by (auto simp: event_identity_def)
    qed
    have ids: "dispatches db' = dispatches db @ (if fst ids = None then [] else [fst ids])"
      by (simp add: dispatches_def db' written_event_def)
    have "fst ids \<notin> set (dispatches db)" if "fst ids \<noteq> None"
      using fresh that unfolding dispatches_def by fastforce
    with new ids show ?thesis by auto
  qed
  then show "set (dispatches db) \<subseteq> set (dispatches db')"
    and "won \<Longrightarrow> st_pending (ses_state upd) = Some ivn \<Longrightarrow>
      Some (inv_id ivn) \<notin> set (dispatches db) \<and> Some (inv_id ivn) \<in> set (dispatches db')" by auto
qed

interpretation pg: dispatch_env "postgres_env px role gr db_clock base" keeps_dispatches claims_invocation
  for px :: "'a store_codec_scheme" and role gr and db_clock :: "'x \<Rightarrow> moment" and base
proof
  fix scope expected upd parent and w :: "review_db \<times> 'x"
  obtain db x where w: "w = (db, x)" by fastforce
  show "keeps_dispatches w (snd (env_cas (postgres_env px role gr db_clock base) scope expected upd parent w))"
    using commit_claims(1) by (fastforce simp: postgres_env_def keeps_dispatches_def w split: sum.split prod.split)
  show "claims_invocation upd w (snd (env_cas (postgres_env px role gr db_clock base) scope expected upd parent w))"
    if "fst (env_cas (postgres_env px role gr db_clock base) scope expected upd parent w) = Inr True"
    using that commit_claims(2)
    by (fastforce simp: postgres_env_def claims_invocation_def w split: sum.splits prod.splits)
qed (auto simp: keeps_dispatches_def postgres_env_def split: prod.split)

lemma worker_dispatches:
  assumes "orch_step px (logged (postgres_env px role gr db_clock base)) oc ((db, x), l) = (r, ((db', x'), l'))"
  shows "\<exists>ids. dispatched_ids l' = dispatched_ids l @ ids \<and> length ids \<le> 1
    \<and> (\<forall>i \<in> set ids. Some i \<notin> set (dispatches db) \<and> Some i \<in> set (dispatches db'))
    \<and> set (dispatches db) \<subseteq> set (dispatches db')"
proof -
  from pg.emits_step assms obtain es where es: "l' = l @ es"
    "step_shape px keeps_dispatches claims_invocation (db, x) es (db', x')" by (rule emitsE)
  show ?thesis
  proof (cases "es = []")
    case True
    with es show ?thesis by (intro exI [of _ "[]"]) (auto simp: step_shape_def keeps_dispatches_def)
  next
    case False
    with es(2) obtain p ivn u v tail where s: "es = Committed p # tail" "st_pending (ses_state p) = Some ivn"
      "tail_shape px ivn p tail" "keeps_dispatches (db, x) u" "claims_invocation p u v" "keeps_dispatches v (db', x')"
      "keeps_dispatches (db, x) (db', x')"
      unfolding step_shape_def by blast
    from tail_ids [OF s(3)] s es(1) show ?thesis
      by (intro exI [of _ "dispatched_ids tail"]) (auto simp: keeps_dispatches_def claims_invocation_def)
  qed
qed

lemma store_keeps_dispatches: "store_step px db db' \<Longrightarrow> set (dispatches db) \<subseteq> set (dispatches db')"
proof (induction rule: store_step.induct)
  case (step_provision parent db db')
  then show ?case by (auto elim!: provision_cases simp: dispatches_def)
next
  case (step_register seed pid db db')
  then have "db_events db' = db_events db"
    by (auto simp: register_def insert_registration_def Let_def split: if_splits option.splits)
  then show ?case by (simp add: dispatches_def)
next
  case (step_commit role gr now scope expected upd pid db won db')
  then show ?case using commit_claims(1) by blast
qed

subsection \<open>A settlement is always accepted\<close>

lemma complete_invocation_attempt:
  assumes "complete_invocation px cur iid receipt out now stop = Inr upd" and "upd \<noteq> cur"
  obtains c where "att_completion (last (ses_attempts upd)) = Some c" "cmp_receipt c = receipt"
    "ses_seed upd = ses_seed cur"
  using assms(1)
proof (cases rule: complete_invocation_cases)
  case (duplicate a c t)
  with assms(2) show thesis by simp
next
  case (settled a t st)
  then show thesis by (intro that) (auto simp: build_session_iff)
qed

lemma counters_nonneg:
  assumes "store_inv px db" and "dict_get (db_sessions db) (scope_key scope) = Some r" and "decode_row px r = Inr cur"
    and "dict_get (db_budgets db) (scope_tenant_id scope, pid) = Some b" and "bg_work_item b = scope_work_item_id scope"
  shows "0 \<le> counter_values b (Some cur) upd c"
proof -
  let ?f = "\<lambda>k r. if fst k = scope_tenant_id scope \<and> fst (snd k) = scope_work_item_id scope then session_counter px r c else 0"
  have "?f (scope_key scope) r \<le> table_sum ?f (db_sessions db)"
    by (rule table_sum_ge [OF assms(2)]) (simp add: session_counter_def split: sum.split)
  moreover have "bg_counters b c = table_sum ?f (db_sessions db)"
    using assms(1,4,5) unfolding store_inv_def accounts_ok_def work_item_usage_def by fastforce
  ultimately show ?thesis
    using assms(3) by (simp add: counter_values_def scope_key_def session_counter_def)
qed

lemma sequence_fresh:
  assumes "ledger_ok px db" and "dict_get (db_sessions db) k = Some r" and "e \<in> set (db_events db)" and "et_key e = k"
  shows "et_sequence e \<le> sn_sequence r"
proof -
  from ledger_SomeE [OF assms(1,2)] obtain items where
    i: "history_chain px None 0 (events_of db k) = Inr items"
    and r: "sn_sequence r = et_sequence (last (events_of db k))" by metis
  have q: "map et_sequence (events_of db k) = [1..<1 + length (events_of db k)]"
    using history_chain_sequences [OF i] by simp
  have e: "e \<in> set (events_of db k)" using assms(3,4) by (simp add: events_of_def)
  then have ne: "events_of db k \<noteq> []" by auto
  from e have "et_sequence e \<in> set [1..<1 + length (events_of db k)]" unfolding q [symmetric] by simp
  moreover have "et_sequence (last (events_of db k)) = last [1..<1 + length (events_of db k)]"
    using ne unfolding q [symmetric] by (simp add: last_map)
  ultimately show ?thesis using r ne by (cases "events_of db k") auto
qed

lemma settlement_commits:
  assumes inv: "store_inv px db" and scope: "valid_scope scope" "scope_tenant_id scope = grant_tenant gr"
    and role: "\<not> unsafe_role role" "\<not> unsafe_tables role"
    and reg: "dict_get (db_registrations db) (scope_key scope) = Some reg"
    and cur: "stored px db (scope_key scope) = Some cur"
    and upd: "complete_invocation px cur iid receipt out now stop = Inr upd" "upd \<noteq> cur"
    and size: "length (utf8 (encode_session px upd)) \<le> max_session_bytes"
    and range: "\<And>b c. dict_get (db_budgets db) (scope_tenant_id scope, rg_budget reg) = Some b \<Longrightarrow>
      counter_values b (Some cur) upd c < 2 ^ 63"
      "\<And>r. dict_get (db_sessions db) (scope_key scope) = Some r \<Longrightarrow> sn_sequence r + 1 < 2 ^ 31"
    and fresh: "\<And>p. receipt = Some p \<Longrightarrow> (Some (mid_provider (rcp_model p)), Some (rcp_execution p)) \<notin> set (executions db)"
  shows "\<exists>db'. compare_and_reserve px role gr t scope (Some (content_digest cur)) upd (rg_budget reg) db = Inr (True, db')"
proof -
  let ?key = "scope_key scope" and ?pid = "rg_budget reg"
  obtain r where r: "dict_get (db_sessions db) ?key = Some r" "decode_row px r = Inr cur"
    using cur by (auto simp: stored_def split: option.splits sum.splits)
  obtain b where b: "dict_get (db_budgets db) (scope_tenant_id scope, ?pid) = Some b" "bg_work_item b = scope_work_item_id scope"
    using inv reg unfolding store_inv_def registrations_ok_def by (fastforce simp: scope_key_def)
  obtain g where g: "rg_seed reg = content_digest (ses_seed cur)" "scope_key (seed_scope (ses_seed cur)) = ?key"
    using inv r reg unfolding store_inv_def sessions_ok_def by fastforce
  have v: "validate_session px cur = Inr cur" using r(2) by (simp add: decode_row_iff)
  then have s: "seed_scope (ses_seed cur) = scope"
    using seed_scope_unique [OF _ scope(1) g(2)] by (auto simp: validate_session_iff valid_session_def valid_seed_def)
  from upd obtain c where c: "att_completion (last (ses_attempts upd)) = Some c" "cmp_receipt c = receipt"
    "ses_seed upd = ses_seed cur" by (rule complete_invocation_attempt)
  have tip: "check_tip (grant_tenant gr) db scope (Some r) = Inr ()"
    using check_tip_ok [OF _ scope(1)] inv r(1) scope(2) unfolding store_inv_def by metis
  have ext: "validate_extension px (Some cur) upd = Inr COMPLETE" by (rule settlement_accepted [OF upd])
  have nonneg: "0 \<le> counter_values b (Some cur) upd k" for k by (rule counters_nonneg [OF inv r b])
  then have vals: "next_counters px t b (Some cur) upd COMPLETE = Inr (counter_values b (Some cur) upd)"
    by (simp add: next_counters_def Let_def list_ex_iff not_less)
  have big: "list_all (\<lambda>k. big_integer (counter_values b (Some cur) upd k)) counter_columns"
    using nonneg range(1) [OF b(1)] by (auto simp: list_all_iff big_integer_def intro: order.trans [of _ 0])
  have seq: "\<not> list_ex (\<lambda>e. et_key e = ?key \<and> et_sequence e = Suc (sn_sequence r)) (db_events db)"
    using sequence_fresh [of px db ?key r] inv r(1) by (fastforce simp: list_ex_iff store_inv_def)
  have unused: "\<forall>e \<in> set (db_events db). et_provider e = Some (mid_provider (rcp_model p)) \<longrightarrow>
      et_execution e \<noteq> Some (rcp_execution p)" if "receipt = Some p" for p
    using fresh [OF that] unfolding executions_def by force
  have written: "\<exists>db'. write_transition px gr t scope ?pid b (Some r) (Some cur) upd COMPLETE db = Inr db'"
    using vals big b(1) r(1) range(2) [OF r(1)] seq c unused s
    by (cases receipt)
      (auto simp: write_transition_def update_budget_def update_session_def append_event_def event_identity_def
        insert_event_def Let_def list_ex_iff)
  show ?thesis
    using scope role reg b s g(1) c(3) size upd(2) tip ext r written valid_scope_nonempty [OF scope(1)]
      complete_invocation_replays [OF upd(1)]
    by (auto simp: compare_and_reserve_def lift_review_def on_integrity_def transaction_iff [THEN iffD2] registration_def
        parent_row_def Let_def)
qed

text \<open>The four conditions are also necessary: a settlement that commits meets them.\<close>

lemma settlement_fits:
  assumes run: "compare_and_reserve px role gr t scope (Some (content_digest cur)) upd (rg_budget reg) db = Inr (True, db')"
    and cur: "stored px db (scope_key scope) = Some cur"
    and upd: "complete_invocation px cur iid receipt out now stop = Inr upd" "upd \<noteq> cur"
  shows "length (utf8 (encode_session px upd)) \<le> max_session_bytes
    \<and> (\<forall>b c. dict_get (db_budgets db) (scope_tenant_id scope, rg_budget reg) = Some b \<longrightarrow> counter_values b (Some cur) upd c < 2 ^ 63)
    \<and> (\<forall>r. dict_get (db_sessions db) (scope_key scope) = Some r \<longrightarrow> sn_sequence r + 1 < 2 ^ 31)
    \<and> (\<forall>p. receipt = Some p \<longrightarrow> (Some (mid_provider (rcp_model p)), Some (rcp_execution p)) \<notin> set (executions db))"
  using run
proof (cases rule: commit_cases)
  case (written reg' parent current kind)
  have ctx: "dict_get (db_budgets db) (scope_tenant_id scope, rg_budget reg) = Some parent" "seed_scope (ses_seed upd) = scope"
    "length (utf8 (encode_session px upd)) \<le> max_session_bytes"
    using written(2) unfolding commit_context_def by blast+
  have current: "current = Some cur" using context_stored [OF written(2)] cur by simp
  have kind: "kind = COMPLETE" using written(5) settlement_accepted [OF upd] unfolding current by simp
  obtain r where r: "dict_get (db_sessions db) (scope_key scope) = Some r"
    using cur by (auto simp: stored_def split: option.splits)
  obtain c where c: "att_completion (last (ses_attempts upd)) = Some c" "cmp_receipt c = receipt"
    using upd by (rule complete_invocation_attempt)
  note w = written(6) [unfolded current kind r write_transition_def append_event_def event_identity_def c Let_def]
  from w have big: "list_all (\<lambda>k. big_integer (counter_values parent (Some cur) upd k)) counter_columns"
    and seq: "sn_sequence r + 1 < 2 ^ 31"
    by (auto simp: next_counters_def update_budget_def update_session_def insert_event_def ebind_eq_Inr Let_def
        split: if_splits option.splits)
  have fresh: "(Some (mid_provider (rcp_model p)), Some (rcp_execution p)) \<notin> set (executions db)" if "receipt = Some p" for p
  proof -
    from write_transition_cases [OF written(6) ctx(2,1)] obtain ids where ids: "event_identity upd kind = Inr ids"
      "\<And>e. e \<in> set (db_events db) \<Longrightarrow> fst (snd ids) \<noteq> None \<Longrightarrow> snd (snd ids) \<noteq> None \<Longrightarrow> (et_provider e, et_execution e) \<noteq> snd ids"
      by metis
    from ids(1) have "ids = (None, Some (mid_provider (rcp_model p)), Some (rcp_execution p))"
      using c that by (simp add: event_identity_def kind)
    then show ?thesis using ids(2) unfolding executions_def by auto
  qed
  have "counter_values parent (Some cur) upd k < 2 ^ 63" for k
    using big by (cases k) (simp_all add: counter_columns_def big_integer_def)
  then show ?thesis using ctx seq fresh r by auto
qed simp

text \<open>What the events of a unit say of its stored session\<close>

lemma ledger_recorded:
  assumes "ledger_ok px db" and "dict_get (db_sessions db) u = Some r"
  shows "\<exists>items. history_chain px None 0 (events_of db u) = Inr items \<and> items \<noteq> []
    \<and> map et_sequence (events_of db u) = [1..<1 + length items]
    \<and> et_document (last (events_of db u)) = sn_document r \<and> et_after (last (events_of db u)) = sn_digest r
    \<and> stored px db u = Some (last items)
    \<and> session_counter px r c = int (budget_counter (st_budget (ses_state (last items))) c)"
proof -
  from ledger_SomeE [OF assms] obtain items s where i: "history_chain px None 0 (events_of db u) = Inr items" "items \<noteq> []"
    "decode_row px r = Inr s" "last items = s" "sn_digest r = et_after (last (events_of db u))"
    "sn_document r = et_document (last (events_of db u))" by metis
  then show ?thesis
    using history_chain_sequences [OF i(1)] assms(2) by (auto simp: stored_def session_counter_def)
qed

end
