(* ===== verification/Review_Fleet.thy ===== *)
theory Review_Fleet
  imports Review_Service
begin

text \<open>
  Coordinators that share the durable store and interleave at its operations.

  A worker runs one \<open>orch_step\<close> and can be interrupted at every operation on something shared: a load, a conditional
  commit, an execution. \<open>paused_env\<close> is the environment of an interrupted worker: it answers shared operations from
  the answers received so far and stops at the first one that has none, which is the worker's next query; clock, observer,
  authorizer and identifier source are the worker's own. A fleet is a database, the identifiers given to the executor so
  far, and any number of workers. In one step of a fleet a worker starts, one query of one worker is answered, or the
  administrator or anyone else commits a transaction. A load is answered from the database of that moment and a commit is
  tried on it, so that what a worker loaded may be stale when its commit is tried. A commit may succeed and its
  answer be lost. A worker that crashed takes no further step, and one that runs several steps is several workers. The
  answer of an execution depends on nothing shared, so it is given together with the request.
\<close>

declare split_paired_All [simp del] split_paired_Ex [simp del] split_paired_all [simp del]

datatype query =
    Ask_Load review_scope
  | Ask_Commit review_scope "string option" review_session string
  | Ask_Execute execution_request

datatype answer =
    Loaded "store_error + review_session option"
  | Swapped "store_error + bool"
  | Executed "store_error execution_outcome"

datatype halt = Store_Failed store_error | Waiting query

definition halting :: "store_error + 'a \<Rightarrow> halt + 'a" where
  "halting r = (case r of Inl e \<Rightarrow> Inl (Store_Failed e) | Inr v \<Rightarrow> Inr v)"

fun halting_outcome :: "store_error execution_outcome \<Rightarrow> halt execution_outcome" where
  "halting_outcome (Returned v) = Returned v"
| "halting_outcome Foreign_Result = Foreign_Result"
| "halting_outcome Unavailable = Unavailable"
| "halting_outcome (Raised e) = Raised (Store_Failed e)"

fun halting_authorization :: "store_error authorization_outcome \<Rightarrow> halt authorization_outcome" where
  "halting_authorization Authorized = Authorized"
| "halting_authorization Permission_Denied = Permission_Denied"
| "halting_authorization (Authorizer_Raised e) = Authorizer_Raised (Store_Failed e)"

definition paused_env :: "(store_error, 'x) review_env \<Rightarrow> (halt, 'x \<times> answer list) review_env" where
  "paused_env base =
    \<lparr>env_load = (\<lambda>scope (x, as). case as of Loaded r # as' \<Rightarrow> (halting r, (x, as'))
       | _ \<Rightarrow> (Inl (Waiting (Ask_Load scope)), (x, as))),
     env_cas = (\<lambda>scope expected upd parent (x, as). case as of Swapped r # as' \<Rightarrow> (halting r, (x, as'))
       | _ \<Rightarrow> (Inl (Waiting (Ask_Commit scope expected upd parent)), (x, as))),
     env_execute = (\<lambda>req (x, as). case as of Executed r # as' \<Rightarrow> (halting_outcome r, (x, as'))
       | _ \<Rightarrow> (Raised (Waiting (Ask_Execute req)), (x, as))),
     env_clock = (\<lambda>(x, as). case env_clock base x of (r, x') \<Rightarrow> (r, (x', as))),
     env_observe = (\<lambda>scope key (x, as). case env_observe base scope key x of (r, x') \<Rightarrow> (halting r, (x', as))),
     env_authorize = (\<lambda>ivn (x, as). case env_authorize base ivn x of (r, x') \<Rightarrow> (halting_authorization r, (x', as))),
     env_invocation_id = (\<lambda>(x, as). case env_invocation_id base x of (r, x') \<Rightarrow> (r, (x', as)))\<rparr>"

lemma answered:
  "env_load (paused_env base) scope (x, Loaded r # as) = (halting r, (x, as))"
  "env_cas (paused_env base) scope expected upd parent (x, Swapped s # as) = (halting s, (x, as))"
  "env_execute (paused_env base) req (x, Executed out # as) = (halting_outcome out, (x, as))"
  by (simp_all add: paused_env_def)

record 'x worker =
  wk_role :: worker_role
  wk_grant :: review_store_grant
  wk_coordinator :: orchestrator
  wk_base :: "(store_error, 'x) review_env"
  wk_start :: 'x
  wk_answers :: "answer list"

text \<open>What a worker asks next: where its step stops once every answer it has received is used up\<close>

definition asks :: "'a pydantic_scheme \<Rightarrow> 'x worker \<Rightarrow> query option" where
  "asks px w =
    (case orch_step px (paused_env (wk_base w)) (wk_coordinator w) (wk_start w, wk_answers w) of
       (Inl (External (Waiting q)), (_, [])) \<Rightarrow> Some q
     | _ \<Rightarrow> None)"

definition told :: "answer \<Rightarrow> 'x worker \<Rightarrow> 'x worker" where
  "told a w = w\<lparr>wk_answers := wk_answers w @ [a]\<rparr>"

type_synonym 'x fleet = "review_db \<times> string list \<times> 'x worker list"

inductive fleet_step :: "'a store_codec_scheme \<Rightarrow> 'x fleet \<Rightarrow> 'x fleet \<Rightarrow> bool"
  for px :: "'a store_codec_scheme" where
  fleet_start: "wk_answers w = [] \<Longrightarrow> fleet_step px (db, l, ws) (db, l, ws @ [w])"
| fleet_load: "i < length ws \<Longrightarrow> asks px (ws ! i) = Some (Ask_Load scope) \<Longrightarrow>
    fleet_step px (db, l, ws)
      (db, l, ws[i := told (Loaded (load_current px (wk_role (ws ! i)) (wk_grant (ws ! i)) scope db)) (ws ! i)])"
| fleet_commit: "i < length ws \<Longrightarrow> asks px (ws ! i) = Some (Ask_Commit scope expected upd parent) \<Longrightarrow>
    compare_and_reserve px (wk_role (ws ! i)) (wk_grant (ws ! i)) now scope expected upd parent db = Inr (won, db') \<Longrightarrow>
    fleet_step px (db, l, ws) (db', l, ws[i := told (Swapped (Inr won)) (ws ! i)])"
| fleet_refused: "i < length ws \<Longrightarrow> asks px (ws ! i) = Some (Ask_Commit scope expected upd parent) \<Longrightarrow>
    compare_and_reserve px (wk_role (ws ! i)) (wk_grant (ws ! i)) now scope expected upd parent db = Inl e \<Longrightarrow>
    fleet_step px (db, l, ws) (db, l, ws[i := told (Swapped (Inl e)) (ws ! i)])"
| fleet_lost: "i < length ws \<Longrightarrow> asks px (ws ! i) = Some (Ask_Commit scope expected upd parent) \<Longrightarrow>
    compare_and_reserve px (wk_role (ws ! i)) (wk_grant (ws ! i)) now scope expected upd parent db = Inr (won, db') \<Longrightarrow>
    fleet_step px (db, l, ws) (db', l, ws[i := told (Swapped (Inl Database_Error)) (ws ! i)])"
| fleet_execute: "i < length ws \<Longrightarrow> asks px (ws ! i) = Some (Ask_Execute req) \<Longrightarrow>
    fleet_step px (db, l, ws) (db, l @ [inv_id (req_invocation req)], ws[i := told (Executed outcome) (ws ! i)])"
| fleet_store: "store_step px db db' \<Longrightarrow> fleet_step px (db, l, ws) (db', l, ws)"

definition fleet_start_state :: "'x fleet \<Rightarrow> bool" where
  "fleet_start_state s \<longleftrightarrow> s = (empty_db, [], [])"

subsection \<open>Computations of one worker\<close>

text \<open>A computation is local when it neither uses an answer nor waits for one.\<close>

definition waiting :: "halt orch_error \<Rightarrow> bool" where
  "waiting e \<longleftrightarrow> (\<exists>q. e = External (Waiting q))"

definition isolated :: "('a, halt, 'x \<times> answer list) orch \<Rightarrow> bool" where
  "isolated m \<longleftrightarrow> (\<forall>x. (\<exists>e x'. \<not> waiting e \<and> (\<forall>as. m (x, as) = (Inl e, (x', as))))
    \<or> (\<exists>a x'. \<forall>as. m (x, as) = (Inr a, (x', as))))"

lemma isolatedE:
  assumes "isolated m"
  obtains (fail) e x' where "\<not> waiting e" "\<And>as. m (x, as) = (Inl e, (x', as))"
  | (ok) a x' where "\<And>as. m (x, as) = (Inr a, (x', as))"
  using assms unfolding isolated_def by blast

named_theorems isolated_rules

lemma isolated_oret [isolated_rules]: "isolated (oret a)"
  by (simp add: isolated_def oret_def)

lemma isolated_oraise [isolated_rules]: "\<not> waiting e \<Longrightarrow> isolated (oraise e)"
  by (auto simp: isolated_def oraise_def)

lemma isolated_bind [isolated_rules]:
  assumes "isolated m" and "\<And>a. isolated (f a)"
  shows "isolated (obind m f)"
  unfolding isolated_def
proof
  fix x
  show "(\<exists>e x'. \<not> waiting e \<and> (\<forall>as. obind m f (x, as) = (Inl e, (x', as)))) \<or> (\<exists>b x'. \<forall>as. obind m f (x, as) = (Inr b, (x', as)))"
  using assms(1)
  proof (cases rule: isolatedE [where x = x])
    case (fail e x')
    then show ?thesis by (auto simp: obind_def)
  next
    case (ok a x')
    with assms(2) [of a] show ?thesis by (simp add: obind_def isolated_def)
  qed
qed

lemma waiting_simps [simp]: "\<not> waiting (Value_Error e)" "\<not> waiting Permission_Error" "\<not> waiting Overflow"
  "\<not> waiting Assertion" "\<not> waiting Index" "\<not> waiting (External (Store_Failed s))" "waiting (External (Waiting q))"
  by (simp_all add: waiting_def)

lemma isolated_oreview [isolated_rules]: "isolated (oreview m)"
  by (cases m) (simp_all add: oreview_def isolated_rules)

lemma isolatedI:
  assumes "\<And>x. \<exists>r x'. (\<forall>as. m (x, as) = (r, (x', as))) \<and> (\<forall>e. r = Inl e \<longrightarrow> \<not> waiting e)"
  shows "isolated m"
  unfolding isolated_def
proof
  fix x
  obtain r x' where "\<And>as. m (x, as) = (r, (x', as))" "\<And>e. r = Inl e \<Longrightarrow> \<not> waiting e" using assms by metis
  then show "(\<exists>e x'. \<not> waiting e \<and> (\<forall>as. m (x, as) = (Inl e, (x', as)))) \<or> (\<exists>a x'. \<forall>as. m (x, as) = (Inr a, (x', as)))"
    by (cases r) auto
qed

lemma isolated_clock [isolated_rules]: "isolated (utc_clock (paused_env base))"
proof (rule isolatedI)
  fix x
  obtain r y where "env_clock base x = (r, y)" by fastforce
  then show "\<exists>r x'. (\<forall>as. utc_clock (paused_env base) (x, as) = (r, (x', as))) \<and> (\<forall>e. r = Inl e \<longrightarrow> \<not> waiting e)"
    by (cases r) (auto simp: utc_clock_def paused_env_def)
qed

lemma isolated_id [isolated_rules]: "isolated (new_invocation_id (paused_env base))"
proof (rule isolatedI)
  fix x
  obtain r y where "env_invocation_id base x = (r, y)" by fastforce
  then show "\<exists>r x'. (\<forall>as. new_invocation_id (paused_env base) (x, as) = (r, (x', as))) \<and> (\<forall>e. r = Inl e \<longrightarrow> \<not> waiting e)"
    by (auto simp: new_invocation_id_def paused_env_def)
qed

lemma isolated_observe [isolated_rules]: "isolated (oexternal (env_observe (paused_env base) scope key))"
proof (rule isolatedI)
  fix x
  obtain r y where "env_observe base scope key x = (r, y)" by fastforce
  then show "\<exists>r x'. (\<forall>as. oexternal (env_observe (paused_env base) scope key) (x, as) = (r, (x', as))) \<and> (\<forall>e. r = Inl e \<longrightarrow> \<not> waiting e)"
    by (cases r) (auto simp: oexternal_def paused_env_def halting_def)
qed

lemma isolated_authorize [isolated_rules]: "isolated (authorize (paused_env base) ivn)"
  unfolding isolated_def
proof
  fix x
  obtain r x' where "env_authorize base ivn x = (r, x')" by fastforce
  then show "(\<exists>e x'. \<not> waiting e \<and> (\<forall>as. authorize (paused_env base) ivn (x, as) = (Inl e, (x', as))))
    \<or> (\<exists>a x'. \<forall>as. authorize (paused_env base) ivn (x, as) = (Inr a, (x', as)))"
    by (cases r) (auto simp: authorize_def paused_env_def)
qed

lemma isolated_pending [isolated_rules]: "isolated (pending_invocation ses)"
  by (auto simp: pending_invocation_def intro: isolated_rules split: option.split)

lemma isolated_decision [isolated_rules]: "isolated (orch_decision px (paused_env base) oc ses)"
  unfolding orch_decision_def observe_artifact_def by (intro isolated_rules)

lemma isolated_reserve [isolated_rules]: "isolated (orch_reserve px (paused_env base) oc ses repair)"
  unfolding orch_reserve_def by (intro isolated_rules) (auto intro: isolated_rules split: list.split)

lemma isolated_time_stop [isolated_rules]: "isolated (time_stop seed ivn now)"
  by (auto simp: time_stop_def Let_def intro: isolated_rules)

lemma isolated_stop [isolated_rules]: "isolated (dispatch_stop (paused_env base) oc ses)"
  unfolding dispatch_stop_def
proof (intro isolated_bind isolated_pending)
  fix ivn
  let ?rest = "obind (observe_artifact (paused_env base) oc ses) (\<lambda>observed. obind (utc_clock (paused_env base)) (\<lambda>now.
      if observed \<noteq> st_artifact (ses_state ses) then oret (Some STOP_ARTIFACT_DRIFT) else time_stop (ses_seed ses) ivn now))"
  have rest: "isolated ?rest"
    unfolding observe_artifact_def by (intro isolated_rules) (auto intro: isolated_rules)
  show "isolated (\<lambda>w. case authorize (paused_env base) ivn w of
      (Inl Permission_Error, w') \<Rightarrow> (Inr (Some STOP_AUTHORIZATION_REVOKED), w')
    | (Inl e, w') \<Rightarrow> (Inl e, w') | (Inr _, w') \<Rightarrow> ?rest w')"
    unfolding isolated_def
  proof
    fix x
    show "(\<exists>e x'. \<not> waiting e \<and> (\<forall>as. (case authorize (paused_env base) ivn (x, as) of
        (Inl Permission_Error, w') \<Rightarrow> (Inr (Some STOP_AUTHORIZATION_REVOKED), w')
      | (Inl e, w') \<Rightarrow> (Inl e, w') | (Inr _, w') \<Rightarrow> ?rest w') = (Inl e, (x', as))))
      \<or> (\<exists>a x'. \<forall>as. (case authorize (paused_env base) ivn (x, as) of
        (Inl Permission_Error, w') \<Rightarrow> (Inr (Some STOP_AUTHORIZATION_REVOKED), w')
      | (Inl e, w') \<Rightarrow> (Inl e, w') | (Inr _, w') \<Rightarrow> ?rest w') = (Inr a, (x', as)))"
      using isolated_authorize [of base ivn]
    proof (cases rule: isolatedE [where x = x])
      case (fail e x')
      then show ?thesis by (cases e) auto
    next
      case (ok a x')
      with rest show ?thesis by (simp add: isolated_def)
    qed
  qed
qed

text \<open>A computation that asks for no execution\<close>

definition harmless :: "('a, halt, 'x \<times> answer list) orch \<Rightarrow> bool" where
  "harmless m \<longleftrightarrow> (\<forall>u req. fst (m u) \<noteq> Inl (External (Waiting (Ask_Execute req))))"

lemma harmless_isolated: "isolated m \<Longrightarrow> harmless m"
  unfolding harmless_def
proof (intro allI notI)
  fix u req
  assume "isolated m" "fst (m u) = Inl (External (Waiting (Ask_Execute req)))"
  then show False by (cases u, cases rule: isolatedE [of m "fst u"]) auto
qed

lemma harmless_bind:
  assumes "harmless m" and "\<And>a. harmless (f a)"
  shows "harmless (obind m f)"
  unfolding harmless_def
proof (intro allI)
  fix u req
  obtain r v where r: "m u = (r, v)" by fastforce
  then have "r \<noteq> Inl (External (Waiting (Ask_Execute req)))" using assms(1) unfolding harmless_def by (metis fst_conv)
  then show "fst (obind m f u) \<noteq> Inl (External (Waiting (Ask_Execute req)))"
    using r assms(2) by (cases r) (auto simp: obind_def harmless_def)
qed

lemma harmless_load: "harmless (oexternal (env_load (paused_env base) scope))"
  by (auto simp: harmless_def oexternal_def paused_env_def halting_def split: prod.splits sum.splits list.splits answer.splits)

lemma harmless_commit: "harmless (oexternal (env_cas (paused_env base) scope expected upd parent))"
  by (auto simp: harmless_def oexternal_def paused_env_def halting_def split: prod.splits sum.splits list.splits answer.splits)

lemma harmless_current: "harmless (current_session px (paused_env base) oc)"
  unfolding current_session_def
  by (intro harmless_bind harmless_load harmless_isolated) (auto intro!: isolated_rules split: option.split)

lemma harmless_settle: "harmless (settle px (paused_env base) oc p outcome)"
proof -
  obtain receipt out stop where o: "outcome = (receipt, out, stop)" by (metis prod_cases3)
  show ?thesis
    unfolding settle_def o prod.case
    by (intro harmless_bind harmless_commit harmless_current harmless_isolated isolated_rules)
      (auto intro!: harmless_bind harmless_isolated isolated_rules)
qed

subsection \<open>From the load to the execution\<close>

definition commit_then ::
  "'a pydantic_scheme \<Rightarrow> (store_error, 'x) review_env \<Rightarrow> orchestrator \<Rightarrow> review_session \<Rightarrow> review_session \<Rightarrow> invocation \<Rightarrow>
    (orchestration_result, halt, 'x \<times> answer list) orch" where
  "commit_then px base oc cur p ivn =
    obind (oexternal (env_cas (paused_env base) (oc_scope oc) (Some (content_digest cur)) p (oc_parent oc))) (\<lambda>won.
      if \<not> won then
        obind (current_session px (paused_env base) oc) (\<lambda>actual.
        obind (orch_decision px (paused_env base) oc actual) (\<lambda>d. oret (make_result CONTENDED d)))
      else
        obind (dispatch_stop (paused_env base) oc p) (\<lambda>stop.
        if stop \<noteq> None then settle px (paused_env base) oc p (None, None, stop)
        else obind (execute px (paused_env base) (make_request px ivn p)) (settle px (paused_env base) oc p)))"

text \<open>A computation that ends by itself or comes to the commit of a session with a pending invocation\<close>

definition prepares ::
  "'a pydantic_scheme \<Rightarrow> (store_error, 'x) review_env \<Rightarrow> orchestrator \<Rightarrow> (orchestration_result, halt, 'x \<times> answer list) orch \<Rightarrow> bool"
where
  "prepares px base oc m \<longleftrightarrow> (\<forall>x. (\<exists>res x'. (\<forall>q. res \<noteq> Inl (External (Waiting q))) \<and> (\<forall>as. m (x, as) = (res, (x', as))))
    \<or> (\<exists>cur p ivn x'. st_pending (ses_state p) = Some ivn \<and> (\<forall>as. m (x, as) = commit_then px base oc cur p ivn (x', as))))"

lemma prepares_isolated: "isolated m \<Longrightarrow> prepares px base oc m"
  unfolding prepares_def
proof
  fix x
  assume "isolated m"
  then show "(\<exists>res x'. (\<forall>q. res \<noteq> Inl (External (Waiting q))) \<and> (\<forall>as. m (x, as) = (res, (x', as))))
    \<or> (\<exists>cur p ivn x'. st_pending (ses_state p) = Some ivn \<and> (\<forall>as. m (x, as) = commit_then px base oc cur p ivn (x', as)))"
    by (cases rule: isolatedE [of m x]) (fastforce simp: waiting_def)+
qed

lemma prepares_bind:
  assumes "isolated m" and "\<And>a. prepares px base oc (f a)"
  shows "prepares px base oc (obind m f)"
  unfolding prepares_def
proof
  fix x
  show "(\<exists>res x'. (\<forall>q. res \<noteq> Inl (External (Waiting q))) \<and> (\<forall>as. obind m f (x, as) = (res, (x', as))))
    \<or> (\<exists>cur p ivn x'. st_pending (ses_state p) = Some ivn \<and> (\<forall>as. obind m f (x, as) = commit_then px base oc cur p ivn (x', as)))"
  using assms(1)
  proof (cases rule: isolatedE [where x = x])
    case (fail e x')
    then show ?thesis by (auto simp: obind_def waiting_def)
  next
    case (ok a x')
    with assms(2) [of a] show ?thesis by (simp add: obind_def prepares_def)
  qed
qed

lemma prepares_commit: "st_pending (ses_state p) = Some ivn \<Longrightarrow> prepares px base oc (commit_then px base oc cur p ivn)"
  unfolding prepares_def by blast

lemma prepares_pending:
  assumes "\<And>ivn. st_pending (ses_state p) = Some ivn \<Longrightarrow> prepares px base oc (f ivn)"
  shows "prepares px base oc (obind (pending_invocation p) f)"
proof (cases "st_pending (ses_state p)")
  case None
  then have "obind (pending_invocation p) f = oraise Assertion"
    by (simp add: fun_eq_iff obind_def pending_invocation_def oraise_def)
  then show ?thesis by (simp add: prepares_isolated isolated_rules)
next
  case (Some ivn)
  then have "obind (pending_invocation p) f = f ivn"
    by (simp add: fun_eq_iff obind_def pending_invocation_def oret_def)
  then show ?thesis using assms [OF Some] by simp
qed

text \<open>What a coordinator makes of a loaded session\<close>

definition taken :: "'a pydantic_scheme \<Rightarrow> orchestrator \<Rightarrow> store_error + review_session option \<Rightarrow>
    (review_session, halt, 'x \<times> answer list) orch" where
  "taken px oc r =
    (case r of
       Inl e \<Rightarrow> oraise (External (Store_Failed e))
     | Inr None \<Rightarrow> oraise (Value_Error Invalid)
     | Inr (Some ses) \<Rightarrow>
         obind (oreview (validate_session px ses)) (\<lambda>session.
         if seed_scope (ses_seed session) \<noteq> oc_scope oc then oraise (Value_Error Invalid) else oret session))"

lemma isolated_taken: "isolated (taken px oc r)"
  unfolding taken_def by (auto intro!: isolated_rules split: sum.split option.split)

lemma current_taken: "current_session px (paused_env base) oc (x, Loaded r # as) = taken px oc r (x, as)"
  by (cases r) (auto simp: current_session_def taken_def obind_def oexternal_def paused_env_def halting_def oraise_def
      split: option.split)

lemma obind_cong: "m u = n v \<Longrightarrow> obind m f u = obind n f v"
  by (simp add: obind_def)

lemma step_prepares:
  "\<exists>m. prepares px base oc m \<and> (\<forall>x as. orch_step px (paused_env base) oc (x, Loaded r # as) = m (x, as))"
proof -
  let ?env = "paused_env base"
  let ?K = "\<lambda>current. obind (orch_decision px ?env oc current) (\<lambda>dec.
    if st_pending (ses_state current) \<noteq> None then oret (make_result AWAITING_SETTLEMENT dec)
    else if finished_status (dec_status dec) then oret (make_result FINISHED dec)
    else obind (orch_reserve px ?env oc current (dec_status dec = NEEDS_REPAIR)) (\<lambda>pending.
      obind (pending_invocation pending) (\<lambda>ivn.
      obind (authorize ?env ivn) (\<lambda>_. commit_then px base oc current pending ivn))))"
  have "orch_step px ?env oc (x, Loaded r # as) = obind (taken px oc r) ?K (x, as)" for x as
    unfolding orch_step_def commit_then_def by (rule obind_cong) (rule current_taken)
  moreover have "prepares px base oc (obind (orch_reserve px ?env oc current repair) (\<lambda>pending.
      obind (pending_invocation pending) (\<lambda>ivn. obind (authorize ?env ivn) (\<lambda>_. commit_then px base oc current pending ivn))))"
    for current repair
    by (rule prepares_bind [OF isolated_reserve], rule prepares_pending, rule prepares_bind [OF isolated_authorize],
        rule prepares_commit)
  then have "prepares px base oc (obind (taken px oc r) ?K)"
    by (intro prepares_bind isolated_taken isolated_decision) (simp add: prepares_isolated isolated_oret)
  ultimately show ?thesis by blast
qed

lemma unanswered_load:
  assumes "\<And>r as'. as \<noteq> Loaded r # as'"
  shows "orch_step px (paused_env base) oc (x, as) = (Inl (External (Waiting (Ask_Load (oc_scope oc)))), (x, as))"
  using assms
  by (auto simp: orch_step_def obind_def current_session_def oexternal_def paused_env_def split: list.splits answer.splits)

lemma unanswered_commit:
  assumes "\<And>r as'. as \<noteq> Swapped r # as'"
  shows "commit_then px base oc cur p ivn (x, as) =
    (Inl (External (Waiting (Ask_Commit (oc_scope oc) (Some (content_digest cur)) p (oc_parent oc)))), (x, as))"
  using assms by (auto simp: commit_then_def obind_def oexternal_def paused_env_def split: list.splits answer.splits)

lemma obind_ok: "m u = (Inr a, v) \<Longrightarrow> obind m f u = f a v"
  by (simp add: obind_def)

lemma obind_swapped:
  "obind (oexternal (env_cas (paused_env base) scope expected upd parent)) f (x, Swapped (Inr won) # as) = f won (x, as)"
  by (simp add: obind_def oexternal_def answered halting_def)

text \<open>Only a worker whose commit won asks for an execution, and it asks for the invocation that it committed.\<close>

lemma execute_after_commit:
  assumes "commit_then px base oc cur p ivn (x, as) = (Inl (External (Waiting (Ask_Execute req))), (x', []))"
  shows "as = [Swapped (Inr True)] \<and> req = make_request px ivn p"
proof (cases "\<exists>r as'. as = Swapped r # as'")
  case False
  then show ?thesis using assms unanswered_commit [of as px base oc cur p ivn x] by auto
next
  case True
  then obtain r as' where as: "as = Swapped r # as'" by blast
  let ?run = "obind (dispatch_stop (paused_env base) oc p) (\<lambda>stop.
        if stop \<noteq> None then settle px (paused_env base) oc p (None, None, stop)
        else obind (execute px (paused_env base) (make_request px ivn p)) (settle px (paused_env base) oc p))"
  let ?lost = "obind (current_session px (paused_env base) oc) (\<lambda>actual.
        obind (orch_decision px (paused_env base) oc actual) (\<lambda>d. oret (make_result CONTENDED d)))"
  have lost: "harmless ?lost" by (intro harmless_bind harmless_current harmless_isolated isolated_rules)
  have r: "r = Inr True"
  proof (rule ccontr)
    assume "r \<noteq> Inr True"
    then consider e where "r = Inl e" | "r = Inr False" by (cases r) auto
    then show False
    proof cases
      case 1
      then show ?thesis using assms as by (simp add: commit_then_def obind_def oexternal_def paused_env_def halting_def)
    next
      case 2
      then have "?lost (x, as') = (Inl (External (Waiting (Ask_Execute req))), (x', []))"
        using assms as by (simp add: commit_then_def obind_swapped)
      then show ?thesis using lost unfolding harmless_def by (metis fst_conv)
    qed
  qed
  then have run: "?run (x, as') = (Inl (External (Waiting (Ask_Execute req))), (x', []))"
    using assms as by (simp add: commit_then_def obind_swapped)
  show ?thesis
    using isolated_stop [of base oc p]
  proof (cases rule: isolatedE [where x = x])
    case (fail e y)
    then show ?thesis using run by (auto simp: obind_def)
  next
    case (ok stop y)
    have run: "(if stop \<noteq> None then settle px (paused_env base) oc p (None, None, stop)
        else obind (execute px (paused_env base) (make_request px ivn p)) (settle px (paused_env base) oc p)) (y, as')
      = (Inl (External (Waiting (Ask_Execute req))), (x', []))"
      using run unfolding obind_ok [of "dispatch_stop (paused_env base) oc p", OF ok [of as']] .
    have "stop = None"
    proof (rule ccontr)
      assume "stop \<noteq> None"
      then have "settle px (paused_env base) oc p (None, None, stop) (y, as') = (Inl (External (Waiting (Ask_Execute req))), (x', []))"
        using run by simp
      then show False
        using harmless_settle [of px base oc p "(None, None, stop)"] unfolding harmless_def by (metis fst_conv)
    qed
    then have run: "obind (execute px (paused_env base) (make_request px ivn p)) (settle px (paused_env base) oc p) (y, as')
      = (Inl (External (Waiting (Ask_Execute req))), (x', []))" using run by simp
    show ?thesis
    proof (cases "\<exists>out as''. as' = Executed out # as''")
      case True
      then obtain out as'' where e: "as' = Executed out # as''" by blast
      have "(\<exists>z. execute px (paused_env base) (make_request px ivn p) (y, as') = (Inr z, (y, as'')))
        \<or> (\<exists>z. execute px (paused_env base) (make_request px ivn p) (y, as') = (Inl (External (Store_Failed z)), (y, as'')))"
        unfolding e by (cases out) (simp_all add: execute_def answered)
      then obtain z where z: "settle px (paused_env base) oc p z (y, as'') = (Inl (External (Waiting (Ask_Execute req))), (x', []))"
        using run by (auto simp: obind_def)
      then show ?thesis
        using harmless_settle [of px base oc p z] unfolding harmless_def by (metis fst_conv)
    next
      case False
      then have "execute px (paused_env base) (make_request px ivn p) (y, as') =
          (Inl (External (Waiting (Ask_Execute (make_request px ivn p)))), (y, as'))"
        by (cases as'; cases "hd as'") (auto simp: execute_def paused_env_def)
      then have "as' = [] \<and> req = make_request px ivn p" using run by (simp add: obind_def)
      then show ?thesis using r as by simp
    qed
  qed
qed

lemma asks_execution:
  assumes "asks px w = Some (Ask_Execute req)"
  obtains r and cur p :: review_session where "wk_answers w = [Loaded r, Swapped (Inr True)]" "st_pending (ses_state p) = Some (req_invocation req)"
    "asks px (w\<lparr>wk_answers := [Loaded r]\<rparr>) =
      Some (Ask_Commit (oc_scope (wk_coordinator w)) (Some (content_digest cur)) p (oc_parent (wk_coordinator w)))"
proof -
  let ?step = "orch_step px (paused_env (wk_base w)) (wk_coordinator w)"
  obtain x' where run: "?step (wk_start w, wk_answers w) = (Inl (External (Waiting (Ask_Execute req))), (x', []))"
    using assms by (auto simp: asks_def split: prod.splits sum.splits orch_error.splits halt.splits list.splits)
  show thesis
  proof (cases "\<exists>r as. wk_answers w = Loaded r # as")
    case False
    then show thesis using run unanswered_load [of "wk_answers w" px "wk_base w" "wk_coordinator w"] by auto
  next
    case True
    then obtain r as where as: "wk_answers w = Loaded r # as" by blast
    obtain m where m: "prepares px (wk_base w) (wk_coordinator w) m" "\<And>x as. ?step (x, Loaded r # as) = m (x, as)"
      using step_prepares by blast
    have "m (wk_start w, as) = (Inl (External (Waiting (Ask_Execute req))), (x', []))" using run as m(2) by simp
    then obtain cur p ivn y where p: "st_pending (ses_state p) = Some ivn"
      "\<And>as. m (wk_start w, as) = commit_then px (wk_base w) (wk_coordinator w) cur p ivn (y, as)"
      using m(1) unfolding prepares_def by (metis prod.inject)
    then have "as = [Swapped (Inr True)] \<and> req = make_request px ivn p"
      using execute_after_commit [of px "wk_base w" "wk_coordinator w" cur p ivn y as req x'] run as m(2) by simp
    moreover have "asks px (w\<lparr>wk_answers := [Loaded r]\<rparr>) =
        Some (Ask_Commit (oc_scope (wk_coordinator w)) (Some (content_digest cur)) p (oc_parent (wk_coordinator w)))"
      by (simp add: asks_def m(2) p(2) unanswered_commit)
    ultimately show thesis using that [of r p cur] as p(1) by simp
  qed
qed

subsection \<open>Claims\<close>

text \<open>The invocation a worker committed and has not given to the executor yet\<close>

definition claim :: "'a pydantic_scheme \<Rightarrow> 'x worker \<Rightarrow> string option" where
  "claim px w =
    (case wk_answers w of
       [Loaded r, Swapped (Inr True)] \<Rightarrow>
         (case asks px (w\<lparr>wk_answers := [Loaded r]\<rparr>) of
            Some (Ask_Commit scope expected upd parent) \<Rightarrow> map_option inv_id (st_pending (ses_state upd))
          | _ \<Rightarrow> None)
     | _ \<Rightarrow> None)"

lemma claim_execution: "asks px w = Some (Ask_Execute req) \<Longrightarrow> claim px w = Some (inv_id (req_invocation req))"
  by (erule asks_execution) (simp add: claim_def)

lemma claim_commit:
  assumes "claim px (told a w) = Some c" and "asks px w = Some (Ask_Commit scope expected upd parent)"
  shows "a = Swapped (Inr True) \<and> (\<exists>ivn. st_pending (ses_state upd) = Some ivn \<and> c = inv_id ivn)"
proof -
  obtain r where r: "wk_answers w @ [a] = [Loaded r, Swapped (Inr True)]"
    using assms(1) by (auto simp: claim_def told_def split: list.splits answer.splits sum.splits bool.splits)
  then have "wk_answers w = [Loaded r]" "a = Swapped (Inr True)" by (auto simp: append_eq_Cons_conv)
  moreover from this(1) have "w\<lparr>wk_answers := [Loaded r]\<rparr> = w" by (cases w) simp
  then have "asks px (w\<lparr>wk_answers := [Loaded r]\<rparr>) = Some (Ask_Commit scope expected upd parent)" using assms(2) by metis
  ultimately show ?thesis using assms by (auto simp: claim_def told_def)
qed

lemma claim_told: "a \<noteq> Swapped (Inr True) \<Longrightarrow> claim px (told a w) = None"
  by (auto simp: claim_def told_def append_eq_Cons_conv split: list.splits answer.splits sum.splits bool.splits)

definition fleet_inv :: "'a pydantic_scheme \<Rightarrow> 'x fleet \<Rightarrow> bool" where
  "fleet_inv px s \<longleftrightarrow> (case s of (db, l, ws) \<Rightarrow>
    distinct l \<and> Some ` set l \<subseteq> set (dispatches db)
    \<and> (\<forall>i < length ws. \<forall>c. claim px (ws ! i) = Some c \<longrightarrow> c \<notin> set l \<and> Some c \<in> set (dispatches db))
    \<and> (\<forall>i < length ws. \<forall>j < length ws. claim px (ws ! i) = claim px (ws ! j) \<longrightarrow> claim px (ws ! i) \<noteq> None \<longrightarrow> i = j))"

lemma fleet_invI:
  assumes "distinct l" and "Some ` set l \<subseteq> set (dispatches db)"
    and "\<And>i c. i < length ws \<Longrightarrow> claim px (ws ! i) = Some c \<Longrightarrow> c \<notin> set l \<and> Some c \<in> set (dispatches db)"
    and "\<And>i j c. i < length ws \<Longrightarrow> j < length ws \<Longrightarrow> claim px (ws ! i) = Some c \<Longrightarrow> claim px (ws ! j) = Some c \<Longrightarrow> i = j"
  shows "fleet_inv px (db, l, ws)"
  using assms unfolding fleet_inv_def by auto

lemma fleet_invD:
  assumes "fleet_inv px (db, l, ws)"
  shows "distinct l" and "Some ` set l \<subseteq> set (dispatches db)"
    and "i < length ws \<Longrightarrow> claim px (ws ! i) = Some c \<Longrightarrow> c \<notin> set l \<and> Some c \<in> set (dispatches db)"
    and "i < length ws \<Longrightarrow> j < length ws \<Longrightarrow> claim px (ws ! i) = Some c \<Longrightarrow> claim px (ws ! j) = Some c \<Longrightarrow> i = j"
  using assms unfolding fleet_inv_def by auto

lemma claim_update:
  "j < length (ws[i := w]) \<Longrightarrow> claim px (ws[i := w] ! j) = (if j = i then claim px w else claim px (ws ! j))"
  by simp

text \<open>An answer that gives no new claim\<close>

lemma unclaimed_inv:
  assumes "fleet_inv px (db, l, ws)" and "set (dispatches db) \<subseteq> set (dispatches db')" and "claim px w = None"
  shows "fleet_inv px (db', l, ws[i := w])"
proof (rule fleet_invI)
  show "distinct l" "Some ` set l \<subseteq> set (dispatches db')" using fleet_invD(1,2) [OF assms(1)] assms(2) by auto
  fix j c assume j: "j < length (ws[i := w])" "claim px (ws[i := w] ! j) = Some c"
  then have old: "j < length ws" "claim px (ws ! j) = Some c" "j \<noteq> i"
    using assms(3) by (auto simp: claim_update split: if_splits)
  then show "c \<notin> set l \<and> Some c \<in> set (dispatches db')" using fleet_invD(3) [OF assms(1)] assms(2) by blast
  fix k assume "k < length (ws[i := w])" "claim px (ws[i := w] ! k) = Some c"
  then have "k < length ws" "claim px (ws ! k) = Some c" using assms(3) by (auto simp: claim_update split: if_splits)
  then show "j = k" using fleet_invD(4) [OF assms(1)] old(1,2) by blast
qed

lemma claimed_inv:
  assumes "fleet_inv px (db, l, ws)" and "set (dispatches db) \<subseteq> set (dispatches db')" and "claim px w = Some c"
    and "Some c \<notin> set (dispatches db)" and "Some c \<in> set (dispatches db')"
  shows "fleet_inv px (db', l, ws[i := w])"
proof (rule fleet_invI)
  show "distinct l" "Some ` set l \<subseteq> set (dispatches db')" using fleet_invD(1,2) [OF assms(1)] assms(2) by auto
  have new: "c \<notin> set l" using fleet_invD(2) [OF assms(1)] assms(4) by auto
  have row: "j = i \<and> d = c \<or> j \<noteq> i \<and> j < length ws \<and> claim px (ws ! j) = Some d \<and> Some d \<in> set (dispatches db) \<and> d \<notin> set l"
    if "j < length (ws[i := w])" "claim px (ws[i := w] ! j) = Some d" for j d
    using that assms(3) fleet_invD(3) [OF assms(1), of j d] by (auto simp: claim_update split: if_splits)
  fix j d assume j: "j < length (ws[i := w])" "claim px (ws[i := w] ! j) = Some d"
  show "d \<notin> set l \<and> Some d \<in> set (dispatches db')" using row [OF j] new assms(2,5) by auto
  fix k assume k: "k < length (ws[i := w])" "claim px (ws[i := w] ! k) = Some d"
  show "j = k" using row [OF j] row [OF k] assms(4) fleet_invD(4) [OF assms(1)] by blast
qed

lemma executed_inv:
  assumes "fleet_inv px (db, l, ws)" and "i < length ws" and "claim px (ws ! i) = Some c" and "claim px w = None"
  shows "fleet_inv px (db, l @ [c], ws[i := w])"
proof (rule fleet_invI)
  have c: "c \<notin> set l" "Some c \<in> set (dispatches db)" using fleet_invD(3) [OF assms(1-3)] by auto
  then show "distinct (l @ [c])" "Some ` set (l @ [c]) \<subseteq> set (dispatches db)" using fleet_invD(1,2) [OF assms(1)] by auto
  fix j d assume j: "j < length (ws[i := w])" "claim px (ws[i := w] ! j) = Some d"
  then have old: "j < length ws" "claim px (ws ! j) = Some d" "j \<noteq> i"
    using assms(4) by (auto simp: claim_update split: if_splits)
  then have "d \<noteq> c" using fleet_invD(4) [OF assms(1,2) old(1)] assms(3) by auto
  then show "d \<notin> set (l @ [c]) \<and> Some d \<in> set (dispatches db)" using fleet_invD(3) [OF assms(1) old(1,2)] by simp
  fix k assume "k < length (ws[i := w])" "claim px (ws[i := w] ! k) = Some d"
  then have "k < length ws" "claim px (ws ! k) = Some d" using assms(4) by (auto simp: claim_update split: if_splits)
  then show "j = k" using fleet_invD(4) [OF assms(1)] old(1,2) by blast
qed

lemma fleet_step_inv:
  assumes "fleet_inv px s" and "fleet_step px s t"
  shows "fleet_inv px t"
  using assms(2,1)
proof (induction rule: fleet_step.induct)
  case (fleet_start w db l ws)
  have "claim px w = None" using fleet_start(1) by (simp add: claim_def)
  then show ?case
    using fleet_invD [OF fleet_start(2)]
    by (intro fleet_invI) (auto simp: nth_append less_Suc_eq split: if_splits)
next
  case (fleet_load i ws scope db l)
  then show ?case by (intro unclaimed_inv [where db = db]) (simp_all add: claim_told)
next
  case (fleet_commit i ws scope expected upd parent now db won db' l)
  note commit = commit_claims [OF fleet_commit(3)]
  show ?case
  proof (cases "claim px (told (Swapped (Inr won)) (ws ! i))")
    case None
    then show ?thesis using fleet_commit(4) commit(1) by (intro unclaimed_inv [where db = db])
  next
    case (Some c)
    then obtain ivn where "won" "st_pending (ses_state upd) = Some ivn" "c = inv_id ivn"
      using claim_commit [OF Some fleet_commit(2)] by auto
    then show ?thesis using fleet_commit(4) commit Some by (intro claimed_inv [where db = db and c = c]) auto
  qed
next
  case (fleet_refused i ws scope expected upd parent now db e l)
  then show ?case by (intro unclaimed_inv [where db = db]) (simp_all add: claim_told)
next
  case (fleet_lost i ws scope expected upd parent now db won db' l)
  then show ?case using commit_claims(1) [OF fleet_lost(3)] by (intro unclaimed_inv [where db = db]) (simp_all add: claim_told)
next
  case (fleet_execute i ws req db l outcome)
  then show ?case by (intro executed_inv claim_execution) (simp_all add: claim_told)
next
  case (fleet_store db db' l ws)
  then show ?case using fleet_invD [OF fleet_store(2)] store_keeps_dispatches [OF fleet_store(1)] by (intro fleet_invI) auto
qed

interpretation flt: safety fleet_start_state "fleet_step px" "fleet_inv px"
  for px :: "'a store_codec_scheme"
proof
  show "fleet_inv px s" if "fleet_start_state s" for s :: "'b fleet" using that by (auto simp: fleet_start_state_def intro: fleet_invI)
qed (rule fleet_step_inv)

end
