(* ===== verification/Review_Service_Example.thy ===== *)
theory Review_Service_Example
  imports Review_Fleet Review_Example Review_Persistence
begin

text \<open>
  A concrete run of the durable service: an administrator provisions a parent budget and registers the
  seed of the running example, a worker creates the session, and one step of a coordinator reserves,
  dispatches and settles the first review. In a second run two coordinators that loaded the same session race for it.
\<close>

definition ex_parent :: parent_budget where
  "ex_parent = seal (parent_fields ex_px)
    \<lparr>content_digest = [], par_tenant = ''t'', par_work_item = ''w'', par_id = ''b'', par_max_invocations = 4,
     par_max_repairs = 1, par_max_tokens = 50, par_max_cost = 50, par_expires_at = 1000000000\<rparr>"

definition ex_sx :: store_codec where
  "ex_sx = \<lparr>iso_moment = iso_moment ex_px, decode_review = decode_review ex_px, decode_repair = decode_repair ex_px,
     encode_review = encode_review ex_px, encode_repair = encode_repair ex_px,
     encode_session = (\<lambda>s. if s = ex_session0 then ''s0'' else if s = ex_session1 then ''s1''
        else if s = ex_session2 then ''s2'' else []),
     decode_session = (\<lambda>d. if d = ''s0'' then Some ex_session0 else if d = ''s1'' then Some ex_session1
        else if d = ''s2'' then Some ex_session2 else None),
     encode_parent = (\<lambda>p. ''b''), decode_parent = (\<lambda>d. if d = ''b'' then Some ex_parent else None)\<rparr>"

definition ex_grant :: review_store_grant where
  "ex_grant = seal grant_fields \<lparr>content_digest = [], grant_tenant = ''t'', grant_subject = ''s''\<rparr>"

definition ex_role :: worker_role where
  "ex_role = \<lparr>role_super = False, role_bypass_rls = False, role_create_role = False, role_create_db = False,
     role_owns_tables = False, role_update_limits = False, role_insert_registration = False,
     role_update_event = False, role_delete_event = False, role_truncate_event = False\<rparr>"

definition ex_base :: "(store_error, moment list) review_env" where
  "ex_base = \<lparr>env_load = (\<lambda>_ w. (Inr None, w)), env_cas = (\<lambda>_ _ _ _ w. (Inr False, w)),
     env_execute = (\<lambda>_ w. (Returned \<lparr>exr_receipt = Some (ex_receipt ''i1'' ''a''),
        exr_output = Delivered (Text_Output ''r1'')\<rparr>, w)),
     env_clock = (\<lambda>w. (Some (hd w), tl w)), env_observe = (\<lambda>_ _ w. (Inr ex_artifact, w)),
     env_authorize = (\<lambda>_ w. (Authorized, w)), env_invocation_id = (\<lambda>w. (''i1'', w))\<rparr>"

definition ex_coordinator :: orchestrator where
  "ex_coordinator = \<lparr>oc_scope = ex_scope, oc_parent = ''b'', oc_reservation = ex_held\<rparr>"

definition ex_db1 :: review_db where
  "ex_db1 = projr (provision ex_sx ex_parent empty_db)"

definition ex_db2 :: review_db where
  "ex_db2 = projr (register ex_sx ex_seed ''b'' ex_db1)"

definition ex_db3 :: review_db where
  "ex_db3 = snd (projr (compare_and_reserve ex_sx ex_role ex_grant 0 ex_scope None ex_session0 ''b'' ex_db2))"

definition ex_db4 :: review_db where
  "ex_db4 = snd (projr (compare_and_reserve ex_sx ex_role ex_grant 1 ex_scope (Some (content_digest ex_session0))
     ex_session1 ''b'' ex_db3))"

definition ex_db5 :: review_db where
  "ex_db5 = snd (projr (compare_and_reserve ex_sx ex_role ex_grant 2 ex_scope (Some (content_digest ex_session1))
     ex_session2 ''b'' ex_db4))"

lemma ex_same [simp]: "same_codec ex_sx ex_px"
  by (simp add: same_codec_def ex_sx_def)

lemmas ex_same_policy [simp] = same_policy [OF ex_same] same_valid [OF ex_same]

lemma ex_sessions_distinct [simp]:
  "ex_session0 \<noteq> ex_session1" "ex_session1 \<noteq> ex_session0" "ex_session0 \<noteq> ex_session2" "ex_session2 \<noteq> ex_session0"
  "ex_session1 \<noteq> ex_session2" "ex_session2 \<noteq> ex_session1"
proof -
  have "st_pending (ses_state ex_session0) = None" "st_pending (ses_state ex_session1) \<noteq> None"
    "st_pending (ses_state ex_session2) = None" "st_reports (ses_state ex_session0) = []"
    "st_reports (ses_state ex_session2) \<noteq> []"
    using complete_frame(2) [OF ex_state2] by (simp_all add: ex_session0 ex_session1 ex_session2)
  then show "ex_session0 \<noteq> ex_session1" "ex_session1 \<noteq> ex_session0" "ex_session0 \<noteq> ex_session2" "ex_session2 \<noteq> ex_session0"
    "ex_session1 \<noteq> ex_session2" "ex_session2 \<noteq> ex_session1" by auto
qed

lemma ex_documents [simp]:
  "encode_session ex_sx ex_session0 = ''s0''" "encode_session ex_sx ex_session1 = ''s1''"
  "encode_session ex_sx ex_session2 = ''s2''" "decode_session ex_sx ''s0'' = Some ex_session0"
  "decode_session ex_sx ''s1'' = Some ex_session1" "decode_session ex_sx ''s2'' = Some ex_session2"
  "encode_parent ex_sx p = ''b''" "decode_parent ex_sx ''b'' = Some ex_parent"
  by (simp_all add: ex_sx_def)

lemma ex_document_sizes [simp]: "length (utf8 ''s0'') = 2" "length (utf8 ''s1'') = 2" "length (utf8 ''s2'') = 2"
  by code_simp+

lemma ex_round_trips [simp]: "round_trips ex_sx ex_session0" "round_trips ex_sx ex_session1" "round_trips ex_sx ex_session2"
  "parent_round_trips ex_sx ex_parent"
  by (simp_all add: round_trips_def parent_round_trips_def)

lemma ex_parent_simps [simp]: "par_tenant ex_parent = ''t''" "par_work_item ex_parent = ''w''" "par_id ex_parent = ''b''"
  "par_max_invocations ex_parent = 4" "par_max_repairs ex_parent = 1" "par_max_tokens ex_parent = 50"
  "par_max_cost ex_parent = 50" "par_expires_at ex_parent = 1000000000"
  by (simp_all add: ex_parent_def seal_def)

interpretation prn: content_addressed "parent_fields px" for px
  by unfold_locales (simp add: parent_fields_def)

lemma ex_valid_parent [simp]: "valid_parent ex_sx ex_parent"
proof -
  have "parent_fields ex_sx = parent_fields ex_px"
    by (simp add: fun_eq_iff parent_fields_def json_moment_def ex_sx_def)
  then show ?thesis
    by (simp add: valid_parent_def valid_moment_def dt_limit_def) (simp add: ex_parent_def)
qed

lemma ex_grant_simps [simp]: "grant_tenant ex_grant = ''t''" "grant_subject ex_grant = ''s''"
  by (simp_all add: ex_grant_def seal_def)

lemma ex_role_safe [simp]: "\<not> unsafe_role ex_role" "\<not> unsafe_tables ex_role"
  by (simp_all add: ex_role_def unsafe_role_def unsafe_tables_def)

lemma ex_scope_key [simp]: "scope_key ex_scope = (''t'', ''w'', ''s'')"
  by (simp add: scope_key_def)

subsection \<open>Provisioning\<close>

definition ex_row :: "(counter \<Rightarrow> int) \<Rightarrow> budget_row" where
  "ex_row c = \<lparr>bg_work_item = ''w'', bg_limits = ''b'', bg_counters = c\<rparr>"

lemma ex_db1: "provision ex_sx ex_parent empty_db = Inr ex_db1"
  "ex_db1 = \<lparr>db_budgets = [((''t'', ''b''), ex_row (\<lambda>_. 0))], db_registrations = [], db_sessions = [], db_events = []\<rparr>"
proof -
  have "provision ex_sx ex_parent empty_db = Inr
      \<lparr>db_budgets = [((''t'', ''b''), ex_row (\<lambda>_. 0))], db_registrations = [], db_sessions = [], db_events = []\<rparr>"
    by (simp add: provision_def work_item_budget_def empty_db_def insert_budget_def dict_get_def ex_row_def)
  then show "provision ex_sx ex_parent empty_db = Inr ex_db1"
    "ex_db1 = \<lparr>db_budgets = [((''t'', ''b''), ex_row (\<lambda>_. 0))], db_registrations = [], db_sessions = [], db_events = []\<rparr>"
    by (simp_all add: ex_db1_def)
qed

definition ex_registration :: registration_row where
  "ex_registration = \<lparr>rg_budget = ''b'', rg_seed = content_digest ex_seed\<rparr>"

lemma ex_db2: "register ex_sx ex_seed ''b'' ex_db1 = Inr ex_db2"
  "ex_db2 = \<lparr>db_budgets = [((''t'', ''b''), ex_row (\<lambda>_. 0))],
     db_registrations = [((''t'', ''w'', ''s''), ex_registration)], db_sessions = [], db_events = []\<rparr>"
proof -
  have "register ex_sx ex_seed ''b'' ex_db1 = Inr \<lparr>db_budgets = [((''t'', ''b''), ex_row (\<lambda>_. 0))],
     db_registrations = [((''t'', ''w'', ''s''), ex_registration)], db_sessions = [], db_events = []\<rparr>"
    by (simp add: register_def lift_review_def Let_def parent_row_def fetch_def tenant_scope_def ex_db1(2) dict_get_def
        ex_row_def insert_registration_def ex_registration_def)
  then show "register ex_sx ex_seed ''b'' ex_db1 = Inr ex_db2"
    "ex_db2 = \<lparr>db_budgets = [((''t'', ''b''), ex_row (\<lambda>_. 0))],
     db_registrations = [((''t'', ''w'', ''s''), ex_registration)], db_sessions = [], db_events = []\<rparr>"
    by (simp_all add: ex_db2_def)
qed

subsection \<open>Three commits\<close>

lemmas ex_commit_simps = compare_and_reserve_def lift_review_def transaction_iff [THEN iffD2] registration_def
  parent_row_def fetch_def tenant_scope_def dict_get_def check_tip_def unit_events_def max_session_bytes_def
  write_transition_def next_counters_def update_budget_def update_session_def insert_session_def append_event_def
  event_identity_def insert_event_def decode_row_def decode_document_def Let_def

lemma ex_extensions [simp]:
  "validate_extension ex_px None ex_session0 = Inr CREATE"
  "validate_extension ex_px (Some ex_session0) ex_session1 = Inr RESERVE"
  "validate_extension ex_px (Some ex_session1) ex_session2 = Inr COMPLETE"
proof -
  show "validate_extension ex_px None ex_session0 = Inr CREATE"
    using start_session_replays [OF ex_session0(1)] by (simp add: validate_extension_def)
  show "validate_extension ex_px (Some ex_session0) ex_session1 = Inr RESERVE"
    by (rule reservation_accepted [OF ex_session1(1)])
  show "validate_extension ex_px (Some ex_session1) ex_session2 = Inr COMPLETE"
    by (rule settlement_accepted [OF ex_session2(1)]) simp
qed

lemma ex_attempts [simp]:
  "att_invocation (last (ses_attempts ex_session1)) = ex_invocation ''i1'' 1"
proof -
  have "replay ex_px ex_seed (ses_attempts ex_session1) = Inr ex_state1"
    using ex_validated1 by (simp add: validate_session_iff ex_session1)
  from replay_pending(1) [OF this] show ?thesis by (auto split: if_splits)
qed

definition ex_c3 :: "counter \<Rightarrow> int" where
  "ex_c3 = counter_values (ex_row (\<lambda>_. 0)) None ex_session0"

definition ex_c4 :: "counter \<Rightarrow> int" where
  "ex_c4 = counter_values (ex_row ex_c3) (Some ex_session0) ex_session1"

lemma ex_counters [simp]:
  "ex_c3 c = 0"
  "ex_c4 Invocations = 1" "ex_c4 Repairs = 0" "ex_c4 Tokens_Spent = 0" "ex_c4 Cost_Spent = 0"
  "ex_c4 Tokens_Reserved = 10" "ex_c4 Cost_Reserved = 10"
proof -
  show 3: "ex_c3 c = 0" for c
    by (cases c) (simp_all add: ex_c3_def counter_values_def ex_row_def ex_session0)
  show "ex_c4 Invocations = 1" "ex_c4 Repairs = 0" "ex_c4 Tokens_Spent = 0" "ex_c4 Cost_Spent = 0"
    "ex_c4 Tokens_Reserved = 10" "ex_c4 Cost_Reserved = 10"
    by (simp_all add: ex_c4_def counter_values_def ex_row_def ex_session0 ex_session1 3 fresh_budget_def)
qed

lemma ex_validated [simp]:
  "validate_session ex_px ex_session0 = Inr ex_session0" "validate_session ex_px ex_session1 = Inr ex_session1"
  "validate_session ex_px ex_session2 = Inr ex_session2"
  by (fact ex_validated0 ex_validated1 ex_validated2)+

lemma ex_db3: "compare_and_reserve ex_sx ex_role ex_grant t ex_scope None ex_session0 ''b'' ex_db2 = Inr (True, ex_db3)"
  "ex_db3 = \<lparr>db_budgets = [((''t'', ''b''), ex_row ex_c3)],
     db_registrations = [((''t'', ''w'', ''s''), ex_registration)],
     db_sessions = [((''t'', ''w'', ''s''), written_row ex_sx ex_session0 1)],
     db_events = [written_event ex_sx ex_grant None ex_session0 CREATE 1 (None, None, None)]\<rparr>"
proof -
  have "compare_and_reserve ex_sx ex_role ex_grant t ex_scope None ex_session0 ''b'' ex_db2 = Inr (True,
     \<lparr>db_budgets = [((''t'', ''b''), ex_row ex_c3)],
     db_registrations = [((''t'', ''w'', ''s''), ex_registration)],
     db_sessions = [((''t'', ''w'', ''s''), written_row ex_sx ex_session0 1)],
     db_events = [written_event ex_sx ex_grant None ex_session0 CREATE 1 (None, None, None)]\<rparr>)" for t
    by (simp add: ex_commit_simps ex_db2(2) ex_session0 ex_registration_def ex_row_def on_integrity_def
        counter_columns_def big_integer_def written_row_def written_event_def flip: ex_c3_def [unfolded ex_row_def])
  then show "compare_and_reserve ex_sx ex_role ex_grant t ex_scope None ex_session0 ''b'' ex_db2 = Inr (True, ex_db3)"
    "ex_db3 = \<lparr>db_budgets = [((''t'', ''b''), ex_row ex_c3)],
     db_registrations = [((''t'', ''w'', ''s''), ex_registration)],
     db_sessions = [((''t'', ''w'', ''s''), written_row ex_sx ex_session0 1)],
     db_events = [written_event ex_sx ex_grant None ex_session0 CREATE 1 (None, None, None)]\<rparr>"
    by (simp_all add: ex_db3_def)
qed

lemma ex_db4: "compare_and_reserve ex_sx ex_role ex_grant 1 ex_scope (Some (content_digest ex_session0)) ex_session1 ''b'' ex_db3
    = Inr (True, ex_db4)"
  "ex_db4 = \<lparr>db_budgets = [((''t'', ''b''), ex_row ex_c4)],
     db_registrations = [((''t'', ''w'', ''s''), ex_registration)],
     db_sessions = [((''t'', ''w'', ''s''), written_row ex_sx ex_session1 2)],
     db_events = [written_event ex_sx ex_grant None ex_session0 CREATE 1 (None, None, None),
       written_event ex_sx ex_grant (Some ex_session0) ex_session1 RESERVE 2 (Some ''i1'', None, None)]\<rparr>"
proof -
  have "compare_and_reserve ex_sx ex_role ex_grant 1 ex_scope (Some (content_digest ex_session0)) ex_session1 ''b'' ex_db3
    = Inr (True, \<lparr>db_budgets = [((''t'', ''b''), ex_row ex_c4)],
     db_registrations = [((''t'', ''w'', ''s''), ex_registration)],
     db_sessions = [((''t'', ''w'', ''s''), written_row ex_sx ex_session1 2)],
     db_events = [written_event ex_sx ex_grant None ex_session0 CREATE 1 (None, None, None),
       written_event ex_sx ex_grant (Some ex_session0) ex_session1 RESERVE 2 (Some ''i1'', None, None)]\<rparr>)"
    by (simp add: ex_commit_simps ex_db3(2) ex_session0 ex_session1 ex_registration_def ex_row_def on_integrity_def
        counter_columns_def big_integer_def written_row_def written_event_def reserve_limits_def reservation_deadline_def
        require_all.simps dt_limit_def flip: ex_c4_def [unfolded ex_row_def])
  then show "compare_and_reserve ex_sx ex_role ex_grant 1 ex_scope (Some (content_digest ex_session0)) ex_session1 ''b'' ex_db3
    = Inr (True, ex_db4)"
  "ex_db4 = \<lparr>db_budgets = [((''t'', ''b''), ex_row ex_c4)],
     db_registrations = [((''t'', ''w'', ''s''), ex_registration)],
     db_sessions = [((''t'', ''w'', ''s''), written_row ex_sx ex_session1 2)],
     db_events = [written_event ex_sx ex_grant None ex_session0 CREATE 1 (None, None, None),
       written_event ex_sx ex_grant (Some ex_session0) ex_session1 RESERVE 2 (Some ''i1'', None, None)]\<rparr>"
    by (simp_all add: ex_db4_def)
qed

lemma ex_reachable_db: "store_reachable ex_sx ex_db3" "store_reachable ex_sx ex_db4"
proof -
  have "store_reachable ex_sx ex_db1"
    by (rule reachable_step [where s = empty_db]) (auto intro: reachable_init step_provision [OF ex_db1(1)])
  then have "store_reachable ex_sx ex_db2" by (rule reachable_step) (rule step_register [OF ex_db2(1)])
  then show 3: "store_reachable ex_sx ex_db3"
    by (rule reachable_step) (rule step_commit [OF ex_db3(1) [of 0]], simp)
  from 3 show "store_reachable ex_sx ex_db4" by (rule reachable_step) (rule step_commit [OF ex_db4(1)], simp)
qed

lemma ex_stored [simp]:
  "stored ex_sx ex_db3 (''t'', ''w'', ''s'') = Some ex_session0" "stored ex_sx ex_db4 (''t'', ''w'', ''s'') = Some ex_session1"
proof -
  have "decode_row ex_sx (written_row ex_sx ex_session0 n) = Inr ex_session0"
    "decode_row ex_sx (written_row ex_sx ex_session1 n) = Inr ex_session1" for n
    by (rule written_row_decodes; simp add: max_session_bytes_def)+
  then show "stored ex_sx ex_db3 (''t'', ''w'', ''s'') = Some ex_session0"
    "stored ex_sx ex_db4 (''t'', ''w'', ''s'') = Some ex_session1"
    by (simp_all add: stored_def ex_db3(2) ex_db4(2) dict_get_def)
qed

lemma ex_registered [simp]: "dict_get (db_registrations ex_db3) (''t'', ''w'', ''s'') = Some ex_registration"
  "dict_get (db_registrations ex_db4) (''t'', ''w'', ''s'') = Some ex_registration"
  by (simp_all add: ex_db3(2) ex_db4(2) dict_get_def)

lemma ex_no_executions: "executions ex_db4 = []"
  by (simp add: executions_def ex_db4(2) written_event_def)

lemma ex_settlement_range:
  "dict_get (db_budgets ex_db4) (''t'', rg_budget ex_registration) = Some b \<Longrightarrow>
    counter_values b (Some ex_session1) ex_session2 c < 9223372036854775808"
  "dict_get (db_sessions ex_db4) (''t'', ''w'', ''s'') = Some r \<Longrightarrow> sn_sequence r < 2147483647"
proof -
  have "review_inv ex_seed ex_state2" by (rule arp.always [OF ex_reachable2])
  then have z: "bud_tokens_reserved (st_budget ex_state2) = 0" "bud_cost_reserved (st_budget ex_state2) = 0"
    using complete_frame(2) [OF ex_state2] by (simp_all add: review_inv_def funds_ok_def)
  assume "dict_get (db_budgets ex_db4) (''t'', rg_budget ex_registration) = Some b"
  then have "b = ex_row ex_c4" by (simp add: ex_db4(2) dict_get_def ex_registration_def)
  then show "counter_values b (Some ex_session1) ex_session2 c < 9223372036854775808"
    by (cases c) (simp_all add: counter_values_def ex_row_def ex_session1 ex_session2 z)
qed (auto simp: ex_db4(2) dict_get_def written_row_def)

lemma ex_db5: "compare_and_reserve ex_sx ex_role ex_grant 2 ex_scope (Some (content_digest ex_session1)) ex_session2 ''b'' ex_db4
    = Inr (True, ex_db5)"
proof -
  have "\<exists>db'. compare_and_reserve ex_sx ex_role ex_grant 2 ex_scope (Some (content_digest ex_session1)) ex_session2
      (rg_budget ex_registration) ex_db4 = Inr (True, db')"
    by (rule settlement_commits [OF rst.always [OF ex_reachable_db(2)],
          where receipt = "Some (ex_receipt ''i1'' ''a'')" and out = "Text_Output ''r1''" and iid = "''i1''"
          and now = "Some 2" and stop = None])
      (use ex_settlement_range in \<open>simp_all add: ex_session2(1) max_session_bytes_def ex_no_executions\<close>)
  then show ?thesis by (auto simp: ex_registration_def ex_db5_def)
qed

subsection \<open>One step of the coordinator\<close>

lemma ex_load:
  "load_current ex_sx ex_role ex_grant ex_scope ex_db3 = Inr (Some ex_session0)"
  "load_current ex_sx ex_role ex_grant ex_scope ex_db4 = Inr (Some ex_session1)"
  "load_current ex_sx ex_role ex_grant ex_scope ex_db5 = Inr (Some ex_session2)"
proof -
  have 5: "store_reachable ex_sx ex_db5"
    using ex_reachable_db(2) by (rule reachable_step) (rule step_commit [OF ex_db5], simp)
  have s: "stored ex_sx ex_db5 (''t'', ''w'', ''s'') = Some ex_session2"
    using commit_refines_map [OF ex_db5] by simp
  have r: "dict_get (db_registrations ex_db5) (scope_key ex_scope) \<noteq> None"
  proof -
    obtain row where "dict_get (db_sessions ex_db5) (''t'', ''w'', ''s'') = Some row"
      using s by (auto simp: stored_def split: option.splits)
    with rst.always [OF 5] show ?thesis unfolding store_inv_def sessions_ok_def ex_scope_key by blast
  qed
  show "load_current ex_sx ex_role ex_grant ex_scope ex_db3 = Inr (Some ex_session0)"
    using load_reads_stored [OF rst.always [OF ex_reachable_db(1)], of ex_scope ex_grant ex_role] by simp
  show "load_current ex_sx ex_role ex_grant ex_scope ex_db4 = Inr (Some ex_session1)"
    using load_reads_stored [OF rst.always [OF ex_reachable_db(2)], of ex_scope ex_grant ex_role] by simp
  show "load_current ex_sx ex_role ex_grant ex_scope ex_db5 = Inr (Some ex_session2)"
    using load_reads_stored [OF rst.always [OF 5], of ex_scope ex_grant ex_role] r s by simp
qed

lemma ex_evaluate: "\<exists>d. evaluate ex_px ex_session0 ex_artifact (Some 1) = Inr d \<and> dec_status d = NEEDS_REVIEW"
  "\<exists>d. evaluate ex_px ex_session2 ex_artifact (Some 2) = Inr d \<and> dec_status d = NEEDS_REVIEW"
proof -
  have n: "\<not> needs_repair ex_state0" "\<not> needs_repair ex_state2"
    by (simp_all add: needs_repair_def open_findings_def)
  show "\<exists>d. evaluate ex_px ex_session0 ex_artifact (Some 1) = Inr d \<and> dec_status d = NEEDS_REVIEW"
    using n by (auto simp: evaluate_def ex_session0 decide_status_def eligibility_reasons_def within_window_def Let_def
        now_value_def)
  show "\<exists>d. evaluate ex_px ex_session2 ex_artifact (Some 2) = Inr d \<and> dec_status d = NEEDS_REVIEW"
    using n by (auto simp: evaluate_def ex_session2 decide_status_def eligibility_reasons_def within_window_def Let_def
        now_value_def)
qed

definition ex_env :: "(store_error, (review_db \<times> moment list) \<times> effect list) review_env" where
  "ex_env = logged (postgres_env ex_sx ex_role ex_grant hd ex_base)"

definition ex_request :: execution_request where
  "ex_request = make_request ex_sx (ex_invocation ''i1'' 1) ex_session1"

definition ex_log :: "effect list" where
  "ex_log = [Committed ex_session1, Dispatched ex_request, Committed ex_session2]"

lemmas ex_env_simps = ex_env_def logged_def postgres_env_def ex_base_def

lemma ex_current:
  "current_session ex_sx ex_env ex_coordinator ((ex_db3, ts), l) = (Inr ex_session0, ((ex_db3, ts), l))"
  "current_session ex_sx ex_env ex_coordinator ((ex_db5, ts), l) = (Inr ex_session2, ((ex_db5, ts), l))"
  by (simp_all add: current_session_def obind_def oexternal_def oreview_def oret_def ex_env_simps ex_coordinator_def
      ex_load ex_session0 ex_session2)

lemma ex_decisions:
  "\<exists>d. orch_decision ex_sx ex_env ex_coordinator ex_session0 ((db, 1 # ts), l) = (Inr d, ((db, ts), l)) \<and> dec_status d = NEEDS_REVIEW"
  "\<exists>d. orch_decision ex_sx ex_env ex_coordinator ex_session2 ((db, 2 # ts), l) = (Inr d, ((db, ts), l)) \<and> dec_status d = NEEDS_REVIEW"
  using ex_evaluate
  by (auto simp: orch_decision_def observe_artifact_def obind_def oexternal_def utc_clock_def oreview_def oret_def ex_env_simps)

lemma ex_settle:
  "\<exists>res. settle ex_sx ex_env ex_coordinator ex_session1 (Some (ex_receipt ''i1'' ''a''), Some ''r1'', None) ((ex_db4, [2, 2]), l)
    = (Inr res, ((ex_db5, []), l @ [Committed ex_session2]))"
proof -
  have cas: "oexternal (env_cas ex_env (oc_scope ex_coordinator) (Some (content_digest ex_session1)) ex_session2
      (oc_parent ex_coordinator)) ((ex_db4, [2]), l) = (Inr True, ((ex_db5, [2]), l @ [Committed ex_session2]))"
    using ex_db5 by (simp add: ex_env_simps oexternal_def ex_coordinator_def)
  have p: "st_pending (ses_state ex_session1) = Some (ex_invocation ''i1'' 1)" by (simp add: ex_session1)
  have c: "complete_invocation ex_px ex_session1 ''i1'' (Some (ex_receipt ''i1'' ''a'')) (text_delivery (Some ''r1'')) (Some 2) None
      = Inr ex_session2" using ex_session2(1) by (simp add: text_delivery_def)
  have t: "utc_clock ex_env ((db, 2 # ts), l) = (Inr 2, ((db, ts), l))" for db ts
    by (simp add: utc_clock_def ex_env_simps)
  from ex_decisions(2) [of ex_db5 "[]" "l @ [Committed ex_session2]"] show ?thesis
    using ex_current(2) by (auto simp: settle_def obind_def pending_invocation_def p oret_def t c cas oreview_def)
qed

lemma ex_step: "\<exists>res. orch_step ex_sx ex_env ex_coordinator ((ex_db3, [1, 1, 1, 2, 2]), []) = (Inr res, ((ex_db5, []), ex_log))"
proof -
  have cas: "oexternal (env_cas ex_env (oc_scope ex_coordinator) (Some (content_digest ex_session0)) ex_session1
      (oc_parent ex_coordinator)) ((ex_db3, 1 # ts), l) = (Inr True, ((ex_db4, 1 # ts), l @ [Committed ex_session1]))" for ts l
    using ex_db4(1) by (simp add: ex_env_simps oexternal_def ex_coordinator_def)
  have res: "orch_reserve ex_sx ex_env ex_coordinator ex_session0 False ((db, 1 # ts), l) = (Inr ex_session1, ((db, ts), l))"
    for db ts l
    using ex_session1(1) by (simp add: orch_reserve_def obind_def oret_def new_invocation_id_def utc_clock_def oreview_def
        ex_env_simps ex_session0 ex_coordinator_def)
  have p: "pending_invocation ex_session1 w = (Inr (ex_invocation ''i1'' 1), w)" for w
    by (simp add: pending_invocation_def ex_session1 oret_def)
  have a: "authorize ex_env ivn w = (Inr (), w)" for ivn w
    by (cases w) (auto simp: authorize_def ex_env_simps split: prod.split)
  have obs: "observe_artifact ex_env ex_coordinator ses w = (Inr ex_artifact, w)" for ses w
    by (cases w) (auto simp: observe_artifact_def oexternal_def ex_env_simps split: prod.split)
  have clk: "utc_clock ex_env ((db, t # ts), l) = (Inr t, ((db, ts), l))" for db t ts l
    by (simp add: utc_clock_def ex_env_simps)
  have stop: "dispatch_stop ex_env ex_coordinator ex_session1 ((db, 1 # ts), l) = (Inr None, ((db, ts), l))" for db ts l
    by (simp add: dispatch_stop_def obind_def p a obs clk ex_session1 time_stop_def dt_limit_def oret_def)
  have short: "length (utf8 ''r1'') = 2" by code_simp
  have exec: "execute ex_sx ex_env ex_request ((db, ts), l) =
      (Inr (Some (ex_receipt ''i1'' ''a''), Some ''r1'', None), ((db, ts), l @ [Dispatched ex_request]))" for db ts l
    by (simp add: execute_def ex_env_simps normalize_result_def short max_output_bytes_def)
  from ex_decisions(1) [of ex_db3 "[1, 1, 2, 2]" "[]"] ex_settle [of "[Committed ex_session1, Dispatched ex_request]"]
  show ?thesis
    by (auto simp: orch_step_def obind_def ex_current ex_session0 finished_status_def res p a cas stop exec
        ex_log_def ex_request_def [symmetric])
qed

subsection \<open>Two coordinators race\<close>

definition ex_worker :: "answer list \<Rightarrow> moment list worker" where
  "ex_worker as = \<lparr>wk_role = ex_role, wk_grant = ex_grant, wk_coordinator = ex_coordinator, wk_base = ex_base,
     wk_start = [1, 1, 1, 2, 2], wk_answers = as\<rparr>"

definition ex_tip :: answer where
  "ex_tip = Loaded (Inr (Some ex_session0))"

lemma ex_worker_simps [simp]: "wk_role (ex_worker as) = ex_role" "wk_grant (ex_worker as) = ex_grant"
  "wk_answers (ex_worker as) = as" "told a (ex_worker as) = ex_worker (as @ [a])"
  by (simp_all add: ex_worker_def told_def)

lemmas ex_paused_simps = paused_env_def ex_base_def halting_def

lemma ex_raced_step:
  "orch_step ex_sx (paused_env ex_base) ex_coordinator ([1, 1, 1, 2, 2], ex_tip # as) =
    commit_then ex_sx ex_base ex_coordinator ex_session0 ex_session1 (ex_invocation ''i1'' 1) ([1, 2, 2], as)"
proof -
  let ?env = "paused_env ex_base"
  have cur: "current_session ex_sx ?env ex_coordinator (ts, ex_tip # as) = (Inr ex_session0, (ts, as))" for ts as
    by (simp add: current_session_def obind_def oexternal_def oreview_def oret_def ex_tip_def answered halting_def
        ex_coordinator_def ex_session0)
  have dec: "\<exists>d. orch_decision ex_sx ?env ex_coordinator ex_session0 (1 # ts, as) = (Inr d, (ts, as)) \<and> dec_status d = NEEDS_REVIEW"
    for ts as
    using ex_evaluate(1)
    by (auto simp: orch_decision_def observe_artifact_def obind_def oexternal_def utc_clock_def oreview_def oret_def ex_paused_simps)
  have res: "orch_reserve ex_sx ?env ex_coordinator ex_session0 False (1 # ts, as) = (Inr ex_session1, (ts, as))" for ts as
    using ex_session1(1) by (simp add: orch_reserve_def obind_def oret_def new_invocation_id_def utc_clock_def oreview_def
        ex_paused_simps ex_session0 ex_coordinator_def)
  have p: "pending_invocation ex_session1 w = (Inr (ex_invocation ''i1'' 1), w)" for w
    by (simp add: pending_invocation_def ex_session1 oret_def)
  have a: "authorize ?env ivn (ts, as) = (Inr (), (ts, as))" for ivn ts as
    by (simp add: authorize_def ex_paused_simps)
  from dec [of "[1, 1, 2, 2]" as] show ?thesis
    by (auto simp: orch_step_def obind_def [of "current_session x y z" for x y z] cur
        obind_def [of "orch_decision x y z u" for x y z u] ex_session0 finished_status_def
        obind_def [of "orch_reserve x y z u v" for x y z u v] res obind_def [of "pending_invocation x" for x] p
        obind_def [of "authorize x y" for x y] a commit_then_def)
qed

lemma ex_race_asks:
  "asks ex_sx (ex_worker []) = Some (Ask_Load ex_scope)"
  "asks ex_sx (ex_worker [ex_tip]) = Some (Ask_Commit ex_scope (Some (content_digest ex_session0)) ex_session1 ''b'')"
  "asks ex_sx (ex_worker [ex_tip, Swapped (Inr True)]) = Some (Ask_Execute ex_request)"
  "asks ex_sx (ex_worker [ex_tip, Swapped (Inr False)]) = Some (Ask_Load ex_scope)"
proof -
  let ?env = "paused_env ex_base"
  show "asks ex_sx (ex_worker []) = Some (Ask_Load ex_scope)"
    by (simp add: asks_def ex_worker_def unanswered_load ex_coordinator_def)
  show "asks ex_sx (ex_worker [ex_tip]) = Some (Ask_Commit ex_scope (Some (content_digest ex_session0)) ex_session1 ''b'')"
    by (simp add: asks_def ex_worker_def ex_raced_step unanswered_commit) (simp add: ex_coordinator_def)
  have p: "pending_invocation ex_session1 w = (Inr (ex_invocation ''i1'' 1), w)" for w
    by (simp add: pending_invocation_def ex_session1 oret_def)
  have stop: "dispatch_stop ?env ex_coordinator ex_session1 (1 # ts, as) = (Inr None, (ts, as))" for ts as
    by (simp add: dispatch_stop_def obind_def p authorize_def observe_artifact_def oexternal_def utc_clock_def ex_paused_simps
        ex_session1 time_stop_def dt_limit_def oret_def)
  have exec: "execute ex_sx ?env ex_request (ts, []) = (Inl (External (Waiting (Ask_Execute ex_request))), (ts, []))" for ts
    by (simp add: execute_def paused_env_def)
  show "asks ex_sx (ex_worker [ex_tip, Swapped (Inr True)]) = Some (Ask_Execute ex_request)"
    by (simp add: asks_def ex_worker_def ex_raced_step commit_then_def obind_swapped)
      (simp add: obind_def stop exec ex_request_def [symmetric])
  show "asks ex_sx (ex_worker [ex_tip, Swapped (Inr False)]) = Some (Ask_Load ex_scope)"
    by (simp add: asks_def ex_worker_def ex_raced_step commit_then_def obind_swapped)
      (simp add: obind_def current_session_def oexternal_def paused_env_def ex_coordinator_def)
qed

lemma ex_lost_commit: "compare_and_reserve ex_sx ex_role ex_grant t ex_scope (Some (content_digest ex_session0)) ex_session1 ''b'' ex_db4
    = Inr (False, ex_db4)"
  by (simp add: ex_commit_simps ex_db4(2) ex_session0 ex_session1 ex_registration_def ex_row_def on_integrity_def
      written_row_def written_event_def)

lemma ex_race: "reachable fleet_start_state (fleet_step ex_sx) (ex_db4, [''i1''],
    [ex_worker [ex_tip, Swapped (Inr True), Executed Unavailable], ex_worker [ex_tip, Swapped (Inr False)]])"
proof -
  let ?R = "reachable fleet_start_state (fleet_step ex_sx)"
  have lift: "?R (db, [], [] :: moment list worker list)" if "store_reachable ex_sx db" for db
    using that by (induction rule: reachable.induct) (auto simp: fleet_start_state_def intro: reachable_init reachable_step fleet_store)
  have 1: "?R (ex_db3, [], [ex_worker []])"
    using reachable_step [OF lift [OF ex_reachable_db(1)] fleet_start [of "ex_worker []" ex_sx ex_db3 "[]" "[]"]] by simp
  have 2: "?R (ex_db3, [], [ex_worker [], ex_worker []])"
    using reachable_step [OF 1 fleet_start [of "ex_worker []" ex_sx ex_db3 "[]"]] by simp
  have 3: "?R (ex_db3, [], [ex_worker [ex_tip], ex_worker []])"
    using reachable_step [OF 2 fleet_load [of 0 _ ex_sx]] by (simp add: ex_race_asks ex_load ex_tip_def)
  have 4: "?R (ex_db3, [], [ex_worker [ex_tip], ex_worker [ex_tip]])"
    using reachable_step [OF 3 fleet_load [of 1 _ ex_sx]] by (simp add: ex_race_asks ex_load ex_tip_def)
  have 5: "?R (ex_db4, [], [ex_worker [ex_tip, Swapped (Inr True)], ex_worker [ex_tip]])"
    using reachable_step [OF 4 fleet_commit [of 0 _ ex_sx]] ex_db4(1) by (simp add: ex_race_asks)
  have 6: "?R (ex_db4, [], [ex_worker [ex_tip, Swapped (Inr True)], ex_worker [ex_tip, Swapped (Inr False)]])"
    using reachable_step [OF 5 fleet_commit [of 1 _ ex_sx ex_scope "Some (content_digest ex_session0)" ex_session1 "''b''" 1 ex_db4 False ex_db4]]
      ex_lost_commit by (simp add: ex_race_asks)
  show ?thesis
    using reachable_step [OF 6 fleet_execute [of 0 _ ex_sx ex_request ex_db4 "[]" Unavailable]] by (simp add: ex_race_asks ex_request_def)
qed

end
