(* ===== verification/Review_Service_Properties.thy ===== *)
theory Review_Service_Properties
  imports Review_Service_Example
begin

text \<open>
  The properties of the durable store and of the coordinator that uses it, each with a witness on the
  run of \<open>Review_Service_Example\<close>.
\<close>

text \<open>
  C25. In every database the store reaches, the parent's counters and the ledger of events agree. Each counter of a
  parent budget is the sum of that counter over all sessions of the budget's work item, and every stored session is what
  its unit's events record: they are numbered from one without a gap, each follows its predecessor by one allowed transition, they
  end with the stored session, and replaying them gives the very counter that the sum takes. A unit without a session has no
  event, and no invocation and no reported execution is recorded twice in the whole ledger. The counted invocations and repairs are within the
  ceilings of the budget that was provisioned: no session, however it is started or settled, refills it.
\<close>

theorem parent_counters:
  assumes "store_reachable px db" and "dict_get (db_budgets db) k = Some b"
  shows "bg_counters b c = work_item_usage px db (fst k) (bg_work_item b) c \<and>
    (\<exists>p. decode_parent px (bg_limits b) = Some p \<and> (par_tenant p, par_id p) = k
       \<and> bg_counters b Invocations \<le> int (par_max_invocations p) \<and> bg_counters b Repairs \<le> int (par_max_repairs p))
    \<and> (\<forall>u r. dict_get (db_sessions db) u = Some r \<longrightarrow>
        (\<exists>items. history_chain px None 0 (events_of db u) = Inr items \<and> items \<noteq> []
          \<and> map et_sequence (events_of db u) = [1..<1 + length items]
          \<and> et_document (last (events_of db u)) = sn_document r \<and> et_after (last (events_of db u)) = sn_digest r
          \<and> stored px db u = Some (last items)
          \<and> session_counter px r c = int (budget_counter (st_budget (ses_state (last items))) c)))
    \<and> (\<forall>u. dict_get (db_sessions db) u = None \<longrightarrow> events_of db u = [])
    \<and> distinct (dispatches db) \<and> distinct (executions db)"
proof -
  have inv: "store_inv px db" using assms(1) by (rule rst.always)
  then have "accounts_ok px db" and "budgets_ok px db" and ledger: "ledger_ok px db" by (simp_all add: store_inv_def)
  then have "bg_counters b c = work_item_usage px db (fst k) (bg_work_item b) c \<and>
    (\<exists>p. decode_parent px (bg_limits b) = Some p \<and> (par_tenant p, par_id p) = k
       \<and> bg_counters b Invocations \<le> int (par_max_invocations p) \<and> bg_counters b Repairs \<le> int (par_max_repairs p))"
    using assms(2) unfolding accounts_ok_def budgets_ok_def by blast
  then show ?thesis
    using ledger_recorded [OF ledger] ledger_NoneD [OF ledger] inv by (auto simp: store_inv_def)
qed

theorem parent_counters_witness:
  "bg_counters (ex_row ex_c4) Tokens_Reserved = work_item_usage ex_sx ex_db4 ''t'' ''w'' Tokens_Reserved
    \<and> bg_counters (ex_row ex_c4) Tokens_Reserved = 10
    \<and> (\<exists>items. history_chain ex_sx None 0 (events_of ex_db4 (''t'', ''w'', ''s'')) = Inr items \<and> last items = ex_session1)"
proof -
  have row: "dict_get (db_budgets ex_db4) (''t'', ''b'') = Some (ex_row ex_c4)"
    "dict_get (db_sessions ex_db4) (''t'', ''w'', ''s'') = Some (written_row ex_sx ex_session1 2)"
    by (simp_all add: ex_db4(2) dict_get_def)
  note p = parent_counters [OF ex_reachable_db(2) row(1), of Tokens_Reserved]
  from p row(2) obtain items where "history_chain ex_sx None 0 (events_of ex_db4 (''t'', ''w'', ''s'')) = Inr items"
    "stored ex_sx ex_db4 (''t'', ''w'', ''s'') = Some (last items)" by blast
  moreover have "bg_counters (ex_row ex_c4) Tokens_Reserved = work_item_usage ex_sx ex_db4 ''t'' ''w'' Tokens_Reserved"
    using p by (simp add: ex_row_def)
  ultimately show ?thesis by (simp add: ex_row_def)
qed

text \<open>
  C26. Committing refines a conditional update of a map from units to sessions: a commit that reports
  success found the expected digest, writes a session that the policy allows to follow the stored one,
  and changes no other unit; a commit that reports failure changes nothing at all, and fails only because
  the proposal is already stored or the expectation is stale.
\<close>

theorem commit_refines:
  assumes "compare_and_reserve px role gr now scope expected upd pid db = Inr (won, db')" and "round_trips px upd"
  shows "if won then expected = map_option content_digest (stored px db (scope_key scope))
           \<and> may_follow px (stored px db (scope_key scope)) upd
           \<and> stored px db' = (stored px db)(scope_key scope \<mapsto> upd)
         else db' = db \<and> (stored px db (scope_key scope) = Some upd
           \<or> expected \<noteq> map_option content_digest (stored px db (scope_key scope)))"
  using assms by (rule commit_refines_map)

theorem commit_refines_witness:
  "stored ex_sx ex_db4 = (stored ex_sx ex_db3)((''t'', ''w'', ''s'') \<mapsto> ex_session1)"
  using commit_refines [OF ex_db4(1)] by simp

text \<open>
  Reading is never refused for inconsistency: for a registered unit of the caller's tenant,
  \<open>load_current\<close> returns the stored session and \<open>history\<close> a chain of sessions that ends in it.
\<close>

theorem reads_are_consistent:
  assumes "store_reachable px db" and "valid_scope scope" and "scope_tenant_id scope = grant_tenant gr"
    and "\<not> unsafe_role role" and "\<not> unsafe_tables role"
    and "dict_get (db_registrations db) (scope_key scope) \<noteq> None"
  shows "\<exists>items. history px role gr scope db = Inr items
    \<and> load_current px role gr scope db = Inr (if items = [] then None else Some (last items))"
proof -
  have inv: "store_inv px db" using assms(1) by (rule rst.always)
  from history_reads_ledger [OF inv assms(2-6)] load_reads_stored [OF inv assms(2-6)] show ?thesis by auto
qed

theorem reads_are_consistent_witness:
  "\<exists>items. history ex_sx ex_role ex_grant ex_scope ex_db4 = Inr items \<and> items \<noteq> [] \<and> last items = ex_session1"
proof -
  have "dict_get (db_registrations ex_db4) (scope_key ex_scope) \<noteq> None" by simp
  from reads_are_consistent [OF ex_reachable_db(2) _ _ _ _ this, of ex_grant ex_role] show ?thesis
    by (auto simp: ex_load split: if_splits)
qed

text \<open>
  C28. When a settlement commits. Take a unit of the grant's tenant that is registered and has a stored session, and a worker
  whose role is safe. Then the result of completing the unit's pending invocation commits exactly when its document is
  within 4 MB, every counter of the parent stays below 2^63, the event's number stays below 2^31, and the execution it reports
  has not been claimed by an earlier event. The parent's ceilings and its expiry play no part, whatever the time is.
\<close>

theorem settlements_commit:
  assumes "store_reachable px db" and "valid_scope scope" and "scope_tenant_id scope = grant_tenant gr"
    and "\<not> unsafe_role role" and "\<not> unsafe_tables role"
    and "dict_get (db_registrations db) (scope_key scope) = Some reg"
    and "stored px db (scope_key scope) = Some cur"
    and "complete_invocation px cur iid receipt out now stop = Inr upd" and "upd \<noteq> cur"
  shows "(\<exists>db'. compare_and_reserve px role gr t scope (Some (content_digest cur)) upd (rg_budget reg) db = Inr (True, db'))
    \<longleftrightarrow> length (utf8 (encode_session px upd)) \<le> max_session_bytes
      \<and> (\<forall>b c. dict_get (db_budgets db) (scope_tenant_id scope, rg_budget reg) = Some b \<longrightarrow>
          counter_values b (Some cur) upd c < 2 ^ 63)
      \<and> (\<forall>r. dict_get (db_sessions db) (scope_key scope) = Some r \<longrightarrow> sn_sequence r + 1 < 2 ^ 31)
      \<and> (\<forall>p. receipt = Some p \<longrightarrow> (Some (mid_provider (rcp_model p)), Some (rcp_execution p)) \<notin> set (executions db))"
    (is "?commits \<longleftrightarrow> ?fits")
proof
  assume ?fits
  then show ?commits using rst.always [OF assms(1)] assms(2-) by (intro settlement_commits) auto
next
  assume ?commits
  then show ?fits using settlement_fits [OF _ assms(7-9)] by blast
qed

theorem settlements_commit_witness:
  "\<exists>db'. compare_and_reserve ex_sx ex_role ex_grant 5 ex_scope (Some (content_digest ex_session1)) ex_session2 ''b'' ex_db4
    = Inr (True, db')"
proof -
  have "\<exists>db'. compare_and_reserve ex_sx ex_role ex_grant 5 ex_scope (Some (content_digest ex_session1)) ex_session2
      (rg_budget ex_registration) ex_db4 = Inr (True, db')"
    by (rule settlements_commit [where receipt = "Some (ex_receipt ''i1'' ''a'')" and out = "Text_Output ''r1''"
          and iid = "''i1''" and now = "Some 2" and stop = None, OF ex_reachable_db(2), THEN iffD2])
      (use ex_settlement_range in \<open>simp_all add: ex_session2(1) max_session_bytes_def ex_no_executions\<close>)
  then show ?thesis by (simp add: ex_registration_def)
qed

text \<open>
  C29. However many coordinators share the durable store, and however their loads, commits and executions interleave with each
  other and with any other transaction, commits of stale sessions and commits whose answer is lost included, no
  invocation identifier is ever given to an executor twice, and every one given is recorded in the ledger.
\<close>

theorem dispatched_at_most_once:
  assumes "reachable fleet_start_state (fleet_step px) (db, l, ws)"
  shows "distinct l \<and> Some ` set l \<subseteq> set (dispatches db)"
  using flt.always [OF assms] by (simp add: fleet_inv_def)

theorem dispatched_at_most_once_witness:
  "reachable fleet_start_state (fleet_step ex_sx) (ex_db4, [''i1''],
      [ex_worker [ex_tip, Swapped (Inr True), Executed Unavailable], ex_worker [ex_tip, Swapped (Inr False)]])
    \<and> asks ex_sx (ex_worker [ex_tip, Swapped (Inr False)]) = Some (Ask_Load ex_scope)
    \<and> distinct [''i1''] \<and> Some ''i1'' \<in> set (dispatches ex_db4)"
  using dispatched_at_most_once [OF ex_race] ex_race ex_race_asks(4) by simp

text \<open>
  A step that finds an invocation already pending neither commits nor dispatches anything; if it
  returns, it reports that settlement is awaited. A coordinator that crashed after reserving is therefore
  never resubmitted by the next one.
\<close>

theorem pending_never_resubmitted:
  assumes "orch_step px (logged env) oc (w, l) = (r, (w', l'))"
    and "fst (env_load env (oc_scope oc) w) = Inr (Some ses)" and "st_pending (ses_state ses) \<noteq> None"
  shows "l' = l \<and> (\<forall>res. r = Inr res \<longrightarrow> orc_status res = AWAITING_SETTLEMENT)"
  using assms by (rule awaiting_step)

theorem pending_never_resubmitted_witness:
  "snd (snd (orch_step ex_sx ex_env ex_coordinator ((ex_db4, [1]), []))) = []"
proof -
  let ?env = "postgres_env ex_sx ex_role ex_grant hd ex_base"
  let ?o = "orch_step ex_sx (logged ?env) ex_coordinator ((ex_db4, [1]), [])"
  have o: "?o = (fst ?o, (fst (snd ?o), snd (snd ?o)))" by simp
  have l: "fst (env_load ?env (oc_scope ex_coordinator) (ex_db4, [1])) = Inr (Some ex_session1)"
    by (simp add: postgres_env_def ex_coordinator_def ex_load)
  have p: "st_pending (ses_state ex_session1) \<noteq> None" by (simp add: ex_session1)
  from pending_never_resubmitted [OF o l p] have "snd (snd ?o) = []" by (rule conjunct1)
  then show ?thesis by (simp add: ex_env_def)
qed

text \<open>
  A run is bounded by its argument, in any environment: it dispatches at most \<open>max_steps\<close>
  invocations, each preceded in the log by what it commits, and a run that returns never reports that it
  could still advance.
\<close>

theorem run_is_bounded:
  assumes "orch_run px (logged env) oc max_steps (w, l) = (r, (w', l'))"
  shows "\<exists>es. l' = l @ es \<and> length (dispatched_ids es) \<le> nat max_steps
    \<and> (\<forall>res. r = Inr res \<longrightarrow> orc_status res \<noteq> ADVANCED)"
proof (cases "1 \<le> max_steps \<and> max_steps \<le> 64")
  case False
  with assms show ?thesis by (auto simp: orch_run_def oraise_def)
next
  case True
  with assms have run: "run_loop px (logged env) oc (nat max_steps - 1) (w, l) = (r, (w', l'))"
    by (simp add: orch_run_def)
  from run_loop_dispatches run obtain es where "l' = l @ es" "length (dispatched_ids es) \<le> Suc (nat max_steps - 1)"
    by (rule emitsE)
  moreover have "orc_status res \<noteq> ADVANCED" if "r = Inr res" for res
    using run that by (blast dest: run_loop_not_advanced)
  ultimately show ?thesis using True by auto
qed

theorem run_is_bounded_witness:
  "length (dispatched_ids (snd (snd (orch_run ex_sx ex_env ex_coordinator 1 ((ex_db3, [1, 1, 1, 2, 2]), []))))) = 1"
proof -
  let ?env = "postgres_env ex_sx ex_role ex_grant hd ex_base"
  let ?o = "orch_run ex_sx (logged ?env) ex_coordinator 1 ((ex_db3, [1, 1, 1, 2, 2]), [])"
  have "?o = (fst ?o, (fst (snd ?o), snd (snd ?o)))" by simp
  from run_is_bounded [OF this] have "length (dispatched_ids (snd (snd ?o))) \<le> 1" by auto
  moreover obtain res where "orch_step ex_sx (logged ?env) ex_coordinator ((ex_db3, [1, 1, 1, 2, 2]), [])
      = (Inr res, ((ex_db5, []), ex_log))"
    using ex_step by (auto simp: ex_env_def)
  ultimately show ?thesis
    by (simp add: ex_env_def orch_run_def obind_def oret_def ex_log_def)
qed

end
