(* ===== verification/Review_Inspection.thy ===== *)
theory Review_Inspection
  imports Review_Policy
begin

text \<open>
  \<^verbatim>\<open>application/review_inspection.py\<close>: read-only views of an archived session. The two views carry no
  authority: the flags that would claim it are constants of the classes, and the decision is the policy's,
  evaluated against the artifact that the session itself records.
\<close>

record review_inspection = review_model +
  ins_scope :: string
  ins_live_verified :: bool
  ins_deployment_authorized :: bool
  ins_tenant :: string
  ins_work_item :: string
  ins_unit :: string
  ins_session :: string
  ins_completed :: nat
  ins_pending :: "string option"
  ins_inspected_at :: moment
  ins_decision :: review_decision

record attempt_trace = review_model +
  atr_invocation :: string
  atr_kind :: invocation_kind
  atr_invocation_digest :: string
  atr_artifact :: string
  atr_started_at :: moment
  atr_finished_at :: "moment option"
  atr_completion :: "string option"
  atr_receipt :: "string option"

record review_trace = review_model +
  trc_scope :: string
  trc_deployment_authorized :: bool
  trc_chain_complete :: bool
  trc_work_item :: string
  trc_session :: string
  trc_contract :: string
  trc_context :: string
  trc_artifact :: string
  trc_attempts :: "attempt_trace list"
  trc_missing :: "string list"

definition inspection_fields :: "'a pydantic_scheme \<Rightarrow> review_inspection \<Rightarrow> (string \<times> json) list" where
  "inspection_fields px x =
    [(''evidence_scope'', JStr (ins_scope x)), (''live_artifact_verified'', JBool (ins_live_verified x)),
     (''deployment_authorized'', JBool (ins_deployment_authorized x)), (''tenant_id'', JStr (ins_tenant x)),
     (''work_item_id'', JStr (ins_work_item x)), (''unit_id'', JStr (ins_unit x)),
     (''session_digest'', JStr (ins_session x)), (''completed_reviews'', json_nat (ins_completed x)),
     (''pending_invocation'', json_option JStr (ins_pending x)),
     (''inspected_at'', json_moment px (ins_inspected_at x)),
     (''snapshot_decision'', model_dump decision_fields (ins_decision x))]"

definition attempt_trace_fields :: "'a pydantic_scheme \<Rightarrow> attempt_trace \<Rightarrow> (string \<times> json) list" where
  "attempt_trace_fields px x =
    [(''invocation_id'', JStr (atr_invocation x)), (''kind'', JStr (kind_name (atr_kind x))),
     (''invocation_digest'', JStr (atr_invocation_digest x)), (''artifact_digest'', JStr (atr_artifact x)),
     (''started_at'', json_moment px (atr_started_at x)),
     (''finished_at'', json_option (json_moment px) (atr_finished_at x)),
     (''completion_digest'', json_option JStr (atr_completion x)),
     (''receipt_digest'', json_option JStr (atr_receipt x))]"

definition trace_fields :: "'a pydantic_scheme \<Rightarrow> review_trace \<Rightarrow> (string \<times> json) list" where
  "trace_fields px x =
    [(''evidence_scope'', JStr (trc_scope x)), (''deployment_authorized'', JBool (trc_deployment_authorized x)),
     (''release_chain_complete'', JBool (trc_chain_complete x)), (''work_item_id'', JStr (trc_work_item x)),
     (''session_digest'', JStr (trc_session x)), (''contract_digest'', JStr (trc_contract x)),
     (''context_digest'', JStr (trc_context x)), (''artifact_digest'', JStr (trc_artifact x)),
     (''attempts'', json_list (model_dump (attempt_trace_fields px)) (trc_attempts x)),
     (''missing_release_evidence'', json_strings (trc_missing x))]"

definition inspect_review ::
  "'a pydantic_scheme \<Rightarrow> review_session \<Rightarrow> moment option \<Rightarrow> review_error + review_inspection" where
  "inspect_review px ses now =
    ebind (validate_session px ses) (\<lambda>session.
    ebind (now_value now) (\<lambda>t.
    ebind (evaluate px session (st_artifact (ses_state session)) (Some t)) (\<lambda>dec.
    let scope = seed_scope (ses_seed session) in
    Inr (seal (inspection_fields px)
      \<lparr>content_digest = [], ins_scope = ''ARCHIVED_ADVISORY'', ins_live_verified = False,
       ins_deployment_authorized = False, ins_tenant = scope_tenant_id scope,
       ins_work_item = scope_work_item_id scope, ins_unit = scope_session_id scope,
       ins_session = content_digest session, ins_completed = length (st_reports (ses_state session)),
       ins_pending = map_option inv_id (st_pending (ses_state session)), ins_inspected_at = t,
       ins_decision = dec\<rparr>))))"

definition trace_attempt :: "'a pydantic_scheme \<Rightarrow> review_attempt \<Rightarrow> attempt_trace" where
  "trace_attempt px a = seal (attempt_trace_fields px)
    \<lparr>content_digest = [], atr_invocation = inv_id (att_invocation a), atr_kind = inv_kind (att_invocation a),
     atr_invocation_digest = content_digest (att_invocation a),
     atr_artifact = bnd_artifact (inv_binding (att_invocation a)),
     atr_started_at = inv_started_at (att_invocation a),
     atr_finished_at = map_option cmp_finished_at (att_completion a),
     atr_completion = map_option content_digest (att_completion a),
     atr_receipt = (case att_completion a of None \<Rightarrow> None | Some c \<Rightarrow> map_option content_digest (cmp_receipt c))\<rparr>"

definition trace_review ::
  "'a pydantic_scheme \<Rightarrow> review_session \<Rightarrow> string \<Rightarrow> review_error + review_trace" where
  "trace_review px ses work_item_id =
    ebind (validate_session px ses) (\<lambda>session.
    if scope_work_item_id (seed_scope (ses_seed session)) \<noteq> work_item_id then Inl Invalid
    else Inr (seal (trace_fields px)
      \<lparr>content_digest = [], trc_scope = ''ARCHIVED_ADVISORY'', trc_deployment_authorized = False,
       trc_chain_complete = False, trc_work_item = work_item_id, trc_session = content_digest session,
       trc_contract = content_digest (seed_contract (ses_seed session)),
       trc_context = art_context (st_artifact (ses_state session)),
       trc_artifact = content_digest (st_artifact (ses_state session)),
       trc_attempts = map (trace_attempt px) (ses_attempts session),
       trc_missing = [''verified merge candidate'', ''signed release bundle'', ''deployment binding'',
         ''runtime receipt'']\<rparr>))"

text \<open>A trace names each invocation of the ledger once, in the order in which they were reserved.\<close>

lemma trace_invocations:
  assumes "trace_review px ses w = Inr t"
  shows "map atr_invocation (trc_attempts t) = st_invocation_ids (ses_state ses)"
    and "distinct (map atr_invocation (trc_attempts t))"
proof -
  from assms have v: "replay px (ses_seed ses) (ses_attempts ses) = Inr (ses_state ses)"
    and t: "trc_attempts t = map (trace_attempt px) (ses_attempts ses)"
    by (auto simp: trace_review_def validate_session_iff seal_def split: if_splits)
  have a: "atr_invocation (trace_attempt px a) = inv_id (att_invocation a)" for a
    by (simp add: trace_attempt_def seal_def)
  show "map atr_invocation (trc_attempts t) = st_invocation_ids (ses_state ses)"
    using replay_pending(2) [OF v] by (simp add: t a comp_def)
  then show "distinct (map atr_invocation (trc_attempts t))"
    using replay_distinct_ids [OF v] replay_pending(2) [OF v] by simp
qed

lemma inspection_decision:
  assumes "inspect_review px ses (Some now) = Inr i"
  shows "evaluate px ses (st_artifact (ses_state ses)) (Some now) = Inr (ins_decision i)"
    and "\<not> ins_deployment_authorized i" and "\<not> ins_live_verified i"
  using assms by (auto simp: inspect_review_def validate_session_iff Let_def) (auto simp: seal_def)

end
