(* ===== verification/States.thy ===== *)
theory States
  imports Py_Time
begin

text \<open>
  \<^verbatim>\<open>domain/states.py\<close>: the work item lifecycle. \<open>validate_against\<close> is the compare-and-swap check of one
  transition; \<open>lifecycle\<close> is a sequence of transitions, each accepted against the state the previous
  one left. The gate theorems are cuts of the transition graph: a set of states that can only be
  left through a human gate.
\<close>

datatype work_item_state =
    NEW | REFINING | BUSINESS_READY | DESIGNING | SOLUTION_READY | IMPLEMENTING | DEV_VERIFYING
  | DEV_VERIFIED | PREPROD_VERIFYING | PREPROD_VERIFIED | RELEASING | DONE | BLOCKED | REJECTED
  | ROLLED_BACK

definition state_name :: "work_item_state \<Rightarrow> string" where
  "state_name s = (case s of NEW \<Rightarrow> ''NEW'' | REFINING \<Rightarrow> ''REFINING'' | BUSINESS_READY \<Rightarrow> ''BUSINESS_READY''
     | DESIGNING \<Rightarrow> ''DESIGNING'' | SOLUTION_READY \<Rightarrow> ''SOLUTION_READY'' | IMPLEMENTING \<Rightarrow> ''IMPLEMENTING''
     | DEV_VERIFYING \<Rightarrow> ''DEV_VERIFYING'' | DEV_VERIFIED \<Rightarrow> ''DEV_VERIFIED''
     | PREPROD_VERIFYING \<Rightarrow> ''PREPROD_VERIFYING'' | PREPROD_VERIFIED \<Rightarrow> ''PREPROD_VERIFIED''
     | RELEASING \<Rightarrow> ''RELEASING'' | DONE \<Rightarrow> ''DONE'' | BLOCKED \<Rightarrow> ''BLOCKED'' | REJECTED \<Rightarrow> ''REJECTED''
     | ROLLED_BACK \<Rightarrow> ''ROLLED_BACK'')"

definition all_states :: "work_item_state list" where
  "all_states = [NEW, REFINING, BUSINESS_READY, DESIGNING, SOLUTION_READY, IMPLEMENTING, DEV_VERIFYING, DEV_VERIFIED,
     PREPROD_VERIFYING, PREPROD_VERIFIED, RELEASING, DONE, BLOCKED, REJECTED, ROLLED_BACK]"

definition human_gates :: "work_item_state list" where
  "human_gates = [BUSINESS_READY, SOLUTION_READY, DEV_VERIFIED, PREPROD_VERIFIED]"

fun allowed_from :: "work_item_state \<Rightarrow> work_item_state list" where
  "allowed_from NEW = [REFINING, REJECTED]"
| "allowed_from REFINING = [BUSINESS_READY, REJECTED]"
| "allowed_from BUSINESS_READY = [DESIGNING, REFINING, REJECTED]"
| "allowed_from DESIGNING = [SOLUTION_READY, BLOCKED]"
| "allowed_from SOLUTION_READY = [IMPLEMENTING, DESIGNING, REJECTED]"
| "allowed_from IMPLEMENTING = [DEV_VERIFYING, BLOCKED, SOLUTION_READY]"
| "allowed_from DEV_VERIFYING = [DEV_VERIFIED, IMPLEMENTING]"
| "allowed_from DEV_VERIFIED = [PREPROD_VERIFYING, IMPLEMENTING]"
| "allowed_from PREPROD_VERIFYING = [PREPROD_VERIFIED, IMPLEMENTING]"
| "allowed_from PREPROD_VERIFIED = [RELEASING, IMPLEMENTING]"
| "allowed_from RELEASING = [DONE, ROLLED_BACK]"
| "allowed_from BLOCKED = [REFINING, DESIGNING, IMPLEMENTING, REJECTED]"
| "allowed_from DONE = []"
| "allowed_from REJECTED = []"
| "allowed_from ROLLED_BACK = [IMPLEMENTING]"

record transition =
  tr_work_item_id :: string
  tr_workflow_run_id :: string
  tr_transition_id :: string
  tr_expected_current :: work_item_state
  tr_target :: work_item_state
  tr_event_id :: string
  tr_actor :: string
  tr_approval_id :: "string option"
  tr_occurred_at :: datetime

datatype transition_error = Stale_Transition | Illegal_Transition

definition approved :: "transition \<Rightarrow> bool" where
  "approved t \<longleftrightarrow> (case tr_approval_id t of None \<Rightarrow> False | Some a \<Rightarrow> strip a \<noteq> [])"

definition validate_against :: "transition \<Rightarrow> work_item_state \<Rightarrow> transition_error + unit" where
  "validate_against t actual = require_all
    [(actual = tr_expected_current t, Stale_Transition),
     (tr_target t \<in> set (allowed_from actual), Illegal_Transition),
     (\<not> (actual \<in> set human_gates \<and> \<not> approved t), Illegal_Transition)]"

fun lifecycle :: "work_item_state \<Rightarrow> transition list \<Rightarrow> work_item_state option" where
  "lifecycle s [] = Some s"
| "lifecycle s (t # ts) = (if succeeds (validate_against t s) then lifecycle (tr_target t) ts else None)"

subsection \<open>Facts\<close>

lemma validate_against_iff:
  "validate_against t s = Inr u \<longleftrightarrow>
    s = tr_expected_current t \<and> tr_target t \<in> set (allowed_from s) \<and> (s \<in> set human_gates \<longrightarrow> approved t)"
  by (auto simp: validate_against_def)

lemma validate_against_succeeds:
  "succeeds (validate_against t s) \<longleftrightarrow>
    s = tr_expected_current t \<and> tr_target t \<in> set (allowed_from s) \<and> (s \<in> set human_gates \<longrightarrow> approved t)"
  by (auto simp: succeeds_iff validate_against_iff)

lemma no_self_transition: "s \<notin> set (allowed_from s)"
  by (cases s) simp_all

lemma lifecycle_append: "lifecycle s (ts @ us) = (case lifecycle s ts of None \<Rightarrow> None | Some u \<Rightarrow> lifecycle u us)"
  by (induction ts arbitrary: s) auto

text \<open>
  A cut is a set of states with the transitions that leave it. Whatever reaches the outside has taken
  one of them, and if that transition starts at a human gate it carried an approval.
\<close>

locale lifecycle_cut =
  fixes inside :: "work_item_state \<Rightarrow> bool" and gate :: work_item_state and entry :: work_item_state
  assumes is_gate: "gate \<in> set human_gates"
    and only_exit: "inside s \<Longrightarrow> t \<in> set (allowed_from s) \<Longrightarrow> \<not> inside t \<Longrightarrow> s = gate \<and> t = entry"
begin

lemma crossing:
  assumes "lifecycle s ts = Some u" and "inside s" and "\<not> inside u"
  shows "\<exists>t \<in> set ts. tr_expected_current t = gate \<and> tr_target t = entry \<and> approved t"
  using assms
proof (induction ts arbitrary: s)
  case Nil
  then show ?case by simp
next
  case (Cons t ts)
  from Cons.prems(1) have ok: "succeeds (validate_against t s)" and rest: "lifecycle (tr_target t) ts = Some u"
    by (auto split: if_splits)
  show ?case
  proof (cases "inside (tr_target t)")
    case True
    with Cons.IH [OF rest] Cons.prems(3) show ?thesis by auto
  next
    case False
    with ok only_exit [OF Cons.prems(2)] is_gate show ?thesis by (auto simp: validate_against_succeeds)
  qed
qed

end

definition before_design :: "work_item_state \<Rightarrow> bool" where
  "before_design s \<longleftrightarrow> s \<in> set [NEW, REFINING, BUSINESS_READY, REJECTED]"

definition before_preprod :: "work_item_state \<Rightarrow> bool" where
  "before_preprod s \<longleftrightarrow> s \<notin> set [PREPROD_VERIFYING, PREPROD_VERIFIED, RELEASING, DONE, ROLLED_BACK]"

definition before_release :: "work_item_state \<Rightarrow> bool" where
  "before_release s \<longleftrightarrow> s \<notin> set [RELEASING, DONE, ROLLED_BACK]"

interpretation gate1: lifecycle_cut before_design BUSINESS_READY DESIGNING
proof
  show "s = BUSINESS_READY \<and> t = DESIGNING"
    if "before_design s" "t \<in> set (allowed_from s)" "\<not> before_design t" for s t
    using that by (cases s) (auto simp: before_design_def)
qed (simp add: human_gates_def)

interpretation gate3: lifecycle_cut before_preprod DEV_VERIFIED PREPROD_VERIFYING
proof
  show "s = DEV_VERIFIED \<and> t = PREPROD_VERIFYING"
    if "before_preprod s" "t \<in> set (allowed_from s)" "\<not> before_preprod t" for s t
    using that by (cases s) (auto simp: before_preprod_def)
qed (simp add: human_gates_def)

interpretation gate4: lifecycle_cut before_release PREPROD_VERIFIED RELEASING
proof
  show "s = PREPROD_VERIFIED \<and> t = RELEASING"
    if "before_release s" "t \<in> set (allowed_from s)" "\<not> before_release t" for s t
    using that by (cases s) (auto simp: before_release_def)
qed (simp add: human_gates_def)

lemma final_states: "lifecycle s ts = Some u \<Longrightarrow> s \<in> {DONE, REJECTED} \<Longrightarrow> u = s \<and> ts = []"
  by (cases ts) (auto simp: validate_against_succeeds split: if_splits)

subsection \<open>Properties\<close>

definition ex_transition :: "work_item_state \<Rightarrow> work_item_state \<Rightarrow> string option \<Rightarrow> transition" where
  "ex_transition s t a = \<lparr>tr_work_item_id = ''w'', tr_workflow_run_id = ''r'', tr_transition_id = ''x'',
     tr_expected_current = s, tr_target = t, tr_event_id = ''e'', tr_actor = ''human'', tr_approval_id = a,
     tr_occurred_at = \<lparr>dt_year = 2026, dt_month = 1, dt_day = 1, dt_hour = 0, dt_minute = 0, dt_second = 0,
       dt_micro = 0, dt_offset = Some 0\<rparr>\<rparr>"

definition ex_delivery :: "transition list" where
  "ex_delivery =
    [ex_transition NEW REFINING None, ex_transition REFINING BUSINESS_READY None,
     ex_transition BUSINESS_READY DESIGNING (Some ''a1''), ex_transition DESIGNING SOLUTION_READY None,
     ex_transition SOLUTION_READY IMPLEMENTING (Some ''a2''), ex_transition IMPLEMENTING DEV_VERIFYING None,
     ex_transition DEV_VERIFYING DEV_VERIFIED None, ex_transition DEV_VERIFIED PREPROD_VERIFYING (Some ''a3''),
     ex_transition PREPROD_VERIFYING PREPROD_VERIFIED None,
     ex_transition PREPROD_VERIFIED RELEASING (Some ''a4''), ex_transition RELEASING DONE None]"

text \<open>
  C17. Nothing is released without its gates: any accepted sequence of transitions that takes a new
  work item to DONE contains an approved exit of Gate 1 into design, of Gate 3 into pre-production and
  of Gate 4 into release.
\<close>

theorem release_passes_gates:
  assumes "lifecycle NEW ts = Some DONE"
  shows "(\<exists>t \<in> set ts. tr_expected_current t = BUSINESS_READY \<and> tr_target t = DESIGNING \<and> approved t)
    \<and> (\<exists>t \<in> set ts. tr_expected_current t = DEV_VERIFIED \<and> tr_target t = PREPROD_VERIFYING \<and> approved t)
    \<and> (\<exists>t \<in> set ts. tr_expected_current t = PREPROD_VERIFIED \<and> tr_target t = RELEASING \<and> approved t)"
  using gate1.crossing [OF assms] gate3.crossing [OF assms] gate4.crossing [OF assms]
  by (simp add: before_design_def before_preprod_def before_release_def)

theorem release_passes_gates_witness:
  "lifecycle NEW ex_delivery = Some DONE \<and>
   (\<exists>t \<in> set ex_delivery. tr_expected_current t = PREPROD_VERIFIED \<and> tr_target t = RELEASING \<and> approved t)"
proof -
  have run: "lifecycle NEW ex_delivery = Some DONE" by code_simp
  with release_passes_gates [OF run] show ?thesis by blast
qed

text \<open>
  Rework does not inherit approvals: once a work item is back before pre-production (a failed
  verification, a rollback, a block), every way to DONE takes Gate 3 and Gate 4 again, after that point.
\<close>

theorem rework_repeats_gates:
  assumes "lifecycle NEW (ts @ us) = Some DONE" and "lifecycle NEW ts = Some s" and "before_preprod s"
  shows "(\<exists>t \<in> set us. tr_expected_current t = DEV_VERIFIED \<and> tr_target t = PREPROD_VERIFYING \<and> approved t)
    \<and> (\<exists>t \<in> set us. tr_expected_current t = PREPROD_VERIFIED \<and> tr_target t = RELEASING \<and> approved t)"
proof -
  have us: "lifecycle s us = Some DONE" using assms(1,2) by (simp add: lifecycle_append)
  have "before_release s" using assms(3) by (auto simp: before_preprod_def before_release_def)
  with gate3.crossing [OF us assms(3)] gate4.crossing [OF us] show ?thesis
    by (simp add: before_preprod_def before_release_def)
qed

theorem rework_repeats_gates_witness:
  "\<exists>t \<in> set (drop 5 ex_delivery). tr_expected_current t = DEV_VERIFIED \<and> tr_target t = PREPROD_VERIFYING \<and> approved t"
proof -
  have "lifecycle NEW (take 5 ex_delivery @ drop 5 ex_delivery) = Some DONE" by code_simp
  moreover have "lifecycle NEW (take 5 ex_delivery) = Some IMPLEMENTING" by code_simp
  moreover have "before_preprod IMPLEMENTING" by (simp add: before_preprod_def)
  ultimately show ?thesis using rework_repeats_gates by blast
qed

text \<open>
  Duplicate webhooks are dropped: a transition that was accepted is stale in the state it leads
  to, whatever else it says.
\<close>

theorem duplicate_is_stale:
  assumes "validate_against t s = Inr ()"
  shows "validate_against t (tr_target t) = Inl Stale_Transition"
proof -
  have "tr_target t \<noteq> tr_expected_current t"
    using assms no_self_transition [of s] by (auto simp: validate_against_iff)
  then show ?thesis by (simp add: validate_against_def require_all.simps)
qed

theorem duplicate_is_stale_witness:
  "validate_against (ex_transition NEW REFINING None) REFINING = Inl Stale_Transition"
proof -
  have "validate_against (ex_transition NEW REFINING None) NEW = Inr ()" by code_simp
  from duplicate_is_stale [OF this] show ?thesis by (simp add: ex_transition_def)
qed

text \<open>
  Gate 2 has a way around it: a work item in design may be blocked and unblocked straight into
  implementation, so there is an accepted sequence from NEW to DONE in which no transition leaves
  SOLUTION_READY and no approval of the solution is ever given.
\<close>

lemma gate2_can_be_skipped:
  "\<exists>ts. lifecycle NEW ts = Some DONE \<and> IMPLEMENTING \<in> set (map tr_target ts)
    \<and> SOLUTION_READY \<notin> set (map tr_expected_current ts)"
proof (intro exI conjI)
  let ?ts = "take 3 ex_delivery @ [ex_transition DESIGNING BLOCKED None, ex_transition BLOCKED IMPLEMENTING None]
    @ drop 5 ex_delivery"
  show "lifecycle NEW ?ts = Some DONE" by code_simp
  show "IMPLEMENTING \<in> set (map tr_target ?ts)" by code_simp
  show "SOLUTION_READY \<notin> set (map tr_expected_current ?ts)" by code_simp
qed

end
