(* ===== verification/Py_Text.thy ===== *)
theory Py_Text
  imports Prelude
begin

text \<open>
  The text operations of Python's standard library that the sources use, on code points below 256:
  \<^verbatim>\<open>str.split\<close> and \<^verbatim>\<open>str.splitlines\<close>, case folding, substring search, \<^verbatim>\<open>re\<close> for the patterns that occur, and
  \<^verbatim>\<open>fnmatch.fnmatch\<close> for patterns without brackets.
\<close>

subsection \<open>Splitting, joining, folding\<close>

definition newline :: string where
  "newline = [CHR 0x0A]"

fun split_on :: "char \<Rightarrow> string \<Rightarrow> string list" where
  "split_on c [] = [[]]"
| "split_on c (x # xs) =
    (if x = c then [] # split_on c xs
     else case split_on c xs of [] \<Rightarrow> [[x]] | p # ps \<Rightarrow> (x # p) # ps)"

definition line_end :: "char \<Rightarrow> bool" where
  "line_end c \<longleftrightarrow> (of_char c :: nat) \<in> {10, 11, 12, 13, 28, 29, 30, 133}"

text \<open>\<^verbatim>\<open>str.splitlines\<close>; a carriage return and a line feed end one line together.\<close>

fun split_lines :: "string \<Rightarrow> string \<Rightarrow> string list" where
  "split_lines line [] = (if line = [] then [] else [line])"
| "split_lines line (c # s) =
    (if \<not> line_end c then split_lines (line @ [c]) s
     else line # (case s of
         d # s' \<Rightarrow> if c = CHR 0x0D \<and> d = CHR 0x0A then split_lines [] s' else split_lines [] s
       | [] \<Rightarrow> []))"

fun join_lines :: "string list \<Rightarrow> string" where
  "join_lines [] = []"
| "join_lines [l] = l"
| "join_lines (l # m # ls) = l @ newline @ join_lines (m # ls)"

fun occurs_in :: "string \<Rightarrow> string \<Rightarrow> bool" where
  "occurs_in q [] \<longleftrightarrow> q = []"
| "occurs_in q (c # s) \<longleftrightarrow> take (length q) (c # s) = q \<or> occurs_in q s"

definition starts_with :: "string \<Rightarrow> string \<Rightarrow> bool" where
  "starts_with p s \<longleftrightarrow> take (length p) s = p"

definition ends_with :: "string \<Rightarrow> string \<Rightarrow> bool" where
  "ends_with p s \<longleftrightarrow> p = drop (length s - length p) s"

definition remove_prefix :: "string \<Rightarrow> string \<Rightarrow> string" where
  "remove_prefix p s = (if starts_with p s then drop (length p) s else s)"

text \<open>\<^verbatim>\<open>str.casefold\<close>, as the code points it yields.\<close>

definition casefold_char :: "char \<Rightarrow> nat list" where
  "casefold_char c =
    (let n = of_char c :: nat in
     if ascii_upper c \<or> 192 \<le> n \<and> n \<le> 222 \<and> n \<noteq> 215 then [n + 32]
     else if n = 181 then [956] else if n = 223 then [115, 115] else [n])"

definition casefold :: "string \<Rightarrow> nat list" where
  "casefold s = concat (map casefold_char s)"

fun code_points_occur :: "nat list \<Rightarrow> nat list \<Rightarrow> bool" where
  "code_points_occur q [] \<longleftrightarrow> q = []"
| "code_points_occur q (c # s) \<longleftrightarrow> take (length q) (c # s) = q \<or> code_points_occur q s"

subsection \<open>Facts about splitting\<close>

lemma split_on_nonempty: "split_on c s \<noteq> []"
  by (induction s) (auto split: list.split)

lemma split_on_none: "c \<notin> set s \<Longrightarrow> split_on c s = [s]"
  by (induction s) auto

lemma split_on_append: "c \<notin> set a \<Longrightarrow> split_on c (a @ c # s) = a # split_on c s"
  by (induction a) auto

fun join_with :: "char \<Rightarrow> string list \<Rightarrow> string" where
  "join_with c [] = []"
| "join_with c [p] = p"
| "join_with c (p # q # ps) = p @ c # join_with c (q # ps)"

lemma join_split: "join_with c (split_on c s) = s"
proof (induction s)
  case (Cons x s)
  obtain p ps where p: "split_on c s = p # ps" using split_on_nonempty by (cases "split_on c s") blast+
  then show ?case using Cons.IH by (cases ps) auto
qed simp

subsection \<open>Regular expressions\<close>

text \<open>
  A pattern of \<^verbatim>\<open>re\<close>, built from sets of characters. \<open>Bound\<close> is \<^verbatim>\<open>\b\<close> and \<open>At_End\<close> is \<^verbatim>\<open>$\<close>. A state is the
  character to the left and the text to the right; \<open>rx_run\<close> lists the states in which a match may end, so
  whether there is a match does not depend on the order of alternatives or on greediness.
\<close>

datatype rx = Chr "char \<Rightarrow> bool" | Eps | Cat rx rx | Alt rx rx | Many rx | Bound | At_End

type_synonym rx_state = "char option \<times> string"

definition word_char :: "char \<Rightarrow> bool" where
  "word_char c \<longleftrightarrow> ascii_upper c \<or> ascii_lower c \<or> ascii_digit c \<or> c = CHR ''_''
    \<or> (let n = of_char c :: nat in n \<in> {170, 178, 179, 181, 185, 186, 188, 189, 190} \<or> 192 \<le> n \<and> n \<noteq> 215 \<and> n \<noteq> 247)"

definition at_word :: "char option \<Rightarrow> bool" where
  "at_word c = (case c of None \<Rightarrow> False | Some d \<Rightarrow> word_char d)"

definition next_char :: "string \<Rightarrow> char option" where
  "next_char s = (case s of [] \<Rightarrow> None | c # _ \<Rightarrow> Some c)"

fun many_run :: "(rx_state \<Rightarrow> rx_state list) \<Rightarrow> nat \<Rightarrow> rx_state \<Rightarrow> rx_state list" where
  "many_run f 0 st = [st]"
| "many_run f (Suc n) st =
    st # concat (map (many_run f n) (filter (\<lambda>st'. length (snd st') < length (snd st)) (f st)))"

fun rx_run :: "rx \<Rightarrow> rx_state \<Rightarrow> rx_state list" where
  "rx_run (Chr p) st = (case snd st of [] \<Rightarrow> [] | c # s \<Rightarrow> if p c then [(Some c, s)] else [])"
| "rx_run Eps st = [st]"
| "rx_run (Cat r s) st = concat (map (rx_run s) (rx_run r st))"
| "rx_run (Alt r s) st = rx_run r st @ rx_run s st"
| "rx_run (Many r) st = many_run (rx_run r) (length (snd st)) st"
| "rx_run Bound st = (if at_word (fst st) \<noteq> at_word (next_char (snd st)) then [st] else [])"
| "rx_run At_End st = (if snd st = [] \<or> snd st = newline then [st] else [])"

text \<open>\<^verbatim>\<open>re.match\<close> and \<^verbatim>\<open>re.search\<close>\<close>

definition rx_match :: "rx \<Rightarrow> string \<Rightarrow> bool" where
  "rx_match r s \<longleftrightarrow> rx_run r (None, s) \<noteq> []"

fun rx_search_from :: "rx \<Rightarrow> char option \<Rightarrow> string \<Rightarrow> bool" where
  "rx_search_from r p [] \<longleftrightarrow> rx_run r (p, []) \<noteq> []"
| "rx_search_from r p (c # s) \<longleftrightarrow> rx_run r (p, c # s) \<noteq> [] \<or> rx_search_from r (Some c) s"

definition rx_search :: "rx \<Rightarrow> string \<Rightarrow> bool" where
  "rx_search r s = rx_search_from r None s"

definition rx_lit :: "string \<Rightarrow> rx" where
  "rx_lit s = foldr (\<lambda>c r. Cat (Chr (\<lambda>d. d = c)) r) s Eps"

text \<open>Under \<^verbatim>\<open>re.IGNORECASE\<close>; the letters of every pattern here are ASCII.\<close>

definition ascii_fold :: "char \<Rightarrow> nat" where
  "ascii_fold c = (if ascii_upper c then of_char c + 32 else of_char c)"

definition rx_lit_i :: "string \<Rightarrow> rx" where
  "rx_lit_i s = foldr (\<lambda>c r. Cat (Chr (\<lambda>d. ascii_fold d = ascii_fold c)) r) s Eps"

definition rx_seq :: "rx list \<Rightarrow> rx" where
  "rx_seq rs = foldr Cat rs Eps"

fun rx_any :: "rx list \<Rightarrow> rx" where
  "rx_any [] = Chr (\<lambda>_. False)"
| "rx_any [r] = r"
| "rx_any (r # s # rs) = Alt r (rx_any (s # rs))"

definition rx_dots :: rx where
  "rx_dots = Many (Chr (\<lambda>c. c \<noteq> CHR 0x0A))"

definition rx_spaces :: rx where
  "rx_spaces = Many (Chr py_space)"

text \<open>A word of the pattern occurs, on word boundaries, in the text.\<close>

definition rx_word :: "rx list \<Rightarrow> rx" where
  "rx_word rs = rx_seq [Bound, rx_any rs, Bound]"

subsection \<open>Globs\<close>

fun glob :: "string \<Rightarrow> string \<Rightarrow> bool" where
  "glob [] s \<longleftrightarrow> s = []"
| "glob (p # ps) [] \<longleftrightarrow> p = CHR ''*'' \<and> glob ps []"
| "glob (p # ps) (c # s) \<longleftrightarrow>
    (if p = CHR ''*'' then glob ps (c # s) \<or> glob (p # ps) s
     else (p = CHR ''?'' \<or> p = c) \<and> glob ps s)"

section \<open>Base64\<close>

text \<open>
  \<^verbatim>\<open>base64\<close> of the standard library, on bytes (characters) and six-bit groups. \<open>sextets\<close> and \<open>bytes_of\<close> are the
  encoding without padding and the lenient decoding, which ignores the unused low bits of the last group; the two
  alphabets differ in their last two letters.
\<close>

definition std_alphabet :: string where
  "std_alphabet = ''ABCDEFGHIJKLMNOPQRSTUVWXYZabcdefghijklmnopqrstuvwxyz0123456789+/''"

definition url_alphabet :: string where
  "url_alphabet = ''ABCDEFGHIJKLMNOPQRSTUVWXYZabcdefghijklmnopqrstuvwxyz0123456789-_''"

fun sextets :: "nat list \<Rightarrow> nat list" where
  "sextets [] = []"
| "sextets [a] = [a div 4, (a mod 4) * 16]"
| "sextets [a, b] = [a div 4, (a mod 4) * 16 + b div 16, (b mod 16) * 4]"
| "sextets (a # b # c # bs) = [a div 4, (a mod 4) * 16 + b div 16, (b mod 16) * 4 + c div 64, c mod 64] @ sextets bs"

fun bytes_of :: "nat list \<Rightarrow> nat list option" where
  "bytes_of [] = Some []"
| "bytes_of [w] = None"
| "bytes_of [w, x] = Some [w * 4 + x div 16]"
| "bytes_of [w, x, y] = Some [w * 4 + x div 16, (x mod 16) * 16 + y div 4]"
| "bytes_of (w # x # y # z # ws) =
    map_option (\<lambda>bs. [w * 4 + x div 16, (x mod 16) * 16 + y div 4, (y mod 4) * 64 + z] @ bs) (bytes_of ws)"

definition index_in :: "string \<Rightarrow> char \<Rightarrow> nat" where
  "index_in alphabet c = length (takeWhile (\<lambda>d. d \<noteq> c) alphabet)"

definition encode_with :: "string \<Rightarrow> string \<Rightarrow> string" where
  "encode_with alphabet s = map (\<lambda>n. alphabet ! n) (sextets (map of_char s))"

definition decode_with :: "string \<Rightarrow> string \<Rightarrow> string option" where
  "decode_with alphabet s =
    (if set s \<subseteq> set alphabet then map_option (map char_of) (bytes_of (map (index_in alphabet) s)) else None)"

text \<open>
  \<^verbatim>\<open>b64decode(text, validate=True)\<close>: letters of the alphabet with the padding their number demands. (More padding than
  that, which versions of the library treat differently, is refused here.)
\<close>

definition strict_decode :: "string \<Rightarrow> string option" where
  "strict_decode s =
    (let body = takeWhile (\<lambda>c. c \<noteq> CHR ''='') s in
     if s = body @ replicate ((4 - length body mod 4) mod 4) (CHR ''='') then decode_with std_alphabet body else None)"

subsection \<open>Round trip\<close>

lemma sextets_bound: "\<forall>b \<in> set bs. b < 256 \<Longrightarrow> \<forall>w \<in> set (sextets bs). w < 64"
  by (induction bs rule: sextets.induct) auto

lemma bits_join: "y < m \<Longrightarrow> (x * m + y) div m = (x :: nat)" "y < m \<Longrightarrow> (x * m + y) mod m = y"
  by simp_all

lemma bytes_of_sextets: "\<forall>b \<in> set bs. b < 256 \<Longrightarrow> bytes_of (sextets bs) = Some bs"
proof (induction bs rule: sextets.induct)
  case (4 a b c bs)
  then have "b div 16 < 16" "c div 64 < 4" "bytes_of (sextets bs) = Some bs" by auto
  then show ?case by (simp add: bits_join)
qed auto

lemma index_in_nth: "distinct alphabet \<Longrightarrow> n < length alphabet \<Longrightarrow> index_in alphabet (alphabet ! n) = n"
proof (induction alphabet arbitrary: n)
  case (Cons a alphabet)
  then show ?case by (cases n) (auto simp: index_in_def)
qed simp

lemma alphabets: "distinct std_alphabet" "length std_alphabet = 64" "distinct url_alphabet" "length url_alphabet = 64"
  by code_simp+

lemma decode_encode:
  assumes "distinct alphabet" "length alphabet = 64"
  shows "decode_with alphabet (encode_with alphabet s) = Some s"
proof -
  have w: "w < 64" if "w \<in> set (sextets (map of_char s))" for w
    using sextets_bound [of "map of_char s"] that by auto
  then have "map (index_in alphabet) (encode_with alphabet s) = sextets (map of_char s)"
    using assms by (simp add: encode_with_def index_in_nth map_idI)
  moreover have "set (encode_with alphabet s) \<subseteq> set alphabet"
    using w assms(2) by (auto simp: encode_with_def)
  moreover have "bytes_of (sextets (map of_char s)) = Some (map of_char s :: nat list)"
    by (rule bytes_of_sextets) auto
  ultimately show ?thesis by (simp add: decode_with_def comp_def)
qed

lemma encode_nonempty: "s \<noteq> [] \<Longrightarrow> encode_with alphabet s \<noteq> []"
  by (cases "map of_char s :: nat list" rule: sextets.cases) (auto simp: encode_with_def)

lemma encode_alphabet: "length alphabet = 64 \<Longrightarrow> set (encode_with alphabet s) \<subseteq> set alphabet"
  using sextets_bound [of "map of_char s"] by (auto simp: encode_with_def)

end
