(* ===== verification/Py_Url.thy ===== *)
theory Py_Url
  imports Py_Text Sha256
begin

text \<open>
  What the sources use of \<^verbatim>\<open>urllib.parse\<close>: \<^verbatim>\<open>urlsplit\<close> with the host, port and credentials of the result, and
  \<^verbatim>\<open>quote(text, safe='')\<close>. A \<open>None\<close> of \<open>url_split\<close> is a \<^verbatim>\<open>ValueError\<close>. Whether the text between brackets is an IP
  address is left to a parameter. The check of a host against its NFKC form never fails on code points below 256.
\<close>

record split_url =
  su_scheme :: string
  su_netloc :: string
  su_path :: string
  su_query :: string
  su_fragment :: string

definition ascii_letter :: "char \<Rightarrow> bool" where
  "ascii_letter c \<longleftrightarrow> ascii_upper c \<or> ascii_lower c"

definition scheme_char :: "char \<Rightarrow> bool" where
  "scheme_char c \<longleftrightarrow> ascii_letter c \<or> ascii_digit c \<or> c \<in> {CHR ''+'', CHR ''-'', CHR ''.''}"

text \<open>\<^verbatim>\<open>str.lower\<close>\<close>

definition lower_char :: "char \<Rightarrow> char" where
  "lower_char c = (let n = of_char c :: nat in
    if ascii_upper c \<or> 192 \<le> n \<and> n \<le> 222 \<and> n \<noteq> 215 then char_of (n + 32) else c)"

definition lower :: "string \<Rightarrow> string" where
  "lower = map lower_char"

definition text_before :: "(char \<Rightarrow> bool) \<Rightarrow> string \<Rightarrow> string" where
  "text_before p s = takeWhile (\<lambda>c. \<not> p c) s"

definition text_after :: "(char \<Rightarrow> bool) \<Rightarrow> string \<Rightarrow> string" where
  "text_after p s = drop 1 (dropWhile (\<lambda>c. \<not> p c) s)"

text \<open>The part after the last \<open>c\<close>, or all of it.\<close>

definition after_last :: "char \<Rightarrow> string \<Rightarrow> string" where
  "after_last c s = rev (takeWhile (\<lambda>d. d \<noteq> c) (rev s))"

definition clean_url :: "string \<Rightarrow> string" where
  "clean_url s = filter (\<lambda>c. c \<notin> {CHR 0x09, CHR 0x0A, CHR 0x0D}) (dropWhile (\<lambda>c. (of_char c :: nat) \<le> 32) s)"

definition split_scheme :: "string \<Rightarrow> string \<times> string" where
  "split_scheme s =
    (let p = text_before (\<lambda>c. c = CHR '':'') s in
     if CHR '':'' \<in> set s \<and> p \<noteq> [] \<and> ascii_letter (hd p) \<and> list_all scheme_char p
     then (lower p, text_after (\<lambda>c. c = CHR '':'') s) else ([], s))"

definition netloc_end :: "char \<Rightarrow> bool" where
  "netloc_end c \<longleftrightarrow> c \<in> {CHR ''/'', CHR ''?'', CHR ''#''}"

definition split_netloc :: "string \<Rightarrow> string \<times> string" where
  "split_netloc s =
    (if starts_with ''//'' s then (text_before netloc_end (drop 2 s), dropWhile (\<lambda>c. \<not> netloc_end c) (drop 2 s)) else ([], s))"

definition brackets_ok :: "(string \<Rightarrow> bool) \<Rightarrow> string \<Rightarrow> bool" where
  "brackets_ok bracketed_host netloc \<longleftrightarrow>
    (CHR ''['' \<in> set netloc \<longleftrightarrow> CHR '']'' \<in> set netloc) \<and> (CHR ''['' \<in> set netloc \<longrightarrow> bracketed_host netloc)"

definition url_split :: "(string \<Rightarrow> bool) \<Rightarrow> string \<Rightarrow> split_url option" where
  "url_split bracketed_host s =
    (let (scheme, rest) = split_scheme (clean_url s);
         (netloc, tail) = split_netloc rest;
         unfragmented = text_before (\<lambda>c. c = CHR ''#'') tail in
     if \<not> brackets_ok bracketed_host netloc then None
     else Some \<lparr>su_scheme = scheme, su_netloc = netloc, su_path = text_before (\<lambda>c. c = CHR ''?'') unfragmented,
        su_query = text_after (\<lambda>c. c = CHR ''?'') unfragmented, su_fragment = text_after (\<lambda>c. c = CHR ''#'') tail\<rparr>)"

text \<open>
  The host and what follows its colon, as \<^verbatim>\<open>_hostinfo\<close> finds them; an empty port is no port. A zone keeps its case.
\<close>

definition host_and_port :: "split_url \<Rightarrow> string \<times> string" where
  "host_and_port u =
    (let info = after_last (CHR ''@'') (su_netloc u) in
     if CHR ''['' \<in> set info
     then (let bracketed = text_after (\<lambda>c. c = CHR ''['') info in
           (text_before (\<lambda>c. c = CHR '']'') bracketed, text_after (\<lambda>c. c = CHR '':'') (text_after (\<lambda>c. c = CHR '']'') bracketed)))
     else (text_before (\<lambda>c. c = CHR '':'') info, text_after (\<lambda>c. c = CHR '':'') info))"

definition url_hostname :: "split_url \<Rightarrow> string option" where
  "url_hostname u =
    (let h = fst (host_and_port u) in
     if h = [] then None
     else Some (lower (text_before (\<lambda>c. c = CHR ''%'') h) @ dropWhile (\<lambda>c. c \<noteq> CHR ''%'') h))"

definition digits_value :: "string \<Rightarrow> nat" where
  "digits_value s = foldl (\<lambda>n c. 10 * n + (of_char c - 48)) 0 s"

text \<open>\<open>None\<close> is the \<^verbatim>\<open>ValueError\<close> of \<^verbatim>\<open>port\<close>; \<open>Some None\<close> is no port.\<close>

definition url_port :: "split_url \<Rightarrow> nat option option" where
  "url_port u =
    (let p = snd (host_and_port u) in
     if p = [] then Some None
     else if list_all ascii_digit p \<and> length p \<le> 4300 \<and> digits_value p \<le> 65535 then Some (Some (digits_value p)) else None)"

definition url_username :: "split_url \<Rightarrow> string option" where
  "url_username u =
    (if CHR ''@'' \<in> set (su_netloc u)
     then Some (text_before (\<lambda>c. c = CHR '':'') (rev (text_after (\<lambda>c. c = CHR ''@'') (rev (su_netloc u))))) else None)"

definition url_password :: "split_url \<Rightarrow> string option" where
  "url_password u =
    (let info = rev (text_after (\<lambda>c. c = CHR ''@'') (rev (su_netloc u))) in
     if CHR ''@'' \<in> set (su_netloc u) \<and> CHR '':'' \<in> set info then Some (text_after (\<lambda>c. c = CHR '':'') info) else None)"

text \<open>\<^verbatim>\<open>str.rstrip\<close> of one character\<close>

definition strip_right :: "char \<Rightarrow> string \<Rightarrow> string" where
  "strip_right c s = rev (dropWhile (\<lambda>d. d = c) (rev s))"

subsection \<open>Quoting\<close>

definition url_safe :: "char \<Rightarrow> bool" where
  "url_safe c \<longleftrightarrow> ascii_letter c \<or> ascii_digit c \<or> c \<in> {CHR ''_'', CHR ''.'', CHR ''-'', CHR ''~''}"

definition upper_hex_digit :: "nat \<Rightarrow> char" where
  "upper_hex_digit n = ''0123456789ABCDEF'' ! n"

definition quote_byte :: "char \<Rightarrow> string" where
  "quote_byte c = (if url_safe c then [c] else [CHR ''%'', upper_hex_digit (of_char c div 16), upper_hex_digit (of_char c mod 16)])"

definition quote_url :: "string \<Rightarrow> string" where
  "quote_url s = concat (map quote_byte (utf8 s))"

text \<open>\<^verbatim>\<open>quote(text, safe='/')\<close>, \<^verbatim>\<open>quote_plus\<close> and \<^verbatim>\<open>urlencode\<close>\<close>

definition quote_path :: "string \<Rightarrow> string" where
  "quote_path s = concat (map (\<lambda>c. if c = CHR ''/'' then [c] else quote_byte c) (utf8 s))"

definition quote_plus :: "string \<Rightarrow> string" where
  "quote_plus s = concat (map (\<lambda>c. if c = CHR '' '' then ''+'' else quote_byte c) (utf8 s))"

fun url_encode :: "(string \<times> string) list \<Rightarrow> string" where
  "url_encode [] = []"
| "url_encode [(k, v)] = quote_plus k @ ''='' @ quote_plus v"
| "url_encode ((k, v) # kv # kvs) = quote_plus k @ ''='' @ quote_plus v @ ''&'' @ url_encode (kv # kvs)"

subsection \<open>Numbers\<close>

lemma show_digits_value:
  assumes "s \<noteq> []" "hd s \<noteq> CHR ''0''" "list_all ascii_digit s"
  shows "0 < digits_value s \<and> show_nat (digits_value s) = s"
  using assms
proof (induction s rule: rev_induct)
  case (snoc c s)
  let ?d = "of_char c - 48 :: nat"
  have digit: "48 \<le> (of_char c :: nat)" "(of_char c :: nat) \<le> 57" using snoc.prems(3) by (simp_all add: ascii_digit_def)
  then have small: "?d < 10" by simp
  with digit have c: "digit_char ?d = c" by (simp add: digit_char_def)
  have snoc_value: "digits_value (s @ [c]) = 10 * digits_value s + ?d" by (simp add: digits_value_def)
  show ?case
  proof (cases "s = []")
    case True
    have "c \<noteq> CHR ''0''" using snoc.prems(2) True by simp
    then have "(of_char c :: nat) \<noteq> of_char (CHR ''0'')" by (simp only: of_char_eq_iff not_False_eq_True)
    then have "0 < ?d" using digit by simp
    then show ?thesis using True c digit small by (simp add: digits_value_def show_nat.simps)
  next
    case False
    with snoc have "0 < digits_value s" "show_nat (digits_value s) = s" by simp_all
    then show ?thesis using c small unfolding snoc_value by (subst show_nat.simps) simp
  qed
qed simp

section \<open>Paths appended to a base\<close>

text \<open>
  Facts on URLs that every client of a configured base URL shares: a path appended to the base keeps its scheme, host,
  port and credentials.
\<close>

lemma dropWhile_kept: "(\<exists>x \<in> set a. \<not> P x) \<Longrightarrow> dropWhile P (a @ b) = dropWhile P a @ b"
  by (induction a) auto

lemma clean_url_append:
  assumes "\<exists>c \<in> set a. 32 < (of_char c :: nat)"
  shows "clean_url (a @ b) = clean_url a @ filter (\<lambda>c. c \<notin> {CHR 0x09, CHR 0x0A, CHR 0x0D}) b"
  using assms by (simp add: clean_url_def dropWhile_kept not_le)

lemma strip_right_split: "\<exists>n. s = strip_right c s @ replicate n c"
proof -
  have "rev s = takeWhile (\<lambda>d. d = c) (rev s) @ dropWhile (\<lambda>d. d = c) (rev s)" by simp
  moreover have "takeWhile (\<lambda>d. d = c) (rev s) = replicate (length (takeWhile (\<lambda>d. d = c) (rev s))) c"
    by (rule replicate_length_same [symmetric]) (auto dest: set_takeWhileD)
  ultimately have "s = strip_right c s @ rev (replicate (length (takeWhile (\<lambda>d. d = c) (rev s))) c)"
    unfolding strip_right_def by (metis rev_append rev_rev_ident)
  then show ?thesis by (metis rev_replicate)
qed

definition slash_led :: "string \<Rightarrow> bool" where
  "slash_led s \<longleftrightarrow> s = [] \<or> hd s = CHR ''/''"

lemma takeWhile_slash: "slash_led s \<Longrightarrow> \<not> P (CHR ''/'') \<Longrightarrow> takeWhile P (a @ s) = takeWhile P a"
  by (induction a) (cases s; auto simp: slash_led_def)+

lemma split_scheme_append:
  assumes "fst (split_scheme (a @ s)) \<noteq> []" "slash_led s" "CHR '':'' \<notin> set s"
  shows "CHR '':'' \<in> set a \<and> split_scheme (a @ t) =
    (fst (split_scheme (a @ s)), text_after (\<lambda>c. c = CHR '':'') a @ t)
    \<and> snd (split_scheme (a @ s)) = text_after (\<lambda>c. c = CHR '':'') a @ s"
proof -
  have colon: "CHR '':'' \<in> set a"
    using assms(1,3) by (auto simp: split_scheme_def Let_def split: if_splits)
  then have "takeWhile (\<lambda>c. c \<noteq> CHR '':'') (a @ r) = takeWhile (\<lambda>c. c \<noteq> CHR '':'') a"
    "dropWhile (\<lambda>c. c \<noteq> CHR '':'') (a @ r) = dropWhile (\<lambda>c. c \<noteq> CHR '':'') a @ r" for r
    by (induction a) auto
  moreover obtain d r where "dropWhile (\<lambda>c. c \<noteq> CHR '':'') a = d # r"
    using colon by (cases "dropWhile (\<lambda>c. c \<noteq> CHR '':'') a") auto
  ultimately show ?thesis
    using assms(1) colon by (auto simp: split_scheme_def Let_def text_before_def text_after_def split: if_splits)
qed

lemma split_netloc_append:
  assumes "fst (split_netloc (a @ s)) \<noteq> []" "set s \<subseteq> {CHR ''/''}" "slash_led t"
  shows "fst (split_netloc (a @ t)) = fst (split_netloc (a @ s))"
proof -
  have slash: "slash_led s" using assms(2) by (cases s) (auto simp: slash_led_def)
  have none: "takeWhile (\<lambda>c. \<not> netloc_end c) s' = []" if "set s' \<subseteq> {CHR ''/''}" for s'
    using that by (cases s') (auto simp: netloc_end_def)
  have "2 < length a"
  proof (rule ccontr)
    assume "\<not> 2 < length a"
    then have "set (drop 2 (a @ s)) \<subseteq> {CHR ''/''}" using assms(2) set_drop_subset [of _ s] by auto
    then show False using assms(1) none by (auto simp: split_netloc_def text_before_def split: if_splits)
  qed
  then obtain c d b where a: "a = c # d # b" by (cases a; cases "tl a") auto
  have same: "takeWhile (\<lambda>c. \<not> netloc_end c) (b @ r) = takeWhile (\<lambda>c. \<not> netloc_end c) b" if "slash_led r" for r
    by (rule takeWhile_slash [OF that]) (simp add: netloc_end_def)
  have "starts_with ''//'' (a @ r) \<longleftrightarrow> c = CHR ''/'' \<and> d = CHR ''/''" for r by (simp add: starts_with_def a)
  then show ?thesis using assms(1) same [OF slash] same [OF assms(3)] by (simp add: split_netloc_def text_before_def a)
qed

lemma url_split_parts:
  "url_split bh s = Some u \<longleftrightarrow>
    (let split = split_netloc (snd (split_scheme (clean_url s))) in brackets_ok bh (fst split)
     \<and> u = \<lparr>su_scheme = fst (split_scheme (clean_url s)), su_netloc = fst split,
         su_path = text_before (\<lambda>c. c = CHR ''?'') (text_before (\<lambda>c. c = CHR ''#'') (snd split)),
         su_query = text_after (\<lambda>c. c = CHR ''?'') (text_before (\<lambda>c. c = CHR ''#'') (snd split)),
         su_fragment = text_after (\<lambda>c. c = CHR ''#'') (snd split)\<rparr>)"
  by (auto simp: url_split_def Let_def split: prod.splits)

lemma url_split_append:
  assumes "url_split bh s = Some u" "su_scheme u \<noteq> []" "su_netloc u \<noteq> []" "hd path = CHR ''/''" "path \<noteq> []"
  shows "\<exists>v. url_split bh (strip_right (CHR ''/'') s @ path) = Some v \<and> su_scheme v = su_scheme u \<and> su_netloc v = su_netloc u"
proof -
  let ?r = "strip_right (CHR ''/'') s" and ?f = "\<lambda>c. c \<notin> {CHR 0x09, CHR 0x0A, CHR 0x0D}"
  obtain n where s: "s = ?r @ replicate n (CHR ''/'')" using strip_right_split by blast
  have u: "su_scheme u = fst (split_scheme (clean_url s))" "su_netloc u = fst (split_netloc (snd (split_scheme (clean_url s))))"
    "brackets_ok bh (fst (split_netloc (snd (split_scheme (clean_url s)))))"
    using assms(1) by (auto simp: url_split_parts Let_def)
  have wide: "\<exists>c \<in> set ?r. 32 < (of_char c :: nat)"
  proof (rule ccontr)
    assume "\<not> ?thesis"
    then have "dropWhile (\<lambda>c. (of_char c :: nat) \<le> 32) s = replicate n (CHR ''/'')"
      by (subst s) (auto simp: dropWhile_append not_less)
    then have "CHR '':'' \<notin> set (clean_url s)" by (auto simp: clean_url_def)
    then show False using assms(2) u(1) by (simp add: split_scheme_def Let_def)
  qed
  have tail: "filter ?f (replicate n (CHR ''/'')) = replicate n (CHR ''/'')" by (induction n) auto
  have cs: "clean_url s = clean_url ?r @ replicate n (CHR ''/'')"
    using clean_url_append [OF wide, of "replicate n (CHR ''/'')"] s tail by simp
  have cp: "clean_url (?r @ path) = clean_url ?r @ filter ?f path"
    using clean_url_append [OF wide] .
  have slash: "slash_led (replicate n (CHR ''/''))" by (cases n) (simp_all add: slash_led_def)
  have slash': "slash_led (filter ?f path)"
    using assms(4,5) by (cases path) (auto simp: slash_led_def)
  note sch = split_scheme_append [OF assms(2) [unfolded u(1) cs] slash, of "filter ?f path"]
  have scheme: "split_scheme (clean_url (?r @ path)) = (su_scheme u, text_after (\<lambda>c. c = CHR '':'') (clean_url ?r) @ filter ?f path)"
    and rest: "snd (split_scheme (clean_url s)) = text_after (\<lambda>c. c = CHR '':'') (clean_url ?r) @ replicate n (CHR ''/'')"
    using sch by (simp_all add: u(1) cs cp)
  have only: "set (replicate n (CHR ''/'')) \<subseteq> {CHR ''/''}" by auto
  have "fst (split_netloc (text_after (\<lambda>c. c = CHR '':'') (clean_url ?r) @ filter ?f path)) = su_netloc u"
    using split_netloc_append [OF assms(3) [unfolded u(2) rest] only slash'] by (simp add: u(2) rest)
  then show ?thesis using u(2,3) by (simp add: url_split_parts Let_def scheme)
qed

lemma netloc_parts:
  assumes "su_netloc u = su_netloc v"
  shows "url_hostname u = url_hostname v" "url_port u = url_port v" "url_username u = url_username v" "url_password u = url_password v"
proof -
  have "host_and_port u = host_and_port v" using assms by (simp add: host_and_port_def)
  then show "url_hostname u = url_hostname v" "url_port u = url_port v" by (simp_all add: url_hostname_def url_port_def)
  show "url_username u = url_username v" "url_password u = url_password v"
    using assms by (simp_all add: url_username_def url_password_def)
qed

end
