(* ===== verification/Maestro_Report.thy ===== *)
theory Maestro_Report
  imports Py_Url
begin

text \<open>
  \<^verbatim>\<open>adapters/maestro_reports.py\<close>: the reading of a JUnit report of the mobile flows.

  The XML parser and the UTF-8 decoder, which drops a byte order mark, are parameters; an element is what
  \<^verbatim>\<open>ElementTree\<close> keeps of it. Two elements of one tree are told apart by their positions, the paths from the root, for the
  source keys its counters by the elements' identity.
\<close>

datatype element = Element (el_tag: string) (el_attributes: "(string \<times> string) list") (el_children: "element list")

datatype report_error = Invalid_Report | Report_Crash

record report_summary =
  rs_tests :: nat
  rs_failed :: nat
  rs_skipped :: nat

definition report_passed :: "report_summary \<Rightarrow> bool" where
  "report_passed s \<longleftrightarrow> 0 < rs_tests s \<and> rs_failed s = 0 \<and> rs_skipped s = 0"

definition max_report_bytes :: nat where "max_report_bytes = 2000000"
definition max_report_elements :: nat where "max_report_elements = 10000"
definition max_report_depth :: nat where "max_report_depth = 32"

definition allowed_children :: "(string \<times> string list) list" where
  "allowed_children =
    [(''testsuites'', [''testsuite'', ''testsuites'', ''properties'', ''system-out'', ''system-err'']),
     (''testsuite'', [''testsuite'', ''testcase'', ''properties'', ''system-out'', ''system-err'']),
     (''testcase'', [''properties'', ''system-out'', ''system-err'', ''failure'', ''error'', ''skipped'']),
     (''properties'', [''property'']), (''property'', []), (''system-out'', []), (''system-err'', []), (''failure'', []),
     (''error'', []), (''skipped'', [])]"

text \<open>\<^verbatim>\<open>element.get(key)\<close> and \<^verbatim>\<open>element.find(tag) is not None\<close>\<close>

definition attribute :: "element \<Rightarrow> string \<Rightarrow> string option" where
  "attribute e k = map_of (el_attributes e) k"

definition has_child :: "element \<Rightarrow> string \<Rightarrow> bool" where
  "has_child e t \<longleftrightarrow> list_ex (\<lambda>c. el_tag c = t) (el_children e)"

subsection \<open>The structure\<close>

type_synonym place = "nat list"

definition placed_children :: "place \<Rightarrow> element \<Rightarrow> (place \<times> element) list" where
  "placed_children p e = map (\<lambda>(i, c). (p @ [i], c)) (enumerate 0 (el_children e))"

definition stack_size :: "(place \<times> element \<times> nat) list \<Rightarrow> nat" where
  "stack_size st = sum_list (map (\<lambda>(p, e, d). size e) st)"

lemma size_list_sum: "size_list f xs = sum_list (map f xs) + length xs"
  by (induction xs) simp_all

lemma map_snd_placed [simp]: "map snd (placed_children p e) = el_children e"
proof -
  have "map snd (placed_children p e) = map snd (enumerate 0 (el_children e))"
    by (simp add: placed_children_def split_def o_def)
  then show ?thesis by simp
qed

lemma stack_size_rev_map:
  "stack_size (rev (map (\<lambda>(q, c). (q, c, d)) xs)) = sum_list (map size (map snd xs))"
  by (induction xs) (auto simp: stack_size_def)

lemma stack_size_children:
  "stack_size (rev (map (\<lambda>(q, c). (q, c, d)) (placed_children p e))) < size e"
  by (cases e) (simp add: stack_size_rev_map size_list_sum)

text \<open>
  The elements in the order of the source's stack, whose last child is visited first. \<open>pending\<close> has its top at the head.
\<close>

function walk :: "(place \<times> element \<times> nat) list \<Rightarrow> (place \<times> element) list \<Rightarrow> report_error + (place \<times> element) list" where
  "walk [] seen = Inr seen"
| "walk ((p, e, d) # pending) seen =
    (if max_report_depth < d \<or> max_report_elements \<le> length seen then Inl Invalid_Report
     else case map_of allowed_children (el_tag e) of
       None \<Rightarrow> if el_children e = [] then walk pending (seen @ [(p, e)]) else Inl Report_Crash
     | Some tags \<Rightarrow>
         if list_ex (\<lambda>c. el_tag c \<notin> set tags) (el_children e) then Inl Invalid_Report
         else walk (rev (map (\<lambda>(q, c). (q, c, d + 1)) (placed_children p e)) @ pending) (seen @ [(p, e)]))"
  by pat_completeness auto

termination
proof (relation "measure (\<lambda>(st, seen). stack_size st)")
  show "((rev (map (\<lambda>(q, c). (q, c, d + 1)) (placed_children p e)) @ pending, seen @ [(p, e)]), ((p, e, d) # pending, seen))
      \<in> measure (\<lambda>(st, seen). stack_size st)" for p e d pending seen
    using stack_size_children [of "d + 1" p e] by (simp add: stack_size_def)
  show "((pending, seen @ [(p, e)]), ((p, e, d) # pending, seen)) \<in> measure (\<lambda>(st, seen). stack_size st)"
    for p e d pending seen
    by (cases e) (simp add: stack_size_def)
qed simp

subsection \<open>The counters\<close>

definition counter_keys :: "string list" where
  "counter_keys = [''tests'', ''failures'', ''errors'', ''skipped'', ''disabled'']"

definition flag :: "bool \<Rightarrow> nat" where
  "flag b = (if b then 1 else 0)"

definition case_counts :: "element \<Rightarrow> nat list" where
  "case_counts e = [1, flag (has_child e ''failure''), flag (has_child e ''error''), flag (has_child e ''skipped''), 0]"

definition counter_agrees :: "element \<Rightarrow> string \<times> nat \<Rightarrow> bool" where
  "counter_agrees e kn \<longleftrightarrow> (case attribute e (fst kn) of
     None \<Rightarrow> True
   | Some v \<Rightarrow> length v \<le> 7 \<and> v \<noteq> [] \<and> list_all ascii_digit v \<and> digits_value v = snd kn)"

definition count_element ::
  "place \<times> element \<Rightarrow> (place \<Rightarrow> nat list option) \<Rightarrow> report_error + (place \<Rightarrow> nat list option)"
where
  "count_element pe counts =
    (let p = fst pe; e = snd pe in
     if el_tag e = ''testcase'' then Inr (counts(p \<mapsto> case_counts e))
     else if el_tag e \<in> set [''testsuites'', ''testsuite'']
     then (let children = List.map_filter (\<lambda>(q, c). counts q) (placed_children p e);
               totals = map (\<lambda>n. sum_list (map (\<lambda>child. child ! n) children)) [0..<5] in
       if list_all (counter_agrees e) (zip counter_keys totals) then Inr (counts(p \<mapsto> totals)) else Inl Invalid_Report)
     else Inr counts)"

definition validate_counts :: "(place \<times> element) list \<Rightarrow> report_error + unit" where
  "validate_counts elements =
    (case efold count_element (rev elements) Map.empty of Inl e \<Rightarrow> Inl e | Inr counts \<Rightarrow> Inr ())"

subsection \<open>The report\<close>

text \<open>\<^verbatim>\<open>str.upper\<close>, as the code points it yields.\<close>

definition upper_points :: "char \<Rightarrow> nat list" where
  "upper_points c =
    (let n = of_char c :: nat in
     if ascii_lower c \<or> 224 \<le> n \<and> n \<le> 254 \<and> n \<noteq> 247 then [n - 32]
     else if n = 181 then [924] else if n = 223 then [83, 83] else if n = 255 then [376] else [n])"

definition upper_mentions :: "string \<Rightarrow> string \<Rightarrow> bool" where
  "upper_mentions word text_read \<longleftrightarrow> code_points_occur (map of_char word) (concat (map upper_points text_read))"

definition case_name :: "element \<Rightarrow> string" where
  "case_name e = (case attribute e ''name'' of None \<Rightarrow> [] | Some n \<Rightarrow> n)"

definition case_status :: "element \<Rightarrow> string" where
  "case_status e = (case attribute e ''status'' of None \<Rightarrow> ''SUCCESS'' | Some s \<Rightarrow> s)"

definition case_failed :: "element \<Rightarrow> bool" where
  "case_failed e \<longleftrightarrow> has_child e ''failure'' \<or> has_child e ''error''"

definition case_status_ok :: "element \<Rightarrow> bool" where
  "case_status_ok e \<longleftrightarrow> case_status e \<in> set [''SUCCESS'', ''FAILED'', ''FAILURE'', ''ERROR'']
    \<and> (case_status e \<noteq> ''SUCCESS'' \<longrightarrow> case_failed e)"

definition inventory_ok :: "string list \<Rightarrow> string list \<Rightarrow> bool" where
  "inventory_ok expected names \<longleftrightarrow> expected \<noteq> [] \<and> distinct expected \<and> length names = length expected
    \<and> set names = set expected \<and> distinct names"

definition report_of :: "string list \<Rightarrow> element \<Rightarrow> report_error + report_summary" where
  "report_of expected root =
    (if el_tag root \<notin> set [''testsuite'', ''testsuites''] then Inl Invalid_Report
     else ebind (walk [([], root, 0)] []) (\<lambda>elements.
       let cases = map snd (filter (\<lambda>pe. el_tag (snd pe) = ''testcase'') elements) in
       if \<not> inventory_ok expected (map case_name cases) then Inl Invalid_Report
       else if \<not> list_all case_status_ok cases then Inl Invalid_Report
       else ebind (validate_counts elements) (\<lambda>_.
         Inr \<lparr>rs_tests = length cases, rs_failed = length (filter case_failed cases),
           rs_skipped = length (filter (\<lambda>c. has_child c ''skipped'') cases)\<rparr>)))"

definition parse_report ::
  "(string \<Rightarrow> string option) \<Rightarrow> (string \<Rightarrow> element option) \<Rightarrow> string list \<Rightarrow> string \<Rightarrow> report_error + report_summary"
where
  "parse_report decode xml expected content =
    (if content = [] \<or> max_report_bytes < length content then Inl Invalid_Report
     else case decode content of
       None \<Rightarrow> Inl Invalid_Report
     | Some text_read \<Rightarrow>
         if upper_mentions ''<!DOCTYPE'' text_read \<or> upper_mentions ''<!ENTITY'' text_read then Inl Invalid_Report
         else (case xml text_read of None \<Rightarrow> Inl Invalid_Report | Some root \<Rightarrow> report_of expected root))"

end
