(* ===== verification/Report_Properties.thy ===== *)
theory Report_Properties
  imports Maestro_Report "HOL-Library.Multiset"
begin

text \<open>
  What a mobile report that passes says. The iterative visit with its table of counters is compared with recursion on the
  tree: \<open>subelements\<close> lists a tree's elements and \<open>tally\<close> counts the test cases below one.
\<close>

fun subelements :: "element \<Rightarrow> element list" where
  "subelements (Element t a cs) = Element t a cs # concat (map subelements cs)"

fun element_at :: "element \<Rightarrow> place \<Rightarrow> element option" where
  "element_at e [] = Some e"
| "element_at e (i # p) = (if i < length (el_children e) then element_at (el_children e ! i) p else None)"

lemma subelements_unfold: "subelements e = e # concat (map subelements (el_children e))"
  by (cases e) simp

lemma element_at_append: "element_at e p = Some f \<Longrightarrow> element_at e (p @ q) = element_at f q"
  by (induction e p rule: element_at.induct) (auto split: if_splits)

lemma element_at_append_None: "element_at e p = None \<Longrightarrow> element_at e (p @ q) = None"
  by (induction e p rule: element_at.induct) (auto split: if_splits)

lemma placed_at:
  assumes "(q, c) \<in> set (placed_children p e)" "element_at root p = Some e"
  shows "element_at root q = Some c"
  using assms unfolding placed_children_def
  by (auto simp: in_set_enumerate_eq element_at_append)

subsection \<open>The visit\<close>

fun parents_first :: "(place \<times> element) list \<Rightarrow> bool" where
  "parents_first [] \<longleftrightarrow> True"
| "parents_first ((p, e) # xs) \<longleftrightarrow> set (placed_children p e) \<subseteq> set xs \<and> parents_first xs"

definition fits :: "element \<Rightarrow> bool" where
  "fits e \<longleftrightarrow> (case map_of allowed_children (el_tag e) of
     None \<Rightarrow> el_children e = [] | Some tags \<Rightarrow> list_all (\<lambda>c. el_tag c \<in> set tags) (el_children e))"

lemma walk_step:
  assumes "walk ((p, e, d) # pending) seen = Inr out"
  shows "d \<le> max_report_depth" "length seen < max_report_elements" "fits e"
    "walk (rev (map (\<lambda>(q, c). (q, c, d + 1)) (placed_children p e)) @ pending) (seen @ [(p, e)]) = Inr out"
  using assms by (auto simp: fits_def list_all_iff list_ex_iff placed_children_def split: if_splits option.splits)

lemma walk_cases [consumes 1, case_names finished visit]:
  assumes "walk st seen = Inr out"
    and "\<And>seen. P [] seen seen"
    and "\<And>p e d pending seen out. d \<le> max_report_depth \<Longrightarrow> length seen < max_report_elements \<Longrightarrow> fits e \<Longrightarrow>
      P (rev (map (\<lambda>(q, c). (q, c, d + 1)) (placed_children p e)) @ pending) (seen @ [(p, e)]) out \<Longrightarrow>
      P ((p, e, d) # pending) seen out"
  shows "P st seen out"
  using assms(1)
proof (induction st seen rule: walk.induct)
  case (1 seen)
  then show ?case using assms(2) by simp
next
  case (2 p e d pending seen)
  note step = walk_step [OF "2.prems"]
  have "P (rev (map (\<lambda>(q, c). (q, c, d + 1)) (placed_children p e)) @ pending) (seen @ [(p, e)]) out"
  proof (cases "map_of allowed_children (el_tag e)")
    case None
    then have "placed_children p e = []" using step(3) by (simp add: fits_def placed_children_def)
    then show ?thesis using "2.IH"(1) step None by (simp add: fits_def)
  next
    case (Some tags)
    then show ?thesis using "2.IH"(2) step by (auto simp: fits_def list_all_iff list_ex_iff)
  qed
  then show ?case using assms(3) step(1-3) by blast
qed

lemma walk_parents:
  assumes "walk st seen = Inr out"
  shows "\<exists>rest. out = seen @ rest \<and> parents_first rest \<and> (\<forall>p e d. (p, e, d) \<in> set st \<longrightarrow> (p, e) \<in> set rest)"
  using assms
proof (induction rule: walk_cases)
  case (finished seen)
  then show ?case by simp
next
  case (visit p e d pending seen out)
  then obtain rest where rest: "out = (seen @ [(p, e)]) @ rest" "parents_first rest"
    "\<And>q c n. (q, c, n) \<in> set (rev (map (\<lambda>(q, c). (q, c, d + 1)) (placed_children p e)) @ pending) \<Longrightarrow> (q, c) \<in> set rest"
    by blast
  have "set (placed_children p e) \<subseteq> set rest"
    using rest(3) by (auto simp: image_iff split_def) (metis fst_conv snd_conv)
  then show ?case
    using rest by (intro exI [of _ "(p, e) # rest"]) auto
qed

lemma walk_places:
  assumes "walk st seen = Inr out" "\<And>p e d. (p, e, d) \<in> set st \<Longrightarrow> element_at root p = Some e \<and> d = length p"
    "\<And>p e. (p, e) \<in> set seen \<Longrightarrow> element_at root p = Some e \<and> length p \<le> max_report_depth \<and> fits e"
  shows "(p, e) \<in> set out \<Longrightarrow> element_at root p = Some e \<and> length p \<le> max_report_depth \<and> fits e"
  using assms
proof (induction rule: walk_cases)
  case (finished seen)
  then show ?case by blast
next
  case (visit p' e' d pending seen out)
  have here: "element_at root p' = Some e'" "d = length p'" using visit.prems(2) by auto
  have length_child: "length q = Suc (length p')" if "(q, c) \<in> set (placed_children p' e')" for q c
    using that by (auto simp: placed_children_def)
  show ?case
  proof (rule visit.IH [OF visit.prems(1)])
    fix q c n
    assume "(q, c, n) \<in> set (rev (map (\<lambda>(q, c). (q, c, d + 1)) (placed_children p' e')) @ pending)"
    then consider "(q, c) \<in> set (placed_children p' e')" "n = Suc d" | "(q, c, n) \<in> set pending" by auto
    then show "element_at root q = Some c \<and> n = length q"
    proof cases
      case 1
      then show ?thesis using placed_at [OF 1(1) here(1)] length_child here(2) by simp
    next
      case 2
      then show ?thesis by (intro visit.prems(2)) simp
    qed
  next
    fix q c
    assume "(q, c) \<in> set (seen @ [(p', e')])"
    then show "element_at root q = Some c \<and> length q \<le> max_report_depth \<and> fits c"
      using visit.prems(3) here visit.hyps by auto
  qed
qed

lemma walk_bounded:
  assumes "walk st seen = Inr out" "length seen \<le> max_report_elements"
  shows "length out \<le> max_report_elements"
  using assms by (induction rule: walk_cases) auto

lemma sum_stack:
  "(\<Sum>(q, c, d) \<leftarrow> rev (map (\<lambda>(q, c). (q, c, n)) xs). mset (subelements c)) = mset (concat (map subelements (map snd xs)))"
  by (induction xs) auto

lemma walk_elements:
  assumes "walk st seen = Inr out"
  shows "mset (map snd out) = mset (map snd seen) + (\<Sum>(p, e, d) \<leftarrow> st. mset (subelements e))"
  using assms
proof (induction rule: walk_cases)
  case (finished seen)
  then show ?case by simp
next
  case (visit p e d pending seen out)
  then show ?case
    by (simp add: sum_stack subelements_unfold [of e] del: map_map)
qed

lemma parents_first_all:
  assumes "parents_first out" "([], root) \<in> set out"
  shows "element_at root p = Some e \<Longrightarrow> (p, e) \<in> set out"
proof (induction p arbitrary: e rule: rev_induct)
  case Nil
  then show ?case using assms(2) by simp
next
  case (snoc i p)
  obtain f where f: "element_at root p = Some f" "i < length (el_children f)" "e = el_children f ! i"
    using snoc.prems by (cases "element_at root p")
      (auto simp: element_at_append element_at_append_None split: if_splits)
  have "(p @ [i], e) \<in> set (placed_children p f)"
    using f by (auto simp: placed_children_def in_set_enumerate_eq image_iff intro!: bexI [of _ "(i, el_children f ! i)"])
  moreover have "set (placed_children p f) \<subseteq> set out"
    using snoc.IH [OF f(1)] assms(1)
    by (induction out rule: parents_first.induct) auto
  ultimately show ?case by blast
qed

subsection \<open>The counters\<close>

definition tests_of :: "element \<Rightarrow> element list" where
  "tests_of e = filter (\<lambda>c. el_tag c = ''testcase'') (subelements e)"

definition tally :: "element \<Rightarrow> nat list" where
  "tally e = map (\<lambda>f. length (filter f (tests_of e)))
    [\<lambda>_. True, \<lambda>c. has_child c ''failure'', \<lambda>c. has_child c ''error'', \<lambda>c. has_child c ''skipped'', \<lambda>_. False]"

definition suite :: "element \<Rightarrow> bool" where
  "suite e \<longleftrightarrow> el_tag e \<in> set [''testsuites'', ''testsuite'']"

definition counted :: "element \<Rightarrow> bool" where
  "counted e \<longleftrightarrow> el_tag e = ''testcase'' \<or> suite e"

definition fits_all :: "element \<Rightarrow> bool" where
  "fits_all e \<longleftrightarrow> (\<forall>x \<in> set (subelements e). fits x)"

definition plain_tags :: "string list" where
  "plain_tags = [''properties'', ''property'', ''system-out'', ''system-err'', ''failure'', ''error'', ''skipped'']"

lemma fits_all_child: "fits_all e \<Longrightarrow> c \<in> set (el_children e) \<Longrightarrow> fits_all c"
  by (auto simp: fits_all_def subelements_unfold [of e])

lemma fits_all_self: "fits_all e \<Longrightarrow> fits e"
  by (simp add: fits_all_def subelements_unfold [of e])

lemma plain_child:
  assumes "fits e" "el_tag e \<in> set plain_tags" "c \<in> set (el_children e)"
  shows "el_tag c \<in> set plain_tags"
  using assms by (auto simp: fits_def plain_tags_def allowed_children_def list_all_iff)

lemma plain_no_cases:
  "fits_all e \<Longrightarrow> el_tag e \<in> set plain_tags \<Longrightarrow> tests_of e = []"
proof (induction e rule: subelements.induct)
  case (1 t a cs)
  have "tests_of c = []" if "c \<in> set cs" for c
    using that 1 fits_all_child [OF "1.prems"(1)] plain_child [OF fits_all_self [OF "1.prems"(1)] "1.prems"(2)] by simp
  then show ?case using "1.prems"(2) by (auto simp: tests_of_def plain_tags_def filter_concat filter_empty_conv)
qed

lemma children_counted:
  assumes "fits e" "counted e" "c \<in> set (el_children e)"
  shows "el_tag e = ''testcase'' \<longrightarrow> el_tag c \<in> set plain_tags" "counted c \<or> el_tag c \<in> set plain_tags"
  using assms by (auto simp: fits_def counted_def suite_def plain_tags_def allowed_children_def list_all_iff)

lemma tests_of_case:
  assumes "fits_all e" "el_tag e = ''testcase''"
  shows "tests_of e = [e]"
proof -
  have "tests_of c = []" if "c \<in> set (el_children e)" for c
    using plain_no_cases fits_all_child [OF assms(1)] children_counted(1) [OF fits_all_self [OF assms(1)]] assms(2) that
    by (simp add: counted_def)
  then show ?thesis using assms(2) by (simp add: tests_of_def subelements_unfold [of e] filter_concat filter_empty_conv)
qed

lemma tally_case: "fits_all e \<Longrightarrow> el_tag e = ''testcase'' \<Longrightarrow> case_counts e = tally e"
  by (simp add: tally_def tests_of_case case_counts_def flag_def)

lemma tally_suite:
  assumes "fits_all e" "suite e"
  shows "map (\<lambda>n. sum_list (map (\<lambda>v. v ! n) (map tally (filter counted (el_children e))))) [0..<5] = tally e"
proof -
  have cases: "tests_of e = concat (map tests_of (el_children e))"
    using assms(2) by (auto simp: tests_of_def [abs_def] subelements_unfold [of e] suite_def filter_concat o_def)
  have zero: "tests_of c = []" if "c \<in> set (el_children e)" "\<not> counted c" for c
    using that plain_no_cases fits_all_child [OF assms(1)] children_counted(2) [OF fits_all_self [OF assms(1)]] assms(2)
    by (auto simp: counted_def)
  have "sum_list (map (\<lambda>c. length (filter f (tests_of c))) (filter counted (el_children e))) = length (filter f (tests_of e))" for f
    unfolding cases by (subst sum_list_map_filter) (auto simp: zero length_concat filter_concat o_def)
  from this [of "\<lambda>_. True"] this show ?thesis by (simp add: tally_def o_def upt_rec)
qed

definition counts_hold :: "element \<Rightarrow> (place \<times> element) list \<Rightarrow> (place \<Rightarrow> nat list option) \<Rightarrow> bool" where
  "counts_hold root seen counts \<longleftrightarrow>
    (\<forall>p v. counts p = Some v \<longrightarrow> (\<exists>e. element_at root p = Some e \<and> counted e \<and> v = tally e))
    \<and> (\<forall>p e. (p, e) \<in> set seen \<longrightarrow> counted e \<longrightarrow> counts p \<noteq> None)"

lemma counts_holdD:
  assumes "counts_hold root seen counts" "counts p = Some v" "element_at root p = Some e"
  shows "counted e \<and> v = tally e"
proof -
  obtain f where "element_at root p = Some f" "counted f" "v = tally f"
    using assms(1,2) unfolding counts_hold_def by blast
  then show ?thesis using assms(3) by simp
qed

lemma map_filter_counted:
  "List.map_filter (\<lambda>x. if P (snd x) then Some (f (snd x)) else None) xs = map f (filter P (map snd xs))"
  by (induction xs) (auto simp: map_filter_def)

lemma counted_children:
  assumes "counts_hold root seen counts" "element_at root p = Some e" "set (placed_children p e) \<subseteq> set seen"
  shows "List.map_filter (\<lambda>(q, c). counts q) (placed_children p e) = map tally (filter counted (el_children e))"
proof -
  have "(case qc of (q, c) \<Rightarrow> counts q) = (if counted (snd qc) then Some (tally (snd qc)) else None)"
    if "qc \<in> set (placed_children p e)" for qc
  proof -
    obtain q c where qc: "qc = (q, c)" by (cases qc)
    have at: "element_at root q = Some c" using placed_at assms(2) that qc by blast
    show ?thesis
    proof (cases "counts q")
      case None
      have "(q, c) \<in> set seen" using assms(3) that qc by blast
      then have "\<not> counted c" using assms(1) None unfolding counts_hold_def by blast
      then show ?thesis using None qc by simp
    next
      case (Some v)
      then show ?thesis using counts_holdD [OF assms(1) Some at] qc by simp
    qed
  qed
  then have "List.map_filter (\<lambda>(q, c). counts q) (placed_children p e)
      = List.map_filter (\<lambda>qc. if counted (snd qc) then Some (tally (snd qc)) else None) (placed_children p e)"
    by (simp add: map_filter_def cong: filter_cong map_cong)
  also have "\<dots> = map tally (filter counted (map snd (placed_children p e)))"
    by (rule map_filter_counted)
  finally show ?thesis by simp
qed

lemma count_element_holds:
  assumes hold: "counts_hold root seen counts" and at: "element_at root p = Some e" "fits_all e"
    and children: "set (placed_children p e) \<subseteq> set seen"
    and run: "count_element (p, e) counts = Inr counts'"
  shows "counts_hold root ((p, e) # seen) counts'"
    and "suite e \<Longrightarrow> list_all (counter_agrees e) (zip counter_keys (tally e))"
proof -
  note listed = counted_children [OF hold at(1) children]
  show "counts_hold root ((p, e) # seen) counts'"
  proof (cases "counted e")
    case False
    then have "counts' = counts" using run by (auto simp: count_element_def counted_def suite_def)
    then show ?thesis using hold False at by (auto simp: counts_hold_def)
  next
    case True
    then have "counts' = counts(p \<mapsto> tally e)"
      using run tally_case [OF at(2)] tally_suite [OF at(2)]
      by (auto simp: count_element_def Let_def listed counted_def suite_def split: if_splits)
    then show ?thesis using hold True at by (auto simp: counts_hold_def)
  qed
  show "list_all (counter_agrees e) (zip counter_keys (tally e))" if "suite e"
    using run that tally_suite [OF at(2) that]
    by (auto simp: count_element_def Let_def listed suite_def split: if_splits)
qed

lemma counts_validated:
  assumes "efold count_element (rev seen) Map.empty = Inr counts" "parents_first seen"
    "\<And>p e. (p, e) \<in> set seen \<Longrightarrow> element_at root p = Some e \<and> fits_all e"
  shows "counts_hold root seen counts
    \<and> (\<forall>p e. (p, e) \<in> set seen \<longrightarrow> suite e \<longrightarrow> list_all (counter_agrees e) (zip counter_keys (tally e)))"
  using assms
proof (induction "seen" arbitrary: counts rule: parents_first.induct)
  case 1
  then show ?case by (auto simp: counts_hold_def)
next
  case (2 p e xs)
  obtain c where c: "efold count_element (rev xs) Map.empty = Inr c" "count_element (p, e) c = Inr counts"
    using "2.prems"(1) by (auto simp: efold_append split: sum.splits)
  have rest: "counts_hold root xs c
      \<and> (\<forall>p e. (p, e) \<in> set xs \<longrightarrow> suite e \<longrightarrow> list_all (counter_agrees e) (zip counter_keys (tally e)))"
  proof (rule "2.IH" [OF c(1)])
    show "parents_first xs" using "2.prems"(2) by simp
    show "element_at root q = Some f \<and> fits_all f" if "(q, f) \<in> set xs" for q f
      using "2.prems"(3) [of q f] that by simp
  qed
  note here = count_element_holds [OF _ _ _ _ c(2), of root xs]
  show ?case
    using here rest "2.prems"(2) "2.prems"(3) [of p e] by auto
qed

subsection \<open>Passing reports\<close>

lemma subelements_trans: "x \<in> set (subelements e) \<Longrightarrow> y \<in> set (subelements x) \<Longrightarrow> y \<in> set (subelements e)"
proof (induction e rule: subelements.induct)
  case (1 t a cs)
  then show ?case by (cases "x = Element t a cs") auto
qed

lemma subelements_self: "e \<in> set (subelements e)"
  by (simp add: subelements_unfold [of e])

lemma walk_root:
  assumes "walk [([], root, 0)] [] = Inr out"
  shows "mset (map snd out) = mset (subelements root)" "length out \<le> max_report_elements" "parents_first out"
    "\<And>p e. (p, e) \<in> set out \<longleftrightarrow> element_at root p = Some e"
    "\<And>p e. element_at root p = Some e \<Longrightarrow> length p \<le> max_report_depth \<and> fits_all e"
proof -
  show elements: "mset (map snd out) = mset (subelements root)" using walk_elements [OF assms] by simp
  show "length out \<le> max_report_elements" using walk_bounded [OF assms] by simp
  have parents: "parents_first out \<and> ([], root) \<in> set out" using walk_parents [OF assms] by auto
  then show "parents_first out" ..
  have placed: "element_at root p = Some e \<and> length p \<le> max_report_depth \<and> fits e" if "(p, e) \<in> set out" for p e
    by (rule walk_places [OF assms]) (use that in auto)
  show iff: "(p, e) \<in> set out \<longleftrightarrow> element_at root p = Some e" for p e
    using parents_first_all parents placed by blast
  have members: "set (subelements root) = snd ` set out"
    using elements by (metis list.set_map set_mset_mset)
  have "fits x" if "x \<in> set (subelements root)" for x using that members placed by auto
  then show "length p \<le> max_report_depth \<and> fits_all e" if "element_at root p = Some e" for p e
    using that iff placed members subelements_trans unfolding fits_all_def by (metis image_eqI snd_conv)
qed

lemma mset_filter_snd: "mset (map snd (filter (\<lambda>x. P (snd x)) xs)) = filter_mset P (mset (map snd xs))"
  by (induction xs) auto

lemma inventory_mset: "inventory_ok expected names \<Longrightarrow> mset names = mset expected"
  by (auto simp: inventory_ok_def set_eq_iff_mset_eq_distinct [symmetric])

definition clean_case :: "element \<Rightarrow> bool" where
  "clean_case c \<longleftrightarrow> case_status c = ''SUCCESS'' \<and> \<not> has_child c ''failure'' \<and> \<not> has_child c ''error'' \<and> \<not> has_child c ''skipped''"

definition honest_counters :: "element \<Rightarrow> bool" where
  "honest_counters e \<longleftrightarrow> (\<forall>k n v. (k, n) \<in> set (zip counter_keys (tally e)) \<longrightarrow> attribute e k = Some v \<longrightarrow> digits_value v = n)"

lemma counters_honest:
  assumes "list_all (counter_agrees e) (zip counter_keys (tally e))"
  shows "honest_counters e"
  using assms unfolding honest_counters_def list_all_iff by (fastforce simp: counter_agrees_def)

text \<open>
  C10. A report that passes is complete and honest: within the limits on size and depth its tree holds exactly one test
  case for every expected name and no other, each of them successful without a failure, an error or a skip, and every
  counter that one of its suites declares is the number of such test cases below that suite, whatever the parser and the
  decoder make of the bytes.
\<close>

theorem passing_reports_are_complete:
  assumes parsed: "parse_report decode xml expected content = Inr s" and passed: "report_passed s"
  shows "\<exists>text_read root. decode content = Some text_read \<and> xml text_read = Some root
    \<and> length (subelements root) \<le> 10000 \<and> (\<forall>p e. element_at root p = Some e \<longrightarrow> length p \<le> 32)
    \<and> distinct expected \<and> mset (map case_name (tests_of root)) = mset expected
    \<and> list_all clean_case (tests_of root) \<and> rs_tests s = length expected
    \<and> (\<forall>e \<in> set (subelements root). suite e \<longrightarrow> honest_counters e)"
proof -
  obtain text_read root where read: "decode content = Some text_read" "xml text_read = Some root" "report_of expected root = Inr s"
    using parsed by (auto simp: parse_report_def split: if_splits option.splits)
  obtain out where out: "walk [([], root, 0)] [] = Inr out" using read(3) by (auto simp: report_of_def split: if_splits)
  note root = walk_root [OF out]
  let ?cases = "map snd (filter (\<lambda>pe. el_tag (snd pe) = ''testcase'') out)"
  have inventory: "inventory_ok expected (map case_name ?cases)" and statuses: "list_all case_status_ok ?cases"
    and counts: "validate_counts out = Inr ()"
    and s: "s = \<lparr>rs_tests = length ?cases, rs_failed = length (filter case_failed ?cases),
      rs_skipped = length (filter (\<lambda>c. has_child c ''skipped'') ?cases)\<rparr>"
    using read(3) out by (auto simp: report_of_def Let_def split: if_splits)
  have cases: "mset ?cases = mset (tests_of root)"
    using mset_filter_snd [of "\<lambda>e. el_tag e = ''testcase''" out] root(1) unfolding tests_of_def by simp
  have names: "mset (map case_name (tests_of root)) = mset (map case_name ?cases)" using cases by (metis mset_map)
  also have "\<dots> = mset expected" by (rule inventory_mset [OF inventory])
  finally have expected: "mset (map case_name (tests_of root)) = mset expected" .
  have "list_all clean_case ?cases"
    using passed statuses
    by (auto simp: s report_passed_def clean_case_def case_status_ok_def case_failed_def list_all_iff filter_empty_conv)
  then have "list_all clean_case (tests_of root)"
    unfolding list_all_iff mset_eq_setD [OF cases] .
  moreover have "honest_counters e" if "e \<in> set (subelements root)" "suite e" for e
  proof -
    obtain c where c: "efold count_element (rev out) Map.empty = Inr c"
      using counts by (auto simp: validate_counts_def split: sum.splits)
    have "\<exists>p. (p, e) \<in> set out" using that(1) root(1) by (metis imageE list.set_map prod.collapse set_mset_mset)
    then show ?thesis
      using counts_validated [OF c root(3), of root] root(4,5) that(2) counters_honest by blast
  qed
  moreover have "length (subelements root) = length out" using root(1) by (metis length_map size_mset)
  ultimately show ?thesis
    using read(1,2) root(2,5) inventory expected
    by (intro exI [of _ text_read] exI [of _ root])
      (auto simp: inventory_ok_def s max_report_elements_def max_report_depth_def)
qed

definition ex_report :: element where
  "ex_report = Element ''testsuites'' [(''tests'', ''2'')]
    [Element ''testsuite'' [(''name'', ''android''), (''tests'', ''1''), (''failures'', ''0'')]
       [Element ''testcase'' [(''name'', ''sign-in''), (''status'', ''SUCCESS'')] [Element ''system-out'' [] []]],
     Element ''testsuite'' [(''disabled'', ''0'')] [Element ''testcase'' [(''name'', ''checkout'')] []]]"

lemma ex_report_read: "parse_report Some (\<lambda>_. Some ex_report) [''checkout'', ''sign-in''] ''<testsuites/>'' =
    Inr \<lparr>rs_tests = 2, rs_failed = 0, rs_skipped = 0\<rparr>"
proof -
  have "\<not> upper_mentions ''<!DOCTYPE'' ''<testsuites/>''" "\<not> upper_mentions ''<!ENTITY'' ''<testsuites/>''" by code_simp+
  moreover have "report_of [''checkout'', ''sign-in''] ex_report = Inr \<lparr>rs_tests = 2, rs_failed = 0, rs_skipped = 0\<rparr>"
  proof -
    obtain out where out: "walk [([], ex_report, 0)] [] = Inr out"
      "map snd (filter (\<lambda>pe. el_tag (snd pe) = ''testcase'') out) = [Element ''testcase'' [(''name'', ''checkout'')] [],
        Element ''testcase'' [(''name'', ''sign-in''), (''status'', ''SUCCESS'')] [Element ''system-out'' [] []]]"
      "validate_counts out = Inr ()"
      by (simp add: ex_report_def placed_children_def allowed_children_def max_report_depth_def max_report_elements_def
          validate_counts_def count_element_def case_counts_def flag_def map_filter_def counter_agrees_def attribute_def
          has_child_def counter_keys_def upt_rec digits_value_def ascii_digit_def Let_def)
    have "el_tag ex_report = ''testsuites''" by (simp add: ex_report_def)
    then show ?thesis
      unfolding report_of_def out(1) ebind_Inr Let_def out(2) out(3)
      by (simp add: inventory_ok_def case_name_def attribute_def case_status_ok_def case_status_def case_failed_def
          has_child_def insert_commute)
  qed
  ultimately show ?thesis by (simp add: parse_report_def max_report_bytes_def)
qed

theorem passing_reports_are_complete_witness:
  "report_passed \<lparr>rs_tests = 2, rs_failed = 0, rs_skipped = 0\<rparr> \<and> list_all clean_case (tests_of ex_report)
    \<and> mset (map case_name (tests_of ex_report)) = mset [''checkout'', ''sign-in'']"
proof -
  have "report_passed \<lparr>rs_tests = 2, rs_failed = 0, rs_skipped = 0\<rparr>" by (simp add: report_passed_def)
  then show ?thesis using passing_reports_are_complete [OF ex_report_read] by auto
qed

end
