(* ===== verification/Chat_Roles.thy ===== *)
theory Chat_Roles
  imports Py_Text
begin

text \<open>
  \<^verbatim>\<open>application/chat_roles.py\<close>: conversation turns, and the routing of a chat message to an agent by mode
  or by key phrases.

  The three patterns of the module are alternatives of literal phrases between word boundaries, matched
  without regard to case. A pattern is the list of its phrases, with optional parts and character classes
  multiplied out; \<open>search_signals\<close> is \<^verbatim>\<open>re.search\<close> on them. \<open>word_char\<close> is the regular expressions' word
  class on code points below 256; no code point in that range other than an ASCII letter folds to one, so
  lower case of ASCII letters decides the case-insensitive comparison with a phrase.
\<close>

datatype chat_mode = Mode_Auto | Mode_Business | Mode_Architecture | Mode_Coding

datatype agent_role = Business_Analyst | Architect | Code_Analyst

datatype analysis_profile = Profile_Architecture | Profile_Coding

definition max_doer_review_rounds :: nat where
  "max_doer_review_rounds = 3"

definition max_model_calls_per_turn :: nat where
  "max_model_calls_per_turn = max_doer_review_rounds * 2"

subsection \<open>Key phrases\<close>

definition fold_char :: "char \<Rightarrow> char" where
  "fold_char c = (if ascii_upper c then char_of (of_char c + 32 :: nat) else c)"

definition word_boundary :: "string \<Rightarrow> nat \<Rightarrow> bool" where
  "word_boundary s i \<longleftrightarrow>
    (0 < i \<and> i \<le> length s \<and> word_char (s ! (i - 1))) \<noteq> (i < length s \<and> word_char (s ! i))"

definition phrase_at :: "string \<Rightarrow> string \<Rightarrow> nat \<Rightarrow> bool" where
  "phrase_at s p i \<longleftrightarrow>
    take (length p) (drop i (map fold_char s)) = p \<and> word_boundary s i \<and> word_boundary s (i + length p)"

definition search_signals :: "string list \<Rightarrow> string \<Rightarrow> bool" where
  "search_signals phrases s \<longleftrightarrow> list_ex (\<lambda>i. list_ex (\<lambda>p. phrase_at s p i) phrases) [0..<Suc (length s)]"

definition architecture_signals :: "string list" where
  "architecture_signals =
    [''architect'', ''architecture'', ''system design'', ''data flow'', ''service boundary'',
     ''component design'', ''integration design'', ''security design'']"

definition code_signals :: "string list" where
  "code_signals =
    [''code'', ''function'', ''method'', ''class'', ''bug'', ''test'', ''error'', ''stack trace'', ''endpoint'',
     ''login'', ''token'', ''file'', ''module'', ''implementation'', ''source'', ''repository'', ''repo'']"

definition runtime_evidence_signals :: "string list" where
  "runtime_evidence_signals =
    [''end-to-end'', ''end-to end'', ''end to-end'', ''end to end'', ''e2e'', ''runtime'', ''simulate'',
     ''simulation'', ''run it'', ''run this'', ''run the app'', ''run the application'', ''run the service'',
     ''run the test'', ''run the tests'', ''does it work'', ''will it work'', ''work in practice'',
     ''works in practice'', ''when running'', ''when deployed'']"

subsection \<open>Conversation turns and routing\<close>

record conversation_turn =
  turn_assistant :: bool
  turn_content :: string

definition valid_turn :: "conversation_turn \<Rightarrow> bool" where
  "valid_turn t \<longleftrightarrow> 1 \<le> length (turn_content t) \<and> length (turn_content t) \<le> 4000"

definition turn_role :: "conversation_turn \<Rightarrow> string" where
  "turn_role t = (if turn_assistant t then ''assistant'' else ''user'')"

datatype routing_error = Architect_Needs_Repository | Code_Needs_Repository

definition route_chat_role ::
  "chat_mode \<Rightarrow> string \<Rightarrow> string option \<Rightarrow> routing_error + agent_role \<times> analysis_profile option"
where
  "route_chat_role mode message repository =
    (let architect = (if repository = None then Inl Architect_Needs_Repository
                      else Inr (Architect, Some Profile_Architecture));
         coder = (if repository = None then Inl Code_Needs_Repository
                  else Inr (Code_Analyst, Some Profile_Coding));
         analyst = Inr (Business_Analyst, None)
     in case mode of
          Mode_Business \<Rightarrow> analyst
        | Mode_Architecture \<Rightarrow> architect
        | Mode_Coding \<Rightarrow> coder
        | Mode_Auto \<Rightarrow>
            if search_signals architecture_signals message then architect
            else if search_signals code_signals message then coder
            else analyst)"

definition requires_runtime_evidence :: "string \<Rightarrow> bool" where
  "requires_runtime_evidence message \<longleftrightarrow> search_signals runtime_evidence_signals message"

subsection \<open>Facts\<close>

lemma route_repository:
  "route_chat_role mode message repository = Inr (role, profile) \<Longrightarrow>
    (role = Business_Analyst \<longleftrightarrow> profile = None) \<and> (role \<noteq> Business_Analyst \<longrightarrow> repository \<noteq> None)"
  by (auto simp: route_chat_role_def Let_def split: chat_mode.splits if_splits)

lemma route_profile:
  "route_chat_role mode message repository = Inr (role, profile) \<Longrightarrow>
    (role = Architect \<longleftrightarrow> profile = Some Profile_Architecture) \<and> (role = Code_Analyst \<longleftrightarrow> profile = Some Profile_Coding)"
  by (auto simp: route_chat_role_def Let_def split: chat_mode.splits if_splits)

lemma route_total_with_repository: "\<exists>r. route_chat_role mode message (Some repo) = Inr r"
  by (auto simp: route_chat_role_def Let_def split: chat_mode.splits)

text \<open>A phrase is found wherever it stands between two characters that are not word characters.\<close>

lemma word_boundary_inside:
  assumes "s = a @ p @ b" "p \<noteq> []" "word_char (hd p)" "a = [] \<or> \<not> word_char (last a)"
  shows "word_boundary s (length a)"
proof -
  have "s ! length a = hd p" using assms(1,2) by (simp add: nth_append hd_conv_nth)
  moreover have "\<not> word_char (s ! (length a - 1))" if "a \<noteq> []"
    using that assms(1,4) by (simp add: nth_append last_conv_nth)
  ultimately show ?thesis using assms by (auto simp: word_boundary_def)
qed

lemma word_boundary_after:
  assumes "s = a @ p @ b" "p \<noteq> []" "word_char (last p)" "b = [] \<or> \<not> word_char (hd b)"
  shows "word_boundary s (length a + length p)"
proof -
  have "s ! (length a + length p - 1) = last p"
    using assms(1,2) by (cases p rule: rev_cases) (simp_all add: nth_append)
  moreover have "\<not> word_char (s ! (length a + length p))" if "b \<noteq> []"
    using that assms(1,4) by (simp add: nth_append hd_conv_nth)
  ultimately show ?thesis using assms by (auto simp: word_boundary_def)
qed

lemma search_signals_found:
  assumes "s = a @ w @ b" "map fold_char w = p" "p \<in> set phrases" "w \<noteq> []"
    and "word_char (hd w)" "word_char (last w)"
    and "a = [] \<or> \<not> word_char (last a)" "b = [] \<or> \<not> word_char (hd b)"
  shows "search_signals phrases s"
proof -
  have "length p = length w" using assms(2) by auto
  then have "phrase_at s p (length a)"
    using word_boundary_inside [of s a w b] word_boundary_after [of s a w b] assms
    by (simp add: phrase_at_def)
  then show ?thesis
    unfolding search_signals_def list_ex_iff using assms(1,3)
    by (intro bexI [of _ "length a"] bexI [of _ p]) auto
qed

end
