(* ===== verification/Model_Pricing.thy ===== *)
theory Model_Pricing
  imports Review_Base Complex_Main
begin

text \<open>
  \<^verbatim>\<open>application/model_pricing.py\<close> with the usage record of \<^verbatim>\<open>ports/model.py\<close>: published token rates, context
  limits and the list-price estimate of a model run.

  Prices are Python's \<^verbatim>\<open>decimal.Decimal\<close>: a coefficient and an exponent, multiplied and added in the
  default context (28 significant digits, ties to even), and turned into nanodollars by \<^verbatim>\<open>quantize\<close>,
  which raises when the result needs more than 28 digits. All numbers are nonnegative, so there is no sign.
  An exponent beyond the context's range would raise a sibling of the same exception earlier; it needs a
  coefficient that \<^verbatim>\<open>quantize\<close> refuses anyway.
\<close>

datatype date = Date (date_year: nat) (date_month: nat) (date_day: nat)

instantiation date :: linorder
begin

definition less_eq_date :: "date \<Rightarrow> date \<Rightarrow> bool" where
  "less_eq_date a b \<longleftrightarrow> date_year a < date_year b \<or> date_year a = date_year b \<and>
    (date_month a < date_month b \<or> date_month a = date_month b \<and> date_day a \<le> date_day b)"

definition less_date :: "date \<Rightarrow> date \<Rightarrow> bool" where
  "less_date a b \<longleftrightarrow> a \<le> b \<and> \<not> b \<le> (a::date)"

instance
  by standard (auto simp: less_eq_date_def less_date_def intro: date.expand)

end

definition iso_date :: "date \<Rightarrow> string" where
  "iso_date d = zero_pad 4 (date_year d) @ ''-'' @ zero_pad 2 (date_month d) @ ''-'' @ zero_pad 2 (date_day d)"

subsection \<open>Decimal arithmetic\<close>

datatype decimal = Dec (coefficient: nat) (exponent: int)

definition digits :: "nat \<Rightarrow> nat" where
  "digits n = length (show_nat n)"

definition precision :: nat where
  "precision = 28"

definition half_even :: "nat \<Rightarrow> nat \<Rightarrow> nat" where
  "half_even n m =
    (let q = n div m; r = n mod m in if m < 2 * r \<or> m = 2 * r \<and> odd q then q + 1 else q)"

definition dec_round :: "decimal \<Rightarrow> decimal" where
  "dec_round x =
    (let n = digits (coefficient x) in
     if n \<le> precision then x
     else let k = n - precision; q = half_even (coefficient x) (10 ^ k) in
       if digits q \<le> precision then Dec q (exponent x + int k)
       else Dec (q div 10) (exponent x + int k + 1))"

definition dec_mul :: "decimal \<Rightarrow> decimal \<Rightarrow> decimal" where
  "dec_mul x y = dec_round (Dec (coefficient x * coefficient y) (exponent x + exponent y))"

definition dec_add :: "decimal \<Rightarrow> decimal \<Rightarrow> decimal" where
  "dec_add x y =
    (let m = min (exponent x) (exponent y) in
     dec_round (Dec (coefficient x * 10 ^ nat (exponent x - m) + coefficient y * 10 ^ nat (exponent y - m)) m))"

definition dec_of :: "nat \<Rightarrow> decimal" where
  "dec_of n = Dec n 0"

definition half_up :: "decimal \<Rightarrow> nat" where
  "half_up x =
    (if 0 \<le> exponent x then coefficient x * 10 ^ nat (exponent x)
     else (2 * coefficient x + 10 ^ nat (- exponent x)) div (2 * 10 ^ nat (- exponent x)))"

datatype pricing_error = Invalid_Operation

definition quantize :: "decimal \<Rightarrow> pricing_error + nat" where
  "quantize x = (if precision < digits (half_up x) then Inl Invalid_Operation else Inr (half_up x))"

subsection \<open>Usage, limits and rates\<close>

record model_usage = review_model +
  mu_input_tokens :: nat
  mu_cached_input_tokens :: nat
  mu_cache_write_input_tokens :: nat
  mu_output_tokens :: nat

definition model_usage_fields :: "model_usage \<Rightarrow> (string \<times> json) list" where
  "model_usage_fields x =
    [(''input_tokens'', json_nat (mu_input_tokens x)),
     (''cached_input_tokens'', json_nat (mu_cached_input_tokens x)),
     (''cache_write_input_tokens'', json_nat (mu_cache_write_input_tokens x)),
     (''output_tokens'', json_nat (mu_output_tokens x))]"

record model_context_limits =
  context_window_tokens :: nat
  max_input_tokens :: nat
  max_output_tokens :: nat

record model_cost_estimate = review_model +
  mc_cost_nanodollars :: nat
  mc_price_card_id :: string
  mc_source_url :: string
  mc_priced_on :: date

definition cost_fields :: "model_cost_estimate \<Rightarrow> (string \<times> json) list" where
  "cost_fields x =
    [(''cost_nanodollars'', json_nat (mc_cost_nanodollars x)), (''price_card_id'', JStr (mc_price_card_id x)),
     (''source_url'', JStr (mc_source_url x)), (''priced_on'', JStr (iso_date (mc_priced_on x)))]"

definition valid_cost :: "model_cost_estimate \<Rightarrow> bool" where
  "valid_cost x \<longleftrightarrow> sealed cost_fields x \<and> identifier_ok (mc_price_card_id x)
    \<and> mc_source_url x \<noteq> [] \<and> length (mc_source_url x) \<le> 500"

record token_rates =
  tr_provider :: string
  tr_model :: string
  tr_card :: string
  tr_input :: decimal
  tr_cached_input :: "decimal option"
  tr_cache_write :: "decimal option"
  tr_output :: decimal
  tr_known_from :: date
  tr_known_until :: "date option"
  tr_source_url :: string
  tr_effective_from :: "date option"
  tr_effective_until :: "date option"
  tr_region :: "string option"
  tr_long_threshold :: "nat option"
  tr_long_input :: decimal
  tr_long_output :: decimal

definition applies :: "token_rates \<Rightarrow> date \<Rightarrow> string \<Rightarrow> bool" where
  "applies r as_of region \<longleftrightarrow>
    (let from = (case tr_effective_from r of None \<Rightarrow> tr_known_from r | Some d \<Rightarrow> d);
         until = (case tr_effective_until r of None \<Rightarrow> tr_known_until r | Some d \<Rightarrow> Some d)
     in from \<le> as_of \<and> (case until of None \<Rightarrow> True | Some u \<Rightarrow> as_of < u)
        \<and> (case tr_region r of None \<Rightarrow> True | Some g \<Rightarrow> g = region))"

definition gpt6_luna_source :: string where
  "gpt6_luna_source = ''https://developers.openai.com/api/docs/models/gpt-6-luna''"

definition luna_source :: string where
  "luna_source = ''https://developers.openai.com/api/docs/models/gpt-5.6-luna''"

definition astra_source :: string where
  "astra_source = ''https://developers.openai.com/api/docs/models/gpt-6-astra''"

definition google_source :: string where
  "google_source = ''https://ai.google.dev/gemini-api/docs/pricing''"

definition aws_source :: string where
  "aws_source = ''https://aws.amazon.com/bedrock/pricing/''"

definition rates_table :: "token_rates list" where
  "rates_table =
    [\<lparr>tr_provider = ''openai'', tr_model = ''gpt-6-luna'', tr_card = ''openai-gpt-6-luna-2026-09'',
      tr_input = Dec 10 (-2), tr_cached_input = Some (Dec 1 (-2)), tr_cache_write = Some (Dec 125 (-3)),
      tr_output = Dec 50 (-2), tr_known_from = Date 2026 9 28, tr_known_until = None,
      tr_source_url = gpt6_luna_source, tr_effective_from = None, tr_effective_until = None,
      tr_region = None, tr_long_threshold = Some 272000, tr_long_input = Dec 2 0, tr_long_output = Dec 15 (-1)\<rparr>,
     \<lparr>tr_provider = ''openai'', tr_model = ''gpt-5.6-luna'', tr_card = ''openai-2026-09'',
      tr_input = Dec 20 (-2), tr_cached_input = Some (Dec 2 (-2)), tr_cache_write = Some (Dec 25 (-2)),
      tr_output = Dec 120 (-2), tr_known_from = Date 2026 9 27, tr_known_until = None,
      tr_source_url = luna_source, tr_effective_from = Some (Date 2026 9 27), tr_effective_until = None,
      tr_region = None, tr_long_threshold = Some 272000, tr_long_input = Dec 2 0, tr_long_output = Dec 15 (-1)\<rparr>,
     \<lparr>tr_provider = ''openai'', tr_model = ''gpt-6-astra'', tr_card = ''openai-2026-09'',
      tr_input = Dec 10 0, tr_cached_input = Some (Dec 1 0), tr_cache_write = Some (Dec 125 (-1)),
      tr_output = Dec 50 0, tr_known_from = Date 2026 9 27, tr_known_until = None,
      tr_source_url = astra_source, tr_effective_from = Some (Date 2026 9 27), tr_effective_until = None,
      tr_region = None, tr_long_threshold = Some 272000, tr_long_input = Dec 2 0, tr_long_output = Dec 15 (-1)\<rparr>,
     \<lparr>tr_provider = ''google'', tr_model = ''gemini-3.8-flash'', tr_card = ''google-gemini-2026-09'',
      tr_input = Dec 75 (-2), tr_cached_input = Some (Dec 75 (-3)), tr_cache_write = None,
      tr_output = Dec 375 (-2), tr_known_from = Date 2026 9 27, tr_known_until = None,
      tr_source_url = google_source, tr_effective_from = Some (Date 2026 9 24),
      tr_effective_until = Some (Date 2027 1 1),
      tr_region = None, tr_long_threshold = None, tr_long_input = Dec 1 0, tr_long_output = Dec 1 0\<rparr>,
     \<lparr>tr_provider = ''google'', tr_model = ''gemini-3.8-flash'', tr_card = ''google-gemini-2027-01'',
      tr_input = Dec 150 (-2), tr_cached_input = Some (Dec 15 (-2)), tr_cache_write = None,
      tr_output = Dec 750 (-2), tr_known_from = Date 2026 9 27, tr_known_until = None,
      tr_source_url = google_source, tr_effective_from = Some (Date 2027 1 1), tr_effective_until = None,
      tr_region = None, tr_long_threshold = None, tr_long_input = Dec 1 0, tr_long_output = Dec 1 0\<rparr>,
     \<lparr>tr_provider = ''aws-bedrock'', tr_model = ''amazon.nova-pro-v1:0'', tr_card = ''aws-bedrock-us-east-1-2026-09'',
      tr_input = Dec 80 (-2), tr_cached_input = Some (Dec 20 (-2)), tr_cache_write = Some (Dec 0 0),
      tr_output = Dec 320 (-2), tr_known_from = Date 2026 9 27, tr_known_until = None,
      tr_source_url = aws_source, tr_effective_from = Some (Date 2026 9 1), tr_effective_until = None,
      tr_region = Some ''us-east-1'', tr_long_threshold = None, tr_long_input = Dec 1 0, tr_long_output = Dec 1 0\<rparr>]"

definition context_limits_table :: "((string \<times> string) \<times> model_context_limits) list" where
  "context_limits_table =
    [((''openai'', ''gpt-6-luna''),
      \<lparr>context_window_tokens = 1050000, max_input_tokens = 922000, max_output_tokens = 128000\<rparr>),
     ((''openai'', ''gpt-5.6-luna''),
      \<lparr>context_window_tokens = 1050000, max_input_tokens = 922000, max_output_tokens = 128000\<rparr>),
     ((''openai'', ''gpt-6-astra''),
      \<lparr>context_window_tokens = 1050000, max_input_tokens = 922000, max_output_tokens = 128000\<rparr>),
     ((''google'', ''gemini-3.8-flash''),
      \<lparr>context_window_tokens = 1048576, max_input_tokens = 1048576, max_output_tokens = 65536\<rparr>),
     ((''aws-bedrock'', ''amazon.nova-pro-v1:0''),
      \<lparr>context_window_tokens = 300000, max_input_tokens = 290000, max_output_tokens = 10000\<rparr>)]"

definition limits_of :: "string \<Rightarrow> string \<Rightarrow> model_context_limits option" where
  "limits_of provider model = dict_get context_limits_table (provider, model)"

subsection \<open>The estimate\<close>

definition find_rates :: "string \<Rightarrow> string \<Rightarrow> date \<Rightarrow> string \<Rightarrow> token_rates option" where
  "find_rates provider model as_of region =
    find (\<lambda>r. tr_provider r = provider \<and> tr_model r = model \<and> applies r as_of region) rates_table"

definition total_input_tokens :: "model_usage \<Rightarrow> nat" where
  "total_input_tokens u = mu_input_tokens u + mu_cached_input_tokens u + mu_cache_write_input_tokens u"

definition long_context :: "token_rates \<Rightarrow> model_usage \<Rightarrow> bool" where
  "long_context r u \<longleftrightarrow>
    (case tr_long_threshold r of None \<Rightarrow> False | Some n \<Rightarrow> n < total_input_tokens u)"

definition input_multiplier :: "token_rates \<Rightarrow> model_usage \<Rightarrow> decimal" where
  "input_multiplier r u = (if long_context r u then tr_long_input r else Dec 1 0)"

definition output_multiplier :: "token_rates \<Rightarrow> model_usage \<Rightarrow> decimal" where
  "output_multiplier r u = (if long_context r u then tr_long_output r else Dec 1 0)"

definition rate_or_zero :: "decimal option \<Rightarrow> decimal" where
  "rate_or_zero r = (case r of None \<Rightarrow> Dec 0 0 | Some d \<Rightarrow> if coefficient d = 0 then Dec 0 0 else d)"

definition token_cost :: "nat \<Rightarrow> decimal \<Rightarrow> decimal \<Rightarrow> decimal" where
  "token_cost n rate factor = dec_mul (dec_mul (dec_of n) rate) factor"

definition usage_cost :: "token_rates \<Rightarrow> model_usage \<Rightarrow> decimal" where
  "usage_cost r u =
    (let im = input_multiplier r u; om = output_multiplier r u in
     dec_mul
       (dec_add
         (dec_add
           (dec_add (token_cost (mu_input_tokens u) (tr_input r) im)
             (token_cost (mu_cached_input_tokens u) (rate_or_zero (tr_cached_input r)) im))
           (token_cost (mu_cache_write_input_tokens u) (rate_or_zero (tr_cache_write r)) im))
         (token_cost (mu_output_tokens u) (tr_output r) om))
       (Dec 1000 0))"

definition make_estimate :: "token_rates \<Rightarrow> date \<Rightarrow> nat \<Rightarrow> model_cost_estimate" where
  "make_estimate r as_of cost = seal cost_fields
    \<lparr>content_digest = [], mc_cost_nanodollars = cost, mc_price_card_id = tr_card r,
     mc_source_url = tr_source_url r, mc_priced_on = as_of\<rparr>"

definition estimate_model_cost ::
  "string \<Rightarrow> string \<Rightarrow> model_usage \<Rightarrow> date \<Rightarrow> string \<Rightarrow> pricing_error + model_cost_estimate option"
where
  "estimate_model_cost provider model u as_of region =
    (case find_rates provider model as_of region of
       None \<Rightarrow> Inr None
     | Some r \<Rightarrow>
         if mu_cache_write_input_tokens u \<noteq> 0 \<and> tr_cache_write r = None then Inr None
         else ebind (quantize (usage_cost r u)) (\<lambda>cost. Inr (Some (make_estimate r as_of cost))))"

interpretation cost: content_addressed cost_fields
  by unfold_locales (simp add: cost_fields_def)

lemma make_estimate_valid:
  "valid_cost (make_estimate r d n) \<longleftrightarrow>
    identifier_ok (tr_card r) \<and> tr_source_url r \<noteq> [] \<and> length (tr_source_url r) \<le> 500"
  by (simp add: valid_cost_def make_estimate_def) (simp add: seal_def)

lemma table_valid:
  "list_all (\<lambda>r. identifier_ok (tr_card r) \<and> tr_source_url r \<noteq> [] \<and> length (tr_source_url r) \<le> 500) rates_table"
  by (simp add: rates_table_def identifier_ok_def identifier_char_def
      ascii_lower_def ascii_upper_def ascii_digit_def gpt6_luna_source_def luna_source_def astra_source_def
      google_source_def aws_source_def)

lemma estimate_valid: "find_rates provider model as_of region = Some r \<Longrightarrow> valid_cost (make_estimate r d n)"
  unfolding make_estimate_valid using table_valid by (auto simp: find_rates_def find_Some_iff list_all_length)

subsection \<open>The estimate is exact\<close>

text \<open>
  Every price of the table has at most three decimals, so the 28 digits of the context are never exceeded by
  token counts below \<open>10\<^sup>15\<close>: the arithmetic is exact, and only the final rounding to a nanodollar remains.
\<close>

definition dec_value :: "decimal \<Rightarrow> rat" where
  "dec_value x = of_nat (coefficient x) * 10 powi exponent x"

definition exact_cost :: "token_rates \<Rightarrow> model_usage \<Rightarrow> rat" where
  "exact_cost r u =
    1000 * (dec_value (input_multiplier r u) *
      (of_nat (mu_input_tokens u) * dec_value (tr_input r)
       + of_nat (mu_cached_input_tokens u) * (case tr_cached_input r of None \<Rightarrow> 0 | Some d \<Rightarrow> dec_value d)
       + of_nat (mu_cache_write_input_tokens u) * (case tr_cache_write r of None \<Rightarrow> 0 | Some d \<Rightarrow> dec_value d))
     + dec_value (output_multiplier r u) * (of_nat (mu_output_tokens u) * dec_value (tr_output r)))"

definition small :: "nat \<Rightarrow> int \<Rightarrow> decimal \<Rightarrow> bool" where
  "small b e x \<longleftrightarrow> - e \<le> exponent x \<and> exponent x \<le> 0 \<and> coefficient x * 10 ^ nat (exponent x + e) \<le> b"

lemma digits_le: "0 < k \<Longrightarrow> digits n \<le> k \<longleftrightarrow> n < 10 ^ k"
proof (induction n arbitrary: k rule: less_induct)
  case (less n)
  show ?case
  proof (cases "n < 10")
    case True
    have "(10::nat) \<le> 10 ^ k" using less.prems by (simp add: self_le_power)
    with True less.prems show ?thesis by (simp add: digits_def show_nat.simps [of n])
  next
    case False
    then have "digits n = Suc (digits (n div 10))" by (simp add: digits_def show_nat.simps [of n])
    moreover have "0 < k - 1 \<or> k = 1" using less.prems by auto
    moreover have "digits (n div 10) \<noteq> 0" by (simp add: digits_def)
    moreover have "digits (n div 10) \<le> k - 1 \<longleftrightarrow> n div 10 < 10 ^ (k - 1)" if "0 < k - 1"
      using False that by (intro less.IH) auto
    moreover have "n div 10 < 10 ^ (k - 1) \<longleftrightarrow> n < 10 ^ k" if "0 < k - 1"
    proof -
      have "(10::nat) ^ k = 10 ^ (k - 1) * 10" using less.prems by (cases k) auto
      then show ?thesis by (simp add: div_less_iff_less_mult)
    qed
    ultimately show ?thesis using False less.prems by auto
  qed
qed

lemma dec_round_exact: "coefficient x < 10 ^ 28 \<Longrightarrow> dec_round x = x"
  using digits_le [of 28 "coefficient x"] by (simp add: dec_round_def precision_def)

lemma dec_mul_exact:
  "coefficient x * coefficient y < 10 ^ 28 \<Longrightarrow>
    dec_mul x y = Dec (coefficient x * coefficient y) (exponent x + exponent y)"
  by (simp add: dec_mul_def dec_round_exact)

lemma dec_mul_value: "coefficient x * coefficient y < 10 ^ 28 \<Longrightarrow> dec_value (dec_mul x y) = dec_value x * dec_value y"
  by (simp add: dec_mul_exact dec_value_def power_int_add)

lemma small_coefficient: "small b e x \<Longrightarrow> coefficient x \<le> b"
proof -
  assume "small b e x"
  then have "coefficient x * 10 ^ nat (exponent x + e) \<le> b" by (simp add: small_def)
  moreover have "coefficient x \<le> coefficient x * 10 ^ nat (exponent x + e)" by simp
  ultimately show ?thesis by (rule order_trans [rotated])
qed

lemma dec_mul_small:
  assumes x: "small c e x" and y: "small d f y" and lim: "c * d < 10 ^ 28"
  shows "small (c * d) (e + f) (dec_mul x y) \<and> dec_value (dec_mul x y) = dec_value x * dec_value y"
proof -
  have "coefficient x * coefficient y \<le> c * d"
    using small_coefficient [OF x] small_coefficient [OF y] by (rule mult_le_mono)
  with lim have fits: "coefficient x * coefficient y < 10 ^ 28" by simp
  have "nat (exponent x + exponent y + (e + f)) = nat (exponent x + e) + nat (exponent y + f)"
    using x y by (auto simp: small_def)
  then have "coefficient x * coefficient y * 10 ^ nat (exponent x + exponent y + (e + f)) =
      coefficient x * 10 ^ nat (exponent x + e) * (coefficient y * 10 ^ nat (exponent y + f))"
    by (simp add: power_add)
  also have "\<dots> \<le> c * d" using x y by (intro mult_le_mono) (auto simp: small_def)
  finally show ?thesis
    using x y fits by (simp add: dec_mul_exact [OF fits] small_def flip: dec_mul_value [OF fits])
qed

lemma aligned_value:
  assumes "m \<le> exponent x"
  shows "of_nat (coefficient x * 10 ^ nat (exponent x - m)) * 10 powi m = dec_value x"
proof -
  have "(10::rat) ^ nat (exponent x - m) * 10 powi m = 10 powi exponent x"
    using assms power_int_add [of "10::rat" "exponent x - m" m] by (simp add: power_int_def)
  then show ?thesis by (simp add: dec_value_def mult.assoc)
qed

lemma dec_add_small:
  assumes x: "small c e x" and y: "small d e y" and lim: "c + d < 10 ^ 28"
  shows "small (c + d) e (dec_add x y) \<and> dec_value (dec_add x y) = dec_value x + dec_value y"
proof -
  define m where "m = min (exponent x) (exponent y)"
  define s where "s = coefficient x * 10 ^ nat (exponent x - m) + coefficient y * 10 ^ nat (exponent y - m)"
  have m: "- e \<le> m" "m \<le> 0" "m \<le> exponent x" "m \<le> exponent y"
    using x y by (auto simp: m_def small_def)
  have "nat (exponent z + e) = nat (exponent z - m) + nat (m + e)" if "m \<le> exponent z" for z
    using m that by auto
  from this [OF m(3)] this [OF m(4)] have "s * 10 ^ nat (m + e) =
      coefficient x * 10 ^ nat (exponent x + e) + coefficient y * 10 ^ nat (exponent y + e)"
    by (simp add: s_def power_add algebra_simps)
  also have "\<dots> \<le> c + d" using x y by (intro add_mono) (auto simp: small_def)
  finally have s: "small (c + d) e (Dec s m)" using m by (simp add: small_def)
  with lim have add: "dec_add x y = Dec s m"
    using small_coefficient [OF s] by (simp add: dec_add_def dec_round_exact Let_def flip: m_def s_def)
  have "dec_value (Dec s m) = of_nat s * 10 powi m" by (simp add: dec_value_def)
  with aligned_value [OF m(3)] aligned_value [OF m(4)]
  have "dec_value (Dec s m) = dec_value x + dec_value y" by (simp add: s_def ring_distribs)
  with add s show ?thesis by simp
qed

lemma half_up_floor: "int (half_up x) = \<lfloor>dec_value x + 1 / 2\<rfloor>"
proof (cases "0 \<le> exponent x")
  case True
  then have "dec_value x = of_nat (half_up x)" by (simp add: half_up_def dec_value_def power_int_def)
  moreover have "\<lfloor>(of_nat (half_up x) :: rat) + 1 / 2\<rfloor> = int (half_up x)" by (simp add: floor_unique)
  ultimately show ?thesis by simp
next
  case False
  define k where "k = (10::nat) ^ nat (- exponent x)"
  have k: "0 < k" by (simp add: k_def)
  have "dec_value x = of_nat (coefficient x) / of_nat k"
    using False by (simp add: dec_value_def power_int_def k_def field_simps)
  then have "dec_value x + 1 / 2 = rat_of_int (int (2 * coefficient x + k)) / rat_of_int (int (2 * k))"
    using k by (simp add: field_simps)
  then have "\<lfloor>dec_value x + 1 / 2\<rfloor> = int (2 * coefficient x + k) div int (2 * k)"
    by (simp only: floor_divide_of_int_eq)
  moreover have "half_up x = (2 * coefficient x + k) div (2 * k)"
    using False by (simp add: half_up_def k_def)
  ultimately show ?thesis by (simp only: zdiv_int)
qed

lemma half_up_le: "exponent x \<le> 0 \<Longrightarrow> half_up x \<le> coefficient x"
proof (cases "exponent x = 0")
  case False
  moreover assume "exponent x \<le> 0"
  moreover define k where "k = (10::nat) ^ nat (- exponent x)"
  moreover have "(2 * coefficient x + k) div (2 * k) \<le> coefficient x" if "1 < k"
  proof -
    have "(2 * coefficient x + k) div (2 * k) < Suc (coefficient x)"
      using that by (subst div_less_iff_less_mult) (auto simp: algebra_simps intro!: add_pos_nonneg le_less_trans [OF _ less_add_same_cancel2 [THEN iffD2]])
    then show ?thesis by simp
  qed
  moreover have "1 < k" unfolding k_def using False \<open>exponent x \<le> 0\<close> by (intro one_less_power) auto
  ultimately show ?thesis by (simp add: half_up_def)
qed (simp add: half_up_def)

lemma quantize_small: "small b e x \<Longrightarrow> b < 10 ^ 28 \<Longrightarrow> quantize x = Inr (half_up x)"
  using digits_le [of 28 "half_up x"] half_up_le [of x] small_coefficient [of b e x]
  by (simp add: quantize_def precision_def small_def)

text \<open>Each term of the sum and the sum itself stay within the context, whatever row of the table is used.\<close>

definition small_rates :: "token_rates \<Rightarrow> bool" where
  "small_rates r \<longleftrightarrow> small 50000 3 (tr_input r) \<and> small 50000 3 (tr_output r)
    \<and> small 50000 3 (rate_or_zero (tr_cached_input r)) \<and> small 50000 3 (rate_or_zero (tr_cache_write r))
    \<and> small 20 1 (tr_long_input r) \<and> small 20 1 (tr_long_output r)"

lemma small_table: "list_all small_rates rates_table"
  by (simp add: rates_table_def small_rates_def small_def rate_or_zero_def)

lemma find_rates_small: "find_rates provider model as_of region = Some r \<Longrightarrow> small_rates r"
  using small_table by (auto simp: find_rates_def find_Some_iff list_all_length)

lemma rate_or_zero_value: "dec_value (rate_or_zero d) = (case d of None \<Rightarrow> 0 | Some x \<Rightarrow> dec_value x)"
  by (auto simp: rate_or_zero_def dec_value_def split: option.splits)

lemma token_cost_small:
  assumes "n < 10 ^ 15" "small 50000 3 rate" "small 20 1 factor"
  shows "small (10 ^ 21) 4 (token_cost n rate factor) \<and>
    dec_value (token_cost n rate factor) = of_nat n * dec_value rate * dec_value factor"
proof -
  have n: "small (10 ^ 15) 0 (dec_of n)" "dec_value (dec_of n) = of_nat n"
    using assms(1) by (auto simp: small_def dec_of_def dec_value_def)
  note one = dec_mul_small [OF n(1) assms(2), simplified]
  note two = dec_mul_small [OF conjunct1 [OF one] assms(3), simplified]
  from one two n(2) show ?thesis by (simp add: token_cost_def)
qed

lemma usage_cost_exact:
  assumes r: "small_rates r" and u: "mu_input_tokens u < 10 ^ 15" "mu_cached_input_tokens u < 10 ^ 15"
    "mu_cache_write_input_tokens u < 10 ^ 15" "mu_output_tokens u < 10 ^ 15"
  shows "dec_value (usage_cost r u) = exact_cost r u \<and> quantize (usage_cost r u) = Inr (half_up (usage_cost r u))"
proof -
  have factors: "small 20 1 (input_multiplier r u)" "small 20 1 (output_multiplier r u)"
    using r by (auto simp: input_multiplier_def output_multiplier_def small_rates_def small_def)
  note t1 = token_cost_small [OF u(1) _ factors(1), of "tr_input r"]
    and t2 = token_cost_small [OF u(2) _ factors(1), of "rate_or_zero (tr_cached_input r)"]
    and t3 = token_cost_small [OF u(3) _ factors(1), of "rate_or_zero (tr_cache_write r)"]
    and t4 = token_cost_small [OF u(4) _ factors(2), of "tr_output r"]
  define a where "a = token_cost (mu_input_tokens u) (tr_input r) (input_multiplier r u)"
  define b where "b = token_cost (mu_cached_input_tokens u) (rate_or_zero (tr_cached_input r)) (input_multiplier r u)"
  define c where "c = token_cost (mu_cache_write_input_tokens u) (rate_or_zero (tr_cache_write r)) (input_multiplier r u)"
  define d where "d = token_cost (mu_output_tokens u) (tr_output r) (output_multiplier r u)"
  have terms: "small (10 ^ 21) 4 a" "small (10 ^ 21) 4 b" "small (10 ^ 21) 4 c" "small (10 ^ 21) 4 d"
    using r t1 t2 t3 t4 by (auto simp: small_rates_def a_def b_def c_def d_def)
  note s1 = dec_add_small [OF terms(1,2), simplified]
  note s2 = dec_add_small [OF conjunct1 [OF s1] terms(3), simplified]
  note s3 = dec_add_small [OF conjunct1 [OF s2] terms(4), simplified]
  have thousand: "small 1000 0 (Dec 1000 0)" by (simp add: small_def)
  note s4 = dec_mul_small [OF conjunct1 [OF s3] thousand, simplified]
  have cost: "usage_cost r u = dec_mul (dec_add (dec_add (dec_add a b) c) d) (Dec 1000 0)"
    by (simp add: usage_cost_def Let_def a_def b_def c_def d_def)
  have "dec_value (usage_cost r u) = exact_cost r u"
    using r t1 t2 t3 t4 s1 s2 s3 s4
    by (simp add: cost exact_cost_def small_rates_def rate_or_zero_value a_def b_def c_def d_def
        dec_value_def [of "Dec 1000 0"] algebra_simps)
  moreover have "quantize (usage_cost r u) = Inr (half_up (usage_cost r u))"
    unfolding cost by (rule quantize_small [OF conjunct1 [OF s4]]) simp
  ultimately show ?thesis by simp
qed

text \<open>
  C32. Priced in the 28-digit decimal context, a run costs exactly what the published rates say: for token
  counts below \<open>10\<^sup>15\<close>, whenever a row of the table applies (and has a cache-write rate if cache writes were
  reported), the estimate is the exact rational cost rounded half up to a nanodollar, in a valid sealed
  record that names the row's price card; with no such row there is no estimate. The arithmetic never raises.
\<close>

theorem estimate_is_exact:
  assumes "mu_input_tokens u < 10 ^ 15" "mu_cached_input_tokens u < 10 ^ 15"
    "mu_cache_write_input_tokens u < 10 ^ 15" "mu_output_tokens u < 10 ^ 15"
  shows "case find_rates provider model as_of region of
      None \<Rightarrow> estimate_model_cost provider model u as_of region = Inr None
    | Some r \<Rightarrow>
        if mu_cache_write_input_tokens u \<noteq> 0 \<and> tr_cache_write r = None
        then estimate_model_cost provider model u as_of region = Inr None
        else (\<exists>e. estimate_model_cost provider model u as_of region = Inr (Some e) \<and> valid_cost e
          \<and> int (mc_cost_nanodollars e) = \<lfloor>exact_cost r u + 1 / 2\<rfloor>
          \<and> mc_price_card_id e = tr_card r \<and> mc_priced_on e = as_of)"
proof (cases "find_rates provider model as_of region")
  case (Some r)
  have "valid_cost (make_estimate r as_of n)" for n
    using Some by (rule estimate_valid)
  then show ?thesis
    using Some usage_cost_exact [OF find_rates_small [OF Some] assms] half_up_floor [of "usage_cost r u"]
    by (auto simp: estimate_model_cost_def make_estimate_def seal_def)
qed (simp add: estimate_model_cost_def)

theorem estimate_is_exact_witness:
  "\<exists>e. estimate_model_cost ''openai'' ''gpt-6-astra''
      \<lparr>content_digest = [], mu_input_tokens = 300000, mu_cached_input_tokens = 1, mu_cache_write_input_tokens = 0,
       mu_output_tokens = 7\<rparr> (Date 2026 10 1) ''us-east-1'' = Inr (Some e) \<and> mc_cost_nanodollars e = 6000527000"
  using estimate_is_exact [of "\<lparr>content_digest = [], mu_input_tokens = 300000, mu_cached_input_tokens = 1,
      mu_cache_write_input_tokens = 0, mu_output_tokens = 7\<rparr>" "''openai''" "''gpt-6-astra''" "Date 2026 10 1" "''us-east-1''"]
    floor_divide_of_int_eq [of 12001054001 2, where ?'a = rat]
  by (auto simp: find_rates_def rates_table_def applies_def less_eq_date_def less_date_def exact_cost_def
      input_multiplier_def output_multiplier_def long_context_def total_input_tokens_def dec_value_def power_int_def)

end
