(* ===== verification/Workflow_Model.thy ===== *)
theory Workflow_Model
  imports Chat_Roles Model_Pricing States
begin

text \<open>
  The records of \<^verbatim>\<open>application/service.py\<close> that the workflow stores keep: work items, audits, reservations and
  the events of a work item's trace, with the outbox and inbox entries of the durable store and the run
  telemetry of \<^verbatim>\<open>application/grounded_repository_discussion.py\<close>.

  As in \<^verbatim>\<open>Review_Base\<close>, a class is a record extending \<open>review_model\<close> with the fields it dumps to JSON; a
  field that the class excludes when it is \<^verbatim>\<open>None\<close> is left out of the list. \<open>\<dots>_ok\<close> holds the declared
  constraints and validators, \<open>valid_\<dots>\<close> adds the digest. What Pydantic prints for a time and for a whole
  document, and what it reads back, are the fields of \<open>workflow_codec\<close>.
\<close>

record model_run_telemetry =
  run_stage :: string
  run_provider :: string
  run_model :: string
  run_family :: string
  run_execution_id :: "string option"
  run_request_digest :: string
  run_response_digest :: string
  run_latency_ms :: nat
  run_usage :: "model_usage option"
  run_cost :: "model_cost_estimate option"

definition run_stages :: "string list" where
  "run_stages = [''architect'', ''independent-review'', ''business-analyst'', ''business-review'']"

definition run_json :: "model_run_telemetry \<Rightarrow> json" where
  "run_json r = JObj
    [(''stage'', JStr (run_stage r)), (''provider'', JStr (run_provider r)), (''model'', JStr (run_model r)),
     (''family'', JStr (run_family r)), (''provider_execution_id'', json_option JStr (run_execution_id r)),
     (''request_digest'', JStr (run_request_digest r)), (''response_digest'', JStr (run_response_digest r)),
     (''latency_ms'', json_nat (run_latency_ms r)),
     (''usage'', json_option (model_dump model_usage_fields) (run_usage r)),
     (''list_price_cost'', json_option (model_dump cost_fields) (run_cost r))]"

definition valid_run :: "model_run_telemetry \<Rightarrow> bool" where
  "valid_run r \<longleftrightarrow> run_stage r \<in> set run_stages
    \<and> run_provider r \<noteq> [] \<and> length (run_provider r) \<le> 100 \<and> run_model r \<noteq> [] \<and> length (run_model r) \<le> 200
    \<and> run_family r \<noteq> [] \<and> length (run_family r) \<le> 200
    \<and> digest_ok (run_request_digest r) \<and> digest_ok (run_response_digest r)
    \<and> pred_option (sealed model_usage_fields) (run_usage r) \<and> pred_option valid_cost (run_cost r)"

definition role_name :: "agent_role \<Rightarrow> string" where
  "role_name r = (case r of Business_Analyst \<Rightarrow> ''business_analyst'' | Architect \<Rightarrow> ''architect''
     | Code_Analyst \<Rightarrow> ''code_analyst'')"

definition profile_name :: "analysis_profile \<Rightarrow> string" where
  "profile_name p = (case p of Profile_Architecture \<Rightarrow> ''architecture'' | Profile_Coding \<Rightarrow> ''coding'')"

definition turn_profile :: "analysis_profile option \<Rightarrow> string" where
  "turn_profile p = (case p of None \<Rightarrow> ''business'' | Some q \<Rightarrow> profile_name q)"

subsection \<open>Audits and reservations\<close>

record grounded_analysis_audit = review_model +
  ga_analysis_id :: string
  ga_profile :: analysis_profile
  ga_repository :: string
  ga_repositories :: "string list option"
  ga_answered :: bool
  ga_default_branch :: string
  ga_context_digest :: string
  ga_model_runs :: "model_run_telemetry list"
  ga_elapsed_ms :: nat

record chat_turn_audit = review_model +
  ct_agent_role :: agent_role
  ct_profile :: "analysis_profile option"
  ct_repository :: "string option"
  ct_repositories :: "string list option"
  ct_status :: string
  ct_input_digest :: string
  ct_history_digest :: string
  ct_response_digest :: string
  ct_context_digest :: string
  ct_model_runs :: "model_run_telemetry list"
  ct_elapsed_ms :: nat

record chat_turn_reservation = review_model +
  cr_agent_role :: agent_role
  cr_profile :: "analysis_profile option"
  cr_repository :: "string option"
  cr_repositories :: "string list option"
  cr_input_digest :: string
  cr_history_digest :: string
  cr_model_call_count :: nat

definition optional_field :: "string \<Rightarrow> ('a \<Rightarrow> json) \<Rightarrow> 'a option \<Rightarrow> (string \<times> json) list" where
  "optional_field name f x = (case x of None \<Rightarrow> [] | Some y \<Rightarrow> [(name, f y)])"

definition analysis_fields :: "grounded_analysis_audit \<Rightarrow> (string \<times> json) list" where
  "analysis_fields x =
    [(''analysis_id'', JStr (ga_analysis_id x)), (''analysis_profile'', JStr (profile_name (ga_profile x))),
     (''repository'', JStr (ga_repository x))]
    @ optional_field ''repositories'' json_strings (ga_repositories x)
    @ [(''status'', JStr (if ga_answered x then ''ANSWERED'' else ''NEEDS_CLARIFICATION'')),
     (''default_branch'', JStr (ga_default_branch x)), (''context_digest'', JStr (ga_context_digest x)),
     (''model_runs'', json_list run_json (ga_model_runs x)), (''elapsed_ms'', json_nat (ga_elapsed_ms x))]"

definition audit_fields :: "chat_turn_audit \<Rightarrow> (string \<times> json) list" where
  "audit_fields x =
    [(''agent_role'', JStr (role_name (ct_agent_role x))),
     (''analysis_profile'', JStr (turn_profile (ct_profile x))),
     (''repository'', json_option JStr (ct_repository x))]
    @ optional_field ''repositories'' json_strings (ct_repositories x)
    @ [(''status'', JStr (ct_status x)), (''input_digest'', JStr (ct_input_digest x)),
     (''history_digest'', JStr (ct_history_digest x)), (''response_digest'', JStr (ct_response_digest x)),
     (''context_digest'', JStr (ct_context_digest x)), (''model_runs'', json_list run_json (ct_model_runs x)),
     (''elapsed_ms'', json_nat (ct_elapsed_ms x))]"

definition turn_reservation_fields :: "chat_turn_reservation \<Rightarrow> (string \<times> json) list" where
  "turn_reservation_fields x =
    [(''agent_role'', JStr (role_name (cr_agent_role x))),
     (''analysis_profile'', JStr (turn_profile (cr_profile x))),
     (''repository'', json_option JStr (cr_repository x))]
    @ optional_field ''repositories'' json_strings (cr_repositories x)
    @ [(''input_digest'', JStr (cr_input_digest x)), (''history_digest'', JStr (cr_history_digest x)),
     (''model_call_count'', json_nat (cr_model_call_count x))]"

definition repository_ok :: "string \<Rightarrow> bool" where
  "repository_ok s \<longleftrightarrow> 3 \<le> length s \<and> length s \<le> 200"

definition repositories_ok :: "string list option \<Rightarrow> bool" where
  "repositories_ok r \<longleftrightarrow> (case r of None \<Rightarrow> True | Some rs \<Rightarrow> length rs \<le> 8)"

definition model_runs_ok :: "model_run_telemetry list \<Rightarrow> bool" where
  "model_runs_ok rs \<longleftrightarrow> 2 \<le> length rs \<and> length rs \<le> max_model_calls_per_turn \<and> list_all valid_run rs"

definition analysis_ok :: "grounded_analysis_audit \<Rightarrow> bool" where
  "analysis_ok x \<longleftrightarrow> identifier_ok (ga_analysis_id x) \<and> repository_ok (ga_repository x)
    \<and> repositories_ok (ga_repositories x) \<and> ga_default_branch x \<noteq> [] \<and> length (ga_default_branch x) \<le> 255
    \<and> digest_ok (ga_context_digest x) \<and> model_runs_ok (ga_model_runs x)"

definition turn_statuses :: "string list" where
  "turn_statuses = [''ELICITING'', ''ANSWERED'', ''NEEDS_CLARIFICATION'']"

definition audit_ok :: "chat_turn_audit \<Rightarrow> bool" where
  "audit_ok x \<longleftrightarrow> pred_option repository_ok (ct_repository x) \<and> repositories_ok (ct_repositories x)
    \<and> ct_status x \<in> set turn_statuses \<and> digest_ok (ct_input_digest x) \<and> digest_ok (ct_history_digest x)
    \<and> digest_ok (ct_response_digest x) \<and> digest_ok (ct_context_digest x) \<and> model_runs_ok (ct_model_runs x)"

definition reservation_ok :: "chat_turn_reservation \<Rightarrow> bool" where
  "reservation_ok x \<longleftrightarrow> pred_option repository_ok (cr_repository x) \<and> repositories_ok (cr_repositories x)
    \<and> digest_ok (cr_input_digest x) \<and> digest_ok (cr_history_digest x)
    \<and> 2 \<le> cr_model_call_count x \<and> cr_model_call_count x \<le> max_model_calls_per_turn"

definition valid_analysis :: "grounded_analysis_audit \<Rightarrow> bool" where
  "valid_analysis x \<longleftrightarrow> sealed analysis_fields x \<and> analysis_ok x"

definition valid_audit :: "chat_turn_audit \<Rightarrow> bool" where
  "valid_audit x \<longleftrightarrow> sealed audit_fields x \<and> audit_ok x"

definition valid_turn_reservation :: "chat_turn_reservation \<Rightarrow> bool" where
  "valid_turn_reservation x \<longleftrightarrow> sealed turn_reservation_fields x \<and> reservation_ok x"

subsection \<open>Work items and events\<close>

record workflow_item = review_model +
  wi_id :: string
  wi_tenant :: string
  wi_created_by :: string
  wi_state :: work_item_state
  wi_title :: string
  wi_created_at :: moment

datatype event_kind =
    INTAKE | GATE_REQUESTED | CHAT_TURN_RESERVED | GROUNDED_ANALYSIS_RECORDED | CHAT_TURN_RECORDED

record workflow_event = review_model +
  we_id :: string
  we_tenant :: string
  we_work_item :: string
  we_actor :: string
  we_kind :: event_kind
  we_occurred_at :: moment
  we_payload_digest :: string
  we_analysis :: "grounded_analysis_audit option"
  we_audit :: "chat_turn_audit option"
  we_reservation :: "chat_turn_reservation option"

record workflow_codec =
  iso_time :: "moment \<Rightarrow> string"
  encode_item :: "workflow_item \<Rightarrow> string"
  decode_item :: "string \<Rightarrow> workflow_item option"
  encode_event :: "workflow_event \<Rightarrow> string"
  decode_event :: "string \<Rightarrow> workflow_event option"

definition kind_name :: "event_kind \<Rightarrow> string" where
  "kind_name k = (case k of INTAKE \<Rightarrow> ''INTAKE'' | GATE_REQUESTED \<Rightarrow> ''GATE_REQUESTED''
     | CHAT_TURN_RESERVED \<Rightarrow> ''CHAT_TURN_RESERVED'' | GROUNDED_ANALYSIS_RECORDED \<Rightarrow> ''GROUNDED_ANALYSIS_RECORDED''
     | CHAT_TURN_RECORDED \<Rightarrow> ''CHAT_TURN_RECORDED'')"

definition item_fields :: "workflow_codec \<Rightarrow> workflow_item \<Rightarrow> (string \<times> json) list" where
  "item_fields cx x =
    [(''work_item_id'', JStr (wi_id x)), (''tenant_id'', JStr (wi_tenant x)),
     (''created_by'', JStr (wi_created_by x)), (''state'', JStr (state_name (wi_state x))),
     (''title'', JStr (wi_title x)), (''created_at'', JStr (iso_time cx (wi_created_at x)))]"

definition item_ok :: "workflow_item \<Rightarrow> bool" where
  "item_ok x \<longleftrightarrow> identifier_ok (wi_id x) \<and> identifier_ok (wi_tenant x) \<and> identifier_ok (wi_created_by x)
    \<and> wi_title x \<noteq> [] \<and> length (wi_title x) \<le> 200"

definition event_fields :: "workflow_codec \<Rightarrow> workflow_event \<Rightarrow> (string \<times> json) list" where
  "event_fields cx x =
    [(''event_id'', JStr (we_id x)), (''tenant_id'', JStr (we_tenant x)),
     (''work_item_id'', JStr (we_work_item x)), (''actor_id'', JStr (we_actor x)),
     (''kind'', JStr (kind_name (we_kind x))), (''occurred_at'', JStr (iso_time cx (we_occurred_at x))),
     (''payload_digest'', JStr (we_payload_digest x))]
    @ optional_field ''grounded_analysis'' (model_dump analysis_fields) (we_analysis x)
    @ optional_field ''chat_turn_audit'' (model_dump audit_fields) (we_audit x)
    @ optional_field ''chat_turn_reservation'' (model_dump turn_reservation_fields) (we_reservation x)"

definition bound_detail :: "bool \<Rightarrow> string \<Rightarrow> 'a review_model_scheme option \<Rightarrow> bool" where
  "bound_detail expected payload detail \<longleftrightarrow>
    (if expected then (case detail of None \<Rightarrow> False | Some d \<Rightarrow> payload = content_digest d) else detail = None)"

definition event_ok :: "workflow_event \<Rightarrow> bool" where
  "event_ok x \<longleftrightarrow> identifier_ok (we_id x) \<and> identifier_ok (we_tenant x) \<and> identifier_ok (we_work_item x)
    \<and> identifier_ok (we_actor x) \<and> digest_ok (we_payload_digest x)
    \<and> pred_option valid_analysis (we_analysis x) \<and> pred_option valid_audit (we_audit x)
    \<and> pred_option valid_turn_reservation (we_reservation x)
    \<and> bound_detail (we_kind x = GROUNDED_ANALYSIS_RECORDED) (we_payload_digest x) (we_analysis x)
    \<and> bound_detail (we_kind x = CHAT_TURN_RECORDED) (we_payload_digest x) (we_audit x)
    \<and> bound_detail (we_kind x = CHAT_TURN_RESERVED) (we_payload_digest x) (we_reservation x)"

definition valid_item :: "workflow_codec \<Rightarrow> workflow_item \<Rightarrow> bool" where
  "valid_item cx x \<longleftrightarrow> sealed (item_fields cx) x \<and> item_ok x"

definition valid_event :: "workflow_codec \<Rightarrow> workflow_event \<Rightarrow> bool" where
  "valid_event cx x \<longleftrightarrow> sealed (event_fields cx) x \<and> event_ok x"

subsection \<open>Outbox and inbox entries\<close>

datatype outbox_status = PENDING | CLAIMED | ACKED

datatype inbox_status = RECEIVED | PROCESSED

record outbox_entry = review_model +
  ob_event_id :: string
  ob_tenant :: string
  ob_work_item :: string
  ob_topic :: string
  ob_payload_digest :: string
  ob_status :: outbox_status
  ob_attempts :: nat
  ob_worker :: "string option"
  ob_lease_expires_at :: "moment option"
  ob_created_at :: moment
  ob_updated_at :: moment

record inbox_entry = review_model +
  ib_event_id :: string
  ib_tenant :: string
  ib_source :: string
  ib_payload_digest :: string
  ib_status :: inbox_status
  ib_received_at :: moment
  ib_processed_at :: "moment option"

definition outbox_fields :: "workflow_codec \<Rightarrow> outbox_entry \<Rightarrow> (string \<times> json) list" where
  "outbox_fields cx x =
    [(''event_id'', JStr (ob_event_id x)), (''tenant_id'', JStr (ob_tenant x)),
     (''work_item_id'', JStr (ob_work_item x)), (''topic'', JStr (ob_topic x)),
     (''payload_digest'', JStr (ob_payload_digest x)),
     (''status'', JStr (case ob_status x of PENDING \<Rightarrow> ''PENDING'' | CLAIMED \<Rightarrow> ''CLAIMED'' | ACKED \<Rightarrow> ''ACKED'')),
     (''attempts'', json_nat (ob_attempts x)), (''worker_id'', json_option JStr (ob_worker x)),
     (''lease_expires_at'', json_option (\<lambda>t. JStr (iso_time cx t)) (ob_lease_expires_at x)),
     (''created_at'', JStr (iso_time cx (ob_created_at x))), (''updated_at'', JStr (iso_time cx (ob_updated_at x)))]"

definition inbox_fields :: "workflow_codec \<Rightarrow> inbox_entry \<Rightarrow> (string \<times> json) list" where
  "inbox_fields cx x =
    [(''event_id'', JStr (ib_event_id x)), (''tenant_id'', JStr (ib_tenant x)), (''source'', JStr (ib_source x)),
     (''payload_digest'', JStr (ib_payload_digest x)),
     (''status'', JStr (case ib_status x of RECEIVED \<Rightarrow> ''RECEIVED'' | PROCESSED \<Rightarrow> ''PROCESSED'')),
     (''received_at'', JStr (iso_time cx (ib_received_at x))),
     (''processed_at'', json_option (\<lambda>t. JStr (iso_time cx t)) (ib_processed_at x))]"

definition outbox_ok :: "outbox_entry \<Rightarrow> bool" where
  "outbox_ok x \<longleftrightarrow> identifier_ok (ob_event_id x) \<and> identifier_ok (ob_tenant x) \<and> identifier_ok (ob_work_item x)
    \<and> identifier_ok (ob_topic x) \<and> digest_ok (ob_payload_digest x) \<and> pred_option identifier_ok (ob_worker x)"

definition inbox_ok :: "inbox_entry \<Rightarrow> bool" where
  "inbox_ok x \<longleftrightarrow> identifier_ok (ib_event_id x) \<and> identifier_ok (ib_tenant x) \<and> identifier_ok (ib_source x)
    \<and> digest_ok (ib_payload_digest x)"

subsection \<open>Construction\<close>

text \<open>
  Both stores build the same items and events; \<open>new_item\<close> and \<open>new_event\<close> are the constructors, which
  validate and seal. \<open>Limit_Exceeded\<close> is \<^verbatim>\<open>ChatModelTurnLimitExceeded\<close> and \<open>Denied_By_Store\<close>
  \<^verbatim>\<open>WorkflowStoreDenied\<close>, both subclasses of \<^verbatim>\<open>ValueError\<close>; \<open>Missing_Key\<close> is \<^verbatim>\<open>KeyError\<close>;
  \<open>Integrity\<close> and \<open>Data_Error\<close> come from the database.
\<close>

datatype workflow_error =
  Invalid_Value | Limit_Exceeded | Denied_By_Store | Missing_Key | Overflow_Value | Integrity | Data_Error

definition new_item :: "workflow_codec \<Rightarrow> workflow_item \<Rightarrow> workflow_error + workflow_item" where
  "new_item cx x = (if item_ok x then Inr (seal (item_fields cx) x) else Inl Invalid_Value)"

definition new_event :: "workflow_codec \<Rightarrow> workflow_event \<Rightarrow> workflow_error + workflow_event" where
  "new_event cx x = (if event_ok x then Inr (seal (event_fields cx) x) else Inl Invalid_Value)"

definition utc_of :: "datetime \<Rightarrow> workflow_error + moment" where
  "utc_of d = (case utc d of None \<Rightarrow> Inl Invalid_Value | Some t \<Rightarrow> Inr t)"

record intake =
  in_tenant :: string
  in_actor :: string
  in_now :: datetime
  in_message :: string
  in_repository :: "string option"
  in_repositories :: "string list"
  in_profile :: "analysis_profile option"

definition intake_payload :: "intake \<Rightarrow> json" where
  "intake_payload i =
    (let profile = json_option (\<lambda>p. JStr (profile_name p)) (in_profile i) in
     if 1 < length (in_repositories i)
     then JObj [(''message'', JStr (in_message i)), (''repositories'', json_strings (in_repositories i)),
                (''analysis_profile'', profile)]
     else case in_repository i of
       None \<Rightarrow> JObj [(''message'', JStr (in_message i))]
     | Some r \<Rightarrow> JObj [(''message'', JStr (in_message i)), (''repository'', JStr r), (''analysis_profile'', profile)])"

definition intake_item :: "workflow_codec \<Rightarrow> string \<Rightarrow> intake \<Rightarrow> moment \<Rightarrow> workflow_error + workflow_item" where
  "intake_item cx uuid i t = new_item cx
    \<lparr>content_digest = [], wi_id = ''wi-'' @ uuid, wi_tenant = in_tenant i, wi_created_by = in_actor i,
     wi_state = REFINING, wi_title = ''Conversation intake'', wi_created_at = t\<rparr>"

definition plain_event ::
  "string \<Rightarrow> string \<Rightarrow> string \<Rightarrow> string \<Rightarrow> event_kind \<Rightarrow> moment \<Rightarrow> string \<Rightarrow> workflow_event"
where
  "plain_event uuid tenant item actor kind t payload =
    \<lparr>content_digest = [], we_id = ''evt-'' @ uuid, we_tenant = tenant, we_work_item = item, we_actor = actor,
     we_kind = kind, we_occurred_at = t, we_payload_digest = payload,
     we_analysis = None, we_audit = None, we_reservation = None\<rparr>"

definition intake_event ::
  "workflow_codec \<Rightarrow> string \<Rightarrow> intake \<Rightarrow> workflow_item \<Rightarrow> moment \<Rightarrow> workflow_error + workflow_event"
where
  "intake_event cx uuid i item t = new_event cx
    (plain_event uuid (in_tenant i) (wi_id item) (in_actor i) INTAKE t (digest_of (intake_payload i)))"

definition analysis_event ::
  "workflow_codec \<Rightarrow> string \<Rightarrow> string \<Rightarrow> string \<Rightarrow> string \<Rightarrow> grounded_analysis_audit \<Rightarrow> datetime \<Rightarrow>
    workflow_error + workflow_event"
where
  "analysis_event cx uuid tenant item actor analysis now = ebind (utc_of now) (\<lambda>t.
    new_event cx ((plain_event uuid tenant item actor GROUNDED_ANALYSIS_RECORDED t (content_digest analysis))
      \<lparr>we_analysis := Some analysis\<rparr>))"

definition audit_event ::
  "workflow_codec \<Rightarrow> string \<Rightarrow> string \<Rightarrow> string \<Rightarrow> string \<Rightarrow> chat_turn_audit \<Rightarrow> datetime \<Rightarrow>
    workflow_error + workflow_event"
where
  "audit_event cx uuid tenant item actor audit now = ebind (utc_of now) (\<lambda>t.
    new_event cx ((plain_event uuid tenant item actor CHAT_TURN_RECORDED t (content_digest audit))
      \<lparr>we_audit := Some audit\<rparr>))"

definition reservation_event ::
  "workflow_codec \<Rightarrow> string \<Rightarrow> string \<Rightarrow> string \<Rightarrow> string \<Rightarrow> chat_turn_reservation \<Rightarrow> datetime \<Rightarrow>
    workflow_error + workflow_event"
where
  "reservation_event cx uuid tenant item actor res now = ebind (utc_of now) (\<lambda>t.
    new_event cx ((plain_event uuid tenant item actor CHAT_TURN_RESERVED t (content_digest res))
      \<lparr>we_reservation := Some res\<rparr>))"

definition gate_event ::
  "workflow_codec \<Rightarrow> string \<Rightarrow> string \<Rightarrow> string \<Rightarrow> string \<Rightarrow> string \<Rightarrow> bool \<Rightarrow> string \<Rightarrow> datetime \<Rightarrow>
    workflow_error + workflow_event"
where
  "gate_event cx uuid tenant item actor gate approve decision_digest now = ebind (utc_of now) (\<lambda>t.
    new_event cx (plain_event uuid tenant item actor GATE_REQUESTED t (digest_of (JObj
      [(''gate'', JStr gate), (''decision'', JStr (if approve then ''approve'' else ''reject'')),
       (''decision_digest'', JStr decision_digest)]))))"

subsection \<open>What construction guarantees\<close>

interpretation ga: content_addressed analysis_fields
  by unfold_locales (simp add: analysis_fields_def)

interpretation ct: content_addressed audit_fields
  by unfold_locales (simp add: audit_fields_def)

interpretation cr: content_addressed turn_reservation_fields
  by unfold_locales (simp add: turn_reservation_fields_def)

interpretation wi: content_addressed "item_fields cx" for cx
  by unfold_locales (simp add: item_fields_def)

interpretation we: content_addressed "event_fields cx" for cx
  by unfold_locales (simp add: event_fields_def)

interpretation ob: content_addressed "outbox_fields cx" for cx
  by unfold_locales (simp add: outbox_fields_def)

interpretation ib: content_addressed "inbox_fields cx" for cx
  by unfold_locales (simp add: inbox_fields_def)

lemma seal_event_sel [simp]:
  "we_id (seal (event_fields cx) e) = we_id e" "we_tenant (seal (event_fields cx) e) = we_tenant e"
  "we_work_item (seal (event_fields cx) e) = we_work_item e" "we_actor (seal (event_fields cx) e) = we_actor e"
  "we_kind (seal (event_fields cx) e) = we_kind e" "we_occurred_at (seal (event_fields cx) e) = we_occurred_at e"
  "we_payload_digest (seal (event_fields cx) e) = we_payload_digest e"
  "we_analysis (seal (event_fields cx) e) = we_analysis e" "we_audit (seal (event_fields cx) e) = we_audit e"
  "we_reservation (seal (event_fields cx) e) = we_reservation e"
  by (simp_all add: seal_def)

lemma seal_item_sel [simp]:
  "wi_id (seal (item_fields cx) x) = wi_id x" "wi_tenant (seal (item_fields cx) x) = wi_tenant x"
  "wi_created_by (seal (item_fields cx) x) = wi_created_by x" "wi_state (seal (item_fields cx) x) = wi_state x"
  "wi_title (seal (item_fields cx) x) = wi_title x" "wi_created_at (seal (item_fields cx) x) = wi_created_at x"
  by (simp_all add: seal_def)

lemma plain_event_sel [simp]:
  "we_id (plain_event u t w a k m p) = ''evt-'' @ u" "we_tenant (plain_event u t w a k m p) = t"
  "we_work_item (plain_event u t w a k m p) = w" "we_actor (plain_event u t w a k m p) = a"
  "we_kind (plain_event u t w a k m p) = k" "we_payload_digest (plain_event u t w a k m p) = p"
  "we_occurred_at (plain_event u t w a k m p) = m"
  "we_analysis (plain_event u t w a k m p) = None" "we_audit (plain_event u t w a k m p) = None"
  "we_reservation (plain_event u t w a k m p) = None"
  by (simp_all add: plain_event_def)

lemma event_ok_seal [simp]: "event_ok (seal (event_fields cx) x) = event_ok x"
  by (simp add: event_ok_def)

lemma item_ok_seal [simp]: "item_ok (seal (item_fields cx) x) = item_ok x"
  by (simp add: item_ok_def)

lemma new_event_Inr: "new_event cx x = Inr e \<longleftrightarrow> event_ok x \<and> e = seal (event_fields cx) x"
  by (auto simp: new_event_def)

lemma new_item_Inr: "new_item cx x = Inr y \<longleftrightarrow> item_ok x \<and> y = seal (item_fields cx) x"
  by (auto simp: new_item_def)

definition event_for :: "workflow_codec \<Rightarrow> event_kind \<Rightarrow> string \<Rightarrow> string \<Rightarrow> string \<Rightarrow> string \<Rightarrow> workflow_event \<Rightarrow> bool" where
  "event_for cx k u t w a e \<longleftrightarrow> valid_event cx e \<and> we_kind e = k \<and> we_id e = ''evt-'' @ u \<and> we_tenant e = t
    \<and> we_work_item e = w \<and> we_actor e = a"

lemma new_event_for:
  "new_event cx x = Inr e \<Longrightarrow> event_for cx (we_kind x) u (we_tenant x) (we_work_item x) (we_actor x) e
    \<longleftrightarrow> we_id x = ''evt-'' @ u"
  by (auto simp: new_event_Inr event_for_def valid_event_def)

lemma intake_event_for:
  "intake_event cx u i item t = Inr e \<Longrightarrow> event_for cx INTAKE u (in_tenant i) (wi_id item) (in_actor i) e"
  unfolding intake_event_def by (drule new_event_for [where u = u]) simp

lemma analysis_event_for:
  "analysis_event cx u t w a x now = Inr e \<Longrightarrow> event_for cx GROUNDED_ANALYSIS_RECORDED u t w a e"
  unfolding analysis_event_def by (erule ebind_eq_InrE, drule new_event_for [where u = u]) simp

lemma audit_event_for:
  "audit_event cx u t w a x now = Inr e \<Longrightarrow> event_for cx CHAT_TURN_RECORDED u t w a e"
  unfolding audit_event_def by (erule ebind_eq_InrE, drule new_event_for [where u = u]) simp

lemma reservation_event_for:
  "reservation_event cx u t w a x now = Inr e \<Longrightarrow> event_for cx CHAT_TURN_RESERVED u t w a e"
  unfolding reservation_event_def by (erule ebind_eq_InrE, drule new_event_for [where u = u]) simp

lemma gate_event_for:
  "gate_event cx u t w a g ok d now = Inr e \<Longrightarrow> event_for cx GATE_REQUESTED u t w a e"
  unfolding gate_event_def by (erule ebind_eq_InrE, drule new_event_for [where u = u]) simp

lemma intake_item_for:
  "intake_item cx u i t = Inr item \<Longrightarrow> valid_item cx item \<and> wi_id item = ''wi-'' @ u \<and> wi_tenant item = in_tenant i
    \<and> wi_created_by item = in_actor i \<and> wi_created_at item = t \<and> wi_state item = REFINING"
  by (auto simp: intake_item_def new_item_Inr valid_item_def)

end
