(* ===== verification/Workflow_Memory.thy ===== *)
theory Workflow_Memory
  imports Workflow_Model Effects
begin

text \<open>
  The workflow store's interface and its local implementation in \<^verbatim>\<open>application/service.py\<close>.

  \<open>'d workflow_store\<close> is the \<^verbatim>\<open>WorkflowStore\<close> protocol: operations on a store of type \<open>'d\<close> that return
  a result and the new store, or an error and leave it as it is. The random part of an identifier
  (\<^verbatim>\<open>uuid4().hex\<close>) is an argument. \<open>memory_ops\<close> is \<^verbatim>\<open>InMemoryWorkflowStore\<close>, whose two dictionaries are
  \<open>memory_store\<close>; its lock makes every method one atomic operation.

  What a client may rely on is the locale \<open>workflow_contract\<close>, stated over two views of a store: the item
  and the trace kept for a tenant and work item. It is interpreted here for the local store and in
  \<^verbatim>\<open>Workflow_Store\<close> for the durable one.
\<close>

declare split_paired_All [simp del] split_paired_Ex [simp del] split_paired_all [simp del]

type_synonym item_key = "string \<times> string"

record 'd workflow_store =
  st_create_intake :: "string \<Rightarrow> string \<Rightarrow> intake \<Rightarrow> 'd \<Rightarrow> workflow_error + workflow_item \<times> 'd"
  st_record_analysis ::
    "string \<Rightarrow> string \<Rightarrow> string \<Rightarrow> string \<Rightarrow> grounded_analysis_audit \<Rightarrow> datetime \<Rightarrow> 'd \<Rightarrow> workflow_error + workflow_event \<times> 'd"
  st_record_turn ::
    "string \<Rightarrow> string \<Rightarrow> string \<Rightarrow> string \<Rightarrow> chat_turn_audit \<Rightarrow> datetime \<Rightarrow> 'd \<Rightarrow> workflow_error + workflow_event \<times> 'd"
  st_reserve_turn ::
    "string \<Rightarrow> string \<Rightarrow> string \<Rightarrow> string \<Rightarrow> chat_turn_reservation \<Rightarrow> int option \<Rightarrow> datetime \<Rightarrow> 'd \<Rightarrow>
      workflow_error + workflow_event \<times> 'd"
  st_get :: "string \<Rightarrow> string \<Rightarrow> 'd \<Rightarrow> workflow_error + workflow_item option"
  st_list :: "string \<Rightarrow> 'd \<Rightarrow> workflow_error + workflow_item list"
  st_add_gate ::
    "string \<Rightarrow> string \<Rightarrow> string \<Rightarrow> string \<Rightarrow> string \<Rightarrow> bool \<Rightarrow> string \<Rightarrow> datetime \<Rightarrow> 'd \<Rightarrow> workflow_error + workflow_event \<times> 'd"
  st_trace :: "string \<Rightarrow> string \<Rightarrow> 'd \<Rightarrow> workflow_error + workflow_event list"

subsection \<open>The local store\<close>

record memory_store =
  ms_items :: "(item_key \<times> workflow_item) list"
  ms_events :: "(item_key \<times> workflow_event list) list"

definition empty_memory :: memory_store where
  "empty_memory = \<lparr>ms_items = [], ms_events = []\<rparr>"

definition mem_create_intake ::
  "workflow_codec \<Rightarrow> string \<Rightarrow> string \<Rightarrow> intake \<Rightarrow> memory_store \<Rightarrow> workflow_error + workflow_item \<times> memory_store"
where
  "mem_create_intake cx uuid1 uuid2 i st =
    ebind (utc_of (in_now i)) (\<lambda>current.
    ebind (intake_item cx uuid1 i current) (\<lambda>item.
    ebind (intake_event cx uuid2 i item current) (\<lambda>event.
      let key = (in_tenant i, wi_id item) in
      Inr (item, st\<lparr>ms_items := AList.update key item (ms_items st),
                    ms_events := AList.update key [event] (ms_events st)\<rparr>))))"

definition mem_append :: "item_key \<Rightarrow> workflow_event \<Rightarrow> memory_store \<Rightarrow> workflow_error + workflow_event \<times> memory_store" where
  "mem_append key event st =
    (case dict_get (ms_events st) key of
       None \<Rightarrow> Inl Missing_Key
     | Some evs \<Rightarrow> Inr (event, st\<lparr>ms_events := AList.update key (evs @ [event]) (ms_events st)\<rparr>))"

definition mem_record_grounded_analysis ::
  "workflow_codec \<Rightarrow> string \<Rightarrow> string \<Rightarrow> string \<Rightarrow> string \<Rightarrow> grounded_analysis_audit \<Rightarrow> datetime \<Rightarrow> memory_store \<Rightarrow>
    workflow_error + workflow_event \<times> memory_store"
where
  "mem_record_grounded_analysis cx uuid tenant item actor analysis now st =
    ebind (analysis_event cx uuid tenant item actor analysis now) (\<lambda>event.
      if dict_get (ms_items st) (tenant, item) = None then Inl Invalid_Value
      else mem_append (tenant, item) event st)"

definition owned_by :: "string \<Rightarrow> workflow_item option \<Rightarrow> bool" where
  "owned_by actor item \<longleftrightarrow> (case item of None \<Rightarrow> False | Some it \<Rightarrow> wi_created_by it = actor)"

definition mem_record_chat_turn ::
  "workflow_codec \<Rightarrow> string \<Rightarrow> string \<Rightarrow> string \<Rightarrow> string \<Rightarrow> chat_turn_audit \<Rightarrow> datetime \<Rightarrow> memory_store \<Rightarrow>
    workflow_error + workflow_event \<times> memory_store"
where
  "mem_record_chat_turn cx uuid tenant item actor audit now st =
    ebind (audit_event cx uuid tenant item actor audit now) (\<lambda>event.
      if \<not> owned_by actor (dict_get (ms_items st) (tenant, item)) then Inl Invalid_Value
      else mem_append (tenant, item) event st)"

definition reserved :: "workflow_event \<Rightarrow> bool" where
  "reserved e \<longleftrightarrow> we_kind e = CHAT_TURN_RESERVED"

definition mem_turns_used :: "string \<Rightarrow> memory_store \<Rightarrow> nat" where
  "mem_turns_used tenant st =
    sum_list (map (\<lambda>(key, evs). if fst key = tenant then length (filter reserved evs) else 0) (ms_events st))"

definition mem_reserve_chat_turn ::
  "workflow_codec \<Rightarrow> string \<Rightarrow> string \<Rightarrow> string \<Rightarrow> string \<Rightarrow> chat_turn_reservation \<Rightarrow> int option \<Rightarrow> datetime \<Rightarrow>
    memory_store \<Rightarrow> workflow_error + workflow_event \<times> memory_store"
where
  "mem_reserve_chat_turn cx uuid tenant item actor res limit now st =
    ebind (require_all
      [(\<forall>l \<in> set_option limit. 0 < l, Limit_Exceeded),
       (owned_by actor (dict_get (ms_items st) (tenant, item)), Invalid_Value),
       (\<forall>l \<in> set_option limit. int (mem_turns_used tenant st) < l, Limit_Exceeded)]) (\<lambda>_.
    ebind (reservation_event cx uuid tenant item actor res now) (\<lambda>event.
      mem_append (tenant, item) event st))"

definition mem_get :: "string \<Rightarrow> string \<Rightarrow> memory_store \<Rightarrow> workflow_item option" where
  "mem_get tenant item st = dict_get (ms_items st) (tenant, item)"

definition mem_list :: "string \<Rightarrow> memory_store \<Rightarrow> workflow_item list" where
  "mem_list tenant st = map snd (filter (\<lambda>(key, _). fst key = tenant) (ms_items st))"

definition mem_add_gate_request ::
  "workflow_codec \<Rightarrow> string \<Rightarrow> string \<Rightarrow> string \<Rightarrow> string \<Rightarrow> string \<Rightarrow> bool \<Rightarrow> string \<Rightarrow> datetime \<Rightarrow> memory_store \<Rightarrow>
    workflow_error + workflow_event \<times> memory_store"
where
  "mem_add_gate_request cx uuid tenant item actor gate approve digest now st =
    ebind (gate_event cx uuid tenant item actor gate approve digest now) (\<lambda>event.
      mem_append (tenant, item) event st)"

definition mem_trace :: "string \<Rightarrow> string \<Rightarrow> memory_store \<Rightarrow> workflow_event list" where
  "mem_trace tenant item st = (case dict_get (ms_events st) (tenant, item) of None \<Rightarrow> [] | Some evs \<Rightarrow> evs)"

definition memory_ops :: "workflow_codec \<Rightarrow> memory_store workflow_store" where
  "memory_ops cx =
    \<lparr>st_create_intake = mem_create_intake cx, st_record_analysis = mem_record_grounded_analysis cx,
     st_record_turn = mem_record_chat_turn cx, st_reserve_turn = mem_reserve_chat_turn cx,
     st_get = (\<lambda>t w d. Inr (mem_get t w d)), st_list = (\<lambda>t d. Inr (mem_list t d)),
     st_add_gate = mem_add_gate_request cx, st_trace = (\<lambda>t w d. Inr (mem_trace t w d))\<rparr>"

subsection \<open>The contract of a workflow store\<close>

text \<open>
  \<open>reserved_turns\<close> counts a tenant's reservations in a family of traces. \<open>workflow_step\<close> is one operation of
  any client: its limit for each tenant is fixed (\<open>chat_model_turn_limit\<close>), and the random part of a new
  item's identifier has not been used before.
\<close>

definition reserved_turns :: "(item_key \<Rightarrow> workflow_event list) \<Rightarrow> string \<Rightarrow> nat" where
  "reserved_turns tr t = (\<Sum>w | tr (t, w) \<noteq> []. length (filter reserved (tr (t, w))))"

inductive workflow_step ::
  "'d workflow_store \<Rightarrow> ('d \<Rightarrow> item_key \<Rightarrow> workflow_item option) \<Rightarrow> (string \<Rightarrow> int option) \<Rightarrow> 'd \<Rightarrow> 'd \<Rightarrow> bool"
  for ops item_of limit
where
  create: "st_create_intake ops u v i d = Inr (it, d') \<Longrightarrow> item_of d (in_tenant i, ''wi-'' @ u) = None \<Longrightarrow>
    workflow_step ops item_of limit d d'"
| analysis: "st_record_analysis ops u t w a x now d = Inr (e, d') \<Longrightarrow> workflow_step ops item_of limit d d'"
| turn: "st_record_turn ops u t w a y now d = Inr (e, d') \<Longrightarrow> workflow_step ops item_of limit d d'"
| reserve: "st_reserve_turn ops u t w a r (limit t) now d = Inr (e, d') \<Longrightarrow> workflow_step ops item_of limit d d'"
| gate: "st_add_gate ops u t w a g ok dg now d = Inr (e, d') \<Longrightarrow> workflow_step ops item_of limit d d'"

definition trace_wf :: "workflow_codec \<Rightarrow> item_key \<Rightarrow> workflow_item option \<Rightarrow> workflow_event list \<Rightarrow> bool" where
  "trace_wf cx key item tr \<longleftrightarrow>
    (case item of
       None \<Rightarrow> tr = []
     | Some it \<Rightarrow> valid_item cx it \<and> (wi_tenant it, wi_id it) = key \<and> tr \<noteq> []
         \<and> we_kind (hd tr) = INTAKE \<and> we_actor (hd tr) = wi_created_by it
         \<and> list_all (\<lambda>e. valid_event cx e \<and> (we_tenant e, we_work_item e) = key) tr
         \<and> list_all (\<lambda>e. we_kind e \<noteq> INTAKE) (tl tr)
         \<and> list_all (\<lambda>e. we_kind e \<in> {CHAT_TURN_RESERVED, CHAT_TURN_RECORDED} \<longrightarrow> we_actor e = wi_created_by it) tr)"

lemma owned_by_item: "owned_by a x \<Longrightarrow> x \<noteq> None"
  by (auto simp: owned_by_def split: option.splits)

lemma reserved_turns_append:
  assumes "finite {k. tr k \<noteq> []}"
  shows "reserved_turns (tr(k := tr k @ [e])) t = reserved_turns tr t + (if fst k = t \<and> reserved e then 1 else 0)"
proof -
  define W where "W = insert (snd k) {w. tr (t, w) \<noteq> []}"
  have "{w. tr (t, w) \<noteq> []} \<subseteq> snd ` {k. tr k \<noteq> []}" by force
  then have fin: "finite W" using assms finite_subset by (auto simp: W_def)
  have all: "reserved_turns f t = (\<Sum>w \<in> W. length (filter reserved (f (t, w))))" if "{w. f (t, w) \<noteq> []} \<subseteq> W" for f
    unfolding reserved_turns_def using that fin by (intro sum.mono_neutral_left) auto
  have new: "{w. (tr(k := tr k @ [e])) (t, w) \<noteq> []} \<subseteq> W" by (auto simp: W_def)
  have old: "{w. tr (t, w) \<noteq> []} \<subseteq> W" by (auto simp: W_def)
  show ?thesis
  proof (cases "fst k = t")
    case True
    then have k: "k = (t, snd k)" by (cases k) simp
    have mem: "snd k \<in> W" by (simp add: W_def)
    have rest: "(\<Sum>w \<in> W - {snd k}. length (filter reserved ((tr(k := tr k @ [e])) (t, w)))) =
        (\<Sum>w \<in> W - {snd k}. length (filter reserved (tr (t, w))))"
      by (rule sum.cong) (use k in \<open>auto simp: fun_upd_def\<close>)
    from k True show ?thesis
      unfolding all [OF new] all [OF old] sum.remove [OF fin mem] rest by (simp add: fun_upd_def)
  next
    case False
    then have "(tr(k := tr k @ [e])) (t, w) = tr (t, w)" for w by (cases k) (auto simp: fun_upd_def)
    with False show ?thesis by (simp add: reserved_turns_def)
  qed
qed

lemma trace_wf_append:
  assumes "trace_wf cx (t, w) item tr" "event_for cx k u t w a e" "k \<noteq> INTAKE" "item \<noteq> None"
    and "k \<in> {CHAT_TURN_RESERVED, CHAT_TURN_RECORDED} \<longrightarrow> owned_by a item"
  shows "trace_wf cx (t, w) item (tr @ [e])"
  using assms by (cases tr) (auto simp: trace_wf_def event_for_def owned_by_def split: option.splits)

lemma trace_wf_new:
  assumes "intake_item cx u i m = Inr it" "intake_event cx v i it n = Inr e"
  shows "trace_wf cx (in_tenant i, wi_id it) (Some it) [e]"
  using intake_item_for [OF assms(1)] intake_event_for [OF assms(2)]
  by (auto simp: trace_wf_def event_for_def)

locale workflow_contract =
  fixes ops :: "'d workflow_store" and cx :: workflow_codec and inv :: "'d \<Rightarrow> bool"
    and item_of :: "'d \<Rightarrow> item_key \<Rightarrow> workflow_item option" and trace_of :: "'d \<Rightarrow> item_key \<Rightarrow> workflow_event list"
  assumes finite_traces: "inv d \<Longrightarrow> finite {k. trace_of d k \<noteq> []}"
    and wf_traces: "inv d \<Longrightarrow> trace_wf cx k (item_of d k) (trace_of d k)"
    and create_law: "inv d \<Longrightarrow> st_create_intake ops u v i d = Inr (it, d') \<Longrightarrow>
      item_of d (in_tenant i, ''wi-'' @ u) = None \<Longrightarrow>
      inv d' \<and> intake_item cx u i (wi_created_at it) = Inr it
      \<and> item_of d' = (item_of d)((in_tenant i, wi_id it) \<mapsto> it)
      \<and> (\<exists>e. intake_event cx v i it (wi_created_at it) = Inr e
            \<and> trace_of d' = (trace_of d)((in_tenant i, wi_id it) := [e]))"
    and analysis_law: "inv d \<Longrightarrow> st_record_analysis ops u t w a x now d = Inr (e, d') \<Longrightarrow>
      inv d' \<and> analysis_event cx u t w a x now = Inr e \<and> item_of d (t, w) \<noteq> None \<and> item_of d' = item_of d
      \<and> trace_of d' = (trace_of d)((t, w) := trace_of d (t, w) @ [e])"
    and turn_law: "inv d \<Longrightarrow> st_record_turn ops u t w a y now d = Inr (e, d') \<Longrightarrow>
      inv d' \<and> audit_event cx u t w a y now = Inr e \<and> owned_by a (item_of d (t, w)) \<and> item_of d' = item_of d
      \<and> trace_of d' = (trace_of d)((t, w) := trace_of d (t, w) @ [e])"
    and reserve_law: "inv d \<Longrightarrow> st_reserve_turn ops u t w a r limit now d = Inr (e, d') \<Longrightarrow>
      inv d' \<and> reservation_event cx u t w a r now = Inr e \<and> owned_by a (item_of d (t, w)) \<and> item_of d' = item_of d
      \<and> trace_of d' = (trace_of d)((t, w) := trace_of d (t, w) @ [e])
      \<and> (\<forall>l. limit = Some l \<longrightarrow> int (reserved_turns (trace_of d) t) < l)"
    and gate_law: "inv d \<Longrightarrow> st_add_gate ops u t w a g ok dg now d = Inr (e, d') \<Longrightarrow>
      inv d' \<and> gate_event cx u t w a g ok dg now = Inr e \<and> item_of d (t, w) \<noteq> None \<and> item_of d' = item_of d
      \<and> trace_of d' = (trace_of d)((t, w) := trace_of d (t, w) @ [e])"
    and get_law: "inv d \<Longrightarrow> st_get ops t w d = Inr found \<Longrightarrow> found = item_of d (t, w)"
    and list_law: "inv d \<Longrightarrow> st_list ops t d = Inr l \<Longrightarrow>
      distinct (map wi_id l) \<and> set l = {it. \<exists>w. item_of d (t, w) = Some it}"
    and trace_law: "inv d \<Longrightarrow> st_trace ops t w d = Inr tr \<Longrightarrow> tr = trace_of d (t, w)"
begin

lemma step_append:
  assumes "workflow_step ops item_of limit d d'" "inv d"
  obtains (create) u v i it e where "inv d'" "intake_item cx u i (wi_created_at it) = Inr it"
      "intake_event cx v i it (wi_created_at it) = Inr e" "item_of d (in_tenant i, wi_id it) = None"
      "item_of d' = (item_of d)((in_tenant i, wi_id it) \<mapsto> it)"
      "trace_of d' = (trace_of d)((in_tenant i, wi_id it) := [e])"
    | (extend) k u t w a e where "inv d'" "event_for cx k u t w a e" "k \<noteq> INTAKE"
      "k \<in> {CHAT_TURN_RESERVED, CHAT_TURN_RECORDED} \<longrightarrow> owned_by a (item_of d (t, w))"
      "k = CHAT_TURN_RESERVED \<longrightarrow> (\<forall>l. limit t = Some l \<longrightarrow> int (reserved_turns (trace_of d) t) < l)"
      "item_of d (t, w) \<noteq> None" "item_of d' = item_of d"
      "trace_of d' = (trace_of d)((t, w) := trace_of d (t, w) @ [e])"
  using assms(1)
proof cases
  case (create u v i it)
  from create_law [OF assms(2) create] that(1) show thesis
    using create(2) intake_item_for by metis
next
  case (analysis u t w a x now e)
  from analysis_law [OF assms(2) analysis] that(2) show thesis
    by (blast dest: analysis_event_for)
next
  case (turn u t w a y now e)
  from turn_law [OF assms(2) turn] that(2) show thesis
    by (blast dest: audit_event_for owned_by_item)
next
  case (reserve u t w a r now e)
  from reserve_law [OF assms(2) reserve] that(2) show thesis
    by (blast dest: reservation_event_for owned_by_item)
next
  case (gate u t w a g ok dg now e)
  from gate_law [OF assms(2) gate] that(2) show thesis
    by (blast dest: gate_event_for)
qed

lemma step_inv: "workflow_step ops item_of limit d d' \<Longrightarrow> inv d \<Longrightarrow> inv d'"
  by (erule step_append) auto

lemma no_item_no_trace: "inv d \<Longrightarrow> item_of d k = None \<Longrightarrow> trace_of d k = []"
  using wf_traces [of d k] by (simp add: trace_wf_def)

text \<open>Traces only grow, and an item never changes.\<close>

lemma step_grows:
  assumes "workflow_step ops item_of limit d d'" "inv d"
  shows "(\<exists>new. trace_of d' k = trace_of d k @ new) \<and> item_of d \<subseteq>\<^sub>m item_of d'"
  using assms by (cases rule: step_append) (auto simp: no_item_no_trace [OF assms(2)] map_le_def)

lemma step_turns:
  assumes "workflow_step ops item_of limit d d'" "inv d"
  shows "reserved_turns (trace_of d') t = reserved_turns (trace_of d) t
    \<or> reserved_turns (trace_of d') t = Suc (reserved_turns (trace_of d) t)
      \<and> (\<forall>l. limit t = Some l \<longrightarrow> int (reserved_turns (trace_of d) t) < l)"
  using assms
proof (cases rule: step_append)
  case (create u v i it e)
  have "trace_of d' = (trace_of d)((in_tenant i, wi_id it) := trace_of d (in_tenant i, wi_id it) @ [e])"
    using create no_item_no_trace [OF assms(2)] by simp
  moreover have "\<not> reserved e" using create(3) intake_event_for by (fastforce simp: reserved_def event_for_def)
  ultimately show ?thesis using reserved_turns_append [OF finite_traces [OF assms(2)]] by simp
next
  case (extend k u t' w a e)
  then show ?thesis
    using reserved_turns_append [OF finite_traces [OF assms(2)], of "(t', w)" e t]
    by (auto simp: reserved_def event_for_def)
qed

lemma turns_bounded:
  assumes "reachable (\<lambda>d. inv d \<and> (\<forall>k. trace_of d k = [])) (workflow_step ops item_of limit) d"
  shows "inv d \<and> (\<forall>t l. limit t = Some l \<longrightarrow> int (reserved_turns (trace_of d) t) \<le> max 0 l)"
  using assms
proof induction
  case (reachable_init d)
  then show ?case by (simp add: reserved_turns_def)
next
  case (reachable_step d d')
  have "int (reserved_turns (trace_of d') t) \<le> max 0 l" if "limit t = Some l" for t l
    using step_turns [OF reachable_step.hyps(2), of t] reachable_step.IH that by fastforce
  with reachable_step step_inv show ?case by blast
qed

lemma traces_kept:
  assumes "run_of (workflow_step ops item_of limit) n d d'" "inv d"
  shows "inv d' \<and> (\<exists>new. trace_of d' k = trace_of d k @ new)"
  using assms
proof induction
  case (run_step n d d1 d2)
  then obtain x y where "trace_of d1 k = trace_of d k @ x" "trace_of d2 k = trace_of d1 k @ y"
    using step_grows by meson
  then show ?case using step_inv run_step by simp
qed simp

end

subsection \<open>The local store keeps the contract\<close>

definition mem_trace_of :: "memory_store \<Rightarrow> item_key \<Rightarrow> workflow_event list" where
  "mem_trace_of st k = mem_trace (fst k) (snd k) st"

definition mem_item_of :: "memory_store \<Rightarrow> item_key \<Rightarrow> workflow_item option" where
  "mem_item_of st k = mem_get (fst k) (snd k) st"

definition mem_inv :: "workflow_codec \<Rightarrow> memory_store \<Rightarrow> bool" where
  "mem_inv cx st \<longleftrightarrow> distinct (map fst (ms_items st)) \<and> distinct (map fst (ms_events st))
    \<and> (\<forall>k. dict_get (ms_events st) k = None \<longleftrightarrow> dict_get (ms_items st) k = None)
    \<and> (\<forall>k. trace_wf cx k (mem_item_of st k) (mem_trace_of st k))"

lemma mem_views:
  "mem_item_of st k = dict_get (ms_items st) k"
  "mem_trace_of st k = (case dict_get (ms_events st) k of None \<Rightarrow> [] | Some evs \<Rightarrow> evs)"
  by (simp_all add: mem_item_of_def mem_get_def mem_trace_of_def mem_trace_def)

lemma mem_turns_reserved:
  assumes "distinct (map fst (ms_events st))"
  shows "mem_turns_used t st = reserved_turns (mem_trace_of st) t"
proof -
  let ?d = "ms_events st" and ?n = "\<lambda>evs. length (filter reserved evs)"
  have get: "mem_trace_of st k = evs" if "(k, evs) \<in> set ?d" for k evs
    using that assms by (simp add: mem_views dict_get_in)
  have "mem_turns_used t st = (\<Sum>p \<in> set ?d. if fst (fst p) = t then ?n (snd p) else 0)"
    using assms by (simp add: mem_turns_used_def sum_list_distinct_conv_sum_set distinct_map split_def)
  also have "\<dots> = (\<Sum>p | p \<in> set ?d \<and> fst (fst p) = t \<and> snd p \<noteq> []. ?n (snd p))"
    by (rule sum.mono_neutral_cong_right) auto
  also have "\<dots> = reserved_turns (mem_trace_of st) t"
    unfolding reserved_turns_def
  proof (rule sum.reindex_bij_witness [where i = "\<lambda>w. ((t, w), mem_trace_of st (t, w))" and j = "\<lambda>p. snd (fst p)"])
    fix w assume "w \<in> {w. mem_trace_of st (t, w) \<noteq> []}"
    then show "((t, w), mem_trace_of st (t, w)) \<in> {p \<in> set ?d. fst (fst p) = t \<and> snd p \<noteq> []}"
      by (auto simp: mem_views dict_get_Some_in split: option.splits)
  qed (auto simp: get)
  finally show ?thesis .
qed

lemma mem_inv_keys: "mem_inv cx st \<Longrightarrow> dict_get (ms_events st) k = None \<longleftrightarrow> dict_get (ms_items st) k = None"
  unfolding mem_inv_def by blast

lemma mem_inv_wf: "mem_inv cx st \<Longrightarrow> trace_wf cx k (mem_item_of st k) (mem_trace_of st k)"
  unfolding mem_inv_def by blast

lemma mem_inv_turns: "mem_inv cx st \<Longrightarrow> mem_turns_used t st = reserved_turns (mem_trace_of st) t"
  unfolding mem_inv_def by (blast intro: mem_turns_reserved)

lemma mem_append_inv:
  assumes inv: "mem_inv cx st" and ok: "mem_append (t, w) e st = Inr (e', st')" and ev: "event_for cx k u t w a e"
    and k: "k \<noteq> INTAKE" "k \<in> {CHAT_TURN_RESERVED, CHAT_TURN_RECORDED} \<longrightarrow> owned_by a (mem_item_of st (t, w))"
  shows "mem_inv cx st' \<and> e' = e \<and> mem_item_of st (t, w) \<noteq> None \<and> mem_item_of st' = mem_item_of st
    \<and> mem_trace_of st' = (mem_trace_of st)((t, w) := mem_trace_of st (t, w) @ [e])"
proof -
  obtain evs where evs: "dict_get (ms_events st) (t, w) = Some evs" and e': "e' = e"
    and st': "st' = st\<lparr>ms_events := AList.update (t, w) (evs @ [e]) (ms_events st)\<rparr>"
    using ok by (auto simp: mem_append_def split: option.splits)
  have tr: "mem_trace_of st' = (mem_trace_of st)((t, w) := mem_trace_of st (t, w) @ [e])"
    using evs by (auto simp: st' mem_views fun_eq_iff)
  have item: "mem_item_of st (t, w) \<noteq> None" "mem_item_of st' = mem_item_of st"
    using mem_inv_keys [OF inv, of "(t, w)"] evs by (auto simp: mem_views st' fun_eq_iff)
  have "trace_wf cx (t, w) (mem_item_of st (t, w)) (mem_trace_of st (t, w) @ [e])"
    by (rule trace_wf_append [OF mem_inv_wf [OF inv] ev k(1) item(1) k(2)])
  moreover have "dict_get (ms_events st') k = None \<longleftrightarrow> dict_get (ms_items st') k = None" for k
    using mem_inv_keys [OF inv, of k] evs item(1) by (auto simp: st' mem_views)
  ultimately have "mem_inv cx st'"
    using inv unfolding mem_inv_def tr item(2) by (auto simp: st')
  with e' tr item show ?thesis by blast
qed

lemma mem_create_inv:
  assumes inv: "mem_inv cx st" and ok: "mem_create_intake cx u v i st = Inr (it, st')"
  shows "mem_inv cx st' \<and> intake_item cx u i (wi_created_at it) = Inr it
    \<and> mem_item_of st' = (mem_item_of st)((in_tenant i, wi_id it) \<mapsto> it)
    \<and> (\<exists>e. intake_event cx v i it (wi_created_at it) = Inr e
          \<and> mem_trace_of st' = (mem_trace_of st)((in_tenant i, wi_id it) := [e]))"
proof -
  from ok obtain m e where it: "intake_item cx u i m = Inr it" and ev: "intake_event cx v i it m = Inr e"
    and st': "st' = st\<lparr>ms_items := AList.update (in_tenant i, wi_id it) it (ms_items st),
        ms_events := AList.update (in_tenant i, wi_id it) [e] (ms_events st)\<rparr>"
    by (auto simp: mem_create_intake_def Let_def)
  have m: "m = wi_created_at it" using intake_item_for [OF it] by simp
  have views: "mem_item_of st' = (mem_item_of st)((in_tenant i, wi_id it) \<mapsto> it)"
    "mem_trace_of st' = (mem_trace_of st)((in_tenant i, wi_id it) := [e])"
    by (auto simp: st' mem_views fun_eq_iff)
  have "mem_inv cx st'"
    using inv trace_wf_new [OF it ev] unfolding mem_inv_def views by (auto simp: st')
  with it ev m views show ?thesis by blast
qed

lemma mem_list_items:
  assumes "mem_inv cx st"
  shows "distinct (map wi_id (mem_list t st)) \<and> set (mem_list t st) = {it. \<exists>w. mem_item_of st (t, w) = Some it}"
proof -
  have key: "(wi_tenant it, wi_id it) = k" if "(k, it) \<in> set (ms_items st)" for k it
  proof -
    have "mem_item_of st k = Some it" using that assms by (simp add: mem_inv_def mem_views dict_get_in)
    then show ?thesis using mem_inv_wf [OF assms, of k] by (simp add: trace_wf_def)
  qed
  then have "map wi_id (mem_list t st) = map (snd \<circ> fst) (filter (\<lambda>(k, _). fst k = t) (ms_items st))"
    unfolding mem_list_def map_map by (intro map_cong) (fastforce dest: key)+
  moreover have "distinct (map (snd \<circ> fst) (filter (\<lambda>(k, _). fst k = t) (ms_items st)))"
    using assms unfolding mem_inv_def distinct_map
    by (auto simp: inj_on_def distinct_filter prod_eq_iff)
  moreover have "set (mem_list t st) = {it. \<exists>w. mem_item_of st (t, w) = Some it}"
    using assms unfolding mem_list_def mem_views mem_inv_def
    by (force simp: dict_get_iff)
  ultimately show ?thesis by simp
qed

interpretation mem: workflow_contract "memory_ops cx" cx "mem_inv cx" mem_item_of mem_trace_of for cx
proof unfold_locales
  fix d :: memory_store and t w a u v :: string and now :: datetime and e and d' :: memory_store and limit :: "int option"
  assume inv: "mem_inv cx d"
  note append = mem_append_inv [OF inv]
  show "finite {k. mem_trace_of d k \<noteq> []}"
    by (rule finite_subset [of _ "fst ` set (ms_events d)"])
      (auto simp: mem_views dict_get_None split: option.splits intro: rev_image_eqI dict_get_Some_in)
  show "trace_wf cx k (mem_item_of d k) (mem_trace_of d k)" for k
    using inv unfolding mem_inv_def by blast
  show "mem_inv cx d' \<and> intake_item cx u i (wi_created_at it) = Inr it
      \<and> mem_item_of d' = (mem_item_of d)((in_tenant i, wi_id it) \<mapsto> it)
      \<and> (\<exists>e. intake_event cx v i it (wi_created_at it) = Inr e
            \<and> mem_trace_of d' = (mem_trace_of d)((in_tenant i, wi_id it) := [e]))"
    if "st_create_intake (memory_ops cx) u v i d = Inr (it, d')" for i it
    using mem_create_inv [OF inv] that by (simp add: memory_ops_def)
  show "mem_inv cx d' \<and> analysis_event cx u t w a x now = Inr e \<and> mem_item_of d (t, w) \<noteq> None
      \<and> mem_item_of d' = mem_item_of d \<and> mem_trace_of d' = (mem_trace_of d)((t, w) := mem_trace_of d (t, w) @ [e])"
    if "st_record_analysis (memory_ops cx) u t w a x now d = Inr (e, d')" for x
    using that by (auto simp: memory_ops_def mem_record_grounded_analysis_def split: if_splits
        dest!: append [OF _ analysis_event_for])
  show "mem_inv cx d' \<and> audit_event cx u t w a y now = Inr e \<and> owned_by a (mem_item_of d (t, w))
      \<and> mem_item_of d' = mem_item_of d \<and> mem_trace_of d' = (mem_trace_of d)((t, w) := mem_trace_of d (t, w) @ [e])"
    if "st_record_turn (memory_ops cx) u t w a y now d = Inr (e, d')" for y
    using that by (auto simp: memory_ops_def mem_record_chat_turn_def mem_item_of_def mem_get_def split: if_splits
        dest!: append [OF _ audit_event_for])
  show "mem_inv cx d' \<and> reservation_event cx u t w a r now = Inr e \<and> owned_by a (mem_item_of d (t, w))
      \<and> mem_item_of d' = mem_item_of d \<and> mem_trace_of d' = (mem_trace_of d)((t, w) := mem_trace_of d (t, w) @ [e])
      \<and> (\<forall>l. limit = Some l \<longrightarrow> int (reserved_turns (mem_trace_of d) t) < l)"
    if "st_reserve_turn (memory_ops cx) u t w a r limit now d = Inr (e, d')" for r
    using that by (auto simp: memory_ops_def mem_reserve_chat_turn_def mem_inv_turns [OF inv] mem_item_of_def mem_get_def
        dest!: append [OF _ reservation_event_for])
  show "mem_inv cx d' \<and> gate_event cx u t w a g ok dg now = Inr e \<and> mem_item_of d (t, w) \<noteq> None
      \<and> mem_item_of d' = mem_item_of d \<and> mem_trace_of d' = (mem_trace_of d)((t, w) := mem_trace_of d (t, w) @ [e])"
    if "st_add_gate (memory_ops cx) u t w a g ok dg now d = Inr (e, d')" for g ok dg
    using that by (auto simp: memory_ops_def mem_add_gate_request_def dest!: append [OF _ gate_event_for])
  show "distinct (map wi_id l) \<and> set l = {it. \<exists>w. mem_item_of d (t, w) = Some it}"
    if "st_list (memory_ops cx) t d = Inr l" for l
    using mem_list_items [OF inv, of t] that by (simp add: memory_ops_def)
qed (auto simp: memory_ops_def mem_item_of_def mem_trace_of_def)

end
