(* ===== verification/Workflow_Service.thy ===== *)
theory Workflow_Service
  imports Workflow_Memory Effects Workflow_Model
begin

text \<open>
  The HTTP boundary of \<^verbatim>\<open>application/service.py\<close>: principals, requests with their validators, the
  authentication and role guards, and the handlers of \<^verbatim>\<open>create_app\<close>, whole.

  A service is the record of what \<^verbatim>\<open>create_app\<close> is given: the workflow store, the clock, the principal
  verifier, the GitHub ports, the two agents and the budget policy. A handler runs on a pair of the store's
  data and the rest of the world, on which the injected parts act. It ends in a response or in an HTTP error;
  \<open>Server_Error\<close> is an exception no handler catches. Agents, readers and brokers may fail in any way.
\<close>

section \<open>Answers of the discussion agents\<close>

text \<open>
  What the two discussion agents return: the result classes of
  \<^verbatim>\<open>application/grounded_repository_discussion.py\<close> and \<^verbatim>\<open>application/business_analyst.py\<close>, as the service
  dumps them to JSON.
\<close>

record source_citation =
  sc_repository :: "string option"
  sc_default_branch :: "string option"
  sc_path :: string
  sc_line_start :: nat
  sc_line_end :: nat
  sc_quote :: string

record grounded_claim =
  gc_statement :: string
  gc_citations :: "source_citation list"

record grounded_discussion_result =
  gd_analysis_id :: string
  gd_answered :: bool
  gd_repository :: string
  gd_repositories :: "string list"
  gd_default_branch :: string
  gd_context_digest :: string
  gd_summary :: string
  gd_claims :: "grounded_claim list"
  gd_open_questions :: "string list"
  gd_model_runs :: "model_run_telemetry list"
  gd_elapsed_ms :: nat

record business_analyst_result =
  ba_analysis_id :: string
  ba_eliciting :: bool
  ba_reply :: string
  ba_open_questions :: "string list"
  ba_context_digest :: string
  ba_model_runs :: "model_run_telemetry list"
  ba_elapsed_ms :: nat

definition citation_ok :: "source_citation \<Rightarrow> bool" where
  "citation_ok c \<longleftrightarrow> pred_option repository_ok (sc_repository c)
    \<and> pred_option (\<lambda>b. b \<noteq> [] \<and> length b \<le> 255) (sc_default_branch c)
    \<and> sc_path c \<noteq> [] \<and> length (sc_path c) \<le> 1024 \<and> 1 \<le> sc_line_start c \<and> 1 \<le> sc_line_end c
    \<and> sc_quote c \<noteq> [] \<and> length (sc_quote c) \<le> 1000
    \<and> sc_line_start c \<le> sc_line_end c \<and> sc_line_end c - sc_line_start c \<le> 20"

definition claim_ok :: "grounded_claim \<Rightarrow> bool" where
  "claim_ok c \<longleftrightarrow> gc_statement c \<noteq> [] \<and> length (gc_statement c) \<le> 2000
    \<and> gc_citations c \<noteq> [] \<and> length (gc_citations c) \<le> 6 \<and> list_all citation_ok (gc_citations c)"

definition citation_json :: "source_citation \<Rightarrow> json" where
  "citation_json c = JObj
    (optional_field ''repository'' JStr (sc_repository c)
     @ optional_field ''default_branch'' JStr (sc_default_branch c)
     @ [(''path'', JStr (sc_path c)), (''line_start'', json_nat (sc_line_start c)),
        (''line_end'', json_nat (sc_line_end c)), (''quote'', JStr (sc_quote c))])"

definition claim_json :: "grounded_claim \<Rightarrow> json" where
  "claim_json c = JObj
    [(''statement'', JStr (gc_statement c)), (''citations'', json_list citation_json (gc_citations c))]"

definition discussion_status :: "grounded_discussion_result \<Rightarrow> string" where
  "discussion_status r = (if gd_answered r then ''ANSWERED'' else ''NEEDS_CLARIFICATION'')"

definition analyst_status :: "business_analyst_result \<Rightarrow> string" where
  "analyst_status r = (if ba_eliciting r then ''ELICITING'' else ''NEEDS_CLARIFICATION'')"

definition discussion_json :: "grounded_discussion_result \<Rightarrow> json" where
  "discussion_json r = JObj
    [(''analysis_id'', JStr (gd_analysis_id r)), (''status'', JStr (discussion_status r)),
     (''repository'', JStr (gd_repository r)), (''repositories'', json_strings (gd_repositories r)),
     (''default_branch'', JStr (gd_default_branch r)), (''context_digest'', JStr (gd_context_digest r)),
     (''summary'', JStr (gd_summary r)), (''claims'', json_list claim_json (gd_claims r)),
     (''open_questions'', json_strings (gd_open_questions r)), (''model_runs'', json_list run_json (gd_model_runs r)),
     (''elapsed_ms'', json_nat (gd_elapsed_ms r))]"

definition analyst_json :: "business_analyst_result \<Rightarrow> json" where
  "analyst_json r = JObj
    [(''analysis_id'', JStr (ba_analysis_id r)), (''status'', JStr (analyst_status r)), (''reply'', JStr (ba_reply r)),
     (''open_questions'', json_strings (ba_open_questions r)), (''context_digest'', JStr (ba_context_digest r)),
     (''model_runs'', json_list run_json (ba_model_runs r)), (''elapsed_ms'', json_nat (ba_elapsed_ms r))]"

section \<open>The service\<close>

subsection \<open>Principals\<close>

datatype role = Viewer | Operator | Admin

record principal =
  pr_tenant :: string
  pr_subject :: string
  pr_issuer :: string
  pr_audience :: string
  pr_roles :: "role list"
  pr_issued_at :: moment
  pr_expires_at :: moment

definition valid_principal :: "principal \<Rightarrow> bool" where
  "valid_principal p \<longleftrightarrow> identifier_ok (pr_tenant p) \<and> identifier_ok (pr_subject p)
    \<and> pr_issuer p \<noteq> [] \<and> length (pr_issuer p) \<le> 200 \<and> pr_audience p \<noteq> [] \<and> length (pr_audience p) \<le> 200
    \<and> pr_roles p \<noteq> [] \<and> length (pr_roles p) \<le> 3 \<and> distinct (pr_roles p)"

definition may_operate :: "principal \<Rightarrow> bool" where
  "may_operate p \<longleftrightarrow> Operator \<in> set (pr_roles p) \<or> Admin \<in> set (pr_roles p)"

subsection \<open>Requests\<close>

record chat_request =
  rq_message :: string
  rq_repository :: "string option"
  rq_repositories :: "string list"
  rq_mode :: "chat_mode option"
  rq_profile :: "analysis_profile option"
  rq_work_item :: "string option"
  rq_history :: "conversation_turn list"

definition owner_name :: "string \<Rightarrow> bool" where
  "owner_name s \<longleftrightarrow> length (split_on (CHR ''/'') s) = 2
    \<and> list_all (\<lambda>p. p \<noteq> [] \<and> p \<noteq> ''.'' \<and> p \<noteq> ''..'') (split_on (CHR ''/'') s)"

definition legacy_repository_ok :: "string \<Rightarrow> bool" where
  "legacy_repository_ok s \<longleftrightarrow> repository_ok s \<and> owner_name s
    \<and> list_all (\<lambda>p. p = strip p) (split_on (CHR ''/'') s) \<and> list_all (\<lambda>c. c \<notin> set s) [CHR ''|'', CHR '','', CHR '';'']"

definition repositories_distinct :: "string list \<Rightarrow> bool" where
  "repositories_distinct rs \<longleftrightarrow> length rs \<le> 4
    \<and> list_all (\<lambda>s. strip s \<noteq> [] \<and> length s \<le> 200 \<and> owner_name s) rs \<and> distinct (map casefold rs)"

definition history_ok :: "chat_request \<Rightarrow> bool" where
  "history_ok q \<longleftrightarrow> length (rq_history q) \<le> 12 \<and> list_all valid_turn (rq_history q)
    \<and> sum_list (map (\<lambda>t. length (turn_content t)) (rq_history q)) \<le> 24000
    \<and> (rq_history q \<noteq> [] \<longrightarrow> rq_work_item q \<noteq> None \<and> turn_assistant (last (rq_history q)))
    \<and> list_all (\<lambda>(i, t). turn_assistant t = odd i) (enumerate 0 (rq_history q))"

definition valid_chat_request :: "chat_request \<Rightarrow> bool" where
  "valid_chat_request q \<longleftrightarrow> 1 \<le> length (rq_message q) \<and> length (rq_message q) \<le> 20000 \<and> strip (rq_message q) \<noteq> []
    \<and> pred_option legacy_repository_ok (rq_repository q) \<and> repositories_distinct (rq_repositories q)
    \<and> pred_option repository_ok (rq_work_item q) \<and> \<not> (rq_repository q \<noteq> None \<and> rq_repositories q \<noteq> [])
    \<and> history_ok q"

definition selected_repositories :: "chat_request \<Rightarrow> string list" where
  "selected_repositories q =
    (if rq_repositories q \<noteq> [] then rq_repositories q else case rq_repository q of None \<Rightarrow> [] | Some r \<Rightarrow> [r])"

record gate_request =
  gq_gate :: string
  gq_approve :: bool
  gq_decision_digest :: string

definition valid_gate_request :: "gate_request \<Rightarrow> bool" where
  "valid_gate_request g \<longleftrightarrow> gq_gate g \<in> set [''gate-1'', ''gate-2'', ''gate-3'', ''gate-4''] \<and> digest_ok (gq_decision_digest g)"

subsection \<open>Responses\<close>

datatype http_detail = Detail string | Coded string "string option" | Coded_Message string string

datatype http_error = Http_Exception nat http_detail | Server_Error workflow_error

record intake_response =
  ar_work_item :: string
  ar_replied :: bool
  ar_state :: work_item_state
  ar_tenant :: string
  ar_role :: "agent_role option"
  ar_profile :: "string option"
  ar_reply :: "string option"
  ar_analysis :: "grounded_discussion_result option"
  ar_business :: "business_analyst_result option"

record work_item_response =
  wr_work_item :: string
  wr_state :: work_item_state
  wr_title :: string
  wr_created_at :: moment

definition item_response :: "workflow_item \<Rightarrow> work_item_response" where
  "item_response x =
    \<lparr>wr_work_item = wi_id x, wr_state = wi_state x, wr_title = wi_title x, wr_created_at = wi_created_at x\<rparr>"

record repository_info =
  ri_full_name :: string
  ri_default_branch :: string
  ri_visibility :: string
  ri_archived :: bool

subsection \<open>The service\<close>

datatype agent_query =
    Ask_Business string string "string option" "conversation_turn list"
  | Ask_Grounded "string list" string analysis_profile "conversation_turn list"

datatype auth_outcome = Verified principal | Auth_Rejected | Auth_Crashed

record ('d, 'x) service =
  sv_store :: "'d workflow_store"
  sv_clock :: "'x \<Rightarrow> datetime \<times> 'x"
  sv_uuid :: "'x \<Rightarrow> string \<times> 'x"
  sv_verify :: "(string \<Rightarrow> datetime \<Rightarrow> 'x \<Rightarrow> auth_outcome \<times> 'x) option"
  sv_browser_origin :: "string option"
  sv_broker :: "(string \<Rightarrow> 'x \<Rightarrow> bool \<times> 'x) option"
  sv_reader :: "(string \<Rightarrow> 'x \<Rightarrow> repository_info option \<times> 'x) option"
  sv_grounded :: "(agent_query \<Rightarrow> 'x \<Rightarrow> grounded_discussion_result option \<times> 'x) option"
  sv_business :: "(agent_query \<Rightarrow> 'x \<Rightarrow> business_analyst_result option \<times> 'x) option"
  sv_turn_limit :: "int option"
  sv_model_tenant :: "string option"
  sv_repositories :: "string list"

type_synonym ('d, 'x, 'a) handler = "('d \<times> 'x, http_error, 'a) eff"

definition check_configuration :: "('d, 'x) service \<Rightarrow> bool" where
  "check_configuration sv \<longleftrightarrow>
    \<not> (sv_broker sv \<noteq> None \<and> (sv_repositories sv = [] \<or> \<not> distinct (sv_repositories sv)))
    \<and> (\<forall>l \<in> set_option (sv_turn_limit sv). 0 \<le> l)
    \<and> \<not> (sv_turn_limit sv \<noteq> Some 0 \<and> sv_model_tenant sv \<in> {None, Some []})"

definition outside :: "('x \<Rightarrow> 'a \<times> 'x) \<Rightarrow> ('d, 'x, 'a) handler" where
  "outside f s = (case f (snd s) of (a, x) \<Rightarrow> (Inr a, (fst s, x)))"

definition on_store :: "('d \<Rightarrow> workflow_error + 'a \<times> 'd) \<Rightarrow> ('d \<times> 'x, workflow_error, 'a) eff" where
  "on_store f s = (case f (fst s) of Inl e \<Rightarrow> (Inl e, s) | Inr (a, d) \<Rightarrow> (Inr a, (d, snd s)))"

definition read_store :: "('d \<Rightarrow> workflow_error + 'a) \<Rightarrow> ('d \<times> 'x, workflow_error, 'a) eff" where
  "read_store f s = (f (fst s), s)"

subsection \<open>Guards\<close>

record http_request =
  hr_method :: string
  hr_origin :: "string option"
  hr_authorization :: "string option"
  hr_id_token :: "string option"

definition bearer :: "string option \<Rightarrow> string option" where
  "bearer h = (case h of None \<Rightarrow> None | Some v \<Rightarrow> if take 7 v = ''Bearer '' then Some (drop 7 v) else None)"

definition request_token :: "('d, 'x) service \<Rightarrow> http_request \<Rightarrow> http_error + string" where
  "request_token sv rq =
    (case bearer (hr_authorization rq) of
       Some token \<Rightarrow> Inr token
     | None \<Rightarrow>
         case (hr_id_token rq, sv_browser_origin sv) of
           (Some token, Some origin) \<Rightarrow>
             if hr_method rq \<notin> set [''GET'', ''HEAD'', ''OPTIONS''] \<and> hr_origin rq \<noteq> Some origin
             then Inl (Http_Exception 403 (Detail ''same-origin request required''))
             else Inr token
         | _ \<Rightarrow> Inl (Http_Exception 401 (Detail ''authentication required'')))"

definition principal_of :: "('d, 'x) service \<Rightarrow> http_request \<Rightarrow> ('d, 'x, principal) handler" where
  "principal_of sv rq =
    (case sv_verify sv of
       None \<Rightarrow> sraise (Http_Exception 503 (Detail ''authentication not configured''))
     | Some verify \<Rightarrow>
         sbind (spure (request_token sv rq)) (\<lambda>token.
         sbind (outside (sv_clock sv)) (\<lambda>now.
         sbind (outside (verify token now)) (\<lambda>outcome.
           case outcome of
             Verified p \<Rightarrow> sreturn p
           | Auth_Rejected \<Rightarrow> sraise (Http_Exception 401 (Detail ''invalid authentication''))
           | Auth_Crashed \<Rightarrow> sraise (Server_Error Invalid_Value)))))"

definition operator_guard :: "principal \<Rightarrow> ('d, 'x, principal) handler" where
  "operator_guard p =
    (if may_operate p then sreturn p else sraise (Http_Exception 403 (Detail ''operator role required'')))"

subsection \<open>Repository handlers\<close>

fun broker_statuses :: "(string \<Rightarrow> 'x \<Rightarrow> bool \<times> 'x) \<Rightarrow> string list \<Rightarrow> 'x \<Rightarrow> (string \<times> bool) list \<times> 'x" where
  "broker_statuses token_for [] x = ([], x)"
| "broker_statuses token_for (r # rs) x =
    (case token_for r x of (ok, x1) \<Rightarrow> case broker_statuses token_for rs x1 of (out, x2) \<Rightarrow> ((r, ok) # out, x2))"

definition github_access :: "('d, 'x) service \<Rightarrow> ('d, 'x, (string \<times> bool) list) handler" where
  "github_access sv =
    (case sv_broker sv of
       None \<Rightarrow> sraise (Http_Exception 503 (Detail ''GitHub App integration not configured''))
     | Some token_for \<Rightarrow> outside (broker_statuses token_for (sv_repositories sv)))"

fun read_repositories ::
  "(string \<Rightarrow> 'x \<Rightarrow> repository_info option \<times> 'x) \<Rightarrow> string list \<Rightarrow> 'x \<Rightarrow> (string \<times> repository_info) list option \<times> 'x"
where
  "read_repositories reader [] x = (Some [], x)"
| "read_repositories reader (r # rs) x =
    (case reader r x of
       (None, x1) \<Rightarrow> (None, x1)
     | (Some m, x1) \<Rightarrow>
         if casefold (ri_full_name m) \<noteq> casefold r \<or> ri_visibility m \<notin> set [''public'', ''private'', ''internal'']
         then (None, x1)
         else case read_repositories reader rs x1 of
           (None, x2) \<Rightarrow> (None, x2)
         | (Some out, x2) \<Rightarrow> (Some ((r, m) # out), x2))"

definition github_repository_list :: "('d, 'x) service \<Rightarrow> ('d, 'x, (string \<times> repository_info) list) handler" where
  "github_repository_list sv =
    (case sv_reader sv of
       None \<Rightarrow> sraise (Http_Exception 503 (Detail ''GitHub repository reader not configured''))
     | Some reader \<Rightarrow>
         sbind (outside (read_repositories reader (sv_repositories sv))) (\<lambda>out.
           case out of
             None \<Rightarrow> sraise (Http_Exception 502 (Detail ''GitHub repository metadata is unavailable''))
           | Some rs \<Rightarrow> sreturn rs))"

subsection \<open>Chat\<close>

definition profile_mode :: "analysis_profile \<Rightarrow> chat_mode" where
  "profile_mode p = (case p of Profile_Architecture \<Rightarrow> Mode_Architecture | Profile_Coding \<Rightarrow> Mode_Coding)"

definition first_repository :: "chat_request \<Rightarrow> string option" where
  "first_repository q = (case selected_repositories q of [] \<Rightarrow> None | r # _ \<Rightarrow> Some r)"

definition chat_mode_of :: "chat_request \<Rightarrow> http_error + chat_mode" where
  "chat_mode_of q =
    (case rq_mode q of
       None \<Rightarrow> Inr (case rq_profile q of
           Some p \<Rightarrow> profile_mode p
         | None \<Rightarrow> if first_repository q \<noteq> None then Mode_Architecture else Mode_Business)
     | Some mode \<Rightarrow>
         case rq_profile q of
           None \<Rightarrow> Inr mode
         | Some p \<Rightarrow>
             if mode \<noteq> Mode_Auto \<and> mode \<noteq> profile_mode p
             then Inl (Http_Exception 422 (Detail ''mode conflicts with analysis_profile''))
             else Inr (profile_mode p))"

definition routing_detail :: "routing_error \<Rightarrow> string" where
  "routing_detail e = (case e of
     Architect_Needs_Repository \<Rightarrow> ''Architect discussion requires a selected repository''
   | Code_Needs_Repository \<Rightarrow> ''Code analysis requires a selected repository'')"

definition route_request :: "chat_request \<Rightarrow> http_error + agent_role \<times> analysis_profile option" where
  "route_request q = ebind (chat_mode_of q) (\<lambda>mode.
    case route_chat_role mode (rq_message q) (first_repository q) of
      Inl e \<Rightarrow> Inl (Http_Exception 422 (Detail (routing_detail e)))
    | Inr r \<Rightarrow> Inr r)"

definition model_configured :: "('d, 'x) service \<Rightarrow> agent_role \<Rightarrow> bool" where
  "model_configured sv r = (if r = Business_Analyst then sv_business sv \<noteq> None else sv_grounded sv \<noteq> None)"

definition chat_guards :: "('d, 'x) service \<Rightarrow> principal \<Rightarrow> chat_request \<Rightarrow> agent_role \<Rightarrow> http_error + unit" where
  "chat_guards sv p q r = require_all
    [(list_all (\<lambda>s. s \<in> set (sv_repositories sv)) (selected_repositories q),
        Http_Exception 403 (Detail (if length (selected_repositories q) = 1
          then ''repository is outside the pilot allowlist''
          else ''one or more repositories are outside the pilot allowlist''))),
     (\<not> (model_configured sv r \<and> (\<exists>t \<in> set_option (sv_model_tenant sv). pr_tenant p \<noteq> t)),
        Http_Exception 403 (Coded ''CHAT_MODEL_TENANT_NOT_AUTHORIZED'' (rq_work_item q))),
     (\<not> (model_configured sv r \<and> \<not> may_operate p), Http_Exception 403 (Detail ''operator role required'')),
     (\<not> (r \<noteq> Business_Analyst \<and> sv_grounded sv = None),
        Http_Exception 503 (Detail ''grounded repository discussion is unavailable'')),
     (\<not> (r = Business_Analyst \<and> sv_business sv = None \<and> rq_mode q \<noteq> None),
        Http_Exception 503 (Detail ''Business Analyst is unavailable'')),
     (\<not> (model_configured sv r \<and> sv_turn_limit sv = Some 0),
        Http_Exception 503 (Detail ''Model-backed chat is disabled by budget policy'')),
     (\<not> requires_runtime_evidence (rq_message q),
        Http_Exception 503 (Coded_Message ''RUNTIME_EVIDENCE_NOT_CONFIGURED''
          ''No isolated local runtime worker is configured; no runtime claim was generated.''))]"

definition chat_item ::
  "('d, 'x) service \<Rightarrow> principal \<Rightarrow> chat_request \<Rightarrow> analysis_profile option \<Rightarrow> ('d, 'x, workflow_item) handler"
where
  "chat_item sv p q profile =
    (case rq_work_item q of
       None \<Rightarrow>
         sbind (outside (sv_clock sv)) (\<lambda>now.
         sbind (outside (sv_uuid sv)) (\<lambda>u.
         sbind (outside (sv_uuid sv)) (\<lambda>v.
           scatch (on_store (st_create_intake (sv_store sv) u v
             \<lparr>in_tenant = pr_tenant p, in_actor = pr_subject p, in_now = now, in_message = rq_message q,
              in_repository = first_repository q,
              in_repositories = (if 1 < length (selected_repositories q) then selected_repositories q else []),
              in_profile = profile\<rparr>)) Server_Error)))
     | Some w \<Rightarrow>
         sbind (scatch (read_store (st_get (sv_store sv) (pr_tenant p) w)) Server_Error) (\<lambda>found.
           case found of
             None \<Rightarrow> sraise (Http_Exception 404 (Detail ''conversation not found''))
           | Some item \<Rightarrow>
               if wi_created_by item \<noteq> pr_subject p
               then sraise (Http_Exception 404 (Detail ''conversation not found'')) else sreturn item))"

definition many_repositories :: "chat_request \<Rightarrow> string list option" where
  "many_repositories q = (if 1 < length (selected_repositories q) then Some (selected_repositories q) else None)"

definition history_digest :: "chat_request \<Rightarrow> string" where
  "history_digest q = digest_of (json_list (\<lambda>t. JObj
    [(''role'', JStr (turn_role t)), (''content_digest'', JStr (digest_of (JStr (turn_content t))))]) (rq_history q))"

definition turn_reservation :: "chat_request \<Rightarrow> agent_role \<Rightarrow> analysis_profile option \<Rightarrow> chat_turn_reservation" where
  "turn_reservation q r profile = seal turn_reservation_fields
    \<lparr>content_digest = [], cr_agent_role = r, cr_profile = profile, cr_repository = first_repository q,
     cr_repositories = many_repositories q, cr_input_digest = digest_of (JStr (rq_message q)),
     cr_history_digest = history_digest q, cr_model_call_count = max_model_calls_per_turn\<rparr>"

definition reserve_turn ::
  "('d, 'x) service \<Rightarrow> principal \<Rightarrow> workflow_item \<Rightarrow> chat_turn_reservation \<Rightarrow> ('d, 'x, workflow_event) handler"
where
  "reserve_turn sv p item res =
    (if \<not> reservation_ok res then sraise (Server_Error Invalid_Value)
     else
       sbind (outside (sv_clock sv)) (\<lambda>now.
       sbind (outside (sv_uuid sv)) (\<lambda>u.
         scatch (on_store (st_reserve_turn (sv_store sv) u (pr_tenant p) (wi_id item) (pr_subject p) res
             (sv_turn_limit sv) now))
           (\<lambda>e. if e = Limit_Exceeded
                then Http_Exception 429 (Coded ''CHAT_MODEL_TURN_LIMIT_REACHED'' (Some (wi_id item)))
                else Server_Error e))))"

datatype agent_answer = Business_Answer business_analyst_result | Grounded_Answer grounded_discussion_result

definition ask_agent ::
  "('d, 'x) service \<Rightarrow> chat_request \<Rightarrow> workflow_item \<Rightarrow> agent_role \<Rightarrow> analysis_profile option \<Rightarrow>
    ('d \<times> 'x, workflow_error, agent_answer) eff"
where
  "ask_agent sv q item r profile s =
    (if r = Business_Analyst
     then case sv_business sv of
         None \<Rightarrow> (Inl Invalid_Value, s)
       | Some ask \<Rightarrow>
           (case ask (Ask_Business (wi_id item) (rq_message q) (first_repository q) (rq_history q)) (snd s) of
              (None, x) \<Rightarrow> (Inl Invalid_Value, (fst s, x))
            | (Some a, x) \<Rightarrow> (Inr (Business_Answer a), (fst s, x)))
     else case (sv_grounded sv, profile, selected_repositories q) of
         (Some ask, Some pf, r0 # rs) \<Rightarrow>
           (case ask (Ask_Grounded (r0 # rs) (rq_message q) pf (rq_history q)) (snd s) of
              (None, x) \<Rightarrow> (Inl Invalid_Value, (fst s, x))
            | (Some a, x) \<Rightarrow> (Inr (Grounded_Answer a), (fst s, x)))
       | _ \<Rightarrow> (Inl Invalid_Value, s))"

definition turn_audit ::
  "chat_request \<Rightarrow> agent_role \<Rightarrow> analysis_profile option \<Rightarrow> agent_answer \<Rightarrow> chat_turn_audit"
where
  "turn_audit q r profile answer = seal audit_fields
    \<lparr>content_digest = [], ct_agent_role = r, ct_profile = profile, ct_repository = first_repository q,
     ct_repositories = many_repositories q,
     ct_status = (case answer of Business_Answer a \<Rightarrow> analyst_status a | Grounded_Answer a \<Rightarrow> discussion_status a),
     ct_input_digest = digest_of (JStr (rq_message q)), ct_history_digest = history_digest q,
     ct_response_digest = digest_of (case answer of Business_Answer a \<Rightarrow> analyst_json a | Grounded_Answer a \<Rightarrow> discussion_json a),
     ct_context_digest = (case answer of Business_Answer a \<Rightarrow> ba_context_digest a | Grounded_Answer a \<Rightarrow> gd_context_digest a),
     ct_model_runs = (case answer of Business_Answer a \<Rightarrow> ba_model_runs a | Grounded_Answer a \<Rightarrow> gd_model_runs a),
     ct_elapsed_ms = (case answer of Business_Answer a \<Rightarrow> ba_elapsed_ms a | Grounded_Answer a \<Rightarrow> gd_elapsed_ms a)\<rparr>"

definition record_turn ::
  "('d, 'x) service \<Rightarrow> principal \<Rightarrow> workflow_item \<Rightarrow> chat_turn_audit \<Rightarrow> ('d \<times> 'x, workflow_error, workflow_event) eff"
where
  "record_turn sv p item audit s =
    (if \<not> audit_ok audit then (Inl Invalid_Value, s)
     else
       case sv_clock sv (snd s) of (now, x1) \<Rightarrow>
       case sv_uuid sv x1 of (u, x2) \<Rightarrow>
         on_store (st_record_turn (sv_store sv) u (pr_tenant p) (wi_id item) (pr_subject p) audit now) (fst s, x2))"

definition agent_turn ::
  "('d, 'x) service \<Rightarrow> principal \<Rightarrow> chat_request \<Rightarrow> workflow_item \<Rightarrow> agent_role \<Rightarrow> analysis_profile option \<Rightarrow>
    ('d, 'x, agent_answer) handler"
where
  "agent_turn sv p q item r profile = scatch
    (sbind (ask_agent sv q item r profile) (\<lambda>answer.
     sbind (record_turn sv p item (turn_audit q r profile answer)) (\<lambda>_. sreturn answer)))
    (\<lambda>_. Http_Exception 502 (Coded ''AGENT_RESPONSE_UNAVAILABLE'' (Some (wi_id item))))"

definition intake_only :: "principal \<Rightarrow> workflow_item \<Rightarrow> intake_response" where
  "intake_only p item =
    \<lparr>ar_work_item = wi_id item, ar_replied = False, ar_state = wi_state item, ar_tenant = pr_tenant p,
     ar_role = None, ar_profile = None, ar_reply = None, ar_analysis = None, ar_business = None\<rparr>"

definition agent_replied ::
  "principal \<Rightarrow> workflow_item \<Rightarrow> agent_role \<Rightarrow> analysis_profile option \<Rightarrow> agent_answer \<Rightarrow> intake_response"
where
  "agent_replied p item r profile answer =
    \<lparr>ar_work_item = wi_id item, ar_replied = True, ar_state = wi_state item, ar_tenant = pr_tenant p,
     ar_role = Some r, ar_profile = Some (turn_profile profile),
     ar_reply = Some (case answer of Business_Answer a \<Rightarrow> ba_reply a | Grounded_Answer a \<Rightarrow> gd_summary a),
     ar_analysis = (case answer of Business_Answer _ \<Rightarrow> None | Grounded_Answer a \<Rightarrow> Some a),
     ar_business = (case answer of Business_Answer a \<Rightarrow> Some a | Grounded_Answer _ \<Rightarrow> None)\<rparr>"

definition chat :: "('d, 'x) service \<Rightarrow> principal \<Rightarrow> chat_request \<Rightarrow> ('d, 'x, intake_response) handler" where
  "chat sv p q =
    sbind (spure (route_request q)) (\<lambda>(r, profile).
    sbind (spure (chat_guards sv p q r)) (\<lambda>_.
    sbind (chat_item sv p q profile) (\<lambda>item.
      if \<not> model_configured sv r then sreturn (intake_only p item)
      else
        sbind (reserve_turn sv p item (turn_reservation q r profile)) (\<lambda>_.
        sbind (agent_turn sv p q item r profile) (\<lambda>answer.
          sreturn (agent_replied p item r profile answer))))))"

subsection \<open>Work item handlers\<close>

definition status_view :: "('d, 'x) service \<Rightarrow> principal \<Rightarrow> ('d, 'x, work_item_response list) handler" where
  "status_view sv p = sbind (scatch (read_store (st_list (sv_store sv) (pr_tenant p))) Server_Error)
    (\<lambda>items. sreturn (map item_response items))"

definition found_item :: "('d, 'x) service \<Rightarrow> principal \<Rightarrow> string \<Rightarrow> ('d, 'x, workflow_item) handler" where
  "found_item sv p w = sbind (scatch (read_store (st_get (sv_store sv) (pr_tenant p) w)) Server_Error) (\<lambda>found.
    case found of None \<Rightarrow> sraise (Http_Exception 404 (Detail ''work item not found'')) | Some item \<Rightarrow> sreturn item)"

definition work_item :: "('d, 'x) service \<Rightarrow> principal \<Rightarrow> string \<Rightarrow> ('d, 'x, work_item_response) handler" where
  "work_item sv p w = sbind (found_item sv p w) (\<lambda>item. sreturn (item_response item))"

definition trace_view :: "('d, 'x) service \<Rightarrow> principal \<Rightarrow> string \<Rightarrow> ('d, 'x, string \<times> workflow_event list) handler" where
  "trace_view sv p w = sbind (found_item sv p w) (\<lambda>_.
    sbind (scatch (read_store (st_trace (sv_store sv) (pr_tenant p) w)) Server_Error) (\<lambda>tr. sreturn (w, tr)))"

definition gate :: "('d, 'x) service \<Rightarrow> principal \<Rightarrow> gate_request \<Rightarrow> string \<Rightarrow> ('d, 'x, string) handler" where
  "gate sv p g w = sbind (operator_guard p) (\<lambda>_. sbind (found_item sv p w) (\<lambda>_.
    sbind (outside (sv_clock sv)) (\<lambda>now. sbind (outside (sv_uuid sv)) (\<lambda>u.
    sbind (scatch (on_store (st_add_gate (sv_store sv) u (pr_tenant p) w (pr_subject p) (gq_gate g) (gq_approve g)
        (gq_decision_digest g) now)) Server_Error) (\<lambda>_. sreturn w)))))"

end
