(* ===== verification/Github_Transport.thy ===== *)
theory Github_Transport
  imports Py_Url Effects Json
begin

text \<open>
  \<^verbatim>\<open>adapters/github_issues_transport.py\<close>: the authenticated transport of the GitHub Issues adapter, which follows
  redirects itself so that the token never leaves the configured origin.

  The opener is a parameter: given the URL, the method and the body it answers or fails, in a world of its own; every
  call carries the token. So are \<^verbatim>\<open>urljoin\<close>, whose \<open>None\<close> is its \<^verbatim>\<open>ValueError\<close> and whose result is checked in any
  case, the JSON reader, and the models of the answers, given by their validators. \<open>Uncaught\<close> is any exception the
  module neither raises nor catches.
\<close>

datatype github_error = Api_Error | Invalid_Lifecycle_Label | Invalid_Value | Uncaught

datatype http_method = Http_Get | Http_Post | Http_Delete

subsection \<open>Origins\<close>

record origin =
  or_scheme :: string
  or_hostname :: string
  or_port :: nat

definition origin_from_parts :: "split_url \<Rightarrow> origin option" where
  "origin_from_parts u =
    (case (url_hostname u, url_port u) of
       (Some h, Some p) \<Rightarrow>
         Some \<lparr>or_scheme = lower (su_scheme u), or_hostname = lower h, or_port = (case p of None \<Rightarrow> 443 | Some n \<Rightarrow> n)\<rparr>
     | _ \<Rightarrow> None)"

definition validate_https_url :: "(string \<Rightarrow> bool) \<Rightarrow> string \<Rightarrow> (split_url \<times> origin) option" where
  "validate_https_url bracketed_host s =
    (case url_split bracketed_host s of
       None \<Rightarrow> None
     | Some u \<Rightarrow>
         if lower (su_scheme u) \<noteq> ''https'' \<or> url_hostname u = None \<or> url_username u \<noteq> None \<or> url_password u \<noteq> None
         then None
         else (case origin_from_parts u of
           None \<Rightarrow> None | Some o' \<Rightarrow> if or_port o' = 0 then None else Some (u, o')))"

definition validate_api_url :: "(string \<Rightarrow> bool) \<Rightarrow> string \<Rightarrow> (string \<times> origin) option" where
  "validate_api_url bracketed_host s =
    (case validate_https_url bracketed_host s of
       None \<Rightarrow> None
     | Some (u, o') \<Rightarrow> if su_query u \<noteq> [] \<or> su_fragment u \<noteq> [] then None else Some (strip_right (CHR ''/'') s, o'))"

definition normalize_github_api_url :: "(string \<Rightarrow> bool) \<Rightarrow> string \<Rightarrow> string option" where
  "normalize_github_api_url bracketed_host s = map_option fst (validate_api_url bracketed_host s)"

subsection \<open>Requests\<close>

datatype http_outcome = Http_Answer string | Http_Status int "string option" | Url_Failure | Other_Failure

record 'x github_transport =
  gt_api_url :: string
  gt_origin :: origin
  gt_open :: "string \<Rightarrow> http_method \<Rightarrow> string option \<Rightarrow> 'x \<Rightarrow> http_outcome \<times> 'x"
  gt_join :: "string \<Rightarrow> string \<Rightarrow> string option"
  gt_bracketed_host :: "string \<Rightarrow> bool"
  gt_loads :: "string \<Rightarrow> json_reading"

text \<open>\<open>positive_timeout\<close> is the test of the timeout, a float.\<close>

definition make_transport ::
  "(string \<Rightarrow> http_method \<Rightarrow> string option \<Rightarrow> 'x \<Rightarrow> http_outcome \<times> 'x) \<Rightarrow> (string \<Rightarrow> string \<Rightarrow> string option) \<Rightarrow>
    (string \<Rightarrow> bool) \<Rightarrow> (string \<Rightarrow> json_reading) \<Rightarrow> string \<Rightarrow> string \<Rightarrow> bool \<Rightarrow> github_error + 'x github_transport"
where
  "make_transport opener join bracketed_host loads token api_url positive_timeout =
    (if token = [] \<or> \<not> positive_timeout then Inl Invalid_Value
     else case validate_api_url bracketed_host api_url of
       None \<Rightarrow> Inl Invalid_Value
     | Some (url, o') \<Rightarrow> Inr \<lparr>gt_api_url = url, gt_origin = o', gt_open = opener, gt_join = join,
         gt_bracketed_host = bracketed_host, gt_loads = loads\<rparr>)"

definition safe_redirect_url :: "'x github_transport \<Rightarrow> string \<Rightarrow> string \<Rightarrow> github_error + string" where
  "safe_redirect_url t current location =
    (case gt_join t current location of
       None \<Rightarrow> Inl Uncaught
     | Some url \<Rightarrow> (case validate_https_url (gt_bracketed_host t) url of
         None \<Rightarrow> Inl Api_Error
       | Some (_, o') \<Rightarrow> if o' \<noteq> gt_origin t then Inl Api_Error else Inr url))"

definition parse_response :: "'x github_transport \<Rightarrow> (json \<Rightarrow> 'a option) \<Rightarrow> string \<Rightarrow> github_error + 'a" where
  "parse_response t validate raw =
    (if raw = [] then Inl Api_Error
     else case gt_loads t raw of
       Bad_Json \<Rightarrow> Inl Api_Error
     | Json_Crash \<Rightarrow> Inl Uncaught
     | Reads v \<Rightarrow> if \<not> unique_keys v then Inl Api_Error
         else (case validate v of None \<Rightarrow> Inl Api_Error | Some a \<Rightarrow> Inr a))"

definition max_redirects :: nat where
  "max_redirects = 3"

definition redirect_codes :: "int list" where
  "redirect_codes = [301, 302, 303, 307, 308]"

text \<open>\<open>left\<close> counts the redirects that may still be followed.\<close>

fun request_loop ::
  "'x github_transport \<Rightarrow> http_method \<Rightarrow> (json \<Rightarrow> 'a option) \<Rightarrow> string option \<Rightarrow> nat \<Rightarrow> string \<Rightarrow> ('x, github_error, 'a) eff"
where
  "request_loop t meth validate body left url x =
    (case gt_open t url meth body x of
       (Http_Answer raw, y) \<Rightarrow> (parse_response t validate raw, y)
     | (Url_Failure, y) \<Rightarrow> (Inl Api_Error, y)
     | (Other_Failure, y) \<Rightarrow> (Inl Uncaught, y)
     | (Http_Status code location, y) \<Rightarrow>
         if code \<notin> set redirect_codes then (Inl Api_Error, y)
         else (case left of
           0 \<Rightarrow> (Inl Api_Error, y)
         | Suc n \<Rightarrow> (case location of
             None \<Rightarrow> (Inl Api_Error, y)
           | Some l \<Rightarrow>
               if l = [] then (Inl Api_Error, y)
               else (case safe_redirect_url t url l of
                 Inl e \<Rightarrow> (Inl e, y)
               | Inr next_url \<Rightarrow> request_loop t meth validate body n next_url y))))"

definition github_request ::
  "'x github_transport \<Rightarrow> http_method \<Rightarrow> string \<Rightarrow> (json \<Rightarrow> 'a option) \<Rightarrow> json option \<Rightarrow> ('x, github_error, 'a) eff"
where
  "github_request t meth path validate body x =
    (if \<not> starts_with ''/'' path then (Inl Invalid_Value, x)
     else request_loop t meth validate (map_option (\<lambda>v. utf8 (jprint False v)) body) max_redirects
       (gt_api_url t @ path) x)"

end
