(* ===== verification/Model_Providers.thy ===== *)
theory Model_Providers
  imports Discussion_Agents Github_Transport
begin

text \<open>
  \<^verbatim>\<open>adapters/model_providers.py\<close>: the OpenAI, Google and Bedrock adapters behind the model port.

  The opener of the HTTP transport, the secret store and the Bedrock client are parameters acting on a world, as are
  the JSON reader (on the text of a secret and on the bytes of a body, \<open>Bad_Json\<close> standing for undecodable bytes as
  well) and the recognition of bracketed hosts. What the reader and the Bedrock client build are Python dictionaries,
  so no key occurs twice; a value that is no JSON value of the model, such as a float, is read as \<^const>\<open>JNull\<close>,
  which every use in this module treats alike. \<open>Provider_Error\<close> carries the diagnostic code of a
  \<^verbatim>\<open>ModelProviderError\<close>, \<open>Invalid_Response\<close> is Pydantic's refusal of a response record, \<open>Provider_Crash\<close> any
  exception the module neither raises nor catches.
\<close>

datatype provider_error = Provider_Error string | Invalid_Setting | Invalid_Response | Provider_Crash

definition provider_failure :: "provider_error" where
  "provider_failure = Provider_Error ''MODEL_PROVIDER_ERROR''"

subsection \<open>The HTTP transport\<close>

text \<open>
  What opening a request gives: an answer, an HTTP error (redirects among them, for the handler follows none) with its
  body unless reading it fails, a network failure, or something else.
\<close>

datatype opened = Opened int string | Http_Error int "string option" | Network_Failure | Opener_Crash

type_synonym 'x model_transport =
  "string \<Rightarrow> string \<Rightarrow> (string \<times> string) list \<Rightarrow> string \<Rightarrow> ('x, provider_error, int \<times> string) eff"

definition urllib_transport ::
  "(string \<Rightarrow> string \<Rightarrow> (string \<times> string) list \<Rightarrow> string \<Rightarrow> 'x \<Rightarrow> opened \<times> 'x) \<Rightarrow> bool \<Rightarrow> provider_error + 'x model_transport"
where
  "urllib_transport opener positive_timeout =
    (if \<not> positive_timeout then Inl Invalid_Setting
     else Inr (\<lambda>meth url headers body x. (case opener meth url headers body x of
       (Opened status raw, y) \<Rightarrow> (Inr (status, raw), y)
     | (Http_Error status (Some raw), y) \<Rightarrow> (Inr (status, raw), y)
     | (Http_Error status None, y) \<Rightarrow> (Inl (Provider_Error ''HTTP_BODY_UNREADABLE''), y)
     | (Network_Failure, y) \<Rightarrow> (Inl (Provider_Error ''NETWORK_ERROR''), y)
     | (Opener_Crash, y) \<Rightarrow> (Inl Provider_Crash, y))))"

subsection \<open>Reading JSON answers\<close>

fun json_arr :: "json option \<Rightarrow> json list option" where
  "json_arr (Some (JArr vs)) = Some vs"
| "json_arr v = None"

definition json_path :: "json option \<Rightarrow> string \<Rightarrow> json option" where
  "json_path v k = Option.bind v (\<lambda>d. json_get d k)"

text \<open>The texts of the parts that are dictionaries with a text.\<close>

definition part_texts :: "json list \<Rightarrow> string list" where
  "part_texts parts = List.map_filter (\<lambda>p. json_str (json_get p ''text'')) parts"

definition joined :: "string list \<Rightarrow> provider_error + string" where
  "joined texts = (if texts = [] then Inl provider_failure else Inr (concat texts))"

definition openai_output :: "json \<Rightarrow> provider_error + string" where
  "openai_output payload =
    (case json_str (json_get payload ''output_text'') of
       Some t \<Rightarrow> Inr t
     | None \<Rightarrow> (case json_arr (json_get payload ''output'') of
         None \<Rightarrow> Inl provider_failure
       | Some items \<Rightarrow> joined (concat (map (\<lambda>i. case json_arr (json_get i ''content'') of
           None \<Rightarrow> [] | Some cs \<Rightarrow> part_texts cs) items))))"

definition google_output :: "json \<Rightarrow> provider_error + string" where
  "google_output payload =
    (case json_arr (json_get payload ''candidates'') of
       Some (c # cs) \<Rightarrow> (case json_arr (json_path (json_get c ''content'') ''parts'') of
         Some parts \<Rightarrow> joined (part_texts parts)
       | None \<Rightarrow> Inl provider_failure)
     | _ \<Rightarrow> Inl provider_failure)"

definition bedrock_output :: "json \<Rightarrow> provider_error + string" where
  "bedrock_output payload =
    (case json_arr (json_path (json_path (json_get payload ''output'') ''message'') ''content'') of
       Some parts \<Rightarrow> joined (part_texts parts)
     | None \<Rightarrow> Inl provider_failure)"

subsection \<open>Usage\<close>

definition token_count :: "json option \<Rightarrow> nat option" where
  "token_count v = (case json_int v of Some i \<Rightarrow> if 0 \<le> i then Some (nat i) else None | None \<Rightarrow> None)"

text \<open>\<^verbatim>\<open>_nonnegative_token_count(value.get(key, 0))\<close>\<close>

definition count_or_zero :: "json \<Rightarrow> string \<Rightarrow> nat option" where
  "count_or_zero d k = (case json_get d k of None \<Rightarrow> Some 0 | Some v \<Rightarrow> token_count (Some v))"

definition make_usage :: "nat \<Rightarrow> nat \<Rightarrow> nat \<Rightarrow> nat \<Rightarrow> model_usage" where
  "make_usage input cached cache_write out = seal model_usage_fields
    \<lparr>content_digest = [], mu_input_tokens = input, mu_cached_input_tokens = cached,
     mu_cache_write_input_tokens = cache_write, mu_output_tokens = out\<rparr>"

definition openai_usage :: "json option \<Rightarrow> model_usage option" where
  "openai_usage value =
    (case value of
       Some (JObj d) \<Rightarrow>
         (case (token_count (json_get (JObj d) ''input_tokens''), token_count (json_get (JObj d) ''output_tokens''),
                case json_get (JObj d) ''input_tokens_details'' of
                  Some (JObj details) \<Rightarrow> count_or_zero (JObj details) ''cached_tokens'' | _ \<Rightarrow> Some 0) of
            (Some input, Some out, Some cached) \<Rightarrow>
              if input < cached then None else Some (make_usage (input - cached) cached 0 out)
          | _ \<Rightarrow> None)
     | _ \<Rightarrow> None)"

definition google_usage :: "json option \<Rightarrow> model_usage option" where
  "google_usage value =
    (case value of
       Some (JObj d) \<Rightarrow>
         (case (token_count (json_get (JObj d) ''promptTokenCount''), token_count (json_get (JObj d) ''candidatesTokenCount''),
                count_or_zero (JObj d) ''cachedContentTokenCount'', count_or_zero (JObj d) ''thoughtsTokenCount'',
                count_or_zero (JObj d) ''toolUsePromptTokenCount'') of
            (Some prompt, Some candidates, Some cached, Some thoughts, Some tool_use) \<Rightarrow>
              if prompt < cached then None
              else Some (make_usage (prompt - cached + tool_use) cached 0 (candidates + thoughts))
          | _ \<Rightarrow> None)
     | _ \<Rightarrow> None)"

definition bedrock_usage :: "json option \<Rightarrow> model_usage option" where
  "bedrock_usage value =
    (case value of
       Some (JObj d) \<Rightarrow>
         (case (token_count (json_get (JObj d) ''inputTokens''), token_count (json_get (JObj d) ''outputTokens''),
                count_or_zero (JObj d) ''cacheReadInputTokens'', count_or_zero (JObj d) ''cacheWriteInputTokens'') of
            (Some input, Some out, Some cached, Some written) \<Rightarrow>
              if input < cached + written then None
              else Some (make_usage (input - cached - written) cached written out)
          | _ \<Rightarrow> None)
     | _ \<Rightarrow> None)"

subsection \<open>The ports\<close>

text \<open>\<^verbatim>\<open>json.dumps\<close> with its default separators, in the order of the keys.\<close>

fun spaced_items :: "char \<Rightarrow> string list \<Rightarrow> string" where
  "spaced_items close [] = [close]"
| "spaced_items close [p] = p @ [close]"
| "spaced_items close (p # q # ps) = p @ '', '' @ spaced_items close (q # ps)"

fun default_dumps :: "json \<Rightarrow> string" where
  "default_dumps (JArr xs) = CHR ''['' # spaced_items (CHR '']'') (map default_dumps xs)"
| "default_dumps (JObj kvs) =
    CHR ''{'' # spaced_items (CHR ''}'') (map (\<lambda>(k, v). json_quote True k @ '': '' @ default_dumps v) kvs)"
| "default_dumps v = jprint True v"

record model_setting =
  ms_model :: string
  ms_family :: string
  ms_max_output :: int

record 'x credential_access =
  ca_ref :: string
  ca_secret :: "string \<Rightarrow> 'x \<Rightarrow> string option \<times> 'x"
  ca_transport :: "'x model_transport"
  ca_loads :: "string \<Rightarrow> json_reading"
  ca_loads_bytes :: "string \<Rightarrow> json_reading"
  ca_api_url :: string

definition api_url_ok :: "(string \<Rightarrow> bool) \<Rightarrow> string \<Rightarrow> bool" where
  "api_url_ok bracketed_host s =
    (case url_split bracketed_host s of
       None \<Rightarrow> False
     | Some u \<Rightarrow> url_port u \<noteq> None \<and> lower (su_scheme u) = ''https'' \<and> url_hostname u \<noteq> None
         \<and> url_username u = None \<and> url_password u = None \<and> su_query u = [] \<and> su_fragment u = [] \<and> url_port u \<noteq> Some (Some 0))"

definition validate_model_url :: "(string \<Rightarrow> bool) \<Rightarrow> string \<Rightarrow> provider_error + string" where
  "validate_model_url bracketed_host s =
    (if api_url_ok bracketed_host s then Inr (strip_right (CHR ''/'') s) else Inl Invalid_Setting)"

definition validate_max_output :: "int \<Rightarrow> provider_error + int" where
  "validate_max_output n = (if n \<le> 0 then Inl Invalid_Setting else Inr n)"

datatype bedrock_outcome = Converse_Raised "json option" | Converse_Answer json

datatype 'x provider_port =
    OpenAI_Port model_setting "'x credential_access"
  | Gemini_Port model_setting "'x credential_access"
  | Bedrock_Port model_setting "string \<Rightarrow> string \<Rightarrow> int \<Rightarrow> 'x \<Rightarrow> bedrock_outcome \<times> 'x"

definition make_credential_port ::
  "(model_setting \<Rightarrow> 'x credential_access \<Rightarrow> 'x provider_port) \<Rightarrow> (string \<Rightarrow> bool) \<Rightarrow> model_setting \<Rightarrow> 'x credential_access \<Rightarrow>
    provider_error + 'x provider_port"
where
  "make_credential_port constructor bracketed_host s a =
    ebind (validate_model_url bracketed_host (ca_api_url a)) (\<lambda>url.
    ebind (validate_max_output (ms_max_output s)) (\<lambda>_. Inr (constructor s (a\<lparr>ca_api_url := url\<rparr>))))"

definition make_openai where "make_openai = make_credential_port OpenAI_Port"

definition make_gemini where "make_gemini = make_credential_port Gemini_Port"

text \<open>The client is the given one, or the one the AWS library builds, which may fail.\<close>

definition make_bedrock ::
  "model_setting \<Rightarrow> (string \<Rightarrow> string \<Rightarrow> int \<Rightarrow> 'x \<Rightarrow> bedrock_outcome \<times> 'x) option \<Rightarrow> provider_error + 'x provider_port"
where
  "make_bedrock s client =
    (case client of
       None \<Rightarrow> Inl provider_failure
     | Some c \<Rightarrow> ebind (validate_max_output (ms_max_output s)) (\<lambda>_. Inr (Bedrock_Port s c)))"

definition api_key_of :: "'x credential_access \<Rightarrow> string \<Rightarrow> provider_error + string" where
  "api_key_of a secret_text =
    (case ca_loads a secret_text of
       Bad_Json \<Rightarrow> Inl (Provider_Error ''MODEL_CREDENTIAL_INVALID_JSON'')
     | Json_Crash \<Rightarrow> Inl Provider_Crash
     | Reads v \<Rightarrow> (case json_str (json_get v ''api_key'') of
         None \<Rightarrow> Inl (Provider_Error ''MODEL_CREDENTIAL_KEY_MISSING'')
       | Some k \<Rightarrow> if strip k = [] then Inl (Provider_Error ''MODEL_CREDENTIAL_KEY_EMPTY'') else Inr (strip k)))"

definition api_key :: "'x credential_access \<Rightarrow> ('x, provider_error, string) eff" where
  "api_key a =
    sbind (scall (ca_secret a (ca_ref a))) (\<lambda>secret_text. case secret_text of
      None \<Rightarrow> sraise (Provider_Error ''MODEL_CREDENTIAL_RETRIEVAL_FAILED'')
    | Some t \<Rightarrow> spure (api_key_of a t))"

definition status_code :: "int \<Rightarrow> string" where
  "status_code status =
    (if status = 401 \<or> status = 403 then ''HTTP_AUTHORIZATION''
     else if status = 429 then ''HTTP_THROTTLED''
     else if 500 \<le> status then ''HTTP_UPSTREAM''
     else ''HTTP_REJECTED'')"

definition response_payload :: "'x credential_access \<Rightarrow> int \<Rightarrow> string \<Rightarrow> provider_error + json" where
  "response_payload a status body =
    (if status < 200 \<or> 300 \<le> status then Inl (Provider_Error (status_code status))
     else case ca_loads_bytes a body of
       Bad_Json \<Rightarrow> Inl (Provider_Error ''HTTP_INVALID_JSON'')
     | Json_Crash \<Rightarrow> Inl Provider_Crash
     | Reads v \<Rightarrow> if is_object v then Inr v else Inl (Provider_Error ''HTTP_INVALID_SHAPE''))"

definition model_response_ok :: "model_response \<Rightarrow> bool" where
  "model_response_ok r \<longleftrightarrow> identifier_ok (mp_model r) \<and> identifier_ok (mp_family r) \<and> length (mp_output r) \<le> 128000
    \<and> pred_option identifier_ok (mp_execution_id r)"

definition completed_response ::
  "model_setting \<Rightarrow> string \<Rightarrow> string option \<Rightarrow> model_usage option \<Rightarrow> provider_error + model_response"
where
  "completed_response s out execution usage =
    (if strip out = [] then Inl provider_failure
     else let r = \<lparr>mp_status = MODEL_COMPLETED, mp_model = ms_model s, mp_family = ms_family s, mp_output = out,
            mp_execution_id = execution, mp_usage = usage\<rparr> in
       if model_response_ok r then Inr r else Inl Invalid_Response)"

text \<open>
  One authenticated POST and the reading of its answer: the tail of both HTTP ports, given the headers made of the key.
\<close>

definition post_prompt ::
  "'x credential_access \<Rightarrow> string \<Rightarrow> (string \<Rightarrow> (string \<times> string) list) \<Rightarrow> json \<Rightarrow> ('x, provider_error, json) eff"
where
  "post_prompt a url headers document =
    sbind (api_key a) (\<lambda>key.
    sbind (ca_transport a ''POST'' url (headers key) (default_dumps document)) (\<lambda>(status, raw).
    spure (response_payload a status raw)))"

definition openai_headers :: "string \<Rightarrow> (string \<times> string) list" where
  "openai_headers key =
    [(''Accept'', ''application/json''), (''Authorization'', ''Bearer '' @ key),
     (''Content-Type'', ''application/json''), (''User-Agent'', ''nokinc-factory'')]"

definition gemini_headers :: "string \<Rightarrow> (string \<times> string) list" where
  "gemini_headers key =
    [(''Accept'', ''application/json''), (''Content-Type'', ''application/json''),
     (''User-Agent'', ''nokinc-factory''), (''x-goog-api-key'', key)]"

definition openai_url :: "'x credential_access \<Rightarrow> string" where
  "openai_url a = ca_api_url a @ ''/responses''"

definition openai_document :: "model_setting \<Rightarrow> string \<Rightarrow> json" where
  "openai_document s prompt =
    JObj [(''model'', JStr (ms_model s)), (''input'', JStr prompt), (''max_output_tokens'', JInt (ms_max_output s))]"

definition openai_complete ::
  "model_setting \<Rightarrow> 'x credential_access \<Rightarrow> model_request \<Rightarrow> ('x, provider_error, model_response) eff"
where
  "openai_complete s a q =
    sbind (post_prompt a (openai_url a) openai_headers (openai_document s (mq_prompt q))) (\<lambda>payload.
    sbind (spure (openai_output payload)) (\<lambda>out.
    spure (completed_response s out (json_str (json_get payload ''id'')) (openai_usage (json_get payload ''usage'')))))"

definition gemini_url :: "model_setting \<Rightarrow> 'x credential_access \<Rightarrow> string" where
  "gemini_url s a = ca_api_url a @ ''/models/'' @ quote_url (ms_model s) @ '':generateContent''"

definition gemini_document :: "model_setting \<Rightarrow> string \<Rightarrow> json" where
  "gemini_document s prompt =
    JObj [(''contents'', JArr [JObj [(''role'', JStr ''user''), (''parts'', JArr [JObj [(''text'', JStr prompt)]])]]),
      (''generationConfig'', JObj [(''maxOutputTokens'', JInt (ms_max_output s))])]"

definition gemini_complete ::
  "model_setting \<Rightarrow> 'x credential_access \<Rightarrow> model_request \<Rightarrow> ('x, provider_error, model_response) eff"
where
  "gemini_complete s a q =
    sbind (post_prompt a (gemini_url s a) gemini_headers (gemini_document s (mq_prompt q))) (\<lambda>payload.
    sbind (spure (google_output payload)) (\<lambda>out.
    spure (completed_response s out (json_str (json_get payload ''responseId''))
      (google_usage (json_get payload ''usageMetadata'')))))"

definition bedrock_codes :: "(string \<times> string) list" where
  "bedrock_codes =
    [(''AccessDeniedException'', ''BEDROCK_ACCESS_DENIED''), (''ExpiredTokenException'', ''BEDROCK_ACCESS_DENIED''),
     (''UnrecognizedClientException'', ''BEDROCK_ACCESS_DENIED''), (''ThrottlingException'', ''BEDROCK_THROTTLED''),
     (''ModelNotReadyException'', ''BEDROCK_MODEL_NOT_READY''), (''ValidationException'', ''BEDROCK_INVALID_REQUEST''),
     (''ResourceNotFoundException'', ''BEDROCK_MODEL_UNAVAILABLE'')]"

definition bedrock_diagnostic_code :: "json option \<Rightarrow> string" where
  "bedrock_diagnostic_code response =
    (case json_str (json_path (json_path response ''Error'') ''Code'') of
       None \<Rightarrow> ''BEDROCK_REQUEST_FAILED''
     | Some code \<Rightarrow> (case map_of bedrock_codes code of None \<Rightarrow> ''BEDROCK_REQUEST_FAILED'' | Some d \<Rightarrow> d))"

definition bedrock_complete ::
  "model_setting \<Rightarrow> (string \<Rightarrow> string \<Rightarrow> int \<Rightarrow> 'x \<Rightarrow> bedrock_outcome \<times> 'x) \<Rightarrow> model_request \<Rightarrow>
    ('x, provider_error, model_response) eff"
where
  "bedrock_complete s client q =
    sbind (scall (client (ms_model s) (mq_prompt q) (ms_max_output s))) (\<lambda>outcome. case outcome of
      Converse_Raised response \<Rightarrow> sraise (Provider_Error (bedrock_diagnostic_code response))
    | Converse_Answer payload \<Rightarrow>
        if \<not> is_object payload then sraise provider_failure
        else sbind (spure (bedrock_output payload)) (\<lambda>out.
          spure (completed_response s out (json_str (json_path (json_get payload ''ResponseMetadata'') ''RequestId''))
            (bedrock_usage (json_get payload ''usage'')))))"

fun complete_with :: "'x provider_port \<Rightarrow> model_request \<Rightarrow> ('x, provider_error, model_response) eff" where
  "complete_with (OpenAI_Port s a) q = openai_complete s a q"
| "complete_with (Gemini_Port s a) q = gemini_complete s a q"
| "complete_with (Bedrock_Port s c) q = bedrock_complete s c q"

end
