(* ===== verification/Model_Qualification.thy ===== *)
theory Model_Qualification
  imports Model_Providers
begin

text \<open>
  Qualification of models: the bounded, redacted runner of \<^verbatim>\<open>application/model_qualification_runner.py\<close> and the check of
  \<^verbatim>\<open>policy/model_qualification.py\<close> around one response.

  A port ends in a response, in \<^verbatim>\<open>ModelUnavailable\<close>, in a \<^verbatim>\<open>ModelProviderError\<close> with its code or in another exception.
  The timer, with its floating point, and the date are parameters; the run raises only what pricing raises.
\<close>

datatype port_outcome = Port_Answer model_response | Port_Unavailable | Port_Failed string | Port_Exception

definition qualification_port :: "'x provider_port \<Rightarrow> model_request \<Rightarrow> 'x \<Rightarrow> port_outcome \<times> 'x" where
  "qualification_port p q x =
    (case complete_with p q x of
       (Inr a, y) \<Rightarrow> (Port_Answer a, y)
     | (Inl (Provider_Error code), y) \<Rightarrow> (Port_Failed code, y)
     | (Inl _, y) \<Rightarrow> (Port_Exception, y))"

datatype qualification_status = Qualified | Not_Qualified | Blocked_Call_Limit

record call_limit =
  cl_max :: int
  cl_used :: int

definition make_call_limit :: "int \<Rightarrow> call_limit option" where
  "make_call_limit n = (if n \<le> 0 then None else Some \<lparr>cl_max = n, cl_used = 0\<rparr>)"

definition reserve_call :: "call_limit \<Rightarrow> call_limit option" where
  "reserve_call l = (if cl_max l \<le> cl_used l then None else Some (l\<lparr>cl_used := cl_used l + 1\<rparr>))"

record 'x qualification_case =
  qc_provider :: string
  qc_model :: string
  qc_family :: string
  qc_port :: "model_request \<Rightarrow> 'x \<Rightarrow> port_outcome \<times> 'x"

record qualification_evidence =
  qe_provider :: string
  qe_model :: string
  qe_family :: string
  qe_status :: qualification_status
  qe_error_code :: "string option"
  qe_output_digest :: string
  qe_output :: string
  qe_execution_id :: "string option"
  qe_latency :: int
  qe_usage :: "model_usage option"
  qe_cost :: "model_cost_estimate option"

record 'x qualification_host =
  qh_timer :: "'x \<Rightarrow> int \<times> 'x"
  qh_millis :: "int \<Rightarrow> int \<Rightarrow> int"
  qh_today :: "'x \<Rightarrow> date \<times> 'x"
  qh_region :: string

definition blank_evidence :: "'x qualification_case \<Rightarrow> qualification_status \<Rightarrow> string option \<Rightarrow> qualification_evidence" where
  "blank_evidence c s code = \<lparr>qe_provider = qc_provider c, qe_model = qc_model c, qe_family = qc_family c, qe_status = s,
    qe_error_code = code, qe_output_digest = [], qe_output = [], qe_execution_id = None, qe_latency = 0, qe_usage = None,
    qe_cost = None\<rparr>"

definition elapsed :: "'x qualification_host \<Rightarrow> int \<Rightarrow> ('x, pricing_error, int) eff" where
  "elapsed h started = sbind (scall (qh_timer h)) (\<lambda>now. sreturn (max 0 (qh_millis h started now)))"

definition failed_evidence ::
  "'x qualification_host \<Rightarrow> 'x qualification_case \<Rightarrow> string \<Rightarrow> int \<Rightarrow> model_usage option \<Rightarrow> model_cost_estimate option \<Rightarrow>
    ('x, pricing_error, qualification_evidence) eff"
where
  "failed_evidence h c code started usage cost =
    sbind (elapsed h started) (\<lambda>ms. sreturn ((blank_evidence c Not_Qualified (Some code))
      \<lparr>qe_latency := ms, qe_usage := usage, qe_cost := cost\<rparr>))"

text \<open>\<^verbatim>\<open>[A-Z][A-Z0-9_]{0,47}\<close>\<close>

definition diagnostic_code_ok :: "string \<Rightarrow> bool" where
  "diagnostic_code_ok s \<longleftrightarrow> s \<noteq> [] \<and> length s \<le> 48 \<and> ascii_upper (hd s)
    \<and> list_all (\<lambda>c. ascii_upper c \<or> ascii_digit c \<or> c = CHR ''_'') (tl s)"

definition price_answer ::
  "'x qualification_host \<Rightarrow> 'x qualification_case \<Rightarrow> model_response \<Rightarrow> ('x, pricing_error, model_cost_estimate option) eff"
where
  "price_answer h c a =
    (case mp_usage a of
       Some u \<Rightarrow>
         if mp_model a = qc_model c
         then sbind (scall (qh_today h)) (\<lambda>today. spure (estimate_model_cost (qc_provider c) (qc_model c) u today (qh_region h)))
         else sreturn None
     | None \<Rightarrow> sreturn None)"

definition judge_answer ::
  "'x qualification_host \<Rightarrow> 'x qualification_case \<Rightarrow> int \<Rightarrow> model_response \<Rightarrow> ('x, pricing_error, qualification_evidence) eff"
where
  "judge_answer h c started a =
    sbind (elapsed h started) (\<lambda>ms. sbind (price_answer h c a) (\<lambda>cost.
    if mp_status a \<noteq> MODEL_COMPLETED then failed_evidence h c ''INVALID_RESPONSE_STATUS'' started (mp_usage a) cost
    else if mp_model a \<noteq> qc_model c then failed_evidence h c ''MODEL_ID_MISMATCH'' started (mp_usage a) None
    else if mp_family a \<noteq> qc_family c then failed_evidence h c ''MODEL_FAMILY_MISMATCH'' started (mp_usage a) cost
    else if strip (mp_output a) = [] then failed_evidence h c ''EMPTY_OUTPUT'' started (mp_usage a) cost
    else sreturn ((blank_evidence c Qualified None)
      \<lparr>qe_output_digest := ''sha256:'' @ sha256_hex (utf8 (mp_output a)), qe_execution_id := mp_execution_id a,
       qe_latency := ms, qe_usage := mp_usage a, qe_cost := cost\<rparr>)))"

definition qualify_case ::
  "'x qualification_host \<Rightarrow> model_request \<Rightarrow> 'x qualification_case \<Rightarrow> ('x, pricing_error, qualification_evidence) eff"
where
  "qualify_case h q c =
    sbind (scall (qh_timer h)) (\<lambda>started. sbind (scall (qc_port c q)) (\<lambda>outcome. case outcome of
       Port_Unavailable \<Rightarrow> failed_evidence h c ''MODEL_UNAVAILABLE'' started None None
     | Port_Failed code \<Rightarrow>
         failed_evidence h c (if diagnostic_code_ok code then code else ''PROVIDER_ERROR'') started None None
     | Port_Exception \<Rightarrow> failed_evidence h c ''UNEXPECTED_PROVIDER_ERROR'' started None None
     | Port_Answer a \<Rightarrow> judge_answer h c started a))"

record qualification_report =
  qr_evidence :: "qualification_evidence list"
  qr_limit :: call_limit

fun qualify_cases ::
  "'x qualification_host \<Rightarrow> model_request \<Rightarrow> 'x qualification_case list \<Rightarrow> call_limit \<Rightarrow> qualification_evidence list \<Rightarrow>
    ('x, pricing_error, qualification_report) eff"
where
  "qualify_cases h q [] l evs = sreturn \<lparr>qr_evidence = evs, qr_limit = l\<rparr>"
| "qualify_cases h q (c # cs) l evs =
    (case reserve_call l of
       None \<Rightarrow> qualify_cases h q cs l (evs @ [blank_evidence c Blocked_Call_Limit (Some ''QUALIFICATION_CALL_LIMIT_REACHED'')])
     | Some l' \<Rightarrow> sbind (qualify_case h q c) (\<lambda>e. qualify_cases h q cs l' (evs @ [e])))"

definition run_qualification where
  "run_qualification h l cs q = qualify_cases h q cs l []"

definition report_qualifies :: "qualification_report \<Rightarrow> bool" where
  "report_qualifies r \<longleftrightarrow> qr_evidence r \<noteq> [] \<and> list_all (\<lambda>e. qe_status e = Qualified) (qr_evidence r)"

fun qualification_text :: "qualification_status \<Rightarrow> string" where
  "qualification_text Qualified = ''PASSED''" | "qualification_text Not_Qualified = ''FAILED''"
| "qualification_text Blocked_Call_Limit = ''BLOCKED_CALL_LIMIT''"

definition evidence_item_json :: "qualification_evidence \<Rightarrow> json" where
  "evidence_item_json e = JObj
    [(''provider'', JStr (qe_provider e)), (''model'', JStr (qe_model e)), (''family'', JStr (qe_family e)),
     (''status'', JStr (qualification_text (qe_status e))), (''error_code'', json_option JStr (qe_error_code e)),
     (''output_digest'', JStr (qe_output_digest e)), (''provider_execution_id'', json_option JStr (qe_execution_id e)),
     (''latency_ms'', JInt (qe_latency e)), (''usage'', json_option (model_dump model_usage_fields) (qe_usage e)),
     (''list_price_cost'', json_option (model_dump cost_fields) (qe_cost e))]"

definition qualification_json :: "qualification_report \<Rightarrow> json" where
  "qualification_json r = JObj
    [(''passed'', JBool (report_qualifies r)),
     (''call_limit'', JObj [(''max_calls'', JInt (cl_max (qr_limit r))), (''calls_used'', JInt (cl_used (qr_limit r)))]),
     (''evidence'', json_list evidence_item_json (qr_evidence r))]"

subsection \<open>One qualified response\<close>

datatype role_answer = Qualified_Response model_response | Refused_Response string | Port_Raised_It

definition invoke_qualified ::
  "(model_request \<Rightarrow> 'x \<Rightarrow> port_outcome \<times> 'x) \<Rightarrow> model_request \<Rightarrow> string \<Rightarrow> 'x \<Rightarrow> role_answer \<times> 'x"
where
  "invoke_qualified ask q producer_family x =
    (case ask q x of
       (Port_Answer a, y) \<Rightarrow>
         (if mp_status a \<noteq> MODEL_COMPLETED then Refused_Response ''model response did not complete''
          else if strip (mp_model a) = [] then Refused_Response ''model identity is missing''
          else if strip (mp_family a) = [] \<or> mp_family a = producer_family
          then Refused_Response ''reviewer family is missing or not independent''
          else if strip (mp_output a) = [] then Refused_Response ''model output is empty''
          else Qualified_Response a, y)
     | (_, y) \<Rightarrow> (Port_Raised_It, y))"

subsection \<open>Bounds and redaction\<close>

text \<open>Evidence never holds an output, and its error codes are codes, whatever a provider raised.\<close>

definition redacted :: "qualification_evidence \<Rightarrow> bool" where
  "redacted e \<longleftrightarrow> qe_output e = [] \<and> pred_option diagnostic_code_ok (qe_error_code e)
    \<and> (qe_status e = Qualified \<longleftrightarrow> qe_error_code e = None) \<and> (qe_status e \<noteq> Qualified \<longrightarrow> qe_output_digest e = [])"

lemma redacted_failure:
  assumes "failed_evidence h c code started usage cost x = (Inr e, y)" "diagnostic_code_ok code"
  shows "redacted e \<and> qe_status e = Not_Qualified"
  using assms by (auto simp: failed_evidence_def elapsed_def blank_evidence_def redacted_def sbind_def scall_def split: prod.splits)

lemma fixed_codes [simp]:
  "diagnostic_code_ok ''INVALID_RESPONSE_STATUS''" "diagnostic_code_ok ''MODEL_ID_MISMATCH''"
  "diagnostic_code_ok ''MODEL_FAMILY_MISMATCH''" "diagnostic_code_ok ''EMPTY_OUTPUT''" "diagnostic_code_ok ''MODEL_UNAVAILABLE''"
  "diagnostic_code_ok ''PROVIDER_ERROR''" "diagnostic_code_ok ''UNEXPECTED_PROVIDER_ERROR''"
  "diagnostic_code_ok ''QUALIFICATION_CALL_LIMIT_REACHED''"
  by code_simp+

lemma redacted_success:
  "redacted (blank_evidence c Qualified None\<lparr>qe_output_digest := d, qe_execution_id := i, qe_latency := ms, qe_usage := u, qe_cost := k\<rparr>)"
  by (simp add: redacted_def blank_evidence_def)

lemma judged_evidence:
  assumes "judge_answer h c started a x = (Inr e, y)"
  shows "redacted e \<and> qe_status e \<noteq> Blocked_Call_Limit
    \<and> (qe_status e = Qualified \<longrightarrow> mp_status a = MODEL_COMPLETED \<and> mp_model a = qc_model c \<and> mp_family a = qc_family c
        \<and> strip (mp_output a) \<noteq> [] \<and> qe_output_digest e = ''sha256:'' @ sha256_hex (utf8 (mp_output a)))"
proof -
  obtain ms cost z where ms: "elapsed h started x = (Inr ms, fst (z :: 'a \<times> 'a))" "price_answer h c a (fst z) = (Inr cost, snd z)"
    using assms by (auto simp: judge_answer_def sbind_def split: prod.splits sum.splits)
  show ?thesis
    using assms by (auto simp: judge_answer_def sbind_def ms redacted_success dest!: redacted_failure split: if_splits)
      (simp_all add: blank_evidence_def)
qed

lemma qualified_case:
  assumes "qualify_case h q c x = (Inr e, y)"
  shows "redacted e \<and> qe_status e \<noteq> Blocked_Call_Limit"
proof -
  obtain started x1 where started: "qh_timer h x = (started, x1)" by (cases "qh_timer h x")
  obtain outcome x2 where outcome: "qc_port c q x1 = (outcome, x2)" by (cases "qc_port c q x1")
  show ?thesis
    using assms by (cases outcome)
      (auto simp: qualify_case_def sbind_def scall_def started outcome dest!: redacted_failure judged_evidence split: if_splits)
qed

text \<open>
  Every case has its evidence, in order, all of it redacted; as many cases are called as the limit leaves, the rest are
  blocked, and the limit is never passed.
\<close>

lemma qualification_bounded:
  "qualify_cases h q cs l evs x = (Inr r, y) \<Longrightarrow> cl_used l \<le> cl_max l \<Longrightarrow> list_all redacted evs \<Longrightarrow>
    length (qr_evidence r) = length evs + length cs \<and> list_all redacted (qr_evidence r) \<and> cl_max (qr_limit r) = cl_max l
    \<and> cl_used (qr_limit r) = min (cl_max l) (cl_used l + int (length cs))
    \<and> length (filter (\<lambda>e. qe_status e = Blocked_Call_Limit) (qr_evidence r))
        = length (filter (\<lambda>e. qe_status e = Blocked_Call_Limit) evs) + (length cs - nat (cl_max l - cl_used l))"
proof (induction h q cs l evs arbitrary: x rule: qualify_cases.induct)
  case (1 h q l evs)
  then show ?case by auto
next
  case (2 h q c cs l evs)
  show ?case
  proof (cases "reserve_call l")
    case None
    then have full: "cl_used l = cl_max l" using "2.prems"(2) by (auto simp: reserve_call_def split: if_splits)
    have "redacted (blank_evidence c Blocked_Call_Limit (Some ''QUALIFICATION_CALL_LIMIT_REACHED''))"
      by (simp add: redacted_def blank_evidence_def fixed_codes)
    then show ?thesis
      using "2.IH"(1) [OF None, of x] "2.prems" None full by (simp add: blank_evidence_def)
  next
    case (Some l')
    then have l': "l' = l\<lparr>cl_used := cl_used l + 1\<rparr>" "cl_used l < cl_max l" by (auto simp: reserve_call_def split: if_splits)
    obtain e x1 where e: "qualify_case h q c x = (Inr e, x1)" "qualify_cases h q cs l' (evs @ [e]) x1 = (Inr r, y)"
      using "2.prems"(1) Some by (auto simp: sbind_def split: prod.splits sum.splits)
    have "redacted e \<and> qe_status e \<noteq> Blocked_Call_Limit" using qualified_case [OF e(1)] .
    then show ?thesis
      using "2.IH"(2) [OF Some e(2)] "2.prems"(2,3) l' by (auto simp: nat_diff_distrib)
  qed
qed

end
