(* ===== verification/Baseline.thy ===== *)
theory Baseline
  imports Review_Model
begin

text \<open>
  \<^verbatim>\<open>domain/gate_evidence.py\<close> and \<^verbatim>\<open>policy/baseline.py\<close>: test-run evidence and the red/green rules.
  \<open>None\<close> is the \<^verbatim>\<open>ValidationError\<close> of a model that does not validate. The decision's constant
  fields (\<^verbatim>\<open>evidence_scope\<close>, \<^verbatim>\<open>authorizes_merge\<close>) are kept in its dumped fields.
\<close>

datatype case_outcome = CASE_PASS | ASSERTION_FAILURE | CASE_ERROR | SKIPPED
datatype story_kind = NEW_BEHAVIOR | BUG_FIX | REFACTOR | INFRASTRUCTURE
datatype evidence_status = EV_PASS | EV_FAIL | NOT_AVAILABLE | EV_NOT_APPLICABLE

fun outcome_name :: "case_outcome \<Rightarrow> string" where
  "outcome_name CASE_PASS = ''PASS''" | "outcome_name ASSERTION_FAILURE = ''ASSERTION_FAILURE''"
| "outcome_name CASE_ERROR = ''ERROR''" | "outcome_name SKIPPED = ''SKIPPED''"

fun story_kind_name :: "story_kind \<Rightarrow> string" where
  "story_kind_name NEW_BEHAVIOR = ''NEW_BEHAVIOR''" | "story_kind_name BUG_FIX = ''BUG_FIX''"
| "story_kind_name REFACTOR = ''REFACTOR''" | "story_kind_name INFRASTRUCTURE = ''INFRASTRUCTURE''"

fun evidence_status_name :: "evidence_status \<Rightarrow> string" where
  "evidence_status_name EV_PASS = ''PASS''" | "evidence_status_name EV_FAIL = ''FAIL''"
| "evidence_status_name NOT_AVAILABLE = ''NOT_AVAILABLE''"
| "evidence_status_name EV_NOT_APPLICABLE = ''NOT_APPLICABLE''"

record case_result = review_model +
  cr_case_id :: string
  cr_outcome :: case_outcome

record probe_binding = review_model +
  run_work_item_id :: string
  run_id :: string
  run_source_sha :: string
  run_suite_digest :: string
  run_runner_digest :: string
  run_environment_digest :: string

record suite_run = probe_binding +
  run_completed :: bool
  run_exit_code :: nat
  run_collection_errors :: nat
  run_cases :: "case_result list"

record baseline_contract = review_model +
  bc_work_item_id :: string
  bc_story_kind :: story_kind
  bc_baseline_sha :: string
  bc_baseline_suite :: string
  bc_frozen_suite :: string
  bc_runner :: string
  bc_environment :: string
  bc_baseline_cases :: "string list"
  bc_frozen_cases :: "string list"
  bc_expected_red :: "string list"

record test_evidence_decision = review_model +
  ted_status :: evidence_status
  ted_contract :: string
  ted_evidence :: "string list"
  ted_reasons :: "string list"

definition git_sha_ok :: "string \<Rightarrow> bool" where
  "git_sha_ok s \<longleftrightarrow> (length s = 40 \<or> length s = 64) \<and> list_all lower_hex s"

definition case_id_ok :: "string \<Rightarrow> bool" where
  "case_id_ok s \<longleftrightarrow> s \<noteq> [] \<and> length s \<le> 1000 \<and> nonblank s"

definition case_result_fields :: "case_result \<Rightarrow> (string \<times> json) list" where
  "case_result_fields x = [(''case_id'', JStr (cr_case_id x)), (''outcome'', JStr (outcome_name (cr_outcome x)))]"

definition probe_fields :: "'a probe_binding_scheme \<Rightarrow> (string \<times> json) list" where
  "probe_fields x =
    [(''work_item_id'', JStr (run_work_item_id x)), (''run_id'', JStr (run_id x)),
     (''source_sha'', JStr (run_source_sha x)), (''suite_digest'', JStr (run_suite_digest x)),
     (''runner_digest'', JStr (run_runner_digest x)),
     (''environment_digest'', JStr (run_environment_digest x))]"

definition suite_run_fields :: "suite_run \<Rightarrow> (string \<times> json) list" where
  "suite_run_fields x = probe_fields x @
    [(''completed'', JBool (run_completed x)), (''exit_code'', json_nat (run_exit_code x)),
     (''collection_errors'', json_nat (run_collection_errors x)),
     (''cases'', json_list (model_dump case_result_fields) (run_cases x))]"

definition baseline_contract_fields :: "baseline_contract \<Rightarrow> (string \<times> json) list" where
  "baseline_contract_fields x =
    [(''work_item_id'', JStr (bc_work_item_id x)), (''story_kind'', JStr (story_kind_name (bc_story_kind x))),
     (''baseline_sha'', JStr (bc_baseline_sha x)), (''baseline_suite_digest'', JStr (bc_baseline_suite x)),
     (''frozen_suite_digest'', JStr (bc_frozen_suite x)), (''runner_digest'', JStr (bc_runner x)),
     (''environment_digest'', JStr (bc_environment x)), (''baseline_cases'', json_strings (bc_baseline_cases x)),
     (''frozen_cases'', json_strings (bc_frozen_cases x)),
     (''expected_red_cases'', json_strings (bc_expected_red x))]"

definition evidence_decision_fields :: "test_evidence_decision \<Rightarrow> (string \<times> json) list" where
  "evidence_decision_fields x =
    [(''status'', JStr (evidence_status_name (ted_status x))), (''evidence_scope'', JStr ''DECLARED_EVIDENCE''),
     (''authorizes_merge'', JBool False), (''contract_digest'', JStr (ted_contract x)),
     (''evidence_digests'', json_strings (ted_evidence x)), (''reasons'', json_strings (ted_reasons x))]"

definition valid_case_result :: "case_result \<Rightarrow> bool" where
  "valid_case_result x \<longleftrightarrow> sealed case_result_fields x \<and> case_id_ok (cr_case_id x)"

definition valid_suite_run :: "suite_run \<Rightarrow> bool" where
  "valid_suite_run x \<longleftrightarrow> sealed suite_run_fields x \<and> identifier_ok (run_work_item_id x)
    \<and> identifier_ok (run_id x) \<and> git_sha_ok (run_source_sha x) \<and> digest_ok (run_suite_digest x)
    \<and> digest_ok (run_runner_digest x) \<and> digest_ok (run_environment_digest x)
    \<and> run_exit_code x \<le> 255 \<and> run_collection_errors x \<le> 10000 \<and> length (run_cases x) \<le> 10000
    \<and> list_all valid_case_result (run_cases x) \<and> distinct (map cr_case_id (run_cases x))"

definition scoped_expectations :: "baseline_contract \<Rightarrow> bool" where
  "scoped_expectations x \<longleftrightarrow>
    distinct (bc_baseline_cases x) \<and> distinct (bc_frozen_cases x) \<and> distinct (bc_expected_red x) \<and>
    (let before = set (bc_baseline_cases x); frozen = set (bc_frozen_cases x); red = set (bc_expected_red x) in
     if bc_story_kind x = INFRASTRUCTURE then red = {}
     else if before = {} \<or> frozen = {} \<or> \<not> before \<subseteq> frozen then False
     else if bc_story_kind x = REFACTOR then \<not> (red \<noteq> {} \<or> before \<noteq> frozen \<or> bc_baseline_suite x \<noteq> bc_frozen_suite x)
     else \<not> (red = {} \<or> \<not> red \<subseteq> frozen - before))"

definition valid_baseline_contract :: "baseline_contract \<Rightarrow> bool" where
  "valid_baseline_contract x \<longleftrightarrow> sealed baseline_contract_fields x \<and> identifier_ok (bc_work_item_id x)
    \<and> git_sha_ok (bc_baseline_sha x) \<and> digest_ok (bc_baseline_suite x) \<and> digest_ok (bc_frozen_suite x)
    \<and> digest_ok (bc_runner x) \<and> digest_ok (bc_environment x)
    \<and> length (bc_baseline_cases x) \<le> 10000 \<and> list_all case_id_ok (bc_baseline_cases x)
    \<and> length (bc_frozen_cases x) \<le> 10000 \<and> list_all case_id_ok (bc_frozen_cases x)
    \<and> length (bc_expected_red x) \<le> 10000 \<and> list_all case_id_ok (bc_expected_red x)
    \<and> scoped_expectations x"

definition identity_reasons :: "baseline_contract \<Rightarrow> suite_run \<Rightarrow> string \<Rightarrow> string \<Rightarrow> string list" where
  "identity_reasons contract r source suite =
    map snd (filter (\<lambda>(ok, _). \<not> ok)
      [(run_work_item_id r = bc_work_item_id contract, ''WORK_ITEM_MISMATCH''),
       (run_source_sha r = source, ''SOURCE_MISMATCH''),
       (run_suite_digest r = suite, ''SUITE_MISMATCH''),
       (run_runner_digest r = bc_runner contract, ''RUNNER_MISMATCH''),
       (run_environment_digest r = bc_environment contract, ''ENVIRONMENT_MISMATCH''),
       (run_completed r, ''INCOMPLETE_EXECUTION''),
       (run_collection_errors r = 0, ''COLLECTION_ERRORS'')])"

definition outcome_reasons :: "suite_run \<Rightarrow> string list \<Rightarrow> string list \<Rightarrow> string list" where
  "outcome_reasons r expected red =
    (let actual = dict_of cr_case_id (run_cases r) in
     (if set (map fst actual) \<noteq> set expected \<or> expected = [] then [''INVENTORY_MISMATCH''] else [])
     @ (if run_exit_code r \<noteq> (if red \<noteq> [] then 1 else 0) then [''UNEXPECTED_PROCESS_EXIT''] else [])
     @ concat (map (\<lambda>case_id.
         if map_option cr_outcome (dict_get actual case_id)
            \<noteq> Some (if case_id \<in> set red then ASSERTION_FAILURE else CASE_PASS)
         then [''UNEXPECTED_TEST_OUTCOME''] else []) expected))"

definition evidence_decision :: "evidence_status \<Rightarrow> baseline_contract \<Rightarrow> suite_run list \<Rightarrow> string list \<Rightarrow> test_evidence_decision"
where
  "evidence_decision status contract reports reasons = seal evidence_decision_fields
    \<lparr>content_digest = [], ted_status = status, ted_contract = content_digest contract,
     ted_evidence = map content_digest reports, ted_reasons = fromkeys reasons\<rparr>"

definition decision :: "baseline_contract \<Rightarrow> suite_run list \<Rightarrow> string list \<Rightarrow> test_evidence_decision" where
  "decision contract reports reasons =
    evidence_decision (if reasons \<noteq> [] then EV_FAIL else EV_PASS) contract reports reasons"

definition verify_baseline ::
  "baseline_contract \<Rightarrow> suite_run option \<Rightarrow> suite_run option \<Rightarrow> test_evidence_decision option" where
  "verify_baseline contract before frozen_on_baseline =
    (if \<not> valid_baseline_contract contract then None
     else if bc_story_kind contract = INFRASTRUCTURE then
       Some (evidence_decision EV_NOT_APPLICABLE contract [] [''INFRASTRUCTURE_ONLY''])
     else case (before, frozen_on_baseline) of
       (Some b, Some f) \<Rightarrow>
         if \<not> valid_suite_run b \<or> \<not> valid_suite_run f then None
         else Some (decision contract [b, f]
           (identity_reasons contract b (bc_baseline_sha contract) (bc_baseline_suite contract)
            @ identity_reasons contract f (bc_baseline_sha contract) (bc_frozen_suite contract)
            @ (if run_id b = run_id f then [''REPLAYED_RUN''] else [])
            @ outcome_reasons b (bc_baseline_cases contract) []
            @ outcome_reasons f (bc_frozen_cases contract) (bc_expected_red contract)))
     | _ \<Rightarrow> Some (evidence_decision NOT_AVAILABLE contract [] [''MISSING_BASELINE_EXECUTION'']))"

definition verify_candidate ::
  "baseline_contract \<Rightarrow> string \<Rightarrow> suite_run option \<Rightarrow> test_evidence_decision option" where
  "verify_candidate contract candidate_sha candidate =
    (if \<not> valid_baseline_contract contract \<or> \<not> git_sha_ok candidate_sha then None
     else case candidate of
       None \<Rightarrow> Some (evidence_decision NOT_AVAILABLE contract [] [''MISSING_CANDIDATE_EXECUTION''])
     | Some r \<Rightarrow>
         if \<not> valid_suite_run r then None
         else Some (decision contract [r]
           (identity_reasons contract r candidate_sha (bc_frozen_suite contract)
            @ outcome_reasons r (bc_frozen_cases contract) [])))"

subsection \<open>What a passing decision establishes\<close>

definition run_bound :: "baseline_contract \<Rightarrow> suite_run \<Rightarrow> string \<Rightarrow> string \<Rightarrow> bool" where
  "run_bound contract r source suite \<longleftrightarrow>
    run_work_item_id r = bc_work_item_id contract \<and> run_source_sha r = source \<and> run_suite_digest r = suite
    \<and> run_runner_digest r = bc_runner contract \<and> run_environment_digest r = bc_environment contract
    \<and> run_completed r \<and> run_collection_errors r = 0"

definition exact_outcomes :: "suite_run \<Rightarrow> string list \<Rightarrow> string list \<Rightarrow> bool" where
  "exact_outcomes r expected red \<longleftrightarrow>
    expected \<noteq> [] \<and> cr_case_id ` set (run_cases r) = set expected
    \<and> (\<forall>c \<in> set (run_cases r). cr_outcome c = (if cr_case_id c \<in> set red then ASSERTION_FAILURE else CASE_PASS))
    \<and> run_exit_code r = (if red = [] then 0 else 1)"

interpretation crs: content_addressed case_result_fields
  by unfold_locales (simp add: case_result_fields_def)

interpretation srn: content_addressed suite_run_fields
  by unfold_locales (simp add: suite_run_fields_def probe_fields_def)

interpretation bct: content_addressed baseline_contract_fields
  by unfold_locales (simp add: baseline_contract_fields_def)

interpretation tev: content_addressed evidence_decision_fields
  by unfold_locales (simp add: evidence_decision_fields_def)

lemma evidence_decision_simps [simp]:
  "ted_status (evidence_decision s c rs reasons) = s"
  "ted_contract (evidence_decision s c rs reasons) = content_digest c"
  "ted_evidence (evidence_decision s c rs reasons) = map content_digest rs"
  "ted_reasons (evidence_decision s c rs reasons) = fromkeys reasons"
  by (simp_all add: evidence_decision_def seal_def)

lemma identity_reasons_Nil: "identity_reasons contract r source suite = [] \<longleftrightarrow> run_bound contract r source suite"
  by (auto simp: identity_reasons_def run_bound_def)

lemma flag_each_Nil: "concat (map (\<lambda>x. if P x then [e] else []) xs) = [] \<longleftrightarrow> (\<forall>x \<in> set xs. \<not> P x)"
  by (induction xs) auto

lemma flag_Nil: "(if P then [e] else []) = [] \<longleftrightarrow> \<not> P"
  by simp

lemma outcome_reasons_Nil:
  assumes "distinct (map cr_case_id (run_cases r))"
  shows "outcome_reasons r expected red = [] \<longleftrightarrow> exact_outcomes r expected red"
proof -
  let ?actual = "dict_of cr_case_id (run_cases r)"
  have get: "dict_get ?actual (cr_case_id c) = Some c" if "c \<in> set (run_cases r)" for c
    using assms that by (rule dict_of_get)
  have eq: "(\<forall>k \<in> set expected. map_option cr_outcome (dict_get ?actual k)
        = Some (if k \<in> set red then ASSERTION_FAILURE else CASE_PASS)) \<longleftrightarrow>
      (\<forall>c \<in> set (run_cases r). cr_outcome c = (if cr_case_id c \<in> set red then ASSERTION_FAILURE else CASE_PASS))"
    if "cr_case_id ` set (run_cases r) = set expected"
    unfolding that [symmetric] by (auto simp: get)
  have "outcome_reasons r expected red = [] \<longleftrightarrow>
      cr_case_id ` set (run_cases r) = set expected \<and> expected \<noteq> [] \<and> run_exit_code r = (if red = [] then 0 else 1)
      \<and> (\<forall>k \<in> set expected. map_option cr_outcome (dict_get ?actual k)
           = Some (if k \<in> set red then ASSERTION_FAILURE else CASE_PASS))"
    unfolding outcome_reasons_def Let_def append_is_Nil_conv flag_each_Nil flag_Nil set_map keys_dict_of
    by (simp del: set_append)
  then show ?thesis using eq by (auto simp only: exact_outcomes_def)
qed

lemma verify_baseline_pass:
  assumes "verify_baseline contract before frozen = Some d"
  shows "ted_status d = EV_PASS \<longleftrightarrow>
    bc_story_kind contract \<noteq> INFRASTRUCTURE \<and>
    (\<exists>b f. before = Some b \<and> frozen = Some f \<and> valid_suite_run b \<and> valid_suite_run f
      \<and> run_bound contract b (bc_baseline_sha contract) (bc_baseline_suite contract)
      \<and> run_bound contract f (bc_baseline_sha contract) (bc_frozen_suite contract)
      \<and> run_id b \<noteq> run_id f
      \<and> exact_outcomes b (bc_baseline_cases contract) []
      \<and> exact_outcomes f (bc_frozen_cases contract) (bc_expected_red contract))"
  using assms
  by (auto simp: verify_baseline_def decision_def identity_reasons_Nil outcome_reasons_Nil valid_suite_run_def
      split: if_splits option.splits)

lemma verify_candidate_pass:
  assumes "verify_candidate contract sha candidate = Some d"
  shows "ted_status d = EV_PASS \<longleftrightarrow>
    (\<exists>r. candidate = Some r \<and> valid_suite_run r \<and> run_bound contract r sha (bc_frozen_suite contract)
      \<and> exact_outcomes r (bc_frozen_cases contract) [])"
  using assms
  by (auto simp: verify_candidate_def decision_def identity_reasons_Nil outcome_reasons_Nil valid_suite_run_def
      split: if_splits option.splits)

lemma exact_outcomes_found:
  assumes "exact_outcomes s expected red" and "k \<in> set expected"
  shows "\<exists>c \<in> set (run_cases s). cr_case_id c = k \<and> cr_outcome c = (if k \<in> set red then ASSERTION_FAILURE else CASE_PASS)"
proof -
  have "k \<in> cr_case_id ` set (run_cases s)" using assms by (simp add: exact_outcomes_def)
  then obtain c where c: "c \<in> set (run_cases s)" "cr_case_id c = k" by blast
  with assms(1) have "cr_outcome c = (if k \<in> set red then ASSERTION_FAILURE else CASE_PASS)"
    by (simp add: exact_outcomes_def)
  with c show ?thesis by blast
qed

subsection \<open>Properties\<close>

text \<open>
  C24. Red, then green: when the baseline decision and the candidate decision of one contract both
  pass, every case of the old inventory passed on the baseline before and after freezing and passes on
  the candidate; for new behaviour and bug fixes at least one frozen case failed its assertion on the
  baseline and the same case passes on the candidate; and both frozen runs executed the same frozen
  suite with the same runner and environment.
\<close>

theorem red_then_green:
  assumes "verify_baseline contract (Some b) (Some f) = Some d1" and "ted_status d1 = EV_PASS"
    and "verify_candidate contract sha (Some r) = Some d2" and "ted_status d2 = EV_PASS"
  shows "(\<forall>k \<in> set (bc_baseline_cases contract).
      (\<exists>c \<in> set (run_cases b). cr_case_id c = k \<and> cr_outcome c = CASE_PASS)
      \<and> (\<exists>c \<in> set (run_cases f). cr_case_id c = k \<and> cr_outcome c = CASE_PASS)
      \<and> (\<exists>c \<in> set (run_cases r). cr_case_id c = k \<and> cr_outcome c = CASE_PASS))
    \<and> (bc_story_kind contract \<in> {NEW_BEHAVIOR, BUG_FIX} \<longrightarrow>
      (\<exists>k. (\<exists>c \<in> set (run_cases f). cr_case_id c = k \<and> cr_outcome c = ASSERTION_FAILURE)
         \<and> (\<exists>c \<in> set (run_cases r). cr_case_id c = k \<and> cr_outcome c = CASE_PASS)))
    \<and> run_suite_digest f = run_suite_digest r \<and> run_runner_digest f = run_runner_digest r
    \<and> run_environment_digest f = run_environment_digest r \<and> run_source_sha r = sha"
proof -
  have kind: "bc_story_kind contract \<noteq> INFRASTRUCTURE" and v: "valid_baseline_contract contract"
    and fb: "run_bound contract f (bc_baseline_sha contract) (bc_frozen_suite contract)"
    and eb: "exact_outcomes b (bc_baseline_cases contract) []"
    and ef: "exact_outcomes f (bc_frozen_cases contract) (bc_expected_red contract)"
    and rb: "run_bound contract r sha (bc_frozen_suite contract)"
    and er: "exact_outcomes r (bc_frozen_cases contract) []"
    using verify_baseline_pass [OF assms(1)] verify_candidate_pass [OF assms(3)] assms
    by (auto simp: verify_baseline_def split: if_splits)
  have scoped: "set (bc_baseline_cases contract) \<subseteq> set (bc_frozen_cases contract)"
    "set (bc_expected_red contract) \<subseteq> set (bc_frozen_cases contract) - set (bc_baseline_cases contract)"
    "bc_story_kind contract \<in> {NEW_BEHAVIOR, BUG_FIX} \<Longrightarrow> bc_expected_red contract \<noteq> []"
    using v kind by (auto simp: valid_baseline_contract_def scoped_expectations_def Let_def split: if_splits)
  note found = exact_outcomes_found
  have "\<exists>k. (\<exists>c \<in> set (run_cases f). cr_case_id c = k \<and> cr_outcome c = ASSERTION_FAILURE)
      \<and> (\<exists>c \<in> set (run_cases r). cr_case_id c = k \<and> cr_outcome c = CASE_PASS)"
    if kind: "bc_story_kind contract \<in> {NEW_BEHAVIOR, BUG_FIX}"
  proof -
    let ?k = "hd (bc_expected_red contract)"
    have k: "?k \<in> set (bc_expected_red contract)" using scoped(3) [OF kind] by simp
    then have "?k \<in> set (bc_frozen_cases contract)" using scoped(2) by blast
    from found [OF ef this] found [OF er this] k show ?thesis by (intro exI [of _ ?k]) simp
  qed
  moreover have "\<exists>c \<in> set (run_cases b). cr_case_id c = k \<and> cr_outcome c = CASE_PASS"
    "\<exists>c \<in> set (run_cases f). cr_case_id c = k \<and> cr_outcome c = CASE_PASS"
    "\<exists>c \<in> set (run_cases r). cr_case_id c = k \<and> cr_outcome c = CASE_PASS"
    if k: "k \<in> set (bc_baseline_cases contract)" for k
  proof -
    have k': "k \<in> set (bc_frozen_cases contract)" "k \<notin> set (bc_expected_red contract)" using k scoped(1,2) by auto
    from found [OF eb k] found [OF ef k'(1)] found [OF er k'(1)] k'(2) show
      "\<exists>c \<in> set (run_cases b). cr_case_id c = k \<and> cr_outcome c = CASE_PASS"
      "\<exists>c \<in> set (run_cases f). cr_case_id c = k \<and> cr_outcome c = CASE_PASS"
      "\<exists>c \<in> set (run_cases r). cr_case_id c = k \<and> cr_outcome c = CASE_PASS" by simp_all
  qed
  ultimately show ?thesis using fb rb by (auto simp: run_bound_def)
qed

definition ex_sha :: "char \<Rightarrow> string" where
  "ex_sha c = replicate 40 c"

definition ex_result :: "string \<Rightarrow> case_outcome \<Rightarrow> case_result" where
  "ex_result k out = seal case_result_fields \<lparr>content_digest = [], cr_case_id = k, cr_outcome = out\<rparr>"

definition ex_run :: "string \<Rightarrow> string \<Rightarrow> string \<Rightarrow> nat \<Rightarrow> case_result list \<Rightarrow> suite_run" where
  "ex_run i sha suite code cases = seal suite_run_fields \<lparr>content_digest = [], run_work_item_id = ''w'',
     run_id = i, run_source_sha = sha, run_suite_digest = suite, run_runner_digest = digest_of JNull,
     run_environment_digest = digest_of JNull, run_completed = True, run_exit_code = code,
     run_collection_errors = 0, run_cases = cases\<rparr>"

definition ex_baseline_contract :: baseline_contract where
  "ex_baseline_contract = seal baseline_contract_fields \<lparr>content_digest = [], bc_work_item_id = ''w'',
     bc_story_kind = BUG_FIX, bc_baseline_sha = ex_sha CHR ''0'', bc_baseline_suite = digest_of JNull,
     bc_frozen_suite = digest_of (JBool True), bc_runner = digest_of JNull, bc_environment = digest_of JNull,
     bc_baseline_cases = [''old''], bc_frozen_cases = [''old'', ''new''], bc_expected_red = [''new'']\<rparr>"

definition ex_before :: suite_run where
  "ex_before = ex_run ''1'' (ex_sha CHR ''0'') (digest_of JNull) 0 [ex_result ''old'' CASE_PASS]"

definition ex_frozen :: suite_run where
  "ex_frozen = ex_run ''2'' (ex_sha CHR ''0'') (digest_of (JBool True)) 1
    [ex_result ''old'' CASE_PASS, ex_result ''new'' ASSERTION_FAILURE]"

definition ex_candidate :: suite_run where
  "ex_candidate = ex_run ''3'' (ex_sha CHR ''1'') (digest_of (JBool True)) 0
    [ex_result ''old'' CASE_PASS, ex_result ''new'' CASE_PASS]"

lemma ex_result_simps [simp]:
  "cr_case_id (ex_result k out) = k" "cr_outcome (ex_result k out) = out"
  "sealed case_result_fields (ex_result k out)"
  by (simp_all add: ex_result_def) (simp_all add: seal_def)

lemma ex_run_fields [simp]:
  "run_work_item_id (ex_run i sha suite code cases) = ''w''" "run_id (ex_run i sha suite code cases) = i"
  "run_source_sha (ex_run i sha suite code cases) = sha" "run_suite_digest (ex_run i sha suite code cases) = suite"
  "run_runner_digest (ex_run i sha suite code cases) = digest_of JNull"
  "run_environment_digest (ex_run i sha suite code cases) = digest_of JNull"
  "run_completed (ex_run i sha suite code cases)" "run_exit_code (ex_run i sha suite code cases) = code"
  "run_collection_errors (ex_run i sha suite code cases) = 0" "run_cases (ex_run i sha suite code cases) = cases"
  "sealed suite_run_fields (ex_run i sha suite code cases)"
  by (simp_all add: ex_run_def) (simp_all add: seal_def)

lemma ex_contract_fields [simp]:
  "bc_work_item_id ex_baseline_contract = ''w''" "bc_story_kind ex_baseline_contract = BUG_FIX"
  "bc_baseline_sha ex_baseline_contract = ex_sha CHR ''0''" "bc_baseline_suite ex_baseline_contract = digest_of JNull"
  "bc_frozen_suite ex_baseline_contract = digest_of (JBool True)" "bc_runner ex_baseline_contract = digest_of JNull"
  "bc_environment ex_baseline_contract = digest_of JNull" "bc_baseline_cases ex_baseline_contract = [''old'']"
  "bc_frozen_cases ex_baseline_contract = [''old'', ''new'']" "bc_expected_red ex_baseline_contract = [''new'']"
  "sealed baseline_contract_fields ex_baseline_contract"
  by (simp_all add: ex_baseline_contract_def) (simp_all add: seal_def)

lemma ex_strings [simp]:
  "git_sha_ok (ex_sha CHR ''0'')" "git_sha_ok (ex_sha CHR ''1'')" "identifier_ok ''w''" "identifier_ok ''1''"
  "identifier_ok ''2''" "identifier_ok ''3''" "case_id_ok ''old''" "case_id_ok ''new''"
  by code_simp+

lemma ex_baseline_valid [simp]:
  "valid_baseline_contract ex_baseline_contract" "valid_suite_run ex_before" "valid_suite_run ex_frozen"
  "valid_suite_run ex_candidate"
  by (simp_all add: valid_baseline_contract_def scoped_expectations_def valid_suite_run_def valid_case_result_def
      ex_before_def ex_frozen_def ex_candidate_def)

lemma ex_baseline_outcomes:
  "run_bound ex_baseline_contract ex_before (ex_sha CHR ''0'') (digest_of JNull)"
  "run_bound ex_baseline_contract ex_frozen (ex_sha CHR ''0'') (digest_of (JBool True))"
  "run_bound ex_baseline_contract ex_candidate (ex_sha CHR ''1'') (digest_of (JBool True))"
  "exact_outcomes ex_before [''old''] []" "exact_outcomes ex_frozen [''old'', ''new''] [''new'']"
  "exact_outcomes ex_candidate [''old'', ''new''] []" "run_id ex_before \<noteq> run_id ex_frozen"
  by (simp_all add: run_bound_def exact_outcomes_def ex_before_def ex_frozen_def ex_candidate_def)

theorem red_then_green_witness:
  "\<exists>k. (\<exists>c \<in> set (run_cases ex_frozen). cr_case_id c = k \<and> cr_outcome c = ASSERTION_FAILURE)
     \<and> (\<exists>c \<in> set (run_cases ex_candidate). cr_case_id c = k \<and> cr_outcome c = CASE_PASS)"
proof -
  obtain d1 where d1: "verify_baseline ex_baseline_contract (Some ex_before) (Some ex_frozen) = Some d1"
    by (simp add: verify_baseline_def)
  obtain d2 where d2: "verify_candidate ex_baseline_contract (ex_sha CHR ''1'') (Some ex_candidate) = Some d2"
    by (simp add: verify_candidate_def)
  have "ted_status d1 = EV_PASS" using verify_baseline_pass [OF d1] ex_baseline_outcomes by simp
  moreover have "ted_status d2 = EV_PASS" using verify_candidate_pass [OF d2] ex_baseline_outcomes by simp
  ultimately show ?thesis using red_then_green [OF d1 _ d2] by simp
qed

end
