(* ===== verification/Github_App.thy ===== *)
theory Github_App
  imports Github_Transport Py_Time Py_Text
begin

text \<open>
  \<^verbatim>\<open>adapters/github_app_broker.py\<close>: the broker that turns the private key of the GitHub App into a short-lived installation
  token for one allowlisted repository, and the transport that caches such a token.

  The AWS client, the openers, the clock and the JSON reader are parameters, as are the loading of a PEM key with the
  signing it allows, \<^verbatim>\<open>int(timestamp())\<close>, whose floating point is left open, and \<^verbatim>\<open>datetime.fromisoformat\<close>. An opener's
  \<^const>\<open>Http_Status\<close> is an \<^verbatim>\<open>HTTPError\<close>, so also any redirect, for none is followed.
\<close>

text \<open>The four kinds of exception: \<^verbatim>\<open>PermissionError\<close>, \<^verbatim>\<open>ValueError\<close>, \<^verbatim>\<open>RuntimeError\<close> and any other.\<close>

datatype app_error = App_Denied | App_Invalid | App_Exchange_Failed | App_Crash

record installation_token =
  tok_token :: string
  tok_expires_at :: datetime
  tok_repositories :: "string list"

record github_app_config =
  ga_organization :: string
  ga_app_id :: string
  ga_installation_id :: string
  ga_private_key_ref :: string
  ga_repositories :: "string list"

definition positive_numeral :: "string \<Rightarrow> bool" where
  "positive_numeral s \<longleftrightarrow> s \<noteq> [] \<and> hd s \<noteq> CHR ''0'' \<and> list_all ascii_digit s"

definition github_app_config_ok :: "github_app_config \<Rightarrow> bool" where
  "github_app_config_ok c \<longleftrightarrow> ga_organization c \<noteq> [] \<and> positive_numeral (ga_app_id c) \<and> positive_numeral (ga_installation_id c)
    \<and> ga_private_key_ref c \<noteq> [] \<and> ga_repositories c \<noteq> [] \<and> distinct (ga_repositories c)"

subsection \<open>The App's own token\<close>

datatype app_key = Rsa_Key "string \<Rightarrow> string" | Other_Key | No_Key

definition b64 :: "string \<Rightarrow> string" where
  "b64 s = encode_with url_alphabet s"

definition app_jwt_header :: string where
  "app_jwt_header = b64 (jprint True (JObj [(''alg'', JStr ''RS256''), (''typ'', JStr ''JWT'')]))"

definition app_jwt_payload :: "string \<Rightarrow> int \<Rightarrow> string" where
  "app_jwt_payload app_id issued =
    b64 (jprint True (JObj [(''iat'', JInt issued), (''exp'', JInt (issued + 540)), (''iss'', JStr app_id)]))"

definition app_jwt :: "(string \<Rightarrow> app_key) \<Rightarrow> (moment \<Rightarrow> int) \<Rightarrow> string \<Rightarrow> string \<Rightarrow> moment option \<Rightarrow> app_error + string" where
  "app_jwt load timestamp app_id pem now =
    (case load pem of
       No_Key \<Rightarrow> Inl App_Invalid
     | Other_Key \<Rightarrow> Inl App_Invalid
     | Rsa_Key sign \<Rightarrow> (case now of
         None \<Rightarrow> Inl App_Crash
       | Some t \<Rightarrow>
           let signed = app_jwt_header @ ''.'' @ app_jwt_payload app_id (timestamp t - 60) in
           Inr (signed @ ''.'' @ b64 (sign signed))))"

subsection \<open>The exchange\<close>

record 'x app_transport =
  ax_api_url :: string
  ax_open :: "string \<Rightarrow> (string \<times> string) list \<Rightarrow> string \<Rightarrow> 'x \<Rightarrow> http_outcome \<times> 'x"
  ax_loads :: "string \<Rightarrow> json_reading"
  ax_fromisoformat :: "string \<Rightarrow> datetime option"

definition make_app_transport ::
  "(string \<Rightarrow> (string \<times> string) list \<Rightarrow> string \<Rightarrow> 'x \<Rightarrow> http_outcome \<times> 'x) \<Rightarrow> (string \<Rightarrow> json_reading) \<Rightarrow>
    (string \<Rightarrow> datetime option) \<Rightarrow> string \<Rightarrow> bool \<Rightarrow> app_error + 'x app_transport"
where
  "make_app_transport opener loads fromisoformat api_url positive_timeout =
    (if \<not> starts_with ''https://'' api_url \<or> \<not> positive_timeout then Inl App_Invalid
     else Inr \<lparr>ax_api_url = strip_right (CHR ''/'') api_url, ax_open = opener, ax_loads = loads, ax_fromisoformat = fromisoformat\<rparr>)"

text \<open>\<^verbatim>\<open>json.dumps\<close> of a list of names, with the separators it uses by default.\<close>

fun quoted_names :: "string list \<Rightarrow> string" where
  "quoted_names [] = []"
| "quoted_names [r] = json_quote True r"
| "quoted_names (r # s # rs) = json_quote True r @ '', '' @ quoted_names (s # rs)"

definition exchange_body :: "string list \<Rightarrow> string" where
  "exchange_body names = CHR ''{'' # json_quote True ''repositories'' @ '': ['' @ quoted_names names @ '']}''"

definition exchange_headers :: "string \<Rightarrow> (string \<times> string) list" where
  "exchange_headers jwt =
    [(''Accept'', ''application/vnd.github+json''), (''Authorization'', ''Bearer '' @ jwt),
     (''Content-Type'', ''application/json''), (''User-Agent'', ''nokinc-factory''), (''X-GitHub-Api-Version'', ''2022-11-28'')]"

definition exchange_url :: "'x app_transport \<Rightarrow> string \<Rightarrow> string" where
  "exchange_url t installation_id = ax_api_url t @ ''/app/installations/'' @ installation_id @ ''/access_tokens''"

text \<open>\<^verbatim>\<open>expires.replace("Z", "+00:00")\<close>\<close>

definition zulu_offset :: "string \<Rightarrow> string" where
  "zulu_offset s = concat (map (\<lambda>c. if c = CHR ''Z'' then ''+00:00'' else [c]) s)"

definition read_token :: "'x app_transport \<Rightarrow> string list \<Rightarrow> string \<Rightarrow> app_error + installation_token" where
  "read_token t names raw =
    (case ax_loads t raw of
       Bad_Json \<Rightarrow> Inl App_Exchange_Failed
     | Json_Crash \<Rightarrow> Inl App_Crash
     | Reads v \<Rightarrow> (case (json_str (json_get v ''token''), json_str (json_get v ''expires_at'')) of
         (Some token, Some expires) \<Rightarrow> (case ax_fromisoformat t (zulu_offset expires) of
             None \<Rightarrow> Inl App_Exchange_Failed
           | Some d \<Rightarrow>
               if names = [] then Inl App_Invalid
               else Inr \<lparr>tok_token = token, tok_expires_at = d, tok_repositories = names\<rparr>)
       | _ \<Rightarrow> Inl App_Exchange_Failed))"

definition create_installation_token ::
  "'x app_transport \<Rightarrow> string \<Rightarrow> string \<Rightarrow> string list \<Rightarrow> ('x, app_error, installation_token) eff"
where
  "create_installation_token t installation_id jwt names x =
    (case ax_open t (exchange_url t installation_id) (exchange_headers jwt) (exchange_body names) x of
       (Http_Answer raw, y) \<Rightarrow> (read_token t names raw, y)
     | (Http_Status code location, y) \<Rightarrow> (Inl App_Exchange_Failed, y)
     | (Url_Failure, y) \<Rightarrow> (Inl App_Exchange_Failed, y)
     | (Other_Failure, y) \<Rightarrow> (Inl App_Crash, y))"

subsection \<open>Secrets\<close>

text \<open>\<^verbatim>\<open>str.isdigit\<close>\<close>

definition py_digit :: "char \<Rightarrow> bool" where
  "py_digit c \<longleftrightarrow> ascii_digit c \<or> (of_char c :: nat) \<in> {178, 179, 185}"

definition split_once :: "char \<Rightarrow> string \<Rightarrow> string list" where
  "split_once c s = (if c \<in> set s then [text_before (\<lambda>d. d = c) s, text_after (\<lambda>d. d = c) s] else [s])"

definition strip_left :: "char \<Rightarrow> string \<Rightarrow> string" where
  "strip_left c s = dropWhile (\<lambda>d. d = c) s"

text \<open>The region and the name of the secret, when the reference is well formed.\<close>

definition aws_secret_address :: "(string \<Rightarrow> bool) \<Rightarrow> string \<Rightarrow> (string \<times> string) option" where
  "aws_secret_address bracketed_host ref =
    (case url_split bracketed_host ref of
       None \<Rightarrow> None
     | Some u \<Rightarrow>
         if su_scheme u \<noteq> ''aws-secretsmanager'' \<or> su_netloc u = [] then None
         else (case split_once (CHR ''/'') (strip_left (CHR ''/'') (su_path u)) of
           [account, name] \<Rightarrow> if account \<noteq> [] \<and> list_all py_digit account \<and> name \<noteq> [] then Some (su_netloc u, name) else None
         | _ \<Rightarrow> None))"

text \<open>The client's answer: nothing when it raises, otherwise its \<^verbatim>\<open>SecretString\<close>, if that is a string.\<close>

definition aws_secret ::
  "(string \<Rightarrow> bool) \<Rightarrow> (string \<Rightarrow> string \<Rightarrow> 'x \<Rightarrow> string option option \<times> 'x) \<Rightarrow> string \<Rightarrow> ('x, app_error, string) eff"
where
  "aws_secret bracketed_host client ref x =
    (case aws_secret_address bracketed_host ref of
       None \<Rightarrow> (Inl App_Invalid, x)
     | Some (region, name) \<Rightarrow> (case client region name x of
         (None, y) \<Rightarrow> (Inl App_Exchange_Failed, y)
       | (Some None, y) \<Rightarrow> (Inl App_Invalid, y)
       | (Some (Some value), y) \<Rightarrow> (if value = [] then Inl App_Invalid else Inr value, y)))"

subsection \<open>The broker\<close>

record 'x app_broker =
  gb_config :: github_app_config
  gb_secret :: "string \<Rightarrow> ('x, app_error, string) eff"
  gb_transport :: "'x app_transport"
  gb_clock :: "'x \<Rightarrow> moment option \<times> 'x"
  gb_load_key :: "string \<Rightarrow> app_key"
  gb_timestamp :: "moment \<Rightarrow> int"

text \<open>The part of a repository's name after its last slash.\<close>

definition short_name :: "string \<Rightarrow> string" where
  "short_name repository = after_last (CHR ''/'') repository"

definition token_for :: "'x app_broker \<Rightarrow> string \<Rightarrow> ('x, app_error, installation_token) eff" where
  "token_for b repository =
    (if repository \<notin> set (ga_repositories (gb_config b)) then sraise App_Denied
     else sbind (gb_secret b (ga_private_key_ref (gb_config b))) (\<lambda>pem.
       sbind (scall (gb_clock b)) (\<lambda>now.
       sbind (spure (app_jwt (gb_load_key b) (gb_timestamp b) (ga_app_id (gb_config b)) pem now)) (\<lambda>jwt.
       create_installation_token (gb_transport b) (ga_installation_id (gb_config b)) jwt [short_name repository]))))"

subsection \<open>The brokered transport\<close>

text \<open>
  The cached token is part of the state. An instant and a number of seconds later; beyond the last representable instant
  the addition raises. Comparing the aware clock with a naive expiry raises too.
\<close>

definition seconds_later :: "nat \<Rightarrow> moment \<Rightarrow> moment option" where
  "seconds_later n t = (if t + int n * 1000000 < dt_limit then Some (t + int n * 1000000) else None)"

definition token_fresh :: "installation_token \<Rightarrow> moment \<Rightarrow> app_error + bool" where
  "token_fresh k now =
    (case seconds_later 60 now of
       None \<Rightarrow> Inl App_Crash
     | Some horizon \<Rightarrow> (case dt_offset (tok_expires_at k) of
         None \<Rightarrow> Inl App_Crash
       | Some off \<Rightarrow> Inr (horizon < local_micros (tok_expires_at k) - off)))"

definition brokered_token ::
  "('x \<Rightarrow> moment option \<times> 'x) \<Rightarrow> ('x, app_error, installation_token) eff \<Rightarrow> ('x \<times> installation_token option, app_error, string) eff"
where
  "brokered_token clock renewal z =
    (case clock (fst z) of
       (None, y) \<Rightarrow> (Inl App_Crash, (y, snd z))
     | (Some now, y) \<Rightarrow>
         let renew = (case renewal y of (Inl e, w) \<Rightarrow> (Inl e, (w, snd z)) | (Inr k, w) \<Rightarrow> (Inr (tok_token k), (w, Some k))) in
         (case snd z of
            None \<Rightarrow> renew
          | Some k \<Rightarrow> (case token_fresh k now of
              Inl e \<Rightarrow> (Inl e, (y, snd z))
            | Inr True \<Rightarrow> (Inr (tok_token k), (y, snd z))
            | Inr False \<Rightarrow> renew)))"

text \<open>\<open>transport_of\<close> is \<^verbatim>\<open>UrllibGitHubTransport(token, ...)\<close>.\<close>

definition brokered_request ::
  "('x \<Rightarrow> moment option \<times> 'x) \<Rightarrow> ('x, app_error, installation_token) eff \<Rightarrow> (string \<Rightarrow> github_error + 'x github_transport) \<Rightarrow>
    http_method \<Rightarrow> string \<Rightarrow> (json \<Rightarrow> 'a option) \<Rightarrow> json option \<Rightarrow> ('x \<times> installation_token option, app_error + github_error, 'a) eff"
where
  "brokered_request clock renewal transport_of meth path validate body z =
    (case brokered_token clock renewal z of
       (Inl e, w) \<Rightarrow> (Inl (Inl e), w)
     | (Inr token, w) \<Rightarrow> (case transport_of token of
         Inl e \<Rightarrow> (Inl (Inr e), w)
       | Inr t \<Rightarrow> (case github_request t meth path validate body (fst w) of
           (Inl e, y) \<Rightarrow> (Inl (Inr e), (y, snd w))
         | (Inr a, y) \<Rightarrow> (Inr a, (y, snd w)))))"

subsection \<open>Facts\<close>

text \<open>The token a request goes out with is the cached one afterwards, and it was fetched just now or has more than a minute left.\<close>

lemma brokered_token_live:
  assumes "brokered_token clock renewal (x, cache) = (Inr s, (y, cache'))"
  shows "\<exists>k. cache' = Some k \<and> tok_token k = s
    \<and> (renewal (snd (clock x)) = (Inr k, y) \<or> cache = Some k \<and> (\<exists>now. fst (clock x) = Some now \<and> token_fresh k now = Inr True))"
  using assms by (auto simp: brokered_token_def Let_def split: prod.splits option.splits sum.splits bool.splits)

end
