(* ===== verification/Story.thy ===== *)
theory Story
  imports Py_Text Review_Base
begin

text \<open>
  The payloads of the first two human gates (\<^verbatim>\<open>domain/story.py\<close>) and the elicitation that leads to the first
  (\<^verbatim>\<open>agents/domain_expert.py\<close>). A model's validators are its \<open>_ok\<close> predicate; validation changes no text.
\<close>

definition content_required :: "string \<Rightarrow> bool" where
  "content_required s \<longleftrightarrow> strip s \<noteq> []"

datatype risk_tier = T0 | T1 | T2

datatype data_classification = Data_None | Data_Pii | Data_Payment | Data_Health | Data_Credential

subsection \<open>Gate 1\<close>

record scenario =
  scn_name :: string
  scn_gherkin :: string
  scn_failure :: bool

definition scenario_ok :: "scenario \<Rightarrow> bool" where
  "scenario_ok s \<longleftrightarrow> content_required (scn_name s) \<and> content_required (scn_gherkin s)"

record test_data_need =
  tdn_description :: string
  tdn_source :: string
  tdn_volume :: string
  tdn_sensitivity :: data_classification

definition test_data_ok :: "test_data_need \<Rightarrow> bool" where
  "test_data_ok n \<longleftrightarrow> content_required (tdn_description n) \<and> content_required (tdn_source n) \<and> content_required (tdn_volume n)"

record nonfunctional_target =
  nft_metric :: string
  nft_target :: string
  nft_unchanged :: bool

definition target_ok :: "nonfunctional_target \<Rightarrow> bool" where
  "target_ok t \<longleftrightarrow> content_required (nft_metric t) \<and> content_required (nft_target t)"

record business_ready =
  br_work_item :: string
  br_problem :: string
  br_scope_in :: "string list"
  br_scope_out :: "string list"
  br_scenarios :: "scenario list"
  br_rules :: "string list"
  br_test_data :: "test_data_need list"
  br_nfr :: "nonfunctional_target list"
  br_classification :: data_classification
  br_constraints :: "string list"
  br_tier :: risk_tier
  br_size :: string
  br_confidence :: string
  br_questions :: "string list"

definition business_ready_ok :: "business_ready \<Rightarrow> bool" where
  "business_ready_ok b \<longleftrightarrow>
    list_all content_required [br_work_item b, br_problem b, br_size b, br_confidence b]
    \<and> list_all (list_all content_required) [br_scope_in b, br_scope_out b, br_rules b, br_constraints b]
    \<and> br_questions b = [] \<and> list_ex scn_failure (br_scenarios b) \<and> br_scope_in b \<noteq> [] \<and> br_scope_out b \<noteq> []
    \<and> list_all scenario_ok (br_scenarios b) \<and> list_all test_data_ok (br_test_data b) \<and> list_all target_ok (br_nfr b)"

subsection \<open>Gate 2\<close>

record observability =
  ob_spans :: "string list"
  ob_metrics :: "string list"

record intent_delta =
  id_destinations :: "string list"
  id_data_stores :: "string list"
  id_capabilities :: "string list"
  id_checked :: bool

record containment_delta =
  cd_min_healthy :: "int option"
  cd_isolate_replica :: bool
  cd_isolate_leader :: bool
  cd_singleton :: bool
  cd_stateful :: bool
  cd_lease_blocks :: bool

definition default_containment :: containment_delta where
  "default_containment = \<lparr>cd_min_healthy = None, cd_isolate_replica = True, cd_isolate_leader = False,
     cd_singleton = False, cd_stateful = False, cd_lease_blocks = True\<rparr>"

datatype rollback_strategy = Fix_Forward | Feature_Flag | Revert_Change | Backward_Migration

record solution_ready =
  so_work_item :: string
  so_repositories :: "string list"
  so_boundary :: string
  so_api :: "string option"
  so_database :: "string option"
  so_iac :: "string option"
  so_migration :: "string option"
  so_security :: string
  so_observability :: observability
  so_intent :: intent_delta
  so_containment :: containment_delta
  so_rollback :: rollback_strategy
  so_justification :: string
  so_flag :: "string option"
  so_rollout_data :: "string option"
  so_deployment :: string
  so_tier :: risk_tier
  so_changeset :: string
  so_adr :: "string option"

subsection \<open>Documents\<close>

text \<open>
  The documents of \<^verbatim>\<open>model_dump\<close> and their text under \<^verbatim>\<open>model_dump_json(indent=2)\<close>.
\<close>

definition tier_name :: "risk_tier \<Rightarrow> string" where
  "tier_name t = (case t of T0 \<Rightarrow> ''T0'' | T1 \<Rightarrow> ''T1'' | T2 \<Rightarrow> ''T2'')"

definition classification_name :: "data_classification \<Rightarrow> string" where
  "classification_name c = (case c of Data_None \<Rightarrow> ''NONE'' | Data_Pii \<Rightarrow> ''PII'' | Data_Payment \<Rightarrow> ''PAYMENT''
     | Data_Health \<Rightarrow> ''HEALTH'' | Data_Credential \<Rightarrow> ''CREDENTIAL'')"

definition rollback_name :: "rollback_strategy \<Rightarrow> string" where
  "rollback_name r = (case r of Fix_Forward \<Rightarrow> ''fix_forward'' | Feature_Flag \<Rightarrow> ''feature_flag''
     | Revert_Change \<Rightarrow> ''revert'' | Backward_Migration \<Rightarrow> ''backward_migration'')"

definition scenario_json :: "scenario \<Rightarrow> json" where
  "scenario_json s = JObj
    [(''name'', JStr (scn_name s)), (''gherkin'', JStr (scn_gherkin s)), (''is_failure_case'', JBool (scn_failure s))]"

definition test_data_json :: "test_data_need \<Rightarrow> json" where
  "test_data_json n = JObj
    [(''description'', JStr (tdn_description n)), (''source'', JStr (tdn_source n)), (''volume'', JStr (tdn_volume n)),
     (''sensitivity'', JStr (classification_name (tdn_sensitivity n)))]"

definition target_json :: "nonfunctional_target \<Rightarrow> json" where
  "target_json t = JObj
    [(''metric'', JStr (nft_metric t)), (''target'', JStr (nft_target t)), (''unchanged'', JBool (nft_unchanged t))]"

definition business_ready_json :: "business_ready \<Rightarrow> json" where
  "business_ready_json b = JObj
    [(''work_item_id'', JStr (br_work_item b)), (''problem_and_value'', JStr (br_problem b)),
     (''scope_in'', json_strings (br_scope_in b)), (''scope_out'', json_strings (br_scope_out b)),
     (''scenarios'', json_list scenario_json (br_scenarios b)), (''business_rules'', json_strings (br_rules b)),
     (''test_data_needs'', json_list test_data_json (br_test_data b)),
     (''nfr_impact'', json_list target_json (br_nfr b)),
     (''data_classification'', JStr (classification_name (br_classification b))),
     (''known_constraints'', json_strings (br_constraints b)), (''preliminary_tier'', JStr (tier_name (br_tier b))),
     (''rough_size'', JStr (br_size b)), (''size_confidence'', JStr (br_confidence b)),
     (''open_questions'', json_strings (br_questions b))]"

definition solution_ready_json :: "solution_ready \<Rightarrow> json" where
  "solution_ready_json d =
    (let text = json_option JStr; o' = so_observability d; i = so_intent d; c = so_containment d in JObj
    [(''work_item_id'', JStr (so_work_item d)), (''affected_repositories'', json_strings (so_repositories d)),
     (''service_boundary_decision'', JStr (so_boundary d)), (''api_contract_delta'', text (so_api d)),
     (''database_changes'', text (so_database d)), (''iac_changes'', text (so_iac d)),
     (''migration_strategy'', text (so_migration d)), (''security_design'', JStr (so_security d)),
     (''observability'', JObj [(''spans'', json_strings (ob_spans o')), (''metrics'', json_strings (ob_metrics o'))]),
     (''approved_intent_delta'', JObj
       [(''new_outbound_destinations'', json_strings (id_destinations i)),
        (''new_data_stores'', json_strings (id_data_stores i)), (''new_capabilities'', json_strings (id_capabilities i)),
        (''checked'', JBool (id_checked i))]),
     (''containment_delta'', JObj
       [(''min_healthy_instances'', json_option JInt (cd_min_healthy c)), (''isolate_replica'', JBool (cd_isolate_replica c)),
        (''isolate_leader'', JBool (cd_isolate_leader c)), (''singleton'', JBool (cd_singleton c)),
        (''stateful'', JBool (cd_stateful c)), (''active_lease_blocks_isolation'', JBool (cd_lease_blocks c))]),
     (''rollback_strategy'', JStr (rollback_name (so_rollback d))),
     (''rollback_justification'', JStr (so_justification d)), (''feature_flag'', text (so_flag d)),
     (''data_written_during_rollout'', text (so_rollout_data d)), (''deployment_impact'', JStr (so_deployment d)),
     (''final_tier'', JStr (tier_name (so_tier d))), (''changeset_id'', JStr (so_changeset d)),
     (''adr_ref'', text (so_adr d))])"

fun pretty_lines :: "string \<Rightarrow> string list \<Rightarrow> string" where
  "pretty_lines ind [] = []"
| "pretty_lines ind [p] = ind @ p @ newline"
| "pretty_lines ind (p # q # ps) = ind @ p @ '','' @ newline @ pretty_lines ind (q # ps)"

definition pretty_block :: "nat \<Rightarrow> char \<Rightarrow> char \<Rightarrow> string list \<Rightarrow> string" where
  "pretty_block d l r items =
    (if items = [] then [l, r]
     else l # newline @ pretty_lines (replicate (2 * d + 2) (CHR '' '')) items @ replicate (2 * d) (CHR '' '') @ [r])"

fun jpretty :: "nat \<Rightarrow> json \<Rightarrow> string" where
  "jpretty d (JArr xs) = pretty_block d (CHR ''['') (CHR '']'') (map (jpretty (Suc d)) xs)"
| "jpretty d (JObj kvs) = pretty_block d (CHR ''{'') (CHR ''}'')
    (map (\<lambda>(k, v). json_quote False k @ '': '' @ jpretty (Suc d) v) kvs)"
| "jpretty d v = jprint False v"

subsection \<open>Elicitation\<close>

record blocking_questions =
  bq_questions :: "string list"
  bq_established :: "string list"

record elicitation =
  el_story :: "business_ready option"
  el_blocked :: "blocking_questions option"

definition elicitation_ok :: "elicitation \<Rightarrow> bool" where
  "elicitation_ok e \<longleftrightarrow> pred_option business_ready_ok (el_story e) \<and> (el_story e = None) \<noteq> (el_blocked e = None)"

record conversation =
  cv_work_item :: string
  cv_turns :: "string list"

definition conversation_so_far :: "conversation \<Rightarrow> string" where
  "conversation_so_far c =
    (if cv_turns c = [] then ''This is the first turn. Nothing has been established yet.''
     else ''Established so far, do not ask about these again:'' @ newline @ join_lines (map (\<lambda>t. ''- '' @ t) (cv_turns c)))"

subsection \<open>Facts\<close>

text \<open>
  An elicitation never leaves a reader with neither or both, and a story it carries names a failure scenario with
  content, both sides of its scope, and no open question.
\<close>

theorem elicited_story_complete:
  assumes "elicitation_ok e" "el_story e = Some b"
  shows "el_blocked e = None \<and> br_questions b = []
    \<and> (\<exists>s \<in> set (br_scenarios b). scn_failure s \<and> strip (scn_name s) \<noteq> [] \<and> strip (scn_gherkin s) \<noteq> [])
    \<and> br_scope_in b \<noteq> [] \<and> br_scope_out b \<noteq> [] \<and> (\<forall>s \<in> set (br_scope_out b). strip s \<noteq> [])"
  using assms
  by (auto simp: elicitation_ok_def business_ready_ok_def scenario_ok_def content_required_def list_all_iff list_ex_iff)

theorem elicitation_blocks: "elicitation_ok e \<Longrightarrow> el_story e = None \<longleftrightarrow> el_blocked e \<noteq> None"
  by (auto simp: elicitation_ok_def)

end
