(* ===== verification/Github_Issues.thy ===== *)
theory Github_Issues
  imports Github_Transport States Story
begin

text \<open>
  The GitHub Issues adapter of the work item port: the lifecycle labels (\<^verbatim>\<open>adapters/github_issues_lifecycle.py\<close>), the
  provider's schemas (\<^verbatim>\<open>adapters/github_issues_models.py\<close>) and the adapter itself (\<^verbatim>\<open>adapters/github_issues.py\<close>).

  The adapter talks to any typed transport, three functions of a world of their own. A parsed URL is a record of what
  Pydantic's \<^verbatim>\<open>AnyUrl\<close> found in it.
\<close>

subsection \<open>Schemas\<close>

record web_url =
  wu_text :: string
  wu_scheme :: string
  wu_host :: "string option"
  wu_username :: "string option"
  wu_password :: "string option"
  wu_path :: "string option"

record github_issue =
  gi_number :: int
  gi_html_url :: web_url
  gi_repository_url :: web_url
  gi_labels :: "string list"

definition https_url_ok :: "web_url \<Rightarrow> bool" where
  "https_url_ok u \<longleftrightarrow> wu_scheme u = ''https'' \<and> wu_host u \<noteq> None \<and> wu_username u = None \<and> wu_password u = None"

definition path_text :: "web_url \<Rightarrow> string" where
  "path_text u = (case wu_path u of None \<Rightarrow> [] | Some p \<Rightarrow> p)"

definition issue_ok :: "github_issue \<Rightarrow> bool" where
  "issue_ok i \<longleftrightarrow> 0 < gi_number i \<and> https_url_ok (gi_html_url i) \<and> https_url_ok (gi_repository_url i)
    \<and> list_all (\<lambda>l. l \<noteq> []) (gi_labels i) \<and> ends_with (''/issues/'' @ show_int (gi_number i)) (path_text (gi_html_url i))"

datatype github_payload =
    Create_Issue_Payload string string "string list"
  | Label_Payload "string list"
  | Comment_Payload string

fun payload_ok :: "github_payload \<Rightarrow> bool" where
  "payload_ok (Create_Issue_Payload title body labels) \<longleftrightarrow> title \<noteq> [] \<and> body \<noteq> [] \<and> labels \<noteq> []"
| "payload_ok (Label_Payload labels) \<longleftrightarrow> labels \<noteq> []"
| "payload_ok (Comment_Payload body) \<longleftrightarrow> body \<noteq> []"

fun payload_json :: "github_payload \<Rightarrow> json" where
  "payload_json (Create_Issue_Payload title body labels) =
    JObj [(''title'', JStr title), (''body'', JStr body), (''labels'', json_strings labels)]"
| "payload_json (Label_Payload labels) = JObj [(''labels'', json_strings labels)]"
| "payload_json (Comment_Payload body) = JObj [(''body'', JStr body)]"

subsection \<open>Lifecycle labels\<close>

definition state_label :: "work_item_state \<Rightarrow> string" where
  "state_label s = ''stage:'' @ map (\<lambda>c. if c = CHR ''_'' then CHR ''-'' else c) (lower (state_name s))"

text \<open>A folded label is a list of code points, as \<^const>\<open>casefold\<close> yields them.\<close>

definition code_points :: "string \<Rightarrow> nat list" where
  "code_points = map of_char"

definition state_labels :: "(nat list \<times> work_item_state) list" where
  "state_labels = map (\<lambda>s. (code_points (state_label s), s)) all_states"

definition gate_control_labels :: "nat list list" where
  "gate_control_labels =
    map code_points [''stage:gate-1-approved'', ''stage:gate-2-approved'', ''stage:gate-3-approved'', ''stage:gate-4-approved'']"

definition permitted_stage_labels :: "nat list list" where
  "permitted_stage_labels = map fst state_labels @ gate_control_labels"

definition canonical_label_name :: "string \<Rightarrow> nat list" where
  "canonical_label_name = casefold"

definition ascii_label :: "string \<Rightarrow> bool" where
  "ascii_label l \<longleftrightarrow> list_all (\<lambda>c. (of_char c :: nat) < 128) l"

definition stage_prefixed :: "nat list \<Rightarrow> bool" where
  "stage_prefixed cs \<longleftrightarrow> take 6 cs = code_points ''stage:''"

definition unknown_stage_label :: "string \<Rightarrow> bool" where
  "unknown_stage_label l \<longleftrightarrow> stage_prefixed (canonical_label_name l)
    \<and> (\<not> ascii_label l \<or> canonical_label_name l \<notin> set permitted_stage_labels)"

definition validate_stage_namespace :: "string list \<Rightarrow> github_error + unit" where
  "validate_stage_namespace ls = (if list_ex unknown_stage_label ls then Inl Invalid_Lifecycle_Label else Inr ())"

definition is_state_label :: "nat list \<Rightarrow> bool" where
  "is_state_label cs \<longleftrightarrow> cs \<in> set (map fst state_labels)"

definition lifecycle_label :: "github_issue \<Rightarrow> github_error + string" where
  "lifecycle_label i = ebind (validate_stage_namespace (gi_labels i)) (\<lambda>_.
    case filter (\<lambda>l. is_state_label (canonical_label_name l)) (gi_labels i) of
      [l] \<Rightarrow> Inr l | _ \<Rightarrow> Inl Invalid_Lifecycle_Label)"

definition lifecycle_state :: "github_issue \<Rightarrow> github_error + work_item_state" where
  "lifecycle_state i = ebind (lifecycle_label i) (\<lambda>l.
    case map_of state_labels (canonical_label_name l) of Some s \<Rightarrow> Inr s | None \<Rightarrow> Inl Uncaught)"

definition require_lifecycle_state :: "github_issue \<Rightarrow> work_item_state \<Rightarrow> github_error + work_item_state" where
  "require_lifecycle_state i expected =
    (case lifecycle_state i of
       Inl e \<Rightarrow> Inl (if e \<in> {Api_Error, Invalid_Lifecycle_Label} then Api_Error else e)
     | Inr s \<Rightarrow> if s \<noteq> expected then Inl Api_Error else Inr s)"

text \<open>\<open>expected\<close> holds distinct folded state labels, which fold to themselves.\<close>

definition require_mutation_lifecycle_labels :: "string list \<Rightarrow> nat list list \<Rightarrow> github_error + unit" where
  "require_mutation_lifecycle_labels response expected =
    ebind (validate_stage_namespace response) (\<lambda>_.
      let labels = filter is_state_label (map canonical_label_name response) in
      if length labels \<noteq> length expected \<or> set labels \<noteq> set expected then Inl Api_Error else Inr ())"

subsection \<open>The adapter\<close>

record 'x issue_transport =
  it_issue :: "http_method \<Rightarrow> string \<Rightarrow> github_payload option \<Rightarrow> ('x, github_error, github_issue) eff"
  it_labels :: "http_method \<Rightarrow> string \<Rightarrow> github_payload option \<Rightarrow> ('x, github_error, string list) eff"
  it_comment :: "http_method \<Rightarrow> string \<Rightarrow> github_payload option \<Rightarrow> ('x, github_error, int) eff"

record 'x issue_tracker =
  ia_issues_path :: string
  ia_repository_url :: string
  ia_web_host :: "nat list"
  ia_web_issue_path :: string
  ia_transport :: "'x issue_transport"

definition make_tracker ::
  "(string \<Rightarrow> bool) \<Rightarrow> 'x issue_transport \<Rightarrow> string \<Rightarrow> string \<Rightarrow> string \<Rightarrow> github_error + 'x issue_tracker"
where
  "make_tracker bracketed_host transport owner repository api_url =
    (if owner = [] \<or> repository = [] then Inl Invalid_Value
     else case normalize_github_api_url bracketed_host api_url of
       None \<Rightarrow> Inl Invalid_Value
     | Some base \<Rightarrow> (case Option.bind (url_split bracketed_host base) url_hostname of
         None \<Rightarrow> Inl Invalid_Value
       | Some host \<Rightarrow>
           let name = quote_url owner @ ''/'' @ quote_url repository in
           Inr \<lparr>ia_issues_path = ''/repos/'' @ name @ ''/issues'', ia_repository_url = base @ ''/repos/'' @ name,
             ia_web_host = (if casefold host = casefold ''api.github.com'' then code_points ''github.com'' else casefold host),
             ia_web_issue_path = ''/'' @ name, ia_transport = transport\<rparr>))"

datatype work_item_error = Provider github_error | Illegal transition_error

record work_item_ref =
  wr_id :: string
  wr_url :: string
  wr_state :: work_item_state

record approval_capabilities =
  ac_verified_identity :: bool
  ac_separation_of_duties :: bool
  ac_immutable_audit :: bool
  ac_time_bound :: bool

definition github_capabilities :: approval_capabilities where
  "github_capabilities = \<lparr>ac_verified_identity = False, ac_separation_of_duties = False, ac_immutable_audit = False,
     ac_time_bound = False\<rparr>"

definition parse_issue_number :: "string \<Rightarrow> github_error + nat" where
  "parse_issue_number s =
    (if s \<noteq> [] \<and> hd s \<noteq> CHR ''0'' \<and> list_all ascii_digit s \<and> length s \<le> 4300 then Inr (digits_value s) else Inl Invalid_Value)"

definition issue_ref :: "github_issue \<Rightarrow> work_item_state \<Rightarrow> work_item_ref" where
  "issue_ref i s = \<lparr>wr_id = show_int (gi_number i), wr_url = wu_text (gi_html_url i), wr_state = s\<rparr>"

definition issue_path :: "'x issue_tracker \<Rightarrow> nat \<Rightarrow> string" where
  "issue_path a n = ia_issues_path a @ ''/'' @ show_nat n"

definition require_issue_repository :: "'x issue_tracker \<Rightarrow> github_issue \<Rightarrow> github_error + unit" where
  "require_issue_repository a i = require_all
    [(strip_right (CHR ''/'') (wu_text (gi_repository_url i)) = ia_repository_url a, Api_Error),
     (case wu_host (gi_html_url i) of None \<Rightarrow> False | Some h \<Rightarrow> casefold h = ia_web_host a, Api_Error),
     (path_text (gi_html_url i) = ia_web_issue_path a @ ''/issues/'' @ show_int (gi_number i), Api_Error)]"

definition get_issue :: "'x issue_tracker \<Rightarrow> nat \<Rightarrow> ('x, github_error, github_issue) eff" where
  "get_issue a n =
    sbind (it_issue (ia_transport a) Http_Get (issue_path a n) None) (\<lambda>i.
      if gi_number i \<noteq> int n then sraise Api_Error
      else sbind (spure (require_issue_repository a i)) (\<lambda>_. sreturn i))"

definition get_state :: "'x issue_tracker \<Rightarrow> string \<Rightarrow> ('x, github_error, work_item_state) eff" where
  "get_state a work_item =
    sbind (spure (parse_issue_number work_item)) (\<lambda>n. sbind (get_issue a n) (\<lambda>i. spure (lifecycle_state i)))"

definition raise_after_mutation ::
  "'x issue_tracker \<Rightarrow> nat \<Rightarrow> work_item_state \<Rightarrow> ('x, github_error, unit) eff"
where
  "raise_after_mutation a n target =
    sbind (get_issue a n) (\<lambda>i. sbind (spure (require_lifecycle_state i target)) (\<lambda>_. sraise Api_Error))"

text \<open>A mutation, its answer checked; a provider error leads to a reread and an error in any case.\<close>

definition mutate_labels ::
  "'x issue_tracker \<Rightarrow> nat \<Rightarrow> work_item_state \<Rightarrow> http_method \<Rightarrow> string \<Rightarrow> github_payload option \<Rightarrow> nat list list \<Rightarrow>
    ('x, github_error, unit) eff"
where
  "mutate_labels a n target meth path body expected x =
    (case sbind (it_labels (ia_transport a) meth path body)
        (\<lambda>ls. spure (require_mutation_lifecycle_labels ls expected)) x of
       (Inr u, y) \<Rightarrow> (Inr u, y)
     | (Inl e, y) \<Rightarrow> if e \<in> {Api_Error, Invalid_Lifecycle_Label} then raise_after_mutation a n target y else (Inl e, y))"

definition change_state ::
  "'x issue_tracker \<Rightarrow> nat \<Rightarrow> string \<Rightarrow> work_item_state \<Rightarrow> ('x, github_error, work_item_ref) eff"
where
  "change_state a n current_label target =
    (let target_label = state_label target; labels_path = issue_path a n @ ''/labels'' in
     sbind (mutate_labels a n target Http_Post labels_path (Some (Label_Payload [target_label]))
       [canonical_label_name current_label, code_points target_label]) (\<lambda>_.
     sbind (mutate_labels a n target Http_Delete (labels_path @ ''/'' @ quote_url current_label) None
       [code_points target_label]) (\<lambda>_.
     sbind (get_issue a n) (\<lambda>i.
     sbind (spure (require_lifecycle_state i target)) (\<lambda>s. sreturn (issue_ref i s))))))"

definition provider :: "('x, github_error, 'a) eff \<Rightarrow> ('x, work_item_error, 'a) eff" where
  "provider m = scatch m Provider"

definition apply_transition :: "'x issue_tracker \<Rightarrow> transition \<Rightarrow> ('x, work_item_error, work_item_ref) eff" where
  "apply_transition a t =
    sbind (provider (spure (parse_issue_number (tr_work_item_id t)))) (\<lambda>n.
    sbind (provider (get_issue a n)) (\<lambda>i.
    sbind (provider (spure (lifecycle_label i))) (\<lambda>current_label.
    sbind (provider (spure (lifecycle_state i))) (\<lambda>current.
    sbind (scatch (spure (validate_against t current)) Illegal) (\<lambda>_.
    provider (change_state a n current_label (tr_target t)))))))"

definition create_issue ::
  "'x issue_tracker \<Rightarrow> github_payload \<Rightarrow> work_item_state \<Rightarrow> ('x, github_error, work_item_ref) eff"
where
  "create_issue a payload s =
    (if \<not> payload_ok payload then sraise Invalid_Value
     else sbind (it_issue (ia_transport a) Http_Post (ia_issues_path a) (Some payload)) (\<lambda>i.
       sbind (spure (require_issue_repository a i)) (\<lambda>_.
       sbind (spure (require_lifecycle_state i s)) (\<lambda>actual. sreturn (issue_ref i actual)))))"

definition create_story :: "'x issue_tracker \<Rightarrow> business_ready \<Rightarrow> ('x, github_error, work_item_ref) eff" where
  "create_story a story = create_issue a
    (Create_Issue_Payload (''[STORY] '' @ br_work_item story) (jpretty 0 (business_ready_json story))
      [''story'', state_label BUSINESS_READY]) BUSINESS_READY"

definition create_design :: "'x issue_tracker \<Rightarrow> solution_ready \<Rightarrow> ('x, github_error, work_item_ref) eff" where
  "create_design a design = create_issue a
    (Create_Issue_Payload (''[DESIGN] '' @ so_work_item design) (jpretty 0 (solution_ready_json design))
      [''design'', state_label SOLUTION_READY]) SOLUTION_READY"

definition comment_on :: "'x issue_tracker \<Rightarrow> string \<Rightarrow> string \<Rightarrow> ('x, github_error, unit) eff" where
  "comment_on a work_item body =
    sbind (spure (parse_issue_number work_item)) (\<lambda>n.
      if \<not> payload_ok (Comment_Payload body) then sraise Invalid_Value
      else sbind (it_comment (ia_transport a) Http_Post (issue_path a n @ ''/comments'') (Some (Comment_Payload body)))
        (\<lambda>_. sreturn ()))"

end
