(* ===== verification/Repository_Reader.thy ===== *)
theory Repository_Reader
  imports Github_App Github_Issues Grounded_Discussion Sha256
begin

text \<open>
  \<^verbatim>\<open>adapters/github_repository_reader.py\<close>: what the discussions read of a repository. Every source file comes from the tree
  of the default branch, is fetched by path and checked against its blob's name, and nothing that looks like a credential
  gets past.

  The broker, the transport made of a token, the clock, UTF-8 decoding (\<open>None\<close> is undecodable; only texts of code points
  below 256 are modelled) and the local reading of a time without offset are parameters. So is Pydantic's parsing of a URL.
\<close>

subsection \<open>Answers\<close>

definition git_name_ok :: "string \<Rightarrow> bool" where
  "git_name_ok s \<longleftrightarrow> length s = 40 \<and> list_all lower_hex s"

record tree_entry =
  te_path :: string
  te_mode :: string
  te_type :: string
  te_sha :: string
  te_size :: "int option"

definition tree_entry_ok :: "tree_entry \<Rightarrow> bool" where
  "tree_entry_ok e \<longleftrightarrow> 1 \<le> length (te_path e) \<and> length (te_path e) \<le> 1024
    \<and> length (te_mode e) = 6 \<and> list_all (\<lambda>c. c \<in> set ''01234567'') (te_mode e)
    \<and> te_type e \<in> {''blob'', ''tree'', ''commit''} \<and> git_name_ok (te_sha e) \<and> pred_option (\<lambda>n. 0 \<le> n) (te_size e)"

record tree_answer =
  tr_sha :: string
  tr_truncated :: bool
  tr_entries :: "tree_entry list"

definition tree_answer_ok :: "tree_answer \<Rightarrow> bool" where
  "tree_answer_ok t \<longleftrightarrow> git_name_ok (tr_sha t) \<and> list_all tree_entry_ok (tr_entries t) \<and> length (tr_entries t) \<le> 20000"

record content_answer =
  ct_type :: string
  ct_path :: string
  ct_sha :: string
  ct_size :: int
  ct_encoding :: string
  ct_content :: string

definition content_answer_ok :: "content_answer \<Rightarrow> bool" where
  "content_answer_ok c \<longleftrightarrow> ct_type c = ''file'' \<and> 1 \<le> length (ct_path c) \<and> length (ct_path c) \<le> 1024
    \<and> git_name_ok (ct_sha c) \<and> 0 \<le> ct_size c \<and> ct_encoding c = ''base64'' \<and> length (ct_content c) \<le> 200000"

text \<open>The URL of a repository, as Pydantic parsed it, with whether it has a query or a fragment.\<close>

record repository_metadata =
  rm_id :: int
  rm_full_name :: string
  rm_html_url :: web_url
  rm_html_tail :: bool
  rm_default_branch :: string
  rm_private :: bool
  rm_visibility :: string
  rm_archived :: bool

definition metadata_ok :: "repository_metadata \<Rightarrow> bool" where
  "metadata_ok m \<longleftrightarrow> 0 < rm_id m \<and> 3 \<le> length (rm_full_name m)
    \<and> wu_scheme (rm_html_url m) = ''https'' \<and> wu_host (rm_html_url m) = Some ''github.com''
    \<and> wu_username (rm_html_url m) = None \<and> wu_password (rm_html_url m) = None \<and> \<not> rm_html_tail m
    \<and> 1 \<le> length (rm_default_branch m) \<and> length (rm_default_branch m) \<le> 255
    \<and> rm_visibility m \<in> {''public'', ''private'', ''internal''}"

definition source_file_ok :: "source_file \<Rightarrow> bool" where
  "source_file_ok f \<longleftrightarrow> 1 \<le> length (sf_path f) \<and> length (sf_path f) \<le> 1024 \<and> git_name_ok (sf_blob_sha f)
    \<and> digest_ok (sf_content_digest f) \<and> 1 \<le> length (sf_text f) \<and> length (sf_text f) \<le> 32000"

definition code_context_ok :: "code_context \<Rightarrow> bool" where
  "code_context_ok c \<longleftrightarrow> 3 \<le> length (cc_repository c) \<and> 1 \<le> length (cc_default_branch c) \<and> git_name_ok (cc_tree_sha c)
    \<and> digest_ok (cc_digest c) \<and> list_all source_file_ok (cc_files c) \<and> cc_files c \<noteq> [] \<and> length (cc_files c) \<le> 32"

subsection \<open>Paths\<close>

text \<open>\<^verbatim>\<open>PurePosixPath\<close>: the components of a path but for the root, its last component and its suffix.\<close>

definition path_components :: "string \<Rightarrow> string list" where
  "path_components s = filter (\<lambda>p. p \<noteq> [] \<and> p \<noteq> ''.'') (split_on (CHR ''/'') s)"

definition path_absolute :: "string \<Rightarrow> bool" where
  "path_absolute s \<longleftrightarrow> starts_with ''/'' s"

definition path_name :: "string \<Rightarrow> string" where
  "path_name s = (if path_components s = [] then [] else last (path_components s))"

definition path_suffix :: "string \<Rightarrow> string" where
  "path_suffix s =
    (let name = path_name s; extension = rev (takeWhile (\<lambda>c. c \<noteq> CHR ''.'') (rev name)) in
     if CHR ''.'' \<in> set name \<and> extension \<noteq> [] \<and> length extension + 1 < length name then CHR ''.'' # extension else [])"

definition folded :: "string list \<Rightarrow> nat list set" where
  "folded xs = set (map (map of_char) xs)"

definition text_extensions :: "nat list set" where
  "text_extensions = folded [''.c'', ''.cc'', ''.cpp'', ''.cs'', ''.go'', ''.h'', ''.hpp'', ''.java'', ''.js'', ''.json'',
     ''.jsx'', ''.kt'', ''.md'', ''.mjs'', ''.php'', ''.py'', ''.rb'', ''.rs'', ''.sql'', ''.swift'', ''.tf'', ''.toml'',
     ''.ts'', ''.tsx'', ''.txt'', ''.xml'', ''.yaml'', ''.yml'']"

definition manifest_names :: "nat list set" where
  "manifest_names = folded [''cargo.toml'', ''go.mod'', ''package.json'', ''pyproject.toml'', ''requirements.txt'']"

definition sensitive_segments :: "nat list set" where
  "sensitive_segments = folded [''.env'', ''secret'', ''secrets'', ''credential'', ''credentials'', ''private'',
     ''private-key'', ''keys'', ''certificates'']"

definition sensitive_extensions :: "nat list set" where
  "sensitive_extensions = folded [''.pem'', ''.key'', ''.p12'', ''.pfx'', ''.keystore'']"

definition code_extensions :: "nat list set" where
  "code_extensions = folded [''.py'', ''.ts'', ''.tsx'', ''.js'', ''.jsx'']"

subsection \<open>Credentials in a text\<close>

text \<open>Sets of characters and counted repetitions, under \<^verbatim>\<open>re.IGNORECASE\<close>.\<close>

definition alnum_or :: "string \<Rightarrow> rx" where
  "alnum_or extra = Chr (\<lambda>c. ascii_upper c \<or> ascii_lower c \<or> ascii_digit c \<or> c \<in> set extra)"

definition rx_times :: "nat \<Rightarrow> rx \<Rightarrow> rx" where
  "rx_times n r = rx_seq (replicate n r)"

definition rx_at_least :: "nat \<Rightarrow> rx \<Rightarrow> rx" where
  "rx_at_least n r = Cat (rx_times n r) (Many r)"

definition rx_optional :: "rx \<Rightarrow> rx" where
  "rx_optional r = Alt r Eps"

definition one_of_i :: "string \<Rightarrow> rx" where
  "one_of_i cs = Chr (\<lambda>c. ascii_fold c \<in> ascii_fold ` set cs)"

definition dash_or_line :: rx where
  "dash_or_line = rx_optional (one_of_i ''_-'')"

definition credential_patterns :: "rx list" where
  "credential_patterns =
    [rx_seq [rx_lit_i ''-----BEGIN '', rx_optional (rx_any (map rx_lit_i [''RSA '', ''EC '', ''OPENSSH ''])),
       rx_lit_i ''PRIVATE KEY-----''],
     rx_seq [Bound, rx_any (map rx_lit_i [''AKIA'', ''ASIA'']), rx_times 16 (alnum_or []), Bound],
     rx_seq [Bound, rx_any
        [rx_seq [rx_lit_i ''gh'', one_of_i ''pousr'', rx_lit_i ''_'', rx_at_least 20 (alnum_or [])],
         rx_seq [rx_lit_i ''github_pat_'', rx_at_least 20 (alnum_or ''_'')]], Bound],
     rx_seq [Bound, rx_lit_i ''sk-'', rx_optional (rx_any (map rx_lit_i [''proj-'', ''svcacct-''])),
       rx_at_least 24 (alnum_or ''_-''), Bound],
     rx_seq [Bound, rx_lit_i ''AIza'', rx_at_least 30 (alnum_or ''_-''), Bound],
     rx_seq [Bound, rx_lit_i ''xox'', one_of_i ''baprs'', rx_lit_i ''-'', rx_at_least 20 (alnum_or ''-''), Bound],
     rx_seq [Bound, rx_lit_i ''eyJ'', rx_at_least 10 (alnum_or ''_-''), rx_lit_i ''.'', rx_at_least 10 (alnum_or ''_-''),
       rx_lit_i ''.'', rx_at_least 10 (alnum_or ''_-''), Bound],
     rx_seq [Bound, rx_lit_i ''bearer'', Chr py_space, rx_spaces, rx_at_least 24 (alnum_or ''._~+/=-'')],
     rx_seq [Bound, rx_any
        [rx_seq [rx_lit_i ''api'', dash_or_line, rx_lit_i ''key''], rx_seq [rx_lit_i ''client'', dash_or_line, rx_lit_i ''secret''],
         rx_lit_i ''password'', rx_lit_i ''passwd'', rx_seq [rx_lit_i ''access'', dash_or_line, rx_lit_i ''token''],
         rx_seq [rx_lit_i ''refresh'', dash_or_line, rx_lit_i ''token'']],
       Bound, rx_spaces, one_of_i '':='', rx_spaces, rx_optional (one_of_i [CHR 0x27, CHR 0x22]),
       rx_at_least 20 (alnum_or ''/+_=-'')]]"

definition credential_like :: "string \<Rightarrow> bool" where
  "credential_like text \<longleftrightarrow> list_ex (\<lambda>r. rx_search r text) credential_patterns"

subsection \<open>The reader\<close>

datatype reader_error = Reader_Denied | Reader_Invalid | Reader_Broker app_error | Reader_Transport github_error | Reader_Crash

text \<open>A transport by the models of its answers.\<close>

record 'x source_transport =
  so_metadata :: "string \<Rightarrow> ('x, github_error, repository_metadata) eff"
  so_tree :: "string \<Rightarrow> ('x, github_error, tree_answer) eff"
  so_content :: "string \<Rightarrow> ('x, github_error, content_answer) eff"

record 'x repository_reader =
  rr_token_for :: "string \<Rightarrow> ('x, app_error, installation_token) eff"
  rr_repositories :: "string list"
  rr_transport :: "string \<Rightarrow> github_error + 'x source_transport"
  rr_clock :: "'x \<Rightarrow> moment option \<times> 'x"
  rr_local :: "datetime \<Rightarrow> moment option"
  rr_decode :: "string \<Rightarrow> string option"
  rr_bracketed_host :: "string \<Rightarrow> bool"
  rr_max_files :: int
  rr_max_file_bytes :: int
  rr_max_total_bytes :: int

definition allowlist_name_ok :: "string \<Rightarrow> bool" where
  "allowlist_name_ok s \<longleftrightarrow> length (split_on (CHR ''/'') s) = 2
    \<and> list_all (\<lambda>p. p \<noteq> [] \<and> p \<noteq> ''.'' \<and> p \<noteq> ''..'') (split_on (CHR ''/'') s)"

definition make_reader :: "'x repository_reader \<Rightarrow> reader_error + 'x repository_reader" where
  "make_reader r =
    (if rr_repositories r = [] \<or> \<not> distinct (rr_repositories r) \<or> \<not> list_all allowlist_name_ok (rr_repositories r)
        \<or> rr_max_files r \<le> 0 \<or> 32 < rr_max_files r \<or> rr_max_file_bytes r \<le> 0 \<or> 32000 < rr_max_file_bytes r
        \<or> rr_max_total_bytes r \<le> 0 \<or> 800000 < rr_max_total_bytes r
     then Inl Reader_Invalid else Inr r)"

text \<open>\<^verbatim>\<open>expires_at.astimezone(UTC)\<close>\<close>

definition expiry_utc :: "(datetime \<Rightarrow> moment option) \<Rightarrow> datetime \<Rightarrow> moment option" where
  "expiry_utc local d = (if dt_offset d = None then local d else astimezone_utc d)"

definition still_valid :: "'x repository_reader \<Rightarrow> installation_token \<Rightarrow> moment option \<Rightarrow> reader_error + unit" where
  "still_valid r k now =
    (case (now, expiry_utc (rr_local r) (tok_expires_at k)) of
       (Some t, Some expires) \<Rightarrow> (case seconds_later 30 t of
         None \<Rightarrow> Inl Reader_Crash
       | Some horizon \<Rightarrow> if expires \<le> horizon then Inl Reader_Invalid else Inr ())
     | _ \<Rightarrow> Inl Reader_Crash)"

definition authorized_transport :: "'x repository_reader \<Rightarrow> string \<Rightarrow> ('x, reader_error, 'x source_transport) eff" where
  "authorized_transport r repository =
    (if repository \<notin> set (rr_repositories r) then sraise Reader_Denied
     else sbind (scatch (rr_token_for r repository) Reader_Broker) (\<lambda>k.
       if short_name repository \<notin> set (tok_repositories k) then sraise Reader_Invalid
       else sbind (scall (rr_clock r)) (\<lambda>now.
         sbind (spure (still_valid r k now)) (\<lambda>_.
         scatch (spure (rr_transport r (tok_token k))) Reader_Transport))))"

definition owner_of :: "string \<Rightarrow> string" where
  "owner_of repository = text_before (\<lambda>c. c = CHR ''/'') repository"

definition name_of :: "string \<Rightarrow> string" where
  "name_of repository = text_after (\<lambda>c. c = CHR ''/'') repository"

definition repository_path :: "string \<Rightarrow> string" where
  "repository_path repository = quote_url (owner_of repository) @ ''/'' @ quote_url (name_of repository)"

definition read_metadata :: "'x repository_reader \<Rightarrow> string \<Rightarrow> 'x source_transport \<Rightarrow> ('x, reader_error, repository_metadata) eff" where
  "read_metadata r repository t =
    sbind (scatch (so_metadata t (''/repos/'' @ repository_path repository)) Reader_Transport) (\<lambda>m.
    if \<not> metadata_ok m then sraise (Reader_Transport Api_Error)
    else if casefold (rm_full_name m) \<noteq> casefold repository then sraise Reader_Invalid
    else (case url_split (rr_bracketed_host r) (wu_text (rm_html_url m)) of
      None \<Rightarrow> sraise Reader_Invalid
    | Some u \<Rightarrow> if su_path u \<noteq> ''/'' @ repository_path repository then sraise Reader_Invalid else sreturn m))"

definition read_repository :: "'x repository_reader \<Rightarrow> string \<Rightarrow> ('x, reader_error, repository_metadata) eff" where
  "read_repository r repository = sbind (authorized_transport r repository) (read_metadata r repository)"

subsection \<open>Selection\<close>

text \<open>The runs of at least three letters or digits of a folded question.\<close>

definition token_code :: "nat \<Rightarrow> bool" where
  "token_code n \<longleftrightarrow> 97 \<le> n \<and> n \<le> 122 \<or> 48 \<le> n \<and> n \<le> 57"

fun token_runs :: "nat list \<Rightarrow> nat list \<Rightarrow> nat list list" where
  "token_runs run [] = (if 3 \<le> length run then [run] else [])"
| "token_runs run (n # s) =
    (if token_code n then token_runs (run @ [n]) s
     else if 3 \<le> length run then run # token_runs [] s else token_runs [] s)"

definition query_tokens :: "string \<Rightarrow> nat list list" where
  "query_tokens question = remdups (token_runs [] (casefold question))"

definition eligible_source :: "'x repository_reader \<Rightarrow> tree_entry \<Rightarrow> bool" where
  "eligible_source r e \<longleftrightarrow> te_type e = ''blob'' \<and> te_mode e \<noteq> ''120000'' \<and> \<not> path_absolute (te_path e)
    \<and> ''..'' \<notin> set (path_components (te_path e))
    \<and> casefold (path_suffix (te_path e)) \<in> text_extensions \<and> casefold (path_suffix (te_path e)) \<notin> sensitive_extensions
    \<and> list_all (\<lambda>p. casefold p \<notin> sensitive_segments) (path_components (te_path e))
    \<and> take 4 (casefold (path_name (te_path e))) \<noteq> map of_char ''.env''
    \<and> (case te_size e of None \<Rightarrow> False | Some n \<Rightarrow> n \<le> rr_max_file_bytes r)"

definition source_score :: "nat list list \<Rightarrow> tree_entry \<Rightarrow> int" where
  "source_score tokens e =
    (let name = casefold (path_name (te_path e)); top = length (path_components (te_path e)) = 1 in
     4 * int (length (filter (\<lambda>t. code_points_occur t (casefold (te_path e))) tokens))
     + (if name = map of_char ''readme.md'' \<and> top then 100
        else if name \<in> manifest_names \<and> top then 50
        else if casefold (path_suffix (te_path e)) \<in> code_extensions then 5 else 0))"

text \<open>\<open>left\<close> files may still be taken; \<open>spent\<close> is the size of those taken.\<close>

fun take_sources :: "int \<Rightarrow> int \<Rightarrow> int \<Rightarrow> tree_entry list \<Rightarrow> tree_entry list" where
  "take_sources limit left spent [] = []"
| "take_sources limit left spent (e # es) =
    (let size = (case te_size e of None \<Rightarrow> 0 | Some n \<Rightarrow> n) in
     if limit < spent + size then take_sources limit left spent es
     else e # (if left \<le> 1 then [] else take_sources limit (left - 1) (spent + size) es))"

definition select_sources :: "'x repository_reader \<Rightarrow> tree_entry list \<Rightarrow> string \<Rightarrow> tree_entry list" where
  "select_sources r entries question =
    take_sources (rr_max_total_bytes r) (rr_max_files r) 0
      (sort_key (\<lambda>e. - source_score (query_tokens question) e)
        (sort_key (\<lambda>e. casefold (te_path e)) (filter (eligible_source r) entries)))"

subsection \<open>Reading sources\<close>

definition blob_sha :: "string \<Rightarrow> string" where
  "blob_sha content = sha1_hex (''blob '' @ show_nat (length content) @ [CHR 0x00] @ content)"

text \<open>What one answer contributes: nothing, when its bytes are no text, or a source file and its size.\<close>

definition checked_source ::
  "'x repository_reader \<Rightarrow> tree_entry \<Rightarrow> content_answer \<Rightarrow> reader_error + (string \<times> string) option"
where
  "checked_source r e c =
    (if ct_path c \<noteq> te_path e \<or> ct_sha c \<noteq> te_sha e then Inl Reader_Invalid
     else if Some (ct_size c) \<noteq> te_size e \<or> rr_max_file_bytes r < ct_size c then Inl Reader_Invalid
     else case strict_decode (filter (\<lambda>d. \<not> py_space d) (ct_content c)) of
       None \<Rightarrow> Inl Reader_Invalid
     | Some content \<Rightarrow>
         if int (length content) \<noteq> ct_size c \<or> CHR 0x00 \<in> set content then Inl Reader_Invalid
         else if blob_sha content \<noteq> ct_sha c then Inl Reader_Invalid
         else (case rr_decode r content of
           None \<Rightarrow> Inr None
         | Some text \<Rightarrow> if credential_like text then Inl Reader_Invalid else Inr (Some (content, text))))"

definition source_of :: "tree_entry \<Rightarrow> string \<Rightarrow> string \<Rightarrow> source_file" where
  "source_of e content text =
    \<lparr>sf_path = te_path e, sf_blob_sha = te_sha e, sf_content_digest = ''sha256:'' @ sha256_hex content, sf_text = text\<rparr>"

definition content_path :: "string \<Rightarrow> string \<Rightarrow> string \<Rightarrow> string" where
  "content_path repository branch path =
    ''/repos/'' @ repository_path repository @ ''/contents/'' @ quote_path path @ ''?'' @ url_encode [(''ref'', branch)]"

fun read_sources ::
  "'x repository_reader \<Rightarrow> 'x source_transport \<Rightarrow> string \<Rightarrow> string \<Rightarrow> int \<Rightarrow> source_file list \<Rightarrow> tree_entry list \<Rightarrow>
    ('x, reader_error, source_file list) eff"
where
  "read_sources r t repository branch spent files [] = sreturn files"
| "read_sources r t repository branch spent files (e # es) =
    (if (case te_size e of None \<Rightarrow> True | Some n \<Rightarrow> rr_max_file_bytes r < n)
     then read_sources r t repository branch spent files es
     else sbind (scatch (so_content t (content_path repository branch (te_path e))) Reader_Transport) (\<lambda>c.
       if \<not> content_answer_ok c then sraise (Reader_Transport Api_Error)
       else sbind (spure (checked_source r e c)) (\<lambda>got. case got of
         None \<Rightarrow> read_sources r t repository branch spent files es
       | Some (content, text) \<Rightarrow>
           let spent' = spent + int (length content); f = source_of e content text in
           if rr_max_total_bytes r < spent' then sreturn files
           else if \<not> source_file_ok f then sraise Reader_Invalid
           else if rr_max_files r \<le> int (length (files @ [f])) then sreturn (files @ [f])
           else read_sources r t repository branch spent' (files @ [f]) es)))"

definition tree_path :: "string \<Rightarrow> string \<Rightarrow> string" where
  "tree_path repository branch = ''/repos/'' @ repository_path repository @ ''/git/trees/'' @ quote_url branch @ ''?recursive=1''"

definition context_digest :: "string \<Rightarrow> string \<Rightarrow> string \<Rightarrow> source_file list \<Rightarrow> string" where
  "context_digest repository branch tree files = digest_of (JObj
    [(''repository'', JStr repository), (''default_branch'', JStr branch), (''tree_sha'', JStr tree),
     (''files'', JArr (map (\<lambda>f. JObj [(''path'', JStr (sf_path f)), (''blob_sha'', JStr (sf_blob_sha f)),
        (''content_digest'', JStr (sf_content_digest f))]) files))])"

definition read_codebase_context ::
  "'x repository_reader \<Rightarrow> string \<Rightarrow> string \<Rightarrow> ('x, reader_error, code_context) eff"
where
  "read_codebase_context r repository question =
    (if strip question = [] \<or> 20000 < length question then sraise Reader_Invalid
     else sbind (authorized_transport r repository) (\<lambda>t.
       sbind (read_metadata r repository t) (\<lambda>m.
       sbind (scatch (so_tree t (tree_path repository (rm_default_branch m))) Reader_Transport) (\<lambda>tree.
       if \<not> tree_answer_ok tree then sraise (Reader_Transport Api_Error)
       else if tr_truncated tree then sraise Reader_Invalid
       else sbind (read_sources r t repository (rm_default_branch m) 0 [] (select_sources r (tr_entries tree) question)) (\<lambda>files.
         let c = \<lparr>cc_repository = repository, cc_default_branch = rm_default_branch m, cc_tree_sha = tr_sha tree,
           cc_digest = context_digest repository (rm_default_branch m) (tr_sha tree) files, cc_files = files\<rparr> in
         if files = [] \<or> \<not> code_context_ok c then sraise Reader_Invalid else sreturn c)))))"

end
