(* ===== verification/Local_Evidence.thy ===== *)
theory Local_Evidence
  imports Baseline Review_Inspection Repository_Reader
begin

text \<open>
  Evidence on the local disk: the bounded reader of evidence documents (\<^verbatim>\<open>adapters/gate_evidence_io.py\<close>), the archive of a
  review session (\<^verbatim>\<open>adapters/review_archive.py\<close>), and the inventories and contracts that \<^verbatim>\<open>adapters/pytest_evidence.py\<close>
  makes from a collection of tests.

  The reading of a regular file up to a number of bytes, the decoder, the JSON reader, which keeps repeated fields and
  refuses constants such as \<^verbatim>\<open>NaN\<close>, the validation of a document as a model, \<^verbatim>\<open>pytest\<close> and the listing of a suite's
  files are parameters, and the writing of a new document is left out; \<open>None\<close> is the \<^verbatim>\<open>OSError\<close> or \<^verbatim>\<open>ValueError\<close> that the callers report alike.
\<close>

record document_reader =
  dr_regular :: "string \<Rightarrow> nat \<Rightarrow> string option"
  dr_decode :: "string \<Rightarrow> string option"
  dr_loads :: "string \<Rightarrow> json option"

definition max_document_bytes :: nat where
  "max_document_bytes = 4194304"

definition read_document :: "document_reader \<Rightarrow> string \<Rightarrow> json option" where
  "read_document r path =
    Option.bind (dr_regular r path max_document_bytes) (\<lambda>raw.
    Option.bind (dr_decode r raw) (\<lambda>s.
    Option.bind (dr_loads r s) (\<lambda>v. if unique_keys v then Some v else None)))"

definition read_evidence :: "document_reader \<Rightarrow> (json \<Rightarrow> 'a option) \<Rightarrow> string \<Rightarrow> 'a option" where
  "read_evidence r validate path = Option.bind (read_document r path) validate"

text \<open>An archive has at most 64 attempts and replays.\<close>

definition read_review_archive ::
  "'a pydantic_scheme \<Rightarrow> document_reader \<Rightarrow> (json \<Rightarrow> review_session option) \<Rightarrow> string \<Rightarrow> review_session option"
where
  "read_review_archive px r validate path =
    Option.bind (read_document r path) (\<lambda>v.
      case json_get v ''attempts'' of
        Some (JArr attempts) \<Rightarrow>
          if 64 < length attempts then None
          else Option.bind (validate v) (\<lambda>ses. case validate_session px ses of Inl e \<Rightarrow> None | Inr s \<Rightarrow> Some s)
      | _ \<Rightarrow> None)"

subsection \<open>Inventories\<close>

record test_inventory = review_model +
  ti_work_item :: string
  ti_source_sha :: string
  ti_suite :: string
  ti_runner :: string
  ti_environment :: string
  ti_case_ids :: "string list"
  ti_collection_errors :: int
  ti_completed :: bool
  ti_exit_code :: int

definition inventory_fields :: "test_inventory \<Rightarrow> (string \<times> json) list" where
  "inventory_fields x =
    [(''work_item_id'', JStr (ti_work_item x)), (''source_sha'', JStr (ti_source_sha x)), (''suite_digest'', JStr (ti_suite x)),
     (''runner_digest'', JStr (ti_runner x)), (''environment_digest'', JStr (ti_environment x)),
     (''case_ids'', json_strings (ti_case_ids x)), (''collection_errors'', JInt (ti_collection_errors x)),
     (''completed'', JBool (ti_completed x)), (''exit_code'', JInt (ti_exit_code x))]"

definition valid_inventory :: "test_inventory \<Rightarrow> bool" where
  "valid_inventory x \<longleftrightarrow> sealed inventory_fields x \<and> identifier_ok (ti_work_item x) \<and> git_sha_ok (ti_source_sha x)
    \<and> digest_ok (ti_suite x) \<and> digest_ok (ti_runner x) \<and> digest_ok (ti_environment x) \<and> list_all case_id_ok (ti_case_ids x)"

definition max_inventory_files :: nat where "max_inventory_files = 10000"
definition max_inventory_bytes :: nat where "max_inventory_bytes = 33554432"

definition suite_path_ok :: "string \<Rightarrow> bool" where
  "suite_path_ok s \<longleftrightarrow> s \<notin> set [[], ''.'', ''.git''] \<and> \<not> path_absolute s
    \<and> ''..'' \<notin> set (path_components s) \<and> ''.git'' \<notin> set (path_components s)"

text \<open>The files below the declared paths, each by its path and bytes; \<open>seen_bytes\<close> are the bytes seen before.\<close>

fun suite_entries :: "(string \<times> string) list \<Rightarrow> nat \<Rightarrow> json list \<Rightarrow> (nat \<times> json list) option" where
  "suite_entries [] seen_bytes entries = Some (seen_bytes, entries)"
| "suite_entries ((path, content) # fs) seen_bytes entries =
    (if max_inventory_bytes < seen_bytes + length content \<or> max_inventory_files \<le> length entries then None
     else suite_entries fs (seen_bytes + length content)
       (entries @ [JObj [(''path'', JStr path), (''digest'', JStr (''sha256:'' @ sha256_hex content))]]))"

fun suite_paths :: "(string \<Rightarrow> (string \<times> string) list option) \<Rightarrow> string list \<Rightarrow> nat \<times> json list \<Rightarrow> json list option" where
  "suite_paths files [] acc = Some (snd acc)"
| "suite_paths files (p # ps) acc =
    (if \<not> suite_path_ok p then None
     else Option.bind (files p) (\<lambda>fs. Option.bind (suite_entries fs (fst acc) (snd acc)) (suite_paths files ps)))"

definition suite_digest :: "(string \<Rightarrow> (string \<times> string) list option) \<Rightarrow> string list \<Rightarrow> string option" where
  "suite_digest files paths = Option.bind (suite_paths files (sort paths) (0, [])) (\<lambda>es. Some (digest_of (JArr es)))"

record collection =
  co_node_ids :: "string list"
  co_errors :: int
  co_exit_code :: int

definition collect_inventory ::
  "(string \<Rightarrow> (string \<times> string) list option) \<Rightarrow> (string list \<Rightarrow> collection) \<Rightarrow> string list \<Rightarrow> string \<Rightarrow> string \<Rightarrow> string \<Rightarrow> string \<Rightarrow>
    test_inventory option"
where
  "collect_inventory files pytest paths item sha runner env =
    (let c = pytest paths in
     Option.bind (suite_digest files paths) (\<lambda>d.
       let x = seal inventory_fields \<lparr>content_digest = [], ti_work_item = item, ti_source_sha = sha, ti_suite = d, ti_runner = runner,
         ti_environment = env, ti_case_ids = sort (co_node_ids c), ti_collection_errors = co_errors c, ti_completed = True,
         ti_exit_code = co_exit_code c\<rparr> in
       if valid_inventory x then Some x else None))"

definition build_contract :: "test_inventory \<Rightarrow> test_inventory \<Rightarrow> story_kind \<Rightarrow> baseline_contract option" where
  "build_contract baseline frozen kind =
    (if \<not> valid_inventory baseline \<or> \<not> valid_inventory frozen \<or> \<not> distinct (ti_case_ids baseline)
        \<or> \<not> distinct (ti_case_ids frozen) then None
     else
       let c = seal baseline_contract_fields \<lparr>content_digest = [], bc_work_item_id = ti_work_item baseline, bc_story_kind = kind,
         bc_baseline_sha = ti_source_sha baseline, bc_baseline_suite = ti_suite baseline, bc_frozen_suite = ti_suite frozen,
         bc_runner = ti_runner baseline, bc_environment = ti_environment baseline, bc_baseline_cases = ti_case_ids baseline,
         bc_frozen_cases = ti_case_ids frozen,
         bc_expected_red = sort (remdups (filter (\<lambda>i. i \<notin> set (ti_case_ids baseline)) (ti_case_ids frozen)))\<rparr> in
       if valid_baseline_contract c then Some c else None)"

text \<open>The new cases of the frozen suite are exactly those that must be red first, and no case is dropped from it.\<close>

lemma built_contract:
  assumes "build_contract baseline frozen kind = Some c"
  shows "valid_baseline_contract c" "set (bc_expected_red c) = set (ti_case_ids frozen) - set (ti_case_ids baseline)"
    "kind \<noteq> INFRASTRUCTURE \<Longrightarrow> set (ti_case_ids baseline) \<subseteq> set (ti_case_ids frozen)"
proof -
  have v: "valid_baseline_contract c" and kind: "bc_story_kind c = kind"
    and b: "bc_baseline_cases c = ti_case_ids baseline" and f: "bc_frozen_cases c = ti_case_ids frozen"
    and r: "set (bc_expected_red c) = set (ti_case_ids frozen) - set (ti_case_ids baseline)"
    using assms unfolding build_contract_def Let_def seal_def by (simp_all add: set_diff_eq split: if_splits) auto
  show "valid_baseline_contract c" "set (bc_expected_red c) = set (ti_case_ids frozen) - set (ti_case_ids baseline)"
    by (rule v, rule r)
  have sc: "scoped_expectations c" using v unfolding valid_baseline_contract_def by (elim conjE)
  show "set (ti_case_ids baseline) \<subseteq> set (ti_case_ids frozen)" if "kind \<noteq> INFRASTRUCTURE"
    using sc that unfolding scoped_expectations_def Let_def kind b f by (simp split: if_splits)
qed

end
