(* ===== verification/Maestro.thy ===== *)
theory Maestro
  imports Maestro_Report Repository_Reader
begin

text \<open>
  The mobile gate: the configuration and the result (\<^verbatim>\<open>domain/mobile.py\<close>), the digest of the declared flows
  (\<^verbatim>\<open>adapters/maestro_inputs.py\<close>) and the adapter (\<^verbatim>\<open>adapters/maestro.py\<close>), with the gates of \<^verbatim>\<open>ports/toolchain.py\<close>.

  The flow directory is read at once, as a tree in the order the directory listing gives, so a file's size and its bytes
  agree. The file system, the runner, the XML parser and the decoder are parameters, and so is every exception they raise.
\<close>

subsection \<open>Gates\<close>

datatype gate_name = G_Build | G_Unit | G_Acceptance | G_Types | G_Coverage | G_Mutation | G_Contract | G_Mobile_E2E | G_Visual

datatype gate_status = Gate_Pass | Gate_Fail | Gate_Not_Available

record mobile_spec =
  ms_platform :: string
  ms_device_id :: string
  ms_expected_tests :: "string list"
  ms_flow_directory :: string
  ms_timeout :: int

definition device_char :: "char \<Rightarrow> bool" where
  "device_char c \<longleftrightarrow> ascii_letter c \<or> ascii_digit c \<or> c \<in> {CHR ''.'', CHR ''_'', CHR '':'', CHR ''-''}"

definition device_id_ok :: "string \<Rightarrow> bool" where
  "device_id_ok s \<longleftrightarrow> s \<noteq> [] \<and> length s \<le> 128 \<and> (ascii_letter (hd s) \<or> ascii_digit (hd s)) \<and> list_all device_char (tl s)"

definition mobile_spec_ok :: "mobile_spec \<Rightarrow> bool" where
  "mobile_spec_ok m \<longleftrightarrow> ms_platform m \<in> set [''ios'', ''android''] \<and> device_id_ok (ms_device_id m)
    \<and> ms_expected_tests m \<noteq> [] \<and> list_all (\<lambda>n. strip n \<noteq> [] \<and> n = strip n) (ms_expected_tests m) \<and> distinct (ms_expected_tests m)
    \<and> CHR 0x5C \<notin> set (ms_flow_directory m) \<and> CHR '':'' \<notin> set (ms_flow_directory m)
    \<and> list_all (\<lambda>p. p \<notin> set [[], ''.'', ''..'']) (split_on (CHR ''/'') (ms_flow_directory m))
    \<and> 1 \<le> ms_timeout m \<and> ms_timeout m \<le> 3600"

record mobile_result =
  mo_gate :: gate_name
  mo_status :: gate_status
  mo_output :: string
  mo_flow_digest :: string
  mo_report_digest :: "string option"
  mo_tests_run :: nat
  mo_artifacts :: "string option"

subsection \<open>The flow inputs\<close>

datatype flow_entry =
    Flow_File string string
  | Flow_Directory string "flow_entry list"
  | Flow_Redirected
  | Flow_Special

definition max_flow_bytes :: nat where "max_flow_bytes = 50000000"
definition max_flow_files :: nat where "max_flow_files = 1000"
definition max_flow_entries :: nat where "max_flow_entries = 2000"
definition max_flow_depth :: nat where "max_flow_depth = 16"

text \<open>A file's path below the root, as its components, with its bytes; a directory waiting for its listing with its depth.\<close>

type_synonym flow_file = "string list \<times> string"
type_synonym flow_pending = "(string list \<times> flow_entry list \<times> nat) list"

definition pending_size :: "flow_pending \<Rightarrow> nat" where
  "pending_size ps = sum_list (map (\<lambda>(p, es, d). Suc (size_list size es)) ps)"

fun scan_children ::
  "string list \<Rightarrow> nat \<Rightarrow> flow_entry list \<Rightarrow> flow_pending \<Rightarrow> flow_file list \<Rightarrow> nat \<Rightarrow>
    (flow_pending \<times> flow_file list \<times> nat) option"
where
  "scan_children p d [] pending files n = Some (pending, files, n)"
| "scan_children p d (e # es) pending files n =
    (if max_flow_entries < n + 1 then None
     else case e of
       Flow_Redirected \<Rightarrow> None
     | Flow_Special \<Rightarrow> None
     | Flow_Directory name cs \<Rightarrow> scan_children p d es ((p @ [name], cs, d + 1) # pending) files (n + 1)
     | Flow_File name content \<Rightarrow>
         if max_flow_files < length files + 1 then None
         else scan_children p d es pending (files @ [(p @ [name], content)]) (n + 1))"

lemma scan_children_size:
  "scan_children p d es pending files n = Some (pending', files', n') \<Longrightarrow>
    pending_size pending' \<le> pending_size pending + size_list size es"
  by (induction p d es pending files n rule: scan_children.induct)
    (auto simp: pending_size_def split: if_splits flow_entry.splits)

function bounded_files :: "flow_pending \<Rightarrow> flow_file list \<Rightarrow> nat \<Rightarrow> flow_file list option" where
  "bounded_files [] files n = Some files"
| "bounded_files ((p, es, d) # pending) files n =
    (if max_flow_depth < d then None
     else case scan_children p d es pending files n of
       None \<Rightarrow> None
     | Some (pending', files', n') \<Rightarrow> bounded_files pending' files' n')"
  by pat_completeness auto

termination
proof (relation "measure (\<lambda>(ps, files, n). pending_size ps)")
  show "((pending', files', n'), ((p, es, d) # pending, files, n)) \<in> measure (\<lambda>(ps, files, n). pending_size ps)"
    if "scan_children p d es pending files n = Some x2" "(pending', y) = x2" "(files', n') = y" for p es d pending files n x2 pending' y files' n'
    using scan_children_size [of p d es pending files n pending' files' n'] that by (auto simp: pending_size_def)
qed simp

definition framed :: "string \<Rightarrow> string" where
  "framed s = map char_of (be_bytes 8 (length s)) @ s"

fun slashed :: "string list \<Rightarrow> string" where
  "slashed [] = []"
| "slashed [p] = p"
| "slashed (p # q # ps) = p @ ''/'' @ slashed (q # ps)"

definition flow_bytes :: "flow_file list \<Rightarrow> string" where
  "flow_bytes fs = concat (map (\<lambda>(p, content). framed (utf8 (slashed p)) @ framed content) fs)"

definition flow_yaml :: "flow_file \<Rightarrow> bool" where
  "flow_yaml f \<longleftrightarrow> lower (path_suffix (slashed (fst f))) \<in> set [''.yaml'', ''.yml'']"

definition flow_digest :: "flow_entry list \<Rightarrow> string option" where
  "flow_digest es =
    (case bounded_files [([], es, 0)] [] 0 of
       None \<Rightarrow> None
     | Some files \<Rightarrow>
         let fs = sort_key fst files in
         if max_flow_bytes < sum_list (map (length \<circ> snd) fs) \<or> \<not> list_ex flow_yaml fs then None
         else Some (''sha256:'' @ sha256_hex (flow_bytes fs)))"

subsection \<open>The adapter\<close>

text \<open>
  What goes wrong outside: a \<^verbatim>\<open>FileNotFoundError\<close>, the runner's timeout, and an \<^verbatim>\<open>OSError\<close> or \<^verbatim>\<open>ValueError\<close>, which a
  missing or redirected directory is too. \<open>mh_locate\<close> resolves the flow directory inside the work tree and refuses
  redirected parents; \<open>mh_identity\<close> is the identity of the evidence directory and its parents.
\<close>

datatype mobile_error = Not_Found | Deadline | Unusable

record 'x mobile_host =
  mh_system :: string
  mh_executable :: string
  mh_locate :: "('x, mobile_error, string) eff"
  mh_flows :: "('x, mobile_error, flow_entry list) eff"
  mh_artifacts :: "('x, mobile_error, string) eff"
  mh_identity :: "('x, mobile_error, (int \<times> int) list) eff"
  mh_run :: "string list \<Rightarrow> int \<Rightarrow> ('x, mobile_error, int) eff"
  mh_read_report :: "('x, mobile_error, string) eff"
  mh_decode :: "string \<Rightarrow> string option"
  mh_xml :: "string \<Rightarrow> element option"

definition flows_digest :: "'x mobile_host \<Rightarrow> ('x, mobile_error, string) eff" where
  "flows_digest h = sbind (mh_flows h) (\<lambda>es. case flow_digest es of None \<Rightarrow> sraise Unusable | Some d \<Rightarrow> sreturn d)"

definition mobile_arguments :: "'x mobile_host \<Rightarrow> mobile_spec \<Rightarrow> string \<Rightarrow> string \<Rightarrow> string list" where
  "mobile_arguments h m artifacts source =
    [mh_executable h, ''--device'', ms_device_id m, ''--platform'', ms_platform m, ''test'', ''--format'', ''junit'',
     ''--output'', artifacts @ ''/report.xml'', ''--test-output-dir'', artifacts, ''--debug-output'', artifacts, source]"

definition stopped :: "mobile_result \<Rightarrow> mobile_error \<Rightarrow> mobile_result" where
  "stopped r e =
    (case e of
       Not_Found \<Rightarrow> r\<lparr>mo_status := if mo_artifacts r = None then Gate_Fail else Gate_Not_Available,
         mo_output := ''Required runner or input is unavailable''\<rparr>
     | Deadline \<Rightarrow> r\<lparr>mo_status := Gate_Fail, mo_output := ''Mobile deadline exceeded; worker must tear down device/processes''\<rparr>
     | Unusable \<Rightarrow> r\<lparr>mo_status := Gate_Fail,
         mo_output := ''Mobile inputs/report failed validation; inspect restricted artifacts''\<rparr>)"

text \<open>What a step yields, or the result as it stood with the exception's status.\<close>

definition attempt :: "mobile_result \<Rightarrow> ('x, mobile_error, 'a) eff \<Rightarrow> ('a \<Rightarrow> 'x \<Rightarrow> mobile_result \<times> 'x) \<Rightarrow> 'x \<Rightarrow> mobile_result \<times> 'x" where
  "attempt r m f x = (case m x of (Inl e, y) \<Rightarrow> (stopped r e, y) | (Inr a, y) \<Rightarrow> f a y)"

definition judged :: "'x mobile_host \<Rightarrow> mobile_spec \<Rightarrow> mobile_result \<Rightarrow> string \<Rightarrow> mobile_result" where
  "judged h m r content =
    (case parse_report (mh_decode h) (mh_xml h) (ms_expected_tests m) content of
       Inl e \<Rightarrow> stopped r Unusable
     | Inr s \<Rightarrow> r\<lparr>mo_report_digest := Some (''sha256:'' @ sha256_hex content), mo_tests_run := rs_tests s,
         mo_status := if report_passed s then Gate_Pass else Gate_Fail,
         mo_output := if report_passed s then ''Expected flow results verified'' else ''Flows failed/skipped''\<rparr>)"

definition host_suits :: "'x mobile_host \<Rightarrow> mobile_spec \<Rightarrow> bool" where
  "host_suits h m \<longleftrightarrow> mh_system h \<in> set [''Darwin'', ''Linux''] \<and> (ms_platform m = ''ios'' \<longrightarrow> mh_system h = ''Darwin'')"

definition run_flows :: "'x mobile_host \<Rightarrow> mobile_spec \<Rightarrow> mobile_result \<Rightarrow> 'x \<Rightarrow> mobile_result \<times> 'x" where
  "run_flows h m r =
    attempt r (mh_locate h) (\<lambda>source.
    attempt r (flows_digest h) (\<lambda>digest. let r = r\<lparr>mo_flow_digest := digest\<rparr> in
    attempt r (mh_artifacts h) (\<lambda>artifacts.
    attempt r (mh_identity h) (\<lambda>identity. let r = r\<lparr>mo_artifacts := Some artifacts\<rparr> in
    attempt r (mh_run h (mobile_arguments h m artifacts source) (ms_timeout m)) (\<lambda>exit_code.
    attempt r (flows_digest h) (\<lambda>digest'.
    if digest' \<noteq> digest then Pair (stopped r Unusable)
    else if exit_code \<noteq> 0 then Pair (r\<lparr>mo_status := Gate_Fail, mo_output := ''Maestro returned a nonzero exit status''\<rparr>)
    else attempt r (mh_identity h) (\<lambda>identity'.
      if identity' \<noteq> identity then Pair (stopped r Unusable)
      else attempt r (mh_read_report h) (\<lambda>content. Pair (judged h m r content)))))))))"

definition mobile_run :: "'x mobile_host \<Rightarrow> mobile_spec \<Rightarrow> gate_name \<Rightarrow> 'x \<Rightarrow> mobile_result \<times> 'x" where
  "mobile_run h m g =
    (let r = \<lparr>mo_gate = g, mo_status = Gate_Not_Available, mo_output = [], mo_flow_digest = [], mo_report_digest = None,
       mo_tests_run = 0, mo_artifacts = None\<rparr> in
     if g \<noteq> G_Mobile_E2E then Pair (r\<lparr>mo_output := ''This adapter only provides the mobile_e2e gate''\<rparr>)
     else if \<not> host_suits h m then Pair (r\<lparr>mo_output := ''Requires a qualified Linux/Android or macOS mobile worker''\<rparr>)
     else run_flows h m r)"

subsection \<open>What a pass means\<close>

lemma stopped_fails: "mo_status (stopped r e) \<noteq> Gate_Pass"
  by (cases e) (simp_all add: stopped_def)

lemma attempt_pass:
  assumes "mo_status res = Gate_Pass"
  shows "attempt r m f x = (res, y) \<longleftrightarrow> (\<exists>a z. m x = (Inr a, z) \<and> f a z = (res, y))"
  using assms by (auto simp: attempt_def stopped_fails split: prod.splits sum.splits)

lemma judged_pass:
  assumes "mo_status (judged h m r content) = Gate_Pass"
  shows "\<exists>s. parse_report (mh_decode h) (mh_xml h) (ms_expected_tests m) content = Inr s \<and> report_passed s
    \<and> mo_report_digest (judged h m r content) = Some (''sha256:'' @ sha256_hex content)
    \<and> mo_flow_digest (judged h m r content) = mo_flow_digest r"
  using assms by (auto simp: judged_def stopped_def split: sum.splits if_splits)

text \<open>
  A passing mobile gate has run the flows once, with exit code 0, between two readings of the same flow inputs, and its
  report names exactly the expected flows, each of them successful.
\<close>

lemma flows_digest_Inr:
  "flows_digest h x = (Inr d, y) \<longleftrightarrow> (\<exists>es. mh_flows h x = (Inr es, y) \<and> flow_digest es = Some d)"
  by (auto simp: flows_digest_def sbind_def split: prod.splits sum.splits option.splits)

lemma mobile_pass:
  assumes "mobile_run h m g x = (res, y)" and pass: "mo_status res = Gate_Pass"
  shows "g = G_Mobile_E2E \<and> host_suits h m
    \<and> (\<exists>source artifacts a b content s es es' before after.
      mh_flows h before = (Inr es, after) \<and> flow_digest es = Some (mo_flow_digest res)
      \<and> mh_run h (mobile_arguments h m artifacts source) (ms_timeout m) a = (Inr 0, b)
      \<and> fst (mh_flows h b) = Inr es' \<and> flow_digest es' = Some (mo_flow_digest res)
      \<and> mo_report_digest res = Some (''sha256:'' @ sha256_hex content)
      \<and> parse_report (mh_decode h) (mh_xml h) (ms_expected_tests m) content = Inr s \<and> report_passed s)"
proof -
  have g: "g = G_Mobile_E2E" "host_suits h m"
    and run: "run_flows h m \<lparr>mo_gate = g, mo_status = Gate_Not_Available, mo_output = [], mo_flow_digest = [],
      mo_report_digest = None, mo_tests_run = 0, mo_artifacts = None\<rparr> x = (res, y)"
    using assms by (auto simp: mobile_run_def Let_def split: if_splits)
  obtain source x1 digest x2 artifacts x3 identity x4 x5 x6 x7 content where
    steps: "flows_digest h x1 = (Inr digest, x2)"
      "mh_run h (mobile_arguments h m artifacts source) (ms_timeout m) x4 = (Inr 0, x5)" "flows_digest h x5 = (Inr digest, x6)"
    and res: "res = judged h m \<lparr>mo_gate = g, mo_status = Gate_Not_Available, mo_output = [], mo_flow_digest = digest,
      mo_report_digest = None, mo_tests_run = 0, mo_artifacts = Some artifacts\<rparr> content"
    using run pass unfolding run_flows_def Let_def
    by (auto simp: attempt_pass [OF pass] stopped_fails split: if_splits)
  obtain es es' where es: "mh_flows h x1 = (Inr es, x2)" "flow_digest es = Some digest"
    "mh_flows h x5 = (Inr es', x6)" "flow_digest es' = Some digest"
    using steps(1,3) unfolding flows_digest_Inr by blast
  obtain s where s: "parse_report (mh_decode h) (mh_xml h) (ms_expected_tests m) content = Inr s" "report_passed s"
    "mo_report_digest res = Some (''sha256:'' @ sha256_hex content)" "mo_flow_digest res = digest"
    using judged_pass pass unfolding res by fastforce
  have "fst (mh_flows h x5) = Inr es'" using es(3) by simp
  then show ?thesis using g steps(2) es s by blast
qed

end
