(* ===== verification/Toolchain.thy ===== *)
theory Toolchain
  imports Maestro
begin

text \<open>
  The declared gates of a target repository: the contract (\<^verbatim>\<open>ports/toolchain.py\<close>, \<^verbatim>\<open>adapters/toolchain_config.py\<close>) and
  its bounded local execution (\<^verbatim>\<open>adapters/subprocess_toolchain.py\<close>) on a POSIX host, with \<^verbatim>\<open>shlex.split\<close>.

  The YAML reader, the file system, \<^verbatim>\<open>shutil.which\<close>, the processes, the clock with its floating point and the replacing
  decoder are parameters. Durations are left out of the results, and no argument holds a NUL.
\<close>

subsection \<open>The contract\<close>

fun gate_of :: "string \<Rightarrow> gate_name option" where
  "gate_of s = map_of
    [(''build'', G_Build), (''unit'', G_Unit), (''acceptance'', G_Acceptance), (''types'', G_Types), (''coverage'', G_Coverage),
     (''mutation'', G_Mutation), (''contract'', G_Contract), (''mobile_e2e'', G_Mobile_E2E), (''visual'', G_Visual)] s"

fun gate_text :: "gate_name \<Rightarrow> string" where
  "gate_text G_Build = ''build''" | "gate_text G_Unit = ''unit''" | "gate_text G_Acceptance = ''acceptance''"
| "gate_text G_Types = ''types''" | "gate_text G_Coverage = ''coverage''" | "gate_text G_Mutation = ''mutation''"
| "gate_text G_Contract = ''contract''" | "gate_text G_Mobile_E2E = ''mobile_e2e''" | "gate_text G_Visual = ''visual''"

lemma gate_of_text: "gate_of (gate_text g) = Some g"
  by (cases g) simp_all

record toolchain_spec =
  ts_language :: string
  ts_commands :: "(gate_name \<times> string) list"

definition supports :: "toolchain_spec \<Rightarrow> gate_name \<Rightarrow> bool" where
  "supports t g \<longleftrightarrow> g \<in> fst ` set (ts_commands t)"

definition read_command :: "string \<times> json \<Rightarrow> (gate_name \<times> string) option" where
  "read_command p = (case (gate_of (fst p), json_str (Some (snd p))) of (Some g, Some c) \<Rightarrow> Some (g, c) | _ \<Rightarrow> None)"

definition read_commands :: "json option \<Rightarrow> (gate_name \<times> string) list option" where
  "read_commands v =
    (case v of None \<Rightarrow> Some [] | Some (JObj kvs) \<Rightarrow> those (map read_command kvs) | _ \<Rightarrow> None)"

definition read_toolchain :: "json \<Rightarrow> toolchain_spec option" where
  "read_toolchain v =
    (case (json_str (json_get v ''language''), read_commands (json_get v ''commands'')) of
       (Some l, Some cs) \<Rightarrow> Some \<lparr>ts_language = l, ts_commands = cs\<rparr> | _ \<Rightarrow> None)"

definition max_toolchain_bytes :: nat where
  "max_toolchain_bytes = 1048576"

text \<open>\<open>None\<close> is the \<^verbatim>\<open>ValueError\<close> of an unusable contract; \<open>contents\<close> is what a regular file, no link, holds.\<close>

definition load_toolchain :: "(string \<Rightarrow> json option) \<Rightarrow> string option \<Rightarrow> toolchain_spec option" where
  "load_toolchain yaml contents =
    (case contents of
       None \<Rightarrow> None
     | Some bytes \<Rightarrow> if max_toolchain_bytes < length bytes then None else Option.bind (yaml bytes) read_toolchain)"

subsection \<open>Commands\<close>

definition shell_chars :: "char set" where
  "shell_chars = {CHR '';'', CHR ''|'', CHR ''>'', CHR ''<'', CHR 0x60}"

definition command_parts :: "string list \<Rightarrow> string + string list" where
  "command_parts parts = (if parts = [] \<or> [] \<in> set parts then Inl ''Empty command segment'' else Inr parts)"

fun split_scan :: "string \<Rightarrow> char option \<Rightarrow> bool \<Rightarrow> string \<Rightarrow> string list \<Rightarrow> string + string list" where
  "split_scan [] quote escaped current parts =
    (if quote \<noteq> None \<or> escaped then Inl ''Unterminated command quoting'' else command_parts (parts @ [strip current]))"
| "split_scan (c # cs) quote escaped current parts =
    (if escaped then split_scan cs quote False (current @ [c]) parts
     else if c = CHR 0x5C \<and> quote \<noteq> Some (CHR 0x27) then split_scan cs quote True (current @ [c]) parts
     else if c = CHR 0x27 \<or> c = CHR 0x22
     then split_scan cs (if quote = Some c then None else if quote = None then Some c else quote) False (current @ [c]) parts
     else if quote = None \<and> c = CHR ''&'' \<and> take 1 cs = ''&'' then split_scan (drop 1 cs) None False [] (parts @ [strip current])
     else if quote = None \<and> c \<in> shell_chars then Inl ''Unsupported shell syntax''
     else if quote = None \<and> c = CHR ''$'' \<and> take 1 cs = ''('' then Inl ''Unsupported shell substitution''
     else split_scan cs quote False (current @ [c]) parts)"

definition split_commands :: "string \<Rightarrow> string + string list" where
  "split_commands command = split_scan command None False [] []"

datatype lex_state = Between | In_Word | In_Quote char | After_Escape "char option"

definition lex_space :: "char \<Rightarrow> bool" where
  "lex_space c \<longleftrightarrow> c \<in> {CHR '' '', CHR 0x09, CHR 0x0D, CHR 0x0A}"

definition lex_emit :: "string \<Rightarrow> bool \<Rightarrow> string + string list \<Rightarrow> string + string list" where
  "lex_emit token quoted rest = (if token = [] \<and> \<not> quoted then rest else ebind rest (\<lambda>ts. Inr (token # ts)))"

fun lex_scan :: "lex_state \<Rightarrow> string \<Rightarrow> bool \<Rightarrow> string \<Rightarrow> string + string list" where
  "lex_scan st token quoted [] = (case st of
     In_Quote q \<Rightarrow> Inl ''No closing quotation''
   | After_Escape e \<Rightarrow> Inl ''No escaped character''
   | _ \<Rightarrow> lex_emit token quoted (Inr []))"
| "lex_scan (In_Quote q) token quoted (c # cs) =
    (if c = q then lex_scan In_Word token True cs
     else if c = CHR 0x5C \<and> q = CHR 0x22 then lex_scan (After_Escape (Some q)) token True cs
     else lex_scan (In_Quote q) (token @ [c]) True cs)"
| "lex_scan (After_Escape None) token quoted (c # cs) = lex_scan In_Word (token @ [c]) quoted cs"
| "lex_scan (After_Escape (Some q)) token quoted (c # cs) =
    lex_scan (In_Quote q) (token @ (if c \<noteq> CHR 0x5C \<and> c \<noteq> q then [CHR 0x5C, c] else [c])) quoted cs"
| "lex_scan st token quoted (c # cs) =
    (if lex_space c then lex_emit token quoted (lex_scan Between [] False cs)
     else if c = CHR 0x5C then lex_scan (After_Escape None) token quoted cs
     else if c = CHR 0x27 \<or> c = CHR 0x22 then lex_scan (In_Quote c) token quoted cs
     else lex_scan In_Word (token @ [c]) quoted cs)"

definition shlex_split :: "string \<Rightarrow> string + string list" where
  "shlex_split s = lex_scan Between [] False s"

text \<open>The argument vectors, their programs looked up on the path where found.\<close>

definition resolved :: "(string \<Rightarrow> string option) \<Rightarrow> string list \<Rightarrow> string + string list" where
  "resolved which argv = (case argv of
     [] \<Rightarrow> Inl ''Empty command segment'' | a # as \<Rightarrow> Inr ((case which a of None \<Rightarrow> a | Some p \<Rightarrow> p) # as))"

fun argument_vectors :: "(string \<Rightarrow> string option) \<Rightarrow> string list \<Rightarrow> string + string list list" where
  "argument_vectors which [] = Inr []"
| "argument_vectors which (p # ps) =
    ebind (shlex_split p) (\<lambda>ws. ebind (resolved which ws) (\<lambda>a. ebind (argument_vectors which ps) (\<lambda>as. Inr (a # as))))"

definition arguments_of :: "(string \<Rightarrow> string option) \<Rightarrow> string \<Rightarrow> string + string list list" where
  "arguments_of which command = ebind (split_commands command) (argument_vectors which)"

subsection \<open>The environment\<close>

definition sensitive_parts :: "string list" where
  "sensitive_parts = [''SECRET'', ''TOKEN'', ''PASSWORD'', ''PRIVATE_KEY'', ''API_KEY'']"

definition sensitive_key :: "string \<Rightarrow> bool" where
  "sensitive_key k \<longleftrightarrow> list_ex (\<lambda>p. upper_mentions p k) sensitive_parts"

definition safe_environment :: "(string \<times> string) list \<Rightarrow> string option \<Rightarrow> (string \<times> string) list" where
  "safe_environment environ venv =
    (let kept = filter (\<lambda>kv. \<not> sensitive_key (fst kv)) environ in
     case venv of
       None \<Rightarrow> kept
     | Some bin \<Rightarrow> AList.update ''PATH'' (bin @ '':'' @ (case map_of kept ''PATH'' of None \<Rightarrow> [] | Some p \<Rightarrow> p)) kept)"

subsection \<open>Running a gate\<close>

datatype process_outcome = Exited int string | Timed_Out string | Tool_Missing | Process_Error string

record 'x gate_host =
  gh_directory :: "'x \<Rightarrow> bool \<times> 'x"
  gh_environ :: "(string \<times> string) list"
  gh_venv :: "'x \<Rightarrow> string option \<times> 'x"
  gh_which :: "string option \<Rightarrow> string \<Rightarrow> string option"
  gh_clock :: "'x \<Rightarrow> int \<times> 'x"
  gh_remaining :: "int \<Rightarrow> int \<Rightarrow> int"
  gh_process :: "string list \<Rightarrow> (string \<times> string) list \<Rightarrow> int \<Rightarrow> 'x \<Rightarrow> process_outcome \<times> 'x"
  gh_decode :: "string \<Rightarrow> string"

record gate_result =
  gr_gate :: gate_name
  gr_status :: gate_status
  gr_output :: string
  gr_failures :: "(string \<times> string) list"

definition gate_failure :: "gate_name \<Rightarrow> string \<Rightarrow> string \<Rightarrow> string \<Rightarrow> gate_result" where
  "gate_failure g printed rule message =
    \<lparr>gr_gate = g, gr_status = Gate_Fail, gr_output = printed, gr_failures = [(rule, message)]\<rparr>"

fun run_commands ::
  "'x gate_host \<Rightarrow> gate_name \<Rightarrow> nat \<Rightarrow> (string \<times> string) list \<Rightarrow> int \<Rightarrow> string list list \<Rightarrow> string \<Rightarrow> 'x \<Rightarrow> gate_result \<times> 'x"
where
  "run_commands h g limit env started [] captured x =
    (\<lparr>gr_gate = g, gr_status = Gate_Pass, gr_output = gh_decode h (take limit captured), gr_failures = []\<rparr>, x)"
| "run_commands h g limit env started (argv # argvs) captured x =
    (case gh_clock h x of (now, x1) \<Rightarrow>
       let remaining = gh_remaining h started now in
       if remaining \<le> 0 then (gate_failure g (gh_decode h (take limit captured)) ''timeout'' ''gate deadline exceeded'', x1)
       else (case gh_process h argv env remaining x1 of
         (Timed_Out printed, x2) \<Rightarrow> (gate_failure g (gh_decode h (take limit (captured @ printed))) ''timeout'' ''gate timed out'', x2)
       | (Tool_Missing, x2) \<Rightarrow> (\<lparr>gr_gate = g, gr_status = Gate_Not_Available, gr_output = [],
           gr_failures = [(''tool_missing'', ''declared executable is unavailable'')]\<rparr>, x2)
       | (Process_Error message, x2) \<Rightarrow> (gate_failure g (gh_decode h (take limit captured)) ''process'' message, x2)
       | (Exited code printed, x2) \<Rightarrow>
           if code \<noteq> 0 then (gate_failure g (gh_decode h (take limit (captured @ printed))) ''exit_code''
             (''command exited with '' @ show_int code), x2)
           else run_commands h g limit env started argvs (captured @ printed) x2))"

definition run_gate :: "'x gate_host \<Rightarrow> toolchain_spec \<Rightarrow> nat \<Rightarrow> gate_name \<Rightarrow> 'x \<Rightarrow> gate_result \<times> 'x" where
  "run_gate h t limit g x =
    (case map_of (ts_commands t) g of
       None \<Rightarrow> (\<lparr>gr_gate = g, gr_status = Gate_Not_Available,
         gr_output = ''No '' @ gate_text g @ '' command is declared for '' @ ts_language t @ ''.'', gr_failures = []\<rparr>, x)
     | Some command \<Rightarrow> (case gh_directory h x of
         (False, x1) \<Rightarrow> (gate_failure g [] ''workdir'' ''workdir is not a directory'', x1)
       | (True, x1) \<Rightarrow> (case gh_venv h x1 of (venv, x2) \<Rightarrow>
           let env = safe_environment (gh_environ h) venv in
           (case arguments_of (gh_which h (map_of env ''PATH'')) command of
             Inl message \<Rightarrow> (gate_failure g [] ''shell_syntax'' message, x2)
           | Inr argvs \<Rightarrow> (case gh_clock h x2 of (started, x3) \<Rightarrow> run_commands h g limit env started argvs [] x3)))))"

subsection \<open>What a pass means\<close>

text \<open>The processes that ran, in order, each with its exit code.\<close>

fun ran :: "'x gate_host \<Rightarrow> (string \<times> string) list \<Rightarrow> string list list \<Rightarrow> 'x \<Rightarrow> 'x \<Rightarrow> bool" where
  "ran h env [] x y \<longleftrightarrow> x = y"
| "ran h env (argv # argvs) x y \<longleftrightarrow>
    (\<exists>x1 now remaining printed x2. gh_clock h x = (now, x1) \<and> 0 < remaining
      \<and> gh_process h argv env remaining x1 = (Exited 0 printed, x2) \<and> ran h env argvs x2 y)"

lemma run_commands_pass:
  "run_commands h g limit env started argvs captured x = (r, y) \<Longrightarrow> gr_status r = Gate_Pass \<Longrightarrow> ran h env argvs x y"
proof (induction h g limit env started argvs captured x rule: run_commands.induct)
  case (1 h g limit env started captured x)
  then show ?case by simp
next
  case (2 h g limit env started argv argvs captured x)
  obtain now x1 where clock: "gh_clock h x = (now, x1)" by (cases "gh_clock h x")
  obtain o' x2 where process: "gh_process h argv env (gh_remaining h started now) x1 = (o', x2)"
    by (cases "gh_process h argv env (gh_remaining h started now) x1")
  have "0 < gh_remaining h started now" "\<exists>printed. o' = Exited 0 printed"
    using "2.prems" by (auto simp: clock process gate_failure_def Let_def split: if_splits process_outcome.splits)
  then obtain printed where o': "0 < gh_remaining h started now" "o' = Exited 0 printed" by blast
  then have "ran h env argvs x2 y"
    using "2.IH" [OF clock [symmetric] refl _ process [symmetric]] "2.prems" by (simp add: clock process)
  then show ?case using clock process o' by auto
qed

lemma safe_environment_keys:
  assumes "(k, v) \<in> set (safe_environment environ venv)"
  shows "\<not> sensitive_key k"
proof -
  have path: "\<not> sensitive_key ''PATH''" by code_simp
  have "fst ` set (safe_environment environ venv) \<subseteq> insert ''PATH'' {k. \<not> sensitive_key k}"
    by (auto simp: safe_environment_def Let_def dom_update split: option.splits)
  then show ?thesis using assms path by force
qed

text \<open>
  A gate passes only when its command is declared and every one of its programs ran in order to exit code 0 before the
  deadline, in an environment without a sensitive key. A gate that is not declared is never reported as passed.
\<close>

lemma gate_pass:
  assumes "run_gate h t limit g x = (r, y)" "gr_status r = Gate_Pass"
  shows "supports t g \<and> (\<exists>command env argvs start. map_of (ts_commands t) g = Some command
    \<and> arguments_of (gh_which h (map_of env ''PATH'')) command = Inr argvs
    \<and> ran h env argvs start y \<and> (\<forall>(k, v) \<in> set env. \<not> sensitive_key k))"
proof -
  obtain command where command: "map_of (ts_commands t) g = Some command"
    using assms by (auto simp: run_gate_def split: option.splits)
  have "supports t g"
    using map_of_SomeD [OF command] unfolding supports_def by force
  moreover obtain venv argvs started x3 where run: "arguments_of (gh_which h (map_of (safe_environment (gh_environ h) venv) ''PATH'')) command = Inr argvs"
    "run_commands h g limit (safe_environment (gh_environ h) venv) started argvs [] x3 = (r, y)"
    using assms command
    by (auto simp: run_gate_def gate_failure_def Let_def split: prod.splits bool.splits sum.splits)
  moreover have "ran h (safe_environment (gh_environ h) venv) argvs x3 y" by (rule run_commands_pass [OF run(2) assms(2)])
  ultimately show ?thesis using command safe_environment_keys by (blast intro: ballI)
qed

end
