(* ===== verification/Cli.thy ===== *)
theory Cli
  imports Local_Evidence Toolchain Workflow_Memory
begin

text \<open>
  The developer's surfaces: the commands of \<^verbatim>\<open>cli.py\<close>, whose arguments are parsed by \<^verbatim>\<open>argparse\<close>, and the read-only tools
  of \<^verbatim>\<open>application/mcp.py\<close>. A command prints a document or a message and ends in an exit code; how a document is
  printed is not modelled.
\<close>

datatype printed =
    Message string
  | Unavailable string
  | Inspection review_inspection
  | Trace review_trace
  | Decision test_evidence_decision
  | Gate_Report gate_result
  | Mobile_Report mobile_result
  | Elicited string

subsection \<open>Stories and gates\<close>

text \<open>\<open>elicit\<close> runs the agent of a model on a message and prints its output, or fails in any way.\<close>

definition cmd_chat ::
  "(string \<Rightarrow> string \<Rightarrow> string \<Rightarrow> 'x \<Rightarrow> string option \<times> 'x) \<Rightarrow> string \<Rightarrow> string option \<Rightarrow> string option \<Rightarrow> string \<Rightarrow> 'x \<Rightarrow> (printed \<times> int) \<times> 'x"
where
  "cmd_chat elicit env_model message model item x =
    (case message of
       None \<Rightarrow> ((Message ''chat requires --message'', 2), x)
     | Some s \<Rightarrow>
         if strip s = [] then ((Message ''chat requires --message'', 2), x)
         else
           let chosen = (if model \<in> {None, Some []} then strip env_model else the model) in
           if chosen = [] then ((Unavailable ''MODEL_PROVIDER_NOT_CONFIGURED'', 2), x)
           else (case elicit chosen s item x of
             (None, y) \<Rightarrow> ((Unavailable ''MODEL_EXECUTION_UNAVAILABLE'', 2), y)
           | (Some out, y) \<Rightarrow> ((Elicited out, 0), y)))"

definition cmd_gate :: "printed \<times> int" where
  "cmd_gate = (Unavailable ''APPROVAL_PROVIDER_NOT_CONFIGURED'', 2)"

subsection \<open>Archives\<close>

definition cmd_status ::
  "'a pydantic_scheme \<Rightarrow> (string \<Rightarrow> review_session option) \<Rightarrow> moment option \<Rightarrow> string option \<Rightarrow> printed \<times> int"
where
  "cmd_status px archive now path =
    (case path of
       None \<Rightarrow> (Message ''Operational backend not configured; use --review-session for advisory inspection.'', 2)
     | Some p \<Rightarrow>
         let refused = (Message ''Invalid or unavailable review archive; no live authority established.'', 2) in
         (case archive p of
            None \<Rightarrow> refused
          | Some ses \<Rightarrow> (case inspect_review px ses now of Inl e \<Rightarrow> refused | Inr i \<Rightarrow> (Inspection i, 0))))"

definition cmd_trace ::
  "'a pydantic_scheme \<Rightarrow> (string \<Rightarrow> review_session option) \<Rightarrow> string \<Rightarrow> string option \<Rightarrow> printed \<times> int"
where
  "cmd_trace px archive item path =
    (case path of
       None \<Rightarrow> (Message ''Operational backend not configured; provide --review-session for advisory trace.'', 2)
     | Some p \<Rightarrow>
         let refused = (Message ''Invalid or unavailable review archive; release trace is not established.'', 2) in
         (case archive p of
            None \<Rightarrow> refused
          | Some ses \<Rightarrow>
              if scope_work_item_id (seed_scope (ses_seed ses)) \<noteq> item
              then (Message ''Work-item identity does not match the review archive.'', 2)
              else (case trace_review px ses item of Inl e \<Rightarrow> refused | Inr t \<Rightarrow> (Trace t, 0))))"

subsection \<open>Gates of a target\<close>

definition gate_exit_code :: "gate_status \<Rightarrow> int" where
  "gate_exit_code s = (case s of Gate_Pass \<Rightarrow> 0 | Gate_Fail \<Rightarrow> 1 | Gate_Not_Available \<Rightarrow> 2)"

definition cmd_mobile_test :: "(mobile_spec \<Rightarrow> 'x mobile_host) \<Rightarrow> mobile_spec \<Rightarrow> 'x \<Rightarrow> (printed \<times> int) \<times> 'x" where
  "cmd_mobile_test host m x =
    (if \<not> mobile_spec_ok m then ((Message ''Invalid mobile test configuration'', 2), x)
     else case mobile_run (host m) m G_Mobile_E2E x of (r, y) \<Rightarrow> ((Mobile_Report r, gate_exit_code (mo_status r)), y))"

definition cmd_run_gate ::
  "'x gate_host \<Rightarrow> toolchain_spec option \<Rightarrow> bool \<Rightarrow> int \<Rightarrow> gate_name \<Rightarrow> 'x \<Rightarrow> (printed \<times> int) \<times> 'x"
where
  "cmd_run_gate h loaded positive_timeout output_bytes g x =
    (case loaded of
       None \<Rightarrow> ((Unavailable ''TOOLCHAIN_CONTRACT_UNAVAILABLE'', 2), x)
     | Some t \<Rightarrow>
         if \<not> positive_timeout \<or> output_bytes \<le> 0 then ((Unavailable ''TOOLCHAIN_CONTRACT_UNAVAILABLE'', 2), x)
         else case run_gate h t (nat output_bytes) g x of (r, y) \<Rightarrow> ((Gate_Report r, gate_exit_code (gr_status r)), y))"

subsection \<open>Test evidence\<close>

record verify_arguments =
  va_candidate_mode :: bool
  va_contract :: string
  va_before :: "string option"
  va_run :: "string option"
  va_candidate_sha :: "string option"

definition evidence_code :: "evidence_status \<Rightarrow> int" where
  "evidence_code s = (case s of EV_PASS \<Rightarrow> 0 | EV_FAIL \<Rightarrow> 1 | NOT_AVAILABLE \<Rightarrow> 2 | EV_NOT_APPLICABLE \<Rightarrow> 3)"

text \<open>A file that is not named is no run; one that is named must be readable.\<close>

definition optional_run :: "(string \<Rightarrow> suite_run option) \<Rightarrow> string option \<Rightarrow> suite_run option option" where
  "optional_run read path = (case path of None \<Rightarrow> Some None | Some p \<Rightarrow> map_option Some (read p))"

definition verify_decision ::
  "(string \<Rightarrow> baseline_contract option) \<Rightarrow> (string \<Rightarrow> suite_run option) \<Rightarrow> verify_arguments \<Rightarrow> test_evidence_decision option"
where
  "verify_decision contracts runs a =
    Option.bind (contracts (va_contract a)) (\<lambda>c.
    Option.bind (optional_run runs (va_run a)) (\<lambda>r.
    if \<not> va_candidate_mode a
    then (if va_candidate_sha a \<noteq> None then None
      else Option.bind (optional_run runs (va_before a)) (\<lambda>b. verify_baseline c b r))
    else (case (va_candidate_sha a, va_before a) of
      (Some sha, None) \<Rightarrow> verify_candidate c sha r
    | _ \<Rightarrow> None)))"

definition cmd_verify_tests ::
  "(string \<Rightarrow> baseline_contract option) \<Rightarrow> (string \<Rightarrow> suite_run option) \<Rightarrow> verify_arguments \<Rightarrow> printed \<times> int"
where
  "cmd_verify_tests contracts runs a =
    (case verify_decision contracts runs a of
       None \<Rightarrow> (Message ''Invalid or unavailable test evidence; no authority established.'', 2)
     | Some d \<Rightarrow> (Decision d, evidence_code (ted_status d)))"

text \<open>Exit code 0 is a passing decision and nothing else: it is never reached on missing or unreadable evidence.\<close>

lemma verify_exit_zero:
  assumes "cmd_verify_tests contracts runs a = (out, 0)"
  shows "\<exists>d. out = Decision d \<and> ted_status d = EV_PASS \<and> va_run a \<noteq> None"
proof -
  obtain d where d: "verify_decision contracts runs a = Some d" "out = Decision d" "evidence_code (ted_status d) = 0"
    using assms by (auto simp: cmd_verify_tests_def split: option.splits)
  have pass: "ted_status d = EV_PASS" using d(3) by (cases "ted_status d") (simp_all add: evidence_code_def)
  have "va_run a \<noteq> None"
  proof
    assume none: "va_run a = None"
    have "ted_status d \<noteq> EV_PASS"
      using d(1) none
      by (auto simp: verify_decision_def optional_run_def bind_eq_Some_conv verify_baseline_pass verify_candidate_pass
          split: if_splits option.splits)
    then show False using pass by simp
  qed
  then show ?thesis using d(2) pass by blast
qed

subsection \<open>Read-only tools\<close>

text \<open>The tenant is bound when the server is made; no tool takes one. \<open>None\<close> of a lookup is the tool's error.\<close>

definition make_tools :: "string \<Rightarrow> string option" where
  "make_tools tenant = (if strip tenant = [] then None else Some tenant)"

definition tool_list :: "'d workflow_store \<Rightarrow> string \<Rightarrow> 'd \<Rightarrow> workflow_error + workflow_item list" where
  "tool_list store tenant d = st_list store tenant d"

definition tool_get :: "'d workflow_store \<Rightarrow> string \<Rightarrow> string \<Rightarrow> 'd \<Rightarrow> workflow_error + workflow_item option" where
  "tool_get store tenant item d = st_get store tenant item d"

definition tool_trace :: "'d workflow_store \<Rightarrow> string \<Rightarrow> string \<Rightarrow> 'd \<Rightarrow> workflow_error + workflow_event list option" where
  "tool_trace store tenant item d =
    ebind (st_get store tenant item d) (\<lambda>found. case found of
      None \<Rightarrow> Inr None
    | Some i \<Rightarrow> ebind (st_trace store tenant item d) (\<lambda>events. Inr (Some events)))"

end
