(* ===== verification/Authorization.thy ===== *)
theory Authorization
  imports Review_Model
begin

text \<open>
  \<^verbatim>\<open>domain/authorization.py\<close>: authorizations, human approvals and the checks that run immediately
  before execution. The parameters of an authorization are a JSON object. \<open>Overflow_Error\<close> is the
  exception Python raises when a datetime near the ends of the calendar is moved to UTC.
\<close>

datatype on_expiry = RESTORE_PREVIOUS | HOLD_AND_ESCALATE | FAIL_CLOSED
datatype actuator_class = COOPERATIVE | OPERATIONAL_EXTERNAL | SECURITY_EXTERNAL
datatype authorization_error = Expired_Authorization | Stale_Authorization | Overflow_Error

fun on_expiry_value :: "on_expiry \<Rightarrow> string" where
  "on_expiry_value RESTORE_PREVIOUS = ''RESTORE_PREVIOUS''"
| "on_expiry_value HOLD_AND_ESCALATE = ''HOLD_AND_ESCALATE''"
| "on_expiry_value FAIL_CLOSED = ''FAIL_CLOSED''"

fun actuator_value :: "actuator_class \<Rightarrow> string" where
  "actuator_value COOPERATIVE = ''COOPERATIVE''"
| "actuator_value OPERATIONAL_EXTERNAL = ''OPERATIONAL_EXTERNAL''"
| "actuator_value SECURITY_EXTERNAL = ''SECURITY_EXTERNAL''"

definition utc_moment :: "datetime \<Rightarrow> authorization_error + moment" where
  "utc_moment d = (case astimezone_utc d of None \<Rightarrow> Inl Overflow_Error | Some t \<Rightarrow> Inr t)"

definition window_contains :: "datetime \<Rightarrow> datetime \<Rightarrow> datetime \<Rightarrow> authorization_error + bool" where
  "window_contains issued expires now =
    (if list_ex (\<lambda>d. dt_offset d = None) [issued, expires, now] then Inr False
     else ebind (utc_moment issued) (\<lambda>i. ebind (utc_moment now) (\<lambda>n.
       if \<not> i \<le> n then Inr False else ebind (utc_moment expires) (\<lambda>e. Inr (n < e)))))"

record target_binding =
  tgt_service :: string
  tgt_runtime_uid :: string
  tgt_container_id :: "string option"
  tgt_deployment_revision :: "string option"
  tgt_image_digest :: "string option"
  tgt_config_fingerprint :: "string option"

definition field_matches :: "string option \<Rightarrow> string option \<Rightarrow> bool" where
  "field_matches mine observed \<longleftrightarrow> mine = None \<or> mine = observed"

definition matches :: "target_binding \<Rightarrow> target_binding \<Rightarrow> bool" where
  "matches self observed \<longleftrightarrow>
    tgt_service self = tgt_service observed \<and> tgt_runtime_uid self = tgt_runtime_uid observed
    \<and> field_matches (tgt_container_id self) (tgt_container_id observed)
    \<and> field_matches (tgt_deployment_revision self) (tgt_deployment_revision observed)
    \<and> field_matches (tgt_image_digest self) (tgt_image_digest observed)
    \<and> field_matches (tgt_config_fingerprint self) (tgt_config_fingerprint observed)"

record human_approval =
  apr_id :: string
  apr_identity :: string
  apr_decision_digest :: string
  apr_action :: string
  apr_target :: target_binding
  apr_approved_at :: datetime
  apr_expires_at :: datetime
  apr_signature :: string

definition is_valid_for :: "human_approval \<Rightarrow> string \<Rightarrow> datetime \<Rightarrow> authorization_error + bool" where
  "is_valid_for a digest now =
    (if apr_decision_digest a \<noteq> digest then Inr False
     else window_contains (apr_approved_at a) (apr_expires_at a) now)"

record authorization =
  au_decision_id :: string
  au_action :: string
  au_actuator_class :: actuator_class
  au_target :: target_binding
  au_parameters :: "(string \<times> json) list"
  au_evidence_snapshot :: string
  au_coverage_snapshot :: string
  au_code_model_snapshot :: "string option"
  au_policy_version :: string
  au_authorized_at :: datetime
  au_expires_at :: datetime
  au_max_staleness_seconds :: int
  au_on_expiry :: on_expiry
  au_nonce :: string
  au_signature :: string
  au_human_approvals :: "human_approval list"

definition optional_field :: "string \<Rightarrow> string option \<Rightarrow> (string \<times> json) list" where
  "optional_field k v = (case v of None \<Rightarrow> [] | Some s \<Rightarrow> [(k, JStr s)])"

definition target_dump :: "target_binding \<Rightarrow> json" where
  "target_dump t = JObj
    ([(''service'', JStr (tgt_service t)), (''target_runtime_uid'', JStr (tgt_runtime_uid t))]
     @ optional_field ''container_id'' (tgt_container_id t)
     @ optional_field ''deployment_revision'' (tgt_deployment_revision t)
     @ optional_field ''image_digest'' (tgt_image_digest t)
     @ optional_field ''config_fingerprint'' (tgt_config_fingerprint t))"

definition decision_payload :: "authorization \<Rightarrow> (string \<times> json) list" where
  "decision_payload a =
    [(''decision_id'', JStr (au_decision_id a)), (''action'', JStr (au_action a)),
     (''actuator_class'', JStr (actuator_value (au_actuator_class a))),
     (''target'', target_dump (au_target a)), (''parameters'', JObj (au_parameters a)),
     (''evidence_snapshot'', JStr (au_evidence_snapshot a)),
     (''coverage_snapshot'', JStr (au_coverage_snapshot a)),
     (''code_model_snapshot'', json_option JStr (au_code_model_snapshot a)),
     (''policy_version'', JStr (au_policy_version a)),
     (''authorized_at'', JStr (isoformat (au_authorized_at a))),
     (''expires_at'', JStr (isoformat (au_expires_at a))),
     (''max_staleness_seconds'', JInt (au_max_staleness_seconds a)),
     (''on_expiry'', JStr (on_expiry_value (au_on_expiry a)))]"

definition decision_bytes :: "authorization \<Rightarrow> string" where
  "decision_bytes a = utf8 (dumps True (JObj (decision_payload a)))"

definition decision_digest :: "authorization \<Rightarrow> string" where
  "decision_digest a = sha256_hex (decision_bytes a)"

definition check_validity :: "authorization \<Rightarrow> datetime \<Rightarrow> authorization_error + unit" where
  "check_validity a now =
    ebind (window_contains (au_authorized_at a) (au_expires_at a) now) (\<lambda>current.
    if \<not> current then Inl Expired_Authorization
    else ebind (utc_moment now) (\<lambda>n. ebind (utc_moment (au_authorized_at a)) (\<lambda>i.
      require_all
        [(\<not> (au_max_staleness_seconds a < 0 \<or> au_max_staleness_seconds a * 1000000 < n - i),
            Expired_Authorization),
         (\<not> (au_actuator_class a = SECURITY_EXTERNAL \<and> au_on_expiry a \<notin> set [HOLD_AND_ESCALATE, FAIL_CLOSED]),
            Expired_Authorization)])))"

fun valid_approvals ::
  "authorization \<Rightarrow> string \<Rightarrow> datetime \<Rightarrow> human_approval list \<Rightarrow> authorization_error + human_approval list" where
  "valid_approvals a digest now [] = Inr []"
| "valid_approvals a digest now (p # ps) =
    ebind (is_valid_for p digest now) (\<lambda>ok.
    ebind (valid_approvals a digest now ps) (\<lambda>rest.
      Inr (if ok \<and> apr_action p = au_action a \<and> apr_target p = au_target a then p # rest else rest)))"

definition check_two_person :: "authorization \<Rightarrow> datetime \<Rightarrow> authorization_error + unit" where
  "check_two_person a now =
    ebind (check_validity a now) (\<lambda>_.
    ebind (valid_approvals a (decision_digest a) now (au_human_approvals a)) (\<lambda>valid.
    if length (fromkeys (map apr_identity valid)) < 2 then Inl Expired_Authorization else Inr ()))"

definition revalidate :: "authorization \<Rightarrow> target_binding \<Rightarrow> datetime \<Rightarrow> authorization_error + unit" where
  "revalidate a observed now =
    ebind (check_validity a now) (\<lambda>_.
    if \<not> matches (au_target a) observed then Inl Stale_Authorization else Inr ())"

subsection \<open>Windows\<close>

definition in_window :: "datetime \<Rightarrow> datetime \<Rightarrow> datetime \<Rightarrow> bool" where
  "in_window issued expires now \<longleftrightarrow>
    (\<exists>i e n. astimezone_utc issued = Some i \<and> astimezone_utc expires = Some e \<and> astimezone_utc now = Some n
      \<and> i \<le> n \<and> n < e)"

lemma utc_moment_iff [simp]: "utc_moment d = Inr t \<longleftrightarrow> astimezone_utc d = Some t"
  by (auto simp: utc_moment_def split: option.split)

lemma window_contains_iff: "window_contains issued expires now = Inr True \<longleftrightarrow> in_window issued expires now"
  by (auto simp: window_contains_def in_window_def ebind_eq_Inr dest: astimezone_utc_aware split: if_splits)

lemma is_valid_for_iff: "is_valid_for a digest now = Inr True \<longleftrightarrow>
    apr_decision_digest a = digest \<and> in_window (apr_approved_at a) (apr_expires_at a) now"
  by (auto simp: is_valid_for_def window_contains_iff)

lemma check_validity_iff:
  "check_validity a now = Inr u \<longleftrightarrow>
    (\<exists>i e n. astimezone_utc (au_authorized_at a) = Some i \<and> astimezone_utc (au_expires_at a) = Some e
      \<and> astimezone_utc now = Some n \<and> i \<le> n \<and> n < e \<and> n - i \<le> au_max_staleness_seconds a * 1000000)
    \<and> 0 \<le> au_max_staleness_seconds a
    \<and> (au_actuator_class a = SECURITY_EXTERNAL \<longrightarrow> au_on_expiry a \<noteq> RESTORE_PREVIOUS)"
  (is "?L = ?R")
proof
  assume ?L
  then show ?R
    by (cases "au_on_expiry a")
       (auto simp: check_validity_def window_contains_iff in_window_def split: if_splits)
next
  assume ?R
  then have "window_contains (au_authorized_at a) (au_expires_at a) now = Inr True"
    by (auto simp: window_contains_iff in_window_def)
  with \<open>?R\<close> show ?L
    by (cases "au_on_expiry a") (auto simp: check_validity_def ebind_eq_Inr)
qed

subsection \<open>Two persons\<close>

definition counts_for :: "authorization \<Rightarrow> datetime \<Rightarrow> human_approval \<Rightarrow> bool" where
  "counts_for a now p \<longleftrightarrow>
    apr_decision_digest p = decision_digest a \<and> apr_action p = au_action a \<and> apr_target p = au_target a
    \<and> in_window (apr_approved_at p) (apr_expires_at p) now"

lemma valid_approvals_set:
  "valid_approvals a (decision_digest a) now ps = Inr vs \<Longrightarrow> set vs = {p \<in> set ps. counts_for a now p}"
proof (induction ps arbitrary: vs)
  case Nil
  then show ?case by simp
next
  case (Cons p ps)
  then obtain ok rest where "is_valid_for p (decision_digest a) now = Inr ok"
    "valid_approvals a (decision_digest a) now ps = Inr rest"
    "vs = (if ok \<and> apr_action p = au_action a \<and> apr_target p = au_target a then p # rest else rest)"
    by auto
  moreover from this have "ok \<longleftrightarrow> apr_decision_digest p = decision_digest a
      \<and> in_window (apr_approved_at p) (apr_expires_at p) now"
    using is_valid_for_iff [of p "decision_digest a" now] by (cases ok) auto
  ultimately show ?case using Cons.IH by (auto simp: counts_for_def)
qed

lemma two_of_fromkeys: "2 \<le> length (fromkeys xs) \<Longrightarrow> \<exists>x \<in> set xs. \<exists>y \<in> set xs. x \<noteq> y"
proof -
  assume "2 \<le> length (fromkeys xs)"
  then have "2 \<le> card (set xs)" by (metis distinct_card distinct_fromkeys set_fromkeys)
  then show ?thesis by (metis card_2_iff' card_le_Suc0_iff_eq finite_set not_less_eq_eq numeral_2_eq_2)
qed

subsection \<open>The decision digest binds the decision\<close>

lemma canon_obj_set:
  assumes "canon (JObj kvs) = canon (JObj lws)"
  shows "(\<lambda>(k, v). (k, canon v)) ` set kvs = (\<lambda>(k, v). (k, canon v)) ` set lws"
proof -
  from assms have "set (sort_key fst (map (\<lambda>(k, v). (k, canon v)) kvs)) =
      set (sort_key fst (map (\<lambda>(k, v). (k, canon v)) lws))" by simp
  then show ?thesis by simp
qed

lemma optional_field_iff [simp]: "(l, v) \<in> (\<lambda>(k, v). (k, canon v)) ` set (optional_field k x) \<longleftrightarrow>
    (\<exists>s. x = Some s \<and> l = k \<and> v = JStr s)"
  by (auto simp: optional_field_def split: option.splits)

lemma target_dump_inj: "canon (target_dump x) = canon (target_dump y) \<Longrightarrow> x = y"
proof -
  assume "canon (target_dump x) = canon (target_dump y)"
  then have eq: "(k, JStr s) \<in> (\<lambda>(k, v). (k, canon v)) ` set (
      [(''service'', JStr (tgt_service x)), (''target_runtime_uid'', JStr (tgt_runtime_uid x))]
     @ optional_field ''container_id'' (tgt_container_id x)
     @ optional_field ''deployment_revision'' (tgt_deployment_revision x)
     @ optional_field ''image_digest'' (tgt_image_digest x)
     @ optional_field ''config_fingerprint'' (tgt_config_fingerprint x)) \<longleftrightarrow>
     (k, JStr s) \<in> (\<lambda>(k, v). (k, canon v)) ` set (
      [(''service'', JStr (tgt_service y)), (''target_runtime_uid'', JStr (tgt_runtime_uid y))]
     @ optional_field ''container_id'' (tgt_container_id y)
     @ optional_field ''deployment_revision'' (tgt_deployment_revision y)
     @ optional_field ''image_digest'' (tgt_image_digest y)
     @ optional_field ''config_fingerprint'' (tgt_config_fingerprint y))" for k s
    unfolding target_dump_def by (drule_tac canon_obj_set) simp
  have "tgt_service x = tgt_service y" "tgt_runtime_uid x = tgt_runtime_uid y"
    using eq [of "''service''" "tgt_service x"] eq [of "''target_runtime_uid''" "tgt_runtime_uid x"]
    by (simp_all add: image_Un)
  moreover have "tgt_container_id x = Some s \<longleftrightarrow> tgt_container_id y = Some s"
    "tgt_deployment_revision x = Some s \<longleftrightarrow> tgt_deployment_revision y = Some s"
    "tgt_image_digest x = Some s \<longleftrightarrow> tgt_image_digest y = Some s"
    "tgt_config_fingerprint x = Some s \<longleftrightarrow> tgt_config_fingerprint y = Some s" for s
    using eq [of "''container_id''" s] eq [of "''deployment_revision''" s]
      eq [of "''image_digest''" s] eq [of "''config_fingerprint''" s]
    by (simp_all add: image_Un)
  ultimately show "x = y" by (cases x, cases y) (auto intro: option.expand simp: not_Some_eq)
qed

lemma actuator_value_inj [simp]: "actuator_value a = actuator_value b \<longleftrightarrow> a = b"
  by (cases a; cases b) simp_all

lemma on_expiry_value_inj [simp]: "on_expiry_value a = on_expiry_value b \<longleftrightarrow> a = b"
  by (cases a; cases b) simp_all

definition same_decision :: "authorization \<Rightarrow> authorization \<Rightarrow> bool" where
  "same_decision a b \<longleftrightarrow>
    au_decision_id a = au_decision_id b \<and> au_action a = au_action b
    \<and> au_actuator_class a = au_actuator_class b \<and> au_target a = au_target b
    \<and> canon (JObj (au_parameters a)) = canon (JObj (au_parameters b))
    \<and> au_evidence_snapshot a = au_evidence_snapshot b \<and> au_coverage_snapshot a = au_coverage_snapshot b
    \<and> au_code_model_snapshot a = au_code_model_snapshot b \<and> au_policy_version a = au_policy_version b
    \<and> isoformat (au_authorized_at a) = isoformat (au_authorized_at b)
    \<and> isoformat (au_expires_at a) = isoformat (au_expires_at b)
    \<and> au_max_staleness_seconds a = au_max_staleness_seconds b \<and> au_on_expiry a = au_on_expiry b"

lemma canon_json_option [simp]: "canon (json_option JStr x) = json_option JStr x"
  by (cases x) (simp_all add: json_option_def)

lemma decision_payload_inj:
  assumes "canon (JObj (decision_payload a)) = canon (JObj (decision_payload b))"
  shows "same_decision a b"
proof -
  have "map fst (decision_payload a) = map fst (decision_payload b)" "distinct (map fst (decision_payload a))"
    by (simp_all add: decision_payload_def)
  from canon_obj_fields [OF assms this] show ?thesis
    by (simp add: decision_payload_def same_decision_def) (auto dest: target_dump_inj)
qed

lemma decision_digest_same:
  assumes "decision_digest a = decision_digest b" and "collision_free (decision_bytes a) (decision_bytes b)"
  shows "same_decision a b"
proof -
  have "utf8 (dumps True (JObj (decision_payload a))) = utf8 (dumps True (JObj (decision_payload b)))"
    using assms by (simp add: decision_digest_def decision_bytes_def collision_free_def)
  then have "dumps True (JObj (decision_payload a)) = dumps True (JObj (decision_payload b))" by (rule utf8_inj)
  then show ?thesis by (intro decision_payload_inj) (simp add: dumps_eq_iff)
qed

subsection \<open>Properties\<close>

definition ex_time :: "nat \<Rightarrow> datetime" where
  "ex_time h = \<lparr>dt_year = 2026, dt_month = 1, dt_day = 1, dt_hour = h, dt_minute = 0, dt_second = 0,
     dt_micro = 0, dt_offset = Some 0\<rparr>"

definition ex_target :: target_binding where
  "ex_target = \<lparr>tgt_service = ''svc'', tgt_runtime_uid = ''u1'', tgt_container_id = Some ''c1'',
     tgt_deployment_revision = None, tgt_image_digest = None, tgt_config_fingerprint = None\<rparr>"

definition ex_authorization :: "human_approval list \<Rightarrow> authorization" where
  "ex_authorization approvals = \<lparr>au_decision_id = ''d1'', au_action = ''isolate'',
     au_actuator_class = SECURITY_EXTERNAL, au_target = ex_target, au_parameters = [(''ttl'', JInt 5)],
     au_evidence_snapshot = ''e'', au_coverage_snapshot = ''c'', au_code_model_snapshot = None,
     au_policy_version = ''1'', au_authorized_at = ex_time 9, au_expires_at = ex_time 12,
     au_max_staleness_seconds = 7200, au_on_expiry = FAIL_CLOSED, au_nonce = ''n'', au_signature = ''s'',
     au_human_approvals = approvals\<rparr>"

definition ex_approval :: "string \<Rightarrow> human_approval" where
  "ex_approval who = \<lparr>apr_id = who, apr_identity = who, apr_decision_digest = decision_digest (ex_authorization []),
     apr_action = ''isolate'', apr_target = ex_target, apr_approved_at = ex_time 9, apr_expires_at = ex_time 11,
     apr_signature = ''s''\<rparr>"

definition ex_approved :: authorization where
  "ex_approved = ex_authorization [ex_approval ''ann'', ex_approval ''bob'']"

lemma ex_times:
  "\<exists>t9. astimezone_utc (ex_time 9) = Some t9 \<and> astimezone_utc (ex_time 10) = Some (t9 + 3600000000)
    \<and> astimezone_utc (ex_time 11) = Some (t9 + 7200000000) \<and> astimezone_utc (ex_time 12) = Some (t9 + 10800000000)"
proof -
  have ord: "toordinal (ex_time h) = 739617" for h
    by (simp add: toordinal_def ex_time_def days_before_year_def days_before_month_def Let_def)
  have "dt_offset (ex_time h) = Some 0" "dt_hour (ex_time h) = h" "dt_minute (ex_time h) = 0"
    "dt_second (ex_time h) = 0" "dt_micro (ex_time h) = 0" for h
    by (simp_all add: ex_time_def)
  then show ?thesis by (simp add: astimezone_utc_def local_micros_def dt_limit_def ord)
qed

lemma ex_digest_same: "decision_digest ex_approved = decision_digest (ex_authorization [])"
  by (simp add: decision_digest_def decision_bytes_def decision_payload_def ex_approved_def ex_authorization_def)

lemma ex_window: "in_window (ex_time 9) (ex_time 11) (ex_time 10)" "in_window (ex_time 9) (ex_time 12) (ex_time 10)"
  using ex_times by (auto simp: in_window_def)

lemma ex_counts: "counts_for ex_approved (ex_time 10) (ex_approval who)"
  using ex_window by (simp add: counts_for_def ex_digest_same)
    (simp add: ex_approval_def ex_approved_def ex_authorization_def)

lemma ex_check_validity: "check_validity ex_approved (ex_time 10) = Inr ()"
  using ex_times by (auto simp: check_validity_iff ex_approved_def ex_authorization_def)

lemma ex_two_person: "check_two_person ex_approved (ex_time 10) = Inr ()"
proof -
  have "is_valid_for (ex_approval who) (decision_digest ex_approved) (ex_time 10) = Inr True" for who
    using ex_counts [of who] by (simp add: is_valid_for_iff counts_for_def)
  moreover have "apr_action (ex_approval who) = au_action ex_approved"
    "apr_target (ex_approval who) = au_target ex_approved" "apr_identity (ex_approval who) = who"
    "au_human_approvals ex_approved = [ex_approval ''ann'', ex_approval ''bob'']" for who
    by (simp_all add: ex_approval_def ex_approved_def ex_authorization_def)
  ultimately show ?thesis by (simp add: check_two_person_def ex_check_validity)
qed

text \<open>
  C21. Two-person control: when the check succeeds, two approvals by different identities exist, both
  of this very decision digest, action and target, and at the moment of the check both of their
  windows and the authorization's own window are open, so the three windows share that instant.
\<close>

theorem two_persons_approve:
  assumes "check_two_person a now = Inr ()"
  shows "\<exists>p \<in> set (au_human_approvals a). \<exists>q \<in> set (au_human_approvals a).
    apr_identity p \<noteq> apr_identity q \<and> counts_for a now p \<and> counts_for a now q
    \<and> in_window (au_authorized_at a) (au_expires_at a) now"
proof -
  from assms obtain valid where v: "check_validity a now = Inr ()"
    "valid_approvals a (decision_digest a) now (au_human_approvals a) = Inr valid"
    "2 \<le> length (fromkeys (map apr_identity valid))"
    by (auto simp: check_two_person_def not_less split: if_splits)
  from two_of_fromkeys [OF v(3)] obtain p q where "p \<in> set valid" "q \<in> set valid" "apr_identity p \<noteq> apr_identity q"
    by auto
  moreover have "in_window (au_authorized_at a) (au_expires_at a) now"
    using v(1) by (auto simp: check_validity_iff in_window_def)
  ultimately show ?thesis using valid_approvals_set [OF v(2)] by blast
qed

theorem two_persons_approve_witness:
  "\<exists>p \<in> set (au_human_approvals ex_approved). \<exists>q \<in> set (au_human_approvals ex_approved).
    apr_identity p \<noteq> apr_identity q \<and> counts_for ex_approved (ex_time 10) p \<and> counts_for ex_approved (ex_time 10) q"
  using two_persons_approve [OF ex_two_person] by blast

text \<open>
  An approval binds one decision: an approval that counts for two authorizations, at whatever
  times, was given to decisions that agree in every field an approver sees (decision, action, actuator
  class, target, parameters, evidence and coverage snapshots, code model, policy version, both ends of
  the window, staleness and expiry behaviour), unless SHA-256 collides on the two payloads.
\<close>

theorem approval_binds_one_decision:
  assumes "counts_for a now p" and "counts_for b later p" and "collision_free (decision_bytes a) (decision_bytes b)"
  shows "same_decision a b"
  by (rule decision_digest_same) (use assms in \<open>simp_all add: counts_for_def\<close>)

theorem approval_binds_one_decision_witness: "same_decision ex_approved (ex_approved\<lparr>au_nonce := ''other''\<rparr>)"
proof -
  have same: "decision_bytes (ex_approved\<lparr>au_nonce := ''other''\<rparr>) = decision_bytes ex_approved"
    by (simp add: decision_bytes_def decision_payload_def)
  have "counts_for (ex_approved\<lparr>au_nonce := ''other''\<rparr>) (ex_time 10) (ex_approval ''ann'')"
    using ex_counts [of "''ann''"] by (simp add: counts_for_def decision_digest_def same)
  from approval_binds_one_decision [OF ex_counts this] show ?thesis by (simp add: collision_free_def same)
qed

text \<open>
  Revalidation immediately before execution is exactly this: the window is open now, the decision
  is not older than its staleness limit, a security containment does not fall back to the previous
  state when it expires, and the runtime object observed now is the one the decision names.
\<close>

theorem revalidate_exact:
  "revalidate a observed now = Inr () \<longleftrightarrow>
    (\<exists>i e n. astimezone_utc (au_authorized_at a) = Some i \<and> astimezone_utc (au_expires_at a) = Some e
      \<and> astimezone_utc now = Some n \<and> i \<le> n \<and> n < e \<and> n - i \<le> au_max_staleness_seconds a * 1000000)
    \<and> 0 \<le> au_max_staleness_seconds a
    \<and> \<not> (au_actuator_class a = SECURITY_EXTERNAL \<and> au_on_expiry a = RESTORE_PREVIOUS)
    \<and> matches (au_target a) observed"
proof -
  have "revalidate a observed now = Inr () \<longleftrightarrow> check_validity a now = Inr () \<and> matches (au_target a) observed"
    by (auto simp: revalidate_def ebind_eq_Inr)
  then show ?thesis unfolding check_validity_iff by blast
qed

end
