(* ===== verification/Workflow_Store.thy ===== *)
theory Workflow_Store
  imports Workflow_Memory
begin

text \<open>
  \<^verbatim>\<open>adapters/postgres_workflow_store.py\<close> with the tables of \<^verbatim>\<open>adapters/postgres_workflow_schema.py\<close>: the durable
  workflow store, its outbox and its inbox.

  Tables are dictionaries from their primary key, or a list for the append-only events. A transaction is
  one step that an error leaves without effect. Transactions that append to one trace are serialized by the
  advisory lock on the work item, those that count a tenant's turns by the one on its budget, and a claim
  skips the outbox rows that other transactions have locked, which are an argument (\<open>locked\<close>). The order
  of rows that a query leaves open is the order of insertion.
\<close>

record item_row =
  ir_document :: string
  ir_digest :: string
  ir_version :: nat

record trace_row =
  er_key :: item_key
  er_sequence :: nat
  er_event_id :: string
  er_document :: string
  er_digest :: string
  er_kind :: event_kind
  er_actor :: string

record outbox_row =
  or_work_item :: string
  or_topic :: string
  or_payload :: string
  or_status :: outbox_status
  or_attempts :: nat
  or_worker :: "string option"
  or_lease :: "moment option"
  or_created :: moment
  or_updated :: moment
  or_digest :: string

record inbox_row =
  br_source :: string
  br_payload :: string
  br_status :: inbox_status
  br_received :: moment
  br_processed :: "moment option"
  br_digest :: string

record workflow_db =
  wd_items :: "(item_key \<times> item_row) list"
  wd_events :: "trace_row list"
  wd_outbox :: "((string \<times> string) \<times> outbox_row) list"
  wd_inbox :: "((string \<times> string) \<times> inbox_row) list"

record db_role =
  rol_super :: bool
  rol_bypass_rls :: bool
  rol_create_role :: bool
  rol_create_db :: bool

definition empty_workflow_db :: workflow_db where
  "empty_workflow_db = \<lparr>wd_items = [], wd_events = [], wd_outbox = [], wd_inbox = []\<rparr>"

definition integer_ok :: "nat \<Rightarrow> bool" where
  "integer_ok n \<longleftrightarrow> n < 2 ^ 31"

definition insert_item :: "item_key \<Rightarrow> item_row \<Rightarrow> workflow_db \<Rightarrow> workflow_error + workflow_db" where
  "insert_item key row db =
    (if dict_get (wd_items db) key \<noteq> None then Inl Integrity
     else Inr (db\<lparr>wd_items := AList.update key row (wd_items db)\<rparr>))"

definition insert_trace_row :: "trace_row \<Rightarrow> workflow_db \<Rightarrow> workflow_error + workflow_db" where
  "insert_trace_row row db =
    ebind (require_all
      [(integer_ok (er_sequence row), Data_Error),
       (list_all (\<lambda>r. \<not> (er_key r = er_key row \<and> er_sequence r = er_sequence row)) (wd_events db), Integrity),
       (list_all (\<lambda>r. er_event_id r \<noteq> er_event_id row) (wd_events db), Integrity),
       (dict_get (wd_items db) (er_key row) \<noteq> None, Integrity)])
      (\<lambda>_. Inr (db\<lparr>wd_events := wd_events db @ [row]\<rparr>))"

subsection \<open>Rows and documents\<close>

definition wf_transaction :: "db_role \<Rightarrow> string \<Rightarrow> workflow_error + string" where
  "wf_transaction role tenant =
    (if rol_super role \<or> rol_bypass_rls role \<or> rol_create_role role \<or> rol_create_db role
     then Inl Denied_By_Store else Inr tenant)"

definition item_of_row :: "workflow_codec \<Rightarrow> item_key \<Rightarrow> item_row \<Rightarrow> workflow_error + workflow_item" where
  "item_of_row cx key row =
    (if ir_version row \<noteq> 1 then Inl Denied_By_Store
     else case decode_item cx (ir_document row) of
       None \<Rightarrow> Inl Invalid_Value
     | Some item \<Rightarrow>
         if \<not> valid_item cx item then Inl Invalid_Value
         else if content_digest item \<noteq> ir_digest row \<or> wi_tenant item \<noteq> fst key then Inl Denied_By_Store
         else Inr item)"

definition event_of_row :: "workflow_codec \<Rightarrow> nat \<Rightarrow> trace_row \<Rightarrow> workflow_error + workflow_event" where
  "event_of_row cx expected row =
    (case decode_event cx (er_document row) of
       None \<Rightarrow> Inl Invalid_Value
     | Some e \<Rightarrow>
         if \<not> valid_event cx e then Inl Invalid_Value
         else if er_sequence row \<noteq> expected \<or> content_digest e \<noteq> er_digest row
           \<or> we_tenant e \<noteq> fst (er_key row) \<or> we_work_item e \<noteq> snd (er_key row)
           \<or> we_kind e \<noteq> er_kind row \<or> we_actor e \<noteq> er_actor row then Inl Denied_By_Store
         else Inr e)"

definition trace_rows :: "string \<Rightarrow> workflow_db \<Rightarrow> item_key \<Rightarrow> trace_row list" where
  "trace_rows setting db key =
    filter (\<lambda>r. tenant_scope setting (fst (er_key r)) \<and> er_key r = key) (wd_events db)"

definition trace_row_of :: "workflow_codec \<Rightarrow> nat \<Rightarrow> workflow_event \<Rightarrow> item_key \<Rightarrow> trace_row" where
  "trace_row_of cx n e key =
    \<lparr>er_key = key, er_sequence = n, er_event_id = we_id e, er_document = encode_event cx e,
     er_digest = content_digest e, er_kind = we_kind e, er_actor = we_actor e\<rparr>"

definition pg_append ::
  "workflow_codec \<Rightarrow> string \<Rightarrow> item_key \<Rightarrow> workflow_event \<Rightarrow> workflow_db \<Rightarrow> workflow_error + workflow_event \<times> workflow_db"
where
  "pg_append cx setting key e db =
    (let next_sequence = foldr max (map er_sequence (trace_rows setting db key)) 0 + 1 in
     ebind (insert_trace_row (trace_row_of cx next_sequence e key) db) (\<lambda>db'. Inr (e, db')))"

definition pg_item ::
  "workflow_codec \<Rightarrow> string \<Rightarrow> workflow_db \<Rightarrow> item_key \<Rightarrow> workflow_error + workflow_item"
where
  "pg_item cx setting db key =
    (case fetch setting (wd_items db) key of None \<Rightarrow> Inl Denied_By_Store | Some row \<Rightarrow> item_of_row cx key row)"

subsection \<open>Items and traces\<close>

definition pg_create_intake ::
  "workflow_codec \<Rightarrow> db_role \<Rightarrow> string \<Rightarrow> string \<Rightarrow> intake \<Rightarrow> workflow_db \<Rightarrow> workflow_error + workflow_item \<times> workflow_db"
where
  "pg_create_intake cx role uuid1 uuid2 i db =
    ebind (utc_of (in_now i)) (\<lambda>current.
    ebind (intake_item cx uuid1 i current) (\<lambda>item.
    ebind (intake_event cx uuid2 i item current) (\<lambda>event.
      let key = (in_tenant i, wi_id item);
          result = ebind (wf_transaction role (in_tenant i)) (\<lambda>_.
            ebind (insert_item key
              \<lparr>ir_document = encode_item cx item, ir_digest = content_digest item, ir_version = 1\<rparr> db) (\<lambda>db1.
            ebind (insert_trace_row (trace_row_of cx 1 event key) db1) (\<lambda>db2. Inr (item, db2))))
      in if result = Inl Integrity then Inl Denied_By_Store else result)))"

definition pg_record_grounded_analysis ::
  "workflow_codec \<Rightarrow> db_role \<Rightarrow> string \<Rightarrow> string \<Rightarrow> string \<Rightarrow> string \<Rightarrow> grounded_analysis_audit \<Rightarrow> datetime \<Rightarrow>
    workflow_db \<Rightarrow> workflow_error + workflow_event \<times> workflow_db"
where
  "pg_record_grounded_analysis cx role uuid tenant work_item actor analysis now db =
    ebind (analysis_event cx uuid tenant work_item actor analysis now) (\<lambda>event.
    ebind (wf_transaction role tenant) (\<lambda>setting.
    ebind (pg_item cx setting db (tenant, work_item)) (\<lambda>_.
      pg_append cx setting (tenant, work_item) event db)))"

definition pg_record_chat_turn ::
  "workflow_codec \<Rightarrow> db_role \<Rightarrow> string \<Rightarrow> string \<Rightarrow> string \<Rightarrow> string \<Rightarrow> chat_turn_audit \<Rightarrow> datetime \<Rightarrow>
    workflow_db \<Rightarrow> workflow_error + workflow_event \<times> workflow_db"
where
  "pg_record_chat_turn cx role uuid tenant work_item actor audit now db =
    ebind (audit_event cx uuid tenant work_item actor audit now) (\<lambda>event.
    ebind (wf_transaction role tenant) (\<lambda>setting.
    ebind (pg_item cx setting db (tenant, work_item)) (\<lambda>item.
      if wi_created_by item \<noteq> actor then Inl Denied_By_Store
      else pg_append cx setting (tenant, work_item) event db)))"

definition pg_turns_used :: "string \<Rightarrow> string \<Rightarrow> workflow_db \<Rightarrow> nat" where
  "pg_turns_used setting tenant db =
    length (filter (\<lambda>r. tenant_scope setting (fst (er_key r)) \<and> fst (er_key r) = tenant
      \<and> er_kind r = CHAT_TURN_RESERVED) (wd_events db))"

definition pg_reserve_chat_turn ::
  "workflow_codec \<Rightarrow> db_role \<Rightarrow> string \<Rightarrow> string \<Rightarrow> string \<Rightarrow> string \<Rightarrow> chat_turn_reservation \<Rightarrow> int option \<Rightarrow>
    datetime \<Rightarrow> workflow_db \<Rightarrow> workflow_error + workflow_event \<times> workflow_db"
where
  "pg_reserve_chat_turn cx role uuid tenant work_item actor res limit now db =
    (if \<exists>l \<in> set_option limit. l \<le> 0 then Inl Limit_Exceeded
     else
       ebind (reservation_event cx uuid tenant work_item actor res now) (\<lambda>event.
       ebind (wf_transaction role tenant) (\<lambda>setting.
       ebind (pg_item cx setting db (tenant, work_item)) (\<lambda>item.
         if wi_created_by item \<noteq> actor then Inl Denied_By_Store
         else if \<exists>l \<in> set_option limit. l \<le> int (pg_turns_used setting tenant db) then Inl Limit_Exceeded
         else pg_append cx setting (tenant, work_item) event db))))"

definition pg_get ::
  "workflow_codec \<Rightarrow> db_role \<Rightarrow> string \<Rightarrow> string \<Rightarrow> workflow_db \<Rightarrow> workflow_error + workflow_item option"
where
  "pg_get cx role tenant work_item db =
    ebind (wf_transaction role tenant) (\<lambda>setting.
      case fetch setting (wd_items db) (tenant, work_item) of
        None \<Rightarrow> Inr None
      | Some row \<Rightarrow> ebind (item_of_row cx (tenant, work_item) row) (\<lambda>item. Inr (Some item)))"

fun items_of_rows :: "workflow_codec \<Rightarrow> (item_key \<times> item_row) list \<Rightarrow> workflow_error + workflow_item list" where
  "items_of_rows cx [] = Inr []"
| "items_of_rows cx ((key, row) # rows) =
    ebind (item_of_row cx key row) (\<lambda>item. ebind (items_of_rows cx rows) (\<lambda>items. Inr (item # items)))"

definition pg_list ::
  "workflow_codec \<Rightarrow> db_role \<Rightarrow> string \<Rightarrow> workflow_db \<Rightarrow> workflow_error + workflow_item list"
where
  "pg_list cx role tenant db =
    ebind (wf_transaction role tenant) (\<lambda>setting.
    ebind (items_of_rows cx (filter (\<lambda>(key, _). tenant_scope setting (fst key) \<and> fst key = tenant) (wd_items db)))
      (\<lambda>items. Inr (sort_key wi_created_at items)))"

definition pg_add_gate_request ::
  "workflow_codec \<Rightarrow> db_role \<Rightarrow> string \<Rightarrow> string \<Rightarrow> string \<Rightarrow> string \<Rightarrow> string \<Rightarrow> bool \<Rightarrow> string \<Rightarrow> datetime \<Rightarrow>
    workflow_db \<Rightarrow> workflow_error + workflow_event \<times> workflow_db"
where
  "pg_add_gate_request cx role uuid tenant work_item actor gate approve digest now db =
    ebind (gate_event cx uuid tenant work_item actor gate approve digest now) (\<lambda>event.
    ebind (wf_transaction role tenant) (\<lambda>setting.
    ebind (pg_item cx setting db (tenant, work_item)) (\<lambda>_.
      pg_append cx setting (tenant, work_item) event db)))"

fun events_of_rows :: "workflow_codec \<Rightarrow> nat \<Rightarrow> trace_row list \<Rightarrow> workflow_error + workflow_event list" where
  "events_of_rows cx n [] = Inr []"
| "events_of_rows cx n (row # rows) =
    ebind (event_of_row cx n row) (\<lambda>e. ebind (events_of_rows cx (Suc n) rows) (\<lambda>es. Inr (e # es)))"

definition pg_trace ::
  "workflow_codec \<Rightarrow> db_role \<Rightarrow> string \<Rightarrow> string \<Rightarrow> workflow_db \<Rightarrow> workflow_error + workflow_event list"
where
  "pg_trace cx role tenant work_item db =
    ebind (wf_transaction role tenant) (\<lambda>setting.
      events_of_rows cx 1 (sort_key er_sequence (trace_rows setting db (tenant, work_item))))"

definition postgres_ops :: "workflow_codec \<Rightarrow> db_role \<Rightarrow> workflow_db workflow_store" where
  "postgres_ops cx role =
    \<lparr>st_create_intake = pg_create_intake cx role, st_record_analysis = pg_record_grounded_analysis cx role,
     st_record_turn = pg_record_chat_turn cx role, st_reserve_turn = pg_reserve_chat_turn cx role,
     st_get = pg_get cx role, st_list = pg_list cx role,
     st_add_gate = pg_add_gate_request cx role, st_trace = pg_trace cx role\<rparr>"

subsection \<open>Outbox\<close>

definition outbox_identity :: "outbox_entry \<Rightarrow> string" where
  "outbox_identity x = digest_of (JObj
    [(''event_id'', JStr (ob_event_id x)), (''tenant_id'', JStr (ob_tenant x)),
     (''work_item_id'', JStr (ob_work_item x)), (''topic'', JStr (ob_topic x)),
     (''payload_digest'', JStr (ob_payload_digest x))])"

definition outbox_of_row :: "workflow_codec \<Rightarrow> string \<times> string \<Rightarrow> outbox_row \<Rightarrow> workflow_error + outbox_entry" where
  "outbox_of_row cx key row =
    (let entry =
       \<lparr>content_digest = [], ob_event_id = snd key, ob_tenant = fst key, ob_work_item = or_work_item row,
        ob_topic = or_topic row, ob_payload_digest = or_payload row, ob_status = or_status row,
        ob_attempts = or_attempts row, ob_worker = or_worker row, ob_lease_expires_at = or_lease row,
        ob_created_at = or_created row, ob_updated_at = or_updated row\<rparr>
     in if \<not> outbox_ok entry then Inl Invalid_Value
        else if outbox_identity entry \<noteq> or_digest row then Inl Denied_By_Store
        else Inr (seal (outbox_fields cx) entry))"

definition enqueue_outbox ::
  "workflow_codec \<Rightarrow> db_role \<Rightarrow> string \<Rightarrow> string \<Rightarrow> string \<Rightarrow> string \<Rightarrow> string \<Rightarrow> datetime \<Rightarrow> workflow_db \<Rightarrow>
    workflow_error + outbox_entry \<times> workflow_db"
where
  "enqueue_outbox cx role tenant work_item event_id topic payload now db =
    ebind (utc_of now) (\<lambda>current.
    let entry =
       \<lparr>content_digest = [], ob_event_id = event_id, ob_tenant = tenant, ob_work_item = work_item,
        ob_topic = topic, ob_payload_digest = payload, ob_status = PENDING,
        ob_attempts = 0, ob_worker = None, ob_lease_expires_at = None,
        ob_created_at = current, ob_updated_at = current\<rparr>;
        row = \<lparr>or_work_item = work_item, or_topic = topic, or_payload = payload, or_status = PENDING,
          or_attempts = 0, or_worker = None, or_lease = None, or_created = current, or_updated = current,
          or_digest = outbox_identity entry\<rparr>
    in if \<not> outbox_ok entry then Inl Invalid_Value
    else ebind (wf_transaction role tenant) (\<lambda>setting.
      if fetch setting (wd_items db) (tenant, work_item) = None then Inl Denied_By_Store
      else
        let db' = (if dict_get (wd_outbox db) (tenant, event_id) = None
                   then db\<lparr>wd_outbox := AList.update (tenant, event_id) row (wd_outbox db)\<rparr> else db)
        in case fetch setting (wd_outbox db') (tenant, event_id) of
             None \<Rightarrow> Inl Data_Error
           | Some stored \<Rightarrow> ebind (outbox_of_row cx (tenant, event_id) stored) (\<lambda>existing.
               if ob_work_item existing \<noteq> work_item \<or> ob_topic existing \<noteq> topic
                 \<or> ob_payload_digest existing \<noteq> payload then Inl Denied_By_Store
               else Inr (existing, db'))))"

definition claimable :: "string \<Rightarrow> string \<Rightarrow> moment \<Rightarrow> (string \<Rightarrow> bool) \<Rightarrow> (string \<times> string) \<times> outbox_row \<Rightarrow> bool" where
  "claimable setting tenant current locked p \<longleftrightarrow>
    tenant_scope setting (fst (fst p)) \<and> fst (fst p) = tenant \<and> \<not> locked (snd (fst p))
    \<and> (or_status (snd p) = PENDING
       \<or> or_status (snd p) = CLAIMED \<and> (\<exists>t \<in> set_option (or_lease (snd p)). t \<le> current))"

definition claim_outbox ::
  "workflow_codec \<Rightarrow> db_role \<Rightarrow> (string \<Rightarrow> bool) \<Rightarrow> string \<Rightarrow> string \<Rightarrow> datetime \<Rightarrow> int \<Rightarrow> workflow_db \<Rightarrow>
    workflow_error + outbox_entry option \<times> workflow_db"
where
  "claim_outbox cx role locked tenant worker now lease_seconds db =
    ebind (utc_of now) (\<lambda>current.
    if lease_seconds \<le> 0 then Inl Invalid_Value
    else let expiry = current + lease_seconds * 1000000 in
    if dt_limit \<le> expiry then Inl Overflow_Value
    else ebind (wf_transaction role tenant) (\<lambda>setting.
      case sort_key (\<lambda>p. or_created (snd p)) (filter (claimable setting tenant current locked) (wd_outbox db)) of
        [] \<Rightarrow> Inr (None, db)
      | (key, row) # _ \<Rightarrow>
          let row' = row\<lparr>or_status := CLAIMED, or_attempts := or_attempts row + 1, or_worker := Some worker,
                         or_lease := Some expiry, or_updated := current\<rparr>
          in if 200 < length worker \<or> \<not> integer_ok (or_attempts row + 1) then Inl Data_Error
             else ebind (outbox_of_row cx key row') (\<lambda>entry.
               Inr (Some entry, db\<lparr>wd_outbox := AList.update key row' (wd_outbox db)\<rparr>))))"

definition ack_outbox ::
  "db_role \<Rightarrow> string \<Rightarrow> string \<Rightarrow> string \<Rightarrow> workflow_db \<Rightarrow> workflow_error + bool \<times> workflow_db"
where
  "ack_outbox role tenant event_id worker db =
    ebind (wf_transaction role tenant) (\<lambda>setting.
      case fetch setting (wd_outbox db) (tenant, event_id) of
        None \<Rightarrow> Inr (False, db)
      | Some row \<Rightarrow>
          if or_status row = CLAIMED \<and> or_worker row = Some worker
          then Inr (True, db\<lparr>wd_outbox := AList.update (tenant, event_id)
                  (row\<lparr>or_status := ACKED, or_lease := None\<rparr>) (wd_outbox db)\<rparr>)
          else Inr (False, db))"

subsection \<open>Inbox\<close>

definition inbox_identity :: "inbox_entry \<Rightarrow> string" where
  "inbox_identity x = digest_of (JObj
    [(''event_id'', JStr (ib_event_id x)), (''tenant_id'', JStr (ib_tenant x)),
     (''source'', JStr (ib_source x)), (''payload_digest'', JStr (ib_payload_digest x))])"

definition inbox_of_row :: "workflow_codec \<Rightarrow> string \<times> string \<Rightarrow> inbox_row \<Rightarrow> workflow_error + inbox_entry" where
  "inbox_of_row cx key row =
    (let entry =
       \<lparr>content_digest = [], ib_event_id = snd key, ib_tenant = fst key, ib_source = br_source row,
        ib_payload_digest = br_payload row, ib_status = br_status row, ib_received_at = br_received row,
        ib_processed_at = br_processed row\<rparr>
     in if \<not> inbox_ok entry then Inl Invalid_Value
        else if inbox_identity entry \<noteq> br_digest row then Inl Denied_By_Store
        else Inr (seal (inbox_fields cx) entry))"

definition record_inbox ::
  "workflow_codec \<Rightarrow> db_role \<Rightarrow> string \<Rightarrow> string \<Rightarrow> string \<Rightarrow> string \<Rightarrow> datetime \<Rightarrow> workflow_db \<Rightarrow>
    workflow_error + inbox_entry \<times> workflow_db"
where
  "record_inbox cx role tenant event_id source payload received_at db =
    ebind (utc_of received_at) (\<lambda>current.
    let entry =
       \<lparr>content_digest = [], ib_event_id = event_id, ib_tenant = tenant, ib_source = source,
        ib_payload_digest = payload, ib_status = RECEIVED, ib_received_at = current, ib_processed_at = None\<rparr>;
        row = \<lparr>br_source = source, br_payload = payload, br_status = RECEIVED, br_received = current,
          br_processed = None, br_digest = inbox_identity entry\<rparr>
    in if \<not> inbox_ok entry then Inl Invalid_Value
    else ebind (wf_transaction role tenant) (\<lambda>setting.
      let db' = (if dict_get (wd_inbox db) (tenant, event_id) = None
                 then db\<lparr>wd_inbox := AList.update (tenant, event_id) row (wd_inbox db)\<rparr> else db)
      in case fetch setting (wd_inbox db') (tenant, event_id) of
           None \<Rightarrow> Inl Data_Error
         | Some stored \<Rightarrow> ebind (inbox_of_row cx (tenant, event_id) stored) (\<lambda>existing.
             if ib_source existing \<noteq> source \<or> ib_payload_digest existing \<noteq> payload then Inl Denied_By_Store
             else Inr (existing, db'))))"

definition mark_inbox_processed ::
  "db_role \<Rightarrow> string \<Rightarrow> string \<Rightarrow> datetime \<Rightarrow> workflow_db \<Rightarrow> workflow_error + bool \<times> workflow_db"
where
  "mark_inbox_processed role tenant event_id now db =
    ebind (utc_of now) (\<lambda>current.
    ebind (wf_transaction role tenant) (\<lambda>setting.
      case fetch setting (wd_inbox db) (tenant, event_id) of
        None \<Rightarrow> Inr (False, db)
      | Some row \<Rightarrow>
          if br_status row = RECEIVED
          then Inr (True, db\<lparr>wd_inbox := AList.update (tenant, event_id)
                  (row\<lparr>br_status := PROCESSED, br_processed := Some current\<rparr>) (wd_inbox db)\<rparr>)
          else Inr (False, db)))"

end
