(* ===== verification/Workflow_Store_Inv.thy ===== *)
theory Workflow_Store_Inv
  imports Workflow_Store
begin

text \<open>
  The durable workflow store keeps the contract of a workflow store and refines the local one.

  \<open>documents_round_trip\<close> is what is assumed of Pydantic: a valid item or event that is printed is read back
  as it was. \<open>pg_inv\<close> ties the tables to documents: every item row holds a valid item of its key, and the rows
  of a trace are numbered from 1 and hold the events of a well-formed trace. \<open>pg_abs\<close> reads the local store off
  the tables; each operation on the tables is the local operation on it.
\<close>

declare split_paired_All [simp del] split_paired_Ex [simp del] split_paired_all [simp del]

definition documents_round_trip :: "workflow_codec \<Rightarrow> bool" where
  "documents_round_trip cx \<longleftrightarrow>
    (\<forall>x. valid_item cx x \<longrightarrow> decode_item cx (encode_item cx x) = Some x)
    \<and> (\<forall>e. valid_event cx e \<longrightarrow> decode_event cx (encode_event cx e) = Some e)"

definition rows_of :: "workflow_db \<Rightarrow> item_key \<Rightarrow> trace_row list" where
  "rows_of db k = filter (\<lambda>r. er_key r = k) (wd_events db)"

definition pg_item_of :: "workflow_codec \<Rightarrow> workflow_db \<Rightarrow> item_key \<Rightarrow> workflow_item option" where
  "pg_item_of cx db k =
    (case dict_get (wd_items db) k of None \<Rightarrow> None | Some r \<Rightarrow> decode_item cx (ir_document r))"

definition pg_trace_of :: "workflow_codec \<Rightarrow> workflow_db \<Rightarrow> item_key \<Rightarrow> workflow_event list" where
  "pg_trace_of cx db k = map (\<lambda>r. the (decode_event cx (er_document r))) (rows_of db k)"

definition item_row_of :: "workflow_codec \<Rightarrow> workflow_item \<Rightarrow> item_row" where
  "item_row_of cx x = \<lparr>ir_document = encode_item cx x, ir_digest = content_digest x, ir_version = 1\<rparr>"

definition numbered :: "workflow_codec \<Rightarrow> item_key \<Rightarrow> nat \<Rightarrow> workflow_event list \<Rightarrow> trace_row list" where
  "numbered cx k n es = map (\<lambda>(n, e). trace_row_of cx n e k) (enumerate n es)"

definition pg_inv :: "workflow_codec \<Rightarrow> workflow_db \<Rightarrow> bool" where
  "pg_inv cx db \<longleftrightarrow> documents_round_trip cx \<and> distinct (map fst (wd_items db))
    \<and> (\<forall>k r. dict_get (wd_items db) k = Some r \<longrightarrow> (\<exists>x. r = item_row_of cx x \<and> valid_item cx x))
    \<and> (\<forall>k. rows_of db k = numbered cx k 1 (pg_trace_of cx db k))
    \<and> (\<forall>k. trace_wf cx k (pg_item_of cx db k) (pg_trace_of cx db k))"

lemma numbered_append: "numbered cx k n (es @ [e]) = numbered cx k n es @ [trace_row_of cx (n + length es) e k]"
  by (simp add: numbered_def enumerate_append_eq)

lemma trace_row_sel [simp]:
  "er_key (trace_row_of cx n e k) = k" "er_sequence (trace_row_of cx n e k) = n"
  "er_document (trace_row_of cx n e k) = encode_event cx e" "er_kind (trace_row_of cx n e k) = we_kind e"
  "er_event_id (trace_row_of cx n e k) = we_id e" "er_digest (trace_row_of cx n e k) = content_digest e"
  "er_actor (trace_row_of cx n e k) = we_actor e"
  by (simp_all add: trace_row_of_def)

lemma numbered_sequence: "map er_sequence (numbered cx k n es) = [n..<n + length es]"
  by (simp add: numbered_def split_def o_def)

lemma foldr_max_upt: "foldr max [Suc 0..<Suc n] 0 = n"
proof -
  have "foldr max [Suc 0..<Suc n] (m::nat) = max n m" for m
    by (induction n arbitrary: m) auto
  then show ?thesis by simp
qed

lemma inv_parts:
  assumes "pg_inv cx db"
  shows inv_round_trip: "documents_round_trip cx"
    and inv_rows: "rows_of db k = numbered cx k 1 (pg_trace_of cx db k)"
    and inv_wf: "trace_wf cx k (pg_item_of cx db k) (pg_trace_of cx db k)"
    and inv_item: "dict_get (wd_items db) k = Some r \<Longrightarrow> \<exists>x. r = item_row_of cx x \<and> valid_item cx x"
    and inv_keys: "distinct (map fst (wd_items db))"
  using assms unfolding pg_inv_def by blast+

lemma decode_valid_item: "documents_round_trip cx \<Longrightarrow> valid_item cx x \<Longrightarrow> decode_item cx (encode_item cx x) = Some x"
  by (simp add: documents_round_trip_def)

lemma decode_valid_event: "documents_round_trip cx \<Longrightarrow> valid_event cx e \<Longrightarrow> decode_event cx (encode_event cx e) = Some e"
  by (simp add: documents_round_trip_def)

lemma stored_item:
  assumes "pg_inv cx db" "dict_get (wd_items db) k = Some r"
  obtains x where "pg_item_of cx db k = Some x" "item_of_row cx k r = Inr x" "valid_item cx x" "r = item_row_of cx x"
    "(wi_tenant x, wi_id x) = k"
proof -
  obtain x where x: "r = item_row_of cx x" "valid_item cx x" using inv_item [OF assms] by blast
  have dec: "decode_item cx (encode_item cx x) = Some x"
    using decode_valid_item [OF inv_round_trip [OF assms(1)] x(2)] .
  then have it: "pg_item_of cx db k = Some x" using assms(2) x(1) by (simp add: pg_item_of_def item_row_of_def)
  have key: "(wi_tenant x, wi_id x) = k" using inv_wf [OF assms(1), of k] it by (simp add: trace_wf_def)
  then have "item_of_row cx k r = Inr x" using x dec by (auto simp: item_of_row_def item_row_of_def)
  with that it x key show thesis by blast
qed

lemma item_none: "pg_inv cx db \<Longrightarrow> pg_item_of cx db k = None \<longleftrightarrow> dict_get (wd_items db) k = None"
  by (cases "dict_get (wd_items db) k") (auto simp: pg_item_of_def elim: stored_item)

lemma tenant_nonempty: "pg_inv cx db \<Longrightarrow> pg_item_of cx db (t, w) = Some x \<Longrightarrow> t \<noteq> []"
  using inv_wf [of cx db "(t, w)"] by (auto simp: trace_wf_def valid_item_def item_ok_def identifier_ok_def)

lemma pg_item_Inr:
  "pg_inv cx db \<Longrightarrow> pg_item cx t db (t, w) = Inr x \<longleftrightarrow> pg_item_of cx db (t, w) = Some x"
  using tenant_nonempty [of cx db t w] item_none [of cx db "(t, w)"]
  by (auto simp: pg_item_def fetch_def tenant_scope_def split: option.splits elim: stored_item)

lemma scoped_rows: "t \<noteq> [] \<Longrightarrow> trace_rows t db (t, w) = rows_of db (t, w)"
  by (auto simp: trace_rows_def rows_of_def tenant_scope_def intro: filter_cong)

subsection \<open>Writes\<close>

lemma rows_insert: "rows_of (db\<lparr>wd_events := wd_events db @ [row]\<rparr>) k = rows_of db k @ (if er_key row = k then [row] else [])"
  by (simp add: rows_of_def)

lemma trace_insert:
  "documents_round_trip cx \<Longrightarrow> valid_event cx e \<Longrightarrow>
    pg_trace_of cx (db\<lparr>wd_events := wd_events db @ [trace_row_of cx n e k]\<rparr>) =
      (pg_trace_of cx db)(k := pg_trace_of cx db k @ [e])"
  by (auto simp: pg_trace_of_def rows_insert decode_valid_event fun_eq_iff)

lemma insert_trace_row_Inr:
  "insert_trace_row row db = Inr db' \<longleftrightarrow>
    integer_ok (er_sequence row) \<and> db' = db\<lparr>wd_events := wd_events db @ [row]\<rparr>
    \<and> (\<forall>r \<in> set (wd_events db). er_event_id r \<noteq> er_event_id row \<and> (er_key r, er_sequence r) \<noteq> (er_key row, er_sequence row))
    \<and> dict_get (wd_items db) (er_key row) \<noteq> None"
  by (auto simp: insert_trace_row_def ebind_eq_Inr list_all_iff)

lemma pg_append_inv:
  assumes inv: "pg_inv cx db" and ok: "pg_append cx t (t, w) e db = Inr (e', db')" and ev: "event_for cx k u t w a e"
    and item: "pg_item_of cx db (t, w) = Some x" and k: "k \<noteq> INTAKE"
    "k \<in> {CHAT_TURN_RESERVED, CHAT_TURN_RECORDED} \<longrightarrow> owned_by a (Some x)"
  shows "pg_inv cx db' \<and> e' = e \<and> wd_items db' = wd_items db \<and> pg_item_of cx db' = pg_item_of cx db
    \<and> pg_trace_of cx db' = (pg_trace_of cx db)((t, w) := pg_trace_of cx db (t, w) @ [e])"
proof -
  let ?n = "Suc (length (pg_trace_of cx db (t, w)))"
  have t: "t \<noteq> []" using tenant_nonempty [OF inv item] .
  have next_seq: "foldr max (map er_sequence (trace_rows t db (t, w))) 0 + 1 = ?n"
    by (subst scoped_rows [OF t], subst inv_rows [OF inv]) (simp add: numbered_sequence foldr_max_upt del: upt_Suc)
  have db': "db' = db\<lparr>wd_events := wd_events db @ [trace_row_of cx ?n e (t, w)]\<rparr>" and e': "e' = e"
    using ok unfolding pg_append_def Let_def next_seq by (auto simp: insert_trace_row_Inr)
  have val: "valid_event cx e" using ev by (simp add: event_for_def)
  note rt = inv_round_trip [OF inv]
  have tr: "pg_trace_of cx db' = (pg_trace_of cx db)((t, w) := pg_trace_of cx db (t, w) @ [e])"
    unfolding db' by (rule trace_insert [OF rt val])
  have items: "wd_items db' = wd_items db" "pg_item_of cx db' = pg_item_of cx db"
    by (auto simp: db' pg_item_of_def fun_eq_iff)
  have rows: "rows_of db' j = numbered cx j 1 (pg_trace_of cx db' j)" for j
    unfolding tr unfolding db' rows_insert by (auto simp: inv_rows [OF inv] numbered_append)
  have "trace_wf cx (t, w) (pg_item_of cx db (t, w)) (pg_trace_of cx db (t, w) @ [e])"
    using trace_wf_append [OF inv_wf [OF inv] ev k(1)] item k(2) by simp
  then have "trace_wf cx j (pg_item_of cx db' j) (pg_trace_of cx db' j)" for j
    using inv_wf [OF inv, of j] by (simp add: tr items)
  with inv rows items have "pg_inv cx db'" unfolding pg_inv_def by simp
  with e' items tr show ?thesis by blast
qed

lemma pg_create_inv:
  assumes inv: "pg_inv cx db" and ok: "pg_create_intake cx role u v i db = Inr (it, db')"
  shows "pg_inv cx db' \<and> intake_item cx u i (wi_created_at it) = Inr it
    \<and> dict_get (wd_items db) (in_tenant i, wi_id it) = None
    \<and> wd_items db' = wd_items db @ [((in_tenant i, wi_id it), item_row_of cx it)]
    \<and> pg_item_of cx db' = (pg_item_of cx db)((in_tenant i, wi_id it) \<mapsto> it)
    \<and> (\<exists>e. utc_of (in_now i) = Inr (wi_created_at it) \<and> intake_event cx v i it (wi_created_at it) = Inr e
          \<and> pg_trace_of cx db' = (pg_trace_of cx db)((in_tenant i, wi_id it) := [e]))"
proof -
  let ?k = "(in_tenant i, wi_id it)"
  from ok obtain m e db1 where now: "utc_of (in_now i) = Inr m" and it: "intake_item cx u i m = Inr it"
    and ev: "intake_event cx v i it m = Inr e"
    and ins: "insert_item ?k (item_row_of cx it) db = Inr db1"
    and app: "insert_trace_row (trace_row_of cx 1 e ?k) db1 = Inr db'"
    by (auto simp: pg_create_intake_def Let_def item_row_of_def split: if_splits)
  have fresh: "dict_get (wd_items db) ?k = None" and db1: "db1 = db\<lparr>wd_items := wd_items db @ [(?k, item_row_of cx it)]\<rparr>"
    using ins by (auto simp: insert_item_def update_fresh split: if_splits)
  have db': "db' = db1\<lparr>wd_events := wd_events db1 @ [trace_row_of cx 1 e ?k]\<rparr>"
    using app by (simp add: insert_trace_row_Inr)
  note itf = intake_item_for [OF it] and rt = inv_round_trip [OF inv]
  have val: "valid_event cx e" using intake_event_for [OF ev] by (simp add: event_for_def)
  have none: "pg_item_of cx db ?k = None" using fresh by (simp add: pg_item_of_def)
  then have empty: "pg_trace_of cx db ?k = []" using inv_wf [OF inv, of ?k] by (simp add: trace_wf_def)
  have tr1: "pg_trace_of cx db1 = pg_trace_of cx db" by (auto simp: db1 pg_trace_of_def rows_of_def fun_eq_iff)
  have tr: "pg_trace_of cx db' = (pg_trace_of cx db)(?k := [e])"
    unfolding db' trace_insert [OF rt val] tr1 empty by simp
  have get: "dict_get (wd_items db') = (dict_get (wd_items db))(?k \<mapsto> item_row_of cx it)"
    using fresh by (auto simp: db' db1 fun_eq_iff simp flip: update_fresh)
  have item: "pg_item_of cx db' = (pg_item_of cx db)(?k \<mapsto> it)"
    using itf by (auto simp: pg_item_of_def get fun_eq_iff item_row_of_def decode_valid_item [OF rt])
  have rows: "rows_of db' j = numbered cx j 1 (pg_trace_of cx db' j)" for j
  proof -
    have "rows_of db1 j = numbered cx j 1 (pg_trace_of cx db j)"
      using inv_rows [OF inv] by (simp add: db1 rows_of_def)
    moreover have "numbered cx ?k 1 [e] = [trace_row_of cx 1 e ?k]" by (simp add: numbered_def enumerate_eq_zip)
    moreover have "numbered cx ?k 1 [] = []" by (simp add: numbered_def)
    ultimately show ?thesis unfolding tr unfolding db' rows_insert by (auto simp: empty)
  qed
  have wf: "trace_wf cx j (pg_item_of cx db' j) (pg_trace_of cx db' j)" for j
    using inv_wf [OF inv, of j] trace_wf_new [OF it ev] unfolding item tr by auto
  have keys: "distinct (map fst (wd_items db'))"
    using inv_keys [OF inv] fresh by (auto simp: db' db1 dict_get_None)
  have "\<exists>x. r = item_row_of cx x \<and> valid_item cx x" if "dict_get (wd_items db') j = Some r" for j r
    using that inv_item [OF inv] itf unfolding get by (auto split: if_splits)
  with rt keys rows wf have "pg_inv cx db'" unfolding pg_inv_def by blast
  moreover have "m = wi_created_at it" using itf by simp
  moreover have "wd_items db' = wd_items db @ [(?k, item_row_of cx it)]" by (simp add: db' db1)
  ultimately show ?thesis using it ev fresh item tr now by blast
qed

subsection \<open>Reads\<close>

lemma count_by_group:
  assumes "finite W" "\<And>x. x \<in> set xs \<Longrightarrow> Q x \<Longrightarrow> g x \<in> W"
  shows "(\<Sum>w \<in> W. length (filter (\<lambda>x. Q x \<and> g x = w) xs)) = length (filter Q xs)"
  using assms(2)
proof (induction xs)
  case (Cons x xs)
  have "(\<Sum>w \<in> W. length (filter (\<lambda>y. Q y \<and> g y = w) (x # xs))) =
      (\<Sum>w \<in> W. (if Q x \<and> g x = w then 1 else 0) + length (filter (\<lambda>y. Q y \<and> g y = w) xs))"
    by (rule sum.cong) auto
  then show ?case using Cons assms(1) by (auto simp: sum.distrib)
qed simp

lemma numbered_kinds:
  "length (filter (\<lambda>r. er_kind r = CHAT_TURN_RESERVED) (numbered cx k n es)) = length (filter reserved es)"
  by (induction es arbitrary: n) (simp_all add: numbered_def reserved_def)

lemma kinds_of_trace:
  assumes "pg_inv cx db"
  shows "length (filter reserved (pg_trace_of cx db k)) = length (filter (\<lambda>r. er_kind r = CHAT_TURN_RESERVED) (rows_of db k))"
  by (simp add: inv_rows [OF assms] numbered_kinds)

lemma turns_reserved:
  assumes inv: "pg_inv cx db" and t: "t \<noteq> []"
  shows "pg_turns_used t t db = reserved_turns (pg_trace_of cx db) t"
proof -
  let ?W = "{w. pg_trace_of cx db (t, w) \<noteq> []}"
  let ?Q = "\<lambda>r. fst (er_key r) = t \<and> er_kind r = CHAT_TURN_RESERVED"
  have occurs: "snd (er_key r) \<in> ?W" if "r \<in> set (wd_events db)" "?Q r" for r
    using that by (cases "er_key r") (auto simp: pg_trace_of_def rows_of_def filter_empty_conv)
  have "?W \<subseteq> (\<lambda>r. snd (er_key r)) ` set (wd_events db)"
    by (auto simp: pg_trace_of_def rows_of_def filter_empty_conv image_iff) (metis snd_conv)
  then have fin: "finite ?W" by (rule finite_subset) simp
  have "reserved_turns (pg_trace_of cx db) t =
      (\<Sum>w \<in> ?W. length (filter (\<lambda>r. ?Q r \<and> snd (er_key r) = w) (wd_events db)))"
    unfolding reserved_turns_def kinds_of_trace [OF inv] rows_of_def filter_filter
    by (intro sum.cong arg_cong [where f = length] filter_cong) (auto simp: prod_eq_iff)
  also have "\<dots> = length (filter ?Q (wd_events db))"
    using fin occurs by (rule count_by_group)
  finally show ?thesis using t by (simp add: pg_turns_used_def tenant_scope_def cong: conj_cong)
qed

lemma events_of_numbered:
  assumes "documents_round_trip cx" "list_all (\<lambda>e. valid_event cx e \<and> (we_tenant e, we_work_item e) = k) es"
  shows "events_of_rows cx n (numbered cx k n es) = Inr es"
  using assms(2)
proof (induction es arbitrary: n)
  case (Cons e es)
  then have "event_of_row cx n (trace_row_of cx n e k) = Inr e"
    using decode_valid_event [OF assms(1)] by (auto simp: event_of_row_def)
  moreover have "numbered cx k n (e # es) = trace_row_of cx n e k # numbered cx k (Suc n) es"
    by (simp add: numbered_def)
  ultimately show ?case using Cons by simp
qed (simp add: numbered_def)

lemma trace_reads:
  assumes "pg_inv cx db" "wf_transaction role t = Inr t"
  shows "pg_trace cx role t w db = Inr (pg_trace_of cx db (t, w))"
proof (cases "t = []")
  case True
  then have "pg_item_of cx db (t, w) = None" using tenant_nonempty [OF assms(1)] by fastforce
  then have "pg_trace_of cx db (t, w) = []" using inv_wf [OF assms(1), of "(t, w)"] by (simp add: trace_wf_def)
  then show ?thesis using True assms(2) by (simp add: pg_trace_def trace_rows_def tenant_scope_def)
next
  case False
  have "list_all (\<lambda>e. valid_event cx e \<and> (we_tenant e, we_work_item e) = (t, w)) (pg_trace_of cx db (t, w))"
    using inv_wf [OF assms(1), of "(t, w)"] by (auto simp: trace_wf_def split: option.splits)
  note read = events_of_numbered [OF inv_round_trip [OF assms(1)] this, of 1]
  have "sort_key er_sequence (numbered cx (t, w) 1 es) = numbered cx (t, w) 1 es" for es
    by (rule sort_key_sorted) (simp only: numbered_sequence sorted_upt)
  then show ?thesis
    using assms(2) read by (simp add: pg_trace_def scoped_rows [OF False] inv_rows [OF assms(1)])
qed

lemma get_reads:
  assumes "pg_inv cx db" "wf_transaction role t = Inr t"
  shows "pg_get cx role t w db = Inr (pg_item_of cx db (t, w))"
proof (cases "dict_get (wd_items db) (t, w)")
  case None
  then show ?thesis using assms by (simp add: pg_get_def fetch_def pg_item_of_def)
next
  case (Some r)
  then obtain x where "pg_item_of cx db (t, w) = Some x" "item_of_row cx (t, w) r = Inr x"
    using stored_item [OF assms(1)] by metis
  then show ?thesis
    using Some assms tenant_nonempty [OF assms(1)] by (auto simp: pg_get_def fetch_def tenant_scope_def)
qed

lemma items_of_rows_map:
  assumes "\<And>k r. (k, r) \<in> set rows \<Longrightarrow> item_of_row cx k r = Inr (f k)"
  shows "items_of_rows cx rows = Inr (map (f \<circ> fst) rows)"
  using assms by (induction cx rows rule: items_of_rows.induct) auto

lemma list_reads:
  assumes inv: "pg_inv cx db" and tx: "wf_transaction role t = Inr t"
  shows "pg_list cx role t db = Inr (sort_key wi_created_at
    (map (\<lambda>p. the (pg_item_of cx db (fst p))) (filter (\<lambda>(k, _). fst k = t) (wd_items db))))"
proof -
  have row: "item_of_row cx k r = Inr (the (pg_item_of cx db k))" if "(k, r) \<in> set (wd_items db)" for k r
    using dict_get_in [OF inv_keys [OF inv] that] by (rule stored_item [OF inv]) simp
  have "filter (\<lambda>(k, _). tenant_scope t (fst k) \<and> fst k = t) (wd_items db) = filter (\<lambda>(k, _). fst k = t) (wd_items db)"
  proof (rule filter_cong [OF refl])
    fix p assume p: "p \<in> set (wd_items db)"
    obtain k r where kr: "p = (k, r)" by (cases p)
    from p kr obtain x where "pg_item_of cx db k = Some x"
      using dict_get_in [OF inv_keys [OF inv]] by (metis stored_item [OF inv])
    then have "fst k \<noteq> []" using tenant_nonempty [OF inv, of "fst k" "snd k"] by simp
    then show "(case p of (k, _) \<Rightarrow> tenant_scope t (fst k) \<and> fst k = t) = (case p of (k, _) \<Rightarrow> fst k = t)"
      by (auto simp: kr tenant_scope_def)
  qed
  moreover have "items_of_rows cx (filter (\<lambda>(k, _). fst k = t) (wd_items db)) =
      Inr (map ((\<lambda>k. the (pg_item_of cx db k)) \<circ> fst) (filter (\<lambda>(k, _). fst k = t) (wd_items db)))"
    by (rule items_of_rows_map) (auto simp: row)
  ultimately show ?thesis by (simp add: pg_list_def tx o_def)
qed

subsection \<open>Refinement of the local store\<close>

definition pg_abs :: "workflow_codec \<Rightarrow> workflow_db \<Rightarrow> memory_store" where
  "pg_abs cx db =
    \<lparr>ms_items = map (\<lambda>(k, _). (k, the (pg_item_of cx db k))) (wd_items db),
     ms_events = map (\<lambda>(k, _). (k, pg_trace_of cx db k)) (wd_items db)\<rparr>"

lemma dict_get_keyed: "dict_get (map (\<lambda>(k, _). (k, f k)) d) k = (if dict_get d k = None then None else Some (f k))"
  by (induction d) (auto simp: dict_get_def)

lemma update_keyed:
  "dict_get d k \<noteq> None \<Longrightarrow> distinct (map fst d) \<Longrightarrow>
    AList.update k v (map (\<lambda>(j, _). (j, f j)) d) = map (\<lambda>(j, _). (j, (f(k := v)) j)) d"
proof (induction d)
  case (Cons p d)
  obtain j r where p: "p = (j, r)" by (cases p)
  show ?case
  proof (cases "j = k")
    case True
    then have "k \<notin> fst ` set d" using Cons.prems p by simp
    then show ?thesis using True by (auto simp: p split_def)
  next
    case False
    then have "dict_get d k \<noteq> None" using Cons.prems by (simp add: p dict_get_def)
    then show ?thesis using Cons False by (simp add: p)
  qed
qed (simp add: dict_get_def)

lemma abs_views:
  assumes "pg_inv cx db"
  shows "mem_item_of (pg_abs cx db) = pg_item_of cx db" "mem_trace_of (pg_abs cx db) = pg_trace_of cx db"
proof -
  have "mem_item_of (pg_abs cx db) k = pg_item_of cx db k" for k
    using item_none [OF assms, of k] by (auto simp: mem_views pg_abs_def dict_get_keyed)
  then show "mem_item_of (pg_abs cx db) = pg_item_of cx db" by blast
  have "pg_trace_of cx db k = []" if "dict_get (wd_items db) k = None" for k
    using inv_wf [OF assms, of k] item_none [OF assms, of k] that by (simp add: trace_wf_def)
  then have "mem_trace_of (pg_abs cx db) k = pg_trace_of cx db k" for k
    by (auto simp: mem_views pg_abs_def dict_get_keyed)
  then show "mem_trace_of (pg_abs cx db) = pg_trace_of cx db" by blast
qed

lemma abs_keys: "map fst (ms_items (pg_abs cx db)) = map fst (wd_items db)" "map fst (ms_events (pg_abs cx db)) = map fst (wd_items db)"
  by (simp_all add: pg_abs_def split_def o_def)

lemma abs_turns: "pg_inv cx db \<Longrightarrow> mem_turns_used t (pg_abs cx db) = reserved_turns (pg_trace_of cx db) t"
  using mem_turns_reserved [of "pg_abs cx db" t] inv_keys [of cx db] by (simp add: abs_views abs_keys)

lemma abs_append:
  assumes "pg_inv cx db" "pg_append cx t (t, w) e db = Inr (e', db')" "event_for cx k u t w a e"
    "pg_item_of cx db (t, w) = Some x" "k \<noteq> INTAKE" "k \<in> {CHAT_TURN_RESERVED, CHAT_TURN_RECORDED} \<longrightarrow> owned_by a (Some x)"
  shows "mem_append (t, w) e (pg_abs cx db) = Inr (e', pg_abs cx db')"
proof -
  note app = pg_append_inv [OF assms]
  have key: "dict_get (wd_items db) (t, w) \<noteq> None" using item_none [OF assms(1)] assms(4) by force
  then have "dict_get (ms_events (pg_abs cx db)) (t, w) = Some (pg_trace_of cx db (t, w))"
    by (simp add: pg_abs_def dict_get_keyed)
  then show ?thesis
    using app update_keyed [OF key inv_keys [OF assms(1)], of _ "pg_trace_of cx db"]
    by (simp add: mem_append_def) (simp add: pg_abs_def)
qed

subsection \<open>Each operation\<close>

lemma transaction_setting: "wf_transaction role t = Inr s \<Longrightarrow> s = t"
  by (simp add: wf_transaction_def split: if_splits)

text \<open>What a committed append means, for the tables and for the local store they stand for.\<close>

lemma analysis_commits:
  assumes inv: "pg_inv cx db" and ok: "pg_record_grounded_analysis cx role u t w a x now db = Inr (e, db')"
  shows "pg_inv cx db' \<and> analysis_event cx u t w a x now = Inr e \<and> pg_item_of cx db (t, w) \<noteq> None
    \<and> pg_item_of cx db' = pg_item_of cx db
    \<and> pg_trace_of cx db' = (pg_trace_of cx db)((t, w) := pg_trace_of cx db (t, w) @ [e])
    \<and> mem_record_grounded_analysis cx u t w a x now (pg_abs cx db) = Inr (e, pg_abs cx db')"
proof -
  from ok obtain ev y where ev: "analysis_event cx u t w a x now = Inr ev" and y: "pg_item_of cx db (t, w) = Some y"
    and app: "pg_append cx t (t, w) ev db = Inr (e, db')"
    by (auto simp: pg_record_grounded_analysis_def pg_item_Inr [OF inv] dest!: transaction_setting)
  note commit = pg_append_inv [OF inv app analysis_event_for [OF ev] y] abs_append [OF inv app analysis_event_for [OF ev] y]
  have "dict_get (ms_items (pg_abs cx db)) (t, w) \<noteq> None"
    using y abs_views [OF inv] by (simp add: mem_views(1) [symmetric])
  with ev y commit show ?thesis by (simp add: mem_record_grounded_analysis_def)
qed

lemma gate_commits:
  assumes inv: "pg_inv cx db" and ok: "pg_add_gate_request cx role u t w a g b dg now db = Inr (e, db')"
  shows "pg_inv cx db' \<and> gate_event cx u t w a g b dg now = Inr e \<and> pg_item_of cx db (t, w) \<noteq> None
    \<and> pg_item_of cx db' = pg_item_of cx db
    \<and> pg_trace_of cx db' = (pg_trace_of cx db)((t, w) := pg_trace_of cx db (t, w) @ [e])
    \<and> mem_add_gate_request cx u t w a g b dg now (pg_abs cx db) = Inr (e, pg_abs cx db')"
proof -
  from ok obtain ev y where ev: "gate_event cx u t w a g b dg now = Inr ev" and y: "pg_item_of cx db (t, w) = Some y"
    and app: "pg_append cx t (t, w) ev db = Inr (e, db')"
    by (auto simp: pg_add_gate_request_def pg_item_Inr [OF inv] dest!: transaction_setting)
  note commit = pg_append_inv [OF inv app gate_event_for [OF ev] y] abs_append [OF inv app gate_event_for [OF ev] y]
  with ev y show ?thesis by (simp add: mem_add_gate_request_def)
qed

lemma turn_commits:
  assumes inv: "pg_inv cx db" and ok: "pg_record_chat_turn cx role u t w a x now db = Inr (e, db')"
  shows "pg_inv cx db' \<and> audit_event cx u t w a x now = Inr e \<and> owned_by a (pg_item_of cx db (t, w))
    \<and> pg_item_of cx db' = pg_item_of cx db
    \<and> pg_trace_of cx db' = (pg_trace_of cx db)((t, w) := pg_trace_of cx db (t, w) @ [e])
    \<and> mem_record_chat_turn cx u t w a x now (pg_abs cx db) = Inr (e, pg_abs cx db')"
proof -
  from ok obtain ev y where ev: "audit_event cx u t w a x now = Inr ev" and y: "pg_item_of cx db (t, w) = Some y"
    and own: "owned_by a (Some y)" and app: "pg_append cx t (t, w) ev db = Inr (e, db')"
    by (auto simp: pg_record_chat_turn_def pg_item_Inr [OF inv] owned_by_def split: if_splits dest!: transaction_setting)
  note commit = pg_append_inv [OF inv app audit_event_for [OF ev] y] abs_append [OF inv app audit_event_for [OF ev] y]
  have "dict_get (ms_items (pg_abs cx db)) (t, w) = Some y"
    using y abs_views [OF inv] by (simp add: mem_views(1) [symmetric])
  with ev y own commit show ?thesis by (simp add: mem_record_chat_turn_def)
qed

lemma reserve_commits:
  assumes inv: "pg_inv cx db" and ok: "pg_reserve_chat_turn cx role u t w a x limit now db = Inr (e, db')"
  shows "pg_inv cx db' \<and> reservation_event cx u t w a x now = Inr e \<and> owned_by a (pg_item_of cx db (t, w))
    \<and> pg_item_of cx db' = pg_item_of cx db
    \<and> pg_trace_of cx db' = (pg_trace_of cx db)((t, w) := pg_trace_of cx db (t, w) @ [e])
    \<and> (\<forall>l. limit = Some l \<longrightarrow> int (reserved_turns (pg_trace_of cx db) t) < l)
    \<and> mem_reserve_chat_turn cx u t w a x limit now (pg_abs cx db) = Inr (e, pg_abs cx db')"
proof -
  from ok obtain ev y where ev: "reservation_event cx u t w a x now = Inr ev" and y: "pg_item_of cx db (t, w) = Some y"
    and own: "owned_by a (Some y)" and app: "pg_append cx t (t, w) ev db = Inr (e, db')"
    and lim: "\<forall>l \<in> set_option limit. 0 < l \<and> int (pg_turns_used t t db) < l"
    by (auto simp: pg_reserve_chat_turn_def pg_item_Inr [OF inv] owned_by_def not_le split: if_splits dest!: transaction_setting)
  note commit = pg_append_inv [OF inv app reservation_event_for [OF ev] y] abs_append [OF inv app reservation_event_for [OF ev] y]
  have item: "dict_get (ms_items (pg_abs cx db)) (t, w) = Some y"
    using y abs_views [OF inv] by (simp add: mem_views(1) [symmetric])
  note turns = turns_reserved [OF inv tenant_nonempty [OF inv y]]
  show ?thesis
    using ev y own commit lim item by (auto simp: mem_reserve_chat_turn_def turns abs_turns [OF inv] require_all.simps)
qed

lemma create_commits:
  assumes inv: "pg_inv cx db" and ok: "pg_create_intake cx role u v i db = Inr (it, db')"
  shows "mem_create_intake cx u v i (pg_abs cx db) = Inr (it, pg_abs cx db')"
proof -
  let ?k = "(in_tenant i, wi_id it)"
  note c = pg_create_inv [OF assms]
  then obtain e where now: "utc_of (in_now i) = Inr (wi_created_at it)"
    and it: "intake_item cx u i (wi_created_at it) = Inr it"
    and ev: "intake_event cx v i it (wi_created_at it) = Inr e"
    and fresh: "dict_get (wd_items db) ?k = None"
    and rows: "wd_items db' = wd_items db @ [(?k, item_row_of cx it)]"
    and views: "pg_item_of cx db' = (pg_item_of cx db)(?k \<mapsto> it)"
      "pg_trace_of cx db' = (pg_trace_of cx db)(?k := [e])"
    by blast
  have "(?k, r) \<notin> set (wd_items db)" for r
    using fresh by (force simp: dict_get_None)
  then have "pg_abs cx db' = (pg_abs cx db)\<lparr>ms_items := ms_items (pg_abs cx db) @ [(?k, it)],
      ms_events := ms_events (pg_abs cx db) @ [(?k, [e])]\<rparr>"
    by (auto simp: pg_abs_def rows views fun_upd_def)
  moreover have "dict_get (ms_items (pg_abs cx db)) ?k = None" "dict_get (ms_events (pg_abs cx db)) ?k = None"
    using fresh by (simp_all add: pg_abs_def dict_get_keyed)
  ultimately show ?thesis
    using now it ev by (simp add: mem_create_intake_def Let_def update_fresh)
qed

lemma abs_inv: "pg_inv cx db \<Longrightarrow> mem_inv cx (pg_abs cx db)"
  unfolding mem_inv_def abs_keys abs_views using inv_keys inv_wf
  by (auto simp: pg_abs_def dict_get_keyed)

lemma list_is_sorted_local:
  assumes "pg_inv cx db" "wf_transaction role t = Inr t"
  shows "pg_list cx role t db = Inr (sort_key wi_created_at (mem_list t (pg_abs cx db)))"
proof -
  have "mem_list t (pg_abs cx db) =
      map (\<lambda>p. the (pg_item_of cx db (fst p))) (filter (\<lambda>(k, _). fst k = t) (wd_items db))"
    by (simp add: mem_list_def pg_abs_def filter_map o_def split_def)
  then show ?thesis using list_reads [OF assms] by simp
qed

lemma distinct_sort_key: "distinct (map g (sort_key f xs)) \<longleftrightarrow> distinct (map g xs)"
  by (rule mset_eq_imp_distinct_iff) simp

interpretation pgw: workflow_contract "postgres_ops cx role" cx "pg_inv cx" "pg_item_of cx" "pg_trace_of cx" for cx role
proof unfold_locales
  fix d :: workflow_db and t w a u v :: string and now :: datetime and e and d' :: workflow_db and limit :: "int option"
  assume inv: "pg_inv cx d"
  have read: "wf_transaction role t = Inr t" if "wf_transaction role t = Inr s" for s
    using that transaction_setting by metis
  have "{k. pg_trace_of cx d k \<noteq> []} \<subseteq> er_key ` set (wd_events d)"
    by (auto simp: pg_trace_of_def rows_of_def filter_empty_conv intro: rev_image_eqI)
  then show "finite {k. pg_trace_of cx d k \<noteq> []}" by (rule finite_subset) simp
  show "trace_wf cx k (pg_item_of cx d k) (pg_trace_of cx d k)" for k
    using inv_wf [OF inv] .
  show "pg_inv cx d' \<and> intake_item cx u i (wi_created_at it) = Inr it
      \<and> pg_item_of cx d' = (pg_item_of cx d)((in_tenant i, wi_id it) \<mapsto> it)
      \<and> (\<exists>e. intake_event cx v i it (wi_created_at it) = Inr e
            \<and> pg_trace_of cx d' = (pg_trace_of cx d)((in_tenant i, wi_id it) := [e]))"
    if "st_create_intake (postgres_ops cx role) u v i d = Inr (it, d')" for i it
    using pg_create_inv [OF inv] that by (simp add: postgres_ops_def)
  show "found = pg_item_of cx d (t, w)" if "st_get (postgres_ops cx role) t w d = Inr found" for found
    using that get_reads [OF inv read] by (auto simp: postgres_ops_def pg_get_def elim: ebind_eq_InrE)
  show "tr = pg_trace_of cx d (t, w)" if "st_trace (postgres_ops cx role) t w d = Inr tr" for tr
    using that trace_reads [OF inv read] by (auto simp: postgres_ops_def pg_trace_def elim: ebind_eq_InrE)
  show "distinct (map wi_id l) \<and> set l = {it. \<exists>w. pg_item_of cx d (t, w) = Some it}"
    if "st_list (postgres_ops cx role) t d = Inr l" for l
  proof -
    have "wf_transaction role t = Inr t"
      using that read by (auto simp: postgres_ops_def pg_list_def elim: ebind_eq_InrE)
    then have "l = sort_key wi_created_at (mem_list t (pg_abs cx d))"
      using that list_is_sorted_local [OF inv] by (simp add: postgres_ops_def)
    then show ?thesis
      using mem_list_items [OF abs_inv [OF inv], of t] abs_views [OF inv] by (simp add: distinct_sort_key)
  qed
qed (auto simp: postgres_ops_def dest: analysis_commits gate_commits turn_commits reserve_commits)

text \<open>Every operation of the durable store is the same operation of the local one on the store it stands for.\<close>

lemma step_simulates:
  assumes inv: "pg_inv cx db" and step: "workflow_step (postgres_ops cx role) (pg_item_of cx) limit db db'"
  shows "workflow_step (memory_ops cx) mem_item_of limit (pg_abs cx db) (pg_abs cx db')"
  using step
proof cases
  case (create u v i it)
  then have "mem_create_intake cx u v i (pg_abs cx db) = Inr (it, pg_abs cx db')"
    using create_commits [OF inv] by (simp add: postgres_ops_def)
  with create(2) show ?thesis
    by (intro workflow_step.create) (auto simp: memory_ops_def abs_views [OF inv])
next
  case (analysis u t w a x now e)
  then have "st_record_analysis (memory_ops cx) u t w a x now (pg_abs cx db) = Inr (e, pg_abs cx db')"
    using analysis_commits [OF inv] by (simp add: postgres_ops_def memory_ops_def)
  then show ?thesis by (rule workflow_step.analysis)
next
  case (turn u t w a y now e)
  then have "st_record_turn (memory_ops cx) u t w a y now (pg_abs cx db) = Inr (e, pg_abs cx db')"
    using turn_commits [OF inv] by (simp add: postgres_ops_def memory_ops_def)
  then show ?thesis by (rule workflow_step.turn)
next
  case (reserve u t w a r now e)
  then have "st_reserve_turn (memory_ops cx) u t w a r (limit t) now (pg_abs cx db) = Inr (e, pg_abs cx db')"
    using reserve_commits [OF inv] by (simp add: postgres_ops_def memory_ops_def)
  then show ?thesis by (rule workflow_step.reserve)
next
  case (gate u t w a g ok dg now e)
  then have "st_add_gate (memory_ops cx) u t w a g ok dg now (pg_abs cx db) = Inr (e, pg_abs cx db')"
    using gate_commits [OF inv] by (simp add: postgres_ops_def memory_ops_def)
  then show ?thesis by (rule workflow_step.gate)
qed

lemma empty_pg_inv: "documents_round_trip cx \<Longrightarrow> pg_inv cx empty_workflow_db"
  by (simp add: pg_inv_def empty_workflow_db_def pg_item_of_def pg_trace_of_def rows_of_def dict_get_def
      trace_wf_def numbered_def)

lemma reachable_pg_inv:
  assumes "documents_round_trip cx"
    and "reachable (\<lambda>d. d = empty_workflow_db) (workflow_step (postgres_ops cx role) (pg_item_of cx) limit) db"
  shows "pg_inv cx db"
  using assms(2) by induction (auto simp: empty_pg_inv [OF assms(1)] intro: pgw.step_inv)

end
