(* ===== verification/Workflow_Delivery.thy ===== *)
theory Workflow_Delivery
  imports Workflow_Store_Inv
begin

text \<open>
  Delivery through the outbox and inbox of the durable store, by any number of workers.

  \<open>delivery_step\<close> is one transaction of any client, together with the log of what it was told: a claim it was
  given (with the lease it may rely on), an acknowledgement or a processing mark that was accepted.
  \<open>compatible\<close> is the discipline of that log: the leases on one event never overlap, an acknowledged event is
  neither claimed nor acknowledged again, an inbound event is processed once. \<open>holder\<close> is the worker that was
  last given an event. Clocks of the workers are arbitrary; nothing relies on their agreement.
\<close>

declare split_paired_All [simp del] split_paired_Ex [simp del] split_paired_all [simp del]

datatype delivery =
    Claimed_Event "string \<times> string" string moment moment
  | Acked_Event "string \<times> string" string
  | Processed_Event "string \<times> string"

definition claim_receipt :: "string \<Rightarrow> outbox_entry \<Rightarrow> delivery" where
  "claim_receipt worker x =
    Claimed_Event (ob_tenant x, ob_event_id x) worker (ob_updated_at x) (the (ob_lease_expires_at x))"

inductive delivery_step ::
  "workflow_codec \<Rightarrow> workflow_db \<times> delivery list \<Rightarrow> workflow_db \<times> delivery list \<Rightarrow> bool" for cx
where
  workflow: "workflow_step (postgres_ops cx role) (pg_item_of cx) limit db db' \<Longrightarrow> delivery_step cx (db, hist) (db', hist)"
| enqueue: "enqueue_outbox cx role t w ev topic payload now db = Inr (x, db') \<Longrightarrow> delivery_step cx (db, hist) (db', hist)"
| claim: "claim_outbox cx role locked t worker now lease db = Inr (Some x, db') \<Longrightarrow>
    delivery_step cx (db, hist) (db', hist @ [claim_receipt worker x])"
| idle: "claim_outbox cx role locked t worker now lease db = Inr (None, db') \<Longrightarrow> delivery_step cx (db, hist) (db', hist)"
| ack: "ack_outbox role t ev worker db = Inr (ok, db') \<Longrightarrow>
    delivery_step cx (db, hist) (db', if ok then hist @ [Acked_Event (t, ev) worker] else hist)"
| inbox: "record_inbox cx role t ev source payload now db = Inr (y, db') \<Longrightarrow> delivery_step cx (db, hist) (db', hist)"
| processed: "mark_inbox_processed role t ev now db = Inr (ok, db') \<Longrightarrow>
    delivery_step cx (db, hist) (db', if ok then hist @ [Processed_Event (t, ev)] else hist)"

fun compatible :: "delivery \<Rightarrow> delivery \<Rightarrow> bool" where
  "compatible (Claimed_Event k v s e) (Claimed_Event k' v' s' e') = (k = k' \<longrightarrow> e \<le> s')"
| "compatible (Acked_Event k v) (Claimed_Event k' v' s' e') = (k \<noteq> k')"
| "compatible (Acked_Event k v) (Acked_Event k' v') = (k \<noteq> k')"
| "compatible (Processed_Event k) (Processed_Event k') = (k \<noteq> k')"
| "compatible _ _ = True"

fun holder :: "delivery list \<Rightarrow> string \<times> string \<Rightarrow> string option" where
  "holder [] k = None"
| "holder (Claimed_Event k' v s e # hist) k =
    (case holder hist k of Some u \<Rightarrow> Some u | None \<Rightarrow> if k' = k then Some v else None)"
| "holder (_ # hist) k = holder hist k"

definition acks_held :: "delivery list \<Rightarrow> bool" where
  "acks_held hist \<longleftrightarrow>
    (\<forall>i < length hist. \<forall>k v. hist ! i = Acked_Event k v \<longrightarrow> holder (take i hist) k = Some v)"

fun reflected :: "workflow_db \<Rightarrow> delivery \<Rightarrow> bool" where
  "reflected db (Claimed_Event k v s e) \<longleftrightarrow>
    (\<exists>r. dict_get (wd_outbox db) k = Some r \<and> or_status r \<noteq> PENDING
       \<and> (or_status r = CLAIMED \<longrightarrow> (\<exists>l. or_lease r = Some l \<and> e \<le> l)))"
| "reflected db (Acked_Event k v) \<longleftrightarrow> (\<exists>r. dict_get (wd_outbox db) k = Some r \<and> or_status r = ACKED)"
| "reflected db (Processed_Event k) \<longleftrightarrow> (\<exists>r. dict_get (wd_inbox db) k = Some r \<and> br_status r = PROCESSED)"

definition delivery_inv :: "workflow_db \<times> delivery list \<Rightarrow> bool" where
  "delivery_inv st \<longleftrightarrow> distinct (map fst (wd_outbox (fst st)))
    \<and> list_all (reflected (fst st)) (snd st) \<and> sorted_wrt compatible (snd st) \<and> acks_held (snd st)
    \<and> (\<forall>k r. dict_get (wd_outbox (fst st)) k = Some r \<longrightarrow> or_status r = CLAIMED \<longrightarrow> or_worker r = holder (snd st) k)"

subsection \<open>Logs\<close>

lemma holder_append: "holder (hist @ hist2) k = (case holder hist2 k of Some u \<Rightarrow> Some u | None \<Rightarrow> holder hist k)"
  by (induction hist k rule: holder.induct) (auto split: option.splits)

lemma acks_held_snoc:
  "acks_held (hist @ [d]) \<longleftrightarrow> acks_held hist \<and> (\<forall>k v. d = Acked_Event k v \<longrightarrow> holder hist k = Some v)"
  by (auto simp: acks_held_def nth_append less_Suc_eq)

lemma sorted_wrt_snoc: "sorted_wrt P (xs @ [x]) \<longleftrightarrow> sorted_wrt P xs \<and> (\<forall>y \<in> set xs. P y x)"
  by (simp add: sorted_wrt_append)

subsection \<open>What each operation does to the two tables\<close>

lemma insert_trace_frame: "insert_trace_row row db = Inr db' \<Longrightarrow> wd_outbox db' = wd_outbox db \<and> wd_inbox db' = wd_inbox db"
  by (simp add: insert_trace_row_Inr)

lemma append_frame: "pg_append cx s k e db = Inr (e', db') \<Longrightarrow> wd_outbox db' = wd_outbox db \<and> wd_inbox db' = wd_inbox db"
  by (auto simp: pg_append_def Let_def dest: insert_trace_frame)

lemma workflow_frame:
  assumes "workflow_step (postgres_ops cx role) item_of limit db db'"
  shows "wd_outbox db' = wd_outbox db \<and> wd_inbox db' = wd_inbox db"
  using assms
  by cases (auto simp: postgres_ops_def pg_create_intake_def pg_record_grounded_analysis_def pg_record_chat_turn_def
      pg_reserve_chat_turn_def pg_add_gate_request_def Let_def insert_item_def insert_trace_row_Inr split: if_splits
      dest: append_frame)

lemma enqueue_frame:
  assumes "enqueue_outbox cx role t w ev topic payload now db = Inr (x, db')"
  shows "wd_inbox db' = wd_inbox db \<and> (db' = db \<or> dict_get (wd_outbox db) (t, ev) = None
    \<and> (\<exists>r. or_status r = PENDING \<and> wd_outbox db' = AList.update (t, ev) r (wd_outbox db)))"
  using assms by (auto simp: enqueue_outbox_def Let_def split: if_splits option.splits)
    (rule exI, rule conjI [rotated], rule refl, simp)

lemma inbox_frame:
  assumes "record_inbox cx role t ev source payload now db = Inr (y, db')"
  shows "wd_outbox db' = wd_outbox db \<and> (db' = db \<or> dict_get (wd_inbox db) (t, ev) = None
    \<and> (\<exists>r. br_status r = RECEIVED \<and> wd_inbox db' = AList.update (t, ev) r (wd_inbox db)))"
  using assms by (auto simp: record_inbox_def Let_def split: if_splits option.splits)
    (rule exI, rule conjI [rotated], rule refl, simp)

lemma outbox_of_row_sel:
  "outbox_of_row cx key row = Inr x \<Longrightarrow> ob_tenant x = fst key \<and> ob_event_id x = snd key \<and> ob_updated_at x = or_updated row
    \<and> ob_lease_expires_at x = or_lease row \<and> ob_worker x = or_worker row \<and> ob_attempts x = or_attempts row"
  by (auto simp: outbox_of_row_def Let_def seal_def split: if_splits)

lemma idle_frame: "claim_outbox cx role locked t worker now lease db = Inr (None, db') \<Longrightarrow> db' = db"
  by (auto simp: claim_outbox_def Let_def split: if_splits list.splits)

lemma claim_takes:
  assumes "claim_outbox cx role locked t worker now lease db = Inr (Some x, db')" "distinct (map fst (wd_outbox db))"
  obtains k row m where "dict_get (wd_outbox db) k = Some row" "utc now = Some m" "0 < lease" "fst k = t"
    "or_status row = PENDING \<or> or_status row = CLAIMED \<and> (\<exists>l. or_lease row = Some l \<and> l \<le> m)"
    "claim_receipt worker x = Claimed_Event k worker m (m + lease * 1000000)"
    "ob_attempts x = Suc (or_attempts row)"
    "db' = db\<lparr>wd_outbox := AList.update k (row\<lparr>or_status := CLAIMED, or_attempts := or_attempts row + 1,
       or_worker := Some worker, or_lease := Some (m + lease * 1000000), or_updated := m\<rparr>) (wd_outbox db)\<rparr>"
proof -
  from assms(1) obtain m setting k row rest where m: "utc now = Some m" and pos: "0 < lease"
    and rows: "sort_key (\<lambda>p. or_created (snd p)) (filter (claimable setting t m locked) (wd_outbox db)) = (k, row) # rest"
    and x: "outbox_of_row cx k (row\<lparr>or_status := CLAIMED, or_attempts := or_attempts row + 1,
       or_worker := Some worker, or_lease := Some (m + lease * 1000000), or_updated := m\<rparr>) = Inr x"
    and db': "db' = db\<lparr>wd_outbox := AList.update k (row\<lparr>or_status := CLAIMED, or_attempts := or_attempts row + 1,
       or_worker := Some worker, or_lease := Some (m + lease * 1000000), or_updated := m\<rparr>) (wd_outbox db)\<rparr>"
    by (auto simp: claim_outbox_def Let_def utc_of_def split: if_splits list.splits option.splits)
  have "(k, row) \<in> set (filter (claimable setting t m locked) (wd_outbox db))"
    using rows by (metis list.set_intros(1) set_sort)
  then have row: "(k, row) \<in> set (wd_outbox db)" "claimable setting t m locked (k, row)" by auto
  show thesis
  proof (rule that)
    show "dict_get (wd_outbox db) k = Some row" using row assms(2) by (simp add: dict_get_in)
    show "claim_receipt worker x = Claimed_Event k worker m (m + lease * 1000000)" "ob_attempts x = Suc (or_attempts row)"
      using outbox_of_row_sel [OF x] by (simp_all add: claim_receipt_def)
  qed (use m pos db' row in \<open>auto simp: claimable_def\<close>)
qed

lemma ack_effect:
  assumes "ack_outbox role t ev worker db = Inr (ok, db')"
  shows "if ok then \<exists>r. dict_get (wd_outbox db) (t, ev) = Some r \<and> or_status r = CLAIMED \<and> or_worker r = Some worker
      \<and> db' = db\<lparr>wd_outbox := AList.update (t, ev) (r\<lparr>or_status := ACKED, or_lease := None\<rparr>) (wd_outbox db)\<rparr>
    else db' = db"
  using assms by (auto simp: ack_outbox_def fetch_def split: if_splits option.splits)

lemma processed_effect:
  assumes "mark_inbox_processed role t ev now db = Inr (ok, db')"
  shows "if ok then \<exists>r m. dict_get (wd_inbox db) (t, ev) = Some r \<and> br_status r = RECEIVED
      \<and> db' = db\<lparr>wd_inbox := AList.update (t, ev) (r\<lparr>br_status := PROCESSED, br_processed := Some m\<rparr>) (wd_inbox db)\<rparr>
    else db' = db"
  using assms by (auto simp: mark_inbox_processed_def fetch_def split: if_splits option.splits)

subsection \<open>The discipline of the log\<close>

lemma reflected_cong:
  "(\<And>k. dict_get (wd_outbox db') k = dict_get (wd_outbox db) k) \<Longrightarrow>
   (\<And>k. dict_get (wd_inbox db') k = dict_get (wd_inbox db) k) \<Longrightarrow> reflected db' d = reflected db d"
  by (cases d) auto

lemma delivery_inv_same:
  assumes "delivery_inv (db, hist)" "wd_outbox db' = wd_outbox db" "wd_inbox db' = wd_inbox db"
  shows "delivery_inv (db', hist)"
proof -
  have "reflected db' = reflected db" using assms(2,3) reflected_cong [of db' db] by (intro ext) simp
  with assms show ?thesis by (simp add: delivery_inv_def)
qed

lemma delivery_inv_enqueue:
  assumes inv: "delivery_inv (db, hist)" and fresh: "dict_get (wd_outbox db) k = None" and r: "or_status r = PENDING"
    and out: "wd_outbox db' = AList.update k r (wd_outbox db)" and inb: "wd_inbox db' = wd_inbox db"
  shows "delivery_inv (db', hist)"
proof -
  have "reflected db' d" if "reflected db d" for d
    using that fresh by (cases d) (auto simp: out inb split: if_splits)
  then have "list_all (reflected db') hist" using inv by (auto simp: delivery_inv_def list_all_iff)
  with inv r show ?thesis by (auto simp: delivery_inv_def out)
qed

lemma delivery_inv_inbox:
  assumes inv: "delivery_inv (db, hist)" and fresh: "dict_get (wd_inbox db) k = None"
    and out: "wd_outbox db' = wd_outbox db" and inb: "wd_inbox db' = AList.update k r (wd_inbox db)"
  shows "delivery_inv (db', hist)"
proof -
  have "reflected db' d" if "reflected db d" for d
    using that fresh by (cases d) (auto simp: out inb)
  then have "list_all (reflected db') hist" using inv by (auto simp: delivery_inv_def list_all_iff)
  with inv show ?thesis by (auto simp: delivery_inv_def out)
qed

lemma delivery_inv_claim:
  assumes inv: "delivery_inv (db, hist)" and row: "dict_get (wd_outbox db) k = Some row" and e: "m \<le> e"
    and free: "or_status row = PENDING \<or> or_status row = CLAIMED \<and> (\<exists>l. or_lease row = Some l \<and> l \<le> m)"
    and r: "or_status r = CLAIMED" "or_worker r = Some v" "or_lease r = Some e"
  shows "delivery_inv (db\<lparr>wd_outbox := AList.update k r (wd_outbox db)\<rparr>, hist @ [Claimed_Event k v m e])"
proof -
  let ?db = "db\<lparr>wd_outbox := AList.update k r (wd_outbox db)\<rparr>"
  have old: "reflected db d" if "d \<in> set hist" for d
    using inv that by (auto simp: delivery_inv_def list_all_iff)
  have new: "reflected ?db d \<and> compatible d (Claimed_Event k v m e)" if "d \<in> set hist" for d
    using old [OF that] row free r e by (cases d) auto
  show ?thesis
    using inv new r
    by (auto simp: delivery_inv_def list_all_iff sorted_wrt_snoc acks_held_snoc holder_append)
qed

lemma delivery_inv_ack:
  assumes inv: "delivery_inv (db, hist)" and row: "dict_get (wd_outbox db) k = Some row"
    and held: "or_status row = CLAIMED" "or_worker row = Some v"
  shows "delivery_inv (db\<lparr>wd_outbox := AList.update k (row\<lparr>or_status := ACKED, or_lease := None\<rparr>) (wd_outbox db)\<rparr>,
    hist @ [Acked_Event k v])"
proof -
  let ?db = "db\<lparr>wd_outbox := AList.update k (row\<lparr>or_status := ACKED, or_lease := None\<rparr>) (wd_outbox db)\<rparr>"
  have old: "reflected db d" if "d \<in> set hist" for d
    using inv that by (auto simp: delivery_inv_def list_all_iff)
  have new: "reflected ?db d \<and> compatible d (Acked_Event k v)" if "d \<in> set hist" for d
    using old [OF that] row held by (cases d) auto
  have "holder hist k = Some v" using inv row held by (simp add: delivery_inv_def)
  then show ?thesis
    using inv new
    by (auto simp: delivery_inv_def list_all_iff sorted_wrt_snoc acks_held_snoc holder_append)
qed

lemma delivery_inv_processed:
  assumes inv: "delivery_inv (db, hist)" and row: "dict_get (wd_inbox db) k = Some row" "br_status row = RECEIVED"
    and r: "br_status r = PROCESSED"
  shows "delivery_inv (db\<lparr>wd_inbox := AList.update k r (wd_inbox db)\<rparr>, hist @ [Processed_Event k])"
proof -
  let ?db = "db\<lparr>wd_inbox := AList.update k r (wd_inbox db)\<rparr>"
  have old: "reflected db d" if "d \<in> set hist" for d
    using inv that by (auto simp: delivery_inv_def list_all_iff)
  have new: "reflected ?db d \<and> compatible d (Processed_Event k)" if "d \<in> set hist" for d
    using old [OF that] row r by (cases d) auto
  show ?thesis
    using inv new r
    by (auto simp: delivery_inv_def list_all_iff sorted_wrt_snoc acks_held_snoc holder_append)
qed

interpretation dlv: safety "\<lambda>st. st = (empty_workflow_db, [])" "delivery_step cx" delivery_inv for cx
proof unfold_locales
  show "delivery_inv st" if "st = (empty_workflow_db, [])" for st
    using that by (simp add: delivery_inv_def empty_workflow_db_def acks_held_def dict_get_def)
  show "delivery_inv st'" if "delivery_inv st" "delivery_step cx st st'" for st st'
    using that(2,1)
  proof cases
    case (workflow role limit db db' hist)
    then show ?thesis using workflow_frame [OF workflow(3)] that(1) by (auto intro: delivery_inv_same)
  next
    case (enqueue role t w ev topic payload now db x db' hist)
    then show ?thesis using enqueue_frame [OF enqueue(3)] that(1) by (auto intro: delivery_inv_enqueue)
  next
    case (claim role locked t worker now lease db x db' hist)
    have "distinct (map fst (wd_outbox db))" using that(1) claim by (simp add: delivery_inv_def)
    from claim_takes [OF claim(3) this] obtain k row m where row: "dict_get (wd_outbox db) k = Some row"
      "or_status row = PENDING \<or> or_status row = CLAIMED \<and> (\<exists>l. or_lease row = Some l \<and> l \<le> m)"
      and lease: "m \<le> m + lease * 1000000"
      and receipt: "claim_receipt worker x = Claimed_Event k worker m (m + lease * 1000000)"
      and db': "db' = db\<lparr>wd_outbox := AList.update k (row\<lparr>or_status := CLAIMED, or_attempts := or_attempts row + 1,
        or_worker := Some worker, or_lease := Some (m + lease * 1000000), or_updated := m\<rparr>) (wd_outbox db)\<rparr>"
      by (metis le_add_same_cancel1 less_imp_le mult_nonneg_nonneg zero_le_numeral)
    have "delivery_inv (db, hist)" using that(1) claim(1) by simp
    then show ?thesis
      unfolding claim(2) receipt db' by (rule delivery_inv_claim [OF _ row(1) lease row(2)]) simp_all
  next
    case (idle role locked t worker now lease db db' hist)
    then show ?thesis using idle_frame [OF idle(3)] that(1) by simp
  next
    case (ack role t ev worker db ok db' hist)
    then show ?thesis using ack_effect [OF ack(3)] that(1) by (auto intro: delivery_inv_ack split: if_splits)
  next
    case (inbox role t ev source payload now db y db' hist)
    then show ?thesis using inbox_frame [OF inbox(3)] that(1) by (auto intro: delivery_inv_inbox)
  next
    case (processed role t ev now db ok db' hist)
    then show ?thesis using processed_effect [OF processed(3)] that(1) by (auto intro!: delivery_inv_processed split: if_splits)
  qed
qed

end
