(* ===== verification/Workflow_Service_Inv.thy ===== *)
theory Workflow_Service_Inv
  imports Workflow_Service Workflow_Delivery
begin

text \<open>
  What the handlers do to a workflow store that keeps its contract, and how many agent calls they make.

  \<open>logged_service\<close> is a service whose agents also write every query to a log in the world. \<open>effect t n m\<close>
  relates two worlds: the data of tenants other than \<open>t\<close> is unchanged, no trace is shortened, \<open>n\<close> turns of \<open>t\<close>
  were reserved and \<open>m\<close> queries reached an agent. The locale \<open>durable_contract\<close> adds to the contract of a store that
  it never replaces an item; the durable store is an instance.
\<close>

declare split_paired_All [simp del] split_paired_Ex [simp del] split_paired_all [simp del]

definition with_log :: "('x \<Rightarrow> 'a \<times> 'x) \<Rightarrow> 'x \<times> 'l \<Rightarrow> 'a \<times> 'x \<times> 'l" where
  "with_log f s = (case f (fst s) of (a, x) \<Rightarrow> (a, x, snd s))"

definition log_query :: "(agent_query \<Rightarrow> 'x \<Rightarrow> 'a \<times> 'x) \<Rightarrow> agent_query \<Rightarrow> 'x \<times> agent_query list \<Rightarrow> 'a \<times> 'x \<times> agent_query list" where
  "log_query ask q s = (case ask q (fst s) of (a, x) \<Rightarrow> (a, x, snd s @ [q]))"

definition logged_service :: "('d, 'x) service \<Rightarrow> ('d, 'x \<times> agent_query list) service" where
  "logged_service sv =
    \<lparr>sv_store = sv_store sv, sv_clock = with_log (sv_clock sv), sv_uuid = with_log (sv_uuid sv),
     sv_verify = map_option (\<lambda>f token now. with_log (f token now)) (sv_verify sv),
     sv_browser_origin = sv_browser_origin sv,
     sv_broker = map_option (\<lambda>f r. with_log (f r)) (sv_broker sv),
     sv_reader = map_option (\<lambda>f r. with_log (f r)) (sv_reader sv),
     sv_grounded = map_option log_query (sv_grounded sv), sv_business = map_option log_query (sv_business sv),
     sv_turn_limit = sv_turn_limit sv, sv_model_tenant = sv_model_tenant sv, sv_repositories = sv_repositories sv\<rparr>"

definition model_allowed :: "('d, 'x) service \<Rightarrow> principal \<Rightarrow> chat_request \<Rightarrow> bool" where
  "model_allowed sv p q \<longleftrightarrow> may_operate p \<and> (\<forall>t \<in> set_option (sv_model_tenant sv). pr_tenant p = t)
    \<and> set (selected_repositories q) \<subseteq> set (sv_repositories sv) \<and> \<not> requires_runtime_evidence (rq_message q)
    \<and> sv_turn_limit sv \<noteq> Some 0"

lemma guards_allow:
  "chat_guards sv p q r = Inr u \<Longrightarrow> model_configured sv r \<Longrightarrow> model_allowed sv p q"
  by (auto simp: chat_guards_def model_allowed_def list_all_iff)

locale durable_contract = workflow_contract ops cx inv item_of trace_of
  for ops :: "'d workflow_store" and cx and inv and item_of and trace_of +
  assumes create_fresh: "inv d \<Longrightarrow> st_create_intake ops u v i d = Inr (it, d') \<Longrightarrow>
    item_of d (in_tenant i, ''wi-'' @ u) = None"
begin

definition effect :: "int option \<Rightarrow> string \<Rightarrow> nat \<Rightarrow> nat \<Rightarrow> 'd \<times> 'x \<times> agent_query list \<Rightarrow> 'd \<times> 'x \<times> agent_query list \<Rightarrow> bool" where
  "effect limit t n m s s' \<longleftrightarrow> inv (fst s) \<longrightarrow>
    inv (fst s')
    \<and> (\<forall>k. fst k \<noteq> t \<longrightarrow> item_of (fst s') k = item_of (fst s) k \<and> trace_of (fst s') k = trace_of (fst s) k)
    \<and> (\<forall>k. \<exists>new. trace_of (fst s') k = trace_of (fst s) k @ new)
    \<and> (\<forall>t'. reserved_turns (trace_of (fst s')) t' = reserved_turns (trace_of (fst s)) t' + (if t' = t then n else 0))
    \<and> (0 < n \<longrightarrow> (\<forall>l. limit = Some l \<longrightarrow> int (reserved_turns (trace_of (fst s)) t) < l))
    \<and> length (snd (snd s')) = length (snd (snd s)) + m"

lemma effect_refl: "fst s' = fst s \<Longrightarrow> snd (snd s') = snd (snd s) \<Longrightarrow> effect limit t 0 0 s s'"
  by (simp add: effect_def)

lemma effect_trans:
  assumes "effect limit t n m s s1" "effect limit t 0 m' s1 s2"
  shows "effect limit t n (m + m') s s2"
  using assms unfolding effect_def by (auto; metis append.assoc)

lemma effect_trans0:
  assumes "effect limit t 0 m s s1" "effect limit t n m' s1 s2"
  shows "effect limit t n (m + m') s s2"
  using assms unfolding effect_def by (auto; metis append.assoc)

lemma effect_append:
  assumes "inv d'" "item_of d' = item_of d" "trace_of d' = (trace_of d)((t, w) := trace_of d (t, w) @ [e])" "inv d"
    and "reserved e \<longrightarrow> (\<forall>l. limit = Some l \<longrightarrow> int (reserved_turns (trace_of d) t) < l)"
  shows "effect limit t (if reserved e then 1 else 0) 0 (d, x, l) (d', x', l)"
  using assms reserved_turns_append [OF finite_traces [OF assms(4)], of "(t, w)" e]
  by (auto simp: effect_def)

lemma effect_create:
  assumes "inv d" "st_create_intake ops u v i d = Inr (it, d')"
  shows "effect limit (in_tenant i) 0 0 (d, x, l) (d', x', l) \<and> item_of d' (in_tenant i, wi_id it) = Some it
    \<and> wi_created_by it = in_actor i"
proof -
  let ?k = "(in_tenant i, wi_id it)"
  note law = create_law [OF assms create_fresh [OF assms]]
  then obtain e where it: "intake_item cx u i (wi_created_at it) = Inr it"
    and ev: "intake_event cx v i it (wi_created_at it) = Inr e" and inv': "inv d'"
    and item: "item_of d' = (item_of d)(?k \<mapsto> it)" and tr: "trace_of d' = (trace_of d)(?k := [e])" by blast
  have "item_of d ?k = None" using create_fresh [OF assms] intake_item_for [OF it] by simp
  then have "trace_of d' = (trace_of d)(?k := trace_of d ?k @ [e])"
    using no_item_no_trace [OF assms(1)] tr by simp
  moreover have "\<not> reserved e" using intake_event_for [OF ev] by (simp add: event_for_def reserved_def)
  ultimately have "effect limit (in_tenant i) 0 0 (d, x, l) (d', x', l)"
    using inv' item reserved_turns_append [OF finite_traces [OF assms(1)], of ?k e] by (auto simp: effect_def)
  then show ?thesis using item intake_item_for [OF it] by simp
qed

lemma outside_with_log: "outside (with_log f) (d, x, l) = (Inr (fst (f x)), (d, snd (f x), l))"
  by (simp add: outside_def with_log_def split: prod.splits)

lemmas service_simps = sbind_def scatch_def outside_with_log on_store_def read_store_def logged_service_def

lemma chat_item_effect:
  assumes "sv_store sv = ops" "chat_item (logged_service sv) p q profile (d, x, l) = (res, s')" "inv d"
  shows "effect limit (pr_tenant p) 0 0 (d, x, l) s'
    \<and> (\<forall>it. res = Inr it \<longrightarrow> item_of (fst s') (pr_tenant p, wi_id it) = Some it \<and> wi_created_by it = pr_subject p)"
proof (cases "rq_work_item q")
  case None
  then show ?thesis
    using assms(1,2) effect_create [OF assms(3), where limit = limit]
    by (fastforce simp: chat_item_def service_simps effect_refl split: sum.splits prod.splits)
next
  case (Some w)
  have get: "item_of d (pr_tenant p, wi_id it) = Some it" if "st_get ops (pr_tenant p) w d = Inr (Some it)" for it
  proof -
    have "item_of d (pr_tenant p, w) = Some it" using get_law [OF assms(3) that] by simp
    moreover from this have "wi_id it = w"
      using wf_traces [OF assms(3), of "(pr_tenant p, w)"] by (simp add: trace_wf_def)
    ultimately show ?thesis by simp
  qed
  show ?thesis
    using assms(1,2) Some get
    by (auto simp: chat_item_def service_simps effect_refl split: sum.splits option.splits if_splits)
qed

lemma reserve_effect:
  assumes "sv_store sv = ops" "reserve_turn (logged_service sv) p item r (d, x, l) = (res, s')" "inv d"
  shows "effect (sv_turn_limit sv) (pr_tenant p) (case res of Inr _ \<Rightarrow> 1 | Inl _ \<Rightarrow> 0) 0 (d, x, l) s'"
proof (cases res)
  case (Inl e)
  then show ?thesis
    using assms by (auto simp: reserve_turn_def service_simps Let_def split: if_splits sum.splits prod.splits intro!: effect_refl)
next
  case (Inr e)
  then obtain u now x' d' where s': "s' = (d', x', l)"
    and ok: "st_reserve_turn ops u (pr_tenant p) (wi_id item) (pr_subject p) r (sv_turn_limit sv) now d = Inr (e, d')"
    using assms by (auto simp: reserve_turn_def service_simps Let_def split: if_splits sum.splits prod.splits)
  note law = reserve_law [OF assms(3) ok]
  have "reserved e" using reservation_event_for [OF conjunct1 [OF conjunct2 [OF law]]] by (simp add: event_for_def reserved_def)
  with effect_append [of d' d "pr_tenant p" "wi_id item" e "sv_turn_limit sv" x l x'] law assms(3) Inr s'
  show ?thesis by simp
qed

lemma ask_effect:
  assumes "ask_agent (logged_service sv) q item r profile (d, x, l) = (res, s')"
  shows "(effect limit t 0 0 (d, x, l) s' \<or> effect limit t 0 1 (d, x, l) s') \<and> fst s' = d"
  using assms
  by (auto simp: ask_agent_def logged_service_def log_query_def effect_def
      split: if_splits option.splits prod.splits list.splits)

lemma record_effect:
  assumes "sv_store sv = ops" "record_turn (logged_service sv) p item a (d, x, l) = (res, s')" "inv d"
  shows "effect limit (pr_tenant p) 0 0 (d, x, l) s'"
proof (cases res)
  case (Inl e)
  then show ?thesis
    using assms by (auto simp: record_turn_def with_log_def service_simps split: if_splits sum.splits prod.splits intro!: effect_refl)
next
  case (Inr e)
  then obtain u now x' d' where s': "s' = (d', x', l)"
    and ok: "st_record_turn ops u (pr_tenant p) (wi_id item) (pr_subject p) a now d = Inr (e, d')"
    using assms by (auto simp: record_turn_def with_log_def service_simps split: if_splits sum.splits prod.splits)
  note law = turn_law [OF assms(3) ok]
  have "\<not> reserved e" using audit_event_for [OF conjunct1 [OF conjunct2 [OF law]]] by (simp add: event_for_def reserved_def)
  with effect_append [of d' d "pr_tenant p" "wi_id item" e limit x l x'] law assms(3) s'
  show ?thesis by simp
qed

lemma agent_turn_effect:
  assumes "sv_store sv = ops" "agent_turn (logged_service sv) p q item r profile (d, x, l) = (res, s')" "inv d"
  shows "effect limit (pr_tenant p) 0 0 (d, x, l) s' \<or> effect limit (pr_tenant p) 0 1 (d, x, l) s'"
proof -
  obtain a s1 where ask: "ask_agent (logged_service sv) q item r profile (d, x, l) = (a, s1)" by fastforce
  note ask_eff = ask_effect [OF ask, of limit "pr_tenant p"]
  obtain x1 l1 where s1: "s1 = (d, x1, l1)" using ask_eff by (metis prod.collapse)
  show ?thesis
  proof (cases a)
    case (Inl e)
    then show ?thesis using assms(2) ask ask_eff by (simp add: agent_turn_def sbind_def scatch_def)
  next
    case (Inr answer)
    obtain b s2 where rec: "record_turn (logged_service sv) p item (turn_audit q r profile answer) s1 = (b, s2)" by fastforce
    have "s' = s2" using assms(2) ask rec Inr by (cases b) (simp_all add: agent_turn_def sbind_def scatch_def)
    then show ?thesis
      using ask_eff effect_trans [of limit _ 0 _ _ s1 0 s2] record_effect [OF assms(1) rec [unfolded s1] assms(3)]
      unfolding s1 by (metis add.right_neutral)
  qed
qed

text \<open>A chat request makes at most one query, only when it may, and only after reserving a turn.\<close>

lemma chat_effect:
  assumes "sv_store sv = ops" "chat (logged_service sv) p q (d, x, l) = (res, s')" "inv d"
  shows "\<exists>n m. effect (sv_turn_limit sv) (pr_tenant p) n m (d, x, l) s' \<and> m \<le> n \<and> n \<le> 1
    \<and> (0 < n \<longrightarrow> model_allowed sv p q)"
proof -
  let ?sv = "logged_service sv" and ?E = "effect (sv_turn_limit sv) (pr_tenant p)"
  have done0: ?thesis if "?E 0 0 (d, x, l) s'" using that by (intro exI [of _ 0]) simp
  have allowed: "model_allowed ?sv p q = model_allowed sv p q"
    by (simp add: model_allowed_def logged_service_def)
  show ?thesis
  proof (cases "ebind (route_request q) (\<lambda>(r, profile). ebind (chat_guards ?sv p q r) (\<lambda>_. Inr (r, profile)))")
    case (Inl e)
    then have "s' = (d, x, l)"
      using assms(2) by (auto simp: chat_def sbind_def ebind_def split: sum.splits prod.splits)
    then show ?thesis by (intro done0 effect_refl) simp_all
  next
    case (Inr rp)
    obtain r profile where rp: "rp = (r, profile)" by (cases rp)
    have route: "route_request q = Inr (r, profile)" "chat_guards ?sv p q r = Inr ()"
      using Inr rp by (auto split: prod.splits)
    obtain a s1 where item: "chat_item ?sv p q profile (d, x, l) = (a, s1)" by fastforce
    note item_eff = chat_item_effect [OF assms(1) item assms(3), of "sv_turn_limit sv"]
    obtain d1 x1 l1 where s1: "s1 = (d1, x1, l1)" by (cases s1) auto
    have inv1: "inv d1" using item_eff assms(3) s1 by (simp add: effect_def)
    show ?thesis
    proof (cases "\<exists>it. a = Inr it \<and> model_configured ?sv r")
      case False
      then have "s' = s1" using assms(2) route item by (auto simp: chat_def sbind_def split: sum.splits)
      then show ?thesis using done0 item_eff by simp
    next
      case True
      then obtain it where it: "a = Inr it" and conf: "model_configured ?sv r" by blast
      obtain b s2 where res: "reserve_turn ?sv p it (turn_reservation q r profile) s1 = (b, s2)" by fastforce
      note res_eff = reserve_effect [OF assms(1) res [unfolded s1] inv1]
      show ?thesis
      proof (cases b)
        case (Inl e)
        then have "s' = s2" using assms(2) route item it conf res by (simp add: chat_def sbind_def)
        then show ?thesis
          using done0 effect_trans [of _ _ 0 0 "(d, x, l)" s1 0 s2] item_eff res_eff Inl by (simp add: s1)
      next
        case (Inr e)
        obtain c s3 where turn: "agent_turn ?sv p q it r profile s2 = (c, s3)" by fastforce
        have s': "s' = s3"
          using assms(2) route item it conf res turn Inr by (cases c) (simp_all add: chat_def sbind_def)
        obtain d2 x2 l2 where s2: "s2 = (d2, x2, l2)" by (cases s2) auto
        have "?E 1 0 (d, x, l) s2"
          using effect_trans0 [of _ _ 0 "(d, x, l)" s1 1 0 s2] item_eff res_eff Inr by (simp add: s1)
        moreover from this have "inv d2" using assms(3) s2 by (simp add: effect_def)
        ultimately have "?E 1 0 (d, x, l) s' \<or> ?E 1 1 (d, x, l) s'"
          using agent_turn_effect [OF assms(1) turn [unfolded s2], of "sv_turn_limit sv"]
            effect_trans [of _ _ 1 0 "(d, x, l)" s2 _ s'] s' s2 by (metis add.left_neutral)
        then show ?thesis
          using guards_allow [OF route(2) conf] allowed by (metis le_refl zero_le_one)
      qed
    qed
  qed
qed

lemma found_item_effect: "snd (found_item (logged_service sv) p w (d, x, l)) = (d, x, l)"
  by (simp add: found_item_def service_simps split: sum.splits option.splits)

lemma gate_effect:
  assumes "sv_store sv = ops" "gate (logged_service sv) p g w (d, x, l) = (res, s')" "inv d"
  shows "effect limit (pr_tenant p) 0 0 (d, x, l) s'"
proof -
  have "(\<exists>x'. s' = (d, x', l)) \<or> (\<exists>x' d' u now e. s' = (d', x', l) \<and>
      st_add_gate ops u (pr_tenant p) w (pr_subject p) (gq_gate g) (gq_approve g) (gq_decision_digest g) now d = Inr (e, d'))"
    using assms(1,2)
    by (auto simp: gate_def operator_guard_def found_item_def service_simps split: if_splits sum.splits option.splits prod.splits)
  then show ?thesis
  proof (elim disjE exE conjE)
    fix x' d' u now e
    assume s': "s' = (d', x', l)" and ok: "st_add_gate ops u (pr_tenant p) w (pr_subject p) (gq_gate g) (gq_approve g)
      (gq_decision_digest g) now d = Inr (e, d')"
    note law = gate_law [OF assms(3) ok]
    have "\<not> reserved e" using gate_event_for [OF conjunct1 [OF conjunct2 [OF law]]] by (simp add: event_for_def reserved_def)
    with effect_append [of d' d "pr_tenant p" w e limit x l x'] law assms(3) s' show ?thesis by simp
  qed (simp add: effect_refl)
qed

text \<open>What the reading handlers show is the caller's own tenant's.\<close>

lemma status_shows:
  assumes "sv_store sv = ops" "status_view (logged_service sv) p (d, x, l) = (Inr out, s')" "inv d"
  shows "s' = (d, x, l) \<and> set out = item_response ` {it. \<exists>w. item_of d (pr_tenant p, w) = Some it}"
proof -
  from assms(1,2) obtain items where "st_list ops (pr_tenant p) d = Inr items" "out = map item_response items" "s' = (d, x, l)"
    by (auto simp: status_view_def service_simps split: sum.splits)
  then show ?thesis using list_law [OF assms(3)] by simp
qed

lemma trace_shows:
  assumes "sv_store sv = ops" "trace_view (logged_service sv) p w (d, x, l) = (Inr out, s')" "inv d"
  shows "s' = (d, x, l) \<and> out = (w, trace_of d (pr_tenant p, w)) \<and> item_of d (pr_tenant p, w) \<noteq> None"
proof -
  from assms(1,2) obtain it tr where "st_get ops (pr_tenant p) w d = Inr (Some it)" "st_trace ops (pr_tenant p) w d = Inr tr"
    "out = (w, tr)" "s' = (d, x, l)"
    by (auto simp: trace_view_def found_item_def service_simps split: sum.splits option.splits)
  then show ?thesis using get_law [OF assms(3)] trace_law [OF assms(3)] by force
qed

lemma work_item_shows:
  assumes "sv_store sv = ops" "work_item (logged_service sv) p w (d, x, l) = (Inr out, s')" "inv d"
  shows "s' = (d, x, l) \<and> (\<exists>it. item_of d (pr_tenant p, w) = Some it \<and> out = item_response it)"
proof -
  from assms(1,2) obtain it where "st_get ops (pr_tenant p) w d = Inr (Some it)" "out = item_response it" "s' = (d, x, l)"
    by (auto simp: work_item_def found_item_def service_simps split: sum.splits option.splits)
  then show ?thesis using get_law [OF assms(3)] by force
qed

end

interpretation pgd: durable_contract "postgres_ops cx role" cx "pg_inv cx" "pg_item_of cx" "pg_trace_of cx" for cx role
proof unfold_locales
  show "pg_item_of cx d (in_tenant i, ''wi-'' @ u) = None"
    if "pg_inv cx d" "st_create_intake (postgres_ops cx role) u v i d = Inr (it, d')" for d u v i it d'
  proof -
    have c: "pg_create_intake cx role u v i d = Inr (it, d')" using that(2) by (simp add: postgres_ops_def)
    note created = pg_create_inv [OF that(1) c]
    have "wi_id it = ''wi-'' @ u" using created intake_item_for by blast
    with created show ?thesis using item_none [OF that(1)] by simp
  qed
qed

subsection \<open>The service over time\<close>

text \<open>
  \<open>service_step\<close> serves one request of any principal, or lets another client of the same database make one store
  operation under the same budget.
\<close>

inductive service_step ::
  "('d, 'x) service \<Rightarrow> ('d \<Rightarrow> item_key \<Rightarrow> workflow_item option) \<Rightarrow>
    'd \<times> 'x \<times> agent_query list \<Rightarrow> 'd \<times> 'x \<times> agent_query list \<Rightarrow> bool" for sv item_of
where
  chat: "chat (logged_service sv) p q s = (res, s') \<Longrightarrow> service_step sv item_of s s'"
| gate: "gate (logged_service sv) p g w s = (res2, s') \<Longrightarrow> service_step sv item_of s s'"
| status: "status_view (logged_service sv) p s = (res3, s') \<Longrightarrow> service_step sv item_of s s'"
| item: "work_item (logged_service sv) p w s = (res4, s') \<Longrightarrow> service_step sv item_of s s'"
| trace: "trace_view (logged_service sv) p w s = (res5, s') \<Longrightarrow> service_step sv item_of s s'"
| other: "workflow_step (sv_store sv) item_of (\<lambda>_. sv_turn_limit sv) d d' \<Longrightarrow> service_step sv item_of (d, x, l) (d', x', l)"

lemma reads_keep:
  "snd (status_view sv p s) = s" "snd (work_item sv p w s) = s" "snd (trace_view sv p w s) = s"
  by (simp_all add: status_view_def work_item_def trace_view_def found_item_def sbind_def scatch_def read_store_def
      split: sum.splits option.splits)

context durable_contract
begin

definition budget_inv :: "int \<Rightarrow> string \<Rightarrow> 'd \<times> 'x \<times> agent_query list \<Rightarrow> bool" where
  "budget_inv L t s \<longleftrightarrow> inv (fst s) \<and> length (snd (snd s)) \<le> reserved_turns (trace_of (fst s)) t
    \<and> int (reserved_turns (trace_of (fst s)) t) \<le> L"

lemma effect_budget:
  assumes "effect (Some L) t' n m s s'" "budget_inv L t s" "m \<le> n" "n \<le> 1" "0 < n \<longrightarrow> t' = t"
  shows "budget_inv L t s'"
  using assms by (cases "n = 0") (auto simp: budget_inv_def effect_def)

lemma service_step_budget:
  assumes sv: "sv_store sv = ops" "sv_turn_limit sv = Some L" "sv_model_tenant sv = Some t"
    and step: "service_step sv item_of s s'" and inv: "budget_inv L t s"
  shows "budget_inv L t s'"
proof -
  obtain d x l where s: "s = (d, x, l)" by (cases s) auto
  have d: "inv d" using inv s by (simp add: budget_inv_def)
  from step show ?thesis
  proof cases
    case (chat p q res)
    from chat_effect [OF sv(1) chat [unfolded s] d] obtain n m where
      "effect (Some L) (pr_tenant p) n m s s'" "m \<le> n" "n \<le> 1" "0 < n \<longrightarrow> model_allowed sv p q"
      unfolding sv(2) s by blast
    then show ?thesis using effect_budget [OF _ inv] sv(3) by (auto simp: model_allowed_def)
  next
    case (gate p g w res)
    from gate_effect [OF sv(1) gate [unfolded s] d, of "Some L"] show ?thesis
      using effect_budget [OF _ inv, of "pr_tenant p" 0 0 s'] by (simp add: s)
  next
    case (status p res)
    then show ?thesis using reads_keep(1) [of "logged_service sv" p s] inv by simp
  next
    case (item p w res)
    then show ?thesis using reads_keep(2) [of "logged_service sv" p w s] inv by simp
  next
    case (trace p w res)
    then show ?thesis using reads_keep(3) [of "logged_service sv" p w s] inv by simp
  next
    case (other d1 d' x1 l1 x2)
    then show ?thesis
      using step_turns [of "\<lambda>_. sv_turn_limit sv" d d' t] step_inv [of "\<lambda>_. sv_turn_limit sv" d d'] d inv sv s
      by (auto simp: budget_inv_def)
  qed
qed

lemma service_budget:
  assumes "sv_store sv = ops" "sv_turn_limit sv = Some L" "sv_model_tenant sv = Some t" "0 \<le> L"
    and "reachable (\<lambda>s. inv (fst s) \<and> (\<forall>k. trace_of (fst s) k = []) \<and> snd (snd s) = []) (service_step sv item_of) s"
  shows "budget_inv L t s"
  using assms(5)
proof induction
  case (reachable_init s)
  then show ?case using assms(4) by (simp add: budget_inv_def reserved_turns_def)
next
  case (reachable_step s s')
  then show ?case using service_step_budget [OF assms(1,2,3)] by blast
qed

end

section \<open>Totality\<close>

text \<open>
  A validated chat request never ends in an unhandled exception on the local store: what the validators of
  \<^verbatim>\<open>ChatRequest\<close> and \<^verbatim>\<open>Principal\<close> accept is enough for every record that the handler builds outside its
  \<^verbatim>\<open>try\<close> blocks.
\<close>

declare split_paired_All [simp del] split_paired_Ex [simp del] split_paired_all [simp del]

lemma split_on_join: "split_on c s = ps \<Longrightarrow> length s = sum_list (map length ps) + (length ps - 1) \<and> ps \<noteq> []"
  by (induction s arbitrary: ps) (auto split: list.splits if_splits)

lemma owner_name_length: "owner_name s \<Longrightarrow> 3 \<le> length s"
proof -
  assume o: "owner_name s"
  then obtain a b where ps: "split_on (CHR ''/'') s = [a, b]"
    by (auto simp: owner_name_def length_Suc_conv numeral_2_eq_2)
  then have "a \<noteq> []" "b \<noteq> []" using o by (auto simp: owner_name_def)
  moreover have "length s = length a + length b + 1" using split_on_join [OF ps] by simp
  ultimately show ?thesis by (cases a; cases b) auto
qed

lemma selected_ok: "valid_chat_request q \<Longrightarrow> r \<in> set (selected_repositories q) \<Longrightarrow> repository_ok r"
  by (cases "rq_repository q") (auto simp: valid_chat_request_def selected_repositories_def legacy_repository_ok_def
      repositories_distinct_def list_all_iff repository_ok_def owner_name_length split: if_splits)

lemma turn_reservation_sel:
  "cr_repository (turn_reservation q r pf) = first_repository q" "cr_repositories (turn_reservation q r pf) = many_repositories q"
  "cr_input_digest (turn_reservation q r pf) = digest_of (JStr (rq_message q))"
  "cr_history_digest (turn_reservation q r pf) = history_digest q"
  "cr_model_call_count (turn_reservation q r pf) = max_model_calls_per_turn"
  by (simp_all add: turn_reservation_def seal_def)

lemma request_reservation_ok:
  assumes "valid_chat_request q"
  shows "reservation_ok (turn_reservation q r profile)"
proof -
  have "pred_option repository_ok (first_repository q)"
    using selected_ok [OF assms] by (auto simp: first_repository_def split: list.splits)
  moreover have "length (selected_repositories q) \<le> 8"
    using assms by (auto simp: valid_chat_request_def selected_repositories_def repositories_distinct_def split: option.splits)
  then have "repositories_ok (many_repositories q)" by (simp add: repositories_ok_def many_repositories_def)
  ultimately show ?thesis
    by (simp add: reservation_ok_def turn_reservation_sel history_digest_def max_model_calls_per_turn_def
        max_doer_review_rounds_def)
qed

lemma request_reservation_valid:
  "valid_chat_request q \<Longrightarrow> valid_turn_reservation (turn_reservation q r profile)"
  by (simp add: valid_turn_reservation_def request_reservation_ok) (simp add: turn_reservation_def)

definition clock_aware :: "('d, 'x) service \<Rightarrow> bool" where
  "clock_aware sv \<longleftrightarrow> (\<forall>x. utc (fst (sv_clock sv x)) \<noteq> None)"

definition uuid_hex :: "('d, 'x) service \<Rightarrow> bool" where
  "uuid_hex sv \<longleftrightarrow> (\<forall>x. length (fst (sv_uuid sv x)) = 32 \<and> list_all lower_hex (fst (sv_uuid sv x)))"

lemma hex_identifier: "length u = 32 \<Longrightarrow> list_all lower_hex u \<Longrightarrow> identifier_ok (''wi-'' @ u) \<and> identifier_ok (''evt-'' @ u)"
  by (auto simp: identifier_ok_def ascii_lower_def list_all_iff lower_hex_identifier_char
      identifier_char_def [of "CHR ''i''"] identifier_char_def [of "CHR ''-''"] identifier_char_def [of "CHR ''v''"]
      identifier_char_def [of "CHR ''t''"])

definition handled :: "http_error + 'a \<Rightarrow> bool" where
  "handled res = (case res of
     Inr _ \<Rightarrow> True
   | Inl (Http_Exception code _) \<Rightarrow> code \<in> set [403, 404, 422, 429, 502, 503]
   | Inl (Server_Error _) \<Rightarrow> False)"

lemma handled_simps [simp]:
  "handled (Inr x)" "handled (Inl (Http_Exception code d)) \<longleftrightarrow> code \<in> set [403, 404, 422, 429, 502, 503]"
  "\<not> handled (Inl (Server_Error w))"
  by (simp_all add: handled_def)

lemma utc_of_aware: "clock_aware sv \<Longrightarrow> \<exists>m. utc_of (fst (sv_clock sv x)) = Inr m"
  by (auto simp: clock_aware_def utc_of_def split: option.splits)

text \<open>Opening or finding the conversation, and reserving its turn, on the local store.\<close>

lemma opens:
  assumes "clock_aware sv" "uuid_hex sv" "valid_principal p" "mem_inv cx d" "sv_store sv = memory_ops cx"
  shows "case chat_item sv p q profile (d, x) of
      (Inr item, s) \<Rightarrow> mem_inv cx (fst s) \<and> mem_item_of (fst s) (pr_tenant p, wi_id item) = Some item \<and> wi_created_by item = pr_subject p
    | (Inl e, s) \<Rightarrow> handled (Inl e :: http_error + unit)"
proof (cases "rq_work_item q")
  case None
  define now where "now = fst (sv_clock sv x)"
  define x1 where "x1 = snd (sv_clock sv x)"
  define u where "u = fst (sv_uuid sv x1)"
  define x2 where "x2 = snd (sv_uuid sv x1)"
  define v where "v = fst (sv_uuid sv x2)"
  define rs where "rs = (if Suc 0 < length (selected_repositories q) then selected_repositories q else [])"
  define i where "i = \<lparr>in_tenant = pr_tenant p, in_actor = pr_subject p, in_now = now, in_message = rq_message q,
      in_repository = first_repository q, in_repositories = rs, in_profile = profile\<rparr>"
  obtain m where m: "utc_of now = Inr m" using utc_of_aware [OF assms(1)] now_def by blast
  have ids: "identifier_ok (''wi-'' @ u)" "identifier_ok (''evt-'' @ v)"
    using assms(2) hex_identifier by (auto simp: uuid_hex_def u_def v_def)
  have who: "identifier_ok (pr_tenant p)" "identifier_ok (pr_subject p)" using assms(3) by (auto simp: valid_principal_def)
  obtain item where item: "intake_item cx u i m = Inr item"
    using ids who by (auto simp: intake_item_def new_item_def item_ok_def i_def)
  obtain ev where ev: "intake_event cx v i item m = Inr ev"
    using ids who intake_item_for [OF item]
    by (auto simp: intake_event_def new_event_def event_ok_def bound_detail_def i_def)
  then obtain d' where ok: "mem_create_intake cx u v i d = Inr (item, d')"
    using m item by (auto simp: mem_create_intake_def Let_def i_def)
  have "chat_item sv p q profile (d, x) = (Inr item, (d', snd (sv_uuid sv x2)))"
    using ok None assms(5)
    by (simp add: chat_item_def sbind_def scatch_def outside_def on_store_def memory_ops_def split_def i_def
        flip: now_def x1_def u_def x2_def v_def rs_def split del: if_split)
  then show ?thesis
    using mem_create_inv [OF assms(4) ok] intake_item_for [OF item] by (simp add: i_def)
next
  case (Some w)
  have key: "wi_id it = w" if "mem_item_of d (pr_tenant p, w) = Some it" for it
    using mem_inv_wf [OF assms(4), of "(pr_tenant p, w)"] that by (simp add: trace_wf_def)
  show ?thesis
    using Some assms(4,5) key
    by (auto simp: chat_item_def sbind_def scatch_def read_store_def memory_ops_def mem_item_of_def split: option.splits)
qed

lemma reserves:
  assumes "clock_aware sv" "uuid_hex sv" "valid_principal p" "mem_inv cx d" "sv_store sv = memory_ops cx"
    and "mem_item_of d (pr_tenant p, wi_id item) = Some item" "wi_created_by item = pr_subject p" "valid_turn_reservation res"
  shows "handled (fst (reserve_turn sv p item res (d, x)))"
proof -
  define now where "now = fst (sv_clock sv x)"
  define x1 where "x1 = snd (sv_clock sv x)"
  define u where "u = fst (sv_uuid sv x1)"
  let ?k = "(pr_tenant p, wi_id item)"
  obtain m where m: "utc_of now = Inr m" using utc_of_aware [OF assms(1)] now_def by blast
  have id: "identifier_ok (''evt-'' @ u)" using assms(2) hex_identifier by (auto simp: uuid_hex_def u_def)
  have who: "identifier_ok (pr_tenant p)" "identifier_ok (pr_subject p)" using assms(3) by (auto simp: valid_principal_def)
  have item: "identifier_ok (wi_id item)"
    using mem_inv_wf [OF assms(4), of ?k] assms(6) by (simp add: trace_wf_def valid_item_def item_ok_def)
  have dg: "digest_ok (content_digest res)"
    using assms(8) by (simp add: valid_turn_reservation_def sealed_def)
  obtain ev where ev: "reservation_event cx u (pr_tenant p) (wi_id item) (pr_subject p) res now = Inr ev"
    using id who item dg assms(8) m by (auto simp: reservation_event_def new_event_def event_ok_def bound_detail_def)
  obtain evs where evs: "dict_get (ms_events d) ?k = Some evs"
    using mem_inv_keys [OF assms(4), of ?k] assms(6) by (auto simp: mem_views)
  have "owned_by (pr_subject p) (dict_get (ms_items d) ?k)"
    using assms(6,7) by (simp add: owned_by_def mem_views)
  then have "mem_reserve_chat_turn cx u (pr_tenant p) (wi_id item) (pr_subject p) res (sv_turn_limit sv) now d \<in>
      {Inl Limit_Exceeded} \<union> range Inr"
    using ev evs by (auto simp: mem_reserve_chat_turn_def require_all.simps mem_append_def)
  moreover have "reservation_ok res" using assms(8) by (simp add: valid_turn_reservation_def)
  ultimately show ?thesis
    using assms(5)
    by (auto simp: reserve_turn_def sbind_def scatch_def outside_def on_store_def memory_ops_def split_def
        simp flip: now_def x1_def u_def)
qed

lemma handled_cong: "handled (Inl e :: http_error + 'a) \<Longrightarrow> handled (Inl e :: http_error + 'b)"
  by (simp add: handled_def split: http_error.splits)

lemma chat_total:
  assumes "clock_aware sv" "uuid_hex sv" "valid_principal p" "mem_inv cx d" "sv_store sv = memory_ops cx" "valid_chat_request q"
  shows "handled (fst (chat sv p q (d, x)))"
proof -
  have pure: "handled (route_request q)" "handled (chat_guards sv p q r)" for r
    by (auto simp: route_request_def chat_mode_of_def chat_guards_def ebind_def require_all.simps
        split: sum.splits option.splits if_splits)
  have turn: "handled (fst (agent_turn sv p q item r pf s))" for item r pf s
    by (auto simp: agent_turn_def scatch_def split: prod.splits sum.splits)
  show ?thesis
  proof (cases "route_request q")
    case (Inr rp)
    obtain r pf where rp: "rp = (r, pf)" by (cases rp)
    show ?thesis
    proof (cases "chat_guards sv p q r")
      case Guarded: (Inr u)
      obtain res s where item: "chat_item sv p q pf (d, x) = (res, s)" by (cases "chat_item sv p q pf (d, x)")
      note open_ok = opens [OF assms(1-5), of q pf x, unfolded item]
      show ?thesis
      proof (cases res)
        case Opened: (Inr it)
        obtain d' x' where s: "s = (d', x')" by (cases s)
        obtain rv s2 where rv: "reserve_turn sv p it (turn_reservation q r pf) s = (rv, s2)"
          by (cases "reserve_turn sv p it (turn_reservation q r pf) s")
        have "handled rv"
          using reserves [OF assms(1-3) _ assms(5) _ _ request_reservation_valid [OF assms(6)], of d' it r pf x']
            open_ok rv s Opened by simp
        then show ?thesis
          using turn [of it r pf s2] Inr rp Guarded item Opened rv
          by (auto simp: chat_def sbind_def split: prod.splits sum.splits dest: handled_cong)
      qed (use open_ok Inr rp Guarded item in \<open>auto simp: chat_def sbind_def dest: handled_cong\<close>)
    qed (use pure(2) [of r] Inr rp in \<open>auto simp: chat_def sbind_def dest: handled_cong\<close>)
  qed (use pure(1) in \<open>auto simp: chat_def sbind_def dest: handled_cong\<close>)
qed

end
