(* ===== verification/Workflow_Codec.thy ===== *)
theory Workflow_Codec
  imports Workflow_Store_Inv
begin

text \<open>
  A codec for the workflow documents that reads back what it prints, as an instance of the one that the store is
  given: the fields of a record are strings packed into one, with every character escaped and a terminator after
  each field. It shows that the assumption \<open>documents_round_trip\<close> can be met.
\<close>

fun pack :: "string list \<Rightarrow> string" where
  "pack [] = []"
| "pack (s # ss) = concat (map (\<lambda>c. [CHR ''x'', c]) s) @ CHR ''.'' # pack ss"

fun unpack :: "string \<Rightarrow> string \<Rightarrow> string list" where
  "unpack acc [] = []"
| "unpack acc (a # s) =
    (if a = CHR ''.'' then rev acc # unpack [] s else case s of [] \<Rightarrow> [] | c # s' \<Rightarrow> unpack (c # acc) s')"

lemma unpack_field: "unpack acc (concat (map (\<lambda>c. [CHR ''x'', c]) s) @ CHR ''.'' # r) = (rev acc @ s) # unpack [] r"
  by (induction s arbitrary: acc) auto

lemma unpack_pack [simp]: "unpack [] (pack ss) = ss"
  by (induction ss) (simp_all add: unpack_field)

declare pack.simps [simp del] unpack.simps [simp del]

definition nat_text :: "nat \<Rightarrow> string" where
  "nat_text n = replicate n (CHR ''1'')"

definition int_text :: "int \<Rightarrow> string" where
  "int_text i = (if i < 0 then CHR ''-'' else CHR ''+'') # nat_text (nat \<bar>i\<bar>)"

definition text_int :: "string \<Rightarrow> int" where
  "text_int s = (if hd s = CHR ''-'' then - int (length (tl s)) else int (length (tl s)))"

definition opt_text :: "('a \<Rightarrow> string) \<Rightarrow> 'a option \<Rightarrow> string" where
  "opt_text f x = (case x of None \<Rightarrow> [] | Some y \<Rightarrow> CHR ''s'' # f y)"

definition text_opt :: "(string \<Rightarrow> 'a) \<Rightarrow> string \<Rightarrow> 'a option" where
  "text_opt g s = (case s of [] \<Rightarrow> None | _ # r \<Rightarrow> Some (g r))"

definition bool_text :: "bool \<Rightarrow> string" where
  "bool_text b = (if b then ''t'' else [])"

definition text_enum :: "('a \<Rightarrow> string) \<Rightarrow> 'a list \<Rightarrow> string \<Rightarrow> 'a" where
  "text_enum f xs s = the (find (\<lambda>x. f x = s) xs)"

lemma scalars_read [simp]:
  "length (nat_text n) = n" "text_int (int_text i) = i" "bool_text b \<noteq> [] \<longleftrightarrow> b"
  by (simp_all add: nat_text_def int_text_def text_int_def bool_text_def)

lemma option_reads [simp]: "(\<And>x. g (f x) = x) \<Longrightarrow> text_opt g (opt_text f x) = x"
  by (simp add: text_opt_def opt_text_def split: option.splits)

lemma list_field_reads [simp]: "(\<And>x. g (f x) = x) \<Longrightarrow> map g (unpack [] (pack (map f xs))) = xs"
  by (simp add: o_def)

definition text_state :: "string \<Rightarrow> work_item_state" where
  "text_state = text_enum state_name all_states"

definition text_kind :: "string \<Rightarrow> event_kind" where
  "text_kind = text_enum kind_name
    [INTAKE, GATE_REQUESTED, CHAT_TURN_RESERVED, GROUNDED_ANALYSIS_RECORDED, CHAT_TURN_RECORDED]"

definition text_role :: "string \<Rightarrow> agent_role" where
  "text_role = text_enum role_name [Business_Analyst, Architect, Code_Analyst]"

definition text_profile :: "string \<Rightarrow> analysis_profile" where
  "text_profile = text_enum profile_name [Profile_Architecture, Profile_Coding]"

lemma state_reads [simp]: "text_state (state_name x) = x"
  by (cases x; simp add: text_state_def text_enum_def all_states_def state_name_def)

lemma kind_reads [simp]: "text_kind (kind_name k) = k"
  by (cases k; simp add: text_kind_def text_enum_def kind_name_def)

lemma role_reads [simp]: "text_role (role_name r) = r"
  by (cases r; simp add: text_role_def text_enum_def role_name_def)

lemma profile_reads [simp]: "text_profile (profile_name p) = p"
  by (cases p; simp add: text_profile_def text_enum_def profile_name_def)

definition usage_text :: "model_usage \<Rightarrow> string" where
  "usage_text x = pack [content_digest x, nat_text (mu_input_tokens x), nat_text (mu_cached_input_tokens x),
     nat_text (mu_cache_write_input_tokens x), nat_text (mu_output_tokens x)]"

definition text_usage :: "string \<Rightarrow> model_usage" where
  "text_usage s = (let f = (\<lambda>i. unpack [] s ! i) in
    \<lparr>content_digest = f 0, mu_input_tokens = length (f 1), mu_cached_input_tokens = length (f 2),
     mu_cache_write_input_tokens = length (f 3), mu_output_tokens = length (f 4)\<rparr>)"

definition cost_text :: "model_cost_estimate \<Rightarrow> string" where
  "cost_text x = pack [content_digest x, nat_text (mc_cost_nanodollars x), mc_price_card_id x, mc_source_url x,
     nat_text (date_year (mc_priced_on x)), nat_text (date_month (mc_priced_on x)), nat_text (date_day (mc_priced_on x))]"

definition text_cost :: "string \<Rightarrow> model_cost_estimate" where
  "text_cost s = (let f = (\<lambda>i. unpack [] s ! i) in
    \<lparr>content_digest = f 0, mc_cost_nanodollars = length (f 1), mc_price_card_id = f 2, mc_source_url = f 3,
     mc_priced_on = Date (length (f 4)) (length (f 5)) (length (f 6))\<rparr>)"

definition run_text :: "model_run_telemetry \<Rightarrow> string" where
  "run_text x = pack [run_stage x, run_provider x, run_model x, run_family x, opt_text id (run_execution_id x),
     run_request_digest x, run_response_digest x, nat_text (run_latency_ms x), opt_text usage_text (run_usage x),
     opt_text cost_text (run_cost x)]"

definition text_run :: "string \<Rightarrow> model_run_telemetry" where
  "text_run s = (let f = (\<lambda>i. unpack [] s ! i) in
    \<lparr>run_stage = f 0, run_provider = f 1, run_model = f 2, run_family = f 3, run_execution_id = text_opt id (f 4),
     run_request_digest = f 5, run_response_digest = f 6, run_latency_ms = length (f 7),
     run_usage = text_opt text_usage (f 8), run_cost = text_opt text_cost (f 9)\<rparr>)"

lemma usage_reads [simp]: "text_usage (usage_text x) = x"
  by (simp add: text_usage_def usage_text_def Let_def)

lemma cost_reads [simp]: "text_cost (cost_text x) = x"
  by (simp add: text_cost_def cost_text_def Let_def numeral_eq_Suc)

lemma run_reads [simp]: "text_run (run_text x) = x"
  by (simp add: text_run_def run_text_def Let_def numeral_eq_Suc)

definition analysis_text :: "grounded_analysis_audit \<Rightarrow> string" where
  "analysis_text x = pack [content_digest x, ga_analysis_id x, profile_name (ga_profile x), ga_repository x,
     opt_text pack (ga_repositories x), bool_text (ga_answered x), ga_default_branch x, ga_context_digest x,
     pack (map run_text (ga_model_runs x)), nat_text (ga_elapsed_ms x)]"

definition text_analysis :: "string \<Rightarrow> grounded_analysis_audit" where
  "text_analysis s = (let f = (\<lambda>i. unpack [] s ! i) in
    \<lparr>content_digest = f 0, ga_analysis_id = f 1, ga_profile = text_profile (f 2), ga_repository = f 3,
     ga_repositories = text_opt (unpack []) (f 4), ga_answered = (f 5 \<noteq> []), ga_default_branch = f 6,
     ga_context_digest = f 7, ga_model_runs = map text_run (unpack [] (f 8)), ga_elapsed_ms = length (f 9)\<rparr>)"

definition audit_text :: "chat_turn_audit \<Rightarrow> string" where
  "audit_text x = pack [content_digest x, role_name (ct_agent_role x), opt_text profile_name (ct_profile x),
     opt_text id (ct_repository x), opt_text pack (ct_repositories x), ct_status x, ct_input_digest x,
     ct_history_digest x, ct_response_digest x, ct_context_digest x, pack (map run_text (ct_model_runs x)),
     nat_text (ct_elapsed_ms x)]"

definition text_audit :: "string \<Rightarrow> chat_turn_audit" where
  "text_audit s = (let f = (\<lambda>i. unpack [] s ! i) in
    \<lparr>content_digest = f 0, ct_agent_role = text_role (f 1), ct_profile = text_opt text_profile (f 2),
     ct_repository = text_opt id (f 3), ct_repositories = text_opt (unpack []) (f 4), ct_status = f 5,
     ct_input_digest = f 6, ct_history_digest = f 7, ct_response_digest = f 8, ct_context_digest = f 9,
     ct_model_runs = map text_run (unpack [] (f 10)), ct_elapsed_ms = length (f 11)\<rparr>)"

definition reservation_text :: "chat_turn_reservation \<Rightarrow> string" where
  "reservation_text x = pack [content_digest x, role_name (cr_agent_role x), opt_text profile_name (cr_profile x),
     opt_text id (cr_repository x), opt_text pack (cr_repositories x), cr_input_digest x, cr_history_digest x,
     nat_text (cr_model_call_count x)]"

definition text_reservation :: "string \<Rightarrow> chat_turn_reservation" where
  "text_reservation s = (let f = (\<lambda>i. unpack [] s ! i) in
    \<lparr>content_digest = f 0, cr_agent_role = text_role (f 1), cr_profile = text_opt text_profile (f 2),
     cr_repository = text_opt id (f 3), cr_repositories = text_opt (unpack []) (f 4), cr_input_digest = f 5,
     cr_history_digest = f 6, cr_model_call_count = length (f 7)\<rparr>)"

lemma details_read [simp]: "text_analysis (analysis_text x) = x" "text_audit (audit_text y) = y"
  "text_reservation (reservation_text z) = z"
  by (simp_all add: text_analysis_def analysis_text_def text_audit_def audit_text_def text_reservation_def
      reservation_text_def Let_def numeral_eq_Suc o_def)

definition item_text :: "workflow_item \<Rightarrow> string" where
  "item_text x = pack [content_digest x, wi_id x, wi_tenant x, wi_created_by x, state_name (wi_state x), wi_title x,
     int_text (wi_created_at x)]"

definition text_item :: "string \<Rightarrow> workflow_item" where
  "text_item s = (let f = (\<lambda>i. unpack [] s ! i) in
    \<lparr>content_digest = f 0, wi_id = f 1, wi_tenant = f 2, wi_created_by = f 3, wi_state = text_state (f 4),
     wi_title = f 5, wi_created_at = text_int (f 6)\<rparr>)"

definition event_text :: "workflow_event \<Rightarrow> string" where
  "event_text x = pack [content_digest x, we_id x, we_tenant x, we_work_item x, we_actor x, kind_name (we_kind x),
     int_text (we_occurred_at x), we_payload_digest x, opt_text analysis_text (we_analysis x),
     opt_text audit_text (we_audit x), opt_text reservation_text (we_reservation x)]"

definition text_event :: "string \<Rightarrow> workflow_event" where
  "text_event s = (let f = (\<lambda>i. unpack [] s ! i) in
    \<lparr>content_digest = f 0, we_id = f 1, we_tenant = f 2, we_work_item = f 3, we_actor = f 4, we_kind = text_kind (f 5),
     we_occurred_at = text_int (f 6), we_payload_digest = f 7, we_analysis = text_opt text_analysis (f 8),
     we_audit = text_opt text_audit (f 9), we_reservation = text_opt text_reservation (f 10)\<rparr>)"

lemma documents_read [simp]: "text_item (item_text x) = x" "text_event (event_text e) = e"
  by (simp_all add: text_item_def item_text_def text_event_def event_text_def Let_def numeral_eq_Suc)

definition packed_codec :: workflow_codec where
  "packed_codec = \<lparr>iso_time = int_text, encode_item = item_text, decode_item = (\<lambda>s. Some (text_item s)),
     encode_event = event_text, decode_event = (\<lambda>s. Some (text_event s))\<rparr>"

lemma packed_round_trip [simp]: "documents_round_trip packed_codec"
  by (simp add: documents_round_trip_def packed_codec_def)

end
