(* ===== verification/Workflow_Properties.thy ===== *)
theory Workflow_Properties
  imports Workflow_Service_Inv Workflow_Codec
begin

text \<open>
  The properties of the workflow stores and of the service, with one conversation as their witness: an operator
  of one tenant opens it, a turn is reserved under a limit of one, and an outbound event is delivered.
\<close>

declare split_paired_All [simp del] split_paired_Ex [simp del] split_paired_all [simp del]

lemma reachable_mono: "reachable init step s \<Longrightarrow> (\<And>s. init s \<Longrightarrow> init' s) \<Longrightarrow> reachable init' step s"
  by (induction rule: reachable.induct) (auto intro: reachable.intros)

subsection \<open>The example\<close>

definition ex_now :: datetime where
  "ex_now = \<lparr>dt_year = 1, dt_month = 1, dt_day = 1, dt_hour = 0, dt_minute = 0, dt_second = 0, dt_micro = 0,
     dt_offset = Some 0\<rparr>"

definition ex_moment :: moment where
  "ex_moment = 0"

definition ex_intake :: intake where
  "ex_intake = \<lparr>in_tenant = ''acme'', in_actor = ''ann'', in_now = ex_now, in_message = ''hello'',
     in_repository = None, in_repositories = [], in_profile = None\<rparr>"

definition ex_db_role :: db_role where
  "ex_db_role = \<lparr>rol_super = False, rol_bypass_rls = False, rol_create_role = False, rol_create_db = False\<rparr>"

definition ex_reservation :: chat_turn_reservation where
  "ex_reservation = seal turn_reservation_fields
    \<lparr>content_digest = [], cr_agent_role = Business_Analyst, cr_profile = None, cr_repository = None,
     cr_repositories = None, cr_input_digest = digest_of (JStr ''hello''), cr_history_digest = digest_of (JArr []),
     cr_model_call_count = 6\<rparr>"

definition ex_item :: workflow_item where
  "ex_item = seal (item_fields packed_codec)
    \<lparr>content_digest = [], wi_id = ''wi-1'', wi_tenant = ''acme'', wi_created_by = ''ann'', wi_state = REFINING,
     wi_title = ''Conversation intake'', wi_created_at = ex_moment\<rparr>"

definition ex_opened :: workflow_event where
  "ex_opened = seal (event_fields packed_codec)
    (plain_event ''2'' ''acme'' ''wi-1'' ''ann'' INTAKE ex_moment (digest_of (intake_payload ex_intake)))"

definition ex_reserved :: workflow_event where
  "ex_reserved = seal (event_fields packed_codec)
    ((plain_event ''3'' ''acme'' ''wi-1'' ''ann'' CHAT_TURN_RESERVED ex_moment (content_digest ex_reservation))
      \<lparr>we_reservation := Some ex_reservation\<rparr>)"

definition ex_wdb1 :: workflow_db where
  "ex_wdb1 = \<lparr>wd_items = [((''acme'', ''wi-1''), item_row_of packed_codec ex_item)],
     wd_events = [trace_row_of packed_codec 1 ex_opened (''acme'', ''wi-1'')], wd_outbox = [], wd_inbox = []\<rparr>"

definition ex_wdb2 :: workflow_db where
  "ex_wdb2 = ex_wdb1\<lparr>wd_events := wd_events ex_wdb1 @ [trace_row_of packed_codec 2 ex_reserved (''acme'', ''wi-1'')]\<rparr>"

lemma ex_utc: "utc ex_now = Some ex_moment"
  by (simp add: utc_def astimezone_utc_def local_micros_def toordinal_def days_before_year_def
      days_before_month_def dt_limit_def ex_now_def ex_moment_def)

lemma ex_utc_of [simp]: "utc_of ex_now = Inr ex_moment"
  by (simp add: utc_of_def ex_utc)

lemma ex_wf_identifiers [simp]: "identifier_ok ''acme''" "identifier_ok ''ann''" "identifier_ok ''wi-1''" "identifier_ok ''evt-2''"
  "identifier_ok ''evt-3''" "identifier_ok ''bob''" "identifier_ok ''mail''" "identifier_ok ''ev''"
  by code_simp+

lemma ex_transaction [simp]: "wf_transaction ex_db_role t = Inr t"
  by (simp add: wf_transaction_def ex_db_role_def)

lemma ex_reservation_valid [simp]: "valid_turn_reservation ex_reservation"
proof -
  have "reservation_ok ex_reservation"
    by (simp add: ex_reservation_def seal_def reservation_ok_def repositories_ok_def max_model_calls_per_turn_def
        max_doer_review_rounds_def)
  then show ?thesis by (simp add: valid_turn_reservation_def ex_reservation_def)
qed

lemma ex_reservation_digest [simp]: "digest_ok (content_digest ex_reservation)"
  by (simp add: ex_reservation_def seal_def)

lemma ex_creates: "pg_create_intake packed_codec ex_db_role ''1'' ''2'' ex_intake empty_workflow_db = Inr (ex_item, ex_wdb1)"
proof -
  have it: "intake_item packed_codec ''1'' ex_intake ex_moment = Inr ex_item"
    by (simp add: intake_item_def ex_intake_def new_item_def item_ok_def ex_item_def)
  moreover have "intake_event packed_codec ''2'' ex_intake ex_item ex_moment = Inr ex_opened"
    by (simp add: intake_event_def new_event_def event_ok_def bound_detail_def ex_opened_def ex_item_def)
      (simp add: ex_intake_def)
  moreover have "in_now ex_intake = ex_now" "in_tenant ex_intake = ''acme''" "wi_id ex_item = ''wi-1''"
    by (simp_all add: ex_intake_def ex_item_def)
  ultimately show ?thesis
    by (simp add: pg_create_intake_def Let_def insert_item_def insert_trace_row_def empty_workflow_db_def dict_get_def
        require_all.simps integer_ok_def ex_wdb1_def item_row_of_def)
qed

lemma ex_reserves:
  "pg_reserve_chat_turn packed_codec ex_db_role ''3'' ''acme'' ''wi-1'' ''ann'' ex_reservation (Some 1) ex_now ex_wdb1
    = Inr (ex_reserved, ex_wdb2)"
proof -
  have ev: "reservation_event packed_codec ''3'' ''acme'' ''wi-1'' ''ann'' ex_reservation ex_now = Inr ex_reserved"
    by (simp add: reservation_event_def new_event_def event_ok_def bound_detail_def ex_reserved_def)
  have inv: "pg_inv packed_codec ex_wdb1"
    using pg_create_inv [OF empty_pg_inv [OF packed_round_trip] ex_creates] by blast
  have "pg_item_of packed_codec ex_wdb1 (''acme'', ''wi-1'') = Some ex_item"
    by (simp add: pg_item_of_def ex_wdb1_def dict_get_def item_row_of_def packed_codec_def)
  then have item: "pg_item packed_codec ''acme'' ex_wdb1 (''acme'', ''wi-1'') = Inr ex_item"
    by (simp add: pg_item_Inr [OF inv])
  have rows: "trace_rows ''acme'' ex_wdb1 (''acme'', ''wi-1'') = [trace_row_of packed_codec 1 ex_opened (''acme'', ''wi-1'')]"
    by (simp add: trace_rows_def ex_wdb1_def tenant_scope_def)
  have "pg_turns_used ''acme'' ''acme'' ex_wdb1 = 0"
    by (simp add: pg_turns_used_def ex_wdb1_def ex_opened_def)
  moreover have "wi_created_by ex_item = ''ann''" by (simp add: ex_item_def)
  moreover have "we_id ex_opened \<noteq> we_id ex_reserved" by (simp add: ex_opened_def ex_reserved_def)
  ultimately show ?thesis
    using ev item rows
    by (simp add: pg_reserve_chat_turn_def pg_append_def insert_trace_row_def require_all.simps integer_ok_def
        ex_wdb2_def) (simp add: ex_wdb1_def dict_get_def)
qed

lemma ex_step0:
  "workflow_step (postgres_ops packed_codec ex_db_role) (pg_item_of packed_codec) (\<lambda>_. Some 1) empty_workflow_db ex_wdb1"
  by (rule workflow_step.create [where u = "''1''" and v = "''2''" and i = ex_intake and it = ex_item])
    (simp_all add: postgres_ops_def ex_creates, simp add: pg_item_of_def empty_workflow_db_def dict_get_def)

lemma ex_reaches1:
  "reachable (\<lambda>d. d = empty_workflow_db)
    (workflow_step (postgres_ops packed_codec ex_db_role) (pg_item_of packed_codec) (\<lambda>_. Some 1)) ex_wdb1"
  by (rule reachable_step, rule reachable_init, rule refl, rule ex_step0)

lemma ex_wf_step:
  "workflow_step (postgres_ops packed_codec ex_db_role) (pg_item_of packed_codec) (\<lambda>_. Some 1) ex_wdb1 ex_wdb2"
  by (rule workflow_step.reserve [where u = "''3''" and t = "''acme''" and w = "''wi-1''" and a = "''ann''"
        and r = ex_reservation and now = ex_now and e = ex_reserved])
    (simp add: postgres_ops_def ex_reserves)

lemmas ex_reaches = reachable_step [OF ex_reaches1 ex_wf_step]

lemma ex_trace: "pg_trace_of packed_codec ex_wdb2 (''acme'', ''wi-1'') = [ex_opened, ex_reserved]"
  by (simp add: pg_trace_of_def rows_of_def ex_wdb2_def ex_wdb1_def trace_row_of_def packed_codec_def)

lemma ex_wdb2_inv: "pg_inv packed_codec ex_wdb2"
  by (rule reachable_pg_inv [OF packed_round_trip ex_reaches])

subsection \<open>The durable store\<close>

lemma empty_starts:
  "documents_round_trip cx \<Longrightarrow> d = empty_workflow_db \<Longrightarrow> pg_inv cx d \<and> (\<forall>k. pg_trace_of cx d k = [])"
  by (simp add: empty_pg_inv) (simp add: pg_trace_of_def rows_of_def empty_workflow_db_def)

text \<open>
  C33. The durable store refines the local one. In every state that clients reach, whatever operation commits, the
  local store makes the same operation with the same result on the store the tables stand for; a reader of the
  durable store is shown what a reader of the local one is, with items in the order of their creation times.
\<close>

theorem durable_store_refines_local:
  assumes "documents_round_trip cx"
    and "reachable (\<lambda>d. d = empty_workflow_db) (workflow_step (postgres_ops cx role) (pg_item_of cx) limit) db"
  shows "reachable (\<lambda>d. d = empty_memory) (workflow_step (memory_ops cx) mem_item_of limit) (pg_abs cx db)
    \<and> (\<forall>u v i it db'. pg_create_intake cx role u v i db = Inr (it, db') \<longrightarrow>
          mem_create_intake cx u v i (pg_abs cx db) = Inr (it, pg_abs cx db'))
    \<and> (\<forall>u t w a x now e db'. pg_record_grounded_analysis cx role u t w a x now db = Inr (e, db') \<longrightarrow>
          mem_record_grounded_analysis cx u t w a x now (pg_abs cx db) = Inr (e, pg_abs cx db'))
    \<and> (\<forall>u t w a x now e db'. pg_record_chat_turn cx role u t w a x now db = Inr (e, db') \<longrightarrow>
          mem_record_chat_turn cx u t w a x now (pg_abs cx db) = Inr (e, pg_abs cx db'))
    \<and> (\<forall>u t w a x l now e db'. pg_reserve_chat_turn cx role u t w a x l now db = Inr (e, db') \<longrightarrow>
          mem_reserve_chat_turn cx u t w a x l now (pg_abs cx db) = Inr (e, pg_abs cx db'))
    \<and> (\<forall>u t w a g b dg now e db'. pg_add_gate_request cx role u t w a g b dg now db = Inr (e, db') \<longrightarrow>
          mem_add_gate_request cx u t w a g b dg now (pg_abs cx db) = Inr (e, pg_abs cx db'))
    \<and> (\<forall>t w. wf_transaction role t = Inr t \<longrightarrow>
          pg_get cx role t w db = Inr (mem_get t w (pg_abs cx db))
          \<and> pg_trace cx role t w db = Inr (mem_trace t w (pg_abs cx db))
          \<and> pg_list cx role t db = Inr (sort_key wi_created_at (mem_list t (pg_abs cx db))))"
proof -
  note inv = reachable_pg_inv [OF assms]
  have "reachable (\<lambda>d. d = empty_memory) (workflow_step (memory_ops cx) mem_item_of limit) (pg_abs cx db)"
    using assms(2)
  proof induction
    case (reachable_init d)
    then show ?case
      by (simp add: pg_abs_def empty_workflow_db_def empty_memory_def reachable.reachable_init)
  next
    case (reachable_step d d')
    then show ?case using step_simulates [OF reachable_pg_inv [OF assms(1) reachable_step.hyps(1)]]
      by (blast intro: reachable.reachable_step)
  qed
  moreover have "mem_get t w (pg_abs cx db) = pg_item_of cx db (t, w)" "mem_trace t w (pg_abs cx db) = pg_trace_of cx db (t, w)" for t w
    using fun_cong [OF abs_views(1) [OF inv], of "(t, w)"] fun_cong [OF abs_views(2) [OF inv], of "(t, w)"]
    by (simp_all add: mem_item_of_def mem_trace_of_def)
  ultimately show ?thesis
    using create_commits [OF inv] analysis_commits [OF inv] turn_commits [OF inv] reserve_commits [OF inv]
      gate_commits [OF inv] get_reads [OF inv] trace_reads [OF inv] list_is_sorted_local [OF inv]
    by simp
qed

theorem durable_store_refines_local_witness:
  "mem_trace ''acme'' ''wi-1'' (pg_abs packed_codec ex_wdb2) = [ex_opened, ex_reserved]"
proof -
  have "pg_trace packed_codec ex_db_role ''acme'' ''wi-1'' ex_wdb2
      = Inr (mem_trace ''acme'' ''wi-1'' (pg_abs packed_codec ex_wdb2))"
    using durable_store_refines_local [OF packed_round_trip ex_reaches] by simp
  moreover have "pg_trace packed_codec ex_db_role ''acme'' ''wi-1'' ex_wdb2 = Inr [ex_opened, ex_reserved]"
    using trace_reads [OF ex_wdb2_inv ex_transaction] by (simp add: ex_trace)
  ultimately show ?thesis by simp
qed

text \<open>
  C34. The lifetime turn budget holds. However clients of the durable store interleave their operations, the number of
  chat turns ever reserved for a tenant does not exceed that tenant's limit, and a reservation is refused once it
  is reached.
\<close>

theorem turn_limit_holds:
  assumes "documents_round_trip cx"
    and "reachable (\<lambda>d. d = empty_workflow_db) (workflow_step (postgres_ops cx role) (pg_item_of cx) limit) db"
    and "limit t = Some l"
  shows "int (reserved_turns (pg_trace_of cx db) t) \<le> max 0 l
    \<and> (l \<le> int (reserved_turns (pg_trace_of cx db) t) \<longrightarrow>
        (\<forall>u w a res now out. pg_reserve_chat_turn cx role u t w a res (Some l) now db \<noteq> Inr out))"
proof -
  note inv = reachable_pg_inv [OF assms(1,2)]
  have "int (reserved_turns (pg_trace_of cx db) t) < l"
    if "pg_reserve_chat_turn cx role u t w a res (Some l) now db = Inr out" for u w a res now out
    using reserve_commits [OF inv] that by (cases out) auto
  moreover have "int (reserved_turns (pg_trace_of cx db) t) \<le> max 0 l"
    using pgw.turns_bounded [OF reachable_mono [OF assms(2) empty_starts [OF assms(1)]]] assms(3) by blast
  ultimately show ?thesis by (meson not_le)
qed

theorem turn_limit_holds_witness:
  "reserved_turns (pg_trace_of packed_codec ex_wdb2) ''acme'' \<le> 1"
  using turn_limit_holds [OF packed_round_trip ex_reaches refl, of "''acme''"] by simp

text \<open>
  C35. The trace is append-only and well formed. From every state that clients reach, whatever they do next, the trace
  of a work item only gets longer and the item itself does not change; a trace begins with the intake of its
  owner, has no other intake, and its chat turns are the owner's. Every row reads back as a valid event.
\<close>

theorem traces_append_only:
  assumes "documents_round_trip cx"
    and "reachable (\<lambda>d. d = empty_workflow_db) (workflow_step (postgres_ops cx role) (pg_item_of cx) limit) db"
    and "run_of (workflow_step (postgres_ops cx role) (pg_item_of cx) limit) n db db'"
  shows "(\<exists>new. pg_trace_of cx db' k = pg_trace_of cx db k @ new)
    \<and> (\<forall>it. pg_item_of cx db k = Some it \<longrightarrow> pg_item_of cx db' k = Some it)
    \<and> trace_wf cx k (pg_item_of cx db' k) (pg_trace_of cx db' k)"
proof -
  note inv = reachable_pg_inv [OF assms(1,2)]
  have "pg_item_of cx db \<subseteq>\<^sub>m pg_item_of cx db'"
    using assms(3) inv
  proof induction
    case (run_step m d d1 d2)
    then show ?case using pgw.step_grows pgw.traces_kept [OF run_step.hyps(1)] map_le_trans by blast
  qed simp
  then have "\<forall>it. pg_item_of cx db k = Some it \<longrightarrow> pg_item_of cx db' k = Some it"
    by (metis domI map_le_def)
  then show ?thesis using pgw.traces_kept [OF assms(3) inv] inv_wf by blast
qed

theorem traces_append_only_witness:
  "\<exists>new. pg_trace_of packed_codec ex_wdb2 (''acme'', ''wi-1'') = pg_trace_of packed_codec ex_wdb1 (''acme'', ''wi-1'') @ new"
proof -
  have "run_of (workflow_step (postgres_ops packed_codec ex_db_role) (pg_item_of packed_codec) (\<lambda>_. Some 1)) (Suc 0) ex_wdb1 ex_wdb2"
    by (rule run_step, rule run_refl, rule ex_wf_step)
  from traces_append_only [OF packed_round_trip ex_reaches1 this] show ?thesis by blast
qed

subsection \<open>Delivery\<close>

definition ex_wdb3 :: workflow_db where
  "ex_wdb3 = ex_wdb1\<lparr>wd_outbox := [((''acme'', ''ev''),
    \<lparr>or_work_item = ''wi-1'', or_topic = ''mail'', or_payload = digest_of (JStr ''hello''), or_status = PENDING,
     or_attempts = 0, or_worker = None, or_lease = None, or_created = ex_moment, or_updated = ex_moment,
     or_digest = digest_of (JObj [(''event_id'', JStr ''ev''), (''tenant_id'', JStr ''acme''),
       (''work_item_id'', JStr ''wi-1''), (''topic'', JStr ''mail''),
       (''payload_digest'', JStr (digest_of (JStr ''hello'')))])\<rparr>)]\<rparr>"

lemma ex_enqueues:
  "\<exists>x. enqueue_outbox packed_codec ex_db_role ''acme'' ''wi-1'' ''ev'' ''mail'' (digest_of (JStr ''hello'')) ex_now ex_wdb1
    = Inr (x, ex_wdb3)"
  by (simp add: enqueue_outbox_def Let_def outbox_ok_def ex_wdb1_def fetch_def dict_get_def tenant_scope_def
      outbox_of_row_def outbox_identity_def ex_wdb3_def seal_def)

lemma ex_claims:
  "\<exists>x db. claim_outbox packed_codec ex_db_role (\<lambda>_. False) ''acme'' ''bob'' ex_now 1 ex_wdb3 = Inr (Some x, db)
    \<and> claim_receipt ''bob'' x = Claimed_Event (''acme'', ''ev'') ''bob'' 0 1000000"
  by (simp add: claim_outbox_def Let_def dt_limit_def ex_moment_def ex_wdb3_def ex_wdb1_def claimable_def tenant_scope_def
      outbox_of_row_def outbox_identity_def outbox_ok_def integer_ok_def claim_receipt_def seal_def)

text \<open>
  C36. Delivery is exclusive. However workers, producers and consumers interleave, the leases that workers were
  given on one outbound event never overlap, an event that was acknowledged is neither claimed nor
  acknowledged again, only the worker that was last given an event acknowledges it, and an inbound event is
  processed at most once.
\<close>

theorem delivery_discipline:
  assumes "reachable (\<lambda>st. st = (empty_workflow_db, [])) (delivery_step cx) (db, hist)"
  shows "sorted_wrt compatible hist \<and> acks_held hist"
  using dlv.always [OF assms] by (simp add: delivery_inv_def)

theorem delivery_discipline_witness:
  "\<exists>db. reachable (\<lambda>st. st = (empty_workflow_db, [])) (delivery_step packed_codec)
      (db, [Claimed_Event (''acme'', ''ev'') ''bob'' 0 1000000])
    \<and> acks_held [Claimed_Event (''acme'', ''ev'') ''bob'' 0 1000000]"
proof -
  have "reachable (\<lambda>st. st = (empty_workflow_db, [])) (delivery_step packed_codec) (ex_wdb1, [])"
    by (rule reachable_step, rule reachable_init, rule refl)
      (rule delivery_step.workflow, rule ex_step0)
  then have "reachable (\<lambda>st. st = (empty_workflow_db, [])) (delivery_step packed_codec) (ex_wdb3, [])"
    using ex_enqueues by (blast intro: reachable_step delivery_step.enqueue)
  then obtain db where "reachable (\<lambda>st. st = (empty_workflow_db, [])) (delivery_step packed_codec)
      (db, [Claimed_Event (''acme'', ''ev'') ''bob'' 0 1000000])"
    using ex_claims reachable_step delivery_step.claim [where hist = "[]"] by (metis append_Nil)
  then show ?thesis using delivery_discipline by blast
qed

subsection \<open>The service\<close>

definition ex_principal :: principal where
  "ex_principal = \<lparr>pr_tenant = ''acme'', pr_subject = ''ann'', pr_issuer = ''idp'', pr_audience = ''factory'',
     pr_roles = [Operator], pr_issued_at = 0, pr_expires_at = 1\<rparr>"

definition ex_request :: chat_request where
  "ex_request = \<lparr>rq_message = ''hello'', rq_repository = None, rq_repositories = [], rq_mode = None, rq_profile = None,
     rq_work_item = None, rq_history = []\<rparr>"

definition ex_service :: "'d workflow_store \<Rightarrow> ('d, string list) service" where
  "ex_service store = \<lparr>sv_store = store, sv_clock = (\<lambda>x. (ex_now, x)),
     sv_uuid = (\<lambda>x. case x of [] \<Rightarrow> (replicate 32 (CHR ''0''), []) | u # us \<Rightarrow> (u, us)),
     sv_verify = None, sv_browser_origin = None, sv_broker = None, sv_reader = None, sv_grounded = None,
     sv_business = Some (\<lambda>q x. (None, x)), sv_turn_limit = Some 1, sv_model_tenant = Some ''acme'', sv_repositories = []\<rparr>"

definition ex_query :: agent_query where
  "ex_query = Ask_Business ''wi-1'' ''hello'' None []"

lemma ex_routes: "route_request ex_request = Inr (Business_Analyst, None)"
  by code_simp

lemma ex_guards: "chat_guards (logged_service (ex_service store)) ex_principal ex_request Business_Analyst = Inr ()"
proof -
  have "\<not> requires_runtime_evidence ''hello''" by code_simp
  then show ?thesis
    by (simp add: chat_guards_def require_all.simps selected_repositories_def model_configured_def may_operate_def
        logged_service_def ex_service_def ex_principal_def ex_request_def)
qed

lemma ex_chat:
  "chat (logged_service (ex_service (postgres_ops packed_codec ex_db_role))) ex_principal ex_request
      (empty_workflow_db, [''1'', ''2'', ''3''], [])
    = (Inl (Http_Exception 502 (Coded ''AGENT_RESPONSE_UNAVAILABLE'' (Some ''wi-1''))), (ex_wdb2, [], [ex_query]))"
proof -
  let ?sv = "logged_service (ex_service (postgres_ops packed_codec ex_db_role))"
  have "chat_item ?sv ex_principal ex_request None (empty_workflow_db, [''1'', ''2'', ''3''], [])
      = (Inr ex_item, (ex_wdb1, [''3''], []))"
    using ex_creates
    by (simp add: chat_item_def sbind_def scatch_def outside_def on_store_def with_log_def logged_service_def
        ex_service_def ex_request_def ex_principal_def postgres_ops_def first_repository_def selected_repositories_def
        ex_intake_def)
  moreover have "turn_reservation ex_request Business_Analyst None = ex_reservation"
    by (simp add: turn_reservation_def ex_reservation_def ex_request_def first_repository_def many_repositories_def
        selected_repositories_def history_digest_def json_list_def max_model_calls_per_turn_def max_doer_review_rounds_def)
  moreover have "reservation_ok ex_reservation" using ex_reservation_valid by (simp add: valid_turn_reservation_def)
  then have "reserve_turn ?sv ex_principal ex_item ex_reservation (ex_wdb1, [''3''], []) = (Inr ex_reserved, (ex_wdb2, [], []))"
    using ex_reserves
    by (simp add: reserve_turn_def sbind_def scatch_def outside_def on_store_def with_log_def logged_service_def
        ex_service_def ex_principal_def ex_item_def postgres_ops_def)
  moreover have "agent_turn ?sv ex_principal ex_request ex_item Business_Analyst None (ex_wdb2, [], [])
      = (Inl (Http_Exception 502 (Coded ''AGENT_RESPONSE_UNAVAILABLE'' (Some ''wi-1''))), (ex_wdb2, [], [ex_query]))"
    by (simp add: agent_turn_def sbind_def scatch_def ask_agent_def logged_service_def log_query_def ex_service_def
        ex_query_def ex_item_def ex_request_def first_repository_def selected_repositories_def)
  moreover have "model_configured ?sv Business_Analyst" by (simp add: model_configured_def logged_service_def ex_service_def)
  ultimately show ?thesis by (simp add: chat_def sbind_def ex_routes ex_guards)
qed

text \<open>
  C37. Model calls are bounded. However requests of any principals and other clients of the database interleave, the
  queries that ever reach an agent are at most the reserved turns of the one tenant that may use the
  model, and those are at most the configured limit.
\<close>

theorem model_calls_bounded:
  assumes "documents_round_trip cx" "sv_store sv = postgres_ops cx role" "check_configuration sv"
    and "sv_turn_limit sv = Some l" "sv_model_tenant sv = Some t"
    and "reachable (\<lambda>s. fst s = empty_workflow_db \<and> snd (snd s) = []) (service_step sv (pg_item_of cx)) (db, x, queries)"
  shows "length queries \<le> reserved_turns (pg_trace_of cx db) t \<and> int (reserved_turns (pg_trace_of cx db) t) \<le> l"
proof -
  have "0 \<le> l" using assms(3,4) by (simp add: check_configuration_def)
  moreover have "reachable (\<lambda>s. pg_inv cx (fst s) \<and> (\<forall>k. pg_trace_of cx (fst s) k = []) \<and> snd (snd s) = [])
      (service_step sv (pg_item_of cx)) (db, x, queries)"
    by (rule reachable_mono [OF assms(6)]) (use empty_starts [OF assms(1)] in blast)
  ultimately have "pgd.budget_inv cx l t (db, x, queries)"
    by (rule pgd.service_budget [OF assms(2,4,5)])
  then show ?thesis by (simp add: pgd.budget_inv_def)
qed

theorem model_calls_bounded_witness:
  "length [ex_query] \<le> reserved_turns (pg_trace_of packed_codec ex_wdb2) ''acme''
    \<and> int (reserved_turns (pg_trace_of packed_codec ex_wdb2) ''acme'') \<le> 1"
proof (rule model_calls_bounded)
  let ?sv = "ex_service (postgres_ops packed_codec ex_db_role)"
  show "documents_round_trip packed_codec" by (rule packed_round_trip)
  show "sv_store ?sv = postgres_ops packed_codec ex_db_role" "sv_turn_limit ?sv = Some 1" "sv_model_tenant ?sv = Some ''acme''"
    "check_configuration ?sv"
    by (simp_all add: ex_service_def check_configuration_def)
  show "reachable (\<lambda>s. fst s = empty_workflow_db \<and> snd (snd s) = []) (service_step ?sv (pg_item_of packed_codec))
      (ex_wdb2, [], [ex_query])"
    by (rule reachable_step, rule reachable_init) (auto intro!: service_step.chat ex_chat)
qed

text \<open>
  C38. Requests stay within the caller's tenant and the model within its policy. In every state that clients reach, a
  chat or gate request leaves the items and traces of every other tenant as they were and shortens no trace. A
  chat request sends at most one query to an agent; when it sends one, the caller is an operator of the
  tenant that may use the model, every repository is in the allowlist, the message asks for no runtime
  evidence, and a turn was reserved. What the status, item and trace views show is the caller's tenant's, and
  they change nothing.
\<close>

theorem requests_confined:
  assumes "documents_round_trip cx" "sv_store sv = postgres_ops cx role"
    and "reachable (\<lambda>d. d = empty_workflow_db) (workflow_step (postgres_ops cx role) (pg_item_of cx) limit) db"
  shows "(\<forall>p q res db' x' queries'. chat (logged_service sv) p q (db, x, queries) = (res, (db', x', queries')) \<longrightarrow>
        (\<forall>t w. t \<noteq> pr_tenant p \<longrightarrow>
          pg_item_of cx db' (t, w) = pg_item_of cx db (t, w) \<and> pg_trace_of cx db' (t, w) = pg_trace_of cx db (t, w))
        \<and> (\<forall>k. \<exists>new. pg_trace_of cx db' k = pg_trace_of cx db k @ new)
        \<and> length queries' \<le> Suc (length queries)
        \<and> (length queries < length queries' \<longrightarrow> model_allowed sv p q
            \<and> reserved_turns (pg_trace_of cx db') (pr_tenant p) = Suc (reserved_turns (pg_trace_of cx db) (pr_tenant p))))
    \<and> (\<forall>p g w res db' x' queries'. gate (logged_service sv) p g w (db, x, queries) = (res, (db', x', queries')) \<longrightarrow>
        (\<forall>t w. t \<noteq> pr_tenant p \<longrightarrow>
          pg_item_of cx db' (t, w) = pg_item_of cx db (t, w) \<and> pg_trace_of cx db' (t, w) = pg_trace_of cx db (t, w))
        \<and> (\<forall>k. \<exists>new. pg_trace_of cx db' k = pg_trace_of cx db k @ new) \<and> length queries' = length queries)
    \<and> (\<forall>p out s'. status_view (logged_service sv) p (db, x, queries) = (Inr out, s') \<longrightarrow>
        s' = (db, x, queries) \<and> set out = item_response ` {it. \<exists>w. pg_item_of cx db (pr_tenant p, w) = Some it})
    \<and> (\<forall>p w out s'. work_item (logged_service sv) p w (db, x, queries) = (Inr out, s') \<longrightarrow>
        s' = (db, x, queries) \<and> (\<exists>it. pg_item_of cx db (pr_tenant p, w) = Some it \<and> out = item_response it))
    \<and> (\<forall>p w out s'. trace_view (logged_service sv) p w (db, x, queries) = (Inr out, s') \<longrightarrow>
        s' = (db, x, queries) \<and> out = (w, pg_trace_of cx db (pr_tenant p, w)))"
proof (intro conjI allI impI; (elim conjE)?)
  note inv = reachable_pg_inv [OF assms(1,3)]
  {
    fix p q res db' x' queries'
    assume "chat (logged_service sv) p q (db, x, queries) = (res, (db', x', queries'))"
    from pgd.chat_effect [OF assms(2) this inv] obtain n m where
      "pgd.effect cx (sv_turn_limit sv) (pr_tenant p) n m (db, x, queries) (db', x', queries')"
      "m \<le> n" "n \<le> 1" "0 < n \<longrightarrow> model_allowed sv p q" by blast
    note chat = this [unfolded pgd.effect_def fst_conv snd_conv]
    show "length queries' \<le> Suc (length queries)" using chat inv by auto
    show "\<exists>new. pg_trace_of cx db' k = pg_trace_of cx db k @ new" for k using chat inv by blast
    show "pg_item_of cx db' (t, w) = pg_item_of cx db (t, w)" "pg_trace_of cx db' (t, w) = pg_trace_of cx db (t, w)"
      if "t \<noteq> pr_tenant p" for t w using chat(1) inv that by (metis fst_conv)+
    show "model_allowed sv p q"
      "reserved_turns (pg_trace_of cx db') (pr_tenant p) = Suc (reserved_turns (pg_trace_of cx db) (pr_tenant p))"
      if "length queries < length queries'" using chat inv that by (auto simp: le_Suc_eq)
  }
  {
    fix p g w res db' x' queries'
    assume "gate (logged_service sv) p g w (db, x, queries) = (res, (db', x', queries'))"
    note gate = pgd.gate_effect [OF assms(2) this inv, unfolded pgd.effect_def fst_conv snd_conv]
    show "length queries' = length queries" using gate inv by simp
    show "\<exists>new. pg_trace_of cx db' k = pg_trace_of cx db k @ new" for k using gate inv by blast
    show "pg_item_of cx db' (t, w) = pg_item_of cx db (t, w)" "pg_trace_of cx db' (t, w) = pg_trace_of cx db (t, w)"
      if "t \<noteq> pr_tenant p" for t w using gate inv that by (metis fst_conv)+
  }
  show "s' = (db, x, queries)" "set out = item_response ` {it. \<exists>w. pg_item_of cx db (pr_tenant p, w) = Some it}"
    if "status_view (logged_service sv) p (db, x, queries) = (Inr out, s')" for p out s'
    using pgd.status_shows [OF assms(2) that inv] by simp_all
  show "s' = (db, x, queries)" "\<exists>it. pg_item_of cx db (pr_tenant p, w) = Some it \<and> out = item_response it"
    if "work_item (logged_service sv) p w (db, x, queries) = (Inr out, s')" for p w out s'
    using pgd.work_item_shows [OF assms(2) that inv] by simp_all
  show "s' = (db, x, queries)" "out = (w, pg_trace_of cx db (pr_tenant p, w))"
    if "trace_view (logged_service sv) p w (db, x, queries) = (Inr out, s')" for p w out s'
    using pgd.trace_shows [OF assms(2) that inv] by simp_all
qed

theorem requests_confined_witness:
  "trace_view (logged_service (ex_service (postgres_ops packed_codec ex_db_role))) ex_principal ''wi-1'' (ex_wdb2, [], [])
    = (Inr (''wi-1'', [ex_opened, ex_reserved]), (ex_wdb2, [], []))"
proof -
  let ?sv = "ex_service (postgres_ops packed_codec ex_db_role)"
  have store: "sv_store ?sv = postgres_ops packed_codec ex_db_role" by (simp add: ex_service_def)
  have "pg_item_of packed_codec ex_wdb2 (''acme'', ''wi-1'') = Some ex_item"
    by (simp add: pg_item_of_def ex_wdb2_def ex_wdb1_def dict_get_def item_row_of_def packed_codec_def)
  then obtain out s' where "trace_view (logged_service ?sv) ex_principal ''wi-1'' (ex_wdb2, [], []) = (Inr out, s')"
    using get_reads [OF ex_wdb2_inv ex_transaction] trace_reads [OF ex_wdb2_inv ex_transaction]
    by (simp add: trace_view_def found_item_def sbind_def scatch_def read_store_def logged_service_def ex_service_def
        postgres_ops_def ex_principal_def)
  moreover from this have "s' = (ex_wdb2, [], []) \<and> out = (''wi-1'', pg_trace_of packed_codec ex_wdb2 (pr_tenant ex_principal, ''wi-1''))"
    using requests_confined [OF packed_round_trip store ex_reaches, of "[]" "[]"] by blast
  moreover have "pr_tenant ex_principal = ''acme''" by (simp add: ex_principal_def)
  ultimately show ?thesis by (simp add: ex_trace)
qed

text \<open>
  C39. A validated chat request is always answered. With a clock that knows its zone and random identifiers in
  hexadecimal, whatever agents do, the chat handler on the local store ends in a response or in one of the HTTP
  errors that it raises itself, never in an exception that it does not handle: what the request and the principal were
  validated for is enough for every record that it builds.
\<close>

theorem chat_never_crashes:
  assumes "clock_aware sv" "uuid_hex sv" "valid_principal p" "valid_chat_request q" "sv_store sv = memory_ops cx"
    and "reachable (\<lambda>d. d = empty_memory) (workflow_step (memory_ops cx) mem_item_of limit) d"
  shows "handled (fst (chat sv p q (d, x)))"
proof -
  have "mem_inv cx d"
    using assms(6)
  proof induction
    case (reachable_init d)
    then show ?case
      by (simp add: mem_inv_def empty_memory_def mem_item_of_def mem_trace_of_def mem_get_def mem_trace_def dict_get_def trace_wf_def)
  qed (rule mem.step_inv)
  from chat_total [OF assms(1-3) this assms(5,4)] show ?thesis .
qed

theorem chat_never_crashes_witness:
  "handled (fst (chat (ex_service (memory_ops packed_codec) \<lparr>sv_uuid := \<lambda>x. (replicate 32 (CHR ''0''), x)\<rparr>)
    ex_principal ex_request (empty_memory, [])))"
proof (rule chat_never_crashes)
  let ?sv = "ex_service (memory_ops packed_codec) \<lparr>sv_uuid := \<lambda>x. (replicate 32 (CHR ''0''), x)\<rparr>"
  show "clock_aware ?sv" by (simp add: clock_aware_def ex_service_def ex_utc)
  show "uuid_hex ?sv" by (simp add: uuid_hex_def list_all_iff lower_hex_def ascii_digit_def)
  show "valid_principal ex_principal" by (simp add: valid_principal_def ex_principal_def)
  have "strip ''hello'' \<noteq> []" by code_simp
  then show "valid_chat_request ex_request"
    by (simp add: valid_chat_request_def ex_request_def repositories_distinct_def history_ok_def)
  show "sv_store ?sv = memory_ops packed_codec" by (simp add: ex_service_def)
  show "reachable (\<lambda>d. d = empty_memory) (workflow_step (memory_ops packed_codec) mem_item_of (\<lambda>_. None)) empty_memory"
    by (rule reachable_init) simp
qed

end
