(* ===== verification/Discussion_Inv.thy ===== *)
theory Discussion_Inv
  imports Grounded_Discussion Workflow_Service_Inv Discussion_Agents
begin

text \<open>
  What an agent's calls to models amount to. The locale \<open>call_log\<close> is the interface of a world that remembers the
  calls made on the two parties and that nothing else writes to; \<open>review_loop\<close> is what both agents' rounds
  promise of it. \<open>logged_parties\<close> makes such a world of any world, so that both locales are interpreted for every
  agent of the model.
\<close>

declare split_paired_All [simp del] split_paired_Ex [simp del] split_paired_all [simp del]

type_synonym model_call = "string \<times> model_request \<times> model_response option"

definition call_request :: "string \<Rightarrow> string \<Rightarrow> string \<Rightarrow> model_request" where
  "call_request role prompt context = seal model_request_fields
    \<lparr>content_digest = [], mq_role = role, mq_prompt = prompt, mq_context_digest = context\<rparr>"

definition recorded :: "string \<Rightarrow> model_call \<Rightarrow> model_run_telemetry \<Rightarrow> bool" where
  "recorded stage c run \<longleftrightarrow> valid_run run \<and> run_stage run = stage \<and> run_family run = fst c
    \<and> run_request_digest run = content_digest (fst (snd c))
    \<and> (\<exists>a. snd (snd c) = Some a \<and> run_response_digest run = text_digest (mp_output a))"

lemma wp_Pair [simp]: "wp (Pair (Inr x)) Q E s = Q x s" "wp (Pair (Inl e)) Q E s = E s"
  by (simp_all add: wp_def)

lemma wp_guard [simp]: "wp (guard b e) Q E s = (if b then Q () s else E s)"
  by (simp add: guard_def)

lemma wp_spureI:
  assumes "\<And>v. e = Inr v \<Longrightarrow> Q v s" "\<And>d. e = Inl d \<Longrightarrow> E s"
  shows "wp (spure e) Q E s"
  using assms by (cases e) (simp_all add: wp_spure)

lemma wp_port: "wp (port f) Q E s = (case f s of (None, s') \<Rightarrow> E s' | (Some a, s') \<Rightarrow> Q a s')"
  by (simp add: wp_def port_def split: prod.splits option.splits)

locale call_log =
  fixes dx :: "('x, 'm) discussion_env_scheme" and calls :: "'x \<Rightarrow> model_call list"
  assumes doer_logs: "py_complete (dx_doer dx) q x = (a, y) \<Longrightarrow> calls y = calls x @ [(py_family (dx_doer dx), q, a)]"
    and reviewer_logs:
      "py_complete (dx_reviewer dx) q x = (a, y) \<Longrightarrow> calls y = calls x @ [(py_family (dx_reviewer dx), q, a)]"
    and quiet: "calls (snd (dx_today dx x)) = calls x" "calls (snd (dx_timer dx x)) = calls x"
      "calls (snd (dx_uuid dx x)) = calls x"
begin

lemma invoke_logs:
  assumes p: "p = dx_doer dx \<or> p = dx_reviewer dx"
    and x: "calls x = l"
  shows "wp (invoke dx p stage role prompt context)
    (\<lambda>out x. calls x = l @ [(py_family p, call_request role prompt context, Some (fst out))]
      \<and> recorded stage (py_family p, call_request role prompt context, Some (fst out)) (snd out))
    (\<lambda>x. \<exists>es. calls x = l @ es \<and> length es \<le> 1) x"
proof -
  have logs: "calls y = calls x @ [(py_family p, q, a)]" if "py_complete p q x = (a, y)" for q x a y
    using p that doer_logs reviewer_logs by auto
  have cost: "wp (run_cost_of dx p a) Q E x \<longleftrightarrow> (case run_cost_of dx p a x of (Inr c, y) \<Rightarrow> Q c y | (Inl e, y) \<Rightarrow> E y)"
    for a Q E x by (simp add: wp_def split: prod.splits sum.splits)
  have still: "calls y = calls x" if "run_cost_of dx p a x = (c, y)" for a x c y
    using that quiet(1) [of x]
    by (auto simp: run_cost_of_def scatch_def sbind_def scall_def split: option.splits prod.splits sum.splits)
  obtain a y where a: "py_complete p (call_request role prompt context) (snd (dx_timer dx x)) = (a, y)" by fastforce
  then have y: "calls y = l @ [(py_family p, call_request role prompt context, a)]" using logs x quiet(2) by simp
  show ?thesis
    using x y
    by (auto simp: invoke_def Let_def call_request_def [symmetric] wp_port a quiet cost recorded_def as_configured_def
        split: option.splits prod.splits sum.splits dest: still)
qed

end

definition logged_run :: "model_call \<Rightarrow> model_run_telemetry \<Rightarrow> bool" where
  "logged_run c run \<longleftrightarrow> (\<exists>stage. recorded stage c run)"

text \<open>The shape both agents' rounds have: a call on the doer, a pure check, a call on the reviewer about its result.\<close>

definition checked_round ::
  "('x, 'm) discussion_env_scheme \<Rightarrow> (string \<times> string \<times> string) \<Rightarrow> (string \<Rightarrow> discussion_error + 'd) \<Rightarrow>
    (string \<times> string \<times> ('d \<Rightarrow> string)) \<Rightarrow> (string \<Rightarrow> discussion_error + independent_review) \<Rightarrow> string \<Rightarrow>
    ('x, 'd \<times> 'd \<times> independent_review \<times> model_run_telemetry list) agent"
where
  "checked_round dx ask check ask2 judge digest =
    sbind (invoke dx (dx_doer dx) (fst ask) (fst (snd ask)) (snd (snd ask)) digest) (\<lambda>(a, r1).
    sbind (spure (check (mp_output a))) (\<lambda>d.
    sbind (invoke dx (dx_reviewer dx) (fst ask2) (fst (snd ask2)) (snd (snd ask2) d) digest) (\<lambda>(a2, r2).
    sbind (spure (judge (mp_output a2))) (\<lambda>v. sreturn (d, d, v, [r1, r2])))))"

context call_log
begin

lemma invoke_rule:
  assumes "p = dx_doer dx \<or> p = dx_reviewer dx" "calls x = l"
    and "\<And>a run y. calls y = l @ [(py_family p, call_request role prompt digest, Some a)] \<Longrightarrow>
      recorded stage (py_family p, call_request role prompt digest, Some a) run \<Longrightarrow> Q (a, run) y"
    and "\<And>y es. calls y = l @ es \<Longrightarrow> length es \<le> 1 \<Longrightarrow> E y"
  shows "wp (invoke dx p stage role prompt digest) Q E x"
  by (rule wp_mono [OF invoke_logs [OF assms(1,2)]]) (auto intro: assms(3,4))

lemma checked_round_law:
  assumes "calls x = l"
    and good: "\<And>out d. check out = Inr d \<Longrightarrow> good d"
    and law: "\<And>d a v. judge (mp_output a) = Inr v \<Longrightarrow>
      reviewed d (py_family (dx_reviewer dx), call_request (fst (snd ask2)) (snd (snd ask2) d) digest, Some a) v"
  shows "wp (checked_round dx ask check ask2 judge digest)
    (\<lambda>out x. \<exists>d a v c1 c2 r1 r2. out = (d, a, v, [r1, r2]) \<and> calls x = l @ [c1, c2]
      \<and> fst c1 = py_family (dx_doer dx) \<and> fst c2 = py_family (dx_reviewer dx)
      \<and> logged_run c1 r1 \<and> logged_run c2 r2 \<and> good a \<and> reviewed a c2 v)
    (\<lambda>x. \<exists>es. calls x = l @ es \<and> length es \<le> 2) x"
  unfolding checked_round_def wp_sbind split_def
  apply (rule invoke_rule [OF disjI1 [OF refl] assms(1)])
   apply (unfold wp_sbind fst_conv snd_conv)
   apply (rule wp_spureI)
    apply (rule invoke_rule [OF disjI2 [OF refl]], assumption)
     apply (unfold wp_sbind fst_conv snd_conv)
     apply (rule wp_spureI)
      apply (auto simp: logged_run_def good law) []
     apply auto []
    apply auto []
   apply auto []
  apply auto []
  done

end

subsection \<open>Rounds\<close>

text \<open>
  \<open>good\<close> is what every draft that reached the reviewer meets, \<open>reviewed\<close> what links it to the reviewer's call.
\<close>

locale review_loop =
  fixes step :: "('d \<times> independent_review) option \<Rightarrow> ('x, 'd \<times> 'a \<times> independent_review \<times> model_run_telemetry list) agent"
    and calls :: "'x \<Rightarrow> model_call list" and doer :: string and reviewer :: string
    and good :: "'a \<Rightarrow> bool" and reviewed :: "'a \<Rightarrow> model_call \<Rightarrow> independent_review \<Rightarrow> bool"
  assumes step_law: "calls x = l \<Longrightarrow> wp (step previous)
    (\<lambda>out x. \<exists>d a v c1 c2 r1 r2. out = (d, a, v, [r1, r2]) \<and> calls x = l @ [c1, c2] \<and> fst c1 = doer \<and> fst c2 = reviewer
      \<and> logged_run c1 r1 \<and> logged_run c2 r2 \<and> good a \<and> reviewed a c2 v)
    (\<lambda>x. \<exists>es. calls x = l @ es \<and> length es \<le> 2) x"
begin

definition loop_post ::
  "model_call list \<Rightarrow> model_run_telemetry list \<Rightarrow> nat \<Rightarrow>
    ('a option \<times> independent_review option) \<times> model_run_telemetry list \<Rightarrow> 'x \<Rightarrow> bool"
where
  "loop_post l runs n out x \<longleftrightarrow>
    (\<exists>es new k. calls x = l @ es \<and> snd out = runs @ new \<and> k \<le> n
      \<and> map fst es = concat (replicate k [doer, reviewer]) \<and> list_all2 logged_run es new
      \<and> (case fst (fst out) of None \<Rightarrow> k = n
         | Some a \<Rightarrow> 0 < k \<and> good a \<and> (\<exists>v. accepts v \<and> reviewed a (last es) v)))"

lemma loop_post_step:
  assumes "loop_post (l @ [c1, c2]) (runs @ [r1, r2]) n out x" "fst c1 = doer" "fst c2 = reviewer"
    "logged_run c1 r1" "logged_run c2 r2"
  shows "loop_post l runs (Suc n) out x"
proof -
  from assms(1) obtain es new k where law: "calls x = l @ [c1, c2] @ es" "snd out = runs @ [r1, r2] @ new" "k \<le> n"
    "map fst es = concat (replicate k [doer, reviewer])" "list_all2 logged_run es new"
    "case fst (fst out) of None \<Rightarrow> k = n | Some a \<Rightarrow> 0 < k \<and> good a \<and> (\<exists>v. accepts v \<and> reviewed a (last es) v)"
    by (auto simp: loop_post_def)
  have "es \<noteq> []" if "0 < k" using that law(4) by (cases k) auto
  then show ?thesis
    unfolding loop_post_def using law assms(2-5)
    by (intro exI [of _ "[c1, c2] @ es"] exI [of _ "[r1, r2] @ new"] exI [of _ "Suc k"])
      (auto split: option.splits)
qed

lemma loop_post_accept:
  assumes "calls x = l @ [c1, c2]" "fst c1 = doer" "fst c2 = reviewer" "logged_run c1 r1" "logged_run c2 r2"
    "good a" "reviewed a c2 v" "accepts v"
  shows "loop_post l runs (Suc n) ((Some a, w), runs @ [r1, r2]) x"
  unfolding loop_post_def using assms
  by (intro exI [of _ "[c1, c2]"] exI [of _ "[r1, r2]"] exI [of _ 1]) auto

lemma rounds_law:
  assumes "calls x = l"
  shows "wp (review_rounds step n previous runs) (loop_post l runs n) (\<lambda>x. \<exists>es. calls x = l @ es \<and> length es \<le> 2 * n) x"
  using assms
proof (induction n arbitrary: l previous runs x)
  case 0
  then show ?case by (simp add: loop_post_def)
next
  case (Suc n)
  show ?case
    unfolding review_rounds.simps wp_sbind
  proof (rule wp_mono [OF step_law [OF Suc.prems]])
    fix x assume "\<exists>es. calls x = l @ es \<and> length es \<le> 2"
    then show "\<exists>es. calls x = l @ es \<and> length es \<le> 2 * Suc n" by force
  next
    fix out :: "'d \<times> 'a \<times> independent_review \<times> model_run_telemetry list" and x
    assume "\<exists>d a v c1 c2 r1 r2. out = (d, a, v, [r1, r2]) \<and> calls x = l @ [c1, c2] \<and> fst c1 = doer \<and> fst c2 = reviewer
      \<and> logged_run c1 r1 \<and> logged_run c2 r2 \<and> good a \<and> reviewed a c2 v"
    then obtain d a v c1 c2 r1 r2 where out: "out = (d, a, v, [r1, r2])" and x: "calls x = l @ [c1, c2]"
      and c: "fst c1 = doer" "fst c2 = reviewer" "logged_run c1 r1" "logged_run c2 r2" "good a" "reviewed a c2 v" by blast
    have later: "wp (review_rounds step n (Some (d, v)) (runs @ [r1, r2])) (loop_post l runs (Suc n))
        (\<lambda>x. \<exists>es. calls x = l @ es \<and> length es \<le> 2 * Suc n) x"
      by (rule wp_mono [OF Suc.IH [OF x] loop_post_step [OF _ c(1-4)]]) auto
    show "wp (case out of (draft, answer, v, new) \<Rightarrow>
          if accepts v then sreturn ((Some answer, map_option snd previous), runs @ new)
          else review_rounds step n (Some (draft, v)) (runs @ new))
        (loop_post l runs (Suc n)) (\<lambda>x. \<exists>es. calls x = l @ es \<and> length es \<le> 2 * Suc n) x"
      using later loop_post_accept [OF x c] by (simp add: out)
  qed
qed

end

subsection \<open>Citations\<close>

definition supported :: "code_context \<Rightarrow> source_citation \<Rightarrow> bool" where
  "supported context c \<longleftrightarrow> sc_repository c = Some (cc_repository context)
    \<and> sc_default_branch c = Some (cc_default_branch context)
    \<and> (\<exists>f \<in> set (cc_files context). sf_path f = sc_path c \<and> sc_line_end c \<le> length (split_lines [] (sf_text f))
        \<and> occurs_in (sc_quote c) (excerpt (sf_text f) (sc_line_start c) (sc_line_end c)))"

definition grounded_in :: "code_context list \<Rightarrow> grounded_claim list \<Rightarrow> bool" where
  "grounded_in cs gs \<longleftrightarrow> (\<forall>g \<in> set gs. gc_citations g \<noteq> [] \<and> (\<forall>c \<in> set (gc_citations g). \<exists>context \<in> set cs. supported context c))"

lemma each_Inr: "each f xs = Inr ys \<Longrightarrow> list_all2 (\<lambda>x y. f x = Inr y) xs ys"
  by (induction xs arbitrary: ys) (auto simp: ebind_eq_Inr list_all2_Cons1)

lemma scope_citation_supported:
  assumes "scope_citation cs c = Inr c'"
  shows "\<exists>context \<in> set cs. supported context c'"
proof -
  from assms obtain ctx f where
    "dict_get (dict_of cc_repository cs) (case sc_repository c of None \<Rightarrow> cc_repository (hd cs) | Some r \<Rightarrow> r) = Some ctx"
    "dict_get (dict_of sf_path (cc_files ctx)) (sc_path c) = Some f"
    "sc_line_end c \<le> length (split_lines [] (sf_text f))"
    "occurs_in (sc_quote c) (excerpt (sf_text f) (sc_line_start c) (sc_line_end c))"
    "c' = c\<lparr>sc_repository := Some (case sc_repository c of None \<Rightarrow> cc_repository (hd cs) | Some r \<Rightarrow> r),
      sc_default_branch := Some (cc_default_branch ctx)\<rparr>"
    by (auto simp: scope_citation_def Let_def split: if_splits option.split_asm)
  then show ?thesis
    by (intro bexI [of _ ctx]) (auto simp: supported_def dest!: dict_of_get_Some)
qed

lemma scope_claims_grounded:
  assumes "scope_claims cs gs = Inr gs'" "list_all claim_ok gs"
  shows "grounded_in cs gs'"
proof -
  from assms(1) have "list_all2 (\<lambda>g g'. ebind (each (scope_citation cs) (gc_citations g))
      (\<lambda>cits. Inr (g\<lparr>gc_citations := cits\<rparr>)) = Inr g') gs gs'"
    by (simp add: scope_claims_def each_Inr)
  then have "list_all2 (\<lambda>g g'. list_all2 (\<lambda>c c'. scope_citation cs c = Inr c') (gc_citations g) (gc_citations g')) gs gs'"
    by (rule list_all2_mono) (auto simp: ebind_eq_Inr dest: each_Inr)
  then show ?thesis
    using assms(2) unfolding grounded_in_def
    by (auto simp: list_all2_conv_all_nth list_all_length claim_ok_def in_set_conv_nth)
      (metis length_greater_0_conv list_all2_lengthD list_all2_nthD2 scope_citation_supported)+
qed

subsection \<open>Logged agents\<close>

definition log_call ::
  "string \<Rightarrow> (model_request \<Rightarrow> 'x \<Rightarrow> model_response option \<times> 'x) \<Rightarrow>
    model_request \<Rightarrow> 'x \<times> model_call list \<Rightarrow> model_response option \<times> 'x \<times> model_call list"
where
  "log_call family f q s = (case f q (fst s) of (a, x) \<Rightarrow> (a, x, snd s @ [(family, q, a)]))"

definition logged_party :: "'x model_party \<Rightarrow> ('x \<times> model_call list) model_party" where
  "logged_party p = \<lparr>py_complete = log_call (py_family p) (py_complete p), py_provider = py_provider p,
     py_model = py_model p, py_family = py_family p\<rparr>"

definition logged_grounded :: "'x grounded_env \<Rightarrow> ('x \<times> model_call list) grounded_env" where
  "logged_grounded gx =
    \<lparr>dx_doer = logged_party (dx_doer gx), dx_reviewer = logged_party (dx_reviewer gx), dx_region = dx_region gx,
     dx_today = with_log (dx_today gx), dx_timer = with_log (dx_timer gx), dx_millis = dx_millis gx,
     dx_uuid = with_log (dx_uuid gx), dx_loads = dx_loads gx, gx_reader = (\<lambda>r q. with_log (gx_reader gx r q)),
     gx_draft = gx_draft gx, gx_review = gx_review gx\<rparr>"

definition logged_business :: "'x business_env \<Rightarrow> ('x \<times> model_call list) business_env" where
  "logged_business bx =
    \<lparr>dx_doer = logged_party (dx_doer bx), dx_reviewer = logged_party (dx_reviewer bx), dx_region = dx_region bx,
     dx_today = with_log (dx_today bx), dx_timer = with_log (dx_timer bx), dx_millis = dx_millis bx,
     dx_uuid = with_log (dx_uuid bx), dx_loads = dx_loads bx, bx_draft = bx_draft bx, bx_review = bx_review bx\<rparr>"

lemma snd_with_log [simp]: "snd (snd (with_log f s)) = snd s"
  by (simp add: with_log_def split: prod.splits)

interpretation gcl: call_log "logged_grounded gx" snd for gx
  by unfold_locales (auto simp: logged_grounded_def logged_party_def log_call_def split: prod.splits)

interpretation bcl: call_log "logged_business bx" snd for bx
  by unfold_locales (auto simp: logged_business_def logged_party_def log_call_def split: prod.splits)

lemma logged_sel [simp]:
  "py_family (dx_doer (logged_grounded gx)) = py_family (dx_doer gx)"
  "py_family (dx_reviewer (logged_grounded gx)) = py_family (dx_reviewer gx)"
  "dx_loads (logged_grounded gx) = dx_loads gx" "gx_draft (logged_grounded gx) = gx_draft gx"
  "gx_review (logged_grounded gx) = gx_review gx" "dx_millis (logged_grounded gx) = dx_millis gx"
  "py_family (dx_doer (logged_business bx)) = py_family (dx_doer bx)"
  "py_family (dx_reviewer (logged_business bx)) = py_family (dx_reviewer bx)"
  "dx_loads (logged_business bx) = dx_loads bx" "bx_draft (logged_business bx) = bx_draft bx"
  "bx_review (logged_business bx) = bx_review bx" "dx_millis (logged_business bx) = dx_millis bx"
  by (simp_all add: logged_grounded_def logged_business_def logged_party_def)

definition grounded_review ::
  "'x grounded_env \<Rightarrow> (string \<times> json) list \<Rightarrow> answer_draft \<Rightarrow> model_call \<Rightarrow> independent_review \<Rightarrow> bool"
where
  "grounded_review gx shared d c v \<longleftrightarrow> mq_prompt (fst (snd c)) = review_prompt shared d
    \<and> (\<exists>a. snd (snd c) = Some a \<and> parse_model_json (dx_loads gx) (gx_review gx) (review_json_ok 12 8) (mp_output a) = Inr v)"

definition business_review ::
  "'x business_env \<Rightarrow> (string \<times> json) list \<Rightarrow> business_draft \<Rightarrow> model_call \<Rightarrow> independent_review \<Rightarrow> bool"
where
  "business_review bx context d c v \<longleftrightarrow> mq_prompt (fst (snd c)) = business_review_prompt context d
    \<and> (\<exists>a. snd (snd c) = Some a \<and> parse_model_json (dx_loads bx) (bx_review bx) (review_json_ok 6 3) (mp_output a) = Inr v)"

lemma call_request_prompt: "mq_prompt (call_request role prompt context) = prompt"
  by (simp add: call_request_def seal_def)

lemma parse_ok: "parse_model_json loads schema ok s = Inr v \<Longrightarrow> ok v"
  by (auto simp: parse_model_json_def split: option.splits if_splits)

definition checked_draft :: "'x grounded_env \<Rightarrow> code_context list \<Rightarrow> string \<Rightarrow> discussion_error + answer_draft" where
  "checked_draft gx cs out = ebind (parse_model_json (dx_loads gx) (gx_draft gx) draft_ok out)
    (\<lambda>d. ebind (scope_claims cs (ad_claims d)) (\<lambda>claims. Inr (d\<lparr>ad_claims := claims\<rparr>)))"

lemma checked_draft_grounded: "checked_draft gx cs out = Inr d \<Longrightarrow> grounded_in cs (ad_claims d)"
  by (auto simp: checked_draft_def draft_ok_def dest!: parse_ok intro: scope_claims_grounded)

lemma spure_ebind: "spure (ebind r f) = sbind (spure r) (\<lambda>v. spure (f v))"
  by (rule ext) (simp add: spure_def sbind_def ebind_def split: sum.splits)

lemma spure_Inr_sbind: "sbind (spure (Inr v)) f = f v"
  by (rule ext) (simp add: spure_def sbind_def)

lemma grounded_round_checked:
  "grounded_round gx shared cs previous = checked_round gx
    (''architect'', ''grounded_architect_discussion'', architect_prompt shared
      @ (case previous of None \<Rightarrow> [] | Some (d, v) \<Rightarrow> revision_prompt d v))
    (checked_draft gx cs)
    (''independent-review'', ''independent_evidence_review'', review_prompt shared)
    (parse_model_json (dx_loads gx) (gx_review gx) (review_json_ok 12 8)) (contexts_digest cs)"
  by (simp add: grounded_round_def checked_round_def checked_draft_def Let_def spure_ebind sbind_assoc spure_Inr_sbind)

lemma business_round_checked:
  "business_round bx ctx digest previous = checked_round bx
    (''business-analyst'', ''business_analyst_elicitation'', business_analyst_prompt @ newline @ dumps False (JObj ctx)
      @ (case previous of None \<Rightarrow> [] | Some (d, v) \<Rightarrow> business_revision d v))
    (parse_model_json (dx_loads bx) (bx_draft bx) business_draft_ok)
    (''business-review'', ''business_analyst_independent_review'', business_review_prompt ctx)
    (parse_model_json (dx_loads bx) (bx_review bx) (review_json_ok 6 3)) digest"
  by (simp add: business_round_def checked_round_def Let_def)

interpretation grl: review_loop "grounded_round (logged_grounded gx) shared cs" snd
  "py_family (dx_doer gx)" "py_family (dx_reviewer gx)"
  "\<lambda>d. grounded_in cs (ad_claims d)" "grounded_review gx shared" for gx shared cs
  unfolding grounded_round_checked
proof (rule review_loop.intro, goal_cases)
  case 1
  show ?case
    by (rule gcl.checked_round_law [of _ _ _ "\<lambda>d. grounded_in cs (ad_claims d)" _ "grounded_review gx shared" gx,
          unfolded logged_sel(1,2), OF 1])
      (auto dest: checked_draft_grounded simp: grounded_review_def call_request_prompt)
qed

interpretation bal: review_loop "business_round (logged_business bx) ctx digest" snd
  "py_family (dx_doer bx)" "py_family (dx_reviewer bx)"
  business_draft_ok "business_review bx ctx" for bx ctx digest
  unfolding business_round_checked
proof (rule review_loop.intro, goal_cases)
  case 1
  show ?case
    by (rule bcl.checked_round_law [of _ _ _ business_draft_ok _ "business_review bx ctx" bx,
          unfolded logged_sel(7,8), OF 1])
      (auto dest: parse_ok simp: business_review_def call_request_prompt)
qed

end
