(* ===== verification/Discussion_Properties.thy ===== *)
theory Discussion_Properties
  imports Discussion_Inv
begin

text \<open>What a grounded answer promises to the people who asked for it, over every world its agent runs on.\<close>

lemma read_contexts_log: "read_contexts (logged_grounded gx) question rs (x, l) =
    (case read_contexts gx question rs x of (r, y) \<Rightarrow> (r, (y, l)))"
  by (induction rs arbitrary: x)
    (auto simp: logged_grounded_def with_log_def sbind_def port_def split: prod.splits option.splits sum.splits)

lemma wp_read_contexts:
  assumes "snd s = l"
    and "\<And>cs y. snd y = l \<Longrightarrow> (\<exists>x x'. read_contexts gx question rs x = (Inr cs, x')) \<Longrightarrow> Q cs y"
    and "\<And>y. snd y = l \<Longrightarrow> E y"
  shows "wp (read_contexts (logged_grounded gx) question rs) Q E s"
proof (cases "read_contexts gx question rs (fst s)")
  case (Pair r y)
  have "read_contexts (logged_grounded gx) question rs s = (r, y, l)"
    using Pair assms(1) read_contexts_log [of gx question rs "fst s" "snd s"] by (cases s) simp
  then show ?thesis using Pair assms(2) [of "(y, l)"] assms(3) [of "(y, l)"] by (auto simp: wp_def split: sum.splits)
qed

lemma grounded_result_claims:
  "gd_repositories (grounded_result u selected cs runs ms a v) = selected"
  "gd_context_digest (grounded_result u selected cs runs ms a v) = contexts_digest cs"
  "gd_model_runs (grounded_result u selected cs runs ms a v) = runs"
  "gd_claims (grounded_result u selected cs runs ms None v) = []"
  "\<not> gd_answered (grounded_result u selected cs runs ms None v)"
  "gd_claims (grounded_result u selected cs runs ms (Some d) v) = ad_claims d"
  "gd_summary (grounded_result u selected cs runs ms (Some d) v) = ad_summary d"
  by (simp_all add: grounded_result_def Let_def split: option.split)

definition answer_law ::
  "'x grounded_env \<Rightarrow> string \<Rightarrow> conversation_turn list \<Rightarrow> model_call list \<Rightarrow> grounded_discussion_result \<Rightarrow> bool"
where
  "answer_law gx question history calls r \<longleftrightarrow>
    (\<exists>cs k. (\<exists>x x'. read_contexts gx question (gd_repositories r) x = (Inr cs, x'))
      \<and> map cc_repository cs = gd_repositories r \<and> gd_context_digest r = contexts_digest cs
      \<and> grounded_in cs (gd_claims r)
      \<and> k \<le> 3 \<and> map fst calls = concat (replicate k [py_family (dx_doer gx), py_family (dx_reviewer gx)])
      \<and> list_all2 logged_run calls (gd_model_runs r)
      \<and> (gd_answered r \<or> gd_claims r \<noteq> [] \<longrightarrow> 0 < k \<and> (\<exists>d v. ad_claims d = gd_claims r \<and> ad_summary d = gd_summary r
            \<and> accepts v
            \<and> grounded_review gx (shared_context (gd_repositories r) question history cs) d (last calls) v)))"

lemma answer_law_result:
  assumes post: "grl.loop_post gx cs (shared_context selected question history cs) [] [] 3 ((a, v), runs) s"
    and cs: "map cc_repository cs = selected" "\<exists>x x'. read_contexts gx question selected x = (Inr cs, x')"
  shows "answer_law gx question history (snd s) (grounded_result u selected cs runs ms a v)"
proof -
  from post obtain k where k: "k \<le> 3" "map fst (snd s) = concat (replicate k [py_family (dx_doer gx), py_family (dx_reviewer gx)])"
      "list_all2 logged_run (snd s) runs"
      "case a of None \<Rightarrow> k = 3 | Some d \<Rightarrow> 0 < k \<and> grounded_in cs (ad_claims d)
        \<and> (\<exists>v. accepts v \<and> grounded_review gx (shared_context selected question history cs) d (last (snd s)) v)"
    unfolding grl.loop_post_def by auto
  show ?thesis
    unfolding answer_law_def grounded_result_claims
    by (rule exI [of _ cs], rule exI [of _ k])
      (use k cs in \<open>cases a; auto simp: grounded_result_claims grounded_in_def\<close>)
qed

lemma log_bound: "grl.loop_post gx cs shared [] [] 3 out s \<Longrightarrow> length (snd s) \<le> 6"
  by (auto simp: grl.loop_post_def length_concat sum_list_replicate dest!: arg_cong [of "map fst _" _ length])

lemma grounded_tail_law:
  assumes post: "grl.loop_post gx cs (shared_context selected question history cs) [] [] 3 out s"
    and cs: "map cc_repository cs = selected" "\<exists>x x'. read_contexts gx question selected x = (Inr cs, x')"
  shows "wp ((\<lambda>((accepted, rejected), runs).
      sbind (scall (dx_timer (logged_grounded gx))) (\<lambda>ended.
      sbind (scall (dx_uuid (logged_grounded gx))) (\<lambda>u.
      let r = grounded_result u selected cs runs (nat (max 0 (dx_millis (logged_grounded gx) started ended))) accepted rejected in
      sbind (guard (result_ok r) Invalid_Record) (\<lambda>_. sreturn r)))) out)
    (\<lambda>r s. result_ok r \<and> length (snd s) \<le> 6 \<and> answer_law gx question history (snd s) r) (\<lambda>s. length (snd s) \<le> 6) s"
  using log_bound [OF post] answer_law_result [OF _ cs] post
  by (cases out; cases "fst out") (auto simp: Let_def gcl.quiet)

lemma grounded_answer_law:
  "wp (grounded_answer (logged_grounded gx) repository repositories question history)
    (\<lambda>r s. result_ok r \<and> length (snd s) \<le> 6 \<and> answer_law gx question history (snd s) r) (\<lambda>s. length (snd s) \<le> 6) (x, [])"
  unfolding grounded_answer_def wp_sbind wp_scall
  apply (simp only: wp_guard split: if_split)
  apply (intro conjI impI)
   apply (rule wp_spureI)
    apply (rule wp_read_contexts [where l = "[]"])
      apply (simp add: logged_grounded_def)
     apply (simp only: wp_guard split: if_split)
     apply (intro conjI impI)
       apply (rule wp_mono [OF grl.rounds_law])
         apply assumption
        apply (rule grounded_tail_law)
          apply (simp only: max_doer_review_rounds_def)
         apply assumption+
       apply (auto simp: max_doer_review_rounds_def)
  done

subsection \<open>The log changes nothing\<close>

definition erases :: "('x \<times> 'l, 'e, 'a) eff \<Rightarrow> ('x, 'e, 'a) eff \<Rightarrow> bool" where
  "erases m m' \<longleftrightarrow> (\<forall>s. m' (fst s) = (fst (m s), fst (snd (m s))))"

named_theorems erasing

lemma erases_sbind [erasing]: "erases m m' \<Longrightarrow> (\<And>v. erases (f v) (f' v)) \<Longrightarrow> erases (sbind m f) (sbind m' f')"
  unfolding erases_def sbind_def by (auto split: prod.splits sum.splits)

lemma erases_pure [erasing]: "erases (sreturn v) (sreturn v)" "erases (sraise e) (sraise e)" "erases (spure r) (spure r)"
  "erases (guard b e) (guard b e)"
  by (simp_all add: erases_def guard_def)

lemma erases_scatch [erasing]: "erases m m' \<Longrightarrow> erases (scatch m h) (scatch m' h)"
  by (auto simp: erases_def scatch_def split: prod.splits sum.splits)

lemma erases_case [erasing]:
  "(\<And>a b. erases (f a b) (f' a b)) \<Longrightarrow> erases (case_prod f p) (case_prod f' p)"
  "erases m m' \<Longrightarrow> (\<And>v. erases (g v) (g' v)) \<Longrightarrow> erases (case_option m g out) (case_option m' g' out)"
  "(\<And>a b c. erases (h a b c) (h' a b c)) \<Longrightarrow> erases (case_prod h q r) (case_prod h' q r)"
  "erases m m' \<Longrightarrow> erases k k' \<Longrightarrow> erases (if b then m else k) (if b then m' else k')"
  by (auto split: prod.splits option.splits)

lemma erases_logged [erasing]:
  "erases (scall (dx_timer (logged_grounded gx))) (scall (dx_timer gx))"
  "erases (scall (dx_uuid (logged_grounded gx))) (scall (dx_uuid gx))"
  "erases (scall (dx_today (logged_grounded gx))) (scall (dx_today gx))"
  "erases (port (gx_reader (logged_grounded gx) r q)) (port (gx_reader gx r q))"
  "erases (port (py_complete (dx_doer (logged_grounded gx)) request)) (port (py_complete (dx_doer gx) request))"
  "erases (port (py_complete (dx_reviewer (logged_grounded gx)) request)) (port (py_complete (dx_reviewer gx) request))"
  by (auto simp: erases_def logged_grounded_def logged_party_def log_call_def with_log_def scall_def port_def
      split: prod.splits option.splits)

lemma logged_parties [simp]:
  "py_provider (dx_doer (logged_grounded gx)) = py_provider (dx_doer gx)"
  "py_model (dx_doer (logged_grounded gx)) = py_model (dx_doer gx)"
  "py_provider (dx_reviewer (logged_grounded gx)) = py_provider (dx_reviewer gx)"
  "py_model (dx_reviewer (logged_grounded gx)) = py_model (dx_reviewer gx)"
  "dx_region (logged_grounded gx) = dx_region gx"
  "as_configured (dx_doer (logged_grounded gx)) = as_configured (dx_doer gx)"
  "as_configured (dx_reviewer (logged_grounded gx)) = as_configured (dx_reviewer gx)"
  by (simp_all add: logged_grounded_def logged_party_def as_configured_def fun_eq_iff)

lemma erases_invoke [erasing]:
  "erases (invoke (logged_grounded gx) (dx_doer (logged_grounded gx)) stage role prompt ctx)
    (invoke gx (dx_doer gx) stage role prompt ctx)"
  "erases (invoke (logged_grounded gx) (dx_reviewer (logged_grounded gx)) stage role prompt ctx)
    (invoke gx (dx_reviewer gx) stage role prompt ctx)"
  unfolding invoke_def run_cost_of_def Let_def logged_parties logged_sel by (intro erasing)+

lemma erases_round: "erases (grounded_round (logged_grounded gx) shared cs previous) (grounded_round gx shared cs previous)"
  unfolding grounded_round_def Let_def logged_sel by (intro erasing)

lemma erases_rounds [erasing]:
  "(\<And>p. erases (step p) (step' p)) \<Longrightarrow> erases (review_rounds step n previous runs) (review_rounds step' n previous runs)"
  by (induction n arbitrary: previous runs) (auto intro!: erasing)

lemma erases_contexts: "erases (read_contexts (logged_grounded gx) question rs) (read_contexts gx question rs)"
  by (induction rs) (simp_all add: erasing del: sreturn_apply)

lemma source_ceiling_logged: "source_ceiling (logged_grounded gx) = source_ceiling gx"
  by (simp add: source_ceiling_def)

lemma erases_answer:
  "erases (grounded_answer (logged_grounded gx) repository repositories question history)
    (grounded_answer gx repository repositories question history)"
  unfolding grounded_answer_def Let_def logged_sel source_ceiling_logged
  by (intro erasing erases_contexts erases_round)

lemma last_two: "0 < k \<Longrightarrow> map fst xs = concat (replicate k [a, b]) \<Longrightarrow> fst (last xs) = b \<and> fst (last (butlast xs)) = a"
proof (induction k arbitrary: xs)
  case (Suc k)
  then obtain x y zs where xs: "xs = x # y # zs" "fst x = a" "fst y = b" "map fst zs = concat (replicate k [a, b])"
    by (auto simp: map_eq_Cons_conv)
  then show ?case using Suc.IH [of zs] by (cases k) (auto simp: map_eq_Cons_conv)
qed simp

lemma answer_law_families:
  assumes "answer_law gx question history calls r" "gd_claims r \<noteq> []"
  shows "fst (last calls) = py_family (dx_reviewer gx)" "fst (last (butlast calls)) = py_family (dx_doer gx)"
proof -
  from assms obtain k where "0 < k" "map fst calls = concat (replicate k [py_family (dx_doer gx), py_family (dx_reviewer gx)])"
    unfolding answer_law_def by blast
  then show "fst (last calls) = py_family (dx_reviewer gx)" "fst (last (butlast calls)) = py_family (dx_doer gx)"
    by (simp_all only: last_two)
qed

subsection \<open>An answer\<close>

text \<open>A bound on a document's length that is computed from its texts' lengths alone.\<close>

fun json_width :: "json \<Rightarrow> nat" where
  "json_width JNull = 4"
| "json_width (JBool b) = 5"
| "json_width (JInt i) = length (show_int i)"
| "json_width (JStr s) = 6 * length s + 2"
| "json_width (JArr vs) = 2 + sum_list (map (\<lambda>v. 1 + json_width v) vs)"
| "json_width (JObj kvs) = 2 + sum_list (map (\<lambda>(k, v). 6 * length k + 4 + json_width v) kvs)"

lemma length_json_quote: "length (json_quote a s) \<le> 6 * length s + 2"
proof -
  have "length (json_escape a c) \<le> 6" for c
    by (simp add: json_escape_def Let_def hex_pad_shape del: hex_pad.simps split: option.split)
  then have "length (concat (map (json_escape a) s)) \<le> 6 * length s"
    by (induction s) (auto intro: add_mono)
  then show ?thesis by (simp add: json_quote_def)
qed

lemma length_json_items: "length (json_items c ps) \<le> 1 + sum_list (map (\<lambda>p. 1 + length p) ps)"
  by (induction c ps rule: json_items.induct) auto

lemma length_jprint: "length (jprint a v) \<le> json_width v"
proof (induction v)
  case (JStr s)
  then show ?case using length_json_quote by simp
next
  case (JArr vs)
  have "sum_list (map (\<lambda>p. 1 + length p) (map (jprint a) vs)) \<le> sum_list (map (\<lambda>v. 1 + json_width v) vs)"
    using JArr.IH by (induction vs) (auto intro: add_mono)
  then show ?case using length_json_items [of "CHR '']''" "map (jprint a) vs"] by simp
next
  case (JObj kvs)
  let ?p = "\<lambda>(k, v). json_quote a k @ CHR '':'' # jprint a v"
  have "1 + length (?p kv) \<le> (case kv of (k, v) \<Rightarrow> 6 * length k + 4 + json_width v)" if "kv \<in> set kvs" for kv
  proof (cases kv)
    case (Pair k v)
    then have "length (jprint a v) \<le> json_width v" using JObj.IH that by (force simp: snds.intros)
    then show ?thesis using Pair length_json_quote [of a k] by simp
  qed
  then have "sum_list (map (\<lambda>p. 1 + length p) (map ?p kvs)) \<le> sum_list (map (\<lambda>(k, v). 6 * length k + 4 + json_width v) kvs)"
    unfolding map_map by (intro sum_list_mono) simp
  then show ?case using length_json_items [of "CHR ''}''" "map ?p kvs"] by simp
qed auto

lemma sum_list_sort_key: "sum_list (map f (sort_key g xs)) = (sum_list (map f xs) :: nat)"
  by (metis mset_map mset_sort sum_mset_sum_list)

lemma json_width_canon: "json_width (canon v) = json_width v"
proof (induction v)
  case (JArr vs)
  then show ?case by (induction vs) auto
next
  case (JObj kvs)
  have "sum_list (map (\<lambda>(k, v). 6 * length k + 4 + json_width v) (map (\<lambda>(k, v). (k, canon v)) kvs)) =
      sum_list (map (\<lambda>(k, v). 6 * length k + 4 + json_width v) kvs)"
    using JObj.IH by (induction kvs) fastforce+
  then show ?case by (simp add: sum_list_sort_key)
qed auto

lemma length_dumps: "length (dumps a v) \<le> json_width v"
  by (metis dumps_def length_jprint json_width_canon)

lemma length_utf8: "length (utf8 s) \<le> 2 * length s"
  by (induction s) (auto simp: utf8_def utf8_char_def Let_def)

definition toy_digest :: string where
  "toy_digest = ''sha256:'' @ replicate 64 (CHR ''a'')"

definition toy_party :: "string \<Rightarrow> unit model_party" where
  "toy_party family = \<lparr>py_complete = (\<lambda>q x. (Some \<lparr>mp_status = MODEL_COMPLETED, mp_model = ''m'', mp_family = family,
      mp_output = ''{}'', mp_execution_id = None, mp_usage = None\<rparr>, x)),
    py_provider = ''local'', py_model = ''m'', py_family = family\<rparr>"

definition toy_context :: code_context where
  "toy_context = \<lparr>cc_repository = ''acme/shop'', cc_default_branch = ''main'', cc_tree_sha = ''t'', cc_digest = toy_digest,
    cc_files = [\<lparr>sf_path = ''pay.py'', sf_blob_sha = ''b'', sf_content_digest = toy_digest,
      sf_text = ''def pay():'' @ newline @ ''  return 1'' @ newline\<rparr>]\<rparr>"

definition toy_draft :: answer_draft where
  "toy_draft = \<lparr>ad_summary = ''It returns one.'',
    ad_claims = [\<lparr>gc_statement = ''pay returns 1'', gc_citations = [\<lparr>sc_repository = Some ''acme/shop'',
      sc_default_branch = None, sc_path = ''pay.py'', sc_line_start = 2, sc_line_end = 2, sc_quote = ''return 1''\<rparr>]\<rparr>], ad_open_questions = []\<rparr>"

definition toy_env :: "unit grounded_env" where
  "toy_env = \<lparr>dx_doer = toy_party ''alpha'', dx_reviewer = toy_party ''beta'', dx_region = ''r'',
    dx_today = (\<lambda>x. (Date 2026 1 1, x)), dx_timer = (\<lambda>x. (0, x)),
    dx_millis = (\<lambda>a b. b - a), dx_uuid = (\<lambda>x. (replicate 36 (CHR ''0''), x)), dx_loads = (\<lambda>_. Some JNull),
    gx_reader = (\<lambda>r q x. (Some toy_context, x)), gx_draft = (\<lambda>_. Some toy_draft),
    gx_review = (\<lambda>_. Some \<lparr>ir_supported = True, ir_issues = [], ir_open_questions = []\<rparr>)\<rparr>"

definition toy_answer :: "string \<Rightarrow> model_response" where
  "toy_answer family = \<lparr>mp_status = MODEL_COMPLETED, mp_model = ''m'', mp_family = family, mp_output = ''{}'',
    mp_execution_id = None, mp_usage = None\<rparr>"

definition toy_run :: "string \<Rightarrow> string \<Rightarrow> string \<Rightarrow> string \<Rightarrow> model_run_telemetry" where
  "toy_run family stage role prompt = \<lparr>run_stage = stage, run_provider = ''local'', run_model = ''m'', run_family = family,
    run_execution_id = None, run_request_digest = content_digest (call_request role prompt toy_digest),
    run_response_digest = text_digest ''{}'', run_latency_ms = 0, run_usage = None, run_cost = None\<rparr>"

lemma text_digest_ok: "digest_ok (text_digest s)"
  by (simp add: digest_ok_def text_digest_def sha256_hex_shape)

lemma toy_digest_ok: "digest_ok toy_digest"
  by code_simp

lemma toy_limits: "limits_of ''local'' ''m'' = None"
  by (simp add: limits_of_def context_limits_table_def dict_get_def)

lemma toy_run_ok:
  assumes "stage \<in> set run_stages" "family \<noteq> []" "length family \<le> 200"
  shows "valid_run (toy_run family stage role prompt)"
  using assms by (simp add: valid_run_def toy_run_def text_digest_ok call_request_def mrq.seal_digest)

lemma toy_invoke:
  assumes "length (utf8 prompt) \<le> 1048576" "text_ok prompt" "identifier_ok role" "stage \<in> set run_stages"
    and "family \<noteq> []" "length family \<le> 200"
  shows "invoke (logged_grounded toy_env) (logged_party (toy_party family)) stage role prompt toy_digest s =
    (Inr (toy_answer family, toy_run family stage role prompt),
     (fst s, snd s @ [(family, call_request role prompt toy_digest, Some (toy_answer family))]))"
proof -
  have req: "model_request_ok (call_request role prompt toy_digest)"
    using assms(2,3) toy_digest_ok by (simp add: model_request_ok_def call_request_def seal_def)
  have run: "valid_run (toy_run family stage role prompt)"
    by (rule toy_run_ok) (use assms in auto)
  show ?thesis
    using assms(1) req run
    by (simp add: invoke_def Let_def call_request_def [symmetric] guard_def sbind_def scall_def port_def log_call_def
        logged_party_def toy_party_def logged_grounded_def toy_env_def with_log_def as_configured_def run_cost_of_def
        prompt_ceiling_def toy_limits max_prompt_bytes_def toy_run_def toy_answer_def strip_def py_space_def)
qed

definition toy_shared :: "(string \<times> json) list" where
  "toy_shared = shared_context [''acme/shop''] ''What does pay do?'' [] [toy_context]"

definition toy_scoped :: answer_draft where
  "toy_scoped = toy_draft\<lparr>ad_claims := [\<lparr>gc_statement = ''pay returns 1'', gc_citations = [\<lparr>sc_repository = Some ''acme/shop'',
      sc_default_branch = Some ''main'', sc_path = ''pay.py'', sc_line_start = 2, sc_line_end = 2,
      sc_quote = ''return 1''\<rparr>]\<rparr>]\<rparr>"

lemmas toy_sizes = toy_shared_def shared_context_def context_json_def evidence_json_def toy_context_def toy_digest_def
  json_list_def json_strings_def newline_def toy_scoped_def toy_draft_def draft_json_def claim_json_def citation_json_def
  optional_field_def json_nat_def show_int_def show_nat.simps

lemma toy_prompts:
  "length (utf8 (architect_prompt toy_shared)) \<le> 1048576"
  "length (utf8 (review_prompt toy_shared toy_scoped)) \<le> 1048576"
proof -
  have "json_width (JObj toy_shared) \<le> 9000" by (simp add: toy_sizes)
  then have "length (architect_prompt toy_shared) \<le> 10000"
    using length_dumps [of False "JObj toy_shared"] by (simp add: architect_prompt_def newline_def)
  then show "length (utf8 (architect_prompt toy_shared)) \<le> 1048576"
    using length_utf8 [of "architect_prompt toy_shared"] by simp
  have "json_width (JObj (toy_shared @ [(''draft'', draft_json toy_scoped)])) \<le> 19000" by (simp add: toy_sizes)
  then have "length (review_prompt toy_shared toy_scoped) \<le> 20000"
    using length_dumps [of False "JObj (toy_shared @ [(''draft'', draft_json toy_scoped)])"]
    by (simp add: review_prompt_def newline_def)
  then show "length (utf8 (review_prompt toy_shared toy_scoped)) \<le> 1048576"
    using length_utf8 [of "review_prompt toy_shared toy_scoped"] by simp
qed

lemma text_ok_Cons: "\<not> py_space c \<Longrightarrow> text_ok (c # s)"
  by (simp add: text_ok_def nonblank_def strip_nonempty)

lemma prompt_text: "text_ok (architect_prompt shared)" "text_ok (review_prompt shared d)"
  unfolding architect_prompt_def review_prompt_def append_Cons by (rule text_ok_Cons, simp add: py_space_def)+

lemma toy_select: "select_repositories (Some ''acme/shop'') [] = Inr [''acme/shop'']"
  by (simp add: select_repositories_def require_all.simps owner_name_def)

lemma toy_question: "question_ok ''What does pay do?'' []"
  by (simp add: question_ok_def strip_nonempty py_space_def)

lemma toy_scope: "scope_claims [toy_context] (ad_claims toy_draft) = Inr (ad_claims toy_scoped)"
  by code_simp

lemma toy_bytes: "source_bytes [toy_context] \<le> 128000"
  by (simp add: source_bytes_def toy_context_def utf8_def utf8_char_def newline_def)

lemma toy_draft_ok: "draft_ok toy_draft" "list_all claim_ok (ad_claims toy_scoped)"
  by (simp_all add: draft_ok_def toy_draft_def toy_scoped_def claim_ok_def citation_ok_def repository_ok_def)

definition toy_calls :: "model_call list" where
  "toy_calls =
    [(''alpha'', call_request ''grounded_architect_discussion'' (architect_prompt toy_shared) toy_digest, Some (toy_answer ''alpha'')),
     (''beta'', call_request ''independent_evidence_review'' (review_prompt toy_shared toy_scoped) toy_digest,
      Some (toy_answer ''beta''))]"

definition toy_runs :: "model_run_telemetry list" where
  "toy_runs = [toy_run ''alpha'' ''architect'' ''grounded_architect_discussion'' (architect_prompt toy_shared),
     toy_run ''beta'' ''independent-review'' ''independent_evidence_review'' (review_prompt toy_shared toy_scoped)]"

definition toy_result :: grounded_discussion_result where
  "toy_result = grounded_result (replicate 36 (CHR ''0'')) [''acme/shop''] [toy_context] toy_runs 0 (Some toy_scoped) None"

lemma toy_round:
  "grounded_round (logged_grounded toy_env) toy_shared [toy_context] None ((), []) =
    (Inr (toy_scoped, toy_scoped, \<lparr>ir_supported = True, ir_issues = [], ir_open_questions = []\<rparr>, toy_runs), ((), toy_calls))"
proof -
  have parties: "dx_doer (logged_grounded toy_env) = logged_party (toy_party ''alpha'')"
    "dx_reviewer (logged_grounded toy_env) = logged_party (toy_party ''beta'')"
    by (simp_all add: logged_grounded_def toy_env_def)
  have loads: "dx_loads toy_env t = Some JNull" "gx_draft toy_env j = Some toy_draft"
    "gx_review toy_env j = Some \<lparr>ir_supported = True, ir_issues = [], ir_open_questions = []\<rparr>" for t j
    by (simp_all add: toy_env_def)
  have digest: "contexts_digest [toy_context] = toy_digest"
    by (simp add: contexts_digest_def toy_context_def)
  have scoped: "toy_draft\<lparr>ad_claims := ad_claims toy_scoped\<rparr> = toy_scoped"
    by (simp add: toy_scoped_def)
  show ?thesis
    by (simp add: grounded_round_def Let_def parties digest sbind_def toy_invoke toy_prompts prompt_text loads scoped
        toy_scope parse_model_json_def toy_draft_ok review_json_ok_def toy_runs_def toy_calls_def
        identifier_ok_def run_stages_def identifier_char_def ascii_lower_def)
qed

lemma toy_world:
  "dx_timer (logged_grounded toy_env) s = (0, s)" "dx_uuid (logged_grounded toy_env) s = (replicate 36 (CHR ''0''), s)"
  "gx_reader (logged_grounded toy_env) r q s = (Some toy_context, s)" "dx_millis toy_env a b = b - a"
  "py_provider (dx_doer toy_env) = ''local''" "py_model (dx_doer toy_env) = ''m''"
  "cc_repository toy_context = ''acme/shop''"
  by (simp_all add: logged_grounded_def toy_env_def with_log_def toy_party_def toy_context_def prod_eq_iff)

lemma toy_result_ok: "result_ok toy_result"
proof -
  have "model_runs_ok toy_runs"
    by (simp add: model_runs_ok_def toy_runs_def toy_run_ok run_stages_def max_model_calls_per_turn_def
        max_doer_review_rounds_def)
  moreover have "digest_ok (contexts_digest [toy_context])"
    using toy_digest_ok by (simp add: contexts_digest_def toy_context_def)
  ultimately show ?thesis
    using toy_draft_ok(2)
    by (simp add: result_ok_def toy_result_def grounded_result_def toy_scoped_def toy_draft_def toy_context_def
        list_all_iff lower_hex_def ascii_digit_def)
qed

lemma toy_answers:
  "grounded_answer (logged_grounded toy_env) (Some ''acme/shop'') [] ''What does pay do?'' [] ((), []) =
    (Inr toy_result, ((), toy_calls))"
  using toy_result_ok
  by (simp add: grounded_answer_def toy_select toy_question toy_bytes sbind_def guard_def source_ceiling_def toy_limits
      scall_def port_def toy_world toy_shared_def [symmetric] toy_round max_doer_review_rounds_def numeral_3_eq_3
      accepts_def toy_result_def)

subsection \<open>The property\<close>

text \<open>
  C40. A grounded answer is grounded: whatever the models, the repository reader and the clocks do, the agent makes
  at most six model calls, and when it answers, every claim of the answer carries citations whose quotes occur in the
  cited lines of a file that the reader returned for a selected repository; the recorded model runs are exactly the
  calls made, alternating between the doer and the reviewer; and an answer with claims was accepted by the last call,
  made on a different model family than the draft's, whose prompt carried that very draft. The log of calls is an
  observer: erased, it leaves the agent's own run.
\<close>

theorem answers_are_grounded:
  assumes "grounded_answer (logged_grounded gx) repository repositories question history (x, []) = (res, (y, calls))"
    and "parties_ok (dx_doer gx) (dx_reviewer gx)"
  shows "grounded_answer gx repository repositories question history x = (res, y) \<and> length calls \<le> 6
    \<and> (case res of Inl e \<Rightarrow> True | Inr r \<Rightarrow>
         result_ok r \<and> answer_law gx question history calls r
         \<and> (gd_claims r \<noteq> [] \<longrightarrow> fst (last calls) \<noteq> fst (last (butlast calls))))"
proof (intro conjI)
  show "grounded_answer gx repository repositories question history x = (res, y)"
    using erases_answer [of gx repository repositories question history] assms(1)
    by (auto simp: erases_def dest!: spec [of _ "(x, [])"])
  note law = wpD [OF grounded_answer_law assms(1)]
  show "length calls \<le> 6" using law by (auto split: sum.splits)
  show "case res of Inl e \<Rightarrow> True | Inr r \<Rightarrow> result_ok r \<and> answer_law gx question history calls r
      \<and> (gd_claims r \<noteq> [] \<longrightarrow> fst (last calls) \<noteq> fst (last (butlast calls)))"
  proof (cases res)
    case (Inr r)
    with law have r: "result_ok r" "answer_law gx question history calls r" by auto
    then have "fst (last calls) \<noteq> fst (last (butlast calls))" if "gd_claims r \<noteq> []"
      using answer_law_families [OF r(2) that] assms(2) by (auto simp: parties_ok_def)
    with r Inr show ?thesis by simp
  qed simp
qed

theorem answers_are_grounded_witness:
  "grounded_answer toy_env (Some ''acme/shop'') [] ''What does pay do?'' [] () = (Inr toy_result, ())
    \<and> gd_claims toy_result \<noteq> [] \<and> answer_law toy_env ''What does pay do?'' [] toy_calls toy_result"
proof -
  have "parties_ok (dx_doer toy_env) (dx_reviewer toy_env)"
    by (simp add: parties_ok_def toy_env_def toy_party_def strip_nonempty py_space_def)
  from answers_are_grounded [OF toy_answers this] show ?thesis
    by (simp add: toy_result_def grounded_result_def toy_scoped_def)
qed

end
