(* ===== verification/Impact.thy ===== *)
theory Impact
  imports Py_Text
begin

text \<open>
  \<^verbatim>\<open>policy/impact.py\<close>: which classes of impact a diff has, and which evidence they invalidate.

  The sets of Python are sets here. A registry's patterns are compiled expressions of \<^typ>\<open>rx\<close>, its path patterns
  globs without brackets.
\<close>

subsection \<open>Classes and evidence\<close>

datatype impact_class =
    INTERFACE_SURFACE | SECURITY_SENSITIVE | AUTHZ_CHANGED | PII_DATAFLOW_CHANGED | PERSISTENCE_SEMANTICS
  | NEW_EGRESS_OR_STORE | DB_MIGRATION | IAC_CHANGED | NEW_DEPENDENCY | ORDINARY_IMPLEMENTATION | COSMETIC
  | UNCLASSIFIABLE

datatype evidence_kind =
    CONTRACT_TESTS | ACCEPTANCE_TESTS | UNIT_TESTS | SECURITY_REVIEW | PRIVACY_REVIEW | GATE_2_APPROVAL
  | ROLLBACK_STRATEGY | POLICY_GATE | LICENSE_SCAN | SBOM

definition all_evidence :: "evidence_kind set" where
  "all_evidence = {CONTRACT_TESTS, ACCEPTANCE_TESTS, UNIT_TESTS, SECURITY_REVIEW, PRIVACY_REVIEW, GATE_2_APPROVAL,
     ROLLBACK_STRATEGY, POLICY_GATE, LICENSE_SCAN, SBOM}"

fun invalidates :: "impact_class \<Rightarrow> evidence_kind set" where
  "invalidates INTERFACE_SURFACE = {CONTRACT_TESTS, GATE_2_APPROVAL, SECURITY_REVIEW}"
| "invalidates SECURITY_SENSITIVE = {SECURITY_REVIEW, GATE_2_APPROVAL, ACCEPTANCE_TESTS, UNIT_TESTS}"
| "invalidates AUTHZ_CHANGED = {SECURITY_REVIEW, GATE_2_APPROVAL, ACCEPTANCE_TESTS, CONTRACT_TESTS}"
| "invalidates PII_DATAFLOW_CHANGED = {SECURITY_REVIEW, PRIVACY_REVIEW, GATE_2_APPROVAL}"
| "invalidates PERSISTENCE_SEMANTICS = {GATE_2_APPROVAL, ROLLBACK_STRATEGY, SECURITY_REVIEW}"
| "invalidates NEW_EGRESS_OR_STORE = {GATE_2_APPROVAL, SECURITY_REVIEW}"
| "invalidates DB_MIGRATION = {GATE_2_APPROVAL, ROLLBACK_STRATEGY, SECURITY_REVIEW}"
| "invalidates IAC_CHANGED = {GATE_2_APPROVAL, POLICY_GATE}"
| "invalidates NEW_DEPENDENCY = {LICENSE_SCAN, SBOM, GATE_2_APPROVAL}"
| "invalidates ORDINARY_IMPLEMENTATION = {ACCEPTANCE_TESTS, UNIT_TESTS}"
| "invalidates COSMETIC = {}"
| "invalidates UNCLASSIFIABLE = all_evidence"

subsection \<open>Line comments\<close>

definition line_comments :: "(string \<times> string list) list" where
  "line_comments =
    map (\<lambda>s. (s, [''#''])) [''.py'', ''.rb'', ''.yaml'', ''.yml'', ''.toml'']
    @ map (\<lambda>s. (s, [''//''])) [''.ts'', ''.tsx'', ''.js'', ''.jsx'', ''.java'', ''.go'', ''.cs'']
    @ [(''.tf'', [''#'', ''//''])]"

definition rx_blanks :: rx where
  "rx_blanks = Many (Chr (\<lambda>c. c = CHR '' '' \<or> c = CHR 0x09))"

definition go_directive :: rx where
  "go_directive = rx_seq [rx_lit ''//'', rx_any
     [rx_lit ''go:'', rx_seq [rx_spaces, rx_lit ''+build'', rx_any [Chr py_space, At_End]]]]"

definition py_directive :: rx where
  "py_directive = rx_seq [rx_lit ''#'', rx_any
     [rx_lit ''!'',
      rx_seq [rx_blanks, rx_any
        [rx_lit ''type:'',
         rx_seq [rx_any (map rx_lit [''mypy'', ''pyright'', ''ruff'', ''flake8'', ''pylint'']), rx_blanks, rx_lit '':''],
         rx_seq [rx_lit_i ''noqa'', Bound]]],
      rx_seq [rx_dots, rx_lit ''coding'', Chr (\<lambda>c. c = CHR '':'' \<or> c = CHR ''='')]]]"

definition rx_dash :: rx where
  "rx_dash = Chr (\<lambda>c. c = CHR ''_'' \<or> c = CHR ''-'')"

definition rb_directive :: rx where
  "rb_directive = rx_seq [rx_lit ''#'', rx_any
     [rx_seq [rx_spaces, rx_lit ''!''],
      rx_seq [rx_dots, rx_any
        [rx_lit_i ''coding'', rx_seq [rx_lit_i ''frozen'', rx_dash, rx_lit_i ''string'', rx_dash, rx_lit_i ''literal''],
         rx_seq [rx_lit_i ''warn'', rx_dash, rx_lit_i ''indent''],
         rx_seq [rx_lit_i ''shareable'', rx_dash, rx_lit_i ''constant'', rx_dash, rx_lit_i ''value''],
         rx_lit_i ''rubocop'']]]]"

definition js_directive :: rx where
  "js_directive = rx_seq [rx_lit ''//'', rx_dots, rx_any [rx_lit ''@'', rx_lit ''eslint-'']]"

definition comment_directives :: "(string \<times> rx) list" where
  "comment_directives = [(''.go'', go_directive), (''.py'', py_directive), (''.rb'', rb_directive)]
     @ map (\<lambda>s. (s, js_directive)) [''.ts'', ''.tsx'', ''.js'', ''.jsx'']"

subsection \<open>The registry\<close>

record registry =
  rg_paths :: "string list"
  rg_patterns :: "(string \<times> rx) list"
  rg_extensions :: "string list"

definition authorization_predicate :: rx where
  "authorization_predicate = rx_word
     [rx_lit_i ''owner'', rx_lit_i ''owns'', rx_seq [rx_lit_i ''can_'', Chr word_char, Many (Chr word_char)],
      rx_seq [rx_lit_i ''may_'', Chr word_char, Many (Chr word_char)], rx_lit_i ''is_allowed'', rx_lit_i ''allowed'',
      rx_lit_i ''has_permission'', rx_lit_i ''permission'', rx_lit_i ''permitted'',
      rx_seq [rx_lit_i ''authoriz'', Many (Chr word_char)], rx_lit_i ''forbidden'', rx_lit_i ''denied'',
      rx_lit_i ''acl'', rx_lit_i ''rbac'', rx_lit_i ''role'', rx_lit_i ''current_user'', rx_lit_i ''principal'',
      rx_lit_i ''subject_id'']"

definition sql_construction :: rx where
  "sql_construction = rx_seq
     [rx_any (map rx_lit_i [''execute'', ''executemany'', ''raw'', ''text'']), rx_spaces, rx_lit ''('', rx_spaces,
      Chr (\<lambda>c. c \<in> {CHR ''f'', CHR ''F'', CHR 0x22, CHR 0x27})]"

definition secret_access :: rx where
  "secret_access = rx_word (map rx_lit_i [''get_secret'', ''vault'', ''kms'', ''credential'', ''api_key'', ''token''])"

definition outbound_network :: rx where
  "outbound_network = rx_seq
     [Bound, rx_any (map rx_lit_i [''requests.'', ''httpx.'', ''urlopen'', ''aiohttp.'', ''fetch(''])]"

definition transaction_boundary :: rx where
  "transaction_boundary = rx_word (map rx_lit_i [''begin'', ''commit'', ''rollback'', ''transactional''])"

definition pii_dataflow :: rx where
  "pii_dataflow =
    rx_word (map rx_lit_i [''email'', ''ssn'', ''dob'', ''phone'', ''address'', ''card_number'', ''pan''])"

definition default_registry :: registry where
  "default_registry =
    \<lparr>rg_paths = [''**/auth/**'', ''**/authz/**'', ''**/crypto/**'', ''**/payments/**'', ''**/pii/**'', ''**/migrations/**''],
     rg_patterns = [(''authorization_predicate'', authorization_predicate), (''sql_construction'', sql_construction),
       (''secret_access'', secret_access), (''outbound_network'', outbound_network),
       (''transaction_boundary'', transaction_boundary), (''pii_dataflow'', pii_dataflow)],
     rg_extensions = [''.py'', ''.ts'', ''.tsx'', ''.js'', ''.jsx'', ''.java'', ''.go'', ''.cs'', ''.rb'', ''.sql'', ''.tf'',
       ''.yaml'', ''.yml'', ''.md'', ''.json'', ''.toml'', ''.txt'']\<rparr>"

definition strip_dots :: "string \<Rightarrow> string" where
  "strip_dots path = dropWhile (\<lambda>c. c = CHR ''.'' \<or> c = CHR ''/'') path"

definition path_is_sensitive :: "registry \<Rightarrow> string \<Rightarrow> bool" where
  "path_is_sensitive rg path \<longleftrightarrow> list_ex (\<lambda>p. list_ex (\<lambda>g. glob g (strip_dots path))
     (if starts_with ''**/'' p then [p, drop 3 p] else [p])) (rg_paths rg)"

definition matched_patterns :: "registry \<Rightarrow> string \<Rightarrow> string set" where
  "matched_patterns rg text = fst ` set (filter (\<lambda>(name, r). rx_search r text) (rg_patterns rg))"

subsection \<open>Changes\<close>

record file_change =
  fc_path :: string
  fc_added :: "string list"
  fc_removed :: "string list"

definition diff_text :: "file_change \<Rightarrow> string" where
  "diff_text c = join_lines (fc_added c @ fc_removed c)"

definition suffix_of :: "string \<Rightarrow> string" where
  "suffix_of path = (if CHR ''.'' \<in> set path then CHR ''.'' # rev (takeWhile (\<lambda>c. c \<noteq> CHR ''.'') (rev path)) else [])"

definition physical_lines :: "file_change \<Rightarrow> string list" where
  "physical_lines c =
    concat (map (\<lambda>(marker, entries). concat (map (\<lambda>entry. map
        (\<lambda>line. dropWhile (\<lambda>d. d = CHR '' '' \<or> d = CHR 0x09) (remove_prefix marker line)) (split_lines [] entry)) entries))
      [(''+'', fc_added c), (''-'', fc_removed c)])"

definition is_cosmetic :: "file_change \<Rightarrow> bool" where
  "is_cosmetic c =
    (case dict_get line_comments (suffix_of (fc_path c)) of
       None \<Rightarrow> False
     | Some prefixes \<Rightarrow>
         let nonblank = filter (\<lambda>line. strip line \<noteq> []) (physical_lines c) in
         if (case dict_get comment_directives (suffix_of (fc_path c)) of
               None \<Rightarrow> False | Some directive \<Rightarrow> list_ex (rx_match directive) nonblank)
         then False
         else if suffix_of (fc_path c) = ''.java'' \<and> list_ex (occurs_in [CHR 0x5C, CHR ''u'']) nonblank then False
         else nonblank \<noteq> [] \<and> list_all (\<lambda>line. list_ex (\<lambda>p. starts_with p line) prefixes) nonblank)"

subsection \<open>Classification\<close>

record impact_result =
  im_classes :: "impact_class set"
  im_invalidated :: "evidence_kind set"
  im_rationale :: "string list"

definition requires_human :: "impact_result \<Rightarrow> bool" where
  "requires_human r \<longleftrightarrow> UNCLASSIFIABLE \<in> im_classes r"

definition pattern_to_class :: "(string \<times> impact_class) list" where
  "pattern_to_class =
    [(''authorization_predicate'', AUTHZ_CHANGED), (''sql_construction'', PERSISTENCE_SEMANTICS),
     (''transaction_boundary'', PERSISTENCE_SEMANTICS), (''outbound_network'', NEW_EGRESS_OR_STORE),
     (''pii_dataflow'', PII_DATAFLOW_CHANGED), (''secret_access'', SECURITY_SENSITIVE)]"

definition class_of_pattern :: "string \<Rightarrow> impact_class" where
  "class_of_pattern name = (case dict_get pattern_to_class name of None \<Rightarrow> SECURITY_SENSITIVE | Some k \<Rightarrow> k)"

type_synonym impact_state = "impact_class set \<times> string list"

definition note_class :: "bool \<Rightarrow> impact_class \<Rightarrow> string \<Rightarrow> impact_state \<Rightarrow> impact_state" where
  "note_class b k why s = (if b then (insert k (fst s), snd s @ [why]) else s)"

definition material_classes :: "registry \<Rightarrow> file_change \<Rightarrow> impact_state" where
  "material_classes rg c =
    (let path = fc_path c;
         s1 = note_class (path_is_sensitive rg path) SECURITY_SENSITIVE (path @ '': in a security-sensitive path'') ({}, []);
         s2 = fold (\<lambda>name. note_class True (class_of_pattern name) (path @ '': matched '' @ CHR 0x27 # name @ [CHR 0x27]))
           (sorted_list_of_set (matched_patterns rg (diff_text c))) s1;
         s3 = note_class (ends_with ''.tf'' path) IAC_CHANGED (path @ '': infrastructure as code'') s2;
         s4 = note_class (occurs_in ''/migrations/'' (CHR ''/'' # strip_dots path) \<or> ends_with ''.sql'' path) DB_MIGRATION
           (path @ '': database migration'') s3 in
     note_class (fst s4 = {}) ORDINARY_IMPLEMENTATION (path @ '': no sensitive signal detected'') s4)"

definition classify_file :: "registry \<Rightarrow> file_change \<Rightarrow> impact_state \<Rightarrow> impact_state" where
  "classify_file rg c s =
    (if suffix_of (fc_path c) \<notin> set (rg_extensions rg)
     then note_class True UNCLASSIFIABLE (fc_path c @ '': unrecognised file type, failing closed'') s
     else if is_cosmetic c then note_class True COSMETIC (fc_path c @ '': recognized line comments only'') s
     else (fst s \<union> fst (material_classes rg c), snd s @ snd (material_classes rg c)))"

definition classify :: "file_change list \<Rightarrow> registry \<Rightarrow> bool \<Rightarrow> bool \<Rightarrow> impact_result" where
  "classify changes rg surface_changed new_dependencies =
    (let s1 = note_class surface_changed INTERFACE_SURFACE ''public interface surface changed'' ({}, []);
         s2 = note_class new_dependencies NEW_DEPENDENCY ''dependency added'' s1;
         s3 = fold (classify_file rg) changes s2;
         s4 = note_class (fst s3 = {}) ORDINARY_IMPLEMENTATION ''no sensitive signal detected'' s3;
         classes = (if fst s4 - {COSMETIC} \<noteq> {} then fst s4 - {COSMETIC} else fst s4) in
     \<lparr>im_classes = classes, im_invalidated = \<Union> (invalidates ` classes), im_rationale = snd s4\<rparr>)"

end
