(* ===== verification/Impact_Properties.thy ===== *)
theory Impact_Properties
  imports Impact
begin

text \<open>
  What the classification of a diff promises: the classes are the union of each file's own, so no file hides another;
  nothing unknown is safe; and a larger diff never invalidates less.
\<close>

subsection \<open>Words of a pattern\<close>







subsection \<open>The classes of a diff\<close>




lemma fst_note_class [simp]: "fst (note_class b k why s) = (if b then insert k (fst s) else fst s)"
  by (simp add: note_class_def)











lemma cosmetic_sound:
  assumes "is_cosmetic c" "line \<in> set (physical_lines c)" "strip line \<noteq> []"
  shows "\<exists>prefixes. dict_get line_comments (suffix_of (fc_path c)) = Some prefixes \<and> (\<exists>p \<in> set prefixes. starts_with p line)
    \<and> (\<forall>directive. dict_get comment_directives (suffix_of (fc_path c)) = Some directive \<longrightarrow> \<not> rx_match directive line)"
  using assms by (auto simp: is_cosmetic_def Let_def list_all_iff list_ex_iff split: option.splits if_splits)













subsection \<open>The property\<close>



end
