(* ===== verification/Release.thy ===== *)
theory Release
  imports Review_Base Py_Text
begin

text \<open>
  Release evidence: the records of \<^verbatim>\<open>domain/identity.py\<close>, their signatures (\<^verbatim>\<open>policy/release_signing.py\<close>), and the
  construction and promotion checks of \<^verbatim>\<open>policy/release_bundle.py\<close>.

  A dictionary is an association list with distinct keys. Ed25519 is a parameter, a \<open>signer\<close>: the key's two
  operations on bytes.
\<close>

subsection \<open>Identities\<close>

record language_server_pin =
  lp_version :: string
  lp_artifact_digest :: string

record toolchain =
  tc_repository_intelligence :: string
  tc_tree_sitter :: string
  tc_grammars :: "(string \<times> string) list"
  tc_language_servers :: "(string \<times> language_server_pin) list"
  tc_multilspy :: "string option"

definition comparable_to :: "toolchain \<Rightarrow> toolchain \<Rightarrow> bool" where
  "comparable_to a b \<longleftrightarrow> tc_repository_intelligence a = tc_repository_intelligence b
    \<and> tc_tree_sitter a = tc_tree_sitter b \<and> set (tc_grammars a) = set (tc_grammars b)
    \<and> set (tc_language_servers a) = set (tc_language_servers b) \<and> tc_multilspy a = tc_multilspy b"

record code_model_snapshot =
  sn_id :: string
  sn_git_sha :: string
  sn_build_id :: string
  sn_image_digest :: string
  sn_build_config :: "string option"
  sn_toolchain :: toolchain
  sn_generated_at :: datetime
  sn_generated_by :: string

record release_bundle =
  rb_release_id :: string
  rb_changeset_id :: string
  rb_changeset_version :: int
  rb_work_item_id :: string
  rb_artifacts :: "(string \<times> string) list"
  rb_infrastructure :: "(string \<times> string) list"
  rb_migration_bundle :: "string option"
  rb_code_model_snapshot :: string
  rb_approved_intent :: string
  rb_containment_contract :: string
  rb_sbom :: string
  rb_provenance :: string
  rb_signature :: string

record deployment_binding =
  db_release_id :: string
  db_environment :: string
  db_config :: string
  db_secret_refs :: "string list"
  db_infrastructure_parameters :: "string option"
  db_feature_flag_state :: "string option"
  db_policy_version :: string
  db_approved_by :: string
  db_signature :: string

subsection \<open>Signatures\<close>

datatype release_error =
    Release_Unverified | Promotion_Refused | Secret_Value | Release_Input_Invalid

record signer =
  sg_sign :: "string \<Rightarrow> string"
  sg_verify :: "string \<Rightarrow> string \<Rightarrow> bool"

definition json_dict :: "(string \<times> string) list \<Rightarrow> json" where
  "json_dict d = JObj (map (\<lambda>(k, v). (k, JStr v)) d)"

definition bundle_fields :: "release_bundle \<Rightarrow> (string \<times> json) list" where
  "bundle_fields b =
    [(''release_id'', JStr (rb_release_id b)), (''changeset_id'', JStr (rb_changeset_id b)),
     (''changeset_version'', JInt (rb_changeset_version b)), (''work_item_id'', JStr (rb_work_item_id b)),
     (''artifacts'', json_dict (rb_artifacts b)), (''infrastructure'', json_dict (rb_infrastructure b)),
     (''migration_bundle'', json_option JStr (rb_migration_bundle b)),
     (''code_model_snapshot'', JStr (rb_code_model_snapshot b)),
     (''approved_intent_digest'', JStr (rb_approved_intent b)),
     (''containment_contract_digest'', JStr (rb_containment_contract b)), (''sbom_digest'', JStr (rb_sbom b)),
     (''provenance_digest'', JStr (rb_provenance b))]"

definition deployment_fields :: "deployment_binding \<Rightarrow> (string \<times> json) list" where
  "deployment_fields d =
    [(''release_id'', JStr (db_release_id d)), (''environment'', JStr (db_environment d)),
     (''config_digest'', JStr (db_config d)), (''secret_version_refs'', json_strings (db_secret_refs d)),
     (''infrastructure_parameters_digest'', json_option JStr (db_infrastructure_parameters d)),
     (''feature_flag_state_digest'', json_option JStr (db_feature_flag_state d)),
     (''deployment_policy_version'', JStr (db_policy_version d)), (''approved_by'', JStr (db_approved_by d))]"

definition canonical_signed_payload :: "(string \<times> json) list \<Rightarrow> string" where
  "canonical_signed_payload flds = dumps False (JObj flds)"

definition signed_payload :: "(string \<times> json) list \<Rightarrow> string" where
  "signed_payload flds = utf8 (canonical_signed_payload flds)"

definition encode_signature :: "string \<Rightarrow> string" where
  "encode_signature s = encode_with url_alphabet s"

definition decode_signature :: "string \<Rightarrow> release_error + string" where
  "decode_signature v =
    (if v = [] \<or> \<not> set v \<subseteq> set url_alphabet then Inl Release_Unverified
     else case decode_with url_alphabet v of None \<Rightarrow> Inl Release_Unverified | Some s \<Rightarrow> Inr s)"

definition sign_fields :: "signer \<Rightarrow> (string \<times> json) list \<Rightarrow> string" where
  "sign_fields sg flds = encode_signature (sg_sign sg (signed_payload flds))"

definition verify_fields :: "signer \<Rightarrow> string \<Rightarrow> (string \<times> json) list \<Rightarrow> release_error + unit" where
  "verify_fields sg signature flds =
    (if signature = [] then Inl Release_Unverified
     else ebind (decode_signature signature) (\<lambda>s.
       if sg_verify sg s (signed_payload flds) then Inr () else Inl Release_Unverified))"

definition sign_release_bundle :: "signer \<Rightarrow> release_bundle \<Rightarrow> release_bundle" where
  "sign_release_bundle sg b = b\<lparr>rb_signature := sign_fields sg (bundle_fields b)\<rparr>"

definition verify_release_bundle :: "signer \<Rightarrow> release_bundle \<Rightarrow> release_error + unit" where
  "verify_release_bundle sg b = verify_fields sg (rb_signature b) (bundle_fields b)"

definition sign_deployment_binding :: "signer \<Rightarrow> deployment_binding \<Rightarrow> deployment_binding" where
  "sign_deployment_binding sg d = d\<lparr>db_signature := sign_fields sg (deployment_fields d)\<rparr>"

definition verify_deployment_binding :: "signer \<Rightarrow> deployment_binding \<Rightarrow> release_error + unit" where
  "verify_deployment_binding sg d = verify_fields sg (db_signature d) (deployment_fields d)"

subsection \<open>Construction and promotion\<close>

record release_input = review_model +
  ri_release_id :: string
  ri_changeset_id :: string
  ri_changeset_version :: int
  ri_work_item_id :: string
  ri_artifacts :: "(string \<times> string) list"
  ri_infrastructure :: "(string \<times> string) list"
  ri_code_model_snapshot :: string
  ri_approved_intent :: string
  ri_containment_contract :: string
  ri_sbom :: string
  ri_provenance :: string

definition release_input_fields :: "'a release_input_scheme \<Rightarrow> (string \<times> json) list" where
  "release_input_fields v =
    [(''release_id'', JStr (ri_release_id v)), (''changeset_id'', JStr (ri_changeset_id v)),
     (''changeset_version'', JInt (ri_changeset_version v)), (''work_item_id'', JStr (ri_work_item_id v)),
     (''artifacts'', json_dict (ri_artifacts v)), (''infrastructure'', json_dict (ri_infrastructure v)),
     (''code_model_snapshot'', JStr (ri_code_model_snapshot v)),
     (''approved_intent_digest'', JStr (ri_approved_intent v)),
     (''containment_contract_digest'', JStr (ri_containment_contract v)), (''sbom_digest'', JStr (ri_sbom v)),
     (''provenance_digest'', JStr (ri_provenance v))]"

interpretation rin: content_addressed release_input_fields
  by unfold_locales (simp add: release_input_fields_def)

definition valid_release_input :: "'a release_input_scheme \<Rightarrow> bool" where
  "valid_release_input v \<longleftrightarrow> sealed release_input_fields v
    \<and> identifier_ok (ri_release_id v) \<and> identifier_ok (ri_changeset_id v) \<and> 1 \<le> ri_changeset_version v
    \<and> identifier_ok (ri_work_item_id v) \<and> ri_artifacts v \<noteq> [] \<and> list_all (\<lambda>(k, d). digest_ok d) (ri_artifacts v)
    \<and> list_all (\<lambda>(k, d). digest_ok d) (ri_infrastructure v) \<and> distinct (map fst (ri_artifacts v))
    \<and> distinct (map fst (ri_infrastructure v)) \<and> digest_ok (ri_code_model_snapshot v)
    \<and> digest_ok (ri_approved_intent v) \<and> digest_ok (ri_containment_contract v) \<and> digest_ok (ri_sbom v)
    \<and> digest_ok (ri_provenance v)"

definition build_release_bundle :: "signer \<Rightarrow> release_input \<Rightarrow> release_error + release_bundle" where
  "build_release_bundle sg v =
    (if \<not> valid_release_input v then Inl Release_Input_Invalid
     else Inr (sign_release_bundle sg
       \<lparr>rb_release_id = ri_release_id v, rb_changeset_id = ri_changeset_id v,
        rb_changeset_version = ri_changeset_version v, rb_work_item_id = ri_work_item_id v,
        rb_artifacts = ri_artifacts v, rb_infrastructure = ri_infrastructure v, rb_migration_bundle = None,
        rb_code_model_snapshot = ri_code_model_snapshot v, rb_approved_intent = ri_approved_intent v,
        rb_containment_contract = ri_containment_contract v, rb_sbom = ri_sbom v, rb_provenance = ri_provenance v,
        rb_signature = []\<rparr>))"

definition secret_prefix :: string where
  "secret_prefix = ''secret://''"

definition build_deployment_binding ::
  "signer \<Rightarrow> string \<Rightarrow> string \<Rightarrow> string \<Rightarrow> string list \<Rightarrow> string \<Rightarrow> string \<Rightarrow> string option \<Rightarrow> string option \<Rightarrow>
    release_error + deployment_binding"
where
  "build_deployment_binding sg release_id environment config secrets policy_version approved_by infrastructure flags =
    (if \<not> list_all (\<lambda>r. take (length secret_prefix) r = secret_prefix) secrets then Inl Secret_Value
     else Inr (sign_deployment_binding sg
       \<lparr>db_release_id = release_id, db_environment = environment, db_config = config, db_secret_refs = secrets,
        db_infrastructure_parameters = infrastructure, db_feature_flag_state = flags,
        db_policy_version = policy_version, db_approved_by = approved_by, db_signature = []\<rparr>))"

definition verify_promotion :: "signer \<Rightarrow> release_bundle \<Rightarrow> deployment_binding \<Rightarrow> string \<Rightarrow> release_error + unit" where
  "verify_promotion sg bundle binding expected_environment =
    (case ebind (verify_release_bundle sg bundle) (\<lambda>_. verify_deployment_binding sg binding) of
       Inl e \<Rightarrow> Inl Promotion_Refused
     | Inr _ \<Rightarrow> require_all
         [(rb_release_id bundle = db_release_id binding, Promotion_Refused),
          (db_environment binding = expected_environment, Promotion_Refused)])"

end
