(* ===== verification/Release_Properties.thy ===== *)
theory Release_Properties
  imports Release Review_Model
begin

text \<open>
  What a promotion proves, by reduction to the signature scheme: whoever gets a pair promoted that was not built, field for
  field, by the two builders from validated inputs has forged a signature. Nothing is assumed of the scheme but that a
  signature it makes verifies.
\<close>

subsection \<open>Signed payloads determine their records\<close>








subsection \<open>Verification\<close>








text \<open>Only the prefix of a reference is checked.\<close>

lemma bare_secret_accepted: "\<exists>d. build_deployment_binding sg i e c [secret_prefix] p a infra flags = Inr d"
  by (simp add: build_deployment_binding_def)


subsection \<open>The property\<close>

















end
