(* ===== verification/Preflight.thy ===== *)
theory Preflight
  imports Py_Url Review_Base
begin

text \<open>
  \<^verbatim>\<open>domain/preflight.py\<close>: the immutable local evidence of a candidate change, content-addressed and revalidated
  wherever it is consumed.

  Bytes are characters. Every refusal of the module is a \<^verbatim>\<open>ValueError\<close>, here \<open>Invalid_Evidence\<close>. Whether the host between
  the brackets of a URL is an IP address is left to a parameter.
\<close>

datatype preflight_error = Invalid_Evidence

subsection \<open>Shared checks\<close>

definition bytes_digest :: "string \<Rightarrow> string" where
  "bytes_digest s = ''sha256:'' @ sha256_hex s"

definition ascii_digest :: "(string \<times> json) list \<Rightarrow> string" where
  "ascii_digest flds = bytes_digest (utf8 (dumps True (JObj flds)))"

definition padded_encode :: "string \<Rightarrow> string" where
  "padded_encode s = encode_with std_alphabet s @ replicate ((3 - length s mod 3) mod 3) (CHR ''='')"

definition decoded_content :: "string \<Rightarrow> string \<Rightarrow> preflight_error + string" where
  "decoded_content encoded digest =
    (case decode_with std_alphabet (takeWhile (\<lambda>c. c \<noteq> CHR ''='') encoded) of
       None \<Rightarrow> Inl Invalid_Evidence
     | Some content \<Rightarrow>
         if padded_encode content \<noteq> encoded \<or> bytes_digest content \<noteq> digest then Inl Invalid_Evidence else Inr content)"

definition control_char :: "char \<Rightarrow> bool" where
  "control_char c \<longleftrightarrow> (of_char c :: nat) < 32 \<or> (of_char c :: nat) = 127"

definition candidate_path_ok :: "string \<Rightarrow> bool" where
  "candidate_path_ok path \<longleftrightarrow> list_all (\<lambda>c. c \<noteq> CHR 0x5C \<and> c \<noteq> CHR '':'' \<and> \<not> control_char c) path
    \<and> list_all (\<lambda>part. part \<notin> {[], ''.'', ''..''} \<and> casefold part \<noteq> casefold ''.git''
         \<and> \<not> ends_with ''.'' part \<and> \<not> ends_with '' '' part) (split_on (CHR ''/'') path)"

definition validate_candidate_path :: "string \<Rightarrow> preflight_error + string" where
  "validate_candidate_path path = (if candidate_path_ok path then Inr path else Inl Invalid_Evidence)"

definition canonical_paths :: "string list \<Rightarrow> bool" where
  "canonical_paths ps \<longleftrightarrow> ps = sort (remdups ps)"

subsection \<open>Changes and files\<close>

datatype change_kind = Committed | Staged | Unstaged

definition change_kind_name :: "change_kind \<Rightarrow> string" where
  "change_kind_name k = (case k of Committed \<Rightarrow> ''committed'' | Staged \<Rightarrow> ''staged'' | Unstaged \<Rightarrow> ''unstaged'')"

record change =
  ch_kind :: change_kind
  ch_paths :: "string list"
  ch_patch :: string
  ch_digest :: string

definition change_ok :: "change \<Rightarrow> bool" where
  "change_ok c \<longleftrightarrow> digest_ok (ch_digest c) \<and> canonical_paths (ch_paths c) \<and> list_all candidate_path_ok (ch_paths c)
    \<and> succeeds (decoded_content (ch_patch c) (ch_digest c))"

definition change_json :: "change \<Rightarrow> json" where
  "change_json c = JObj
    [(''kind'', JStr (change_kind_name (ch_kind c))), (''paths'', json_strings (ch_paths c)),
     (''patch_base64'', JStr (ch_patch c)), (''content_digest'', JStr (ch_digest c))]"

record captured_file =
  cf_path :: string
  cf_content :: string
  cf_digest :: string
  cf_is_binary :: bool

definition file_ok :: "captured_file \<Rightarrow> bool" where
  "file_ok f \<longleftrightarrow> cf_path f \<noteq> [] \<and> digest_ok (cf_digest f) \<and> candidate_path_ok (cf_path f)
    \<and> (case decoded_content (cf_content f) (cf_digest f) of
         Inl _ \<Rightarrow> False | Inr content \<Rightarrow> cf_is_binary f = (CHR 0x00 \<in> set content))"

definition file_json :: "captured_file \<Rightarrow> json" where
  "file_json f = JObj
    [(''path'', JStr (cf_path f)), (''content_base64'', JStr (cf_content f)), (''content_digest'', JStr (cf_digest f)),
     (''is_binary'', JBool (cf_is_binary f))]"

definition candidate_change :: "change_kind \<Rightarrow> string list \<Rightarrow> string \<Rightarrow> preflight_error + change" where
  "candidate_change kind paths patch =
    (let c = \<lparr>ch_kind = kind, ch_paths = sort paths, ch_patch = padded_encode patch, ch_digest = bytes_digest patch\<rparr> in
     if change_ok c then Inr c else Inl Invalid_Evidence)"

definition candidate_file :: "string \<Rightarrow> string \<Rightarrow> preflight_error + captured_file" where
  "candidate_file path content =
    (let f = \<lparr>cf_path = path, cf_content = padded_encode content, cf_digest = bytes_digest content,
              cf_is_binary = (CHR 0x00 \<in> set content)\<rparr> in
     if file_ok f then Inr f else Inl Invalid_Evidence)"

subsection \<open>The raw worktree\<close>

record raw_worktree =
  rw_files :: "captured_file list"
  rw_missing :: "string list"
  rw_executable :: "string list"
  rw_git_inputs :: string
  rw_digest :: string

definition raw_fields :: "raw_worktree \<Rightarrow> (string \<times> json) list" where
  "raw_fields w =
    [(''version'', JInt 2), (''profile'', JStr ''git-builtins-no-helpers''), (''files'', json_list file_json (rw_files w)),
     (''missing_paths'', json_strings (rw_missing w)), (''executable_paths'', json_strings (rw_executable w)),
     (''git_inputs_digest'', JStr (rw_git_inputs w))]"

definition raw_json :: "raw_worktree \<Rightarrow> json" where
  "raw_json w = JObj (raw_fields w @ [(''content_digest'', JStr (rw_digest w))])"

text \<open>The proper ancestors of a path, as \<^verbatim>\<open>"/".join(parts[:i])\<close>.\<close>

definition ancestors :: "string \<Rightarrow> string list" where
  "ancestors path = (let parts = split_on (CHR ''/'') path in
     map (\<lambda>i. join_with (CHR ''/'') (take i parts)) [1..<length parts])"

definition raw_ok :: "raw_worktree \<Rightarrow> bool" where
  "raw_ok w \<longleftrightarrow>
    (let present = map cf_path (rw_files w) in
     list_all file_ok (rw_files w) \<and> digest_ok (rw_git_inputs w) \<and> digest_ok (rw_digest w)
     \<and> list_all (\<lambda>ps. canonical_paths ps \<and> list_all candidate_path_ok ps) [present, rw_missing w, rw_executable w]
     \<and> set present \<inter> set (rw_missing w) = {} \<and> set (rw_executable w) \<subseteq> set present
     \<and> list_all (\<lambda>path. list_all (\<lambda>a. a \<notin> set present) (ancestors path)) present
     \<and> rw_digest w = ascii_digest (raw_fields w))"

definition create_raw_worktree ::
  "captured_file list \<Rightarrow> string list \<Rightarrow> string list \<Rightarrow> string \<Rightarrow> preflight_error + raw_worktree"
where
  "create_raw_worktree files missing executable inputs =
    (let w = \<lparr>rw_files = sort_key cf_path files, rw_missing = sort missing, rw_executable = sort executable,
              rw_git_inputs = inputs, rw_digest = []\<rparr>;
         w' = w\<lparr>rw_digest := ascii_digest (raw_fields w)\<rparr> in
     if raw_ok w' then Inr w' else Inl Invalid_Evidence)"

subsection \<open>The task\<close>

record task_context =
  tk_provider :: string
  tk_repository :: string
  tk_work_item :: string
  tk_title :: string
  tk_body :: string
  tk_labels :: "string list"
  tk_source_url :: string
  tk_digest :: string

definition task_fields :: "task_context \<Rightarrow> (string \<times> json) list" where
  "task_fields t =
    [(''provider'', JStr (tk_provider t)), (''repository'', JStr (tk_repository t)),
     (''work_item_id'', JStr (tk_work_item t)), (''title'', JStr (tk_title t)), (''body'', JStr (tk_body t)),
     (''labels'', json_strings (tk_labels t)), (''source_url'', JStr (tk_source_url t))]"

definition pattern_space :: "char \<Rightarrow> bool" where
  "pattern_space c \<longleftrightarrow> (of_char c :: nat) \<in> {9, 10, 11, 12, 13, 32, 133, 160}"

definition owner_slash_name :: "string \<Rightarrow> bool" where
  "owner_slash_name s \<longleftrightarrow> (case split_on (CHR ''/'') s of
     [a, b] \<Rightarrow> a \<noteq> [] \<and> b \<noteq> [] \<and> list_all (\<lambda>c. \<not> pattern_space c) (a @ b) | _ \<Rightarrow> False)"

definition issue_number :: "string \<Rightarrow> bool" where
  "issue_number s \<longleftrightarrow> s \<noteq> [] \<and> hd s \<noteq> CHR ''0'' \<and> list_all ascii_digit s"

definition source_identity_ok :: "(string \<Rightarrow> bool) \<Rightarrow> task_context \<Rightarrow> bool" where
  "source_identity_ok bracketed_host t \<longleftrightarrow>
    (let url = tk_source_url t in
     candidate_path_ok (tk_repository t) \<and> tk_provider t = ''github'' \<and> starts_with ''https://'' url
     \<and> list_all (\<lambda>c. c \<notin> {CHR ''?'', CHR ''#'', CHR 0x5C} \<and> 32 < (of_char c :: nat) \<and> (of_char c :: nat) \<noteq> 127) url
     \<and> (case url_split bracketed_host url of
         None \<Rightarrow> False
       | Some parts \<Rightarrow> url_hostname parts \<noteq> None \<and> url_username parts = None \<and> url_password parts = None
           \<and> url_port parts = Some None
           \<and> su_path parts = ''/'' @ tk_repository t @ ''/issues/'' @ tk_work_item t))"

definition task_ok :: "(string \<Rightarrow> bool) \<Rightarrow> task_context \<Rightarrow> bool" where
  "task_ok bracketed_host t \<longleftrightarrow> tk_provider t \<noteq> [] \<and> owner_slash_name (tk_repository t) \<and> issue_number (tk_work_item t)
    \<and> tk_title t \<noteq> [] \<and> digest_ok (tk_digest t) \<and> source_identity_ok bracketed_host t
    \<and> canonical_paths (tk_labels t) \<and> list_all (\<lambda>l. l \<noteq> []) (tk_labels t) \<and> tk_digest t = ascii_digest (task_fields t)"

definition create_task_context ::
  "(string \<Rightarrow> bool) \<Rightarrow> string \<Rightarrow> string \<Rightarrow> string \<Rightarrow> string \<Rightarrow> string \<Rightarrow> string list \<Rightarrow> string \<Rightarrow>
    preflight_error + task_context"
where
  "create_task_context bracketed_host provider repository work_item title body labels source_url =
    (let t = \<lparr>tk_provider = provider, tk_repository = repository, tk_work_item = work_item, tk_title = title,
              tk_body = body, tk_labels = sort labels, tk_source_url = source_url, tk_digest = []\<rparr>;
         t' = t\<lparr>tk_digest := ascii_digest (task_fields t)\<rparr> in
     if task_ok bracketed_host t' then Inr t' else Inl Invalid_Evidence)"

subsection \<open>The candidate\<close>

record preflight_candidate =
  pc_base_sha :: string
  pc_head_sha :: string
  pc_task :: task_context
  pc_committed :: change
  pc_staged :: change
  pc_unstaged :: change
  pc_untracked :: "captured_file list"
  pc_raw :: "raw_worktree option"
  pc_digest :: string

definition task_reference :: "task_context \<Rightarrow> json" where
  "task_reference t = JObj
    [(''provider'', JStr (tk_provider t)), (''repository'', JStr (tk_repository t)),
     (''work_item_id'', JStr (tk_work_item t)), (''content_digest'', JStr (tk_digest t))]"

definition candidate_fields :: "preflight_candidate \<Rightarrow> (string \<times> json) list" where
  "candidate_fields p =
    [(''base_sha'', JStr (pc_base_sha p)), (''head_sha'', JStr (pc_head_sha p)),
     (''task_context'', task_reference (pc_task p)),
     (''changes'', json_list change_json [pc_committed p, pc_staged p, pc_unstaged p]),
     (''untracked_files'', json_list file_json (sort_key cf_path (pc_untracked p)))]
    @ (case pc_raw p of None \<Rightarrow> [] | Some w \<Rightarrow> [(''raw_worktree'', raw_json w)])"

definition candidate_children_ok :: "(string \<Rightarrow> bool) \<Rightarrow> preflight_candidate \<Rightarrow> bool" where
  "candidate_children_ok bracketed_host p \<longleftrightarrow> task_ok bracketed_host (pc_task p)
    \<and> list_all change_ok [pc_committed p, pc_staged p, pc_unstaged p]
    \<and> map ch_kind [pc_committed p, pc_staged p, pc_unstaged p] = [Committed, Staged, Unstaged]
    \<and> list_all file_ok (pc_untracked p) \<and> distinct (map cf_path (pc_untracked p))
    \<and> pc_base_sha p \<noteq> [] \<and> pc_head_sha p \<noteq> []
    \<and> (case pc_raw p of None \<Rightarrow> True
       | Some w \<Rightarrow> raw_ok w \<and> list_all (\<lambda>f. dict_get (dict_of cf_path (rw_files w)) (cf_path f) = Some f) (pc_untracked p))"

definition candidate_digest :: "(string \<Rightarrow> bool) \<Rightarrow> preflight_candidate \<Rightarrow> preflight_error + string" where
  "candidate_digest bracketed_host p =
    (if candidate_children_ok bracketed_host p then Inr (ascii_digest (candidate_fields p)) else Inl Invalid_Evidence)"

definition candidate_ok :: "(string \<Rightarrow> bool) \<Rightarrow> preflight_candidate \<Rightarrow> bool" where
  "candidate_ok bracketed_host p \<longleftrightarrow> canonical_paths (map cf_path (pc_untracked p)) \<and> digest_ok (pc_digest p)
    \<and> candidate_digest bracketed_host p = Inr (pc_digest p)"

definition create_candidate ::
  "(string \<Rightarrow> bool) \<Rightarrow> string \<Rightarrow> string \<Rightarrow> task_context \<Rightarrow> change \<Rightarrow> change \<Rightarrow> change \<Rightarrow> captured_file list \<Rightarrow>
    raw_worktree option \<Rightarrow> preflight_error + preflight_candidate"
where
  "create_candidate bracketed_host base head task committed staged unstaged files raw =
    (let p = \<lparr>pc_base_sha = base, pc_head_sha = head, pc_task = task, pc_committed = committed, pc_staged = staged,
              pc_unstaged = unstaged, pc_untracked = files, pc_raw = raw, pc_digest = []\<rparr> in
     ebind (candidate_digest bracketed_host p) (\<lambda>d.
       let p' = p\<lparr>pc_untracked := sort_key cf_path files, pc_digest := d\<rparr> in
       if candidate_ok bracketed_host p' then Inr p' else Inl Invalid_Evidence))"

end
