(* ===== verification/Candidate_Capture.thy ===== *)
theory Candidate_Capture
  imports Preflight Effects
begin

text \<open>
  Where preflight evidence comes from: the task, loaded from a GitHub issue through the command-line client
  (\<^verbatim>\<open>adapters/github_task_context.py\<close>), and the candidate, captured twice from a Git worktree
  (\<^verbatim>\<open>adapters/git_candidate.py\<close>).

  The command-line client, the Git runner with its session and its raw observation, the reading of untracked files, UTF-8
  decoding and the JSON reader are parameters. A JSON float is read as a boolean, which no field here accepts. Exceptions
  carry their message only where it is looked at.
\<close>

definition message_mentions :: "string \<Rightarrow> string \<Rightarrow> bool" where
  "message_mentions message token \<longleftrightarrow> code_points_occur (casefold token) (casefold message)"

subsection \<open>The task\<close>

datatype task_error =
    Invalid_Task_Id
  | Task_Not_Found
  | Task_Authentication
  | Task_Provider
  | Task_Mismatch
  | Task_Invalid
  | Task_Crash

record task_issue =
  ti_number :: int
  ti_title :: string
  ti_body :: "string option"
  ti_labels :: "string list"
  ti_url :: string

record 'x task_loader =
  tl_repository :: string
  tl_web_host :: string
  tl_run :: "string list \<Rightarrow> 'x \<Rightarrow> (string + string) \<times> 'x"
  tl_loads :: "string \<Rightarrow> json_reading"
  tl_bracketed_host :: "string \<Rightarrow> bool"

definition web_host_ok :: "string \<Rightarrow> bool" where
  "web_host_ok h \<longleftrightarrow> h \<noteq> [] \<and> list_all (\<lambda>c. ascii_letter c \<or> ascii_digit c \<or> c = CHR ''.'' \<or> c = CHR ''-'') h
    \<and> (ascii_letter (hd h) \<or> ascii_digit (hd h)) \<and> (ascii_letter (last h) \<or> ascii_digit (last h))"

definition repository_name_ok :: "string \<Rightarrow> bool" where
  "repository_name_ok s \<longleftrightarrow> (case split_on (CHR ''/'') s of
     [a, b] \<Rightarrow> a \<noteq> [] \<and> b \<noteq> [] \<and> list_all (\<lambda>c. \<not> py_space c) (a @ b) | _ \<Rightarrow> False)"

definition make_task_loader ::
  "(string list \<Rightarrow> 'x \<Rightarrow> (string + string) \<times> 'x) \<Rightarrow> (string \<Rightarrow> json_reading) \<Rightarrow> (string \<Rightarrow> bool) \<Rightarrow> string \<Rightarrow> string \<Rightarrow>
    task_error + 'x task_loader"
where
  "make_task_loader runner loads bracketed_host repository web_host =
    (if \<not> repository_name_ok repository \<or> \<not> web_host_ok web_host then Inl Task_Invalid
     else Inr \<lparr>tl_repository = repository, tl_web_host = lower web_host, tl_run = runner, tl_loads = loads,
       tl_bracketed_host = bracketed_host\<rparr>)"

definition nonempty_text :: "json option \<Rightarrow> string option" where
  "nonempty_text v = (case json_str v of Some s \<Rightarrow> if s = [] then None else Some s | None \<Rightarrow> None)"

definition body_of_json :: "json option \<Rightarrow> string option option" where
  "body_of_json v = (case v of Some JNull \<Rightarrow> Some None | Some (JStr s) \<Rightarrow> Some (Some s) | _ \<Rightarrow> None)"

definition labels_of_json :: "json option \<Rightarrow> string list option" where
  "labels_of_json v = (case v of
     Some (JArr ls) \<Rightarrow> those (map (\<lambda>l. if is_object l then nonempty_text (json_get l ''name'') else None) ls)
   | _ \<Rightarrow> None)"

definition issue_of_json :: "json \<Rightarrow> task_issue option" where
  "issue_of_json v =
    (case (json_int (json_get v ''number''), nonempty_text (json_get v ''title''), body_of_json (json_get v ''body''),
           labels_of_json (json_get v ''labels''), nonempty_text (json_get v ''url'')) of
       (Some n, Some title, Some body, Some labels, Some url) \<Rightarrow>
         if is_object v \<and> 0 < n
         then Some \<lparr>ti_number = n, ti_title = title, ti_body = body, ti_labels = labels, ti_url = url\<rparr> else None
     | _ \<Rightarrow> None)"

definition parse_issue :: "'x task_loader \<Rightarrow> string \<Rightarrow> task_error + task_issue" where
  "parse_issue l raw =
    (case tl_loads l raw of
       Json_Crash \<Rightarrow> Inl Task_Crash
     | Bad_Json \<Rightarrow> Inl Task_Provider
     | Reads v \<Rightarrow>
         if \<not> unique_keys v then Inl Task_Provider
         else (case issue_of_json v of None \<Rightarrow> Inl Task_Provider | Some i \<Rightarrow> Inr i))"

definition classify_provider_error :: "string \<Rightarrow> task_error" where
  "classify_provider_error message =
    (if list_ex (message_mentions message) [''not found'', ''could not resolve'', ''http 404''] then Task_Not_Found
     else if list_ex (message_mentions message) [''authentication'', ''not logged'', ''auth login'', ''http 401'', ''http 403'']
     then Task_Authentication else Task_Provider)"

definition require_source_identity :: "'x task_loader \<Rightarrow> string \<Rightarrow> string \<Rightarrow> task_error + unit" where
  "require_source_identity l url number =
    (case url_split (tl_bracketed_host l) url of
       None \<Rightarrow> Inl Task_Mismatch
     | Some parts \<Rightarrow>
         if su_scheme parts \<noteq> ''https'' \<or> url_hostname parts \<noteq> Some (tl_web_host l) \<or> url_username parts \<noteq> None
           \<or> url_password parts \<noteq> None \<or> CHR ''?'' \<in> set url \<or> CHR ''#'' \<in> set url
           \<or> su_path parts \<noteq> ''/'' @ tl_repository l @ ''/issues/'' @ number
         then Inl Task_Mismatch else Inr ())"

definition load_task :: "'x task_loader \<Rightarrow> string \<Rightarrow> ('x, task_error, task_context) eff" where
  "load_task l work_item x =
    (if \<not> issue_number work_item \<or> 4300 < length work_item then (Inl Invalid_Task_Id, x)
     else
       let number = show_nat (digits_value work_item) in
       case tl_run l [''issue'', ''view'', number, ''--repo'', tl_repository l, ''--json'', ''number,title,body,labels,url''] x of
         (Inl message, y) \<Rightarrow> (Inl (classify_provider_error message), y)
       | (Inr raw, y) \<Rightarrow> (ebind (parse_issue l raw) (\<lambda>i.
           if ti_number i \<noteq> int (digits_value work_item) then Inl Task_Mismatch
           else ebind (require_source_identity l (ti_url i) number) (\<lambda>_.
             case create_task_context (tl_bracketed_host l) ''github'' (tl_repository l) number (ti_title i)
                 (case ti_body i of None \<Rightarrow> [] | Some b \<Rightarrow> b) (ti_labels i) (ti_url i) of
               Inl _ \<Rightarrow> Inl Task_Invalid | Inr t \<Rightarrow> Inr t)), y))"

subsection \<open>The Git runner\<close>

text \<open>
  \<open>Git_Integrity\<close> is the subclass of \<open>Git_Failure\<close>, \<open>Evidence_Invalid\<close> a \<^verbatim>\<open>ValueError\<close>. A runner without a capture session
  has \<open>None\<close> there; with one, its entry and its final verification may fail.
\<close>

datatype git_error =
    Git_Unavailable
  | Not_Git_Repository
  | Base_Unresolved
  | Git_Failure string
  | Git_Integrity string
  | Evidence_Invalid

record 'x git_runner =
  gr_run :: "string list \<Rightarrow> ('x, git_error, string) eff"
  gr_raw :: "'x \<Rightarrow> raw_worktree option"
  gr_session :: "(('x, git_error, unit) eff \<times> ('x, git_error, unit) eff) option"
  gr_read :: "string \<Rightarrow> int \<Rightarrow> 'x \<Rightarrow> (unit + string option) \<times> 'x"
  gr_decode :: "string \<Rightarrow> string option"
  gr_bracketed_host :: "string \<Rightarrow> bool"

definition from_evidence :: "preflight_error + 'a \<Rightarrow> ('x, git_error, 'a) eff" where
  "from_evidence r = spure (case r of Inl _ \<Rightarrow> Inl Evidence_Invalid | Inr a \<Rightarrow> Inr a)"

definition max_capture_files :: nat where
  "max_capture_files = 10000"

definition max_file_bytes :: int where
  "max_file_bytes = 8 * 1024 * 1024"

definition max_total_bytes :: int where
  "max_total_bytes = 32 * 1024 * 1024"

definition bytes_strip :: "string \<Rightarrow> string" where
  "bytes_strip s = (let ws = (\<lambda>c. (of_char c :: nat) \<in> {9, 10, 11, 12, 13, 32}) in
     rev (dropWhile ws (rev (dropWhile ws s))))"

definition decode_sha :: "string \<Rightarrow> git_error + string" where
  "decode_sha raw =
    (if \<not> list_all (\<lambda>c. (of_char c :: nat) < 128) raw then Inl (Git_Failure ''Git returned a non-ASCII commit identity'')
     else if strip raw = [] then Inl (Git_Failure ''Git returned an empty commit SHA'') else Inr (strip raw))"

definition decode_paths :: "'x git_runner \<Rightarrow> string \<Rightarrow> git_error + string list" where
  "decode_paths g raw =
    (case those (map (gr_decode g) (filter (\<lambda>p. p \<noteq> []) (split_on (CHR 0x00) raw))) of
       None \<Rightarrow> Inl (Git_Failure ''Git returned a path that is not canonical UTF-8'')
     | Some paths \<Rightarrow>
         if list_all candidate_path_ok paths \<and> (raw \<noteq> [] \<longrightarrow> last raw = CHR 0x00) \<and> distinct paths then Inr (sort paths)
         else Inl (Git_Failure ''Git returned a noncanonical candidate path''))"

definition ensure_repository :: "'x git_runner \<Rightarrow> ('x, git_error, unit) eff" where
  "ensure_repository g x =
    (case gr_run g [''rev-parse'', ''--is-inside-work-tree''] x of
       (Inl e, y) \<Rightarrow> (Inl (case e of
           Git_Failure m \<Rightarrow> if message_mentions m ''not a git repository'' then Not_Git_Repository else e
         | Git_Integrity m \<Rightarrow> if message_mentions m ''not a git repository'' then Not_Git_Repository else e
         | _ \<Rightarrow> e), y)
     | (Inr inside, y) \<Rightarrow> (if bytes_strip inside \<noteq> ''true'' then Inl Not_Git_Repository else Inr (), y))"

definition resolve_commit :: "'x git_runner \<Rightarrow> string \<Rightarrow> ('x, git_error, string) eff" where
  "resolve_commit g ref = sbind (gr_run g [''rev-parse'', ''--verify'', ref]) (\<lambda>raw. spure (decode_sha raw))"

definition resolve_base :: "'x git_runner \<Rightarrow> string \<Rightarrow> ('x, git_error, string) eff" where
  "resolve_base g base =
    (if base = [] \<or> hd base = CHR ''-'' then sraise Base_Unresolved
     else scatch (resolve_commit g (base @ ''^{commit}''))
       (\<lambda>e. case e of Git_Failure _ \<Rightarrow> Base_Unresolved | _ \<Rightarrow> e))"

definition capture_change ::
  "'x git_runner \<Rightarrow> change_kind \<Rightarrow> string list \<Rightarrow> string list \<Rightarrow> ('x, git_error, change) eff"
where
  "capture_change g kind diff_arguments paths_arguments =
    sbind (gr_run g diff_arguments) (\<lambda>patch.
    sbind (gr_run g paths_arguments) (\<lambda>raw.
    sbind (spure (decode_paths g raw)) (\<lambda>paths. from_evidence (candidate_change kind paths patch))))"

definition raw_observation :: "'x git_runner \<Rightarrow> ('x, git_error, raw_worktree option) eff" where
  "raw_observation g x =
    (case gr_raw g x of
       None \<Rightarrow> (Inr None, x)
     | Some w \<Rightarrow> if raw_ok w then (Inr (Some w), x) else (Inl Evidence_Invalid, x))"

text \<open>\<open>remaining\<close> is what is left of the byte limit.\<close>

fun read_untracked :: "'x git_runner \<Rightarrow> int \<Rightarrow> string list \<Rightarrow> ('x, git_error, captured_file list) eff" where
  "read_untracked g remaining [] = sreturn []"
| "read_untracked g remaining (path # paths) =
    sbind (\<lambda>x. case gr_read g path (min max_file_bytes remaining) x of
        (Inr (Some content), y) \<Rightarrow> (Inr content, y)
      | (_, y) \<Rightarrow> (Inl (Git_Failure (''Unable to read untracked file: '' @ path)), y)) (\<lambda>content.
    sbind (from_evidence (candidate_file path content)) (\<lambda>f.
    sbind (read_untracked g (remaining - int (length content)) paths) (\<lambda>fs. sreturn (f # fs))))"

definition capture_untracked :: "'x git_runner \<Rightarrow> ('x, git_error, captured_file list) eff" where
  "capture_untracked g =
    sbind (gr_run g [''ls-files'', ''--others'', ''--exclude-standard'', ''-z'']) (\<lambda>raw.
    sbind (spure (decode_paths g raw)) (\<lambda>paths.
    sbind (raw_observation g) (\<lambda>observed.
      case observed of
        Some w \<Rightarrow>
          (case those (map (dict_get (dict_of cf_path (rw_files w))) paths) of
             None \<Rightarrow> sraise (Git_Integrity ''Untracked inventory differs from raw observation'')
           | Some fs \<Rightarrow> sreturn fs)
      | None \<Rightarrow>
          if max_capture_files < length paths then sraise (Git_Integrity ''Untracked inventory file limit exceeded'')
          else sbind (read_untracked g max_total_bytes paths) (\<lambda>fs. sreturn (sort_key cf_path fs)))))"

definition capture_candidate :: "'x git_runner \<Rightarrow> string \<Rightarrow> task_context \<Rightarrow> ('x, git_error, preflight_candidate) eff" where
  "capture_candidate g base task =
    (let diff = (\<lambda>sel refs. ''diff'' # sel @ [''--binary'', ''--full-index'', ''--no-ext-diff''] @ refs);
         names = (\<lambda>sel refs. ''diff'' # sel @ [''--name-only'', ''-z''] @ refs) in
     sbind (resolve_base g base) (\<lambda>base_sha.
     sbind (resolve_commit g ''HEAD^{commit}'') (\<lambda>head_sha.
     sbind (capture_change g Committed (diff [] [base_sha, head_sha]) (names [] [base_sha, head_sha])) (\<lambda>committed.
     sbind (capture_change g Staged (diff [''--cached''] []) (names [''--cached''] [])) (\<lambda>staged.
     sbind (capture_change g Unstaged (diff [] []) (names [] [])) (\<lambda>unstaged.
     sbind (capture_untracked g) (\<lambda>files.
     sbind (raw_observation g) (\<lambda>observed.
       from_evidence (create_candidate (gr_bracketed_host g) base_sha head_sha task committed staged unstaged files observed)))))))))"

definition in_session :: "'x git_runner \<Rightarrow> ('x, git_error, 'a) eff \<Rightarrow> ('x, git_error, 'a) eff" where
  "in_session g m =
    (case gr_session g of
       None \<Rightarrow> m
     | Some (enter, finish) \<Rightarrow> sbind enter (\<lambda>_.
         scatch (sbind m (\<lambda>r. sbind finish (\<lambda>_. sreturn r)))
           (\<lambda>e. if e = Evidence_Invalid then Git_Integrity ''invalid evidence'' else e)))"

definition capture ::
  "'x git_runner \<Rightarrow> bool \<Rightarrow> string \<Rightarrow> task_context \<Rightarrow> ('x, git_error, preflight_candidate) eff"
where
  "capture g is_directory base task =
    (if \<not> task_ok (gr_bracketed_host g) task then sraise Evidence_Invalid
     else if \<not> is_directory then sraise Not_Git_Repository
     else in_session g
       (sbind (ensure_repository g) (\<lambda>_.
        sbind (capture_candidate g base task) (\<lambda>first.
        sbind (capture_candidate g base task) (\<lambda>second.
          if first \<noteq> second then sraise (Git_Failure ''Git candidate changed during capture; retry a stable tree'')
          else sbind (resolve_commit g ''HEAD^{commit}'') (\<lambda>head.
            if head \<noteq> pc_head_sha first
            then sraise (Git_Failure ''Git candidate changed during capture; retry a stable tree'')
            else sreturn first))))))"

end
