(* ===== verification/Capture_Properties.thy ===== *)
theory Capture_Properties
  imports Candidate_Capture Preflight Review_Model
begin

text \<open>
  What a captured candidate stands for: a task the provider reported for the issue asked for, and what Git said twice.
\<close>

section \<open>What the digests of preflight evidence bind\<close>

text \<open>
  What the digests of preflight evidence bind: two valid candidates of one digest are one candidate, and the builders
  produce valid evidence whose contents decode to what was captured.
\<close>

subsection \<open>Digests\<close>

definition ascii_bytes :: "(string \<times> json) list \<Rightarrow> string" where
  "ascii_bytes flds = utf8 (dumps True (JObj flds))"

lemma ascii_digest_eq:
  assumes "ascii_digest f = ascii_digest g" "collision_free (ascii_bytes f) (ascii_bytes g)"
  shows "canon (JObj f) = canon (JObj g)"
proof -
  have "utf8 (dumps True (JObj f)) = utf8 (dumps True (JObj g))"
    using assms by (simp add: ascii_digest_def bytes_digest_def collision_free_def ascii_bytes_def)
  then show ?thesis using utf8_inj dumps_eq_iff by blast
qed

lemma change_kind_name_inj [simp]: "change_kind_name a = change_kind_name b \<longleftrightarrow> a = b"
  by (cases a; cases b) (simp_all add: change_kind_name_def)

lemma canon_change: "canon (change_json a) = canon (change_json b) \<Longrightarrow> a = b"
proof -
  assume c: "canon (change_json a) = canon (change_json b)"
  have "map (canon \<circ> snd) [(''kind'', JStr (change_kind_name (ch_kind a))), (''paths'', json_strings (ch_paths a)),
      (''patch_base64'', JStr (ch_patch a)), (''content_digest'', JStr (ch_digest a))] = map (canon \<circ> snd)
      [(''kind'', JStr (change_kind_name (ch_kind b))), (''paths'', json_strings (ch_paths b)),
      (''patch_base64'', JStr (ch_patch b)), (''content_digest'', JStr (ch_digest b))]"
    by (rule canon_obj_fields [OF c [unfolded change_json_def]]) simp_all
  then show ?thesis by (cases a; cases b) simp
qed

lemma canon_file: "canon (file_json a) = canon (file_json b) \<Longrightarrow> a = b"
proof -
  assume c: "canon (file_json a) = canon (file_json b)"
  have "map (canon \<circ> snd) [(''path'', JStr (cf_path a)), (''content_base64'', JStr (cf_content a)),
      (''content_digest'', JStr (cf_digest a)), (''is_binary'', JBool (cf_is_binary a))] = map (canon \<circ> snd)
      [(''path'', JStr (cf_path b)), (''content_base64'', JStr (cf_content b)),
      (''content_digest'', JStr (cf_digest b)), (''is_binary'', JBool (cf_is_binary b))]"
    by (rule canon_obj_fields [OF c [unfolded file_json_def]]) simp_all
  then show ?thesis by (cases a; cases b) simp
qed

lemma canon_files: "canon (json_list file_json xs) = canon (json_list file_json ys) \<Longrightarrow> xs = ys"
  by (erule canon_list_inj) (rule canon_file)

lemma canon_raw: "canon (raw_json a) = canon (raw_json b) \<Longrightarrow> a = b"
proof -
  assume c: "canon (raw_json a) = canon (raw_json b)"
  have "map (canon \<circ> snd) (raw_fields a @ [(''content_digest'', JStr (rw_digest a))]) =
      map (canon \<circ> snd) (raw_fields b @ [(''content_digest'', JStr (rw_digest b))])"
    by (rule canon_obj_fields [OF c [unfolded raw_json_def]]) (simp_all add: raw_fields_def)
  then show ?thesis by (cases a; cases b) (auto simp: raw_fields_def dest!: canon_files)
qed

lemma canon_task:
  assumes "canon (JObj (task_fields a)) = canon (JObj (task_fields b))" "tk_digest a = tk_digest b"
  shows "a = b"
proof -
  have "map (canon \<circ> snd) (task_fields a) = map (canon \<circ> snd) (task_fields b)"
    by (rule canon_obj_fields [OF assms(1)]) (simp_all add: task_fields_def)
  then show ?thesis using assms(2) by (cases a; cases b) (simp add: task_fields_def)
qed

lemma canon_reference:
  "canon (task_reference a) = canon (task_reference b) \<Longrightarrow> tk_digest a = tk_digest b"
proof -
  assume c: "canon (task_reference a) = canon (task_reference b)"
  have "map (canon \<circ> snd) [(''provider'', JStr (tk_provider a)), (''repository'', JStr (tk_repository a)),
      (''work_item_id'', JStr (tk_work_item a)), (''content_digest'', JStr (tk_digest a))] = map (canon \<circ> snd)
      [(''provider'', JStr (tk_provider b)), (''repository'', JStr (tk_repository b)),
      (''work_item_id'', JStr (tk_work_item b)), (''content_digest'', JStr (tk_digest b))]"
    by (rule canon_obj_fields [OF c [unfolded task_reference_def]]) simp_all
  then show ?thesis by simp
qed

subsection \<open>Candidates\<close>

lemma canonical_sort: "canonical_paths (map cf_path fs) \<Longrightarrow> sort_key cf_path fs = fs"
  by (rule sort_key_id_if_sorted) (metis canonical_paths_def sorted_sort)

lemma candidate_fields_inj:
  assumes c: "canon (JObj (candidate_fields p)) = canon (JObj (candidate_fields q))"
  shows "pc_base_sha p = pc_base_sha q \<and> pc_head_sha p = pc_head_sha q \<and> tk_digest (pc_task p) = tk_digest (pc_task q)
    \<and> pc_committed p = pc_committed q \<and> pc_staged p = pc_staged q \<and> pc_unstaged p = pc_unstaged q
    \<and> sort_key cf_path (pc_untracked p) = sort_key cf_path (pc_untracked q) \<and> pc_raw p = pc_raw q"
proof -
  have raw: "pc_raw p = None \<longleftrightarrow> pc_raw q = None"
  proof -
    have "''raw_worktree'' \<in> fst ` set (candidate_fields r) \<longleftrightarrow> pc_raw r \<noteq> None" for r
      by (cases "pc_raw r") (simp_all add: candidate_fields_def)
    then show ?thesis using canon_obj_keys [OF c] by metis
  qed
  have eqs: "map (canon \<circ> snd) (candidate_fields p) = map (canon \<circ> snd) (candidate_fields q)"
    by (rule canon_obj_fields [OF c]) (use raw in \<open>auto simp: candidate_fields_def split: option.splits\<close>)
  have "canon (json_list change_json [pc_committed p, pc_staged p, pc_unstaged p]) =
      canon (json_list change_json [pc_committed q, pc_staged q, pc_unstaged q])"
    using eqs by (simp add: candidate_fields_def)
  then have changes: "[pc_committed p, pc_staged p, pc_unstaged p] = [pc_committed q, pc_staged q, pc_unstaged q]"
    by (rule canon_list_inj) (rule canon_change)
  have "sort_key cf_path (pc_untracked p) = sort_key cf_path (pc_untracked q)"
    by (rule canon_files) (use eqs in \<open>simp add: candidate_fields_def\<close>)
  moreover have "tk_digest (pc_task p) = tk_digest (pc_task q)"
    by (rule canon_reference) (use eqs in \<open>simp add: candidate_fields_def\<close>)
  moreover have "pc_raw p = pc_raw q"
    using eqs raw by (cases "pc_raw p"; cases "pc_raw q") (auto simp: candidate_fields_def intro: canon_raw)
  ultimately show ?thesis using eqs changes by (simp add: candidate_fields_def)
qed

theorem candidate_digest_binds:
  assumes "candidate_ok h p" "candidate_ok h q" "pc_digest p = pc_digest q"
    and "collision_free (ascii_bytes (candidate_fields p)) (ascii_bytes (candidate_fields q))"
    and "collision_free (ascii_bytes (task_fields (pc_task p))) (ascii_bytes (task_fields (pc_task q)))"
  shows "p = q"
proof -
  have d: "pc_digest r = ascii_digest (candidate_fields r)" "task_ok h (pc_task r)"
    "sort_key cf_path (pc_untracked r) = pc_untracked r" if "candidate_ok h r" for r
    using that canonical_sort
    by (auto simp: candidate_ok_def candidate_digest_def candidate_children_ok_def split: if_splits)
  have "canon (JObj (candidate_fields p)) = canon (JObj (candidate_fields q))"
    by (rule ascii_digest_eq [OF _ assms(4)]) (use assms(3) d(1) [OF assms(1)] d(1) [OF assms(2)] in simp)
  note eqs = candidate_fields_inj [OF this]
  have "canon (JObj (task_fields (pc_task p))) = canon (JObj (task_fields (pc_task q)))"
    by (rule ascii_digest_eq [OF _ assms(5)]) (use eqs d(2) [OF assms(1)] d(2) [OF assms(2)] in \<open>simp add: task_ok_def\<close>)
  then have "pc_task p = pc_task q" using canon_task eqs by blast
  then show ?thesis using eqs assms(3) d(3) [OF assms(1)] d(3) [OF assms(2)] by (cases p; cases q) simp
qed

subsection \<open>Captured contents\<close>

lemma alphabet_no_pad: "CHR ''='' \<notin> set std_alphabet"
  by (simp add: std_alphabet_def)

lemma decoded_content_encode: "decoded_content (padded_encode s) (bytes_digest s) = Inr s"
proof -
  have "takeWhile (\<lambda>c. c \<noteq> CHR ''='') (padded_encode s) = encode_with std_alphabet s"
    using encode_alphabet [OF alphabets(2), of s] alphabet_no_pad
    by (auto simp: padded_encode_def takeWhile_append)
  then show ?thesis by (simp add: decoded_content_def decode_encode [OF alphabets(1,2)])
qed

theorem candidate_file_captures:
  "candidate_file path content = Inr f \<Longrightarrow> file_ok f \<and> decoded_content (cf_content f) (cf_digest f) = Inr content"
  by (auto simp: candidate_file_def Let_def decoded_content_encode split: if_splits)

theorem candidate_change_captures:
  "candidate_change kind paths patch = Inr c \<Longrightarrow>
    change_ok c \<and> decoded_content (ch_patch c) (ch_digest c) = Inr patch \<and> set (ch_paths c) = set paths"
  by (auto simp: candidate_change_def Let_def decoded_content_encode split: if_splits)

section \<open>What a capture establishes\<close>

declare split_paired_All [simp del] split_paired_Ex [simp del] split_paired_all [simp del]

subsection \<open>The task\<close>

theorem loaded_task:
  assumes "load_task l work_item x = (Inr t, y)"
  shows "task_ok (tl_bracketed_host l) t \<and> tk_work_item t = work_item \<and> tk_repository t = tl_repository l
    \<and> (\<exists>parts. url_split (tl_bracketed_host l) (tk_source_url t) = Some parts \<and> url_hostname parts = Some (tl_web_host l))"
proof -
  let ?n = "show_nat (digits_value work_item)"
  from assms obtain i :: task_issue where id: "issue_number work_item" "require_source_identity l (ti_url i) ?n = Inr ()"
    and t: "create_task_context (tl_bracketed_host l) ''github'' (tl_repository l) ?n (ti_title i)
      (case ti_body i of None \<Rightarrow> [] | Some b \<Rightarrow> b) (ti_labels i) (ti_url i) = Inr t"
    by (auto simp: load_task_def Let_def ebind_eq_Inr split: if_splits prod.splits sum.splits)
  have "?n = work_item" using show_digits_value id(1) by (auto simp: issue_number_def)
  then show ?thesis
    using t id(2) by (auto simp: create_task_context_def require_source_identity_def Let_def split: if_splits option.splits)
qed

subsection \<open>One pass over the worktree\<close>

lemma eff_bind_Inr: "sbind m f s = (Inr r, s') \<longleftrightarrow> (\<exists>a t. m s = (Inr a, t) \<and> f a t = (Inr r, s'))"
  by (auto simp: sbind_def split: prod.splits sum.splits)

lemma scatch_Inr: "scatch m h s = (Inr r, s') \<longleftrightarrow> m s = (Inr r, s')"
  by (auto simp: scatch_def split: prod.splits sum.splits)

lemma evidence_Inr: "from_evidence r s = (Inr a, s') \<longleftrightarrow> r = Inr a \<and> s' = s"
  by (auto simp: from_evidence_def split: sum.splits)

lemma candidate_change_Inr:
  "candidate_change kind paths patch = Inr c \<Longrightarrow>
    ch_kind c = kind \<and> decoded_content (ch_patch c) (ch_digest c) = Inr patch \<and> ch_paths c = sort paths"
  by (auto simp: candidate_change_def Let_def decoded_content_encode split: if_splits)

lemma capture_change_Inr:
  assumes "capture_change g kind diff_arguments paths_arguments x = (Inr c, z)"
  shows "\<exists>y patch raw paths. gr_run g diff_arguments x = (Inr patch, y) \<and> gr_run g paths_arguments y = (Inr raw, z)
    \<and> ch_kind c = kind \<and> decoded_content (ch_patch c) (ch_digest c) = Inr patch
    \<and> decode_paths g raw = Inr paths \<and> ch_paths c = sort paths"
proof -
  from assms obtain patch y raw paths where "gr_run g diff_arguments x = (Inr patch, y)" "gr_run g paths_arguments y = (Inr raw, z)"
    "decode_paths g raw = Inr paths" "candidate_change kind paths patch = Inr c"
    by (auto simp: capture_change_def eff_bind_Inr evidence_Inr)
  then show ?thesis using candidate_change_Inr by blast
qed

lemma raw_observation_Inr: "raw_observation g x = (Inr w, y) \<Longrightarrow> y = x"
  by (auto simp: raw_observation_def split: option.splits if_splits)

lemma read_untracked_paths: "read_untracked g n paths x = (Inr fs, y) \<Longrightarrow> map cf_path fs = paths"
proof (induction paths arbitrary: n x fs)
  case (Cons p ps)
  then show ?case by (auto simp: eff_bind_Inr evidence_Inr candidate_file_def Let_def split: if_splits)
qed simp

lemma decode_paths_sorted: "decode_paths g raw = Inr paths \<Longrightarrow> sorted paths \<and> distinct paths"
  by (auto simp: decode_paths_def split: option.splits if_splits)

lemma those_paths:
  "those (map (dict_get (dict_of cf_path fs)) paths) = Some gs \<Longrightarrow> map cf_path gs = paths"
proof (induction paths arbitrary: gs)
  case (Cons p ps)
  then obtain g hs where g: "dict_get (dict_of cf_path fs) p = Some g" "those (map (dict_get (dict_of cf_path fs)) ps) = Some hs" "gs = g # hs"
    by (auto split: option.splits)
  then show ?case using Cons.IH [OF g(2)] dict_of_get_Some [OF g(1)] by simp
qed simp

lemma capture_untracked_paths:
  assumes "capture_untracked g x = (Inr fs, z)"
  shows "\<exists>y raw paths. gr_run g [''ls-files'', ''--others'', ''--exclude-standard'', ''-z''] x = (Inr raw, y)
    \<and> decode_paths g raw = Inr paths \<and> map cf_path (sort_key cf_path fs) = paths"
proof -
  from assms obtain raw y paths and w :: "raw_worktree option" where run: "gr_run g [''ls-files'', ''--others'', ''--exclude-standard'', ''-z''] x = (Inr raw, y)"
    "decode_paths g raw = Inr paths"
    and fs: "(case w of Some r \<Rightarrow>
          (case those (map (dict_get (dict_of cf_path (rw_files r))) paths) of
             None \<Rightarrow> sraise (Git_Integrity ''Untracked inventory differs from raw observation'') | Some fs \<Rightarrow> sreturn fs)
      | None \<Rightarrow> if max_capture_files < length paths then sraise (Git_Integrity ''Untracked inventory file limit exceeded'')
          else sbind (read_untracked g max_total_bytes paths) (\<lambda>fs. sreturn (sort_key cf_path fs))) y = (Inr fs, z)"
    by (auto simp: capture_untracked_def eff_bind_Inr dest!: raw_observation_Inr)
  have "mset (map cf_path fs) = mset paths"
    using fs by (auto simp: eff_bind_Inr split: option.splits if_splits dest!: those_paths read_untracked_paths)
  then have "mset (map cf_path (sort_key cf_path fs)) = mset paths" by simp
  moreover have "sorted (map cf_path (sort_key cf_path fs))" by (rule sorted_sort_key)
  moreover have "sorted paths" using decode_paths_sorted [OF run(2)] by simp
  ultimately have "map cf_path (sort_key cf_path fs) = paths" by (metis properties_for_sort)
  then show ?thesis using run by blast
qed

subsection \<open>What Git said\<close>

text \<open>A runner that also notes every command with its answer; its session and its reads are those of the runner.\<close>

type_synonym git_calls = "(string list \<times> (git_error + string)) list"

definition lifted :: "('x, git_error, 'a) eff \<Rightarrow> ('x \<times> git_calls, git_error, 'a) eff" where
  "lifted m z = (fst (m (fst z)), (snd (m (fst z)), snd z))"

definition noting_runner :: "'x git_runner \<Rightarrow> ('x \<times> git_calls) git_runner" where
  "noting_runner g = \<lparr>
     gr_run = (\<lambda>args z. let r = gr_run g args (fst z) in (fst r, (snd r, snd z @ [(args, fst r)]))),
     gr_raw = (\<lambda>z. gr_raw g (fst z)),
     gr_session = map_option (\<lambda>(enter, finish). (lifted enter, lifted finish)) (gr_session g),
     gr_read = (\<lambda>path n z. let r = gr_read g path n (fst z) in (fst r, (snd r, snd z))),
     gr_decode = gr_decode g, gr_bracketed_host = gr_bracketed_host g\<rparr>"

lemma noting_runner_run: "gr_run (noting_runner g) args z = (Inr a, z') \<Longrightarrow> snd z' = snd z @ [(args, Inr a)]"
  by (auto simp: noting_runner_def Let_def)

lemma noting_runner_sel [simp]:
  "decode_paths (noting_runner g) = decode_paths g" "gr_bracketed_host (noting_runner g) = gr_bracketed_host g"
  by (auto simp: noting_runner_def decode_paths_def fun_eq_iff)

abbreviation silent :: "'x \<times> git_calls \<Rightarrow> 'x \<times> git_calls \<Rightarrow> bool" where
  "silent z z' \<equiv> snd z' = snd z"

lemma silent_order: "reflp silent" "transp silent"
  by (auto intro: reflpI transpI)

lemma read_untracked_silent: "keeps silent (read_untracked (noting_runner g) n paths)"
proof (induction paths arbitrary: n)
  case Nil
  then show ?case by (simp add: keeps_def)
next
  case (Cons p ps)
  have "keeps silent (\<lambda>x. case gr_read (noting_runner g) p (min max_file_bytes n) x of
        (Inr (Some content), y) \<Rightarrow> (Inr content, y)
      | (_, y) \<Rightarrow> (Inl (Git_Failure (''Unable to read untracked file: '' @ p)), y))"
    by (auto simp: keeps_def noting_runner_def Let_def split: prod.splits sum.splits option.splits)
  then show ?case
    unfolding read_untracked.simps from_evidence_def using Cons.IH silent_order by (auto intro!: keeps_sbind)
qed

text \<open>
  \<open>reports g base p calls\<close>: the commands of one pass with their answers, read as the base, the head, the patches, their
  paths and the untracked paths of the candidate \<open>p\<close>.
\<close>

definition patch_of :: "change \<Rightarrow> preflight_error + string" where
  "patch_of c = decoded_content (ch_patch c) (ch_digest c)"

definition change_calls :: "'x git_runner \<Rightarrow> string list \<Rightarrow> string list \<Rightarrow> change \<Rightarrow> git_calls \<Rightarrow> bool" where
  "change_calls g sel refs c calls \<longleftrightarrow> (\<exists>patch raw.
     calls = [(''diff'' # sel @ [''--binary'', ''--full-index'', ''--no-ext-diff''] @ refs, Inr patch),
       (''diff'' # sel @ [''--name-only'', ''-z''] @ refs, Inr raw)]
     \<and> patch_of c = Inr patch \<and> decode_paths g raw = Inr (ch_paths c))"

definition reports :: "'x git_runner \<Rightarrow> string \<Rightarrow> preflight_candidate \<Rightarrow> git_calls \<Rightarrow> bool" where
  "reports g base p calls \<longleftrightarrow> (\<exists>b h committed staged unstaged u.
     calls = [([''rev-parse'', ''--verify'', base @ ''^{commit}''], Inr b), ([''rev-parse'', ''--verify'', ''HEAD^{commit}''], Inr h)]
       @ committed @ staged @ unstaged @ [([''ls-files'', ''--others'', ''--exclude-standard'', ''-z''], Inr u)]
     \<and> decode_sha b = Inr (pc_base_sha p) \<and> decode_sha h = Inr (pc_head_sha p)
     \<and> change_calls g [] [pc_base_sha p, pc_head_sha p] (pc_committed p) committed
     \<and> change_calls g [''--cached''] [] (pc_staged p) staged \<and> change_calls g [] [] (pc_unstaged p) unstaged
     \<and> decode_paths g u = Inr (map cf_path (pc_untracked p)))"

lemma sort_decoded: "decode_paths g raw = Inr paths \<Longrightarrow> sort paths = paths"
  using decode_paths_sorted sorted_sort_id by blast

lemma noted_change:
  assumes "capture_change (noting_runner g) kind (''diff'' # sel @ [''--binary'', ''--full-index'', ''--no-ext-diff''] @ refs)
      (''diff'' # sel @ [''--name-only'', ''-z''] @ refs) z = (Inr c, z')"
  shows "\<exists>calls. snd z' = snd z @ calls \<and> change_calls g sel refs c calls"
proof -
  let ?d = "''diff'' # sel @ [''--binary'', ''--full-index'', ''--no-ext-diff''] @ refs" and ?n = "''diff'' # sel @ [''--name-only'', ''-z''] @ refs"
  from capture_change_Inr [OF assms] obtain y patch raw paths
    where run: "gr_run (noting_runner g) ?d z = (Inr patch, y)" "gr_run (noting_runner g) ?n y = (Inr raw, z')"
      and c: "patch_of c = Inr patch" "decode_paths g raw = Inr paths" "ch_paths c = sort paths"
    by (auto simp: patch_of_def)
  have "snd z' = snd z @ [(?d, Inr patch), (?n, Inr raw)]"
    using noting_runner_run [OF run(1)] noting_runner_run [OF run(2)] by simp
  moreover have "decode_paths g raw = Inr (ch_paths c)" using c(2,3) sort_decoded [OF c(2)] by simp
  ultimately show ?thesis using c(1) unfolding change_calls_def by blast
qed

lemma noted_resolve:
  assumes "resolve_commit (noting_runner g) ref z = (Inr sha, z')"
  shows "\<exists>raw. snd z' = snd z @ [([''rev-parse'', ''--verify'', ref], Inr raw)] \<and> decode_sha raw = Inr sha"
  using assms by (auto simp: resolve_commit_def eff_bind_Inr dest!: noting_runner_run)

lemma noted_base:
  assumes "resolve_base (noting_runner g) base z = (Inr sha, z')"
  shows "\<exists>raw. snd z' = snd z @ [([''rev-parse'', ''--verify'', base @ ''^{commit}''], Inr raw)] \<and> decode_sha raw = Inr sha"
  using assms noted_resolve [of g "base @ ''^{commit}''" z sha z']
  by (auto simp: resolve_base_def scatch_def split: if_splits prod.splits sum.splits)

lemma raw_observation_silent: "keeps silent (raw_observation g)"
  by (auto simp: keeps_def raw_observation_def split: option.split)

lemma untracked_rest_silent:
  "keeps silent (\<lambda>z. sbind (spure (decode_paths (noting_runner g) raw)) (\<lambda>paths.
    sbind (raw_observation (noting_runner g)) (\<lambda>observed.
      case observed of
        Some w \<Rightarrow>
          (case those (map (dict_get (dict_of cf_path (rw_files w))) paths) of
             None \<Rightarrow> sraise (Git_Integrity ''Untracked inventory differs from raw observation'')
           | Some fs \<Rightarrow> sreturn fs)
      | None \<Rightarrow>
          if max_capture_files < length paths then sraise (Git_Integrity ''Untracked inventory file limit exceeded'')
          else sbind (read_untracked (noting_runner g) max_total_bytes paths) (\<lambda>fs. sreturn (sort_key cf_path fs)))) z)"
  using read_untracked_silent raw_observation_silent silent_order
  by (intro keeps_sbind) (auto intro!: keeps_sbind keeps_spure keeps_sreturn keeps_sraise split: option.split)

lemma noted_untracked:
  assumes "capture_untracked (noting_runner g) z = (Inr fs, z')"
  shows "\<exists>u. snd z' = snd z @ [([''ls-files'', ''--others'', ''--exclude-standard'', ''-z''], Inr u)]
    \<and> decode_paths g u = Inr (map cf_path (sort_key cf_path fs))"
proof -
  let ?ls = "[''ls-files'', ''--others'', ''--exclude-standard'', ''-z'']"
  obtain y raw paths where run: "gr_run (noting_runner g) ?ls z = (Inr raw, y)"
    and paths: "decode_paths g raw = Inr paths" "map cf_path (sort_key cf_path fs) = paths"
    using capture_untracked_paths [OF assms] by auto
  have "snd z' = snd y"
    using untracked_rest_silent [of g raw] assms run unfolding capture_untracked_def keeps_def
    by (auto simp: sbind_def [of "gr_run (noting_runner g) ?ls"] dest!: spec [of _ y])
  then show ?thesis using noting_runner_run [OF run] paths by auto
qed

lemma create_candidate_Inr:
  assumes "create_candidate h base head task committed staged unstaged fs raw = Inr p"
  shows "candidate_ok h p \<and> pc_base_sha p = base \<and> pc_head_sha p = head \<and> pc_task p = task \<and> pc_committed p = committed
    \<and> pc_staged p = staged \<and> pc_unstaged p = unstaged \<and> pc_untracked p = sort_key cf_path fs"
  using assms by (auto simp: create_candidate_def Let_def ebind_eq_Inr split: if_splits)

lemma noted_candidate:
  assumes "capture_candidate (noting_runner g) base task z = (Inr p, z')"
  shows "candidate_ok (gr_bracketed_host g) p \<and> pc_task p = task \<and> (\<exists>calls. snd z' = snd z @ calls \<and> reports g base p calls)"
proof -
  let ?diff = "\<lambda>sel refs. ''diff'' # sel @ [''--binary'', ''--full-index'', ''--no-ext-diff''] @ refs"
  let ?names = "\<lambda>sel refs. ''diff'' # sel @ [''--name-only'', ''-z''] @ refs"
  from assms obtain b h c s u fs w z1 z2 z3 z4 z5 z6
    where steps: "resolve_base (noting_runner g) base z = (Inr b, z1)"
      "resolve_commit (noting_runner g) ''HEAD^{commit}'' z1 = (Inr h, z2)"
      "capture_change (noting_runner g) Committed (?diff [] [b, h]) (?names [] [b, h]) z2 = (Inr c, z3)"
      "capture_change (noting_runner g) Staged (?diff [''--cached''] []) (?names [''--cached''] []) z3 = (Inr s, z4)"
      "capture_change (noting_runner g) Unstaged (?diff [] []) (?names [] []) z4 = (Inr u, z5)"
      "capture_untracked (noting_runner g) z5 = (Inr fs, z6)" "raw_observation (noting_runner g) z6 = (Inr w, z')"
    and made: "create_candidate (gr_bracketed_host g) b h task c s u fs w = Inr p"
    by (simp only: capture_candidate_def Let_def eff_bind_Inr evidence_Inr noting_runner_sel) blast
  note p = create_candidate_Inr [OF made]
  obtain cb where cb: "snd z1 = snd z @ [([''rev-parse'', ''--verify'', base @ ''^{commit}''], Inr cb)]" "decode_sha cb = Inr b"
    using noted_base [OF steps(1)] by blast
  obtain ch where ch: "snd z2 = snd z1 @ [([''rev-parse'', ''--verify'', ''HEAD^{commit}''], Inr ch)]" "decode_sha ch = Inr h"
    using noted_resolve [OF steps(2)] by blast
  obtain cc where cc: "snd z3 = snd z2 @ cc" "change_calls g [] [b, h] c cc" using noted_change [OF steps(3)] by blast
  obtain cs where cs: "snd z4 = snd z3 @ cs" "change_calls g [''--cached''] [] s cs" using noted_change [OF steps(4)] by blast
  obtain cu where cu: "snd z5 = snd z4 @ cu" "change_calls g [] [] u cu" using noted_change [OF steps(5)] by blast
  obtain cl where cl: "snd z6 = snd z5 @ [([''ls-files'', ''--others'', ''--exclude-standard'', ''-z''], Inr cl)]"
    "decode_paths g cl = Inr (map cf_path (sort_key cf_path fs))" using noted_untracked [OF steps(6)] by blast
  let ?calls = "[([''rev-parse'', ''--verify'', base @ ''^{commit}''], Inr cb), ([''rev-parse'', ''--verify'', ''HEAD^{commit}''], Inr ch)]
    @ cc @ cs @ cu @ [([''ls-files'', ''--others'', ''--exclude-standard'', ''-z''], Inr cl)]"
  have "snd z' = snd z @ ?calls"
    using raw_observation_Inr [OF steps(7)] cb(1) ch(1) cc(1) cs(1) cu(1) cl(1) by simp
  moreover have "reports g base p ?calls"
    unfolding reports_def
    by (rule exI [of _ cb], rule exI [of _ ch], rule exI [of _ cc], rule exI [of _ cs], rule exI [of _ cu], rule exI [of _ cl])
      (use p cb(2) ch(2) cc(2) cs(2) cu(2) cl(2) in simp)
  ultimately show ?thesis using p by blast
qed

text \<open>The session's own work leaves the notes alone.\<close>

lemma in_session_Inr:
  assumes "in_session (noting_runner g) m z = (Inr r, z')"
  shows "\<exists>y y'. snd y = snd z \<and> m y = (Inr r, y') \<and> snd z' = snd y'"
proof (cases "gr_session g")
  case None
  then show ?thesis using assms by (auto simp: in_session_def noting_runner_def)
next
  case (Some session)
  obtain enter finish where session: "session = (enter, finish)" by (cases session)
  then have "gr_session (noting_runner g) = Some (lifted enter, lifted finish)" using Some by (simp add: noting_runner_def)
  then obtain y y' where run: "lifted enter z = (Inr (), y)" "m y = (Inr r, y')" "lifted finish y' = (Inr (), z')"
    using assms by (auto simp: in_session_def eff_bind_Inr scatch_Inr)
  have "snd y = snd z" "snd z' = snd y'" using run(1,3) by (auto simp: lifted_def)
  with run(2) show ?thesis by blast
qed

text \<open>
  C8. A captured candidate is what Git said, twice. When a capture returns a candidate, the runner answered every command
  of two whole passes and their answers are its base, its head, its patches with their paths and its untracked paths, both
  times; the head is still the same afterwards; the candidate is valid for the very task given, and no other valid candidate
  has its digest, short of a collision.
\<close>

theorem captures_are_stable:
  assumes "capture (noting_runner g) is_directory base task (x, []) = (Inr p, (y, calls))"
  shows "candidate_ok (gr_bracketed_host g) p \<and> pc_task p = task
    \<and> (\<exists>inside first second head. calls = ([''rev-parse'', ''--is-inside-work-tree''], Inr inside) # first @ second
          @ [([''rev-parse'', ''--verify'', ''HEAD^{commit}''], Inr head)]
        \<and> bytes_strip inside = ''true'' \<and> reports g base p first \<and> reports g base p second
        \<and> decode_sha head = Inr (pc_head_sha p))
    \<and> (\<forall>q. candidate_ok (gr_bracketed_host g) q \<and> pc_digest q = pc_digest p
        \<and> collision_free (ascii_bytes (candidate_fields q)) (ascii_bytes (candidate_fields p))
        \<and> collision_free (ascii_bytes (task_fields (pc_task q))) (ascii_bytes (task_fields (pc_task p))) \<longrightarrow> q = p)"
proof -
  let ?g = "noting_runner g"
  let ?body = "sbind (ensure_repository ?g) (\<lambda>_.
        sbind (capture_candidate ?g base task) (\<lambda>first.
        sbind (capture_candidate ?g base task) (\<lambda>second.
          if first \<noteq> second then sraise (Git_Failure ''Git candidate changed during capture; retry a stable tree'')
          else sbind (resolve_commit ?g ''HEAD^{commit}'') (\<lambda>head.
            if head \<noteq> pc_head_sha first
            then sraise (Git_Failure ''Git candidate changed during capture; retry a stable tree'')
            else sreturn first))))"
  have "in_session ?g ?body (x, []) = (Inr p, (y, calls))"
    using assms by (simp add: capture_def split: if_splits)
  from in_session_Inr [OF this] obtain z0 z5 where body: "snd z0 = []" "?body z0 = (Inr p, z5)" "snd z5 = calls" by auto
  from body(2) obtain z1 z2 z3 q where steps: "ensure_repository ?g z0 = (Inr (), z1)"
    "capture_candidate ?g base task z1 = (Inr p, z2)" "capture_candidate ?g base task z2 = (Inr q, z3)" "q = p"
    "resolve_commit ?g ''HEAD^{commit}'' z3 = (Inr (pc_head_sha p), z5)"
    by (auto simp: eff_bind_Inr split: if_splits)
  obtain inside where inside: "snd z1 = [([''rev-parse'', ''--is-inside-work-tree''], Inr inside)]" "bytes_strip inside = ''true''"
    using steps(1) body(1) by (auto simp: ensure_repository_def split: prod.splits sum.splits if_splits dest!: noting_runner_run)
  obtain first where first: "snd z2 = snd z1 @ first" "reports g base p first" using noted_candidate [OF steps(2)] by blast
  obtain second where second: "snd z3 = snd z2 @ second" "reports g base p second"
    using noted_candidate [OF steps(3)] steps(4) by blast
  obtain head where head: "snd z5 = snd z3 @ [([''rev-parse'', ''--verify'', ''HEAD^{commit}''], Inr head)]"
    "decode_sha head = Inr (pc_head_sha p)" using noted_resolve [OF steps(5)] by blast
  have "calls = ([''rev-parse'', ''--is-inside-work-tree''], Inr inside) # first @ second
      @ [([''rev-parse'', ''--verify'', ''HEAD^{commit}''], Inr head)]"
    using body(3) inside(1) first(1) second(1) head(1) by simp
  then show ?thesis
    using noted_candidate [OF steps(2)] inside(2) first(2) second(2) head(2) candidate_digest_binds by blast
qed

subsection \<open>An example\<close>

lemma bytes_digest_ok: "digest_ok (bytes_digest s)"
  by (simp add: digest_ok_def bytes_digest_def sha256_hex_shape)

lemma ascii_digest_ok: "digest_ok (ascii_digest flds)"
  by (simp add: ascii_digest_def bytes_digest_ok)

definition ex_task :: task_context where
  "ex_task = (let t = \<lparr>tk_provider = ''github'', tk_repository = ''o/r'', tk_work_item = ''7'', tk_title = ''t'', tk_body = [],
      tk_labels = [], tk_source_url = ''https://h/o/r/issues/7'', tk_digest = []\<rparr> in
    t\<lparr>tk_digest := ascii_digest (task_fields t)\<rparr>)"

definition ex_answer :: "string list \<Rightarrow> string" where
  "ex_answer args = (if args = [''rev-parse'', ''--is-inside-work-tree''] then ''true''
     else if take 2 args = [''rev-parse'', ''--verify''] then ''c0ffee''
     else if ''--binary'' \<in> set args then ''patch'' else [])"

definition ex_runner :: "unit git_runner" where
  "ex_runner = \<lparr>gr_run = (\<lambda>args x. (Inr (ex_answer args), x)), gr_raw = (\<lambda>_. None), gr_session = None,
     gr_read = (\<lambda>_ _ x. (Inl (), x)), gr_decode = Some, gr_bracketed_host = (\<lambda>_. False)\<rparr>"

lemma ex_runs:
  "gr_run (noting_runner ex_runner) args z = (Inr (ex_answer args), ((), snd z @ [(args, Inr (ex_answer args))]))"
  "raw_observation (noting_runner ex_runner) z = (Inr None, z)"
  "gr_bracketed_host ex_runner = (\<lambda>_. False)"
  "gr_session (noting_runner ex_runner) = None"
  by (simp_all add: noting_runner_def ex_runner_def raw_observation_def)

lemma ex_task_ok: "task_ok (\<lambda>_. False) ex_task"
proof -
  have "url_split (\<lambda>_. False) ''https://h/o/r/issues/7'' = Some \<lparr>su_scheme = ''https'', su_netloc = ''h'',
      su_path = ''/o/r/issues/7'', su_query = [], su_fragment = []\<rparr>" by code_simp
  moreover have "url_hostname \<lparr>su_scheme = ''https'', su_netloc = ''h'', su_path = ''/o/r/issues/7'', su_query = [], su_fragment = []\<rparr>
      = Some ''h''" by code_simp
  moreover have "candidate_path_ok ''o/r''" "owner_slash_name ''o/r''" "issue_number ''7''" by code_simp+
  ultimately have "source_identity_ok (\<lambda>_. False) ex_task"
    by (simp add: source_identity_ok_def ex_task_def starts_with_def url_username_def url_password_def url_port_def
        host_and_port_def after_last_def text_after_def text_before_def Let_def)
  then show ?thesis
    using \<open>owner_slash_name ''o/r''\<close> \<open>issue_number ''7''\<close> ascii_digest_ok
    by (simp add: task_ok_def ex_task_def canonical_paths_def Let_def task_fields_def)
qed

definition ex_change :: "change_kind \<Rightarrow> change" where
  "ex_change k = \<lparr>ch_kind = k, ch_paths = [], ch_patch = padded_encode ''patch'', ch_digest = bytes_digest ''patch''\<rparr>"

lemma ex_changes: "candidate_change k [] ''patch'' = Inr (ex_change k)" "change_ok (ex_change k)"
  using decoded_content_encode [of "''patch''"]
  by (simp_all add: candidate_change_def change_ok_def ex_change_def Let_def bytes_digest_ok canonical_paths_def succeeds_def)

definition ex_capture :: preflight_candidate where
  "ex_capture = (let p = \<lparr>pc_base_sha = ''c0ffee'', pc_head_sha = ''c0ffee'', pc_task = ex_task,
      pc_committed = ex_change Committed, pc_staged = ex_change Staged, pc_unstaged = ex_change Unstaged, pc_untracked = [],
      pc_raw = None, pc_digest = []\<rparr> in p\<lparr>pc_digest := ascii_digest (candidate_fields p)\<rparr>)"

lemma ex_created:
  "create_candidate (\<lambda>_. False) ''c0ffee'' ''c0ffee'' ex_task (ex_change Committed) (ex_change Staged) (ex_change Unstaged) [] None
    = Inr ex_capture"
proof -
  have "ch_kind (ex_change k) = k" for k by (simp add: ex_change_def)
  then show ?thesis
    using ex_task_ok ex_changes(2) ascii_digest_ok
    by (simp add: create_candidate_def candidate_digest_def candidate_children_ok_def candidate_ok_def Let_def ex_capture_def
        canonical_paths_def candidate_fields_def)
qed

lemma ex_decodes: "decode_sha ''c0ffee'' = Inr ''c0ffee''" "decode_paths ex_runner [] = Inr []"
  by code_simp+

lemma ex_pass: "\<exists>calls. capture_candidate (noting_runner ex_runner) ''main'' ex_task z = (Inr ex_capture, ((), calls))"
  by (simp add: capture_candidate_def resolve_base_def resolve_commit_def capture_change_def capture_untracked_def Let_def
      sbind_def scatch_def ex_runs ex_answer_def ex_decodes from_evidence_def ex_changes ex_created max_capture_files_def)

theorem captures_are_stable_witness:
  "\<exists>calls. capture (noting_runner ex_runner) True ''main'' ex_task ((), []) = (Inr ex_capture, ((), calls))
    \<and> candidate_ok (\<lambda>_. False) ex_capture \<and> length calls = 20"
proof -
  have inside: "bytes_strip ''true'' = ''true''" by code_simp
  obtain c1 where first: "capture_candidate (noting_runner ex_runner) ''main'' ex_task
      ((), [([''rev-parse'', ''--is-inside-work-tree''], Inr ''true'')]) = (Inr ex_capture, ((), c1))"
    using ex_pass by blast
  obtain c2 where second: "capture_candidate (noting_runner ex_runner) ''main'' ex_task ((), c1) = (Inr ex_capture, ((), c2))"
    using ex_pass by blast
  have "pc_head_sha ex_capture = ''c0ffee''" by (simp add: ex_capture_def Let_def)
  then have "\<exists>calls. capture (noting_runner ex_runner) True ''main'' ex_task ((), []) = (Inr ex_capture, ((), calls))"
    using inside first second ex_task_ok
    by (simp add: capture_def in_session_def ensure_repository_def resolve_commit_def sbind_def ex_runs ex_answer_def ex_decodes)
  then obtain calls where run: "capture (noting_runner ex_runner) True ''main'' ex_task ((), []) = (Inr ex_capture, ((), calls))"
    by blast
  have "length first = 9" if "reports ex_runner ''main'' ex_capture first" for first
    using that by (auto simp: reports_def change_calls_def)
  then have "candidate_ok (\<lambda>_. False) ex_capture \<and> length calls = 20"
    using captures_are_stable [OF run] by (auto simp: ex_runs)
  with run show ?thesis by blast
qed

end
