(* ===== verification/Access_Tokens.thy ===== *)
theory Access_Tokens
  imports Discussion_Agents Py_Text
begin

text \<open>
  Who a caller is: \<^verbatim>\<open>HmacTokenIssuer\<close> (\<^verbatim>\<open>application/service.py\<close>), the local issuer and verifier of bearer tokens,
  and \<^verbatim>\<open>OidcPrincipalVerifier\<close> (\<^verbatim>\<open>adapters/oidc_auth.py\<close>). Both are verifiers of the service, whose outcome is a
  principal, a refusal (a \<^verbatim>\<open>ValueError\<close>) or an exception the service does not catch.

  Bytes are characters. \<open>tk_loads\<close> is \<^verbatim>\<open>json.loads\<close> on bytes; a float is read as \<^const>\<open>JNull\<close>, which every check here
  treats alike, and too deep a nesting, a \<^verbatim>\<open>RecursionError\<close>, is \<open>Json_Crash\<close>. \<open>tk_seconds\<close> is \<^verbatim>\<open>int(t.timestamp())\<close>, whose
  floating point is left open.
\<close>

subsection \<open>HMAC\<close>

definition sha256_digest :: "string \<Rightarrow> string" where
  "sha256_digest msg =
    (let ws = be_words (pad_message (map of_char msg)) in
     concat (map (\<lambda>w. map char_of (be_bytes 4 (unat w))) (hash_words (hash_blocks (length ws div 16) ws initial_hash))))"

definition xor_char :: "nat \<Rightarrow> char \<Rightarrow> char" where
  "xor_char n c = char_of (xor (of_char c) n)"

definition hmac_sha256 :: "string \<Rightarrow> string \<Rightarrow> string" where
  "hmac_sha256 key msg =
    (let k = (if 64 < length key then sha256_digest key else key);
         block = k @ replicate (64 - length k) (CHR 0x00) in
     sha256_digest (map (xor_char 92) block @ sha256_digest (map (xor_char 54) block @ msg)))"

definition ascii :: "string \<Rightarrow> bool" where
  "ascii s \<longleftrightarrow> list_all (\<lambda>c. (of_char c :: nat) < 128) s"

text \<open>\<^verbatim>\<open>hmac.compare_digest\<close> on strings raises \<^verbatim>\<open>TypeError\<close>, here \<open>None\<close>, unless both are ASCII.\<close>

definition compare_digest :: "string \<Rightarrow> string \<Rightarrow> bool option" where
  "compare_digest a b = (if ascii a \<and> ascii b then Some (a = b) else None)"

subsection \<open>Times\<close>

definition unix_epoch :: moment where
  "unix_epoch = 719162 * 86400 * 1000000"

definition from_timestamp :: "int \<Rightarrow> moment option" where
  "from_timestamp s = (let m = unix_epoch + s * 1000000 in if 0 \<le> m \<and> m < dt_limit then Some m else None)"

subsection \<open>Tokens of the local issuer\<close>

record token_issuer =
  tk_secret :: string
  tk_issuer :: string
  tk_audience :: string
  tk_loads :: "string \<Rightarrow> json_reading"
  tk_seconds :: "moment \<Rightarrow> int"

definition issuer_ok :: "token_issuer \<Rightarrow> bool" where
  "issuer_ok t \<longleftrightarrow> 16 \<le> length (tk_secret t) \<and> strip (tk_issuer t) \<noteq> [] \<and> strip (tk_audience t) \<noteq> []"

definition encode_segment :: "json \<Rightarrow> string" where
  "encode_segment v = encode_with url_alphabet (utf8 (jprint False v))"

definition decode_segment :: "token_issuer \<Rightarrow> string \<Rightarrow> json_reading" where
  "decode_segment t segment =
    (if segment = [] \<or> \<not> set segment \<subseteq> set url_alphabet then Bad_Json
     else case decode_with url_alphabet segment of
       None \<Rightarrow> Bad_Json
     | Some raw \<Rightarrow> (case tk_loads t raw of
         Reads v \<Rightarrow> if unique_keys v then Reads v else Bad_Json | r \<Rightarrow> r))"

definition token_header :: json where
  "token_header = JObj [(''alg'', JStr ''HS256''), (''typ'', JStr ''JWT'')]"

definition role_string :: "role \<Rightarrow> string" where
  "role_string r = (case r of Viewer \<Rightarrow> ''viewer'' | Operator \<Rightarrow> ''operator'' | Admin \<Rightarrow> ''admin'')"

definition token_payload :: "token_issuer \<Rightarrow> string \<Rightarrow> string \<Rightarrow> role list \<Rightarrow> int \<Rightarrow> int \<Rightarrow> json" where
  "token_payload t tenant subject roles issued expires = JObj
    [(''iss'', JStr (tk_issuer t)), (''aud'', JStr (tk_audience t)), (''sub'', JStr subject), (''tenant'', JStr tenant),
     (''roles'', json_list (JStr \<circ> role_string) roles), (''iat'', JInt issued), (''exp'', JInt expires)]"

definition token_signature :: "token_issuer \<Rightarrow> string \<Rightarrow> string" where
  "token_signature t signed_part = encode_with url_alphabet (hmac_sha256 (tk_secret t) signed_part)"

definition issue_token :: "token_issuer \<Rightarrow> string \<Rightarrow> string \<Rightarrow> role list \<Rightarrow> datetime \<Rightarrow> int \<Rightarrow> string option" where
  "issue_token t tenant subject roles now lifetime =
    (case utc now of
       None \<Rightarrow> None
     | Some current \<Rightarrow>
         if lifetime \<le> 0 \<or> dt_limit \<le> current + lifetime * 1000000 then None
         else
           let signed_part = encode_segment token_header @ ''.'' @ encode_segment
             (token_payload t tenant subject roles (tk_seconds t current) (tk_seconds t (current + lifetime * 1000000))) in
           Some (signed_part @ ''.'' @ token_signature t signed_part))"

definition role_of :: "string \<Rightarrow> role option" where
  "role_of s = (if s = ''viewer'' then Some Viewer else if s = ''operator'' then Some Operator
     else if s = ''admin'' then Some Admin else None)"

text \<open>\<^verbatim>\<open>Principal.model_validate\<close> on the claims.\<close>

definition make_principal ::
  "string \<Rightarrow> string \<Rightarrow> string \<Rightarrow> string \<Rightarrow> string list \<Rightarrow> moment \<Rightarrow> moment \<Rightarrow> auth_outcome"
where
  "make_principal tenant subject issuer audience roles issued expires =
    (case those (map role_of roles) of
       None \<Rightarrow> Auth_Rejected
     | Some rs \<Rightarrow>
         let p = \<lparr>pr_tenant = tenant, pr_subject = subject, pr_issuer = issuer, pr_audience = audience, pr_roles = rs,
                  pr_issued_at = issued, pr_expires_at = expires\<rparr> in
         if valid_principal p then Verified p else Auth_Rejected)"

definition check_claims :: "token_issuer \<Rightarrow> json \<Rightarrow> datetime \<Rightarrow> auth_outcome" where
  "check_claims t payload now =
    (if json_get payload ''iss'' \<noteq> Some (JStr (tk_issuer t)) \<or> json_get payload ''aud'' \<noteq> Some (JStr (tk_audience t))
     then Auth_Rejected
     else case (json_int (json_get payload ''iat''), json_int (json_get payload ''exp'')) of
       (Some issued, Some expires) \<Rightarrow>
         (case (from_timestamp issued, from_timestamp expires, utc now) of
            (Some issued_at, Some expires_at, Some current) \<Rightarrow>
              if current < issued_at \<or> expires_at \<le> current then Auth_Rejected
              else (case (json_str (json_get payload ''sub''), json_str (json_get payload ''tenant''),
                          json_str_list (json_get payload ''roles'')) of
                (Some subject, Some tenant, Some roles) \<Rightarrow>
                  make_principal tenant subject (tk_issuer t) (tk_audience t) roles issued_at expires_at
              | _ \<Rightarrow> Auth_Rejected)
          | _ \<Rightarrow> Auth_Rejected)
     | _ \<Rightarrow> Auth_Rejected)"

definition verify_token :: "token_issuer \<Rightarrow> string \<Rightarrow> datetime \<Rightarrow> auth_outcome" where
  "verify_token t token now =
    (case split_on (CHR ''.'') token of
       [header, payload, signature] \<Rightarrow>
         (case (decode_segment t header, decode_segment t payload) of
            (Json_Crash, _) \<Rightarrow> Auth_Crashed
          | (Bad_Json, _) \<Rightarrow> Auth_Rejected
          | (Reads h, Json_Crash) \<Rightarrow> Auth_Crashed
          | (Reads h, Bad_Json) \<Rightarrow> Auth_Rejected
          | (Reads h, Reads claims) \<Rightarrow>
              if canon h \<noteq> token_header \<or> \<not> is_object claims then Auth_Rejected
              else (case compare_digest (token_signature t (header @ ''.'' @ payload)) signature of
                None \<Rightarrow> Auth_Crashed
              | Some False \<Rightarrow> Auth_Rejected
              | Some True \<Rightarrow> check_claims t claims now))
     | _ \<Rightarrow> Auth_Rejected)"

subsection \<open>OIDC\<close>

text \<open>
  \<open>oi_decode\<close> is the resolution of the signing key and \<^verbatim>\<open>jwt.decode\<close> with its issuer and audience: the claims of a
  token whose signature holds.
\<close>

record 'x oidc_verifier =
  oi_issuer :: string
  oi_audience :: string
  oi_tenant_claim :: string
  oi_roles_claim :: string
  oi_seconds :: "moment \<Rightarrow> int"
  oi_decode :: "string \<Rightarrow> 'x \<Rightarrow> json option \<times> 'x"

definition oidc_claims :: "'x oidc_verifier \<Rightarrow> json \<Rightarrow> moment \<Rightarrow> auth_outcome" where
  "oidc_claims oi claims current =
    (case (json_int (json_get claims ''iat''), json_int (json_get claims ''exp''), json_str (json_get claims ''sub''),
           json_str (json_get claims (oi_tenant_claim oi)), json_str_list (json_get claims (oi_roles_claim oi)),
           (case json_get claims ''nbf'' of None \<Rightarrow> json_int (json_get claims ''iat'') | v \<Rightarrow> json_int v)) of
       (Some issued, Some expires, Some subject, Some tenant, Some roles, Some not_before) \<Rightarrow>
         (let present = oi_seconds oi current in
          if present < issued \<or> present < not_before \<or> expires \<le> present then Auth_Rejected
          else (case (from_timestamp issued, from_timestamp expires) of
            (Some issued_at, Some expires_at) \<Rightarrow>
              make_principal tenant subject (oi_issuer oi) (oi_audience oi) roles issued_at expires_at
          | _ \<Rightarrow> Auth_Rejected))
     | _ \<Rightarrow> Auth_Rejected)"

definition oidc_nonce :: "json \<Rightarrow> string option \<Rightarrow> bool option" where
  "oidc_nonce claims expected =
    (case expected of
       None \<Rightarrow> Some True
     | Some n \<Rightarrow> (case json_str (json_get claims ''nonce'') of None \<Rightarrow> Some False | Some m \<Rightarrow> compare_digest m n))"

definition oidc_verify ::
  "'x oidc_verifier \<Rightarrow> string option \<Rightarrow> string \<Rightarrow> datetime \<Rightarrow> 'x \<Rightarrow> auth_outcome \<times> 'x"
where
  "oidc_verify oi expected_nonce token now x =
    (if token = [] \<or> 32768 < length token then (Auth_Rejected, x)
     else case utc now of
       None \<Rightarrow> (Auth_Rejected, x)
     | Some current \<Rightarrow>
         case oi_decode oi token x of
           (None, y) \<Rightarrow> (Auth_Rejected, y)
         | (Some claims, y) \<Rightarrow>
             (case oidc_nonce claims expected_nonce of
                None \<Rightarrow> Auth_Crashed
              | Some False \<Rightarrow> Auth_Rejected
              | Some True \<Rightarrow> oidc_claims oi claims current, y))"

text \<open>The local issuer as the service's verifier.\<close>

definition token_verifier :: "token_issuer \<Rightarrow> string \<Rightarrow> datetime \<Rightarrow> 'x \<Rightarrow> auth_outcome \<times> 'x" where
  "token_verifier t token now x = (verify_token t token now, x)"

end
