(* ===== verification/Access_Properties.thy ===== *)
theory Access_Properties
  imports Access_Tokens
begin

text \<open>
  What a verified token proves: its signature was made with the issuer's secret, and its claims are those that were
  issued, inside their window.
\<close>

subsection \<open>Acceptance\<close>

lemma verify_token_signed:
  assumes "verify_token t token now = Verified p"
  shows "\<exists>h b claims. token = h @ ''.'' @ b @ ''.'' @ token_signature t (h @ ''.'' @ b)
    \<and> decode_segment t b = Reads claims \<and> check_claims t claims now = Verified p"
proof -
  from assms obtain h b s claims where parts: "split_on (CHR ''.'') token = [h, b, s]"
    and b: "decode_segment t b = Reads claims" and c: "check_claims t claims now = Verified p"
    and s: "compare_digest (token_signature t (h @ ''.'' @ b)) s = Some True"
    by (auto simp: verify_token_def split: list.splits json_reading.splits if_splits option.splits bool.splits)
  have "token = h @ ''.'' @ b @ ''.'' @ s"
    using join_split [of "CHR ''.''" token] parts by simp
  moreover have "s = token_signature t (h @ ''.'' @ b)"
    using s by (simp add: compare_digest_def split: if_splits)
  ultimately show ?thesis using b c by blast
qed

lemma make_principal_Verified:
  assumes "make_principal tenant subject issuer audience roles issued expires = Verified p"
  shows "valid_principal p \<and> pr_issuer p = issuer \<and> pr_audience p = audience \<and> pr_issued_at p = issued \<and> pr_expires_at p = expires"
  using assms by (auto simp: make_principal_def Let_def split: option.splits if_splits)

lemma check_claims_Verified:
  assumes "check_claims t claims now = Verified p"
  shows "valid_principal p \<and> pr_issuer p = tk_issuer t \<and> pr_audience p = tk_audience t
    \<and> (\<exists>m. utc now = Some m \<and> pr_issued_at p \<le> m \<and> m < pr_expires_at p)"
proof -
  from assms obtain issued expires m tenant subject roles where "utc now = Some m" "issued \<le> m" "m < expires"
    and "make_principal tenant subject (tk_issuer t) (tk_audience t) roles issued expires = Verified p"
    by (auto simp: check_claims_def not_le not_less split: option.splits if_splits prod.splits)
  then show ?thesis using make_principal_Verified by metis
qed

subsection \<open>Issued tokens\<close>

lemma segment_no_dot: "CHR ''.'' \<notin> set (encode_with url_alphabet s)"
proof -
  have "CHR ''.'' \<notin> set url_alphabet" by (simp add: url_alphabet_def)
  then show ?thesis using encode_alphabet [OF alphabets(4), of s] by blast
qed

lemma decode_encode_segment:
  assumes "tk_loads t (utf8 (jprint False v)) = Reads v" "unique_keys v" "jprint False v \<noteq> []"
  shows "decode_segment t (encode_segment v) = Reads v"
proof -
  have "utf8 (jprint False v) \<noteq> []"
    using assms(3) by (cases "jprint False v") (simp_all add: utf8_def utf8_char_nonempty)
  then show ?thesis
    using assms(1,2) encode_nonempty [of "utf8 (jprint False v)" url_alphabet] encode_alphabet [OF alphabets(4)]
      decode_encode [OF alphabets(3,4)]
    by (simp add: decode_segment_def encode_segment_def)
qed

lemma split_segments:
  "split_on (CHR ''.'') (encode_segment h @ ''.'' @ encode_segment b @ ''.'' @ s) =
    encode_segment h # encode_segment b # split_on (CHR ''.'') s"
  using segment_no_dot by (simp add: encode_segment_def split_on_append)

lemma role_of_string: "those (map role_of (map role_string rs)) = Some rs"
  by (induction rs) (auto simp: role_of_def role_string_def split: role.split)

lemma those_JStr: "those (map (json_str \<circ> Some) (map (JStr \<circ> f) xs)) = Some (map f xs)"
  by (induction xs) auto

definition issued_principal :: "token_issuer \<Rightarrow> string \<Rightarrow> string \<Rightarrow> role list \<Rightarrow> int \<Rightarrow> int \<Rightarrow> principal" where
  "issued_principal t tenant subject roles issued expires =
    \<lparr>pr_tenant = tenant, pr_subject = subject, pr_issuer = tk_issuer t, pr_audience = tk_audience t, pr_roles = roles,
     pr_issued_at = unix_epoch + issued * 1000000, pr_expires_at = unix_epoch + expires * 1000000\<rparr>"

lemma check_issued:
  assumes "from_timestamp issued = Some (unix_epoch + issued * 1000000)"
    "from_timestamp expires = Some (unix_epoch + expires * 1000000)"
    and "valid_principal (issued_principal t tenant subject roles issued expires)"
  shows "check_claims t (token_payload t tenant subject roles issued expires) now =
    (case utc now of None \<Rightarrow> Auth_Rejected
     | Some m \<Rightarrow> if unix_epoch + issued * 1000000 \<le> m \<and> m < unix_epoch + expires * 1000000
         then Verified (issued_principal t tenant subject roles issued expires) else Auth_Rejected)"
proof -
  have "make_principal tenant subject (tk_issuer t) (tk_audience t) (map role_string roles)
      (unix_epoch + issued * 1000000) (unix_epoch + expires * 1000000) =
      Verified (issued_principal t tenant subject roles issued expires)"
    using assms(3) unfolding make_principal_def role_of_string by (simp add: issued_principal_def)
  then show ?thesis
    using assms(1,2) those_JStr [of role_string roles]
    by (auto simp: check_claims_def token_payload_def json_list_def split: option.split)
qed

lemma token_header_facts:
  "unique_keys token_header" "jprint False token_header \<noteq> []" "canon token_header = token_header" "is_object token_header"
  by (simp_all add: token_header_def json_quote_def)

lemma token_payload_facts:
  "unique_keys (token_payload t tenant subject roles issued expires)"
  "jprint False (token_payload t tenant subject roles issued expires) \<noteq> []"
  "is_object (token_payload t tenant subject roles issued expires)"
  by (auto simp: token_payload_def json_list_def list_all_iff)

lemma ascii_signature: "ascii (token_signature t s)"
proof -
  have "list_all (\<lambda>c. (of_char c :: nat) < 128) url_alphabet" by code_simp
  then have "\<forall>c \<in> set url_alphabet. (of_char c :: nat) < 128" by (simp only: list_all_iff)
  then show ?thesis
    using encode_alphabet [OF alphabets(4), of "hmac_sha256 (tk_secret t) s"]
    by (auto simp: ascii_def list_all_iff token_signature_def)
qed

lemma verify_segments:
  assumes "tk_loads t (utf8 (jprint False token_header)) = Reads token_header"
    and "tk_loads t (utf8 (jprint False payload)) = Reads payload"
    and "unique_keys payload" "jprint False payload \<noteq> []" "is_object payload" "CHR ''.'' \<notin> set s"
  shows "verify_token t (encode_segment token_header @ ''.'' @ encode_segment payload @ ''.'' @ s) later =
    (if \<not> ascii s then Auth_Crashed
     else if s = token_signature t (encode_segment token_header @ ''.'' @ encode_segment payload)
     then check_claims t payload later else Auth_Rejected)"
proof -
  have "split_on (CHR ''.'') s = [s]" using assms(6) by (rule split_on_none)
  then have "split_on (CHR ''.'') (encode_segment token_header @ ''.'' @ encode_segment payload @ ''.'' @ s) =
      [encode_segment token_header, encode_segment payload, s]"
    by (simp only: split_segments)
  then show ?thesis
    using decode_encode_segment [OF assms(1) token_header_facts(1,2)] decode_encode_segment [OF assms(2,3,4)] assms(5)
      ascii_signature token_header_facts(3)
    unfolding verify_token_def by (auto simp: compare_digest_def simp del: append_Cons)
qed

lemma issue_token_Some:
  assumes "issue_token t tenant subject roles now lifetime = Some token" "utc now = Some m"
  defines "payload \<equiv> token_payload t tenant subject roles (tk_seconds t m) (tk_seconds t (m + lifetime * 1000000))"
  shows "0 < lifetime \<and> m + lifetime * 1000000 < dt_limit \<and> token = encode_segment token_header @ ''.'' @ encode_segment payload
    @ ''.'' @ token_signature t (encode_segment token_header @ ''.'' @ encode_segment payload)"
  using assms by (simp add: issue_token_def Let_def split: if_splits)

text \<open>
  C31. A bearer token is worth exactly what was issued. An accepted token ends in the issuer's own signature of its first
  two segments, names its issuer and audience, and is within its window. A token just issued, in either of whose segments any
  other signature is put, is verified only with the signature it was issued with, and then yields the issued principal
  precisely from the second of its issue until the second of its expiry; but a foreign signature outside ASCII is not
  refused: it crashes the request.
\<close>

theorem tokens_are_authentic:
  assumes "issue_token t tenant subject roles now lifetime = Some token" "utc now = Some m" "unix_epoch \<le> m"
  defines "issued \<equiv> (m - unix_epoch) div 1000000"
  defines "payload \<equiv> token_payload t tenant subject roles issued (issued + lifetime)"
  assumes seconds: "tk_seconds t m = issued" "tk_seconds t (m + lifetime * 1000000) = issued + lifetime"
    and reads: "tk_loads t (utf8 (jprint False token_header)) = Reads token_header"
      "tk_loads t (utf8 (jprint False payload)) = Reads payload"
    and valid: "valid_principal (issued_principal t tenant subject roles issued (issued + lifetime))"
  shows "(\<exists>signed. token = signed @ ''.'' @ token_signature t signed \<and> (\<forall>s later. CHR ''.'' \<notin> set s \<longrightarrow>
      verify_token t (signed @ ''.'' @ s) later =
        (if \<not> ascii s then Auth_Crashed
         else if s \<noteq> token_signature t signed then Auth_Rejected
         else case utc later of None \<Rightarrow> Auth_Rejected
         | Some k \<Rightarrow> if unix_epoch + issued * 1000000 \<le> k \<and> k < unix_epoch + (issued + lifetime) * 1000000
             then Verified (issued_principal t tenant subject roles issued (issued + lifetime)) else Auth_Rejected)))
    \<and> (\<forall>other later p. verify_token t other later = Verified p \<longrightarrow>
      (\<exists>signed. other = signed @ ''.'' @ token_signature t signed)
      \<and> valid_principal p \<and> pr_issuer p = tk_issuer t \<and> pr_audience p = tk_audience t
      \<and> (\<exists>k. utc later = Some k \<and> pr_issued_at p \<le> k \<and> k < pr_expires_at p))"
proof (intro conjI allI impI)
  let ?signed = "encode_segment token_header @ ''.'' @ encode_segment payload"
  have ok: "0 < lifetime" "m + lifetime * 1000000 < dt_limit" "token = ?signed @ ''.'' @ token_signature t ?signed"
    using issue_token_Some [OF assms(1,2)] by (simp_all add: payload_def seconds)
  have stamps: "from_timestamp issued = Some (unix_epoch + issued * 1000000)"
    "from_timestamp (issued + lifetime) = Some (unix_epoch + (issued + lifetime) * 1000000)"
    using ok(1,2) \<open>unix_epoch \<le> m\<close> unfolding issued_def by (simp_all add: from_timestamp_def Let_def unix_epoch_def)
  have "verify_token t (?signed @ ''.'' @ s) later =
      (if \<not> ascii s then Auth_Crashed
       else if s \<noteq> token_signature t ?signed then Auth_Rejected
       else case utc later of None \<Rightarrow> Auth_Rejected
       | Some k \<Rightarrow> if unix_epoch + issued * 1000000 \<le> k \<and> k < unix_epoch + (issued + lifetime) * 1000000
           then Verified (issued_principal t tenant subject roles issued (issued + lifetime)) else Auth_Rejected)"
    if "CHR ''.'' \<notin> set s" for s later
    using verify_segments [OF reads, folded payload_def, OF _ _ _ that, of later] check_issued [OF stamps valid, of later]
    by (simp add: payload_def token_payload_facts)
  then show "\<exists>signed. token = signed @ ''.'' @ token_signature t signed \<and> (\<forall>s later. CHR ''.'' \<notin> set s \<longrightarrow>
      verify_token t (signed @ ''.'' @ s) later =
        (if \<not> ascii s then Auth_Crashed
         else if s \<noteq> token_signature t signed then Auth_Rejected
         else case utc later of None \<Rightarrow> Auth_Rejected
         | Some k \<Rightarrow> if unix_epoch + issued * 1000000 \<le> k \<and> k < unix_epoch + (issued + lifetime) * 1000000
             then Verified (issued_principal t tenant subject roles issued (issued + lifetime)) else Auth_Rejected))"
    using ok(3) by blast
next
  fix other later p
  assume v: "verify_token t other later = Verified p"
  show "\<exists>signed. other = signed @ ''.'' @ token_signature t signed"
    using verify_token_signed [OF v] by (metis append.assoc)
  from verify_token_signed [OF v] obtain claims where "check_claims t claims later = Verified p" by blast
  note c = check_claims_Verified [OF this]
  show "valid_principal p" "pr_issuer p = tk_issuer t" "pr_audience p = tk_audience t"
    "\<exists>k. utc later = Some k \<and> pr_issued_at p \<le> k \<and> k < pr_expires_at p"
    using c by blast+
qed

subsection \<open>An example\<close>

definition ex_token_payload :: json where
  "ex_token_payload = JObj
    [(''iss'', JStr ''issuer''), (''aud'', JStr ''factory''), (''sub'', JStr ''ann''), (''tenant'', JStr ''acme''),
     (''roles'', JArr [JStr ''operator'']), (''iat'', JInt 1700000000), (''exp'', JInt 1700003600)]"

definition ex_token_issuer :: token_issuer where
  "ex_token_issuer = \<lparr>tk_secret = ''0123456789abcdef'', tk_issuer = ''issuer'', tk_audience = ''factory'',
    tk_loads = (\<lambda>s. if s = utf8 (jprint False token_header) then Reads token_header
      else if s = utf8 (jprint False ex_token_payload) then Reads ex_token_payload else Bad_Json),
    tk_seconds = (\<lambda>m. (m - unix_epoch) div 1000000)\<rparr>"

definition ex_issue_time :: datetime where
  "ex_issue_time = \<lparr>dt_year = 2023, dt_month = 11, dt_day = 14, dt_hour = 22, dt_minute = 13, dt_second = 20,
    dt_micro = 500000, dt_offset = Some 0\<rparr>"

lemma ex_issue_utc: "utc ex_issue_time = Some (unix_epoch + 1700000000500000)"
  by (simp add: ex_issue_time_def utc_def astimezone_utc_def local_micros_def toordinal_def days_before_year_def
      days_before_month_def days_in_month_def is_leap_def upt_rec dt_limit_def unix_epoch_def)

lemma ex_issued:
  "tk_seconds ex_token_issuer (unix_epoch + 1700000000500000) = 1700000000"
  "tk_seconds ex_token_issuer (unix_epoch + 1700000000500000 + 3600 * 1000000) = 1700003600"
  "token_payload ex_token_issuer ''acme'' ''ann'' [Operator] 1700000000 1700003600 = ex_token_payload"
  by (simp_all add: ex_token_issuer_def token_payload_def ex_token_payload_def json_list_def role_string_def)

lemma ex_loads:
  "tk_loads ex_token_issuer (utf8 (jprint False token_header)) = Reads token_header"
  "tk_loads ex_token_issuer (utf8 (jprint False ex_token_payload)) = Reads ex_token_payload"
proof -
  have "ex_token_payload \<noteq> token_header" by (simp add: ex_token_payload_def token_header_def)
  then have "utf8 (jprint False ex_token_payload) \<noteq> utf8 (jprint False token_header)"
    by (blast dest: utf8_inj jprint_inj)
  then show "tk_loads ex_token_issuer (utf8 (jprint False token_header)) = Reads token_header"
    "tk_loads ex_token_issuer (utf8 (jprint False ex_token_payload)) = Reads ex_token_payload"
    by (simp_all add: ex_token_issuer_def)
qed

lemma ex_issued_valid:
  "valid_principal (issued_principal ex_token_issuer ''acme'' ''ann'' [Operator] 1700000000 1700003600)"
  by code_simp

theorem tokens_are_authentic_witness:
  "\<exists>token. issue_token ex_token_issuer ''acme'' ''ann'' [Operator] ex_issue_time 3600 = Some token
    \<and> verify_token ex_token_issuer token ex_issue_time =
        Verified (issued_principal ex_token_issuer ''acme'' ''ann'' [Operator] 1700000000 1700003600)"
proof -
  let ?m = "unix_epoch + 1700000000500000" and ?t = ex_token_issuer
  obtain token where token: "issue_token ?t ''acme'' ''ann'' [Operator] ex_issue_time 3600 = Some token"
    by (simp add: issue_token_def ex_issue_utc dt_limit_def unix_epoch_def Let_def)
  have le: "unix_epoch \<le> ?m" and window: "(?m - unix_epoch) div 1000000 = 1700000000" "(1700000000 :: int) + 3600 = 1700003600"
    by simp_all
  note exact = tokens_are_authentic [OF token ex_issue_utc le, unfolded window ex_issued, OF refl refl ex_loads ex_issued_valid]
  obtain signed where signed: "token = signed @ ''.'' @ token_signature ?t signed"
    and verified: "CHR ''.'' \<notin> set (token_signature ?t signed) \<Longrightarrow>
      verify_token ?t (signed @ ''.'' @ token_signature ?t signed) ex_issue_time =
        (case utc ex_issue_time of None \<Rightarrow> Auth_Rejected
         | Some k \<Rightarrow> if unix_epoch + 1700000000 * 1000000 \<le> k \<and> k < unix_epoch + 1700003600 * 1000000
             then Verified (issued_principal ?t ''acme'' ''ann'' [Operator] 1700000000 1700003600) else Auth_Rejected)"
    using conjunct1 [OF exact] ascii_signature [of ?t] by (metis (lifting))
  have "CHR ''.'' \<notin> set (token_signature ?t signed)" by (simp add: token_signature_def segment_no_dot)
  from verified [OF this] show ?thesis using token signed by (simp add: ex_issue_utc)
qed

end
