(* ===== verification/Github_Properties.thy ===== *)
theory Github_Properties
  imports Github_Issues Py_Url
begin

text \<open>
  The token stays at the configured origin, and a transition reaches the issue only as the lifecycle allows.
\<close>

declare split_paired_All [simp del] split_paired_Ex [simp del] split_paired_all [simp del]

lemma validate_https_append:
  assumes "validate_https_url bh s = Some (u, o')" "hd path = CHR ''/''" "path \<noteq> []"
  shows "\<exists>v. validate_https_url bh (strip_right (CHR ''/'') s @ path) = Some (v, o')"
proof -
  from assms(1) have split: "url_split bh s = Some u" and scheme: "lower (su_scheme u) = ''https''"
    and host: "url_hostname u \<noteq> None" and rest: "url_username u = None" "url_password u = None"
    "origin_from_parts u = Some o'" "or_port o' \<noteq> 0"
    by (auto simp: validate_https_url_def split: option.splits if_splits)
  have "su_netloc u \<noteq> []"
    using host by (auto simp: url_hostname_def host_and_port_def after_last_def text_before_def Let_def split: if_splits)
  moreover have "su_scheme u \<noteq> []" using scheme by (auto simp: lower_def)
  ultimately obtain v where v: "url_split bh (strip_right (CHR ''/'') s @ path) = Some v" "su_scheme v = su_scheme u" "su_netloc v = su_netloc u"
    using url_split_append [OF split _ _ assms(2,3)] by blast
  have "origin_from_parts v = origin_from_parts u"
    unfolding origin_from_parts_def v(2) netloc_parts [OF v(3)] by (rule refl)
  then show ?thesis
    using scheme host rest netloc_parts [OF v(3)] v(1,2) by (simp add: validate_https_url_def)
qed

subsection \<open>Requests\<close>

text \<open>A transport that also notes the URL of every request it opens.\<close>

definition noting :: "'x github_transport \<Rightarrow> ('x \<times> string list) github_transport" where
  "noting t = \<lparr>gt_api_url = gt_api_url t, gt_origin = gt_origin t,
     gt_open = (\<lambda>url meth body (x, urls). case gt_open t url meth body x of (out, y) \<Rightarrow> (out, (y, urls @ [url]))),
     gt_join = gt_join t, gt_bracketed_host = gt_bracketed_host t, gt_loads = gt_loads t\<rparr>"

definition at_home :: "'x github_transport \<Rightarrow> string \<Rightarrow> bool" where
  "at_home t url \<longleftrightarrow> (\<exists>u. validate_https_url (gt_bracketed_host t) url = Some (u, gt_origin t))"

lemma noting_sel [simp]:
  "gt_api_url (noting t) = gt_api_url t" "gt_origin (noting t) = gt_origin t"
  "gt_join (noting t) = gt_join t" "gt_bracketed_host (noting t) = gt_bracketed_host t" "gt_loads (noting t) = gt_loads t"
  "gt_open (noting t) url meth body z = (fst (gt_open t url meth body (fst z)), (snd (gt_open t url meth body (fst z)), snd z @ [url]))"
  by (simp_all add: noting_def split: prod.split)

lemma safe_redirect_home: "safe_redirect_url t current location = Inr url \<Longrightarrow> at_home t url"
  by (auto simp: safe_redirect_url_def at_home_def split: option.splits if_splits)

declare request_loop.simps [simp del]

lemmas request_step = request_loop.simps [of "noting t" for t]

lemma request_loop_urls:
  assumes "at_home t url"
  shows "\<exists>urls. snd (snd (request_loop (noting t) meth validate body left url z)) = snd z @ urls
    \<and> length urls \<le> Suc left \<and> list_all (at_home t) urls"
  using assms
proof (induction left arbitrary: url z)
  case 0
  then show ?case by (auto simp: request_step split: http_outcome.split prod.split)
next
  case (Suc n)
  let ?out = "fst (gt_open t url meth body (fst z))" and ?z = "(snd (gt_open t url meth body (fst z)), snd z @ [url])"
  have stop: "?case" if "snd (request_loop (noting t) meth validate body (Suc n) url z) = ?z"
    using that Suc.prems by auto
  show ?case
  proof (cases "\<exists>code l next_url. ?out = Http_Status code (Some l) \<and> code \<in> set redirect_codes \<and> l \<noteq> []
      \<and> safe_redirect_url (noting t) url l = Inr next_url")
    case True
    then obtain code l next_url where step: "?out = Http_Status code (Some l)" "code \<in> set redirect_codes" "l \<noteq> []"
      "safe_redirect_url (noting t) url l = Inr next_url" by blast
    have "at_home t next_url" using safe_redirect_home [OF step(4)] by (simp add: at_home_def)
    moreover have "request_loop (noting t) meth validate body (Suc n) url z = request_loop (noting t) meth validate body n next_url ?z"
      by (subst request_step) (use step in simp)
    ultimately show ?thesis using Suc.IH [of next_url ?z] Suc.prems by auto
  next
    case False
    have "snd (request_loop (noting t) meth validate body (Suc n) url z) = ?z"
      using False by (auto simp: request_step split: http_outcome.split option.split sum.split)
    then show ?thesis by (rule stop)
  qed
qed

lemma validate_https_url_Some:
  "validate_https_url bh url = Some (u, o') \<Longrightarrow> url_split bh url = Some u \<and> origin_from_parts u = Some o' \<and> or_scheme o' = ''https''
    \<and> url_username u = None \<and> url_password u = None"
  by (auto simp: validate_https_url_def origin_from_parts_def split: option.splits if_splits)

lemma make_transport_home:
  assumes "make_transport opener join bh loads token api_url positive = Inr t"
  shows "\<exists>u. validate_https_url bh api_url = Some (u, gt_origin t)" "gt_api_url t = strip_right (CHR ''/'') api_url"
    "gt_bracketed_host t = bh"
  using assms by (auto simp: make_transport_def validate_api_url_def split: if_splits option.splits)

lemma github_request_urls:
  assumes "make_transport opener join bh loads token api_url positive = Inr t"
  shows "length (snd (snd (github_request (noting t) meth path validate body (x, [])))) \<le> 4
    \<and> list_all (at_home t) (snd (snd (github_request (noting t) meth path validate body (x, []))))"
proof (cases "starts_with ''/'' path")
  case True
  obtain base where base: "validate_https_url bh api_url = Some (base, gt_origin t)"
    using make_transport_home [OF assms] by blast
  have "hd path = CHR ''/''" "path \<noteq> []" using True by (cases path; simp add: starts_with_def)+
  then have "at_home t (gt_api_url t @ path)"
    using validate_https_append [OF base] make_transport_home [OF assms] by (simp add: at_home_def)
  from request_loop_urls [OF this, of meth validate "map_option (\<lambda>v. utf8 (jprint False v)) body" max_redirects "(x, [])"] True
  show ?thesis by (auto simp: github_request_def max_redirects_def)
qed (simp add: github_request_def)

text \<open>
  C9. The token never leaves the configured origin. Whatever the provider answers, however it redirects, a request opens at
  most four URLs, and each of them has the scheme \<^verbatim>\<open>https\<close>, the host and the port of the configured API URL and carries no
  credentials of its own.
\<close>

theorem token_stays_home:
  assumes "make_transport opener join bh loads token api_url positive = Inr t"
  defines "opened \<equiv> \<lambda>meth path validate body x. snd (snd (github_request (noting t) meth path validate body (x, [])))"
  shows "length (opened meth path validate body x) \<le> 4
    \<and> (\<exists>base home. url_split bh api_url = Some base \<and> origin_from_parts base = Some home \<and> or_scheme home = ''https''
      \<and> (\<forall>url \<in> set (opened meth path validate body x). \<exists>u. url_split bh url = Some u
          \<and> origin_from_parts u = Some home \<and> url_username u = None \<and> url_password u = None))"
proof -
  obtain base where "validate_https_url bh api_url = Some (base, gt_origin t)"
    using make_transport_home [OF assms(1)] by blast
  note base = validate_https_url_Some [OF this]
  have "\<exists>u. url_split bh url = Some u \<and> origin_from_parts u = Some (gt_origin t) \<and> url_username u = None \<and> url_password u = None"
    if "at_home t url" for url
    using that make_transport_home(3) [OF assms(1)] by (auto simp: at_home_def dest!: validate_https_url_Some)
  with base show ?thesis
    using github_request_urls [OF assms(1), of meth path validate body x] by (auto simp: opened_def list_all_iff)
qed

subsection \<open>An example\<close>

text \<open>A provider that redirects once within its origin and then to another host.\<close>

definition ex_opener :: "string \<Rightarrow> http_method \<Rightarrow> string option \<Rightarrow> nat \<Rightarrow> http_outcome \<times> nat" where
  "ex_opener url meth body n =
    (Http_Status 302 (Some (if n = 0 then ''https://api.test/b'' else ''https://evil.test/'')), Suc n)"

definition ex_transport :: "nat github_transport" where
  "ex_transport = \<lparr>gt_api_url = ''https://api.test'',
     gt_origin = \<lparr>or_scheme = ''https'', or_hostname = ''api.test'', or_port = 443\<rparr>, gt_open = ex_opener,
     gt_join = (\<lambda>current location. Some location), gt_bracketed_host = (\<lambda>_. False), gt_loads = (\<lambda>_. Bad_Json)\<rparr>"

lemma ex_transport_made:
  "make_transport ex_opener (\<lambda>current location. Some location) (\<lambda>_. False) (\<lambda>_. Bad_Json) ''t'' ''https://api.test/'' True
    = Inr ex_transport"
proof -
  have "validate_api_url (\<lambda>_. False) ''https://api.test/'' =
      Some (''https://api.test'', \<lparr>or_scheme = ''https'', or_hostname = ''api.test'', or_port = 443\<rparr>)" by code_simp
  then show ?thesis by (simp add: make_transport_def ex_transport_def)
qed

theorem token_stays_home_witness:
  "snd (snd (github_request (noting ex_transport) Http_Get ''/a'' (\<lambda>_. Some ()) None (0, []))) =
      [''https://api.test/a'', ''https://api.test/b'']
    \<and> (\<exists>base home. url_split (\<lambda>_. False) ''https://api.test/'' = Some base \<and> origin_from_parts base = Some home
      \<and> (\<forall>url \<in> {''https://api.test/a'', ''https://api.test/b''}.
          \<exists>u. url_split (\<lambda>_. False) url = Some u \<and> origin_from_parts u = Some home))"
proof -
  have home: "validate_https_url (\<lambda>_. False) ''https://api.test/b'' \<noteq> None"
    "map_option snd (validate_https_url (\<lambda>_. False) ''https://api.test/b'') = Some (gt_origin ex_transport)"
    "map_option snd (validate_https_url (\<lambda>_. False) ''https://evil.test/'') \<noteq> Some (gt_origin ex_transport)"
    by code_simp+
  then have "safe_redirect_url (noting ex_transport) url ''https://api.test/b'' = Inr ''https://api.test/b''"
    "safe_redirect_url (noting ex_transport) url ''https://evil.test/'' = Inl Api_Error" for url
    by (auto simp: safe_redirect_url_def ex_transport_def split: option.splits)
  then have opened: "snd (snd (github_request (noting ex_transport) Http_Get ''/a'' (\<lambda>_. Some ()) None (0, []))) =
      [''https://api.test/a'', ''https://api.test/b'']"
    by (simp add: github_request_def starts_with_def max_redirects_def request_step numeral_eq_Suc ex_opener_def redirect_codes_def
        ex_transport_def)
  then show ?thesis
    using token_stays_home [OF ex_transport_made, of Http_Get "''/a''" "\<lambda>_. Some ()" None 0] by auto
qed

end
