(* ===== verification/Alm_Properties.thy ===== *)
theory Alm_Properties
  imports Github_Issues
begin

text \<open>
  What the GitHub Issues adapter guarantees of a transition: against any provider, what it read and what it wrote; against
  a provider that does what its label operations say, that the issue runs the lifecycle of \<^theory_text>\<open>States\<close>.
\<close>

declare split_paired_All [simp del] split_paired_Ex [simp del] split_paired_all [simp del]

subsection \<open>Labels\<close>

lemma all_states_complete: "s \<in> set all_states"
  by (cases s) (simp_all add: all_states_def)

lemma state_label_table: "state_label s = (case s of NEW \<Rightarrow> ''stage:new'' | REFINING \<Rightarrow> ''stage:refining''
    | BUSINESS_READY \<Rightarrow> ''stage:business-ready'' | DESIGNING \<Rightarrow> ''stage:designing''
    | SOLUTION_READY \<Rightarrow> ''stage:solution-ready'' | IMPLEMENTING \<Rightarrow> ''stage:implementing''
    | DEV_VERIFYING \<Rightarrow> ''stage:dev-verifying'' | DEV_VERIFIED \<Rightarrow> ''stage:dev-verified''
    | PREPROD_VERIFYING \<Rightarrow> ''stage:preprod-verifying'' | PREPROD_VERIFIED \<Rightarrow> ''stage:preprod-verified''
    | RELEASING \<Rightarrow> ''stage:releasing'' | DONE \<Rightarrow> ''stage:done'' | BLOCKED \<Rightarrow> ''stage:blocked''
    | REJECTED \<Rightarrow> ''stage:rejected'' | ROLLED_BACK \<Rightarrow> ''stage:rolled-back'')"
  by (cases s) (simp_all add: state_label_def state_name_def lower_def lower_char_def ascii_upper_def char_of_def bit_0)

lemma casefold_ascii: "list_all (\<lambda>c. \<not> ascii_upper c \<and> (of_char c :: nat) < 128) l \<Longrightarrow> casefold l = map of_char l"
  by (induction l) (auto simp: casefold_def casefold_char_def Let_def)

lemma state_label_chars: "list_all (\<lambda>c. \<not> ascii_upper c \<and> (of_char c :: nat) < 128) (state_label s)"
  by (cases s) (simp_all add: state_label_table ascii_upper_def)

lemma state_label_canonical: "canonical_label_name (state_label s) = code_points (state_label s)"
  using casefold_ascii [OF state_label_chars] by (simp add: canonical_label_name_def code_points_def)

lemma state_label_ascii: "ascii_label (state_label s)"
  using state_label_chars [of s] by (simp add: ascii_label_def list_all_iff)

lemma state_label_inj: "state_label s = state_label u \<Longrightarrow> s = u"
  by (cases s; cases u) (simp_all add: state_label_table)

lemma code_points_inj: "code_points a = code_points b \<longleftrightarrow> a = b"
  unfolding code_points_def by (rule inj_map_eq_map) (simp add: inj_of_char)

lemma map_of_state_labels: "map_of state_labels (code_points (state_label s)) = Some s"
proof -
  have "map_of (map (\<lambda>s. (code_points (state_label s), s)) xs) (code_points (state_label s)) = Some s" if "s \<in> set xs" for xs
    using that by (induction xs) (auto simp: code_points_inj dest: state_label_inj)
  then show ?thesis using all_states_complete by (simp add: state_labels_def)
qed

lemma state_label_facts:
  "canonical_label_name (state_label s) = code_points (state_label s)"
  "map_of state_labels (code_points (state_label s)) = Some s"
  "\<not> unknown_stage_label (state_label s)"
  "is_state_label (code_points (state_label s))"
proof -
  show "canonical_label_name (state_label s) = code_points (state_label s)"
    "map_of state_labels (code_points (state_label s)) = Some s"
    by (fact state_label_canonical map_of_state_labels)+
  then show "is_state_label (code_points (state_label s))"
    unfolding is_state_label_def by (metis map_of_SomeD image_eqI fst_conv list.set_map)
  then show "\<not> unknown_stage_label (state_label s)"
    by (simp add: unknown_stage_label_def state_label_ascii state_label_canonical permitted_stage_labels_def is_state_label_def)
qed

text \<open>The labels of an issue that is in one lifecycle state.\<close>

definition state_labelled :: "string \<Rightarrow> bool" where
  "state_labelled l \<longleftrightarrow> is_state_label (canonical_label_name l)"

definition stage_of :: "string list \<Rightarrow> string \<Rightarrow> work_item_state \<Rightarrow> bool" where
  "stage_of ls l s \<longleftrightarrow> \<not> list_ex unknown_stage_label ls \<and> filter state_labelled ls = [l]
    \<and> map_of state_labels (canonical_label_name l) = Some s"

lemma known_label: "is_state_label cs \<longleftrightarrow> map_of state_labels cs \<noteq> None"
  unfolding is_state_label_def by (simp add: map_of_eq_None_iff)

lemma lifecycle_label_iff:
  "lifecycle_label i = Inr l \<longleftrightarrow> \<not> list_ex unknown_stage_label (gi_labels i) \<and> filter state_labelled (gi_labels i) = [l]"
  unfolding state_labelled_def
  by (auto simp: lifecycle_label_def validate_stage_namespace_def ebind_def split: list.splits)

lemma lifecycle_state_iff: "lifecycle_state i = Inr s \<longleftrightarrow> (\<exists>l. stage_of (gi_labels i) l s)"
proof (cases "lifecycle_label i")
  case (Inl e)
  then have "\<not> stage_of (gi_labels i) l s" for l
    using lifecycle_label_iff [of i l] by (auto simp: stage_of_def)
  with Inl show ?thesis by (simp add: lifecycle_state_def ebind_def)
next
  case (Inr l)
  then show ?thesis
    using lifecycle_label_iff [of i l] by (auto simp: lifecycle_state_def stage_of_def ebind_def split: option.splits)
qed

lemma lifecycle_state_total: "lifecycle_label i = Inr l \<Longrightarrow> \<exists>s. lifecycle_state i = Inr s \<and> stage_of (gi_labels i) l s"
proof -
  assume l: "lifecycle_label i = Inr l"
  then have "l \<in> set (filter state_labelled (gi_labels i))" by (simp add: lifecycle_label_iff)
  then obtain s where "map_of state_labels (canonical_label_name l) = Some s"
    by (auto simp: state_labelled_def known_label)
  then show ?thesis using l lifecycle_label_iff [of i l] by (auto simp: lifecycle_state_def ebind_def stage_of_def)
qed

lemma stage_of_mset:
  assumes "stage_of ls l s" "mset ls' = mset ls"
  shows "stage_of ls' l s"
proof -
  have "mset (filter state_labelled ls') = mset (filter state_labelled ls)"
    using assms(2) by (metis mset_filter)
  also have "\<dots> = {#l#}" using assms(1) by (simp add: stage_of_def)
  finally have "filter state_labelled ls' = [l]" by (simp only: mset_single_iff)
  moreover have "set ls' = set ls" using assms(2) by (metis set_mset_mset)
  ultimately show ?thesis using assms(1) by (auto simp: stage_of_def list_ex_iff)
qed

subsection \<open>Any provider\<close>

text \<open>A tracker that also notes every call of its transport, with the answer.\<close>

datatype github_call =
    Issue_Call http_method string "github_error + github_issue"
  | Labels_Call http_method string "github_error + string list"
  | Comment_Call http_method string "github_error + int"

definition noted ::
  "(http_method \<Rightarrow> string \<Rightarrow> 'e + 'a \<Rightarrow> github_call) \<Rightarrow> (http_method \<Rightarrow> string \<Rightarrow> 'p \<Rightarrow> ('x, 'e, 'a) eff) \<Rightarrow>
    http_method \<Rightarrow> string \<Rightarrow> 'p \<Rightarrow> ('x \<times> github_call list, 'e, 'a) eff"
where
  "noted note f meth path body z = (case f meth path body (fst z) of (r, y) \<Rightarrow> (r, (y, snd z @ [note meth path r])))"

definition noting_tracker :: "'x issue_tracker \<Rightarrow> ('x \<times> github_call list) issue_tracker" where
  "noting_tracker a = \<lparr>ia_issues_path = ia_issues_path a, ia_repository_url = ia_repository_url a,
     ia_web_host = ia_web_host a, ia_web_issue_path = ia_web_issue_path a,
     ia_transport = \<lparr>it_issue = noted Issue_Call (it_issue (ia_transport a)),
       it_labels = noted Labels_Call (it_labels (ia_transport a)),
       it_comment = noted Comment_Call (it_comment (ia_transport a))\<rparr>\<rparr>"

lemma noting_tracker_sel [simp]:
  "issue_path (noting_tracker a) n = issue_path a n"
  "require_issue_repository (noting_tracker a) = require_issue_repository a"
  "it_issue (ia_transport (noting_tracker a)) = noted Issue_Call (it_issue (ia_transport a))"
  "it_labels (ia_transport (noting_tracker a)) = noted Labels_Call (it_labels (ia_transport a))"
  by (simp_all add: noting_tracker_def issue_path_def require_issue_repository_def fun_eq_iff split: option.split)

lemma sbind_result: "sbind m f s = (case m s of (Inl e, y) \<Rightarrow> (Inl e, y) | (Inr x, y) \<Rightarrow> f x y)"
  by (simp add: sbind_def)

lemma get_issue_calls:
  "\<exists>r. snd (snd (get_issue (noting_tracker a) n z)) = snd z @ [Issue_Call Http_Get (issue_path a n) r]
    \<and> (\<forall>i. fst (get_issue (noting_tracker a) n z) = Inr i \<longrightarrow>
         r = Inr i \<and> gi_number i = int n \<and> require_issue_repository a i = Inr ())"
  by (auto simp: get_issue_def sbind_result noted_def split: prod.split sum.split)

lemma mutate_labels_calls:
  "\<exists>cs r. snd (snd (mutate_labels (noting_tracker a) n target meth path body expected z)) = snd z @ Labels_Call meth path r # cs
    \<and> (fst (mutate_labels (noting_tracker a) n target meth path body expected z) = Inr () \<longrightarrow>
         cs = [] \<and> (\<exists>ls. r = Inr ls \<and> require_mutation_lifecycle_labels ls expected = Inr ()))"
proof -
  obtain r y where call: "noted Labels_Call (it_labels (ia_transport a)) meth path body z = (r, (y, snd z @ [Labels_Call meth path r]))"
    by (cases "it_labels (ia_transport a) meth path body (fst z)") (simp add: noted_def)
  let ?z = "(y, snd z @ [Labels_Call meth path r])"
  have reread: "\<exists>cs. snd (snd (raise_after_mutation (noting_tracker a) n target ?z)) = snd z @ Labels_Call meth path r # cs"
    "fst (raise_after_mutation (noting_tracker a) n target ?z) \<noteq> Inr ()"
    using get_issue_calls [of a n ?z] by (auto simp: raise_after_mutation_def sbind_result split: prod.split sum.split)
  show ?thesis
    using reread by (auto simp: mutate_labels_def sbind_result call split: sum.split)
qed

lemma require_lifecycle_state_Inr:
  "require_lifecycle_state i expected = Inr s \<longleftrightarrow> s = expected \<and> lifecycle_state i = Inr expected"
  by (auto simp: require_lifecycle_state_def split: sum.splits)

lemma change_state_calls:
  defines "labels \<equiv> \<lambda>a n. issue_path a n @ ''/labels''"
  shows "\<exists>cs. snd (snd (change_state (noting_tracker a) n l target z)) = snd z @ cs
    \<and> (\<forall>ref. fst (change_state (noting_tracker a) n l target z) = Inr ref \<longrightarrow>
        (\<exists>ls ms j. cs = [Labels_Call Http_Post (labels a n) (Inr ls),
            Labels_Call Http_Delete (labels a n @ ''/'' @ quote_url l) (Inr ms), Issue_Call Http_Get (issue_path a n) (Inr j)]
          \<and> require_mutation_lifecycle_labels ls [canonical_label_name l, code_points (state_label target)] = Inr ()
          \<and> require_mutation_lifecycle_labels ms [code_points (state_label target)] = Inr ()
          \<and> gi_number j = int n \<and> require_issue_repository a j = Inr () \<and> lifecycle_state j = Inr target
          \<and> ref = issue_ref j target))"
proof -
  let ?na = "noting_tracker a"
  obtain p where p: "p = labels a n @ ''/'' @ quote_url l" by blast
  let ?add = "mutate_labels ?na n target Http_Post (labels a n) (Some (Label_Payload [state_label target]))
    [canonical_label_name l, code_points (state_label target)]"
  let ?remove = "mutate_labels ?na n target Http_Delete p None [code_points (state_label target)]"
  have change: "change_state ?na n l target = sbind ?add (\<lambda>_. sbind ?remove (\<lambda>_. sbind (get_issue ?na n) (\<lambda>i.
      sbind (spure (require_lifecycle_state i target)) (\<lambda>s. sreturn (issue_ref i s)))))"
    by (simp add: change_state_def labels_def p Let_def)
  obtain r1 y1 where add: "?add z = (r1, y1)" by fastforce
  obtain r2 y2 where remove: "?remove y1 = (r2, y2)" by fastforce
  obtain r3 y3 where get: "get_issue ?na n y2 = (r3, y3)" by fastforce
  note c1 = mutate_labels_calls [of a n target Http_Post "labels a n" "Some (Label_Payload [state_label target])"
      "[canonical_label_name l, code_points (state_label target)]" z, unfolded add]
  note c2 = mutate_labels_calls [of a n target Http_Delete p None "[code_points (state_label target)]" y1, unfolded remove]
  note c3 = get_issue_calls [of a n y2, unfolded get]
  show ?thesis
    using c1 c2 c3 unfolding change sbind_result add p [symmetric]
    by (cases r1; cases r2; cases r3) (auto simp: remove get require_lifecycle_state_Inr sbind_result split: sum.split)
qed

lemma apply_transition_cases:
  fixes z :: "'x \<times> github_call list"
  defines "labels \<equiv> \<lambda>a n. issue_path a n @ ''/labels''"
  assumes run: "apply_transition (noting_tracker a) t z = (r, z')"
  shows "(\<exists>e cs. r = Inl e \<and> snd z' = snd z @ cs \<and> (\<forall>m p q. Labels_Call m p q \<notin> set cs))
    \<or> (\<exists>n i l s cs. parse_issue_number (tr_work_item_id t) = Inr n
        \<and> snd z' = snd z @ Issue_Call Http_Get (issue_path a n) (Inr i) # cs
        \<and> gi_number i = int n \<and> require_issue_repository a i = Inr () \<and> stage_of (gi_labels i) l s
        \<and> validate_against t s = Inr ()
        \<and> (\<forall>ref. r = Inr ref \<longrightarrow> (\<exists>ls ms j. cs = [Labels_Call Http_Post (labels a n) (Inr ls),
            Labels_Call Http_Delete (labels a n @ ''/'' @ quote_url l) (Inr ms), Issue_Call Http_Get (issue_path a n) (Inr j)]
          \<and> require_mutation_lifecycle_labels ls [canonical_label_name l, code_points (state_label (tr_target t))] = Inr ()
          \<and> require_mutation_lifecycle_labels ms [code_points (state_label (tr_target t))] = Inr ()
          \<and> gi_number j = int n \<and> require_issue_repository a j = Inr () \<and> lifecycle_state j = Inr (tr_target t)
          \<and> ref = issue_ref j (tr_target t))))"
proof (cases "parse_issue_number (tr_work_item_id t)")
  case (Inl e)
  then show ?thesis using run by (auto simp: apply_transition_def provider_def scatch_def sbind_result)
next
  case (Inr n)
  let ?na = "noting_tracker a"
  obtain q y where get: "get_issue ?na n z = (q, y)" by fastforce
  note c = get_issue_calls [of a n z, unfolded get]
  show ?thesis
  proof (cases q)
    case (Inl e)
    then show ?thesis using run Inr c get by (auto simp: apply_transition_def provider_def scatch_def sbind_result)
  next
    case read: (Inr i)
    show ?thesis
    proof (cases "lifecycle_label i")
      case (Inl e)
      then show ?thesis using run \<open>parse_issue_number _ = Inr n\<close> read c get
        by (auto simp: apply_transition_def provider_def scatch_def sbind_result)
    next
      case label: (Inr l)
      obtain s where s: "lifecycle_state i = Inr s" "stage_of (gi_labels i) l s" using lifecycle_state_total [OF label] by blast
      show ?thesis
      proof (cases "validate_against t s")
        case (Inl e)
        then show ?thesis using run \<open>parse_issue_number _ = Inr n\<close> read c get label s
          by (auto simp: apply_transition_def provider_def scatch_def sbind_result)
      next
        case ok: (Inr u)
        obtain r' where change: "change_state ?na n l (tr_target t) y = (r', z')"
          and r: "r = (case r' of Inl e \<Rightarrow> Inl (Provider e) | Inr ref \<Rightarrow> Inr ref)"
          using run \<open>parse_issue_number _ = Inr n\<close> read get label s ok
          by (auto simp: apply_transition_def provider_def scatch_def sbind_result split: prod.splits sum.splits)
        show ?thesis
          using change_state_calls [of a n l "tr_target t" y, unfolded change] c read s(2) ok Inr r
          by (auto simp: labels_def split: sum.splits) (use read in blast)+
      qed
    qed
  qed
qed

lemma issue_number_shown:
  assumes "parse_issue_number s = Inr n"
  shows "show_int (int n) = s"
  using assms show_digits_value [of s] by (auto simp: parse_issue_number_def show_int_def split: if_splits)

text \<open>
  C18. A transition is applied only from the state the provider reports and is reported only as the provider confirms it.
  Whatever the transport answers, no label is changed unless the issue just read is the right one, stands in exactly one
  lifecycle state and the transition is valid from there; and a transition is reported as applied only after both label
  changes answered with exactly the lifecycle labels expected of them and a final read of the same issue showed the target.
\<close>

theorem transitions_are_verified:
  defines "labels \<equiv> \<lambda>a n. issue_path a n @ ''/labels''"
  assumes "apply_transition (noting_tracker a) t (x, []) = (r, (y, calls))"
    and "r = Inr ref \<or> Labels_Call meth path answer \<in> set calls"
  shows "\<exists>n i l s rest. show_nat n = tr_work_item_id t \<and> calls = Issue_Call Http_Get (issue_path a n) (Inr i) # rest
    \<and> gi_number i = int n \<and> require_issue_repository a i = Inr () \<and> stage_of (gi_labels i) l s
    \<and> validate_against t s = Inr ()
    \<and> (r = Inr ref \<longrightarrow> (\<exists>ls ms j l'. rest = [Labels_Call Http_Post (labels a n) (Inr ls),
            Labels_Call Http_Delete (labels a n @ ''/'' @ quote_url l) (Inr ms), Issue_Call Http_Get (issue_path a n) (Inr j)]
          \<and> require_mutation_lifecycle_labels ls [canonical_label_name l, code_points (state_label (tr_target t))] = Inr ()
          \<and> require_mutation_lifecycle_labels ms [code_points (state_label (tr_target t))] = Inr ()
          \<and> gi_number j = int n \<and> require_issue_repository a j = Inr () \<and> stage_of (gi_labels j) l' (tr_target t)
          \<and> ref = \<lparr>wr_id = tr_work_item_id t, wr_url = wu_text (gi_html_url j), wr_state = tr_target t\<rparr>))"
proof -
  from apply_transition_cases [OF assms(2)] assms(3) obtain n i l s cs
    where n: "parse_issue_number (tr_work_item_id t) = Inr n" and calls: "calls = Issue_Call Http_Get (issue_path a n) (Inr i) # cs"
      and i: "gi_number i = int n" "require_issue_repository a i = Inr ()" "stage_of (gi_labels i) l s" "validate_against t s = Inr ()"
      and success: "r = Inr ref \<longrightarrow> (\<exists>ls ms j. cs = [Labels_Call Http_Post (labels a n) (Inr ls),
            Labels_Call Http_Delete (labels a n @ ''/'' @ quote_url l) (Inr ms), Issue_Call Http_Get (issue_path a n) (Inr j)]
          \<and> require_mutation_lifecycle_labels ls [canonical_label_name l, code_points (state_label (tr_target t))] = Inr ()
          \<and> require_mutation_lifecycle_labels ms [code_points (state_label (tr_target t))] = Inr ()
          \<and> gi_number j = int n \<and> require_issue_repository a j = Inr () \<and> lifecycle_state j = Inr (tr_target t)
          \<and> ref = issue_ref j (tr_target t))"
    unfolding labels_def by force
  have shown: "show_int (int n) = tr_work_item_id t" using issue_number_shown [OF n] .
  moreover have "show_nat n = tr_work_item_id t" using shown by (simp add: show_int_def)
  ultimately show ?thesis
    by (intro exI [of _ n] exI [of _ i] exI [of _ l] exI [of _ s] exI [of _ cs])
      (use calls i success in \<open>auto simp: lifecycle_state_iff issue_ref_def\<close>)
qed

subsection \<open>A provider that does what it is asked\<close>

text \<open>
  \<open>faithful a n labels\<close>: the provider keeps the labels \<open>labels x\<close> of issue \<open>n\<close>; reading returns the issue with them,
  adding a label none of them folds to adds it, removing a present one removes it, and both answer with what is then there.
\<close>

definition faithful :: "'x issue_tracker \<Rightarrow> nat \<Rightarrow> ('x \<Rightarrow> string list) \<Rightarrow> bool" where
  "faithful a n labels \<longleftrightarrow>
    (\<forall>x. \<exists>i y. it_issue (ia_transport a) Http_Get (issue_path a n) None x = (Inr i, y) \<and> gi_number i = int n
       \<and> require_issue_repository a i = Inr () \<and> mset (gi_labels i) = mset (labels x) \<and> mset (labels y) = mset (labels x))
    \<and> (\<forall>x l. casefold l \<notin> casefold ` set (labels x) \<longrightarrow>
       (\<exists>ls y. it_labels (ia_transport a) Http_Post (issue_path a n @ ''/labels'') (Some (Label_Payload [l])) x = (Inr ls, y)
          \<and> mset ls = mset (labels y) \<and> mset (labels y) = add_mset l (mset (labels x))))
    \<and> (\<forall>x l. l \<in> set (labels x) \<longrightarrow>
       (\<exists>ls y. it_labels (ia_transport a) Http_Delete (issue_path a n @ ''/labels/'' @ quote_url l) None x = (Inr ls, y)
          \<and> mset ls = mset (labels y) \<and> mset (labels y) = mset (labels x) - {#l#}))"

lemma stage_of_label: "stage_of ls l s \<Longrightarrow> l \<in> set ls \<and> state_labelled l"
proof -
  assume "stage_of ls l s"
  then have "l \<in> set (filter state_labelled ls)" by (simp add: stage_of_def)
  then show ?thesis by simp
qed

lemma faithful_get:
  assumes "faithful a n labels"
  obtains i y where "get_issue a n x = (Inr i, y)" "mset (gi_labels i) = mset (labels x)" "mset (labels y) = mset (labels x)"
proof -
  from assms obtain i y where "it_issue (ia_transport a) Http_Get (issue_path a n) None x = (Inr i, y)" "gi_number i = int n"
    "require_issue_repository a i = Inr ()" "mset (gi_labels i) = mset (labels x)" "mset (labels y) = mset (labels x)"
    unfolding faithful_def by blast
  then show thesis by (intro that [of i y]) (simp_all add: get_issue_def sbind_result)
qed

lemma require_mutation_mset:
  assumes "\<not> list_ex unknown_stage_label ls" "mset (filter state_labelled ls) = mset ks"
    "length expected = length ks" "set expected = canonical_label_name ` set ks"
  shows "require_mutation_lifecycle_labels ls expected = Inr ()"
proof -
  have "filter is_state_label (map canonical_label_name ls) = map canonical_label_name (filter state_labelled ls)"
    unfolding filter_map by (rule arg_cong [where f = "map canonical_label_name"]) (rule filter_cong, simp_all add: state_labelled_def)
  moreover have "length (filter state_labelled ls) = length ks" using assms(2) by (metis size_mset)
  moreover have "set (filter state_labelled ls) = set ks" using assms(2) by (metis set_mset_mset)
  ultimately show ?thesis
    using assms(1,3,4) by (auto simp: require_mutation_lifecycle_labels_def validate_stage_namespace_def Let_def)
qed

lemma target_absent:
  assumes "stage_of ls l s" "s \<noteq> target"
  shows "casefold (state_label target) \<notin> casefold ` set ls"
proof
  assume "casefold (state_label target) \<in> casefold ` set ls"
  then obtain k where k: "k \<in> set ls" "canonical_label_name k = code_points (state_label target)"
    using state_label_canonical by (auto simp: canonical_label_name_def)
  then have "k \<in> set (filter state_labelled ls)" using state_label_facts(4) by (simp add: state_labelled_def)
  moreover have "filter state_labelled ls = [l]" using assms(1) by (simp add: stage_of_def)
  ultimately have "k = l" by (metis empty_iff insert_iff list.set(1) list.set(2))
  then show False using k(2) assms state_label_facts(2) by (simp add: stage_of_def)
qed

lemma mutate_labels_ok:
  assumes "it_labels (ia_transport a) meth path body x = (Inr ls, y)" "require_mutation_lifecycle_labels ls expected = Inr ()"
  shows "mutate_labels a n target meth path body expected x = (Inr (), y)"
  using assms by (simp add: mutate_labels_def sbind_result)

lemma known_labels:
  assumes "mset ls = mset ks" "\<forall>k \<in> set ks. \<not> unknown_stage_label k"
  shows "\<not> list_ex unknown_stage_label ls"
  using assms mset_eq_setD [OF assms(1)] by (auto simp: list_ex_iff)

lemma change_state_faithful:
  assumes faithful: "faithful a n labels" and stage: "stage_of (labels x) l s" and "s \<noteq> target"
  shows "\<exists>ref y. change_state a n l target x = (Inr ref, y) \<and> wr_state ref = target
    \<and> mset (labels y) = add_mset (state_label target) (mset (labels x) - {#l#}) \<and> stage_of (labels y) (state_label target) target"
proof -
  let ?t = "state_label target"
  have l: "l \<in> set (labels x)" "state_labelled l" and known: "\<forall>k \<in> set (labels x). \<not> unknown_stage_label k"
    and only: "filter_mset state_labelled (mset (labels x)) = {#l#}"
    using stage stage_of_label [OF stage] by (auto simp: stage_of_def list_ex_iff simp flip: mset_filter)
  have t: "state_labelled ?t" "\<not> unknown_stage_label ?t" using state_label_facts by (simp_all add: state_labelled_def)
  obtain ls y where post: "it_labels (ia_transport a) Http_Post (issue_path a n @ ''/labels'') (Some (Label_Payload [?t])) x = (Inr ls, y)"
    and ls: "mset ls = mset (labels y)" and y: "mset (labels y) = add_mset ?t (mset (labels x))"
    using faithful target_absent [OF stage \<open>s \<noteq> target\<close>] unfolding faithful_def by blast
  have y_set: "set (labels y) = insert ?t (set (labels x))" using y by (metis set_mset_add_mset_insert set_mset_mset)
  have added: "require_mutation_lifecycle_labels ls [canonical_label_name l, code_points ?t] = Inr ()"
  proof (rule require_mutation_mset [where ks = "[l, ?t]"])
    show "\<not> list_ex unknown_stage_label ls" using known_labels [OF ls] y_set known t by auto
    show "mset (filter state_labelled ls) = mset [l, ?t]" using ls y only t by simp
  qed (simp_all add: state_label_canonical)
  have "l \<in> set (labels y)" using l y_set by blast
  then obtain ms z where delete: "it_labels (ia_transport a) Http_Delete (issue_path a n @ ''/labels/'' @ quote_url l) None y = (Inr ms, z)"
    and ms: "mset ms = mset (labels z)" and z: "mset (labels z) = mset (labels y) - {#l#}"
    using faithful unfolding faithful_def by blast
  have z_eq: "mset (labels z) = add_mset ?t (mset (labels x) - {#l#})"
    using z y l(1) by (simp add: add_mset_diff_bothsides diff_union_swap2)
  have z_set: "set (labels z) \<subseteq> insert ?t (set (labels x))"
    using z_eq by (metis in_diffD insertE set_mset_add_mset_insert set_mset_mset subsetI insertCI)
  have z_only: "filter_mset state_labelled (mset (labels z)) = {#?t#}" using z_eq only t l by simp
  have z_known: "\<forall>k \<in> set (labels z). \<not> unknown_stage_label k" using z_set known t(2) by blast
  have removed: "require_mutation_lifecycle_labels ms [code_points ?t] = Inr ()"
  proof (rule require_mutation_mset [where ks = "[?t]"])
    show "\<not> list_ex unknown_stage_label ms" using known_labels [OF ms z_known] .
    show "mset (filter state_labelled ms) = mset [?t]" using ms z_only by simp
  qed (simp_all add: state_label_canonical)
  have "mset (filter state_labelled (labels z)) = {#?t#}" using z_only by simp
  then have "filter state_labelled (labels z) = [?t]" by (simp only: mset_single_iff)
  then have final: "stage_of (labels z) ?t target"
    using z_known state_label_facts by (auto simp: stage_of_def list_ex_iff)
  obtain i w where i: "get_issue a n z = (Inr i, w)" "mset (gi_labels i) = mset (labels z)" "mset (labels w) = mset (labels z)"
    using faithful_get [OF faithful] .
  have "lifecycle_state i = Inr target"
    using stage_of_mset [OF final i(2)] by (auto simp: lifecycle_state_iff)
  then have "change_state a n l target x = (Inr (issue_ref i target), w)"
    using mutate_labels_ok [OF post added] mutate_labels_ok [OF delete removed] i(1)
    by (simp add: change_state_def Let_def sbind_result require_lifecycle_state_def)
  then show ?thesis using stage_of_mset [OF final i(3)] i(3) z_eq by (auto simp: issue_ref_def)
qed

fun apply_all :: "'x issue_tracker \<Rightarrow> transition list \<Rightarrow> ('x, work_item_error, unit) eff" where
  "apply_all a [] = sreturn ()"
| "apply_all a (t # ts) = sbind (apply_transition a t) (\<lambda>_. apply_all a ts)"

definition other_labels :: "string list \<Rightarrow> string multiset" where
  "other_labels ls = filter_mset (\<lambda>k. \<not> state_labelled k) (mset ls)"

lemma apply_transition_faithful:
  assumes "faithful a n labels" "stage_of (labels x) l s" "parse_issue_number (tr_work_item_id t) = Inr n"
  shows "(\<forall>e. validate_against t s = Inl e \<longrightarrow> (\<exists>y. apply_transition a t x = (Inl (Illegal e), y) \<and> mset (labels y) = mset (labels x)))
    \<and> (validate_against t s = Inr () \<longrightarrow> (\<exists>ref y l'. apply_transition a t x = (Inr ref, y) \<and> wr_state ref = tr_target t
        \<and> stage_of (labels y) l' (tr_target t) \<and> other_labels (labels y) = other_labels (labels x)))"
proof -
  obtain i y where i: "get_issue a n x = (Inr i, y)" "mset (gi_labels i) = mset (labels x)" "mset (labels y) = mset (labels x)"
    using faithful_get [OF assms(1)] .
  note read = stage_of_mset [OF assms(2) i(3)]
  have stage: "stage_of (gi_labels i) l s" using stage_of_mset [OF assms(2) i(2)] .
  then have label: "lifecycle_label i = Inr l" "lifecycle_state i = Inr s"
    by (auto simp: lifecycle_label_iff lifecycle_state_iff stage_of_def)
  note runs = apply_transition_def provider_def scatch_def sbind_result
  have "s \<noteq> tr_target t" if "validate_against t s = Inr ()"
    using that no_self_transition by (auto simp: validate_against_iff)
  then have "\<exists>ref y l'. apply_transition a t x = (Inr ref, y) \<and> wr_state ref = tr_target t
      \<and> stage_of (labels y) l' (tr_target t) \<and> other_labels (labels y) = other_labels (labels x)"
    if ok: "validate_against t s = Inr ()"
    using change_state_faithful [OF assms(1) read, of "tr_target t"] stage_of_label [OF assms(2)] state_label_facts ok i(3)
    by (auto simp: runs i label assms(3) other_labels_def state_labelled_def)
  then show ?thesis by (auto simp: runs i label assms(3))
qed

text \<open>
  C13. The issue runs the lifecycle. Against a provider that does what its label operations say, a sequence of transitions
  applied to an issue is carried out exactly as far as the transition system accepts it: the issue ends in the one state the
  accepted prefix leads to, the first transition that is not valid there is refused as illegal, and no label outside the
  lifecycle is touched.
\<close>

theorem issue_runs_lifecycle:
  assumes "faithful a n labels" "stage_of (labels x) l s" "\<forall>t \<in> set ts. parse_issue_number (tr_work_item_id t) = Inr n"
  shows "\<exists>us vs l' u. ts = us @ vs \<and> lifecycle s us = Some u \<and> stage_of (labels (snd (apply_all a ts x))) l' u
    \<and> other_labels (labels (snd (apply_all a ts x))) = other_labels (labels x)
    \<and> (case vs of [] \<Rightarrow> fst (apply_all a ts x) = Inr ()
       | v # _ \<Rightarrow> \<exists>e. validate_against v u = Inl e \<and> fst (apply_all a ts x) = Inl (Illegal e))"
  using assms(2,3)
proof (induction ts arbitrary: x l s)
  case Nil
  then show ?case by auto
next
  case (Cons t ts)
  note step = apply_transition_faithful [OF assms(1) Cons.prems(1), of t]
  show ?case
  proof (cases "validate_against t s")
    case (Inl e)
    then obtain y where run: "apply_all a (t # ts) x = (Inl (Illegal e), y)" and y: "mset (labels y) = mset (labels x)"
      using step Cons.prems(2) by (auto simp: sbind_result)
    show ?thesis unfolding run using Inl stage_of_mset [OF Cons.prems(1) y] y
      by (rule_tac x = "[]" in exI, rule_tac x = "t # ts" in exI, rule_tac x = l in exI, rule_tac x = s in exI) (simp add: other_labels_def)
  next
    case (Inr w)
    then obtain ref y k where y: "apply_transition a t x = (Inr ref, y)" "stage_of (labels y) k (tr_target t)"
      "other_labels (labels y) = other_labels (labels x)" using step Cons.prems(2) by auto
    then have run: "apply_all a (t # ts) x = apply_all a ts y" by (simp add: sbind_result)
    from Cons.IH [OF y(2)] Cons.prems(2) obtain us vs l' u where tail: "ts = us @ vs" "lifecycle (tr_target t) us = Some u"
      "stage_of (labels (snd (apply_all a ts y))) l' u" "other_labels (labels (snd (apply_all a ts y))) = other_labels (labels y)"
      "case vs of [] \<Rightarrow> fst (apply_all a ts y) = Inr ()
       | v # _ \<Rightarrow> \<exists>e. validate_against v u = Inl e \<and> fst (apply_all a ts y) = Inl (Illegal e)" by auto
    then show ?thesis using y(3) Inr unfolding run
      by (intro exI [of _ "t # us"] exI [of _ vs] exI [of _ l'] exI [of _ u]) (simp add: succeeds_def)
  qed
qed

subsection \<open>An example\<close>

lemma faithful_noting:
  assumes f: "faithful a n labels"
  shows "faithful (noting_tracker a) n (\<lambda>z. labels (fst z))"
  unfolding faithful_def noting_tracker_sel
proof (intro conjI allI impI)
  fix z :: "'a \<times> github_call list"
  obtain i y where "it_issue (ia_transport a) Http_Get (issue_path a n) None (fst z) = (Inr i, y)" "gi_number i = int n"
    "require_issue_repository a i = Inr ()" "mset (gi_labels i) = mset (labels (fst z))" "mset (labels y) = mset (labels (fst z))"
    using f unfolding faithful_def by blast
  then show "\<exists>i w. noted Issue_Call (it_issue (ia_transport a)) Http_Get (issue_path a n) None z = (Inr i, w) \<and> gi_number i = int n
      \<and> require_issue_repository a i = Inr () \<and> mset (gi_labels i) = mset (labels (fst z)) \<and> mset (labels (fst w)) = mset (labels (fst z))"
    by (simp add: noted_def)
next
  fix z :: "'a \<times> github_call list" and l
  assume "casefold l \<notin> casefold ` set (labels (fst z))"
  then obtain ls y where "it_labels (ia_transport a) Http_Post (issue_path a n @ ''/labels'') (Some (Label_Payload [l])) (fst z) = (Inr ls, y)"
    "mset ls = mset (labels y)" "mset (labels y) = add_mset l (mset (labels (fst z)))"
    using f unfolding faithful_def by blast
  then show "\<exists>ls w. noted Labels_Call (it_labels (ia_transport a)) Http_Post (issue_path a n @ ''/labels'') (Some (Label_Payload [l])) z
      = (Inr ls, w) \<and> mset ls = mset (labels (fst w)) \<and> mset (labels (fst w)) = add_mset l (mset (labels (fst z)))"
    by (simp add: noted_def)
next
  fix z :: "'a \<times> github_call list" and l
  assume "l \<in> set (labels (fst z))"
  then obtain ls y where "it_labels (ia_transport a) Http_Delete (issue_path a n @ ''/labels/'' @ quote_url l) None (fst z) = (Inr ls, y)"
    "mset ls = mset (labels y)" "mset (labels y) = mset (labels (fst z)) - {#l#}"
    using f unfolding faithful_def by blast
  then show "\<exists>ls w. noted Labels_Call (it_labels (ia_transport a)) Http_Delete (issue_path a n @ ''/labels/'' @ quote_url l) None z
      = (Inr ls, w) \<and> mset ls = mset (labels (fst w)) \<and> mset (labels (fst w)) = mset (labels (fst z)) - {#l#}"
    by (simp add: noted_def)
qed

lemma upper_hex_digit_inj: "a < 16 \<Longrightarrow> b < 16 \<Longrightarrow> upper_hex_digit a = upper_hex_digit b \<Longrightarrow> a = b"
proof -
  have "distinct ''0123456789ABCDEF''" by simp
  moreover have "length ''0123456789ABCDEF'' = 16" by simp
  ultimately show "a < 16 \<Longrightarrow> b < 16 \<Longrightarrow> upper_hex_digit a = upper_hex_digit b \<Longrightarrow> a = b"
    unfolding upper_hex_digit_def by (metis nth_eq_iff_index_eq)
qed

lemma quote_byte_prefix: "quote_byte c @ r = quote_byte d @ s \<Longrightarrow> c = d \<and> r = s"
proof -
  assume eq: "quote_byte c @ r = quote_byte d @ s"
  have percent: "\<not> url_safe (CHR ''%'')" by (simp add: url_safe_def ascii_letter_def ascii_upper_def ascii_lower_def ascii_digit_def)
  have bound: "of_char c div 16 < (16 :: nat)" for c by (simp add: less_mult_imp_div_less)
  have "c = d" if "of_char c div 16 = (of_char d div 16 :: nat)" "of_char c mod 16 = (of_char d mod 16 :: nat)"
  proof -
    have "(of_char c :: nat) = of_char d" using that by (metis div_mult_mod_eq)
    then show ?thesis by simp
  qed
  then show ?thesis
    using eq percent upper_hex_digit_inj [of "of_char c div 16" "of_char d div 16"]
      upper_hex_digit_inj [of "of_char c mod 16" "of_char d mod 16"] bound
    by (auto simp: quote_byte_def split: if_splits)
qed

lemma quote_url_inj: "quote_url a = quote_url b \<Longrightarrow> a = b"
proof -
  have "concat (map quote_byte xs) = concat (map quote_byte ys) \<Longrightarrow> xs = ys" for xs ys
  proof (induction xs arbitrary: ys)
    case Nil
    then show ?case by (cases ys) (auto simp: quote_byte_def split: if_splits)
  next
    case (Cons c xs)
    then obtain d zs where "ys = d # zs" by (cases ys) (auto simp: quote_byte_def split: if_splits)
    then show ?case using Cons quote_byte_prefix by fastforce
  qed
  then show "quote_url a = quote_url b \<Longrightarrow> a = b" unfolding quote_url_def by (blast dest: utf8_inj)
qed

definition ex_issue :: "string list \<Rightarrow> github_issue" where
  "ex_issue ls = \<lparr>gi_number = 7,
     gi_html_url = \<lparr>wu_text = ''https://h/o/issues/7'', wu_scheme = ''https'', wu_host = Some ''h'', wu_username = None,
       wu_password = None, wu_path = Some ''/o/issues/7''\<rparr>,
     gi_repository_url = \<lparr>wu_text = ''https://a/r'', wu_scheme = ''https'', wu_host = Some ''a'', wu_username = None,
       wu_password = None, wu_path = Some ''/r''\<rparr>, gi_labels = ls\<rparr>"

definition ex_tracker :: "string list issue_tracker" where
  "ex_tracker = \<lparr>ia_issues_path = ''/r/issues'', ia_repository_url = ''https://a/r'', ia_web_host = code_points ''h'',
     ia_web_issue_path = ''/o'', ia_transport = \<lparr>
       it_issue = (\<lambda>meth path body x. (Inr (ex_issue x), x)),
       it_labels = (\<lambda>meth path body x. case (meth, body) of
           (Http_Post, Some (Label_Payload [l])) \<Rightarrow> (Inr (l # x), l # x)
         | (Http_Delete, _) \<Rightarrow> (case find (\<lambda>k. path = ''/r/issues/7/labels/'' @ quote_url k) x of
             None \<Rightarrow> (Inl Api_Error, x) | Some k \<Rightarrow> (Inr (remove1 k x), remove1 k x))
         | _ \<Rightarrow> (Inl Api_Error, x)),
       it_comment = (\<lambda>meth path body x. (Inl Api_Error, x))\<rparr>\<rparr>"

lemma ex_repository: "require_issue_repository ex_tracker (ex_issue ls) = Inr ()"
proof -
  have "show_int 7 = ''7''" "strip_right (CHR ''/'') ''https://a/r'' = ''https://a/r''" by code_simp+
  moreover have "casefold ''h'' = code_points ''h''" by (simp add: casefold_def casefold_char_def ascii_upper_def code_points_def)
  ultimately show ?thesis by (simp add: require_issue_repository_def ex_tracker_def ex_issue_def path_text_def)
qed

lemma find_quoted: "l \<in> set x \<Longrightarrow> find (\<lambda>k. quote_url l = quote_url k) x = Some l"
  by (induction x) (auto dest: quote_url_inj)

lemma ex_faithful: "faithful ex_tracker 7 (\<lambda>x. x)"
proof -
  have "show_nat 7 = ''7''" by code_simp
  then have path: "issue_path ex_tracker 7 = ''/r/issues/7''" by (simp add: issue_path_def ex_tracker_def)
  show ?thesis
    unfolding faithful_def path
  proof (intro conjI allI impI)
    show "\<exists>i y. it_issue (ia_transport ex_tracker) Http_Get ''/r/issues/7'' None x = (Inr i, y) \<and> gi_number i = int 7
       \<and> require_issue_repository ex_tracker i = Inr () \<and> mset (gi_labels i) = mset x \<and> mset y = mset x" for x
    proof (intro exI conjI)
      show "it_issue (ia_transport ex_tracker) Http_Get ''/r/issues/7'' None x = (Inr (ex_issue x), x)"
        by (simp add: ex_tracker_def)
      show "require_issue_repository ex_tracker (ex_issue x) = Inr ()" by (rule ex_repository)
    qed (simp_all add: ex_issue_def)
  qed (auto simp: ex_tracker_def find_quoted)
qed

definition ex_move :: "work_item_state \<Rightarrow> work_item_state \<Rightarrow> transition" where
  "ex_move s u = (ex_transition s u None)\<lparr>tr_work_item_id := ''7''\<rparr>"

lemma ex_seven: "parse_issue_number ''7'' = Inr 7"
  by (simp add: parse_issue_number_def ascii_digit_def digits_value_def)

lemma ex_stage: "stage_of [''bug'', state_label s] (state_label s) s"
proof -
  have "casefold ''bug'' = code_points ''bug''" by (simp add: casefold_def casefold_char_def ascii_upper_def code_points_def)
  moreover have "code_points ''bug'' \<noteq> code_points (state_label u)" for u
    unfolding code_points_inj by (cases u) (simp_all add: state_label_table)
  moreover have "take 6 (code_points ''bug'') \<noteq> code_points ''stage:''" by (simp add: code_points_def)
  ultimately show ?thesis
    using state_label_facts [of s]
    by (auto simp: stage_of_def state_labelled_def canonical_label_name_def unknown_stage_label_def stage_prefixed_def
        is_state_label_def state_labels_def)
qed

lemma ex_moves:
  "validate_against (ex_move DEV_VERIFYING DEV_VERIFIED) DEV_VERIFYING = Inr ()"
  "validate_against (ex_move DEV_VERIFIED PREPROD_VERIFYING) DEV_VERIFIED = Inl Illegal_Transition"
  by (simp_all add: validate_against_def ex_move_def ex_transition_def human_gates_def approved_def require_all.simps)

lemma ex_move_sel [simp]: "tr_target (ex_move s u) = u" "tr_work_item_id (ex_move s u) = ''7''"
  by (simp_all add: ex_move_def ex_transition_def)

theorem transitions_are_verified_witness:
  "\<exists>ref y calls. apply_transition (noting_tracker ex_tracker) (ex_move DEV_VERIFYING DEV_VERIFIED)
      ([''bug'', state_label DEV_VERIFYING], []) = (Inr ref, (y, calls))
    \<and> length calls = 4 \<and> wr_id ref = ''7'' \<and> wr_state ref = DEV_VERIFIED"
proof -
  let ?t = "ex_move DEV_VERIFYING DEV_VERIFIED" and ?ls = "[''bug'', state_label DEV_VERIFYING]"
  obtain ref z where run: "apply_transition (noting_tracker ex_tracker) ?t (?ls, []) = (Inr ref, z)"
    using apply_transition_faithful [OF faithful_noting [OF ex_faithful], of "(?ls, [])" "state_label DEV_VERIFYING" DEV_VERIFYING ?t]
      ex_stage ex_seven ex_moves(1) by auto
  obtain y calls where z: "z = (y, calls)" by (cases z)
  from transitions_are_verified [OF run [unfolded z] disjI1 [OF refl]] have "length calls = 4 \<and> wr_id ref = ''7'' \<and> wr_state ref = DEV_VERIFIED"
    by auto
  then show ?thesis using run z by blast
qed

theorem issue_runs_lifecycle_witness:
  "\<exists>l. stage_of (snd (apply_all ex_tracker [ex_move DEV_VERIFYING DEV_VERIFIED, ex_move DEV_VERIFIED PREPROD_VERIFYING]
      [''bug'', state_label DEV_VERIFYING])) l DEV_VERIFIED"
proof -
  let ?ts = "[ex_move DEV_VERIFYING DEV_VERIFIED, ex_move DEV_VERIFIED PREPROD_VERIFYING]"
  let ?ls = "[''bug'', state_label DEV_VERIFYING]"
  have ids: "\<forall>t \<in> set ?ts. parse_issue_number (tr_work_item_id t) = Inr 7" by (simp add: ex_seven)
  obtain us vs l u where parts: "?ts = us @ vs" "lifecycle DEV_VERIFYING us = Some u"
    "stage_of (snd (apply_all ex_tracker ?ts ?ls)) l u"
    "case vs of [] \<Rightarrow> fst (apply_all ex_tracker ?ts ?ls) = Inr ()
       | v # _ \<Rightarrow> \<exists>e. validate_against v u = Inl e \<and> fst (apply_all ex_tracker ?ts ?ls) = Inl (Illegal e)"
    using issue_runs_lifecycle [OF ex_faithful ex_stage ids] by blast
  have "u = DEV_VERIFIED"
    using parts(1,2,4) ex_moves by (cases us; cases "tl us") (auto simp: succeeds_def Cons_eq_append_conv split: if_splits)
  with parts(3) show ?thesis by blast
qed

end
