(* ===== verification/Provider_Properties.thy ===== *)
theory Provider_Properties
  imports Model_Providers Py_Url
begin

text \<open>
  What a completed model call amounts to: one request, to the configured host, whose metered usage is what the provider
  reported, each token counted once.
\<close>

declare split_paired_All [simp del] split_paired_Ex [simp del] split_paired_all [simp del]

subsection \<open>A port whose requests are noted\<close>

datatype provider_call =
    Posted string "(string \<times> string) list" string "(int \<times> string) option"
  | Conversed string string int bedrock_outcome

definition noting_access :: "'x credential_access \<Rightarrow> ('x \<times> provider_call list) credential_access" where
  "noting_access a = \<lparr>ca_ref = ca_ref a,
     ca_secret = (\<lambda>r z. (fst (ca_secret a r (fst z)), (snd (ca_secret a r (fst z)), snd z))),
     ca_transport = (\<lambda>meth url headers body z. case ca_transport a meth url headers body (fst z) of
       (Inl e, y) \<Rightarrow> (Inl e, (y, snd z @ [Posted url headers body None]))
     | (Inr answer, y) \<Rightarrow> (Inr answer, (y, snd z @ [Posted url headers body (Some answer)]))),
     ca_loads = ca_loads a, ca_loads_bytes = ca_loads_bytes a, ca_api_url = ca_api_url a\<rparr>"

fun noting_port :: "'x provider_port \<Rightarrow> ('x \<times> provider_call list) provider_port" where
  "noting_port (OpenAI_Port s a) = OpenAI_Port s (noting_access a)"
| "noting_port (Gemini_Port s a) = Gemini_Port s (noting_access a)"
| "noting_port (Bedrock_Port s c) = Bedrock_Port s (\<lambda>model prompt limit z.
     (fst (c model prompt limit (fst z)),
      (snd (c model prompt limit (fst z)), snd z @ [Conversed model prompt limit (fst (c model prompt limit (fst z)))])))"

definition built_port :: "(string \<Rightarrow> bool) \<Rightarrow> string \<Rightarrow> model_setting \<Rightarrow> 'x provider_port \<Rightarrow> bool" where
  "built_port bracketed_host base s p \<longleftrightarrow>
    (\<exists>a. ca_api_url a = base \<and> (make_openai bracketed_host s a = Inr p \<or> make_gemini bracketed_host s a = Inr p))
    \<or> (\<exists>c. make_bedrock s c = Inr p)"

text \<open>The document an exchange brought back, and that it is the exchange the port owes the request.\<close>

fun exchange :: "'x provider_port \<Rightarrow> model_request \<Rightarrow> provider_call \<Rightarrow> json \<Rightarrow> bool" where
  "exchange (OpenAI_Port s a) q call v \<longleftrightarrow>
    (\<exists>key status raw. call = Posted (openai_url a) (openai_headers key) (default_dumps (openai_document s (mq_prompt q)))
        (Some (status, raw)) \<and> 200 \<le> status \<and> status < 300 \<and> ca_loads_bytes a raw = Reads v)"
| "exchange (Gemini_Port s a) q call v \<longleftrightarrow>
    (\<exists>key status raw. call = Posted (gemini_url s a) (gemini_headers key) (default_dumps (gemini_document s (mq_prompt q)))
        (Some (status, raw)) \<and> 200 \<le> status \<and> status < 300 \<and> ca_loads_bytes a raw = Reads v)"
| "exchange (Bedrock_Port s c) q call v \<longleftrightarrow>
    call = Conversed (ms_model s) (mq_prompt q) (ms_max_output s) (Converse_Answer v)"

text \<open>Input and output tokens as each provider reports them.\<close>

definition reported :: "json option \<Rightarrow> string \<Rightarrow> int" where
  "reported usage k = (case json_int (json_path usage k) of Some i \<Rightarrow> i | None \<Rightarrow> 0)"

fun usage_totals :: "'x provider_port \<Rightarrow> json \<Rightarrow> int \<times> int" where
  "usage_totals (OpenAI_Port s a) v =
    (reported (json_get v ''usage'') ''input_tokens'', reported (json_get v ''usage'') ''output_tokens'')"
| "usage_totals (Gemini_Port s a) v =
    (reported (json_get v ''usageMetadata'') ''promptTokenCount'' + reported (json_get v ''usageMetadata'') ''toolUsePromptTokenCount'',
     reported (json_get v ''usageMetadata'') ''candidatesTokenCount'' + reported (json_get v ''usageMetadata'') ''thoughtsTokenCount'')"
| "usage_totals (Bedrock_Port s c) v =
    (reported (json_get v ''usage'') ''inputTokens'', reported (json_get v ''usage'') ''outputTokens'')"

fun stays_home :: "(string \<Rightarrow> bool) \<Rightarrow> string \<Rightarrow> provider_call \<Rightarrow> bool" where
  "stays_home bracketed_host base (Posted url headers body answer) \<longleftrightarrow>
    (\<exists>u v. url_split bracketed_host base = Some u \<and> url_split bracketed_host url = Some v
      \<and> lower (su_scheme v) = ''https'' \<and> url_hostname v \<noteq> None \<and> su_netloc v = su_netloc u \<and> url_username v = None \<and> url_password v = None)"
| "stays_home bracketed_host base (Conversed model prompt limit answer) \<longleftrightarrow> True"

subsection \<open>Usage\<close>

lemma token_count_reported: "token_count (json_path v k) = Some n \<Longrightarrow> reported v k = int n"
  by (auto simp: token_count_def reported_def split: option.splits if_splits)

lemma count_or_zero_reported: "count_or_zero d k = Some n \<Longrightarrow> reported (Some d) k = int n"
  by (auto simp: count_or_zero_def token_count_def reported_def json_path_def split: option.splits if_splits)

lemma make_usage_sel [simp]:
  "total_input_tokens (make_usage i c w out) = i + c + w" "mu_output_tokens (make_usage i c w out) = out"
  by (simp_all add: make_usage_def seal_def total_input_tokens_def)

lemma json_path_obj: "json_path (Some d) k = json_get d k"
  by (simp add: json_path_def)

lemma openai_usage_totals:
  assumes "openai_usage value = Some u"
  shows "int (total_input_tokens u) = reported value ''input_tokens'' \<and> int (mu_output_tokens u) = reported value ''output_tokens''"
proof -
  obtain d where d: "value = Some (JObj d)" using assms by (auto simp: openai_usage_def split: option.splits json.splits)
  from assms obtain i out where "token_count (json_get (JObj d) ''input_tokens'') = Some i"
    "token_count (json_get (JObj d) ''output_tokens'') = Some out" "total_input_tokens u = i" "mu_output_tokens u = out"
    unfolding openai_usage_def d by (auto simp del: json_get.simps split: option.splits if_splits)
  then show ?thesis by (simp add: d json_path_obj token_count_reported del: json_get.simps)
qed

lemma google_usage_totals:
  assumes "google_usage value = Some u"
  shows "int (total_input_tokens u) = reported value ''promptTokenCount'' + reported value ''toolUsePromptTokenCount''
    \<and> int (mu_output_tokens u) = reported value ''candidatesTokenCount'' + reported value ''thoughtsTokenCount''"
proof -
  obtain d where d: "value = Some (JObj d)" using assms by (auto simp: google_usage_def split: option.splits json.splits)
  from assms obtain i out t l where "token_count (json_get (JObj d) ''promptTokenCount'') = Some i"
    "token_count (json_get (JObj d) ''candidatesTokenCount'') = Some out" "count_or_zero (JObj d) ''thoughtsTokenCount'' = Some t"
    "count_or_zero (JObj d) ''toolUsePromptTokenCount'' = Some l"
    "total_input_tokens u = i + l" "mu_output_tokens u = out + t"
    unfolding google_usage_def d by (auto simp del: json_get.simps split: option.splits if_splits)
  then show ?thesis by (simp add: d json_path_obj token_count_reported count_or_zero_reported del: json_get.simps)
qed

lemma bedrock_usage_totals:
  assumes "bedrock_usage value = Some u"
  shows "int (total_input_tokens u) = reported value ''inputTokens'' \<and> int (mu_output_tokens u) = reported value ''outputTokens''"
proof -
  obtain d where d: "value = Some (JObj d)" using assms by (auto simp: bedrock_usage_def split: option.splits json.splits)
  from assms obtain i out where "token_count (json_get (JObj d) ''inputTokens'') = Some i"
    "token_count (json_get (JObj d) ''outputTokens'') = Some out" "total_input_tokens u = i" "mu_output_tokens u = out"
    unfolding bedrock_usage_def d by (auto simp del: json_get.simps split: option.splits if_splits)
  then show ?thesis by (simp add: d json_path_obj token_count_reported del: json_get.simps)
qed

subsection \<open>Requests\<close>

lemma noting_access_sel [simp]:
  "ca_ref (noting_access a) = ca_ref a" "ca_loads (noting_access a) = ca_loads a"
  "ca_loads_bytes (noting_access a) = ca_loads_bytes a" "ca_api_url (noting_access a) = ca_api_url a"
  "ca_secret (noting_access a) r z = (fst (ca_secret a r (fst z)), (snd (ca_secret a r (fst z)), snd z))"
  by (simp_all add: noting_access_def)

lemma noting_transport:
  "ca_transport (noting_access a) meth url headers body z =
    (fst (ca_transport a meth url headers body (fst z)), (snd (ca_transport a meth url headers body (fst z)),
      snd z @ [Posted url headers body (case fst (ca_transport a meth url headers body (fst z)) of Inl _ \<Rightarrow> None | Inr ans \<Rightarrow> Some ans)]))"
  by (simp add: noting_access_def split: prod.split sum.split)

lemma noted_api_key: "api_key (noting_access a) z = (res, z') \<Longrightarrow> snd z' = snd z"
  by (auto simp: api_key_def sbind_def scall_def split: prod.splits option.splits sum.splits)

lemma noting_payload [simp]: "response_payload (noting_access a) status raw = response_payload a status raw"
  by (simp add: response_payload_def)

text \<open>Whatever happens, a post notes at most one request, the one it was asked for.\<close>

definition posts :: "string \<Rightarrow> (string \<Rightarrow> (string \<times> string) list) \<Rightarrow> json \<Rightarrow> provider_call list \<Rightarrow> bool" where
  "posts url headers document calls \<longleftrightarrow>
    calls = [] \<or> (\<exists>key answer. calls = [Posted url (headers key) (default_dumps document) answer])"

lemma noted_post:
  assumes "post_prompt (noting_access a) url headers document z = (res, z')"
  shows "\<exists>calls. snd z' = snd z @ calls \<and> posts url headers document calls
    \<and> (\<forall>v. res = Inr v \<longrightarrow> is_object v \<and> (\<exists>key status raw.
          calls = [Posted url (headers key) (default_dumps document) (Some (status, raw))]
          \<and> 200 \<le> status \<and> status < 300 \<and> ca_loads_bytes a raw = Reads v))"
proof -
  obtain got z1 where key: "api_key (noting_access a) z = (got, z1)" by fastforce
  show ?thesis
  proof (cases got)
    case (Inl e)
    then show ?thesis using assms key noted_api_key [OF key] by (auto simp: post_prompt_def sbind_def posts_def)
  next
    case (Inr k)
    let ?out = "ca_transport a ''POST'' url (headers k) (default_dumps document) (fst z1)"
    have kept: "snd z1 = snd z" by (rule noted_api_key [OF key])
    show ?thesis
    proof (cases "fst ?out")
      case (Inl e)
      then show ?thesis
        using assms key \<open>got = Inr k\<close> kept by (auto simp: post_prompt_def sbind_def noting_transport posts_def)
    next
      case (Inr answer)
      obtain status raw where answer: "answer = (status, raw)" by fastforce
      have "res = response_payload a status raw" "snd z' = snd z @ [Posted url (headers k) (default_dumps document) (Some (status, raw))]"
        using assms key \<open>got = Inr k\<close> Inr answer kept
        by (auto simp: post_prompt_def sbind_def noting_transport)
      then show ?thesis
        by (auto simp: posts_def response_payload_def split: if_splits json_reading.splits)
    qed
  qed
qed

lemma completed_response_Inr:
  "completed_response s out execution usage = Inr r \<Longrightarrow>
    mp_status r = MODEL_COMPLETED \<and> mp_model r = ms_model s \<and> mp_family r = ms_family s \<and> strip (mp_output r) \<noteq> []
    \<and> mp_usage r = usage \<and> model_response_ok r"
  by (auto simp: completed_response_def Let_def split: if_splits)

text \<open>What both HTTP ports do around their reading of the answer.\<close>

lemma noted_complete:
  assumes "sbind (post_prompt (noting_access a) url headers document) (\<lambda>payload.
      sbind (spure (out_of payload)) (\<lambda>out. spure (completed_response s out (id_of payload) (usage_of payload)))) z = (res, z')"
  shows "\<exists>calls. snd z' = snd z @ calls \<and> posts url headers document calls
    \<and> (\<forall>r. res = Inr r \<longrightarrow> (\<exists>v. is_object v \<and> (\<exists>key status raw.
          calls = [Posted url (headers key) (default_dumps document) (Some (status, raw))]
          \<and> 200 \<le> status \<and> status < 300 \<and> ca_loads_bytes a raw = Reads v)
        \<and> (\<exists>out. out_of v = Inr out \<and> completed_response s out (id_of v) (usage_of v) = Inr r)))"
proof -
  obtain got z1 where post: "post_prompt (noting_access a) url headers document z = (got, z1)" by fastforce
  obtain calls where calls: "snd z1 = snd z @ calls" "posts url headers document calls"
    "\<forall>v. got = Inr v \<longrightarrow> is_object v \<and> (\<exists>key status raw.
          calls = [Posted url (headers key) (default_dumps document) (Some (status, raw))]
          \<and> 200 \<le> status \<and> status < 300 \<and> ca_loads_bytes a raw = Reads v)"
    using noted_post [OF post] by (elim exE conjE) (rule that)
  have rest: "z' = z1" "\<And>r. res = Inr r \<Longrightarrow> \<exists>v out. got = Inr v \<and> out_of v = Inr out
      \<and> completed_response s out (id_of v) (usage_of v) = Inr r"
    by (use assms post in \<open>cases got; auto simp: sbind_def split: sum.splits\<close>)+
  show ?thesis
  proof (intro exI [of _ calls] conjI allI impI)
    show "snd z' = snd z @ calls" using calls(1) rest(1) by simp
    show "posts url headers document calls" by (rule calls(2))
  next
    fix r assume "res = Inr r"
    then obtain v out where "got = Inr v" "out_of v = Inr out" "completed_response s out (id_of v) (usage_of v) = Inr r"
      using rest(2) by blast
    with calls(3) show "\<exists>v. is_object v \<and> (\<exists>key status raw.
          calls = [Posted url (headers key) (default_dumps document) (Some (status, raw))]
          \<and> 200 \<le> status \<and> status < 300 \<and> ca_loads_bytes a raw = Reads v)
        \<and> (\<exists>out. out_of v = Inr out \<and> completed_response s out (id_of v) (usage_of v) = Inr r)"
      by blast
  qed
qed

lemma built_api_url:
  assumes "api_url_ok bh base" "hd path = CHR ''/''" "path \<noteq> []"
  shows "stays_home bh base (Posted (strip_right (CHR ''/'') base @ path) headers body answer)"
proof -
  from assms(1) obtain u where u: "url_split bh base = Some u" "lower (su_scheme u) = ''https''" "url_hostname u \<noteq> None"
    "url_username u = None" "url_password u = None" by (auto simp: api_url_ok_def split: option.splits)
  have "su_netloc u \<noteq> []"
    using u(3) by (auto simp: url_hostname_def host_and_port_def after_last_def text_before_def Let_def split: if_splits)
  moreover have "su_scheme u \<noteq> []" using u(2) by (auto simp: lower_def)
  ultimately obtain v where v: "url_split bh (strip_right (CHR ''/'') base @ path) = Some v" "su_scheme v = su_scheme u"
    "su_netloc v = su_netloc u"
    using url_split_append [OF u(1) _ _ assms(2,3)] by blast
  with u v netloc_parts [OF v(3)] show ?thesis by auto
qed

lemma built_cases:
  assumes "built_port bh base s p"
  obtains (openai) a where "p = OpenAI_Port s a" "api_url_ok bh base" "ca_api_url a = strip_right (CHR ''/'') base" "0 < ms_max_output s"
  | (gemini) a where "p = Gemini_Port s a" "api_url_ok bh base" "ca_api_url a = strip_right (CHR ''/'') base" "0 < ms_max_output s"
  | (bedrock) c where "p = Bedrock_Port s c" "0 < ms_max_output s"
  using assms
  by (auto simp: built_port_def make_openai_def make_gemini_def make_credential_port_def make_bedrock_def validate_model_url_def
      validate_max_output_def split: if_splits option.splits)

lemma posts_home:
  assumes "posts url headers document calls" "url = strip_right (CHR ''/'') base @ path" "api_url_ok bh base" "hd path = CHR ''/''"
    "path \<noteq> []"
  shows "length calls \<le> 1 \<and> list_all (stays_home bh base) calls"
  using assms built_api_url [OF assms(3-5)] by (auto simp: posts_def)

definition metered :: "(string \<Rightarrow> bool) \<Rightarrow> string \<Rightarrow> model_setting \<Rightarrow> 'x provider_port \<Rightarrow> model_request \<Rightarrow>
    provider_error + model_response \<Rightarrow> provider_call list \<Rightarrow> bool"
where
  "metered bracketed_host base s p q res calls \<longleftrightarrow>
    length calls \<le> 1 \<and> list_all (stays_home bracketed_host base) calls
    \<and> (\<forall>r. res = Inr r \<longrightarrow> (\<exists>call v. calls = [call] \<and> exchange p q call v \<and> is_object v
        \<and> mp_status r = MODEL_COMPLETED \<and> mp_model r = ms_model s \<and> mp_family r = ms_family s
        \<and> strip (mp_output r) \<noteq> [] \<and> model_response_ok r
        \<and> (\<forall>u. mp_usage r = Some u \<longrightarrow> (int (total_input_tokens u), int (mu_output_tokens u)) = usage_totals p v)))"

lemma http_metered:
  assumes run: "sbind (post_prompt (noting_access a) url headers document) (\<lambda>payload. sbind (spure (out_of payload))
      (\<lambda>out. spure (completed_response s out (id_of payload) (usage_of payload)))) (x, []) = (res, (y, calls))"
    and url: "url = strip_right (CHR ''/'') base @ path" "api_url_ok bh base" "hd path = CHR ''/''" "path \<noteq> []"
    and owed: "\<And>key status raw v. 200 \<le> status \<Longrightarrow> status < 300 \<Longrightarrow> ca_loads_bytes a raw = Reads v \<Longrightarrow>
      exchange p q (Posted url (headers key) (default_dumps document) (Some (status, raw))) v"
    and totals: "\<And>v u. usage_of v = Some u \<Longrightarrow> (int (total_input_tokens u), int (mu_output_tokens u)) = usage_totals p v"
  shows "metered bh base s p q res calls"
proof -
  from noted_complete [OF run] have posts: "posts url headers document calls"
    and finished: "res = Inr r \<Longrightarrow> \<exists>v key status raw out. is_object v
      \<and> calls = [Posted url (headers key) (default_dumps document) (Some (status, raw))]
      \<and> 200 \<le> status \<and> status < 300 \<and> ca_loads_bytes a raw = Reads v
      \<and> completed_response s out (id_of v) (usage_of v) = Inr r" for r
    by auto
  have "\<exists>call v. calls = [call] \<and> exchange p q call v \<and> is_object v
        \<and> mp_status r = MODEL_COMPLETED \<and> mp_model r = ms_model s \<and> mp_family r = ms_family s
        \<and> strip (mp_output r) \<noteq> [] \<and> model_response_ok r
        \<and> (\<forall>u. mp_usage r = Some u \<longrightarrow> (int (total_input_tokens u), int (mu_output_tokens u)) = usage_totals p v)"
    if "res = Inr r" for r
  proof -
    from finished [OF that] obtain v key status raw out where v: "is_object v"
      "calls = [Posted url (headers key) (default_dumps document) (Some (status, raw))]"
      "200 \<le> status" "status < 300" "ca_loads_bytes a raw = Reads v"
      "completed_response s out (id_of v) (usage_of v) = Inr r" by blast
    show ?thesis using v(1,2) owed [OF v(3-5)] completed_response_Inr [OF v(6)] totals by metis
  qed
  then show ?thesis using posts_home [OF posts url] by (simp add: metered_def)
qed

lemma built_metered:
  assumes "built_port bracketed_host base s p" and "complete_with (noting_port p) q (x, []) = (res, (y, calls))"
  shows "metered bracketed_host base s p q res calls"
  using assms(1)
proof (cases rule: built_cases)
  case (openai a)
  show ?thesis
    by (rule http_metered [where path = "''/responses''"], use assms(2) in \<open>simp add: openai(1) openai_complete_def openai_url_def\<close>)
      (use openai openai_usage_totals in \<open>auto simp: openai_url_def\<close>)
next
  case (gemini a)
  show ?thesis
    by (rule http_metered [where path = "''/models/'' @ quote_url (ms_model s) @ '':generateContent''"],
        use assms(2) in \<open>simp add: gemini(1) gemini_complete_def gemini_url_def\<close>)
      (use gemini google_usage_totals in \<open>auto simp: gemini_url_def\<close>)
next
  case (bedrock c)
  let ?out = "fst (c (ms_model s) (mq_prompt q) (ms_max_output s) x)"
  have "bedrock_complete s (\<lambda>model prompt limit z. (fst (c model prompt limit (fst z)),
      (snd (c model prompt limit (fst z)), snd z @ [Conversed model prompt limit (fst (c model prompt limit (fst z)))]))) q (x, [])
      = (res, (y, calls))" using assms(2) bedrock(1) by simp
  then have calls: "calls = [Conversed (ms_model s) (mq_prompt q) (ms_max_output s) ?out]"
    and res: "res = Inr r \<Longrightarrow> \<exists>v out. ?out = Converse_Answer v \<and> is_object v \<and> completed_response s out
      (json_str (json_path (json_get v ''ResponseMetadata'') ''RequestId'')) (bedrock_usage (json_get v ''usage'')) = Inr r" for r
    by (auto simp: bedrock_complete_def sbind_def scall_def split: bedrock_outcome.splits if_splits sum.splits)
  show ?thesis
    using calls res completed_response_Inr bedrock_usage_totals
    by (fastforce simp: metered_def bedrock(1))
qed

text \<open>
  C22. A completed model call is one exchange, with the configured host, and is metered as the provider reported it. Take any
  port the module builds and any run of it. At most one request leaves, and over HTTP it goes, by HTTPS and without
  credentials in its URL, to the host and port of the configured API URL. If the run returns a response, then exactly one
  request was made, the one the port owes the prompt: the configured model and output limit and the prompt are its whole body,
  the credential stands in one header only. It was answered with a success status and a JSON object; the response is complete,
  its text not blank and within bounds, and it names the configured model and family. If it carries a usage, its input
  categories, which are priced separately, add up to the input the provider reported, and its output to the reported output.
\<close>

theorem model_calls_are_metered:
  assumes "built_port bracketed_host base s p" and "complete_with (noting_port p) q (x, []) = (res, (y, calls))"
  shows "length calls \<le> 1 \<and> list_all (stays_home bracketed_host base) calls
    \<and> (\<forall>r. res = Inr r \<longrightarrow> (\<exists>call v. calls = [call] \<and> exchange p q call v \<and> is_object v
        \<and> mp_status r = MODEL_COMPLETED \<and> mp_model r = ms_model s \<and> mp_family r = ms_family s
        \<and> strip (mp_output r) \<noteq> [] \<and> model_response_ok r
        \<and> (\<forall>u. mp_usage r = Some u \<longrightarrow> (int (total_input_tokens u), int (mu_output_tokens u)) = usage_totals p v)))"
  using built_metered [OF assms] unfolding metered_def .

subsection \<open>An example\<close>

definition ex_setting :: model_setting where
  "ex_setting = \<lparr>ms_model = ''gpt-x'', ms_family = ''gpt'', ms_max_output = 16\<rparr>"

definition ex_answer_json :: json where
  "ex_answer_json = JObj [(''id'', JStr ''r1''), (''output_text'', JStr ''yes''),
     (''usage'', JObj [(''input_tokens'', JInt 7), (''output_tokens'', JInt 2),
        (''input_tokens_details'', JObj [(''cached_tokens'', JInt 3)])])]"

definition ex_access :: "unit credential_access" where
  "ex_access = \<lparr>ca_ref = ''ref'', ca_secret = (\<lambda>_ x. (Some ''s'', x)),
     ca_transport = (\<lambda>_ _ _ _ x. (Inr (200, ''b''), x)), ca_loads = (\<lambda>_. Reads (JObj [(''api_key'', JStr ''k'')])),
     ca_loads_bytes = (\<lambda>_. Reads ex_answer_json), ca_api_url = ''https://h/v1/''\<rparr>"

definition ex_port :: "unit provider_port" where
  "ex_port = OpenAI_Port ex_setting (ex_access\<lparr>ca_api_url := ''https://h/v1''\<rparr>)"

definition ex_prompt :: model_request where
  "ex_prompt = seal model_request_fields
     \<lparr>content_digest = [], mq_role = ''architect'', mq_prompt = ''why?'', mq_context_digest = ''sha256:'' @ replicate 64 (CHR ''0'')\<rparr>"

definition ex_usage_report :: model_usage where
  "ex_usage_report = make_usage 4 3 0 2"

lemma ex_built: "built_port (\<lambda>_. False) ''https://h/v1/'' ex_setting ex_port"
proof -
  have "api_url_ok (\<lambda>_. False) ''https://h/v1/''" by code_simp
  moreover have "strip_right (CHR ''/'') ''https://h/v1/'' = ''https://h/v1''" by code_simp
  ultimately have "make_openai (\<lambda>_. False) ex_setting ex_access = Inr ex_port"
    by (simp add: make_openai_def make_credential_port_def validate_model_url_def validate_max_output_def ex_port_def
        ex_access_def ex_setting_def)
  moreover have "ca_api_url ex_access = ''https://h/v1/''" by (simp add: ex_access_def)
  ultimately show ?thesis unfolding built_port_def by blast
qed

lemma ex_completes: "\<exists>r calls. complete_with (noting_port ex_port) ex_prompt ((), []) = (Inr r, ((), calls)) \<and> mp_usage r = Some ex_usage_report"
proof -
  have strips: "strip ''k'' = ''k''" "strip ''yes'' = ''yes''" by code_simp+
  have ids: "identifier_ok ''gpt-x''" "identifier_ok ''gpt''" "identifier_ok ''r1''" by code_simp+
  show ?thesis
    by (simp add: ex_port_def openai_complete_def post_prompt_def api_key_def api_key_of_def sbind_def scall_def
        noting_transport ex_access_def strips response_payload_def ex_answer_json_def openai_output_def openai_usage_def
        token_count_def count_or_zero_def completed_response_def Let_def ex_setting_def model_response_ok_def ids ex_usage_report_def)
qed

theorem model_calls_are_metered_witness:
  "\<exists>r call. complete_with (noting_port ex_port) ex_prompt ((), []) = (Inr r, ((), [call]))
    \<and> stays_home (\<lambda>_. False) ''https://h/v1/'' call \<and> total_input_tokens ex_usage_report = 7"
proof -
  obtain r calls where run: "complete_with (noting_port ex_port) ex_prompt ((), []) = (Inr r, ((), calls))"
    and usage: "mp_usage r = Some ex_usage_report" using ex_completes by blast
  obtain call where "calls = [call]" "stays_home (\<lambda>_. False) ''https://h/v1/'' call"
    using model_calls_are_metered [OF ex_built run] by auto
  with run show ?thesis by (auto simp: ex_usage_report_def)
qed

end
