(* ===== verification/Reader_Properties.thy ===== *)
theory Reader_Properties
  imports Repository_Reader
begin

text \<open>
  Every source file in a context is a blob of the repository's tree, its bytes bound to the tree by the blob's name, within
  the configured bounds; what is read goes to the allowlisted repository only, with a token scoped to it.
\<close>

declare split_paired_All [simp del] split_paired_Ex [simp del] split_paired_all [simp del]

subsection \<open>Selection\<close>

definition entry_size :: "tree_entry \<Rightarrow> int" where
  "entry_size e = (case te_size e of None \<Rightarrow> 0 | Some n \<Rightarrow> n)"

lemma take_sources_subset: "set (take_sources limit left spent es) \<subseteq> set es"
  by (induction limit left spent es rule: take_sources.induct) (auto simp: Let_def)

lemma take_sources_length: "1 \<le> left \<Longrightarrow> int (length (take_sources limit left spent es)) \<le> left"
proof (induction limit left spent es rule: take_sources.induct)
  case (2 limit left spent e es)
  show ?case
  proof (cases "left \<le> 1")
    case True
    then show ?thesis using 2 by (auto simp: Let_def)
  next
    case False
    then show ?thesis using 2 by (fastforce simp: Let_def)
  qed
qed simp

lemma take_sources_sum:
  "spent \<le> limit \<Longrightarrow> spent + sum_list (map entry_size (take_sources limit left spent es)) \<le> limit"
proof (induction limit left spent es rule: take_sources.induct)
  case (2 limit left spent e es)
  have size: "entry_size e = (case te_size e of None \<Rightarrow> 0 | Some n \<Rightarrow> n)" by (simp add: entry_size_def)
  show ?case
  proof (cases "limit < spent + entry_size e")
    case True
    then show ?thesis using 2 by (simp add: Let_def size)
  next
    case False
    then show ?thesis using 2 size by (cases "left \<le> 1") (simp_all add: Let_def add.assoc)
  qed
qed simp

lemma select_sources_facts:
  assumes "0 < rr_max_files r" "0 < rr_max_total_bytes r"
  shows "set (select_sources r es q) \<subseteq> {e \<in> set es. eligible_source r e}"
    "int (length (select_sources r es q)) \<le> rr_max_files r"
    "sum_list (map entry_size (select_sources r es q)) \<le> rr_max_total_bytes r"
proof -
  show "set (select_sources r es q) \<subseteq> {e \<in> set es. eligible_source r e}"
    using take_sources_subset by (fastforce simp: select_sources_def)
  show "int (length (select_sources r es q)) \<le> rr_max_files r"
    using assms(1) by (auto simp: select_sources_def intro!: take_sources_length)
  show "sum_list (map entry_size (select_sources r es q)) \<le> rr_max_total_bytes r"
    using take_sources_sum [of 0 "rr_max_total_bytes r"] assms(2) by (simp add: select_sources_def)
qed

subsection \<open>A reader whose requests are noted\<close>

datatype source_call =
    Asked_Metadata string string
  | Asked_Tree string string "tree_answer option"
  | Asked_Content string string "content_answer option"

definition unnoted :: "('x, 'e, 'a) eff \<Rightarrow> ('x \<times> 'c list, 'e, 'a) eff" where
  "unnoted m z = (case m (fst z) of (res, y) \<Rightarrow> (res, (y, snd z)))"

definition noted :: "('x, 'e, 'a) eff \<Rightarrow> ('a option \<Rightarrow> 'c) \<Rightarrow> ('x \<times> 'c list, 'e, 'a) eff" where
  "noted m call z = (case m (fst z) of
     (Inl e, y) \<Rightarrow> (Inl e, (y, snd z @ [call None])) | (Inr a, y) \<Rightarrow> (Inr a, (y, snd z @ [call (Some a)])))"

definition noting_source :: "string \<Rightarrow> 'x source_transport \<Rightarrow> ('x \<times> source_call list) source_transport" where
  "noting_source token t = \<lparr>so_metadata = (\<lambda>p. noted (so_metadata t p) (\<lambda>_. Asked_Metadata token p)),
     so_tree = (\<lambda>p. noted (so_tree t p) (Asked_Tree token p)), so_content = (\<lambda>p. noted (so_content t p) (Asked_Content token p))\<rparr>"

definition noting_reader :: "'x repository_reader \<Rightarrow> ('x \<times> source_call list) repository_reader" where
  "noting_reader r = \<lparr>rr_token_for = (\<lambda>p. unnoted (rr_token_for r p)), rr_repositories = rr_repositories r,
     rr_transport = (\<lambda>token. map_sum id (noting_source token) (rr_transport r token)),
     rr_clock = (\<lambda>z. (fst (rr_clock r (fst z)), (snd (rr_clock r (fst z)), snd z))),
     rr_local = rr_local r, rr_decode = rr_decode r, rr_bracketed_host = rr_bracketed_host r,
     rr_max_files = rr_max_files r, rr_max_file_bytes = rr_max_file_bytes r, rr_max_total_bytes = rr_max_total_bytes r\<rparr>"

lemma noting_reader_sel [simp]:
  "rr_token_for (noting_reader r) p = unnoted (rr_token_for r p)" "rr_repositories (noting_reader r) = rr_repositories r"
  "rr_transport (noting_reader r) token = map_sum id (noting_source token) (rr_transport r token)"
  "rr_clock (noting_reader r) z = (fst (rr_clock r (fst z)), (snd (rr_clock r (fst z)), snd z))"
  "rr_local (noting_reader r) = rr_local r" "rr_decode (noting_reader r) = rr_decode r"
  "rr_bracketed_host (noting_reader r) = rr_bracketed_host r" "rr_max_files (noting_reader r) = rr_max_files r"
  "rr_max_file_bytes (noting_reader r) = rr_max_file_bytes r" "rr_max_total_bytes (noting_reader r) = rr_max_total_bytes r"
  by (simp_all add: noting_reader_def)

lemma noting_source_sel [simp]:
  "so_metadata (noting_source token t) p = noted (so_metadata t p) (\<lambda>_. Asked_Metadata token p)"
  "so_tree (noting_source token t) p = noted (so_tree t p) (Asked_Tree token p)"
  "so_content (noting_source token t) p = noted (so_content t p) (Asked_Content token p)"
  by (simp_all add: noting_source_def)

lemma noting_same [simp]:
  "checked_source (noting_reader r) = checked_source r" "eligible_source (noting_reader r) = eligible_source r"
  "select_sources (noting_reader r) = select_sources r" "still_valid (noting_reader r) = still_valid r"
  unfolding fun_eq_iff checked_source_def eligible_source_def select_sources_def still_valid_def noting_reader_sel by simp_all

lemma noted_Inr: "noted m call z = (Inr a, z') \<longleftrightarrow> (\<exists>y. m (fst z) = (Inr a, y) \<and> z' = (y, snd z @ [call (Some a)]))"
  by (auto simp: noted_def split: prod.splits sum.splits)

lemma eff_bind_ok: "sbind m f s = (Inr b, t) \<longleftrightarrow> (\<exists>a u. m s = (Inr a, u) \<and> f a u = (Inr b, t))"
  by (auto simp: sbind_def split: prod.splits sum.splits)

lemma scatch_ok: "scatch m h s = (Inr a, t) \<longleftrightarrow> m s = (Inr a, t)"
  by (auto simp: scatch_def split: prod.splits sum.splits)

subsection \<open>Reading the selected files\<close>

definition asked :: "string \<Rightarrow> string \<Rightarrow> string \<Rightarrow> tree_entry \<times> content_answer \<Rightarrow> source_call" where
  "asked token repository branch p = Asked_Content token (content_path repository branch (te_path (fst p))) (Some (snd p))"

definition yields :: "'x repository_reader \<Rightarrow> tree_entry \<times> content_answer \<Rightarrow> source_file option" where
  "yields r p = (case checked_source r (fst p) (snd p) of
     Inr (Some (content, text)) \<Rightarrow> Some (source_of (fst p) content text) | _ \<Rightarrow> None)"

definition accepted :: "'x repository_reader \<Rightarrow> tree_entry \<times> content_answer \<Rightarrow> bool" where
  "accepted r p \<longleftrightarrow> (\<exists>got. checked_source r (fst p) (snd p) = Inr got) \<and> pred_option source_file_ok (yields r p)"

lemma checked_size:
  "checked_source r e a = Inr (Some (content, text)) \<Longrightarrow> int (length content) = entry_size e \<and> te_size e \<noteq> None"
  by (cases "te_size e") (auto simp: checked_source_def entry_size_def split: if_splits option.splits)

lemma read_sources_run:
  assumes "read_sources (noting_reader r) (noting_source token t) repository branch spent files es z = (Inr res, z')"
    and "\<forall>e \<in> set es. te_size e \<noteq> None \<and> 0 \<le> entry_size e \<and> entry_size e \<le> rr_max_file_bytes r"
    and "spent + sum_list (map entry_size es) \<le> rr_max_total_bytes r"
    and "int (length files + length es) \<le> rr_max_files r"
  shows "\<exists>answers. length answers = length es \<and> snd z' = snd z @ map (asked token repository branch) (zip es answers)
    \<and> res = files @ List.map_filter (yields r) (zip es answers) \<and> list_all (accepted r) (zip es answers)"
  using assms
proof (induction es arbitrary: spent files z)
  case Nil
  then show ?case by (auto simp: map_filter_simps)
next
  case (Cons e es)
  have sized: "\<not> (case te_size e of None \<Rightarrow> True | Some n \<Rightarrow> rr_max_file_bytes r < n)"
    using Cons.prems(2) by (auto simp: entry_size_def split: option.splits)
  have rest: "0 \<le> sum_list (map entry_size es)" using Cons.prems(2) by (intro sum_list_nonneg) auto
  let ?after = "\<lambda>a. sbind (spure (checked_source r e a)) (\<lambda>got. case got of
         None \<Rightarrow> read_sources (noting_reader r) (noting_source token t) repository branch spent files es
       | Some (content, text) \<Rightarrow>
           let spent' = spent + int (length content); f = source_of e content text in
           if rr_max_total_bytes r < spent' then sreturn files
           else if \<not> source_file_ok f then sraise Reader_Invalid
           else if rr_max_files r \<le> int (length (files @ [f])) then sreturn (files @ [f])
           else read_sources (noting_reader r) (noting_source token t) repository branch spent' (files @ [f]) es)"
  have "sbind (scatch (noted (so_content t (content_path repository branch (te_path e)))
      (Asked_Content token (content_path repository branch (te_path e)))) Reader_Transport)
      (\<lambda>a. if \<not> content_answer_ok a then sraise (Reader_Transport Api_Error) else ?after a) z = (Inr res, z')"
    using Cons.prems(1) sized by (simp only: read_sources.simps noting_reader_sel noting_source_sel noting_same if_False)
  then obtain a u where "noted (so_content t (content_path repository branch (te_path e)))
      (Asked_Content token (content_path repository branch (te_path e))) z = (Inr a, u)"
    "(if \<not> content_answer_ok a then sraise (Reader_Transport Api_Error) else ?after a) u = (Inr res, z')"
    unfolding eff_bind_ok scatch_ok by blast
  then obtain y where after: "?after a (y, snd z @ [asked token repository branch (e, a)]) = (Inr res, z')"
    by (auto simp: noted_Inr asked_def split: if_splits)
  then obtain got where got: "checked_source r e a = Inr got"
    unfolding eff_bind_ok by auto
  show ?case
  proof (cases got)
    case None
    with after got have "read_sources (noting_reader r) (noting_source token t) repository branch spent files es
        (y, snd z @ [asked token repository branch (e, a)]) = (Inr res, z')" by (simp add: sbind_def)
    from Cons.IH [OF this] Cons.prems(2-4) obtain answers where "length answers = length es"
      "snd z' = (snd z @ [asked token repository branch (e, a)]) @ map (asked token repository branch) (zip es answers)"
      "res = files @ List.map_filter (yields r) (zip es answers)" "list_all (accepted r) (zip es answers)"
      by (auto simp: entry_size_def split: option.splits)
    moreover have "yields r (e, a) = None" "accepted r (e, a)" using got None by (simp_all add: yields_def accepted_def)
    ultimately show ?thesis by (intro exI [of _ "a # answers"]) (simp add: map_filter_simps)
  next
    case (Some p)
    obtain content body where p: "p = (content, body)" by fastforce
    let ?f = "source_of e content body"
    have len: "int (length content) = entry_size e" using checked_size got Some p by blast
    have in_limit: "\<not> rr_max_total_bytes r < spent + int (length content)" using Cons.prems(3) rest len by simp
    have ok: "source_file_ok ?f" and going: "(if rr_max_files r \<le> int (length (files @ [?f])) then sreturn (files @ [?f])
        else read_sources (noting_reader r) (noting_source token t) repository branch (spent + int (length content)) (files @ [?f]) es)
        (y, snd z @ [asked token repository branch (e, a)]) = (Inr res, z')"
      using after got Some p in_limit by (auto simp: sbind_def Let_def split: if_splits)
    have "\<exists>answers. length answers = length es
      \<and> snd z' = (snd z @ [asked token repository branch (e, a)]) @ map (asked token repository branch) (zip es answers)
      \<and> res = (files @ [?f]) @ List.map_filter (yields r) (zip es answers) \<and> list_all (accepted r) (zip es answers)"
    proof (cases "rr_max_files r \<le> int (length (files @ [?f]))")
      case True
      then have "es = []" using Cons.prems(4) by (cases es) auto
      then show ?thesis using going True by (auto simp: map_filter_simps)
    next
      case False
      with going have "read_sources (noting_reader r) (noting_source token t) repository branch (spent + int (length content))
          (files @ [?f]) es (y, snd z @ [asked token repository branch (e, a)]) = (Inr res, z')" by simp
      from Cons.IH [OF this] Cons.prems(2-4) len show ?thesis by simp
    qed
    then obtain answers where "length answers = length es"
      "snd z' = (snd z @ [asked token repository branch (e, a)]) @ map (asked token repository branch) (zip es answers)"
      "res = (files @ [?f]) @ List.map_filter (yields r) (zip es answers)" "list_all (accepted r) (zip es answers)" by blast
    moreover have "yields r (e, a) = Some ?f" "accepted r (e, a)" using got Some p ok by (simp_all add: yields_def accepted_def)
    ultimately show ?thesis by (intro exI [of _ "a # answers"]) (simp add: map_filter_simps)
  qed
qed

subsection \<open>A whole context\<close>

text \<open>The broker granted a token for the repository that is valid for more than thirty seconds yet.\<close>

definition granted :: "'x repository_reader \<Rightarrow> string \<Rightarrow> 'x \<Rightarrow> installation_token \<Rightarrow> bool" where
  "granted r repository x k \<longleftrightarrow>
    (\<exists>x1 now expires. rr_token_for r repository x = (Inr k, x1) \<and> short_name repository \<in> set (tok_repositories k)
      \<and> fst (rr_clock r x1) = Some now \<and> expiry_utc (rr_local r) (tok_expires_at k) = Some expires \<and> now + 30 * 1000000 < expires)"

lemma authorized_grant:
  assumes "authorized_transport (noting_reader r) repository z = (Inr t', z')"
  shows "repository \<in> set (rr_repositories r) \<and> (\<exists>k t. granted r repository (fst z) k
    \<and> rr_transport r (tok_token k) = Inr t \<and> t' = noting_source (tok_token k) t \<and> snd z' = snd z)"
proof -
  from assms obtain k x1 where k: "rr_token_for r repository (fst z) = (Inr k, x1)" "repository \<in> set (rr_repositories r)"
    "short_name repository \<in> set (tok_repositories k)"
    "still_valid r k (fst (rr_clock r x1)) = Inr ()" "map_sum id (noting_source (tok_token k)) (rr_transport r (tok_token k)) = Inr t'"
    "snd z' = snd z"
    by (auto simp: authorized_transport_def eff_bind_ok scatch_ok unnoted_def scall_def split: if_splits prod.splits)
  from k(4) obtain now expires where "fst (rr_clock r x1) = Some now" "expiry_utc (rr_local r) (tok_expires_at k) = Some expires"
    "now + 30 * 1000000 < expires"
    by (auto simp: still_valid_def seconds_later_def split: option.splits if_splits)
  with k(1,3) have "granted r repository (fst z) k" unfolding granted_def by blast
  moreover from k(5) obtain t where "rr_transport r (tok_token k) = Inr t" "t' = noting_source (tok_token k) t"
    by (cases "rr_transport r (tok_token k)") auto
  ultimately show ?thesis using k(2,6) by blast
qed

lemma metadata_read:
  assumes "read_metadata (noting_reader r) repository (noting_source token t) z = (Inr m, z')"
  shows "snd z' = snd z @ [Asked_Metadata token (''/repos/'' @ repository_path repository)] \<and> metadata_ok m"
  using assms by (auto simp: read_metadata_def eff_bind_ok scatch_ok noted_Inr split: if_splits option.splits)

definition authentic :: "'x repository_reader \<Rightarrow> tree_entry \<Rightarrow> source_file \<Rightarrow> bool" where
  "authentic r e f \<longleftrightarrow> sf_path f = te_path e \<and> sf_blob_sha f = te_sha e \<and> \<not> credential_like (sf_text f)
    \<and> (\<exists>content. blob_sha content = te_sha e \<and> int (length content) = entry_size e \<and> CHR 0x00 \<notin> set content
        \<and> sf_content_digest f = ''sha256:'' @ sha256_hex content \<and> rr_decode r content = Some (sf_text f))"

lemma yields_authentic: "yields r p = Some f \<Longrightarrow> authentic r (fst p) f"
  by (auto simp: yields_def checked_source_def source_of_def authentic_def entry_size_def
      split: sum.splits option.splits if_splits)

lemma accepted_nonempty:
  assumes "accepted r (e, a)" "rr_decode r [] = Some []"
  shows "te_size e \<noteq> Some 0"
proof
  assume empty: "te_size e = Some 0"
  from assms(1) obtain got where got: "checked_source r e a = Inr got" by (auto simp: accepted_def)
  have "\<exists>text. got = Some ([], text) \<and> text = []"
    using got assms(2) empty by (auto simp: checked_source_def split: option.splits if_splits)
  then have "yields r (e, a) = Some (source_of e [] [])" using got by (auto simp: yields_def)
  then show False using assms(1) by (auto simp: accepted_def source_file_ok_def source_of_def)
qed

text \<open>
  C23. A code context holds what the repository holds. When a configured reader returns a context, the repository is on its
  allowlist and the broker granted a token scoped to it and valid for more than thirty seconds yet. That token was used for exactly
  these requests: the repository's metadata, the tree of its default branch, and each selected file once; selected are eligible
  entries of that tree (no links, no sensitive paths or suffixes), within the limits on their number and total size. Every file of
  the context is one of them: its path and blob name are the tree's, and there are bytes of the listed size, without a NUL, whose
  Git blob hash is that name, whose SHA-256 is the recorded digest and which decode to its text, and that text matches no
  credential pattern. The context's digest is that of its repository, branch, tree and files. And where empty bytes decode to an
  empty text, none of the selected files is empty: as an empty text makes no source file, an eligible empty file that is selected,
  such as an empty \<^verbatim>\<open>__init__.py\<close>, is not left out but makes the whole reading fail.
\<close>

theorem context_is_authentic:
  assumes "make_reader r = Inr r'" and "read_codebase_context (noting_reader r) repository question (x, []) = (Inr c, (y, calls))"
  shows "repository \<in> set (rr_repositories r) \<and> cc_repository c = repository
    \<and> (\<exists>k tree answers. let selected = select_sources r (tr_entries tree) question; token = tok_token k; branch = cc_default_branch c in
        granted r repository x k \<and> length answers = length selected
        \<and> calls = [Asked_Metadata token (''/repos/'' @ repository_path repository), Asked_Tree token (tree_path repository branch) (Some tree)]
            @ map (asked token repository branch) (zip selected answers)
        \<and> set selected \<subseteq> {e \<in> set (tr_entries tree). eligible_source r e}
        \<and> int (length selected) \<le> rr_max_files r \<and> sum_list (map entry_size selected) \<le> rr_max_total_bytes r
        \<and> cc_tree_sha c = tr_sha tree \<and> \<not> tr_truncated tree
        \<and> cc_files c \<noteq> [] \<and> (\<forall>f \<in> set (cc_files c). \<exists>e \<in> set selected. authentic r e f)
        \<and> cc_digest c = context_digest repository branch (tr_sha tree) (cc_files c)
        \<and> (rr_decode r [] = Some [] \<longrightarrow> (\<forall>e \<in> set selected. te_size e \<noteq> Some 0)))"
proof -
  have bounds: "0 < rr_max_files r" "0 < rr_max_total_bytes r" using assms(1) by (auto simp: make_reader_def split: if_splits)
  from assms(2) obtain t' z1 m z2 tree z3 files where steps:
    "authorized_transport (noting_reader r) repository (x, []) = (Inr t', z1)"
    "read_metadata (noting_reader r) repository t' z1 = (Inr m, z2)"
    "so_tree t' (tree_path repository (rm_default_branch m)) z2 = (Inr tree, z3)" "tree_answer_ok tree" "\<not> tr_truncated tree"
    "read_sources (noting_reader r) t' repository (rm_default_branch m) 0 [] (select_sources r (tr_entries tree) question) z3
      = (Inr files, (y, calls))"
    "files \<noteq> []"
    and c: "c = \<lparr>cc_repository = repository, cc_default_branch = rm_default_branch m, cc_tree_sha = tr_sha tree,
           cc_digest = context_digest repository (rm_default_branch m) (tr_sha tree) files, cc_files = files\<rparr>"
    by (auto simp: read_codebase_context_def eff_bind_ok scatch_ok Let_def split: if_splits)
  obtain k t where k: "repository \<in> set (rr_repositories r)" "granted r repository x k" "t' = noting_source (tok_token k) t" "snd z1 = []"
    using authorized_grant [OF steps(1)] by auto
  let ?selected = "select_sources r (tr_entries tree) question"
  note facts = select_sources_facts [OF bounds, of "tr_entries tree" question]
  have z2: "snd z2 = [Asked_Metadata (tok_token k) (''/repos/'' @ repository_path repository)]"
    using metadata_read [OF steps(2) [unfolded k(3)]] k(4) by simp
  have z3: "snd z3 = snd z2 @ [Asked_Tree (tok_token k) (tree_path repository (rm_default_branch m)) (Some tree)]"
    using steps(3) k(3) by (auto simp: noted_Inr)
  have sized: "\<forall>e \<in> set ?selected. te_size e \<noteq> None \<and> 0 \<le> entry_size e \<and> entry_size e \<le> rr_max_file_bytes r"
  proof
    fix e assume "e \<in> set ?selected"
    then have "eligible_source r e" "tree_entry_ok e" using facts(1) steps(4) by (auto simp: tree_answer_ok_def list_all_iff)
    then show "te_size e \<noteq> None \<and> 0 \<le> entry_size e \<and> entry_size e \<le> rr_max_file_bytes r"
      by (auto simp: eligible_source_def tree_entry_ok_def entry_size_def split: option.splits)
  qed
  obtain answers where answers: "length answers = length ?selected"
    "calls = snd z3 @ map (asked (tok_token k) repository (rm_default_branch m)) (zip ?selected answers)"
    "files = List.map_filter (yields r) (zip ?selected answers)" "list_all (accepted r) (zip ?selected answers)"
    using read_sources_run [OF steps(6) [unfolded k(3)] sized] facts(2,3) by auto
  have authentic: "\<exists>e \<in> set ?selected. authentic r e f" if "f \<in> set files" for f
    using that yields_authentic unfolding answers(3)
    by (fastforce simp: map_filter_def dest: set_zip_leftD)
  have nonempty: "te_size e \<noteq> Some 0" if decodes: "rr_decode r [] = Some []" and e: "e \<in> set ?selected" for e
  proof -
    obtain a where "(e, a) \<in> set (zip ?selected answers)"
      using e answers(1) by (metis in_set_impl_in_set_zip1)
    then show ?thesis using accepted_nonempty [OF _ decodes] answers(4) by (auto simp: list_all_iff)
  qed
  show ?thesis
    using k(1,2) answers(1,2) z2 z3 facts steps(5,7) authentic nonempty
    by (intro conjI exI [of _ k] exI [of _ tree] exI [of _ answers]) (simp_all add: c Let_def)
qed

subsection \<open>An example\<close>

definition ex_entry :: tree_entry where
  "ex_entry = \<lparr>te_path = ''a.md'', te_mode = ''100644'', te_type = ''blob'', te_sha = blob_sha ''hi'', te_size = Some 2\<rparr>"

definition ex_tree :: tree_answer where
  "ex_tree = \<lparr>tr_sha = replicate 40 (CHR ''0''), tr_truncated = False, tr_entries = [ex_entry]\<rparr>"

definition ex_content :: content_answer where
  "ex_content = \<lparr>ct_type = ''file'', ct_path = ''a.md'', ct_sha = blob_sha ''hi'', ct_size = 2, ct_encoding = ''base64'', ct_content = ''aGk=''\<rparr>"

definition ex_metadata :: repository_metadata where
  "ex_metadata = \<lparr>rm_id = 1, rm_full_name = ''o/r'', rm_html_url = \<lparr>wu_text = ''https://github.com/o/r'', wu_scheme = ''https'',
     wu_host = Some ''github.com'', wu_username = None, wu_password = None, wu_path = Some ''/o/r''\<rparr>, rm_html_tail = False,
     rm_default_branch = ''main'', rm_private = True, rm_visibility = ''private'', rm_archived = False\<rparr>"

definition ex_expiry :: datetime where
  "ex_expiry = \<lparr>dt_year = 1, dt_month = 1, dt_day = 1, dt_hour = 1, dt_minute = 0, dt_second = 0, dt_micro = 0, dt_offset = Some 0\<rparr>"

definition ex_grant :: installation_token where
  "ex_grant = \<lparr>tok_token = ''t'', tok_expires_at = ex_expiry, tok_repositories = [''r'']\<rparr>"

definition ex_sources :: "unit source_transport" where
  "ex_sources = \<lparr>so_metadata = (\<lambda>_ x. (Inr ex_metadata, x)), so_tree = (\<lambda>_ x. (Inr ex_tree, x)),
     so_content = (\<lambda>_ x. (Inr ex_content, x))\<rparr>"

definition ex_reader :: "unit repository_reader" where
  "ex_reader = \<lparr>rr_token_for = (\<lambda>_ x. (Inr ex_grant, x)), rr_repositories = [''o/r''], rr_transport = (\<lambda>_. Inr ex_sources),
     rr_clock = (\<lambda>x. (Some 0, x)), rr_local = (\<lambda>_. None), rr_decode = Some, rr_bracketed_host = (\<lambda>_. False),
     rr_max_files = 8, rr_max_file_bytes = 32000, rr_max_total_bytes = 128000\<rparr>"

lemma ex_reader_sel [simp]:
  "rr_token_for ex_reader p x = (Inr ex_grant, x)" "rr_repositories ex_reader = [''o/r'']" "rr_transport ex_reader k = Inr ex_sources"
  "rr_clock ex_reader x = (Some 0, x)" "rr_decode ex_reader = Some" "rr_bracketed_host ex_reader = (\<lambda>_. False)"
  "rr_max_files ex_reader = 8" "rr_max_file_bytes ex_reader = 32000" "rr_max_total_bytes ex_reader = 128000"
  "so_metadata ex_sources p x = (Inr ex_metadata, x)" "so_tree ex_sources p x = (Inr ex_tree, x)"
  "so_content ex_sources p x = (Inr ex_content, x)"
  by (simp_all add: ex_reader_def ex_sources_def)

lemma ex_made: "make_reader ex_reader = Inr ex_reader"
proof -
  have "allowlist_name_ok ''o/r''" by code_simp
  then show ?thesis by (simp add: make_reader_def)
qed

lemma blob_sha_ok: "git_name_ok (blob_sha content)"
  by (simp add: git_name_ok_def blob_sha_def sha1_hex_shape)

lemma ex_source: "checked_source ex_reader ex_entry ex_content = Inr (Some (''hi'', ''hi''))"
proof -
  have "strict_decode (filter (\<lambda>d. \<not> py_space d) ''aGk='') = Some ''hi''" "\<not> credential_like ''hi''" by code_simp+
  then show ?thesis by (simp add: checked_source_def ex_entry_def ex_content_def)
qed

lemma ex_selected: "select_sources ex_reader [ex_entry] ''why?'' = [ex_entry]"
proof -
  have "path_components ''a.md'' = [''a.md'']" "path_suffix ''a.md'' = ''.md''" "path_name ''a.md'' = ''a.md''"
    "\<not> path_absolute ''a.md''" "casefold ''.md'' \<in> text_extensions" "casefold ''.md'' \<notin> sensitive_extensions"
    "casefold ''a.md'' \<notin> sensitive_segments" "take 4 (casefold ''a.md'') \<noteq> map of_char ''.env''" by code_simp+
  then have "eligible_source ex_reader ex_entry" by (simp add: eligible_source_def ex_entry_def)
  then show ?thesis by (simp add: select_sources_def ex_entry_def)
qed

lemma ex_read: "\<exists>c calls. read_codebase_context (noting_reader ex_reader) ''o/r'' ''why?'' ((), []) = (Inr c, ((), calls))"
proof -
  have path: "repository_path ''o/r'' = ''o/r''" "short_name ''o/r'' = ''r''" "strip ''why?'' \<noteq> []" by code_simp+
  have url: "map_option su_path (url_split (\<lambda>_. False) ''https://github.com/o/r'') = Some ''/o/r''" by code_simp
  then obtain u where u: "url_split (\<lambda>_. False) ''https://github.com/o/r'' = Some u" "su_path u = ''/o/r''" by auto
  have valid: "still_valid ex_reader ex_grant (Some 0) = Inr ()"
    by (simp add: still_valid_def seconds_later_def expiry_utc_def ex_grant_def ex_expiry_def astimezone_utc_def local_micros_def toordinal_def
        days_before_year_def days_before_month_def dt_limit_def Let_def)
  let ?t = "noting_source ''t'' ex_sources"
  have grant: "tok_token ex_grant = ''t''" "tok_repositories ex_grant = [''r'']" by (simp_all add: ex_grant_def)
  have transport: "authorized_transport (noting_reader ex_reader) ''o/r'' ((), []) = (Inr ?t, ((), []))"
    using valid path(2) grant by (simp add: authorized_transport_def sbind_def scatch_def scall_def unnoted_def)
  have metadata: "read_metadata (noting_reader ex_reader) ''o/r'' ?t ((), []) =
      (Inr ex_metadata, ((), [Asked_Metadata ''t'' (''/repos/'' @ repository_path ''o/r'')]))"
    using u path(1) by (simp add: read_metadata_def sbind_def scatch_def noted_def metadata_ok_def ex_metadata_def)
  have te_ex: "te_size ex_entry = Some 2" by (simp add: ex_entry_def)
  have fine: "source_file_ok (source_of ex_entry ''hi'' ''hi'')"
    using blob_sha_ok by (simp add: source_file_ok_def source_of_def ex_entry_def digest_ok_def sha256_hex_shape)
  have content: "content_answer_ok ex_content"
    using blob_sha_ok by (simp add: content_answer_ok_def ex_content_def)
  have tree: "tree_answer_ok ex_tree" "\<not> tr_truncated ex_tree"
    using blob_sha_ok by (simp_all add: tree_answer_ok_def tree_entry_ok_def git_name_ok_def ex_tree_def ex_entry_def lower_hex_def ascii_digit_def list_all_iff)
  have files: "\<exists>calls. read_sources (noting_reader ex_reader) ?t ''o/r'' ''main'' 0 [] [ex_entry] ((), cs) =
      (Inr [source_of ex_entry ''hi'' ''hi''], ((), calls))" for cs
    using ex_source fine content
    by (simp add: sbind_def scatch_def noted_def Let_def te_ex)
  have whole: "code_context_ok \<lparr>cc_repository = ''o/r'', cc_default_branch = ''main'', cc_tree_sha = tr_sha ex_tree,
      cc_digest = d, cc_files = [source_of ex_entry ''hi'' ''hi'']\<rparr>" if "digest_ok d" for d
    using that fine tree(1) by (simp add: code_context_ok_def tree_answer_ok_def)
  have branch: "rm_default_branch ex_metadata = ''main''" "tr_entries ex_tree = [ex_entry]"
    by (simp_all add: ex_metadata_def ex_tree_def)
  obtain calls where calls: "read_sources (noting_reader ex_reader) ?t ''o/r'' ''main'' 0 [] [ex_entry]
      ((), [Asked_Metadata ''t'' (''/repos/'' @ repository_path ''o/r''), Asked_Tree ''t'' (tree_path ''o/r'' ''main'') (Some ex_tree)])
      = (Inr [source_of ex_entry ''hi'' ''hi''], ((), calls))" using files by blast
  show ?thesis
    using transport metadata tree calls whole ex_selected path(3)
    by (simp add: read_codebase_context_def sbind_def scatch_def noted_def Let_def context_digest_def branch)
qed

theorem context_is_authentic_witness:
  "\<exists>c calls. read_codebase_context (noting_reader ex_reader) ''o/r'' ''why?'' ((), []) = (Inr c, ((), calls))
    \<and> cc_repository c = ''o/r'' \<and> cc_files c \<noteq> []"
proof -
  obtain c calls where run: "read_codebase_context (noting_reader ex_reader) ''o/r'' ''why?'' ((), []) = (Inr c, ((), calls))"
    using ex_read by blast
  have "cc_repository c = ''o/r'' \<and> cc_files c \<noteq> []"
    using context_is_authentic [OF ex_made run] by (auto simp: Let_def)
  with run show ?thesis by blast
qed

end
