(* ===== verification/Browser_Login.thy ===== *)
theory Browser_Login
  imports Access_Tokens Github_Transport
begin

text \<open>
  Signing in with a browser: \<^verbatim>\<open>adapters/cognito_login.py\<close>, the authorization-code flow with PKCE, and the login handlers of
  \<^verbatim>\<open>create_app\<close> in \<^verbatim>\<open>application/service.py\<close> over any login port.

  The opener, the random tokens, the clock, the JSON reader and \<^verbatim>\<open>int(delta.total_seconds())\<close>, whose floating point is left
  open, are parameters. A response is its status, its target or detail, and the changes it makes to cookies. \<open>Login_Refused\<close>
  is a \<^verbatim>\<open>ValueError\<close> or \<^verbatim>\<open>OverflowError\<close>, \<open>Login_Crash\<close> any other exception, which ends a handler in a server error.
\<close>

datatype login_error = Login_Refused | Login_Crash

subsection \<open>Settings\<close>

record cognito_settings =
  cg_base_url :: string
  cg_client_id :: string
  cg_callback_url :: string
  cg_logout_url :: string

definition plain_https :: "split_url \<Rightarrow> bool" where
  "plain_https u \<longleftrightarrow> su_scheme u = ''https'' \<and> url_hostname u \<noteq> None \<and> url_username u = None \<and> url_password u = None
    \<and> su_query u = [] \<and> su_fragment u = []"

definition https_origin :: "split_url \<Rightarrow> bool" where
  "https_origin u \<longleftrightarrow> plain_https u \<and> su_path u \<in> {[], ''/''}"

definition url_with :: "(string \<Rightarrow> bool) \<Rightarrow> (split_url \<Rightarrow> bool) \<Rightarrow> string \<Rightarrow> bool" where
  "url_with bracketed_host p s = (case url_split bracketed_host s of None \<Rightarrow> False | Some u \<Rightarrow> p u)"

definition cognito_settings_ok :: "(string \<Rightarrow> bool) \<Rightarrow> cognito_settings \<Rightarrow> bool" where
  "cognito_settings_ok bracketed_host s \<longleftrightarrow> cg_base_url s \<noteq> [] \<and> cg_client_id s \<noteq> [] \<and> cg_callback_url s \<noteq> [] \<and> cg_logout_url s \<noteq> []
    \<and> url_with bracketed_host https_origin (cg_base_url s)
    \<and> url_with bracketed_host plain_https (cg_callback_url s) \<and> url_with bracketed_host plain_https (cg_logout_url s)"

text \<open>The constructor of \<^verbatim>\<open>OidcPrincipalVerifier\<close> asks the same of its two URLs.\<close>

definition make_oidc :: "(string \<Rightarrow> bool) \<Rightarrow> string \<Rightarrow> 'x oidc_verifier \<Rightarrow> login_error + 'x oidc_verifier" where
  "make_oidc bracketed_host jwks_url oi =
    (if \<not> url_with bracketed_host plain_https (oi_issuer oi) \<or> strip (oi_audience oi) = []
        \<or> \<not> url_with bracketed_host plain_https jwks_url
        \<or> strip (oi_tenant_claim oi) = [] \<or> strip (oi_roles_claim oi) = []
     then Inl Login_Refused else Inr oi)"

subsection \<open>The token endpoint\<close>

record 'x token_client =
  tc_open :: "string \<Rightarrow> (string \<times> string) list \<Rightarrow> string \<Rightarrow> 'x \<Rightarrow> http_outcome \<times> 'x"
  tc_loads :: "string \<Rightarrow> json_reading"

definition make_token_client :: "'x token_client \<Rightarrow> bool \<Rightarrow> login_error + 'x token_client" where
  "make_token_client t positive_timeout = (if positive_timeout then Inr t else Inl Login_Refused)"

definition token_form :: "string \<Rightarrow> string \<Rightarrow> string \<Rightarrow> string \<Rightarrow> string" where
  "token_form client_id code redirect_uri code_verifier = url_encode
    [(''grant_type'', ''authorization_code''), (''client_id'', client_id), (''code'', code), (''redirect_uri'', redirect_uri),
     (''code_verifier'', code_verifier)]"

definition token_headers :: "(string \<times> string) list" where
  "token_headers = [(''Accept'', ''application/json''), (''Content-Type'', ''application/x-www-form-urlencoded''),
     (''User-Agent'', ''nokinc-factory'')]"

text \<open>At most one byte more than the limit is read of an answer.\<close>

definition read_id_token :: "'x token_client \<Rightarrow> string \<Rightarrow> login_error + string" where
  "read_id_token t answer =
    (let raw = take 1048577 answer in
     if 1048576 < length raw then Inl Login_Refused
     else case tc_loads t raw of
       Bad_Json \<Rightarrow> Inl Login_Refused
     | Json_Crash \<Rightarrow> Inl Login_Crash
     | Reads v \<Rightarrow>
         if \<not> unique_keys v \<or> \<not> is_object v then Inl Login_Refused
         else (case json_str (json_get v ''id_token'') of
           None \<Rightarrow> Inl Login_Refused
         | Some k \<Rightarrow> if k = [] \<or> 32768 < length k then Inl Login_Refused else Inr k))"

definition request_id_token ::
  "'x token_client \<Rightarrow> string \<Rightarrow> string \<Rightarrow> string \<Rightarrow> string \<Rightarrow> string \<Rightarrow> ('x, login_error, string) eff"
where
  "request_id_token t endpoint client_id code redirect_uri code_verifier x =
    (case tc_open t endpoint token_headers (token_form client_id code redirect_uri code_verifier) x of
       (Http_Answer raw, y) \<Rightarrow> (read_id_token t raw, y)
     | (Http_Status status location, y) \<Rightarrow> (Inl Login_Refused, y)
     | (Url_Failure, y) \<Rightarrow> (Inl Login_Refused, y)
     | (Other_Failure, y) \<Rightarrow> (Inl Login_Crash, y))"

subsection \<open>The hosted login\<close>

record login_start =
  ls_url :: string
  ls_state :: string
  ls_nonce :: string
  ls_verifier :: string

record 'x hosted_login =
  hl_settings :: cognito_settings
  hl_client :: "'x token_client"
  hl_verifier :: "'x oidc_verifier"
  hl_random :: "nat \<Rightarrow> 'x \<Rightarrow> string \<times> 'x"

definition make_hosted_login :: "(string \<Rightarrow> bool) \<Rightarrow> 'x hosted_login \<Rightarrow> login_error + 'x hosted_login" where
  "make_hosted_login bracketed_host h = (if cognito_settings_ok bracketed_host (hl_settings h) then Inr h else Inl Login_Refused)"

definition code_challenge :: "string \<Rightarrow> string" where
  "code_challenge verifier = encode_with url_alphabet (sha256_digest verifier)"

definition hosted_base :: "'x hosted_login \<Rightarrow> string" where
  "hosted_base h = strip_right (CHR ''/'') (cg_base_url (hl_settings h))"

definition authorization_url :: "'x hosted_login \<Rightarrow> string \<Rightarrow> string \<Rightarrow> string \<Rightarrow> string" where
  "authorization_url h state nonce verifier = hosted_base h @ ''/oauth2/authorize?'' @ url_encode
    [(''client_id'', cg_client_id (hl_settings h)), (''response_type'', ''code''), (''scope'', ''openid email profile''),
     (''redirect_uri'', cg_callback_url (hl_settings h)), (''state'', state), (''nonce'', nonce),
     (''code_challenge'', code_challenge verifier), (''code_challenge_method'', ''S256'')]"

definition start_login :: "'x hosted_login \<Rightarrow> 'x \<Rightarrow> login_start \<times> 'x" where
  "start_login h x =
    (let (state, x1) = hl_random h 32 x; (nonce, x2) = hl_random h 32 x1; (verifier, x3) = hl_random h 64 x2 in
     (\<lparr>ls_url = authorization_url h state nonce verifier, ls_state = state, ls_nonce = nonce, ls_verifier = verifier\<rparr>, x3))"

definition exchange_code :: "'x hosted_login \<Rightarrow> string \<Rightarrow> string \<Rightarrow> ('x, login_error, string) eff" where
  "exchange_code h code code_verifier =
    (if code = [] \<or> 8192 < length code \<or> code_verifier = [] \<or> 128 < length code_verifier then sraise Login_Refused
     else request_id_token (hl_client h) (hosted_base h @ ''/oauth2/token'') (cg_client_id (hl_settings h)) code
       (cg_callback_url (hl_settings h)) code_verifier)"

definition verify_id_token :: "'x hosted_login \<Rightarrow> string \<Rightarrow> datetime \<Rightarrow> string \<Rightarrow> 'x \<Rightarrow> auth_outcome \<times> 'x" where
  "verify_id_token h token now nonce = oidc_verify (hl_verifier h) (Some nonce) token now"

definition logout_address :: "'x hosted_login \<Rightarrow> string" where
  "logout_address h = hosted_base h @ ''/logout?'' @ url_encode
    [(''client_id'', cg_client_id (hl_settings h)), (''logout_uri'', cg_logout_url (hl_settings h))]"

subsection \<open>Login ports and responses\<close>

record 'x login_port =
  lp_start :: "'x \<Rightarrow> login_start \<times> 'x"
  lp_exchange :: "string \<Rightarrow> string \<Rightarrow> ('x, login_error, string) eff"
  lp_verify :: "string \<Rightarrow> datetime \<Rightarrow> string \<Rightarrow> 'x \<Rightarrow> auth_outcome \<times> 'x"
  lp_logout_url :: string

definition cognito_port :: "'x hosted_login \<Rightarrow> 'x login_port" where
  "cognito_port h = \<lparr>lp_start = start_login h, lp_exchange = exchange_code h, lp_verify = verify_id_token h,
     lp_logout_url = logout_address h\<rparr>"

record cookie_change =
  ck_name :: string
  ck_value :: "string option"
  ck_max_age :: int
  ck_path :: string
  ck_secure :: bool
  ck_http_only :: bool
  ck_same_site :: string

datatype login_target = Redirect string | Json_Detail string | Json_Status string

record login_response =
  lr_status :: nat
  lr_target :: login_target
  lr_cookies :: "cookie_change list"
  lr_headers :: "(string \<times> string) list"

definition set_cookie :: "string \<Rightarrow> string \<Rightarrow> int \<Rightarrow> cookie_change" where
  "set_cookie name value max_age = \<lparr>ck_name = name, ck_value = Some value, ck_max_age = max_age, ck_path = ''/'',
     ck_secure = True, ck_http_only = True, ck_same_site = ''lax''\<rparr>"

definition delete_cookie :: "string \<Rightarrow> cookie_change" where
  "delete_cookie name = \<lparr>ck_name = name, ck_value = None, ck_max_age = 0, ck_path = ''/'',
     ck_secure = True, ck_http_only = True, ck_same_site = ''lax''\<rparr>"

definition state_cookie :: string where "state_cookie = ''__Host-factory_oidc_state''"
definition nonce_cookie :: string where "nonce_cookie = ''__Host-factory_oidc_nonce''"
definition verifier_cookie :: string where "verifier_cookie = ''__Host-factory_oidc_verifier''"
definition session_cookie :: string where "session_cookie = ''__Host-factory_id_token''"

definition clear_login_cookies :: "cookie_change list" where
  "clear_login_cookies = map delete_cookie [state_cookie, nonce_cookie, verifier_cookie]"

definition no_store :: "string \<times> string" where
  "no_store = (''Cache-Control'', ''no-store'')"

definition no_referrer :: "string \<times> string" where
  "no_referrer = (''Referrer-Policy'', ''no-referrer'')"

subsection \<open>The handlers\<close>

text \<open>The origin of the browser's requests that \<^verbatim>\<open>create_app\<close> demands when a login port is configured.\<close>

definition cookie_auth_origin :: "(string \<Rightarrow> bool) \<Rightarrow> string option \<Rightarrow> login_error + string" where
  "cookie_auth_origin bracketed_host given =
    (case url_split bracketed_host (case given of None \<Rightarrow> [] | Some s \<Rightarrow> s) of
       None \<Rightarrow> Inl Login_Refused
     | Some u \<Rightarrow> if https_origin u then Inr (''https://'' @ su_netloc u) else Inl Login_Refused)"

definition auth_login :: "'x login_port \<Rightarrow> 'x \<Rightarrow> login_response \<times> 'x" where
  "auth_login lp x =
    (case lp_start lp x of (a, y) \<Rightarrow>
      (\<lparr>lr_status = 302, lr_target = Redirect (ls_url a),
        lr_cookies = [set_cookie state_cookie (ls_state a) 300, set_cookie nonce_cookie (ls_nonce a) 300,
          set_cookie verifier_cookie (ls_verifier a) 300],
        lr_headers = [no_store, no_referrer]\<rparr>, y))"

record callback_request =
  cb_query :: "(string \<times> string) list"
  cb_state :: "string option"
  cb_nonce :: "string option"
  cb_verifier :: "string option"

definition query_values :: "callback_request \<Rightarrow> string \<Rightarrow> string list" where
  "query_values q k = map snd (filter (\<lambda>p. fst p = k) (cb_query q))"

definition query_value :: "callback_request \<Rightarrow> string \<Rightarrow> string option" where
  "query_value q k = (if query_values q k = [] then None else Some (last (query_values q k)))"

definition sign_in_failed :: login_response where
  "sign_in_failed = \<lparr>lr_status = 400, lr_target = Json_Detail ''sign-in failed'', lr_cookies = clear_login_cookies, lr_headers = []\<rparr>"

text \<open>
  The code and the saved nonce and verifier of a callback that may go on. The comparison of the states comes last and
  raises on characters outside ASCII.
\<close>

definition callback_parts :: "callback_request \<Rightarrow> login_error + (string \<times> string \<times> string) option" where
  "callback_parts q =
    (case (query_value q ''code'', query_value q ''state'', cb_state q, cb_nonce q, cb_verifier q) of
       (Some code, Some state, Some saved_state, Some nonce, Some verifier) \<Rightarrow>
         if query_value q ''error'' \<noteq> None \<or> 8192 < length code \<or> 256 < length state
            \<or> length (query_values q ''code'') \<noteq> 1 \<or> length (query_values q ''state'') \<noteq> 1 then Inr None
         else (case compare_digest state saved_state of
           None \<Rightarrow> Inl Login_Crash
         | Some same \<Rightarrow> Inr (if same then Some (code, nonce, verifier) else None))
     | _ \<Rightarrow> Inr None)"

definition signed_in :: "string \<Rightarrow> int \<Rightarrow> login_response" where
  "signed_in id_token max_age =
    \<lparr>lr_status = 303, lr_target = Redirect ''/chat'', lr_cookies = clear_login_cookies @ [set_cookie session_cookie id_token max_age],
     lr_headers = [no_store, no_referrer]\<rparr>"

text \<open>\<open>seconds_between\<close> is \<^verbatim>\<open>int((expires_at - callback_time).total_seconds())\<close>.\<close>

definition auth_callback ::
  "'x login_port \<Rightarrow> ('x \<Rightarrow> datetime \<times> 'x) \<Rightarrow> (moment \<Rightarrow> datetime \<Rightarrow> int) \<Rightarrow> callback_request \<Rightarrow> ('x, login_error, login_response) eff"
where
  "auth_callback lp clock seconds_between q x =
    (case callback_parts q of
       Inl e \<Rightarrow> (Inl e, x)
     | Inr None \<Rightarrow> (Inr sign_in_failed, x)
     | Inr (Some (code, nonce, verifier)) \<Rightarrow>
         (case lp_exchange lp code verifier x of
            (Inl Login_Refused, x1) \<Rightarrow> (Inr sign_in_failed, x1)
          | (Inl Login_Crash, x1) \<Rightarrow> (Inl Login_Crash, x1)
          | (Inr id_token, x1) \<Rightarrow>
              (case clock x1 of (now, x2) \<Rightarrow>
                (case lp_verify lp id_token now nonce x2 of
                   (Auth_Rejected, x3) \<Rightarrow> (Inr sign_in_failed, x3)
                 | (Auth_Crashed, x3) \<Rightarrow> (Inl Login_Crash, x3)
                 | (Verified p, x3) \<Rightarrow>
                     let max_age = seconds_between (pr_expires_at p) now in
                     if max_age \<le> 0 then (Inr sign_in_failed, x3) else (Inr (signed_in id_token max_age), x3)))))"

definition auth_logout :: "'x login_port \<Rightarrow> login_response" where
  "auth_logout lp = \<lparr>lr_status = 303, lr_target = Redirect (lp_logout_url lp), lr_cookies = [delete_cookie session_cookie],
     lr_headers = [no_store]\<rparr>"

definition auth_signed_out :: login_response where
  "auth_signed_out = \<lparr>lr_status = 200, lr_target = Json_Status ''signed_out'', lr_cookies = [], lr_headers = []\<rparr>"

end
