(* ===== verification/Login_Properties.thy ===== *)
theory Login_Properties
  imports Browser_Login Py_Url
begin

text \<open>
  A sign-in ends in the browser that began it: the session cookie is set only for an answer to that browser's own login, with
  the verifier whose challenge that login sent and for a token that carries its nonce.
\<close>

declare split_paired_All [simp del] split_paired_Ex [simp del] split_paired_all [simp del]

subsection \<open>Cookies\<close>

type_synonym cookie_jar = "string \<Rightarrow> string option"

definition jar_after :: "login_response \<Rightarrow> cookie_jar \<Rightarrow> cookie_jar" where
  "jar_after r jar = fold (\<lambda>c j. j(ck_name c := ck_value c)) (lr_cookies r) jar"

definition with_cookies :: "(string \<times> string) list \<Rightarrow> cookie_jar \<Rightarrow> callback_request" where
  "with_cookies query jar = \<lparr>cb_query = query, cb_state = jar state_cookie, cb_nonce = jar nonce_cookie, cb_verifier = jar verifier_cookie\<rparr>"

lemma cookie_names [simp]:
  "state_cookie \<noteq> nonce_cookie" "state_cookie \<noteq> verifier_cookie" "nonce_cookie \<noteq> verifier_cookie" "session_cookie \<noteq> state_cookie"
  "session_cookie \<noteq> nonce_cookie" "session_cookie \<noteq> verifier_cookie" "nonce_cookie \<noteq> state_cookie" "verifier_cookie \<noteq> state_cookie"
  "verifier_cookie \<noteq> nonce_cookie" "state_cookie \<noteq> session_cookie" "nonce_cookie \<noteq> session_cookie" "verifier_cookie \<noteq> session_cookie"
  by (simp_all add: state_cookie_def nonce_cookie_def verifier_cookie_def session_cookie_def)

lemma jar_after_login:
  assumes "auth_login lp x = (r, y)"
  shows "jar_after r jar state_cookie = Some (ls_state (fst (lp_start lp x)))"
    "jar_after r jar nonce_cookie = Some (ls_nonce (fst (lp_start lp x)))"
    "jar_after r jar verifier_cookie = Some (ls_verifier (fst (lp_start lp x)))"
    "lr_target r = Redirect (ls_url (fst (lp_start lp x)))"
  using assms by (auto simp: auth_login_def jar_after_def set_cookie_def split: prod.splits)

lemma jar_after_sign_in:
  "jar_after sign_in_failed jar session_cookie = jar session_cookie"
  "jar_after (signed_in k age) jar session_cookie = Some k"
  "name \<in> {state_cookie, nonce_cookie, verifier_cookie} \<Longrightarrow> jar_after sign_in_failed jar name = None"
  "name \<in> {state_cookie, nonce_cookie, verifier_cookie} \<Longrightarrow> jar_after (signed_in k age) jar name = None"
  by (auto simp: jar_after_def sign_in_failed_def signed_in_def clear_login_cookies_def delete_cookie_def set_cookie_def)

subsection \<open>Callbacks\<close>

lemma compare_digest_True: "compare_digest a b = Some True \<Longrightarrow> a = b"
  by (simp add: compare_digest_def split: if_splits)

lemma callback_parts_Some:
  assumes "callback_parts q = Inr (Some (code, nonce, verifier))"
  shows "query_values q ''code'' = [code] \<and> (\<exists>s. query_values q ''state'' = [s] \<and> cb_state q = Some s)
    \<and> query_values q ''error'' = [] \<and> cb_nonce q = Some nonce \<and> cb_verifier q = Some verifier"
proof -
  have single: "query_values q k = [v]" if "length (query_values q k) = 1" "query_value q k = Some v" for k v
    using that by (cases "query_values q k") (auto simp: query_value_def split: if_splits)
  show ?thesis
    using assms compare_digest_True single
    by (auto simp: callback_parts_def query_value_def split: option.splits if_splits)
qed

lemma callback_cases:
  assumes "auth_callback lp clock secs q x = (Inr r, y)"
  obtains (failed) "r = sign_in_failed"
  | (signed) code nonce verifier id_token x1 now x2 p where "callback_parts q = Inr (Some (code, nonce, verifier))"
      "lp_exchange lp code verifier x = (Inr id_token, x1)" "clock x1 = (now, x2)"
      "lp_verify lp id_token now nonce x2 = (Verified p, y)" "0 < secs (pr_expires_at p) now"
      "r = signed_in id_token (secs (pr_expires_at p) now)"
  using assms
  by (auto simp: auth_callback_def Let_def
      split: sum.splits option.splits prod.splits login_error.splits auth_outcome.splits if_splits)

lemma oidc_verified:
  assumes "oidc_verify oi (Some nonce) token now x = (Verified p, y)"
  shows "\<exists>claims current. oi_decode oi token x = (Some claims, y) \<and> json_get claims ''nonce'' = Some (JStr nonce)
    \<and> utc now = Some current \<and> oidc_claims oi claims current = Verified p"
proof -
  have str: "json_str v = Some s \<Longrightarrow> v = Some (JStr s)" for v s by (cases v rule: json_str.cases) auto
  show ?thesis
    using assms compare_digest_True str
    by (auto simp: oidc_verify_def oidc_nonce_def split: if_splits option.splits prod.splits bool.splits)
qed

text \<open>
  C27. A sign-in ends where it began. A browser with any cookies visits the login page; later, in whatever world, a callback with any
  query arrives from it, whoever caused it. If that leaves the browser with another session cookie than before, then the query named
  exactly one code, no error and exactly one state, the state this login drew; the code went to the hosted login's token endpoint
  together with the verifier this login drew, whose S256 challenge is in the URL the browser had been sent to; the cookie is the ID
  token that came back, its claims, under a signature of the configured issuer, carry the nonce this login drew and name a principal
  that has not expired. Whatever answer the callback gives, the three cookies of the login are gone afterwards, so that it cannot be
  answered twice.
\<close>

theorem sign_in_is_bound:
  assumes "auth_login (cognito_port h) x = (sent, x1)" and "start_login h x = (a, x1')"
    and "auth_callback (cognito_port h) clock secs (with_cookies query (jar_after sent jar)) z = (Inr r, z')"
  shows "(jar_after r (jar_after sent jar) session_cookie \<noteq> jar_after sent jar session_cookie \<longrightarrow>
      (\<exists>code id_token z1 now z2 p claims.
        map snd (filter (\<lambda>p. fst p = ''code'') query) = [code] \<and> map snd (filter (\<lambda>p. fst p = ''state'') query) = [ls_state a]
        \<and> ''error'' \<notin> fst ` set query
        \<and> lr_target sent = Redirect (authorization_url h (ls_state a) (ls_nonce a) (ls_verifier a))
        \<and> exchange_code h code (ls_verifier a) z = (Inr id_token, z1) \<and> clock z1 = (now, z2)
        \<and> oi_decode (hl_verifier h) id_token z2 = (Some claims, z') \<and> json_get claims ''nonce'' = Some (JStr (ls_nonce a))
        \<and> (\<exists>current. utc now = Some current \<and> oidc_claims (hl_verifier h) claims current = Verified p)
        \<and> 0 < secs (pr_expires_at p) now
        \<and> jar_after r (jar_after sent jar) session_cookie = Some id_token))
    \<and> (\<forall>name \<in> {state_cookie, nonce_cookie, verifier_cookie}. jar_after r (jar_after sent jar) name = None)"
  using assms(3)
proof (cases rule: callback_cases)
  case failed
  then show ?thesis using jar_after_sign_in(1,3) by simp
next
  case (signed code nonce verifier id_token z1 now z2 p)
  have start: "lp_start (cognito_port h) x = (a, x1')" using assms(2) by (simp add: cognito_port_def)
  note jar = jar_after_login [OF assms(1), unfolded start fst_conv]
  have url: "ls_url a = authorization_url h (ls_state a) (ls_nonce a) (ls_verifier a)"
    using assms(2) by (auto simp: start_login_def Let_def split: prod.splits)
  let ?q = "with_cookies query (jar_after sent jar)"
  have q: "query_values ?q ''code'' = [code]" "query_values ?q ''state'' = [ls_state a]" "query_values ?q ''error'' = []"
    "nonce = ls_nonce a" "verifier = ls_verifier a"
    using callback_parts_Some [OF signed(1)] jar by (auto simp: with_cookies_def)
  have ran: "exchange_code h code (ls_verifier a) z = (Inr id_token, z1)" using signed(2) q by (simp add: cognito_port_def)
  have "oidc_verify (hl_verifier h) (Some (ls_nonce a)) id_token now z2 = (Verified p, z')"
    using signed(4) q by (simp add: cognito_port_def verify_id_token_def)
  from oidc_verified [OF this] obtain claims current where claims: "oi_decode (hl_verifier h) id_token z2 = (Some claims, z')"
    "json_get claims ''nonce'' = Some (JStr (ls_nonce a))" "utc now = Some current"
    "oidc_claims (hl_verifier h) claims current = Verified p" by (elim exE conjE) (rule that)
  have free: "''error'' \<notin> fst ` set query" using q(3) by (auto simp: query_values_def with_cookies_def filter_empty_conv)
  have target: "lr_target sent = Redirect (authorization_url h (ls_state a) (ls_nonce a) (ls_verifier a))" using jar(4) url by simp
  have "jar_after r (jar_after sent jar) session_cookie = Some id_token" using signed(6) jar_after_sign_in(2) by simp
  then show ?thesis
    using q(1,2) ran signed(3,5,6) claims free target jar_after_sign_in(4)
    by (intro conjI impI exI [of _ code] exI [of _ id_token] exI [of _ z1] exI [of _ now] exI [of _ z2] exI [of _ p] exI [of _ claims]
        exI [of _ current]) (auto simp: query_values_def with_cookies_def)
qed

subsection \<open>An example\<close>

definition ex_claims :: json where
  "ex_claims = JObj [(''iat'', JInt 0), (''exp'', JInt 600), (''sub'', JStr ''u''), (''tenant'', JStr ''t''),
     (''roles'', JArr [JStr ''viewer'']), (''nonce'', JStr ''nn'')]"

definition ex_login :: "nat hosted_login" where
  "ex_login = \<lparr>hl_settings = \<lparr>cg_base_url = ''https://h'', cg_client_id = ''c'', cg_callback_url = ''https://o/auth/callback'',
       cg_logout_url = ''https://o/auth/signed-out''\<rparr>,
     hl_client = \<lparr>tc_open = (\<lambda>_ _ _ x. (Http_Answer ''b'', x)), tc_loads = (\<lambda>_. Reads (JObj [(''id_token'', JStr ''k'')]))\<rparr>,
     hl_verifier = \<lparr>oi_issuer = ''i'', oi_audience = ''c'', oi_tenant_claim = ''tenant'', oi_roles_claim = ''roles'',
       oi_seconds = (\<lambda>_. 300), oi_decode = (\<lambda>_ x. (Some ex_claims, x))\<rparr>,
     hl_random = (\<lambda>_ x. ([''ss'', ''nn'', ''vv''] ! (x mod 3), Suc x))\<rparr>"

definition ex_now :: datetime where
  "ex_now = \<lparr>dt_year = 1, dt_month = 1, dt_day = 1, dt_hour = 1, dt_minute = 0, dt_second = 0, dt_micro = 0, dt_offset = Some 0\<rparr>"

lemma ex_starts:
  "start_login ex_login 0 = (\<lparr>ls_url = authorization_url ex_login ''ss'' ''nn'' ''vv'', ls_state = ''ss'', ls_nonce = ''nn'', ls_verifier = ''vv''\<rparr>, 3)"
  by (simp add: start_login_def ex_login_def)

lemma ex_callback:
  "auth_callback (cognito_port ex_login) (\<lambda>x. (ex_now, x)) (\<lambda>_ _. 60)
    (with_cookies [(''code'', ''cc''), (''state'', ''ss'')] (jar_after (fst (auth_login (cognito_port ex_login) 0)) (\<lambda>_. None))) 7
    = (Inr (signed_in ''k'' 60), 7)"
proof -
  let ?sent = "fst (auth_login (cognito_port ex_login) 0)"
  have sent: "auth_login (cognito_port ex_login) 0 = (?sent, 3)" and start: "fst (lp_start (cognito_port ex_login) 0) =
      \<lparr>ls_url = authorization_url ex_login ''ss'' ''nn'' ''vv'', ls_state = ''ss'', ls_nonce = ''nn'', ls_verifier = ''vv''\<rparr>"
    by (simp_all add: auth_login_def cognito_port_def ex_starts)
  have same: "compare_digest ''ss'' ''ss'' = Some True" "compare_digest ''nn'' ''nn'' = Some True" by code_simp+
  have parts: "callback_parts (with_cookies [(''code'', ''cc''), (''state'', ''ss'')] (jar_after ?sent (\<lambda>_. None)))
      = Inr (Some (''cc'', ''nn'', ''vv''))"
    using same(1) by (simp add: callback_parts_def query_value_def query_values_def with_cookies_def jar_after_login [OF sent] start)
  have exchanged: "exchange_code ex_login ''cc'' ''vv'' 7 = (Inr ''k'', 7)"
    by (simp add: exchange_code_def request_id_token_def read_id_token_def ex_login_def)
  have utc: "utc ex_now = Some 3600000000"
    by (simp add: utc_def ex_now_def astimezone_utc_def local_micros_def toordinal_def days_before_year_def days_before_month_def
        dt_limit_def Let_def)
  have "identifier_ok ''t''" "identifier_ok ''u''" "role_of ''viewer'' = Some Viewer" by code_simp+
  then have "\<exists>p. oidc_claims (hl_verifier ex_login) ex_claims 3600000000 = Verified p"
    by (simp add: oidc_claims_def ex_login_def ex_claims_def from_timestamp_def unix_epoch_def dt_limit_def make_principal_def
        valid_principal_def Let_def)
  then obtain p where "verify_id_token ex_login ''k'' ex_now ''nn'' 7 = (Verified p, 7)"
    using utc same(2) by (auto simp: verify_id_token_def oidc_verify_def oidc_nonce_def ex_login_def ex_claims_def)
  moreover have "lp_exchange (cognito_port h) = exchange_code h" "lp_verify (cognito_port h) = verify_id_token h"
    for h :: "nat hosted_login" by (simp_all add: cognito_port_def)
  ultimately show ?thesis using parts exchanged by (simp add: auth_callback_def)
qed

theorem sign_in_is_bound_witness:
  "\<exists>sent r code. auth_login (cognito_port ex_login) 0 = (sent, 3)
    \<and> auth_callback (cognito_port ex_login) (\<lambda>x. (ex_now, x)) (\<lambda>_ _. 60)
        (with_cookies [(''code'', ''cc''), (''state'', ''ss'')] (jar_after sent (\<lambda>_. None))) 7 = (Inr r, 7)
    \<and> jar_after r (jar_after sent (\<lambda>_. None)) session_cookie = Some ''k'' \<and> fst (exchange_code ex_login code ''vv'' 7) = Inr ''k''"
proof -
  let ?sent = "fst (auth_login (cognito_port ex_login) 0)"
  have sent: "auth_login (cognito_port ex_login) 0 = (?sent, 3)" by (simp add: auth_login_def cognito_port_def ex_starts)
  have run: "auth_callback (cognito_port ex_login) (\<lambda>x. (ex_now, x)) (\<lambda>_ _. 60)
        (with_cookies [(''code'', ''cc''), (''state'', ''ss'')] (jar_after ?sent (\<lambda>_. None))) 7 = (Inr (signed_in ''k'' 60), 7)"
    by (rule ex_callback)
  have fresh: "jar_after ?sent (\<lambda>_. None) session_cookie = None"
    by (simp add: auth_login_def cognito_port_def ex_starts jar_after_def set_cookie_def)
  have new: "jar_after (signed_in ''k'' 60) (jar_after ?sent (\<lambda>_. None)) session_cookie = Some ''k''" by (rule jar_after_sign_in)
  have "\<exists>code. fst (exchange_code ex_login code ''vv'' 7) = Inr ''k''"
    using sign_in_is_bound [OF sent ex_starts run] fresh new by (auto intro!: exI [of _ "''cc''"])
  then show ?thesis using sent run new by blast
qed

end
