(* ===== verification/Runtime_Config.thy ===== *)
theory Runtime_Config
  imports Model_Providers Github_App
begin

text \<open>
  The settings of \<^verbatim>\<open>application/runtime.py\<close>: the process environment, and \<^verbatim>\<open>pilot.yaml\<close> with the GitHub App and the model
  routes it pins.

  A document is the tree a YAML reader makes, a parameter; the reader's \<open>Bad_Json\<close> stands for a file that cannot be opened,
  decoded or parsed. Dates and floats read as \<^const>\<open>JNull\<close>, which every check here treats alike; byte strings and keys
  that are not strings are outside the model.
\<close>

text \<open>The exceptions: a \<^verbatim>\<open>RuntimeError\<close> with its message, a constructor's \<^verbatim>\<open>ValueError\<close>, and any other.\<close>

datatype startup_error = Startup_Refused string | Startup_Invalid | Startup_Crash

subsection \<open>The environment\<close>

type_synonym environ = "string \<Rightarrow> string option"

definition getenv :: "environ \<Rightarrow> string \<Rightarrow> string \<Rightarrow> string" where
  "getenv env name fallback = (case env name of None \<Rightarrow> fallback | Some v \<Rightarrow> v)"

definition setting :: "environ \<Rightarrow> string \<Rightarrow> string" where
  "setting env name = strip (getenv env name [])"

text \<open>The first name without a value, of a list of names.\<close>

definition missing_setting :: "environ \<Rightarrow> string list \<Rightarrow> string option" where
  "missing_setting env names = find (\<lambda>n. setting env n = []) names"

text \<open>\<^verbatim>\<open>int(text)\<close>\<close>

definition split_sign :: "string \<Rightarrow> bool \<times> string" where
  "split_sign s =
    (case s of [] \<Rightarrow> (False, []) | c # cs \<Rightarrow>
       if c = CHR ''-'' then (True, cs) else if c = CHR ''+'' then (False, cs) else (False, s))"

definition py_int :: "string \<Rightarrow> int option" where
  "py_int s =
    (let (negative, u) = split_sign (strip s); ds = filter (\<lambda>c. c \<noteq> CHR ''_'') u in
     if list_all (\<lambda>p. p \<noteq> [] \<and> list_all ascii_digit p) (split_on (CHR ''_'') u) \<and> length ds \<le> 4300
     then Some (if negative then - int (digits_value ds) else int (digits_value ds)) else None)"

subsection \<open>Model routes\<close>

record model_route =
  mr_family :: string
  mr_provider :: string
  mr_runtime :: string
  mr_credential_ref :: string
  mr_model :: string
  mr_context_window :: int
  mr_max_input :: int

definition expected_runtime :: "string \<Rightarrow> string" where
  "expected_runtime provider =
    (if provider = ''openai'' then ''native-provider-api-from-aws''
     else if provider = ''google'' then ''native-google-api'' else ''bedrock-runtime'')"

definition bedrock_role_ref :: string where
  "bedrock_role_ref = ''iam-role://factory-model-runtime/bedrock''"

definition route_ok :: "model_route \<Rightarrow> bool" where
  "route_ok r \<longleftrightarrow> mr_runtime r = expected_runtime (mr_provider r)
    \<and> (mr_provider r = ''aws-bedrock'' \<longrightarrow> mr_credential_ref r = bedrock_role_ref)
    \<and> (case limits_of (mr_provider r) (mr_model r) of
         None \<Rightarrow> False
       | Some l \<Rightarrow> mr_context_window r = int (context_window_tokens l) \<and> mr_max_input r = int (max_input_tokens l))"

text \<open>A string of 1 to \<open>n\<close> characters, a positive integer, and no other keys.\<close>

definition text_field :: "nat \<Rightarrow> json \<Rightarrow> string \<Rightarrow> string option" where
  "text_field n v k =
    (case json_str (json_get v k) of None \<Rightarrow> None | Some s \<Rightarrow> if s \<noteq> [] \<and> length s \<le> n then Some s else None)"

definition positive_field :: "json \<Rightarrow> string \<Rightarrow> int option" where
  "positive_field v k = (case json_int (json_get v k) of None \<Rightarrow> None | Some i \<Rightarrow> if 0 < i then Some i else None)"

fun only_keys :: "string list \<Rightarrow> json \<Rightarrow> bool" where
  "only_keys ks (JObj kvs) \<longleftrightarrow> list_all (\<lambda>p. fst p \<in> set ks) kvs"
| "only_keys ks v \<longleftrightarrow> False"

definition read_route :: "json \<Rightarrow> model_route option" where
  "read_route v =
    (if \<not> only_keys [''family'', ''provider'', ''runtime'', ''credential_ref'', ''exact_model_id'', ''context_window_tokens'',
         ''max_input_tokens''] v then None
     else case (text_field 200 v ''family'', json_str (json_get v ''provider''), text_field 100 v ''runtime'',
       text_field 1000 v ''credential_ref'', text_field 200 v ''exact_model_id'', positive_field v ''context_window_tokens'',
       positive_field v ''max_input_tokens'') of
       (Some family, Some provider, Some runtime, Some ref, Some model, Some window, Some limit) \<Rightarrow>
         let r = \<lparr>mr_family = family, mr_provider = provider, mr_runtime = runtime, mr_credential_ref = ref, mr_model = model,
           mr_context_window = window, mr_max_input = limit\<rparr> in
         if provider \<in> set [''openai'', ''google'', ''aws-bedrock''] \<and> route_ok r then Some r else None
     | _ \<Rightarrow> None)"

record model_pair =
  mpr_doer :: model_route
  mpr_reviewer :: model_route

definition field_with :: "(json \<Rightarrow> 'a option) \<Rightarrow> json \<Rightarrow> string \<Rightarrow> 'a option" where
  "field_with read v k = Option.bind (json_get v k) read"

definition read_pair :: "json \<Rightarrow> model_pair option" where
  "read_pair v =
    (if \<not> only_keys [''doer'', ''reviewer''] v then None
     else case (field_with read_route v ''doer'', field_with read_route v ''reviewer'') of
       (Some d, Some r) \<Rightarrow> Some \<lparr>mpr_doer = d, mpr_reviewer = r\<rparr> | _ \<Rightarrow> None)"

record pilot_models =
  pm_status :: string
  pm_routing_principle :: string
  pm_coding :: model_pair
  pm_architecture_and_business :: model_pair

definition read_models :: "json \<Rightarrow> pilot_models option" where
  "read_models v =
    (if \<not> only_keys [''status'', ''routing_principle'', ''coding'', ''architecture_and_business''] v then None
     else case (text_field 100 v ''status'', text_field 500 v ''routing_principle'', field_with read_pair v ''coding'',
       field_with read_pair v ''architecture_and_business'') of
       (Some status, Some principle, Some coding, Some architecture) \<Rightarrow>
         Some \<lparr>pm_status = status, pm_routing_principle = principle, pm_coding = coding,
           pm_architecture_and_business = architecture\<rparr>
     | _ \<Rightarrow> None)"

text \<open>The patterns \<^verbatim>\<open>^[a-z]{2}(?:-gov)?-[a-z]+-\d+$\<close> and \<^verbatim>\<open>^[0-9]{12}$\<close>.\<close>

definition region_name_ok :: "string \<Rightarrow> bool" where
  "region_name_ok s \<longleftrightarrow>
    (let place = (\<lambda>a b n. length a = 2 \<and> list_all ascii_lower a \<and> b \<noteq> [] \<and> list_all ascii_lower b
       \<and> n \<noteq> [] \<and> list_all ascii_digit n) in
     case split_on (CHR ''-'') s of
       [a, b, n] \<Rightarrow> place a b n
     | [a, g, b, n] \<Rightarrow> g = ''gov'' \<and> place a b n
     | _ \<Rightarrow> False)"

definition account_ok :: "string \<Rightarrow> bool" where
  "account_ok s \<longleftrightarrow> length s = 12 \<and> list_all ascii_digit s"

record pilot_secrets =
  sc_region :: string
  sc_account :: string

definition read_secrets :: "json \<Rightarrow> pilot_secrets option" where
  "read_secrets v =
    (case (json_str (json_get v ''region''), json_str (json_get v ''account_id'')) of
       (Some region, Some account) \<Rightarrow>
         if region_name_ok region \<and> account_ok account then Some \<lparr>sc_region = region, sc_account = account\<rparr> else None
     | _ \<Rightarrow> None)"

record pilot_config =
  pc_secrets :: pilot_secrets
  pc_models :: pilot_models

definition read_pilot_config :: "json \<Rightarrow> pilot_config option" where
  "read_pilot_config v =
    (case (field_with read_secrets v ''secrets'', field_with read_models v ''models'') of
       (Some s, Some m) \<Rightarrow> Some \<lparr>pc_secrets = s, pc_models = m\<rparr> | _ \<Rightarrow> None)"

definition pilot_routes :: "pilot_config \<Rightarrow> model_route list" where
  "pilot_routes c = concat (map (\<lambda>p. [mpr_doer p, mpr_reviewer p])
    [pm_coding (pc_models c), pm_architecture_and_business (pc_models c)])"

text \<open>The path's parts after its leading slashes: the account and the name of a secret reference.\<close>

definition reference_parts :: "split_url \<Rightarrow> string list" where
  "reference_parts u = split_once (CHR ''/'') (strip_left (CHR ''/'') (su_path u))"

definition model_secret_ok :: "(string \<Rightarrow> bool) \<Rightarrow> pilot_secrets \<Rightarrow> model_route \<Rightarrow> bool" where
  "model_secret_ok bracketed_host s r \<longleftrightarrow> mr_provider r = ''aws-bedrock''
    \<or> (case url_split bracketed_host (mr_credential_ref r) of
         None \<Rightarrow> False
       | Some u \<Rightarrow> su_scheme u = ''aws-secretsmanager'' \<and> su_netloc u = sc_region s \<and> url_username u = None
           \<and> url_password u = None \<and> su_query u = [] \<and> su_fragment u = []
           \<and> (case reference_parts u of [account, name] \<Rightarrow> account = sc_account s \<and> name \<noteq> [] | _ \<Rightarrow> False))"

subsection \<open>The pilot file\<close>

record config_files =
  cf_is_file :: "string \<Rightarrow> bool"
  cf_bundled :: string
  cf_read_yaml :: "string \<Rightarrow> json_reading"
  cf_bracketed_host :: "string \<Rightarrow> bool"

definition pilot_config_path :: "environ \<Rightarrow> config_files \<Rightarrow> string option" where
  "pilot_config_path env f =
    (let configured = setting env ''FACTORY_PILOT_CONFIG'' in
     find (cf_is_file f) (if configured \<noteq> [] then [configured] else [''/app/pilot.yaml'', cf_bundled f]))"

text \<open>What both readers of the file share: a refusal of any kind ends in one \<^verbatim>\<open>RuntimeError\<close>.\<close>

definition read_pilot_file :: "environ \<Rightarrow> config_files \<Rightarrow> string \<Rightarrow> string \<Rightarrow> (json \<Rightarrow> 'a option) \<Rightarrow> startup_error + 'a" where
  "read_pilot_file env f absent invalid interpret =
    (case pilot_config_path env f of
       None \<Rightarrow> Inl (Startup_Refused absent)
     | Some path \<Rightarrow> (case cf_read_yaml f path of
         Json_Crash \<Rightarrow> Inl Startup_Crash
       | Bad_Json \<Rightarrow> Inl (Startup_Refused invalid)
       | Reads v \<Rightarrow> (case interpret v of None \<Rightarrow> Inl (Startup_Refused invalid) | Some a \<Rightarrow> Inr a)))"

definition checked_pilot_config :: "(string \<Rightarrow> bool) \<Rightarrow> json \<Rightarrow> pilot_config option" where
  "checked_pilot_config bracketed_host v =
    (case read_pilot_config v of
       None \<Rightarrow> None
     | Some c \<Rightarrow> if list_all (model_secret_ok bracketed_host (pc_secrets c)) (pilot_routes c) then Some c else None)"

definition load_pilot_model_config :: "environ \<Rightarrow> config_files \<Rightarrow> startup_error + pilot_config" where
  "load_pilot_model_config env f =
    read_pilot_file env f ''pilot.yaml is required for model runtime'' ''pilot model configuration is invalid''
      (checked_pilot_config (cf_bracketed_host f))"

subsection \<open>The GitHub App\<close>

fun split_upto :: "nat \<Rightarrow> char \<Rightarrow> string \<Rightarrow> string list" where
  "split_upto 0 c s = [s]"
| "split_upto (Suc n) c s =
    (if c \<in> set s then text_before (\<lambda>d. d = c) s # split_upto n c (text_after (\<lambda>d. d = c) s) else [s])"

definition secret_name_matches :: "string \<Rightarrow> string \<Rightarrow> bool" where
  "secret_name_matches expected actual \<longleftrightarrow> actual = expected
    \<or> starts_with (expected @ ''-'') actual
      \<and> (let suffix = drop (length expected + 1) actual in
         length suffix = 6 \<and> list_all (\<lambda>c. ascii_letter c \<or> ascii_digit c) suffix)"

text \<open>The reference of the pilot file and the ARN of the environment name the same secret.\<close>

definition same_secret :: "split_url \<Rightarrow> string \<Rightarrow> bool" where
  "same_secret u arn \<longleftrightarrow> su_scheme u = ''aws-secretsmanager''
    \<and> (case (reference_parts u, split_upto 5 (CHR '':'') arn) of
         ([account, name], [a0, a1, a2, a3, a4, a5]) \<Rightarrow> a0 = ''arn'' \<and> a2 = ''secretsmanager'' \<and> a3 = su_netloc u
           \<and> a4 = account \<and> starts_with ''secret:'' a5 \<and> secret_name_matches name (drop 7 a5)
       | _ \<Rightarrow> False)"

definition app_config_of :: "json \<Rightarrow> github_app_config option" where
  "app_config_of v =
    (case json_get v ''github'' of
       None \<Rightarrow> None
     | Some github \<Rightarrow> (case json_get github ''app'' of
         None \<Rightarrow> None
       | Some app \<Rightarrow> if \<not> is_object app then None
           else (case (json_str_list (json_get app ''repositories''), json_str (json_get github ''organization''),
               json_str (json_get app ''app_id''), json_str (json_get app ''installation_id''),
               json_str (json_get app ''private_key_ref'')) of
             (Some repositories, Some organization, Some app_id, Some installation, Some ref) \<Rightarrow>
               let c = \<lparr>ga_organization = organization, ga_app_id = app_id, ga_installation_id = installation,
                 ga_private_key_ref = ref, ga_repositories = repositories\<rparr> in
               if github_app_config_ok c then Some c else None
           | _ \<Rightarrow> None)))"

definition github_app_settings :: "string list" where
  "github_app_settings =
    [''FACTORY_GITHUB_APP_ID'', ''FACTORY_GITHUB_APP_INSTALLATION_ID'', ''FACTORY_GITHUB_APP_PRIVATE_KEY_SECRET_ARN'']"

definition checked_app_config :: "environ \<Rightarrow> (string \<Rightarrow> bool) \<Rightarrow> json \<Rightarrow> github_app_config option" where
  "checked_app_config env bracketed_host v =
    (case app_config_of v of
       None \<Rightarrow> None
     | Some c \<Rightarrow> (case url_split bracketed_host (ga_private_key_ref c) of
         None \<Rightarrow> None
       | Some u \<Rightarrow>
           if ga_app_id c = setting env ''FACTORY_GITHUB_APP_ID''
             \<and> ga_installation_id c = setting env ''FACTORY_GITHUB_APP_INSTALLATION_ID''
             \<and> same_secret u (setting env ''FACTORY_GITHUB_APP_PRIVATE_KEY_SECRET_ARN'')
           then Some c else None))"

definition pilot_github_app_config :: "environ \<Rightarrow> config_files \<Rightarrow> startup_error + github_app_config option" where
  "pilot_github_app_config env f =
    (if list_all (\<lambda>n. setting env n = []) github_app_settings then Inr None
     else case missing_setting env github_app_settings of
       Some name \<Rightarrow> Inl (Startup_Refused (name @ '' is required by the pilot GitHub App configuration''))
     | None \<Rightarrow> ebind (read_pilot_file env f ''pilot.yaml is required when the GitHub App is configured''
           ''pilot GitHub App configuration is invalid'' (checked_app_config env (cf_bracketed_host f))) (\<lambda>c. Inr (Some c)))"

subsection \<open>The database\<close>

fun falsy :: "json option \<Rightarrow> bool" where
  "falsy None \<longleftrightarrow> True"
| "falsy (Some JNull) \<longleftrightarrow> True"
| "falsy (Some (JBool b)) \<longleftrightarrow> \<not> b"
| "falsy (Some (JInt i)) \<longleftrightarrow> i = 0"
| "falsy (Some (JStr s)) \<longleftrightarrow> s = []"
| "falsy (Some (JArr vs)) \<longleftrightarrow> vs = []"
| "falsy (Some (JObj kvs)) \<longleftrightarrow> kvs = []"

text \<open>\<^verbatim>\<open>values.get(key) or fallback\<close>, when that is a string.\<close>

definition text_or :: "json \<Rightarrow> string \<Rightarrow> string \<Rightarrow> string option" where
  "text_or v k fallback = (if falsy (json_get v k) then Some fallback else json_str (json_get v k))"

definition database_port :: "json \<Rightarrow> string \<Rightarrow> int option" where
  "database_port v fallback =
    (case json_get v ''port'' of
       None \<Rightarrow> py_int fallback
     | Some (JStr s) \<Rightarrow> py_int s
     | given \<Rightarrow> json_int given)"

definition database_url :: "environ \<Rightarrow> json \<Rightarrow> string option" where
  "database_url env v =
    (case (text_or v ''host'' (setting env ''FACTORY_DATABASE_HOST''), database_port v (getenv env ''FACTORY_DATABASE_PORT'' ''5432''),
       json_str (json_get v ''username''), json_str (json_get v ''password''),
       text_or v ''dbname'' (setting env ''FACTORY_DATABASE_NAME'')) of
       (Some host, Some number, Some username, Some password, Some name) \<Rightarrow>
         if \<not> is_object v \<or> strip host = [] \<or> strip name = [] then None
         else Some (''postgresql+psycopg://'' @ quote_url username @ '':'' @ quote_url password @ ''@'' @ host @ '':''
           @ show_int number @ ''/'' @ quote_url name)
     | _ \<Rightarrow> None)"

text \<open>
  The client gives nothing when it raises, otherwise the \<^verbatim>\<open>SecretString\<close>, if that is a string. Here \<^verbatim>\<open>json.loads\<close> reads a
  float as a value that is neither text nor an integer and has the float's truth value.
\<close>

definition database_url_from_secret ::
  "environ \<Rightarrow> (string option \<Rightarrow> string \<Rightarrow> 'x \<Rightarrow> string option option \<times> 'x) \<Rightarrow> (string \<Rightarrow> json_reading) \<Rightarrow> string \<Rightarrow>
    ('x, startup_error, string) eff"
where
  "database_url_from_secret env client loads arn x =
    (let region = getenv env ''FACTORY_AWS_REGION'' [];
         refused = Startup_Refused ''unable to resolve the configured database secret'' in
     case client (if region = [] then None else Some region) arn x of
       (Some (Some secret_text), y) \<Rightarrow> (case loads secret_text of
         Reads v \<Rightarrow> (case database_url env v of None \<Rightarrow> (Inl refused, y) | Some url \<Rightarrow> (Inr url, y))
       | _ \<Rightarrow> (Inl refused, y))
     | (_, y) \<Rightarrow> (Inl refused, y))"

end
