(* ===== verification/Runtime.thy ===== *)
theory Runtime
  imports Runtime_Config Repository_Reader Browser_Login Grounded_Discussion Discussion_Agents
begin

text \<open>
  \<^verbatim>\<open>build_app\<close> of \<^verbatim>\<open>application/runtime.py\<close>: from the environment and the pilot file to the broker, the reader, the model
  ports, the discussions, the verifier, the login port and the service. The host is what surrounds the process: its
  environment and files, the AWS clients, the openers, the clock and the readers of the modelled components.
\<close>

record 'x host =
  ht_env :: environ
  ht_files :: config_files
  ht_engine :: "string \<Rightarrow> bool"
  ht_secret_client :: "string option \<Rightarrow> string \<Rightarrow> 'x \<Rightarrow> string option option \<times> 'x"
  ht_bedrock_client :: "string \<Rightarrow> (string \<Rightarrow> string \<Rightarrow> int \<Rightarrow> 'x \<Rightarrow> bedrock_outcome \<times> 'x) option"
  ht_model_open :: "string \<Rightarrow> string \<Rightarrow> (string \<times> string) list \<Rightarrow> string \<Rightarrow> 'x \<Rightarrow> opened \<times> 'x"
  ht_app_open :: "string \<Rightarrow> (string \<times> string) list \<Rightarrow> string \<Rightarrow> 'x \<Rightarrow> http_outcome \<times> 'x"
  ht_source_transport :: "string \<Rightarrow> github_error + 'x source_transport"
  ht_token_open :: "string \<Rightarrow> (string \<times> string) list \<Rightarrow> string \<Rightarrow> 'x \<Rightarrow> http_outcome \<times> 'x"
  ht_decode_jwt :: "string \<Rightarrow> string \<Rightarrow> string \<Rightarrow> string \<Rightarrow> 'x \<Rightarrow> json option \<times> 'x"
  ht_load_key :: "string \<Rightarrow> app_key"
  ht_now :: "'x \<Rightarrow> datetime \<times> 'x"
  ht_today :: "'x \<Rightarrow> date \<times> 'x"
  ht_timer :: "'x \<Rightarrow> int \<times> 'x"
  ht_millis :: "int \<Rightarrow> int \<Rightarrow> int"
  ht_seconds :: "moment \<Rightarrow> int"
  ht_uuid :: "'x \<Rightarrow> string \<times> 'x"
  ht_random :: "nat \<Rightarrow> 'x \<Rightarrow> string \<times> 'x"
  ht_local :: "datetime \<Rightarrow> moment option"
  ht_fromisoformat :: "string \<Rightarrow> datetime option"
  ht_utf8 :: "string \<Rightarrow> string option"
  ht_loads :: "string \<Rightarrow> json_reading"
  ht_loads_bytes :: "string \<Rightarrow> json_reading"
  ht_loads_answer :: "string \<Rightarrow> json option"
  ht_answer_draft :: "json \<Rightarrow> answer_draft option"
  ht_business_draft :: "json \<Rightarrow> business_draft option"
  ht_review :: "json \<Rightarrow> independent_review option"

definition bracketed :: "'x host \<Rightarrow> string \<Rightarrow> bool" where
  "bracketed h = cf_bracketed_host (ht_files h)"

text \<open>\<^verbatim>\<open>AwsSecretsManagerStore.get\<close> and the clock of the components, the UTC time of the service's clock.\<close>

definition secret_store :: "'x host \<Rightarrow> string \<Rightarrow> ('x, app_error, string) eff" where
  "secret_store h = aws_secret (bracketed h) (\<lambda>region. ht_secret_client h (Some region))"

definition instant_clock :: "'x host \<Rightarrow> 'x \<Rightarrow> moment option \<times> 'x" where
  "instant_clock h x = (case ht_now h x of (d, y) \<Rightarrow> (astimezone_utc d, y))"

text \<open>A port whose caller catches every exception.\<close>

definition any_failure :: "('x, 'e, 'a) eff \<Rightarrow> 'x \<Rightarrow> 'a option \<times> 'x" where
  "any_failure m x = (case m x of (Inl e, y) \<Rightarrow> (None, y) | (Inr a, y) \<Rightarrow> (Some a, y))"

definition mapped_error :: "('e \<Rightarrow> startup_error) \<Rightarrow> 'e + 'a \<Rightarrow> startup_error + 'a" where
  "mapped_error f r = (case r of Inl e \<Rightarrow> Inl (f e) | Inr a \<Rightarrow> Inr a)"

subsection \<open>The GitHub App\<close>

definition make_broker :: "'x host \<Rightarrow> github_app_config \<Rightarrow> startup_error + 'x app_broker" where
  "make_broker h c =
    (if \<not> github_app_config_ok c then Inl Startup_Invalid
     else ebind (mapped_error (\<lambda>_. Startup_Invalid)
       (make_app_transport (ht_app_open h) (ht_loads_bytes h) (ht_fromisoformat h) ''https://api.github.com'' True)) (\<lambda>t.
       Inr \<lparr>gb_config = c, gb_secret = secret_store h, gb_transport = t, gb_clock = instant_clock h, gb_load_key = ht_load_key h,
         gb_timestamp = ht_seconds h\<rparr>))"

definition make_source_reader :: "'x host \<Rightarrow> 'x app_broker \<Rightarrow> startup_error + 'x repository_reader" where
  "make_source_reader h b = mapped_error (\<lambda>_. Startup_Invalid) (make_reader
    \<lparr>rr_token_for = token_for b, rr_repositories = ga_repositories (gb_config b), rr_transport = ht_source_transport h,
     rr_clock = instant_clock h, rr_local = ht_local h, rr_decode = ht_utf8 h, rr_bracketed_host = bracketed h,
     rr_max_files = 32, rr_max_file_bytes = 32000, rr_max_total_bytes = 800000\<rparr>)"

subsection \<open>The discussions\<close>

definition port_error :: "provider_error \<Rightarrow> startup_error" where
  "port_error e = (if e = Invalid_Setting then Startup_Invalid else Startup_Crash)"

definition route_access :: "'x host \<Rightarrow> string \<Rightarrow> string \<Rightarrow> provider_error + 'x credential_access" where
  "route_access h ref url =
    ebind (urllib_transport (ht_model_open h) True) (\<lambda>t. Inr
      \<lparr>ca_ref = ref, ca_secret = \<lambda>r. any_failure (secret_store h r), ca_transport = t, ca_loads = ht_loads h,
       ca_loads_bytes = ht_loads_bytes h, ca_api_url = url\<rparr>)"

definition model_port :: "'x host \<Rightarrow> string \<Rightarrow> int \<Rightarrow> model_route \<Rightarrow> startup_error + 'x provider_port" where
  "model_port h region max_output r =
    (let s = \<lparr>ms_model = mr_model r, ms_family = mr_family r, ms_max_output = max_output\<rparr> in mapped_error port_error
      (if mr_provider r = ''openai''
       then ebind (route_access h (mr_credential_ref r) ''https://api.openai.com/v1'') (make_openai (bracketed h) s)
       else if mr_provider r = ''google''
       then ebind (route_access h (mr_credential_ref r) ''https://generativelanguage.googleapis.com/v1beta'')
         (make_gemini (bracketed h) s)
       else make_bedrock s (ht_bedrock_client h region)))"

definition model_party_of :: "model_route \<Rightarrow> 'x provider_port \<Rightarrow> 'x model_party" where
  "model_party_of r p = \<lparr>py_complete = \<lambda>q. any_failure (complete_with p q), py_provider = mr_provider r,
    py_model = mr_model r, py_family = mr_family r\<rparr>"

text \<open>Both parties of a discussion, whose constructor refuses equal or blank families and blank identities.\<close>

definition discussion_parties ::
  "'x host \<Rightarrow> string \<Rightarrow> model_pair \<Rightarrow> startup_error + ('x model_party \<times> 'x model_party)"
where
  "discussion_parties h region p =
    ebind (model_port h region 1536 (mpr_doer p)) (\<lambda>d. ebind (model_port h region 512 (mpr_reviewer p)) (\<lambda>r.
    let doer = model_party_of (mpr_doer p) d; reviewer = model_party_of (mpr_reviewer p) r in
    if parties_ok doer reviewer then Inr (doer, reviewer) else Inl Startup_Invalid))"

definition discussion_profile ::
  "'x host \<Rightarrow> 'x repository_reader \<Rightarrow> string \<Rightarrow> model_pair \<Rightarrow> startup_error + 'x grounded_env"
where
  "discussion_profile h rr region p =
    ebind (discussion_parties h region p) (\<lambda>(d, r). Inr
      \<lparr>dx_doer = d, dx_reviewer = r, dx_region = region, dx_today = ht_today h, dx_timer = ht_timer h, dx_millis = ht_millis h,
       dx_uuid = ht_uuid h, dx_loads = ht_loads_answer h,
       gx_reader = \<lambda>repository question. any_failure (read_codebase_context rr repository question),
       gx_draft = ht_answer_draft h, gx_review = ht_review h\<rparr>)"

definition grounded_discussion ::
  "'x host \<Rightarrow> 'x repository_reader \<Rightarrow> startup_error + (analysis_profile \<Rightarrow> 'x grounded_env)"
where
  "grounded_discussion h rr =
    ebind (load_pilot_model_config (ht_env h) (ht_files h)) (\<lambda>c.
    ebind (discussion_profile h rr (sc_region (pc_secrets c)) (pm_architecture_and_business (pc_models c))) (\<lambda>architecture.
    ebind (discussion_profile h rr (sc_region (pc_secrets c)) (pm_coding (pc_models c))) (\<lambda>coding.
    Inr (\<lambda>p. case p of Profile_Architecture \<Rightarrow> architecture | Profile_Coding \<Rightarrow> coding))))"

definition business_analyst :: "'x host \<Rightarrow> startup_error + 'x business_env" where
  "business_analyst h =
    ebind (load_pilot_model_config (ht_env h) (ht_files h)) (\<lambda>c.
    ebind (discussion_parties h (sc_region (pc_secrets c)) (pm_architecture_and_business (pc_models c))) (\<lambda>(d, r). Inr
      \<lparr>dx_doer = d, dx_reviewer = r, dx_region = sc_region (pc_secrets c), dx_today = ht_today h, dx_timer = ht_timer h,
       dx_millis = ht_millis h, dx_uuid = ht_uuid h, dx_loads = ht_loads_answer h, bx_draft = ht_business_draft h,
       bx_review = ht_review h\<rparr>))"

subsection \<open>Authentication\<close>

datatype 'x auth_setup = No_Auth | Hmac_Auth token_issuer | Oidc_Auth "'x oidc_verifier"

definition oidc_of :: "'x host \<Rightarrow> startup_error + 'x oidc_verifier" where
  "oidc_of h =
    (let env = ht_env h; issuer = setting env ''FACTORY_OIDC_ISSUER''; audience = setting env ''FACTORY_OIDC_AUDIENCE'';
         jwks = setting env ''FACTORY_OIDC_JWKS_URL'' in
     if lower (strip (getenv env ''FACTORY_OIDC_PROVIDER'' ''external'')) \<notin> set [''cognito'', ''external'']
     then Inl (Startup_Refused ''FACTORY_OIDC_PROVIDER must be cognito or external'')
     else if issuer = [] \<or> audience = [] \<or> jwks = []
     then Inl (Startup_Refused ''FACTORY_OIDC_ISSUER, FACTORY_OIDC_AUDIENCE, and FACTORY_OIDC_JWKS_URL are required for OIDC authentication'')
     else mapped_error (\<lambda>_. Startup_Invalid) (make_oidc (bracketed h) jwks
       \<lparr>oi_issuer = issuer, oi_audience = audience,
        oi_tenant_claim = strip (getenv env ''FACTORY_OIDC_TENANT_CLAIM'' ''tenant_id''),
        oi_roles_claim = strip (getenv env ''FACTORY_OIDC_ROLES_CLAIM'' ''factory_roles''),
        oi_seconds = ht_seconds h, oi_decode = ht_decode_jwt h issuer audience jwks\<rparr>))"

definition browser_settings :: "string list" where
  "browser_settings =
    [''FACTORY_COGNITO_DOMAIN'', ''FACTORY_COGNITO_CLIENT_ID'', ''FACTORY_COGNITO_CALLBACK_URL'',
     ''FACTORY_COGNITO_LOGOUT_URL'', ''FACTORY_PUBLIC_ORIGIN'']"

definition same_origin :: "split_url \<Rightarrow> split_url \<Rightarrow> split_url \<Rightarrow> bool" where
  "same_origin callback logout origin \<longleftrightarrow> su_scheme callback = su_scheme origin \<and> su_netloc callback = su_netloc origin
    \<and> su_path callback = ''/auth/callback'' \<and> su_scheme logout = su_scheme origin \<and> su_netloc logout = su_netloc origin
    \<and> su_path logout = ''/auth/signed-out''"

definition browser_login_of :: "'x host \<Rightarrow> 'x oidc_verifier \<Rightarrow> startup_error + 'x hosted_login" where
  "browser_login_of h oi =
    (let env = ht_env h in
     case missing_setting env browser_settings of
       Some name \<Rightarrow> Inl (Startup_Refused (name @ '' is required for Cognito browser authentication''))
     | None \<Rightarrow>
         if setting env ''FACTORY_COGNITO_CLIENT_ID'' \<noteq> setting env ''FACTORY_OIDC_AUDIENCE''
         then Inl (Startup_Refused ''FACTORY_COGNITO_CLIENT_ID must match FACTORY_OIDC_AUDIENCE'')
         else (case (url_split (bracketed h) (setting env ''FACTORY_COGNITO_CALLBACK_URL''),
                     url_split (bracketed h) (setting env ''FACTORY_COGNITO_LOGOUT_URL''),
                     url_split (bracketed h) (setting env ''FACTORY_PUBLIC_ORIGIN'')) of
           (Some callback, Some logout, Some origin) \<Rightarrow>
             if \<not> same_origin callback logout origin
             then Inl (Startup_Refused ''Cognito callback and logout URLs must use FACTORY_PUBLIC_ORIGIN'')
             else mapped_error (\<lambda>_. Startup_Invalid) (ebind (make_token_client
                 \<lparr>tc_open = ht_token_open h, tc_loads = ht_loads_bytes h\<rparr> True) (\<lambda>client.
               make_hosted_login (bracketed h)
                 \<lparr>hl_settings = \<lparr>cg_base_url = setting env ''FACTORY_COGNITO_DOMAIN'',
                    cg_client_id = setting env ''FACTORY_COGNITO_CLIENT_ID'',
                    cg_callback_url = setting env ''FACTORY_COGNITO_CALLBACK_URL'',
                    cg_logout_url = setting env ''FACTORY_COGNITO_LOGOUT_URL''\<rparr>,
                  hl_client = client, hl_verifier = oi, hl_random = ht_random h\<rparr>))
         | _ \<Rightarrow> Inl Startup_Invalid))"

subsection \<open>The application\<close>

record 'x app_plan =
  ap_database :: "string option"
  ap_auth :: "'x auth_setup"
  ap_login :: "'x hosted_login option"
  ap_origin :: "string option"
  ap_broker :: "'x app_broker option"
  ap_reader :: "'x repository_reader option"
  ap_grounded :: "(analysis_profile \<Rightarrow> 'x grounded_env) option"
  ap_business :: "'x business_env option"
  ap_turn_limit :: "int option"
  ap_model_tenant :: "string option"
  ap_repositories :: "string list"
  ap_clock :: "'x \<Rightarrow> datetime \<times> 'x"
  ap_uuid :: "'x \<Rightarrow> string \<times> 'x"

definition turn_limit_of :: "environ \<Rightarrow> startup_error + int option" where
  "turn_limit_of env =
    (let s = strip (getenv env ''FACTORY_CHAT_MODEL_TURN_LIMIT'' ''0'');
         refused = Startup_Refused (''FACTORY_CHAT_MODEL_TURN_LIMIT must be a nonnegative integer or ''
           @ [CHR 0x27] @ ''unlimited'' @ [CHR 0x27]) in
     if casefold s = casefold ''unlimited'' then Inr None
     else case py_int s of None \<Rightarrow> Inl refused | Some l \<Rightarrow> if l < 0 then Inl refused else Inr (Some l))"

text \<open>The parts that exist only with a GitHub App: broker, reader and the two discussions.\<close>

record 'x model_parts =
  pt_broker :: "'x app_broker"
  pt_reader :: "'x repository_reader"
  pt_grounded :: "analysis_profile \<Rightarrow> 'x grounded_env"
  pt_business :: "'x business_env"

definition model_parts_of :: "'x host \<Rightarrow> startup_error + 'x model_parts option" where
  "model_parts_of h =
    ebind (pilot_github_app_config (ht_env h) (ht_files h)) (\<lambda>c. case c of
      None \<Rightarrow> Inr None
    | Some app \<Rightarrow>
        ebind (make_broker h app) (\<lambda>b. ebind (make_source_reader h b) (\<lambda>rr.
        ebind (grounded_discussion h rr) (\<lambda>g. ebind (business_analyst h) (\<lambda>ba.
        Inr (Some \<lparr>pt_broker = b, pt_reader = rr, pt_grounded = g, pt_business = ba\<rparr>))))))"

definition model_budget_check :: "bool \<Rightarrow> int option \<Rightarrow> string option \<Rightarrow> startup_error + unit" where
  "model_budget_check demanded limit tenant =
    (if demanded \<and> limit = Some 0
     then Inl (Startup_Refused ''FACTORY_CHAT_MODEL_TURN_LIMIT must be positive for model-backed chat'')
     else if demanded \<and> tenant = None
     then Inl (Startup_Refused ''FACTORY_CHAT_MODEL_TENANT_ID is required when chat model calls are enabled'')
     else Inr ())"

definition environment :: "'x host \<Rightarrow> string" where
  "environment h = lower (strip (getenv (ht_env h) ''FACTORY_ENV'' ''development''))"

definition auth_mode :: "'x host \<Rightarrow> string" where
  "auth_mode h = lower (strip (getenv (ht_env h) ''FACTORY_AUTH_MODE'' ''hmac''))"

definition durable_environment :: "'x host \<Rightarrow> bool" where
  "durable_environment h \<longleftrightarrow> environment h \<in> set [''pilot'', ''staging'', ''production'']"

definition auth_mode_check :: "'x host \<Rightarrow> startup_error + unit" where
  "auth_mode_check h =
    (if environment h \<in> set [''staging'', ''production''] \<and> auth_mode h \<noteq> ''oidc''
     then Inl (Startup_Refused ''OIDC authentication is required for staging and production'')
     else if auth_mode h \<notin> set [''hmac'', ''oidc''] then Inl (Startup_Refused ''FACTORY_AUTH_MODE must be hmac or oidc'')
     else Inr ())"

text \<open>Empty bytes are no secret.\<close>

definition local_issuer :: "'x host \<Rightarrow> 'x auth_setup" where
  "local_issuer h =
    (let secret = getenv (ht_env h) ''FACTORY_AUTH_SECRET'' [] in
     if secret = [] then No_Auth
     else Hmac_Auth \<lparr>tk_secret = utf8 secret, tk_issuer = getenv (ht_env h) ''FACTORY_AUTH_ISSUER'' ''factory'',
       tk_audience = getenv (ht_env h) ''FACTORY_AUTH_AUDIENCE'' ''factory-api'', tk_loads = ht_loads_bytes h,
       tk_seconds = ht_seconds h\<rparr>)"

text \<open>The authenticator, the login port of Cognito and the origin its cookies need.\<close>

definition authentication_of :: "'x host \<Rightarrow> startup_error + ('x auth_setup \<times> ('x hosted_login \<times> string) option)" where
  "authentication_of h =
    (if auth_mode h \<noteq> ''oidc'' then Inr (local_issuer h, None)
     else ebind (oidc_of h) (\<lambda>oi.
       if lower (strip (getenv (ht_env h) ''FACTORY_OIDC_PROVIDER'' ''external'')) \<noteq> ''cognito'' then Inr (Oidc_Auth oi, None)
       else ebind (browser_login_of h oi) (\<lambda>hl.
         Inr (Oidc_Auth oi, Some (hl, setting (ht_env h) ''FACTORY_PUBLIC_ORIGIN'')))))"

definition durable_database :: "'x host \<Rightarrow> ('x, startup_error, string option) eff" where
  "durable_database h =
    (if \<not> durable_environment h then sreturn None
     else let given = setting (ht_env h) ''FACTORY_DATABASE_URL''; arn = setting (ht_env h) ''FACTORY_DATABASE_SECRET_ARN'' in
       sbind (if given \<noteq> [] then sreturn given
          else if arn = []
          then sraise (Startup_Refused ''FACTORY_DATABASE_URL or FACTORY_DATABASE_SECRET_ARN is required for durable runtime'')
          else database_url_from_secret (ht_env h) (ht_secret_client h) (ht_loads h) arn) (\<lambda>url.
       if auth_mode h = ''hmac'' \<and> getenv (ht_env h) ''FACTORY_AUTH_SECRET'' [] = []
       then sraise (Startup_Refused ''FACTORY_AUTH_SECRET is required for production runtime'')
       else if \<not> ht_engine h url then sraise Startup_Crash else sreturn (Some url)))"

text \<open>The checks of \<^verbatim>\<open>create_app\<close>, which also reduces the origin of the cookies to its scheme and host.\<close>

definition auth_setup_ok :: "'x auth_setup \<Rightarrow> bool" where
  "auth_setup_ok a \<longleftrightarrow> (case a of Hmac_Auth t \<Rightarrow> issuer_ok t | _ \<Rightarrow> True)"

definition create_app :: "'x host \<Rightarrow> 'x app_plan \<Rightarrow> startup_error + 'x app_plan" where
  "create_app h ap =
    (if \<not> auth_setup_ok (ap_auth ap) then Inl Startup_Invalid
     else ebind (if ap_login ap = None then Inr ap
         else ebind (mapped_error (\<lambda>_. Startup_Invalid) (cookie_auth_origin (bracketed h) (ap_origin ap))) (\<lambda>origin.
           Inr (ap\<lparr>ap_origin := Some origin\<rparr>))) (\<lambda>ap.
     if ap_broker ap \<noteq> None \<and> (ap_repositories ap = [] \<or> \<not> distinct (ap_repositories ap)) then Inl Startup_Invalid
     else if (case ap_turn_limit ap of None \<Rightarrow> False | Some l \<Rightarrow> l < 0) then Inl Startup_Invalid
     else if ap_turn_limit ap \<noteq> Some 0 \<and> ap_model_tenant ap \<in> {None, Some []} then Inl Startup_Invalid
     else Inr ap))"

definition app_plan_of ::
  "'x host \<Rightarrow> int option \<Rightarrow> string option \<Rightarrow> 'x model_parts option \<Rightarrow> 'x auth_setup \<Rightarrow> ('x hosted_login \<times> string) option \<Rightarrow>
    string option \<Rightarrow> 'x app_plan"
where
  "app_plan_of h limit tenant parts auth login database =
    \<lparr>ap_database = database, ap_auth = auth, ap_login = map_option fst login, ap_origin = map_option snd login,
     ap_broker = map_option pt_broker parts, ap_reader = map_option pt_reader parts, ap_grounded = map_option pt_grounded parts,
     ap_business = map_option pt_business parts, ap_turn_limit = limit, ap_model_tenant = tenant,
     ap_repositories = (case parts of None \<Rightarrow> [] | Some p \<Rightarrow> ga_repositories (gb_config (pt_broker p))),
     ap_clock = ht_now h, ap_uuid = ht_uuid h\<rparr>"

definition model_tenant_of :: "environ \<Rightarrow> string option" where
  "model_tenant_of env =
    (let tenant = setting env ''FACTORY_CHAT_MODEL_TENANT_ID'' in if tenant = [] then None else Some tenant)"

definition build_app :: "'x host \<Rightarrow> ('x, startup_error, 'x app_plan) eff" where
  "build_app h =
    sbind (spure (auth_mode_check h)) (\<lambda>_.
    sbind (spure (turn_limit_of (ht_env h))) (\<lambda>limit.
    sbind (spure (model_parts_of h)) (\<lambda>parts.
    sbind (spure (model_budget_check (durable_environment h \<and> parts \<noteq> None) limit (model_tenant_of (ht_env h)))) (\<lambda>_.
    sbind (spure (authentication_of h)) (\<lambda>(auth, login).
    sbind (durable_database h) (\<lambda>database.
    spure (create_app h (app_plan_of h limit (model_tenant_of (ht_env h)) parts auth login database))))))))"

subsection \<open>The service of an application\<close>

definition info_of :: "repository_metadata \<Rightarrow> repository_info" where
  "info_of m = \<lparr>ri_full_name = rm_full_name m, ri_default_branch = rm_default_branch m, ri_visibility = rm_visibility m,
    ri_archived = rm_archived m\<rparr>"

definition ask_grounded ::
  "(analysis_profile \<Rightarrow> 'x grounded_env) \<Rightarrow> agent_query \<Rightarrow> 'x \<Rightarrow> grounded_discussion_result option \<times> 'x"
where
  "ask_grounded profiles q =
    (case q of
       Ask_Grounded rs question p history \<Rightarrow> any_failure (if length rs = 1
         then routed_answer profiles (Some (hd rs)) [] question p history
         else routed_answer profiles None rs question p history)
     | Ask_Business _ _ _ _ \<Rightarrow> Pair None)"

definition ask_business :: "'x business_env \<Rightarrow> agent_query \<Rightarrow> 'x \<Rightarrow> business_analyst_result option \<times> 'x" where
  "ask_business bx q =
    (case q of
       Ask_Business item question repository history \<Rightarrow> any_failure (business_answer bx item question repository history)
     | Ask_Grounded _ _ _ _ \<Rightarrow> Pair None)"

definition verifier_of :: "'x auth_setup \<Rightarrow> (string \<Rightarrow> datetime \<Rightarrow> 'x \<Rightarrow> auth_outcome \<times> 'x) option" where
  "verifier_of a =
    (case a of
       No_Auth \<Rightarrow> None
     | Hmac_Auth t \<Rightarrow> Some (\<lambda>token now. Pair (verify_token t token now))
     | Oidc_Auth oi \<Rightarrow> Some (oidc_verify oi None))"

definition service_of :: "'d workflow_store \<Rightarrow> 'x app_plan \<Rightarrow> ('d, 'x) service" where
  "service_of store ap =
    \<lparr>sv_store = store, sv_clock = ap_clock ap, sv_uuid = ap_uuid ap, sv_verify = verifier_of (ap_auth ap),
     sv_browser_origin = (if ap_login ap = None then None else ap_origin ap),
     sv_broker = map_option (\<lambda>b r x. case any_failure (token_for b r) x of (k, y) \<Rightarrow> (k \<noteq> None, y)) (ap_broker ap),
     sv_reader = map_option (\<lambda>rr r x. case any_failure (read_repository rr r) x of (m, y) \<Rightarrow> (map_option info_of m, y)) (ap_reader ap),
     sv_grounded = map_option ask_grounded (ap_grounded ap), sv_business = map_option ask_business (ap_business ap),
     sv_turn_limit = ap_turn_limit ap, sv_model_tenant = ap_model_tenant ap, sv_repositories = ap_repositories ap\<rparr>"

end
