(* ===== verification/Runtime_Properties.thy ===== *)
theory Runtime_Properties
  imports Runtime
begin

declare split_paired_All [simp del] split_paired_Ex [simp del] split_paired_all [simp del]

text \<open>
  What an application that starts is guaranteed to have: the checks that \<^verbatim>\<open>build_app\<close> makes hold of the service it
  builds, whatever the environment, the files and the clients are.
\<close>

subsection \<open>Taking the start apart\<close>

lemma sbind_Inr:
  "sbind m f s = (Inr b, s') \<longleftrightarrow> (\<exists>a t. m s = (Inr a, t) \<and> f a t = (Inr b, s'))"
  by (auto simp: sbind_def split: prod.splits sum.splits)

lemma mapped_error_Inr [simp]: "mapped_error f r = Inr a \<longleftrightarrow> r = Inr a"
  by (simp add: mapped_error_def split: sum.splits)

lemma build_app_Inr:
  assumes "build_app h x = (Inr ap, y)"
  obtains limit parts auth login database where "auth_mode_check h = Inr ()" "turn_limit_of (ht_env h) = Inr limit"
    "model_parts_of h = Inr parts"
    "model_budget_check (durable_environment h \<and> parts \<noteq> None) limit (model_tenant_of (ht_env h)) = Inr ()"
    "authentication_of h = Inr (auth, login)" "durable_database h x = (Inr database, y)"
    "create_app h (app_plan_of h limit (model_tenant_of (ht_env h)) parts auth login database) = Inr ap"
  using assms unfolding build_app_def by (auto simp: sbind_Inr split: prod.splits)

lemma create_app_Inr:
  assumes "create_app h plan = Inr ap"
  shows "ap = plan\<lparr>ap_origin := ap_origin ap\<rparr>"
    and "ap_login plan \<noteq> None \<Longrightarrow> \<exists>origin. ap_origin ap = Some origin \<and> cookie_auth_origin (bracketed h) (ap_origin plan) = Inr origin"
    and "check_configuration (service_of store ap)"
    and "auth_setup_ok (ap_auth ap)"
  using assms unfolding create_app_def check_configuration_def service_of_def
  by (auto split: if_splits option.splits)

lemma durable_database_Inr:
  assumes "durable_database h x = (Inr database, y)" "durable_environment h"
  shows "database \<noteq> None" and "auth_mode h = ''hmac'' \<Longrightarrow> getenv (ht_env h) ''FACTORY_AUTH_SECRET'' [] \<noteq> []"
  using assms unfolding durable_database_def by (auto simp: sbind_Inr Let_def split: if_splits)

subsection \<open>Model routes\<close>

lemma read_route_ok: "read_route v = Some r \<Longrightarrow> route_ok r"
  unfolding read_route_def by (auto simp: Let_def split: if_splits option.splits)

lemma read_pair_ok: "read_pair v = Some p \<Longrightarrow> route_ok (mpr_doer p) \<and> route_ok (mpr_reviewer p)"
  unfolding read_pair_def field_with_def
  by (auto split: if_splits option.splits simp: bind_eq_Some_conv dest: read_route_ok)

lemma read_models_ok:
  assumes "read_models v = Some m" "p \<in> {pm_coding m, pm_architecture_and_business m}"
  shows "route_ok (mpr_doer p) \<and> route_ok (mpr_reviewer p)"
proof -
  obtain a b where "field_with read_pair v ''coding'' = Some a" "field_with read_pair v ''architecture_and_business'' = Some b"
    "pm_coding m = a" "pm_architecture_and_business m = b"
    using assms(1) unfolding read_models_def by (auto split: if_splits option.splits)
  then show ?thesis
    using assms(2) by (auto simp: field_with_def bind_eq_Some_conv dest: read_pair_ok)
qed

lemma read_secrets_ok: "read_secrets v = Some s \<Longrightarrow> account_ok (sc_account s) \<and> region_name_ok (sc_region s)"
  unfolding read_secrets_def by (auto split: option.splits if_splits)

lemma read_pilot_file_Inr:
  "read_pilot_file env f absent invalid interpret = Inr c \<Longrightarrow> \<exists>v. interpret v = Some c"
  unfolding read_pilot_file_def by (auto split: option.splits json_reading.splits)

lemma loaded_pilot_config:
  assumes "load_pilot_model_config env f = Inr c"
  shows "\<And>p. p \<in> {pm_coding (pc_models c), pm_architecture_and_business (pc_models c)} \<Longrightarrow>
      route_ok (mpr_doer p) \<and> route_ok (mpr_reviewer p)"
    and "\<And>r. r \<in> set (pilot_routes c) \<Longrightarrow> model_secret_ok (cf_bracketed_host f) (pc_secrets c) r"
    and "account_ok (sc_account (pc_secrets c))" "region_name_ok (sc_region (pc_secrets c))"
proof -
  obtain v where v: "checked_pilot_config (cf_bracketed_host f) v = Some c"
    using read_pilot_file_Inr [OF assms [unfolded load_pilot_model_config_def]] by (elim exE)
  then have read: "read_pilot_config v = Some c"
    and secrets: "list_all (model_secret_ok (cf_bracketed_host f) (pc_secrets c)) (pilot_routes c)"
    by (simp_all add: checked_pilot_config_def split: option.splits if_splits)
  obtain s m where parts: "Option.bind (json_get v ''secrets'') read_secrets = Some s"
    "Option.bind (json_get v ''models'') read_models = Some m" "pc_secrets c = s" "pc_models c = m"
    using read by (auto simp: read_pilot_config_def field_with_def split: option.splits)
  show "route_ok (mpr_doer p) \<and> route_ok (mpr_reviewer p)"
    if "p \<in> {pm_coding (pc_models c), pm_architecture_and_business (pc_models c)}" for p
    using parts(2,4) that by (auto simp: bind_eq_Some_conv dest: read_models_ok)
  show "model_secret_ok (cf_bracketed_host f) (pc_secrets c) r" if "r \<in> set (pilot_routes c)" for r
    using secrets that by (simp add: list_all_iff)
  show "account_ok (sc_account (pc_secrets c))" "region_name_ok (sc_region (pc_secrets c))"
    using parts(1,3) by (auto simp: bind_eq_Some_conv dest: read_secrets_ok)
qed

text \<open>The key of a route is looked up in the pilot's region, for the store finds it exactly there.\<close>

lemma digit_py_digit: "ascii_digit c \<Longrightarrow> py_digit c"
  by (simp add: py_digit_def)

lemma model_secret_address:
  assumes "model_secret_ok bracketed_host s r" "mr_provider r \<noteq> ''aws-bedrock''" "account_ok (sc_account s)"
    "region_name_ok (sc_region s)"
  shows "\<exists>name. aws_secret_address bracketed_host (mr_credential_ref r) = Some (sc_region s, name)"
proof -
  have region: "sc_region s \<noteq> []" using assms(4) by (auto simp: region_name_ok_def)
  have account: "sc_account s \<noteq> []" "list_all py_digit (sc_account s)"
    using assms(3) by (auto simp: account_ok_def list_all_iff digit_py_digit)
  show ?thesis
    using assms(1,2) region account unfolding model_secret_ok_def aws_secret_address_def reference_parts_def
    by (auto split: option.splits list.splits)
qed

definition known_limits :: "'x model_party \<Rightarrow> bool" where
  "known_limits p \<longleftrightarrow> limits_of (py_provider p) (py_model p) \<noteq> None"

lemma model_party_of_sel [simp]:
  "py_provider (model_party_of r p) = mr_provider r" "py_model (model_party_of r p) = mr_model r"
  "py_family (model_party_of r p) = mr_family r"
  by (simp_all add: model_party_of_def)

lemma discussion_parties_ok:
  assumes "discussion_parties h region p = Inr (d, r)" "route_ok (mpr_doer p) \<and> route_ok (mpr_reviewer p)"
  shows "parties_ok d r \<and> known_limits d \<and> known_limits r"
  using assms unfolding discussion_parties_def
  by (auto simp: Let_def known_limits_def route_ok_def split: if_splits option.splits)

lemma business_analyst_Inr:
  assumes "business_analyst h = Inr e"
  shows "\<exists>c. load_pilot_model_config (ht_env h) (ht_files h) = Inr c
    \<and> discussion_parties h (sc_region (pc_secrets c)) (pm_architecture_and_business (pc_models c)) = Inr (dx_doer e, dx_reviewer e)"
  using assms unfolding business_analyst_def by auto

lemma model_parts_pairs:
  assumes "model_parts_of h = Inr (Some parts)"
  shows "parties_ok (dx_doer (pt_grounded parts pf)) (dx_reviewer (pt_grounded parts pf))
      \<and> known_limits (dx_doer (pt_grounded parts pf)) \<and> known_limits (dx_reviewer (pt_grounded parts pf))"
    and "parties_ok (dx_doer (pt_business parts)) (dx_reviewer (pt_business parts))
      \<and> known_limits (dx_doer (pt_business parts)) \<and> known_limits (dx_reviewer (pt_business parts))"
proof -
  obtain rr where g: "grounded_discussion h rr = Inr (pt_grounded parts)" and b: "business_analyst h = Inr (pt_business parts)"
    using assms unfolding model_parts_of_def by (auto split: option.splits)
  obtain c a d where c: "load_pilot_model_config (ht_env h) (ht_files h) = Inr c"
    and a: "discussion_profile h rr (sc_region (pc_secrets c)) (pm_architecture_and_business (pc_models c)) = Inr a"
    and d: "discussion_profile h rr (sc_region (pc_secrets c)) (pm_coding (pc_models c)) = Inr d"
    and profiles: "pt_grounded parts = (\<lambda>p. case p of Profile_Architecture \<Rightarrow> a | Profile_Coding \<Rightarrow> d)"
    using g unfolding grounded_discussion_def by auto
  have profile_ok: "parties_ok (dx_doer e) (dx_reviewer e) \<and> known_limits (dx_doer e) \<and> known_limits (dx_reviewer e)"
    if e: "discussion_profile h rr region p = Inr e"
      and p: "p \<in> {pm_coding (pc_models c), pm_architecture_and_business (pc_models c)}" for e p region
    using e loaded_pilot_config(1) [OF c p] unfolding discussion_profile_def
    by (auto dest: discussion_parties_ok)
  show "parties_ok (dx_doer (pt_grounded parts pf)) (dx_reviewer (pt_grounded parts pf))
      \<and> known_limits (dx_doer (pt_grounded parts pf)) \<and> known_limits (dx_reviewer (pt_grounded parts pf))"
    using profile_ok [OF a] profile_ok [OF d] by (cases pf) (simp_all add: profiles)
  show "parties_ok (dx_doer (pt_business parts)) (dx_reviewer (pt_business parts))
      \<and> known_limits (dx_doer (pt_business parts)) \<and> known_limits (dx_reviewer (pt_business parts))"
  proof -
    obtain c' where "load_pilot_model_config (ht_env h) (ht_files h) = Inr c'"
      "discussion_parties h (sc_region (pc_secrets c')) (pm_architecture_and_business (pc_models c'))
        = Inr (dx_doer (pt_business parts), dx_reviewer (pt_business parts))"
      using business_analyst_Inr [OF b] by blast
    then show ?thesis using discussion_parties_ok loaded_pilot_config(1) by blast
  qed
qed

subsection \<open>Authentication\<close>

lemma make_oidc_Inr: "make_oidc b jwks oi = Inr oi' \<longleftrightarrow> oi' = oi \<and> make_oidc b jwks oi = Inr oi"
  by (auto simp: make_oidc_def)

lemma oidc_of_Inr:
  assumes "oidc_of h = Inr oi"
  shows "oi_audience oi = setting (ht_env h) ''FACTORY_OIDC_AUDIENCE''" "oi_audience oi \<noteq> []"
    "oi_issuer oi = setting (ht_env h) ''FACTORY_OIDC_ISSUER''" "url_with (bracketed h) plain_https (oi_issuer oi)"
  using assms unfolding oidc_of_def make_oidc_def by (auto simp: Let_def split: if_splits)

lemma browser_login_of_Inr:
  assumes "browser_login_of h oi = Inr hl"
  obtains callback logout origin where
    "hl_verifier hl = oi" "cg_client_id (hl_settings hl) = setting (ht_env h) ''FACTORY_OIDC_AUDIENCE''"
    "url_split (bracketed h) (cg_callback_url (hl_settings hl)) = Some callback"
    "url_split (bracketed h) (setting (ht_env h) ''FACTORY_PUBLIC_ORIGIN'') = Some origin"
    "same_origin callback logout origin"
  using assms unfolding browser_login_of_def make_hosted_login_def make_token_client_def
  by (auto simp: Let_def split: option.splits if_splits)

lemma authentication_of_Inr:
  assumes "authentication_of h = Inr (auth, login)"
  shows "auth_mode h \<noteq> ''oidc'' \<Longrightarrow> auth = local_issuer h \<and> login = None"
    and "auth_mode h = ''oidc'' \<Longrightarrow> \<exists>oi. oidc_of h = Inr oi \<and> auth = Oidc_Auth oi
      \<and> (\<forall>hl origin. login = Some (hl, origin) \<longrightarrow> browser_login_of h oi = Inr hl \<and> origin = setting (ht_env h) ''FACTORY_PUBLIC_ORIGIN'')"
  using assms unfolding authentication_of_def by (auto split: if_splits)

lemma cookie_origin_of:
  assumes "cookie_auth_origin b (Some given) = Inr origin" "url_split b given = Some u"
  shows "origin = ''https://'' @ su_netloc u \<and> su_scheme u = ''https''"
  using assms by (auto simp: cookie_auth_origin_def https_origin_def plain_https_def split: if_splits)

definition login_at_home :: "'x host \<Rightarrow> 'x app_plan \<Rightarrow> 'x hosted_login \<Rightarrow> bool" where
  "login_at_home h ap hl \<longleftrightarrow> ap_auth ap = Oidc_Auth (hl_verifier hl)
    \<and> cg_client_id (hl_settings hl) = oi_audience (hl_verifier hl)
    \<and> (\<exists>u. url_split (bracketed h) (cg_callback_url (hl_settings hl)) = Some u
        \<and> su_scheme u = ''https'' \<and> su_path u = ''/auth/callback'' \<and> ap_origin ap = Some (''https://'' @ su_netloc u))"

lemma login_is_at_home:
  assumes auth: "authentication_of h = Inr (auth, Some (hl, origin))"
    and cookie: "cookie_auth_origin (bracketed h) (Some origin) = Inr o'"
    and plan: "ap_auth ap = auth" "ap_origin ap = Some o'"
  shows "login_at_home h ap hl"
proof -
  have "auth_mode h = ''oidc''" using authentication_of_Inr(1) [OF auth] by auto
  then obtain oi where oi: "oidc_of h = Inr oi" "auth = Oidc_Auth oi" "browser_login_of h oi = Inr hl"
    "origin = setting (ht_env h) ''FACTORY_PUBLIC_ORIGIN''"
    using authentication_of_Inr(2) [OF auth] by blast
  obtain callback logout u where u: "hl_verifier hl = oi" "cg_client_id (hl_settings hl) = setting (ht_env h) ''FACTORY_OIDC_AUDIENCE''"
    "url_split (bracketed h) (cg_callback_url (hl_settings hl)) = Some callback"
    "url_split (bracketed h) origin = Some u" "same_origin callback logout u"
    using browser_login_of_Inr [OF oi(3)] oi(4) by metis
  have "o' = ''https://'' @ su_netloc u \<and> su_scheme u = ''https''"
    using cookie_origin_of [OF cookie u(4)] .
  then show ?thesis
    using u oi oidc_of_Inr(1) [OF oi(1)] plan by (auto simp: login_at_home_def same_origin_def)
qed

subsection \<open>What starts is safe\<close>

definition sound_parties :: "'x model_party \<Rightarrow> 'x model_party \<Rightarrow> bool" where
  "sound_parties d r \<longleftrightarrow> parties_ok d r \<and> known_limits d \<and> known_limits r"

definition guarded :: "'x app_plan \<Rightarrow> bool" where
  "guarded ap \<longleftrightarrow> ap_database ap \<noteq> None \<and> ap_auth ap \<noteq> No_Auth
    \<and> (ap_grounded ap \<noteq> None \<or> ap_business ap \<noteq> None \<longrightarrow> ap_turn_limit ap \<noteq> Some 0 \<and> ap_model_tenant ap \<noteq> None)"

definition keys_in_region :: "'x host \<Rightarrow> bool" where
  "keys_in_region h \<longleftrightarrow> (\<forall>c r. load_pilot_model_config (ht_env h) (ht_files h) = Inr c \<longrightarrow> r \<in> set (pilot_routes c) \<longrightarrow>
    mr_provider r \<noteq> ''aws-bedrock'' \<longrightarrow>
    (\<exists>name. aws_secret_address (bracketed h) (mr_credential_ref r) = Some (sc_region (pc_secrets c), name)))"

lemma keys_are_in_region: "keys_in_region h"
  unfolding keys_in_region_def bracketed_def
  by (blast intro: model_secret_address loaded_pilot_config(2,3,4))

lemma durable_is_guarded:
  assumes budget: "model_budget_check (durable_environment h \<and> parts \<noteq> None) limit tenant = Inr ()"
    and auth: "auth_mode_check h = Inr ()" "authentication_of h = Inr (auth, login)"
    and database: "durable_database h x = (Inr database, y)" "durable_environment h"
  shows "guarded (app_plan_of h limit tenant parts auth login database\<lparr>ap_origin := origin\<rparr>)"
proof -
  have mode: "auth_mode h = ''hmac'' \<or> auth_mode h = ''oidc''"
    using auth(1) by (auto simp: auth_mode_check_def split: if_splits)
  have "auth \<noteq> No_Auth"
    using mode
  proof
    assume hmac: "auth_mode h = ''hmac''"
    then show ?thesis
      using authentication_of_Inr(1) [OF auth(2)] durable_database_Inr(2) [OF database hmac]
      by (simp add: local_issuer_def Let_def)
  next
    assume "auth_mode h = ''oidc''"
    then show ?thesis using authentication_of_Inr(2) [OF auth(2)] by auto
  qed
  moreover have "parts \<noteq> None \<longrightarrow> limit \<noteq> Some 0 \<and> tenant \<noteq> None"
    using budget database(2) by (auto simp: model_budget_check_def split: if_splits)
  ultimately show ?thesis
    using durable_database_Inr(1) [OF database] by (auto simp: guarded_def app_plan_of_def)
qed

text \<open>
  C12. An application that starts, whatever the environment, the files and the clients are, is configured as the handlers
  assume. In staging and production it authenticates with OIDC, against an HTTPS issuer. In every durable environment it
  has a database, an authenticator and, when models can be asked, a tenant and a turn limit other than zero. Every
  discussion has two parties of different families whose context limits are documented, and every key a model route needs
  is looked up in the pilot's own region. A browser login belongs to the verifier's audience, and the origin its cookies
  are accepted from is the origin of its callback.
\<close>

theorem runtime_is_safe:
  assumes start: "build_app h x = (Inr ap, y)"
  shows "check_configuration (service_of store ap)
    \<and> (environment h \<in> set [''staging'', ''production''] \<longrightarrow>
        (\<exists>oi. ap_auth ap = Oidc_Auth oi \<and> url_with (bracketed h) plain_https (oi_issuer oi)))
    \<and> (durable_environment h \<longrightarrow> guarded ap)
    \<and> (\<forall>profiles p. ap_grounded ap = Some profiles \<longrightarrow> sound_parties (dx_doer (profiles p)) (dx_reviewer (profiles p)))
    \<and> (\<forall>bx. ap_business ap = Some bx \<longrightarrow> sound_parties (dx_doer bx) (dx_reviewer bx))
    \<and> keys_in_region h
    \<and> (\<forall>hl. ap_login ap = Some hl \<longrightarrow> login_at_home h ap hl)"
proof -
  obtain limit parts auth login database where mode: "auth_mode_check h = Inr ()"
    and parts: "model_parts_of h = Inr parts"
    and budget: "model_budget_check (durable_environment h \<and> parts \<noteq> None) limit (model_tenant_of (ht_env h)) = Inr ()"
    and auth: "authentication_of h = Inr (auth, login)" and database: "durable_database h x = (Inr database, y)"
    and app: "create_app h (app_plan_of h limit (model_tenant_of (ht_env h)) parts auth login database) = Inr ap"
    using start by (rule build_app_Inr)
  have plan: "ap = app_plan_of h limit (model_tenant_of (ht_env h)) parts auth login database\<lparr>ap_origin := ap_origin ap\<rparr>"
    using app by (rule create_app_Inr)
  have fields: "ap_auth ap = auth" "ap_grounded ap = map_option pt_grounded parts" "ap_business ap = map_option pt_business parts"
    "ap_login ap = map_option fst login"
    by (subst plan; simp add: app_plan_of_def)+
  have "\<exists>oi. ap_auth ap = Oidc_Auth oi \<and> url_with (bracketed h) plain_https (oi_issuer oi)"
    if "environment h \<in> set [''staging'', ''production'']"
  proof -
    have "auth_mode h = ''oidc''" using mode that by (auto simp: auth_mode_check_def split: if_splits)
    then show ?thesis using authentication_of_Inr(2) [OF auth] oidc_of_Inr(4) fields(1) by blast
  qed
  moreover have "guarded ap" if "durable_environment h"
    by (subst plan) (rule durable_is_guarded [OF budget mode auth database that])
  moreover have "sound_parties (dx_doer (profiles p)) (dx_reviewer (profiles p))" if "ap_grounded ap = Some profiles" for profiles p
    using that fields(2) model_parts_pairs(1) parts by (auto simp: sound_parties_def)
  moreover have "sound_parties (dx_doer bx) (dx_reviewer bx)" if "ap_business ap = Some bx" for bx
    using that fields(3) model_parts_pairs(2) parts by (auto simp: sound_parties_def)
  moreover have "login_at_home h ap hl" if hl: "ap_login ap = Some hl" for hl
  proof -
    obtain origin where login: "login = Some (hl, origin)" using hl fields(4) by auto
    then obtain o' where "ap_origin ap = Some o'" "cookie_auth_origin (bracketed h) (Some origin) = Inr o'"
      using create_app_Inr(2) [OF app] by (auto simp: app_plan_of_def)
    then show ?thesis using login_is_at_home auth login fields(1) by blast
  qed
  ultimately show ?thesis
    using create_app_Inr(3) [OF app] keys_are_in_region by blast
qed

subsection \<open>A production pilot\<close>

lemma default_urls: "api_url_ok b ''https://api.openai.com/v1''" "api_url_ok b ''https://generativelanguage.googleapis.com/v1beta''"
  by code_simp+

lemma model_port_total:
  assumes "0 < n" "ht_bedrock_client h region \<noteq> None"
  obtains p where "model_port h region n r = Inr p"
  using assms default_urls
  unfolding model_port_def route_access_def make_openai_def make_gemini_def make_credential_port_def make_bedrock_def
    urllib_transport_def validate_model_url_def validate_max_output_def
  by (fastforce simp: Let_def split: option.splits)

text \<open>What the constructor of a discussion asks of the routes.\<close>

definition identified :: "model_pair \<Rightarrow> bool" where
  "identified p \<longleftrightarrow> strip (mr_family (mpr_doer p)) \<noteq> [] \<and> strip (mr_family (mpr_reviewer p)) \<noteq> []
      \<and> mr_family (mpr_doer p) \<noteq> mr_family (mpr_reviewer p) \<and> strip (mr_provider (mpr_doer p)) \<noteq> []
      \<and> strip (mr_model (mpr_doer p)) \<noteq> [] \<and> strip (mr_provider (mpr_reviewer p)) \<noteq> [] \<and> strip (mr_model (mpr_reviewer p)) \<noteq> []"

lemma discussion_parties_total:
  assumes "ht_bedrock_client h region \<noteq> None" "identified p"
  shows "\<exists>d r. discussion_parties h region p = Inr (d, r)"
proof -
  obtain d r where "model_port h region 1536 (mpr_doer p) = Inr d" "model_port h region 512 (mpr_reviewer p) = Inr r"
    using model_port_total [of 1536 h region] model_port_total [of 512 h region] assms(1) by (metis zero_less_numeral)
  then have "discussion_parties h region p = Inr (model_party_of (mpr_doer p) d, model_party_of (mpr_reviewer p) r)"
    using assms(2) by (simp add: discussion_parties_def parties_ok_def identified_def)
  then show ?thesis by blast
qed

lemma make_broker_total:
  assumes "github_app_config_ok c"
  obtains b where "make_broker h c = Inr b" "gb_config b = c"
  using assms by (auto simp: make_broker_def make_app_transport_def mapped_error_def starts_with_def)

lemma make_source_reader_total:
  assumes "github_app_config_ok (gb_config b)" "list_all allowlist_name_ok (ga_repositories (gb_config b))"
  obtains rr where "make_source_reader h b = Inr rr"
  using assms by (auto simp: make_source_reader_def make_reader_def github_app_config_ok_def)

definition route_json :: "string \<Rightarrow> string \<Rightarrow> string \<Rightarrow> string \<Rightarrow> string \<Rightarrow> int \<Rightarrow> int \<Rightarrow> json" where
  "route_json family vendor runtime ref model window limit = JObj
    [(''family'', JStr family), (''provider'', JStr vendor), (''runtime'', JStr runtime), (''credential_ref'', JStr ref),
     (''exact_model_id'', JStr model), (''context_window_tokens'', JInt window), (''max_input_tokens'', JInt limit)]"

definition ex_luna :: json where
  "ex_luna = route_json ''openai-luna'' ''openai'' ''native-provider-api-from-aws''
    ''aws-secretsmanager://us-east-1/441186133046/models/openai'' ''gpt-6-luna'' 1050000 922000"

definition ex_nova :: json where
  "ex_nova = route_json ''amazon-nova-pro'' ''aws-bedrock'' ''bedrock-runtime'' ''iam-role://factory-model-runtime/bedrock''
    ''amazon.nova-pro-v1:0'' 300000 290000"

definition ex_pilot :: json where
  "ex_pilot = JObj
    [(''github'', JObj [(''organization'', JStr ''NOK-Apps''), (''app'', JObj
       [(''app_id'', JStr ''5020848''), (''installation_id'', JStr ''163491501''),
        (''private_key_ref'', JStr ''aws-secretsmanager://us-east-1/441186133046/github/key''),
        (''repositories'', JArr [JStr ''NOK-Apps/flur-sdk''])])]),
     (''secrets'', JObj [(''region'', JStr ''us-east-1''), (''account_id'', JStr ''441186133046'')]),
     (''models'', JObj [(''status'', JStr ''PENDING''), (''routing_principle'', JStr ''native''),
       (''coding'', JObj [(''doer'', ex_luna), (''reviewer'', ex_nova)]),
       (''architecture_and_business'', JObj [(''doer'', ex_luna), (''reviewer'', ex_nova)])])]"

definition ex_settings :: "(string \<times> string) list" where
  "ex_settings =
    [(''FACTORY_ENV'', ''Production''), (''FACTORY_AUTH_MODE'', ''oidc''), (''FACTORY_CHAT_MODEL_TURN_LIMIT'', ''12''),
     (''FACTORY_CHAT_MODEL_TENANT_ID'', ''acme''), (''FACTORY_GITHUB_APP_ID'', ''5020848''),
     (''FACTORY_GITHUB_APP_INSTALLATION_ID'', ''163491501''),
     (''FACTORY_GITHUB_APP_PRIVATE_KEY_SECRET_ARN'', ''arn:aws:secretsmanager:us-east-1:441186133046:secret:github/key-a1B2c3''),
     (''FACTORY_OIDC_PROVIDER'', ''cognito''), (''FACTORY_OIDC_ISSUER'', ''https://idp.example/pool''),
     (''FACTORY_OIDC_AUDIENCE'', ''client''), (''FACTORY_OIDC_JWKS_URL'', ''https://idp.example/keys''),
     (''FACTORY_COGNITO_DOMAIN'', ''https://login.example''), (''FACTORY_COGNITO_CLIENT_ID'', ''client''),
     (''FACTORY_COGNITO_CALLBACK_URL'', ''https://app.example/auth/callback''),
     (''FACTORY_COGNITO_LOGOUT_URL'', ''https://app.example/auth/signed-out''),
     (''FACTORY_PUBLIC_ORIGIN'', ''https://app.example''), (''FACTORY_DATABASE_URL'', ''postgresql+psycopg://db/factory'')]"

definition ex_files :: config_files where
  "ex_files = \<lparr>cf_is_file = \<lambda>p. p = ''/app/pilot.yaml'', cf_bundled = ''config/pilot.yaml'', cf_read_yaml = \<lambda>_. Reads ex_pilot,
    cf_bracketed_host = \<lambda>_. False\<rparr>"

definition ex_host :: "unit host" where
  "ex_host = \<lparr>ht_env = map_of ex_settings, ht_files = ex_files, ht_engine = \<lambda>_. True,
    ht_secret_client = \<lambda>_ _. Pair None, ht_bedrock_client = \<lambda>_. Some (\<lambda>_ _ _. Pair (Converse_Raised None)),
    ht_model_open = \<lambda>_ _ _ _. Pair Network_Failure, ht_app_open = \<lambda>_ _ _. Pair Url_Failure,
    ht_source_transport = \<lambda>_. Inl Invalid_Value, ht_token_open = \<lambda>_ _ _. Pair Url_Failure,
    ht_decode_jwt = \<lambda>_ _ _ _. Pair None, ht_load_key = \<lambda>_. No_Key,
    ht_now = Pair \<lparr>dt_year = 1, dt_month = 1, dt_day = 1, dt_hour = 0, dt_minute = 0, dt_second = 0, dt_micro = 0,
      dt_offset = Some 0\<rparr>,
    ht_today = Pair (Date 2026 10 1), ht_timer = Pair 0, ht_millis = \<lambda>a b. b - a, ht_seconds = \<lambda>t. t div 1000000,
    ht_uuid = Pair ''u'', ht_random = \<lambda>n. Pair (replicate n (CHR ''a'')), ht_local = \<lambda>_. None, ht_fromisoformat = \<lambda>_. None,
    ht_utf8 = Some, ht_loads = \<lambda>_. Bad_Json, ht_loads_bytes = \<lambda>_. Bad_Json, ht_loads_answer = \<lambda>_. None,
    ht_answer_draft = \<lambda>_. None, ht_business_draft = \<lambda>_. None, ht_review = \<lambda>_. None\<rparr>"

lemma ex_host_sel:
  "ht_env ex_host = map_of ex_settings" "ht_files ex_host = ex_files" "ht_bedrock_client ex_host region \<noteq> None"
  "ht_engine ex_host url" "bracketed ex_host = (\<lambda>_. False)" "cf_bracketed_host ex_files = (\<lambda>_. False)"
  by (simp_all add: ex_host_def bracketed_def ex_files_def)

lemma ex_file: "read_pilot_file (map_of ex_settings) ex_files absent invalid interpret =
    (case interpret ex_pilot of None \<Rightarrow> Inl (Startup_Refused invalid) | Some a \<Rightarrow> Inr a)"
  by (simp add: read_pilot_file_def pilot_config_path_def setting_def getenv_def ex_settings_def ex_files_def strip_def)

lemma ex_setting_values:
  "setting (map_of ex_settings) ''FACTORY_GITHUB_APP_ID'' = ''5020848''"
  "setting (map_of ex_settings) ''FACTORY_GITHUB_APP_INSTALLATION_ID'' = ''163491501''"
  "setting (map_of ex_settings) ''FACTORY_GITHUB_APP_PRIVATE_KEY_SECRET_ARN'' =
    ''arn:aws:secretsmanager:us-east-1:441186133046:secret:github/key-a1B2c3''"
  "missing_setting (map_of ex_settings) browser_settings = None"
  "missing_setting (map_of ex_settings) github_app_settings = None"
  "model_tenant_of (map_of ex_settings) = Some ''acme''"
  "turn_limit_of (map_of ex_settings) = Inr (Some 12)"
  by code_simp+

lemma found_with: "(case e of None \<Rightarrow> False | Some c \<Rightarrow> P c) \<Longrightarrow> \<exists>c. e = Some c \<and> P c"
  by (cases e) simp_all

lemma ex_app: "\<exists>c. checked_app_config (map_of ex_settings) (\<lambda>_. False) ex_pilot = Some c
    \<and> (github_app_config_ok c \<and> list_all allowlist_name_ok (ga_repositories c))"
  by (rule found_with) code_simp

definition luna_route :: model_route where
  "luna_route = \<lparr>mr_family = ''openai-luna'', mr_provider = ''openai'', mr_runtime = ''native-provider-api-from-aws'',
    mr_credential_ref = ''aws-secretsmanager://us-east-1/441186133046/models/openai'', mr_model = ''gpt-6-luna'',
    mr_context_window = 1050000, mr_max_input = 922000\<rparr>"

definition nova_route :: model_route where
  "nova_route = \<lparr>mr_family = ''amazon-nova-pro'', mr_provider = ''aws-bedrock'', mr_runtime = ''bedrock-runtime'',
    mr_credential_ref = ''iam-role://factory-model-runtime/bedrock'', mr_model = ''amazon.nova-pro-v1:0'',
    mr_context_window = 300000, mr_max_input = 290000\<rparr>"

lemma ex_routes_read: "read_route ex_luna = Some luna_route" "read_route ex_nova = Some nova_route"
  by (simp_all add: read_route_def ex_luna_def ex_nova_def route_json_def text_field_def positive_field_def route_ok_def
      luna_route_def nova_route_def expected_runtime_def bedrock_role_ref_def limits_of_def context_limits_table_def dict_get_def)

lemma ex_pair_read: "read_pair (JObj [(''doer'', ex_luna), (''reviewer'', ex_nova)]) =
    Some \<lparr>mpr_doer = luna_route, mpr_reviewer = nova_route\<rparr>"
  by (simp add: read_pair_def field_with_def ex_routes_read)

lemma ex_secrets_checked:
  "read_secrets (JObj [(''region'', JStr ''us-east-1''), (''account_id'', JStr ''441186133046'')]) =
    Some \<lparr>sc_region = ''us-east-1'', sc_account = ''441186133046''\<rparr>"
  "model_secret_ok (\<lambda>_. False) \<lparr>sc_region = ''us-east-1'', sc_account = ''441186133046''\<rparr> luna_route"
  "model_secret_ok (\<lambda>_. False) \<lparr>sc_region = ''us-east-1'', sc_account = ''441186133046''\<rparr> nova_route"
  "identified \<lparr>mpr_doer = luna_route, mpr_reviewer = nova_route\<rparr>"
  by code_simp+

lemma ex_models: "\<exists>c. checked_pilot_config (\<lambda>_. False) ex_pilot = Some c
    \<and> (identified (pm_coding (pc_models c)) \<and> identified (pm_architecture_and_business (pc_models c)))"
  by (simp add: checked_pilot_config_def read_pilot_config_def field_with_def ex_pilot_def read_models_def text_field_def
      ex_pair_read ex_secrets_checked pilot_routes_def)

lemma ex_parts: "\<exists>parts. model_parts_of ex_host = Inr (Some parts)"
proof -
  obtain app where app: "checked_app_config (map_of ex_settings) (\<lambda>_. False) ex_pilot = Some app" "github_app_config_ok app"
    "list_all allowlist_name_ok (ga_repositories app)"
    using ex_app by blast
  obtain b where b: "make_broker ex_host app = Inr b" "gb_config b = app" using make_broker_total [OF app(2)] .
  obtain rr where rr: "make_source_reader ex_host b = Inr rr" using make_source_reader_total [of b] app b(2) by metis
  obtain c where c: "checked_pilot_config (\<lambda>_. False) ex_pilot = Some c"
    and pairs: "identified (pm_coding (pc_models c))" "identified (pm_architecture_and_business (pc_models c))"
    using ex_models by blast
  have loaded: "load_pilot_model_config (ht_env ex_host) (ht_files ex_host) = Inr c"
    by (simp add: load_pilot_model_config_def ex_host_sel ex_file c)
  obtain d1 r1 d2 r2 where
    "discussion_parties ex_host (sc_region (pc_secrets c)) (pm_coding (pc_models c)) = Inr (d1, r1)"
    "discussion_parties ex_host (sc_region (pc_secrets c)) (pm_architecture_and_business (pc_models c)) = Inr (d2, r2)"
    using discussion_parties_total [OF ex_host_sel(3)] pairs by metis
  then obtain g bx where "grounded_discussion ex_host rr = Inr g" "business_analyst ex_host = Inr bx"
    by (simp add: grounded_discussion_def business_analyst_def discussion_profile_def loaded)
  moreover have "pilot_github_app_config (ht_env ex_host) (ht_files ex_host) = Inr (Some app)"
    by (simp add: pilot_github_app_config_def ex_host_sel ex_setting_values ex_file app)
      (simp add: github_app_settings_def ex_setting_values)
  ultimately show ?thesis using b rr by (simp add: model_parts_of_def)
qed

lemma ex_auth: "\<exists>oi hl. authentication_of ex_host = Inr (Oidc_Auth oi, Some (hl, ''https://app.example''))"
proof -
  have modes: "auth_mode ex_host = ''oidc''" "lower (strip (getenv (map_of ex_settings) ''FACTORY_OIDC_PROVIDER'' ''external'')) = ''cognito''"
    unfolding auth_mode_def ex_host_sel by code_simp+
  have vals: "setting (map_of ex_settings) ''FACTORY_OIDC_ISSUER'' = ''https://idp.example/pool''"
    "setting (map_of ex_settings) ''FACTORY_OIDC_AUDIENCE'' = ''client''"
    "setting (map_of ex_settings) ''FACTORY_OIDC_JWKS_URL'' = ''https://idp.example/keys''"
    "setting (map_of ex_settings) ''FACTORY_COGNITO_DOMAIN'' = ''https://login.example''"
    "setting (map_of ex_settings) ''FACTORY_COGNITO_CLIENT_ID'' = ''client''"
    "setting (map_of ex_settings) ''FACTORY_COGNITO_CALLBACK_URL'' = ''https://app.example/auth/callback''"
    "setting (map_of ex_settings) ''FACTORY_COGNITO_LOGOUT_URL'' = ''https://app.example/auth/signed-out''"
    "setting (map_of ex_settings) ''FACTORY_PUBLIC_ORIGIN'' = ''https://app.example''"
    "strip (getenv (map_of ex_settings) ''FACTORY_OIDC_TENANT_CLAIM'' ''tenant_id'') = ''tenant_id''"
    "strip (getenv (map_of ex_settings) ''FACTORY_OIDC_ROLES_CLAIM'' ''factory_roles'') = ''factory_roles''"
    "strip ''client'' = ''client''" "strip ''tenant_id'' = ''tenant_id''" "strip ''factory_roles'' = ''factory_roles''"
    by code_simp+
  have urls: "url_with (\<lambda>_. False) plain_https ''https://idp.example/pool''" "url_with (\<lambda>_. False) plain_https ''https://idp.example/keys''"
    "cognito_settings_ok (\<lambda>_. False) \<lparr>cg_base_url = ''https://login.example'', cg_client_id = ''client'',
      cg_callback_url = ''https://app.example/auth/callback'', cg_logout_url = ''https://app.example/auth/signed-out''\<rparr>"
    by code_simp+
  have split: "url_split (\<lambda>_. False) ''https://app.example/auth/callback'' =
      Some \<lparr>su_scheme = ''https'', su_netloc = ''app.example'', su_path = ''/auth/callback'', su_query = [], su_fragment = []\<rparr>"
    "url_split (\<lambda>_. False) ''https://app.example/auth/signed-out'' =
      Some \<lparr>su_scheme = ''https'', su_netloc = ''app.example'', su_path = ''/auth/signed-out'', su_query = [], su_fragment = []\<rparr>"
    "url_split (\<lambda>_. False) ''https://app.example'' =
      Some \<lparr>su_scheme = ''https'', su_netloc = ''app.example'', su_path = [], su_query = [], su_fragment = []\<rparr>"
    by code_simp+
  have "\<exists>oi. oidc_of ex_host = Inr oi"
    by (simp add: oidc_of_def make_oidc_def ex_host_sel modes vals urls Let_def)
  then obtain oi where oi: "oidc_of ex_host = Inr oi" ..
  have "\<exists>hl. browser_login_of ex_host oi = Inr hl"
    by (simp add: browser_login_of_def make_hosted_login_def make_token_client_def ex_host_sel vals urls split
        same_origin_def ex_setting_values)
  then show ?thesis using oi by (auto simp: authentication_of_def ex_host_sel modes vals)
qed

lemma ex_starts_up: "\<exists>ap y. build_app ex_host () = (Inr ap, y) \<and> ap_grounded ap \<noteq> None \<and> ap_login ap \<noteq> None"
proof -
  obtain parts where parts: "model_parts_of ex_host = Inr (Some parts)" using ex_parts ..
  obtain oi hl where auth: "authentication_of ex_host = Inr (Oidc_Auth oi, Some (hl, ''https://app.example''))" using ex_auth by blast
  have mode: "environment ex_host = ''production''" "auth_mode ex_host = ''oidc''"
    unfolding environment_def auth_mode_def ex_host_sel by code_simp+
  have "setting (map_of ex_settings) ''FACTORY_DATABASE_URL'' = ''postgresql+psycopg://db/factory''" by code_simp
  then have database: "durable_database ex_host () = (Inr (Some ''postgresql+psycopg://db/factory''), ())"
    by (simp add: durable_database_def durable_environment_def mode ex_host_sel)
  have origin: "cookie_auth_origin (\<lambda>_. False) (Some ''https://app.example'') = Inr ''https://app.example''" by code_simp
  have "ga_repositories (gb_config (pt_broker parts)) \<noteq> [] \<and> distinct (ga_repositories (gb_config (pt_broker parts)))"
    using parts unfolding model_parts_of_def make_broker_def
    by (auto simp: github_app_config_ok_def split: option.splits if_splits)
  then show ?thesis
    by (simp add: build_app_def auth_mode_check_def mode durable_environment_def ex_host_sel ex_setting_values parts auth
        database model_budget_check_def create_app_def app_plan_of_def auth_setup_ok_def mapped_error_def origin sbind_def)
qed

theorem runtime_is_safe_witness:
  "\<exists>ap y. build_app ex_host () = (Inr ap, y) \<and> guarded ap \<and> keys_in_region ex_host
    \<and> (\<exists>profiles. ap_grounded ap = Some profiles \<and> sound_parties (dx_doer (profiles Profile_Coding)) (dx_reviewer (profiles Profile_Coding)))
    \<and> (\<exists>hl. ap_login ap = Some hl \<and> login_at_home ex_host ap hl)"
proof -
  obtain ap y where start: "build_app ex_host () = (Inr ap, y)" and some: "ap_grounded ap \<noteq> None" "ap_login ap \<noteq> None"
    using ex_starts_up by blast
  have "environment ex_host = ''production''" unfolding environment_def ex_host_sel by code_simp
  then have "durable_environment ex_host" by (simp add: durable_environment_def)
  then show ?thesis using runtime_is_safe [OF start] start some by blast
qed

end
