(* ===== verification/Deploy.thy ===== *)
theory Deploy
  imports Runtime_Config Effects
begin

text \<open>
  Promotion of one image to the pilot service, whole: \<^verbatim>\<open>scripts/deploy_pilot.py\<close>.

  A release command is run on a world and answers with text or fails; the JSON reader, the temporary file of a registration,
  the waiting and the file system are parameters. A reader answers with a document that repeats no field and holds no
  fraction. Messages of errors are those of the script.
\<close>

subsection \<open>Documents\<close>

datatype deploy_error = Deployment_Error string | Command_Failure string "string option"

type_synonym document = "(string \<times> json) list"

definition get_field :: "document \<Rightarrow> string \<Rightarrow> json" where
  "get_field d k = (case map_of d k of None \<Rightarrow> JNull | Some v \<Rightarrow> v)"

fun as_mapping :: "json \<Rightarrow> string \<Rightarrow> deploy_error + document" where
  "as_mapping (JObj d) label = Inr d"
| "as_mapping v label = Inl (Deployment_Error (label @ '' is invalid''))"

fun as_mappings :: "json list \<Rightarrow> string \<Rightarrow> deploy_error + document list" where
  "as_mappings [] label = Inr []"
| "as_mappings (v # vs) label = ebind (as_mapping v label) (\<lambda>d. ebind (as_mappings vs label) (\<lambda>ds. Inr (d # ds)))"

definition required_string :: "document \<Rightarrow> string \<Rightarrow> deploy_error + string" where
  "required_string d k =
    (case get_field d k of
       JStr s \<Rightarrow> if s = [] then Inl (Deployment_Error (''AWS response is missing '' @ k)) else Inr s
     | _ \<Rightarrow> Inl (Deployment_Error (''AWS response is missing '' @ k)))"

definition load_document :: "(string \<Rightarrow> json option) \<Rightarrow> string \<Rightarrow> deploy_error + document" where
  "load_document loads s =
    (case loads s of
       None \<Rightarrow> Inl (Deployment_Error ''AWS CLI returned invalid JSON'')
     | Some v \<Rightarrow> as_mapping v ''AWS response'')"

text \<open>\<^verbatim>\<open>isinstance(value, int)\<close>, of which the truth values are instances, and the truth of a value\<close>

fun integral :: "json \<Rightarrow> int option" where
  "integral (JInt i) = Some i"
| "integral (JBool b) = Some (if b then 1 else 0)"
| "integral v = None"

fun truthy :: "json \<Rightarrow> bool" where
  "truthy JNull = False"
| "truthy (JBool b) = b"
| "truthy (JInt i) = (i \<noteq> 0)"
| "truthy (JStr s) = (s \<noteq> [])"
| "truthy (JArr vs) = (vs \<noteq> [])"
| "truthy (JObj d) = (d \<noteq> [])"

subsection \<open>Configuration\<close>

datatype turn_limit = Turns int | Unlimited

record deployment_config =
  dc_region :: string
  dc_cluster :: string
  dc_service :: string
  dc_repository :: string
  dc_image_tag :: string
  dc_context :: string
  dc_container_cli :: string
  dc_container_name :: string
  dc_account_id :: string
  dc_turn_limit :: "turn_limit option"
  dc_poll_attempts :: int
  dc_poll_seconds :: int

record deployment_result =
  dp_image :: string
  dp_task :: string

text \<open>The tag pattern \<^verbatim>\<open>[A-Za-z0-9_][A-Za-z0-9_.-]{0,127}\<close>\<close>

definition tag_start :: "char \<Rightarrow> bool" where
  "tag_start c \<longleftrightarrow> ascii_letter c \<or> ascii_digit c \<or> c = CHR ''_''"

definition image_tag_ok :: "string \<Rightarrow> bool" where
  "image_tag_ok s \<longleftrightarrow> s \<noteq> [] \<and> length s \<le> 128 \<and> tag_start (hd s)
    \<and> list_all (\<lambda>c. tag_start c \<or> c = CHR ''.'' \<or> c = CHR ''-'') (tl s)"

definition check_turn_limit :: "turn_limit option \<Rightarrow> deploy_error + unit" where
  "check_turn_limit l =
    (case l of
       Some (Turns n) \<Rightarrow> if n < 1 then Inl (Deployment_Error ''chat model turn limit must be a positive integer'') else Inr ()
     | _ \<Rightarrow> Inr ())"

fun turn_limit_text :: "turn_limit \<Rightarrow> string" where
  "turn_limit_text Unlimited = ''unlimited''"
| "turn_limit_text (Turns n) = show_int n"

text \<open>The command line's reading of a limit; \<open>None\<close> is the parser's error.\<close>

definition parse_turn_limit :: "string \<Rightarrow> turn_limit option" where
  "parse_turn_limit s =
    (if s = ''unlimited'' then Some Unlimited
     else case py_int s of None \<Rightarrow> None | Some n \<Rightarrow> if n < 1 then None else Some (Turns n))"

subsection \<open>What a registry and a scan must say\<close>

definition validate_registry :: "document \<Rightarrow> deploy_error + unit" where
  "validate_registry r =
    (if get_field r ''imageTagMutability'' \<noteq> JStr ''IMMUTABLE''
     then Inl (Deployment_Error ''ECR repository must enforce immutable tags'')
     else (case get_field r ''imageScanningConfiguration'' of
       JObj scan \<Rightarrow>
         if get_field scan ''scanOnPush'' \<noteq> JBool True
         then Inl (Deployment_Error ''ECR repository must enable scan-on-push'') else Inr ()
     | _ \<Rightarrow> Inl (Deployment_Error ''ECR repository must enable scan-on-push'')))"

definition known_severities :: "string list" where
  "known_severities = [''CRITICAL'', ''HIGH'', ''MEDIUM'', ''LOW'', ''INFORMATIONAL'', ''UNDEFINED'']"

fun row_severities :: "json list \<Rightarrow> deploy_error + string list" where
  "row_severities [] = Inr []"
| "row_severities (v # vs) =
    ebind (as_mapping v ''ECR finding'') (\<lambda>d.
    case get_field d ''severity'' of
      JStr s \<Rightarrow>
        if s \<notin> set known_severities then Inl (Deployment_Error ''ECR scan contains an unrecognized severity'')
        else ebind (row_severities vs) (\<lambda>ss. Inr (s # ss))
    | _ \<Rightarrow> Inl (Deployment_Error ''ECR scan contains an unrecognized severity''))"

text \<open>A count is a number, no truth value; one of an unknown severity may only be equal to zero, as \<^verbatim>\<open>False\<close> is.\<close>

fun check_counts :: "document \<Rightarrow> deploy_error + unit" where
  "check_counts [] = Inr ()"
| "check_counts ((s, v) # kvs) =
    (if s \<notin> set known_severities
     then if v \<noteq> JInt 0 \<and> v \<noteq> JBool False then Inl (Deployment_Error ''ECR scan contains an unrecognized severity'')
       else check_counts kvs
     else case v of
       JInt n \<Rightarrow> if n < 0 then Inl (Deployment_Error ''ECR scan severity count is invalid'') else check_counts kvs
     | _ \<Rightarrow> Inl (Deployment_Error ''ECR scan severity count is invalid''))"

fun check_blocking :: "string list \<Rightarrow> document \<Rightarrow> string list \<Rightarrow> deploy_error + unit" where
  "check_blocking [] counts rows = Inr ()"
| "check_blocking (s # ss) counts rows =
    (case (case map_of counts s of None \<Rightarrow> JInt 0 | Some v \<Rightarrow> v) of
       JInt n \<Rightarrow>
         if n < 0 then Inl (Deployment_Error ''ECR scan severity count is invalid'')
         else if 0 < max n (int (count_list rows s))
         then Inl (Deployment_Error (''ECR scan blocked by '' @ s @ '' findings''))
         else check_blocking ss counts rows
     | _ \<Rightarrow> Inl (Deployment_Error ''ECR scan severity count is invalid''))"

definition validate_scan :: "document \<Rightarrow> deploy_error + unit" where
  "validate_scan scan =
    ebind (as_mapping (get_field scan ''imageScanStatus'') ''ECR scan status'') (\<lambda>status.
    if get_field status ''status'' \<noteq> JStr ''COMPLETE'' then Inl (Deployment_Error ''deployment requires a completed scan'')
    else ebind (as_mapping (get_field scan ''imageScanFindings'') ''ECR scan findings'') (\<lambda>findings.
    case (get_field findings ''findings'', get_field findings ''findingSeverityCounts'') of
      (JArr rows, JObj counts) \<Rightarrow>
        ebind (row_severities rows) (\<lambda>ss. ebind (check_counts counts) (\<lambda>_.
          check_blocking [''CRITICAL'', ''HIGH'', ''UNDEFINED''] counts ss))
    | _ \<Rightarrow> Inl (Deployment_Error ''ECR scan result is incomplete'')))"

subsection \<open>The task definition\<close>

definition response_fields :: "string list" where
  "response_fields = [''compatibilities'', ''deregisteredAt'', ''registeredAt'', ''registeredBy'', ''requiresAttributes'',
    ''revision'', ''status'', ''taskDefinitionArn'']"

definition limit_entry :: "json \<Rightarrow> bool" where
  "limit_entry v \<longleftrightarrow>
    (case v of JObj d \<Rightarrow> get_field d ''name'' = JStr ''FACTORY_CHAT_MODEL_TURN_LIMIT'' | _ \<Rightarrow> False)"

definition set_limit :: "turn_limit \<Rightarrow> json \<Rightarrow> json" where
  "set_limit l v =
    (if limit_entry v then (case v of JObj d \<Rightarrow> JObj (AList.update ''value'' (JStr (turn_limit_text l)) d) | _ \<Rightarrow> v) else v)"

definition limited_container :: "turn_limit option \<Rightarrow> document \<Rightarrow> deploy_error + document" where
  "limited_container limit c =
    (case limit of
       None \<Rightarrow> Inr c
     | Some l \<Rightarrow> ebind (check_turn_limit limit) (\<lambda>_.
         case get_field c ''environment'' of
           JArr env \<Rightarrow>
             if length (filter limit_entry env) \<noteq> 1
             then Inl (Deployment_Error ''task definition must have exactly one chat turn limit'')
             else Inr (AList.update ''environment'' (JArr (map (set_limit l) env)) c)
         | _ \<Rightarrow> Inl (Deployment_Error ''target container environment is unavailable'')))"

definition target_container :: "string \<Rightarrow> document \<Rightarrow> bool" where
  "target_container name c \<longleftrightarrow> get_field c ''name'' = JStr name"

fun place_container :: "string \<Rightarrow> document \<Rightarrow> document list \<Rightarrow> document list" where
  "place_container name c' [] = []"
| "place_container name c' (c # cs) = (if target_container name c then c' # cs else c # place_container name c' cs)"

definition pinned_ok :: "string \<Rightarrow> bool" where
  "pinned_ok img \<longleftrightarrow> CHR ''@'' \<in> set img \<and> digest_ok (after_last (CHR ''@'') img)"

definition task_for_image :: "document \<Rightarrow> string \<Rightarrow> string \<Rightarrow> turn_limit option \<Rightarrow> deploy_error + document" where
  "task_for_image task name img limit =
    (if \<not> pinned_ok img then Inl (Deployment_Error ''task definition image must be pinned by sha256 digest'')
     else
       let payload = filter (\<lambda>(k, v). k \<notin> set response_fields) task in
       (case get_field payload ''containerDefinitions'' of
          JArr vs \<Rightarrow> ebind (as_mappings vs ''task container'') (\<lambda>cs.
            case filter (target_container name) cs of
              [c] \<Rightarrow> ebind (limited_container limit (AList.update ''image'' (JStr img) c)) (\<lambda>c'.
                Inr (AList.update ''containerDefinitions'' (JArr (map JObj (place_container name c' cs))) payload))
            | _ \<Rightarrow> Inl (Deployment_Error ''task definition must contain exactly one target container''))
        | _ \<Rightarrow> Inl (Deployment_Error ''task definition has no container definitions'')))"

subsection \<open>What a service must say\<close>

definition single_service :: "document \<Rightarrow> deploy_error + document" where
  "single_service response =
    (if truthy (get_field response ''failures'') then Inl (Deployment_Error ''ECS service lookup reported failures'')
     else (case get_field response ''services'' of
       JArr [v] \<Rightarrow> ebind (as_mapping v ''ECS service'') (\<lambda>service.
         if get_field service ''status'' \<noteq> JStr ''ACTIVE'' then Inl (Deployment_Error ''ECS service is not active'')
         else Inr service)
     | _ \<Rightarrow> Inl (Deployment_Error ''ECS lookup did not return exactly one service'')))"

definition require_rollback :: "document \<Rightarrow> deploy_error + unit" where
  "require_rollback service =
    ebind (as_mapping (get_field service ''deploymentConfiguration'') ''ECS deployment configuration'') (\<lambda>configuration.
    ebind (as_mapping (get_field configuration ''deploymentCircuitBreaker'') ''ECS deployment circuit breaker'') (\<lambda>breaker.
    if get_field breaker ''enable'' \<noteq> JBool True \<or> get_field breaker ''rollback'' \<noteq> JBool True
    then Inl (Deployment_Error ''ECS circuit-breaker rollback must be enabled before deployment'') else Inr ()))"

definition primary_deployment :: "json \<Rightarrow> bool" where
  "primary_deployment v \<longleftrightarrow> (case v of JObj d \<Rightarrow> get_field d ''status'' = JStr ''PRIMARY'' | _ \<Rightarrow> False)"

definition verify_deployment :: "document \<Rightarrow> string \<Rightarrow> deploy_error + unit" where
  "verify_deployment service expected =
    (if get_field service ''taskDefinition'' \<noteq> JStr expected
     then Inl (Deployment_Error ''ECS stabilized on a different task definition; promotion failed'')
     else (case (integral (get_field service ''desiredCount''), integral (get_field service ''runningCount''),
         integral (get_field service ''pendingCount'')) of
       (Some desired, Some running, Some pending) \<Rightarrow>
         if desired < 1 \<or> running \<noteq> desired \<or> pending \<noteq> 0
         then Inl (Deployment_Error ''ECS service is not fully healthy after promotion'')
         else (case get_field service ''deployments'' of
           JArr ds \<Rightarrow> (case filter primary_deployment ds of
               [JObj d] \<Rightarrow>
                 if get_field d ''rolloutState'' \<noteq> JStr ''COMPLETED''
                 then Inl (Deployment_Error ''ECS primary rollout did not complete'') else Inr ()
             | _ \<Rightarrow> Inl (Deployment_Error ''ECS primary rollout did not complete''))
         | _ \<Rightarrow> Inl (Deployment_Error ''ECS deployment state is unavailable''))
     | _ \<Rightarrow> Inl (Deployment_Error ''ECS service counts are unavailable'')))"

subsection \<open>Commands\<close>

text \<open>
  \<open>dh_write\<close> writes the temporary file and yields its URI, \<open>dh_unlink\<close> removes it; \<open>dh_resolve\<close> is the absolute path
  of the context and \<open>dh_file\<close> whether a path is a file.
\<close>

record 'x deploy_host =
  dh_run :: "string list \<Rightarrow> string option \<Rightarrow> ('x, deploy_error, string) eff"
  dh_loads :: "string \<Rightarrow> json option"
  dh_sleep :: "int \<Rightarrow> 'x \<Rightarrow> 'x"
  dh_write :: "json \<Rightarrow> 'x \<Rightarrow> string \<times> 'x"
  dh_unlink :: "string \<Rightarrow> 'x \<Rightarrow> 'x"
  dh_resolve :: "string \<Rightarrow> string"
  dh_file :: "string \<Rightarrow> bool"

definition aws_command :: "deployment_config \<Rightarrow> string list \<Rightarrow> string list" where
  "aws_command cfg args = ''aws'' # args @ [''--region'', dc_region cfg, ''--output'', ''json'', ''--no-cli-pager'']"

definition aws_json :: "'x deploy_host \<Rightarrow> deployment_config \<Rightarrow> string list \<Rightarrow> ('x, deploy_error, document) eff" where
  "aws_json h cfg args = sbind (dh_run h (aws_command cfg args) None) (\<lambda>out. spure (load_document (dh_loads h) out))"

definition identity_args :: "string list" where
  "identity_args = [''sts'', ''get-caller-identity'']"

definition repository_args :: "deployment_config \<Rightarrow> string list" where
  "repository_args cfg = [''ecr'', ''describe-repositories'', ''--repository-names'', dc_repository cfg]"

definition tags_args :: "deployment_config \<Rightarrow> string list" where
  "tags_args cfg = [''ecr'', ''list-images'', ''--repository-name'', dc_repository cfg, ''--filter'', ''tagStatus=TAGGED'']"

definition pushed_args :: "deployment_config \<Rightarrow> string list" where
  "pushed_args cfg = [''ecr'', ''describe-images'', ''--repository-name'', dc_repository cfg,
    ''--image-ids'', ''imageTag='' @ dc_image_tag cfg]"

definition scan_args :: "deployment_config \<Rightarrow> string \<Rightarrow> string list" where
  "scan_args cfg digest = [''ecr'', ''describe-image-scan-findings'', ''--repository-name'', dc_repository cfg,
    ''--image-id'', ''imageDigest='' @ digest]"

definition service_args :: "deployment_config \<Rightarrow> string list" where
  "service_args cfg = [''ecs'', ''describe-services'', ''--cluster'', dc_cluster cfg, ''--services'', dc_service cfg]"

definition task_args :: "string \<Rightarrow> string list" where
  "task_args arn = [''ecs'', ''describe-task-definition'', ''--task-definition'', arn]"

definition register_args :: "string \<Rightarrow> string list" where
  "register_args uri = [''ecs'', ''register-task-definition'', ''--cli-input-json'', uri]"

definition update_command :: "deployment_config \<Rightarrow> string \<Rightarrow> string list" where
  "update_command cfg arn = aws_command cfg
    [''ecs'', ''update-service'', ''--cluster'', dc_cluster cfg, ''--service'', dc_service cfg, ''--task-definition'', arn]"

definition wait_command :: "deployment_config \<Rightarrow> string list" where
  "wait_command cfg = [''aws'', ''ecs'', ''wait'', ''services-stable'', ''--cluster'', dc_cluster cfg,
    ''--services'', dc_service cfg, ''--region'', dc_region cfg]"

definition push_command :: "deployment_config \<Rightarrow> string \<Rightarrow> string list" where
  "push_command cfg tagged = [dc_container_cli cfg, ''push'', tagged]"

subsection \<open>Promotion\<close>

definition check_identity :: "deployment_config \<Rightarrow> document \<Rightarrow> deploy_error + unit" where
  "check_identity cfg identity =
    (case (get_field identity ''Account'' = JStr (dc_account_id cfg), get_field identity ''Arn'') of
       (True, JStr arn) \<Rightarrow>
         if ends_with '':root'' arn then Inl (Deployment_Error ''root credentials are not permitted for deployment'') else Inr ()
     | _ \<Rightarrow> Inl (Deployment_Error ''AWS identity does not match the pilot account''))"

definition registry_prefix :: "deployment_config \<Rightarrow> string" where
  "registry_prefix cfg = dc_account_id cfg @ ''.dkr.ecr.'' @ dc_region cfg @ ''.amazonaws.com/''"

definition repository_of :: "deployment_config \<Rightarrow> document \<Rightarrow> deploy_error + string" where
  "repository_of cfg response =
    (case get_field response ''repositories'' of
       JArr [v] \<Rightarrow> ebind (as_mapping v ''ECR repository'') (\<lambda>repository. ebind (validate_registry repository) (\<lambda>_.
         case get_field repository ''repositoryUri'' of
           JStr uri \<Rightarrow>
             if \<not> starts_with (registry_prefix cfg) uri
             then Inl (Deployment_Error ''ECR repository URI does not match the pilot account and region'') else Inr uri
         | _ \<Rightarrow> Inl (Deployment_Error ''ECR repository URI does not match the pilot account and region'')))
     | _ \<Rightarrow> Inl (Deployment_Error ''ECR repository lookup did not return exactly one repository''))"

fun check_new_tag :: "string \<Rightarrow> json list \<Rightarrow> deploy_error + unit" where
  "check_new_tag tag [] = Inr ()"
| "check_new_tag tag (v # vs) =
    ebind (as_mapping v ''ECR image identity'') (\<lambda>d.
    if get_field d ''imageTag'' = JStr tag then Inl (Deployment_Error ''image tag already exists; deployment tags are immutable'')
    else check_new_tag tag vs)"

definition check_tags :: "deployment_config \<Rightarrow> document \<Rightarrow> deploy_error + unit" where
  "check_tags cfg response =
    (case get_field response ''imageIds'' of
       JArr vs \<Rightarrow> check_new_tag (dc_image_tag cfg) vs | _ \<Rightarrow> Inl (Deployment_Error ''ECR tag inventory is incomplete''))"

definition pushed_digest :: "document \<Rightarrow> deploy_error + string" where
  "pushed_digest response =
    (case get_field response ''imageDetails'' of
       JArr [v] \<Rightarrow> ebind (as_mapping v ''ECR image'') (\<lambda>d. case get_field d ''imageDigest'' of
           JStr digest \<Rightarrow>
             if \<not> digest_ok digest then Inl (Deployment_Error ''pushed image did not resolve to a valid sha256 digest'') else Inr digest
         | _ \<Rightarrow> Inl (Deployment_Error ''pushed image did not resolve to a valid sha256 digest''))
     | _ \<Rightarrow> Inl (Deployment_Error ''pushed ECR tag did not resolve to exactly one image''))"

text \<open>Whether a scan is complete and clean; an unfinished one is waited for.\<close>

definition scan_step :: "document \<Rightarrow> deploy_error + bool" where
  "scan_step scan =
    ebind (as_mapping (get_field scan ''imageScanStatus'') ''ECR scan status'') (\<lambda>status.
    let s = get_field status ''status'' in
    if s = JStr ''COMPLETE'' then ebind (validate_scan scan) (\<lambda>_. Inr True)
    else if s = JStr ''FAILED'' then Inl (Deployment_Error ''ECR image scan failed'')
    else if s \<noteq> JNull \<and> s \<noteq> JStr ''IN_PROGRESS'' \<and> s \<noteq> JStr ''PENDING''
    then Inl (Deployment_Error ''ECR returned an unknown image scan status'')
    else Inr False)"

text \<open>A scan that the registry does not know yet is an unfinished one.\<close>

definition look_at_scan :: "'x deploy_host \<Rightarrow> deployment_config \<Rightarrow> string \<Rightarrow> ('x, deploy_error, bool) eff" where
  "look_at_scan h cfg digest x =
    (case aws_json h cfg (scan_args cfg digest) x of
       (Inl (Command_Failure operation code), y) \<Rightarrow>
         if code \<noteq> Some ''ScanNotFoundException'' then (Inl (Command_Failure operation code), y) else (Inr False, y)
     | (Inl e, y) \<Rightarrow> (Inl e, y)
     | (Inr scan, y) \<Rightarrow> (scan_step scan, y))"

fun await_scan :: "'x deploy_host \<Rightarrow> deployment_config \<Rightarrow> string \<Rightarrow> nat \<Rightarrow> ('x, deploy_error, unit) eff" where
  "await_scan h cfg digest 0 = sraise (Deployment_Error ''ECR scan did not complete within the configured wait bound'')"
| "await_scan h cfg digest (Suc n) =
    sbind (look_at_scan h cfg digest) (\<lambda>clean.
      if clean then sreturn ()
      else sbind (if n = 0 then sreturn () else scall (\<lambda>x. ((), dh_sleep h (dc_poll_seconds cfg) x))) (\<lambda>_. await_scan h cfg digest n))"

text \<open>The file is removed whatever the registration answers.\<close>

definition sfinally :: "('x, 'e, 'a) eff \<Rightarrow> ('x \<Rightarrow> 'x) \<Rightarrow> ('x, 'e, 'a) eff" where
  "sfinally m g x = (case m x of (r, y) \<Rightarrow> (r, g y))"

definition register_task :: "'x deploy_host \<Rightarrow> deployment_config \<Rightarrow> document \<Rightarrow> ('x, deploy_error, string) eff" where
  "register_task h cfg payload =
    sbind (scall (dh_write h (JObj payload))) (\<lambda>uri.
    sbind (sfinally (aws_json h cfg (register_args uri)) (dh_unlink h uri)) (\<lambda>response.
    spure (ebind (as_mapping (get_field response ''taskDefinition'') ''registered task definition'') (\<lambda>task.
      required_string task ''taskDefinitionArn''))))"

definition check_config :: "'x deploy_host \<Rightarrow> deployment_config \<Rightarrow> deploy_error + unit" where
  "check_config h cfg =
    (if \<not> image_tag_ok (dc_image_tag cfg) then Inl (Deployment_Error ''image tag must be a unique ECR-compatible value'')
     else ebind (check_turn_limit (dc_turn_limit cfg)) (\<lambda>_.
       if dc_poll_attempts cfg < 1 \<or> dc_poll_seconds cfg < 0 then Inl (Deployment_Error ''scan wait bounds are invalid'')
       else if \<not> dh_file h (dh_resolve h (dc_context cfg) @ ''/Dockerfile'')
       then Inl (Deployment_Error ''deployment context must contain a Dockerfile'') else Inr ()))"

text \<open>From the account to the pushed image's digest\<close>

definition publish_image :: "'x deploy_host \<Rightarrow> deployment_config \<Rightarrow> ('x, deploy_error, string \<times> string) eff" where
  "publish_image h cfg =
    sbind (aws_json h cfg identity_args) (\<lambda>identity.
    sbind (spure (check_identity cfg identity)) (\<lambda>_.
    sbind (aws_json h cfg (repository_args cfg)) (\<lambda>response.
    sbind (spure (repository_of cfg response)) (\<lambda>uri.
    sbind (aws_json h cfg (tags_args cfg)) (\<lambda>tags.
    sbind (spure (check_tags cfg tags)) (\<lambda>_.
    sbind (dh_run h [''aws'', ''ecr'', ''get-login-password'', ''--region'', dc_region cfg] None) (\<lambda>printed.
    if strip printed = [] then sraise (Deployment_Error ''ECR authentication returned no token'')
    else
    sbind (dh_run h [dc_container_cli cfg, ''login'', ''--username'', ''AWS'', ''--password-stdin'',
      text_before (\<lambda>c. c = CHR ''/'') uri] (Some (strip printed @ newline))) (\<lambda>_.
    sbind (dh_run h [dc_container_cli cfg, ''build'', ''--platform'', ''linux/amd64'', ''--tag'', uri @ '':'' @ dc_image_tag cfg,
      dh_resolve h (dc_context cfg)] None) (\<lambda>_.
    sbind (dh_run h (push_command cfg (uri @ '':'' @ dc_image_tag cfg)) None) (\<lambda>_.
    sbind (aws_json h cfg (pushed_args cfg)) (\<lambda>pushed.
    sbind (spure (pushed_digest pushed)) (\<lambda>digest.
    sreturn (uri, digest)))))))))))))"

text \<open>From the running service to the registered task\<close>

definition prepare_task :: "'x deploy_host \<Rightarrow> deployment_config \<Rightarrow> string \<Rightarrow> ('x, deploy_error, string) eff" where
  "prepare_task h cfg img =
    sbind (aws_json h cfg (service_args cfg)) (\<lambda>response.
    sbind (spure (single_service response)) (\<lambda>service.
    sbind (spure (require_rollback service)) (\<lambda>_.
    sbind (spure (required_string service ''taskDefinition'')) (\<lambda>previous.
    sbind (aws_json h cfg (task_args previous)) (\<lambda>answer.
    sbind (spure (as_mapping (get_field answer ''taskDefinition'') ''ECS task definition'')) (\<lambda>task.
    sbind (spure (task_for_image task (dc_container_name cfg) img (dc_turn_limit cfg))) (\<lambda>registration.
    register_task h cfg registration)))))))"

definition finish_promotion :: "'x deploy_host \<Rightarrow> deployment_config \<Rightarrow> string \<Rightarrow> string \<Rightarrow> ('x, deploy_error, deployment_result) eff" where
  "finish_promotion h cfg img arn =
    sbind (dh_run h (update_command cfg arn) None) (\<lambda>_.
    sbind (dh_run h (wait_command cfg) None) (\<lambda>_.
    sbind (aws_json h cfg (service_args cfg)) (\<lambda>response.
    sbind (spure (single_service response)) (\<lambda>service.
    sbind (spure (require_rollback service)) (\<lambda>_.
    sbind (spure (verify_deployment service arn)) (\<lambda>_.
    sreturn \<lparr>dp_image = img, dp_task = arn\<rparr>))))))"

definition deploy_pilot :: "'x deploy_host \<Rightarrow> deployment_config \<Rightarrow> ('x, deploy_error, deployment_result) eff" where
  "deploy_pilot h cfg =
    sbind (spure (check_config h cfg)) (\<lambda>_.
    sbind (publish_image h cfg) (\<lambda>(uri, digest).
    sbind (await_scan h cfg digest (nat (dc_poll_attempts cfg))) (\<lambda>_.
    sbind (prepare_task h cfg (uri @ ''@'' @ digest)) (\<lambda>arn.
    finish_promotion h cfg (uri @ ''@'' @ digest) arn))))"

subsection \<open>The script\<close>

text \<open>
  A process cannot be started, or it ends with a code, its output and its errors. The code of a failed command is the
  first run of letters in the errors that ends in \<^verbatim>\<open>Exception\<close>, up to the last such end of the run.
\<close>

fun exception_at :: "string \<Rightarrow> nat \<Rightarrow> string option" where
  "exception_at s 0 = None"
| "exception_at s (Suc n) =
    (if starts_with ''Exception'' (drop (Suc n) s) then Some (take (Suc n) s @ ''Exception'') else exception_at s n)"

fun exception_code :: "string \<Rightarrow> string option" where
  "exception_code [] = None"
| "exception_code (c # cs) =
    (case exception_at (c # cs) (length (takeWhile ascii_letter (c # cs))) of
       Some e \<Rightarrow> Some e | None \<Rightarrow> exception_code cs)"

fun spaced :: "string list \<Rightarrow> string" where
  "spaced [] = []"
| "spaced [a] = a"
| "spaced (a # b # as) = a @ '' '' @ spaced (b # as)"

definition run_command ::
  "(string list \<Rightarrow> string option \<Rightarrow> 'x \<Rightarrow> (int \<times> string \<times> string) option \<times> 'x) \<Rightarrow> string list \<Rightarrow> string option \<Rightarrow>
    ('x, deploy_error, string) eff"
where
  "run_command process command input x =
    (case process command input x of
       (None, y) \<Rightarrow> (Inl (Deployment_Error (''could not start release command: '' @ hd command)), y)
     | (Some (code, out, errors), y) \<Rightarrow>
         if code \<noteq> 0 then (Inl (Command_Failure (spaced (take 3 command)) (exception_code errors)), y) else (Inr (strip out), y))"

fun deploy_message :: "deploy_error \<Rightarrow> string" where
  "deploy_message (Deployment_Error m) = m"
| "deploy_message (Command_Failure operation code) =
    ''release command failed: '' @ operation @ (case code of None \<Rightarrow> [] | Some c \<Rightarrow> if c = [] then [] else '' ('' @ c @ '')'')"

text \<open>What is printed on the standard error or output, and the exit code\<close>

definition deploy_main :: "'x deploy_host \<Rightarrow> deployment_config \<Rightarrow> 'x \<Rightarrow> ((string + json) \<times> int) \<times> 'x" where
  "deploy_main h cfg x =
    (case deploy_pilot h cfg x of
       (Inl e, y) \<Rightarrow> ((Inl (''deployment blocked: '' @ deploy_message e), 2), y)
     | (Inr r, y) \<Rightarrow> ((Inr (JObj [(''image'', JStr (dp_image r)), (''task_definition_arn'', JStr (dp_task r))]), 0), y))"

end
