(* ===== verification/Deploy_Properties.thy ===== *)
theory Deploy_Properties
  imports Deploy
begin

text \<open>
  What a promotion of the pilot image establishes, whatever the release commands answer.
\<close>

declare split_paired_All [simp del] split_paired_Ex [simp del] split_paired_all [simp del]

subsection \<open>Clean scans and pinned tasks\<close>

definition blocking_severities :: "string set" where
  "blocking_severities = {''CRITICAL'', ''HIGH'', ''UNDEFINED''}"

definition clean_scan :: "document \<Rightarrow> bool" where
  "clean_scan scan \<longleftrightarrow> (\<exists>status findings rows counts.
    get_field scan ''imageScanStatus'' = JObj status \<and> get_field status ''status'' = JStr ''COMPLETE''
    \<and> get_field scan ''imageScanFindings'' = JObj findings \<and> get_field findings ''findings'' = JArr rows
    \<and> get_field findings ''findingSeverityCounts'' = JObj counts
    \<and> (\<forall>v \<in> set rows. \<exists>d s. v = JObj d \<and> get_field d ''severity'' = JStr s \<and> s \<in> set known_severities - blocking_severities)
    \<and> (\<forall>s \<in> blocking_severities. map_of counts s \<in> {None, Some (JInt 0)}))"

lemma as_mapping_Inr: "as_mapping v label = Inr d \<longleftrightarrow> v = JObj d"
  by (cases v) auto

lemma single_Inr: "(case xs of [c] \<Rightarrow> f c | _ \<Rightarrow> Inl e) = Inr r \<longleftrightarrow> (\<exists>c. xs = [c] \<and> f c = Inr r)"
  by (auto split: list.splits)

lemma str_Inr: "(case v of JStr s \<Rightarrow> f s | _ \<Rightarrow> Inl e) = Inr r \<longleftrightarrow> (\<exists>s. v = JStr s \<and> f s = Inr r)"
  by (cases v) auto

lemma arr_Inr: "(case v of JArr vs \<Rightarrow> f vs | _ \<Rightarrow> Inl e) = Inr r \<longleftrightarrow> (\<exists>vs. v = JArr vs \<and> f vs = Inr r)"
  by (cases v) auto

lemma obj_Inr: "(case v of JObj d \<Rightarrow> f d | _ \<Rightarrow> Inl e) = Inr r \<longleftrightarrow> (\<exists>d. v = JObj d \<and> f d = Inr r)"
  by (cases v) auto

lemma row_severities_Inr:
  "row_severities rows = Inr ss \<Longrightarrow> v \<in> set rows \<Longrightarrow>
    \<exists>d s. v = JObj d \<and> get_field d ''severity'' = JStr s \<and> s \<in> set known_severities \<and> s \<in> set ss"
proof (induction rows arbitrary: ss)
  case (Cons w ws)
  obtain d s ss' where "w = JObj d" "get_field d ''severity'' = JStr s" "s \<in> set known_severities"
    "row_severities ws = Inr ss'" "ss = s # ss'"
    using Cons.prems(1)
    by (cases w; cases "get_field (case w of JObj d \<Rightarrow> d) ''severity''") (auto simp: ebind_eq_Inr split: if_splits)
  then show ?case using Cons by auto
qed simp

lemma check_blocking_Inr:
  "check_blocking bs counts rows = Inr () \<Longrightarrow> s \<in> set bs \<Longrightarrow>
    s \<notin> set rows \<and> map_of counts s \<in> {None, Some (JInt 0)}"
  by (induction bs) (auto split: json.splits if_splits option.splits simp: count_list_0_iff max_def not_less)

lemma validate_scan_clean:
  assumes "validate_scan scan = Inr ()"
  shows "clean_scan scan"
proof -
  obtain status findings rows counts ss where parts: "get_field scan ''imageScanStatus'' = JObj status"
    "get_field status ''status'' = JStr ''COMPLETE''" "get_field scan ''imageScanFindings'' = JObj findings"
    "get_field findings ''findings'' = JArr rows" "get_field findings ''findingSeverityCounts'' = JObj counts"
    "row_severities rows = Inr ss" "check_blocking [''CRITICAL'', ''HIGH'', ''UNDEFINED''] counts ss = Inr ()"
    using assms unfolding validate_scan_def
    by (cases "get_field scan ''imageScanFindings''")
      (auto simp: as_mapping_Inr ebind_eq_Inr arr_Inr obj_Inr simp del: check_blocking.simps split: if_splits)
  have "s \<notin> set ss \<and> map_of counts s \<in> {None, Some (JInt 0)}" if "s \<in> blocking_severities" for s
    using check_blocking_Inr [OF parts(7), of s] that by (auto simp: blocking_severities_def)
  then show ?thesis
    using parts(1-5) row_severities_Inr [OF parts(6)] unfolding clean_scan_def by blast
qed

definition pinned_task :: "string \<Rightarrow> string \<Rightarrow> document \<Rightarrow> bool" where
  "pinned_task name img payload \<longleftrightarrow> (\<exists>cs c.
    get_field payload ''containerDefinitions'' = JArr (map JObj cs) \<and> filter (target_container name) cs = [c]
    \<and> get_field c ''image'' = JStr img)"

lemma get_field_update: "get_field (AList.update k v d) k' = (if k' = k then v else get_field d k')"
  by (simp add: get_field_def update_conv')

lemma place_container_filter:
  "filter (target_container name) cs = [c] \<Longrightarrow> target_container name c' \<Longrightarrow>
    filter (target_container name) (place_container name c' cs) = [c']"
  by (induction cs) (auto split: if_splits)

lemma limited_container_Inr:
  assumes "limited_container limit c = Inr c'"
  shows "get_field c' ''name'' = get_field c ''name'' \<and> get_field c' ''image'' = get_field c ''image''"
  using assms
  by (auto simp: limited_container_def ebind_eq_Inr get_field_update split: option.splits json.splits if_splits)

lemma task_for_image_pinned:
  assumes "task_for_image task name img limit = Inr payload"
  shows "pinned_ok img \<and> pinned_task name img payload"
proof -
  obtain cs c c' body where parts: "pinned_ok img" "filter (target_container name) cs = [c]"
    "limited_container limit (AList.update ''image'' (JStr img) c) = Inr c'"
    "payload = AList.update ''containerDefinitions'' (JArr (map JObj (place_container name c' cs))) body"
    using assms unfolding task_for_image_def Let_def
    by (cases "get_field (filter (\<lambda>(k, v). k \<notin> set response_fields) task) ''containerDefinitions''")
      (auto simp: ebind_eq_Inr single_Inr split: if_splits)
  have "target_container name c" using parts(2) by (metis (full_types) filter_eq_ConsD)
  then have "target_container name c'" "get_field c' ''image'' = JStr img"
    using limited_container_Inr [OF parts(3)] by (simp_all add: target_container_def get_field_update)
  then show ?thesis
    using parts(1) place_container_filter [OF parts(2)] unfolding pinned_task_def parts(4) get_field_update by auto
qed

subsection \<open>The record of a promotion\<close>

datatype release_event = Ran "string list" "deploy_error + string" | Wrote json string

definition noting_host :: "'x deploy_host \<Rightarrow> ('x \<times> release_event list) deploy_host" where
  "noting_host h =
    \<lparr>dh_run = (\<lambda>cmd inp z. case dh_run h cmd inp (fst z) of (a, y) \<Rightarrow> (a, (y, snd z @ [Ran cmd a]))),
     dh_loads = dh_loads h,
     dh_sleep = (\<lambda>n z. (dh_sleep h n (fst z), snd z)),
     dh_write = (\<lambda>v z. case dh_write h v (fst z) of (uri, y) \<Rightarrow> (uri, (y, snd z @ [Wrote v uri]))),
     dh_unlink = (\<lambda>uri z. (dh_unlink h uri (fst z), snd z)),
     dh_resolve = dh_resolve h, dh_file = dh_file h\<rparr>"

definition is_update :: "string list \<Rightarrow> bool" where
  "is_update cmd \<longleftrightarrow> take 3 cmd = [''aws'', ''ecs'', ''update-service'']"

definition quiet :: "release_event list \<Rightarrow> bool" where
  "quiet evs \<longleftrightarrow> (\<forall>cmd a. Ran cmd a \<in> set evs \<longrightarrow> \<not> is_update cmd)"

definition answered :: "'x deploy_host \<Rightarrow> deployment_config \<Rightarrow> release_event list \<Rightarrow> string list \<Rightarrow> (document \<Rightarrow> bool) \<Rightarrow> bool" where
  "answered h cfg evs args P \<longleftrightarrow>
    (\<exists>out d. Ran (aws_command cfg args) (Inr out) \<in> set evs \<and> load_document (dh_loads h) out = Inr d \<and> P d)"

text \<open>What happened before a service is updated to the task \<open>arn\<close> with \<open>image\<close>\<close>

definition published :: "'x deploy_host \<Rightarrow> deployment_config \<Rightarrow> string \<Rightarrow> string \<Rightarrow> release_event list \<Rightarrow> bool" where
  "published h cfg uri digest evs \<longleftrightarrow> digest_ok digest
    \<and> answered h cfg evs identity_args (\<lambda>d. check_identity cfg d = Inr ())
    \<and> answered h cfg evs (repository_args cfg) (\<lambda>d. repository_of cfg d = Inr uri)
    \<and> answered h cfg evs (tags_args cfg) (\<lambda>d. check_tags cfg d = Inr ())
    \<and> (\<exists>out. Ran (push_command cfg (uri @ '':'' @ dc_image_tag cfg)) (Inr out) \<in> set evs)
    \<and> answered h cfg evs (pushed_args cfg) (\<lambda>d. pushed_digest d = Inr digest)"

definition guarded_service :: "document \<Rightarrow> document \<Rightarrow> bool" where
  "guarded_service d s \<longleftrightarrow> single_service d = Inr s \<and> require_rollback s = Inr ()"

definition registered :: "'x deploy_host \<Rightarrow> deployment_config \<Rightarrow> string \<Rightarrow> string \<Rightarrow> release_event list \<Rightarrow> bool" where
  "registered h cfg img arn evs \<longleftrightarrow>
    answered h cfg evs (service_args cfg) (\<lambda>d. \<exists>s. guarded_service d s)
    \<and> (\<exists>payload uri. Wrote (JObj payload) uri \<in> set evs \<and> pinned_task (dc_container_name cfg) img payload
      \<and> answered h cfg evs (register_args uri) (\<lambda>d. \<exists>task. get_field d ''taskDefinition'' = JObj task
        \<and> required_string task ''taskDefinitionArn'' = Inr arn))"

definition cleared :: "'x deploy_host \<Rightarrow> deployment_config \<Rightarrow> string \<Rightarrow> string \<Rightarrow> release_event list \<Rightarrow> bool" where
  "cleared h cfg img arn evs \<longleftrightarrow> (\<exists>uri digest. img = uri @ ''@'' @ digest \<and> published h cfg uri digest evs
    \<and> answered h cfg evs (scan_args cfg digest) clean_scan \<and> registered h cfg img arn evs)"

subsection \<open>Steps on the record\<close>

lemma quiet_append [simp]: "quiet (a @ b) \<longleftrightarrow> quiet a \<and> quiet b"
  by (auto simp: quiet_def)

lemma quiet_Nil [simp]: "quiet []"
  by (simp add: quiet_def)

lemma quiet_Cons [simp]: "quiet (Ran cmd a # evs) \<longleftrightarrow> \<not> is_update cmd \<and> quiet evs" "quiet (Wrote v uri # evs) \<longleftrightarrow> quiet evs"
  by (auto simp: quiet_def)

lemma answered_grows: "answered h cfg evs args P \<Longrightarrow> set evs \<subseteq> set evs' \<Longrightarrow> answered h cfg evs' args P"
  unfolding answered_def by blast

lemma published_grows: "published h cfg uri digest evs \<Longrightarrow> set evs \<subseteq> set evs' \<Longrightarrow> published h cfg uri digest evs'"
  unfolding published_def by (blast intro: answered_grows)

lemma wp_noted:
  assumes "\<And>y e. E (y, evs @ [Ran cmd (Inl e)])" "\<And>y out. Q out (y, evs @ [Ran cmd (Inr out)])"
  shows "wp (dh_run (noting_host h) cmd inp) Q E (x, evs)"
  using assms by (auto simp: wp_def noting_host_def split: prod.splits sum.splits)

lemma wp_asked:
  assumes "\<And>y a. E (y, evs @ [Ran (aws_command cfg args) a])"
    "\<And>y out d. load_document (dh_loads h) out = Inr d \<Longrightarrow> Q d (y, evs @ [Ran (aws_command cfg args) (Inr out)])"
  shows "wp (aws_json (noting_host h) cfg args) Q E (x, evs)"
  unfolding aws_json_def wp_sbind
  using assms by (intro wp_noted) (auto simp: wp_spure noting_host_def split: sum.splits)

lemma wp_checked:
  assumes "\<And>e. r = Inl e \<Longrightarrow> E s" "\<And>a. r = Inr a \<Longrightarrow> Q a s"
  shows "wp (spure r) Q E s"
  using assms by (auto simp: wp_spure split: sum.splits)

lemma plain_commands [simp]:
  "\<not> is_update (aws_command cfg identity_args)" "\<not> is_update (aws_command cfg (repository_args cfg))"
  "\<not> is_update (aws_command cfg (tags_args cfg))" "\<not> is_update (aws_command cfg (pushed_args cfg))"
  "\<not> is_update (aws_command cfg (scan_args cfg d))" "\<not> is_update (aws_command cfg (service_args cfg))"
  "\<not> is_update (aws_command cfg (task_args s))" "\<not> is_update (aws_command cfg (register_args s))"
  "\<not> is_update (wait_command cfg)" "\<not> is_update (push_command cfg s)"
  "\<not> is_update (''aws'' # ''ecr'' # cmd)" "\<not> is_update (s # ''login'' # cmd)" "\<not> is_update (s # ''build'' # cmd)"
  by (simp_all add: is_update_def aws_command_def identity_args_def repository_args_def tags_args_def pushed_args_def
      scan_args_def service_args_def task_args_def register_args_def wait_command_def push_command_def)

lemma update_is_update: "is_update (update_command cfg arn)"
  by (simp add: is_update_def update_command_def aws_command_def)

lemma pushed_digest_ok: "pushed_digest d = Inr digest \<Longrightarrow> digest_ok digest"
  by (auto simp: pushed_digest_def arr_Inr single_Inr str_Inr ebind_eq_Inr split: if_splits)

lemma publish_noted:
  assumes "quiet evs"
  shows "wp (publish_image (noting_host h) cfg) (\<lambda>r z. quiet (snd z) \<and> published h cfg (fst r) (snd r) (snd z))
    (\<lambda>z. quiet (snd z)) (x, evs)"
  unfolding publish_image_def wp_sbind
  apply (rule wp_asked, simp add: assms)
  apply (rule wp_checked, simp add: assms)
  apply (rule wp_asked, simp add: assms)
  apply (rule wp_checked, simp add: assms)
  apply (rule wp_asked, simp add: assms)
  apply (rule wp_checked, simp add: assms)
  apply (rule wp_noted, simp add: assms)
  apply (simp only: wp_sraise split: if_split, intro conjI impI)
   apply (simp add: assms)
  unfolding wp_sbind
  apply (rule wp_noted, simp add: assms)
  apply (rule wp_noted, simp add: assms)
  apply (rule wp_noted, simp add: assms)
  apply (rule wp_asked, simp add: assms)
  apply (rule wp_checked, simp add: assms)
  apply (simp add: assms published_def pushed_digest_ok)
  apply (auto simp: answered_def)
  done

lemma scan_step_clean: "scan_step d = Inr True \<Longrightarrow> clean_scan d"
  by (auto simp: scan_step_def as_mapping_Inr ebind_eq_Inr Let_def validate_scan_clean split: if_splits)

lemma look_noted:
  assumes "\<And>y a. E (y, evs @ [Ran (aws_command cfg (scan_args cfg digest)) a])"
    "\<And>y a b. (b \<longrightarrow> (\<exists>out d. a = Inr out \<and> load_document (dh_loads h) out = Inr d \<and> clean_scan d)) \<Longrightarrow>
      Q b (y, evs @ [Ran (aws_command cfg (scan_args cfg digest)) a])"
  shows "wp (look_at_scan (noting_host h) cfg digest) Q E (x, evs)"
proof -
  obtain a y where a: "dh_run h (aws_command cfg (scan_args cfg digest)) None x = (a, y)" by force
  then show ?thesis
    by (auto simp: wp_def look_at_scan_def aws_json_def sbind_def noting_host_def
        split: prod.splits sum.splits deploy_error.splits bool.splits
        intro!: assms dest: scan_step_clean)
qed

lemma await_noted:
  assumes "quiet evs" "published h cfg uri digest evs"
  shows "wp (await_scan (noting_host h) cfg digest n)
    (\<lambda>_ z. quiet (snd z) \<and> published h cfg uri digest (snd z) \<and> answered h cfg (snd z) (scan_args cfg digest) clean_scan)
    (\<lambda>z. quiet (snd z)) (x, evs)"
  using assms
proof (induction n arbitrary: x evs)
  case (Suc n)
  have step: "published h cfg uri digest (evs @ [e])" for e by (rule published_grows [OF Suc.prems(2)]) auto
  show ?case
    unfolding await_scan.simps wp_sbind
  proof (rule look_noted)
    fix y a b
    let ?evs = "evs @ [Ran (aws_command cfg (scan_args cfg digest)) a]"
    assume b: "b \<longrightarrow> (\<exists>out d. a = Inr out \<and> load_document (dh_loads h) out = Inr d \<and> clean_scan d)"
    have quiet: "quiet ?evs" using Suc.prems(1) by simp
    have clean: "answered h cfg ?evs (scan_args cfg digest) clean_scan" if b using that b by (auto simp: answered_def)
    have slept: "snd (dh_sleep (noting_host h) s (y, ?evs)) = ?evs" for s by (simp add: noting_host_def)
    show "wp (if b then sreturn () else sbind (if n = 0 then sreturn () else
          scall (\<lambda>x. ((), dh_sleep (noting_host h) (dc_poll_seconds cfg) x))) (\<lambda>_. await_scan (noting_host h) cfg digest n))
        (\<lambda>_ z. quiet (snd z) \<and> published h cfg uri digest (snd z) \<and> answered h cfg (snd z) (scan_args cfg digest) clean_scan)
        (\<lambda>z. quiet (snd z)) (y, ?evs)"
      using clean quiet step Suc.IH [OF quiet step] slept
      by (cases b; cases "dh_sleep (noting_host h) (dc_poll_seconds cfg) (y, ?evs)") (auto dest!: meta_spec [of _ "dc_poll_seconds cfg"])
  qed (use Suc.prems in simp)
qed simp

lemma register_noted:
  assumes "quiet evs" "pinned_task (dc_container_name cfg) img payload"
    "answered h cfg evs (service_args cfg) (\<lambda>d. \<exists>s. guarded_service d s)" "\<And>z. K (snd z) \<Longrightarrow> E z"
  shows "wp (register_task (noting_host h) cfg payload)
    (\<lambda>arn z. quiet (snd z) \<and> registered h cfg img arn (snd z) \<and> set evs \<subseteq> set (snd z)) (\<lambda>z. quiet (snd z)) (x, evs)"
proof -
  obtain uri y where w: "dh_write h (JObj payload) x = (uri, y)" by force
  obtain a y' where a: "dh_run h (aws_command cfg (register_args uri)) None y = (a, y')" by force
  let ?evs = "evs @ [Wrote (JObj payload) uri, Ran (aws_command cfg (register_args uri)) a]"
  have service: "answered h cfg ?evs (service_args cfg) (\<lambda>d. \<exists>s. guarded_service d s)"
    by (rule answered_grows [OF assms(3)]) auto
  have "registered h cfg img arn ?evs"
    if "a = Inr out" "load_document (dh_loads h) out = Inr d" "get_field d ''taskDefinition'' = JObj task"
      "required_string task ''taskDefinitionArn'' = Inr arn" for out d task arn
  proof -
    have "answered h cfg ?evs (register_args uri) (\<lambda>d. \<exists>task. get_field d ''taskDefinition'' = JObj task
        \<and> required_string task ''taskDefinitionArn'' = Inr arn)"
      unfolding answered_def using that by (intro exI [of _ out] exI [of _ d]) auto
    moreover have "Wrote (JObj payload) uri \<in> set ?evs" by simp
    ultimately show ?thesis using service assms(2) unfolding registered_def by blast
  qed
  then show ?thesis
    using assms(1) w a
    by (auto simp: register_task_def wp_def sbind_def scall_def sfinally_def aws_json_def noting_host_def as_mapping_Inr
        ebind_eq_Inr split: sum.splits prod.splits)
qed

lemma prepare_noted:
  assumes "quiet evs"
  shows "wp (prepare_task (noting_host h) cfg img)
    (\<lambda>arn z. quiet (snd z) \<and> registered h cfg img arn (snd z) \<and> set evs \<subseteq> set (snd z)) (\<lambda>z. quiet (snd z)) (x, evs)"
  unfolding prepare_task_def wp_sbind
  apply (rule wp_asked, simp add: assms)
  apply (rule wp_checked, simp add: assms)
  apply (rule wp_checked, simp add: assms)
  apply (rule wp_checked, simp add: assms)
  apply (rule wp_asked, simp add: assms)
  apply (rule wp_checked, simp add: assms)
  apply (rule wp_checked, simp add: assms)
  apply (rule wp_mono, rule register_noted [where img = img])
     apply (simp add: assms)
    apply (simp add: task_for_image_pinned)
   apply (auto simp: answered_def guarded_service_def)
  done

definition updated_once :: "deployment_config \<Rightarrow> string \<Rightarrow> release_event list \<Rightarrow> release_event list \<Rightarrow> bool" where
  "updated_once cfg arn before evs \<longleftrightarrow> (\<exists>a after. evs = before @ Ran (update_command cfg arn) a # after \<and> quiet after)"

definition settled :: "'x deploy_host \<Rightarrow> deployment_config \<Rightarrow> string \<Rightarrow> release_event list \<Rightarrow> bool" where
  "settled h cfg arn evs \<longleftrightarrow>
    answered h cfg evs (service_args cfg) (\<lambda>d. \<exists>s. guarded_service d s \<and> verify_deployment s arn = Inr ())"

lemma finish_noted:
  "wp (finish_promotion (noting_host h) cfg img arn)
    (\<lambda>r z. r = \<lparr>dp_image = img, dp_task = arn\<rparr> \<and> updated_once cfg arn evs (snd z) \<and> settled h cfg arn (snd z))
    (\<lambda>z. updated_once cfg arn evs (snd z)) (x, evs)"
  unfolding finish_promotion_def wp_sbind
  apply (rule wp_noted, simp add: updated_once_def)
  apply (rule wp_noted, simp add: updated_once_def)
  apply (rule wp_asked, simp add: updated_once_def)
  apply (rule wp_checked, simp add: updated_once_def)
  apply (rule wp_checked, simp add: updated_once_def)
  apply (rule wp_checked, simp add: updated_once_def)
  apply (auto simp: updated_once_def settled_def answered_def guarded_service_def)
  done

subsection \<open>Promotions\<close>

definition gated :: "'x deploy_host \<Rightarrow> deployment_config \<Rightarrow> release_event list \<Rightarrow> bool" where
  "gated h cfg evs \<longleftrightarrow> quiet evs \<or>
    (\<exists>before img arn. quiet before \<and> cleared h cfg img arn before \<and> updated_once cfg arn before evs)"

lemma deploy_noted:
  fixes h :: "'a deploy_host"
  shows "wp (deploy_pilot (noting_host h) cfg)
    (\<lambda>r z. \<exists>before. quiet before \<and> cleared h cfg (dp_image r) (dp_task r) before \<and> updated_once cfg (dp_task r) before (snd z)
      \<and> settled h cfg (dp_task r) (snd z))
    (\<lambda>z. gated h cfg (snd z)) (x, [])"
  unfolding deploy_pilot_def wp_sbind
proof (rule wp_checked)
  show "gated h cfg (snd (x, []))" by (simp add: gated_def)
next
  let ?Q = "\<lambda>r (z :: 'a \<times> release_event list). \<exists>before. quiet before \<and> cleared h cfg (dp_image r) (dp_task r) before
    \<and> updated_once cfg (dp_task r) before (snd z) \<and> settled h cfg (dp_task r) (snd z)"
  let ?E = "\<lambda>z :: 'a \<times> release_event list. gated h cfg (snd z)"
  have finish: "wp (finish_promotion (noting_host h) cfg img arn) ?Q ?E (y, evs)"
    if "quiet evs" "cleared h cfg img arn evs" for img arn y evs
    by (rule wp_mono [OF finish_noted]) (use that in \<open>auto simp: gated_def\<close>)
  have prepare: "wp (prepare_task (noting_host h) cfg (uri @ ''@'' @ digest))
      (\<lambda>arn. wp (finish_promotion (noting_host h) cfg (uri @ ''@'' @ digest) arn) ?Q ?E) ?E z"
    if "quiet (snd z)" "published h cfg uri digest (snd z)" "answered h cfg (snd z) (scan_args cfg digest) clean_scan" for uri digest z
  proof -
    obtain y evs where z: "z = (y, evs)" by force
    show ?thesis unfolding z
    proof (rule wp_mono [OF prepare_noted])
      fix arn and w :: "'a \<times> release_event list"
      assume w: "quiet (snd w) \<and> registered h cfg (uri @ ''@'' @ digest) arn (snd w) \<and> set evs \<subseteq> set (snd w)"
      then have "cleared h cfg (uri @ ''@'' @ digest) arn (snd w)"
        using that published_grows answered_grows unfolding cleared_def z by (metis snd_conv)
      then show "wp (finish_promotion (noting_host h) cfg (uri @ ''@'' @ digest) arn) ?Q ?E w"
        using finish [of "snd w" "uri @ ''@'' @ digest" arn "fst w"] w by simp
    qed (use that in \<open>simp_all add: gated_def z\<close>)
  qed
  show "wp (publish_image (noting_host h) cfg) (\<lambda>a. wp (case a of (uri, digest) \<Rightarrow>
        sbind (await_scan (noting_host h) cfg digest (nat (dc_poll_attempts cfg))) (\<lambda>_.
        sbind (prepare_task (noting_host h) cfg (uri @ ''@'' @ digest)) (\<lambda>arn.
        finish_promotion (noting_host h) cfg (uri @ ''@'' @ digest) arn))) ?Q ?E) ?E (x, [])" for a :: unit
  proof (rule wp_mono [OF publish_noted])
    fix r and z :: "'a \<times> release_event list"
    assume r: "quiet (snd z) \<and> published h cfg (fst r) (snd r) (snd z)"
    obtain y evs where z: "z = (y, evs)" by force
    obtain uri digest where rd: "r = (uri, digest)" by force
    show "wp (case r of (uri, digest) \<Rightarrow>
        sbind (await_scan (noting_host h) cfg digest (nat (dc_poll_attempts cfg))) (\<lambda>_.
        sbind (prepare_task (noting_host h) cfg (uri @ ''@'' @ digest)) (\<lambda>arn.
        finish_promotion (noting_host h) cfg (uri @ ''@'' @ digest) arn))) ?Q ?E z"
      unfolding rd z prod.case wp_sbind
    proof (rule wp_mono [OF await_noted])
      show "quiet evs" "published h cfg uri digest evs" using r by (simp_all add: rd z)
    next
      fix w :: "'a \<times> release_event list" and u :: unit
      assume "quiet (snd w) \<and> published h cfg uri digest (snd w) \<and> answered h cfg (snd w) (scan_args cfg digest) clean_scan"
      then show "wp (prepare_task (noting_host h) cfg (uri @ ''@'' @ digest))
          (\<lambda>arn. wp (finish_promotion (noting_host h) cfg (uri @ ''@'' @ digest) arn) ?Q ?E) ?E w"
        by (intro prepare) simp_all
    qed (simp add: gated_def)
  qed (simp_all add: gated_def)
qed

lemma one_update:
  assumes "quiet before" "quiet after" "before @ Ran u a # after = pre @ Ran cmd b # post" "is_update cmd"
  shows "pre = before \<and> cmd = u \<and> post = after"
proof -
  have "Ran cmd b \<notin> set before" "Ran cmd b \<notin> set after" using assms(1,2,4) by (auto simp: quiet_def)
  then show ?thesis using assms(3) by (auto simp: append_eq_append_conv2 append_eq_Cons_conv Cons_eq_append_conv)
qed

text \<open>
  C20. Promotions are gated. Whatever the release commands answer, a service is updated at most once, and before that the
  account was checked, the registry keeps tags immutable and scans on push, the tag was new, the image was built and pushed,
  the scan of the very digest pushed was complete without a critical, high or undefined finding, the service rolls back by
  itself, and the task the update names was registered from a definition whose one target container has the image pinned
  by that digest. A deployment that reports success has done so for its image and its task, and the service it found
  afterwards runs that task, healthy and rolled out.
\<close>

theorem promotions_are_gated:
  assumes "deploy_pilot (noting_host h) cfg (x, []) = (res, (y, evs))"
  shows "(\<forall>pre cmd a post. evs = pre @ Ran cmd a # post \<and> is_update cmd \<longrightarrow>
      quiet pre \<and> quiet post \<and> (\<exists>img arn. cmd = update_command cfg arn \<and> cleared h cfg img arn pre))
    \<and> (\<forall>r. res = Inr r \<longrightarrow> settled h cfg (dp_task r) evs
      \<and> (\<exists>pre a post. evs = pre @ Ran (update_command cfg (dp_task r)) a # post \<and> cleared h cfg (dp_image r) (dp_task r) pre))"
proof -
  have post: "case res of Inl e \<Rightarrow> gated h cfg evs
    | Inr r \<Rightarrow> \<exists>before. quiet before \<and> cleared h cfg (dp_image r) (dp_task r) before \<and> updated_once cfg (dp_task r) before evs
        \<and> settled h cfg (dp_task r) evs"
    using wpD [OF deploy_noted assms] by (cases res) simp_all
  then have "gated h cfg evs" by (auto simp: gated_def split: sum.splits)
  then have "\<forall>pre cmd a post. evs = pre @ Ran cmd a # post \<and> is_update cmd \<longrightarrow>
      quiet pre \<and> quiet post \<and> (\<exists>img arn. cmd = update_command cfg arn \<and> cleared h cfg img arn pre)"
    unfolding gated_def updated_once_def using one_update by (metis quiet_Cons(1) quiet_append)
  moreover have "settled h cfg (dp_task r) evs
      \<and> (\<exists>pre a post. evs = pre @ Ran (update_command cfg (dp_task r)) a # post \<and> cleared h cfg (dp_image r) (dp_task r) pre)"
    if "res = Inr r" for r
    using post that unfolding updated_once_def by auto
  ultimately show ?thesis by blast
qed

subsection \<open>A promotion\<close>

definition pilot_deployment :: deployment_config where
  "pilot_deployment =
    \<lparr>dc_region = ''eu-west-1'', dc_cluster = ''pilot'', dc_service = ''factory'', dc_repository = ''factory'', dc_image_tag = ''v2'',
     dc_context = ''.'', dc_container_cli = ''docker'', dc_container_name = ''app'', dc_account_id = ''111'',
     dc_turn_limit = Some (Turns 4), dc_poll_attempts = 3, dc_poll_seconds = 1\<rparr>"

definition pushed_sha :: string where
  "pushed_sha = ''sha256:'' @ replicate 64 (CHR ''a'')"

definition pilot_service :: "string \<Rightarrow> json" where
  "pilot_service arn = JObj [(''services'', JArr [JObj [(''status'', JStr ''ACTIVE''), (''taskDefinition'', JStr arn),
    (''desiredCount'', JInt 1), (''runningCount'', JInt 1), (''pendingCount'', JInt 0),
    (''deploymentConfiguration'', JObj [(''deploymentCircuitBreaker'', JObj [(''enable'', JBool True), (''rollback'', JBool True)])]),
    (''deployments'', JArr [JObj [(''status'', JStr ''PRIMARY''), (''rolloutState'', JStr ''COMPLETED'')]])]])]"

definition pilot_documents :: "(string \<times> json) list" where
  "pilot_documents =
    [(''identity'', JObj [(''Account'', JStr ''111''), (''Arn'', JStr ''arn:aws:iam::111:user/ci'')]),
     (''repository'', JObj [(''repositories'', JArr [JObj [(''imageTagMutability'', JStr ''IMMUTABLE''),
        (''imageScanningConfiguration'', JObj [(''scanOnPush'', JBool True)]),
        (''repositoryUri'', JStr ''111.dkr.ecr.eu-west-1.amazonaws.com/factory'')]])]),
     (''tags'', JObj [(''imageIds'', JArr [JObj [(''imageTag'', JStr ''v1'')]])]),
     (''pushed'', JObj [(''imageDetails'', JArr [JObj [(''imageDigest'', JStr pushed_sha)]])]),
     (''scanning'', JObj [(''imageScanStatus'', JObj [(''status'', JStr ''PENDING'')])]),
     (''scan'', JObj [(''imageScanStatus'', JObj [(''status'', JStr ''COMPLETE'')]), (''imageScanFindings'', JObj
        [(''findings'', JArr [JObj [(''severity'', JStr ''LOW'')]]), (''findingSeverityCounts'', JObj [(''LOW'', JInt 1)])])]),
     (''before'', pilot_service ''task:1''), (''after'', pilot_service ''task:2''),
     (''task'', JObj [(''taskDefinition'', JObj [(''family'', JStr ''factory''), (''revision'', JInt 1), (''containerDefinitions'', JArr
        [JObj [(''name'', JStr ''app''), (''image'', JStr ''old''), (''environment'', JArr
          [JObj [(''name'', JStr ''FACTORY_CHAT_MODEL_TURN_LIMIT''), (''value'', JStr ''2'')]])]])])]),
     (''registered'', JObj [(''taskDefinition'', JObj [(''taskDefinitionArn'', JStr ''task:2'')])])]"

text \<open>The world: how often the scan was asked for, and whether the service was updated.\<close>

definition pilot_answer :: "string list \<Rightarrow> nat \<times> bool \<Rightarrow> string" where
  "pilot_answer cmd x =
    (let op = take 2 (tl cmd) in
     if op = [''sts'', ''get-caller-identity''] then ''identity''
     else if op = [''ecr'', ''describe-repositories''] then ''repository''
     else if op = [''ecr'', ''list-images''] then ''tags''
     else if op = [''ecr'', ''describe-images''] then ''pushed''
     else if op = [''ecr'', ''describe-image-scan-findings''] then (if fst x = 0 then ''scanning'' else ''scan'')
     else if op = [''ecs'', ''describe-services''] then (if snd x then ''after'' else ''before'')
     else if op = [''ecs'', ''describe-task-definition''] then ''task''
     else if op = [''ecs'', ''register-task-definition''] then ''registered'' else ''done'')"

definition pilot_host :: "(nat \<times> bool) deploy_host" where
  "pilot_host =
    \<lparr>dh_run = (\<lambda>cmd inp x. (Inr (pilot_answer cmd x),
        (fst x + (if take 2 (tl cmd) = [''ecr'', ''describe-image-scan-findings''] then 1 else 0), snd x \<or> is_update cmd))),
     dh_loads = map_of pilot_documents, dh_sleep = (\<lambda>n x. x), dh_write = (\<lambda>v x. (''file:///tmp/task.json'', x)),
     dh_unlink = (\<lambda>uri x. x), dh_resolve = (\<lambda>p. p), dh_file = (\<lambda>p. True)\<rparr>"

definition pilot_result :: deployment_result where
  "pilot_result = \<lparr>dp_image = ''111.dkr.ecr.eu-west-1.amazonaws.com/factory@'' @ pushed_sha, dp_task = ''task:2''\<rparr>"

lemma pilot_runs: "fst (deploy_pilot (noting_host pilot_host) pilot_deployment ((0, False), [])) = Inr pilot_result"
  by code_simp

theorem promotions_are_gated_witness:
  "\<exists>x evs pre a post. deploy_pilot (noting_host pilot_host) pilot_deployment ((0, False), []) = (Inr pilot_result, (x, evs))
    \<and> evs = pre @ Ran (update_command pilot_deployment ''task:2'') a # post
    \<and> cleared pilot_host pilot_deployment (dp_image pilot_result) ''task:2'' pre \<and> settled pilot_host pilot_deployment ''task:2'' evs"
proof -
  obtain x evs where run: "deploy_pilot (noting_host pilot_host) pilot_deployment ((0, False), []) = (Inr pilot_result, (x, evs))"
    using pilot_runs by (metis fst_conv surj_pair)
  show ?thesis
    using promotions_are_gated [OF run] run by (auto simp: pilot_result_def)
qed

end
