(* ===== verification/Spec2Isabelle.thy ===== *)
theory Spec2Isabelle
  imports Review_Properties Review_Service_Properties Review_Inspection States Report_Properties Model_Qualification Cli
    Authorization Baseline Workflow_Properties Workflow_Codec Discussion_Properties Impact_Properties Release_Properties
    Capture_Properties Access_Properties Github_Properties Alm_Properties Provider_Properties Reader_Properties
    Login_Properties Runtime_Properties Deploy_Properties
begin

text \<open>
  \<^bold>\<open>A verification development for nokinc-factory\<close>

  The program governs software that agents write. Models review artifacts under a bounded protocol (ARP-1) with a durable
  ledger, test evidence must show red before green, work items move through a lifecycle with human gates, consequential
  actions need authorizations bound to one exact decision, a chat service lets people talk to bounded and
  grounded model discussions, and releases are signed, verified and promoted. The theories model the sources under
  \<^verbatim>\<open>src/src/nokinc_factory\<close> and \<^verbatim>\<open>src/scripts/deploy_pilot.py\<close>; file names below are relative to the former.

  \<^bold>\<open>Conventions.\<close> A class with data is a \<^theory_text>\<open>record\<close>, an enumeration or a union a \<^theory_text>\<open>datatype\<close>, an exception a value on the left
  of a sum (\<open>ebind\<close>, \<open>require_all\<close>, in \<open>Prelude\<close>); a dictionary is an association list in insertion order. An operation with
  effects takes a world to a result or an error and to the world that is left, so that effects before an error stay
  (\<open>Effects\<close>; \<open>orch\<close> in \<open>Review_Orchestrator\<close>). Integers of Python are unbounded; database columns carry their range where they are written.
  Strings are lists of characters, so code points up to 255. Names follow the source, with a prefix or another
  spelling where Isabelle has the name already.

  \<^bold>\<open>Foundations.\<close> \<open>Prelude\<close>: errors, \<open>fromkeys\<close>, dictionaries, digits, and transition systems with their locales (\<open>safety\<close> for an invariant,
  \<open>bounded\<close> for one with a rank). \<open>Json\<close>: values and canonical printing, with its injectivity up to the order of keys. \<open>Sha256\<close>: UTF-8, SHA-256,
  HMAC and SHA-1, computed. \<open>Py_Text\<close>, \<open>Py_Url\<close>, \<open>Py_Time\<close>: what the sources use of Python's text, URL, base64, regular expression and date
  libraries. \<open>Effects\<close>: computations with effects, their weakest preconditions \<open>wp\<close>, and tenant-scoped tables.

  \<^bold>\<open>The review protocol\<close> (\<^verbatim>\<open>domain/review*.py\<close>, \<^verbatim>\<open>policy/review*.py\<close>). \<open>Review_Base\<close>, \<open>Review_Model\<close>, \<open>Review_Report\<close> and \<open>Review_Session\<close> hold the
  content-addressed records with their validators; the locale \<open>content_addressed\<close> says what sealing gives, and each
  class interprets it. \<open>Review_Rules\<close>, \<open>Review_Findings\<close> and \<open>Review_Reducer\<close> are the reducers \<open>reserve\<close> and \<open>complete\<close> with every check; \<open>review_step\<close>
  is the ledger as a transition system, \<open>review_inv\<close> its invariant and \<open>review_rank\<close> its rank. \<open>Review_Policy\<close> is the public policy on sessions,
  which validates by replay; \<open>Review_Valid\<close> shows that the reducers keep states valid; \<open>Review_Persistence\<close> is the durable-extension check;
  \<open>Review_Inspection\<close> the redacted views. \<open>Review_Example\<close> is a run on which the witnesses rest, and \<open>Review_Properties\<close> has C2 to C7, C11 and C14
  to C16; its part on time and failures (\<open>timely\<close>) is the invariant behind the time and failure limits of C3.

  \<^bold>\<open>The durable review service\<close> (\<^verbatim>\<open>adapters/postgres_review_*.py\<close>, \<^verbatim>\<open>application/review.py\<close>). \<open>Review_Store\<close> models tables, row-level security,
  provisioning and the conditional commit; \<open>Review_Store_Inv\<close> the invariant of every reachable database (\<open>store_inv\<close>: keys, budgets, ledger, accounts)
  and the abstract store it refines, a map from units to sessions. \<open>Review_Orchestrator\<close> is the coordinator over any environment; the locale
  \<open>dispatch_env\<close> states what it needs of one. \<open>Review_Service\<close> puts it on the store and characterizes when a settlement commits. \<open>Review_Fleet\<close> interleaves
  any number of coordinators: each is stopped at every load, commit and execution, other steps happen in between, so a commit can be
  tried on a stale session and lose. C25, C26, C28 and C29 are in \<open>Review_Service_Properties\<close>.

  \<^bold>\<open>Gates and evidence.\<close> \<open>States\<close>: the lifecycle table and its human gates (C17). \<open>Authorization\<close>: decisions, approvals and two-person
  control (C21). \<open>Baseline\<close>: red then green on one frozen suite (C24). \<open>Impact\<close>, \<open>Impact_Properties\<close>: which evidence a diff invalidates (C19).
  \<open>Preflight\<close>, \<open>Candidate_Capture\<close>, \<open>Capture_Properties\<close>: task context and the candidate captured twice (C8). \<open>Maestro\<close>, \<open>Maestro_Report\<close>,
  \<open>Report_Properties\<close>: the mobile gate and its JUnit reports (C10). \<open>Toolchain\<close>: declared gates and their bounded execution. \<open>Local_Evidence\<close>:
  evidence on disk. \<open>Model_Qualification\<close>: qualification runs. \<open>Story\<close>: the payloads of the human gates.

  \<^bold>\<open>Work items on GitHub\<close> (\<^verbatim>\<open>adapters/github_*.py\<close>). \<open>Github_Transport\<close>: origin-bound requests with at most three redirects (C9, in \<open>Github_Properties\<close>).
  \<open>Github_Issues\<close>: the label lifecycle and the work item port; \<open>Alm_Properties\<close> shows that labels follow the table (C13, C18). \<open>Github_App\<close>: the
  broker of installation tokens. \<open>Repository_Reader\<close>, \<open>Reader_Properties\<close>: source contexts bound to blob names (C23).

  \<^bold>\<open>The chat service\<close> (\<^verbatim>\<open>application/service.py\<close>, \<^verbatim>\<open>adapters/postgres_workflow_store.py\<close>). \<open>Workflow_Model\<close>: items, traces, events. \<open>Workflow_Memory\<close>: the contract of
  a workflow store (a locale) and the local store. \<open>Workflow_Store\<close>, \<open>Workflow_Store_Inv\<close>: the PostgreSQL store, its invariant and its
  refinement of the local one (C33); \<open>Workflow_Delivery\<close>: outbox and inbox (C36); \<open>Workflow_Codec\<close>: a codec that meets the round-trip hypothesis.
  \<open>Chat_Roles\<close>, \<open>Workflow_Service\<close>: routing and all handlers; \<open>Workflow_Service_Inv\<close>: their effects, proved over the contract. C34, C35 and C37 to C39 are in
  \<open>Workflow_Properties\<close>. \<open>Access_Tokens\<close>, \<open>Access_Properties\<close> (C31): bearer tokens and OIDC. \<open>Browser_Login\<close>, \<open>Login_Properties\<close> (C27): sign-in with PKCE.
  \<open>Discussion_Agents\<close>, \<open>Grounded_Discussion\<close>, \<open>Discussion_Inv\<close>, \<open>Discussion_Properties\<close> (C40): the two agents. \<open>Model_Providers\<close>, \<open>Provider_Properties\<close> (C22): the
  model adapters. \<open>Model_Pricing\<close> (C32): decimal price estimates. \<open>Runtime_Config\<close>, \<open>Runtime\<close>, \<open>Runtime_Properties\<close> (C12): start-up. \<open>Cli\<close>: commands and read-only tools.

  \<^bold>\<open>Releases.\<close> \<open>Release\<close>, \<open>Release_Properties\<close>: signed bundles and bindings; C30 reduces a wrong promotion to a forged signature. \<open>Deploy\<close>,
  \<open>Deploy_Properties\<close>: the pilot deployment, whose only update follows a clean scan of the digest pushed (C20).

  \<^bold>\<open>How the parts interact.\<close> Theories import what their sources call: the coordinator calls the policy and the store, the policy replays
  through the reducers; handlers call the workflow store through its contract, tokens and logins through verifier ports, agents through
  ports that may fail in any way; start-up builds all of them. Where a client relies on a contract, the contract is a locale and the
  model of the provider interprets it: \<open>content_addressed\<close>, \<open>safety\<close>, \<open>bounded\<close>, \<open>dispatch_env\<close>, the contracts of workflow stores, \<open>call_log\<close>.

  \<^bold>\<open>Atomic steps.\<close> A database transaction is one step, and an exception leaves it without effect. Two transactions on one work item, one trace or
  one tenant's turn budget are serialized in the source by row and advisory locks. Store-level theorems (C25, C26, C33 to C36) cover every order of
  transactions, and C29 every interleaving of coordinators at their shared operations. Chat handlers run one request at a time in
  C37 to C39: interleavings inside a request are covered only as far as the store-level theorems go.

  \<^bold>\<open>Parameters and hypotheses.\<close> Code outside the sources is an argument of the model: HTTP openers and \<^verbatim>\<open>urljoin\<close>, the JSON, YAML and
  XML readers, Pydantic's reading and writing of whole documents, its parsing of URLs and times, JWT verification, Ed25519, AWS clients, processes, the file
  system, clocks, timers with their floating point, random tokens and identifiers. Theorems quantify over them; named hypotheses are that
  written documents read back (\<open>round_trips\<close>, \<open>parent_round_trips\<close>, \<open>documents_round_trip\<close>), that a signature made verifies (C30), and that label operations do what
  their documentation says (C13). Every one has an instance in a witness.

  \<^bold>\<open>Bounds and fuel.\<close> Loops with a fixed bound carry it: review rounds (\<open>review_rounds\<close>), three redirects, 64 coordinator steps, 90 scan polls by default. Matching of
  regular expressions takes the text's length as fuel, enough because every repetition consumes a character. Decimal arithmetic rounds to 28
  digits as the default context does. Sizes of documents are measured on their UTF-8 bytes.

  \<^bold>\<open>Known limits.\<close> Text beyond code point 255 is not modelled, and floats are read as a value that no check accepts. \<open>pg_get\<close> and its
  siblings ignore that the database driver refuses a NUL character in a path parameter, which ends the request in a server error. Exceptions carry their
  messages only where code or caller looks at them.

  \<^bold>\<open>Not modelled.\<close> The subprocess runner of Git with its temporary index and directory handles, the repository intelligence client, the test
  recorder inside \<^verbatim>\<open>pytest\<close>, the deterministic fake model port, the construction of library agents, the DDL text of the schemas, the static page, argument parsers and process
  entry points, and the probe and qualification scripts: input and output, or configuration of libraries, without rules of the program's own
  beyond the modelled callers.
\<close>

end
